(* ===== verification/Prelude.thy ===== *)
theory Prelude
  imports Main "HOL-Library.Word" "HOL-Library.AList" "HOL-Library.Multiset"
begin

text \<open>
  What the Go language and its standard library contribute to the program, and the
  generic lemmas the component theories share:
  \<^item> \<open>int64\<close> is \<open>64 word\<close>: \<open>+\<close> and \<open>-\<close> wrap, \<open><s\<close> and \<open>\<le>s\<close> are Go's signed comparisons;
  \<^item> a Go \<open>map[string]T\<close> is an association list with distinct keys; \<open>map_of\<close> reads it,
    \<open>AList.update\<close> is \<open>m[k] = v\<close> and \<open>AList.delete\<close> is \<open>delete(m, k)\<close>. A \<open>range\<close> loop
    visits the entries in list order, and \<open>reorder\<close> puts a map into the order in which one
    particular \<open>range\<close> loop delivers it (Go leaves that order open, so it is a parameter);
    a nil map is the empty one, which reads the same;
  \<^item> \<open>sort.Slice\<close> is the insertion sort that Go runs on short slices (at most 12 elements);
  \<^item> an error result is a \<^typ>\<open>'e option\<close> (\<open>None\<close> is \<open>nil\<close>), and a function that can
    panic returns an option whose \<open>None\<close> is the panic.
\<close>

named_theorems go_map_simps \<open>reading a Go map after a write\<close>
named_theorems total_simps \<open>sums over the values of a Go map after a write\<close>

section \<open>Signed 64-bit integers\<close>

type_synonym int64 = "64 word"

lemma sint64_lower: "- (2 ^ 63) \<le> sint (a :: int64)"
  using sint_ge [of a] by simp

lemma sint64_upper: "sint (a :: int64) < 2 ^ 63"
  using sint_lt [of a] by simp

lemma sint64_add:
  fixes a b :: int64
  assumes "- (2 ^ 63) \<le> sint a + sint b" and "sint a + sint b < 2 ^ 63"
  shows "sint (a + b) = sint a + sint b"
  using assms by (simp add: sint_word_ariths signed_take_bit_int_eq_self)

lemma sint64_diff:
  fixes a b :: int64
  assumes "- (2 ^ 63) \<le> sint a - sint b" and "sint a - sint b < 2 ^ 63"
  shows "sint (a - b) = sint a - sint b"
  using assms by (simp add: sint_word_ariths signed_take_bit_int_eq_self)

lemma sint64_add_nonneg:
  fixes a b :: int64
  assumes "0 \<le>s a" and "0 \<le>s b" and "sint a + sint b < 2 ^ 63"
  shows "sint (a + b) = sint a + sint b"
  using assms by (intro sint64_add) (auto simp: word_sle_eq)

lemma sint64_diff_nonneg:
  fixes a b :: int64
  assumes "0 \<le>s a" and "0 \<le>s b"
  shows "sint (a - b) = sint a - sint b"
proof -
  from assms have "0 \<le> sint a" and "0 \<le> sint b"
    by (simp_all add: word_sle_eq)
  with sint64_upper [of a] sint64_upper [of b] show ?thesis
    by (intro sint64_diff) linarith+
qed

text \<open>The guard \<open>free < size\<close> on a pool with no negative quantity is exact, and what it lets
  through does not overflow.\<close>

lemma free_guard:
  fixes cap req sz :: int64
  assumes "0 \<le>s cap" and "0 \<le>s req" and "\<not> cap - req <s sz"
  shows "sint req + sint sz \<le> sint cap"
  using assms sint64_diff_nonneg [of cap req] by (simp add: word_sless_alt)

lemma free_guard_keeps_bound:
  fixes cap req sz :: int64
  assumes "0 \<le>s cap" and "0 \<le>s req" and "0 \<le>s sz" and "\<not> cap - req <s sz"
  shows "sint (req + sz) = sint req + sint sz" and "0 \<le>s req + sz" and "req + sz \<le>s cap"
proof -
  have le: "sint req + sint sz \<le> sint cap"
    using assms(1,2,4) by (rule free_guard)
  with sint64_upper [of cap] assms(2,3) show eq: "sint (req + sz) = sint req + sint sz"
    by (intro sint64_add_nonneg) auto
  with le assms(2,3) show "0 \<le>s req + sz" and "req + sz \<le>s cap"
    by (simp_all add: word_sle_eq)
qed

section \<open>Go maps\<close>

type_synonym 'v gomap = "(string \<times> 'v) list"

text \<open>A lookup stays a lookup: the two library rules below would turn it into membership.\<close>

declare map_of_eq_Some_iff [simp del] Some_eq_map_of_iff [simp del]

abbreviation wf_map :: "'v gomap \<Rightarrow> bool" where
  "wf_map m \<equiv> distinct (map fst m)"

lemma map_of_update [go_map_simps]:
  "map_of (AList.update k v m) j = (if j = k then Some v else map_of m j)"
  by (simp add: update_conv')

lemma map_of_del [go_map_simps]:
  "map_of (AList.delete k m) j = (if j = k then None else map_of m j)"
  by (simp add: delete_conv')

lemma wf_map_update [simp]: "wf_map m \<Longrightarrow> wf_map (AList.update k v m)"
  by (rule distinct_update)

lemma wf_map_delete [simp]: "wf_map m \<Longrightarrow> wf_map (AList.delete k m)"
  by (rule distinct_delete)

lemma map_fst_update:
  "map fst (AList.update k v m) =
     (if k \<in> set (map fst m) then map fst m else map fst m @ [k])"
  by (induction m) auto

lemma in_set_update:
  assumes "wf_map m"
  shows "(j, w) \<in> set (AList.update k v m) \<longleftrightarrow> (if j = k then w = v else (j, w) \<in> set m)"
  using map_of_eq_Some_iff [of "AList.update k v m" j w] map_of_eq_Some_iff [of m j w] assms
  by (auto simp: go_map_simps split: if_splits)

text \<open>The order in which one \<open>range\<close> loop delivers the keys: any order of the same keys.\<close>

type_synonym range_order = "string list \<Rightarrow> string list"

definition range_ok :: "range_order \<Rightarrow> bool" where
  "range_ok ord \<longleftrightarrow> (\<forall>ks. mset (ord ks) = mset ks)"

definition reorder :: "range_order \<Rightarrow> 'v gomap \<Rightarrow> 'v gomap" where
  "reorder ord m = map (\<lambda>k. (k, the (map_of m k))) (ord (map fst m))"

lemma map_fst_reorder [simp]: "map fst (reorder ord m) = ord (map fst m)"
  by (simp add: reorder_def comp_def)

lemma range_ok_set: "range_ok ord \<Longrightarrow> set (ord ks) = set ks"
  by (metis range_ok_def set_mset_mset)

lemma range_ok_distinct: "range_ok ord \<Longrightarrow> distinct (ord ks) \<longleftrightarrow> distinct ks"
  by (metis mset_eq_imp_distinct_iff range_ok_def)

lemma wf_map_reorder [simp]: "range_ok ord \<Longrightarrow> wf_map m \<Longrightarrow> wf_map (reorder ord m)"
  by (simp add: range_ok_distinct)

lemma map_of_reorder [simp]:
  assumes "range_ok ord"
  shows "map_of (reorder ord m) = map_of m"
proof
  fix k
  have "map_of (reorder ord m) k =
      (if k \<in> set (ord (map fst m)) then Some (the (map_of m k)) else None)"
    unfolding reorder_def by (induction "ord (map fst m)") (auto simp: map_of_map_keys map_of_map_restrict)
  also have "\<dots> = map_of m k"
    using range_ok_set [OF assms, of "map fst m"]
    by (cases "map_of m k") (simp_all add: domI domIff flip: dom_map_of_conv_image_fst)
  finally show "map_of (reorder ord m) k = map_of m k" .
qed

lemma reorder_Nil [simp]: "range_ok ord \<Longrightarrow> reorder ord m = [] \<longleftrightarrow> m = []"
  by (metis map_fst_reorder map_is_Nil_conv mset_zero_iff range_ok_def)

lemma range_ok_id [simp]: "range_ok (\<lambda>ks. ks)"
  by (simp add: range_ok_def)

subsection \<open>Sums over the values of a map\<close>

definition map_total :: "('v \<Rightarrow> int64) \<Rightarrow> 'v gomap \<Rightarrow> int64" where
  "map_total w m = (\<Sum>(k, v) \<leftarrow> m. w v)"

definition entry :: "('v \<Rightarrow> int64) \<Rightarrow> 'v gomap \<Rightarrow> string \<Rightarrow> int64" where
  "entry w m k = (case map_of m k of None \<Rightarrow> 0 | Some v \<Rightarrow> w v)"

lemma map_total_Nil [simp]: "map_total w [] = 0"
  by (simp add: map_total_def)

lemma map_total_Cons [simp]: "map_total w ((k, v) # m) = w v + map_total w m"
  by (simp add: map_total_def)

lemma map_total_update [total_simps]:
  "wf_map m \<Longrightarrow> map_total w (AList.update k v m) = map_total w m - entry w m k + w v"
  by (induction m) (auto simp: entry_def)

lemma map_total_delete [total_simps]:
  "wf_map m \<Longrightarrow> map_total w (AList.delete k m) = map_total w m - entry w m k"
proof (induction m)
  case (Cons p m)
  obtain j v where p: "p = (j, v)" by (cases p)
  show ?case
  proof (cases "j = k")
    case True
    with Cons.prems p have "k \<notin> fst ` set m" by simp
    with True p show ?thesis
      by (simp add: entry_def)
  next
    case False
    with Cons p show ?thesis
      by (simp add: entry_def)
  qed
qed (simp add: entry_def)

lemma map_total_zero: "(\<And>k v. (k, v) \<in> set m \<Longrightarrow> w v = 0) \<Longrightarrow> map_total w m = 0"
proof (induction m)
  case (Cons p m)
  then show ?case by (cases p) fastforce
qed simp

section \<open>sort.Slice\<close>

fun insert_less :: "('a \<Rightarrow> 'a \<Rightarrow> bool) \<Rightarrow> 'a \<Rightarrow> 'a list \<Rightarrow> 'a list" where
  "insert_less lt x [] = [x]"
| "insert_less lt x (y # ys) = (if lt x y then x # y # ys else y # insert_less lt x ys)"

definition sort_Slice :: "('a \<Rightarrow> 'a \<Rightarrow> bool) \<Rightarrow> 'a list \<Rightarrow> 'a list" where
  "sort_Slice lt xs = fold (insert_less lt) xs []"

lemma mset_insert_less [simp]: "mset (insert_less lt x ys) = add_mset x (mset ys)"
  by (induction ys) auto

lemma mset_fold_insert_less: "mset (fold (insert_less lt) xs acc) = mset xs + mset acc"
  by (induction xs arbitrary: acc) auto

lemma mset_sort_Slice [simp]: "mset (sort_Slice lt xs) = mset xs"
  by (simp add: sort_Slice_def mset_fold_insert_less)

lemma set_sort_Slice [simp]: "set (sort_Slice lt xs) = set xs"
  by (metis mset_sort_Slice set_mset_mset)

lemma length_sort_Slice [simp]: "length (sort_Slice lt xs) = length xs"
  by (metis mset_sort_Slice size_mset)

lemma distinct_sort_Slice [simp]: "distinct (sort_Slice lt xs) \<longleftrightarrow> distinct xs"
  by (metis mset_eq_imp_distinct_iff mset_sort_Slice)

text \<open>What \<open>sort.Slice\<close> needs of its less function: a strict weak order.\<close>

locale go_less =
  fixes lt :: "'a \<Rightarrow> 'a \<Rightarrow> bool"
  assumes less_asym: "lt a b \<Longrightarrow> \<not> lt b a"
    and not_less_trans: "\<not> lt b a \<Longrightarrow> \<not> lt c b \<Longrightarrow> \<not> lt c a"
begin

lemma insert_less_sorted:
  "sorted_wrt (\<lambda>a b. \<not> lt b a) ys \<Longrightarrow> sorted_wrt (\<lambda>a b. \<not> lt b a) (insert_less lt x ys)"
proof (induction ys)
  case (Cons y ys)
  have *: "set (insert_less lt x ys) = insert x (set ys)"
    by (metis mset_insert_less set_mset_add_mset_insert set_mset_mset)
  show ?case
  proof (cases "lt x y")
    case True
    have tail: "\<not> lt z x" if "z \<in> set ys" for z
      using that Cons.prems not_less_trans [OF less_asym [OF True], of z] by auto
    from True Cons.prems less_asym [OF True] tail show ?thesis
      by simp
  next
    case False
    with Cons show ?thesis by (simp add: *)
  qed
qed simp

lemma fold_insert_less_sorted:
  "sorted_wrt (\<lambda>a b. \<not> lt b a) acc \<Longrightarrow>
     sorted_wrt (\<lambda>a b. \<not> lt b a) (fold (insert_less lt) xs acc)"
  by (induction xs arbitrary: acc) (simp_all add: insert_less_sorted)

lemma sort_Slice_sorted: "sorted_wrt (\<lambda>a b. \<not> lt b a) (sort_Slice lt xs)"
  unfolding sort_Slice_def by (rule fold_insert_less_sorted) simp

lemma sort_Slice_first_least:
  assumes "sort_Slice lt xs = y # ys" and "x \<in> set xs"
  shows "\<not> lt x y"
proof -
  from assms(2) have "x \<in> set (y # ys)"
    using set_sort_Slice [of lt xs] assms(1) by simp
  moreover have "sorted_wrt (\<lambda>a b. \<not> lt b a) (y # ys)"
    using sort_Slice_sorted [of xs] assms(1) by simp
  ultimately show ?thesis by (auto dest: less_asym)
qed

end

text \<open>Every less function of the program compares a signed key, upwards or downwards.\<close>

lemma go_less_key: "go_less (\<lambda>a b. (f a :: int64) <s f b)"
  by unfold_locales auto

lemma go_greater_key: "go_less (\<lambda>a b. (f b :: int64) <s f a)"
  by unfold_locales auto

section \<open>Strings\<close>

abbreviation is_empty_str :: "string \<Rightarrow> bool" where
  "is_empty_str s \<equiv> s = []"

text \<open>Reading a missing key of a \<open>map[string]string\<close> gives the empty string.\<close>

definition str_at :: "string gomap \<Rightarrow> string \<Rightarrow> string" where
  "str_at m k = (case map_of m k of None \<Rightarrow> [] | Some v \<Rightarrow> v)"

end
