(* ===== verification/Kube_Objects.thy ===== *)
theory Kube_Objects
  imports Prelude
begin

text \<open>
  The data the program works on: the Kubernetes objects with the fields the scheduler reads
  (\<open>PersistentVolumeClaim\<close>, \<open>PersistentVolume\<close>, \<open>Pod\<close>, \<open>StorageClass\<close>, snapshots), the
  \<open>NodeLocalStorage\<close> resource of \<open>pkg/apis/storage/v1alpha1/types.go\<close>, the constants and
  allocation records of \<open>pkg/types.go\<close>, and the error values of
  \<open>pkg/scheduler/errors/predicate.go\<close>. A \<open>resource.Quantity\<close> is the \<open>int64\<close> that its
  \<open>Value()\<close> returns. The services and third-party packages the code calls (listers, the
  snapshot client, \<open>resource.ParseQuantity\<close>, the JSON decoder on an annotation, the deep hash)
  are the fields of the record \<open>kube\<close>, a parameter of every function that uses one.
\<close>

section \<open>Errors\<close>

text \<open>
  \<open>Errorf\<close> is \<open>fmt.Errorf\<close>, kept as its format string and its arguments; the other
  constructors are the error types of \<open>pkg/scheduler/errors\<close>, whose values are
  \<open>PredicateError\<close>s. \<open>NotFound\<close> is what a lister returns for a missing object.
\<close>

datatype go_error =
    Errorf string "fmt_arg list"
  | NotFound string
  | NoSuchVGError string string
  | NoAvailableVGError string
  | InsufficientLVMError int64 int64 int64 string string
  | InsufficientDeviceCountError int64 int64 int64 string string
  | InsufficientMountPointCountError int64 int64 int64 string string
  | InsufficientExclusiveResourceError string int64 int64
  | SnapshotError string
and fmt_arg = S string | D int64 | E go_error

fun is_PredicateError :: "go_error \<Rightarrow> bool" where
  "is_PredicateError (Errorf _ _) = False"
| "is_PredicateError (NotFound _) = False"
| "is_PredicateError _ = True"

definition NewInsufficientLVMError ::
  "int64 \<Rightarrow> int64 \<Rightarrow> int64 \<Rightarrow> string \<Rightarrow> string \<Rightarrow> go_error" where
  "NewInsufficientLVMError requested used capacity vgName nodeName =
     InsufficientLVMError requested used capacity vgName nodeName"

definition NewInsufficientExclusiveResourceError ::
  "string \<Rightarrow> int64 \<Rightarrow> int64 \<Rightarrow> go_error" where
  "NewInsufficientExclusiveResourceError resource requested mx =
     InsufficientExclusiveResourceError resource requested mx"

definition NewNoSuchVGError :: "string \<Rightarrow> string \<Rightarrow> go_error" where
  "NewNoSuchVGError vgName nodeName = NoSuchVGError vgName nodeName"

definition NewNoAvailableVGError :: "string \<Rightarrow> go_error" where
  "NewNoAvailableVGError nodeName = NoAvailableVGError nodeName"

definition NewInsufficientDeviceCountError ::
  "int64 \<Rightarrow> int64 \<Rightarrow> int64 \<Rightarrow> string \<Rightarrow> string \<Rightarrow> go_error" where
  "NewInsufficientDeviceCountError requestedCount availableCount tot mediaType nodeName =
     InsufficientDeviceCountError requestedCount availableCount tot mediaType nodeName"

definition NewInsufficientMountPointCountError ::
  "int64 \<Rightarrow> int64 \<Rightarrow> int64 \<Rightarrow> string \<Rightarrow> string \<Rightarrow> go_error" where
  "NewInsufficientMountPointCountError requestedCount availableCount tot mediaType nodeName =
     InsufficientMountPointCountError requestedCount availableCount tot mediaType nodeName"

definition NewSnapshotError :: "string \<Rightarrow> go_error" where
  "NewSnapshotError resource = SnapshotError resource"

section \<open>Constants of pkg/types.go\<close>

type_synonym VolumeType = string
type_synonym MediaType = string
type_synonym StrategyType = string

abbreviation StrategyBinpack :: StrategyType where "StrategyBinpack \<equiv> ''binpack''"
abbreviation StrategySpread :: StrategyType where "StrategySpread \<equiv> ''spread''"

abbreviation ProvisionerNameYoda :: string where
  "ProvisionerNameYoda \<equiv> ''yodaplugin.csi.alibabacloud.com''"
abbreviation ProvisionerName :: string where "ProvisionerName \<equiv> ''local.csi.aliyun.com''"
abbreviation KubernetesNodeIdentityKey :: string where
  "KubernetesNodeIdentityKey \<equiv> ''kubernetes.io/hostname''"

abbreviation VolumeTypeKey :: string where "VolumeTypeKey \<equiv> ''volumeType''"
abbreviation key_VGName :: string where "key_VGName \<equiv> ''vgName''"
abbreviation key_DeviceName :: string where "key_DeviceName \<equiv> ''Device''"
abbreviation key_mediaType :: string where "key_mediaType \<equiv> ''mediaType''"
abbreviation ParamLVSize :: string where "ParamLVSize \<equiv> ''size''"
abbreviation ParamReadonly :: string where "ParamReadonly \<equiv> ''csi.aliyun.com/readonly''"

abbreviation VolumeTypeMountPoint :: VolumeType where "VolumeTypeMountPoint \<equiv> ''MountPoint''"
abbreviation VolumeTypeLVM :: VolumeType where "VolumeTypeLVM \<equiv> ''LVM''"
abbreviation VolumeTypeDevice :: VolumeType where "VolumeTypeDevice \<equiv> ''Device''"
abbreviation VolumeTypeQuota :: VolumeType where "VolumeTypeQuota \<equiv> ''Quota''"
abbreviation VolumeTypeUnknown :: VolumeType where "VolumeTypeUnknown \<equiv> ''Unknown''"
abbreviation MediaTypeSSD :: MediaType where "MediaTypeSSD \<equiv> ''ssd''"
abbreviation MediaTypeHDD :: MediaType where "MediaTypeHDD \<equiv> ''hdd''"

abbreviation AnnoSelectedNode :: string where
  "AnnoSelectedNode \<equiv> ''volume.kubernetes.io/selected-node''"
abbreviation AnnotationPodPVCAllocatedNeedMigrateKey :: string where
  "AnnotationPodPVCAllocatedNeedMigrateKey \<equiv> ''csi.aliyun.com/pod-pvc-migrate''"
abbreviation AnnotationPVAllocatedInfoKey :: string where
  "AnnotationPVAllocatedInfoKey \<equiv> ''csi.aliyun.com/pv-allocated''"

definition ValidProvisionerNames :: "string list" where
  "ValidProvisionerNames = [ProvisionerNameYoda, ProvisionerName]"

definition ValidVolumeType :: "VolumeType list" where
  "ValidVolumeType = [VolumeTypeMountPoint, VolumeTypeLVM, VolumeTypeDevice, VolumeTypeQuota]"

definition SupportedFS :: "string list" where
  "SupportedFS = [''ext3'', ''ext4'', ''xfs'']"

text \<open>Phases of claims, volumes and pods are strings of the Kubernetes API.\<close>

abbreviation ClaimBound :: string where "ClaimBound \<equiv> ''Bound''"
abbreviation ClaimPending :: string where "ClaimPending \<equiv> ''Pending''"
abbreviation VolumePending :: string where "VolumePending \<equiv> ''Pending''"
abbreviation VolumeBound :: string where "VolumeBound \<equiv> ''Bound''"
abbreviation PodPending :: string where "PodPending \<equiv> ''Pending''"
abbreviation PodRunning :: string where "PodRunning \<equiv> ''Running''"
abbreviation PodSucceeded :: string where "PodSucceeded \<equiv> ''Succeeded''"
abbreviation PodFailed :: string where "PodFailed \<equiv> ''Failed''"

section \<open>Kubernetes objects\<close>

record StorageClass =
  sc_Name :: string
  sc_Provisioner :: string
  sc_Parameters :: "string gomap"

record PersistentVolumeClaim =
  pvc_Namespace :: string
  pvc_Name :: string
  pvc_Annotations :: "string gomap"
  pvc_StorageClassName :: "string option"
  pvc_VolumeName :: string
  pvc_Requests :: "int64 option"
  pvc_Limits :: "int64 option"
  pvc_DataSource :: "(string \<times> string) option" \<comment> \<open>kind and name\<close>
  pvc_Phase :: string
  pvc_CreationTimestamp :: int

record NodeSelectorRequirement =
  ex_Key :: string
  ex_Operator :: string
  ex_Values :: "string list"

abbreviation NodeSelectorOpIn :: string where "NodeSelectorOpIn \<equiv> ''In''"

record CSISource =
  csi_Driver :: string
  csi_VolumeAttributes :: "string gomap"

record PersistentVolume =
  pv_Name :: string
  pv_Annotations :: "string gomap"
  pv_Capacity :: "int64 option"
  pv_CSI :: "CSISource option"
  pv_ClaimRef :: "(string \<times> string) option" \<comment> \<open>namespace and name\<close>
  pv_NodeAffinity :: "NodeSelectorRequirement list list option option"
    \<comment> \<open>\<open>Spec.NodeAffinity\<close>, its \<open>Required\<close>, the terms and their \<open>MatchExpressions\<close>\<close>
  pv_Phase :: string

record Volume =
  vol_Name :: string
  vol_CSI :: "CSISource option"
  vol_PVC :: "string option" \<comment> \<open>the claim's name\<close>
  vol_Ephemeral :: "string option option" \<comment> \<open>the storage class of the claim template\<close>

record Pod =
  pod_Namespace :: string
  pod_Name :: string
  pod_UID :: string
  pod_Annotations :: "string gomap"
  pod_NodeName :: string
  pod_Phase :: string
  pod_Volumes :: "Volume list"

record VolumeSnapshot =
  snap_Name :: string
  snap_ClassName :: "string option"
  snap_SourcePVC :: "string option"

record VolumeSnapshotClass =
  snapclass_Parameters :: "string gomap"

section \<open>The NodeLocalStorage resource\<close>

text \<open>\<open>uint64\<close> sizes are 64-bit words too; Go's conversion \<open>int64(x)\<close> keeps the bits.\<close>

record VolumeGroup =
  nvg_Name :: string
  nvg_Total :: int64
  nvg_Available :: int64
  nvg_Allocatable :: int64

record DeviceInfo =
  ndev_Name :: string
  ndev_MediaType :: string
  ndev_Total :: int64
  ndev_ReadOnly :: bool

record MountPoint =
  nmp_Name :: string
  nmp_Total :: int64
  nmp_FsType :: string
  nmp_Device :: string
  nmp_ReadOnly :: bool

record NodeStorageInfo =
  nsi_DeviceInfos :: "DeviceInfo list"
  nsi_VolumeGroups :: "VolumeGroup list"
  nsi_MountPoints :: "MountPoint list"
  nsi_State :: string

record FilteredStorageInfo =
  fsi_VolumeGroups :: "string list"
  fsi_MountPoints :: "string list"
  fsi_Devices :: "string list"
  fsi_UpdateStatus :: string

record NodeLocalStorageStatus =
  nls_NodeStorageInfo :: NodeStorageInfo
  nls_FilteredStorageInfo :: FilteredStorageInfo

record NodeLocalStorage =
  nls_Name :: string
  nls_SpdkDeviceType :: string \<comment> \<open>\<open>Spec.SpdkConfig.DeviceType\<close>\<close>
  nls_Status :: NodeLocalStorageStatus

section \<open>Allocation records of pkg/types.go\<close>

record PVAllocatedInfo =
  ai_VGName :: string
  ai_DeviceName :: string
  ai_VolumeType :: string

record PVCAllocateInfo =
  pai_PVCName :: string
  pai_PVCNameSpace :: string
  pai_PVAllocatedInfo :: PVAllocatedInfo

section \<open>What the code calls and does not contain\<close>

record kube =
  sc_get :: "string \<Rightarrow> StorageClass option" \<comment> \<open>\<open>scLister.Get\<close>\<close>
  pvc_get :: "string \<Rightarrow> string \<Rightarrow> PersistentVolumeClaim option" \<comment> \<open>namespace, name\<close>
  pv_get :: "string \<Rightarrow> PersistentVolume option"
  snap_lister :: "string \<Rightarrow> string \<Rightarrow> VolumeSnapshot option" \<comment> \<open>snapshot informer\<close>
  snapclass_lister :: "string \<Rightarrow> VolumeSnapshotClass option"
  snap_client :: "string \<Rightarrow> string \<Rightarrow> VolumeSnapshot option" \<comment> \<open>snapshot API client\<close>
  snapclass_client :: "string \<Rightarrow> VolumeSnapshotClass option"
  ParseQuantity :: "string \<Rightarrow> int64 option" \<comment> \<open>\<open>resource.ParseQuantity\<close>, then \<open>Value()\<close>\<close>
  UnmarshalPVInfo :: "string \<Rightarrow> PVAllocatedInfo option" \<comment> \<open>\<open>json.Unmarshal\<close>\<close>
  DeepHashStatus :: "NodeLocalStorageStatus \<Rightarrow> int64" \<comment> \<open>\<open>hashutil.DeepHashObject\<close>\<close>
  QuantityString :: "int64 \<Rightarrow> string" \<comment> \<open>\<open>NewQuantity(n, BinarySI).String()\<close>\<close>

section \<open>Functions of pkg/types.go\<close>

text \<open>\<open>(*PVAllocatedInfo, error)\<close>: \<open>Inl\<close> is the decoder's error, \<open>Inr None\<close> is \<open>nil, nil\<close>.\<close>

definition GetAllocatedInfoFromPVAnnotation ::
  "kube \<Rightarrow> PersistentVolume option \<Rightarrow> go_error + PVAllocatedInfo option" where
  "GetAllocatedInfoFromPVAnnotation K pvo =
     (case pvo of
        None \<Rightarrow> Inr None
      | Some pv \<Rightarrow>
          (case map_of (pv_Annotations pv) AnnotationPVAllocatedInfoKey of
             None \<Rightarrow> Inr None
           | Some infoJSON \<Rightarrow>
               (case UnmarshalPVInfo K infoJSON of
                  None \<Rightarrow> Inl (Errorf ''json'' [S infoJSON])
                | Some info \<Rightarrow> Inr (Some info))))"

definition GetAllocateInfoJSONFromPod :: "Pod option \<Rightarrow> string" where
  "GetAllocateInfoJSONFromPod podo =
     (case podo of
        None \<Rightarrow> []
      | Some pod \<Rightarrow> str_at (pod_Annotations pod) AnnotationPodPVCAllocatedNeedMigrateKey)"

fun volume_type_loop :: "string \<Rightarrow> VolumeType list \<Rightarrow> go_error + VolumeType" where
  "volume_type_loop s [] = Inl (Errorf ''invalid Local Volume type: %q, valid values are %s'' [S s])"
| "volume_type_loop s (v # vs) = (if v = s then Inr v else volume_type_loop s vs)"

definition VolumeTypeFromString :: "string \<Rightarrow> go_error + VolumeType" where
  "VolumeTypeFromString s = volume_type_loop s ValidVolumeType"

text \<open>\<open>NodeAntiAffinityWeight\<close> is a map from volume types to weights (\<open>int\<close>).\<close>

type_synonym NodeAntiAffinityWeight = "int64 gomap"

definition NewNodeAntiAffinityWeight :: NodeAntiAffinityWeight where
  "NewNodeAntiAffinityWeight = []"

definition weight_Put ::
  "NodeAntiAffinityWeight \<Rightarrow> VolumeType \<Rightarrow> int64 \<Rightarrow> NodeAntiAffinityWeight" where
  "weight_Put w volumeType weight = AList.update volumeType weight w"

definition weight_Get :: "NodeAntiAffinityWeight \<Rightarrow> VolumeType \<Rightarrow> int64" where
  "weight_Get w volumeType = (case map_of w volumeType of None \<Rightarrow> 0 | Some n \<Rightarrow> n)"

definition weight_Items :: "NodeAntiAffinityWeight \<Rightarrow> bool \<Rightarrow> int64 gomap" where
  "weight_Items w copy =
     (if \<not> copy then w else fold (\<lambda>(k, v) result. AList.update k v result) w [])"

section \<open>Facts\<close>

lemma volume_type_loop_Inr: "volume_type_loop s vs = Inr v \<longleftrightarrow> v = s \<and> s \<in> set vs"
  by (induction vs) auto

lemma VolumeTypeFromString_Inr:
  "VolumeTypeFromString s = Inr v \<longleftrightarrow> v = s \<and> s \<in> set ValidVolumeType"
  by (simp add: VolumeTypeFromString_def volume_type_loop_Inr)

lemma weight_Get_Put:
  "weight_Get (weight_Put w t n) u = (if u = t then n else weight_Get w u)"
  by (simp add: weight_Get_def weight_Put_def go_map_simps)

end
