(* ===== verification/Local_Utils.thy ===== *)
theory Local_Utils
  imports Kube_Objects
begin

text \<open>
  \<open>pkg/utils/common.go\<close>: the pure functions that read the program's settings out of
  Kubernetes objects (which volume group, device, node, size and volume type an object asks
  for), one definition per Go function, in the order of the file. Log calls have no effect
  on the results and are left out.
\<close>

section \<open>Names\<close>

definition GetNameKey :: "string \<Rightarrow> string \<Rightarrow> string" where
  "GetNameKey nameSpace name = nameSpace @ ''/'' @ name"

definition PVCName :: "PersistentVolumeClaim \<Rightarrow> string" where
  "PVCName pvc = GetNameKey (pvc_Namespace pvc) (pvc_Name pvc)"

definition PVCNameFromPV :: "PersistentVolume \<Rightarrow> string \<times> string" where
  "PVCNameFromPV pv =
     (case pv_ClaimRef pv of None \<Rightarrow> ([], []) | Some (ns, name) \<Rightarrow> (name, ns))"

section \<open>Strings and provisioners\<close>

fun ContainsString :: "string list \<Rightarrow> string \<Rightarrow> bool" where
  "ContainsString [] e = False"
| "ContainsString (a # s) e = (if a = e then True else ContainsString s e)"

fun strings_contains_from :: "int \<Rightarrow> string list \<Rightarrow> string \<Rightarrow> int" where
  "strings_contains_from i [] v = - 1"
| "strings_contains_from i (a # s) v = (if a = v then i else strings_contains_from (i + 1) s v)"

definition StringsContains :: "string list \<Rightarrow> string \<Rightarrow> int" where
  "StringsContains array v = strings_contains_from 0 array v"

definition ContainsProvisioner :: "string \<Rightarrow> bool" where
  "ContainsProvisioner name = list_ex (\<lambda>x. x = name) ValidProvisionerNames"

definition GetAddedAndRemovedItems ::
  "string list \<Rightarrow> string list \<Rightarrow> string list \<times> string list \<times> string list" where
  "GetAddedAndRemovedItems newList oldList =
     (let addedItems =
            fold (\<lambda>item added. if StringsContains oldList item = - 1 then added @ [item] else added)
              newList [];
          (removedItems, unchangedItems) =
            fold (\<lambda>item (removed, unchanged).
                if StringsContains newList item = - 1 then (removed @ [item], unchanged)
                else (removed, unchanged @ [item]))
              oldList ([], [])
      in (addedItems, unchangedItems, removedItems))"

section \<open>Nodes of volumes and claims\<close>

fun local_pv_loop :: "NodeSelectorRequirement list \<Rightarrow> bool \<times> string" where
  "local_pv_loop [] = (False, [])"
| "local_pv_loop (ex # exs) =
     (case ex_Values ex of
        [] \<Rightarrow> local_pv_loop exs
      | v # _ \<Rightarrow>
          if ex_Key ex = KubernetesNodeIdentityKey \<and> v \<noteq> [] \<and> ex_Operator ex = NodeSelectorOpIn
          then (True, v)
          else local_pv_loop exs)"

definition IsLocalPV :: "PersistentVolume \<Rightarrow> bool \<times> string" where
  "IsLocalPV pv =
     (case pv_NodeAffinity pv of
        None \<Rightarrow> (False, [])
      | Some None \<Rightarrow> (False, [])
      | Some (Some terms) \<Rightarrow>
          (case terms of
             [] \<Rightarrow> (False, [])
           | term0 # _ \<Rightarrow> if term0 = [] then (False, []) else local_pv_loop term0))"

definition NodeNameFromPV :: "PersistentVolume \<Rightarrow> string" where
  "NodeNameFromPV pv =
     (let (b, nodeName) = IsLocalPV pv in if b \<and> nodeName \<noteq> [] then nodeName else [])"

definition NodeNameFromPVC :: "PersistentVolumeClaim \<Rightarrow> string" where
  "NodeNameFromPVC pvc = str_at (pvc_Annotations pvc) AnnoSelectedNode"

definition PvcContainsSelectedNode :: "PersistentVolumeClaim \<Rightarrow> bool" where
  "PvcContainsSelectedNode pvc =
     (if length (pvc_Annotations pvc) \<le> 0 then False
      else (case map_of (pvc_Annotations pvc) AnnoSelectedNode of
              Some v \<Rightarrow> length v > 0
            | None \<Rightarrow> False))"

definition GetPVFromBoundPVC :: "PersistentVolumeClaim \<Rightarrow> string" where
  "GetPVFromBoundPVC pvc = pvc_VolumeName pvc"

section \<open>Pods and their inline volumes\<close>

definition IsPodNeedAllocate :: "Pod \<Rightarrow> bool" where
  "IsPodNeedAllocate pod =
     (if pod_Phase pod = PodPending \<or> pod_Phase pod = PodSucceeded \<or> pod_Phase pod = PodFailed
      then False
      else if pod_NodeName pod \<noteq> [] then True
      else False)"

definition is_local_inline :: "Volume \<Rightarrow> bool" where
  "is_local_inline volume =
     (case vol_CSI volume of None \<Rightarrow> False | Some csi \<Rightarrow> ContainsProvisioner (csi_Driver csi))"

definition ContainInlineVolumes :: "Pod \<Rightarrow> bool \<times> string" where
  "ContainInlineVolumes pod =
     (if list_ex is_local_inline (pod_Volumes pod) then (True, pod_NodeName pod) else (False, []))"

definition GetInlineVolumeInfoFromParam :: "kube \<Rightarrow> string gomap \<Rightarrow> string \<times> int64" where
  "GetInlineVolumeInfoFromParam K attributes =
     (case map_of attributes key_VGName of
        None \<Rightarrow> ([], 0)
      | Some vgName \<Rightarrow>
          (case map_of attributes ParamLVSize of
             None \<Rightarrow> (vgName, 1024 * 1024 * 1024)
           | Some sizeStr \<Rightarrow>
               (case ParseQuantity K sizeStr of
                  None \<Rightarrow> ([], 0)
                | Some sz \<Rightarrow> (vgName, sz))))"

definition NeedSkip :: "Pod \<Rightarrow> bool" where
  "NeedSkip pod =
     (if length (pod_Volumes pod) \<le> 0 then True
      else if list_ex (\<lambda>v. vol_PVC v \<noteq> None \<or> vol_CSI v \<noteq> None) (pod_Volumes pod) then False
      else True)"

section \<open>What a persistent volume says\<close>

definition GetVGNameFromCsiPV :: "kube \<Rightarrow> PersistentVolume \<Rightarrow> string" where
  "GetVGNameFromCsiPV K pv =
     (let fromCSI = (case pv_CSI pv of
                       None \<Rightarrow> []
                     | Some csi \<Rightarrow> str_at (csi_VolumeAttributes csi) key_VGName)
      in case GetAllocatedInfoFromPVAnnotation K (Some pv) of
           Inl err \<Rightarrow> fromCSI
         | Inr None \<Rightarrow> fromCSI
         | Inr (Some allocateInfo) \<Rightarrow>
             if ai_VGName allocateInfo \<noteq> [] then ai_VGName allocateInfo else fromCSI)"

definition GetDeviceNameFromCsiPV :: "kube \<Rightarrow> PersistentVolume \<Rightarrow> string" where
  "GetDeviceNameFromCsiPV K pv =
     (let fromCSI = (case pv_CSI pv of
                       None \<Rightarrow> []
                     | Some csi \<Rightarrow> str_at (csi_VolumeAttributes csi) key_DeviceName)
      in case GetAllocatedInfoFromPVAnnotation K (Some pv) of
           Inl err \<Rightarrow> fromCSI
         | Inr None \<Rightarrow> fromCSI
         | Inr (Some allocateInfo) \<Rightarrow>
             if ai_DeviceName allocateInfo \<noteq> [] then ai_DeviceName allocateInfo else fromCSI)"

definition GetMountPointFromCsiPV :: "PersistentVolume \<Rightarrow> string" where
  "GetMountPointFromCsiPV pv =
     (case pv_CSI pv of
        None \<Rightarrow> []
      | Some csi \<Rightarrow> str_at (csi_VolumeAttributes csi) VolumeTypeMountPoint)"

definition GetNodeNameFromCsiPV :: "PersistentVolume \<Rightarrow> string" where
  "GetNodeNameFromCsiPV pv =
     (case pv_NodeAffinity pv of
        None \<Rightarrow> []
      | Some None \<Rightarrow> []
      | Some (Some []) \<Rightarrow> []
      | Some (Some ([] # _)) \<Rightarrow> []
      | Some (Some ((ex # _) # _)) \<Rightarrow>
          if ex_Key ex \<noteq> KubernetesNodeIdentityKey then []
          else (case ex_Values ex of [] \<Rightarrow> [] | nodeName # _ \<Rightarrow> nodeName))"

definition GetPVStorageSize :: "PersistentVolume \<Rightarrow> int64" where
  "GetPVStorageSize pv = (case pv_Capacity pv of Some v \<Rightarrow> v | None \<Rightarrow> 0)"

definition GetPVSize :: "PersistentVolume \<Rightarrow> int64" where
  "GetPVSize pv = (case pv_Capacity pv of Some c \<Rightarrow> c | None \<Rightarrow> 0)"

definition GetVGRequested :: "kube \<Rightarrow> PersistentVolume gomap \<Rightarrow> string \<Rightarrow> int64" where
  "GetVGRequested K localPVs vgName =
     fold (\<lambda>(_, pv) requested.
         if GetVGNameFromCsiPV K pv = vgName
         then requested + (case pv_Capacity pv of Some v \<Rightarrow> v | None \<Rightarrow> 0)
         else requested)
       localPVs 0"

definition IsOpenLocalPV :: "PersistentVolume \<Rightarrow> bool \<times> VolumeType" where
  "IsOpenLocalPV pv =
     (case pv_CSI pv of
        None \<Rightarrow> (False, VolumeTypeUnknown)
      | Some csi \<Rightarrow>
          if ContainsProvisioner (csi_Driver csi) then
            (case map_of (csi_VolumeAttributes csi) VolumeTypeKey of
               None \<Rightarrow> (False, VolumeTypeUnknown)
             | Some value \<Rightarrow>
                 (case VolumeTypeFromString value of
                    Inr lt \<Rightarrow> (True, lt)
                  | Inl _ \<Rightarrow> (False, VolumeTypeUnknown)))
          else (False, VolumeTypeUnknown))"

definition IsReadOnlyPV :: "PersistentVolume \<Rightarrow> bool" where
  "IsReadOnlyPV pv =
     (case pv_CSI pv of
        None \<Rightarrow> False
      | Some csi \<Rightarrow> map_of (csi_VolumeAttributes csi) ParamReadonly = Some ''true'')"

section \<open>What a claim and its storage class say\<close>

definition GetPVCRequested :: "PersistentVolumeClaim \<Rightarrow> int64" where
  "GetPVCRequested pvc =
     (let value = (case pvc_Requests pvc of Some v \<Rightarrow> v | None \<Rightarrow> 0)
      in if value \<noteq> 0 then value
         else (case pvc_Limits pvc of Some v \<Rightarrow> v | None \<Rightarrow> value))"

definition GetStorageClassFromPVC ::
  "kube \<Rightarrow> PersistentVolumeClaim \<Rightarrow> go_error + StorageClass" where
  "GetStorageClassFromPVC K pvc =
     (case pvc_StorageClassName pvc of
        None \<Rightarrow>
          Inl (Errorf ''failed to fetch storage class %s with pvc %s: scName is nil'' [S [], S (PVCName pvc)])
      | Some scName \<Rightarrow>
          if scName = [] then
            Inl (Errorf ''failed to fetch storage class %s with pvc %s: scName is nil'' [S [], S (PVCName pvc)])
          else
            (case sc_get K scName of
               None \<Rightarrow>
                 Inl (Errorf ''failed to fetch storage class %s with pvc %s: %s''
                        [S scName, S (PVCName pvc), E (NotFound scName)])
             | Some sc \<Rightarrow> Inr sc))"

definition GetVGNameFromPVC :: "kube \<Rightarrow> PersistentVolumeClaim \<Rightarrow> go_error + string" where
  "GetVGNameFromPVC K pvc =
     (case GetStorageClassFromPVC K pvc of
        Inl err \<Rightarrow> Inl err
      | Inr sc \<Rightarrow>
          (case map_of (sc_Parameters sc) ''vgName'' of
             None \<Rightarrow> Inr []
           | Some vgName \<Rightarrow> Inr vgName))"

definition GetMediaTypeFromPVC :: "kube \<Rightarrow> PersistentVolumeClaim \<Rightarrow> go_error + MediaType" where
  "GetMediaTypeFromPVC K pvc =
     (case GetStorageClassFromPVC K pvc of
        Inl err \<Rightarrow> Inl err
      | Inr sc \<Rightarrow>
          (case map_of (sc_Parameters sc) ''mediaType'' of
             None \<Rightarrow> Inr []
           | Some mediaType \<Rightarrow> Inr mediaType))"

definition LocalPVType :: "StorageClass \<Rightarrow> VolumeType" where
  "LocalPVType sc =
     (case map_of (sc_Parameters sc) VolumeTypeKey of
        Some t \<Rightarrow>
          if t \<in> {VolumeTypeMountPoint, VolumeTypeDevice, VolumeTypeLVM, VolumeTypeQuota} then t
          else VolumeTypeUnknown
      | None \<Rightarrow> VolumeTypeUnknown)"

definition IsLocalPVC :: "kube \<Rightarrow> PersistentVolumeClaim \<Rightarrow> bool \<times> VolumeType" where
  "IsLocalPVC K claim =
     (case GetStorageClassFromPVC K claim of
        Inl err \<Rightarrow> (False, [])
      | Inr sc \<Rightarrow>
          if \<not> ContainsProvisioner (sc_Provisioner sc) then (False, [])
          else (True, LocalPVType sc))"

section \<open>Read-only snapshots\<close>

text \<open>
  \<open>*snapshot.Spec.VolumeSnapshotClassName\<close> dereferences a pointer that the snapshot API leaves
  nil for the default class: \<open>None\<close> is that panic. The variants with the suffix \<open>2\<close> ask the API
  client, the others the informer.
\<close>

definition IsSnapshotClassReadOnly :: "kube \<Rightarrow> string \<Rightarrow> bool" where
  "IsSnapshotClassReadOnly K className =
     (case snapclass_lister K className of
        None \<Rightarrow> False
      | Some sc \<Rightarrow> map_of (snapclass_Parameters sc) ParamReadonly = Some ''true'')"

definition IsReadOnlySnapshotPVC :: "kube \<Rightarrow> PersistentVolumeClaim \<Rightarrow> bool option" where
  "IsReadOnlySnapshotPVC K claim =
     (case pvc_DataSource claim of
        None \<Rightarrow> Some False
      | Some (kind, snapshotName) \<Rightarrow>
          if kind = ''VolumeSnapshot'' then
            (case snap_lister K (pvc_Namespace claim) snapshotName of
               None \<Rightarrow> Some False
             | Some snapshot \<Rightarrow> map_option (IsSnapshotClassReadOnly K) (snap_ClassName snapshot))
          else Some False)"

definition IsSnapshotClassReadOnly2 :: "kube \<Rightarrow> string \<Rightarrow> bool" where
  "IsSnapshotClassReadOnly2 K className =
     (case snapclass_client K className of
        None \<Rightarrow> False
      | Some sc \<Rightarrow> map_of (snapclass_Parameters sc) ParamReadonly = Some ''true'')"

definition IsReadOnlySnapshotPVC2 :: "kube \<Rightarrow> PersistentVolumeClaim \<Rightarrow> bool option" where
  "IsReadOnlySnapshotPVC2 K claim =
     (case pvc_DataSource claim of
        None \<Rightarrow> Some False
      | Some (kind, snapshotName) \<Rightarrow>
          if kind = ''VolumeSnapshot'' then
            (case snap_client K (pvc_Namespace claim) snapshotName of
               None \<Rightarrow> Some False
             | Some snapshot \<Rightarrow> map_option (IsSnapshotClassReadOnly2 K) (snap_ClassName snapshot))
          else Some False)"

section \<open>Hash of a NodeLocalStorage\<close>

definition HashWithoutState :: "kube \<Rightarrow> NodeLocalStorage option \<Rightarrow> int64" where
  "HashWithoutState K storage =
     (case storage of
        None \<Rightarrow> 0
      | Some st \<Rightarrow>
          (let cloned = nls_Status st;
               cloned = cloned\<lparr>nls_NodeStorageInfo := (nls_NodeStorageInfo cloned)\<lparr>nsi_State := []\<rparr>\<rparr>;
               cloned = cloned\<lparr>nls_FilteredStorageInfo :=
                          (nls_FilteredStorageInfo cloned)\<lparr>fsi_UpdateStatus := []\<rparr>\<rparr>
           in DeepHashStatus K cloned))"

definition ParseUnits :: "kube \<Rightarrow> string \<Rightarrow> go_error + int64" where
  "ParseUnits K value =
     (case ParseQuantity K value of
        None \<Rightarrow> Inl (Errorf ''quantities must match the regular expression'' [S value])
      | Some val \<Rightarrow> Inr val)"

section \<open>Mount points and pending claims\<close>

definition CheckMountPointOptions :: "MountPoint \<Rightarrow> bool" where
  "CheckMountPointOptions mp = (StringsContains SupportedFS (nmp_FsType mp) \<noteq> - 1)"

text \<open>\<open>now\<close> is the clock's reading (or the \<open>fakeNow\<close> of a caller); a time is in nanoseconds.\<close>

definition PodPvcAllowReschedule :: "PersistentVolumeClaim list \<Rightarrow> int \<Rightarrow> bool" where
  "PodPvcAllowReschedule pvcs now =
     list_ex (\<lambda>pvc. pvc_CreationTimestamp pvc + 5 * 60 * 1000000000 < now) pvcs"

section \<open>Facts\<close>

lemma GetNameKey_eq_iff:
  assumes "CHR ''/'' \<notin> set ns" and "CHR ''/'' \<notin> set ns'"
  shows "GetNameKey ns n = GetNameKey ns' n' \<longleftrightarrow> ns = ns' \<and> n = n'"
proof -
  have "takeWhile (\<lambda>c. c \<noteq> CHR ''/'') (GetNameKey ms m) = ms" if "CHR ''/'' \<notin> set ms" for ms m
    using that by (auto simp: GetNameKey_def takeWhile_append)
  with assms show ?thesis
    by (metis GetNameKey_def append_same_eq same_append_eq)
qed

lemma GetNameKey_not_Nil [simp]: "GetNameKey ns n \<noteq> []"
  by (simp add: GetNameKey_def)

lemma ContainsString_iff: "ContainsString s e \<longleftrightarrow> e \<in> set s"
  by (induction s) auto

lemma strings_contains_from_bounds:
  "0 \<le> i \<Longrightarrow> strings_contains_from i s v = - 1 \<longleftrightarrow> v \<notin> set s"
  by (induction s arbitrary: i) auto

lemma StringsContains_iff: "StringsContains s v = - 1 \<longleftrightarrow> v \<notin> set s"
  by (simp add: StringsContains_def strings_contains_from_bounds)

lemma strings_contains_from_nth:
  "strings_contains_from i s v = j \<Longrightarrow> j \<noteq> - 1 \<Longrightarrow> 0 \<le> i \<Longrightarrow>
     i \<le> j \<and> nat (j - i) < length s \<and> s ! nat (j - i) = v \<and> v \<notin> set (take (nat (j - i)) s)"
proof (induction s arbitrary: i)
  case (Cons a s)
  show ?case
  proof (cases "a = v")
    case True
    with Cons.prems show ?thesis by auto
  next
    case False
    with Cons.prems Cons.IH [of "i + 1"]
    have IH: "i + 1 \<le> j" "nat (j - (i + 1)) < length s" "s ! nat (j - (i + 1)) = v"
        "v \<notin> set (take (nat (j - (i + 1))) s)"
      by auto
    then have "nat (j - i) = Suc (nat (j - (i + 1)))" by simp
    with IH False show ?thesis by auto
  qed
qed auto

lemma fold_filter_append: "fold (\<lambda>x acc. if P x then acc @ [x] else acc) xs acc = acc @ filter P xs"
  by (induction xs arbitrary: acc) auto

lemma fold_partition_append:
  "fold (\<lambda>x (a, b). if P x then (a @ [x], b) else (a, b @ [x])) xs (a, b) =
     (a @ filter P xs, b @ filter (\<lambda>x. \<not> P x) xs)"
  by (induction xs arbitrary: a b) auto

lemma GetAddedAndRemovedItems_eq:
  "GetAddedAndRemovedItems newList oldList =
     (filter (\<lambda>x. x \<notin> set oldList) newList, filter (\<lambda>x. x \<in> set newList) oldList,
      filter (\<lambda>x. x \<notin> set newList) oldList)"
  by (simp add: GetAddedAndRemovedItems_def fold_filter_append fold_partition_append StringsContains_iff)

lemma IsLocalPV_False [simp]: "fst (IsLocalPV pv) \<or> snd (IsLocalPV pv) = []"
proof -
  have "fst (local_pv_loop exs) \<or> snd (local_pv_loop exs) = []" for exs
    by (induction exs rule: local_pv_loop.induct) (auto split: list.splits)
  then show ?thesis
    by (auto simp: IsLocalPV_def split: option.splits list.splits)
qed

lemma NodeNameFromPV_eq: "NodeNameFromPV pv = snd (IsLocalPV pv)"
  using IsLocalPV_False [of pv] by (cases "IsLocalPV pv") (auto simp: NodeNameFromPV_def)

lemma LocalPVType_valid: "LocalPVType sc = VolumeTypeUnknown \<or> LocalPVType sc \<in> set ValidVolumeType"
  by (auto simp: LocalPVType_def ValidVolumeType_def split: option.splits)

lemma IsOpenLocalPV_valid: "IsOpenLocalPV pv = (True, t) \<Longrightarrow> t \<in> set ValidVolumeType"
  by (auto simp: IsOpenLocalPV_def VolumeTypeFromString_Inr split: option.splits if_splits sum.splits)

end
