(* ===== verification/Storage_Pools.thy ===== *)
theory Storage_Pools
  imports Local_Utils
begin

text \<open>
  The storage state of one node as the scheduler caches it
  (\<open>pkg/scheduling-framework/cache/volume_group.go\<close>, \<open>device.go\<close> and the
  \<open>NodeStorageState\<close> of \<open>base.go\<close>): the volume-group pools, the exclusive devices, how they are
  built from a \<open>NodeLocalStorage\<close> and merged with a newer one. The pointer values of the Go maps
  are never shared between maps, so a pointer is its map entry and writing through it is an
  \<open>update\<close> of that entry; \<open>DeepCopy\<close> of a value is the value. No code path stores a nil map in
  \<open>VGStates\<close> or \<open>DeviceStates\<close> (every constructor makes them), so the maps are not optional.
\<close>

section \<open>Volume groups\<close>

record VGStoragePool =
  vg_Name :: string
  vg_Total :: int64
  vg_Allocatable :: int64
  vg_Requested :: int64

type_synonym VGStates = "VGStoragePool gomap"

definition NewVGState :: "string \<Rightarrow> VGStoragePool" where
  "NewVGState vgName = \<lparr>vg_Name = vgName, vg_Total = 0, vg_Allocatable = 0, vg_Requested = 0\<rparr>"

definition NewVGStateFromVGInfo :: "VolumeGroup \<Rightarrow> VGStoragePool" where
  "NewVGStateFromVGInfo vgInfo =
     \<lparr>vg_Name = nvg_Name vgInfo, vg_Total = nvg_Total vgInfo,
      vg_Allocatable = nvg_Allocatable vgInfo, vg_Requested = 0\<rparr>"

definition vg_UpdateByNLS :: "VGStoragePool \<Rightarrow> VGStoragePool \<Rightarrow> VGStoragePool" where
  "vg_UpdateByNLS vg new =
     vg\<lparr>vg_Total := vg_Total new, vg_Allocatable := vg_Allocatable new\<rparr>"

definition vgs_DeepCopy :: "range_order \<Rightarrow> VGStates \<Rightarrow> VGStates" where
  "vgs_DeepCopy ord s = fold (\<lambda>(name, vgState) copy. AList.update name vgState copy) (reorder ord s) []"

definition GetVGStateList :: "range_order \<Rightarrow> VGStates \<Rightarrow> VGStoragePool list" where
  "GetVGStateList ord s = fold (\<lambda>(_, state) result. result @ [state]) (reorder ord s) []"

definition vg_CreateStatesByNodeLocal :: "NodeLocalStorage \<Rightarrow> VGStates" where
  "vg_CreateStatesByNodeLocal nodeLocal =
     (let info = nls_NodeStorageInfo (nls_Status nodeLocal);
          filtered = nls_FilteredStorageInfo (nls_Status nodeLocal);
          vgInfoMap = fold (\<lambda>vg m. AList.update (nvg_Name vg) vg m) (nsi_VolumeGroups info) []
      in fold (\<lambda>vgName states.
             case map_of vgInfoMap vgName of
               None \<Rightarrow> states
             | Some vgInfo \<Rightarrow> AList.update vgName (NewVGStateFromVGInfo vgInfo) states)
           (fsi_VolumeGroups filtered) [])"

definition vg_StatesForUpdate :: "VGStates \<Rightarrow> VGStates \<Rightarrow> VGStates" where
  "vg_StatesForUpdate old new =
     (let mergeStates =
            fold (\<lambda>(_, state) merge.
                if map_of new (vg_Name state) \<noteq> None
                then AList.update (vg_Name state) state merge else merge)
              old []
      in fold (\<lambda>(_, state) merge.
             case map_of merge (vg_Name state) of
               Some cur \<Rightarrow> AList.update (vg_Name state) (vg_UpdateByNLS cur state) merge
             | None \<Rightarrow> AList.update (vg_Name state) state merge)
           new mergeStates)"

section \<open>Devices\<close>

record DeviceResourcePool =
  dev_Name :: string
  dev_Total :: int64
  dev_Allocatable :: int64
  dev_Requested :: int64
  dev_MediaType :: MediaType
  dev_IsAllocated :: bool

type_synonym DeviceStates = "DeviceResourcePool gomap"

definition NewDeviceResourcePoolForAllocate :: "string \<Rightarrow> DeviceResourcePool" where
  "NewDeviceResourcePoolForAllocate deviceName =
     \<lparr>dev_Name = deviceName, dev_Total = 0, dev_Allocatable = 0, dev_Requested = 0,
      dev_MediaType = [], dev_IsAllocated = True\<rparr>"

definition NewDeviceResourcePoolFromDeviceInfo :: "DeviceInfo \<Rightarrow> DeviceResourcePool" where
  "NewDeviceResourcePoolFromDeviceInfo device =
     \<lparr>dev_Name = ndev_Name device, dev_Total = ndev_Total device,
      dev_Allocatable = ndev_Total device, dev_Requested = 0,
      dev_MediaType = ndev_MediaType device, dev_IsAllocated = False\<rparr>"

definition dev_UpdateByNLS :: "DeviceResourcePool \<Rightarrow> DeviceResourcePool \<Rightarrow> DeviceResourcePool" where
  "dev_UpdateByNLS d new =
     (let d = d\<lparr>dev_Total := dev_Total new, dev_Allocatable := dev_Allocatable new,
               dev_MediaType := dev_MediaType new\<rparr>
      in if dev_IsAllocated d then d\<lparr>dev_Requested := dev_Allocatable d\<rparr> else d)"

definition devs_DeepCopy :: "range_order \<Rightarrow> DeviceStates \<Rightarrow> DeviceStates" where
  "devs_DeepCopy ord s = fold (\<lambda>(name, state) copy. AList.update name state copy) (reorder ord s) []"

definition AllocateDevice :: "DeviceStates \<Rightarrow> string \<Rightarrow> int64 \<Rightarrow> DeviceStates" where
  "AllocateDevice s deviceName requestSize =
     (let state = (case map_of s deviceName of
                     Some st \<Rightarrow> st
                   | None \<Rightarrow> NewDeviceResourcePoolForAllocate deviceName);
          state = (if 0 <s dev_Allocatable state
                   then state\<lparr>dev_Requested := dev_Allocatable state\<rparr>
                   else state\<lparr>dev_Requested := requestSize\<rparr>)
      in AList.update deviceName (state\<lparr>dev_IsAllocated := True\<rparr>) s)"

definition RevertDevice :: "DeviceStates \<Rightarrow> string \<Rightarrow> DeviceStates" where
  "RevertDevice s deviceName =
     (case map_of s deviceName of
        None \<Rightarrow> s
      | Some state \<Rightarrow>
          AList.update deviceName (state\<lparr>dev_Requested := 0, dev_IsAllocated := False\<rparr>) s)"

definition dev_CreateStatesByNodeLocal :: "NodeLocalStorage \<Rightarrow> DeviceStates" where
  "dev_CreateStatesByNodeLocal nodeLocal =
     (let info = nls_NodeStorageInfo (nls_Status nodeLocal);
          filtered = nls_FilteredStorageInfo (nls_Status nodeLocal);
          deviceInfoMap = fold (\<lambda>d m. AList.update (ndev_Name d) d m) (nsi_DeviceInfos info) []
      in fold (\<lambda>deviceName states.
             case map_of deviceInfoMap deviceName of
               None \<Rightarrow> states
             | Some device \<Rightarrow>
                 AList.update deviceName (NewDeviceResourcePoolFromDeviceInfo device) states)
           (fsi_Devices filtered) [])"

definition dev_StatesForUpdate :: "DeviceStates \<Rightarrow> DeviceStates \<Rightarrow> DeviceStates" where
  "dev_StatesForUpdate old new =
     (let mergeStates =
            fold (\<lambda>(_, state) merge.
                if map_of new (dev_Name state) \<noteq> None
                then AList.update (dev_Name state) state merge else merge)
              old []
      in fold (\<lambda>(_, state) merge.
             case map_of merge (dev_Name state) of
               Some cur \<Rightarrow> AList.update (dev_Name state) (dev_UpdateByNLS cur state) merge
             | None \<Rightarrow> AList.update (dev_Name state) state merge)
           new mergeStates)"

section \<open>The state of a node\<close>

record NodeStorageState =
  VGStates :: VGStates
  DeviceStates :: DeviceStates
  InitedByNLS :: bool

definition NewNodeStorageState :: NodeStorageState where
  "NewNodeStorageState = \<lparr>VGStates = [], DeviceStates = [], InitedByNLS = False\<rparr>"

definition node_DeepCopy :: "range_order \<Rightarrow> NodeStorageState \<Rightarrow> NodeStorageState" where
  "node_DeepCopy ord n =
     NewNodeStorageState\<lparr>VGStates := vgs_DeepCopy ord (VGStates n),
       DeviceStates := devs_DeepCopy ord (DeviceStates n), InitedByNLS := InitedByNLS n\<rparr>"

definition IsLocal :: "NodeStorageState \<Rightarrow> bool" where
  "IsLocal n \<longleftrightarrow> length (DeviceStates n) \<noteq> 0 \<or> length (VGStates n) \<noteq> 0"

definition NewNodeStorageStateFromStorage :: "NodeLocalStorage \<Rightarrow> NodeStorageState" where
  "NewNodeStorageStateFromStorage nodeLocal =
     NewNodeStorageState\<lparr>VGStates := vg_CreateStatesByNodeLocal nodeLocal,
       DeviceStates := dev_CreateStatesByNodeLocal nodeLocal, InitedByNLS := True\<rparr>"


section \<open>Facts about the maps of pools\<close>

definition wf_vgs :: "VGStates \<Rightarrow> bool" where
  "wf_vgs s \<longleftrightarrow> wf_map s \<and> list_all (\<lambda>(k, vg). vg_Name vg = k) s"

definition wf_devs :: "DeviceStates \<Rightarrow> bool" where
  "wf_devs s \<longleftrightarrow> wf_map s \<and> list_all (\<lambda>(k, d). dev_Name d = k) s"

definition wf_node :: "NodeStorageState \<Rightarrow> bool" where
  "wf_node n \<longleftrightarrow> wf_vgs (VGStates n) \<and> wf_devs (DeviceStates n)"

lemma wf_fold_update:
  "wf_map m \<Longrightarrow> wf_map (fold (\<lambda>x m. AList.update (f x) (g x) m) xs m)"
  by (induction xs arbitrary: m) auto

lemma map_of_fold_update:
  "map_of (fold (\<lambda>x m. AList.update (f x) (g x) m) xs m) k =
     (case map_of (rev (map (\<lambda>x. (f x, g x)) xs)) k of Some v \<Rightarrow> Some v | None \<Rightarrow> map_of m k)"
  by (induction xs arbitrary: m) (auto simp: go_map_simps map_add_def split: option.splits)

lemma fold_update_append:
  "wf_map (acc @ m) \<Longrightarrow> fold (\<lambda>(k, v) c. AList.update k v c) m acc = acc @ m"
proof (induction m arbitrary: acc)
  case (Cons p m)
  obtain k v where p: "p = (k, v)" by (cases p)
  have "AList.update k v acc = acc @ [(k, v)]" if "k \<notin> fst ` set acc" for acc
    using that by (induction acc) auto
  with Cons p show ?case by simp
qed simp

lemma vgs_DeepCopy_eq [simp]:
  "range_ok ord \<Longrightarrow> wf_map s \<Longrightarrow> vgs_DeepCopy ord s = reorder ord s"
  using fold_update_append [of "[]" "reorder ord s"]
  by (simp add: vgs_DeepCopy_def range_ok_distinct)

lemma devs_DeepCopy_eq [simp]:
  "range_ok ord \<Longrightarrow> wf_map s \<Longrightarrow> devs_DeepCopy ord s = reorder ord s"
  using fold_update_append [of "[]" "reorder ord s"]
  by (simp add: devs_DeepCopy_def range_ok_distinct)

lemma wf_vgs_map [dest]: "wf_vgs s \<Longrightarrow> wf_map s"
  by (simp add: wf_vgs_def)

lemma wf_devs_map [dest]: "wf_devs s \<Longrightarrow> wf_map s"
  by (simp add: wf_devs_def)

lemma wf_vgs_name: "wf_vgs s \<Longrightarrow> map_of s k = Some vg \<Longrightarrow> vg_Name vg = k"
  by (auto simp: wf_vgs_def list_all_iff dest: map_of_SomeD)

lemma wf_devs_name: "wf_devs s \<Longrightarrow> map_of s k = Some d \<Longrightarrow> dev_Name d = k"
  by (auto simp: wf_devs_def list_all_iff dest: map_of_SomeD)

lemma list_all_update:
  assumes "list_all (\<lambda>(k, v). P k v) m" and "P k v"
  shows "list_all (\<lambda>(k, v). P k v) (AList.update k v m)"
  using assms by (induction m) auto

lemma wf_vgs_update [simp]: "wf_vgs s \<Longrightarrow> vg_Name vg = k \<Longrightarrow> wf_vgs (AList.update k vg s)"
  by (simp add: wf_vgs_def list_all_update)

lemma wf_devs_update [simp]: "wf_devs s \<Longrightarrow> dev_Name d = k \<Longrightarrow> wf_devs (AList.update k d s)"
  by (simp add: wf_devs_def list_all_update)

lemma wf_vgs_Nil [simp]: "wf_vgs []"
  by (simp add: wf_vgs_def)

lemma wf_devs_Nil [simp]: "wf_devs []"
  by (simp add: wf_devs_def)

lemma wf_vgs_iff:
  "wf_vgs s \<longleftrightarrow> wf_map s \<and> (\<forall>k vg. map_of s k = Some vg \<longrightarrow> vg_Name vg = k)"
  by (auto simp: wf_vgs_def list_all_iff map_of_eq_Some_iff)

lemma wf_devs_iff:
  "wf_devs s \<longleftrightarrow> wf_map s \<and> (\<forall>k d. map_of s k = Some d \<longrightarrow> dev_Name d = k)"
  by (auto simp: wf_devs_def list_all_iff map_of_eq_Some_iff)

lemma wf_vgs_reorder [simp]: "range_ok ord \<Longrightarrow> wf_vgs s \<Longrightarrow> wf_vgs (reorder ord s)"
  by (simp add: wf_vgs_iff range_ok_distinct)

lemma wf_devs_reorder [simp]: "range_ok ord \<Longrightarrow> wf_devs s \<Longrightarrow> wf_devs (reorder ord s)"
  by (simp add: wf_devs_iff range_ok_distinct)

declare wf_vgs_map [simp] wf_devs_map [simp]

lemma wf_NewNodeStorageState [simp]: "wf_node NewNodeStorageState"
  by (simp add: wf_node_def NewNodeStorageState_def)

lemma wf_node_DeepCopy [simp]: "range_ok ord \<Longrightarrow> wf_node n \<Longrightarrow> wf_node (node_DeepCopy ord n)"
  by (simp add: wf_node_def node_DeepCopy_def)

lemma map_of_node_DeepCopy [simp]:
  assumes "range_ok ord" and "wf_node n"
  shows "map_of (VGStates (node_DeepCopy ord n)) = map_of (VGStates n)"
    and "map_of (DeviceStates (node_DeepCopy ord n)) = map_of (DeviceStates n)"
    and "InitedByNLS (node_DeepCopy ord n) = InitedByNLS n"
  using assms by (simp_all add: node_DeepCopy_def wf_node_def)

section \<open>Merging an old map of pools with a newer one\<close>

text \<open>
  \<open>StatesForUpdate\<close> is the same program for both kinds of pools: a pool is known by its name, and
  an update by the NLS keeps the name. The locale holds the functional description of the merge,
  and each kind of pool interprets it.
\<close>

locale named_pool =
  fixes nm :: "'p \<Rightarrow> string" and upd :: "'p \<Rightarrow> 'p \<Rightarrow> 'p"
  assumes upd_name: "nm (upd cur new) = nm cur"
begin

lemma keep_lookup:
  assumes "wf_map old" and "list_all (\<lambda>(k, v). nm v = k) old"
  shows "map_of (fold (\<lambda>(_, state) merge.
            if map_of new (nm state) \<noteq> None then AList.update (nm state) state merge else merge)
          old acc) k =
     (if map_of new k = None then map_of acc k
      else case map_of old k of Some v \<Rightarrow> Some v | None \<Rightarrow> map_of acc k)"
  using assms
proof (induction old arbitrary: acc)
  case (Cons p old)
  obtain j v where p: "p = (j, v)" by (cases p)
  with Cons.prems have j: "nm v = j" "map_of old j = None"
    by (auto simp: map_of_eq_None_iff)
  from Cons p show ?case
    by (cases "map_of new j") (auto simp: j go_map_simps split: option.splits)
qed simp

lemma keep_wf:
  assumes "wf_map acc"
  shows "wf_map (fold (\<lambda>(_, state) merge.
            if map_of new (nm state) \<noteq> None then AList.update (nm state) state merge else merge)
          old acc)"
  using assms by (induction old arbitrary: acc) auto

lemma merge_lookup:
  assumes "wf_map new" and "list_all (\<lambda>(k, v). nm v = k) new"
  shows "map_of (fold (\<lambda>(_, state) merge.
            case map_of merge (nm state) of
              Some cur \<Rightarrow> AList.update (nm state) (upd cur state) merge
            | None \<Rightarrow> AList.update (nm state) state merge) new acc) k =
     (case map_of new k of
        None \<Rightarrow> map_of acc k
      | Some n \<Rightarrow> Some (case map_of acc k of None \<Rightarrow> n | Some cur \<Rightarrow> upd cur n))"
  using assms
proof (induction new arbitrary: acc)
  case (Cons p new)
  obtain j n where p: "p = (j, n)" by (cases p)
  with Cons.prems have j: "nm n = j" "map_of new j = None"
    by (auto simp: map_of_eq_None_iff)
  from Cons p show ?case
    by (cases "map_of acc j") (auto simp: j go_map_simps split: option.splits)
qed simp

lemma merge_wf:
  assumes "wf_map acc"
  shows "wf_map (fold (\<lambda>(_, state) merge.
            case map_of merge (nm state) of
              Some cur \<Rightarrow> AList.update (nm state) (upd cur state) merge
            | None \<Rightarrow> AList.update (nm state) state merge) new acc)"
  using assms by (induction new arbitrary: acc) (auto split: option.splits)

lemma states_for_update:
  assumes "wf_map old" "list_all (\<lambda>(k, v). nm v = k) old"
    and "wf_map new" "list_all (\<lambda>(k, v). nm v = k) new"
  shows "map_of (fold (\<lambda>(_, state) merge.
            case map_of merge (nm state) of
              Some cur \<Rightarrow> AList.update (nm state) (upd cur state) merge
            | None \<Rightarrow> AList.update (nm state) state merge) new
          (fold (\<lambda>(_, state) merge.
             if map_of new (nm state) \<noteq> None then AList.update (nm state) state merge else merge)
           old [])) k =
     (case map_of new k of
        None \<Rightarrow> None
      | Some n \<Rightarrow> Some (case map_of old k of None \<Rightarrow> n | Some cur \<Rightarrow> upd cur n))"
  by (simp only: merge_lookup [OF assms(3,4)] keep_lookup [OF assms(1,2)])
    (simp split: option.split)

end

interpretation vg_pool: named_pool vg_Name vg_UpdateByNLS
  by unfold_locales (simp add: vg_UpdateByNLS_def)

interpretation dev_pool: named_pool dev_Name dev_UpdateByNLS
  by unfold_locales (simp add: dev_UpdateByNLS_def Let_def)

lemma map_of_vg_StatesForUpdate:
  assumes "wf_vgs old" and "wf_vgs new"
  shows "map_of (vg_StatesForUpdate old new) k =
     (case map_of new k of
        None \<Rightarrow> None
      | Some n \<Rightarrow> Some (case map_of old k of None \<Rightarrow> n | Some cur \<Rightarrow> vg_UpdateByNLS cur n))"
  using assms unfolding vg_StatesForUpdate_def Let_def wf_vgs_def
  by (intro vg_pool.states_for_update) auto

lemma map_of_dev_StatesForUpdate:
  assumes "wf_devs old" and "wf_devs new"
  shows "map_of (dev_StatesForUpdate old new) k =
     (case map_of new k of
        None \<Rightarrow> None
      | Some n \<Rightarrow> Some (case map_of old k of None \<Rightarrow> n | Some cur \<Rightarrow> dev_UpdateByNLS cur n))"
  using assms unfolding dev_StatesForUpdate_def Let_def wf_devs_def
  by (intro dev_pool.states_for_update) auto

lemma wf_vg_StatesForUpdate:
  assumes "wf_vgs old" and "wf_vgs new"
  shows "wf_vgs (vg_StatesForUpdate old new)"
proof -
  have w: "wf_map (vg_StatesForUpdate old new)"
    unfolding vg_StatesForUpdate_def Let_def
    by (intro vg_pool.merge_wf vg_pool.keep_wf) simp
  moreover have "vg_Name p = k" if "map_of (vg_StatesForUpdate old new) k = Some p" for k p
    using that assms
    by (auto simp: map_of_vg_StatesForUpdate vg_pool.upd_name wf_vgs_name split: option.splits)
  ultimately show ?thesis
    by (simp add: wf_vgs_iff [of "vg_StatesForUpdate old new"] del: wf_vgs_map)
qed

lemma wf_dev_StatesForUpdate:
  assumes "wf_devs old" and "wf_devs new"
  shows "wf_devs (dev_StatesForUpdate old new)"
proof -
  have w: "wf_map (dev_StatesForUpdate old new)"
    unfolding dev_StatesForUpdate_def Let_def
    by (intro dev_pool.merge_wf dev_pool.keep_wf) simp
  moreover have "dev_Name p = k" if "map_of (dev_StatesForUpdate old new) k = Some p" for k p
    using that assms
    by (auto simp: map_of_dev_StatesForUpdate dev_pool.upd_name wf_devs_name split: option.splits)
  ultimately show ?thesis
    by (simp add: wf_devs_iff [of "dev_StatesForUpdate old new"] del: wf_devs_map)
qed

section \<open>States built from a NodeLocalStorage\<close>

lemma wf_fold_create:
  assumes "wf_map acc" and "list_all (\<lambda>(k, v). P k v) acc"
    and "\<And>k i. map_of infos k = Some i \<Longrightarrow> P k (mk i)"
  shows "wf_map (fold (\<lambda>k st. case map_of infos k of None \<Rightarrow> st | Some i \<Rightarrow> AList.update k (mk i) st) ks acc)
    \<and> list_all (\<lambda>(k, v). P k v)
       (fold (\<lambda>k st. case map_of infos k of None \<Rightarrow> st | Some i \<Rightarrow> AList.update k (mk i) st) ks acc)"
  using assms(1,2)
  by (induction ks arbitrary: acc) (auto simp: assms(3) list_all_update split: option.splits)

lemma map_of_fold_create:
  "map_of (fold (\<lambda>k st. case map_of infos k of None \<Rightarrow> st | Some i \<Rightarrow> AList.update k (mk i) st) ks acc) j =
     (if j \<in> set ks \<and> map_of infos j \<noteq> None then map_option mk (map_of infos j) else map_of acc j)"
  by (induction ks arbitrary: acc) (auto simp: go_map_simps split: option.splits)

definition vg_info_of :: "NodeLocalStorage \<Rightarrow> string \<Rightarrow> VolumeGroup option" where
  "vg_info_of nls k =
     map_of (rev (map (\<lambda>vg. (nvg_Name vg, vg)) (nsi_VolumeGroups (nls_NodeStorageInfo (nls_Status nls))))) k"

definition dev_info_of :: "NodeLocalStorage \<Rightarrow> string \<Rightarrow> DeviceInfo option" where
  "dev_info_of nls k =
     map_of (rev (map (\<lambda>d. (ndev_Name d, d)) (nsi_DeviceInfos (nls_NodeStorageInfo (nls_Status nls))))) k"

lemma map_of_vg_CreateStatesByNodeLocal:
  "map_of (vg_CreateStatesByNodeLocal nls) k =
     (if k \<in> set (fsi_VolumeGroups (nls_FilteredStorageInfo (nls_Status nls)))
      then map_option NewVGStateFromVGInfo (vg_info_of nls k) else None)"
  by (simp only: vg_CreateStatesByNodeLocal_def Let_def map_of_fold_create)
    (simp add: vg_info_of_def map_of_fold_update split: option.split)

lemma map_of_dev_CreateStatesByNodeLocal:
  "map_of (dev_CreateStatesByNodeLocal nls) k =
     (if k \<in> set (fsi_Devices (nls_FilteredStorageInfo (nls_Status nls)))
      then map_option NewDeviceResourcePoolFromDeviceInfo (dev_info_of nls k) else None)"
  by (simp only: dev_CreateStatesByNodeLocal_def Let_def map_of_fold_create)
    (simp add: dev_info_of_def map_of_fold_update split: option.split)

lemma vg_info_of_name: "vg_info_of nls k = Some i \<Longrightarrow> nvg_Name i = k"
  by (auto simp: vg_info_of_def dest!: map_of_SomeD)

lemma dev_info_of_name: "dev_info_of nls k = Some i \<Longrightarrow> ndev_Name i = k"
  by (auto simp: dev_info_of_def dest!: map_of_SomeD)

lemma wf_vg_CreateStatesByNodeLocal [simp]: "wf_vgs (vg_CreateStatesByNodeLocal nls)"
  unfolding vg_CreateStatesByNodeLocal_def Let_def wf_vgs_def
  by (rule wf_fold_create)
    (auto simp: map_of_fold_update NewVGStateFromVGInfo_def split: option.splits
      dest!: map_of_SomeD)

lemma wf_dev_CreateStatesByNodeLocal [simp]: "wf_devs (dev_CreateStatesByNodeLocal nls)"
  unfolding dev_CreateStatesByNodeLocal_def Let_def wf_devs_def
  by (rule wf_fold_create)
    (auto simp: map_of_fold_update NewDeviceResourcePoolFromDeviceInfo_def split: option.splits
      dest!: map_of_SomeD)

lemma wf_NewNodeStorageStateFromStorage [simp]: "wf_node (NewNodeStorageStateFromStorage nls)"
  by (simp add: wf_node_def NewNodeStorageStateFromStorage_def)

section \<open>Facts about devices\<close>

lemma wf_AllocateDevice [simp]: "wf_devs s \<Longrightarrow> wf_devs (AllocateDevice s d r)"
  by (simp add: AllocateDevice_def Let_def NewDeviceResourcePoolForAllocate_def wf_devs_name
      split: option.split)

lemma wf_RevertDevice [simp]: "wf_devs s \<Longrightarrow> wf_devs (RevertDevice s d)"
  by (simp add: RevertDevice_def wf_devs_name split: option.split)

lemma AllocateDevice_other [simp]: "j \<noteq> d \<Longrightarrow> map_of (AllocateDevice s d r) j = map_of s j"
  by (simp add: AllocateDevice_def Let_def go_map_simps)

lemma RevertDevice_other [simp]: "j \<noteq> d \<Longrightarrow> map_of (RevertDevice s d) j = map_of s j"
  by (simp add: RevertDevice_def go_map_simps split: option.splits)

lemma AllocateDevice_allocated:
  "\<exists>st. map_of (AllocateDevice s d r) d = Some st \<and> dev_IsAllocated st"
  by (simp add: AllocateDevice_def Let_def go_map_simps)

end
