(* ===== verification/Allocated_Details.thy ===== *)
theory Allocated_Details
  imports Storage_Pools
begin

text \<open>
  The allocation details the scheduler keeps for claims and volumes
  (\<open>pkg/scheduling-framework/cache/base.go\<close>, with the two types that implement
  \<open>PVAllocated\<close>). \<open>pvcAllocated\<close> holds what the scheduler reserved for a claim, \<open>pvAllocated\<close>
  what an event of a bound volume charged. An interface value is the datatype \<open>PVAllocated\<close>
  with one constructor per implementation; a type assertion is a case distinction on it. The
  pointers in the two maps are not shared (every store is of a fresh object or of a deep copy),
  so writing through the pointer \<open>GetByPVC\<close> returns is an update of the map entry.
\<close>

section \<open>Details of one volume\<close>

record BasePVAllocated =
  pa_VolumeName :: string
  pa_PVCName :: string
  pa_PVCNamespace :: string
  pa_NodeName :: string
  pa_Requested :: int64
  pa_Allocated :: int64

record LVMPVAllocated = BasePVAllocated +
  pa_VGName :: string

record DeviceTypePVAllocated = BasePVAllocated +
  pa_DeviceName :: string

datatype PVAllocated =
    LVMDetail LVMPVAllocated
  | DeviceDetail DeviceTypePVAllocated

fun GetBasePVAllocated :: "PVAllocated \<Rightarrow> BasePVAllocated" where
  "GetBasePVAllocated (LVMDetail lvm) = BasePVAllocated.truncate lvm"
| "GetBasePVAllocated (DeviceDetail device) = BasePVAllocated.truncate device"

fun GetVolumeType :: "PVAllocated \<Rightarrow> VolumeType" where
  "GetVolumeType (LVMDetail _) = VolumeTypeLVM"
| "GetVolumeType (DeviceDetail _) = VolumeTypeDevice"

text \<open>\<open>detail.GetBasePVAllocated().Requested = r\<close> and \<open>.Allocated = a\<close>, through the pointer.\<close>

fun set_Requested :: "int64 \<Rightarrow> PVAllocated \<Rightarrow> PVAllocated" where
  "set_Requested r (LVMDetail lvm) = LVMDetail (lvm\<lparr>pa_Requested := r\<rparr>)"
| "set_Requested r (DeviceDetail device) = DeviceDetail (device\<lparr>pa_Requested := r\<rparr>)"

fun set_Allocated :: "int64 \<Rightarrow> PVAllocated \<Rightarrow> PVAllocated" where
  "set_Allocated a (LVMDetail lvm) = LVMDetail (lvm\<lparr>pa_Allocated := a\<rparr>)"
| "set_Allocated a (DeviceDetail device) = DeviceDetail (device\<lparr>pa_Allocated := a\<rparr>)"

definition NewLVMPVAllocatedFromPV ::
  "PersistentVolume \<Rightarrow> string \<Rightarrow> string \<Rightarrow> LVMPVAllocated" where
  "NewLVMPVAllocatedFromPV pv vgName nodeName =
     (let allocated = \<lparr>pa_VolumeName = pv_Name pv, pa_PVCName = [], pa_PVCNamespace = [],
                       pa_NodeName = nodeName, pa_Requested = 0, pa_Allocated = 0,
                       pa_VGName = vgName\<rparr>
      in case pv_Capacity pv of
           None \<Rightarrow> allocated
         | Some request \<Rightarrow>
             (let allocated = allocated\<lparr>pa_Requested := request, pa_Allocated := request\<rparr>;
                  (pvcName, pvcNamespace) = PVCNameFromPV pv
              in if pvcName \<noteq> []
                 then allocated\<lparr>pa_PVCName := pvcName, pa_PVCNamespace := pvcNamespace\<rparr>
                 else allocated))"

definition NewDeviceTypePVAllocatedFromPV ::
  "PersistentVolume \<Rightarrow> string \<Rightarrow> string \<Rightarrow> DeviceTypePVAllocated" where
  "NewDeviceTypePVAllocatedFromPV pv deviceName nodeName =
     (let allocated = \<lparr>pa_VolumeName = pv_Name pv, pa_PVCName = [], pa_PVCNamespace = [],
                       pa_NodeName = nodeName, pa_Requested = 0, pa_Allocated = 0,
                       pa_DeviceName = deviceName\<rparr>;
          (pvcName, pvcNamespace) = PVCNameFromPV pv;
          allocated = (if pvcName \<noteq> []
                       then allocated\<lparr>pa_PVCName := pvcName, pa_PVCNamespace := pvcNamespace\<rparr>
                       else allocated)
      in case pv_Capacity pv of
           None \<Rightarrow> allocated
         | Some request \<Rightarrow> allocated\<lparr>pa_Requested := request\<rparr>)"

section \<open>What the cache knows of a bound claim\<close>

record PVCInfo =
  pi_PVCNamespace :: string
  pi_PVCName :: string
  pi_VolumeName :: string
  pi_NodeName :: string
  pi_PVCStatus :: string
  pi_Requested :: int64

definition NewPVCInfo :: "PersistentVolumeClaim \<Rightarrow> string \<Rightarrow> string \<Rightarrow> PVCInfo" where
  "NewPVCInfo pvc nodeName volumeName =
     \<lparr>pi_PVCNamespace = pvc_Namespace pvc, pi_PVCName = pvc_Name pvc,
      pi_VolumeName = volumeName, pi_NodeName = nodeName,
      pi_PVCStatus = pvc_Phase pvc, pi_Requested = GetPVCRequested pvc\<rparr>"

definition PVCInfo_DeepCopy :: "PVCInfo \<Rightarrow> PVCInfo" where
  "PVCInfo_DeepCopy info =
     \<lparr>pi_PVCNamespace = pi_PVCNamespace info, pi_PVCName = pi_PVCName info,
      pi_VolumeName = pi_VolumeName info, pi_NodeName = pi_NodeName info,
      pi_PVCStatus = [], pi_Requested = pi_Requested info\<rparr>"

section \<open>The two maps of details\<close>

record PVAllocatedDetails =
  pvcAllocated :: "PVAllocated gomap" \<comment> \<open>by namespace and name of the claim\<close>
  pvAllocated :: "PVAllocated gomap" \<comment> \<open>by volume name\<close>

definition NewPVAllocatedDetails :: PVAllocatedDetails where
  "NewPVAllocatedDetails = \<lparr>pvcAllocated = [], pvAllocated = []\<rparr>"

definition GetByPVC :: "PVAllocatedDetails \<Rightarrow> string \<Rightarrow> string \<Rightarrow> PVAllocated option" where
  "GetByPVC l pvcNamespace pvcName = map_of (pvcAllocated l) (GetNameKey pvcNamespace pvcName)"

definition GetByPV :: "PVAllocatedDetails \<Rightarrow> string \<Rightarrow> PVAllocated option" where
  "GetByPV l volumeName = map_of (pvAllocated l) volumeName"

definition DeleteByPVC :: "PVAllocatedDetails \<Rightarrow> string \<Rightarrow> PVAllocatedDetails" where
  "DeleteByPVC l pvcKey = l\<lparr>pvcAllocated := AList.delete pvcKey (pvcAllocated l)\<rparr>"

definition DeleteByPV :: "PVAllocatedDetails \<Rightarrow> PVAllocated option \<Rightarrow> PVAllocatedDetails" where
  "DeleteByPV l remove =
     (case remove of
        None \<Rightarrow> l
      | Some removed \<Rightarrow>
          (let baseInfo = GetBasePVAllocated removed;
               l = (if pa_PVCName baseInfo \<noteq> [] \<and> pa_PVCNamespace baseInfo \<noteq> []
                    then l\<lparr>pvcAllocated := AList.delete
                             (GetNameKey (pa_PVCNamespace baseInfo) (pa_PVCName baseInfo))
                             (pvcAllocated l)\<rparr>
                    else l)
           in if pa_VolumeName baseInfo \<noteq> []
              then l\<lparr>pvAllocated := AList.delete (pa_VolumeName baseInfo) (pvAllocated l)\<rparr>
              else l))"

definition AssumeByPVC :: "PVAllocatedDetails \<Rightarrow> PVAllocated \<Rightarrow> PVAllocatedDetails" where
  "AssumeByPVC l newAllocated =
     (let baseInfo = GetBasePVAllocated newAllocated
      in if pa_PVCName baseInfo \<noteq> [] \<and> pa_PVCNamespace baseInfo \<noteq> []
         then l\<lparr>pvcAllocated := AList.update
                  (GetNameKey (pa_PVCNamespace baseInfo) (pa_PVCName baseInfo)) newAllocated
                  (pvcAllocated l)\<rparr>
         else l)"

definition AssumeByPVEvent :: "PVAllocatedDetails \<Rightarrow> PVAllocated \<Rightarrow> PVAllocatedDetails \<times> bool" where
  "AssumeByPVEvent l newAllocated =
     (let baseInfo = GetBasePVAllocated newAllocated
      in if pa_VolumeName baseInfo = [] then (l, False)
         else (l\<lparr>pvAllocated := AList.update (pa_VolumeName baseInfo) newAllocated (pvAllocated l)\<rparr>,
               True))"

definition AssumeAllocateSizeToPVDetail ::
  "PVAllocatedDetails \<Rightarrow> string \<Rightarrow> int64 \<Rightarrow> PVAllocatedDetails \<times> bool" where
  "AssumeAllocateSizeToPVDetail l volumeName allocateSize =
     (case map_of (pvAllocated l) volumeName of
        Some detail \<Rightarrow>
          (l\<lparr>pvAllocated := AList.update volumeName (set_Allocated allocateSize detail) (pvAllocated l)\<rparr>,
           True)
      | None \<Rightarrow> (l, False))"

section \<open>Facts\<close>

definition wf_details :: "PVAllocatedDetails \<Rightarrow> bool" where
  "wf_details l \<longleftrightarrow> wf_map (pvcAllocated l) \<and> wf_map (pvAllocated l) \<and>
     list_all (\<lambda>(k, d). pa_VolumeName (GetBasePVAllocated d) = k) (pvAllocated l) \<and>
     list_all (\<lambda>(k, d). GetNameKey (pa_PVCNamespace (GetBasePVAllocated d))
                          (pa_PVCName (GetBasePVAllocated d)) = k) (pvcAllocated l)"

text \<open>The size a detail charges to the volume group \<open>v\<close> of node \<open>n\<close>, and the device it occupies.\<close>

fun lvm_charge :: "string \<Rightarrow> string \<Rightarrow> PVAllocated \<Rightarrow> int64" where
  "lvm_charge n v (LVMDetail l) = (if pa_NodeName l = n \<and> pa_VGName l = v then pa_Allocated l else 0)"
| "lvm_charge n v (DeviceDetail d) = 0"

lemma base_simps [simp]:
  "pa_VolumeName (BasePVAllocated.truncate r) = pa_VolumeName r"
  "pa_PVCName (BasePVAllocated.truncate r) = pa_PVCName r"
  "pa_PVCNamespace (BasePVAllocated.truncate r) = pa_PVCNamespace r"
  "pa_NodeName (BasePVAllocated.truncate r) = pa_NodeName r"
  "pa_Requested (BasePVAllocated.truncate r) = pa_Requested r"
  "pa_Allocated (BasePVAllocated.truncate r) = pa_Allocated r"
  by (simp_all add: BasePVAllocated.truncate_def)

lemma base_set_Requested [simp]:
  "pa_VolumeName (GetBasePVAllocated (set_Requested r d)) = pa_VolumeName (GetBasePVAllocated d)"
  "pa_PVCName (GetBasePVAllocated (set_Requested r d)) = pa_PVCName (GetBasePVAllocated d)"
  "pa_PVCNamespace (GetBasePVAllocated (set_Requested r d)) = pa_PVCNamespace (GetBasePVAllocated d)"
  "pa_NodeName (GetBasePVAllocated (set_Requested r d)) = pa_NodeName (GetBasePVAllocated d)"
  "pa_Allocated (GetBasePVAllocated (set_Requested r d)) = pa_Allocated (GetBasePVAllocated d)"
  "pa_Requested (GetBasePVAllocated (set_Requested r d)) = r"
  "lvm_charge n v (set_Requested r d) = lvm_charge n v d"
  by (cases d; simp)+

lemma base_set_Allocated [simp]:
  "pa_VolumeName (GetBasePVAllocated (set_Allocated a d)) = pa_VolumeName (GetBasePVAllocated d)"
  "pa_PVCName (GetBasePVAllocated (set_Allocated a d)) = pa_PVCName (GetBasePVAllocated d)"
  "pa_PVCNamespace (GetBasePVAllocated (set_Allocated a d)) = pa_PVCNamespace (GetBasePVAllocated d)"
  "pa_NodeName (GetBasePVAllocated (set_Allocated a d)) = pa_NodeName (GetBasePVAllocated d)"
  "pa_Requested (GetBasePVAllocated (set_Allocated a d)) = pa_Requested (GetBasePVAllocated d)"
  "pa_Allocated (GetBasePVAllocated (set_Allocated a d)) = a"
  by (cases d; simp)+

lemma NewLVMPVAllocatedFromPV_simps [simp]:
  "pa_VolumeName (NewLVMPVAllocatedFromPV pv vg n) = pv_Name pv"
  "pa_NodeName (NewLVMPVAllocatedFromPV pv vg n) = n"
  "pa_VGName (NewLVMPVAllocatedFromPV pv vg n) = vg"
  "pa_Requested (NewLVMPVAllocatedFromPV pv vg n) = GetPVStorageSize pv"
  by (simp_all add: NewLVMPVAllocatedFromPV_def GetPVStorageSize_def Let_def
      split: option.split prod.split)

lemma NewDeviceTypePVAllocatedFromPV_simps [simp]:
  "pa_VolumeName (NewDeviceTypePVAllocatedFromPV pv d n) = pv_Name pv"
  "pa_NodeName (NewDeviceTypePVAllocatedFromPV pv d n) = n"
  "pa_DeviceName (NewDeviceTypePVAllocatedFromPV pv d n) = d"
  "pa_Requested (NewDeviceTypePVAllocatedFromPV pv d n) = GetPVStorageSize pv"
  by (simp_all add: NewDeviceTypePVAllocatedFromPV_def GetPVStorageSize_def Let_def
      split: option.split prod.split)

lemma wf_details_New [simp]: "wf_details NewPVAllocatedDetails"
  by (simp add: wf_details_def NewPVAllocatedDetails_def)

lemma list_all_delete: "list_all P m \<Longrightarrow> list_all P (AList.delete k m)"
  by (induction m) auto

lemma wf_details_DeleteByPVC [simp]: "wf_details l \<Longrightarrow> wf_details (DeleteByPVC l k)"
  by (simp add: wf_details_def DeleteByPVC_def list_all_delete)

lemma wf_details_DeleteByPV [simp]: "wf_details l \<Longrightarrow> wf_details (DeleteByPV l r)"
  by (simp add: wf_details_def DeleteByPV_def Let_def list_all_delete split: option.split)

lemma wf_details_AssumeByPVC [simp]: "wf_details l \<Longrightarrow> wf_details (AssumeByPVC l d)"
  by (simp add: wf_details_def AssumeByPVC_def Let_def list_all_update)

lemma wf_details_AssumeByPVEvent [simp]: "wf_details l \<Longrightarrow> wf_details (fst (AssumeByPVEvent l d))"
  by (simp add: wf_details_def AssumeByPVEvent_def Let_def list_all_update)

lemma wf_details_maps [dest]:
  assumes "wf_details l"
  shows "wf_map (pvcAllocated l)" and "wf_map (pvAllocated l)"
  using assms by (simp_all add: wf_details_def)

lemma wf_details_pv_name:
  assumes "wf_details l" and "map_of (pvAllocated l) k = Some d"
  shows "pa_VolumeName (GetBasePVAllocated d) = k"
  using assms by (auto simp: wf_details_def list_all_iff dest!: map_of_SomeD)

lemma wf_details_pvc_name:
  assumes "wf_details l" and "map_of (pvcAllocated l) k = Some d"
  shows "GetNameKey (pa_PVCNamespace (GetBasePVAllocated d)) (pa_PVCName (GetBasePVAllocated d)) = k"
  using assms by (auto simp: wf_details_def list_all_iff dest!: map_of_SomeD)

lemma wf_details_AssumeAllocateSizeToPVDetail [simp]:
  assumes "wf_details l"
  shows "wf_details (fst (AssumeAllocateSizeToPVDetail l n a))"
proof (cases "map_of (pvAllocated l) n")
  case (Some d)
  from wf_details_pv_name [OF assms Some] have "pa_VolumeName (GetBasePVAllocated (set_Allocated a d)) = n"
    by simp
  with Some assms show ?thesis
    by (simp add: wf_details_def AssumeAllocateSizeToPVDetail_def list_all_update)
qed (use assms in \<open>simp add: AssumeAllocateSizeToPVDetail_def\<close>)

end
