(* ===== verification/Cache_State.thy ===== *)
theory Cache_State
  imports Allocated_Details
begin

text \<open>
  The scheduler's cache, \<open>NodeStorageAllocatedCache\<close> of
  \<open>pkg/scheduling-framework/cache/cache.go\<close>, with the records it hands out: the allocation
  units of a pod on a node and the inline volumes of \<open>inline_volume.go\<close>. The locks make every
  exported method one atomic step, so they do not show in the model. The four allocators hold a
  pointer back to the cache: an allocator method is a function from the cache to the cache.
\<close>

section \<open>Inline volumes\<close>

record InlineVolumeAllocated =
  iv_VgName :: string
  iv_VolumeName :: string
  iv_VolumeSize :: int64
  iv_PodName :: string
  iv_PodNamespace :: string
  iv_Allocated :: int64

type_synonym InlineVolumes = "InlineVolumeAllocated list"
type_synonym PodInlineVolumeAllocatedDetails = "InlineVolumeAllocated list"
type_synonym NodeInlineVolumeAllocatedDetails = "PodInlineVolumeAllocatedDetails gomap"

definition NewInlineVolumeAllocated ::
  "string \<Rightarrow> string \<Rightarrow> string \<Rightarrow> string \<Rightarrow> int64 \<Rightarrow> InlineVolumeAllocated" where
  "NewInlineVolumeAllocated podName podNameSpace vgName volumeName volumeSize =
     \<lparr>iv_VgName = vgName, iv_VolumeName = volumeName, iv_VolumeSize = volumeSize,
      iv_PodName = podName, iv_PodNamespace = podNameSpace, iv_Allocated = 0\<rparr>"

section \<open>What is allocated for one pod on one node\<close>

record NodeAllocateUnits =
  LVMPVCAllocateUnits :: "LVMPVAllocated list"
  DevicePVCAllocateUnits :: "DeviceTypePVAllocated list"
  InlineVolumeAllocateUnits :: "InlineVolumeAllocated list"

record NodeAllocateState =
  nas_NodeName :: string
  nas_PodUid :: string
  nas_Units :: "NodeAllocateUnits option"
  nas_NodeStorageAllocatedByUnits :: "NodeStorageState option"

definition units_Clone :: "NodeAllocateUnits option \<Rightarrow> NodeAllocateUnits option" where
  "units_Clone units =
     (case units of
        None \<Rightarrow> None
      | Some us \<Rightarrow>
          Some \<lparr>LVMPVCAllocateUnits = fold (\<lambda>unit copy. copy @ [unit]) (LVMPVCAllocateUnits us) [],
                DevicePVCAllocateUnits = fold (\<lambda>unit copy. copy @ [unit]) (DevicePVCAllocateUnits us) [],
                InlineVolumeAllocateUnits =
                  fold (\<lambda>unit copy. copy @ [unit]) (InlineVolumeAllocateUnits us) []\<rparr>)"

definition ResetAllocatedSize :: "NodeAllocateUnits \<Rightarrow> NodeAllocateUnits" where
  "ResetAllocatedSize units =
     \<lparr>LVMPVCAllocateUnits = map (\<lambda>u. u\<lparr>pa_Allocated := 0\<rparr>) (LVMPVCAllocateUnits units),
      DevicePVCAllocateUnits = map (\<lambda>u. u\<lparr>pa_Allocated := 0\<rparr>) (DevicePVCAllocateUnits units),
      InlineVolumeAllocateUnits =
        map (\<lambda>u. u\<lparr>iv_Allocated := 0\<rparr>) (InlineVolumeAllocateUnits units)\<rparr>"

definition HaveLocalUnits :: "NodeAllocateUnits option \<Rightarrow> bool" where
  "HaveLocalUnits units =
     (case units of
        None \<Rightarrow> False
      | Some us \<Rightarrow> length (LVMPVCAllocateUnits us) + length (DevicePVCAllocateUnits us)
                     + length (InlineVolumeAllocateUnits us) > 0)"

section \<open>The cache\<close>

record NodeStorageAllocatedCache =
  strategyType :: StrategyType
  states :: "NodeStorageState gomap" \<comment> \<open>by node\<close>
  inlineVolumeAllocatedDetails :: "NodeInlineVolumeAllocatedDetails gomap" \<comment> \<open>by node, by pod UID\<close>
  pvAllocatedDetails :: PVAllocatedDetails
  pvcInfosMap :: "PVCInfo gomap" \<comment> \<open>by claim\<close>

definition NewNodeStorageAllocatedCache :: "StrategyType \<Rightarrow> NodeStorageAllocatedCache" where
  "NewNodeStorageAllocatedCache strategy =
     \<lparr>strategyType = strategy, states = [], inlineVolumeAllocatedDetails = [],
      pvAllocatedDetails = NewPVAllocatedDetails, pvcInfosMap = []\<rparr>"

subsection \<open>Writing through the pointers of the cache\<close>

definition set_details ::
  "PVAllocatedDetails \<Rightarrow> NodeStorageAllocatedCache \<Rightarrow> NodeStorageAllocatedCache" where
  "set_details l c = c\<lparr>pvAllocatedDetails := l\<rparr>"

definition set_node ::
  "string \<Rightarrow> NodeStorageState \<Rightarrow> NodeStorageAllocatedCache \<Rightarrow> NodeStorageAllocatedCache" where
  "set_node n s c = c\<lparr>states := AList.update n s (states c)\<rparr>"

definition set_vg :: "string \<Rightarrow> VGStoragePool \<Rightarrow> NodeStorageState \<Rightarrow> NodeStorageState" where
  "set_vg v vg s = s\<lparr>VGStates := AList.update v vg (VGStates s)\<rparr>"

definition add_Requested :: "int64 \<Rightarrow> VGStoragePool \<Rightarrow> VGStoragePool" where
  "add_Requested delta vg = vg\<lparr>vg_Requested := vg_Requested vg + delta\<rparr>"

definition set_pod_inline ::
  "string \<Rightarrow> string \<Rightarrow> InlineVolumeAllocated list \<Rightarrow> NodeStorageAllocatedCache \<Rightarrow> NodeStorageAllocatedCache" where
  "set_pod_inline n uid ds c =
     c\<lparr>inlineVolumeAllocatedDetails :=
         AList.update n
           (AList.update uid ds (case map_of (inlineVolumeAllocatedDetails c) n of None \<Rightarrow> [] | Some m \<Rightarrow> m))
           (inlineVolumeAllocatedDetails c)\<rparr>"

definition delete_pod_inline ::
  "string \<Rightarrow> string \<Rightarrow> NodeStorageAllocatedCache \<Rightarrow> NodeStorageAllocatedCache" where
  "delete_pod_inline n uid c =
     (case map_of (inlineVolumeAllocatedDetails c) n of
        None \<Rightarrow> c
      | Some m \<Rightarrow>
          c\<lparr>inlineVolumeAllocatedDetails :=
              AList.update n (AList.delete uid m) (inlineVolumeAllocatedDetails c)\<rparr>)"

subsection \<open>Getters and lazy initialisation\<close>

definition GetNodeStorageStateCopy ::
  "range_order \<Rightarrow> NodeStorageAllocatedCache \<Rightarrow> string \<Rightarrow> NodeStorageState option" where
  "GetNodeStorageStateCopy ord c nodeName = map_option (node_DeepCopy ord) (map_of (states c) nodeName)"

definition GetPVCAllocatedDetailCopy ::
  "NodeStorageAllocatedCache \<Rightarrow> string \<Rightarrow> string \<Rightarrow> PVAllocated option" where
  "GetPVCAllocatedDetailCopy c pvcNameSpace pvcName = GetByPVC (pvAllocatedDetails c) pvcNameSpace pvcName"

definition GetPVAllocatedDetailCopy :: "NodeStorageAllocatedCache \<Rightarrow> string \<Rightarrow> PVAllocated option" where
  "GetPVAllocatedDetailCopy c volumeName = GetByPV (pvAllocatedDetails c) volumeName"

definition getPodInlineVolumeDetails ::
  "NodeStorageAllocatedCache \<Rightarrow> string \<Rightarrow> string \<Rightarrow> PodInlineVolumeAllocatedDetails option" where
  "getPodInlineVolumeDetails c nodeName podUid =
     (case map_of (inlineVolumeAllocatedDetails c) nodeName of
        None \<Rightarrow> None
      | Some nodeDetails \<Rightarrow> map_of nodeDetails podUid)"

definition GetPodInlineVolumeDetailsCopy ::
  "NodeStorageAllocatedCache \<Rightarrow> string \<Rightarrow> string \<Rightarrow> PodInlineVolumeAllocatedDetails option" where
  "GetPodInlineVolumeDetailsCopy c nodeName podUid = getPodInlineVolumeDetails c nodeName podUid"

definition IsLocalNode :: "NodeStorageAllocatedCache \<Rightarrow> string \<Rightarrow> bool" where
  "IsLocalNode c nodeName =
     (case map_of (states c) nodeName of None \<Rightarrow> False | Some nodeStorage \<Rightarrow> IsLocal nodeStorage)"

definition initIfNeedAndGetNodeStoragePool ::
  "NodeStorageAllocatedCache \<Rightarrow> string \<Rightarrow> NodeStorageAllocatedCache \<times> NodeStorageState" where
  "initIfNeedAndGetNodeStoragePool c nodeName =
     (case map_of (states c) nodeName of
        Some s \<Rightarrow> (c, s)
      | None \<Rightarrow> (set_node nodeName NewNodeStorageState c, NewNodeStorageState))"

text \<open>\<open>initIfNeedAndGetVGState\<close>: the cache after it, the pool it points to and \<open>InitedByNLS\<close>.\<close>

definition initIfNeedAndGetVGState ::
  "NodeStorageAllocatedCache \<Rightarrow> string \<Rightarrow> string \<Rightarrow> NodeStorageAllocatedCache \<times> VGStoragePool \<times> bool" where
  "initIfNeedAndGetVGState c nodeName vgName =
     (let (c, s) = initIfNeedAndGetNodeStoragePool c nodeName
      in case map_of (VGStates s) vgName of
           Some vg \<Rightarrow> (c, vg, InitedByNLS s)
         | None \<Rightarrow> (set_node nodeName (set_vg vgName (NewVGState vgName) s) c, NewVGState vgName,
                    InitedByNLS s))"

text \<open>\<open>vgState.Requested = vgState.Requested + delta\<close> through a pointer into the cache.\<close>

definition charge_vg ::
  "string \<Rightarrow> string \<Rightarrow> int64 \<Rightarrow> NodeStorageAllocatedCache \<Rightarrow> NodeStorageAllocatedCache" where
  "charge_vg n v delta c =
     (case map_of (states c) n of
        None \<Rightarrow> c
      | Some s \<Rightarrow>
          (case map_of (VGStates s) v of
             None \<Rightarrow> c
           | Some vg \<Rightarrow> set_node n (set_vg v (add_Requested delta vg) s) c))"

definition getRequestFromPVCInfos :: "NodeStorageAllocatedCache \<Rightarrow> PersistentVolume \<Rightarrow> int64" where
  "getRequestFromPVCInfos c pv =
     (let (pvcName, pvcNamespace) = PVCNameFromPV pv
      in if pvcName \<noteq> [] then
           (case map_of (pvcInfosMap c) (GetNameKey pvcNamespace pvcName) of
              Some pvcInfo \<Rightarrow> pi_Requested pvcInfo
            | None \<Rightarrow> 0)
         else 0)"

definition allocateVgState ::
  "string \<Rightarrow> string \<Rightarrow> NodeStorageState \<Rightarrow> int64 \<Rightarrow> NodeStorageState \<times> go_error option" where
  "allocateVgState nodeName vgName nodeState sz =
     (case map_of (VGStates nodeState) vgName of
        None \<Rightarrow> (nodeState, Some (Errorf ''no vg pool %s in node %s'' [S vgName, S nodeName]))
      | Some vgState \<Rightarrow>
          (let poolFreeSize = vg_Allocatable vgState - vg_Requested vgState
           in if poolFreeSize <s sz
              then (nodeState, Some (NewInsufficientLVMError sz (vg_Requested vgState)
                                       (vg_Allocatable vgState) vgName nodeName))
              else (set_vg vgName (add_Requested sz vgState) nodeState, None)))"

section \<open>What a pod asks for\<close>

record LVMPVCInfo =
  li_VGName :: string
  li_Request :: int64
  li_PVC :: PersistentVolumeClaim

record LVMCommonPVCInfos =
  LVMPVCsWithVgNameNotAllocated :: "LVMPVCInfo list"
  LVMPVCsWithoutVgNameNotAllocated :: "LVMPVCInfo list"

type_synonym LVMSnapshotPVCInfos = "LVMPVCInfo list"

record DevicePVCInfo =
  di_MediaType :: MediaType
  di_Request :: int64
  di_PVC :: PersistentVolumeClaim

record DevicePVCInfos =
  SSDDevicePVCs :: "DevicePVCInfo list"
  HDDDevicePVCs :: "DevicePVCInfo list"

record PodLocalVolumeInfo =
  LVMPVCsNotROSnapshot :: "LVMCommonPVCInfos option"
  LVMPVCsROSnapshot :: LVMSnapshotPVCInfos
  DevicePVCs :: "DevicePVCInfos option"
  pod_InlineVolumes :: InlineVolumes

definition NewLVMCommonPVCInfos :: LVMCommonPVCInfos where
  "NewLVMCommonPVCInfos =
     \<lparr>LVMPVCsWithVgNameNotAllocated = [], LVMPVCsWithoutVgNameNotAllocated = []\<rparr>"

definition NewDevicePVCInfos :: DevicePVCInfos where
  "NewDevicePVCInfos = \<lparr>SSDDevicePVCs = [], HDDDevicePVCs = []\<rparr>"

definition NewPodLocalVolumeInfo :: PodLocalVolumeInfo where
  "NewPodLocalVolumeInfo =
     \<lparr>LVMPVCsNotROSnapshot = Some NewLVMCommonPVCInfos, LVMPVCsROSnapshot = [],
      DevicePVCs = Some NewDevicePVCInfos, pod_InlineVolumes = []\<rparr>"

definition lvm_HaveLocalVolumes :: "LVMCommonPVCInfos option \<Rightarrow> bool" where
  "lvm_HaveLocalVolumes info =
     (case info of
        None \<Rightarrow> False
      | Some i \<Rightarrow> length (LVMPVCsWithVgNameNotAllocated i) > 0
                  \<or> length (LVMPVCsWithoutVgNameNotAllocated i) > 0)"

definition snapshot_HaveLocalVolumes :: "LVMSnapshotPVCInfos \<Rightarrow> bool" where
  "snapshot_HaveLocalVolumes info \<longleftrightarrow> length info > 0"

definition device_HaveLocalVolumes :: "DevicePVCInfos option \<Rightarrow> bool" where
  "device_HaveLocalVolumes info =
     (case info of
        None \<Rightarrow> False
      | Some i \<Rightarrow> length (SSDDevicePVCs i) > 0 \<or> length (HDDDevicePVCs i) > 0)"

definition inline_HaveLocalVolumes :: "InlineVolumes \<Rightarrow> bool" where
  "inline_HaveLocalVolumes volumes \<longleftrightarrow> length volumes > 0"

definition HaveLocalVolumes :: "PodLocalVolumeInfo option \<Rightarrow> bool" where
  "HaveLocalVolumes info =
     (case info of
        None \<Rightarrow> False
      | Some i \<Rightarrow> lvm_HaveLocalVolumes (LVMPVCsNotROSnapshot i)
                  \<or> snapshot_HaveLocalVolumes (LVMPVCsROSnapshot i)
                  \<or> device_HaveLocalVolumes (DevicePVCs i)
                  \<or> inline_HaveLocalVolumes (pod_InlineVolumes i))"

end
