(* ===== verification/Ledger.thy ===== *)
theory Ledger
  imports Cache_State
begin

text \<open>
  The abstract specification of the cache: a ledger. \<open>requested c n v\<close> is what the pool of volume
  group \<open>v\<close> on node \<open>n\<close> says is in use; \<open>charged c n v\<close> is what the details account for: the LVM
  details of claims and volumes (their \<open>Allocated\<close>) and the inline volumes of pods (their
  \<open>VolumeSize\<close>). Their difference is \<open>gap c n v\<close>; an operation that keeps every gap moves storage
  without losing or inventing any. All three are 64-bit words, so the laws hold with Go's
  wrap-around and need no bound on the sizes. The lemmas of \<open>ledger_simps\<close> say what the primitive
  writes to the cache do to the ledger.
\<close>

named_theorems ledger_simps \<open>the ledger after a primitive write\<close>

section \<open>Definitions\<close>

definition pod_charge :: "string \<Rightarrow> InlineVolumeAllocated list \<Rightarrow> int64" where
  "pod_charge v ds = (\<Sum>d \<leftarrow> ds. if iv_VgName d = v then iv_VolumeSize d else 0)"

definition inline_charge ::
  "string \<Rightarrow> string \<Rightarrow> NodeInlineVolumeAllocatedDetails gomap \<Rightarrow> int64" where
  "inline_charge n v m = (case map_of m n of None \<Rightarrow> 0 | Some pods \<Rightarrow> map_total (pod_charge v) pods)"

definition details_charge :: "string \<Rightarrow> string \<Rightarrow> PVAllocatedDetails \<Rightarrow> int64" where
  "details_charge n v l =
     map_total (lvm_charge n v) (pvcAllocated l) + map_total (lvm_charge n v) (pvAllocated l)"

definition node_requested :: "NodeStorageState \<Rightarrow> string \<Rightarrow> int64" where
  "node_requested s v = entry vg_Requested (VGStates s) v"

definition requested :: "NodeStorageAllocatedCache \<Rightarrow> string \<Rightarrow> string \<Rightarrow> int64" where
  "requested c n v = (case map_of (states c) n of None \<Rightarrow> 0 | Some s \<Rightarrow> node_requested s v)"

definition charged :: "NodeStorageAllocatedCache \<Rightarrow> string \<Rightarrow> string \<Rightarrow> int64" where
  "charged c n v =
     details_charge n v (pvAllocatedDetails c) + inline_charge n v (inlineVolumeAllocatedDetails c)"

definition gap :: "NodeStorageAllocatedCache \<Rightarrow> string \<Rightarrow> string \<Rightarrow> int64" where
  "gap c n v = requested c n v - charged c n v"

definition has_vg :: "NodeStorageAllocatedCache \<Rightarrow> string \<Rightarrow> string \<Rightarrow> bool" where
  "has_vg c n v \<longleftrightarrow> (case map_of (states c) n of None \<Rightarrow> False | Some s \<Rightarrow> map_of (VGStates s) v \<noteq> None)"

definition wf_cache :: "NodeStorageAllocatedCache \<Rightarrow> bool" where
  "wf_cache c \<longleftrightarrow>
     wf_map (states c) \<and> list_all (\<lambda>(n, s). wf_node s) (states c) \<and>
     wf_map (inlineVolumeAllocatedDetails c) \<and>
     list_all (\<lambda>(n, m). wf_map m) (inlineVolumeAllocatedDetails c) \<and>
     wf_details (pvAllocatedDetails c) \<and> wf_map (pvcInfosMap c)"

section \<open>Well-formed caches\<close>

lemma wf_cacheD:
  assumes "wf_cache c"
  shows "wf_map (states c)" and "wf_map (inlineVolumeAllocatedDetails c)"
    and "wf_details (pvAllocatedDetails c)" and "wf_map (pvcInfosMap c)"
  using assms by (simp_all add: wf_cache_def)

lemma wf_cache_node: "wf_cache c \<Longrightarrow> map_of (states c) n = Some s \<Longrightarrow> wf_node s"
  by (auto simp: wf_cache_def list_all_iff dest: map_of_SomeD)

lemma wf_cache_vgs: "wf_cache c \<Longrightarrow> map_of (states c) n = Some s \<Longrightarrow> wf_vgs (VGStates s)"
  using wf_cache_node by (simp add: wf_node_def)

lemma wf_cache_pods:
  "wf_cache c \<Longrightarrow> map_of (inlineVolumeAllocatedDetails c) n = Some m \<Longrightarrow> wf_map m"
  by (auto simp: wf_cache_def list_all_iff dest!: map_of_SomeD)

lemma wf_cache_New [simp]: "wf_cache (NewNodeStorageAllocatedCache st)"
  by (simp add: wf_cache_def NewNodeStorageAllocatedCache_def)

lemma wf_cache_set_node [simp]: "wf_cache c \<Longrightarrow> wf_node s \<Longrightarrow> wf_cache (set_node n s c)"
  by (simp add: wf_cache_def set_node_def list_all_update)

lemma wf_cache_set_details [simp]: "wf_cache c \<Longrightarrow> wf_details l \<Longrightarrow> wf_cache (set_details l c)"
  by (simp add: wf_cache_def set_details_def)

lemma wf_node_set_vg [simp]: "wf_node s \<Longrightarrow> vg_Name vg = v \<Longrightarrow> wf_node (set_vg v vg s)"
  by (simp add: wf_node_def set_vg_def)

lemma vg_Name_add_Requested [simp]:
  "vg_Name (add_Requested d vg) = vg_Name vg"
  "vg_Total (add_Requested d vg) = vg_Total vg"
  "vg_Allocatable (add_Requested d vg) = vg_Allocatable vg"
  "vg_Requested (add_Requested d vg) = vg_Requested vg + d"
  by (simp_all add: add_Requested_def)

lemma NewVGState_simps [simp]:
  "vg_Name (NewVGState v) = v" "vg_Requested (NewVGState v) = 0" "vg_Allocatable (NewVGState v) = 0"
  by (simp_all add: NewVGState_def)

lemma wf_node_vg_name: "wf_node s \<Longrightarrow> map_of (VGStates s) v = Some vg \<Longrightarrow> vg_Name vg = v"
  by (auto simp: wf_node_def dest: wf_vgs_name)

lemma wf_cache_charge_vg [simp]: "wf_cache c \<Longrightarrow> wf_cache (charge_vg n v d c)"
  by (auto simp: charge_vg_def split: option.split intro!: wf_cache_set_node wf_node_set_vg
      dest: wf_cache_node wf_node_vg_name [OF wf_cache_node])

lemma wf_cache_initVG [simp]: "wf_cache c \<Longrightarrow> wf_cache (fst (initIfNeedAndGetVGState c n v))"
  by (auto simp: initIfNeedAndGetVGState_def initIfNeedAndGetNodeStoragePool_def Let_def
      wf_cache_node split: option.split)

lemma wf_cache_set_pod_inline [simp]: "wf_cache c \<Longrightarrow> wf_cache (set_pod_inline n u ds c)"
  using wf_cache_pods [of c n]
  by (auto simp: wf_cache_def set_pod_inline_def list_all_update split: option.split)

lemma wf_cache_delete_pod_inline [simp]: "wf_cache c \<Longrightarrow> wf_cache (delete_pod_inline n u c)"
  using wf_cache_pods [of c n]
  by (auto simp: wf_cache_def delete_pod_inline_def list_all_update split: option.split)

section \<open>The ledger after a primitive write\<close>

lemma entry_update [ledger_simps]: "entry w (AList.update k x m) j = (if j = k then w x else entry w m j)"
  by (simp add: entry_def go_map_simps)

lemma node_requested_set_vg [ledger_simps]:
  "node_requested (set_vg v vg s) u = (if u = v then vg_Requested vg else node_requested s u)"
  by (simp add: node_requested_def set_vg_def ledger_simps)

lemma node_requested_known [ledger_simps]:
  "map_of (VGStates s) v = Some vg \<Longrightarrow> node_requested s v = vg_Requested vg"
  "map_of (VGStates s) v = None \<Longrightarrow> node_requested s v = 0"
  by (simp_all add: node_requested_def entry_def)

lemma requested_set_node [ledger_simps]:
  "requested (set_node m s c) n v = (if n = m then node_requested s v else requested c n v)"
  by (simp add: requested_def set_node_def go_map_simps)

lemma charged_set_node [ledger_simps]: "charged (set_node m s c) n v = charged c n v"
  by (simp add: charged_def set_node_def)

lemma requested_set_details [ledger_simps]: "requested (set_details l c) n v = requested c n v"
  by (simp add: requested_def set_details_def)

lemma charged_set_details [ledger_simps]:
  "charged (set_details l c) n v =
     charged c n v + details_charge n v l - details_charge n v (pvAllocatedDetails c)"
  by (simp add: charged_def set_details_def)

lemma requested_set_pod_inline [ledger_simps]: "requested (set_pod_inline m u ds c) n v = requested c n v"
  by (simp add: requested_def set_pod_inline_def)

lemma requested_delete_pod_inline [ledger_simps]:
  "requested (delete_pod_inline m u c) n v = requested c n v"
  by (simp add: requested_def delete_pod_inline_def split: option.split)

lemma requested_charge_vg [ledger_simps]:
  "requested (charge_vg m u d c) n v =
     requested c n v + (if n = m \<and> v = u \<and> has_vg c n v then d else 0)"
  by (auto simp: charge_vg_def has_vg_def ledger_simps requested_def [of c] split: option.split)

lemma charged_charge_vg [ledger_simps]: "charged (charge_vg m u d c) n v = charged c n v"
  by (simp add: charge_vg_def ledger_simps split: option.split)

lemma has_vg_charge_vg [simp]: "has_vg (charge_vg m u d c) n v = has_vg c n v"
  by (auto simp: charge_vg_def has_vg_def set_node_def set_vg_def go_map_simps split: option.split)

lemma has_vg_set_details [simp]: "has_vg (set_details l c) n v = has_vg c n v"
  by (simp add: has_vg_def set_details_def)

lemma requested_initVG [ledger_simps]:
  "requested (fst (initIfNeedAndGetVGState c m u)) n v = requested c n v"
  by (auto simp: initIfNeedAndGetVGState_def initIfNeedAndGetNodeStoragePool_def Let_def
      ledger_simps requested_def [of c] NewNodeStorageState_def split: option.split)

lemma charged_initVG [ledger_simps]:
  "charged (fst (initIfNeedAndGetVGState c m u)) n v = charged c n v"
  by (auto simp: initIfNeedAndGetVGState_def initIfNeedAndGetNodeStoragePool_def Let_def
      ledger_simps split: option.split)

lemma has_vg_initVG [simp]:
  "has_vg (fst (initIfNeedAndGetVGState c m u)) n v \<longleftrightarrow> has_vg c n v \<or> (n = m \<and> v = u)"
  by (auto simp: initIfNeedAndGetVGState_def initIfNeedAndGetNodeStoragePool_def Let_def
      has_vg_def set_node_def set_vg_def go_map_simps NewNodeStorageState_def split: option.split)

lemma details_initVG [simp]:
  "pvAllocatedDetails (fst (initIfNeedAndGetVGState c m u)) = pvAllocatedDetails c"
  "pvcInfosMap (fst (initIfNeedAndGetVGState c m u)) = pvcInfosMap c"
  "inlineVolumeAllocatedDetails (fst (initIfNeedAndGetVGState c m u)) = inlineVolumeAllocatedDetails c"
  by (simp_all add: initIfNeedAndGetVGState_def initIfNeedAndGetNodeStoragePool_def Let_def
      set_node_def split: option.split)

lemma details_charge_vg [simp]:
  "pvAllocatedDetails (charge_vg m u d c) = pvAllocatedDetails c"
  "pvcInfosMap (charge_vg m u d c) = pvcInfosMap c"
  "inlineVolumeAllocatedDetails (charge_vg m u d c) = inlineVolumeAllocatedDetails c"
  by (simp_all add: charge_vg_def set_node_def split: option.split)

lemma details_set_details [simp]:
  "pvAllocatedDetails (set_details l c) = l" "states (set_details l c) = states c"
  "pvcInfosMap (set_details l c) = pvcInfosMap c"
  "inlineVolumeAllocatedDetails (set_details l c) = inlineVolumeAllocatedDetails c"
  by (simp_all add: set_details_def)

subsection \<open>Details\<close>

lemma details_charge_DeleteByPVC [ledger_simps]:
  "wf_details l \<Longrightarrow> details_charge n v (DeleteByPVC l k) =
     details_charge n v l - entry (lvm_charge n v) (pvcAllocated l) k"
  by (simp add: details_charge_def DeleteByPVC_def wf_details_def total_simps)

lemma details_charge_AssumeByPVC [ledger_simps]:
  "wf_details l \<Longrightarrow> pa_PVCName (GetBasePVAllocated d) \<noteq> [] \<Longrightarrow>
     pa_PVCNamespace (GetBasePVAllocated d) \<noteq> [] \<Longrightarrow>
     details_charge n v (AssumeByPVC l d) =
       details_charge n v l + lvm_charge n v d
       - entry (lvm_charge n v) (pvcAllocated l)
           (GetNameKey (pa_PVCNamespace (GetBasePVAllocated d)) (pa_PVCName (GetBasePVAllocated d)))"
  by (simp add: details_charge_def AssumeByPVC_def Let_def wf_details_def total_simps)

lemma details_charge_AssumeByPVEvent [ledger_simps]:
  "wf_details l \<Longrightarrow> pa_VolumeName (GetBasePVAllocated d) \<noteq> [] \<Longrightarrow>
     details_charge n v (fst (AssumeByPVEvent l d)) =
       details_charge n v l + lvm_charge n v d
       - entry (lvm_charge n v) (pvAllocated l) (pa_VolumeName (GetBasePVAllocated d))"
  by (simp add: details_charge_def AssumeByPVEvent_def Let_def wf_details_def total_simps)

subsection \<open>Inline volumes\<close>

lemma pod_charge_simps [simp]:
  "pod_charge v [] = 0"
  "pod_charge v (d # ds) = (if iv_VgName d = v then iv_VolumeSize d else 0) + pod_charge v ds"
  "pod_charge v (ds @ es) = pod_charge v ds + pod_charge v es"
  by (simp_all add: pod_charge_def)

definition pod_details :: "NodeStorageAllocatedCache \<Rightarrow> string \<Rightarrow> string \<Rightarrow> InlineVolumeAllocated list" where
  "pod_details c n u = (case getPodInlineVolumeDetails c n u of None \<Rightarrow> [] | Some ds \<Rightarrow> ds)"

lemma charged_set_pod_inline [ledger_simps]:
  assumes "wf_cache c"
  shows "charged (set_pod_inline m u ds c) n v =
     charged c n v + (if n = m then pod_charge v ds - pod_charge v (pod_details c m u) else 0)"
  using wf_cache_pods [OF assms, of m]
  by (auto simp: charged_def set_pod_inline_def inline_charge_def go_map_simps total_simps entry_def
      pod_details_def getPodInlineVolumeDetails_def split: option.split)

lemma charged_delete_pod_inline [ledger_simps]:
  assumes "wf_cache c"
  shows "charged (delete_pod_inline m u c) n v =
     charged c n v - (if n = m then pod_charge v (pod_details c m u) else 0)"
  using wf_cache_pods [OF assms, of m]
  by (auto simp: charged_def delete_pod_inline_def inline_charge_def go_map_simps total_simps entry_def
      pod_details_def getPodInlineVolumeDetails_def split: option.split)

section \<open>allocateVgState\<close>

lemma allocateVgState_None_iff:
  "snd (allocateVgState n v s sz) = None \<longleftrightarrow>
     (\<exists>vg. map_of (VGStates s) v = Some vg \<and> \<not> vg_Allocatable vg - vg_Requested vg <s sz)"
  by (simp add: allocateVgState_def Let_def split: option.split)

lemma allocateVgState_ok:
  assumes "allocateVgState n v s sz = (s', None)"
  obtains vg where "map_of (VGStates s) v = Some vg"
    and "\<not> vg_Allocatable vg - vg_Requested vg <s sz" and "s' = set_vg v (add_Requested sz vg) s"
  using assms by (auto simp: allocateVgState_def Let_def split: option.splits if_splits)

lemma allocateVgState_err: "allocateVgState n v s sz = (s', Some e) \<Longrightarrow> s' = s"
  by (auto simp: allocateVgState_def Let_def split: option.splits if_splits)

lemma allocateVgState_requested:
  assumes "allocateVgState n v s sz = (s', err)"
  shows "node_requested s' u = node_requested s u + (if err = None \<and> u = v then sz else 0)"
  using assms by (auto simp: allocateVgState_def Let_def ledger_simps split: option.splits if_splits)

lemma allocateVgState_wf:
  "wf_node s \<Longrightarrow> allocateVgState n v s sz = (s', err) \<Longrightarrow> wf_node s'"
  by (auto simp: allocateVgState_def Let_def wf_node_vg_name split: option.splits if_splits)

lemma set_vg_simps [simp]:
  "DeviceStates (set_vg v vg s) = DeviceStates s" "InitedByNLS (set_vg v vg s) = InitedByNLS s"
  "map_of (VGStates (set_vg v vg s)) u = (if u = v then Some vg else map_of (VGStates s) u)"
  by (simp_all add: set_vg_def go_map_simps)

lemma allocateVgState_frame:
  assumes "allocateVgState n v s sz = (s', err)"
  shows "DeviceStates s' = DeviceStates s" and "InitedByNLS s' = InitedByNLS s"
  using assms by (auto simp: allocateVgState_def Let_def split: option.splits if_splits)

text \<open>A node whose pools are within capacity: no quantity is negative and no pool over-committed.\<close>

definition vg_within :: "VGStoragePool \<Rightarrow> bool" where
  "vg_within vg \<longleftrightarrow> 0 \<le>s vg_Requested vg \<and> vg_Requested vg \<le>s vg_Allocatable vg"

definition node_within :: "NodeStorageState \<Rightarrow> bool" where
  "node_within s \<longleftrightarrow> list_all (\<lambda>(k, vg). vg_within vg) (VGStates s)"

lemma node_within_lookup: "node_within s \<Longrightarrow> map_of (VGStates s) v = Some vg \<Longrightarrow> vg_within vg"
  by (auto simp: node_within_def list_all_iff dest: map_of_SomeD)

lemma vg_within_add:
  assumes "vg_within vg" and "0 \<le>s sz" and "\<not> vg_Allocatable vg - vg_Requested vg <s sz"
  shows "vg_within (add_Requested sz vg)"
    and "sint (vg_Requested (add_Requested sz vg)) = sint (vg_Requested vg) + sint sz"
proof -
  from assms(1) have r: "0 \<le>s vg_Requested vg" and "0 \<le>s vg_Allocatable vg"
    by (auto simp: vg_within_def word_sle_eq)
  from free_guard_keeps_bound [OF this(2) r assms(2,3)]
  show "vg_within (add_Requested sz vg)"
    and "sint (vg_Requested (add_Requested sz vg)) = sint (vg_Requested vg) + sint sz"
    by (simp_all add: vg_within_def)
qed

lemma allocateVgState_within:
  assumes "node_within s" and "0 \<le>s sz" and "allocateVgState n v s sz = (s', err)"
  shows "node_within s'"
proof (cases err)
  case None
  with assms(3) have "allocateVgState n v s sz = (s', None)" by simp
  then obtain vg where vg: "map_of (VGStates s) v = Some vg"
      "\<not> vg_Allocatable vg - vg_Requested vg <s sz" "s' = set_vg v (add_Requested sz vg) s"
    by (rule allocateVgState_ok)
  from node_within_lookup [OF assms(1) vg(1)] assms(2) vg(2)
  have "vg_within (add_Requested sz vg)" by (rule vg_within_add)
  with assms(1) vg(3) show ?thesis
    by (simp add: node_within_def set_vg_def list_all_update)
next
  case (Some e)
  with assms allocateVgState_err show ?thesis by fastforce
qed

end
