(* ===== verification/VG_Strategy.thy ===== *)
theory VG_Strategy
  imports Ledger
begin

text \<open>
  Choosing a volume group for a claim that names none
  (\<open>pkg/scheduling-framework/cache/strategy.go\<close>): the binpack and the spread strategy sort the
  pools of the node by free size, upwards and downwards, and the first pool with enough space
  takes the claim. The Go slice \<open>vgStateList\<close> holds pointers to the pools of the node's map, so it
  is a list of keys of that map here; \<open>pool_at\<close> dereferences a pointer (every key in the list is a
  key of the map). Sorting the slice is in place, and the sorted list is part of the result.
\<close>

section \<open>Sorting the pools\<close>

definition pool_at :: "VGStates \<Rightarrow> string \<Rightarrow> VGStoragePool" where
  "pool_at st k = (case map_of st k of Some vg \<Rightarrow> vg | None \<Rightarrow> NewVGState k)"

definition free_size :: "VGStoragePool \<Rightarrow> int64" where
  "free_size vg = vg_Allocatable vg - vg_Requested vg"

type_synonym vgSortFunc = "VGStates \<Rightarrow> string list \<Rightarrow> string list"

definition binpack_vgSortFunc :: vgSortFunc where
  "binpack_vgSortFunc st ks = sort_Slice (\<lambda>i j. free_size (pool_at st i) <s free_size (pool_at st j)) ks"

definition spread_vgSortFunc :: vgSortFunc where
  "spread_vgSortFunc st ks = sort_Slice (\<lambda>i j. free_size (pool_at st j) <s free_size (pool_at st i)) ks"

definition GetVGScheduleStrategy_sort :: "StrategyType \<Rightarrow> vgSortFunc" where
  "GetVGScheduleStrategy_sort strategy =
     (if strategy = StrategyBinpack then binpack_vgSortFunc
      else if strategy = StrategySpread then spread_vgSortFunc
      else binpack_vgSortFunc)"

section \<open>Allocation\<close>

definition lvm_unit_for :: "string \<Rightarrow> LVMPVCInfo \<Rightarrow> string \<Rightarrow> LVMPVAllocated" where
  "lvm_unit_for nodeName pvcInfo vgName =
     \<lparr>pa_VolumeName = [], pa_PVCName = pvc_Name (li_PVC pvcInfo),
      pa_PVCNamespace = pvc_Namespace (li_PVC pvcInfo), pa_NodeName = nodeName,
      pa_Requested = li_Request pvcInfo, pa_Allocated = li_Request pvcInfo, pa_VGName = vgName\<rparr>"

fun allocate_first_fit ::
  "string \<Rightarrow> LVMPVCInfo \<Rightarrow> string list \<Rightarrow> VGStates \<Rightarrow> (VGStates \<times> LVMPVAllocated) option" where
  "allocate_first_fit nodeName pvcInfo [] st = None"
| "allocate_first_fit nodeName pvcInfo (k # ks) st =
     (let vg = pool_at st k;
          poolFreeSize = vg_Allocatable vg - vg_Requested vg
      in if poolFreeSize <s li_Request pvcInfo then allocate_first_fit nodeName pvcInfo ks st
         else Some (AList.update k (add_Requested (li_Request pvcInfo) vg) st,
                    lvm_unit_for nodeName pvcInfo (vg_Name vg)))"

text \<open>The error message lists the pools; here it keeps their names.\<close>

definition allocatePVCWithoutVgName ::
  "vgSortFunc \<Rightarrow> string \<Rightarrow> string list \<Rightarrow> VGStates \<Rightarrow> LVMPVCInfo \<Rightarrow>
     string list \<times> VGStates \<times> (go_error + LVMPVAllocated)" where
  "allocatePVCWithoutVgName vgSortFunc nodeName vgStateList st pvcInfo =
     (let vgStateList = vgSortFunc st vgStateList
      in case allocate_first_fit nodeName pvcInfo vgStateList st of
           Some (st', unit) \<Rightarrow> (vgStateList, st', Inr unit)
         | None \<Rightarrow>
             (vgStateList, st,
              Inl (Errorf ''allocate for pvc(%s) fail, all vg allocate fail on node(%s): %s''
                     (S (PVCName (li_PVC pvcInfo)) # S nodeName
                      # map (\<lambda>k. S (vg_Name (pool_at st k))) vgStateList))))"

section \<open>The contract of a sort function\<close>

text \<open>
  The allocation uses a sort function only through this contract: the result has the same
  pointers, and no pool stands before one that the strategy prefers.
\<close>

locale vg_sort =
  fixes sortf :: vgSortFunc and prefers :: "int64 \<Rightarrow> int64 \<Rightarrow> bool"
  assumes sort_mset: "mset (sortf st ks) = mset ks"
    and sort_order:
      "sorted_wrt (\<lambda>i j. \<not> prefers (free_size (pool_at st j)) (free_size (pool_at st i))) (sortf st ks)"
begin

lemma sort_set: "set (sortf st ks) = set ks"
  by (metis set_mset_mset sort_mset)

lemma first_fit_best:
  assumes "allocate_first_fit n p ls st = Some (st', u)"
    and "sorted_wrt (\<lambda>i j. \<not> prefers (free_size (pool_at st j)) (free_size (pool_at st i))) ls"
    and irr: "\<And>x. \<not> prefers x x"
  shows "\<exists>k \<in> set ls. st' = AList.update k (add_Requested (li_Request p) (pool_at st k)) st
      \<and> u = lvm_unit_for n p (vg_Name (pool_at st k))
      \<and> \<not> free_size (pool_at st k) <s li_Request p
      \<and> (\<forall>j \<in> set ls. \<not> free_size (pool_at st j) <s li_Request p \<longrightarrow>
            \<not> prefers (free_size (pool_at st j)) (free_size (pool_at st k)))"
  using assms(1,2)
proof (induction ls)
  case (Cons k ls)
  show ?case
  proof (cases "free_size (pool_at st k) <s li_Request p")
    case True
    then have "allocate_first_fit n p ls st = Some (st', u)"
      using Cons.prems(1) by (simp add: Let_def free_size_def)
    from Cons.IH [OF this] Cons.prems(2) True show ?thesis by auto
  next
    case False
    then have "st' = AList.update k (add_Requested (li_Request p) (pool_at st k)) st"
      and "u = lvm_unit_for n p (vg_Name (pool_at st k))"
      using Cons.prems(1) by (auto simp: Let_def free_size_def)
    with False Cons.prems(2) irr show ?thesis by auto
  qed
qed simp

lemma first_fit_none:
  "allocate_first_fit n p ls st = None \<longleftrightarrow> (\<forall>k \<in> set ls. free_size (pool_at st k) <s li_Request p)"
  by (induction ls) (auto simp: Let_def free_size_def)

lemma allocate_best:
  assumes "allocatePVCWithoutVgName sortf n ks st p = (ks', st', Inr u)"
    and irr: "\<And>x. \<not> prefers x x"
  shows "\<exists>k \<in> set ks. st' = AList.update k (add_Requested (li_Request p) (pool_at st k)) st
      \<and> u = lvm_unit_for n p (vg_Name (pool_at st k))
      \<and> \<not> free_size (pool_at st k) <s li_Request p
      \<and> (\<forall>j \<in> set ks. \<not> free_size (pool_at st j) <s li_Request p \<longrightarrow>
            \<not> prefers (free_size (pool_at st j)) (free_size (pool_at st k)))"
proof -
  from assms(1) have "allocate_first_fit n p (sortf st ks) st = Some (st', u)"
    by (auto simp: allocatePVCWithoutVgName_def Let_def split: option.splits)
  from first_fit_best [OF this sort_order irr] show ?thesis
    by (simp add: sort_set)
qed

lemma allocate_fails_iff:
  "(\<exists>e. snd (snd (allocatePVCWithoutVgName sortf n ks st p)) = Inl e) \<longleftrightarrow>
     (\<forall>k \<in> set ks. free_size (pool_at st k) <s li_Request p)"
  using first_fit_none [of n p "sortf st ks" st]
  by (auto simp: allocatePVCWithoutVgName_def Let_def sort_set split: option.split)

end

interpretation binpack_less: go_less "\<lambda>i j. free_size (pool_at st i) <s free_size (pool_at st j)" for st
  by (rule go_less_key)

interpretation spread_less: go_less "\<lambda>i j. free_size (pool_at st j) <s free_size (pool_at st i)" for st
  by (rule go_greater_key)

interpretation binpack_sort: vg_sort binpack_vgSortFunc "\<lambda>x y. x <s y"
  by unfold_locales (simp_all add: binpack_vgSortFunc_def binpack_less.sort_Slice_sorted)

interpretation spread_sort: vg_sort spread_vgSortFunc "\<lambda>x y. y <s x"
  by unfold_locales (simp_all add: spread_vgSortFunc_def spread_less.sort_Slice_sorted)

lemma GetVGScheduleStrategy_sort_cases:
  "GetVGScheduleStrategy_sort s = binpack_vgSortFunc \<or> GetVGScheduleStrategy_sort s = spread_vgSortFunc"
  by (simp add: GetVGScheduleStrategy_sort_def)

section \<open>Consequences for every strategy\<close>

lemma strategy_allocates:
  assumes "allocatePVCWithoutVgName (GetVGScheduleStrategy_sort s) n ks st p = (ks', st', Inr u)"
  obtains k where "k \<in> set ks" and "st' = AList.update k (add_Requested (li_Request p) (pool_at st k)) st"
    and "u = lvm_unit_for n p (vg_Name (pool_at st k))"
    and "\<not> free_size (pool_at st k) <s li_Request p"
  using GetVGScheduleStrategy_sort_cases [of s]
proof
  assume 1: "GetVGScheduleStrategy_sort s = binpack_vgSortFunc"
  from binpack_sort.allocate_best [OF assms [unfolded 1]] that show thesis by auto
next
  assume 2: "GetVGScheduleStrategy_sort s = spread_vgSortFunc"
  from spread_sort.allocate_best [OF assms [unfolded 2]] that show thesis by auto
qed

lemma strategy_keeps_keys:
  "set (fst (allocatePVCWithoutVgName (GetVGScheduleStrategy_sort s) n ks st p)) = set ks"
  using GetVGScheduleStrategy_sort_cases [of s]
  by (elim disjE)
    (simp_all add: allocatePVCWithoutVgName_def Let_def binpack_sort.sort_set spread_sort.sort_set
      split: option.split prod.split)

lemma allocate_error_keeps_pools:
  "allocatePVCWithoutVgName sortf n ks st p = (ks', st', Inl e) \<Longrightarrow> st' = st"
  by (auto simp: allocatePVCWithoutVgName_def Let_def split: option.splits)

section \<open>Properties\<close>

text \<open>Binpack gives a claim without a volume group the tightest pool that can hold it: the pool
  is charged the request, the unit names it, and every other pool that fits has at least as much
  free space.\<close>

theorem binpack_takes_tightest:
  assumes "allocatePVCWithoutVgName (GetVGScheduleStrategy_sort StrategyBinpack) n ks st p = (ks', st', Inr u)"
  shows "\<exists>k \<in> set ks. st' = AList.update k (add_Requested (li_Request p) (pool_at st k)) st
      \<and> u = lvm_unit_for n p (vg_Name (pool_at st k)) \<and> li_Request p \<le>s free_size (pool_at st k)
      \<and> (\<forall>j \<in> set ks. li_Request p \<le>s free_size (pool_at st j) \<longrightarrow>
            free_size (pool_at st k) \<le>s free_size (pool_at st j))"
  using binpack_sort.allocate_best [of n ks st p ks' st' u] assms
  by (simp add: GetVGScheduleStrategy_sort_def word_sle_eq word_sless_alt not_less)

definition ex_pools :: VGStates where
  "ex_pools = [(''g'', \<lparr>vg_Name = ''g'', vg_Total = 9, vg_Allocatable = 9, vg_Requested = 1\<rparr>),
     (''h'', \<lparr>vg_Name = ''h'', vg_Total = 9, vg_Allocatable = 9, vg_Requested = 4\<rparr>),
     (''i'', \<lparr>vg_Name = ''i'', vg_Total = 9, vg_Allocatable = 9, vg_Requested = 7\<rparr>)]"

definition ex_request :: "int64 \<Rightarrow> LVMPVCInfo" where
  "ex_request r = \<lparr>li_VGName = [], li_Request = r,
     li_PVC = \<lparr>pvc_Namespace = ''ns'', pvc_Name = ''p'', pvc_Annotations = [], pvc_StorageClassName = None,
       pvc_VolumeName = [], pvc_Requests = Some r, pvc_Limits = None, pvc_DataSource = None,
       pvc_Phase = ''Pending'', pvc_CreationTimestamp = 0\<rparr>\<rparr>"

abbreviation ex_allocate :: "StrategyType \<Rightarrow> int64 \<Rightarrow> string list \<times> VGStates \<times> (go_error + LVMPVAllocated)" where
  "ex_allocate s r \<equiv> allocatePVCWithoutVgName (GetVGScheduleStrategy_sort s) ''n'' [''g'', ''h'', ''i'']
     ex_pools (ex_request r)"

definition ex_chosen :: "StrategyType \<Rightarrow> int64 \<Rightarrow> string" where
  "ex_chosen s r = (case ex_allocate s r of (_, _, Inr u) \<Rightarrow> pa_VGName u | _ \<Rightarrow> [])"

lemma ex_chosen_unit:
  assumes "ex_chosen s r = v" and "v \<noteq> []"
  obtains ks' st' u where "ex_allocate s r = (ks', st', Inr u)" and "pa_VGName u = v"
  using assms by (auto simp: ex_chosen_def split: prod.splits sum.splits)

lemma binpack_takes_tightest_witness:
  "ex_chosen StrategyBinpack 3 = ''h'' \<and>
   (\<exists>k \<in> set [''g'', ''h'', ''i'']. vg_Name (pool_at ex_pools k) = ''h'' \<and> 3 \<le>s free_size (pool_at ex_pools k))"
proof -
  have h: "ex_chosen StrategyBinpack 3 = ''h''" by code_simp
  then obtain ks' st' u where run: "ex_allocate StrategyBinpack 3 = (ks', st', Inr u)" "pa_VGName u = ''h''"
    by (rule ex_chosen_unit) simp
  from binpack_takes_tightest [OF run(1)] run(2) h show ?thesis
    by (auto simp: lvm_unit_for_def ex_request_def)
qed

text \<open>Spread gives such a claim a pool with the most free space of all.\<close>

theorem spread_takes_roomiest:
  assumes "allocatePVCWithoutVgName (GetVGScheduleStrategy_sort StrategySpread) n ks st p = (ks', st', Inr u)"
  shows "\<exists>k \<in> set ks. st' = AList.update k (add_Requested (li_Request p) (pool_at st k)) st
      \<and> u = lvm_unit_for n p (vg_Name (pool_at st k)) \<and> li_Request p \<le>s free_size (pool_at st k)
      \<and> (\<forall>j \<in> set ks. free_size (pool_at st j) \<le>s free_size (pool_at st k))"
  using spread_sort.allocate_best [of n ks st p ks' st' u] assms
  by (fastforce simp: GetVGScheduleStrategy_sort_def word_sle_eq word_sless_alt not_less)

lemma spread_takes_roomiest_witness:
  "ex_chosen StrategySpread 3 = ''g'' \<and>
   (\<exists>k \<in> set [''g'', ''h'', ''i'']. vg_Name (pool_at ex_pools k) = ''g'' \<and>
      (\<forall>j \<in> set [''g'', ''h'', ''i'']. free_size (pool_at ex_pools j) \<le>s free_size (pool_at ex_pools k)))"
proof -
  have g: "ex_chosen StrategySpread 3 = ''g''" by code_simp
  then obtain ks' st' u where run: "ex_allocate StrategySpread 3 = (ks', st', Inr u)" "pa_VGName u = ''g''"
    by (rule ex_chosen_unit) simp
  from spread_takes_roomiest [OF run(1)] run(2) g show ?thesis
    by (auto simp: lvm_unit_for_def)
qed

text \<open>Whatever the strategy, the allocation fails exactly when no pool has the space.\<close>

theorem strategy_fails_iff:
  "(\<exists>e. snd (snd (allocatePVCWithoutVgName (GetVGScheduleStrategy_sort s) n ks st p)) = Inl e) \<longleftrightarrow>
     (\<forall>k \<in> set ks. free_size (pool_at st k) <s li_Request p)"
  using GetVGScheduleStrategy_sort_cases [of s] binpack_sort.allocate_fails_iff [of n ks st p]
    spread_sort.allocate_fails_iff [of n ks st p]
  by auto

lemma strategy_fails_iff_witness:
  "\<exists>e. snd (snd (ex_allocate StrategySpread 9)) = Inl e"
proof -
  have "\<forall>k \<in> set [''g'', ''h'', ''i'']. free_size (pool_at ex_pools k) <s li_Request (ex_request 9)"
    by code_simp
  then show ?thesis
    using strategy_fails_iff [of StrategySpread "''n''" "[''g'', ''h'', ''i'']" ex_pools "ex_request 9"] by blast
qed

end
