(* ===== verification/Allocator_Interface.thy ===== *)
theory Allocator_Interface
  imports Ledger
begin

text \<open>
  The contract behind Go's interface \<open>PVPVCAllocator\<close>
  (\<open>pkg/scheduling-framework/cache/allocator.go\<close>), in two parts like the interface itself:
  \<open>schedule_allocator\<close> for \<open>PVCScheduleAllocator\<close> (what \<open>Reserve\<close> and \<open>Unreserve\<close> of the cache
  rely on) and \<open>event_allocator\<close> for \<open>PVPVCEventAllocator\<close> (what the informer events rely on).
  The LVM, the device and the snapshot allocator interpret both in their own theories.
\<close>

section \<open>Scheduling\<close>

text \<open>
  \<open>ok n us\<close> says that the units were made for node \<open>n\<close>, \<open>held c n us\<close> that what the cache holds
  for the claims of the units was reserved on \<open>n\<close>.
\<close>

locale schedule_allocator =
  fixes reserve :: "NodeStorageAllocatedCache \<Rightarrow> string \<Rightarrow> NodeAllocateUnits \<Rightarrow>
      (NodeStorageAllocatedCache \<times> NodeAllocateUnits \<times> go_error option) option"
    and unreserve :: "NodeStorageAllocatedCache \<Rightarrow> string \<Rightarrow> NodeAllocateUnits \<Rightarrow>
      NodeStorageAllocatedCache \<times> NodeAllocateUnits"
    and ok :: "string \<Rightarrow> NodeAllocateUnits \<Rightarrow> bool"
    and held :: "NodeStorageAllocatedCache \<Rightarrow> string \<Rightarrow> NodeAllocateUnits \<Rightarrow> bool"
  assumes reserve_total: "map_of (states c) n \<noteq> None \<Longrightarrow> reserve c n us \<noteq> None"
    and reserve_wf: "reserve c n us = Some (c', us', err) \<Longrightarrow> wf_cache c \<Longrightarrow> wf_cache c'"
    and reserve_gap: "reserve c n us = Some (c', us', err) \<Longrightarrow> wf_cache c \<Longrightarrow> ok n us \<Longrightarrow>
      gap c' m v = gap c m v"
    and reserve_nodes: "reserve c n us = Some (c', us', err) \<Longrightarrow>
      (map_of (states c') m = None) = (map_of (states c) m = None)"
    and reserve_inline: "reserve c n us = Some (c', us', err) \<Longrightarrow>
      InlineVolumeAllocateUnits us' = InlineVolumeAllocateUnits us"
    and unreserve_wf: "wf_cache c \<Longrightarrow> wf_cache (fst (unreserve c n us))"
    and unreserve_gap: "wf_cache c \<Longrightarrow> held c n us \<Longrightarrow> gap (fst (unreserve c n us)) m v = gap c m v"
begin

lemma reserve_returns:
  assumes "map_of (states c) n \<noteq> None"
  obtains c' us' err where "reserve c n us = Some (c', us', err)"
    and "map_of (states c') n \<noteq> None"
proof -
  from reserve_total [OF assms, of us] obtain r where r: "reserve c n us = Some r" by auto
  obtain c' us' err where "r = (c', us', err)" by (cases r) auto
  with r have eq: "reserve c n us = Some (c', us', err)" by simp
  from reserve_nodes [OF eq, of n] assms show thesis
    by (intro that [OF eq]) simp
qed

lemma reserve_unreserve_gap:
  assumes "reserve c n us = Some (c', us', err)" and "wf_cache c" and "ok n us" and "held c' n us'"
  shows "gap (fst (unreserve c' n us')) m v = gap c m v"
proof -
  from reserve_wf [OF assms(1,2)] assms(4)
  have "gap (fst (unreserve c' n us')) m v = gap c' m v"
    by (rule unreserve_gap)
  also have "\<dots> = gap c m v"
    using assms(1-3) by (rule reserve_gap)
  finally show ?thesis .
qed

end

section \<open>Events\<close>

locale event_allocator =
  fixes pvcAdd :: "NodeStorageAllocatedCache \<Rightarrow> string \<Rightarrow> PersistentVolumeClaim \<Rightarrow> string \<Rightarrow>
      NodeStorageAllocatedCache"
    and pvAdd :: "kube \<Rightarrow> NodeStorageAllocatedCache \<Rightarrow> string \<Rightarrow> PersistentVolume \<Rightarrow>
      NodeStorageAllocatedCache option"
    and pvDelete :: "kube \<Rightarrow> NodeStorageAllocatedCache \<Rightarrow> string \<Rightarrow> PersistentVolume \<Rightarrow>
      NodeStorageAllocatedCache"
  assumes pvcAdd_wf: "wf_cache c \<Longrightarrow> wf_cache (pvcAdd c n pvc v)"
    and pvAdd_wf: "wf_cache c \<Longrightarrow> pvAdd K c n pv = Some c' \<Longrightarrow> wf_cache c'"
    and pvDelete_wf: "wf_cache c \<Longrightarrow> wf_cache (pvDelete K c n pv)"
    and pvcAdd_infos: "pvcInfosMap (pvcAdd c n pvc v) = pvcInfosMap c"
begin

text \<open>A claim event after a volume event, the two halves of a binding in either order.\<close>

lemma pv_then_pvc_wf: "wf_cache c \<Longrightarrow> pvAdd K c n pv = Some c' \<Longrightarrow> wf_cache (pvcAdd c' m pvc v)"
  by (rule pvcAdd_wf) (rule pvAdd_wf)

lemma pvc_then_pv_wf: "wf_cache c \<Longrightarrow> pvAdd K (pvcAdd c m pvc v) n pv = Some c' \<Longrightarrow> wf_cache c'"
  by (rule pvAdd_wf [OF pvcAdd_wf])

lemma pv_cycle_wf: "wf_cache c \<Longrightarrow> pvAdd K c n pv = Some c' \<Longrightarrow> wf_cache (pvDelete K c' n pv)"
  by (rule pvDelete_wf) (rule pvAdd_wf)

end

end
