(* ===== verification/Lvm_Allocator.thy ===== *)
theory Lvm_Allocator
  imports VG_Strategy Allocator_Interface
begin

text \<open>
  The LVM allocator, \<open>pkg/scheduling-framework/cache/lvm_common_volume.go\<close>, and the allocator of
  read-only snapshots, \<open>lvm_snapshot_volume.go\<close>. A method that can dereference nil or fail a
  type assertion returns an option whose \<open>None\<close> is the panic. \<open>reserve\<close> and \<open>unreserve\<close> write
  the sizes into the units they are given, so the units are part of their result.
\<close>

section \<open>Reverting what the scheduler reserved for a claim\<close>

definition lvm_revertIfNeed ::
  "NodeStorageAllocatedCache \<Rightarrow> string \<Rightarrow> string \<Rightarrow> string \<Rightarrow> NodeStorageAllocatedCache" where
  "lvm_revertIfNeed c nodeName pvcNameSpace pvcName =
     (if pvcNameSpace = [] \<and> pvcName = [] then c
      else (case GetByPVC (pvAllocatedDetails c) pvcNameSpace pvcName of
              None \<Rightarrow> c
            | Some (DeviceDetail _) \<Rightarrow> c
            | Some (LVMDetail lvmAllocated) \<Rightarrow>
                if pa_VGName lvmAllocated = [] \<or> pa_Allocated lvmAllocated \<le>s 0 then c
                else (case map_of (states c) nodeName of
                        None \<Rightarrow> c
                      | Some nodeState \<Rightarrow>
                          if \<not> InitedByNLS nodeState then c
                          else if length (VGStates nodeState) \<le> 0 then c
                          else (case map_of (VGStates nodeState) (pa_VGName lvmAllocated) of
                                  None \<Rightarrow> c
                                | Some vgState \<Rightarrow>
                                    (let c = set_node nodeName
                                               (set_vg (pa_VGName lvmAllocated)
                                                 (add_Requested (- pa_Allocated lvmAllocated) vgState)
                                                 nodeState) c
                                     in set_details
                                          (DeleteByPVC (pvAllocatedDetails c) (GetNameKey pvcNameSpace pvcName))
                                          c)))))"

definition updateVGRequestByDelta ::
  "NodeStorageAllocatedCache \<Rightarrow> string \<Rightarrow> string \<Rightarrow> int64 \<Rightarrow> NodeStorageAllocatedCache" where
  "updateVGRequestByDelta c nodeName vgName delta =
     (let (c, nodeStoragePool) =
            (case map_of (states c) nodeName of
               Some s \<Rightarrow> (c, s)
             | None \<Rightarrow> (set_node nodeName NewNodeStorageState c, NewNodeStorageState));
          nodeStoragePool =
            (if map_of (VGStates nodeStoragePool) vgName = None
             then set_vg vgName (NewVGState vgName) nodeStoragePool else nodeStoragePool)
      in case map_of (VGStates nodeStoragePool) vgName of
           Some vgState \<Rightarrow> set_node nodeName (set_vg vgName (add_Requested delta vgState) nodeStoragePool) c
         | None \<Rightarrow> set_node nodeName nodeStoragePool c)"

section \<open>Events\<close>

text \<open>The write to \<open>Requested\<close> through the pointer that \<open>GetByPVC\<close> returned.\<close>

definition update_pvc_request ::
  "NodeStorageAllocatedCache \<Rightarrow> PersistentVolumeClaim \<Rightarrow> NodeStorageAllocatedCache" where
  "update_pvc_request c pvc =
     (case GetByPVC (pvAllocatedDetails c) (pvc_Namespace pvc) (pvc_Name pvc) of
        None \<Rightarrow> c
      | Some oldPVCDetail \<Rightarrow>
          set_details
            (pvAllocatedDetails c\<lparr>pvcAllocated :=
               AList.update (GetNameKey (pvc_Namespace pvc) (pvc_Name pvc))
                 (set_Requested (GetPVCRequested pvc) oldPVCDetail)
                 (pvcAllocated (pvAllocatedDetails c))\<rparr>) c)"

definition lvm_pvcAdd ::
  "NodeStorageAllocatedCache \<Rightarrow> string \<Rightarrow> PersistentVolumeClaim \<Rightarrow> string \<Rightarrow> NodeStorageAllocatedCache" where
  "lvm_pvcAdd c nodeName pvc volumeName =
     (if pvc_Phase pvc \<noteq> ClaimBound then c
      else
        (let c = update_pvc_request c pvc
         in case GetByPV (pvAllocatedDetails c) volumeName of
              None \<Rightarrow> c
            | Some oldPVDetail \<Rightarrow>
                (let maxRequest = GetPVCRequested pvc;
                     maxRequest = (if maxRequest <s pa_Requested (GetBasePVAllocated oldPVDetail)
                                   then pa_Requested (GetBasePVAllocated oldPVDetail) else maxRequest);
                     deltaAllocate = maxRequest - pa_Allocated (GetBasePVAllocated oldPVDetail)
                 in if deltaAllocate \<le>s 0 then c
                    else (case oldPVDetail of
                            DeviceDetail _ \<Rightarrow> c
                          | LVMDetail lvmAllocated \<Rightarrow>
                              (let (c, vgState, initedByNLS) =
                                     initIfNeedAndGetVGState c nodeName (pa_VGName lvmAllocated);
                                   c = charge_vg nodeName (pa_VGName lvmAllocated) deltaAllocate c
                               in set_details
                                    (fst (AssumeAllocateSizeToPVDetail (pvAllocatedDetails c) volumeName maxRequest))
                                    c)))))"

definition lvm_pvcUpdate ::
  "NodeStorageAllocatedCache \<Rightarrow> string \<Rightarrow> PersistentVolumeClaim \<Rightarrow> string \<Rightarrow> NodeStorageAllocatedCache" where
  "lvm_pvcUpdate c nodeName newPVC volumeName = lvm_pvcAdd c nodeName newPVC volumeName"

text \<open>
  The volume group of a volume: from the volume itself, or from the detail of the claim it is
  bound to. \<open>Some None\<close> is the early return, \<open>None\<close> the panic of the unchecked type assertion.
\<close>

definition lvm_pvAdd_vgName ::
  "kube \<Rightarrow> NodeStorageAllocatedCache \<Rightarrow> PersistentVolume \<Rightarrow> string option option" where
  "lvm_pvAdd_vgName K c pv =
     (let vgName = GetVGNameFromCsiPV K pv
      in if vgName \<noteq> [] then Some (Some vgName)
         else if pv_Phase pv = VolumeBound then
           (let (pvcName, pvcNamespace) = PVCNameFromPV pv
            in if pvcName = [] then Some None
               else (case GetByPVC (pvAllocatedDetails c) pvcNamespace pvcName of
                       None \<Rightarrow> Some None
                     | Some (DeviceDetail _) \<Rightarrow> None
                     | Some (LVMDetail lvmDetail) \<Rightarrow>
                         if pa_VGName lvmDetail = [] then Some None
                         else Some (Some (pa_VGName lvmDetail))))
         else Some None)"

definition lvm_pvAdd ::
  "kube \<Rightarrow> NodeStorageAllocatedCache \<Rightarrow> string \<Rightarrow> PersistentVolume \<Rightarrow> NodeStorageAllocatedCache option" where
  "lvm_pvAdd K c nodeName pv =
     (if pv_Phase pv = VolumePending then Some c
      else (case lvm_pvAdd_vgName K c pv of
              None \<Rightarrow> None
            | Some None \<Rightarrow> Some c
            | Some (Some vgName) \<Rightarrow>
                (let new = NewLVMPVAllocatedFromPV pv vgName nodeName;
                     pvcRequest = getRequestFromPVCInfos c pv;
                     maxRequest = pvcRequest;
                     maxRequest = (if maxRequest <s pa_Requested new then pa_Requested new else maxRequest);
                     deltaAllocate = (case GetByPV (pvAllocatedDetails c) (pv_Name pv) of
                                        None \<Rightarrow> maxRequest
                                      | Some old \<Rightarrow> maxRequest - pa_Allocated (GetBasePVAllocated old));
                     (c, vgState, initedByNLS) = initIfNeedAndGetVGState c nodeName vgName;
                     c = lvm_revertIfNeed c nodeName (pa_PVCNamespace new) (pa_PVCName new)
                 in if deltaAllocate = 0 then Some c
                    else
                      (let c = charge_vg nodeName vgName deltaAllocate c;
                           new = new\<lparr>pa_Allocated := maxRequest\<rparr>
                       in Some (set_details (fst (AssumeByPVEvent (pvAllocatedDetails c) (LVMDetail new))) c)))))"

definition lvm_pvUpdate ::
  "kube \<Rightarrow> NodeStorageAllocatedCache \<Rightarrow> string \<Rightarrow> PersistentVolume \<Rightarrow> NodeStorageAllocatedCache option" where
  "lvm_pvUpdate K c nodeName newPV = lvm_pvAdd K c nodeName newPV"

definition lvm_pvDelete ::
  "kube \<Rightarrow> NodeStorageAllocatedCache \<Rightarrow> string \<Rightarrow> PersistentVolume \<Rightarrow> NodeStorageAllocatedCache" where
  "lvm_pvDelete K c nodeName pv =
     (let vgName = GetVGNameFromCsiPV K pv
      in if vgName = [] then c
         else (case GetByPV (pvAllocatedDetails c) (pv_Name pv) of
                 None \<Rightarrow> c
               | Some old \<Rightarrow>
                   (let c = updateVGRequestByDelta c nodeName vgName
                              (- pa_Allocated (GetBasePVAllocated old))
                    in set_details (DeleteByPV (pvAllocatedDetails c) (Some old)) c)))"

section \<open>Scheduling\<close>

definition lvm_prefilter ::
  "kube \<Rightarrow> NodeStorageAllocatedCache \<Rightarrow> PersistentVolumeClaim \<Rightarrow> PodLocalVolumeInfo \<Rightarrow>
     PodLocalVolumeInfo \<times> go_error option" where
  "lvm_prefilter K c lvmPVC podVolumeInfos =
     (if GetPVCAllocatedDetailCopy c (pvc_Namespace lvmPVC) (pvc_Name lvmPVC) \<noteq> None
      then (podVolumeInfos, None)
      else (case GetVGNameFromPVC K lvmPVC of
              Inl err \<Rightarrow>
                (podVolumeInfos, Some (Errorf ''get VGName from PVC(%s) error: %s'' [S (PVCName lvmPVC), E err]))
            | Inr vgName \<Rightarrow>
                (let lvmPVCInfo = \<lparr>li_VGName = vgName, li_Request = GetPVCRequested lvmPVC, li_PVC = lvmPVC\<rparr>;
                     infos = (case LVMPVCsNotROSnapshot podVolumeInfos of
                                None \<Rightarrow> NewLVMCommonPVCInfos | Some i \<Rightarrow> i);
                     infos = (if li_VGName lvmPVCInfo = []
                              then infos\<lparr>LVMPVCsWithoutVgNameNotAllocated :=
                                     LVMPVCsWithoutVgNameNotAllocated infos @ [lvmPVCInfo]\<rparr>
                              else infos\<lparr>LVMPVCsWithVgNameNotAllocated :=
                                     LVMPVCsWithVgNameNotAllocated infos @ [lvmPVCInfo]\<rparr>)
                 in (podVolumeInfos\<lparr>LVMPVCsNotROSnapshot := Some infos\<rparr>, None))))"

fun preAllocate_named ::
  "string \<Rightarrow> LVMPVCInfo list \<Rightarrow> NodeStorageState \<Rightarrow> LVMPVAllocated list \<Rightarrow>
     NodeStorageState \<times> LVMPVAllocated list \<times> go_error option" where
  "preAllocate_named nodeName [] s units = (s, units, None)"
| "preAllocate_named nodeName (pvcInfo # infos) s units =
     (case allocateVgState nodeName (li_VGName pvcInfo) s (li_Request pvcInfo) of
        (s', Some err) \<Rightarrow> (s', units, Some err)
      | (s', None) \<Rightarrow>
          preAllocate_named nodeName infos s' (units @ [lvm_unit_for nodeName pvcInfo (li_VGName pvcInfo)]))"

fun preAllocate_unnamed ::
  "vgSortFunc \<Rightarrow> string \<Rightarrow> LVMPVCInfo list \<Rightarrow> string list \<Rightarrow> NodeStorageState \<Rightarrow> LVMPVAllocated list \<Rightarrow>
     NodeStorageState \<times> LVMPVAllocated list \<times> go_error option" where
  "preAllocate_unnamed sortf nodeName [] vgStateList s units = (s, units, None)"
| "preAllocate_unnamed sortf nodeName (pvcInfo # infos) vgStateList s units =
     (case allocatePVCWithoutVgName sortf nodeName vgStateList (VGStates s) pvcInfo of
        (vgStateList', st', Inl err) \<Rightarrow> (s\<lparr>VGStates := st'\<rparr>, units, Some err)
      | (vgStateList', st', Inr unit) \<Rightarrow>
          preAllocate_unnamed sortf nodeName infos vgStateList' (s\<lparr>VGStates := st'\<rparr>) (units @ [unit]))"

text \<open>The clone of the node's state is changed in place: it is the first component.\<close>

definition lvm_preAllocate ::
  "range_order \<Rightarrow> StrategyType \<Rightarrow> string \<Rightarrow> PodLocalVolumeInfo \<Rightarrow> NodeStorageState \<Rightarrow>
     NodeStorageState \<times> LVMPVAllocated list \<times> go_error option" where
  "lvm_preAllocate ord strategy nodeName podVolumeInfos nodeStateClone =
     (case LVMPVCsNotROSnapshot podVolumeInfos of
        None \<Rightarrow> (nodeStateClone, [], None)
      | Some infos \<Rightarrow>
          if \<not> lvm_HaveLocalVolumes (Some infos) then (nodeStateClone, [], None)
          else if length (VGStates nodeStateClone) \<le> 0
          then (nodeStateClone, [], Some (Errorf ''no vg found with node %s'' [S nodeName]))
          else (case preAllocate_named nodeName (LVMPVCsWithVgNameNotAllocated infos) nodeStateClone [] of
                  (s, units, Some err) \<Rightarrow> (s, units, Some err)
                | (s, units, None) \<Rightarrow>
                    if length (LVMPVCsWithoutVgNameNotAllocated infos) \<le> 0 then (s, units, None)
                    else preAllocate_unnamed (GetVGScheduleStrategy_sort strategy) nodeName
                           (LVMPVCsWithoutVgNameNotAllocated infos) (ord (map fst (VGStates s))) s units))"

definition lvm_allocateInfo :: "PVAllocated \<Rightarrow> PVCAllocateInfo option" where
  "lvm_allocateInfo detail =
     (case detail of
        DeviceDetail _ \<Rightarrow> None
      | LVMDetail allocateDetail \<Rightarrow>
          if pa_VGName allocateDetail \<noteq> [] \<and> 0 <s pa_Allocated allocateDetail
          then Some \<lparr>pai_PVCName = pa_PVCName allocateDetail,
                     pai_PVCNameSpace = pa_PVCNamespace allocateDetail,
                     pai_PVAllocatedInfo = \<lparr>ai_VGName = pa_VGName allocateDetail, ai_DeviceName = [],
                                            ai_VolumeType = VolumeTypeLVM\<rparr>\<rparr>
          else None)"

definition lvm_isPVHaveAllocateInfo :: "kube \<Rightarrow> PersistentVolume \<Rightarrow> bool" where
  "lvm_isPVHaveAllocateInfo K pv \<longleftrightarrow> GetVGNameFromCsiPV K pv \<noteq> []"

fun lvm_reserve_loop ::
  "string \<Rightarrow> NodeStorageAllocatedCache \<Rightarrow> LVMPVAllocated list \<Rightarrow>
     (NodeStorageAllocatedCache \<times> LVMPVAllocated list \<times> go_error option) option" where
  "lvm_reserve_loop nodeName c [] = Some (c, [], None)"
| "lvm_reserve_loop nodeName c (unit # units) =
     (let key = GetNameKey (pa_PVCNamespace unit) (pa_PVCName unit);
          skip = map_option (\<lambda>(c', us, err). (c', unit # us, err)) (lvm_reserve_loop nodeName c units)
      in if GetByPVC (pvAllocatedDetails c) (pa_PVCNamespace unit) (pa_PVCName unit) \<noteq> None then skip
         else if (case map_of (pvcInfosMap c) key of Some pvcInfo \<Rightarrow> pi_PVCStatus pvcInfo = ClaimBound | None \<Rightarrow> False)
         then skip
         else (case map_of (states c) nodeName of
                 None \<Rightarrow> None
               | Some currentStorageState \<Rightarrow>
                   (case map_of (VGStates currentStorageState) (pa_VGName unit) of
                      None \<Rightarrow>
                        Some (c, unit # units,
                              Some (Errorf ''reserveLVMPVC fail, volumeGroup(%s) have not found for pvc(%s) on node %s''
                                      [S (pa_VGName unit), S key, S nodeName]))
                    | Some vgState \<Rightarrow>
                        if vg_Allocatable vgState <s vg_Requested vgState + pa_Requested unit
                        then Some (c, unit # units,
                                   Some (Errorf ''reserveLVMPVC fail, volumeGroup(%s) have not enough space for pvc(%s) on node %s''
                                           [S (pa_VGName unit), S key, S nodeName]))
                        else
                          (let c = set_node nodeName
                                     (set_vg (pa_VGName unit) (add_Requested (pa_Requested unit) vgState)
                                       currentStorageState) c;
                               unit = unit\<lparr>pa_Allocated := pa_Requested unit\<rparr>;
                               c = set_details (AssumeByPVC (pvAllocatedDetails c) (LVMDetail unit)) c
                           in map_option (\<lambda>(c', us, err). (c', unit # us, err))
                                (lvm_reserve_loop nodeName c units)))))"

definition lvm_reserve ::
  "NodeStorageAllocatedCache \<Rightarrow> string \<Rightarrow> NodeAllocateUnits \<Rightarrow>
     (NodeStorageAllocatedCache \<times> NodeAllocateUnits \<times> go_error option) option" where
  "lvm_reserve c nodeName nodeUnits =
     (if length (LVMPVCAllocateUnits nodeUnits) = 0 then Some (c, nodeUnits, None)
      else map_option (\<lambda>(c', us, err). (c', nodeUnits\<lparr>LVMPVCAllocateUnits := us\<rparr>, err))
             (lvm_reserve_loop nodeName c (LVMPVCAllocateUnits nodeUnits)))"

fun lvm_unreserve_loop ::
  "string \<Rightarrow> NodeStorageAllocatedCache \<Rightarrow> LVMPVAllocated list \<Rightarrow>
     NodeStorageAllocatedCache \<times> LVMPVAllocated list" where
  "lvm_unreserve_loop nodeName c [] = (c, [])"
| "lvm_unreserve_loop nodeName c (unit # units) =
     (if pa_Allocated unit = 0
      then (let (c', us) = lvm_unreserve_loop nodeName c units in (c', unit # us))
      else
        (let c = lvm_revertIfNeed c nodeName (pa_PVCNamespace unit) (pa_PVCName unit);
             unit = unit\<lparr>pa_Allocated := 0\<rparr>;
             (c', us) = lvm_unreserve_loop nodeName c units
         in (c', unit # us)))"

definition lvm_unreserve ::
  "NodeStorageAllocatedCache \<Rightarrow> string \<Rightarrow> NodeAllocateUnits \<Rightarrow> NodeStorageAllocatedCache \<times> NodeAllocateUnits" where
  "lvm_unreserve c nodeName units =
     (if length (LVMPVCAllocateUnits units) = 0 then (c, units)
      else (let (c', us) = lvm_unreserve_loop nodeName c (LVMPVCAllocateUnits units)
            in (c', units\<lparr>LVMPVCAllocateUnits := us\<rparr>)))"

section \<open>The allocator of read-only snapshots\<close>

definition snapshot_pvcAdd ::
  "NodeStorageAllocatedCache \<Rightarrow> string \<Rightarrow> PersistentVolumeClaim \<Rightarrow> string \<Rightarrow> NodeStorageAllocatedCache" where
  "snapshot_pvcAdd c nodeName pvc volumeName = c"

definition snapshot_pvAdd ::
  "kube \<Rightarrow> NodeStorageAllocatedCache \<Rightarrow> string \<Rightarrow> PersistentVolume \<Rightarrow> NodeStorageAllocatedCache option" where
  "snapshot_pvAdd K c nodeName pv = Some c"

definition snapshot_pvDelete ::
  "kube \<Rightarrow> NodeStorageAllocatedCache \<Rightarrow> string \<Rightarrow> PersistentVolume \<Rightarrow> NodeStorageAllocatedCache" where
  "snapshot_pvDelete K c nodeName pv = c"

definition snapshot_prefilter ::
  "kube \<Rightarrow> PersistentVolumeClaim \<Rightarrow> PodLocalVolumeInfo \<Rightarrow>
     (PodLocalVolumeInfo \<times> go_error option) option" where
  "snapshot_prefilter K snapshotLocalPVC podVolumeInfos =
     (case IsReadOnlySnapshotPVC2 K snapshotLocalPVC of
        None \<Rightarrow> None
      | Some False \<Rightarrow> Some (podVolumeInfos, None)
      | Some True \<Rightarrow>
          (let lvmPVCInfo = \<lparr>li_VGName = [], li_Request = GetPVCRequested snapshotLocalPVC,
                             li_PVC = snapshotLocalPVC\<rparr>
           in Some (podVolumeInfos\<lparr>LVMPVCsROSnapshot := LVMPVCsROSnapshot podVolumeInfos @ [lvmPVCInfo]\<rparr>,
                    None)))"

definition snapshot_reserve ::
  "NodeStorageAllocatedCache \<Rightarrow> string \<Rightarrow> NodeAllocateUnits \<Rightarrow>
     (NodeStorageAllocatedCache \<times> NodeAllocateUnits \<times> go_error option) option" where
  "snapshot_reserve c nodeName units = Some (c, units, None)"

definition snapshot_unreserve ::
  "NodeStorageAllocatedCache \<Rightarrow> string \<Rightarrow> NodeAllocateUnits \<Rightarrow> NodeStorageAllocatedCache \<times> NodeAllocateUnits" where
  "snapshot_unreserve c nodeName units = (c, units)"

definition snapshot_allocateInfo :: "PVAllocated \<Rightarrow> PVCAllocateInfo option" where
  "snapshot_allocateInfo detail = None"

definition snapshot_isPVHaveAllocateInfo :: "PersistentVolume \<Rightarrow> bool" where
  "snapshot_isPVHaveAllocateInfo pv = True"


section \<open>Facts\<close>

lemma lvm_charge_LVM [simp]:
  "lvm_charge n v (LVMDetail l) = (if pa_NodeName l = n \<and> pa_VGName l = v then pa_Allocated l else 0)"
  by simp

text \<open>What a claim was reserved on the node \<open>n\<close>, or nothing was reserved for it.\<close>

definition pvc_on_node :: "string \<Rightarrow> NodeStorageAllocatedCache \<Rightarrow> string \<Rightarrow> string \<Rightarrow> bool" where
  "pvc_on_node n c ns name \<longleftrightarrow>
     (case GetByPVC (pvAllocatedDetails c) ns name of
        None \<Rightarrow> True
      | Some d \<Rightarrow> pa_NodeName (GetBasePVAllocated d) = n)"

text \<open>\<open>revertIfNeed\<close> either does nothing or takes a reservation back as a whole.\<close>

lemma lvm_revertIfNeed_cases:
  obtains (same) "lvm_revertIfNeed c n ns name = c"
  | (reverted) l s vg where
      "GetByPVC (pvAllocatedDetails c) ns name = Some (LVMDetail l)"
      "map_of (states c) n = Some s" "map_of (VGStates s) (pa_VGName l) = Some vg"
      "0 <s pa_Allocated l"
      "lvm_revertIfNeed c n ns name =
         set_details (DeleteByPVC (pvAllocatedDetails c) (GetNameKey ns name))
           (charge_vg n (pa_VGName l) (- pa_Allocated l) c)"
proof (cases "lvm_revertIfNeed c n ns name = c")
  case False
  then obtain l s vg where l: "GetByPVC (pvAllocatedDetails c) ns name = Some (LVMDetail l)"
      "map_of (states c) n = Some s" "map_of (VGStates s) (pa_VGName l) = Some vg"
      "\<not> pa_Allocated l \<le>s 0" "pa_VGName l \<noteq> []" "InitedByNLS s" "ns \<noteq> [] \<or> name \<noteq> []"
    by (auto simp: lvm_revertIfNeed_def split: option.splits PVAllocated.splits if_splits)
  then have "lvm_revertIfNeed c n ns name =
      set_details (DeleteByPVC (pvAllocatedDetails c) (GetNameKey ns name))
        (charge_vg n (pa_VGName l) (- pa_Allocated l) c)"
    by (auto simp: lvm_revertIfNeed_def charge_vg_def Let_def set_node_def)
  moreover have "0 <s pa_Allocated l"
    using l(4) by (simp add: word_sle_eq word_sless_alt)
  ultimately show thesis using l(1-3) by (intro reverted)
qed (rule same)

lemma wf_cache_lvm_revertIfNeed [simp]: "wf_cache c \<Longrightarrow> wf_cache (lvm_revertIfNeed c n ns name)"
  by (cases rule: lvm_revertIfNeed_cases [of c n ns name]) (simp_all add: wf_cacheD)

lemma gap_lvm_revertIfNeed:
  assumes "wf_cache c" and "pvc_on_node n c ns name"
  shows "gap (lvm_revertIfNeed c n ns name) m v = gap c m v"
proof (cases rule: lvm_revertIfNeed_cases [of c n ns name])
  case (reverted l s vg)
  then have "entry (lvm_charge m v) (pvcAllocated (pvAllocatedDetails c)) (GetNameKey ns name) =
      (if m = n \<and> v = pa_VGName l then pa_Allocated l else 0)" and "has_vg c n (pa_VGName l)"
    using assms(2) by (auto simp: entry_def GetByPVC_def pvc_on_node_def has_vg_def)
  with reverted(5) wf_cacheD(3) [OF assms(1)] show ?thesis
    by (simp add: gap_def ledger_simps)
qed simp

lemma lvm_revertIfNeed_frame [simp]:
  "pvAllocated (pvAllocatedDetails (lvm_revertIfNeed c n ns name)) = pvAllocated (pvAllocatedDetails c)"
  "inlineVolumeAllocatedDetails (lvm_revertIfNeed c n ns name) = inlineVolumeAllocatedDetails c"
  "pvcInfosMap (lvm_revertIfNeed c n ns name) = pvcInfosMap c"
  "has_vg (lvm_revertIfNeed c n ns name) m v = has_vg c m v"
  by (cases rule: lvm_revertIfNeed_cases [of c n ns name]; simp add: DeleteByPVC_def)+

lemma pvc_on_node_revertIfNeed:
  "pvc_on_node m c ns' name' \<Longrightarrow> pvc_on_node m (lvm_revertIfNeed c n ns name) ns' name'"
  by (cases rule: lvm_revertIfNeed_cases [of c n ns name])
    (auto simp: pvc_on_node_def GetByPVC_def DeleteByPVC_def go_map_simps)

subsection \<open>updateVGRequestByDelta\<close>

lemma requested_updateVGRequestByDelta [ledger_simps]:
  "requested (updateVGRequestByDelta c m u d) n v = requested c n v + (if n = m \<and> v = u then d else 0)"
  by (auto simp: updateVGRequestByDelta_def Let_def ledger_simps requested_def [of c]
      NewNodeStorageState_def split: option.split)

lemma charged_updateVGRequestByDelta [ledger_simps]:
  "charged (updateVGRequestByDelta c m u d) n v = charged c n v"
  by (auto simp: updateVGRequestByDelta_def Let_def ledger_simps split: option.split)

lemma details_updateVGRequestByDelta [simp]:
  "pvAllocatedDetails (updateVGRequestByDelta c m u d) = pvAllocatedDetails c"
  by (auto simp: updateVGRequestByDelta_def Let_def set_node_def split: option.split)

lemma wf_updateVGRequestByDelta [simp]: "wf_cache c \<Longrightarrow> wf_cache (updateVGRequestByDelta c m u d)"
  by (auto simp: updateVGRequestByDelta_def Let_def NewNodeStorageState_def [THEN arg_cong, of VGStates]
      split: option.split intro!: wf_cache_set_node wf_node_set_vg
      dest: wf_cache_node wf_node_vg_name [OF wf_cache_node])

subsection \<open>Events of claims\<close>

lemma charged_update_pvc_request [ledger_simps]:
  assumes "wf_cache c"
  shows "charged (update_pvc_request c pvc) n v = charged c n v"
    and "requested (update_pvc_request c pvc) n v = requested c n v"
  using wf_cacheD(3) [OF assms]
  by (auto simp: update_pvc_request_def ledger_simps details_charge_def total_simps GetByPVC_def
      wf_details_def entry_def split: option.split)

lemma wf_update_pvc_request [simp]:
  assumes "wf_cache c"
  shows "wf_cache (update_pvc_request c pvc)"
proof (cases "GetByPVC (pvAllocatedDetails c) (pvc_Namespace pvc) (pvc_Name pvc)")
  case (Some d)
  from wf_details_pvc_name [OF wf_cacheD(3) [OF assms] Some [unfolded GetByPVC_def]] Some
    wf_cacheD(3) [OF assms] assms
  show ?thesis
    by (simp add: update_pvc_request_def wf_details_def list_all_update)
qed (simp add: update_pvc_request_def assms)

lemma update_pvc_request_frame [simp]:
  "pvAllocated (pvAllocatedDetails (update_pvc_request c pvc)) = pvAllocated (pvAllocatedDetails c)"
  "GetByPV (pvAllocatedDetails (update_pvc_request c pvc)) k = GetByPV (pvAllocatedDetails c) k"
  "states (update_pvc_request c pvc) = states c"
  "pvcInfosMap (update_pvc_request c pvc) = pvcInfosMap c"
  "inlineVolumeAllocatedDetails (update_pvc_request c pvc) = inlineVolumeAllocatedDetails c"
  by (simp_all add: update_pvc_request_def GetByPV_def split: option.split)

text \<open>What a bound volume was charged on the node \<open>n\<close> (and group \<open>vg\<close>), or nothing was.\<close>

definition pv_on_node :: "string \<Rightarrow> NodeStorageAllocatedCache \<Rightarrow> string \<Rightarrow> bool" where
  "pv_on_node n c name \<longleftrightarrow>
     (case GetByPV (pvAllocatedDetails c) name of
        None \<Rightarrow> True
      | Some d \<Rightarrow> pa_NodeName (GetBasePVAllocated d) = n)"

definition pv_in_vg :: "string \<Rightarrow> NodeStorageAllocatedCache \<Rightarrow> string \<Rightarrow> bool" where
  "pv_in_vg v c name \<longleftrightarrow>
     (case GetByPV (pvAllocatedDetails c) name of
        None \<Rightarrow> True
      | Some (LVMDetail l) \<Rightarrow> pa_VGName l = v
      | Some (DeviceDetail _) \<Rightarrow> False)"

lemma details_charge_AssumeAllocateSize:
  assumes "wf_details l" and "map_of (pvAllocated l) k = Some (LVMDetail d)"
  shows "details_charge n v (fst (AssumeAllocateSizeToPVDetail l k a)) =
     details_charge n v l
       + (if pa_NodeName d = n \<and> pa_VGName d = v then a - pa_Allocated d else 0)"
  using assms
  by (simp add: details_charge_def AssumeAllocateSizeToPVDetail_def wf_details_def total_simps entry_def)

text \<open>The expansion of a bound claim: three ways to end, and the one that charges.\<close>

lemma lvm_pvcAdd_cases:
  obtains (same) "lvm_pvcAdd c n pvc pv = c"
  | (request) "lvm_pvcAdd c n pvc pv = update_pvc_request c pvc"
  | (expanded) l delta mx where
      "GetByPV (pvAllocatedDetails c) pv = Some (LVMDetail l)" "delta = mx - pa_Allocated l" "0 <s delta"
      "lvm_pvcAdd c n pvc pv =
         (let c2 = charge_vg n (pa_VGName l) delta
                     (fst (initIfNeedAndGetVGState (update_pvc_request c pvc) n (pa_VGName l)))
          in set_details (fst (AssumeAllocateSizeToPVDetail (pvAllocatedDetails c2) pv mx)) c2)"
proof (cases "pvc_Phase pvc = ClaimBound")
  case bound: True
  show thesis
  proof (cases "GetByPV (pvAllocatedDetails c) pv")
    case None
    with bound show thesis by (intro request) (simp add: lvm_pvcAdd_def)
  next
    case (Some d)
    show thesis
    proof (cases d)
      case (DeviceDetail x)
      with Some bound show thesis by (intro request) (simp add: lvm_pvcAdd_def Let_def)
    next
      case (LVMDetail l)
      define mx where "mx = (if GetPVCRequested pvc <s pa_Requested l then pa_Requested l
                             else GetPVCRequested pvc)"
      have eq: "lvm_pvcAdd c n pvc pv =
          (let c1 = update_pvc_request c pvc; delta = mx - pa_Allocated l
           in if delta \<le>s 0 then c1
              else (let c2 = charge_vg n (pa_VGName l) delta
                               (fst (initIfNeedAndGetVGState c1 n (pa_VGName l)))
                    in set_details (fst (AssumeAllocateSizeToPVDetail (pvAllocatedDetails c2) pv mx)) c2))"
        using LVMDetail Some bound by (simp only: lvm_pvcAdd_def Let_def mx_def) (simp add: case_prod_beta)
      show thesis
      proof (cases "mx - pa_Allocated l \<le>s 0")
        case True
        with LVMDetail Some bound show thesis
          by (intro request) (simp add: eq)
      next
        case False
        with LVMDetail Some bound show thesis
          by (intro expanded [of l "mx - pa_Allocated l" mx])
            (simp_all add: eq Let_def word_sle_eq word_sless_alt)
      qed
    qed
  qed
qed (auto intro: same simp: lvm_pvcAdd_def)

lemma wf_cache_lvm_pvcAdd [simp]: "wf_cache c \<Longrightarrow> wf_cache (lvm_pvcAdd c n pvc pv)"
  by (cases rule: lvm_pvcAdd_cases [of c n pvc pv]) (simp_all add: Let_def wf_cacheD)

lemma gap_lvm_pvcAdd:
  assumes "wf_cache c" and "pv_on_node n c pv"
  shows "gap (lvm_pvcAdd c n pvc pv) m v = gap c m v"
proof (cases rule: lvm_pvcAdd_cases [of c n pvc pv])
  case (expanded l delta mx)
  let ?c1 = "update_pvc_request c pvc"
  have wf: "wf_details (pvAllocatedDetails ?c1)"
    using assms(1) by (simp add: wf_cacheD)
  have l: "map_of (pvAllocated (pvAllocatedDetails ?c1)) pv = Some (LVMDetail l)"
    using expanded(1) by (simp add: GetByPV_def)
  have "pa_NodeName l = n"
    using assms(2) expanded(1) by (simp add: pv_on_node_def)
  with expanded(2,4) assms(1) details_charge_AssumeAllocateSize [OF wf l] show ?thesis
    by (auto simp: gap_def ledger_simps Let_def)
qed (simp_all add: gap_def ledger_simps assms(1))

subsection \<open>Events of volumes\<close>

lemma lvm_pvAdd_cases:
  assumes "lvm_pvAdd K c n pv = Some c'"
  obtains (same) "c' = c"
  | (reverted) vg new where
      "new = NewLVMPVAllocatedFromPV pv vg n"
      "c' = lvm_revertIfNeed (fst (initIfNeedAndGetVGState c n vg)) n (pa_PVCNamespace new) (pa_PVCName new)"
  | (added) vg new mx delta where
      "new = NewLVMPVAllocatedFromPV pv vg n"
      "lvm_pvAdd_vgName K c pv = Some (Some vg)"
      "delta = mx - (case GetByPV (pvAllocatedDetails c) (pv_Name pv) of
                       None \<Rightarrow> 0 | Some old \<Rightarrow> pa_Allocated (GetBasePVAllocated old))"
      "c' = (let c2 = charge_vg n vg delta
                        (lvm_revertIfNeed (fst (initIfNeedAndGetVGState c n vg)) n
                          (pa_PVCNamespace new) (pa_PVCName new))
             in set_details
                  (fst (AssumeByPVEvent (pvAllocatedDetails c2) (LVMDetail (new\<lparr>pa_Allocated := mx\<rparr>)))) c2)"
proof (cases "pv_Phase pv = VolumePending")
  case True
  with assms show thesis by (intro same) (simp add: lvm_pvAdd_def)
next
  case False
  show thesis
  proof (cases "lvm_pvAdd_vgName K c pv")
    case None
    with False assms show thesis by (simp add: lvm_pvAdd_def)
  next
    case (Some vgo)
    show thesis
    proof (cases vgo)
      case None
      with Some False assms show thesis by (intro same) (simp add: lvm_pvAdd_def)
    next
      case vg: (Some vg)
      define new where "new = NewLVMPVAllocatedFromPV pv vg n"
      define mx where "mx = (if getRequestFromPVCInfos c pv <s pa_Requested new then pa_Requested new
                             else getRequestFromPVCInfos c pv)"
      define delta where "delta = mx - (case GetByPV (pvAllocatedDetails c) (pv_Name pv) of
                       None \<Rightarrow> 0 | Some old \<Rightarrow> pa_Allocated (GetBasePVAllocated old))"
      define c1 where "c1 = lvm_revertIfNeed (fst (initIfNeedAndGetVGState c n vg)) n
                          (pa_PVCNamespace new) (pa_PVCName new)"
      have delta_eq: "delta = (case GetByPV (pvAllocatedDetails c) (pv_Name pv) of None \<Rightarrow> mx
            | Some old \<Rightarrow> mx - pa_Allocated (GetBasePVAllocated old))"
        by (simp add: delta_def split: option.split)
      have "c' = (if delta = 0 then c1
                  else let c2 = charge_vg n vg delta c1
                       in set_details (fst (AssumeByPVEvent (pvAllocatedDetails c2)
                            (LVMDetail (new\<lparr>pa_Allocated := mx\<rparr>)))) c2)"
        using assms False Some vg
        by (simp only: lvm_pvAdd_def c1_def mx_def new_def delta_eq Let_def)
          (simp add: case_prod_beta split: if_splits)
      then show thesis
        using reverted [OF new_def] added [OF new_def _ delta_def] Some vg
        by (simp add: c1_def split: if_splits)
    qed
  qed
qed

lemma wf_cache_lvm_pvAdd: "wf_cache c \<Longrightarrow> lvm_pvAdd K c n pv = Some c' \<Longrightarrow> wf_cache c'"
  by (erule lvm_pvAdd_cases) (simp_all add: Let_def wf_cacheD)

lemma NewLVMPVAllocatedFromPV_claim:
  fixes pv u n
  defines "new \<equiv> NewLVMPVAllocatedFromPV pv u n"
  shows "(pa_PVCNamespace new = [] \<and> pa_PVCName new = []) \<or>
    pv_ClaimRef pv = Some (pa_PVCNamespace new, pa_PVCName new)"
  by (simp add: new_def NewLVMPVAllocatedFromPV_def PVCNameFromPV_def Let_def
      split: option.split prod.split)

text \<open>
  A volume event keeps the ledger when the volume has a name, what was charged for it before was
  charged to the same group and node, and its claim was reserved on the node of the volume.
\<close>

lemma gap_lvm_pvAdd:
  assumes wf: "wf_cache c" and add: "lvm_pvAdd K c n pv = Some c'" and name: "pv_Name pv \<noteq> []"
    and node: "pv_on_node n c (pv_Name pv)"
    and vg: "\<And>vg. lvm_pvAdd_vgName K c pv = Some (Some vg) \<Longrightarrow> pv_in_vg vg c (pv_Name pv)"
    and pvc: "\<And>ns name. pv_ClaimRef pv = Some (ns, name) \<Longrightarrow> pvc_on_node n c ns name"
  shows "gap c' m v = gap c m v"
proof -
  have gap1: "gap (lvm_revertIfNeed (fst (initIfNeedAndGetVGState c n u)) n
                 (pa_PVCNamespace new) (pa_PVCName new)) m v = gap c m v"
    if new: "new = NewLVMPVAllocatedFromPV pv u n" for u new
  proof -
    have empty: "lvm_revertIfNeed d n [] [] = d" for d
      by (simp add: lvm_revertIfNeed_def)
    have init: "gap (fst (initIfNeedAndGetVGState c n u)) m v = gap c m v"
      by (simp add: gap_def ledger_simps)
    consider "pa_PVCNamespace new = []" "pa_PVCName new = []"
      | "pv_ClaimRef pv = Some (pa_PVCNamespace new, pa_PVCName new)"
      using NewLVMPVAllocatedFromPV_claim [of pv u n, folded new] by blast
    then show ?thesis
    proof cases
      case 1
      with init empty show ?thesis by simp
    next
      case 2
      from pvc [OF 2] have "pvc_on_node n (fst (initIfNeedAndGetVGState c n u))
          (pa_PVCNamespace new) (pa_PVCName new)"
        by (simp add: pvc_on_node_def)
      from gap_lvm_revertIfNeed [OF wf_cache_initVG [OF wf] this] init show ?thesis by simp
    qed
  qed
  from add show ?thesis
  proof (cases rule: lvm_pvAdd_cases)
    case same
    then show ?thesis by simp
  next
    case (reverted u new)
    with gap1 show ?thesis by simp
  next
    case (added u new mx delta)
    define c1 where "c1 = lvm_revertIfNeed (fst (initIfNeedAndGetVGState c n u)) n
        (pa_PVCNamespace new) (pa_PVCName new)"
    have wf1: "wf_cache c1" and vg1: "has_vg c1 n u"
      using wf by (simp_all add: c1_def)
    have old: "entry (lvm_charge m v) (pvAllocated (pvAllocatedDetails c1)) (pv_Name pv) =
        (if m = n \<and> v = u then mx - delta else 0)"
      using node vg [OF added(2)]
      by (auto simp: c1_def entry_def added(3) pv_on_node_def pv_in_vg_def GetByPV_def
          split: option.splits PVAllocated.splits)
    have c': "c' = set_details
        (fst (AssumeByPVEvent (pvAllocatedDetails c1) (LVMDetail (new\<lparr>pa_Allocated := mx\<rparr>))))
        (charge_vg n u delta c1)"
      using added(4) by (simp add: c1_def Let_def)
    have new: "pa_NodeName new = n" "pa_VGName new = u" "pa_VolumeName new = pv_Name pv"
      using added(1) by simp_all
    have "gap c' m v = gap c1 m v"
      using new wf1 vg1 old name wf_cacheD(3) [OF wf1]
      by (auto simp: gap_def c' ledger_simps)
    with gap1 [OF added(1)] show ?thesis by (simp add: c1_def)
  qed
qed

lemma wf_cache_lvm_pvDelete [simp]: "wf_cache c \<Longrightarrow> wf_cache (lvm_pvDelete K c n pv)"
  by (auto simp: lvm_pvDelete_def Let_def wf_cacheD split: option.split)

text \<open>Deleting a volume returns its storage; the claim must hold no reservation of its own.\<close>

lemma gap_lvm_pvDelete:
  assumes wf: "wf_cache c" and name: "pv_Name pv \<noteq> []" and node: "pv_on_node n c (pv_Name pv)"
    and vg: "pv_in_vg (GetVGNameFromCsiPV K pv) c (pv_Name pv)"
    and moved: "\<And>d. GetByPV (pvAllocatedDetails c) (pv_Name pv) = Some d \<Longrightarrow>
        GetByPVC (pvAllocatedDetails c) (pa_PVCNamespace (GetBasePVAllocated d))
          (pa_PVCName (GetBasePVAllocated d)) = None"
  shows "gap (lvm_pvDelete K c n pv) m v = gap c m v"
proof (cases "GetVGNameFromCsiPV K pv = [] \<or> GetByPV (pvAllocatedDetails c) (pv_Name pv) = None")
  case False
  define l where "l = pvAllocatedDetails c"
  from False obtain d where d: "map_of (pvAllocated l) (pv_Name pv) = Some d"
    by (auto simp: GetByPV_def l_def)
  have wfl: "wf_details l" using wf by (simp add: l_def wf_cacheD)
  have vn: "pa_VolumeName (GetBasePVAllocated d) = pv_Name pv"
    using wf_details_pv_name [OF wfl d] .
  have none: "map_of (pvcAllocated l) (GetNameKey (pa_PVCNamespace (GetBasePVAllocated d))
      (pa_PVCName (GetBasePVAllocated d))) = None"
    using moved [of d] d by (simp add: GetByPV_def GetByPVC_def l_def)
  have "details_charge m v (DeleteByPV l (Some d)) = details_charge m v l - lvm_charge m v d"
    using wfl name vn none d
    by (simp add: details_charge_def DeleteByPV_def Let_def total_simps wf_details_def entry_def)
  moreover have "lvm_charge m v d =
      (if m = n \<and> v = GetVGNameFromCsiPV K pv then pa_Allocated (GetBasePVAllocated d) else 0)"
    using node vg d by (cases d) (auto simp: pv_on_node_def pv_in_vg_def GetByPV_def l_def)
  ultimately show ?thesis
    using False d by (simp add: lvm_pvDelete_def Let_def gap_def ledger_simps GetByPV_def l_def)
qed (auto simp: lvm_pvDelete_def Let_def split: option.split)

subsection \<open>Reserving and unreserving\<close>

definition lvm_unit_ok :: "string \<Rightarrow> LVMPVAllocated \<Rightarrow> bool" where
  "lvm_unit_ok n u \<longleftrightarrow> pa_NodeName u = n \<and> pa_PVCName u \<noteq> [] \<and> pa_PVCNamespace u \<noteq> []"

text \<open>One successful step of \<open>reserve\<close>.\<close>

definition lvm_reserve_step ::
  "string \<Rightarrow> LVMPVAllocated \<Rightarrow> NodeStorageState \<Rightarrow> VGStoragePool \<Rightarrow>
     NodeStorageAllocatedCache \<Rightarrow> NodeStorageAllocatedCache" where
  "lvm_reserve_step n u s vg c =
     set_details (AssumeByPVC (pvAllocatedDetails c) (LVMDetail (u\<lparr>pa_Allocated := pa_Requested u\<rparr>)))
       (set_node n (set_vg (pa_VGName u) (add_Requested (pa_Requested u) vg) s) c)"

lemma lvm_reserve_loop_induct [consumes 1, case_names finished skip fail step]:
  assumes "lvm_reserve_loop n c us = Some (c', us', err)"
    and "\<And>c. P c [] c [] None"
    and "\<And>c u us c' us' err.
          GetByPVC (pvAllocatedDetails c) (pa_PVCNamespace u) (pa_PVCName u) \<noteq> None \<or>
          (\<exists>i. map_of (pvcInfosMap c) (GetNameKey (pa_PVCNamespace u) (pa_PVCName u)) = Some i
               \<and> pi_PVCStatus i = ClaimBound) \<Longrightarrow>
          lvm_reserve_loop n c us = Some (c', us', err) \<Longrightarrow>
          P c us c' us' err \<Longrightarrow> P c (u # us) c' (u # us') err"
    and "\<And>c u us e. P c (u # us) c (u # us) (Some e)"
    and "\<And>c u us c' us' err s vg.
          GetByPVC (pvAllocatedDetails c) (pa_PVCNamespace u) (pa_PVCName u) = None \<Longrightarrow>
          map_of (states c) n = Some s \<Longrightarrow> map_of (VGStates s) (pa_VGName u) = Some vg \<Longrightarrow>
          \<not> vg_Allocatable vg <s vg_Requested vg + pa_Requested u \<Longrightarrow>
          lvm_reserve_loop n (lvm_reserve_step n u s vg c) us = Some (c', us', err) \<Longrightarrow>
          P (lvm_reserve_step n u s vg c) us c' us' err \<Longrightarrow>
          P c (u # us) c' (u\<lparr>pa_Allocated := pa_Requested u\<rparr> # us') err"
  shows "P c us c' us' err"
  using assms(1)
proof (induction us arbitrary: c c' us' err)
  case Nil
  with assms(2) show ?case by simp
next
  case (Cons u us)
  define skipped where "skipped \<longleftrightarrow>
      GetByPVC (pvAllocatedDetails c) (pa_PVCNamespace u) (pa_PVCName u) \<noteq> None \<or>
      (\<exists>i. map_of (pvcInfosMap c) (GetNameKey (pa_PVCNamespace u) (pa_PVCName u)) = Some i
           \<and> pi_PVCStatus i = ClaimBound)"
  show ?case
  proof (cases skipped)
    case True
    then have "lvm_reserve_loop n c (u # us) =
        map_option (\<lambda>(c', us, err). (c', u # us, err)) (lvm_reserve_loop n c us)"
      by (auto simp: skipped_def Let_def)
    with Cons.prems obtain us'' where "lvm_reserve_loop n c us = Some (c', us'', err)" "us' = u # us''"
      by (auto simp del: lvm_reserve_loop.simps)
    with Cons.IH assms(3) True show ?thesis by (auto simp: skipped_def)
  next
    case False
    then have none: "GetByPVC (pvAllocatedDetails c) (pa_PVCNamespace u) (pa_PVCName u) = None"
      by (simp add: skipped_def)
    have bound: "(case map_of (pvcInfosMap c) (GetNameKey (pa_PVCNamespace u) (pa_PVCName u)) of
        Some i \<Rightarrow> pi_PVCStatus i = ClaimBound | None \<Rightarrow> False) = False"
      using False by (auto simp: skipped_def split: option.split)
    from Cons.prems none bound obtain s where s: "map_of (states c) n = Some s"
      by (auto simp: Let_def split: option.splits)
    show ?thesis
    proof (cases "map_of (VGStates s) (pa_VGName u)")
      case None
      with Cons.prems none bound s show ?thesis by (auto simp: Let_def intro: assms(4))
    next
      case (Some vg)
      show ?thesis
      proof (cases "vg_Allocatable vg <s vg_Requested vg + pa_Requested u")
        case True
        with Cons.prems none bound s Some show ?thesis by (auto simp: Let_def intro: assms(4))
      next
        case False
        have "lvm_reserve_loop n c (u # us) = map_option
            (\<lambda>(c', us, err). (c', u\<lparr>pa_Allocated := pa_Requested u\<rparr> # us, err))
            (lvm_reserve_loop n (lvm_reserve_step n u s vg c) us)"
          using False none bound s Some
          by (simp add: Let_def lvm_reserve_step_def set_node_def)
        with Cons.prems obtain us'' where
            "lvm_reserve_loop n (lvm_reserve_step n u s vg c) us = Some (c', us'', err)"
            "us' = u\<lparr>pa_Allocated := pa_Requested u\<rparr> # us''"
          by (auto simp del: lvm_reserve_loop.simps)
        with Cons.IH assms(5) none s Some False show ?thesis by auto
      qed
    qed
  qed
qed

lemma wf_cache_lvm_reserve_step:
  assumes "wf_cache c" and "map_of (states c) n = Some s" and "map_of (VGStates s) (pa_VGName u) = Some vg"
  shows "wf_cache (lvm_reserve_step n u s vg c)"
  using assms wf_node_vg_name [OF wf_cache_node [OF assms(1,2)] assms(3)]
  by (auto simp: lvm_reserve_step_def wf_cacheD intro!: wf_cache_set_details wf_cache_set_node
      dest: wf_cache_node)

lemma gap_lvm_reserve_step:
  assumes "wf_cache c" and "map_of (states c) n = Some s" and "map_of (VGStates s) (pa_VGName u) = Some vg"
    and "GetByPVC (pvAllocatedDetails c) (pa_PVCNamespace u) (pa_PVCName u) = None"
    and "lvm_unit_ok n u"
  shows "gap (lvm_reserve_step n u s vg c) m v = gap c m v"
proof -
  have d: "pvAllocatedDetails (set_node n s' c) = pvAllocatedDetails c" for s'
    by (simp add: set_node_def)
  have "requested c n v = node_requested s v"
    using assms(2) by (simp add: requested_def)
  with assms wf_cacheD(3) [OF assms(1)] show ?thesis
    by (auto simp: gap_def lvm_reserve_step_def ledger_simps d lvm_unit_ok_def entry_def GetByPVC_def)
qed

lemma wf_cache_lvm_reserve_loop:
  "lvm_reserve_loop n c us = Some (c', us', err) \<Longrightarrow> wf_cache c \<Longrightarrow> wf_cache c'"
  by (induction rule: lvm_reserve_loop_induct) (auto simp: wf_cache_lvm_reserve_step)

lemma gap_lvm_reserve_loop:
  "lvm_reserve_loop n c us = Some (c', us', err) \<Longrightarrow> wf_cache c \<Longrightarrow>
     \<forall>u \<in> set us. lvm_unit_ok n u \<Longrightarrow> gap c' m v = gap c m v"
  by (induction rule: lvm_reserve_loop_induct)
    (auto simp: wf_cache_lvm_reserve_step gap_lvm_reserve_step)

lemma wf_cache_lvm_unreserve_loop:
  "wf_cache c \<Longrightarrow> wf_cache (fst (lvm_unreserve_loop n c us))"
  by (induction us arbitrary: c) (auto simp: Let_def case_prod_beta)

lemma gap_lvm_unreserve_loop:
  "wf_cache c \<Longrightarrow> \<forall>u \<in> set us. pvc_on_node n c (pa_PVCNamespace u) (pa_PVCName u) \<Longrightarrow>
     gap (fst (lvm_unreserve_loop n c us)) m v = gap c m v"
  by (induction us arbitrary: c)
    (auto simp: Let_def case_prod_beta gap_lvm_revertIfNeed pvc_on_node_revertIfNeed)

section \<open>The allocators meet their contracts\<close>

definition lvm_ok :: "string \<Rightarrow> NodeAllocateUnits \<Rightarrow> bool" where
  "lvm_ok n us \<longleftrightarrow> (\<forall>u \<in> set (LVMPVCAllocateUnits us). lvm_unit_ok n u)"

definition lvm_held :: "NodeStorageAllocatedCache \<Rightarrow> string \<Rightarrow> NodeAllocateUnits \<Rightarrow> bool" where
  "lvm_held c n us \<longleftrightarrow>
     (\<forall>u \<in> set (LVMPVCAllocateUnits us). pvc_on_node n c (pa_PVCNamespace u) (pa_PVCName u))"

lemma map_of_set_node [simp]:
  "map_of (states (set_node n s c)) m = (if m = n then Some s else map_of (states c) m)"
  by (simp add: set_node_def go_map_simps)

lemma lvm_reserve_step_states:
  "map_of (states (lvm_reserve_step n u s vg c)) m =
     (if m = n then Some (set_vg (pa_VGName u) (add_Requested (pa_Requested u) vg) s)
      else map_of (states c) m)"
  by (simp add: lvm_reserve_step_def)

lemma lvm_reserve_loop_nodes:
  "lvm_reserve_loop n c us = Some (c', us', err) \<Longrightarrow>
     (map_of (states c') m = None) = (map_of (states c) m = None)"
  by (induction rule: lvm_reserve_loop_induct) (auto simp: lvm_reserve_step_states)

lemma lvm_reserve_loop_panics: "lvm_reserve_loop n c us = None \<Longrightarrow> map_of (states c) n = None"
proof (induction us arbitrary: c)
  case (Cons u us)
  have ret: "lvm_reserve_loop n d us \<noteq> None" if "map_of (states d) n \<noteq> None" for d
    using Cons.IH [of d] that by blast
  show ?case
  proof (rule ccontr)
    assume some: "map_of (states c) n \<noteq> None"
    have "(lvm_reserve_loop n (set_details l (set_node n s c)) us = None) = False" for l s
      using ret [of "set_details l (set_node n s c)"] by simp
    with ret [OF some] some Cons.prems show False
      by (auto simp: Let_def simp del: not_None_eq split: option.splits if_splits)
  qed
qed simp

interpretation lvm: schedule_allocator lvm_reserve lvm_unreserve lvm_ok lvm_held
proof unfold_locales
  fix c c' n us us' err m v
  show "map_of (states c) n \<noteq> None \<Longrightarrow> lvm_reserve c n us \<noteq> None"
    using lvm_reserve_loop_panics [of n c "LVMPVCAllocateUnits us"]
    by (cases "lvm_reserve_loop n c (LVMPVCAllocateUnits us)") (auto simp: lvm_reserve_def)
  show "lvm_reserve c n us = Some (c', us', err) \<Longrightarrow> wf_cache c \<Longrightarrow> wf_cache c'"
    by (auto simp: lvm_reserve_def split: if_splits intro: wf_cache_lvm_reserve_loop)
  show "lvm_reserve c n us = Some (c', us', err) \<Longrightarrow> wf_cache c \<Longrightarrow> lvm_ok n us \<Longrightarrow>
      gap c' m v = gap c m v"
    by (auto simp: lvm_reserve_def lvm_ok_def split: if_splits dest: gap_lvm_reserve_loop)
  show "lvm_reserve c n us = Some (c', us', err) \<Longrightarrow>
      (map_of (states c') m = None) = (map_of (states c) m = None)"
    by (auto simp: lvm_reserve_def split: if_splits dest: lvm_reserve_loop_nodes)
  show "lvm_reserve c n us = Some (c', us', err) \<Longrightarrow>
      InlineVolumeAllocateUnits us' = InlineVolumeAllocateUnits us"
    by (auto simp: lvm_reserve_def split: if_splits)
  show "wf_cache c \<Longrightarrow> wf_cache (fst (lvm_unreserve c n us))"
    by (simp add: lvm_unreserve_def Let_def case_prod_beta wf_cache_lvm_unreserve_loop)
  show "wf_cache c \<Longrightarrow> lvm_held c n us \<Longrightarrow> gap (fst (lvm_unreserve c n us)) m v = gap c m v"
    by (simp add: lvm_unreserve_def lvm_held_def Let_def case_prod_beta gap_lvm_unreserve_loop)
qed

interpretation lvm_events: event_allocator lvm_pvcAdd lvm_pvAdd lvm_pvDelete
proof unfold_locales
  fix c K c' n pvc pv v
  show "wf_cache c \<Longrightarrow> wf_cache (lvm_pvcAdd c n pvc v)"
    by simp
  show "wf_cache c \<Longrightarrow> lvm_pvAdd K c n pv = Some c' \<Longrightarrow> wf_cache c'"
    by (rule wf_cache_lvm_pvAdd)
  show "wf_cache c \<Longrightarrow> wf_cache (lvm_pvDelete K c n pv)"
    by simp
  show "pvcInfosMap (lvm_pvcAdd c n pvc v) = pvcInfosMap c"
    by (cases rule: lvm_pvcAdd_cases [of c n pvc v]) (simp_all add: Let_def)
qed

interpretation lvm_snapshot: schedule_allocator snapshot_reserve snapshot_unreserve
    "\<lambda>n us. True" "\<lambda>c n us. True"
  by unfold_locales (auto simp: snapshot_reserve_def snapshot_unreserve_def)

interpretation lvm_snapshot_events: event_allocator snapshot_pvcAdd snapshot_pvAdd snapshot_pvDelete
  by unfold_locales (auto simp: snapshot_pvcAdd_def snapshot_pvAdd_def snapshot_pvDelete_def)

end
