(* ===== verification/Device_Allocator.thy ===== *)
theory Device_Allocator
  imports Lvm_Allocator
begin

text \<open>
  The allocator of exclusive devices,
  \<open>pkg/scheduling-framework/cache/device_volume.go\<close>. A device is given to one claim as a whole.
  The slices of free devices hold pointers into the node's map, so they are lists of keys;
  \<open>sort.Slice\<close> sorts the slice of claims in place, and the sorted slices are part of the result.
\<close>

section \<open>Reverting\<close>

definition revertDeviceForState ::
  "NodeStorageAllocatedCache \<Rightarrow> string \<Rightarrow> string \<Rightarrow> NodeStorageAllocatedCache" where
  "revertDeviceForState c nodeName deviceName =
     (case map_of (states c) nodeName of
        None \<Rightarrow> c
      | Some nodeStoragePool \<Rightarrow>
          set_node nodeName
            (nodeStoragePool\<lparr>DeviceStates := RevertDevice (DeviceStates nodeStoragePool) deviceName\<rparr>) c)"

definition allocateDeviceForState ::
  "NodeStorageAllocatedCache \<Rightarrow> string \<Rightarrow> string \<Rightarrow> int64 \<Rightarrow> NodeStorageAllocatedCache" where
  "allocateDeviceForState c nodeName deviceName requestSize =
     (let nodeStoragePool = (case map_of (states c) nodeName of
                               Some s \<Rightarrow> s | None \<Rightarrow> NewNodeStorageState)
      in set_node nodeName
           (nodeStoragePool\<lparr>DeviceStates :=
              AllocateDevice (DeviceStates nodeStoragePool) deviceName requestSize\<rparr>) c)"

definition initIfNeedAndGetDeviceState ::
  "NodeStorageAllocatedCache \<Rightarrow> string \<Rightarrow> string \<Rightarrow> NodeStorageAllocatedCache \<times> DeviceResourcePool \<times> bool" where
  "initIfNeedAndGetDeviceState c nodeName deviceName =
     (let (c, s) = initIfNeedAndGetNodeStoragePool c nodeName;
          new = \<lparr>dev_Name = deviceName, dev_Total = 0, dev_Allocatable = 0, dev_Requested = 0,
                 dev_MediaType = [], dev_IsAllocated = False\<rparr>
      in case map_of (DeviceStates s) deviceName of
           Some d \<Rightarrow> (c, d, InitedByNLS s)
         | None \<Rightarrow>
             (set_node nodeName (s\<lparr>DeviceStates := AList.update deviceName new (DeviceStates s)\<rparr>) c,
              new, InitedByNLS s))"

definition revertDeviceByPVCIfNeed ::
  "NodeStorageAllocatedCache \<Rightarrow> string \<Rightarrow> string \<Rightarrow> string \<Rightarrow> NodeStorageAllocatedCache" where
  "revertDeviceByPVCIfNeed c nodeName pvcNameSpace pvcName =
     (if pvcNameSpace = [] \<and> pvcName = [] then c
      else (case GetByPVC (pvAllocatedDetails c) pvcNameSpace pvcName of
              None \<Rightarrow> c
            | Some (LVMDetail _) \<Rightarrow> c
            | Some (DeviceDetail deviceAllocated) \<Rightarrow>
                if pa_Allocated deviceAllocated = 0 \<or> pa_DeviceName deviceAllocated = [] then c
                else
                  (let c = revertDeviceForState c nodeName (pa_DeviceName deviceAllocated)
                   in set_details (DeleteByPVC (pvAllocatedDetails c) (GetNameKey pvcNameSpace pvcName)) c)))"

section \<open>Events\<close>

definition device_pvcAdd ::
  "NodeStorageAllocatedCache \<Rightarrow> string \<Rightarrow> PersistentVolumeClaim \<Rightarrow> string \<Rightarrow> NodeStorageAllocatedCache" where
  "device_pvcAdd c nodeName pvc volumeName =
     (if pvc_Phase pvc \<noteq> ClaimBound then c else update_pvc_request c pvc)"

definition device_pvcUpdate ::
  "NodeStorageAllocatedCache \<Rightarrow> string \<Rightarrow> PersistentVolumeClaim \<Rightarrow> string \<Rightarrow> NodeStorageAllocatedCache" where
  "device_pvcUpdate c nodeName newPVC volumeName = device_pvcAdd c nodeName newPVC volumeName"

definition device_pvDelete ::
  "kube \<Rightarrow> NodeStorageAllocatedCache \<Rightarrow> string \<Rightarrow> PersistentVolume \<Rightarrow> NodeStorageAllocatedCache" where
  "device_pvDelete K c nodeName pv =
     (let deviceName = GetDeviceNameFromCsiPV K pv
      in if deviceName = [] then c
         else (case GetByPV (pvAllocatedDetails c) (pv_Name pv) of
                 None \<Rightarrow> c
               | Some old \<Rightarrow>
                   (let c = revertDeviceForState c nodeName deviceName
                    in set_details (DeleteByPV (pvAllocatedDetails c) (Some old)) c)))"

definition device_pvUpdate_name ::
  "kube \<Rightarrow> NodeStorageAllocatedCache \<Rightarrow> PersistentVolume \<Rightarrow> string option option" where
  "device_pvUpdate_name K c newPV =
     (let deviceName = GetDeviceNameFromCsiPV K newPV
      in if deviceName \<noteq> [] then Some (Some deviceName)
         else if pv_Phase newPV = VolumeBound then
           (let (pvcName, pvcNamespace) = PVCNameFromPV newPV
            in if pvcName = [] then Some None
               else (case GetByPVC (pvAllocatedDetails c) pvcNamespace pvcName of
                       None \<Rightarrow> Some None
                     | Some (LVMDetail _) \<Rightarrow> None
                     | Some (DeviceDetail deviceDetail) \<Rightarrow>
                         if pa_DeviceName deviceDetail = [] then Some None
                         else Some (Some (pa_DeviceName deviceDetail))))
         else Some None)"

definition device_pvUpdate ::
  "kube \<Rightarrow> NodeStorageAllocatedCache \<Rightarrow> string \<Rightarrow> PersistentVolume \<Rightarrow> NodeStorageAllocatedCache option" where
  "device_pvUpdate K c nodeName newPV =
     (if pv_Phase newPV = VolumePending then Some c
      else (case device_pvUpdate_name K c newPV of
              None \<Rightarrow> None
            | Some None \<Rightarrow> Some c
            | Some (Some deviceName) \<Rightarrow>
                (let new = NewDeviceTypePVAllocatedFromPV newPV deviceName nodeName;
                     (c, deviceState, initNLS) = initIfNeedAndGetDeviceState c nodeName deviceName;
                     new = (if initNLS then new\<lparr>pa_Allocated := dev_Allocatable deviceState\<rparr>
                            else new\<lparr>pa_Allocated := pa_Requested new\<rparr>);
                     c = revertDeviceByPVCIfNeed c nodeName (pa_PVCNamespace new) (pa_PVCName new);
                     c = allocateDeviceForState c nodeName deviceName (pa_Allocated new)
                 in Some (set_details (fst (AssumeByPVEvent (pvAllocatedDetails c) (DeviceDetail new))) c))))"

definition device_pvAdd ::
  "kube \<Rightarrow> NodeStorageAllocatedCache \<Rightarrow> string \<Rightarrow> PersistentVolume \<Rightarrow> NodeStorageAllocatedCache option" where
  "device_pvAdd K c nodeName pv = device_pvUpdate K c nodeName pv"

section \<open>Scheduling\<close>

definition device_prefilter ::
  "kube \<Rightarrow> NodeStorageAllocatedCache \<Rightarrow> PersistentVolumeClaim \<Rightarrow> PodLocalVolumeInfo \<Rightarrow>
     PodLocalVolumeInfo \<times> go_error option" where
  "device_prefilter K c localPVC podVolumeInfos =
     (if GetPVCAllocatedDetailCopy c (pvc_Namespace localPVC) (pvc_Name localPVC) \<noteq> None
      then (podVolumeInfos, None)
      else
        (let pvcInfo = \<lparr>di_MediaType = [], di_Request = GetPVCRequested localPVC, di_PVC = localPVC\<rparr>
         in case GetMediaTypeFromPVC K localPVC of
              Inl err \<Rightarrow>
                (podVolumeInfos, Some (Errorf ''get MediaType from PVC(%s) error: %s'' [S (PVCName localPVC), E err]))
            | Inr mediaType \<Rightarrow>
                (let deviceInfos = (case DevicePVCs podVolumeInfos of
                                      None \<Rightarrow> NewDevicePVCInfos | Some i \<Rightarrow> i);
                     pvcInfo = pvcInfo\<lparr>di_MediaType := mediaType\<rparr>
                 in if mediaType = MediaTypeSSD
                    then (podVolumeInfos\<lparr>DevicePVCs :=
                            Some (deviceInfos\<lparr>SSDDevicePVCs := SSDDevicePVCs deviceInfos @ [pvcInfo]\<rparr>)\<rparr>, None)
                    else if mediaType = MediaTypeHDD
                    then (podVolumeInfos\<lparr>DevicePVCs :=
                            Some (deviceInfos\<lparr>HDDDevicePVCs := HDDDevicePVCs deviceInfos @ [pvcInfo]\<rparr>)\<rparr>, None)
                    else (podVolumeInfos\<lparr>DevicePVCs := Some deviceInfos\<rparr>,
                          Some (Errorf ''mediaType %s not support! pvc: %s''
                                  [S mediaType, S (PVCName localPVC)])))))"

definition dev_at :: "DeviceStates \<Rightarrow> string \<Rightarrow> DeviceResourcePool" where
  "dev_at st k = (case map_of st k of Some d \<Rightarrow> d | None \<Rightarrow> NewDeviceResourcePoolForAllocate k)"

definition getFreeDevice :: "range_order \<Rightarrow> NodeStorageState \<Rightarrow> string list \<times> string list" where
  "getFreeDevice ord nodeStateClone =
     fold (\<lambda>(k, deviceState) (freeDeviceSSD, freeDeviceHDD).
         if dev_MediaType deviceState = MediaTypeSSD \<and> \<not> dev_IsAllocated deviceState
         then (freeDeviceSSD @ [k], freeDeviceHDD)
         else if dev_MediaType deviceState = MediaTypeHDD \<and> \<not> dev_IsAllocated deviceState
         then (freeDeviceSSD, freeDeviceHDD @ [k])
         else (freeDeviceSSD, freeDeviceHDD))
       (reorder ord (DeviceStates nodeStateClone)) ([], [])"

definition device_unit_for :: "string \<Rightarrow> DevicePVCInfo \<Rightarrow> DeviceResourcePool \<Rightarrow> DeviceTypePVAllocated" where
  "device_unit_for nodeName pvcInfo disk =
     \<lparr>pa_VolumeName = [], pa_PVCName = pvc_Name (di_PVC pvcInfo),
      pa_PVCNamespace = pvc_Namespace (di_PVC pvcInfo), pa_NodeName = nodeName,
      pa_Requested = di_Request pvcInfo, pa_Allocated = dev_Allocatable disk,
      pa_DeviceName = dev_Name disk\<rparr>"

text \<open>\<open>current\<close> is the Go variable \<open>pvcInfo\<close>, the claim the last iteration looked at.\<close>

fun process_device_loop ::
  "string \<Rightarrow> DevicePVCInfo \<Rightarrow> DevicePVCInfo list \<Rightarrow> string list \<Rightarrow> DeviceStates \<Rightarrow> DeviceTypePVAllocated list \<Rightarrow>
     DeviceStates \<times> (go_error + DeviceTypePVAllocated list)" where
  "process_device_loop nodeName current [] disks st units = (st, Inr units)"
| "process_device_loop nodeName current (pvcInfo # pvcs) [] st units =
     (st, Inl (NewInsufficientExclusiveResourceError VolumeTypeDevice (di_Request current) (di_Request current)))"
| "process_device_loop nodeName current (pvcInfo # pvcs) (k # disks) st units =
     (let disk = dev_at st k
      in if dev_IsAllocated disk \<or> dev_Allocatable disk <s di_Request pvcInfo
         then process_device_loop nodeName pvcInfo (pvcInfo # pvcs) disks st units
         else
           (let disk' = disk\<lparr>dev_IsAllocated := True, dev_Requested := dev_Allocatable disk\<rparr>
            in process_device_loop nodeName pvcInfo pvcs disks (AList.update k disk' st)
                 (units @ [device_unit_for nodeName pvcInfo disk'])))"

definition processDeviceByMediaType ::
  "string \<Rightarrow> DevicePVCInfo list \<Rightarrow> string list \<Rightarrow> DeviceStates \<Rightarrow>
     DevicePVCInfo list \<times> DeviceStates \<times> (go_error + DeviceTypePVAllocated list)" where
  "processDeviceByMediaType nodeName devicePVCs freeDeviceStates st =
     (let pvcsCount = length devicePVCs
      in if pvcsCount \<le> 0 then (devicePVCs, st, Inr [])
         else if pvcsCount > length freeDeviceStates
         then (devicePVCs, st, Inl (Errorf ''free device not enough for device PVCs'' []))
         else
           (let devicePVCs = sort_Slice (\<lambda>i j. di_Request i <s di_Request j) devicePVCs;
                freeDeviceStates =
                  sort_Slice (\<lambda>i j. dev_Allocatable (dev_at st i) <s dev_Allocatable (dev_at st j))
                    freeDeviceStates;
                (st', result) = process_device_loop nodeName (hd devicePVCs) devicePVCs freeDeviceStates st []
            in (devicePVCs, st', result)))"

text \<open>\<open>preAllocate\<close>: the pod's infos after the in-place sorts, the changed clone, the units.\<close>

definition device_preAllocate ::
  "range_order \<Rightarrow> string \<Rightarrow> PodLocalVolumeInfo \<Rightarrow> NodeStorageState \<Rightarrow>
     PodLocalVolumeInfo \<times> NodeStorageState \<times> DeviceTypePVAllocated list \<times> go_error option" where
  "device_preAllocate ord nodeName podVolumeInfos nodeStateClone =
     (case DevicePVCs podVolumeInfos of
        None \<Rightarrow> (podVolumeInfos, nodeStateClone, [], None)
      | Some devicePVCS \<Rightarrow>
          if length (SSDDevicePVCs devicePVCS) + length (HDDDevicePVCs devicePVCS) \<le> 0
          then (podVolumeInfos, nodeStateClone, [], None)
          else
            (let (freeSSD, freeHDD) = getFreeDevice ord nodeStateClone;
                 (ssds, st, ssdUnits) =
                   processDeviceByMediaType nodeName (SSDDevicePVCs devicePVCS) freeSSD
                     (DeviceStates nodeStateClone);
                 devicePVCS = devicePVCS\<lparr>SSDDevicePVCs := ssds\<rparr>
             in case ssdUnits of
                  Inl err \<Rightarrow> (podVolumeInfos\<lparr>DevicePVCs := Some devicePVCS\<rparr>,
                              nodeStateClone\<lparr>DeviceStates := st\<rparr>, [], Some err)
                | Inr ssdAllocateUnits \<Rightarrow>
                    (let (hdds, st, hddUnits) =
                           processDeviceByMediaType nodeName (HDDDevicePVCs devicePVCS) freeHDD st;
                         devicePVCS = devicePVCS\<lparr>HDDDevicePVCs := hdds\<rparr>;
                         infos = podVolumeInfos\<lparr>DevicePVCs := Some devicePVCS\<rparr>;
                         clone = nodeStateClone\<lparr>DeviceStates := st\<rparr>
                     in case hddUnits of
                          Inl err \<Rightarrow> (infos, clone, ssdAllocateUnits, Some err)
                        | Inr hddAllocateUnits \<Rightarrow>
                            (infos, clone, ssdAllocateUnits @ hddAllocateUnits, None))))"

definition device_allocateInfo :: "PVAllocated \<Rightarrow> PVCAllocateInfo option" where
  "device_allocateInfo detail =
     (case detail of
        LVMDetail _ \<Rightarrow> None
      | DeviceDetail allocateDetail \<Rightarrow>
          if pa_DeviceName allocateDetail \<noteq> [] \<and> 0 <s pa_Allocated allocateDetail
          then Some \<lparr>pai_PVCName = pa_PVCName allocateDetail,
                     pai_PVCNameSpace = pa_PVCNamespace allocateDetail,
                     pai_PVAllocatedInfo = \<lparr>ai_VGName = [], ai_DeviceName = pa_DeviceName allocateDetail,
                                            ai_VolumeType = VolumeTypeDevice\<rparr>\<rparr>
          else None)"

definition device_isPVHaveAllocateInfo :: "kube \<Rightarrow> PersistentVolume \<Rightarrow> bool" where
  "device_isPVHaveAllocateInfo K pv \<longleftrightarrow> GetDeviceNameFromCsiPV K pv \<noteq> []"

text \<open>The log call after the loop reads the node's state: with no state it panics there too.\<close>

fun device_reserve_loop ::
  "string \<Rightarrow> NodeStorageAllocatedCache \<Rightarrow> DeviceTypePVAllocated list \<Rightarrow>
     (NodeStorageAllocatedCache \<times> DeviceTypePVAllocated list \<times> go_error option) option" where
  "device_reserve_loop nodeName c [] =
     (if map_of (states c) nodeName = None then None else Some (c, [], None))"
| "device_reserve_loop nodeName c (unit # units) =
     (let key = GetNameKey (pa_PVCNamespace unit) (pa_PVCName unit);
          skip = map_option (\<lambda>(c', us, err). (c', unit # us, err)) (device_reserve_loop nodeName c units)
      in if GetByPVC (pvAllocatedDetails c) (pa_PVCNamespace unit) (pa_PVCName unit) \<noteq> None then skip
         else if (case map_of (pvcInfosMap c) key of Some pvcInfo \<Rightarrow> pi_PVCStatus pvcInfo = ClaimBound | None \<Rightarrow> False)
         then skip
         else (case map_of (states c) nodeName of
                 None \<Rightarrow> None
               | Some currentStorageState \<Rightarrow>
                   (case map_of (DeviceStates currentStorageState) (pa_DeviceName unit) of
                      None \<Rightarrow>
                        Some (c, unit # units,
                              Some (Errorf ''reserveDevicePVC fail, device(%s) have not found for pvc(%s) on node %s''
                                      [S (pa_DeviceName unit), S key, S nodeName]))
                    | Some deviceState \<Rightarrow>
                        if dev_IsAllocated deviceState
                        then Some (c, unit # units,
                                   Some (Errorf ''reserveDevicePVC fail, device(%s) have allocated on node %s''
                                           [S (pa_DeviceName unit), S nodeName]))
                        else if dev_Allocatable deviceState <s pa_Requested unit
                        then Some (c, unit # units,
                                   Some (Errorf ''reserveDevicePVC fail, device(%s) allocatable small than pvc(%s) request on node %s''
                                           [S (pa_DeviceName unit), S key, S nodeName]))
                        else
                          (let deviceState = deviceState\<lparr>dev_IsAllocated := True,
                                                         dev_Requested := dev_Allocatable deviceState\<rparr>;
                               c = set_node nodeName
                                     (currentStorageState\<lparr>DeviceStates :=
                                        AList.update (pa_DeviceName unit) deviceState
                                          (DeviceStates currentStorageState)\<rparr>) c;
                               unit = unit\<lparr>pa_Allocated := dev_Allocatable deviceState\<rparr>;
                               c = set_details (AssumeByPVC (pvAllocatedDetails c) (DeviceDetail unit)) c
                           in map_option (\<lambda>(c', us, err). (c', unit # us, err))
                                (device_reserve_loop nodeName c units)))))"

definition device_reserve ::
  "NodeStorageAllocatedCache \<Rightarrow> string \<Rightarrow> NodeAllocateUnits \<Rightarrow>
     (NodeStorageAllocatedCache \<times> NodeAllocateUnits \<times> go_error option) option" where
  "device_reserve c nodeName nodeUnits =
     (if length (DevicePVCAllocateUnits nodeUnits) = 0 then Some (c, nodeUnits, None)
      else map_option (\<lambda>(c', us, err). (c', nodeUnits\<lparr>DevicePVCAllocateUnits := us\<rparr>, err))
             (device_reserve_loop nodeName c (DevicePVCAllocateUnits nodeUnits)))"

fun device_unreserve_loop ::
  "string \<Rightarrow> NodeStorageAllocatedCache \<Rightarrow> DeviceTypePVAllocated list \<Rightarrow>
     NodeStorageAllocatedCache \<times> DeviceTypePVAllocated list" where
  "device_unreserve_loop nodeName c [] = (c, [])"
| "device_unreserve_loop nodeName c (unit # units) =
     (if pa_Allocated unit = 0
      then (let (c', us) = device_unreserve_loop nodeName c units in (c', unit # us))
      else
        (let c = revertDeviceByPVCIfNeed c nodeName (pa_PVCNamespace unit) (pa_PVCName unit);
             unit = unit\<lparr>pa_Allocated := 0\<rparr>;
             (c', us) = device_unreserve_loop nodeName c units
         in (c', unit # us)))"

definition device_unreserve ::
  "NodeStorageAllocatedCache \<Rightarrow> string \<Rightarrow> NodeAllocateUnits \<Rightarrow> NodeStorageAllocatedCache \<times> NodeAllocateUnits" where
  "device_unreserve c nodeName units =
     (if length (DevicePVCAllocateUnits units) = 0 then (c, units)
      else (let (c', us) = device_unreserve_loop nodeName c (DevicePVCAllocateUnits units)
            in (c', units\<lparr>DevicePVCAllocateUnits := us\<rparr>)))"

section \<open>Facts: the volume groups are left alone\<close>

lemma node_requested_DeviceStates [ledger_simps, simp]:
  "node_requested (s\<lparr>DeviceStates := d\<rparr>) v = node_requested s v"
  by (simp add: node_requested_def)

lemma wf_node_DeviceStates [simp]: "wf_node s \<Longrightarrow> wf_devs d \<Longrightarrow> wf_node (s\<lparr>DeviceStates := d\<rparr>)"
  by (simp add: wf_node_def)

lemma wf_node_devs: "wf_node s \<Longrightarrow> wf_devs (DeviceStates s)"
  by (simp add: wf_node_def)

lemma ledger_set_devices:
  assumes "map_of (states c) n = Some s"
  shows "requested (set_node n (s\<lparr>DeviceStates := d\<rparr>) c) m v = requested c m v"
  using assms by (simp add: ledger_simps) (simp add: requested_def)

lemma revertDeviceForState_ledger [simp]:
  "requested (revertDeviceForState c n d) m v = requested c m v"
  "charged (revertDeviceForState c n d) m v = charged c m v"
  "pvAllocatedDetails (revertDeviceForState c n d) = pvAllocatedDetails c"
  "pvcInfosMap (revertDeviceForState c n d) = pvcInfosMap c"
  "inlineVolumeAllocatedDetails (revertDeviceForState c n d) = inlineVolumeAllocatedDetails c"
  by (auto simp: revertDeviceForState_def charged_def set_node_def requested_def go_map_simps
      split: option.split)

lemma allocateDeviceForState_ledger [simp]:
  "requested (allocateDeviceForState c n d r) m v = requested c m v"
  "charged (allocateDeviceForState c n d r) m v = charged c m v"
  "pvAllocatedDetails (allocateDeviceForState c n d r) = pvAllocatedDetails c"
  by (auto simp: allocateDeviceForState_def charged_def set_node_def Let_def requested_def go_map_simps
      NewNodeStorageState_def node_requested_def entry_def split: option.split)

lemma initDevice_ledger [simp]:
  "requested (fst (initIfNeedAndGetDeviceState c n d)) m v = requested c m v"
  "charged (fst (initIfNeedAndGetDeviceState c n d)) m v = charged c m v"
  "pvAllocatedDetails (fst (initIfNeedAndGetDeviceState c n d)) = pvAllocatedDetails c"
  by (auto simp: initIfNeedAndGetDeviceState_def initIfNeedAndGetNodeStoragePool_def charged_def Let_def
      set_node_def requested_def go_map_simps NewNodeStorageState_def node_requested_def entry_def
      split: option.split)

lemma wf_revertDeviceForState [simp]: "wf_cache c \<Longrightarrow> wf_cache (revertDeviceForState c n d)"
  by (auto simp: revertDeviceForState_def split: option.split
      intro!: wf_cache_set_node wf_node_DeviceStates wf_RevertDevice dest: wf_cache_node wf_node_devs)

lemma wf_allocateDeviceForState [simp]: "wf_cache c \<Longrightarrow> wf_cache (allocateDeviceForState c n d r)"
  by (auto simp: allocateDeviceForState_def Let_def split: option.split
      intro!: wf_cache_set_node wf_node_DeviceStates wf_AllocateDevice dest: wf_cache_node
      intro: wf_node_devs)

lemma wf_initDevice [simp]: "wf_cache c \<Longrightarrow> wf_cache (fst (initIfNeedAndGetDeviceState c n d))"
  by (auto simp: initIfNeedAndGetDeviceState_def initIfNeedAndGetNodeStoragePool_def Let_def
      split: option.split intro!: wf_cache_set_node wf_node_DeviceStates wf_devs_update
      dest: wf_cache_node intro: wf_node_devs)

lemma device_detail_charge:
  assumes "wf_details l" and "map_of (pvcAllocated l) k = Some (DeviceDetail d)"
  shows "details_charge n v (DeleteByPVC l k) = details_charge n v l"
  using assms by (simp add: ledger_simps entry_def)

lemma revertDeviceByPVC_cases:
  obtains (same) "revertDeviceByPVCIfNeed c n ns name = c"
  | (reverted) d where
      "GetByPVC (pvAllocatedDetails c) ns name = Some (DeviceDetail d)"
      "pa_DeviceName d \<noteq> []" "pa_Allocated d \<noteq> 0"
      "revertDeviceByPVCIfNeed c n ns name =
         set_details (DeleteByPVC (pvAllocatedDetails c) (GetNameKey ns name))
           (revertDeviceForState c n (pa_DeviceName d))"
proof (cases "revertDeviceByPVCIfNeed c n ns name = c")
  case False
  then obtain d where "GetByPVC (pvAllocatedDetails c) ns name = Some (DeviceDetail d)"
      "pa_DeviceName d \<noteq> []" "pa_Allocated d \<noteq> 0" "ns \<noteq> [] \<or> name \<noteq> []"
    by (auto simp: revertDeviceByPVCIfNeed_def split: option.splits PVAllocated.splits if_splits)
  then show thesis
    by (intro reverted) (auto simp: revertDeviceByPVCIfNeed_def Let_def)
qed (rule same)

lemma revertDeviceByPVC_ledger [simp]:
  assumes "wf_cache c"
  shows "requested (revertDeviceByPVCIfNeed c n ns name) m v = requested c m v"
    and "charged (revertDeviceByPVCIfNeed c n ns name) m v = charged c m v"
    and "wf_cache (revertDeviceByPVCIfNeed c n ns name)"
  using assms
  by (cases rule: revertDeviceByPVC_cases [of c n ns name];
      simp add: ledger_simps wf_cacheD device_detail_charge GetByPVC_def entry_def)+

lemma gap_device_pvcAdd:
  assumes "wf_cache c"
  shows "gap (device_pvcAdd c n pvc pv) m v = gap c m v" and "wf_cache (device_pvcAdd c n pvc pv)"
  using assms by (simp_all add: device_pvcAdd_def gap_def ledger_simps)

lemma gap_device_pvDelete:
  assumes wf: "wf_cache c"
    and dev: "\<And>d. GetByPV (pvAllocatedDetails c) (pv_Name pv) = Some d \<Longrightarrow> GetVolumeType d = VolumeTypeDevice"
    and pvc: "\<And>d. GetByPV (pvAllocatedDetails c) (pv_Name pv) = Some d \<Longrightarrow>
        GetByPVC (pvAllocatedDetails c) (pa_PVCNamespace (GetBasePVAllocated d))
          (pa_PVCName (GetBasePVAllocated d)) = None"
  shows "gap (device_pvDelete K c n pv) m v = gap c m v" and "wf_cache (device_pvDelete K c n pv)"
proof -
  have wfl: "wf_details (pvAllocatedDetails c)" using wf by (simp add: wf_cacheD)
  show "wf_cache (device_pvDelete K c n pv)"
    using wf wfl by (simp add: device_pvDelete_def Let_def split: option.split)
  have "details_charge m v (DeleteByPV (pvAllocatedDetails c) (Some d)) =
      details_charge m v (pvAllocatedDetails c)"
    if d: "GetByPV (pvAllocatedDetails c) (pv_Name pv) = Some d" for d
  proof -
    have "pa_VolumeName (GetBasePVAllocated d) = pv_Name pv"
      using wf_details_pv_name [OF wfl] d by (simp add: GetByPV_def)
    moreover have "lvm_charge m v d = 0"
      using dev [OF d] by (cases d) auto
    ultimately show ?thesis
      using pvc [OF d] d wfl
      by (simp add: details_charge_def DeleteByPV_def Let_def total_simps wf_details_def entry_def
          GetByPV_def GetByPVC_def)
  qed
  then show "gap (device_pvDelete K c n pv) m v = gap c m v"
    by (simp add: device_pvDelete_def Let_def gap_def ledger_simps split: option.split)
qed

lemma device_pvUpdate_cases:
  assumes "device_pvUpdate K c n pv = Some c'"
  obtains (same) "c' = c"
  | (added) dn new where
      "pa_VolumeName new = pv_Name pv" "pa_NodeName new = n" "pa_DeviceName new = dn"
      "device_pvUpdate_name K c pv = Some (Some dn)"
      "c' = (let c2 = allocateDeviceForState
                        (revertDeviceByPVCIfNeed (fst (initIfNeedAndGetDeviceState c n dn)) n
                          (pa_PVCNamespace new) (pa_PVCName new))
                        n dn (pa_Allocated new)
             in set_details (fst (AssumeByPVEvent (pvAllocatedDetails c2) (DeviceDetail new))) c2)"
proof (cases "pv_Phase pv = VolumePending")
  case True
  with assms show thesis by (intro same) (simp add: device_pvUpdate_def)
next
  case False
  show thesis
  proof (cases "device_pvUpdate_name K c pv")
    case None
    with False assms show thesis by (simp add: device_pvUpdate_def)
  next
    case (Some vgo)
    show thesis
    proof (cases vgo)
      case None
      with Some False assms show thesis by (intro same) (simp add: device_pvUpdate_def)
    next
      case dn: (Some dn)
      obtain c1 ds i where init: "initIfNeedAndGetDeviceState c n dn = (c1, ds, i)"
        by (metis prod_cases3)
      define new0 where "new0 = NewDeviceTypePVAllocatedFromPV pv dn n"
      define new where "new = new0\<lparr>pa_Allocated := (if i then dev_Allocatable ds else pa_Requested new0)\<rparr>"
      have new': "(if i then new0\<lparr>pa_Allocated := dev_Allocatable ds\<rparr>
                   else new0\<lparr>pa_Allocated := pa_Requested new0\<rparr>) = new"
        by (simp add: new_def)
      have "c' = (let c2 = allocateDeviceForState
                        (revertDeviceByPVCIfNeed c1 n (pa_PVCNamespace new) (pa_PVCName new))
                        n dn (pa_Allocated new)
             in set_details (fst (AssumeByPVEvent (pvAllocatedDetails c2) (DeviceDetail new))) c2)"
        using assms False Some dn
        by (simp add: device_pvUpdate_def init new0_def [symmetric] new' Let_def)
      then show thesis
        by (intro added [of new dn]) (simp_all add: init new_def new0_def Some dn)
    qed
  qed
qed

lemma gap_device_pvUpdate:
  assumes wf: "wf_cache c" and up: "device_pvUpdate K c n pv = Some c'" and name: "pv_Name pv \<noteq> []"
    and dev: "\<And>d. GetByPV (pvAllocatedDetails c) (pv_Name pv) = Some d \<Longrightarrow> GetVolumeType d = VolumeTypeDevice"
  shows "gap c' m v = gap c m v"
  using up
proof (cases rule: device_pvUpdate_cases)
  case (added dn new)
  define c1 where "c1 = revertDeviceByPVCIfNeed (fst (initIfNeedAndGetDeviceState c n dn)) n
      (pa_PVCNamespace new) (pa_PVCName new)"
  have wf1: "wf_cache c1" and req1: "requested c1 m v = requested c m v"
    and ch1: "charged c1 m v = charged c m v"
    using wf by (simp_all add: c1_def)
  have pv: "pvAllocated (pvAllocatedDetails c1) = pvAllocated (pvAllocatedDetails c)"
    unfolding c1_def
    by (cases rule: revertDeviceByPVC_cases [of "fst (initIfNeedAndGetDeviceState c n dn)" n
          "pa_PVCNamespace new" "pa_PVCName new"])
      (simp_all add: DeleteByPVC_def)
  have "entry (lvm_charge m v) (pvAllocated (pvAllocatedDetails c1)) (pv_Name pv) = 0"
  proof (cases "map_of (pvAllocated (pvAllocatedDetails c)) (pv_Name pv)")
    case (Some d)
    with dev [of d] show ?thesis by (cases d) (simp_all add: GetByPV_def entry_def pv)
  qed (simp add: entry_def pv)
  then have "details_charge m v (fst (AssumeByPVEvent (pvAllocatedDetails c1) (DeviceDetail new))) =
      details_charge m v (pvAllocatedDetails c1)"
    using wf_cacheD(3) [OF wf1] name added(1) by (simp add: ledger_simps)
  with added(5) req1 ch1 show ?thesis
    by (simp add: c1_def [symmetric] Let_def gap_def ledger_simps)
qed simp

lemma wf_device_pvUpdate:
  assumes "wf_cache c" and "device_pvUpdate K c n pv = Some c'"
  shows "wf_cache c'"
  using assms(2)
proof (cases rule: device_pvUpdate_cases)
  case (added dn new)
  with assms(1) show ?thesis by (simp add: Let_def wf_cacheD)
qed (use assms(1) in simp)

section \<open>Facts: the greedy choice of devices\<close>

definition fits_on :: "DeviceStates \<Rightarrow> DevicePVCInfo \<Rightarrow> string \<Rightarrow> bool" where
  "fits_on st p k \<longleftrightarrow> \<not> dev_Allocatable (dev_at st k) <s di_Request p"

text \<open>An assignment: distinct devices out of \<open>ks\<close>, one per claim, each large enough.\<close>

definition assignment :: "DeviceStates \<Rightarrow> DevicePVCInfo list \<Rightarrow> string list \<Rightarrow> string list \<Rightarrow> bool" where
  "assignment st ps ks ds \<longleftrightarrow> distinct ds \<and> set ds \<subseteq> set ks \<and> list_all2 (fits_on st) ps ds"

lemma dev_at_update [simp]: "dev_at (AList.update k x st) j = (if j = k then x else dev_at st j)"
  by (simp add: dev_at_def go_map_simps)

lemma assignment_update:
  "k \<notin> set ks \<Longrightarrow> assignment (AList.update k x st) ps ks ds = assignment st ps ks ds"
  by (auto simp: assignment_def fits_on_def list_all2_conv_all_nth subset_iff)

lemma assignment_reorder:
  assumes "assignment st ps ks ds" and "mset ps' = mset ps"
  shows "\<exists>ds'. assignment st ps' ks ds'"
proof -
  from assms obtain ds' where l: "list_all2 (fits_on st) ps' ds'" and m: "mset ds' = mset ds"
    using list_all2_reorder_left_invariance unfolding assignment_def by blast
  from m have "set ds' = set ds"
    by (metis set_mset_mset)
  moreover from m have "distinct ds' = distinct ds"
    by (rule mset_eq_imp_distinct_iff)
  moreover note l
  ultimately show ?thesis
    using assms(1) by (auto simp: assignment_def)
qed

text \<open>The exchange argument: the smallest device that fits the smallest claim may be given to it.\<close>

lemma assignment_exchange:
  assumes a: "assignment st (p # ps) (k # ks) ds"
    and ps: "\<forall>q \<in> set ps. \<not> di_Request q <s di_Request p"
    and ks: "\<forall>j \<in> set ks. \<not> dev_Allocatable (dev_at st j) <s dev_Allocatable (dev_at st k)"
  shows "\<exists>ds'. assignment st ps ks ds'"
proof -
  from a obtain d ds' where ds: "ds = d # ds'" and fit: "fits_on st p d" "list_all2 (fits_on st) ps ds'"
    and dist: "d \<notin> set ds'" "distinct ds'" and sub: "set (d # ds') \<subseteq> set (k # ks)"
    by (auto simp: assignment_def list_all2_Cons1)
  define f where "f x = (if x = k then d else x)" for x
  have "fits_on st q (f x)" if "fits_on st q x" for q x
  proof (cases "x = k")
    case True
    from sub have "d = k \<or> d \<in> set ks" by auto
    with ks have "\<not> dev_Allocatable (dev_at st d) <s dev_Allocatable (dev_at st k)" by auto
    with that True show ?thesis
      by (auto simp: f_def fits_on_def word_sless_alt)
  next
    case False
    with that show ?thesis by (simp add: f_def)
  qed
  then have "list_all2 (fits_on st) ps (map f ds')"
    using fit(2) by (auto simp: list_all2_conv_all_nth)
  moreover have "distinct (map f ds')"
    using dist by (auto simp: distinct_map f_def inj_on_def)
  moreover have "set (map f ds') \<subseteq> set ks"
    using sub dist(1) by (auto simp: f_def split: if_splits)
  ultimately show ?thesis
    by (intro exI [of _ "map f ds'"]) (simp add: assignment_def)
qed

lemma assignment_too_small:
  assumes a: "assignment st (p # ps) (k # ks) ds" and k: "\<not> fits_on st p k"
    and ps: "\<forall>q \<in> set ps. \<not> di_Request q <s di_Request p"
  shows "assignment st (p # ps) ks ds"
proof -
  have "\<not> fits_on st q k" if "q \<in> set (p # ps)" for q
    using that k ps by (auto simp: fits_on_def word_sless_alt)
  moreover from a have "list_all2 (fits_on st) (p # ps) ds"
    by (simp add: assignment_def)
  ultimately have "k \<notin> set ds"
    by (metis in_set_conv_nth list_all2_conv_all_nth nth_mem)
  with a show ?thesis by (auto simp: assignment_def)
qed

lemma process_device_loop_complete:
  assumes "assignment st ps ks ds" and "distinct ks"
    and "\<forall>k \<in> set ks. \<not> dev_IsAllocated (dev_at st k)"
    and "sorted_wrt (\<lambda>p q. \<not> di_Request q <s di_Request p) ps"
    and "sorted_wrt (\<lambda>j k. \<not> dev_Allocatable (dev_at st k) <s dev_Allocatable (dev_at st j)) ks"
  shows "\<exists>units. snd (process_device_loop n cur ps ks st us) = Inr units"
  using assms
proof (induction n cur ps ks st us arbitrary: ds rule: process_device_loop.induct)
  case (2 n cur p ps st us)
  then show ?case by (auto simp: assignment_def list_all2_Cons1)
next
  case (3 n cur p ps k ks st us)
  show ?case
  proof (cases "fits_on st p k")
    case False
    then have "assignment st (p # ps) ks ds"
      using "3.prems" by (intro assignment_too_small [OF "3.prems"(1)]) auto
    with 3 False show ?thesis
      by (auto simp: Let_def fits_on_def)
  next
    case True
    let ?d = "dev_at st k\<lparr>dev_IsAllocated := True, dev_Requested := dev_Allocatable (dev_at st k)\<rparr>"
    from "3.prems" obtain ds' where "assignment st ps ks ds'"
      using assignment_exchange [OF "3.prems"(1)] by auto
    then have asg: "assignment (AList.update k ?d st) ps ks ds'"
      using "3.prems"(2) by (simp add: assignment_update)
    have free: "\<forall>j \<in> set ks. \<not> dev_IsAllocated (dev_at (AList.update k ?d st) j)"
      using "3.prems"(2,3) by auto
    have srt: "sorted_wrt (\<lambda>j k'. \<not> dev_Allocatable (dev_at (AList.update k ?d st) k')
        <s dev_Allocatable (dev_at (AList.update k ?d st) j)) ks"
      using "3.prems"(2,5) by (auto intro: sorted_wrt_mono_rel [rotated])
    have loop: "process_device_loop n cur (p # ps) (k # ks) st us =
        process_device_loop n p ps ks (AList.update k ?d st) (us @ [device_unit_for n p ?d])"
      using True "3.prems"(3) by (simp add: Let_def fits_on_def)
    show ?thesis
      unfolding loop
      by (rule "3.IH"(2) [OF refl _ refl asg _ free _ srt])
        (use True "3.prems" in \<open>auto simp: fits_on_def\<close>)
  qed
qed simp

lemma process_device_loop_sound:
  assumes "process_device_loop n cur ps ks st us = (st', Inr units)" and "distinct ks"
  shows "\<exists>ds. assignment st ps ks ds \<and> (\<forall>k \<in> set ds. \<not> dev_IsAllocated (dev_at st k))
     \<and> units = us @ map2 (\<lambda>p k. device_unit_for n p (dev_at st k)) ps ds
     \<and> (\<forall>k. dev_at st' k = (if k \<in> set ds
          then dev_at st k\<lparr>dev_IsAllocated := True, dev_Requested := dev_Allocatable (dev_at st k)\<rparr>
          else dev_at st k))"
  using assms
proof (induction n cur ps ks st us rule: process_device_loop.induct)
  case (1 n cur ks st us)
  then show ?case by (simp add: assignment_def)
next
  case (3 n cur p ps k ks st us)
  show ?case
  proof (cases "dev_IsAllocated (dev_at st k) \<or> dev_Allocatable (dev_at st k) <s di_Request p")
    case True
    with 3 obtain ds where "assignment st (p # ps) ks ds" and
      "\<forall>k \<in> set ds. \<not> dev_IsAllocated (dev_at st k)"
      "units = us @ map2 (\<lambda>p k. device_unit_for n p (dev_at st k)) (p # ps) ds"
      "\<forall>k. dev_at st' k = (if k \<in> set ds
          then dev_at st k\<lparr>dev_IsAllocated := True, dev_Requested := dev_Allocatable (dev_at st k)\<rparr>
          else dev_at st k)"
      by (auto simp: Let_def)
    moreover from this(1) have "assignment st (p # ps) (k # ks) ds"
      by (auto simp: assignment_def)
    ultimately show ?thesis by blast
  next
    case False
    let ?d = "dev_at st k\<lparr>dev_IsAllocated := True, dev_Requested := dev_Allocatable (dev_at st k)\<rparr>"
    let ?st = "AList.update k ?d st"
    from 3 False obtain ds where ds: "assignment ?st ps ks ds"
      "\<forall>j \<in> set ds. \<not> dev_IsAllocated (dev_at ?st j)"
      "units = (us @ [device_unit_for n p ?d]) @ map2 (\<lambda>p k. device_unit_for n p (dev_at ?st k)) ps ds"
      "\<forall>j. dev_at st' j = (if j \<in> set ds
          then dev_at ?st j\<lparr>dev_IsAllocated := True, dev_Requested := dev_Allocatable (dev_at ?st j)\<rparr>
          else dev_at ?st j)"
      by (auto simp: Let_def)
    have k: "k \<notin> set ds"
      using ds(1) "3.prems"(2) by (auto simp: assignment_def)
    have "assignment st ps ks ds"
      using ds(1) "3.prems"(2) by (simp add: assignment_update)
    with False k have "assignment st (p # ps) (k # ks) (k # ds)"
      by (auto simp: assignment_def fits_on_def)
    moreover have "map2 (\<lambda>p k. device_unit_for n p (dev_at ?st k)) ps ds =
        map2 (\<lambda>p k. device_unit_for n p (dev_at st k)) ps ds"
      using k by (auto dest!: set_zip_rightD)
    then have "units = us @ map2 (\<lambda>p k. device_unit_for n p (dev_at st k)) (p # ps) (k # ds)"
      using ds(3) by (simp add: device_unit_for_def)
    moreover have "\<forall>j \<in> set (k # ds). \<not> dev_IsAllocated (dev_at st j)"
      using ds(2) False k by (auto split: if_splits)
    moreover have "\<forall>j. dev_at st' j = (if j \<in> set (k # ds)
          then dev_at st j\<lparr>dev_IsAllocated := True, dev_Requested := dev_Allocatable (dev_at st j)\<rparr>
          else dev_at st j)"
      using ds(4) k by auto
    ultimately show ?thesis by blast
  qed
qed simp

interpretation pvc_less: go_less "\<lambda>i j. di_Request i <s di_Request j"
  by (rule go_less_key)

interpretation device_less: go_less "\<lambda>i j. dev_Allocatable (dev_at st i) <s dev_Allocatable (dev_at st j)" for st
  by (rule go_less_key)

lemma processDeviceByMediaType_sound:
  assumes run: "processDeviceByMediaType n ps ks st = (ps', st', Inr units)" and "distinct ks"
  shows "\<exists>ds. assignment st ps' ks ds \<and> (\<forall>k \<in> set ds. \<not> dev_IsAllocated (dev_at st k))
     \<and> mset ps' = mset ps
     \<and> units = map2 (\<lambda>p k. device_unit_for n p (dev_at st k)) ps' ds
     \<and> (\<forall>k. dev_at st' k = (if k \<in> set ds
          then dev_at st k\<lparr>dev_IsAllocated := True, dev_Requested := dev_Allocatable (dev_at st k)\<rparr>
          else dev_at st k))"
proof (cases "ps = []")
  case True
  with run show ?thesis
    by (auto simp: processDeviceByMediaType_def assignment_def intro!: exI [of _ "[]"])
next
  case False
  define qs where "qs = sort_Slice (\<lambda>i j. di_Request i <s di_Request j) ps"
  define ls where "ls = sort_Slice (\<lambda>i j. dev_Allocatable (dev_at st i) <s dev_Allocatable (dev_at st j)) ks"
  from run False have "\<not> length ks < length ps" and ps': "ps' = qs"
    and "process_device_loop n (hd qs) qs ls st [] = (st', Inr units)"
    by (auto simp: processDeviceByMediaType_def Let_def qs_def ls_def split: if_splits prod.splits)
  from process_device_loop_sound [OF this(3)] assms(2) obtain ds where
    "assignment st qs ls ds" "\<forall>k \<in> set ds. \<not> dev_IsAllocated (dev_at st k)"
    "units = map2 (\<lambda>p k. device_unit_for n p (dev_at st k)) qs ds"
    "\<forall>k. dev_at st' k = (if k \<in> set ds
          then dev_at st k\<lparr>dev_IsAllocated := True, dev_Requested := dev_Allocatable (dev_at st k)\<rparr>
          else dev_at st k)"
    by (auto simp: ls_def)
  then show ?thesis
    by (intro exI [of _ ds]) (auto simp: ps' qs_def ls_def assignment_def)
qed

lemma processDeviceByMediaType_complete:
  assumes a: "assignment st ps ks ds" and dist: "distinct ks"
    and free: "\<forall>k \<in> set ks. \<not> dev_IsAllocated (dev_at st k)"
  shows "\<exists>units. snd (snd (processDeviceByMediaType n ps ks st)) = Inr units"
proof (cases "ps = []")
  case False
  define qs where "qs = sort_Slice (\<lambda>i j. di_Request i <s di_Request j) ps"
  define ls where "ls = sort_Slice (\<lambda>i j. dev_Allocatable (dev_at st i) <s dev_Allocatable (dev_at st j)) ks"
  have "length ps \<le> length ks"
    using a by (metis assignment_def card_mono distinct_card finite_set list_all2_lengthD card_length le_trans)
  with False have eq: "snd (snd (processDeviceByMediaType n ps ks st)) =
      snd (process_device_loop n (hd qs) qs ls st [])"
    by (auto simp: processDeviceByMediaType_def Let_def qs_def ls_def split: prod.split)
  from assignment_reorder [OF a, of qs] obtain ds' where "assignment st qs ks ds'"
    by (auto simp: qs_def)
  then have "assignment st qs ls ds'"
    by (simp add: assignment_def ls_def)
  from process_device_loop_complete [OF this, of n "hd qs" "[]"] dist free show ?thesis
    by (simp add: eq ls_def qs_def device_less.sort_Slice_sorted pvc_less.sort_Slice_sorted)
qed (simp add: processDeviceByMediaType_def)

section \<open>Facts: reserving and unreserving\<close>

definition device_unit_ok :: "string \<Rightarrow> DeviceTypePVAllocated \<Rightarrow> bool" where
  "device_unit_ok n u \<longleftrightarrow> pa_NodeName u = n \<and> pa_PVCName u \<noteq> [] \<and> pa_PVCNamespace u \<noteq> []"

text \<open>Units of a claim that already has a detail or is bound are skipped.\<close>

definition device_skipped :: "NodeStorageAllocatedCache \<Rightarrow> DeviceTypePVAllocated \<Rightarrow> bool" where
  "device_skipped c u \<longleftrightarrow>
     GetByPVC (pvAllocatedDetails c) (pa_PVCNamespace u) (pa_PVCName u) \<noteq> None \<or>
     (\<exists>i. map_of (pvcInfosMap c) (GetNameKey (pa_PVCNamespace u) (pa_PVCName u)) = Some i
          \<and> pi_PVCStatus i = ClaimBound)"

definition device_reserve_step ::
  "string \<Rightarrow> DeviceTypePVAllocated \<Rightarrow> NodeStorageState \<Rightarrow> DeviceResourcePool \<Rightarrow>
     NodeStorageAllocatedCache \<Rightarrow> NodeStorageAllocatedCache" where
  "device_reserve_step n u s d c =
     set_details (AssumeByPVC (pvAllocatedDetails c) (DeviceDetail (u\<lparr>pa_Allocated := dev_Allocatable d\<rparr>)))
       (set_node n (s\<lparr>DeviceStates := AList.update (pa_DeviceName u)
          (d\<lparr>dev_IsAllocated := True, dev_Requested := dev_Allocatable d\<rparr>) (DeviceStates s)\<rparr>) c)"

lemma device_reserve_loop_induct [consumes 1, case_names finished skip fail step]:
  assumes "device_reserve_loop n c us = Some (c', us', err)"
    and "\<And>c. P c [] c [] None"
    and "\<And>c u us c' us' err. device_skipped c u \<Longrightarrow>
          device_reserve_loop n c us = Some (c', us', err) \<Longrightarrow>
          P c us c' us' err \<Longrightarrow> P c (u # us) c' (u # us') err"
    and "\<And>c u us e. \<not> device_skipped c u \<Longrightarrow> P c (u # us) c (u # us) (Some e)"
    and "\<And>c u us c' us' err s d.
          \<not> device_skipped c u \<Longrightarrow> map_of (states c) n = Some s \<Longrightarrow>
          map_of (DeviceStates s) (pa_DeviceName u) = Some d \<Longrightarrow>
          \<not> dev_IsAllocated d \<Longrightarrow> \<not> dev_Allocatable d <s pa_Requested u \<Longrightarrow>
          device_reserve_loop n (device_reserve_step n u s d c) us = Some (c', us', err) \<Longrightarrow>
          P (device_reserve_step n u s d c) us c' us' err \<Longrightarrow>
          P c (u # us) c' (u\<lparr>pa_Allocated := dev_Allocatable d\<rparr> # us') err"
  shows "P c us c' us' err"
  using assms(1)
proof (induction us arbitrary: c c' us' err)
  case Nil
  with assms(2) show ?case by (simp split: if_splits)
next
  case (Cons u us)
  show ?case
  proof (cases "device_skipped c u")
    case True
    then have "device_reserve_loop n c (u # us) =
        map_option (\<lambda>(c', us, err). (c', u # us, err)) (device_reserve_loop n c us)"
      by (auto simp: device_skipped_def Let_def)
    with Cons.prems obtain us'' where "device_reserve_loop n c us = Some (c', us'', err)" "us' = u # us''"
      by (auto simp del: device_reserve_loop.simps)
    with Cons.IH assms(3) True show ?thesis by auto
  next
    case False
    then have none: "GetByPVC (pvAllocatedDetails c) (pa_PVCNamespace u) (pa_PVCName u) = None"
      by (simp add: device_skipped_def)
    have bound: "(case map_of (pvcInfosMap c) (GetNameKey (pa_PVCNamespace u) (pa_PVCName u)) of
        Some i \<Rightarrow> pi_PVCStatus i = ClaimBound | None \<Rightarrow> False) = False"
      using False by (auto simp: device_skipped_def split: option.split)
    from Cons.prems none bound obtain s where s: "map_of (states c) n = Some s"
      by (auto simp: Let_def split: option.splits)
    show ?thesis
    proof (cases "map_of (DeviceStates s) (pa_DeviceName u)")
      case None
      with Cons.prems none bound s obtain e where "c' = c" "us' = u # us" "err = Some e"
        by (auto simp: Let_def)
      with assms(4) [OF False] show ?thesis by simp
    next
      case (Some d)
      show ?thesis
      proof (cases "dev_IsAllocated d \<or> dev_Allocatable d <s pa_Requested u")
        case True
        with Cons.prems none bound s Some obtain e where "c' = c" "us' = u # us" "err = Some e"
          by (auto simp: Let_def split: if_splits)
        with assms(4) [OF False] show ?thesis by simp
      next
        case ok: False
        have "device_reserve_loop n c (u # us) = map_option
            (\<lambda>(c', us, err). (c', u\<lparr>pa_Allocated := dev_Allocatable d\<rparr> # us, err))
            (device_reserve_loop n (device_reserve_step n u s d c) us)"
          using ok none bound s Some
          by (simp add: Let_def device_reserve_step_def set_node_def)
        with Cons.prems obtain us'' where
            "device_reserve_loop n (device_reserve_step n u s d c) us = Some (c', us'', err)"
            "us' = u\<lparr>pa_Allocated := dev_Allocatable d\<rparr> # us''"
          by (auto simp del: device_reserve_loop.simps)
        with Cons.IH assms(5) [OF False s Some] ok show ?thesis by auto
      qed
    qed
  qed
qed

lemma details_set_node [simp]: "pvAllocatedDetails (set_node n s c) = pvAllocatedDetails c"
  by (simp add: set_node_def)

lemma wf_cache_device_reserve_step:
  assumes "wf_cache c" and "map_of (states c) n = Some s"
    and "map_of (DeviceStates s) (pa_DeviceName u) = Some d"
  shows "wf_cache (device_reserve_step n u s d c)"
  using assms wf_cache_node [OF assms(1,2)] wf_devs_name [OF wf_node_devs assms(3)]
  by (auto simp: device_reserve_step_def wf_cacheD intro!: wf_cache_set_details wf_cache_set_node
      wf_node_DeviceStates wf_devs_update intro: wf_node_devs)

lemma gap_device_reserve_step:
  assumes "wf_cache c" and "map_of (states c) n = Some s"
    and "\<not> device_skipped c u" and "device_unit_ok n u"
  shows "gap (device_reserve_step n u s d c) m v = gap c m v"
proof -
  have "requested c n v = node_requested s v"
    using assms(2) by (simp add: requested_def)
  with assms wf_cacheD(3) [OF assms(1)] show ?thesis
    by (auto simp: gap_def device_reserve_step_def ledger_simps device_unit_ok_def entry_def
        device_skipped_def GetByPVC_def)
qed

lemma wf_cache_device_reserve_loop:
  "device_reserve_loop n c us = Some (c', us', err) \<Longrightarrow> wf_cache c \<Longrightarrow> wf_cache c'"
  by (induction rule: device_reserve_loop_induct) (auto simp: wf_cache_device_reserve_step)

lemma gap_device_reserve_loop:
  "device_reserve_loop n c us = Some (c', us', err) \<Longrightarrow> wf_cache c \<Longrightarrow>
     \<forall>u \<in> set us. device_unit_ok n u \<Longrightarrow> gap c' m v = gap c m v"
  by (induction rule: device_reserve_loop_induct)
    (auto simp: wf_cache_device_reserve_step gap_device_reserve_step)

lemma device_unreserve_loop_ledger:
  assumes "wf_cache c"
  shows "gap (fst (device_unreserve_loop n c us)) m v = gap c m v"
    and "wf_cache (fst (device_unreserve_loop n c us))"
proof -
  have "gap (fst (device_unreserve_loop n c us)) m v = gap c m v \<and>
      wf_cache (fst (device_unreserve_loop n c us))"
    using assms by (induction us arbitrary: c) (simp_all add: Let_def case_prod_beta gap_def)
  then show "gap (fst (device_unreserve_loop n c us)) m v = gap c m v"
    and "wf_cache (fst (device_unreserve_loop n c us))" by simp_all
qed

subsection \<open>A device is handed out once\<close>

definition device_free :: "NodeStorageAllocatedCache \<Rightarrow> string \<Rightarrow> string \<Rightarrow> bool" where
  "device_free c n k \<longleftrightarrow>
     (case map_of (states c) n of
        None \<Rightarrow> False
      | Some s \<Rightarrow> (case map_of (DeviceStates s) k of None \<Rightarrow> False | Some d \<Rightarrow> \<not> dev_IsAllocated d))"

definition device_taken :: "NodeStorageAllocatedCache \<Rightarrow> string \<Rightarrow> string \<Rightarrow> bool" where
  "device_taken c n k \<longleftrightarrow>
     (case map_of (states c) n of
        None \<Rightarrow> False
      | Some s \<Rightarrow> (case map_of (DeviceStates s) k of None \<Rightarrow> False | Some d \<Rightarrow> dev_IsAllocated d))"

lemma device_reserve_step_devices:
  assumes "map_of (states c) n = Some s" and "map_of (DeviceStates s) (pa_DeviceName u) = Some d"
  shows "device_free (device_reserve_step n u s d c) n k \<longleftrightarrow> device_free c n k \<and> k \<noteq> pa_DeviceName u"
    and "device_taken (device_reserve_step n u s d c) n k \<longleftrightarrow> device_taken c n k \<or> k = pa_DeviceName u"
  using assms
  by (auto simp: device_free_def device_taken_def device_reserve_step_def set_node_def go_map_simps)

lemma device_skipped_step:
  assumes "GetNameKey (pa_PVCNamespace w) (pa_PVCName w) \<noteq> GetNameKey (pa_PVCNamespace u) (pa_PVCName u)"
  shows "device_skipped (device_reserve_step n u s d c) w = device_skipped c w"
  using assms
  by (auto simp: device_skipped_def device_reserve_step_def GetByPVC_def AssumeByPVC_def Let_def
      set_node_def go_map_simps)

lemma device_reserve_loop_exclusive:
  assumes "device_reserve_loop n c us = Some (c', us', None)"
    and "distinct (map (\<lambda>u. GetNameKey (pa_PVCNamespace u) (pa_PVCName u)) us)"
  shows "distinct (map pa_DeviceName (filter (\<lambda>u. \<not> device_skipped c u) us)) \<and>
     (\<forall>u \<in> set us. \<not> device_skipped c u \<longrightarrow>
        device_free c n (pa_DeviceName u) \<and> device_taken c' n (pa_DeviceName u)) \<and>
     (\<forall>k. device_taken c n k \<longrightarrow> device_taken c' n k)"
  using assms
proof (induction c us c' us' "None :: go_error option" rule: device_reserve_loop_induct)
  case (step c u us c' us' s d)
  let ?c = "device_reserve_step n u s d c"
  have skip: "device_skipped ?c w = device_skipped c w" if "w \<in> set us" for w
    using step.prems that by (intro device_skipped_step) (auto simp: image_iff)
  have filt: "filter (\<lambda>u. \<not> device_skipped ?c u) us = filter (\<lambda>u. \<not> device_skipped c u) us"
    using skip by (intro filter_cong) auto
  from step have IH: "distinct (map pa_DeviceName (filter (\<lambda>u. \<not> device_skipped ?c u) us))"
    "\<forall>w \<in> set us. \<not> device_skipped ?c w \<longrightarrow>
        device_free ?c n (pa_DeviceName w) \<and> device_taken c' n (pa_DeviceName w)"
    "\<forall>k. device_taken ?c n k \<longrightarrow> device_taken c' n k"
    by auto
  note dev = device_reserve_step_devices [OF step.hyps(2,3)]
  have "device_free c n (pa_DeviceName u)"
    using step.hyps by (simp add: device_free_def)
  with IH skip show ?case
    by (auto simp: filt dev)
qed auto

section \<open>The allocator meets its contracts\<close>

definition device_ok :: "string \<Rightarrow> NodeAllocateUnits \<Rightarrow> bool" where
  "device_ok n us \<longleftrightarrow> (\<forall>u \<in> set (DevicePVCAllocateUnits us). device_unit_ok n u)"

lemma device_reserve_loop_nodes:
  "device_reserve_loop n c us = Some (c', us', err) \<Longrightarrow>
     (map_of (states c') m = None) = (map_of (states c) m = None)"
  by (induction rule: device_reserve_loop_induct) (auto simp: device_reserve_step_def)

lemma device_reserve_loop_panics: "device_reserve_loop n c us = None \<Longrightarrow> map_of (states c) n = None"
proof (induction us arbitrary: c)
  case (Cons u us)
  have ret: "device_reserve_loop n d us \<noteq> None" if "map_of (states d) n \<noteq> None" for d
    using Cons.IH [of d] that by blast
  show ?case
  proof (rule ccontr)
    assume some: "map_of (states c) n \<noteq> None"
    have "(device_reserve_loop n (set_details l (set_node n s c)) us = None) = False" for l s
      using ret [of "set_details l (set_node n s c)"] by simp
    with ret [OF some] some Cons.prems show False
      by (auto simp: Let_def simp del: not_None_eq split: option.splits if_splits)
  qed
qed (simp split: if_splits)

interpretation device: schedule_allocator device_reserve device_unreserve device_ok "\<lambda>c n us. True"
proof unfold_locales
  fix c c' n us us' err m v
  show "map_of (states c) n \<noteq> None \<Longrightarrow> device_reserve c n us \<noteq> None"
    using device_reserve_loop_panics [of n c "DevicePVCAllocateUnits us"]
    by (cases "device_reserve_loop n c (DevicePVCAllocateUnits us)") (auto simp: device_reserve_def)
  show "device_reserve c n us = Some (c', us', err) \<Longrightarrow> wf_cache c \<Longrightarrow> wf_cache c'"
    by (auto simp: device_reserve_def split: if_splits intro: wf_cache_device_reserve_loop)
  show "device_reserve c n us = Some (c', us', err) \<Longrightarrow> wf_cache c \<Longrightarrow> device_ok n us \<Longrightarrow>
      gap c' m v = gap c m v"
    by (auto simp: device_reserve_def device_ok_def split: if_splits dest: gap_device_reserve_loop)
  show "device_reserve c n us = Some (c', us', err) \<Longrightarrow>
      (map_of (states c') m = None) = (map_of (states c) m = None)"
    by (auto simp: device_reserve_def split: if_splits dest: device_reserve_loop_nodes)
  show "device_reserve c n us = Some (c', us', err) \<Longrightarrow>
      InlineVolumeAllocateUnits us' = InlineVolumeAllocateUnits us"
    by (auto simp: device_reserve_def split: if_splits)
  show "wf_cache c \<Longrightarrow> wf_cache (fst (device_unreserve c n us))"
    by (simp add: device_unreserve_def Let_def case_prod_beta device_unreserve_loop_ledger)
  show "wf_cache c \<Longrightarrow> True \<Longrightarrow> gap (fst (device_unreserve c n us)) m v = gap c m v"
    by (simp add: device_unreserve_def Let_def case_prod_beta device_unreserve_loop_ledger)
qed

interpretation device_events: event_allocator device_pvcAdd device_pvAdd device_pvDelete
proof unfold_locales
  fix c K c' n pvc pv v
  have wfl: "wf_details (pvAllocatedDetails c)" if "wf_cache c" for c
    using that by (rule wf_cacheD)
  show "wf_cache c \<Longrightarrow> wf_cache (device_pvcAdd c n pvc v)"
    by (rule gap_device_pvcAdd)
  show "wf_cache c \<Longrightarrow> device_pvAdd K c n pv = Some c' \<Longrightarrow> wf_cache c'"
    unfolding device_pvAdd_def by (rule wf_device_pvUpdate)
  show "wf_cache c \<Longrightarrow> wf_cache (device_pvDelete K c n pv)"
    using wfl by (simp add: device_pvDelete_def Let_def split: option.split)
  show "pvcInfosMap (device_pvcAdd c n pvc v) = pvcInfosMap c"
    by (simp add: device_pvcAdd_def)
qed

section \<open>Properties\<close>

text \<open>C8: the smallest-first choice of devices is complete and sound: on distinct free devices,
  \<open>processDeviceByMediaType\<close> finds devices for all claims exactly when some assignment of distinct,
  large enough devices to the claims exists.\<close>

theorem device_choice_complete:
  assumes "distinct ks" and "\<forall>k \<in> set ks. \<not> dev_IsAllocated (dev_at st k)"
  shows "(\<exists>units. snd (snd (processDeviceByMediaType n ps ks st)) = Inr units) \<longleftrightarrow>
     (\<exists>ds. distinct ds \<and> set ds \<subseteq> set ks \<and>
           list_all2 (\<lambda>p k. di_Request p \<le>s dev_Allocatable (dev_at st k)) ps ds)"
proof
  have fits: "fits_on st = (\<lambda>p k. di_Request p \<le>s dev_Allocatable (dev_at st k))"
    by (intro ext) (simp add: fits_on_def word_sle_eq word_sless_alt not_less)
  assume "\<exists>units. snd (snd (processDeviceByMediaType n ps ks st)) = Inr units"
  then obtain ps' st' units where "processDeviceByMediaType n ps ks st = (ps', st', Inr units)"
    by (metis prod.collapse)
  from processDeviceByMediaType_sound [OF this assms(1)] obtain ds where
    "assignment st ps' ks ds" "mset ps' = mset ps" by blast
  from assignment_reorder [OF this(1) this(2) [symmetric]]
  show "\<exists>ds. distinct ds \<and> set ds \<subseteq> set ks \<and>
      list_all2 (\<lambda>p k. di_Request p \<le>s dev_Allocatable (dev_at st k)) ps ds"
    by (auto simp: assignment_def fits)
next
  have fits: "fits_on st = (\<lambda>p k. di_Request p \<le>s dev_Allocatable (dev_at st k))"
    by (intro ext) (simp add: fits_on_def word_sle_eq word_sless_alt not_less)
  assume "\<exists>ds. distinct ds \<and> set ds \<subseteq> set ks \<and>
      list_all2 (\<lambda>p k. di_Request p \<le>s dev_Allocatable (dev_at st k)) ps ds"
  then obtain ds where "assignment st ps ks ds"
    by (auto simp: assignment_def fits)
  from processDeviceByMediaType_complete [OF this assms]
  show "\<exists>units. snd (snd (processDeviceByMediaType n ps ks st)) = Inr units" .
qed

definition ex_claim :: "int64 \<Rightarrow> DevicePVCInfo" where
  "ex_claim r = \<lparr>di_MediaType = MediaTypeSSD, di_Request = r,
     di_PVC = \<lparr>pvc_Namespace = ''ns'', pvc_Name = ''c'', pvc_Annotations = [], pvc_StorageClassName = None,
               pvc_VolumeName = [], pvc_Requests = Some r, pvc_Limits = None, pvc_DataSource = None,
               pvc_Phase = ''Pending'', pvc_CreationTimestamp = 0\<rparr>\<rparr>"

definition ex_device :: "string \<Rightarrow> int64 \<Rightarrow> DeviceResourcePool" where
  "ex_device k a = \<lparr>dev_Name = k, dev_Total = a, dev_Allocatable = a, dev_Requested = 0,
     dev_MediaType = MediaTypeSSD, dev_IsAllocated = False\<rparr>"

definition ex_devices :: DeviceStates where
  "ex_devices = [(''a'', ex_device ''a'' 9), (''b'', ex_device ''b'' 5), (''d'', ex_device ''d'' 7)]"

lemma device_choice_complete_witness:
  "\<exists>units. snd (snd (processDeviceByMediaType ''n'' [ex_claim 7, ex_claim 4] [''a'', ''b'', ''d''] ex_devices))
     = Inr units"
proof -
  have "distinct [''d'', ''b''] \<and> set [''d'', ''b''] \<subseteq> set [''a'', ''b'', ''d''] \<and>
      list_all2 (\<lambda>p k. di_Request p \<le>s dev_Allocatable (dev_at ex_devices k))
        [ex_claim 7, ex_claim 4] [''d'', ''b'']"
    by (simp add: ex_claim_def ex_devices_def ex_device_def dev_at_def)
  then have ex: "\<exists>ds. distinct ds \<and> set ds \<subseteq> set [''a'', ''b'', ''d''] \<and>
      list_all2 (\<lambda>p k. di_Request p \<le>s dev_Allocatable (dev_at ex_devices k))
        [ex_claim 7, ex_claim 4] ds"
    by (rule exI)
  have free: "distinct [''a'', ''b'', ''d'']"
    "\<forall>k \<in> set [''a'', ''b'', ''d'']. \<not> dev_IsAllocated (dev_at ex_devices k)"
    by (simp_all add: ex_devices_def ex_device_def dev_at_def)
  from iffD2 [OF device_choice_complete [OF free] ex] show ?thesis .
qed

text \<open>C9: \<open>reserve\<close> hands a device out once: if it succeeds for units of distinct claims, the units
  it did not skip name distinct devices, each of them was free before and is taken afterwards, and
  no device that was taken becomes free.\<close>

theorem device_reserve_exclusive:
  assumes "device_reserve c n us = Some (c', us', None)"
    and "distinct (map (\<lambda>u. GetNameKey (pa_PVCNamespace u) (pa_PVCName u)) (DevicePVCAllocateUnits us))"
  shows "distinct (map pa_DeviceName (filter (\<lambda>u. \<not> device_skipped c u) (DevicePVCAllocateUnits us))) \<and>
     (\<forall>u \<in> set (DevicePVCAllocateUnits us). \<not> device_skipped c u \<longrightarrow>
        device_free c n (pa_DeviceName u) \<and> device_taken c' n (pa_DeviceName u)) \<and>
     (\<forall>k. device_taken c n k \<longrightarrow> device_taken c' n k)"
proof (cases "DevicePVCAllocateUnits us = []")
  case True
  with assms(1) show ?thesis by (auto simp: device_reserve_def)
next
  case False
  with assms(1) obtain ds where "device_reserve_loop n c (DevicePVCAllocateUnits us) = Some (c', ds, None)"
    by (auto simp: device_reserve_def)
  from device_reserve_loop_exclusive [OF this assms(2)] show ?thesis .
qed

definition ex_unit :: "string \<Rightarrow> string \<Rightarrow> DeviceTypePVAllocated" where
  "ex_unit name dev = \<lparr>pa_VolumeName = [], pa_PVCName = name, pa_PVCNamespace = ''ns'', pa_NodeName = ''n'',
     pa_Requested = 4, pa_Allocated = 0, pa_DeviceName = dev\<rparr>"

definition ex_cache :: NodeStorageAllocatedCache where
  "ex_cache = (NewNodeStorageAllocatedCache StrategyBinpack)\<lparr>states :=
     [(''n'', \<lparr>VGStates = [], DeviceStates = ex_devices, InitedByNLS = True\<rparr>)]\<rparr>"

definition ex_units :: NodeAllocateUnits where
  "ex_units = \<lparr>LVMPVCAllocateUnits = [], DevicePVCAllocateUnits = [ex_unit ''p'' ''b'', ex_unit ''q'' ''a''],
     InlineVolumeAllocateUnits = []\<rparr>"

lemma device_reserve_exclusive_witness:
  "\<exists>c' us'. device_reserve ex_cache ''n'' ex_units = Some (c', us', None) \<and> device_taken c' ''n'' ''a''"
proof -
  obtain c' us' where r: "device_reserve ex_cache ''n'' ex_units = Some (c', us', None)"
    by (simp add: device_reserve_def ex_cache_def ex_units_def ex_unit_def ex_devices_def ex_device_def
        NewNodeStorageAllocatedCache_def NewPVAllocatedDetails_def GetByPVC_def GetNameKey_def
        set_node_def set_details_def AssumeByPVC_def Let_def)
  have "\<not> device_skipped ex_cache (ex_unit ''q'' ''a'')"
    by (simp add: device_skipped_def ex_cache_def ex_unit_def NewNodeStorageAllocatedCache_def
        NewPVAllocatedDetails_def GetByPVC_def)
  with device_reserve_exclusive [OF r] r show ?thesis
    by (simp add: ex_units_def ex_unit_def GetNameKey_def)
qed

end
