(* ===== verification/Inline_Allocator.thy ===== *)
theory Inline_Allocator
  imports Ledger
begin

text \<open>
  The allocator of inline (ephemeral) volumes,
  \<open>pkg/scheduling-framework/cache/inline_volume.go\<close>: volumes declared in a pod, charged to the
  volume group their attributes name. The details are kept by node and pod UID; an entry that
  is missing and an empty one are different map states and both are modelled.
\<close>

section \<open>Operations\<close>

text \<open>\<open>nodeDetails\<close> of a node, made when it is missing.\<close>

definition init_node_inline :: "string \<Rightarrow> NodeStorageAllocatedCache \<Rightarrow> NodeStorageAllocatedCache" where
  "init_node_inline n c =
     (if map_of (inlineVolumeAllocatedDetails c) n = None
      then c\<lparr>inlineVolumeAllocatedDetails := AList.update n [] (inlineVolumeAllocatedDetails c)\<rparr>
      else c)"

text \<open>
  The volumes of a pod one by one. \<open>None\<close> in the second component is the early return on a
  volume without a group: what was charged up to there stays charged.
\<close>

fun podAdd_loop ::
  "kube \<Rightarrow> Pod \<Rightarrow> string \<Rightarrow> Volume list \<Rightarrow> NodeStorageAllocatedCache \<Rightarrow> InlineVolumeAllocated list \<Rightarrow>
     NodeStorageAllocatedCache \<times> InlineVolumeAllocated list option" where
  "podAdd_loop K pod nodeName [] c podDetails = (c, Some podDetails)"
| "podAdd_loop K pod nodeName (volume # volumes) c podDetails =
     (case vol_CSI volume of
        None \<Rightarrow> podAdd_loop K pod nodeName volumes c podDetails
      | Some csi \<Rightarrow>
          if \<not> ContainsProvisioner (csi_Driver csi)
          then podAdd_loop K pod nodeName volumes c podDetails
          else
            (let (vgName, sz) = GetInlineVolumeInfoFromParam K (csi_VolumeAttributes csi)
             in if vgName = [] then (c, None)
                else
                  (let allocateInfo = NewInlineVolumeAllocated (pod_Name pod) (pod_Namespace pod) vgName
                                        (vol_Name volume) sz;
                       (c, vgState, inited) = initIfNeedAndGetVGState c nodeName vgName;
                       c = charge_vg nodeName vgName sz c
                   in podAdd_loop K pod nodeName volumes c (podDetails @ [allocateInfo]))))"

definition podAdd :: "kube \<Rightarrow> NodeStorageAllocatedCache \<Rightarrow> Pod \<Rightarrow> NodeStorageAllocatedCache" where
  "podAdd K c pod =
     (let (contain, nodeName) = ContainInlineVolumes pod
      in if \<not> contain then c
         else
           (let c = init_node_inline nodeName c
            in if (case getPodInlineVolumeDetails c nodeName (pod_UID pod) of
                     Some podDetailsExist \<Rightarrow> length podDetailsExist > 0 | None \<Rightarrow> False)
               then c
               else
                 (let c = fst (initIfNeedAndGetNodeStoragePool c nodeName)
                  in case podAdd_loop K pod nodeName (pod_Volumes pod) c [] of
                       (c, None) \<Rightarrow> c
                     | (c, Some podDetails) \<Rightarrow> set_pod_inline nodeName (pod_UID pod) podDetails c)))"

definition podDelete :: "NodeStorageAllocatedCache \<Rightarrow> Pod \<Rightarrow> NodeStorageAllocatedCache" where
  "podDelete c pod =
     (let (contain, nodeName) = ContainInlineVolumes pod
      in if \<not> contain \<or> nodeName = [] then c
         else (case getPodInlineVolumeDetails c nodeName (pod_UID pod) of
                 None \<Rightarrow> c
               | Some podDetails \<Rightarrow>
                   if length podDetails = 0 then c
                   else (case map_of (states c) nodeName of
                           None \<Rightarrow> delete_pod_inline nodeName (pod_UID pod) c
                         | Some _ \<Rightarrow>
                             delete_pod_inline nodeName (pod_UID pod)
                               (fold (\<lambda>volume c. charge_vg nodeName (iv_VgName volume)
                                                   (- iv_VolumeSize volume) c)
                                  podDetails c))))"

fun inline_units ::
  "kube \<Rightarrow> Pod \<Rightarrow> Volume list \<Rightarrow> InlineVolumeAllocated list \<Rightarrow> go_error + InlineVolumeAllocated list" where
  "inline_units K pod [] acc = Inr acc"
| "inline_units K pod (volume # volumes) acc =
     (case vol_CSI volume of
        None \<Rightarrow> inline_units K pod volumes acc
      | Some csi \<Rightarrow>
          if \<not> ContainsProvisioner (csi_Driver csi) then inline_units K pod volumes acc
          else
            (let (vgName, sz) = GetInlineVolumeInfoFromParam K (csi_VolumeAttributes csi)
             in if vgName = []
                then Inl (Errorf ''no vgName found in inline volume of Pod %s''
                            [S (GetNameKey (pod_Namespace pod) (pod_Name pod))])
                else inline_units K pod volumes
                       (acc @ [\<lparr>iv_VgName = vgName, iv_VolumeName = vol_Name volume, iv_VolumeSize = sz,
                                iv_PodName = pod_Name pod, iv_PodNamespace = pod_Namespace pod,
                                iv_Allocated = 0\<rparr>])))"

definition inline_prefilter ::
  "kube \<Rightarrow> Pod \<Rightarrow> PodLocalVolumeInfo \<Rightarrow> PodLocalVolumeInfo \<times> go_error option" where
  "inline_prefilter K pod podVolumeInfos =
     (if \<not> fst (ContainInlineVolumes pod) then (podVolumeInfos, None)
      else (case inline_units K pod (pod_Volumes pod) [] of
              Inl err \<Rightarrow> (podVolumeInfos, Some err)
            | Inr inlineVolumeAllocates \<Rightarrow>
                (podVolumeInfos\<lparr>pod_InlineVolumes := inlineVolumeAllocates\<rparr>, None)))"

fun inline_preAllocate_loop ::
  "string \<Rightarrow> InlineVolumeAllocated list \<Rightarrow> NodeStorageState \<Rightarrow> InlineVolumeAllocated list \<Rightarrow>
     NodeStorageState \<times> InlineVolumeAllocated list \<times> go_error option" where
  "inline_preAllocate_loop nodeName [] s units = (s, units, None)"
| "inline_preAllocate_loop nodeName (volume # volumes) s units =
     (case allocateVgState nodeName (iv_VgName volume) s (iv_VolumeSize volume) of
        (s', Some err) \<Rightarrow> (s', units, Some err)
      | (s', None) \<Rightarrow>
          inline_preAllocate_loop nodeName volumes s'
            (units @ [volume\<lparr>iv_Allocated := iv_VolumeSize volume\<rparr>]))"

definition inline_preAllocate ::
  "NodeStorageAllocatedCache \<Rightarrow> string \<Rightarrow> Pod \<Rightarrow> InlineVolumes \<Rightarrow> NodeStorageState \<Rightarrow>
     NodeStorageState \<times> InlineVolumeAllocated list \<times> go_error option" where
  "inline_preAllocate c nodeName pod inlineVolumes nodeStateClone =
     (if length inlineVolumes \<le> 0 then (nodeStateClone, [], None)
      else if (case GetPodInlineVolumeDetailsCopy c nodeName (pod_UID pod) of
                 Some allocatedInfos \<Rightarrow> length allocatedInfos > 0 | None \<Rightarrow> False)
      then (nodeStateClone, [], Some (Errorf ''node(%s) had allocated by pod'' [S nodeName]))
      else inline_preAllocate_loop nodeName inlineVolumes nodeStateClone [])"

definition revertInlineVolumesStorage ::
  "InlineVolumeAllocated list \<Rightarrow> NodeStorageState \<Rightarrow> NodeStorageState" where
  "revertInlineVolumesStorage podInlineDetails nodeState =
     fold (\<lambda>detail s.
         case map_of (VGStates s) (iv_VgName detail) of
           None \<Rightarrow> s
         | Some vgState \<Rightarrow> set_vg (iv_VgName detail) (add_Requested (- iv_Allocated detail) vgState) s)
       podInlineDetails nodeState"

definition preRevert ::
  "NodeStorageAllocatedCache \<Rightarrow> string \<Rightarrow> Pod \<Rightarrow> NodeStorageState \<Rightarrow> NodeStorageState" where
  "preRevert c nodeName pod nodeStateClone =
     (case GetPodInlineVolumeDetailsCopy c nodeName (pod_UID pod) of
        None \<Rightarrow> nodeStateClone
      | Some inlineDetails \<Rightarrow>
          if length inlineDetails \<le> 0 then nodeStateClone
          else revertInlineVolumesStorage inlineDetails nodeStateClone)"

text \<open>
  \<open>reserve\<close>: a nil node state panics at the first unit. The details of the pod are a pointer to
  the growing slice, so after an error they hold the units allocated so far.
\<close>

fun inline_reserve_loop ::
  "string \<Rightarrow> string \<Rightarrow> NodeStorageAllocatedCache \<Rightarrow> InlineVolumeAllocated list \<Rightarrow> InlineVolumeAllocated list \<Rightarrow>
     (NodeStorageAllocatedCache \<times> InlineVolumeAllocated list \<times> go_error option) option" where
  "inline_reserve_loop nodeName podUid c podDetails [] = Some (c, [], None)"
| "inline_reserve_loop nodeName podUid c podDetails (unit # units) =
     (case map_of (states c) nodeName of
        None \<Rightarrow> None
      | Some currentStorageState \<Rightarrow>
          (case allocateVgState nodeName (iv_VgName unit) currentStorageState (iv_VolumeSize unit) of
             (s', Some err) \<Rightarrow> Some (c, unit # units, Some err)
           | (s', None) \<Rightarrow>
               (let unit = unit\<lparr>iv_Allocated := iv_VolumeSize unit\<rparr>;
                    podDetails = podDetails @ [unit];
                    c = set_pod_inline nodeName podUid podDetails (set_node nodeName s' c)
                in map_option (\<lambda>(c', us, err). (c', unit # us, err))
                     (inline_reserve_loop nodeName podUid c podDetails units))))"

definition inline_reserve ::
  "NodeStorageAllocatedCache \<Rightarrow> string \<Rightarrow> string \<Rightarrow> InlineVolumeAllocated list \<Rightarrow>
     (NodeStorageAllocatedCache \<times> InlineVolumeAllocated list \<times> go_error option) option" where
  "inline_reserve c nodeName podUid units =
     (if length units = 0 then Some (c, units, None)
      else
        (let c = init_node_inline nodeName c
         in if (case getPodInlineVolumeDetails c nodeName podUid of
                  Some allocateExist \<Rightarrow> length allocateExist > 0 | None \<Rightarrow> False)
            then Some (c, units,
                       Some (Errorf ''reserveInlineVolumes fail, pod(%s) inlineVolume had allocated on node %s''
                               [S podUid, S nodeName]))
            else inline_reserve_loop nodeName podUid c [] units))"

definition unreserveDirect ::
  "NodeStorageAllocatedCache \<Rightarrow> string \<Rightarrow> string \<Rightarrow> NodeStorageAllocatedCache option" where
  "unreserveDirect c nodeName podUid =
     (case map_of (inlineVolumeAllocatedDetails c) nodeName of
        None \<Rightarrow> Some c
      | Some nodeDetails \<Rightarrow>
          (case map_of nodeDetails podUid of
             None \<Rightarrow> Some (set_pod_inline nodeName podUid [] c)
           | Some podInlineDetails \<Rightarrow>
               if length podInlineDetails \<le> 0 then Some (set_pod_inline nodeName podUid [] c)
               else (case map_of (states c) nodeName of
                       None \<Rightarrow> None
                     | Some currentStorageState \<Rightarrow>
                         Some (set_pod_inline nodeName podUid []
                           (set_node nodeName
                             (revertInlineVolumesStorage podInlineDetails currentStorageState) c)))))"

definition inline_unreserve ::
  "NodeStorageAllocatedCache \<Rightarrow> string \<Rightarrow> string \<Rightarrow> InlineVolumeAllocated list \<Rightarrow>
     (NodeStorageAllocatedCache \<times> InlineVolumeAllocated list) option" where
  "inline_unreserve c nodeName podUid units =
     (if length units = 0 then Some (c, units)
      else map_option (\<lambda>c'. (c', map (\<lambda>u. u\<lparr>iv_Allocated := 0\<rparr>) units))
             (unreserveDirect c nodeName podUid))"

section \<open>Facts\<close>

lemma init_node_inline_frame [simp]:
  "states (init_node_inline n c) = states c"
  "pvAllocatedDetails (init_node_inline n c) = pvAllocatedDetails c"
  "pvcInfosMap (init_node_inline n c) = pvcInfosMap c"
  "strategyType (init_node_inline n c) = strategyType c"
  "pod_details (init_node_inline n c) m u = pod_details c m u"
  "wf_cache c \<Longrightarrow> wf_cache (init_node_inline n c)"
  by (auto simp: init_node_inline_def pod_details_def getPodInlineVolumeDetails_def go_map_simps
      wf_cache_def list_all_update split: option.split)

lemma gap_init_node_inline [simp]: "gap (init_node_inline n c) m v = gap c m v"
  by (auto simp: gap_def charged_def requested_def inline_charge_def init_node_inline_def go_map_simps
      split: option.split)

lemma pod_details_set_node [simp]: "pod_details (set_node n s c) m u = pod_details c m u"
  by (simp add: pod_details_def getPodInlineVolumeDetails_def set_node_def)

lemma pod_details_set_pod_inline [simp]: "pod_details (set_pod_inline n u ds c) n u = ds"
  by (simp add: pod_details_def getPodInlineVolumeDetails_def set_pod_inline_def go_map_simps)

lemma states_set_pod_inline [simp]:
  "states (set_pod_inline n u ds c) = states c"
  "pvAllocatedDetails (set_pod_inline n u ds c) = pvAllocatedDetails c"
  "pvcInfosMap (set_pod_inline n u ds c) = pvcInfosMap c"
  by (simp_all add: set_pod_inline_def)

lemma states_set_node [simp]:
  "map_of (states (set_node n s c)) m = (if m = n then Some s else map_of (states c) m)"
  "pvAllocatedDetails (set_node n s c) = pvAllocatedDetails c"
  "pvcInfosMap (set_node n s c) = pvcInfosMap c"
  "inlineVolumeAllocatedDetails (set_node n s c) = inlineVolumeAllocatedDetails c"
  by (simp_all add: set_node_def go_map_simps)

subsection \<open>Reserve\<close>

lemma gap_inline_reserve_loop:
  "inline_reserve_loop n uid c ds us = Some (c', us', err) \<Longrightarrow> wf_cache c \<Longrightarrow>
     pod_details c n uid = ds \<Longrightarrow> gap c' m v = gap c m v \<and> wf_cache c'"
proof (induction us arbitrary: c ds us')
  case (Cons u us)
  from Cons.prems(1) obtain s where s: "map_of (states c) n = Some s"
    by (auto split: option.splits)
  obtain s' e where a: "allocateVgState n (iv_VgName u) s (iv_VolumeSize u) = (s', e)"
    by fastforce
  show ?case
  proof (cases e)
    case (Some err)
    with Cons.prems s a show ?thesis by auto
  next
    case None
    let ?u = "u\<lparr>iv_Allocated := iv_VolumeSize u\<rparr>"
    let ?c = "set_pod_inline n uid (ds @ [?u]) (set_node n s' c)"
    have wf: "wf_cache ?c"
      using Cons.prems(2) allocateVgState_wf [OF wf_cache_node [OF Cons.prems(2) s] a] by simp
    have wfs: "wf_cache (set_node n s' c)"
      using Cons.prems(2) allocateVgState_wf [OF wf_cache_node [OF Cons.prems(2) s] a] by simp
    have "requested c n w = node_requested s w" for w
      using s by (simp add: requested_def)
    then have gap: "gap ?c m v = gap c m v"
      using Cons.prems(3) wfs allocateVgState_requested [OF a, of v] None
      by (auto simp: gap_def ledger_simps)
    from Cons.prems(1) s a None obtain us'' where
      "inline_reserve_loop n uid ?c (ds @ [?u]) us = Some (c', us'', err)"
      by (auto simp: Let_def)
    from Cons.IH [OF this wf] gap show ?thesis by simp
  qed
qed simp

lemma gap_inline_reserve:
  assumes "inline_reserve c n uid us = Some (c', us', err)" and "wf_cache c"
  shows "gap c' m v = gap c m v" and "wf_cache c'"
proof -
  have "gap c' m v = gap c m v \<and> wf_cache c'"
  proof (cases "us = [] \<or> pod_details c n uid \<noteq> []")
    case True
    with assms show ?thesis
      by (auto simp: inline_reserve_def Let_def pod_details_def getPodInlineVolumeDetails_def
          init_node_inline_def go_map_simps split: option.splits if_splits)
  next
    case False
    have e: "pod_details (init_node_inline n c) n uid = []"
      using False by simp
    then have "\<not> (case getPodInlineVolumeDetails (init_node_inline n c) n uid of
        Some ds \<Rightarrow> length ds > 0 | None \<Rightarrow> False)"
      by (auto simp: pod_details_def split: option.splits)
    with assms(1) False have "inline_reserve_loop n uid (init_node_inline n c) [] us = Some (c', us', err)"
      by (simp add: inline_reserve_def Let_def)
    from gap_inline_reserve_loop [OF this _ e] assms(2) show ?thesis by simp
  qed
  then show "gap c' m v = gap c m v" and "wf_cache c'" by simp_all
qed

subsection \<open>Unreserve\<close>

definition pod_allocated :: "string \<Rightarrow> InlineVolumeAllocated list \<Rightarrow> int64" where
  "pod_allocated v ds = (\<Sum>d \<leftarrow> ds. if iv_VgName d = v then iv_Allocated d else 0)"

lemma pod_allocated_simps [simp]:
  "pod_allocated v [] = 0"
  "pod_allocated v (d # ds) = (if iv_VgName d = v then iv_Allocated d else 0) + pod_allocated v ds"
  by (simp_all add: pod_allocated_def)

lemma pod_allocated_none: "\<forall>d \<in> set ds. iv_VgName d \<noteq> v \<Longrightarrow> pod_allocated v ds = 0"
  by (induction ds) auto

lemma revertInlineVolumesStorage_simps [simp]:
  "revertInlineVolumesStorage [] s = s"
  "revertInlineVolumesStorage (d # ds) s = revertInlineVolumesStorage ds
     (case map_of (VGStates s) (iv_VgName d) of
        None \<Rightarrow> s
      | Some vg \<Rightarrow> set_vg (iv_VgName d) (add_Requested (- iv_Allocated d) vg) s)"
  by (simp_all add: revertInlineVolumesStorage_def)

lemma revertInline_keys:
  "(map_of (VGStates (revertInlineVolumesStorage ds s)) v = None) = (map_of (VGStates s) v = None)"
  by (induction ds arbitrary: s) (auto split: option.split)

lemma node_requested_revertInline:
  "node_requested (revertInlineVolumesStorage ds s) v =
     node_requested s v - (if map_of (VGStates s) v = None then 0 else pod_allocated v ds)"
proof (induction ds arbitrary: s)
  case (Cons d ds)
  show ?case
    by (cases "map_of (VGStates s) (iv_VgName d)")
      (auto simp: Cons.IH ledger_simps)
qed simp

lemma wf_node_revertInline: "wf_node s \<Longrightarrow> wf_node (revertInlineVolumesStorage ds s)"
  by (induction ds arbitrary: s) (auto simp: wf_node_vg_name split: option.split)

lemma revertInline_frame [simp]:
  "DeviceStates (revertInlineVolumesStorage ds s) = DeviceStates s"
  "InitedByNLS (revertInlineVolumesStorage ds s) = InitedByNLS s"
  by (induction ds arbitrary: s) (auto split: option.split)

lemma unreserveDirect_Some:
  assumes "map_of (states c) n = Some s"
  shows "unreserveDirect c n uid =
     Some (if map_of (inlineVolumeAllocatedDetails c) n = None then c
           else set_pod_inline n uid []
                  (if pod_details c n uid = [] then c
                   else set_node n (revertInlineVolumesStorage (pod_details c n uid) s) c))"
  using assms
  by (auto simp: unreserveDirect_def pod_details_def getPodInlineVolumeDetails_def split: option.splits)

text \<open>
  \<open>unreserveDirect\<close> gives back \<open>Allocated\<close> and forgets \<open>VolumeSize\<close>: the gap changes by the
  difference. It keeps the ledger exactly when the two agree.
\<close>

lemma gap_unreserveDirect:
  assumes wf: "wf_cache c" and s: "map_of (states c) n = Some s"
    and vgs: "\<forall>d \<in> set (pod_details c n uid). map_of (VGStates s) (iv_VgName d) \<noteq> None"
    and un: "unreserveDirect c n uid = Some c'"
  shows "gap c' m v = gap c m v + (if m = n then pod_charge v (pod_details c n uid)
                                              - pod_allocated v (pod_details c n uid) else 0)"
    and "wf_cache c'"
proof -
  let ?ds = "pod_details c n uid"
  have wfs: "wf_node (revertInlineVolumesStorage ?ds s)"
    using wf_cache_node [OF wf s] by (rule wf_node_revertInline)
  have zero: "pod_allocated v ?ds = 0" if "map_of (VGStates s) v = None"
    using vgs that by (intro pod_allocated_none) auto
  have req: "requested c n v = node_requested s v"
    using s by (simp add: requested_def)
  have none: "?ds = []" if "map_of (inlineVolumeAllocatedDetails c) n = None"
    using that by (simp add: pod_details_def getPodInlineVolumeDetails_def)
  have c': "c' = (if map_of (inlineVolumeAllocatedDetails c) n = None then c
           else set_pod_inline n uid []
                  (if ?ds = [] then c else set_node n (revertInlineVolumesStorage ?ds s) c))"
    using un unreserveDirect_Some [OF s, of uid] by simp
  show "wf_cache c'"
    using wf wfs by (simp add: c')
  show "gap c' m v = gap c m v + (if m = n then pod_charge v ?ds - pod_allocated v ?ds else 0)"
    using wf wfs none zero req
    by (auto simp: c' gap_def ledger_simps node_requested_revertInline)
qed

subsection \<open>Pod events\<close>

text \<open>The event of a scheduled pod records the units the scheduler computes for the pod.\<close>

lemma podAdd_loop_details:
  "snd (podAdd_loop K pod n vols c ds) =
     (case inline_units K pod vols ds of Inl _ \<Rightarrow> None | Inr us \<Rightarrow> Some us)"
  by (induction K pod n vols c ds rule: podAdd_loop.induct)
    (auto simp: NewInlineVolumeAllocated_def Let_def split: option.split prod.split)

lemma inline_units_Allocated:
  "inline_units K pod vols acc = Inr us \<Longrightarrow> \<forall>d \<in> set acc. iv_Allocated d = 0 \<Longrightarrow>
     \<forall>d \<in> set us. iv_Allocated d = 0"
  by (induction K pod vols acc rule: inline_units.induct)
    (auto simp: Let_def split: option.splits if_splits prod.splits)

fun charged_before :: "kube \<Rightarrow> Pod \<Rightarrow> Volume list \<Rightarrow> InlineVolumeAllocated list" where
  "charged_before K pod [] = []"
| "charged_before K pod (volume # volumes) =
     (case vol_CSI volume of
        None \<Rightarrow> charged_before K pod volumes
      | Some csi \<Rightarrow>
          if \<not> ContainsProvisioner (csi_Driver csi) then charged_before K pod volumes
          else (let (vgName, sz) = GetInlineVolumeInfoFromParam K (csi_VolumeAttributes csi)
                in if vgName = [] then []
                   else NewInlineVolumeAllocated (pod_Name pod) (pod_Namespace pod) vgName (vol_Name volume) sz
                        # charged_before K pod volumes))"

lemma inline_units_charged_before:
  "inline_units K pod vols acc = Inr us \<Longrightarrow> us = acc @ charged_before K pod vols"
  by (induction K pod vols acc rule: inline_units.induct)
    (auto simp: Let_def NewInlineVolumeAllocated_def split: option.splits if_splits prod.splits)

lemma iv_New [simp]:
  "iv_VgName (NewInlineVolumeAllocated p ns vg vn sz) = vg"
  "iv_VolumeSize (NewInlineVolumeAllocated p ns vg vn sz) = sz"
  "iv_Allocated (NewInlineVolumeAllocated p ns vg vn sz) = 0"
  by (simp_all add: NewInlineVolumeAllocated_def)

lemma requested_podAdd_loop:
  "requested (fst (podAdd_loop K pod n vols c ds)) m v =
     requested c m v + (if m = n then pod_charge v (charged_before K pod vols) else 0)"
  by (induction vols arbitrary: c ds)
    (auto simp: Let_def case_prod_beta ledger_simps split: option.split)

lemma charged_podAdd_loop:
  "charged (fst (podAdd_loop K pod n vols c ds)) m v = charged c m v"
  by (induction vols arbitrary: c ds)
    (auto simp: Let_def case_prod_beta ledger_simps split: option.split)

lemma wf_podAdd_loop: "wf_cache c \<Longrightarrow> wf_cache (fst (podAdd_loop K pod n vols c ds))"
  by (induction vols arbitrary: c ds)
    (auto simp: Let_def case_prod_beta split: option.split)

lemma inline_podAdd_loop [simp]:
  "inlineVolumeAllocatedDetails (fst (podAdd_loop K pod n vols c ds)) = inlineVolumeAllocatedDetails c"
  by (induction vols arbitrary: c ds)
    (auto simp: Let_def case_prod_beta split: option.split)

lemma init_pool_frame [simp]:
  "requested (fst (initIfNeedAndGetNodeStoragePool c n)) m v = requested c m v"
  "charged (fst (initIfNeedAndGetNodeStoragePool c n)) m v = charged c m v"
  "inlineVolumeAllocatedDetails (fst (initIfNeedAndGetNodeStoragePool c n)) = inlineVolumeAllocatedDetails c"
  "pod_details (fst (initIfNeedAndGetNodeStoragePool c n)) m u = pod_details c m u"
  by (auto simp: initIfNeedAndGetNodeStoragePool_def ledger_simps requested_def [of c]
      NewNodeStorageState_def pod_details_def getPodInlineVolumeDetails_def split: option.split)

lemma wf_init_pool [simp]: "wf_cache c \<Longrightarrow> wf_cache (fst (initIfNeedAndGetNodeStoragePool c n))"
  by (auto simp: initIfNeedAndGetNodeStoragePool_def split: option.split)

text \<open>The whole event: it charges the volumes once, and records them unless one has no group.\<close>

lemma podAdd_ledger:
  assumes wf: "wf_cache c" and contain: "ContainInlineVolumes pod = (True, n)"
    and fresh: "pod_details c n (pod_UID pod) = []"
  shows "requested (podAdd K c pod) m v =
      requested c m v + (if m = n then pod_charge v (charged_before K pod (pod_Volumes pod)) else 0)"
    and "charged (podAdd K c pod) m v =
      charged c m v + (if m = n then
         (case inline_units K pod (pod_Volumes pod) [] of Inl _ \<Rightarrow> 0 | Inr us \<Rightarrow> pod_charge v us) else 0)"
    and "wf_cache (podAdd K c pod)"
proof -
  define c1 where "c1 = fst (initIfNeedAndGetNodeStoragePool (init_node_inline n c) n)"
  have "pod_details (init_node_inline n c) n (pod_UID pod) = []"
    using fresh by simp
  then have guard: "(case getPodInlineVolumeDetails (init_node_inline n c) n (pod_UID pod) of
      Some ds \<Rightarrow> length ds > 0 | None \<Rightarrow> False) = False"
    by (simp add: pod_details_def split: option.splits)
  have eq: "podAdd K c pod = (case podAdd_loop K pod n (pod_Volumes pod) c1 [] of
      (c, None) \<Rightarrow> c | (c, Some ds) \<Rightarrow> set_pod_inline n (pod_UID pod) ds c)"
    unfolding podAdd_def contain Let_def prod.case guard c1_def by simp
  define c2 where "c2 = fst (podAdd_loop K pod n (pod_Volumes pod) c1 [])"
  have loop: "podAdd_loop K pod n (pod_Volumes pod) c1 [] =
      (c2, case inline_units K pod (pod_Volumes pod) [] of Inl _ \<Rightarrow> None | Inr us \<Rightarrow> Some us)"
    using podAdd_loop_details [of K pod n "pod_Volumes pod" c1 "[]"] by (metis c2_def prod.collapse)
  have gap0: "requested c1 m v = requested c m v" "charged c1 m v = charged c m v" for m
    using gap_init_node_inline [of n c m v]
    by (simp_all add: c1_def gap_def requested_def [of c] requested_def [of "init_node_inline n c"])
  have wf2: "wf_cache c2" and fresh2: "pod_details c2 n (pod_UID pod) = []"
    using wf fresh by (simp_all add: c2_def c1_def wf_podAdd_loop pod_details_def [of "fst _"]
        getPodInlineVolumeDetails_def) (simp add: pod_details_def getPodInlineVolumeDetails_def
        init_node_inline_def go_map_simps split: option.splits)
  have req2: "requested c2 m v = requested c m v +
      (if m = n then pod_charge v (charged_before K pod (pod_Volumes pod)) else 0)"
    and ch2: "charged c2 m v = charged c m v" for m
    by (simp_all add: c2_def requested_podAdd_loop charged_podAdd_loop gap0)
  show "requested (podAdd K c pod) m v =
      requested c m v + (if m = n then pod_charge v (charged_before K pod (pod_Volumes pod)) else 0)"
    unfolding eq loop by (simp add: ledger_simps req2 split: sum.split)
  show "charged (podAdd K c pod) m v = charged c m v + (if m = n then
         (case inline_units K pod (pod_Volumes pod) [] of Inl _ \<Rightarrow> 0 | Inr us \<Rightarrow> pod_charge v us) else 0)"
    unfolding eq loop using wf2 fresh2 by (simp add: ledger_simps ch2 split: sum.split)
  show "wf_cache (podAdd K c pod)"
    using wf2 by (auto simp: eq loop split: sum.split)
qed

lemma podAdd_skip:
  assumes "\<not> fst (ContainInlineVolumes pod) \<or> pod_details c (snd (ContainInlineVolumes pod)) (pod_UID pod) \<noteq> []"
  shows "podAdd K c pod = c \<or> podAdd K c pod = init_node_inline (snd (ContainInlineVolumes pod)) c"
  using assms
  by (auto simp: podAdd_def Let_def case_prod_beta pod_details_def getPodInlineVolumeDetails_def
      init_node_inline_def go_map_simps split: option.splits if_splits)

lemma fold_charge_back:
  assumes "wf_cache c"
  shows "wf_cache (fold (\<lambda>d c. charge_vg n (iv_VgName d) (- iv_VolumeSize d) c) ds c)"
    and "charged (fold (\<lambda>d c. charge_vg n (iv_VgName d) (- iv_VolumeSize d) c) ds c) m v = charged c m v"
    and "\<forall>d \<in> set ds. has_vg c n (iv_VgName d) \<Longrightarrow>
      requested (fold (\<lambda>d c. charge_vg n (iv_VgName d) (- iv_VolumeSize d) c) ds c) m v =
        requested c m v - (if m = n then pod_charge v ds else 0)"
    and "inlineVolumeAllocatedDetails (fold (\<lambda>d c. charge_vg n (iv_VgName d) (- iv_VolumeSize d) c) ds c) =
      inlineVolumeAllocatedDetails c"
  using assms by (induction ds arbitrary: c) (auto simp: ledger_simps)

lemma wf_cache_podDelete: "wf_cache c \<Longrightarrow> wf_cache (podDelete c pod)"
  by (auto simp: podDelete_def Let_def case_prod_beta fold_charge_back split: option.split)

lemma gap_podDelete:
  assumes wf: "wf_cache c" and contain: "ContainInlineVolumes pod = (True, n)"
    and vgs: "\<forall>d \<in> set (pod_details c n (pod_UID pod)). has_vg c n (iv_VgName d)"
  shows "gap (podDelete c pod) m v = gap c m v"
proof (cases "n = [] \<or> pod_details c n (pod_UID pod) = []")
  case True
  then show ?thesis
    by (auto simp: podDelete_def contain pod_details_def split: option.splits)
next
  case False
  then obtain ds where ds: "getPodInlineVolumeDetails c n (pod_UID pod) = Some ds" "ds \<noteq> []"
    by (auto simp: pod_details_def split: option.splits)
  then have pd: "pod_details c n (pod_UID pod) = ds" by (simp add: pod_details_def)
  from ds(2) obtain d where "d \<in> set ds" by (cases ds) auto
  with vgs pd obtain s where s: "map_of (states c) n = Some s"
    by (auto simp: has_vg_def split: option.splits)
  let ?c = "fold (\<lambda>d c. charge_vg n (iv_VgName d) (- iv_VolumeSize d) c) ds c"
  have pd': "pod_details ?c n (pod_UID pod) = ds"
    using pd fold_charge_back(4) [OF wf] by (simp add: pod_details_def getPodInlineVolumeDetails_def)
  have "podDelete c pod = delete_pod_inline n (pod_UID pod) ?c"
    using False ds s by (simp add: podDelete_def contain)
  with fold_charge_back [OF wf, where n = n and ds = ds] vgs pd pd' show ?thesis
    by (simp add: gap_def ledger_simps)
qed

end
