(* ===== verification/Alloc_Cache.thy ===== *)
theory Alloc_Cache
  imports Device_Allocator Inline_Allocator
begin

text \<open>
  The operations of the scheduler's cache,
  \<open>pkg/scheduling-framework/cache/cache.go\<close>: what a scheduling cycle does
  (\<open>PreAllocate\<close>, \<open>Reserve\<close>, \<open>Unreserve\<close>), what the informer events do, and the dispatch to the
  allocators. \<open>None\<close> is a panic (a nil dereference or a failed type assertion).
\<close>

section \<open>Dispatch to the allocators\<close>

datatype PVPVCAllocator = LvmCommonPVAllocator | DevicePVAllocator | LvmSnapshotPVAllocator

definition getAllocatorByVolumeType :: "VolumeType \<Rightarrow> PVPVCAllocator option" where
  "getAllocatorByVolumeType volumeType =
     (if volumeType = VolumeTypeLVM then Some LvmCommonPVAllocator
      else if volumeType = VolumeTypeDevice then Some DevicePVAllocator
      else None)"

definition getAllocatorByPVC :: "kube \<Rightarrow> PersistentVolumeClaim \<Rightarrow> PVPVCAllocator option option" where
  "getAllocatorByPVC K pvc =
     (let (isLocalPV, pvType) = IsLocalPVC K pvc
      in if isLocalPV then
           (if pvType = VolumeTypeLVM then
              (case IsReadOnlySnapshotPVC2 K pvc of
                 None \<Rightarrow> None
               | Some True \<Rightarrow> Some (Some LvmSnapshotPVAllocator)
               | Some False \<Rightarrow> Some (Some LvmCommonPVAllocator))
            else if pvType = VolumeTypeDevice then Some (Some DevicePVAllocator)
            else Some None)
         else Some None)"

fun allocator_pvcAdd ::
  "PVPVCAllocator \<Rightarrow> NodeStorageAllocatedCache \<Rightarrow> string \<Rightarrow> PersistentVolumeClaim \<Rightarrow> string \<Rightarrow>
     NodeStorageAllocatedCache" where
  "allocator_pvcAdd LvmCommonPVAllocator = lvm_pvcAdd"
| "allocator_pvcAdd DevicePVAllocator = device_pvcAdd"
| "allocator_pvcAdd LvmSnapshotPVAllocator = snapshot_pvcAdd"

fun allocator_pvAdd ::
  "PVPVCAllocator \<Rightarrow> kube \<Rightarrow> NodeStorageAllocatedCache \<Rightarrow> string \<Rightarrow> PersistentVolume \<Rightarrow>
     NodeStorageAllocatedCache option" where
  "allocator_pvAdd LvmCommonPVAllocator = lvm_pvAdd"
| "allocator_pvAdd DevicePVAllocator = device_pvAdd"
| "allocator_pvAdd LvmSnapshotPVAllocator = snapshot_pvAdd"

fun allocator_pvDelete ::
  "PVPVCAllocator \<Rightarrow> kube \<Rightarrow> NodeStorageAllocatedCache \<Rightarrow> string \<Rightarrow> PersistentVolume \<Rightarrow>
     NodeStorageAllocatedCache" where
  "allocator_pvDelete LvmCommonPVAllocator = lvm_pvDelete"
| "allocator_pvDelete DevicePVAllocator = device_pvDelete"
| "allocator_pvDelete LvmSnapshotPVAllocator = snapshot_pvDelete"

fun allocator_prefilter ::
  "PVPVCAllocator \<Rightarrow> kube \<Rightarrow> NodeStorageAllocatedCache \<Rightarrow> PersistentVolumeClaim \<Rightarrow> PodLocalVolumeInfo \<Rightarrow>
     (PodLocalVolumeInfo \<times> go_error option) option" where
  "allocator_prefilter LvmCommonPVAllocator K c pvc infos = Some (lvm_prefilter K c pvc infos)"
| "allocator_prefilter DevicePVAllocator K c pvc infos = Some (device_prefilter K c pvc infos)"
| "allocator_prefilter LvmSnapshotPVAllocator K c pvc infos = snapshot_prefilter K pvc infos"

fun allocator_allocateInfo :: "PVPVCAllocator \<Rightarrow> PVAllocated \<Rightarrow> PVCAllocateInfo option" where
  "allocator_allocateInfo LvmCommonPVAllocator = lvm_allocateInfo"
| "allocator_allocateInfo DevicePVAllocator = device_allocateInfo"
| "allocator_allocateInfo LvmSnapshotPVAllocator = snapshot_allocateInfo"

fun allocator_isPVHaveAllocateInfo :: "PVPVCAllocator \<Rightarrow> kube \<Rightarrow> PersistentVolume \<Rightarrow> bool" where
  "allocator_isPVHaveAllocateInfo LvmCommonPVAllocator K pv = lvm_isPVHaveAllocateInfo K pv"
| "allocator_isPVHaveAllocateInfo DevicePVAllocator K pv = device_isPVHaveAllocateInfo K pv"
| "allocator_isPVHaveAllocateInfo LvmSnapshotPVAllocator K pv = snapshot_isPVHaveAllocateInfo pv"

section \<open>Reserve and Unreserve\<close>

definition Reserve ::
  "NodeStorageAllocatedCache \<Rightarrow> NodeAllocateState option \<Rightarrow> string \<Rightarrow>
     (NodeStorageAllocatedCache \<times> NodeAllocateState option \<times> go_error option) option" where
  "Reserve c preAllocateState reservationPodUid =
     (case preAllocateState of
        None \<Rightarrow> Some (c, preAllocateState, None)
      | Some st \<Rightarrow>
        (case nas_Units st of
           None \<Rightarrow> Some (c, preAllocateState, None)
         | Some units \<Rightarrow>
             if (case map_of (states c) (nas_NodeName st) of None \<Rightarrow> True | Some nodeState \<Rightarrow> \<not> InitedByNLS nodeState)
             then Some (c, preAllocateState,
                        Some (Errorf ''assume fail for node(%s), storage not init by NLS'' [S (nas_NodeName st)]))
             else
               (case (if reservationPodUid \<noteq> [] then unreserveDirect c (nas_NodeName st) reservationPodUid
                      else Some c) of
                  None \<Rightarrow> None
                | Some c \<Rightarrow>
               (case lvm_reserve c (nas_NodeName st) units of
                  None \<Rightarrow> None
                | Some (c, units, Some err) \<Rightarrow> Some (c, Some (st\<lparr>nas_Units := Some units\<rparr>), Some err)
                | Some (c, units, None) \<Rightarrow>
               (case inline_reserve c (nas_NodeName st) (nas_PodUid st) (InlineVolumeAllocateUnits units) of
                  None \<Rightarrow> None
                | Some (c, ivs, Some err) \<Rightarrow>
                    Some (c, Some (st\<lparr>nas_Units := Some (units\<lparr>InlineVolumeAllocateUnits := ivs\<rparr>)\<rparr>), Some err)
                | Some (c, ivs, None) \<Rightarrow>
               (case device_reserve c (nas_NodeName st) (units\<lparr>InlineVolumeAllocateUnits := ivs\<rparr>) of
                  None \<Rightarrow> None
                | Some (c, units, err) \<Rightarrow> Some (c, Some (st\<lparr>nas_Units := Some units\<rparr>), err)))))))"

text \<open>The error of the last \<open>reserve\<close> is only logged; its units are the caller's slice.\<close>

definition Unreserve ::
  "NodeStorageAllocatedCache \<Rightarrow> NodeAllocateState option \<Rightarrow> string \<Rightarrow> InlineVolumeAllocated list \<Rightarrow>
     (NodeStorageAllocatedCache \<times> NodeAllocateState option \<times> InlineVolumeAllocated list) option" where
  "Unreserve c reservedAllocateState reservationPodUid reservationPodUnits =
     (case reservedAllocateState of
        None \<Rightarrow> Some (c, reservedAllocateState, reservationPodUnits)
      | Some st \<Rightarrow>
        (case nas_Units st of
           None \<Rightarrow> Some (c, reservedAllocateState, reservationPodUnits)
         | Some units \<Rightarrow>
             if (case map_of (states c) (nas_NodeName st) of None \<Rightarrow> True | Some nodeState \<Rightarrow> \<not> InitedByNLS nodeState)
             then Some (c, reservedAllocateState, reservationPodUnits)
             else
               (let (c, units) = lvm_unreserve c (nas_NodeName st) units
                in case inline_unreserve c (nas_NodeName st) (nas_PodUid st) (InlineVolumeAllocateUnits units) of
                     None \<Rightarrow> None
                   | Some (c, ivs) \<Rightarrow>
                       (let (c, units) = device_unreserve c (nas_NodeName st)
                                           (units\<lparr>InlineVolumeAllocateUnits := ivs\<rparr>);
                            st = st\<lparr>nas_Units := Some units\<rparr>
                        in if reservationPodUid \<noteq> [] then
                             map_option (\<lambda>(c, rus, err). (c, Some st, rus))
                               (inline_reserve c (nas_NodeName st) reservationPodUid reservationPodUnits)
                           else Some (c, Some st, reservationPodUnits)))))"

section \<open>Node events\<close>

definition updateNodeStorage ::
  "NodeStorageAllocatedCache \<Rightarrow> NodeLocalStorage \<Rightarrow> NodeStorageAllocatedCache option" where
  "updateNodeStorage c nodeLocal =
     (case map_of (states c) (nls_Name nodeLocal) of
        None \<Rightarrow> None
      | Some oldNodeState \<Rightarrow>
          (let newNodeState = NewNodeStorageStateFromStorage nodeLocal
           in Some (set_node (nls_Name nodeLocal)
                (oldNodeState\<lparr>InitedByNLS := True,
                   VGStates := vg_StatesForUpdate (VGStates oldNodeState) (VGStates newNodeState),
                   DeviceStates := dev_StatesForUpdate (DeviceStates oldNodeState) (DeviceStates newNodeState)\<rparr>)
                c)))"

definition AddNodeStorage ::
  "NodeStorageAllocatedCache \<Rightarrow> NodeLocalStorage \<Rightarrow> NodeStorageAllocatedCache option" where
  "AddNodeStorage c nodeLocal =
     (case map_of (states c) (nls_Name nodeLocal) of
        Some _ \<Rightarrow> updateNodeStorage c nodeLocal
      | None \<Rightarrow> Some (set_node (nls_Name nodeLocal) (NewNodeStorageStateFromStorage nodeLocal) c))"

definition UpdateNodeStorage ::
  "kube \<Rightarrow> NodeStorageAllocatedCache \<Rightarrow> NodeLocalStorage \<Rightarrow> NodeLocalStorage \<Rightarrow> NodeStorageAllocatedCache option" where
  "UpdateNodeStorage K c old new =
     (let c = (case map_of (states c) (nls_Name new) of
                 None \<Rightarrow> set_node (nls_Name new) (NewNodeStorageStateFromStorage new) c
               | Some _ \<Rightarrow> c)
      in if HashWithoutState K (Some old) \<noteq> HashWithoutState K (Some new)
         then updateNodeStorage c new else Some c)"

section \<open>Pod, claim and volume events\<close>

definition AddPod :: "kube \<Rightarrow> NodeStorageAllocatedCache \<Rightarrow> Pod \<Rightarrow> NodeStorageAllocatedCache" where
  "AddPod K c pod = (if \<not> IsPodNeedAllocate pod then c else podAdd K c pod)"

definition DeletePod :: "NodeStorageAllocatedCache \<Rightarrow> Pod \<Rightarrow> NodeStorageAllocatedCache" where
  "DeletePod c pod = podDelete c pod"

definition UpdatePod :: "kube \<Rightarrow> NodeStorageAllocatedCache \<Rightarrow> Pod \<Rightarrow> NodeStorageAllocatedCache" where
  "UpdatePod K c pod =
     (if IsPodNeedAllocate pod then AddPod K c pod
      else if pod_NodeName pod \<noteq> [] then DeletePod c pod
      else c)"

definition addPVCInfo :: "NodeStorageAllocatedCache \<Rightarrow> PersistentVolumeClaim \<Rightarrow> NodeStorageAllocatedCache" where
  "addPVCInfo c pvc =
     (if pvc_Phase pvc \<noteq> ClaimBound then c
      else (let pvName = GetPVFromBoundPVC pvc; nodeName = NodeNameFromPVC pvc
            in c\<lparr>pvcInfosMap := AList.update (PVCName pvc) (NewPVCInfo pvc nodeName pvName) (pvcInfosMap c)\<rparr>))"

definition AddOrUpdatePVC ::
  "NodeStorageAllocatedCache \<Rightarrow> PersistentVolumeClaim \<Rightarrow> string \<Rightarrow> string \<Rightarrow> NodeStorageAllocatedCache" where
  "AddOrUpdatePVC c pvc nodeName volumeName =
     (if pvc_Phase pvc \<noteq> ClaimBound then c
      else
        (let c = addPVCInfo c pvc
         in case GetByPV (pvAllocatedDetails c) volumeName of
              None \<Rightarrow> c
            | Some pvDetail \<Rightarrow>
                (case getAllocatorByVolumeType (GetVolumeType pvDetail) of
                   None \<Rightarrow> c
                 | Some allocator \<Rightarrow> allocator_pvcAdd allocator c nodeName pvc volumeName)))"

definition DeletePVC :: "NodeStorageAllocatedCache \<Rightarrow> PersistentVolumeClaim \<Rightarrow> NodeStorageAllocatedCache" where
  "DeletePVC c pvc =
     (let c = c\<lparr>pvcInfosMap := AList.delete (PVCName pvc) (pvcInfosMap c)\<rparr>
      in set_details (DeleteByPVC (pvAllocatedDetails c) (PVCName pvc)) c)"

definition AddOrUpdatePV ::
  "kube \<Rightarrow> NodeStorageAllocatedCache \<Rightarrow> PersistentVolume \<Rightarrow> string \<Rightarrow> NodeStorageAllocatedCache option" where
  "AddOrUpdatePV K c pv nodeName =
     (let (isOpenLocalPV, pvType) = IsOpenLocalPV pv
      in if \<not> isOpenLocalPV then Some c
         else if IsReadOnlyPV pv then Some c
         else (case getAllocatorByVolumeType pvType of
                 None \<Rightarrow> Some c
               | Some allocator \<Rightarrow> allocator_pvAdd allocator K c nodeName pv))"

definition DeletePV ::
  "kube \<Rightarrow> NodeStorageAllocatedCache \<Rightarrow> PersistentVolume \<Rightarrow> string \<Rightarrow> NodeStorageAllocatedCache" where
  "DeletePV K c pv nodeName =
     (let (isOpenLocalPV, pvType) = IsOpenLocalPV pv
      in if \<not> isOpenLocalPV then c
         else if IsReadOnlyPV pv then c
         else (case getAllocatorByVolumeType pvType of
                 None \<Rightarrow> c
               | Some allocator \<Rightarrow> allocator_pvDelete allocator K c nodeName pv))"

section \<open>Scheduling\<close>

definition PrefilterPVC ::
  "kube \<Rightarrow> NodeStorageAllocatedCache \<Rightarrow> PersistentVolumeClaim \<Rightarrow> PodLocalVolumeInfo \<Rightarrow>
     (PodLocalVolumeInfo \<times> go_error option) option" where
  "PrefilterPVC K c localPVC podVolumeInfos =
     (case getAllocatorByPVC K localPVC of
        None \<Rightarrow> None
      | Some None \<Rightarrow> Some (podVolumeInfos, None)
      | Some (Some allocator) \<Rightarrow> allocator_prefilter allocator K c localPVC podVolumeInfos)"

definition PrefilterInlineVolumes ::
  "kube \<Rightarrow> Pod \<Rightarrow> PodLocalVolumeInfo \<Rightarrow> PodLocalVolumeInfo \<times> go_error option" where
  "PrefilterInlineVolumes K pod podVolumeInfo = inline_prefilter K pod podVolumeInfo"

definition preAllocateByVGs ::
  "range_order \<Rightarrow> NodeStorageAllocatedCache \<Rightarrow> Pod \<Rightarrow> PodLocalVolumeInfo \<Rightarrow> string \<Rightarrow> NodeStorageState \<Rightarrow>
     NodeStorageState \<times> NodeAllocateUnits \<times> go_error option" where
  "preAllocateByVGs ord c pod podVolumeInfo nodeName nodeStateClone =
     (case inline_preAllocate c nodeName pod (pod_InlineVolumes podVolumeInfo) nodeStateClone of
        (clone, inlineVolumeAllocate, Some err) \<Rightarrow>
          (clone, \<lparr>LVMPVCAllocateUnits = [], DevicePVCAllocateUnits = [],
                   InlineVolumeAllocateUnits = inlineVolumeAllocate\<rparr>, Some err)
      | (clone, inlineVolumeAllocate, None) \<Rightarrow>
          (case lvm_preAllocate ord (strategyType c) nodeName podVolumeInfo clone of
             (clone, pvcAllocate, Some err) \<Rightarrow>
               (clone, \<lparr>LVMPVCAllocateUnits = [], DevicePVCAllocateUnits = [],
                        InlineVolumeAllocateUnits = inlineVolumeAllocate\<rparr>, Some err)
           | (clone, pvcAllocate, None) \<Rightarrow>
               (clone, \<lparr>LVMPVCAllocateUnits = pvcAllocate, DevicePVCAllocateUnits = [],
                        InlineVolumeAllocateUnits = inlineVolumeAllocate\<rparr>, None)))"

text \<open>
  \<open>PreAllocate\<close> runs on a copy of the node's state. Its \<open>range\<close> loops (the deep copy, the list of
  pools, the free devices) each have an order of their own. The result has the pod's infos (their
  device claims are sorted in place), the state and the error. Its reads of the cache are taken
  from one cache state.
\<close>

definition PreAllocate ::
  "range_order \<Rightarrow> range_order \<Rightarrow> range_order \<Rightarrow> NodeStorageAllocatedCache \<Rightarrow> Pod \<Rightarrow> PodLocalVolumeInfo \<Rightarrow>
     Pod option \<Rightarrow> string \<Rightarrow> PodLocalVolumeInfo \<times> NodeAllocateState option \<times> go_error option" where
  "PreAllocate ord_copy ord_vgs ord_devices c pod podVolumeInfo reservationPod nodeName =
     (case GetNodeStorageStateCopy ord_copy c nodeName of
        None \<Rightarrow> (podVolumeInfo, None, Some (Errorf ''node(%s) have no local storage pool'' [S nodeName]))
      | Some nodeStateClone \<Rightarrow>
          if \<not> InitedByNLS nodeStateClone
          then (podVolumeInfo, None,
                Some (Errorf ''node(%s) local storage pool had not been inited'' [S nodeName]))
          else
            (let nodeStateClone = (case reservationPod of
                                     None \<Rightarrow> nodeStateClone
                                   | Some rp \<Rightarrow> preRevert c nodeName rp nodeStateClone);
                 (clone, allocateUnits, err) =
                   preAllocateByVGs ord_vgs c pod podVolumeInfo nodeName nodeStateClone
             in case err of
                  Some e \<Rightarrow>
                    (podVolumeInfo,
                     Some \<lparr>nas_NodeName = nodeName, nas_PodUid = pod_UID pod,
                           nas_Units = Some allocateUnits, nas_NodeStorageAllocatedByUnits = Some clone\<rparr>,
                     Some e)
                | None \<Rightarrow>
                    (case device_preAllocate ord_devices nodeName podVolumeInfo clone of
                       (infos, clone, devUnits, Some e) \<Rightarrow>
                         (infos,
                          Some \<lparr>nas_NodeName = nodeName, nas_PodUid = pod_UID pod,
                                nas_Units = Some allocateUnits, nas_NodeStorageAllocatedByUnits = Some clone\<rparr>,
                          Some e)
                     | (infos, clone, devUnits, None) \<Rightarrow>
                         (infos,
                          Some \<lparr>nas_NodeName = nodeName, nas_PodUid = pod_UID pod,
                                nas_Units = Some (allocateUnits\<lparr>DevicePVCAllocateUnits := devUnits\<rparr>),
                                nas_NodeStorageAllocatedByUnits = Some clone\<rparr>,
                          None))))"

definition MakeAllocateInfo ::
  "NodeStorageAllocatedCache \<Rightarrow> PersistentVolumeClaim \<Rightarrow> PVCAllocateInfo option" where
  "MakeAllocateInfo c pvc =
     (case (case GetPVCAllocatedDetailCopy c (pvc_Namespace pvc) (pvc_Name pvc) of
              Some d \<Rightarrow> Some d
            | None \<Rightarrow> GetPVAllocatedDetailCopy c (pvc_VolumeName pvc)) of
        None \<Rightarrow> None
      | Some detail \<Rightarrow>
          (case getAllocatorByVolumeType (GetVolumeType detail) of
             None \<Rightarrow> None
           | Some allocator \<Rightarrow> allocator_allocateInfo allocator detail))"

definition IsPVHaveAllocateInfo :: "kube \<Rightarrow> PersistentVolume \<Rightarrow> VolumeType \<Rightarrow> bool" where
  "IsPVHaveAllocateInfo K pv volumeType =
     (case getAllocatorByVolumeType volumeType of
        None \<Rightarrow> True
      | Some allocator \<Rightarrow> allocator_isPVHaveAllocateInfo allocator K pv)"

end
