(* ===== verification/Examples.thy ===== *)
theory Examples
  imports Alloc_Cache
begin

text \<open>
  A small concrete cluster, on which the theorems about the cache are applied: one node \<open>n\<close> with
  two volume groups and three SSDs, one pod, and claims, volumes and a \<open>kube\<close> whose listers know
  them.
\<close>

definition ex_vg :: "string \<Rightarrow> int64 \<Rightarrow> VGStoragePool" where
  "ex_vg k a = \<lparr>vg_Name = k, vg_Total = a, vg_Allocatable = a, vg_Requested = 0\<rparr>"

definition ex_node :: NodeStorageState where
  "ex_node = \<lparr>VGStates = [(''g'', ex_vg ''g'' 10), (''h'', ex_vg ''h'' 20)], DeviceStates = ex_devices,
     InitedByNLS = True\<rparr>"

definition ex_store :: NodeStorageAllocatedCache where
  "ex_store = (NewNodeStorageAllocatedCache StrategyBinpack)\<lparr>states := [(''n'', ex_node)]\<rparr>"

definition ex_pod :: Pod where
  "ex_pod = \<lparr>pod_Namespace = ''ns'', pod_Name = ''pod'', pod_UID = ''u'', pod_Annotations = [],
     pod_NodeName = ''n'', pod_Phase = ''Running'',
     pod_Volumes = [\<lparr>vol_Name = ''tmp'', vol_CSI = Some \<lparr>csi_Driver = ''local.csi.aliyun.com'',
       csi_VolumeAttributes = [(''vgName'', ''g''), (''size'', ''3'')]\<rparr>, vol_PVC = None, vol_Ephemeral = None\<rparr>]\<rparr>"

definition ex_pvc :: "string \<Rightarrow> int64 \<Rightarrow> PersistentVolumeClaim" where
  "ex_pvc name r = \<lparr>pvc_Namespace = ''ns'', pvc_Name = name, pvc_Annotations = [],
     pvc_StorageClassName = Some ''lvm'', pvc_VolumeName = ''v'', pvc_Requests = Some r, pvc_Limits = None,
     pvc_DataSource = None, pvc_Phase = ''Bound'', pvc_CreationTimestamp = 0\<rparr>"

definition ex_lvm_info :: "string \<Rightarrow> string \<Rightarrow> int64 \<Rightarrow> LVMPVCInfo" where
  "ex_lvm_info name vg r = \<lparr>li_VGName = vg, li_Request = r, li_PVC = ex_pvc name r\<rparr>"

definition ex_inline :: "string \<Rightarrow> int64 \<Rightarrow> InlineVolumeAllocated" where
  "ex_inline vg r = \<lparr>iv_VgName = vg, iv_VolumeName = ''tmp'', iv_VolumeSize = r, iv_PodName = ''pod'',
     iv_PodNamespace = ''ns'', iv_Allocated = 0\<rparr>"

definition ex_infos :: PodLocalVolumeInfo where
  "ex_infos = \<lparr>LVMPVCsNotROSnapshot = Some \<lparr>LVMPVCsWithVgNameNotAllocated = [ex_lvm_info ''p'' ''h'' 5],
       LVMPVCsWithoutVgNameNotAllocated = [ex_lvm_info ''q'' [] 6]\<rparr>,
     LVMPVCsROSnapshot = [], DevicePVCs = None, pod_InlineVolumes = [ex_inline ''g'' 3]\<rparr>"

definition ex_lvm_unit :: "string \<Rightarrow> string \<Rightarrow> int64 \<Rightarrow> LVMPVAllocated" where
  "ex_lvm_unit name vg r = \<lparr>pa_VolumeName = [], pa_PVCName = name, pa_PVCNamespace = ''ns'',
     pa_NodeName = ''n'', pa_Requested = r, pa_Allocated = 0, pa_VGName = vg\<rparr>"

definition ex_state :: NodeAllocateState where
  "ex_state = \<lparr>nas_NodeName = ''n'', nas_PodUid = ''u'',
     nas_Units = Some \<lparr>LVMPVCAllocateUnits = [ex_lvm_unit ''p'' ''h'' 5, ex_lvm_unit ''q'' ''g'' 6],
       DevicePVCAllocateUnits = [ex_unit ''r'' ''b''], InlineVolumeAllocateUnits = [ex_inline ''g'' 3]\<rparr>,
     nas_NodeStorageAllocatedByUnits = None\<rparr>"

definition ex_kube :: kube where
  "ex_kube = \<lparr>sc_get = (\<lambda>_. None), pvc_get = (\<lambda>_ _. None), pv_get = (\<lambda>_. None),
     snap_lister = (\<lambda>_ _. None), snapclass_lister = (\<lambda>_. None), snap_client = (\<lambda>_ _. None),
     snapclass_client = (\<lambda>_. None), ParseQuantity = map_of [(''3'', 3), (''5'', 5)],
     UnmarshalPVInfo = (\<lambda>_. None), DeepHashStatus = (\<lambda>_. 0), QuantityString = (\<lambda>_. [])\<rparr>"

definition ex_nls :: NodeLocalStorage where
  "ex_nls = \<lparr>nls_Name = ''n'', nls_SpdkDeviceType = [],
     nls_Status = \<lparr>
       nls_NodeStorageInfo = \<lparr>nsi_DeviceInfos = [],
         nsi_VolumeGroups = [\<lparr>nvg_Name = ''g'', nvg_Total = 10, nvg_Available = 10, nvg_Allocatable = 9\<rparr>],
         nsi_MountPoints = [], nsi_State = []\<rparr>,
       nls_FilteredStorageInfo = \<lparr>fsi_VolumeGroups = [''g''], fsi_MountPoints = [], fsi_Devices = [],
         fsi_UpdateStatus = []\<rparr>\<rparr>\<rparr>"

lemmas ex_defs = ex_kube_def ex_nls_def ex_vg_def ex_node_def ex_store_def ex_pod_def ex_pvc_def ex_lvm_info_def ex_inline_def
  ex_infos_def ex_lvm_unit_def ex_state_def ex_unit_def ex_device_def ex_devices_def
  NewNodeStorageAllocatedCache_def NewPVAllocatedDetails_def

lemma wf_ex_store: "wf_cache ex_store"
  by (simp add: wf_cache_def wf_node_def wf_vgs_def wf_devs_def wf_details_def list_all_iff ex_defs)

end
