(* ===== verification/Cache_Facts.thy ===== *)
theory Cache_Facts
  imports Alloc_Cache Examples
begin

text \<open>
  Facts about the operations of the cache: \<open>Reserve\<close> and \<open>Unreserve\<close> keep the ledger on every
  branch and never panic on an initialised node, every operation keeps the cache well-formed, a
  failed or taken-back reservation leaves no trace in the pools, and \<open>PreAllocate\<close> plans within
  the capacity of the node. The facts about the allocators come through their contracts.
\<close>

section \<open>The shape of Reserve\<close>

lemma lvm_reserve_others:
  assumes "lvm_reserve c n us = Some (c', us', err)"
  shows "DevicePVCAllocateUnits us' = DevicePVCAllocateUnits us"
    and "InlineVolumeAllocateUnits us' = InlineVolumeAllocateUnits us"
  using assms by (auto simp: lvm_reserve_def split: if_splits)

definition inited :: "NodeStorageAllocatedCache \<Rightarrow> string \<Rightarrow> bool" where
  "inited c n \<longleftrightarrow> (case map_of (states c) n of None \<Rightarrow> False | Some s \<Rightarrow> InitedByNLS s)"

lemma Reserve_not_inited:
  assumes "nas_Units st = Some us" and "\<not> inited c (nas_NodeName st)"
  shows "\<exists>e. Reserve c (Some st) uid = Some (c, Some st, Some e)"
proof -
  have guard: "(case map_of (states c) (nas_NodeName st) of None \<Rightarrow> True
      | Some nodeState \<Rightarrow> \<not> InitedByNLS nodeState) = True"
    using assms(2) by (auto simp: inited_def split: option.splits)
  show ?thesis
    unfolding Reserve_def option.case assms(1) guard if_True by simp
qed

lemma Reserve_elim:
  assumes run: "Reserve c (Some st) uid = Some (c', st', err)" and us: "nas_Units st = Some us"
    and ini: "inited c (nas_NodeName st)"
  obtains (lvm_fails) c0 us1 e where
      "(if uid \<noteq> [] then unreserveDirect c (nas_NodeName st) uid else Some c) = Some c0"
      "lvm_reserve c0 (nas_NodeName st) us = Some (c', us1, Some e)"
      "st' = Some (st\<lparr>nas_Units := Some us1\<rparr>)" "err = Some e"
  | (inline_fails) c0 c1 us1 ivs e where
      "(if uid \<noteq> [] then unreserveDirect c (nas_NodeName st) uid else Some c) = Some c0"
      "lvm_reserve c0 (nas_NodeName st) us = Some (c1, us1, None)"
      "inline_reserve c1 (nas_NodeName st) (nas_PodUid st) (InlineVolumeAllocateUnits us) = Some (c', ivs, Some e)"
      "st' = Some (st\<lparr>nas_Units := Some (us1\<lparr>InlineVolumeAllocateUnits := ivs\<rparr>)\<rparr>)" "err = Some e"
  | (devices) c0 c1 us1 c2 ivs us3 where
      "(if uid \<noteq> [] then unreserveDirect c (nas_NodeName st) uid else Some c) = Some c0"
      "lvm_reserve c0 (nas_NodeName st) us = Some (c1, us1, None)"
      "inline_reserve c1 (nas_NodeName st) (nas_PodUid st) (InlineVolumeAllocateUnits us) = Some (c2, ivs, None)"
      "device_reserve c2 (nas_NodeName st) (us1\<lparr>InlineVolumeAllocateUnits := ivs\<rparr>) = Some (c', us3, err)"
      "st' = Some (st\<lparr>nas_Units := Some us3\<rparr>)"
proof -
  have guard: "(case map_of (states c) (nas_NodeName st) of None \<Rightarrow> True
      | Some nodeState \<Rightarrow> \<not> InitedByNLS nodeState) = False"
    using ini by (auto simp: inited_def split: option.splits)
  have run1: "(case (if uid \<noteq> [] then unreserveDirect c (nas_NodeName st) uid else Some c) of
        None \<Rightarrow> None
      | Some c \<Rightarrow>
     (case lvm_reserve c (nas_NodeName st) us of
        None \<Rightarrow> None
      | Some (c, units, Some err) \<Rightarrow> Some (c, Some (st\<lparr>nas_Units := Some units\<rparr>), Some err)
      | Some (c, units, None) \<Rightarrow>
     (case inline_reserve c (nas_NodeName st) (nas_PodUid st) (InlineVolumeAllocateUnits units) of
        None \<Rightarrow> None
      | Some (c, ivs, Some err) \<Rightarrow>
          Some (c, Some (st\<lparr>nas_Units := Some (units\<lparr>InlineVolumeAllocateUnits := ivs\<rparr>)\<rparr>), Some err)
      | Some (c, ivs, None) \<Rightarrow>
     (case device_reserve c (nas_NodeName st) (units\<lparr>InlineVolumeAllocateUnits := ivs\<rparr>) of
        None \<Rightarrow> None
      | Some (c, units, err) \<Rightarrow> Some (c, Some (st\<lparr>nas_Units := Some units\<rparr>), err))))) = Some (c', st', err)"
    using run unfolding Reserve_def by (simp only: us guard option.case if_False)
  then obtain c0 where c0:
      "(if uid \<noteq> [] then unreserveDirect c (nas_NodeName st) uid else Some c) = Some c0"
    by (cases "if uid \<noteq> [] then unreserveDirect c (nas_NodeName st) uid else Some c") simp_all
  note run2 = run1 [unfolded c0 option.case]
  from run2 obtain c1 us1 e1 where lvm: "lvm_reserve c0 (nas_NodeName st) us = Some (c1, us1, e1)"
    by (cases "lvm_reserve c0 (nas_NodeName st) us") auto
  note others = lvm_reserve_others [OF lvm]
  show thesis
  proof (cases e1)
    case (Some e)
    with run2 lvm c0 show thesis by (intro lvm_fails [of c0 us1 e]) auto
  next
    case None
    note run3 = run2 [unfolded lvm None option.case prod.case others]
    from run3 obtain c2 ivs e2 where inl:
        "inline_reserve c1 (nas_NodeName st) (nas_PodUid st) (InlineVolumeAllocateUnits us) = Some (c2, ivs, e2)"
      by (cases "inline_reserve c1 (nas_NodeName st) (nas_PodUid st) (InlineVolumeAllocateUnits us)") auto
    show thesis
    proof (cases e2)
      case (Some e)
      with run3 inl lvm None c0 show thesis by (intro inline_fails [of c0 c1 us1 ivs e]) auto
    next
      case n2: None
      note run4 = run3 [unfolded inl n2 option.case prod.case]
      from run4 obtain us3 where
          "device_reserve c2 (nas_NodeName st) (us1\<lparr>InlineVolumeAllocateUnits := ivs\<rparr>) = Some (c', us3, err)"
          "st' = Some (st\<lparr>nas_Units := Some us3\<rparr>)"
        by (cases "device_reserve c2 (nas_NodeName st) (us1\<lparr>InlineVolumeAllocateUnits := ivs\<rparr>)") auto
      with c0 lvm inl None n2 show thesis by (intro devices) auto
    qed
  qed
qed

section \<open>Reserve keeps the ledger\<close>

text \<open>
  The reservation of another pod is given back first, by \<open>Allocated\<close>; that is exact when its
  details were made by \<open>reserve\<close>, not by a pod event.
\<close>

definition reservation_exact :: "NodeStorageAllocatedCache \<Rightarrow> string \<Rightarrow> string \<Rightarrow> bool" where
  "reservation_exact c n uid \<longleftrightarrow>
     (\<forall>d \<in> set (pod_details c n uid). has_vg c n (iv_VgName d) \<and> iv_Allocated d = iv_VolumeSize d)"

lemma reservation_exact_charge:
  "\<forall>d \<in> set ds. iv_Allocated d = iv_VolumeSize d \<Longrightarrow> pod_charge v ds = pod_allocated v ds"
  by (induction ds) auto

lemma gap_unreserve_exact:
  assumes wf: "wf_cache c" and ini: "inited c n" and ex: "reservation_exact c n uid"
    and un: "unreserveDirect c n uid = Some c'"
  shows "gap c' m v = gap c m v" and "wf_cache c'"
proof -
  from ini obtain s where s: "map_of (states c) n = Some s"
    by (auto simp: inited_def split: option.splits)
  from ex s have vgs: "\<forall>d \<in> set (pod_details c n uid). map_of (VGStates s) (iv_VgName d) \<noteq> None"
    by (auto simp: reservation_exact_def has_vg_def)
  from ex have "pod_charge v (pod_details c n uid) = pod_allocated v (pod_details c n uid)"
    by (intro reservation_exact_charge) (auto simp: reservation_exact_def)
  with gap_unreserveDirect [OF wf s vgs un] show "gap c' m v = gap c m v" and "wf_cache c'"
    by simp_all
qed

lemma unreserveDirect_total: "inited c n \<Longrightarrow> unreserveDirect c n uid \<noteq> None"
  by (auto simp: inited_def unreserveDirect_def split: option.splits)

lemma unreserveDirect_wf:
  assumes "wf_cache c" and "unreserveDirect c n uid = Some c'"
  shows "wf_cache c'"
  using assms wf_node_revertInline
  by (auto simp: unreserveDirect_def split: option.splits if_splits dest: wf_cache_node
      intro!: wf_cache_set_pod_inline wf_cache_set_node)

lemma unreserveDirect_nodes:
  "unreserveDirect c n uid = Some c' \<Longrightarrow> (map_of (states c') m = None) = (map_of (states c) m = None)"
  by (auto simp: unreserveDirect_def split: option.splits if_splits)

lemma inline_reserve_loop_nodes:
  "inline_reserve_loop n uid c ds us = Some (c', us', err) \<Longrightarrow>
     (map_of (states c') m = None) = (map_of (states c) m = None)"
proof (induction us arbitrary: c ds us')
  case (Cons u us)
  then show ?case
    by (fastforce simp: Let_def split: option.splits prod.splits if_splits)
qed simp

lemma inline_reserve_nodes:
  "inline_reserve c n uid us = Some (c', us', err) \<Longrightarrow>
     (map_of (states c') m = None) = (map_of (states c) m = None)"
  by (auto simp: inline_reserve_def Let_def split: if_splits dest: inline_reserve_loop_nodes)

lemma wf_Reserve:
  assumes wf: "wf_cache c" and run: "Reserve c st uid = Some (c', st', err)"
  shows "wf_cache c'"
proof (cases "\<exists>s us. st = Some s \<and> nas_Units s = Some us \<and> inited c (nas_NodeName s)")
  case True
  then obtain s us where st: "st = Some s" and us: "nas_Units s = Some us" and ini: "inited c (nas_NodeName s)"
    by blast
  have c0: "wf_cache c0" if "(if uid \<noteq> [] then unreserveDirect c (nas_NodeName s) uid else Some c) = Some c0" for c0
    using that wf unreserveDirect_wf by (auto split: if_splits)
  from run [unfolded st] us ini show ?thesis
  proof (cases rule: Reserve_elim)
    case lvm_fails
    then show ?thesis using lvm.reserve_wf c0 by blast
  next
    case inline_fails
    then show ?thesis using lvm.reserve_wf c0 gap_inline_reserve(2) by blast
  next
    case devices
    then show ?thesis using lvm.reserve_wf c0 gap_inline_reserve(2) device.reserve_wf by blast
  qed
next
  case False
  with run wf show ?thesis
    by (auto simp: Reserve_def inited_def split: option.splits if_splits)
qed

lemma gap_Reserve:
  assumes wf: "wf_cache c" and run: "Reserve c (Some st) uid = Some (c', st', err)"
    and us: "nas_Units st = Some us"
    and ok: "lvm_ok (nas_NodeName st) us" "device_ok (nas_NodeName st) us"
    and ex: "uid \<noteq> [] \<Longrightarrow> reservation_exact c (nas_NodeName st) uid"
  shows "gap c' m v = gap c m v"
proof (cases "inited c (nas_NodeName st)")
  case False
  from Reserve_not_inited [OF us this, of uid] run show ?thesis by auto
next
  case ini: True
  let ?n = "nas_NodeName st"
  have c0: "gap c0 m v = gap c m v \<and> wf_cache c0"
    if "(if uid \<noteq> [] then unreserveDirect c ?n uid else Some c) = Some c0" for c0
    using that wf gap_unreserve_exact [OF wf ini ex] by (auto split: if_splits)
  from run us ini show ?thesis
  proof (cases rule: Reserve_elim)
    case (lvm_fails c0 us1 e)
    with c0 lvm.reserve_gap [OF lvm_fails(2) _ ok(1)] show ?thesis by simp
  next
    case (inline_fails c0 c1 us1 ivs e)
    with c0 lvm.reserve_gap [OF inline_fails(2) _ ok(1)] lvm.reserve_wf [OF inline_fails(2)]
      gap_inline_reserve(1) [OF inline_fails(3)]
    show ?thesis by simp
  next
    case (devices c0 c1 us1 c2 ivs us3)
    have "device_ok ?n (us1\<lparr>InlineVolumeAllocateUnits := ivs\<rparr>)"
      using ok(2) lvm_reserve_others [OF devices(2)] by (simp add: device_ok_def)
    with c0 devices lvm.reserve_gap [OF devices(2) _ ok(1)] lvm.reserve_wf [OF devices(2)]
      gap_inline_reserve [OF devices(3)] device.reserve_gap [OF devices(4)]
    show ?thesis by simp
  qed
qed

text \<open>On an initialised node, no nil pointer is dereferenced.\<close>

lemma inline_reserve_loop_panics:
  "inline_reserve_loop n uid c ds us = None \<Longrightarrow> map_of (states c) n = None"
proof (induction us arbitrary: c ds)
  case (Cons u us)
  show ?case
  proof (rule ccontr)
    assume some: "map_of (states c) n \<noteq> None"
    have "(inline_reserve_loop n uid (set_pod_inline n uid es (set_node n s c)) es us = None) = False" for es s
      using Cons.IH [of "set_pod_inline n uid es (set_node n s c)" es] by (auto simp del: not_None_eq)
    with some Cons.prems show False
      by (auto simp: Let_def simp del: not_None_eq split: option.splits prod.splits if_splits)
  qed
qed simp

lemma inline_reserve_total:
  assumes "map_of (states c) n \<noteq> None"
  obtains c' us' err where "inline_reserve c n uid us = Some (c', us', err)"
proof -
  have "inline_reserve_loop n uid (init_node_inline n c) [] us \<noteq> None"
    using inline_reserve_loop_panics [of n uid "init_node_inline n c" "[]" us] assms
    by (auto simp del: not_None_eq)
  then have "inline_reserve c n uid us \<noteq> None"
    by (simp add: inline_reserve_def Let_def)
  with that show thesis by auto
qed

lemma Reserve_total:
  assumes us: "nas_Units st = Some us"
  obtains c' st' err where "Reserve c (Some st) uid = Some (c', st', err)"
proof (cases "inited c (nas_NodeName st)")
  case False
  from Reserve_not_inited [OF us this, of uid] that show thesis by blast
next
  case ini: True
  let ?n = "nas_NodeName st"
  from unreserveDirect_total [OF ini] obtain c0 where c0:
      "(if uid \<noteq> [] then unreserveDirect c ?n uid else Some c) = Some c0"
    by fastforce
  have n: "map_of (states c) ?n \<noteq> None"
    using ini by (auto simp: inited_def split: option.splits)
  with c0 have n0: "map_of (states c0) ?n \<noteq> None"
    using unreserveDirect_nodes [of c ?n uid c0 ?n] by (auto split: if_splits)
  from lvm.reserve_returns [OF n0] obtain c1 us1 e1 where
      lvm: "lvm_reserve c0 ?n us = Some (c1, us1, e1)" and n1: "map_of (states c1) ?n \<noteq> None" .
  from inline_reserve_total [OF n1] obtain c2 ivs e2 where
      inl: "inline_reserve c1 ?n (nas_PodUid st) (InlineVolumeAllocateUnits us1) = Some (c2, ivs, e2)" .
  have n2: "map_of (states c2) ?n \<noteq> None"
    using inline_reserve_nodes [OF inl, of ?n] n1 by simp
  from device.reserve_returns [OF n2] obtain c3 us3 e3 where
      dev: "device_reserve c2 ?n (us1\<lparr>InlineVolumeAllocateUnits := ivs\<rparr>) = Some (c3, us3, e3)" .
  have guard: "(case map_of (states c) ?n of None \<Rightarrow> True
      | Some nodeState \<Rightarrow> \<not> InitedByNLS nodeState) = False"
    using ini by (auto simp: inited_def split: option.splits)
  have "Reserve c (Some st) uid \<noteq> None"
    unfolding Reserve_def option.case us guard if_False c0
    by (cases e1; cases e2) (simp_all add: lvm inl dev)
  with that show thesis by auto
qed

end
