(* ===== verification/Plan_Facts.thy ===== *)
theory Plan_Facts
  imports Cache_Facts
begin

text \<open>
  Facts about \<open>PreAllocate\<close>, the plan a scheduling cycle makes on a copy of a node: it never
  over-commits a volume group, the units it returns account exactly for what it took from each
  group, and they are made for the node and the claims of the pod.
\<close>

section \<open>Sums over units\<close>

definition lvm_total :: "string \<Rightarrow> LVMPVAllocated list \<Rightarrow> int64" where
  "lvm_total v us = (\<Sum>u \<leftarrow> us. if pa_VGName u = v then pa_Requested u else 0)"

lemma lvm_total_simps [simp]:
  "lvm_total v [] = 0"
  "lvm_total v (u # us) = (if pa_VGName u = v then pa_Requested u else 0) + lvm_total v us"
  "lvm_total v (us @ ws) = lvm_total v us + lvm_total v ws"
  by (simp_all add: lvm_total_def)

lemma lvm_unit_for_simps [simp]:
  "pa_VGName (lvm_unit_for n p v) = v" "pa_Requested (lvm_unit_for n p v) = li_Request p"
  "pa_Allocated (lvm_unit_for n p v) = li_Request p" "pa_NodeName (lvm_unit_for n p v) = n"
  "pa_PVCName (lvm_unit_for n p v) = pvc_Name (li_PVC p)"
  "pa_PVCNamespace (lvm_unit_for n p v) = pvc_Namespace (li_PVC p)"
  by (simp_all add: lvm_unit_for_def)

definition lvm_request_ok :: "LVMPVCInfo \<Rightarrow> bool" where
  "lvm_request_ok p \<longleftrightarrow> 0 \<le>s li_Request p"

section \<open>LVM\<close>

lemma allocateVgState_step:
  assumes "allocateVgState n v s sz = (s', e)" and "wf_node s"
  shows "wf_node s'" and "DeviceStates s' = DeviceStates s" and "InitedByNLS s' = InitedByNLS s"
    and "node_requested s' u = node_requested s u + (if e = None \<and> v = u then sz else 0)"
    and "node_within s \<Longrightarrow> 0 \<le>s sz \<Longrightarrow> node_within s'"
  using assms allocateVgState_wf [OF assms(2,1)] allocateVgState_frame [OF assms(1)]
    allocateVgState_requested [OF assms(1), of u] allocateVgState_within [OF _ _ assms(1)]
  by auto

lemma preAllocate_named_facts:
  assumes "preAllocate_named n ps s us = (s', us', err)" and "wf_node s"
  shows "wf_node s' \<and> DeviceStates s' = DeviceStates s \<and> InitedByNLS s' = InitedByNLS s \<and>
    node_requested s' v + lvm_total v us = node_requested s v + lvm_total v us' \<and>
    (node_within s \<longrightarrow> (\<forall>p \<in> set ps. lvm_request_ok p) \<longrightarrow> node_within s')"
  using assms
proof (induction ps arbitrary: s us)
  case (Cons p ps)
  obtain s1 e where a: "allocateVgState n (li_VGName p) s (li_Request p) = (s1, e)"
    by fastforce
  note step = allocateVgState_step [OF a Cons.prems(2)]
  show ?case
  proof (cases e)
    case None
    with Cons.prems(1) a have run:
      "preAllocate_named n ps s1 (us @ [lvm_unit_for n p (li_VGName p)]) = (s', us', err)"
      by simp
    note IH = Cons.IH [OF run step(1)]
    have "node_requested s' v + lvm_total v us = node_requested s v + lvm_total v us'"
      using IH step(4) [of v] None by (cases "li_VGName p = v") (auto simp: algebra_simps)
    with IH step(2,3,5) show ?thesis by (simp add: lvm_request_ok_def)
  next
    case (Some x)
    with Cons.prems a step(1-3,5) step(4) [of v] show ?thesis by (auto simp: lvm_request_ok_def)
  qed
qed simp

lemma map_of_pool_at: "k \<in> fst ` set st \<Longrightarrow> map_of st k = Some (pool_at st k)"
  by (cases "map_of st k") (auto simp: pool_at_def map_of_eq_None_iff)

lemma preAllocate_unnamed_facts:
  assumes "preAllocate_unnamed (GetVGScheduleStrategy_sort strat) n ps ks s us = (s', us', err)"
    and "wf_node s" and "set ks \<subseteq> fst ` set (VGStates s)"
  shows "wf_node s'" and "DeviceStates s' = DeviceStates s" and "InitedByNLS s' = InitedByNLS s"
    and "node_requested s' v + lvm_total v us = node_requested s v + lvm_total v us'"
    and "node_within s \<Longrightarrow> \<forall>p \<in> set ps. lvm_request_ok p \<Longrightarrow> node_within s'"
proof -
  have "wf_node s' \<and> DeviceStates s' = DeviceStates s \<and> InitedByNLS s' = InitedByNLS s \<and>
      node_requested s' v + lvm_total v us = node_requested s v + lvm_total v us' \<and>
      (node_within s \<and> (\<forall>p \<in> set ps. lvm_request_ok p) \<longrightarrow> node_within s')"
    using assms
  proof (induction ps arbitrary: ks s us)
    case (Cons p ps)
    obtain ks1 st1 r where a:
        "allocatePVCWithoutVgName (GetVGScheduleStrategy_sort strat) n ks (VGStates s) p = (ks1, st1, r)"
      by (metis prod_cases3)
    show ?case
    proof (cases r)
      case (Inl e)
      from allocate_error_keeps_pools [OF a [unfolded Inl]] Cons.prems a Inl show ?thesis by auto
    next
      case (Inr u)
      from strategy_allocates [OF a [unfolded Inr]] obtain k where k: "k \<in> set ks"
          "st1 = AList.update k (add_Requested (li_Request p) (pool_at (VGStates s) k)) (VGStates s)"
          "u = lvm_unit_for n p (vg_Name (pool_at (VGStates s) k))"
          "\<not> free_size (pool_at (VGStates s) k) <s li_Request p" .
      let ?vg = "pool_at (VGStates s) k"
      have vg: "map_of (VGStates s) k = Some ?vg"
        using k(1) Cons.prems(3) by (intro map_of_pool_at) auto
      then have name: "vg_Name ?vg = k"
        using wf_node_vg_name [OF Cons.prems(2)] by simp
      have s1: "s\<lparr>VGStates := st1\<rparr> = set_vg k (add_Requested (li_Request p) ?vg) s"
        by (simp add: k(2) set_vg_def)
      have wf1: "wf_node (s\<lparr>VGStates := st1\<rparr>)"
        unfolding s1 using Cons.prems(2) name by simp
      have ks1: "set ks1 \<subseteq> fst ` set (VGStates (s\<lparr>VGStates := st1\<rparr>))"
        using strategy_keeps_keys [of strat n ks "VGStates s" p] a Cons.prems(3)
        by (auto simp: k(2) dom_update dom_map_of_conv_image_fst [symmetric] go_map_simps domIff
            split: if_splits)
      have within: "node_within (s\<lparr>VGStates := st1\<rparr>)" if "node_within s" "lvm_request_ok p"
      proof -
        have "vg_within (add_Requested (li_Request p) ?vg)"
          using vg_within_add(1) [OF node_within_lookup [OF that(1) vg]] that(2) k(4)
          by (simp add: lvm_request_ok_def free_size_def)
        with that(1) show ?thesis
          by (simp add: node_within_def k(2) list_all_update)
      qed
      have run: "preAllocate_unnamed (GetVGScheduleStrategy_sort strat) n ps ks1 (s\<lparr>VGStates := st1\<rparr>)
          (us @ [u]) = (s', us', err)"
        using Cons.prems(1) a Inr by simp
      note IH = Cons.IH [OF run wf1 ks1]
      have "node_requested (s\<lparr>VGStates := st1\<rparr>) v = node_requested s v + lvm_total v [u]"
        unfolding s1 using vg by (simp add: ledger_simps k(3) name)
      with IH within show ?thesis by (auto simp: algebra_simps)
    qed
  qed simp
  then show "wf_node s'" and "DeviceStates s' = DeviceStates s" and "InitedByNLS s' = InitedByNLS s"
    and "node_requested s' v + lvm_total v us = node_requested s v + lvm_total v us'"
    and "node_within s \<Longrightarrow> \<forall>p \<in> set ps. lvm_request_ok p \<Longrightarrow> node_within s'"
    by auto
qed

definition lvm_infos :: "PodLocalVolumeInfo \<Rightarrow> LVMPVCInfo list" where
  "lvm_infos infos =
     (case LVMPVCsNotROSnapshot infos of
        None \<Rightarrow> []
      | Some i \<Rightarrow> LVMPVCsWithVgNameNotAllocated i @ LVMPVCsWithoutVgNameNotAllocated i)"

lemma lvm_preAllocate_facts:
  assumes "lvm_preAllocate ord strat n infos s = (s', us, err)" and "wf_node s" and "range_ok ord"
  shows "wf_node s'" and "DeviceStates s' = DeviceStates s" and "InitedByNLS s' = InitedByNLS s"
    and "node_requested s' v = node_requested s v + lvm_total v us"
    and "node_within s \<Longrightarrow> \<forall>p \<in> set (lvm_infos infos). lvm_request_ok p \<Longrightarrow> node_within s'"
proof -
  have "wf_node s' \<and> DeviceStates s' = DeviceStates s \<and> InitedByNLS s' = InitedByNLS s \<and>
      node_requested s' v = node_requested s v + lvm_total v us \<and>
      (node_within s \<and> (\<forall>p \<in> set (lvm_infos infos). lvm_request_ok p) \<longrightarrow> node_within s')"
  proof (cases "LVMPVCsNotROSnapshot infos")
    case None
    with assms show ?thesis by (simp add: lvm_preAllocate_def)
  next
    case (Some i)
    obtain s1 us1 e1 where named:
        "preAllocate_named n (LVMPVCsWithVgNameNotAllocated i) s [] = (s1, us1, e1)"
      by (metis prod_cases3)
    note f1 = preAllocate_named_facts [OF named assms(2)]
    show ?thesis
    proof (cases "\<not> lvm_HaveLocalVolumes (Some i) \<or> length (VGStates s) \<le> 0")
      case True
      with assms Some show ?thesis by (auto simp: lvm_preAllocate_def split: if_splits)
    next
      case False
      show ?thesis
      proof (cases "e1 \<noteq> None \<or> length (LVMPVCsWithoutVgNameNotAllocated i) \<le> 0")
        case True
        with assms(1) Some named False have "s' = s1" "us = us1"
          by (auto simp: lvm_preAllocate_def split: option.splits)
        with f1 [of v] Some show ?thesis by (auto simp: lvm_infos_def)
      next
        case more: False
        with assms(1) Some named False have run:
            "preAllocate_unnamed (GetVGScheduleStrategy_sort strat) n
               (LVMPVCsWithoutVgNameNotAllocated i) (ord (map fst (VGStates s1))) s1 us1 = (s', us, err)"
          by (auto simp: lvm_preAllocate_def split: option.splits)
        have "set (ord (map fst (VGStates s1))) \<subseteq> fst ` set (VGStates s1)"
          using range_ok_set [OF assms(3)] by simp
        note f2 = preAllocate_unnamed_facts [OF run conjunct1 [OF f1] this]
        have "node_requested s' v = node_requested s v + lvm_total v us"
          using f1 [of v] f2(4) [of v] by (simp add: algebra_simps)
        with f1 f2 Some show ?thesis
          by (simp add: lvm_infos_def)
      qed
    qed
  qed
  then show "wf_node s'" and "DeviceStates s' = DeviceStates s" and "InitedByNLS s' = InitedByNLS s"
    and "node_requested s' v = node_requested s v + lvm_total v us"
    and "node_within s \<Longrightarrow> \<forall>p \<in> set (lvm_infos infos). lvm_request_ok p \<Longrightarrow> node_within s'"
    by auto
qed

section \<open>Inline volumes\<close>

lemma inline_preAllocate_loop_facts:
  assumes "inline_preAllocate_loop n vols s us = (s', us', err)" and "wf_node s"
  shows "wf_node s' \<and> DeviceStates s' = DeviceStates s \<and> InitedByNLS s' = InitedByNLS s \<and>
    node_requested s' v + pod_charge v us = node_requested s v + pod_charge v us' \<and>
    (node_within s \<and> (\<forall>d \<in> set vols. 0 \<le>s iv_VolumeSize d) \<longrightarrow> node_within s')"
  using assms
proof (induction vols arbitrary: s us)
  case (Cons d vols)
  obtain s1 e where a: "allocateVgState n (iv_VgName d) s (iv_VolumeSize d) = (s1, e)"
    by fastforce
  note step = allocateVgState_step [OF a Cons.prems(2)]
  show ?case
  proof (cases e)
    case None
    with Cons.prems(1) a have run:
      "inline_preAllocate_loop n vols s1 (us @ [d\<lparr>iv_Allocated := iv_VolumeSize d\<rparr>]) = (s', us', err)"
      by simp
    note IH = Cons.IH [OF run step(1)]
    have "node_requested s' v + pod_charge v us = node_requested s v + pod_charge v us'"
      using IH step(4) [of v] None by (cases "iv_VgName d = v") (auto simp: algebra_simps)
    with IH step(2,3,5) show ?thesis by simp
  next
    case (Some x)
    with Cons.prems a step(1-3,5) step(4) [of v] show ?thesis by auto
  qed
qed simp

lemma inline_preAllocate_facts:
  assumes "inline_preAllocate c n pod vols s = (s', us, err)" and "wf_node s"
  shows "wf_node s'" and "DeviceStates s' = DeviceStates s" and "InitedByNLS s' = InitedByNLS s"
    and "node_requested s' v = node_requested s v + pod_charge v us"
    and "node_within s \<Longrightarrow> \<forall>d \<in> set vols. 0 \<le>s iv_VolumeSize d \<Longrightarrow> node_within s'"
  using assms inline_preAllocate_loop_facts [of n vols s "[]" s' us err v]
  by (auto simp: inline_preAllocate_def split: if_splits)

section \<open>The whole plan\<close>

lemma device_preAllocate_frame:
  assumes "device_preAllocate ord n infos s = (infos', s', us, err)"
  shows "VGStates s' = VGStates s" and "InitedByNLS s' = InitedByNLS s"
  using assms
  by (auto simp: device_preAllocate_def Let_def split: option.splits if_splits prod.splits sum.splits)

lemma node_within_DeepCopy:
  assumes "range_ok ord" and "wf_node s" and "node_within s"
  shows "node_within (node_DeepCopy ord s)"
proof -
  have "vg_within vg" if "(k, vg) \<in> set (reorder ord (VGStates s))" for k vg
  proof -
    have "wf_map (reorder ord (VGStates s))"
      using assms by (intro wf_map_reorder) (auto simp: wf_node_def)
    with that have "map_of (reorder ord (VGStates s)) k = Some vg"
      by (intro map_of_is_SomeI)
    with assms show ?thesis by (auto dest: node_within_lookup)
  qed
  with assms show ?thesis
    by (auto simp: node_within_def node_DeepCopy_def wf_node_def list_all_iff)
qed

lemma node_requested_DeepCopy:
  "range_ok ord \<Longrightarrow> wf_node s \<Longrightarrow> node_requested (node_DeepCopy ord s) v = node_requested s v"
  by (simp add: node_requested_def entry_def)

lemma PreAllocate_elim:
  assumes run: "PreAllocate oc ov od c pod infos None n = (infos', Some st, err)"
  obtains (inline_fails) s clone inl e where
      "map_of (states c) n = Some s" "InitedByNLS s" "nas_NodeName st = n" "nas_PodUid st = pod_UID pod"
      "inline_preAllocate c n pod (pod_InlineVolumes infos) (node_DeepCopy oc s) = (clone, inl, Some e)"
      "err = Some e" "nas_NodeStorageAllocatedByUnits st = Some clone"
      "nas_Units st = Some \<lparr>LVMPVCAllocateUnits = [], DevicePVCAllocateUnits = [],
                            InlineVolumeAllocateUnits = inl\<rparr>"
  | (lvm_fails) s clone inl clone2 lvs e where
      "map_of (states c) n = Some s" "InitedByNLS s" "nas_NodeName st = n" "nas_PodUid st = pod_UID pod"
      "inline_preAllocate c n pod (pod_InlineVolumes infos) (node_DeepCopy oc s) = (clone, inl, None)"
      "lvm_preAllocate ov (strategyType c) n infos clone = (clone2, lvs, Some e)"
      "err = Some e" "nas_NodeStorageAllocatedByUnits st = Some clone2"
      "nas_Units st = Some \<lparr>LVMPVCAllocateUnits = [], DevicePVCAllocateUnits = [],
                            InlineVolumeAllocateUnits = inl\<rparr>"
  | (devices) s clone inl clone2 lvs clone3 devs where
      "map_of (states c) n = Some s" "InitedByNLS s" "nas_NodeName st = n" "nas_PodUid st = pod_UID pod"
      "inline_preAllocate c n pod (pod_InlineVolumes infos) (node_DeepCopy oc s) = (clone, inl, None)"
      "lvm_preAllocate ov (strategyType c) n infos clone = (clone2, lvs, None)"
      "device_preAllocate od n infos clone2 = (infos', clone3, devs, err)"
      "nas_NodeStorageAllocatedByUnits st = Some clone3"
      "nas_Units st = Some \<lparr>LVMPVCAllocateUnits = lvs,
                            DevicePVCAllocateUnits = (if err = None then devs else []),
                            InlineVolumeAllocateUnits = inl\<rparr>"
proof -
  from run obtain s where s: "map_of (states c) n = Some s" and ini: "InitedByNLS s"
    by (auto simp: PreAllocate_def GetNodeStorageStateCopy_def node_DeepCopy_def
        split: option.splits if_splits)
  obtain clone inl err1 where inl:
      "inline_preAllocate c n pod (pod_InlineVolumes infos) (node_DeepCopy oc s) = (clone, inl, err1)"
    by (metis prod_cases3)
  obtain clone2 lvs err2 where lvm:
      "lvm_preAllocate ov (strategyType c) n infos clone = (clone2, lvs, err2)"
    by (metis prod_cases3)
  obtain infos3 clone3 devs err3 where dev:
      "device_preAllocate od n infos clone2 = (infos3, clone3, devs, err3)"
    by (metis prod_cases4)
  have i: "InitedByNLS (node_DeepCopy oc s)"
    using ini by (simp add: node_DeepCopy_def)
  note defs = PreAllocate_def GetNodeStorageStateCopy_def Let_def preAllocateByVGs_def
  show thesis
  proof (cases err1)
    case (Some e)
    with run i s ini inl show thesis by (intro inline_fails [of s clone inl e]) (auto simp: defs)
  next
    case n1: None
    show thesis
    proof (cases err2)
      case (Some e)
      with run i s ini inl lvm n1 show thesis by (intro lvm_fails [of s clone inl clone2 lvs e]) (auto simp: defs)
    next
      case None
      with run i s ini inl lvm n1 dev show thesis
        by (intro devices [of s clone inl clone2 lvs clone3 devs]) (auto simp: defs split: option.splits)
    qed
  qed
qed

section \<open>The units of a plan\<close>

lemma preAllocate_named_units:
  "preAllocate_named n ps s us = (s', us', err) \<Longrightarrow> u \<in> set us' \<Longrightarrow>
     u \<in> set us \<or> (\<exists>p \<in> set ps. \<exists>v. u = lvm_unit_for n p v)"
  by (induction ps arbitrary: s us) (fastforce split: option.splits prod.splits)+

lemma preAllocate_unnamed_units:
  "preAllocate_unnamed (GetVGScheduleStrategy_sort strat) n ps ks s us = (s', us', err) \<Longrightarrow>
     u \<in> set us' \<Longrightarrow> u \<in> set us \<or> (\<exists>p \<in> set ps. \<exists>v. u = lvm_unit_for n p v)"
proof (induction ps arbitrary: ks s us)
  case (Cons p ps)
  obtain ks1 st1 r where a:
      "allocatePVCWithoutVgName (GetVGScheduleStrategy_sort strat) n ks (VGStates s) p = (ks1, st1, r)"
    by (metis prod_cases3)
  show ?case
  proof (cases r)
    case (Inr w)
    from strategy_allocates [OF a [unfolded Inr]] have "\<exists>v. w = lvm_unit_for n p v" by metis
    with Cons.prems a Inr Cons.IH [of ks1 "s\<lparr>VGStates := st1\<rparr>" "us @ [w]"] show ?thesis by auto
  qed (use Cons.prems a in auto)
qed simp

lemma lvm_preAllocate_units:
  assumes "lvm_preAllocate ord strat n infos s = (s', us, err)" and "u \<in> set us"
  shows "\<exists>p \<in> set (lvm_infos infos). \<exists>v. u = lvm_unit_for n p v"
proof -
  obtain i where i: "LVMPVCsNotROSnapshot infos = Some i"
    using assms by (auto simp: lvm_preAllocate_def split: option.splits)
  obtain s1 us1 e1 where named:
      "preAllocate_named n (LVMPVCsWithVgNameNotAllocated i) s [] = (s1, us1, e1)"
    by (metis prod_cases3)
  have "u \<in> set us1 \<or> (\<exists>p \<in> set (LVMPVCsWithoutVgNameNotAllocated i). \<exists>v. u = lvm_unit_for n p v)"
    using assms i named preAllocate_unnamed_units [where u = u]
    by (fastforce simp: lvm_preAllocate_def split: option.splits if_splits)
  with preAllocate_named_units [OF named, of u] i show ?thesis
    by (auto simp: lvm_infos_def)
qed

definition device_infos :: "PodLocalVolumeInfo \<Rightarrow> DevicePVCInfo list" where
  "device_infos infos =
     (case DevicePVCs infos of None \<Rightarrow> [] | Some i \<Rightarrow> SSDDevicePVCs i @ HDDDevicePVCs i)"

lemma process_device_loop_units:
  "process_device_loop n cur ps ks st us = (st', Inr us') \<Longrightarrow> u \<in> set us' \<Longrightarrow>
     u \<in> set us \<or> (\<exists>p \<in> set ps. \<exists>d. u = device_unit_for n p d)"
  by (induction n cur ps ks st us rule: process_device_loop.induct) (auto simp: Let_def split: if_splits)

lemma processDevice_units:
  "processDeviceByMediaType n ps ks st = (ps', st', Inr us) \<Longrightarrow> u \<in> set us \<Longrightarrow>
     \<exists>p \<in> set ps. \<exists>d. u = device_unit_for n p d"
  by (auto simp: processDeviceByMediaType_def Let_def split: if_splits prod.splits
      dest!: process_device_loop_units)

lemma device_preAllocate_units:
  assumes "device_preAllocate ord n infos s = (infos', s', us, err)" and "u \<in> set us"
  shows "\<exists>p \<in> set (device_infos infos). \<exists>d. u = device_unit_for n p d"
  using assms
  by (fastforce simp: device_preAllocate_def device_infos_def Let_def
      split: option.splits if_splits prod.splits sum.splits dest: processDevice_units)

definition named_claims :: "PodLocalVolumeInfo \<Rightarrow> bool" where
  "named_claims infos \<longleftrightarrow>
     (\<forall>p \<in> set (lvm_infos infos). pvc_Name (li_PVC p) \<noteq> [] \<and> pvc_Namespace (li_PVC p) \<noteq> []) \<and>
     (\<forall>p \<in> set (device_infos infos). pvc_Name (di_PVC p) \<noteq> [] \<and> pvc_Namespace (di_PVC p) \<noteq> [])"

lemma plan_units_ok:
  assumes run: "PreAllocate oc ov od c pod infos None n = (infos', Some st, err)"
    and claims: "named_claims infos" and us: "nas_Units st = Some us"
  shows "lvm_ok n us" and "device_ok n us" and "nas_NodeName st = n"
proof -
  have lvm: "lvm_unit_ok n u" if "lvm_preAllocate ov (strategyType c) n infos s = (s', lvs, e)" "u \<in> set lvs"
    for s s' lvs e u
    using lvm_preAllocate_units [OF that] claims by (auto simp: lvm_unit_ok_def named_claims_def)
  have dev: "device_unit_ok n u" if "device_preAllocate od n infos s = (infos', s', devs, e)" "u \<in> set devs"
    for s s' devs e u
    using device_preAllocate_units [OF that] claims
    by (auto simp: device_unit_ok_def named_claims_def device_unit_for_def)
  show "nas_NodeName st = n" and "lvm_ok n us" and "device_ok n us"
    by (rule PreAllocate_elim [OF run];
        use us lvm dev in \<open>fastforce simp: lvm_ok_def device_ok_def split: if_splits\<close>)+
qed

section \<open>Properties\<close>

text \<open>C1: a plan never over-commits: when the pools of a node are within capacity and no request is
  negative, the state of the node that \<open>PreAllocate\<close> returns has every pool within capacity, also
  when it returns an error.\<close>

theorem PreAllocate_within_capacity:
  assumes "PreAllocate oc ov od c pod infos None n = (infos', Some st, err)"
    and "nas_NodeStorageAllocatedByUnits st = Some clone"
    and "wf_cache c" and "range_ok oc" and "range_ok ov"
    and "\<And>s. map_of (states c) n = Some s \<Longrightarrow> node_within s"
    and "\<forall>p \<in> set (lvm_infos infos). 0 \<le>s li_Request p"
    and "\<forall>d \<in> set (pod_InlineVolumes infos). 0 \<le>s iv_VolumeSize d"
  shows "node_within clone"
proof -
  have copy: "wf_node (node_DeepCopy oc s)" "node_within (node_DeepCopy oc s)"
    if "map_of (states c) n = Some s" for s
    using assms(3,4,6) that by (auto intro!: wf_node_DeepCopy node_within_DeepCopy dest: wf_cache_node)
  have reqs: "\<forall>p \<in> set (lvm_infos infos). lvm_request_ok p"
    using assms(7) by (simp add: lvm_request_ok_def)
  from assms(1) show ?thesis
  proof (cases rule: PreAllocate_elim)
    case (inline_fails s clone1 inl e)
    with inline_preAllocate_facts(5) [OF inline_fails(5)] copy assms(2,8) show ?thesis by simp
  next
    case (lvm_fails s clone1 inl clone2 lvs e)
    note f = inline_preAllocate_facts [OF lvm_fails(5) copy(1) [OF lvm_fails(1)]]
    from f(5) copy(2) [OF lvm_fails(1)] assms(8) have "node_within clone1" by simp
    from lvm_preAllocate_facts(5) [OF lvm_fails(6) f(1) assms(5) this reqs] lvm_fails(8) assms(2)
    show ?thesis by simp
  next
    case (devices s clone1 inl clone2 lvs clone3 devs)
    note f = inline_preAllocate_facts [OF devices(5) copy(1) [OF devices(1)]]
    from f(5) copy(2) [OF devices(1)] assms(8) have "node_within clone1" by simp
    from lvm_preAllocate_facts(5) [OF devices(6) f(1) assms(5) this reqs]
      device_preAllocate_frame [OF devices(7)] devices(8) assms(2)
    show ?thesis by (simp add: node_within_def)
  qed
qed

lemma PreAllocate_within_capacity_witness:
  "case PreAllocate (\<lambda>k. k) (\<lambda>k. k) (\<lambda>k. k) ex_store ex_pod ex_infos None ''n'' of
     (_, Some st, _) \<Rightarrow> (case nas_NodeStorageAllocatedByUnits st of Some clone \<Rightarrow> node_within clone | None \<Rightarrow> False)
   | _ \<Rightarrow> False"
proof -
  have shape: "case PreAllocate (\<lambda>k. k) (\<lambda>k. k) (\<lambda>k. k) ex_store ex_pod ex_infos None ''n'' of
      (_, Some st, _) \<Rightarrow> nas_NodeStorageAllocatedByUnits st \<noteq> None | _ \<Rightarrow> False"
    by code_simp
  have node: "node_within s" if "map_of (states ex_store) ''n'' = Some s" for s
    using that by (auto simp: ex_store_def ex_node_def ex_vg_def node_within_def vg_within_def
        NewNodeStorageAllocatedCache_def word_sle_eq)
  have lvm: "\<forall>p \<in> set (lvm_infos ex_infos). 0 \<le>s li_Request p"
    by (simp add: ex_infos_def ex_lvm_info_def lvm_infos_def word_sle_eq)
  have inl: "\<forall>d \<in> set (pod_InlineVolumes ex_infos). 0 \<le>s iv_VolumeSize d"
    by (simp add: ex_infos_def ex_inline_def word_sle_eq)
  from shape show ?thesis
    by (auto split: prod.splits option.splits
        dest: PreAllocate_within_capacity [OF _ _ wf_ex_store range_ok_id range_ok_id node lvm inl])
qed

text \<open>C5: a plan that succeeds accounts for itself: in the state it returns, every volume group has
  its requested size plus the sizes of the LVM units and of the inline units that name the group.\<close>

theorem PreAllocate_accounts:
  assumes "PreAllocate oc ov od c pod infos None n = (infos', Some st, None)"
    and "nas_NodeStorageAllocatedByUnits st = Some clone" and "nas_Units st = Some us"
    and "wf_cache c" and "range_ok oc" and "range_ok ov"
  shows "node_requested clone v =
     requested c n v + lvm_total v (LVMPVCAllocateUnits us) + pod_charge v (InlineVolumeAllocateUnits us)"
  using assms(1)
proof (cases rule: PreAllocate_elim)
  case (devices s clone1 inl clone2 lvs clone3 devs)
  have wfs: "wf_node s" using assms(4) devices(1) by (rule wf_cache_node)
  then have "wf_node (node_DeepCopy oc s)" using assms(5) by simp
  note f = inline_preAllocate_facts [OF devices(5) this]
  have "requested c n v = node_requested s v"
    using devices(1) by (simp add: requested_def)
  moreover have "node_requested clone v = node_requested clone2 v"
    using device_preAllocate_frame [OF devices(7)] devices(8) assms(2) by (simp add: node_requested_def)
  ultimately show ?thesis
    using f(4) [of v] lvm_preAllocate_facts(4) [OF devices(6) f(1) assms(6), of v]
      node_requested_DeepCopy [OF assms(5) wfs, of v] devices(9) assms(3)
    by (simp add: algebra_simps)
qed simp_all

lemma PreAllocate_accounts_witness:
  "case PreAllocate (\<lambda>k. k) (\<lambda>k. k) (\<lambda>k. k) ex_store ex_pod ex_infos None ''n'' of
     (_, Some st, None) \<Rightarrow>
       (case (nas_NodeStorageAllocatedByUnits st, nas_Units st) of
          (Some clone, Some us) \<Rightarrow> node_requested clone ''g'' =
            lvm_total ''g'' (LVMPVCAllocateUnits us) + pod_charge ''g'' (InlineVolumeAllocateUnits us)
        | _ \<Rightarrow> False)
   | _ \<Rightarrow> False"
proof -
  have shape: "case PreAllocate (\<lambda>k. k) (\<lambda>k. k) (\<lambda>k. k) ex_store ex_pod ex_infos None ''n'' of
      (_, Some st, None) \<Rightarrow> nas_NodeStorageAllocatedByUnits st \<noteq> None \<and> nas_Units st \<noteq> None | _ \<Rightarrow> False"
    by code_simp
  have zero: "requested ex_store ''n'' ''g'' = 0"
    by (simp add: requested_def node_requested_def entry_def ex_store_def ex_node_def ex_vg_def
        NewNodeStorageAllocatedCache_def)
  from shape show ?thesis
    by (auto simp: zero split: prod.splits option.splits
        dest!: PreAllocate_accounts [OF _ _ _ wf_ex_store range_ok_id range_ok_id, where v = "''g''"])
qed

end
