(* ===== verification/Rollback.thy ===== *)
theory Rollback
  imports Plan_Facts
begin

text \<open>
  \<open>Unreserve\<close> undoes \<open>Reserve\<close>, also a \<open>Reserve\<close> that failed half-way: every volume group of
  every node has the requested size it had before. The lemmas follow the units through the two
  loops: what \<open>reserve\<close> wrote into a unit (\<open>Allocated\<close>) is what \<open>unreserve\<close> takes back.
\<close>

section \<open>LVM units\<close>

definition lvm_allocated :: "string \<Rightarrow> LVMPVAllocated list \<Rightarrow> int64" where
  "lvm_allocated v us = (\<Sum>u \<leftarrow> us. if pa_VGName u = v then pa_Allocated u else 0)"

lemma lvm_allocated_simps [simp]:
  "lvm_allocated v [] = 0"
  "lvm_allocated v (u # us) = (if pa_VGName u = v then pa_Allocated u else 0) + lvm_allocated v us"
  by (simp_all add: lvm_allocated_def)

lemma lvm_allocated_zero: "\<forall>u \<in> set us. pa_Allocated u = 0 \<Longrightarrow> lvm_allocated v us = 0"
  by (induction us) auto

abbreviation unit_key :: "LVMPVAllocated \<Rightarrow> string" where
  "unit_key u \<equiv> GetNameKey (pa_PVCNamespace u) (pa_PVCName u)"

lemma requested_lvm_reserve_loop:
  "lvm_reserve_loop n c us = Some (c', us', err) \<Longrightarrow> \<forall>u \<in> set us. pa_Allocated u = 0 \<Longrightarrow>
     requested c' m v = requested c m v + (if m = n then lvm_allocated v us' else 0)"
proof (induction rule: lvm_reserve_loop_induct)
  case (step c u us c' us' err s vg)
  have "requested c n v = node_requested s v"
    using step(2) by (simp add: requested_def)
  then have "requested (lvm_reserve_step n u s vg c) m v =
      requested c m v + (if m = n \<and> v = pa_VGName u then pa_Requested u else 0)"
    using step(3) by (simp add: lvm_reserve_step_def ledger_simps)
  with step show ?case by auto
qed (auto simp: lvm_allocated_zero)

lemma GetByPVC_lvm_reserve_step:
  assumes "GetByPVC (pvAllocatedDetails c) ns name = Some d"
    and "GetByPVC (pvAllocatedDetails c) (pa_PVCNamespace u) (pa_PVCName u) = None"
  shows "GetByPVC (pvAllocatedDetails (lvm_reserve_step n u s vg c)) ns name = Some d"
  using assms
  by (auto simp: lvm_reserve_step_def AssumeByPVC_def GetByPVC_def Let_def go_map_simps)

lemma GetByPVC_lvm_reserve_loop:
  "lvm_reserve_loop n c us = Some (c', us', err) \<Longrightarrow>
     GetByPVC (pvAllocatedDetails c) ns name = Some d \<Longrightarrow>
     GetByPVC (pvAllocatedDetails c') ns name = Some d"
  by (induction rule: lvm_reserve_loop_induct) (auto simp: GetByPVC_lvm_reserve_step)

lemma has_vg_lvm_reserve_step:
  assumes "map_of (states c) n = Some s" and "map_of (VGStates s) (pa_VGName u) = Some vg"
  shows "has_vg (lvm_reserve_step n u s vg c) m v = has_vg c m v"
  using assms by (auto simp: has_vg_def lvm_reserve_step_def)

lemma has_vg_lvm_reserve_loop:
  "lvm_reserve_loop n c us = Some (c', us', err) \<Longrightarrow> has_vg c' m v = has_vg c m v"
  by (induction rule: lvm_reserve_loop_induct) (auto simp: has_vg_lvm_reserve_step)

lemma inited_lvm_reserve_loop:
  "lvm_reserve_loop n c us = Some (c', us', err) \<Longrightarrow> inited c' m = inited c m"
  by (induction rule: lvm_reserve_loop_induct) (auto simp: inited_def lvm_reserve_step_states)

text \<open>The units \<open>reserve\<close> charged: what the cache holds for their claims is the unit itself.\<close>

definition unit_held :: "NodeStorageAllocatedCache \<Rightarrow> string \<Rightarrow> LVMPVAllocated \<Rightarrow> bool" where
  "unit_held c n u \<longleftrightarrow>
     GetByPVC (pvAllocatedDetails c) (pa_PVCNamespace u) (pa_PVCName u) = Some (LVMDetail u) \<and>
     has_vg c n (pa_VGName u) \<and> 0 <s pa_Allocated u \<and> pa_VGName u \<noteq> [] \<and> pa_PVCName u \<noteq> []"

definition reservable :: "string \<Rightarrow> LVMPVAllocated \<Rightarrow> bool" where
  "reservable n u \<longleftrightarrow> lvm_unit_ok n u \<and> pa_Allocated u = 0 \<and> 0 <s pa_Requested u \<and> pa_VGName u \<noteq> []"

lemma lvm_reserve_loop_held:
  "lvm_reserve_loop n c us = Some (c', us', err) \<Longrightarrow> \<forall>u \<in> set us. reservable n u \<Longrightarrow>
     (\<forall>u \<in> set us'. pa_Allocated u \<noteq> 0 \<longrightarrow> unit_held c' n u \<and>
        GetByPVC (pvAllocatedDetails c) (pa_PVCNamespace u) (pa_PVCName u) = None) \<and>
     distinct (map unit_key (filter (\<lambda>u. pa_Allocated u \<noteq> 0) us'))"
proof (induction rule: lvm_reserve_loop_induct)
  case (step c u us c' us' err s vg)
  let ?c = "lvm_reserve_step n u s vg c"
  let ?u = "u\<lparr>pa_Allocated := pa_Requested u\<rparr>"
  have u: "reservable n u" using step.prems by simp
  then have new: "GetByPVC (pvAllocatedDetails ?c) (pa_PVCNamespace u) (pa_PVCName u) = Some (LVMDetail ?u)"
    by (simp add: lvm_reserve_step_def AssumeByPVC_def GetByPVC_def Let_def go_map_simps reservable_def
        lvm_unit_ok_def)
  have held: "unit_held c' n ?u"
    using GetByPVC_lvm_reserve_loop [OF step(5) new] has_vg_lvm_reserve_loop [OF step(5)] u step(2,3)
    by (auto simp: unit_held_def reservable_def lvm_unit_ok_def has_vg_lvm_reserve_step has_vg_def
        lvm_reserve_step_states)
  have later: "unit_key w \<noteq> unit_key u \<and> GetByPVC (pvAllocatedDetails c) (pa_PVCNamespace w) (pa_PVCName w) = None"
    if "w \<in> set us'" "pa_Allocated w \<noteq> 0" for w
  proof -
    have none: "GetByPVC (pvAllocatedDetails ?c) (pa_PVCNamespace w) (pa_PVCName w) = None"
      using step that by auto
    then have "GetByPVC (pvAllocatedDetails c) (pa_PVCNamespace w) (pa_PVCName w) = None"
      using GetByPVC_lvm_reserve_step [OF _ step(1)] by (metis not_None_eq)
    moreover have "unit_key w \<noteq> unit_key u"
      using none new by (auto simp: GetByPVC_def)
    ultimately show ?thesis by simp
  qed
  from later have "unit_key u \<notin> unit_key ` set (filter (\<lambda>u. pa_Allocated u \<noteq> 0) us')"
    by fastforce
  with step held later show ?case by simp
qed (auto simp: reservable_def)

lemma lvm_revert_held:
  assumes "unit_held c n u" and "inited c n"
  shows "lvm_revertIfNeed c n (pa_PVCNamespace u) (pa_PVCName u) =
     set_details (DeleteByPVC (pvAllocatedDetails c) (unit_key u))
       (charge_vg n (pa_VGName u) (- pa_Allocated u) c)"
proof -
  from assms obtain s vg where s: "map_of (states c) n = Some s" "InitedByNLS s"
      and vg: "map_of (VGStates s) (pa_VGName u) = Some vg"
    by (auto simp: unit_held_def inited_def has_vg_def split: option.splits)
  have "VGStates s \<noteq> []" "\<not> pa_Allocated u \<le>s 0"
    using vg assms(1) by (auto simp: unit_held_def word_sle_eq word_sless_alt)
  moreover from assms(1) have "GetByPVC (pvAllocatedDetails c) (pa_PVCNamespace u) (pa_PVCName u) = Some (LVMDetail u)"
      "pa_VGName u \<noteq> []" "pa_PVCName u \<noteq> []"
    by (simp_all add: unit_held_def)
  ultimately show ?thesis
    using s vg by (simp add: lvm_revertIfNeed_def charge_vg_def Let_def)
qed

lemma inited_charge_vg [simp]: "inited (charge_vg n v d c) m = inited c m"
  by (simp add: inited_def charge_vg_def set_vg_def split: option.split)

lemma inited_set_details [simp]: "inited (set_details l c) m = inited c m"
  by (simp add: inited_def)

lemma inited_lvm_revertIfNeed: "inited (lvm_revertIfNeed c n ns name) m = inited c m"
  by (cases rule: lvm_revertIfNeed_cases [of c n ns name]) simp_all

lemma unit_held_revert_other:
  assumes "unit_held c n w" and "unit_key w \<noteq> GetNameKey ns name"
  shows "unit_held (lvm_revertIfNeed c n ns name) n w"
  using assms
  by (cases rule: lvm_revertIfNeed_cases [of c n ns name])
    (simp_all add: unit_held_def GetByPVC_def DeleteByPVC_def go_map_simps)

lemma requested_lvm_revert_held:
  assumes "unit_held c n u" and "inited c n"
  shows "requested (lvm_revertIfNeed c n (pa_PVCNamespace u) (pa_PVCName u)) m v =
     requested c m v - (if m = n \<and> pa_VGName u = v then pa_Allocated u else 0)"
proof -
  have "has_vg c n (pa_VGName u)"
    using assms(1) by (simp add: unit_held_def)
  then show ?thesis
    unfolding lvm_revert_held [OF assms] by (auto simp: ledger_simps)
qed

lemma requested_lvm_unreserve_loop:
  assumes "\<forall>u \<in> set us. pa_Allocated u \<noteq> 0 \<longrightarrow> unit_held c n u"
    and "distinct (map unit_key (filter (\<lambda>u. pa_Allocated u \<noteq> 0) us))" and "inited c n"
  shows "requested (fst (lvm_unreserve_loop n c us)) m v =
     requested c m v - (if m = n then lvm_allocated v us else 0)"
  using assms
proof (induction us arbitrary: c)
  case (Cons u us)
  show ?case
  proof (cases "pa_Allocated u = 0")
    case True
    with Cons.prems have "requested (fst (lvm_unreserve_loop n c us)) m v =
        requested c m v - (if m = n then lvm_allocated v us else 0)"
      by (intro Cons.IH) simp_all
    with True show ?thesis by (simp add: Let_def case_prod_beta)
  next
    case False
    let ?c = "lvm_revertIfNeed c n (pa_PVCNamespace u) (pa_PVCName u)"
    have held: "unit_held c n u" using Cons.prems(1) False by simp
    have others: "\<forall>w \<in> set us. pa_Allocated w \<noteq> 0 \<longrightarrow> unit_held ?c n w"
    proof (intro ballI impI)
      fix w assume w: "w \<in> set us" "pa_Allocated w \<noteq> 0"
      then have "unit_key w \<in> unit_key ` set (filter (\<lambda>u. pa_Allocated u \<noteq> 0) us)" by simp
      moreover have "unit_key u \<notin> unit_key ` set (filter (\<lambda>u. pa_Allocated u \<noteq> 0) us)"
        using Cons.prems(2) False by simp
      ultimately have "unit_key w \<noteq> unit_key u" by metis
      with Cons.prems(1) w show "unit_held ?c n w" by (intro unit_held_revert_other) simp_all
    qed
    have "requested (fst (lvm_unreserve_loop n ?c us)) m v =
        requested ?c m v - (if m = n then lvm_allocated v us else 0)"
      using Cons.prems(2,3) False others
      by (intro Cons.IH) (simp_all add: inited_lvm_revertIfNeed)
    then show ?thesis
      using False requested_lvm_revert_held [OF held Cons.prems(3), of m v]
      by (simp add: Let_def case_prod_beta)
  qed
qed simp

lemma lvm_unreserve_loop_frame:
  "inlineVolumeAllocatedDetails (fst (lvm_unreserve_loop n c us)) = inlineVolumeAllocatedDetails c"
  "has_vg (fst (lvm_unreserve_loop n c us)) m v = has_vg c m v"
  by (induction us arbitrary: c) (simp_all add: Let_def case_prod_beta)

lemma inited_lvm_unreserve_loop: "inited (fst (lvm_unreserve_loop n c us)) m = inited c m"
  by (induction us arbitrary: c) (simp_all add: Let_def case_prod_beta inited_lvm_revertIfNeed)

section \<open>Inline units\<close>

lemma inline_reserve_loop_trace:
  "inline_reserve_loop n uid c ds us = Some (c', us', err) \<Longrightarrow> pod_details c n uid = ds \<Longrightarrow>
     \<forall>d \<in> set ds. has_vg c n (iv_VgName d) \<and> iv_Allocated d = iv_VolumeSize d \<Longrightarrow>
     pvAllocatedDetails c' = pvAllocatedDetails c \<and> inited c' m = inited c m \<and>
     has_vg c' m v = has_vg c m v \<and>
     (\<forall>d \<in> set (pod_details c' n uid). has_vg c' n (iv_VgName d) \<and> iv_Allocated d = iv_VolumeSize d) \<and>
     requested c' m v = requested c m v
       + (if m = n then pod_charge v (pod_details c' n uid) - pod_charge v ds else 0)"
proof (induction us arbitrary: c ds us')
  case (Cons u us)
  from Cons.prems(1) obtain s where s: "map_of (states c) n = Some s"
    by (auto split: option.splits)
  obtain s' e where a: "allocateVgState n (iv_VgName u) s (iv_VolumeSize u) = (s', e)"
    by fastforce
  show ?case
  proof (cases e)
    case (Some err)
    with Cons.prems s a show ?thesis by auto
  next
    case None
    let ?u = "u\<lparr>iv_Allocated := iv_VolumeSize u\<rparr>"
    let ?c = "set_pod_inline n uid (ds @ [?u]) (set_node n s' c)"
    from allocateVgState_ok [OF a [unfolded None]] obtain vg where
        vg: "map_of (VGStates s) (iv_VgName u) = Some vg"
          "s' = set_vg (iv_VgName u) (add_Requested (iv_VolumeSize u) vg) s" .
    have hv: "has_vg ?c k w = has_vg c k w" for k w
      using s vg by (auto simp: has_vg_def)
    have "requested c n w = node_requested s w" for w
      using s by (simp add: requested_def)
    then have req: "requested ?c m v = requested c m v + (if m = n then pod_charge v [?u] else 0)"
      using allocateVgState_requested [OF a, of v] None by (auto simp: ledger_simps)
    have ini: "inited ?c m = inited c m"
      using s vg by (auto simp: inited_def)
    have ds: "\<forall>d \<in> set (ds @ [?u]). has_vg ?c n (iv_VgName d) \<and> iv_Allocated d = iv_VolumeSize d"
      using Cons.prems(3) s vg by (auto simp: hv has_vg_def)
    from Cons.prems(1) s a None obtain us'' where run:
      "inline_reserve_loop n uid ?c (ds @ [?u]) us = Some (c', us'', err)"
      by (auto simp: Let_def)
    from Cons.IH [OF run _ ds] req ini hv show ?thesis by (auto simp: algebra_simps)
  qed
qed auto

lemma inline_reserve_trace:
  assumes run: "inline_reserve c n uid us = Some (c', us', err)" and fresh: "pod_details c n uid = []"
  shows "pvAllocatedDetails c' = pvAllocatedDetails c" and "inited c' m = inited c m"
    and "has_vg c' m v = has_vg c m v"
    and "\<forall>d \<in> set (pod_details c' n uid). has_vg c' n (iv_VgName d) \<and> iv_Allocated d = iv_VolumeSize d"
    and "requested c' m v = requested c m v
       + (if m = n then pod_charge v (pod_details c' n uid) else 0)"
    and "us = [] \<Longrightarrow> pod_details c' n uid = []"
    and "length us' = length us"
proof -
  have len: "inline_reserve_loop n uid c ds us = Some (c', us', err) \<Longrightarrow> length us' = length us"
    for c ds us us'
    by (induction us arbitrary: c ds us')
      (fastforce simp: Let_def split: option.splits prod.splits)+
  have frame: "has_vg (init_node_inline n c) m v = has_vg c m v" "inited (init_node_inline n c) m = inited c m"
    "requested (init_node_inline n c) m v = requested c m v" for m v
    by (simp_all add: has_vg_def inited_def requested_def)
  have all: "pvAllocatedDetails c' = pvAllocatedDetails c \<and> inited c' m = inited c m \<and>
      has_vg c' m v = has_vg c m v \<and>
      (\<forall>d \<in> set (pod_details c' n uid). has_vg c' n (iv_VgName d) \<and> iv_Allocated d = iv_VolumeSize d) \<and>
      requested c' m v = requested c m v + (if m = n then pod_charge v (pod_details c' n uid) else 0) \<and>
      length us' = length us"
  proof (cases "us = []")
    case True
    with run fresh show ?thesis by (auto simp: inline_reserve_def)
  next
    case False
    have e: "pod_details (init_node_inline n c) n uid = []" using fresh by simp
    then have "\<not> (case getPodInlineVolumeDetails (init_node_inline n c) n uid of
        Some ds \<Rightarrow> length ds > 0 | None \<Rightarrow> False)"
      by (auto simp: pod_details_def split: option.splits)
    with run False have loop: "inline_reserve_loop n uid (init_node_inline n c) [] us = Some (c', us', err)"
      by (simp add: inline_reserve_def Let_def)
    from inline_reserve_loop_trace [OF loop e, of m v] len [OF loop] frame show ?thesis
      by simp
  qed
  then show "pvAllocatedDetails c' = pvAllocatedDetails c" and "inited c' m = inited c m"
    and "has_vg c' m v = has_vg c m v"
    and "\<forall>d \<in> set (pod_details c' n uid). has_vg c' n (iv_VgName d) \<and> iv_Allocated d = iv_VolumeSize d"
    and "requested c' m v = requested c m v
       + (if m = n then pod_charge v (pod_details c' n uid) else 0)"
    and "length us' = length us"
    by auto
  show "us = [] \<Longrightarrow> pod_details c' n uid = []"
    using run fresh by (auto simp: inline_reserve_def)
qed

lemma requested_unreserveDirect:
  assumes ini: "inited c n"
    and ex: "\<forall>d \<in> set (pod_details c n uid). has_vg c n (iv_VgName d) \<and> iv_Allocated d = iv_VolumeSize d"
    and un: "unreserveDirect c n uid = Some c'"
  shows "requested c' m v = requested c m v - (if m = n then pod_charge v (pod_details c n uid) else 0)"
proof -
  from ini obtain s where s: "map_of (states c) n = Some s"
    by (auto simp: inited_def split: option.splits)
  have charge: "pod_charge v (pod_details c n uid) = pod_allocated v (pod_details c n uid)"
    using ex by (intro reservation_exact_charge) auto
  have zero: "pod_allocated v (pod_details c n uid) = 0" if "map_of (VGStates s) v = None"
    using ex that s by (intro pod_allocated_none) (auto simp: has_vg_def)
  have none: "pod_details c n uid = []" if "map_of (inlineVolumeAllocatedDetails c) n = None"
    using that by (simp add: pod_details_def getPodInlineVolumeDetails_def)
  have "requested c n v = node_requested s v"
    using s by (simp add: requested_def)
  with un unreserveDirect_Some [OF s, of uid] charge zero none show ?thesis
    by (auto simp: ledger_simps node_requested_revertInline split: if_splits)
qed

section \<open>Device units leave the ledger alone\<close>

lemma device_reserve_step_frame:
  assumes "map_of (states c) n = Some s" and "\<not> device_skipped c u"
  shows "requested (device_reserve_step n u s d c) m v = requested c m v"
    and "has_vg (device_reserve_step n u s d c) m v = has_vg c m v"
    and "inited (device_reserve_step n u s d c) m = inited c m"
    and "inlineVolumeAllocatedDetails (device_reserve_step n u s d c) = inlineVolumeAllocatedDetails c"
    and "GetByPVC (pvAllocatedDetails c) ns name = Some x \<Longrightarrow>
      GetByPVC (pvAllocatedDetails (device_reserve_step n u s d c)) ns name = Some x"
  using assms
  by (auto simp: device_reserve_step_def has_vg_def inited_def requested_set_details ledger_set_devices device_skipped_def
      AssumeByPVC_def GetByPVC_def Let_def go_map_simps)

lemma device_reserve_loop_frame:
  "device_reserve_loop n c us = Some (c', us', err) \<Longrightarrow>
     requested c' m v = requested c m v \<and> has_vg c' m v = has_vg c m v \<and> inited c' m = inited c m \<and>
     inlineVolumeAllocatedDetails c' = inlineVolumeAllocatedDetails c \<and>
     (\<forall>ns name x. GetByPVC (pvAllocatedDetails c) ns name = Some x \<longrightarrow>
        GetByPVC (pvAllocatedDetails c') ns name = Some x)"
  by (induction rule: device_reserve_loop_induct) (auto simp: device_reserve_step_frame)

lemma pod_details_cong:
  "inlineVolumeAllocatedDetails c' = inlineVolumeAllocatedDetails c \<Longrightarrow> pod_details c' n u = pod_details c n u"
  by (simp add: pod_details_def getPodInlineVolumeDetails_def)

lemma unit_held_mono:
  assumes "unit_held c n u"
    and "\<And>x. GetByPVC (pvAllocatedDetails c) (pa_PVCNamespace u) (pa_PVCName u) = Some x \<Longrightarrow>
      GetByPVC (pvAllocatedDetails c') (pa_PVCNamespace u) (pa_PVCName u) = Some x"
    and "has_vg c' n (pa_VGName u) = has_vg c n (pa_VGName u)"
  shows "unit_held c' n u"
  using assms by (simp add: unit_held_def)

lemma lvm_reserve_loop_inline:
  "lvm_reserve_loop n c us = Some (c', us', err) \<Longrightarrow>
     inlineVolumeAllocatedDetails c' = inlineVolumeAllocatedDetails c"
  by (induction rule: lvm_reserve_loop_induct) (auto simp: lvm_reserve_step_def)

lemma length_lvm_reserve_loop:
  "lvm_reserve_loop n c us = Some (c', us', err) \<Longrightarrow> length us' = length us"
  by (induction rule: lvm_reserve_loop_induct) auto

section \<open>Taking a reservation back\<close>

text \<open>
  The state between \<open>Reserve\<close> and \<open>Unreserve\<close>: the LVM units \<open>lus\<close> hold what they were charged,
  the pod's inline details hold the rest, and the pools of \<open>c'\<close> are those of \<open>c\<close> plus both.
\<close>

definition holds_reservation ::
  "NodeStorageAllocatedCache \<Rightarrow> NodeStorageAllocatedCache \<Rightarrow> string \<Rightarrow> string \<Rightarrow> LVMPVAllocated list \<Rightarrow> bool" where
  "holds_reservation c c' n uid lus \<longleftrightarrow>
     inited c' n \<and>
     (\<forall>u \<in> set lus. pa_Allocated u \<noteq> 0 \<longrightarrow> unit_held c' n u) \<and>
     distinct (map unit_key (filter (\<lambda>u. pa_Allocated u \<noteq> 0) lus)) \<and>
     (\<forall>d \<in> set (pod_details c' n uid). has_vg c' n (iv_VgName d) \<and> iv_Allocated d = iv_VolumeSize d) \<and>
     (\<forall>m v. requested c' m v = requested c m v +
        (if m = n then lvm_allocated v lus + pod_charge v (pod_details c' n uid) else 0))"

lemma reservedD:
  assumes "holds_reservation c c' n uid lus"
  shows "inited c' n" and "\<And>u. u \<in> set lus \<Longrightarrow> pa_Allocated u \<noteq> 0 \<Longrightarrow> unit_held c' n u"
    and "distinct (map unit_key (filter (\<lambda>u. pa_Allocated u \<noteq> 0) lus))"
    and "\<forall>d \<in> set (pod_details c' n uid). has_vg c' n (iv_VgName d) \<and> iv_Allocated d = iv_VolumeSize d"
    and "\<And>m v. requested c' m v = requested c m v +
        (if m = n then lvm_allocated v lus + pod_charge v (pod_details c' n uid) else 0)"
  using assms unfolding holds_reservation_def by blast+

text \<open>A later step that keeps what the units hold and accounts for the pod's details.\<close>

lemma reserved_step:
  assumes res: "holds_reservation c c1 n uid lus"
    and ini: "inited c2 n = inited c1 n"
    and held: "\<And>u. u \<in> set lus \<Longrightarrow> pa_Allocated u \<noteq> 0 \<Longrightarrow> unit_held c1 n u \<Longrightarrow> unit_held c2 n u"
    and pods: "\<forall>d \<in> set (pod_details c2 n uid). has_vg c2 n (iv_VgName d) \<and> iv_Allocated d = iv_VolumeSize d"
    and req: "\<And>m v. requested c2 m v + (if m = n then pod_charge v (pod_details c1 n uid) else 0) =
        requested c1 m v + (if m = n then pod_charge v (pod_details c2 n uid) else 0)"
  shows "holds_reservation c c2 n uid lus"
proof -
  have "requested c2 m v = requested c m v +
      (if m = n then lvm_allocated v lus + pod_charge v (pod_details c2 n uid) else 0)" for m v
    using req [of m v] reservedD(5) [OF res, of m v] by (cases "m = n") (simp_all add: algebra_simps)
  with reservedD [OF res] ini held pods show ?thesis
    unfolding holds_reservation_def by blast
qed

lemma lvm_reserve_loopE:
  assumes "lvm_reserve c n us = Some (c', us', err)"
  obtains (no_units) "LVMPVCAllocateUnits us = []" "c' = c" "us' = us"
  | (looped) lus where "lvm_reserve_loop n c (LVMPVCAllocateUnits us) = Some (c', lus, err)"
      "us' = us\<lparr>LVMPVCAllocateUnits := lus\<rparr>"
proof (cases "LVMPVCAllocateUnits us = []")
  case True
  with assms have "c' = c" "us' = us" by (simp_all add: lvm_reserve_def)
  with True show thesis by (rule no_units)
next
  case False
  with assms obtain r where r: "lvm_reserve_loop n c (LVMPVCAllocateUnits us) = Some r"
    by (cases "lvm_reserve_loop n c (LVMPVCAllocateUnits us)") (simp_all add: lvm_reserve_def)
  obtain a lus e where "r = (a, lus, e)" by (cases r)
  with assms False r have "a = c'" "e = err" "us' = us\<lparr>LVMPVCAllocateUnits := lus\<rparr>"
    by (simp_all add: lvm_reserve_def)
  with r \<open>r = (a, lus, e)\<close> show thesis by (intro looped) simp_all
qed

lemma device_reserve_loopE:
  assumes "device_reserve c n us = Some (c', us', err)"
  obtains (no_units) "DevicePVCAllocateUnits us = []" "c' = c" "us' = us"
  | (looped) dus where "device_reserve_loop n c (DevicePVCAllocateUnits us) = Some (c', dus, err)"
      "us' = us\<lparr>DevicePVCAllocateUnits := dus\<rparr>"
proof (cases "DevicePVCAllocateUnits us = []")
  case True
  with assms have "c' = c" "us' = us" by (simp_all add: device_reserve_def)
  with True show thesis by (rule no_units)
next
  case False
  with assms obtain r where r: "device_reserve_loop n c (DevicePVCAllocateUnits us) = Some r"
    by (cases "device_reserve_loop n c (DevicePVCAllocateUnits us)") (simp_all add: device_reserve_def)
  obtain a dus e where "r = (a, dus, e)" by (cases r)
  with assms False r have "a = c'" "e = err" "us' = us\<lparr>DevicePVCAllocateUnits := dus\<rparr>"
    by (simp_all add: device_reserve_def)
  with r \<open>r = (a, dus, e)\<close> show thesis by (intro looped) simp_all
qed

lemma reserved_lvm:
  assumes run: "lvm_reserve c n us = Some (c', us', err)" and ini: "inited c n"
    and ok: "\<forall>u \<in> set (LVMPVCAllocateUnits us). reservable n u" and fresh: "pod_details c n uid = []"
  shows "holds_reservation c c' n uid (LVMPVCAllocateUnits us')" and "pod_details c' n uid = []"
proof -
  have "holds_reservation c c' n uid (LVMPVCAllocateUnits us') \<and> pod_details c' n uid = []"
    using run
  proof (cases rule: lvm_reserve_loopE)
    case no_units
    with ini fresh show ?thesis by (simp add: holds_reservation_def pod_charge_def)
  next
    case (looped lus)
    note loop = looped(1)
    have zero: "\<forall>u \<in> set (LVMPVCAllocateUnits us). pa_Allocated u = 0"
      using ok by (simp add: reservable_def)
    have pd: "pod_details c' n uid = []"
      using fresh pod_details_cong [OF lvm_reserve_loop_inline [OF loop]] by metis
    have "requested c' m v = requested c m v + (if m = n then lvm_allocated v lus else 0)" for m v
      by (rule requested_lvm_reserve_loop [OF loop zero])
    moreover have "inited c' n"
      using inited_lvm_reserve_loop [OF loop] ini by simp
    ultimately show ?thesis
      using lvm_reserve_loop_held [OF loop ok] looped(2) pd
      unfolding holds_reservation_def by (simp add: pod_charge_def)
  qed
  then show "holds_reservation c c' n uid (LVMPVCAllocateUnits us')" and "pod_details c' n uid = []"
    by simp_all
qed

lemma reserved_inline:
  assumes res: "holds_reservation c c1 n uid lus" and fresh: "pod_details c1 n uid = []"
    and run: "inline_reserve c1 n uid us = Some (c2, us', err)"
  shows "holds_reservation c c2 n uid lus"
proof (rule reserved_step [OF res])
  note tr = inline_reserve_trace [OF run fresh]
  show "inited c2 n = inited c1 n" by (rule tr(2))
  show "unit_held c2 n u" if "unit_held c1 n u" for u
    using that tr(1,3) by (simp add: unit_held_def)
  show "\<forall>d \<in> set (pod_details c2 n uid). has_vg c2 n (iv_VgName d) \<and> iv_Allocated d = iv_VolumeSize d"
    by (rule tr(4))
  show "requested c2 m v + (if m = n then pod_charge v (pod_details c1 n uid) else 0) =
      requested c1 m v + (if m = n then pod_charge v (pod_details c2 n uid) else 0)" for m v
    using tr(5) [of m v] by (simp add: fresh pod_charge_def)
qed

lemma reserved_device:
  assumes res: "holds_reservation c c1 n uid lus" and run: "device_reserve c1 n us = Some (c2, us', err)"
  shows "holds_reservation c c2 n uid lus"
  using run
proof (cases rule: device_reserve_loopE)
  case no_units
  with res show ?thesis by simp
next
  case (looped dus)
  note tr = device_reserve_loop_frame [OF looped(1)]
  have pd: "pod_details c2 n uid = pod_details c1 n uid"
    using tr by (intro pod_details_cong) blast
  show ?thesis
  proof (rule reserved_step [OF res])
    show "inited c2 n = inited c1 n" using tr by blast
    show "unit_held c2 n u" if "unit_held c1 n u" for u
      using that tr by (simp add: unit_held_def)
    show "\<forall>d \<in> set (pod_details c2 n uid). has_vg c2 n (iv_VgName d) \<and> iv_Allocated d = iv_VolumeSize d"
      unfolding pd using reservedD(4) [OF res] tr by metis
    show "requested c2 m v + (if m = n then pod_charge v (pod_details c1 n uid) else 0) =
        requested c1 m v + (if m = n then pod_charge v (pod_details c2 n uid) else 0)" for m v
      unfolding pd using tr by metis
  qed
qed

lemma requested_device_unreserve:
  assumes "wf_cache c"
  shows "requested (fst (device_unreserve c n us)) m v = requested c m v"
proof -
  have "requested (fst (device_unreserve_loop n c ds)) m v = requested c m v" for ds
    using assms by (induction ds arbitrary: c) (simp_all add: Let_def case_prod_beta)
  then show ?thesis by (simp add: device_unreserve_def Let_def case_prod_beta)
qed

lemma requested_lvm_unreserve:
  assumes res: "holds_reservation c c' n uid (LVMPVCAllocateUnits us)"
  shows "requested (fst (lvm_unreserve c' n us)) m v =
     requested c m v + (if m = n then pod_charge v (pod_details c' n uid) else 0)"
proof -
  have "requested (fst (lvm_unreserve_loop n c' (LVMPVCAllocateUnits us))) m v =
      requested c' m v - (if m = n then lvm_allocated v (LVMPVCAllocateUnits us) else 0)"
    using reservedD(1-3) [OF res] by (intro requested_lvm_unreserve_loop) blast+
  moreover have "fst (lvm_unreserve c' n us) = fst (lvm_unreserve_loop n c' (LVMPVCAllocateUnits us))"
    by (cases "LVMPVCAllocateUnits us") (simp_all add: lvm_unreserve_def Let_def case_prod_beta)
  ultimately show ?thesis
    using reservedD(5) [OF res, of m v] by (cases "m = n") (simp_all add: algebra_simps)
qed

lemma lvm_unreserve_frame:
  "pod_details (fst (lvm_unreserve c n us)) m uid = pod_details c m uid"
  "has_vg (fst (lvm_unreserve c n us)) m v = has_vg c m v"
  "inited (fst (lvm_unreserve c n us)) m = inited c m"
  "InlineVolumeAllocateUnits (snd (lvm_unreserve c n us)) = InlineVolumeAllocateUnits us"
proof -
  have "fst (lvm_unreserve c n us) = fst (lvm_unreserve_loop n c (LVMPVCAllocateUnits us))"
    by (cases "LVMPVCAllocateUnits us") (simp_all add: lvm_unreserve_def Let_def case_prod_beta)
  then show "pod_details (fst (lvm_unreserve c n us)) m uid = pod_details c m uid"
    "has_vg (fst (lvm_unreserve c n us)) m v = has_vg c m v"
    "inited (fst (lvm_unreserve c n us)) m = inited c m"
    by (simp_all add: pod_details_cong [OF lvm_unreserve_loop_frame(1)] lvm_unreserve_loop_frame(2)
        inited_lvm_unreserve_loop)
  show "InlineVolumeAllocateUnits (snd (lvm_unreserve c n us)) = InlineVolumeAllocateUnits us"
    by (simp add: lvm_unreserve_def Let_def case_prod_beta)
qed

lemma inline_unreserve_undo:
  assumes ini: "inited c n" and wf: "wf_cache c"
    and ex: "\<forall>d \<in> set (pod_details c n uid). has_vg c n (iv_VgName d) \<and> iv_Allocated d = iv_VolumeSize d"
    and none: "us = [] \<Longrightarrow> pod_details c n uid = []"
  obtains c' us' where "inline_unreserve c n uid us = Some (c', us')" and "wf_cache c'"
    and "\<And>m v. requested c' m v = requested c m v - (if m = n then pod_charge v (pod_details c n uid) else 0)"
proof (cases "us = []")
  case True
  with none wf that [of c us] show thesis by (simp add: inline_unreserve_def pod_charge_def)
next
  case False
  obtain c' where c': "unreserveDirect c n uid = Some c'"
    using unreserveDirect_total [OF ini, of uid] by blast
  show thesis
  proof (rule that)
    show "inline_unreserve c n uid us = Some (c', map (\<lambda>u. u\<lparr>iv_Allocated := 0\<rparr>) us)"
      using False c' by (simp add: inline_unreserve_def)
    show "wf_cache c'" by (rule unreserveDirect_wf [OF wf c'])
  qed (rule requested_unreserveDirect [OF ini ex c'])
qed

lemma Unreserve_reserved:
  assumes res: "holds_reservation c c' (nas_NodeName st) (nas_PodUid st) (LVMPVCAllocateUnits us)"
    and wf: "wf_cache c'" and us: "nas_Units st = Some us"
    and none: "InlineVolumeAllocateUnits us = [] \<Longrightarrow> pod_details c' (nas_NodeName st) (nas_PodUid st) = []"
  shows "\<exists>c2 st2. Unreserve c' (Some st) [] rus = Some (c2, st2, rus) \<and>
      (\<forall>m v. requested c2 m v = requested c m v)"
proof -
  let ?n = "nas_NodeName st" and ?uid = "nas_PodUid st"
  have guard: "(case map_of (states c') ?n of None \<Rightarrow> True
      | Some nodeState \<Rightarrow> \<not> InitedByNLS nodeState) = False"
    using reservedD(1) [OF res] by (auto simp: inited_def split: option.splits)
  obtain c1 us1 where lu: "lvm_unreserve c' ?n us = (c1, us1)"
    by (cases "lvm_unreserve c' ?n us")
  note frame = lvm_unreserve_frame [of c' ?n us, unfolded lu fst_conv snd_conv]
  have wf1: "wf_cache c1"
    using lvm.unreserve_wf [OF wf, of ?n us] lu by simp
  have ini1: "inited c1 ?n" using reservedD(1) [OF res] frame(3) by simp
  have ex1: "\<forall>d \<in> set (pod_details c1 ?n ?uid). has_vg c1 ?n (iv_VgName d) \<and> iv_Allocated d = iv_VolumeSize d"
    using reservedD(4) [OF res] frame(1,2) by simp
  have none1: "InlineVolumeAllocateUnits us1 = [] \<Longrightarrow> pod_details c1 ?n ?uid = []"
    using none frame(1,4) by simp
  from inline_unreserve_undo [OF ini1 wf1 ex1 none1] obtain c2 ivs where
      il: "inline_unreserve c1 ?n ?uid (InlineVolumeAllocateUnits us1) = Some (c2, ivs)" and wf2: "wf_cache c2"
      and req2: "\<And>m v. requested c2 m v = requested c1 m v -
        (if m = ?n then pod_charge v (pod_details c1 ?n ?uid) else 0)"
    by blast
  obtain c3 us3 where du: "device_unreserve c2 ?n (us1\<lparr>InlineVolumeAllocateUnits := ivs\<rparr>) = (c3, us3)"
    by (cases "device_unreserve c2 ?n (us1\<lparr>InlineVolumeAllocateUnits := ivs\<rparr>)")
  have "Unreserve c' (Some st) [] rus = Some (c3, Some (st\<lparr>nas_Units := Some us3\<rparr>), rus)"
    unfolding Unreserve_def option.case us guard if_False by (simp add: lu il du)
  moreover have "requested c3 m v = requested c m v" for m v
    using requested_device_unreserve [OF wf2, of ?n "us1\<lparr>InlineVolumeAllocateUnits := ivs\<rparr>" m v] du
      req2 [of m v] requested_lvm_unreserve [OF res, of m v] lu frame(1)
    by (cases "m = ?n") simp_all
  ultimately show ?thesis by blast
qed

lemma Reserve_reserved:
  assumes run: "Reserve c (Some st) [] = Some (c', st', err)" and us: "nas_Units st = Some us"
    and ini: "inited c (nas_NodeName st)"
    and ok: "\<forall>u \<in> set (LVMPVCAllocateUnits us). reservable (nas_NodeName st) u"
    and fresh: "pod_details c (nas_NodeName st) (nas_PodUid st) = []"
  obtains us' where "st' = Some (st\<lparr>nas_Units := Some us'\<rparr>)"
    and "holds_reservation c c' (nas_NodeName st) (nas_PodUid st) (LVMPVCAllocateUnits us')"
    and "InlineVolumeAllocateUnits us' = [] \<Longrightarrow> pod_details c' (nas_NodeName st) (nas_PodUid st) = []"
  using run us ini
proof (cases rule: Reserve_elim)
  case (lvm_fails c0 us1 e)
  then have lr: "lvm_reserve c (nas_NodeName st) us = Some (c', us1, Some e)" by simp
  from that [OF lvm_fails(3)] reserved_lvm [OF lr ini ok fresh] show thesis by blast
next
  case (inline_fails c0 c1 us1 ivs e)
  then have lr: "lvm_reserve c (nas_NodeName st) us = Some (c1, us1, None)" by simp
  note r1 = reserved_lvm [OF lr ini ok fresh]
  note r2 = reserved_inline [OF r1 inline_fails(3)]
  have "InlineVolumeAllocateUnits us = []" if "ivs = []"
    using inline_reserve_trace(7) [OF inline_fails(3) r1(2)] that by simp
  then have "pod_details c' (nas_NodeName st) (nas_PodUid st) = []" if "ivs = []"
    using inline_reserve_trace(6) [OF inline_fails(3) r1(2)] that by simp
  with that [OF inline_fails(4)] r2 show thesis by simp
next
  case (devices c0 c1 us1 c2 ivs us3)
  then have lr: "lvm_reserve c (nas_NodeName st) us = Some (c1, us1, None)" by simp
  note r1 = reserved_lvm [OF lr ini ok fresh]
  note r2 = reserved_inline [OF r1 devices(3)]
  note r3 = reserved_device [OF r2 devices(4)]
  have units: "LVMPVCAllocateUnits us3 = LVMPVCAllocateUnits us1"
    "InlineVolumeAllocateUnits us3 = ivs"
    using devices(4) by (cases rule: device_reserve_loopE, simp_all)+
  have pd: "pod_details c' (nas_NodeName st) (nas_PodUid st) = pod_details c2 (nas_NodeName st) (nas_PodUid st)"
    using devices(4)
  proof (cases rule: device_reserve_loopE)
    case (looped dus)
    from device_reserve_loop_frame [OF looped(1)] show ?thesis by (intro pod_details_cong) blast
  qed simp
  have "InlineVolumeAllocateUnits us = []" if "ivs = []"
    using inline_reserve_trace(7) [OF devices(3) r1(2)] that by simp
  then have "pod_details c' (nas_NodeName st) (nas_PodUid st) = []" if "ivs = []"
    using inline_reserve_trace(6) [OF devices(3) r1(2)] that pd by simp
  with that [OF devices(5)] r3 units show thesis by simp
qed

text \<open>C2: \<open>Unreserve\<close> undoes \<open>Reserve\<close>: whether \<open>Reserve\<close> succeeded or failed half-way, \<open>Unreserve\<close>
  of the state it left does not panic and puts the requested size of every volume group of every
  node back to what it was.\<close>

theorem Unreserve_undoes_Reserve:
  assumes wf: "wf_cache c" and us: "nas_Units st = Some us"
    and ok: "\<forall>u \<in> set (LVMPVCAllocateUnits us). reservable (nas_NodeName st) u"
    and fresh: "pod_details c (nas_NodeName st) (nas_PodUid st) = []"
    and run: "Reserve c (Some st) [] = Some (c', st', err)"
  shows "\<exists>c2 st2. Unreserve c' st' [] rus = Some (c2, st2, rus) \<and>
      (\<forall>m v. requested c2 m v = requested c m v)"
proof (cases "inited c (nas_NodeName st)")
  case False
  from Reserve_not_inited [OF us this, of "[]"] run have "c' = c" "st' = Some st" by auto
  moreover have "Unreserve c (Some st) [] rus = Some (c, Some st, rus)"
    using False us by (auto simp: Unreserve_def inited_def split: option.splits)
  ultimately show ?thesis by simp
next
  case True
  from Reserve_reserved [OF run us True ok fresh] obtain us' where
      st': "st' = Some (st\<lparr>nas_Units := Some us'\<rparr>)"
      and res: "holds_reservation c c' (nas_NodeName st) (nas_PodUid st) (LVMPVCAllocateUnits us')"
      and none: "InlineVolumeAllocateUnits us' = [] \<Longrightarrow> pod_details c' (nas_NodeName st) (nas_PodUid st) = []"
    by blast
  from Unreserve_reserved [of c c' "st\<lparr>nas_Units := Some us'\<rparr>" us' rus] wf_Reserve [OF wf run] st' res none
  show ?thesis by simp
qed

lemma Unreserve_undoes_Reserve_witness:
  "\<exists>c' st' err c2 st2. Reserve ex_store (Some ex_state) [] = Some (c', st', err) \<and>
     Unreserve c' st' [] [] = Some (c2, st2, []) \<and> requested c2 ''n'' ''g'' = 0"
proof -
  obtain us where us: "nas_Units ex_state = Some us"
    and units: "LVMPVCAllocateUnits us = [ex_lvm_unit ''p'' ''h'' 5, ex_lvm_unit ''q'' ''g'' 6]"
    by (simp add: ex_state_def)
  have ok: "\<forall>u \<in> set (LVMPVCAllocateUnits us). reservable (nas_NodeName ex_state) u"
    by (simp add: units reservable_def lvm_unit_ok_def ex_lvm_unit_def ex_state_def word_sless_alt)
  have fresh: "pod_details ex_store (nas_NodeName ex_state) (nas_PodUid ex_state) = []"
    by (simp add: pod_details_def getPodInlineVolumeDetails_def ex_store_def NewNodeStorageAllocatedCache_def)
  obtain c' st' err where run: "Reserve ex_store (Some ex_state) [] = Some (c', st', err)"
    using Reserve_total [OF us, of ex_store "[]"] .
  have "requested ex_store ''n'' ''g'' = 0"
    by (simp add: requested_def node_requested_def entry_def ex_store_def ex_node_def ex_vg_def
        NewNodeStorageAllocatedCache_def)
  with Unreserve_undoes_Reserve [OF wf_ex_store us ok fresh run, of "[]"] run show ?thesis by fastforce
qed

end
