(* ===== verification/Admission.thy ===== *)
theory Admission
  imports Rollback
begin

text \<open>
  A node that passes \<open>Filter\<close> can be reserved: when \<open>PreAllocate\<close> finds a plan in a cache, \<open>Reserve\<close>
  of that plan in the same cache succeeds. The two walk over the units in different orders, take
  the pools through different guards (\<open>Allocatable - Requested < size\<close> on a copy,
  \<open>Allocatable < Requested + size\<close> on the cache) and skip different claims; the bridge is the space
  a plan takes from each volume group, as an integer.
\<close>

section \<open>Space in a pool\<close>

definition room :: "NodeStorageState \<Rightarrow> string \<Rightarrow> int" where
  "room s v = (case map_of (VGStates s) v of
     None \<Rightarrow> 0 | Some vg \<Rightarrow> sint (vg_Allocatable vg) - sint (vg_Requested vg))"

definition lvm_demand :: "string \<Rightarrow> LVMPVAllocated list \<Rightarrow> int" where
  "lvm_demand v us = (\<Sum>u \<leftarrow> us. if pa_VGName u = v then sint (pa_Requested u) else 0)"

definition inline_demand :: "string \<Rightarrow> InlineVolumeAllocated list \<Rightarrow> int" where
  "inline_demand v ds = (\<Sum>d \<leftarrow> ds. if iv_VgName d = v then sint (iv_VolumeSize d) else 0)"

lemma demand_simps [simp]:
  "lvm_demand v [] = 0"
  "lvm_demand v (u # us) = (if pa_VGName u = v then sint (pa_Requested u) else 0) + lvm_demand v us"
  "lvm_demand v (us @ ws) = lvm_demand v us + lvm_demand v ws"
  "inline_demand v [] = 0"
  "inline_demand v (d # ds) = (if iv_VgName d = v then sint (iv_VolumeSize d) else 0) + inline_demand v ds"
  "inline_demand v (ds @ es) = inline_demand v ds + inline_demand v es"
  by (simp_all add: lvm_demand_def inline_demand_def)

text \<open>\<open>takes d s s'\<close>: from \<open>s\<close> to \<open>s'\<close> every group gave \<open>d\<close> and none was over-committed.\<close>

definition takes :: "(string \<Rightarrow> int) \<Rightarrow> NodeStorageState \<Rightarrow> NodeStorageState \<Rightarrow> bool" where
  "takes d s s' \<longleftrightarrow> wf_node s' \<and> node_within s' \<and> DeviceStates s' = DeviceStates s \<and>
     (\<forall>v. map_of (VGStates s') v = None \<longleftrightarrow> map_of (VGStates s) v = None) \<and>
     (\<forall>v. room s' v = room s v - d v)"

lemma takes_refl: "wf_node s \<Longrightarrow> node_within s \<Longrightarrow> takes (\<lambda>v. 0) s s"
  by (simp add: takes_def)

lemma takes_trans: "takes d s s1 \<Longrightarrow> takes e s1 s2 \<Longrightarrow> takes (\<lambda>v. d v + e v) s s2"
  by (simp add: takes_def)

lemma takes_cong: "takes d s s' \<Longrightarrow> (\<And>v. d v = e v) \<Longrightarrow> takes e s s'"
  by (simp add: takes_def)

lemma takesD:
  assumes "takes d s s'"
  shows "wf_node s'" and "node_within s'" and "DeviceStates s' = DeviceStates s"
    and "\<And>v. map_of (VGStates s') v = None \<longleftrightarrow> map_of (VGStates s) v = None"
    and "\<And>v. room s' v = room s v - d v"
  using assms by (simp_all add: takes_def)

lemma room_nonneg: "node_within s \<Longrightarrow> 0 \<le> room s v"
  by (auto simp: room_def vg_within_def word_sle_eq split: option.split dest: node_within_lookup)

text \<open>Charging one pool within its free size.\<close>

lemma takes_set_vg:
  assumes wf: "wf_node s" and within: "node_within s" and vg: "map_of (VGStates s) v = Some vg"
    and sz: "0 \<le>s sz" and fit: "\<not> vg_Allocatable vg - vg_Requested vg <s sz"
  shows "takes (\<lambda>u. if v = u then sint sz else 0) s (set_vg v (add_Requested sz vg) s)"
proof -
  note add = vg_within_add [OF node_within_lookup [OF within vg] sz fit]
  have "node_within (set_vg v (add_Requested sz vg) s)"
    using within add(1) by (simp add: node_within_def set_vg_def list_all_update)
  moreover have "wf_node (set_vg v (add_Requested sz vg) s)"
    using wf wf_node_vg_name [OF wf vg] by simp
  moreover have "sint (vg_Requested vg + sz) = sint (vg_Requested vg) + sint sz"
    using add(2) by simp
  ultimately show ?thesis
    using vg by (auto simp: takes_def room_def)
qed

text \<open>The guard of \<open>Reserve\<close> does not fire when the space is there.\<close>

lemma reserve_guard:
  assumes "node_within s" and "map_of (VGStates s) v = Some vg" and "0 \<le>s sz" and "sint sz \<le> room s v"
  shows "\<not> vg_Allocatable vg <s vg_Requested vg + sz" and "\<not> vg_Allocatable vg - vg_Requested vg <s sz"
proof -
  have within: "vg_within vg" using assms(1,2) by (rule node_within_lookup)
  then have r: "0 \<le>s vg_Requested vg" "0 \<le>s vg_Allocatable vg"
    by (auto simp: vg_within_def word_sle_eq)
  have le: "sint (vg_Requested vg) + sint sz \<le> sint (vg_Allocatable vg)"
    using assms(2,4) by (simp add: room_def)
  have "sint (vg_Requested vg + sz) = sint (vg_Requested vg) + sint sz"
    using le sint64_upper [of "vg_Allocatable vg"] r assms(3) by (intro sint64_add_nonneg) auto
  with le show "\<not> vg_Allocatable vg <s vg_Requested vg + sz" by (simp add: word_sless_alt)
  show "\<not> vg_Allocatable vg - vg_Requested vg <s sz"
    using le sint64_diff_nonneg [OF r(2,1)] by (simp add: word_sless_alt)
qed

section \<open>What a plan takes\<close>

definition units_known :: "NodeStorageState \<Rightarrow> LVMPVAllocated list \<Rightarrow> bool" where
  "units_known s us \<longleftrightarrow> (\<forall>u \<in> set us. map_of (VGStates s) (pa_VGName u) \<noteq> None \<and> 0 \<le>s pa_Requested u)"

definition volumes_known :: "NodeStorageState \<Rightarrow> InlineVolumeAllocated list \<Rightarrow> bool" where
  "volumes_known s ds \<longleftrightarrow> (\<forall>d \<in> set ds. map_of (VGStates s) (iv_VgName d) \<noteq> None \<and> 0 \<le>s iv_VolumeSize d)"

lemma known_takes:
  assumes "takes d s s'"
  shows "units_known s' us = units_known s us" and "volumes_known s' ds = volumes_known s ds"
  using takesD(4) [OF assms] by (simp_all add: units_known_def volumes_known_def del: not_None_eq)

lemma inline_loop_takes:
  assumes "inline_preAllocate_loop n vols s us = (s', us', None)" and "wf_node s" and "node_within s"
    and "\<forall>d \<in> set vols. 0 \<le>s iv_VolumeSize d" and "volumes_known s us"
  shows "takes (\<lambda>v. inline_demand v us' - inline_demand v us) s s' \<and> volumes_known s us'"
  using assms
proof (induction vols arbitrary: s us)
  case Nil
  then show ?case by (simp add: takes_refl)
next
  case (Cons d vols)
  obtain s1 e where a: "allocateVgState n (iv_VgName d) s (iv_VolumeSize d) = (s1, e)"
    by fastforce
  with Cons.prems(1) have e: "e = None" by (cases e) auto
  from a e obtain vg where vg: "map_of (VGStates s) (iv_VgName d) = Some vg"
      "\<not> vg_Allocatable vg - vg_Requested vg <s iv_VolumeSize d"
      "s1 = set_vg (iv_VgName d) (add_Requested (iv_VolumeSize d) vg) s"
    using allocateVgState_ok by blast
  have sz: "0 \<le>s iv_VolumeSize d" using Cons.prems(4) by simp
  let ?d = "d\<lparr>iv_Allocated := iv_VolumeSize d\<rparr>"
  have t: "takes (\<lambda>v. if iv_VgName d = v then sint (iv_VolumeSize d) else 0) s s1"
    using takes_set_vg [OF Cons.prems(2,3) vg(1) sz vg(2)] vg(3) by simp
  have known: "volumes_known s1 (us @ [?d])"
    unfolding known_takes(2) [OF t] using Cons.prems(5) vg(1) sz by (auto simp: volumes_known_def)
  from Cons.prems(1) a e have run: "inline_preAllocate_loop n vols s1 (us @ [?d]) = (s', us', None)"
    by simp
  from Cons.IH [OF run takesD(1,2) [OF t] _ known] Cons.prems(4)
  have IH: "takes (\<lambda>v. inline_demand v us' - inline_demand v (us @ [?d])) s1 s'" "volumes_known s1 us'"
    by simp_all
  from takes_cong [OF takes_trans [OF t IH(1)]] IH(2) known_takes(2) [OF t] show ?case
    by simp
qed

lemma named_takes:
  assumes "preAllocate_named n ps s us = (s', us', None)" and "wf_node s" and "node_within s"
    and "\<forall>p \<in> set ps. lvm_request_ok p" and "units_known s us"
  shows "takes (\<lambda>v. lvm_demand v us' - lvm_demand v us) s s' \<and> units_known s us'"
  using assms
proof (induction ps arbitrary: s us)
  case Nil
  then show ?case by (simp add: takes_refl)
next
  case (Cons p ps)
  obtain s1 e where a: "allocateVgState n (li_VGName p) s (li_Request p) = (s1, e)"
    by fastforce
  with Cons.prems(1) have e: "e = None" by (cases e) auto
  from a e obtain vg where vg: "map_of (VGStates s) (li_VGName p) = Some vg"
      "\<not> vg_Allocatable vg - vg_Requested vg <s li_Request p"
      "s1 = set_vg (li_VGName p) (add_Requested (li_Request p) vg) s"
    using allocateVgState_ok by blast
  have sz: "0 \<le>s li_Request p" using Cons.prems(4) by (simp add: lvm_request_ok_def)
  let ?u = "lvm_unit_for n p (li_VGName p)"
  have t: "takes (\<lambda>v. if li_VGName p = v then sint (li_Request p) else 0) s s1"
    using takes_set_vg [OF Cons.prems(2,3) vg(1) sz vg(2)] vg(3) by simp
  have known: "units_known s1 (us @ [?u])"
    unfolding known_takes(1) [OF t] using Cons.prems(5) vg(1) sz by (auto simp: units_known_def)
  from Cons.prems(1) a e have run: "preAllocate_named n ps s1 (us @ [?u]) = (s', us', None)"
    by simp
  from Cons.IH [OF run takesD(1,2) [OF t] _ known] Cons.prems(4)
  have IH: "takes (\<lambda>v. lvm_demand v us' - lvm_demand v (us @ [?u])) s1 s'" "units_known s1 us'"
    by simp_all
  from takes_cong [OF takes_trans [OF t IH(1)]] IH(2) known_takes(1) [OF t] show ?case
    by simp
qed

lemma unnamed_takes:
  assumes "preAllocate_unnamed (GetVGScheduleStrategy_sort strat) n ps ks s us = (s', us', None)"
    and "wf_node s" and "node_within s" and "set ks \<subseteq> fst ` set (VGStates s)"
    and "\<forall>p \<in> set ps. lvm_request_ok p" and "units_known s us"
  shows "takes (\<lambda>v. lvm_demand v us' - lvm_demand v us) s s' \<and> units_known s us'"
  using assms
proof (induction ps arbitrary: ks s us)
  case Nil
  then show ?case by (simp add: takes_refl)
next
  case (Cons p ps)
  obtain ks1 st1 r where a:
      "allocatePVCWithoutVgName (GetVGScheduleStrategy_sort strat) n ks (VGStates s) p = (ks1, st1, r)"
    by (metis prod_cases3)
  with Cons.prems(1) obtain u where r: "r = Inr u" by (cases r) auto
  from strategy_allocates [OF a [unfolded r]] obtain k where k: "k \<in> set ks"
      "st1 = AList.update k (add_Requested (li_Request p) (pool_at (VGStates s) k)) (VGStates s)"
      "u = lvm_unit_for n p (vg_Name (pool_at (VGStates s) k))"
      "\<not> free_size (pool_at (VGStates s) k) <s li_Request p" .
  let ?vg = "pool_at (VGStates s) k"
  have vg: "map_of (VGStates s) k = Some ?vg"
    using k(1) Cons.prems(4) by (intro map_of_pool_at) auto
  then have name: "vg_Name ?vg = k"
    using wf_node_vg_name [OF Cons.prems(2)] by simp
  have s1: "s\<lparr>VGStates := st1\<rparr> = set_vg k (add_Requested (li_Request p) ?vg) s"
    by (simp add: k(2) set_vg_def)
  have sz: "0 \<le>s li_Request p" using Cons.prems(5) by (simp add: lvm_request_ok_def)
  have t: "takes (\<lambda>v. if k = v then sint (li_Request p) else 0) s (s\<lparr>VGStates := st1\<rparr>)"
    unfolding s1 using k(4) by (intro takes_set_vg [OF Cons.prems(2,3) vg sz]) (simp add: free_size_def)
  have known: "units_known (s\<lparr>VGStates := st1\<rparr>) (us @ [u])"
    unfolding known_takes(1) [OF t] using Cons.prems(6) vg sz name by (auto simp: units_known_def k(3))
  have ks1: "set ks1 \<subseteq> fst ` set (VGStates (s\<lparr>VGStates := st1\<rparr>))"
    using strategy_keeps_keys [of strat n ks "VGStates s" p] a Cons.prems(4)
    by (auto simp: k(2) dom_update dom_map_of_conv_image_fst [symmetric] go_map_simps domIff
        split: if_splits)
  from Cons.prems(1) a r have run: "preAllocate_unnamed (GetVGScheduleStrategy_sort strat) n ps ks1
      (s\<lparr>VGStates := st1\<rparr>) (us @ [u]) = (s', us', None)"
    by simp
  from Cons.IH [OF run takesD(1,2) [OF t] ks1 _ known] Cons.prems(5)
  have IH: "takes (\<lambda>v. lvm_demand v us' - lvm_demand v (us @ [u])) (s\<lparr>VGStates := st1\<rparr>) s'"
      "units_known (s\<lparr>VGStates := st1\<rparr>) us'"
    by simp_all
  from takes_cong [OF takes_trans [OF t IH(1)]] IH(2) known_takes(1) [OF t] show ?case
    by (simp add: k(3) name)
qed

lemma lvm_plan_takes:
  assumes run: "lvm_preAllocate ord strat n infos s = (s', us, None)" and wf: "wf_node s" and within: "node_within s"
    and ord: "range_ok ord" and ok: "\<forall>p \<in> set (lvm_infos infos). lvm_request_ok p"
  shows "takes (\<lambda>v. lvm_demand v us) s s' \<and> units_known s us"
proof (cases "LVMPVCsNotROSnapshot infos = None \<or> \<not> lvm_HaveLocalVolumes (LVMPVCsNotROSnapshot infos)")
  case True
  with run have "s' = s" "us = []"
    by (auto simp: lvm_preAllocate_def split: option.splits if_splits)
  with wf within show ?thesis by (simp add: takes_refl units_known_def)
next
  case False
  then obtain i where i: "LVMPVCsNotROSnapshot infos = Some i" "lvm_HaveLocalVolumes (Some i)" by auto
  obtain s1 us1 e1 where named:
      "preAllocate_named n (LVMPVCsWithVgNameNotAllocated i) s [] = (s1, us1, e1)"
    by (metis prod_cases3)
  with run i have e1: "e1 = None"
    by (auto simp: lvm_preAllocate_def split: option.splits if_splits)
  have "units_known s []" by (simp add: units_known_def)
  from named_takes [OF named [unfolded e1] wf within _ this] ok i
  have t1: "takes (\<lambda>v. lvm_demand v us1) s s1" "units_known s us1"
    by (simp_all add: lvm_infos_def)
  show ?thesis
  proof (cases "length (LVMPVCsWithoutVgNameNotAllocated i) \<le> 0")
    case True
    with run i named e1 have "s' = s1" "us = us1"
      by (auto simp: lvm_preAllocate_def split: if_splits)
    with t1 show ?thesis by simp
  next
    case more: False
    with run i named e1 have run2: "preAllocate_unnamed (GetVGScheduleStrategy_sort strat) n
        (LVMPVCsWithoutVgNameNotAllocated i) (ord (map fst (VGStates s1))) s1 us1 = (s', us, None)"
      by (auto simp: lvm_preAllocate_def split: if_splits)
    have ks: "set (ord (map fst (VGStates s1))) \<subseteq> fst ` set (VGStates s1)"
      using range_ok_set [OF ord] by simp
    have "units_known s1 us1" using t1(2) known_takes(1) [OF t1(1)] by simp
    from unnamed_takes [OF run2 takesD(1,2) [OF t1(1)] ks _ this] ok i
    have "takes (\<lambda>v. lvm_demand v us - lvm_demand v us1) s1 s'" "units_known s1 us"
      by (simp_all add: lvm_infos_def)
    with takes_cong [OF takes_trans [OF t1(1) this(1)]] known_takes(1) [OF t1(1)] show ?thesis
      by simp
  qed
qed

lemma inline_plan_takes:
  assumes run: "inline_preAllocate c n pod vols s = (s', us, None)" and wf: "wf_node s" and within: "node_within s"
    and ok: "\<forall>d \<in> set vols. 0 \<le>s iv_VolumeSize d"
  shows "takes (\<lambda>v. inline_demand v us) s s' \<and> volumes_known s us"
    and "us = [] \<or> pod_details c n (pod_UID pod) = []"
proof -
  have "volumes_known s []" by (simp add: volumes_known_def)
  note loop = inline_loop_takes [OF _ wf within ok this]
  show "takes (\<lambda>v. inline_demand v us) s s' \<and> volumes_known s us"
    using run loop takes_refl [OF wf within] \<open>volumes_known s []\<close>
    by (fastforce simp: inline_preAllocate_def split: if_splits)
  show "us = [] \<or> pod_details c n (pod_UID pod) = []"
    using run
    by (auto simp: inline_preAllocate_def pod_details_def GetPodInlineVolumeDetailsCopy_def
        split: if_splits option.splits)
qed

section \<open>Reserving within the space\<close>

lemma lvm_demand_nonneg: "\<forall>u \<in> set us. 0 \<le>s pa_Requested u \<Longrightarrow> 0 \<le> lvm_demand v us"
  by (induction us) (auto simp: word_sle_eq)

lemma inline_demand_nonneg: "\<forall>d \<in> set ds. 0 \<le>s iv_VolumeSize d \<Longrightarrow> 0 \<le> inline_demand v ds"
  by (induction ds) (auto simp: word_sle_eq)

text \<open>
  What a stage of \<open>Reserve\<close> leaves behind on the node: a state with at least the space \<open>x\<close>, the
  same devices, and the inline details of before.
\<close>

definition leaves ::
  "string \<Rightarrow> (string \<Rightarrow> int) \<Rightarrow> NodeStorageAllocatedCache \<Rightarrow> NodeStorageAllocatedCache \<Rightarrow> bool" where
  "leaves n x c c' \<longleftrightarrow> (\<exists>s s'. map_of (states c) n = Some s \<and> map_of (states c') n = Some s' \<and>
     wf_node s' \<and> node_within s' \<and> DeviceStates s' = DeviceStates s \<and>
     (\<forall>v. map_of (VGStates s') v = None \<longleftrightarrow> map_of (VGStates s) v = None) \<and> (\<forall>v. x v \<le> room s' v))"

lemma leavesI:
  assumes "map_of (states c) n = Some s" and "map_of (states c') n = Some s'" and "takes d s s'"
    and "\<And>v. d v + x v \<le> room s v"
  shows "leaves n x c c'"
proof -
  have "x v \<le> room s' v" for v
    using takesD(5) [OF assms(3), of v] assms(4) [of v] by linarith
  with assms(1,2) takesD(1-4) [OF assms(3)] show ?thesis
    by (auto simp: leaves_def simp del: not_None_eq)
qed

lemma leaves_trans:
  assumes "leaves n x c c1" and "leaves n y c1 c2"
  shows "leaves n y c c2"
  using assms by (auto simp: leaves_def simp del: not_None_eq)

lemma lvm_reserve_step_takes:
  assumes "map_of (states c) n = Some s" and "wf_node s" and "node_within s"
    and "map_of (VGStates s) (pa_VGName u) = Some vg" and "0 \<le>s pa_Requested u"
    and "sint (pa_Requested u) \<le> room s (pa_VGName u)"
  obtains s' where "map_of (states (lvm_reserve_step n u s vg c)) n = Some s'"
    and "takes (\<lambda>v. if pa_VGName u = v then sint (pa_Requested u) else 0) s s'"
proof -
  have fit: "\<not> vg_Allocatable vg - vg_Requested vg <s pa_Requested u"
    using reserve_guard(2) [OF assms(3,4,5,6)] .
  from takes_set_vg [OF assms(2,3,4,5) fit] show thesis
    by (intro that [of "set_vg (pa_VGName u) (add_Requested (pa_Requested u) vg) s"])
      (simp_all add: lvm_reserve_step_states)
qed

lemma lvm_reserve_fits:
  assumes "map_of (states c) n = Some s" and "wf_node s" and "node_within s" and "units_known s us"
    and "\<And>v. 0 \<le> x v" and "\<And>v. lvm_demand v us + x v \<le> room s v"
  shows "\<exists>c' us'. lvm_reserve_loop n c us = Some (c', us', None) \<and> leaves n x c c' \<and>
    inlineVolumeAllocatedDetails c' = inlineVolumeAllocatedDetails c"
  using assms
proof (induction us arbitrary: c s)
  case Nil
  then show ?case
    using takes_refl [OF Nil.prems(2,3)] by (auto intro!: leavesI [OF Nil.prems(1,1)])
next
  case (Cons u us)
  have nn: "\<forall>u \<in> set us. 0 \<le>s pa_Requested u" and u: "0 \<le>s pa_Requested u"
    using Cons.prems(4) by (simp_all add: units_known_def)
  from Cons.prems(4) obtain vg where vg: "map_of (VGStates s) (pa_VGName u) = Some vg"
    by (auto simp: units_known_def)
  have known: "units_known s us" using Cons.prems(4) by (simp add: units_known_def)
  have rest: "lvm_demand v us + x v \<le> room s v" for v
    using Cons.prems(6) [of v] u by (auto simp: word_sle_eq split: if_splits)
  from Cons.IH [OF Cons.prems(1,2,3) known Cons.prems(5) rest]
  have skip: "\<exists>c' us'. lvm_reserve_loop n c us = Some (c', us', None) \<and> leaves n x c c' \<and>
      inlineVolumeAllocatedDetails c' = inlineVolumeAllocatedDetails c" .
  have "sint (pa_Requested u) \<le> room s (pa_VGName u)"
    using Cons.prems(6) [of "pa_VGName u"] lvm_demand_nonneg [OF nn] Cons.prems(5) [of "pa_VGName u"]
    by (smt (verit) demand_simps(2))
  note guard = reserve_guard(1) [OF Cons.prems(3) vg u this]
  let ?c = "lvm_reserve_step n u s vg c"
  from lvm_reserve_step_takes [OF Cons.prems(1-3) vg u \<open>sint (pa_Requested u) \<le> room s (pa_VGName u)\<close>]
  obtain s' where s': "map_of (states ?c) n = Some s'"
      and t: "takes (\<lambda>v. if pa_VGName u = v then sint (pa_Requested u) else 0) s s'" .
  have "units_known s' us" using known known_takes(1) [OF t] by simp
  moreover have "lvm_demand v us + x v \<le> room s' v" for v
    using takesD(5) [OF t, of v] Cons.prems(6) [of v] by (auto split: if_splits)
  ultimately obtain c' us' where step: "lvm_reserve_loop n ?c us = Some (c', us', None)" "leaves n x ?c c'"
      "inlineVolumeAllocatedDetails c' = inlineVolumeAllocatedDetails ?c"
    using Cons.IH [OF s' takesD(1,2) [OF t] _ Cons.prems(5)] by blast
  have "leaves n (\<lambda>v. lvm_demand v us) c ?c"
  proof (rule leavesI [OF Cons.prems(1) s' t])
    show "(if pa_VGName u = v then sint (pa_Requested u) else 0) + lvm_demand v us \<le> room s v" for v
      using Cons.prems(5,6) [of v] by simp
  qed
  from leaves_trans [OF this step(2)] have "leaves n x c c'" .
  with step guard vg Cons.prems(1) skip show ?case
    by (auto simp: Let_def lvm_reserve_step_def set_details_def set_node_def split: option.split)
qed

lemma inline_reserve_loop_fits:
  assumes "map_of (states c) n = Some s" and "wf_node s" and "node_within s" and "volumes_known s us"
    and "\<And>v. inline_demand v us \<le> room s v"
  shows "\<exists>c' us'. inline_reserve_loop n uid c ds us = Some (c', us', None) \<and> leaves n (\<lambda>v. 0) c c' \<and>
    pvAllocatedDetails c' = pvAllocatedDetails c \<and> pvcInfosMap c' = pvcInfosMap c"
  using assms
proof (induction us arbitrary: c s ds)
  case Nil
  then show ?case
    using takes_refl [OF Nil.prems(2,3)] by (auto intro!: leavesI [OF Nil.prems(1,1)])
next
  case (Cons d us)
  have nn: "\<forall>d \<in> set us. 0 \<le>s iv_VolumeSize d" and d: "0 \<le>s iv_VolumeSize d"
    using Cons.prems(4) by (simp_all add: volumes_known_def)
  from Cons.prems(4) obtain vg where vg: "map_of (VGStates s) (iv_VgName d) = Some vg"
    by (auto simp: volumes_known_def)
  have known: "volumes_known s us" using Cons.prems(4) by (simp add: volumes_known_def)
  have "sint (iv_VolumeSize d) \<le> room s (iv_VgName d)"
    using Cons.prems(5) [of "iv_VgName d"] inline_demand_nonneg [OF nn] by (smt (verit) demand_simps(5))
  from reserve_guard(2) [OF Cons.prems(3) vg d this]
  have fit: "\<not> vg_Allocatable vg - vg_Requested vg <s iv_VolumeSize d" .
  let ?s = "set_vg (iv_VgName d) (add_Requested (iv_VolumeSize d) vg) s"
  have t: "takes (\<lambda>v. if iv_VgName d = v then sint (iv_VolumeSize d) else 0) s ?s"
    using takes_set_vg [OF Cons.prems(2,3) vg d fit] .
  let ?d = "d\<lparr>iv_Allocated := iv_VolumeSize d\<rparr>"
  let ?c = "set_pod_inline n uid (ds @ [?d]) (set_node n ?s c)"
  have s': "map_of (states ?c) n = Some ?s" by simp
  have "volumes_known ?s us" using known known_takes(2) [OF t] by simp
  moreover have "inline_demand v us \<le> room ?s v" for v
    using takesD(5) [OF t, of v] Cons.prems(5) [of v] by (auto split: if_splits)
  ultimately obtain c' us' where step: "inline_reserve_loop n uid ?c (ds @ [?d]) us = Some (c', us', None)"
      "leaves n (\<lambda>v. 0) ?c c'" "pvAllocatedDetails c' = pvAllocatedDetails ?c" "pvcInfosMap c' = pvcInfosMap ?c"
    using Cons.IH [OF s' takesD(1,2) [OF t]] by blast
  have "leaves n (\<lambda>v. 0) c ?c"
  proof (rule leavesI [OF Cons.prems(1) s' t])
    show "(if iv_VgName d = v then sint (iv_VolumeSize d) else 0) + 0 \<le> room s v" for v
      using Cons.prems(5) [of v] inline_demand_nonneg [OF nn, of v] by simp
  qed
  from leaves_trans [OF this step(2)] have "leaves n (\<lambda>v. 0) c c'" .
  with step fit vg Cons.prems(1) show ?case
    by (simp add: Let_def allocateVgState_def set_node_def)
qed

section \<open>Devices\<close>

text \<open>Units on distinct devices that are known, free and large enough.\<close>

definition devices_ready :: "DeviceStates \<Rightarrow> DeviceTypePVAllocated list \<Rightarrow> bool" where
  "devices_ready st us \<longleftrightarrow> distinct (map pa_DeviceName us) \<and>
     (\<forall>u \<in> set us. \<exists>d. map_of st (pa_DeviceName u) = Some d \<and> \<not> dev_IsAllocated d \<and>
        \<not> dev_Allocatable d <s pa_Requested u)"

lemma device_reserve_fits:
  assumes "map_of (states c) n = Some s" and "devices_ready (DeviceStates s) us"
  shows "\<exists>c' us'. device_reserve_loop n c us = Some (c', us', None)"
  using assms
proof (induction us arbitrary: c s)
  case (Cons u us)
  from Cons.prems(2) obtain d where d: "map_of (DeviceStates s) (pa_DeviceName u) = Some d"
      "\<not> dev_IsAllocated d" "\<not> dev_Allocatable d <s pa_Requested u"
    by (auto simp: devices_ready_def)
  have ready: "devices_ready (DeviceStates s) us"
    using Cons.prems(2) by (simp add: devices_ready_def)
  from Cons.IH [OF Cons.prems(1) this]
  have skip: "\<exists>c' us'. device_reserve_loop n c us = Some (c', us', None)" .
  let ?c = "device_reserve_step n u s d c"
  have s': "map_of (states ?c) n = Some (s\<lparr>DeviceStates := AList.update (pa_DeviceName u)
      (d\<lparr>dev_IsAllocated := True, dev_Requested := dev_Allocatable d\<rparr>) (DeviceStates s)\<rparr>)" (is "_ = Some ?s")
    by (simp add: device_reserve_step_def)
  have "devices_ready (DeviceStates ?s) us"
    using ready Cons.prems(2) by (simp add: devices_ready_def go_map_simps) (metis image_eqI)
  from Cons.IH [OF s' this] skip d Cons.prems(1) show ?case
    by (auto simp: Let_def device_reserve_step_def split: option.split)
qed simp

lemma getFreeDevice_eq:
  "getFreeDevice ord s =
     (map fst (filter (\<lambda>(k, d). dev_MediaType d = MediaTypeSSD \<and> \<not> dev_IsAllocated d) (reorder ord (DeviceStates s))),
      map fst (filter (\<lambda>(k, d). dev_MediaType d = MediaTypeHDD \<and> \<not> dev_IsAllocated d) (reorder ord (DeviceStates s))))"
proof -
  have "fold (\<lambda>(k, deviceState) (freeDeviceSSD, freeDeviceHDD).
         if dev_MediaType deviceState = MediaTypeSSD \<and> \<not> dev_IsAllocated deviceState
         then (freeDeviceSSD @ [k], freeDeviceHDD)
         else if dev_MediaType deviceState = MediaTypeHDD \<and> \<not> dev_IsAllocated deviceState
         then (freeDeviceSSD, freeDeviceHDD @ [k])
         else (freeDeviceSSD, freeDeviceHDD)) m (a, b) =
      (a @ map fst (filter (\<lambda>(k, d). dev_MediaType d = MediaTypeSSD \<and> \<not> dev_IsAllocated d) m),
       b @ map fst (filter (\<lambda>(k, d). dev_MediaType d = MediaTypeHDD \<and> \<not> dev_IsAllocated d) m))"
    for m :: DeviceStates and a b
  proof (induction m arbitrary: a b)
    case (Cons x m)
    then show ?case by (cases x) simp
  qed simp
  then show ?thesis by (simp add: getFreeDevice_def)
qed

lemma getFreeDevice_facts:
  assumes "getFreeDevice ord s = (ssd, hdd)" and "range_ok ord" and "wf_devs (DeviceStates s)"
  shows "distinct ssd" and "distinct hdd" and "set ssd \<inter> set hdd = {}"
    and "\<And>k. k \<in> set ssd \<union> set hdd \<Longrightarrow> \<exists>d. map_of (DeviceStates s) k = Some d"
proof -
  let ?m = "reorder ord (DeviceStates s)"
  have wf: "wf_map ?m" by (intro wf_map_reorder assms(2) wf_devs_map assms(3))
  have ssd: "ssd = map fst (filter (\<lambda>(k, d). dev_MediaType d = MediaTypeSSD \<and> \<not> dev_IsAllocated d) ?m)"
    and hdd: "hdd = map fst (filter (\<lambda>(k, d). dev_MediaType d = MediaTypeHDD \<and> \<not> dev_IsAllocated d) ?m)"
    using assms(1) by (simp_all add: getFreeDevice_eq)
  show "distinct ssd" "distinct hdd"
    using wf by (simp_all add: ssd hdd distinct_map_filter)
  have media: "\<exists>d. map_of ?m k = Some d \<and> dev_MediaType d = t"
    if "k \<in> set (map fst (filter (\<lambda>(k, d). dev_MediaType d = t \<and> \<not> dev_IsAllocated d) ?m))" for k t
  proof -
    from that obtain d where "(k, d) \<in> set ?m" "dev_MediaType d = t" by auto
    with map_of_is_SomeI [OF wf] show ?thesis by blast
  qed
  note ssd_media = media [where t = MediaTypeSSD, folded ssd]
  note hdd_media = media [where t = MediaTypeHDD, folded hdd]
  show "set ssd \<inter> set hdd = {}"
  proof (rule ccontr)
    assume "set ssd \<inter> set hdd \<noteq> {}"
    then obtain k where "k \<in> set ssd" "k \<in> set hdd" by blast
    with ssd_media [of k] hdd_media [of k] show False by auto
  qed
  have same: "map_of ?m k = map_of (DeviceStates s) k" for k
    by (simp add: map_of_reorder [OF assms(2)])
  show "\<exists>d. map_of (DeviceStates s) k = Some d" if "k \<in> set ssd \<union> set hdd" for k
    using that ssd_media [of k] hdd_media [of k] unfolding same by blast
qed

lemma process_ready:
  assumes run: "processDeviceByMediaType n ps ks st = (ps', st', Inr us)" and dist: "distinct ks"
    and name: "\<And>k. k \<in> set ks \<Longrightarrow> dev_Name (dev_at st k) = k"
  shows "distinct (map pa_DeviceName us)" and "set (map pa_DeviceName us) \<subseteq> set ks"
    and "\<And>u. u \<in> set us \<Longrightarrow> \<not> dev_IsAllocated (dev_at st (pa_DeviceName u)) \<and>
          \<not> dev_Allocatable (dev_at st (pa_DeviceName u)) <s pa_Requested u"
    and "\<And>k. k \<notin> set ks \<Longrightarrow> dev_at st' k = dev_at st k"
proof -
  from processDeviceByMediaType_sound [OF run dist] obtain ds where
      asg: "assignment st ps' ks ds" and free: "\<forall>k \<in> set ds. \<not> dev_IsAllocated (dev_at st k)"
    and us: "us = map2 (\<lambda>p k. device_unit_for n p (dev_at st k)) ps' ds"
    and st': "\<forall>k. dev_at st' k = (if k \<in> set ds
          then dev_at st k\<lparr>dev_IsAllocated := True, dev_Requested := dev_Allocatable (dev_at st k)\<rparr>
          else dev_at st k)"
    by blast
  have len: "length ps' = length ds" and sub: "set ds \<subseteq> set ks"
    using asg by (auto simp: assignment_def dest: list_all2_lengthD)
  have "map pa_DeviceName us = map (\<lambda>k. dev_Name (dev_at st k)) ds"
    using len unfolding us by (induction ps' ds rule: list_induct2) (simp_all add: device_unit_for_def)
  also have "\<dots> = ds" using sub name by (induction ds) auto
  finally have names: "map pa_DeviceName us = ds" .
  with asg sub show "distinct (map pa_DeviceName us)" "set (map pa_DeviceName us) \<subseteq> set ks"
    by (simp_all add: assignment_def del: set_map)
  show "dev_at st' k = dev_at st k" if "k \<notin> set ks" for k
    using st' sub that by auto
  fix u assume "u \<in> set us"
  then obtain p k where pk: "(p, k) \<in> set (zip ps' ds)" "u = device_unit_for n p (dev_at st k)"
    by (auto simp: us)
  then have "k \<in> set ds" by (meson set_zip_rightD)
  moreover have "fits_on st p k"
    using asg pk(1) by (auto simp: assignment_def list_all2_iff)
  ultimately show "\<not> dev_IsAllocated (dev_at st (pa_DeviceName u)) \<and>
      \<not> dev_Allocatable (dev_at st (pa_DeviceName u)) <s pa_Requested u"
    using free sub name pk(2) by (auto simp: device_unit_for_def fits_on_def)
qed

lemma device_plan_ready:
  assumes run: "device_preAllocate ord n infos s = (infos', s', us, None)" and wf: "wf_node s" and ord: "range_ok ord"
  shows "devices_ready (DeviceStates s) us"
proof (cases "us = []")
  case False
  obtain ssd hdd where free: "getFreeDevice ord s = (ssd, hdd)" by fastforce
  from False run obtain i where i: "DevicePVCs infos = Some i"
    by (auto simp: device_preAllocate_def split: option.splits)
  obtain ps1 st1 r1 where p1: "processDeviceByMediaType n (SSDDevicePVCs i) ssd (DeviceStates s) = (ps1, st1, r1)"
    by (metis prod_cases3)
  obtain ps2 st2 r2 where p2: "processDeviceByMediaType n (HDDDevicePVCs i) hdd st1 = (ps2, st2, r2)"
    by (metis prod_cases3)
  from run i free p1 p2 False obtain u1 u2 where r: "r1 = Inr u1" "r2 = Inr u2" and us: "us = u1 @ u2"
    by (auto simp: device_preAllocate_def Let_def split: if_splits sum.splits)
  note f = getFreeDevice_facts [OF free ord wf_node_devs [OF wf]]
  have known: "map_of (DeviceStates s) k = Some (dev_at (DeviceStates s) k)" if "k \<in> set ssd \<union> set hdd" for k
    using f(4) [OF that] by (auto simp: dev_at_def)
  have name: "dev_Name (dev_at (DeviceStates s) k) = k" if "k \<in> set ssd \<union> set hdd" for k
    using wf_devs_name [OF wf_node_devs [OF wf] known [OF that]] .
  have name1: "\<And>k. k \<in> set ssd \<Longrightarrow> dev_Name (dev_at (DeviceStates s) k) = k" using name by simp
  note q1 = process_ready [OF p1 [unfolded r(1)] f(1), OF name1]
  have same: "dev_at st1 k = dev_at (DeviceStates s) k" if "k \<in> set hdd" for k
    using q1(4) f(3) that by blast
  have name2: "\<And>k. k \<in> set hdd \<Longrightarrow> dev_Name (dev_at st1 k) = k" using name same by simp
  note q2 = process_ready [OF p2 [unfolded r(2)] f(2), OF name2]
  have "distinct (map pa_DeviceName us)"
    using q1(1,2) q2(1,2) f(3) by (auto simp: us)
  moreover have "\<exists>d. map_of (DeviceStates s) (pa_DeviceName u) = Some d \<and> \<not> dev_IsAllocated d \<and>
      \<not> dev_Allocatable d <s pa_Requested u" if "u \<in> set us" for u
  proof (cases "u \<in> set u1")
    case True
    then have "pa_DeviceName u \<in> set ssd" using q1(2) by auto
    with known q1(3) [of u] True show ?thesis by blast
  next
    case False
    with that us have u2: "u \<in> set u2" by simp
    then have "pa_DeviceName u \<in> set hdd" using q2(2) by auto
    with known same q2(3) [of u] u2 show ?thesis by fastforce
  qed
  ultimately show ?thesis by (simp add: devices_ready_def)
qed (simp add: devices_ready_def)

section \<open>From the plan to the reservation\<close>

lemma devices_ready_cong: "map_of st = map_of st' \<Longrightarrow> devices_ready st us = devices_ready st' us"
  by (simp add: devices_ready_def)

lemma room_cong: "map_of (VGStates s) = map_of (VGStates s') \<Longrightarrow> room s v = room s' v"
  by (simp add: room_def)

lemma known_cong:
  assumes "map_of (VGStates s) = map_of (VGStates s')"
  shows "units_known s us = units_known s' us" and "volumes_known s ds = volumes_known s' ds"
  using assms by (simp_all add: units_known_def volumes_known_def)

lemma reset_units [simp]:
  "lvm_demand v (LVMPVCAllocateUnits (ResetAllocatedSize us)) = lvm_demand v (LVMPVCAllocateUnits us)"
  "inline_demand v (InlineVolumeAllocateUnits (ResetAllocatedSize us)) = inline_demand v (InlineVolumeAllocateUnits us)"
  "units_known s (LVMPVCAllocateUnits (ResetAllocatedSize us)) = units_known s (LVMPVCAllocateUnits us)"
  "volumes_known s (InlineVolumeAllocateUnits (ResetAllocatedSize us)) = volumes_known s (InlineVolumeAllocateUnits us)"
  "devices_ready st (DevicePVCAllocateUnits (ResetAllocatedSize us)) = devices_ready st (DevicePVCAllocateUnits us)"
  "InlineVolumeAllocateUnits (ResetAllocatedSize us) = [] \<longleftrightarrow> InlineVolumeAllocateUnits us = []"
  by (simp_all add: ResetAllocatedSize_def lvm_demand_def inline_demand_def units_known_def volumes_known_def
      devices_ready_def comp_def cong: if_cong)

lemma Reserve_fits:
  assumes ini: "inited c (nas_NodeName st)" and s: "map_of (states c) (nas_NodeName st) = Some s"
    and wf: "wf_node s" and within: "node_within s" and us: "nas_Units st = Some us"
    and lvm: "units_known s (LVMPVCAllocateUnits us)" and inl: "volumes_known s (InlineVolumeAllocateUnits us)"
    and fit: "\<And>v. lvm_demand v (LVMPVCAllocateUnits us) + inline_demand v (InlineVolumeAllocateUnits us) \<le> room s v"
    and fresh: "InlineVolumeAllocateUnits us = [] \<or> pod_details c (nas_NodeName st) (nas_PodUid st) = []"
    and dev: "devices_ready (DeviceStates s) (DevicePVCAllocateUnits us)"
  shows "\<exists>c' st'. Reserve c (Some st) [] = Some (c', st', None)"
proof -
  let ?n = "nas_NodeName st" and ?uid = "nas_PodUid st" and ?x = "\<lambda>v. inline_demand v (InlineVolumeAllocateUnits us)"
  have nn: "0 \<le> ?x v" for v
    using inl by (intro inline_demand_nonneg) (simp add: volumes_known_def)
  from lvm_reserve_fits [OF s wf within lvm nn fit] obtain c1 lus where
      l: "lvm_reserve_loop ?n c (LVMPVCAllocateUnits us) = Some (c1, lus, None)" "leaves ?n ?x c c1"
        "inlineVolumeAllocatedDetails c1 = inlineVolumeAllocatedDetails c" by blast
  from l(2) s obtain s1 where s1: "map_of (states c1) ?n = Some s1" "wf_node s1" "node_within s1"
      "DeviceStates s1 = DeviceStates s" "\<And>v. (map_of (VGStates s1) v = None) = (map_of (VGStates s) v = None)"
      "\<And>v. ?x v \<le> room s1 v"
    by (auto simp: leaves_def simp del: not_None_eq)
  have lvm_run: "\<exists>us1. lvm_reserve c ?n us = Some (c1, us1, None) \<and> DevicePVCAllocateUnits us1 = DevicePVCAllocateUnits us
      \<and> InlineVolumeAllocateUnits us1 = InlineVolumeAllocateUnits us"
    using l(1) by (auto simp: lvm_reserve_def)
  then obtain us1 where us1: "lvm_reserve c ?n us = Some (c1, us1, None)"
      "DevicePVCAllocateUnits us1 = DevicePVCAllocateUnits us" "InlineVolumeAllocateUnits us1 = InlineVolumeAllocateUnits us"
    by blast
  have known1: "volumes_known s1 (InlineVolumeAllocateUnits us)"
    using inl s1(5) by (simp add: volumes_known_def del: not_None_eq)
  have "\<exists>c2 ivs s2. inline_reserve c1 ?n ?uid (InlineVolumeAllocateUnits us) = Some (c2, ivs, None) \<and>
      map_of (states c2) ?n = Some s2 \<and> DeviceStates s2 = DeviceStates s"
  proof (cases "InlineVolumeAllocateUnits us = []")
    case True
    with s1 show ?thesis by (simp add: inline_reserve_def)
  next
    case False
    let ?c1 = "init_node_inline ?n c1"
    have "pod_details c1 ?n ?uid = []"
      using fresh False l(3) by (simp add: pod_details_def getPodInlineVolumeDetails_def)
    then have "\<not> (case getPodInlineVolumeDetails ?c1 ?n ?uid of Some ds \<Rightarrow> length ds > 0 | None \<Rightarrow> False)"
      using init_node_inline_frame(5) [of ?n c1 ?n ?uid] by (auto simp: pod_details_def split: option.splits)
    moreover from s1(1) have "map_of (states ?c1) ?n = Some s1" by simp
    from inline_reserve_loop_fits [OF this s1(2,3) known1 s1(6)] obtain c2 ivs where
        "inline_reserve_loop ?n ?uid ?c1 [] (InlineVolumeAllocateUnits us) = Some (c2, ivs, None)"
        "leaves ?n (\<lambda>v. 0) ?c1 c2" by blast
    ultimately show ?thesis
      using False s1(1,4) by (auto simp: inline_reserve_def Let_def leaves_def simp del: not_None_eq)
  qed
  then obtain c2 ivs s2 where inl_run: "inline_reserve c1 ?n ?uid (InlineVolumeAllocateUnits us) = Some (c2, ivs, None)"
      and s2: "map_of (states c2) ?n = Some s2" "DeviceStates s2 = DeviceStates s" by blast
  have "\<exists>c3 dus. device_reserve_loop ?n c2 (DevicePVCAllocateUnits us) = Some (c3, dus, None)"
    using device_reserve_fits [OF s2(1)] dev s2(2) by simp
  then have "\<exists>c3 us3. device_reserve c2 ?n (us1\<lparr>InlineVolumeAllocateUnits := ivs\<rparr>) = Some (c3, us3, None)"
    by (auto simp: device_reserve_def us1(2))
  then obtain c3 us3 where dev_run: "device_reserve c2 ?n (us1\<lparr>InlineVolumeAllocateUnits := ivs\<rparr>) = Some (c3, us3, None)"
    by blast
  have guard: "(case map_of (states c) ?n of None \<Rightarrow> True | Some nodeState \<Rightarrow> \<not> InitedByNLS nodeState) = False"
    using ini by (auto simp: inited_def split: option.splits)
  have "Reserve c (Some st) [] = Some (c3, Some (st\<lparr>nas_Units := Some us3\<rparr>), None)"
    unfolding Reserve_def option.case us guard if_False by (simp add: us1 inl_run dev_run)
  then show ?thesis by blast
qed

lemma plan_fits:
  assumes run: "PreAllocate oc ov od c pod infos None n = (infos', Some st, None)" and wf: "wf_cache c"
    and ord: "range_ok oc" "range_ok ov" "range_ok od"
    and within: "\<And>s. map_of (states c) n = Some s \<Longrightarrow> node_within s"
    and lvm: "\<forall>p \<in> set (lvm_infos infos). 0 \<le>s li_Request p"
    and inl: "\<forall>d \<in> set (pod_InlineVolumes infos). 0 \<le>s iv_VolumeSize d"
  obtains s us where "inited c n" and "map_of (states c) n = Some s" and "nas_NodeName st = n"
    and "nas_Units st = Some us" and "units_known s (LVMPVCAllocateUnits us)"
    and "volumes_known s (InlineVolumeAllocateUnits us)"
    and "\<And>v. lvm_demand v (LVMPVCAllocateUnits us) + inline_demand v (InlineVolumeAllocateUnits us) \<le> room s v"
    and "InlineVolumeAllocateUnits us = [] \<or> pod_details c n (nas_PodUid st) = []"
    and "devices_ready (DeviceStates s) (DevicePVCAllocateUnits us)"
  using run
proof (cases rule: PreAllocate_elim)
  case (devices s clone ivs clone2 lvs clone3 devs)
  let ?copy = "node_DeepCopy oc s"
  have wfs: "wf_node s" using wf_cache_node [OF wf devices(1)] .
  have copy: "wf_node ?copy" "node_within ?copy"
    using ord(1) wfs within [OF devices(1)] node_within_DeepCopy by simp_all
  note same = map_of_node_DeepCopy [OF ord(1) wfs]
  note t1 = inline_plan_takes [OF devices(5) copy inl]
  have t1a: "takes (\<lambda>v. inline_demand v ivs) ?copy clone" and known1: "volumes_known ?copy ivs"
    using t1(1) by simp_all
  have "\<forall>p \<in> set (lvm_infos infos). lvm_request_ok p" using lvm by (simp add: lvm_request_ok_def)
  note t2 = lvm_plan_takes [OF devices(6) takesD(1,2) [OF t1a] ord(2) this]
  have t2a: "takes (\<lambda>v. lvm_demand v lvs) clone clone2" and known2: "units_known clone lvs"
    using t2 by simp_all
  have "lvm_demand v lvs + inline_demand v ivs \<le> room s v" for v
    using takesD(5) [OF takes_trans [OF t1a t2a], of v] room_nonneg [OF takesD(2) [OF t2a], of v]
      room_cong [OF same(1), of v] by simp
  moreover have "units_known s lvs" "volumes_known s ivs"
    using known1 known2 known_takes(1) [OF t1a] known_cong [OF same(1)] by simp_all
  moreover have "devices_ready (DeviceStates s) devs"
    using device_plan_ready [OF devices(7) takesD(1) [OF t2a] ord(3)] takesD(3) [OF t1a] takesD(3) [OF t2a]
      devices_ready_cong [OF same(2)] by simp
  moreover have "inited c n" using devices(1,2) by (simp add: inited_def)
  moreover have "ivs = [] \<or> pod_details c n (nas_PodUid st) = []"
    using t1(2) devices(4) by simp
  ultimately show thesis
    using devices(1,3,9)
    by (intro that [where us = "\<lparr>LVMPVCAllocateUnits = lvs, DevicePVCAllocateUnits = devs,
        InlineVolumeAllocateUnits = ivs\<rparr>"]) simp_all
qed simp_all

section \<open>Properties\<close>

text \<open>C4: a node that passes \<open>Filter\<close> can be reserved. When the plan for a pod succeeds in a cache
  whose node is within capacity, reserving the plan (its units reset, as the plugin does) in that
  cache succeeds: it neither fails nor panics.\<close>

theorem planned_pod_is_reserved:
  assumes "PreAllocate oc ov od c pod infos None n = (infos', Some st, None)" and "wf_cache c"
    and "range_ok oc" and "range_ok ov" and "range_ok od"
    and "\<And>s. map_of (states c) n = Some s \<Longrightarrow> node_within s"
    and "\<forall>p \<in> set (lvm_infos infos). 0 \<le>s li_Request p"
    and "\<forall>d \<in> set (pod_InlineVolumes infos). 0 \<le>s iv_VolumeSize d"
  shows "\<exists>c' st'. Reserve c (Some (st\<lparr>nas_Units := map_option ResetAllocatedSize (nas_Units st)\<rparr>)) [] =
    Some (c', st', None)"
proof -
  from plan_fits [OF assms] obtain s us where 1: "inited c n" "map_of (states c) n = Some s" "nas_NodeName st = n"
      "nas_Units st = Some us" "units_known s (LVMPVCAllocateUnits us)"
      "volumes_known s (InlineVolumeAllocateUnits us)"
      "\<And>v. lvm_demand v (LVMPVCAllocateUnits us) + inline_demand v (InlineVolumeAllocateUnits us) \<le> room s v"
      "InlineVolumeAllocateUnits us = [] \<or> pod_details c n (nas_PodUid st) = []"
      "devices_ready (DeviceStates s) (DevicePVCAllocateUnits us)"
    by blast
  with assms(6) wf_cache_node [OF assms(2) 1(2)] show ?thesis
    by (intro Reserve_fits [where s = s and us = "ResetAllocatedSize us"]) simp_all
qed

lemma planned_pod_is_reserved_witness:
  "\<exists>st c' st'. PreAllocate (\<lambda>k. k) (\<lambda>k. k) (\<lambda>k. k) ex_store ex_pod ex_infos None ''n'' = (ex_infos, Some st, None) \<and>
     Reserve ex_store (Some (st\<lparr>nas_Units := map_option ResetAllocatedSize (nas_Units st)\<rparr>)) [] = Some (c', st', None)"
proof -
  have "case PreAllocate (\<lambda>k. k) (\<lambda>k. k) (\<lambda>k. k) ex_store ex_pod ex_infos None ''n'' of
      (infos, Some st, None) \<Rightarrow> infos = ex_infos | _ \<Rightarrow> False"
    by code_simp
  then obtain st where plan:
      "PreAllocate (\<lambda>k. k) (\<lambda>k. k) (\<lambda>k. k) ex_store ex_pod ex_infos None ''n'' = (ex_infos, Some st, None)"
    by (auto split: prod.splits option.splits)
  have "node_within ex_node" by code_simp
  then have within: "node_within s" if "map_of (states ex_store) ''n'' = Some s" for s
    using that by (simp add: ex_store_def)
  have "\<forall>p \<in> set (lvm_infos ex_infos). 0 \<le>s li_Request p"
    "\<forall>d \<in> set (pod_InlineVolumes ex_infos). 0 \<le>s iv_VolumeSize d"
    by code_simp+
  from planned_pod_is_reserved [OF plan wf_ex_store range_ok_id range_ok_id range_ok_id within this] plan
  show ?thesis by blast
qed

end
