(* ===== verification/Scheduler_Plugin.thy ===== *)
theory Scheduler_Plugin
  imports Rollback
begin

text \<open>
  The scheduler plugin, \<open>pkg/scheduling-framework/plugin.go\<close>, \<open>filter.go\<close> and
  \<open>eventhandler.go\<close>: what one scheduling cycle of a pod does (\<open>PreFilter\<close>, \<open>Filter\<close>,
  \<open>Reserve\<close>, \<open>Unreserve\<close>, \<open>PreBind\<close>, \<open>NormalizeScore\<close>) and what the informers' handlers do. The
  plugin's state is the cache; a cycle's state is what \<open>PreFilter\<close> wrote under the plugin's key of
  the framework's \<open>CycleState\<close>. \<open>None\<close> is a panic. The calls to the API server are the fields of
  the record \<open>api\<close>; an operation that makes such calls returns them as well.
\<close>

section \<open>State\<close>

record stateData =
  sd_podVolumeInfo :: "PodLocalVolumeInfo option"
  sd_allocateStateByNode :: "NodeAllocateState gomap"
  sd_reservedState :: "NodeAllocateState option"

type_synonym CycleState = "stateData option"

text \<open>\<open>framework.Status\<close>: the code and the error it carries.\<close>

datatype Status =
    Success
  | Unschedulable go_error
  | UnschedulableAndUnresolvable go_error
  | AsStatus go_error

definition getState :: "CycleState \<Rightarrow> go_error + stateData" where
  "getState cs = (case cs of None \<Rightarrow> Inl (NotFound ''Open-Local'') | Some sd \<Rightarrow> Inr sd)"

definition getPodVolumeInfoFromState :: "CycleState \<Rightarrow> go_error + PodLocalVolumeInfo option" where
  "getPodVolumeInfoFromState cs =
     (case getState cs of Inl err \<Rightarrow> Inl err | Inr state \<Rightarrow> Inr (sd_podVolumeInfo state))"

definition getReserveState :: "CycleState \<Rightarrow> go_error + NodeAllocateState option" where
  "getReserveState cs =
     (case getState cs of Inl err \<Rightarrow> Inl err | Inr state \<Rightarrow> Inr (sd_reservedState state))"

definition GetAllocateState :: "stateData \<Rightarrow> string \<Rightarrow> NodeAllocateState option" where
  "GetAllocateState state nodeName = map_of (sd_allocateStateByNode state) nodeName"

definition AddAllocateState :: "stateData \<Rightarrow> string \<Rightarrow> NodeAllocateState \<Rightarrow> stateData" where
  "AddAllocateState state nodeName allocate =
     state\<lparr>sd_allocateStateByNode := AList.update nodeName allocate (sd_allocateStateByNode state)\<rparr>"

definition getNodeAllocateUnitFromState :: "CycleState \<Rightarrow> string \<Rightarrow> go_error + NodeAllocateState option" where
  "getNodeAllocateUnitFromState cs nodeName =
     (case getState cs of Inl err \<Rightarrow> Inl err | Inr state \<Rightarrow> Inr (GetAllocateState state nodeName))"

definition getStrategyType :: "string \<Rightarrow> StrategyType" where
  "getStrategyType strategy =
     (if strategy = StrategyBinpack then StrategyBinpack
      else if strategy = StrategySpread then StrategySpread
      else StrategyBinpack)"

section \<open>What a pod asks for: filter.go\<close>

fun pod_pvc_loop ::
  "kube \<Rightarrow> NodeStorageAllocatedCache \<Rightarrow> string \<Rightarrow> Volume list \<Rightarrow> PodLocalVolumeInfo \<Rightarrow>
     (PodLocalVolumeInfo \<times> go_error option) option" where
  "pod_pvc_loop K c ns [] volumeInfos = Some (volumeInfos, None)"
| "pod_pvc_loop K c ns (v # vs) volumeInfos =
     (case vol_PVC v of
        None \<Rightarrow> pod_pvc_loop K c ns vs volumeInfos
      | Some name \<Rightarrow>
          (case pvc_get K ns name of
             None \<Rightarrow> Some (volumeInfos, Some (NotFound name))
           | Some pvc \<Rightarrow>
               if pvc_Phase pvc = ClaimBound then pod_pvc_loop K c ns vs volumeInfos
               else (case pvc_StorageClassName pvc of
                       None \<Rightarrow> pod_pvc_loop K c ns vs volumeInfos
                     | Some scName \<Rightarrow>
                         (case sc_get K scName of
                            None \<Rightarrow> Some (volumeInfos, Some (NotFound scName))
                          | Some _ \<Rightarrow>
                              (case PrefilterPVC K c pvc volumeInfos of
                                 None \<Rightarrow> None
                               | Some (volumeInfos, Some err) \<Rightarrow> Some (volumeInfos, Some err)
                               | Some (volumeInfos, None) \<Rightarrow> pod_pvc_loop K c ns vs volumeInfos)))))"

definition getPodLocalVolumeInfos ::
  "kube \<Rightarrow> NodeStorageAllocatedCache \<Rightarrow> Pod \<Rightarrow> (PodLocalVolumeInfo \<times> go_error option) option" where
  "getPodLocalVolumeInfos K c pod =
     (case PrefilterInlineVolumes K pod NewPodLocalVolumeInfo of
        (volumeInfos, Some err) \<Rightarrow> Some (volumeInfos, Some err)
      | (volumeInfos, None) \<Rightarrow> pod_pvc_loop K c (pod_Namespace pod) (pod_Volumes pod) volumeInfos)"

definition getInlineVolumeAllocates :: "kube \<Rightarrow> Pod \<Rightarrow> go_error + InlineVolumeAllocated list" where
  "getInlineVolumeAllocates K pod =
     (if \<not> fst (ContainInlineVolumes pod) then Inr []
      else inline_units K pod (pod_Volumes pod) [])"

text \<open>\<open>ProcessSnapshotPVC\<close> of \<open>pkg/scheduler/algorithm/algo/common.go\<close>; a claim whose data source
  or snapshot has no name panics.\<close>

fun ProcessSnapshotPVC ::
  "kube \<Rightarrow> PersistentVolumeClaim list \<Rightarrow> string \<Rightarrow> (bool \<times> go_error option) option" where
  "ProcessSnapshotPVC K [] nodeName = Some (True, None)"
| "ProcessSnapshotPVC K (pvc # pvcs) nodeName =
     (case IsReadOnlySnapshotPVC K pvc of
        None \<Rightarrow> None
      | Some False \<Rightarrow> ProcessSnapshotPVC K pvcs nodeName
      | Some True \<Rightarrow>
          (case pvc_DataSource pvc of
             None \<Rightarrow> None
           | Some (kind, snapName) \<Rightarrow>
               (case snap_lister K (pvc_Namespace pvc) snapName of
                  None \<Rightarrow>
                    Some (False, Some (Errorf ''[ProcessSnapshotPVC]get snapshot %s failed: %s''
                            [S (GetNameKey (pvc_Namespace pvc) snapName), E (NotFound snapName)]))
                | Some snapshot \<Rightarrow>
                    (case snap_SourcePVC snapshot of
                       None \<Rightarrow> None
                     | Some srcPVCName \<Rightarrow>
                         (case pvc_get K (pvc_Namespace pvc) srcPVCName of
                            None \<Rightarrow>
                              Some (False, Some (Errorf ''[ProcessSnapshotPVC]get src pvc %s failed: %s''
                                      [S (GetNameKey (pvc_Namespace pvc) srcPVCName), E (NotFound srcPVCName)]))
                          | Some srcPVC \<Rightarrow>
                              if str_at (pvc_Annotations srcPVC) AnnoSelectedNode \<noteq> nodeName
                              then Some (False, None)
                              else ProcessSnapshotPVC K pvcs nodeName)))))"

definition filterBySnapshot ::
  "kube \<Rightarrow> string \<Rightarrow> LVMSnapshotPVCInfos \<Rightarrow> (bool \<times> go_error option) option" where
  "filterBySnapshot K nodeName lvmPVCsSnapshot =
     (case ProcessSnapshotPVC K (map li_PVC lvmPVCsSnapshot) nodeName of
        None \<Rightarrow> None
      | Some (fits, Some err) \<Rightarrow> Some (fits, Some err)
      | Some (fits, None) \<Rightarrow>
          if \<not> fits then Some (fits, Some (NewSnapshotError VolumeTypeLVM)) else Some (fits, None))"

section \<open>A scheduling cycle: plugin.go\<close>

definition PreFilter ::
  "kube \<Rightarrow> NodeStorageAllocatedCache \<Rightarrow> CycleState \<Rightarrow> Pod \<Rightarrow> (CycleState \<times> Status) option" where
  "PreFilter K c cs pod =
     (case getPodLocalVolumeInfos K c pod of
        None \<Rightarrow> None
      | Some (podVolumeInfo, Some err) \<Rightarrow> Some (cs, UnschedulableAndUnresolvable err)
      | Some (podVolumeInfo, None) \<Rightarrow>
          Some (Some \<lparr>sd_podVolumeInfo = Some podVolumeInfo, sd_allocateStateByNode = [],
                      sd_reservedState = None\<rparr>, Success))"

text \<open>\<open>PreAllocate\<close> sorts the pod's infos in place, so the cycle state changes with it.\<close>

definition write_infos :: "PodLocalVolumeInfo \<Rightarrow> CycleState \<Rightarrow> CycleState" where
  "write_infos infos cs = map_option (\<lambda>state. state\<lparr>sd_podVolumeInfo := Some infos\<rparr>) cs"

definition Filter ::
  "range_order \<Rightarrow> range_order \<Rightarrow> range_order \<Rightarrow> kube \<Rightarrow> NodeStorageAllocatedCache \<Rightarrow> CycleState \<Rightarrow> Pod \<Rightarrow>
     string \<Rightarrow> (CycleState \<times> Status) option" where
  "Filter ord_copy ord_vgs ord_devices K c cs pod nodeName =
     (case getPodVolumeInfoFromState cs of
        Inl err \<Rightarrow> Some (cs, AsStatus err)
      | Inr None \<Rightarrow> Some (cs, Success)
      | Inr (Some podVolumeInfo) \<Rightarrow>
          if \<not> HaveLocalVolumes (Some podVolumeInfo) then Some (cs, Success)
          else
            (case filterBySnapshot K nodeName (LVMPVCsROSnapshot podVolumeInfo) of
               None \<Rightarrow> None
             | Some (fits, err) \<Rightarrow>
                 if (case err of Some e \<Rightarrow> \<not> is_PredicateError e | None \<Rightarrow> False)
                 then Some (cs, AsStatus (the err))
                 else if \<not> fits
                 then (case err of
                         None \<Rightarrow> None
                       | Some e \<Rightarrow>
                           Some (cs, Unschedulable (Errorf ''node not fit pod have pvc snapshot: %s'' [E e])))
                 else
                   (case PreAllocate ord_copy ord_vgs ord_devices c pod podVolumeInfo None nodeName of
                      (infos, nodeAllocate, Some e) \<Rightarrow> Some (write_infos infos cs, Unschedulable e)
                    | (infos, nodeAllocate, None) \<Rightarrow>
                        (case (getState (write_infos infos cs), nodeAllocate) of
                           (Inl err, _) \<Rightarrow> Some (write_infos infos cs, AsStatus err)
                         | (Inr state, None) \<Rightarrow> None
                         | (Inr state, Some allocate) \<Rightarrow>
                             Some (Some (AddAllocateState state nodeName allocate), Success)))))"

definition ReserveReservation ::
  "range_order \<Rightarrow> range_order \<Rightarrow> range_order \<Rightarrow> NodeStorageAllocatedCache \<Rightarrow> CycleState \<Rightarrow> Pod \<Rightarrow>
     Pod option \<Rightarrow> string \<Rightarrow> (NodeStorageAllocatedCache \<times> CycleState \<times> Status) option" where
  "ReserveReservation ord_copy ord_vgs ord_devices c cs pod reservationPod nodeName =
     (case getState cs of
        Inl err \<Rightarrow> Some (c, cs, AsStatus err)
      | Inr state \<Rightarrow>
          (case sd_podVolumeInfo state of
             None \<Rightarrow> Some (c, cs, Success)
           | Some podVolumeInfo \<Rightarrow>
               if \<not> HaveLocalVolumes (Some podVolumeInfo) then Some (c, cs, Success)
               else
                 (case PreAllocate ord_copy ord_vgs ord_devices c pod podVolumeInfo reservationPod nodeName of
                    (infos, preAllocate, Some err) \<Rightarrow> Some (c, write_infos infos cs, Unschedulable err)
                  | (infos, None, None) \<Rightarrow> None
                  | (infos, Some preAllocate, None) \<Rightarrow>
                      (let preAllocate = preAllocate\<lparr>nas_Units := map_option ResetAllocatedSize (nas_Units preAllocate)\<rparr>;
                           uid = (case reservationPod of Some rp \<Rightarrow> pod_UID rp | None \<Rightarrow> [])
                       in case Reserve c (Some preAllocate) uid of
                            None \<Rightarrow> None
                          | Some (c, reserved, err) \<Rightarrow>
                              Some (c, map_option (\<lambda>state. state\<lparr>sd_reservedState := reserved\<rparr>) (write_infos infos cs),
                                    case err of Some e \<Rightarrow> Unschedulable e | None \<Rightarrow> Success)))))"

definition plugin_Reserve ::
  "range_order \<Rightarrow> range_order \<Rightarrow> range_order \<Rightarrow> NodeStorageAllocatedCache \<Rightarrow> CycleState \<Rightarrow> Pod \<Rightarrow>
     string \<Rightarrow> (NodeStorageAllocatedCache \<times> CycleState \<times> Status) option" where
  "plugin_Reserve ord_copy ord_vgs ord_devices c cs pod nodeName =
     ReserveReservation ord_copy ord_vgs ord_devices c cs pod None nodeName"

text \<open>The state that was reserved is a pointer of the cycle state: \<open>Unreserve\<close> writes into its units.\<close>

definition UnreserveReservation ::
  "kube \<Rightarrow> NodeStorageAllocatedCache \<Rightarrow> CycleState \<Rightarrow> Pod \<Rightarrow> Pod option \<Rightarrow> string \<Rightarrow>
     (NodeStorageAllocatedCache \<times> CycleState) option" where
  "UnreserveReservation K c cs pod reservationPod nodeName =
     (case getReserveState cs of
        Inl err \<Rightarrow> Some (c, cs)
      | Inr None \<Rightarrow> Some (c, cs)
      | Inr (Some reservedAllocate) \<Rightarrow>
          (let uid = (case reservationPod of None \<Rightarrow> [] | Some rp \<Rightarrow> pod_UID rp);
               volumes = (case reservationPod of
                            None \<Rightarrow> []
                          | Some rp \<Rightarrow> (case getInlineVolumeAllocates K rp of Inl err \<Rightarrow> [] | Inr vs \<Rightarrow> vs))
           in map_option
                (\<lambda>(c, reserved, volumes). (c, map_option (\<lambda>state. state\<lparr>sd_reservedState := reserved\<rparr>) cs))
                (Unreserve c (Some reservedAllocate) uid volumes)))"

definition plugin_Unreserve ::
  "kube \<Rightarrow> NodeStorageAllocatedCache \<Rightarrow> CycleState \<Rightarrow> Pod \<Rightarrow> string \<Rightarrow>
     (NodeStorageAllocatedCache \<times> CycleState) option" where
  "plugin_Unreserve K c cs p nodeName = UnreserveReservation K c cs p None nodeName"

section \<open>Normalising scores\<close>

text \<open>Go's \<open>/\<close> on \<open>int64\<close> rounds towards zero. The framework's scores go from 0 to 100.\<close>

definition go_div :: "int64 \<Rightarrow> int64 \<Rightarrow> int64" where
  "go_div a b = word_of_int (sgn (sint a) * sgn (sint b) * (\<bar>sint a\<bar> div \<bar>sint b\<bar>))"

abbreviation MinNodeScore :: int64 where "MinNodeScore \<equiv> 0"
abbreviation MaxNodeScore :: int64 where "MaxNodeScore \<equiv> 100"
abbreviation MaxInt64 :: int64 where "MaxInt64 \<equiv> 0x7FFFFFFFFFFFFFFF"

record NodeScore =
  ns_Name :: string
  ns_Score :: int64

definition highest_score :: "NodeScore list \<Rightarrow> int64" where
  "highest_score scores =
     fold (\<lambda>nodeScore highest. if highest <s ns_Score nodeScore then ns_Score nodeScore else highest)
       scores (- MaxInt64)"

definition lowest_score :: "NodeScore list \<Rightarrow> int64" where
  "lowest_score scores =
     fold (\<lambda>nodeScore lowest. if ns_Score nodeScore <s lowest then ns_Score nodeScore else lowest)
       scores MaxInt64"

definition NormalizeScore :: "NodeScore list \<Rightarrow> NodeScore list" where
  "NormalizeScore scores =
     (let highest = highest_score scores;
          lowest = lowest_score scores;
          oldRange = highest - lowest;
          newRange = MaxNodeScore - MinNodeScore
      in map (\<lambda>nodeScore.
           nodeScore\<lparr>ns_Score :=
             (if oldRange = 0 then MinNodeScore
              else go_div ((ns_Score nodeScore - lowest) * newRange) oldRange + MinNodeScore)\<rparr>) scores)"

section \<open>PreBind\<close>

text \<open>\<open>GetPodPvcsByLister\<close> of \<open>pkg/scheduler/algorithm/util.go\<close>: the LVM, mount point and
  device claims of a pod found up to an error.\<close>

fun GetPodPvcsByLister_loop ::
  "kube \<Rightarrow> string \<Rightarrow> bool \<Rightarrow> Volume list \<Rightarrow> PersistentVolumeClaim list \<Rightarrow> PersistentVolumeClaim list \<Rightarrow>
     PersistentVolumeClaim list \<Rightarrow>
     go_error option \<times> PersistentVolumeClaim list \<times> PersistentVolumeClaim list \<times> PersistentVolumeClaim list" where
  "GetPodPvcsByLister_loop K ns skipBound [] lvmPVCs mpPVCs devicePVCs = (None, lvmPVCs, mpPVCs, devicePVCs)"
| "GetPodPvcsByLister_loop K ns skipBound (v # vs) lvmPVCs mpPVCs devicePVCs =
     (case vol_PVC v of
        None \<Rightarrow> GetPodPvcsByLister_loop K ns skipBound vs lvmPVCs mpPVCs devicePVCs
      | Some name \<Rightarrow>
          (case pvc_get K ns name of
             None \<Rightarrow> (Some (NotFound name), lvmPVCs, mpPVCs, devicePVCs)
           | Some pvc \<Rightarrow>
               if pvc_Phase pvc = ClaimBound \<and> skipBound
               then GetPodPvcsByLister_loop K ns skipBound vs lvmPVCs mpPVCs devicePVCs
               else
                 (case pvc_StorageClassName pvc of
                    None \<Rightarrow> GetPodPvcsByLister_loop K ns skipBound vs lvmPVCs mpPVCs devicePVCs
                  | Some scName \<Rightarrow>
                      (case sc_get K scName of
                         None \<Rightarrow> (Some (NotFound scName), lvmPVCs, mpPVCs, devicePVCs)
                       | Some _ \<Rightarrow>
                           (case IsLocalPVC K pvc of
                              (isLocalPV, pvType) \<Rightarrow>
                                if isLocalPV \<and> pvType = VolumeTypeLVM
                                then GetPodPvcsByLister_loop K ns skipBound vs (lvmPVCs @ [pvc]) mpPVCs devicePVCs
                                else if isLocalPV \<and> pvType = VolumeTypeMountPoint
                                then GetPodPvcsByLister_loop K ns skipBound vs lvmPVCs (mpPVCs @ [pvc]) devicePVCs
                                else if isLocalPV \<and> pvType = VolumeTypeDevice
                                then GetPodPvcsByLister_loop K ns skipBound vs lvmPVCs mpPVCs (devicePVCs @ [pvc])
                                else GetPodPvcsByLister_loop K ns skipBound vs lvmPVCs mpPVCs devicePVCs)))))"

definition GetPodPvcsByLister ::
  "kube \<Rightarrow> Pod \<Rightarrow> bool \<Rightarrow>
     go_error option \<times> PersistentVolumeClaim list \<times> PersistentVolumeClaim list \<times> PersistentVolumeClaim list" where
  "GetPodPvcsByLister K pod skipBound =
     GetPodPvcsByLister_loop K (pod_Namespace pod) skipBound (pod_Volumes pod) [] [] []"

text \<open>
  The API server and the libraries that make a patch. \<open>PVPatch\<close> and \<open>PodPatch\<close> are the outcome of
  the call (for the pod, of its last retry); \<open>api_call\<close> records a call that was made.
\<close>

record api =
  MarshalPVInfo :: "PVAllocatedInfo \<Rightarrow> go_error + string" \<comment> \<open>\<open>json.Marshal\<close>\<close>
  MarshalPvcAllocates :: "PVCAllocateInfo gomap \<Rightarrow> go_error + string"
  GeneratePVPatch :: "PersistentVolume \<Rightarrow> PersistentVolume \<Rightarrow> go_error + string" \<comment> \<open>\<open>strategicpatch\<close>\<close>
  GeneratePodPatch :: "Pod \<Rightarrow> Pod \<Rightarrow> go_error + string"
  PVPatch :: "string \<Rightarrow> string \<Rightarrow> go_error option"
  PodPatch :: "string \<Rightarrow> string \<Rightarrow> string \<Rightarrow> go_error option"

datatype api_call =
    PatchedPV string string \<comment> \<open>volume, patch\<close>
  | PatchedPod string string string \<comment> \<open>namespace, pod, patch\<close>

definition PatchAllocateInfoToPV ::
  "api \<Rightarrow> PersistentVolume \<Rightarrow> PVAllocatedInfo \<Rightarrow> api_call list \<times> go_error option" where
  "PatchAllocateInfoToPV A originPV pvAllocatedInfo =
     (case MarshalPVInfo A pvAllocatedInfo of
        Inl err \<Rightarrow> ([], Some (Errorf ''patchAllocateInfoToPV to PV fail: pv(%s),error: %s''
                            [S (pv_Name originPV), E err]))
      | Inr infoJson \<Rightarrow>
          (let newPV = originPV\<lparr>pv_Annotations :=
                 AList.update AnnotationPVAllocatedInfoKey infoJson (pv_Annotations originPV)\<rparr>
           in case GeneratePVPatch A originPV newPV of
                Inl err \<Rightarrow> ([], Some (Errorf ''GeneratePVPatch fail: allocateInfo(%+v), pv(%s), error: %s''
                                    [S infoJson, S (pv_Name originPV), E err]))
              | Inr patchBytes \<Rightarrow>
                  if patchBytes = ''{}'' then ([], None)
                  else ([PatchedPV (pv_Name originPV) patchBytes],
                        (case PVPatch A (pv_Name originPV) patchBytes of
                           None \<Rightarrow> None
                         | Some err \<Rightarrow> Some (Errorf ''patch vgName to PV fail: allocateInfo(%+v), pv(%s), error: %s''
                                               [S infoJson, S (pv_Name originPV), E err])))))"

definition patchPVOrAddPVCInfo ::
  "kube \<Rightarrow> api \<Rightarrow> NodeStorageAllocatedCache \<Rightarrow> PersistentVolumeClaim \<Rightarrow> PVCAllocateInfo gomap \<Rightarrow>
     PVCAllocateInfo gomap \<times> api_call list" where
  "patchPVOrAddPVCInfo K A c pvc pvcInfos =
     (case MakeAllocateInfo c pvc of
        None \<Rightarrow> (pvcInfos, [])
      | Some pvAllocateInfo \<Rightarrow>
          (let add = AList.update (GetNameKey (pvc_Namespace pvc) (pvc_Name pvc)) pvAllocateInfo pvcInfos
           in if pvc_Phase pvc \<noteq> ClaimBound then (add, [])
              else (case pv_get K (pvc_VolumeName pvc) of
                      None \<Rightarrow> (add, [])
                    | Some pv \<Rightarrow>
                        if IsPVHaveAllocateInfo K pv (ai_VolumeType (pai_PVAllocatedInfo pvAllocateInfo))
                        then (pvcInfos, [])
                        else (case PatchAllocateInfoToPV A pv (pai_PVAllocatedInfo pvAllocateInfo) of
                                (calls, None) \<Rightarrow> (pvcInfos, calls)
                              | (calls, Some err) \<Rightarrow> (add, calls)))))"

definition patchAllocatedNeedMigrateToPod ::
  "range_order \<Rightarrow> api \<Rightarrow> Pod \<Rightarrow> PVCAllocateInfo gomap \<Rightarrow> api_call list \<times> go_error option" where
  "patchAllocatedNeedMigrateToPod ord A originPod pvcInfos =
     (if length pvcInfos = 0 then ([], None)
      else
        (let allocateInfo = fold (\<lambda>(_, pvcInfo). AList.update
                                     (GetNameKey (pai_PVCNameSpace pvcInfo) (pai_PVCName pvcInfo)) pvcInfo)
                              (reorder ord pvcInfos) []
         in case MarshalPvcAllocates A allocateInfo of
              Inl err \<Rightarrow> ([], Some err)
            | Inr infoJson \<Rightarrow>
                (let newPod = originPod\<lparr>pod_Annotations :=
                       AList.update AnnotationPodPVCAllocatedNeedMigrateKey infoJson (pod_Annotations originPod)\<rparr>
                 in case GeneratePodPatch A originPod newPod of
                      Inl err \<Rightarrow>
                        ([], Some (Errorf ''GeneratePVPatch fail: allocateInfo(%#+v) to pod(%s) ! error: %s''
                               [S infoJson, S (GetNameKey (pod_Namespace newPod) (pod_Name newPod)), E err]))
                    | Inr patchBytes \<Rightarrow>
                        if patchBytes = ''{}'' then ([], None)
                        else ([PatchedPod (pod_Namespace newPod) (pod_Name newPod) patchBytes],
                              PodPatch A (pod_Namespace newPod) (pod_Name newPod) patchBytes))))"

definition PreBind ::
  "range_order \<Rightarrow> kube \<Rightarrow> api \<Rightarrow> NodeStorageAllocatedCache \<Rightarrow> Pod \<Rightarrow> api_call list \<times> Status" where
  "PreBind ord K A c p =
     (case GetPodPvcsByLister K p False of
        (Some err, _) \<Rightarrow> ([], AsStatus err)
      | (None, lvmPVCs, _, devicePVCs) \<Rightarrow>
          if length lvmPVCs + length devicePVCs \<le> 0 then ([], Success)
          else
            (let (pvcInfos, calls) =
                   fold (\<lambda>pvc (pvcInfos, calls).
                       (let (pvcInfos, cs) = patchPVOrAddPVCInfo K A c pvc pvcInfos in (pvcInfos, calls @ cs)))
                     (lvmPVCs @ devicePVCs) ([], []);
                 (podCalls, err) = patchAllocatedNeedMigrateToPod ord A p pvcInfos
             in (calls @ podCalls, case err of Some e \<Rightarrow> AsStatus e | None \<Rightarrow> Success)))"

section \<open>The informers' handlers: eventhandler.go\<close>

text \<open>
  A handler gets an \<open>interface{}\<close>. \<open>Obj\<close> is a value of the type it converts to; \<open>OtherObj\<close> is any
  other value, among them the \<open>cache.DeletedFinalStateUnknown\<close> that client-go delivers for a deletion
  it missed.
\<close>

datatype 'a obj = Obj 'a | OtherObj

definition OnNodeLocalStorageAdd ::
  "NodeStorageAllocatedCache \<Rightarrow> NodeLocalStorage obj \<Rightarrow> NodeStorageAllocatedCache option" where
  "OnNodeLocalStorageAdd c obj =
     (case obj of OtherObj \<Rightarrow> Some c | Obj nodeLocal \<Rightarrow> AddNodeStorage c nodeLocal)"

definition OnNodeLocalStorageUpdate ::
  "kube \<Rightarrow> NodeStorageAllocatedCache \<Rightarrow> NodeLocalStorage obj \<Rightarrow> NodeLocalStorage obj \<Rightarrow>
     NodeStorageAllocatedCache option" where
  "OnNodeLocalStorageUpdate K c oldObj newObj =
     (case (newObj, oldObj) of
        (Obj nodeLocal, Obj old) \<Rightarrow> UpdateNodeStorage K c old nodeLocal
      | _ \<Rightarrow> Some c)"

definition updatePV ::
  "kube \<Rightarrow> NodeStorageAllocatedCache \<Rightarrow> PersistentVolume \<Rightarrow> NodeStorageAllocatedCache option" where
  "updatePV K c pv =
     (if pv_Phase pv = VolumePending then Some c
      else if NodeNameFromPV pv = [] then Some c
      else AddOrUpdatePV K c pv (NodeNameFromPV pv))"

definition deleteByPV ::
  "kube \<Rightarrow> NodeStorageAllocatedCache \<Rightarrow> PersistentVolume \<Rightarrow> NodeStorageAllocatedCache" where
  "deleteByPV K c pv =
     (if NodeNameFromPV pv = [] then c else DeletePV K c pv (NodeNameFromPV pv))"

definition is_local_csi :: "PersistentVolume \<Rightarrow> bool" where
  "is_local_csi pv = (case pv_CSI pv of None \<Rightarrow> False | Some csi \<Rightarrow> ContainsProvisioner (csi_Driver csi))"

definition OnPVUpdate ::
  "kube \<Rightarrow> NodeStorageAllocatedCache \<Rightarrow> PersistentVolume obj \<Rightarrow> NodeStorageAllocatedCache option" where
  "OnPVUpdate K c newObj =
     (case newObj of
        OtherObj \<Rightarrow> Some c
      | Obj pv \<Rightarrow> if \<not> is_local_csi pv then Some c else updatePV K c pv)"

definition OnPVAdd ::
  "kube \<Rightarrow> NodeStorageAllocatedCache \<Rightarrow> PersistentVolume obj \<Rightarrow> NodeStorageAllocatedCache option" where
  "OnPVAdd K c obj = OnPVUpdate K c obj"

definition OnPVDelete ::
  "kube \<Rightarrow> NodeStorageAllocatedCache \<Rightarrow> PersistentVolume obj \<Rightarrow> NodeStorageAllocatedCache" where
  "OnPVDelete K c obj =
     (case obj of OtherObj \<Rightarrow> c | Obj pv \<Rightarrow> if \<not> is_local_csi pv then c else deleteByPV K c pv)"

definition OnPVCUpdate ::
  "NodeStorageAllocatedCache \<Rightarrow> PersistentVolumeClaim obj \<Rightarrow> NodeStorageAllocatedCache" where
  "OnPVCUpdate c newObj =
     (case newObj of
        OtherObj \<Rightarrow> c
      | Obj pvc \<Rightarrow>
          if pvc_Phase pvc \<noteq> ClaimBound then c
          else (let pvName = GetPVFromBoundPVC pvc
                in if length pvName = 0 then c
                   else (let nodeName = NodeNameFromPVC pvc
                         in if nodeName = [] then c else AddOrUpdatePVC c pvc nodeName pvName)))"

definition OnPVCAdd ::
  "NodeStorageAllocatedCache \<Rightarrow> PersistentVolumeClaim obj \<Rightarrow> NodeStorageAllocatedCache" where
  "OnPVCAdd c obj = OnPVCUpdate c obj"

definition OnPVCDelete ::
  "NodeStorageAllocatedCache \<Rightarrow> PersistentVolumeClaim obj \<Rightarrow> NodeStorageAllocatedCache" where
  "OnPVCDelete c obj = (case obj of OtherObj \<Rightarrow> c | Obj pvc \<Rightarrow> DeletePVC c pvc)"

definition OnPodAdd ::
  "kube \<Rightarrow> NodeStorageAllocatedCache \<Rightarrow> Pod obj \<Rightarrow> NodeStorageAllocatedCache" where
  "OnPodAdd K c obj = (case obj of OtherObj \<Rightarrow> c | Obj pod \<Rightarrow> AddPod K c pod)"

definition OnPodUpdate ::
  "kube \<Rightarrow> NodeStorageAllocatedCache \<Rightarrow> Pod obj \<Rightarrow> NodeStorageAllocatedCache" where
  "OnPodUpdate K c newObj = (case newObj of OtherObj \<Rightarrow> c | Obj pod \<Rightarrow> UpdatePod K c pod)"

definition OnPodDelete :: "NodeStorageAllocatedCache \<Rightarrow> Pod obj \<Rightarrow> NodeStorageAllocatedCache" where
  "OnPodDelete c obj = (case obj of OtherObj \<Rightarrow> c | Obj pod \<Rightarrow> DeletePod c pod)"

section \<open>Facts about normalised scores\<close>

lemma go_div_pos:
  assumes "0 \<le> sint a" and "0 < sint b"
  shows "sint (go_div a b) = sint a div sint b"
proof -
  have "0 \<le> sint a div sint b" "sint a div sint b \<le> sint a"
    using assms zdiv_mono2 [of "sint a" 1 "sint b"] by (simp_all add: pos_imp_zdiv_nonneg_iff)
  moreover have "sgn (sint a) * sgn (sint b) * (\<bar>sint a\<bar> div \<bar>sint b\<bar>) = sint a div sint b"
    using assms by (cases "sint a = 0") simp_all
  moreover have "sint a < 2 ^ 63" by (rule sint64_upper)
  ultimately show ?thesis
    unfolding go_div_def using signed_take_bit_int_eq_self [of 63 "sint a div sint b"]
    by (simp add: signed_of_int)
qed

lemma highest_score_fold:
  fixes f :: "'a \<Rightarrow> int64"
  defines "mx \<equiv> \<lambda>m xs. fold (\<lambda>x h. if h <s f x then f x else h) xs m"
  shows "(mx m xs = m \<or> mx m xs \<in> f ` set xs) \<and> m \<le>s mx m xs \<and> (\<forall>x \<in> set xs. f x \<le>s mx m xs)"
  unfolding mx_def
proof (induction xs arbitrary: m)
  case (Cons x xs)
  from Cons.IH [of "if m <s f x then f x else m"] show ?case
    by (auto simp: word_sle_eq word_sless_alt split: if_splits)
qed (simp add: word_sle_eq)

lemma lowest_score_fold:
  fixes f :: "'a \<Rightarrow> int64"
  defines "mn \<equiv> \<lambda>m xs. fold (\<lambda>x h. if f x <s h then f x else h) xs m"
  shows "(mn m xs = m \<or> mn m xs \<in> f ` set xs) \<and> mn m xs \<le>s m \<and> (\<forall>x \<in> set xs. mn m xs \<le>s f x)"
  unfolding mn_def
proof (induction xs arbitrary: m)
  case (Cons x xs)
  from Cons.IH [of "if f x <s m then f x else m"] show ?case
    by (auto simp: word_sle_eq word_sless_alt split: if_splits)
qed (simp add: word_sle_eq)

definition raw_ok :: "int64 \<Rightarrow> bool" where
  "raw_ok s \<longleftrightarrow> 0 \<le>s s \<and> s \<le>s 2 ^ 56"

lemma raw_ok_sint: "raw_ok s \<longleftrightarrow> 0 \<le> sint s \<and> sint s \<le> 2 ^ 56"
  by (simp add: raw_ok_def word_sle_eq)

lemma highest_lowest:
  assumes "\<forall>x \<in> set scores. raw_ok (ns_Score x)" and "scores \<noteq> []"
  shows "highest_score scores \<in> ns_Score ` set scores" and "lowest_score scores \<in> ns_Score ` set scores"
    and "\<And>x. x \<in> set scores \<Longrightarrow> sint (ns_Score x) \<le> sint (highest_score scores)"
    and "\<And>x. x \<in> set scores \<Longrightarrow> sint (lowest_score scores) \<le> sint (ns_Score x)"
proof -
  from assms(2) obtain y where y: "y \<in> set scores" by (cases scores) auto
  have hi: "(highest_score scores = - MaxInt64 \<or> highest_score scores \<in> ns_Score ` set scores) \<and>
      (\<forall>x \<in> set scores. ns_Score x \<le>s highest_score scores)"
    using highest_score_fold [of ns_Score scores "- MaxInt64"] unfolding highest_score_def by blast
  have lo: "(lowest_score scores = MaxInt64 \<or> lowest_score scores \<in> ns_Score ` set scores) \<and>
      (\<forall>x \<in> set scores. lowest_score scores \<le>s ns_Score x)"
    using lowest_score_fold [of ns_Score scores MaxInt64] unfolding lowest_score_def by blast
  show ub: "sint (ns_Score x) \<le> sint (highest_score scores)" if "x \<in> set scores" for x
    using hi that by (simp add: word_sle_eq)
  show lb: "sint (lowest_score scores) \<le> sint (ns_Score x)" if "x \<in> set scores" for x
    using lo that by (simp add: word_sle_eq)
  have "raw_ok (ns_Score y)" using assms(1) y by blast
  then have ysint: "0 \<le> sint (ns_Score y)" "sint (ns_Score y) \<le> 2 ^ 56" by (simp_all add: raw_ok_sint)
  have "highest_score scores \<noteq> - MaxInt64"
    using ub [OF y] ysint by auto
  with hi show "highest_score scores \<in> ns_Score ` set scores" by blast
  have "lowest_score scores \<noteq> MaxInt64"
    using lb [OF y] ysint by auto
  with lo show "lowest_score scores \<in> ns_Score ` set scores" by blast
qed

text \<open>One score of the result: a value between 0 and 100, monotone in the raw score.\<close>

definition norm_score :: "int \<Rightarrow> int \<Rightarrow> int \<Rightarrow> int" where
  "norm_score low high s = (if high = low then 0 else (s - low) * 100 div (high - low))"

lemma norm_score_mono: "low \<le> high \<Longrightarrow> s \<le> t \<Longrightarrow> norm_score low high s \<le> norm_score low high t"
  by (simp add: norm_score_def zdiv_mono1)

lemma norm_score_ends:
  assumes "low < high"
  shows "norm_score low high low = 0" and "norm_score low high high = 100"
proof -
  show "norm_score low high high = 100"
    using assms nonzero_mult_div_cancel_left [of "high - low" 100] by (simp add: norm_score_def)
qed (simp add: norm_score_def)

lemma NormalizeScore_sint:
  assumes ok: "\<forall>x \<in> set scores. raw_ok (ns_Score x)" and i: "i < length scores"
  shows "sint (ns_Score (NormalizeScore scores ! i)) =
     norm_score (sint (lowest_score scores)) (sint (highest_score scores)) (sint (ns_Score (scores ! i)))"
proof -
  define lo hi s where "lo = lowest_score scores" and "hi = highest_score scores" and "s = ns_Score (scores ! i)"
  from i have ne: "scores \<noteq> []" by auto
  note hl = highest_lowest [OF ok ne]
  have "raw_ok lo" "raw_ok hi" "raw_ok s"
    using hl(1,2) ok i by (auto simp: lo_def hi_def s_def)
  then have r: "0 \<le> sint lo" "sint hi \<le> 2 ^ 56" by (simp_all add: raw_ok_sint)
  have le: "sint lo \<le> sint s" "sint s \<le> sint hi"
    using hl(3,4) i by (simp_all add: lo_def hi_def s_def)
  have range: "sint (hi - lo) = sint hi - sint lo"
    using r le by (intro sint64_diff) simp_all
  have up: "sint (s - lo) = sint s - sint lo"
    using r le by (intro sint64_diff) simp_all
  have prod: "sint ((s - lo) * 100) = (sint s - sint lo) * 100"
    using r le by (simp add: sint_word_ariths up signed_take_bit_int_eq_self)
  have zero: "hi - lo = 0 \<longleftrightarrow> sint hi = sint lo"
    by (metis eq_iff_diff_eq_0 signed_word_eqI)
  have "ns_Score (NormalizeScore scores ! i) =
      (if hi - lo = 0 then 0 else go_div ((s - lo) * 100) (hi - lo))"
    using i by (simp add: NormalizeScore_def Let_def lo_def hi_def s_def)
  moreover have "sint (go_div ((s - lo) * 100) (hi - lo)) = (sint s - sint lo) * 100 div (sint hi - sint lo)"
    if "sint hi \<noteq> sint lo"
  proof -
    have "0 \<le> sint ((s - lo) * 100)" unfolding prod using le by simp
    moreover have "0 < sint (hi - lo)" unfolding range using le that by simp
    ultimately show ?thesis unfolding go_div_pos [OF \<open>0 \<le> sint ((s - lo) * 100)\<close> \<open>0 < sint (hi - lo)\<close>]
      by (simp only: prod range)
  qed
  ultimately have "sint (ns_Score (NormalizeScore scores ! i)) = norm_score (sint lo) (sint hi) (sint s)"
    by (simp only: zero norm_score_def sint_0 split: if_split) blast
  then show ?thesis by (simp only: lo_def hi_def s_def)
qed

lemma NormalizeScore_facts:
  assumes "\<forall>x \<in> set scores. raw_ok (ns_Score x)"
  shows "map ns_Name (NormalizeScore scores) = map ns_Name scores"
    and "\<forall>x \<in> set (NormalizeScore scores). MinNodeScore \<le>s ns_Score x \<and> ns_Score x \<le>s MaxNodeScore"
    and "\<forall>i < length scores. \<forall>j < length scores. ns_Score (scores ! i) \<le>s ns_Score (scores ! j) \<longrightarrow>
      ns_Score (NormalizeScore scores ! i) \<le>s ns_Score (NormalizeScore scores ! j)"
    and "\<forall>i < length scores. \<forall>j < length scores. ns_Score (scores ! i) = lowest_score scores \<longrightarrow>
      ns_Score (scores ! j) = highest_score scores \<longrightarrow> lowest_score scores \<noteq> highest_score scores \<longrightarrow>
      sint (ns_Score (NormalizeScore scores ! i)) = 0 \<and> sint (ns_Score (NormalizeScore scores ! j)) = 100"
proof -
  let ?lo = "sint (lowest_score scores)" and ?hi = "sint (highest_score scores)"
  note s = NormalizeScore_sint [OF assms]
  have bounds: "?lo \<le> sint (ns_Score (scores ! i))" "sint (ns_Score (scores ! i)) \<le> ?hi" "?lo \<le> ?hi"
    if "i < length scores" for i
  proof -
    from that have "scores \<noteq> []" by auto
    note hl = highest_lowest [OF assms this]
    show "?lo \<le> sint (ns_Score (scores ! i))" "sint (ns_Score (scores ! i)) \<le> ?hi"
      using hl(3,4) that by simp_all
    then show "?lo \<le> ?hi" by simp
  qed
  show "map ns_Name (NormalizeScore scores) = map ns_Name scores"
    by (simp add: NormalizeScore_def Let_def comp_def)
  show "\<forall>x \<in> set (NormalizeScore scores). MinNodeScore \<le>s ns_Score x \<and> ns_Score x \<le>s MaxNodeScore"
  proof
    fix x assume "x \<in> set (NormalizeScore scores)"
    then obtain i where i: "i < length scores" and x: "x = NormalizeScore scores ! i"
      by (auto simp: in_set_conv_nth NormalizeScore_def Let_def)
    have "norm_score ?lo ?hi ?lo \<le> norm_score ?lo ?hi (sint (ns_Score (scores ! i)))"
      "norm_score ?lo ?hi (sint (ns_Score (scores ! i))) \<le> norm_score ?lo ?hi ?hi"
      using bounds [OF i] by (simp_all add: norm_score_mono)
    moreover have "0 \<le> norm_score ?lo ?hi ?lo" "norm_score ?lo ?hi ?hi \<le> 100"
      using norm_score_ends [of ?lo ?hi] bounds(3) [OF i] by (cases "?lo = ?hi"; simp add: norm_score_def)+
    ultimately show "MinNodeScore \<le>s ns_Score x \<and> ns_Score x \<le>s MaxNodeScore"
      using s [OF i] x by (simp add: word_sle_eq)
  qed
  show "\<forall>i < length scores. \<forall>j < length scores. ns_Score (scores ! i) \<le>s ns_Score (scores ! j) \<longrightarrow>
      ns_Score (NormalizeScore scores ! i) \<le>s ns_Score (NormalizeScore scores ! j)"
    using bounds(3) by (auto simp: word_sle_eq s intro!: norm_score_mono)
  show "\<forall>i < length scores. \<forall>j < length scores. ns_Score (scores ! i) = lowest_score scores \<longrightarrow>
      ns_Score (scores ! j) = highest_score scores \<longrightarrow> lowest_score scores \<noteq> highest_score scores \<longrightarrow>
      sint (ns_Score (NormalizeScore scores ! i)) = 0 \<and> sint (ns_Score (NormalizeScore scores ! j)) = 100"
  proof (intro allI impI)
    fix i j
    assume ij: "i < length scores" "j < length scores" and lo: "ns_Score (scores ! i) = lowest_score scores"
      and hi: "ns_Score (scores ! j) = highest_score scores" and ne: "lowest_score scores \<noteq> highest_score scores"
    have "?lo < ?hi" using bounds(3) [OF ij(1)] ne by (metis order_less_le signed_word_eqI)
    then show "sint (ns_Score (NormalizeScore scores ! i)) = 0 \<and> sint (ns_Score (NormalizeScore scores ! j)) = 100"
      using s [OF ij(1)] s [OF ij(2)] lo hi by (simp add: norm_score_ends)
  qed
qed

section \<open>Properties\<close>

text \<open>C13: \<open>NormalizeScore\<close> maps raw scores up to \<open>2 ^ 56\<close> into the framework's range 0 to 100 and keeps
  the nodes as they are.\<close>

theorem NormalizeScore_range:
  assumes "\<forall>x \<in> set scores. raw_ok (ns_Score x)"
  shows "map ns_Name (NormalizeScore scores) = map ns_Name scores \<and>
    (\<forall>x \<in> set (NormalizeScore scores). MinNodeScore \<le>s ns_Score x \<and> ns_Score x \<le>s MaxNodeScore)"
  using NormalizeScore_facts(1,2) [OF assms] by blast

definition ex_scores :: "NodeScore list" where
  "ex_scores = [\<lparr>ns_Name = ''a'', ns_Score = 17\<rparr>, \<lparr>ns_Name = ''b'', ns_Score = 3\<rparr>]"

lemma NormalizeScore_range_witness: "map ns_Name (NormalizeScore ex_scores) = [''a'', ''b'']"
  using NormalizeScore_range [of ex_scores] by (simp add: ex_scores_def raw_ok_def word_sle_eq)

text \<open>\<open>NormalizeScore\<close> keeps the order of the nodes: a node with no smaller raw score gets no smaller
  score, and when raw scores differ the best node gets 100 and the worst 0.\<close>

theorem NormalizeScore_order:
  assumes "\<forall>x \<in> set scores. raw_ok (ns_Score x)" and "i < length scores" and "j < length scores"
  shows "(ns_Score (scores ! i) \<le>s ns_Score (scores ! j) \<longrightarrow>
       ns_Score (NormalizeScore scores ! i) \<le>s ns_Score (NormalizeScore scores ! j)) \<and>
     (ns_Score (scores ! i) = lowest_score scores \<and> ns_Score (scores ! j) = highest_score scores \<and>
        lowest_score scores \<noteq> highest_score scores \<longrightarrow>
        sint (ns_Score (NormalizeScore scores ! i)) = 0 \<and> sint (ns_Score (NormalizeScore scores ! j)) = 100)"
  using NormalizeScore_facts(3,4) [OF assms(1)] assms(2,3) by blast

lemma NormalizeScore_order_witness:
  "ns_Score (NormalizeScore ex_scores ! 1) \<le>s ns_Score (NormalizeScore ex_scores ! 0)"
  using NormalizeScore_order [of ex_scores 1 0] by (simp add: ex_scores_def raw_ok_def word_sle_eq)

end
