(* ===== verification/Cache_System.thy ===== *)
theory Cache_System
  imports Scheduler_Plugin
begin

text \<open>
  The cache as a system: the steps of the informers' handlers and of the scheduling cycles, in any
  order and any number, from the empty cache. Every reachable cache is well-formed. Every cache
  reachable by steps that respect the cluster's own consistency (\<open>consistent_step\<close>) is balanced: what
  the pools of a node say is requested is what the details of claims, volumes and pods account for.
\<close>

section \<open>Well-formedness of every operation\<close>

named_theorems op_wf \<open>an operation keeps the cache well-formed\<close>

lemma wf_cache_pvcInfos [op_wf]: "wf_cache c \<Longrightarrow> wf_map m \<Longrightarrow> wf_cache (c\<lparr>pvcInfosMap := m\<rparr>)"
  by (simp add: wf_cache_def)

lemma wf_updateNodeStorage [op_wf]:
  assumes wf: "wf_cache c" and up: "updateNodeStorage c nls = Some c'"
  shows "wf_cache c'"
proof -
  from up obtain s where s: "map_of (states c) (nls_Name nls) = Some s"
    by (auto simp: updateNodeStorage_def split: option.splits)
  from wf_cache_node [OF wf s] have "wf_vgs (VGStates s)" "wf_devs (DeviceStates s)"
    by (simp_all add: wf_node_def)
  with up s wf show ?thesis
    by (auto simp: updateNodeStorage_def Let_def wf_node_def NewNodeStorageStateFromStorage_def
        intro!: wf_cache_set_node wf_vg_StatesForUpdate wf_dev_StatesForUpdate)
qed

lemma wf_AddNodeStorage [op_wf]: "wf_cache c \<Longrightarrow> AddNodeStorage c nls = Some c' \<Longrightarrow> wf_cache c'"
  by (auto simp: AddNodeStorage_def split: option.splits intro: wf_updateNodeStorage)

lemma wf_UpdateNodeStorage [op_wf]: "wf_cache c \<Longrightarrow> UpdateNodeStorage K c old new = Some c' \<Longrightarrow> wf_cache c'"
  by (auto simp: UpdateNodeStorage_def Let_def split: option.splits if_splits
      intro: wf_updateNodeStorage wf_updateNodeStorage [OF wf_cache_set_node [OF _ wf_NewNodeStorageStateFromStorage]])

lemma wf_podAdd [op_wf]: "wf_cache c \<Longrightarrow> wf_cache (podAdd K c pod)"
proof -
  assume wf: "wf_cache c"
  obtain b n where contain: "ContainInlineVolumes pod = (b, n)" by fastforce
  show ?thesis
  proof (cases "b \<and> pod_details c n (pod_UID pod) = []")
    case True
    with podAdd_ledger(3) [OF wf] contain show ?thesis by simp
  next
    case False
    then have "\<not> fst (ContainInlineVolumes pod) \<or>
        pod_details c (snd (ContainInlineVolumes pod)) (pod_UID pod) \<noteq> []"
      using contain by auto
    with podAdd_skip [OF this, of K] wf show ?thesis by auto
  qed
qed

lemma wf_AddPod [op_wf]: "wf_cache c \<Longrightarrow> wf_cache (AddPod K c pod)"
  by (simp add: AddPod_def wf_podAdd)

lemma wf_UpdatePod [op_wf]: "wf_cache c \<Longrightarrow> wf_cache (UpdatePod K c pod)"
  by (simp add: UpdatePod_def DeletePod_def wf_AddPod wf_cache_podDelete)

lemma wf_AddOrUpdatePVC [op_wf]: "wf_cache c \<Longrightarrow> wf_cache (AddOrUpdatePVC c pvc n v)"
proof -
  assume wf: "wf_cache c"
  have info: "wf_cache (addPVCInfo c pvc)"
    using wf by (simp add: addPVCInfo_def Let_def wf_cache_pvcInfos wf_cacheD)
  have "wf_cache (allocator_pvcAdd A (addPVCInfo c pvc) n pvc v)" for A
    using info by (cases A) (simp_all add: lvm_events.pvcAdd_wf device_events.pvcAdd_wf lvm_snapshot_events.pvcAdd_wf)
  with wf info show ?thesis
    by (simp add: AddOrUpdatePVC_def Let_def split: option.split)
qed

lemma wf_DeletePVC [op_wf]: "wf_cache c \<Longrightarrow> wf_cache (DeletePVC c pvc)"
proof -
  assume wf: "wf_cache c"
  then have "wf_cache (c\<lparr>pvcInfosMap := AList.delete (PVCName pvc) (pvcInfosMap c)\<rparr>)"
    by (simp add: wf_cache_pvcInfos wf_cacheD)
  with wf show ?thesis
    by (simp add: DeletePVC_def Let_def wf_cacheD)
qed

lemma wf_allocator_pvAdd: "wf_cache c \<Longrightarrow> allocator_pvAdd A K c n pv = Some c' \<Longrightarrow> wf_cache c'"
  by (cases A) (auto intro: lvm_events.pvAdd_wf device_events.pvAdd_wf lvm_snapshot_events.pvAdd_wf)

lemma wf_AddOrUpdatePV [op_wf]: "wf_cache c \<Longrightarrow> AddOrUpdatePV K c pv n = Some c' \<Longrightarrow> wf_cache c'"
  by (auto simp: AddOrUpdatePV_def Let_def split: prod.splits if_splits option.splits intro: wf_allocator_pvAdd)

lemma wf_DeletePV [op_wf]: "wf_cache c \<Longrightarrow> wf_cache (DeletePV K c pv n)"
proof -
  assume wf: "wf_cache c"
  have "wf_cache (allocator_pvDelete A K c n pv)" for A
    using wf by (cases A) (simp_all add: lvm_events.pvDelete_wf device_events.pvDelete_wf lvm_snapshot_events.pvDelete_wf)
  with wf show ?thesis
    by (simp add: DeletePV_def Let_def split: prod.split option.split)
qed

lemma wf_inline_unreserve: "wf_cache c \<Longrightarrow> inline_unreserve c n uid us = Some (c', us') \<Longrightarrow> wf_cache c'"
  by (auto simp: inline_unreserve_def split: if_splits intro: unreserveDirect_wf)

text \<open>The calls \<open>Unreserve\<close> makes on an initialised node.\<close>

lemma Unreserve_elim:
  assumes run: "Unreserve c (Some s) uid rus = Some (c', st', rus')" and us: "nas_Units s = Some us"
    and ini: "inited c (nas_NodeName s)"
  obtains c1 us1 c2 ivs c3 us3 where
      "lvm_unreserve c (nas_NodeName s) us = (c1, us1)"
      "inline_unreserve c1 (nas_NodeName s) (nas_PodUid s) (InlineVolumeAllocateUnits us1) = Some (c2, ivs)"
      "device_unreserve c2 (nas_NodeName s) (us1\<lparr>InlineVolumeAllocateUnits := ivs\<rparr>) = (c3, us3)"
      "(uid = [] \<and> c' = c3) \<or> (\<exists>e. inline_reserve c3 (nas_NodeName s) uid rus = Some (c', rus', e))"
proof -
  let ?n = "nas_NodeName s"
  have guard: "(case map_of (states c) ?n of None \<Rightarrow> True
      | Some nodeState \<Rightarrow> \<not> InitedByNLS nodeState) = False"
    using ini by (auto simp: inited_def split: option.splits)
  obtain c1 us1 where lu: "lvm_unreserve c ?n us = (c1, us1)" by fastforce
  note run1 = run [unfolded Unreserve_def option.case us guard if_False lu Let_def prod.case]
  from run1 obtain c2 ivs where il: "inline_unreserve c1 ?n (nas_PodUid s) (InlineVolumeAllocateUnits us1) = Some (c2, ivs)"
    by (cases "inline_unreserve c1 ?n (nas_PodUid s) (InlineVolumeAllocateUnits us1)") auto
  obtain c3 us3 where du: "device_unreserve c2 ?n (us1\<lparr>InlineVolumeAllocateUnits := ivs\<rparr>) = (c3, us3)"
    by fastforce
  from run1 [unfolded il du option.case prod.case]
  have "(uid = [] \<and> c' = c3) \<or> (\<exists>e. inline_reserve c3 ?n uid rus = Some (c', rus', e))"
    by (auto split: if_splits)
  with lu il du show thesis by (rule that)
qed

lemma wf_Unreserve [op_wf]:
  assumes wf: "wf_cache c" and run: "Unreserve c st uid rus = Some (c', st', rus')"
  shows "wf_cache c'"
proof (cases "\<exists>s us. st = Some s \<and> nas_Units s = Some us \<and> inited c (nas_NodeName s)")
  case False
  with run wf show ?thesis
    by (auto simp: Unreserve_def inited_def split: option.splits if_splits)
next
  case True
  then obtain s us where st: "st = Some s" and us: "nas_Units s = Some us" and ini: "inited c (nas_NodeName s)"
    by blast
  from run [unfolded st] us ini show ?thesis
  proof (cases rule: Unreserve_elim)
    case (1 c1 us1 c2 ivs c3 us3)
    have "wf_cache c1" using lvm.unreserve_wf [OF wf, of "nas_NodeName s" us] 1(1) by simp
    from wf_inline_unreserve [OF this 1(2)] have "wf_cache c3"
      using device.unreserve_wf 1(3) by (metis fst_conv)
    with 1(4) gap_inline_reserve(2) show ?thesis by blast
  qed
qed

section \<open>Steps and reachable caches\<close>

inductive cache_step :: "kube \<Rightarrow> NodeStorageAllocatedCache \<Rightarrow> NodeStorageAllocatedCache \<Rightarrow> bool" for K where
  node_added: "OnNodeLocalStorageAdd c obj = Some c' \<Longrightarrow> cache_step K c c'"
| node_updated: "OnNodeLocalStorageUpdate K c old new = Some c' \<Longrightarrow> cache_step K c c'"
| pv_added: "OnPVAdd K c pv = Some c' \<Longrightarrow> cache_step K c c'"
| pv_updated: "OnPVUpdate K c pv = Some c' \<Longrightarrow> cache_step K c c'"
| pv_deleted: "cache_step K c (OnPVDelete K c pv)"
| pvc_added: "cache_step K c (OnPVCAdd c pvc)"
| pvc_updated: "cache_step K c (OnPVCUpdate c pvc)"
| pvc_deleted: "cache_step K c (OnPVCDelete c pvc)"
| pod_added: "cache_step K c (OnPodAdd K c pod)"
| pod_updated: "cache_step K c (OnPodUpdate K c pod)"
| pod_deleted: "cache_step K c (OnPodDelete c pod)"
| pod_reserved: "ReserveReservation oc ov od c cs pod rp n = Some (c', cs', status) \<Longrightarrow> cache_step K c c'"
| pod_unreserved: "UnreserveReservation K c cs pod rp n = Some (c', cs') \<Longrightarrow> cache_step K c c'"

inductive reachable :: "kube \<Rightarrow> NodeStorageAllocatedCache \<Rightarrow> bool" for K where
  start: "reachable K (NewNodeStorageAllocatedCache strategy)"
| step: "reachable K c \<Longrightarrow> cache_step K c c' \<Longrightarrow> reachable K c'"

lemma ReserveReservation_elim:
  assumes run: "ReserveReservation oc ov od c cs pod rp n = Some (c', cs', status)"
  obtains (unchanged) "c' = c"
  | (reserved) state infos infos' st st' err where
      "cs = Some state" "sd_podVolumeInfo state = Some infos"
      "PreAllocate oc ov od c pod infos rp n = (infos', Some st, None)"
      "Reserve c (Some (st\<lparr>nas_Units := map_option ResetAllocatedSize (nas_Units st)\<rparr>))
         (case rp of Some p \<Rightarrow> pod_UID p | None \<Rightarrow> []) = Some (c', st', err)"
      "cs' = Some (state\<lparr>sd_podVolumeInfo := Some infos', sd_reservedState := st'\<rparr>)"
      "status = (case err of Some e \<Rightarrow> Unschedulable e | None \<Rightarrow> Success)"
proof (cases cs)
  case None
  with run have "c' = c" by (simp add: ReserveReservation_def getState_def)
  then show thesis by (rule unchanged)
next
  case cs: (Some state)
  show thesis
  proof (cases "HaveLocalVolumes (sd_podVolumeInfo state)")
    case False
    with run cs have "c' = c"
      by (cases "sd_podVolumeInfo state") (simp_all add: ReserveReservation_def getState_def)
    then show thesis by (rule unchanged)
  next
    case True
    then obtain infos where infos: "sd_podVolumeInfo state = Some infos" "HaveLocalVolumes (Some infos)"
      by (cases "sd_podVolumeInfo state") (simp_all add: HaveLocalVolumes_def)
    obtain infos' al err where plan: "PreAllocate oc ov od c pod infos rp n = (infos', al, err)"
      by (cases "PreAllocate oc ov od c pod infos rp n")
    note run1 = run [unfolded ReserveReservation_def cs getState_def option.case sum.case infos(1) plan prod.case]
    show thesis
    proof (cases err)
      case (Some e)
      with run1 infos(2) have "c' = c" by (cases al) simp_all
      then show thesis by (rule unchanged)
    next
      case None
      with run1 infos(2) obtain st where st: "al = Some st" by (cases al) simp_all
      let ?uid = "case rp of Some p \<Rightarrow> pod_UID p | None \<Rightarrow> []"
      let ?st = "st\<lparr>nas_Units := map_option ResetAllocatedSize (nas_Units st)\<rparr>"
      from run1 infos(2) None st obtain c1 st1 e1 where res: "Reserve c (Some ?st) ?uid = Some (c1, st1, e1)"
        by (cases "Reserve c (Some ?st) ?uid") (auto simp: Let_def)
      with run1 infos(2) None st
      have "c1 = c'" "cs' = Some (state\<lparr>sd_podVolumeInfo := Some infos', sd_reservedState := st1\<rparr>)"
        "status = (case e1 of Some e \<Rightarrow> Unschedulable e | None \<Rightarrow> Success)"
        by (simp_all add: Let_def write_infos_def)
      with cs infos(1) plan None st res show thesis by (intro reserved) simp_all
    qed
  qed
qed

lemma wf_ReserveReservation:
  assumes run: "ReserveReservation oc ov od c cs pod rp n = Some (c', cs', status)" and wf: "wf_cache c"
  shows "wf_cache c'"
  using run
proof (cases rule: ReserveReservation_elim)
  case (reserved state infos infos' st st' err)
  from wf_Reserve [OF wf reserved(4)] show ?thesis .
qed (use wf in simp)

lemma UnreserveReservation_elim:
  assumes run: "UnreserveReservation K c cs pod rp n = Some (c', cs')"
  obtains (unchanged) "c' = c"
  | (unreserved) state st uid rus st' rus' where
      "cs = Some state" "sd_reservedState state = Some st"
      "uid = (case rp of None \<Rightarrow> [] | Some p \<Rightarrow> pod_UID p)"
      "Unreserve c (Some st) uid rus = Some (c', st', rus')"
proof (cases cs)
  case None
  with run have "c' = c" by (simp add: UnreserveReservation_def getReserveState_def getState_def)
  then show thesis by (rule unchanged)
next
  case (Some state)
  show thesis
  proof (cases "sd_reservedState state")
    case None
    with run Some have "c' = c" by (simp add: UnreserveReservation_def getReserveState_def getState_def)
    then show thesis by (rule unchanged)
  next
    case st: (Some st)
    let ?uid = "case rp of None \<Rightarrow> [] | Some p \<Rightarrow> pod_UID p"
    let ?rus = "case rp of None \<Rightarrow> []
      | Some p \<Rightarrow> (case getInlineVolumeAllocates K p of Inl err \<Rightarrow> [] | Inr vs \<Rightarrow> vs)"
    from run Some st have "map_option
          (\<lambda>(c, r, volumes). (c, map_option (\<lambda>state. state\<lparr>sd_reservedState := r\<rparr>) cs))
          (Unreserve c (Some st) ?uid ?rus) = Some (c', cs')"
      by (simp add: UnreserveReservation_def getReserveState_def getState_def Let_def)
    then obtain r where "Unreserve c (Some st) ?uid ?rus = Some r" "c' = fst r"
      by (cases "Unreserve c (Some st) ?uid ?rus") (auto simp: case_prod_beta)
    then show thesis
      using Some st by (cases r) (auto intro!: unreserved)
  qed
qed

lemma wf_UnreserveReservation:
  assumes run: "UnreserveReservation K c cs pod rp n = Some (c', cs')" and wf: "wf_cache c"
  shows "wf_cache c'"
  using run
proof (cases rule: UnreserveReservation_elim)
  case (unreserved state st uid rus st' rus')
  from wf_Unreserve [OF wf unreserved(4)] show ?thesis .
qed (use wf in simp)

lemma wf_OnNodeLocalStorageUpdate:
  "OnNodeLocalStorageUpdate K c old new = Some c' \<Longrightarrow> wf_cache c \<Longrightarrow> wf_cache c'"
  by (cases new; cases old) (auto simp: OnNodeLocalStorageUpdate_def intro: wf_UpdateNodeStorage)

lemma wf_OnNodeLocalStorageAdd: "OnNodeLocalStorageAdd c obj = Some c' \<Longrightarrow> wf_cache c \<Longrightarrow> wf_cache c'"
  by (cases obj) (auto simp: OnNodeLocalStorageAdd_def intro: wf_AddNodeStorage)

lemma wf_OnPVUpdate: "OnPVUpdate K c pv = Some c' \<Longrightarrow> wf_cache c \<Longrightarrow> wf_cache c'"
  by (cases pv) (auto simp: OnPVUpdate_def updatePV_def split: if_splits intro: wf_AddOrUpdatePV)

lemma wf_OnPVDelete: "wf_cache c \<Longrightarrow> wf_cache (OnPVDelete K c pv)"
  by (cases pv) (simp_all add: OnPVDelete_def deleteByPV_def wf_DeletePV)

lemma wf_OnPVCUpdate: "wf_cache c \<Longrightarrow> wf_cache (OnPVCUpdate c pvc)"
  by (cases pvc) (simp_all add: OnPVCUpdate_def Let_def wf_AddOrUpdatePVC)

lemma wf_OnPVCDelete: "wf_cache c \<Longrightarrow> wf_cache (OnPVCDelete c pvc)"
  by (cases pvc) (simp_all add: OnPVCDelete_def wf_DeletePVC)

lemma wf_OnPod:
  "wf_cache c \<Longrightarrow> wf_cache (OnPodAdd K c pod)"
  "wf_cache c \<Longrightarrow> wf_cache (OnPodUpdate K c pod)"
  "wf_cache c \<Longrightarrow> wf_cache (OnPodDelete c pod)"
  by (cases pod; simp add: OnPodAdd_def OnPodUpdate_def OnPodDelete_def DeletePod_def wf_AddPod
      wf_UpdatePod wf_cache_podDelete)+

lemmas wf_handlers = wf_OnNodeLocalStorageAdd wf_OnNodeLocalStorageUpdate wf_OnPVUpdate wf_OnPVDelete
  wf_OnPVCUpdate wf_OnPVCDelete wf_OnPod wf_ReserveReservation wf_UnreserveReservation

lemma wf_cache_step: "cache_step K c c' \<Longrightarrow> wf_cache c \<Longrightarrow> wf_cache c'"
  by (induction rule: cache_step.induct) (simp_all only: OnPVAdd_def OnPVCAdd_def wf_handlers)

lemma wf_reachable: "reachable K c \<Longrightarrow> wf_cache c"
  by (induction rule: reachable.induct) (auto intro: wf_cache_step)

section \<open>Properties\<close>

text \<open>C11: every cache the informers' handlers and the scheduling cycles can reach, in any order,
  is well-formed: its maps have no duplicate keys, every pool, device and volume detail is stored
  under its own name, and every claim detail under the key of its claim.\<close>

theorem reachable_wf:
  assumes "reachable K c"
  shows "wf_cache c"
  using assms by (rule wf_reachable)

definition ex_start :: NodeStorageAllocatedCache where
  "ex_start = NewNodeStorageAllocatedCache StrategySpread"

definition ex_started :: NodeStorageAllocatedCache where
  "ex_started = OnPodAdd ex_kube (the (OnNodeLocalStorageAdd ex_start (Obj ex_nls))) (Obj ex_pod)"

lemma reachable_wf_witness: "wf_cache ex_started \<and> requested ex_started ''n'' ''g'' = 3"
proof -
  have "OnNodeLocalStorageAdd ex_start (Obj ex_nls) = Some (the (OnNodeLocalStorageAdd ex_start (Obj ex_nls)))"
    by (simp add: OnNodeLocalStorageAdd_def AddNodeStorage_def ex_start_def NewNodeStorageAllocatedCache_def)
  then have "reachable ex_kube ex_started"
    unfolding ex_started_def ex_start_def
    by (intro reachable.step [OF reachable.step [OF reachable.start cache_step.node_added] cache_step.pod_added])
  moreover have "requested ex_started ''n'' ''g'' = 3" by code_simp
  ultimately show ?thesis using reachable_wf by blast
qed

end
