(* ===== verification/Accounting.thy ===== *)
theory Accounting
  imports Cache_System Rollback
begin

text \<open>
  The ledger as an invariant of the running scheduler. \<open>accounted_step\<close> is a step of the cache under
  the assumptions the code makes about the cluster: a volume keeps its node and its group, a
  reservation is moved to the volume before the volume or the claim goes away, a volume group in use
  does not vanish, and the pods name the groups of their inline volumes. From the empty cache, every
  sequence of such steps leaves what the pools say is requested equal to what the details account
  for. The last section gives the steps that break the balance when an assumption fails.
\<close>

section \<open>Node events\<close>

lemma gap_zero_iff: "gap c n v = 0 \<longleftrightarrow> requested c n v = charged c n v"
  by (simp add: gap_def)

lemma has_vg_set_node:
  "has_vg (set_node m s c) n v = (if n = m then map_of (VGStates s) v \<noteq> None else has_vg c n v)"
  by (simp add: has_vg_def)

text \<open>Every volume group in use is still there afterwards.\<close>

definition groups_stay :: "NodeStorageAllocatedCache \<Rightarrow> NodeStorageAllocatedCache \<Rightarrow> bool" where
  "groups_stay c c' \<longleftrightarrow> (\<forall>n v. requested c n v \<noteq> 0 \<longrightarrow> has_vg c' n v)"

lemma new_vg_Requested: "map_of (vg_CreateStatesByNodeLocal nls) k = Some vg \<Longrightarrow> vg_Requested vg = 0"
  by (auto simp: map_of_vg_CreateStatesByNodeLocal NewVGStateFromVGInfo_def split: if_splits)

lemma node_requested_new [ledger_simps]: "node_requested (NewNodeStorageStateFromStorage nls) v = 0"
  by (auto simp: node_requested_def entry_def NewNodeStorageStateFromStorage_def new_vg_Requested
      split: option.split)

lemma requested_updateNodeStorage:
  assumes wf: "wf_cache c" and up: "updateNodeStorage c nls = Some c'"
  shows "requested c' n v = (if has_vg c' n v then requested c n v else if n = nls_Name nls then 0 else requested c n v)"
    and "charged c' n v = charged c n v"
proof -
  from up obtain s where s: "map_of (states c) (nls_Name nls) = Some s"
    by (auto simp: updateNodeStorage_def split: option.splits)
  let ?vgs = "vg_StatesForUpdate (VGStates s) (vg_CreateStatesByNodeLocal nls)"
  have vgs: "wf_vgs (VGStates s)" using wf_cache_vgs [OF wf s] .
  from up s obtain s' where c': "c' = set_node (nls_Name nls) s' c" and s': "VGStates s' = ?vgs"
    by (auto simp: updateNodeStorage_def Let_def NewNodeStorageStateFromStorage_def)
  show "charged c' n v = charged c n v"
    by (simp add: c' ledger_simps)
  have "node_requested s' v = (if map_of ?vgs v = None then 0 else node_requested s v)"
    using map_of_vg_StatesForUpdate [OF vgs, of "vg_CreateStatesByNodeLocal nls" v]
    by (auto simp: node_requested_def entry_def s' vg_UpdateByNLS_def new_vg_Requested split: option.splits)
  then show "requested c' n v =
      (if has_vg c' n v then requested c n v else if n = nls_Name nls then 0 else requested c n v)"
    using s s' by (auto simp: c' ledger_simps requested_def [of c] has_vg_set_node)
qed

lemma gap_updateNodeStorage:
  assumes wf: "wf_cache c" and up: "updateNodeStorage c nls = Some c'" and stay: "groups_stay c c'"
  shows "gap c' n v = gap c n v"
  using requested_updateNodeStorage [OF wf up] stay by (auto simp: gap_def groups_stay_def)

lemma gap_new_node:
  "map_of (states c) (nls_Name nls) = None \<Longrightarrow>
     gap (set_node (nls_Name nls) (NewNodeStorageStateFromStorage nls) c) n v = gap c n v"
  by (auto simp: gap_def ledger_simps requested_def [of c])

lemma gap_AddNodeStorage:
  assumes "wf_cache c" and "AddNodeStorage c nls = Some c'" and "groups_stay c c'"
  shows "gap c' n v = gap c n v"
  using assms gap_new_node
  by (auto simp: AddNodeStorage_def intro: gap_updateNodeStorage split: option.splits)

lemma gap_UpdateNodeStorage:
  assumes wf: "wf_cache c" and up: "UpdateNodeStorage K c old new = Some c'" and stay: "groups_stay c c'"
  shows "gap c' n v = gap c n v"
proof (cases "map_of (states c) (nls_Name new)")
  case None
  let ?c = "set_node (nls_Name new) (NewNodeStorageStateFromStorage new) c"
  have "requested ?c n v = requested c n v" for n v
    using None by (auto simp: ledger_simps requested_def [of c])
  with stay have "groups_stay ?c c'" by (simp add: groups_stay_def)
  moreover have "wf_cache ?c" using wf by simp
  ultimately have "updateNodeStorage ?c new = Some c' \<Longrightarrow> gap c' n v = gap ?c n v"
    by (simp add: gap_updateNodeStorage)
  with None up gap_new_node [OF None] show ?thesis
    by (auto simp: UpdateNodeStorage_def Let_def split: if_splits)
next
  case (Some s)
  with up wf stay show ?thesis
    by (auto simp: UpdateNodeStorage_def Let_def intro: gap_updateNodeStorage split: if_splits)
qed

section \<open>Volume and claim events\<close>

text \<open>
  What the details must say when a volume is written: it is recorded on this node and, for LVM, in
  this group, and the reservation of its claim is on this node.
\<close>

definition pv_consistent :: "kube \<Rightarrow> NodeStorageAllocatedCache \<Rightarrow> PersistentVolume \<Rightarrow> string \<Rightarrow> bool" where
  "pv_consistent K c pv n \<longleftrightarrow> pv_Name pv \<noteq> [] \<and>
     (case getAllocatorByVolumeType (snd (IsOpenLocalPV pv)) of
        Some LvmCommonPVAllocator \<Rightarrow>
          pv_on_node n c (pv_Name pv) \<and>
          (\<forall>vg. lvm_pvAdd_vgName K c pv = Some (Some vg) \<longrightarrow> pv_in_vg vg c (pv_Name pv)) \<and>
          (\<forall>ns name. pv_ClaimRef pv = Some (ns, name) \<longrightarrow> pvc_on_node n c ns name)
      | Some DevicePVAllocator \<Rightarrow>
          (\<forall>d. GetByPV (pvAllocatedDetails c) (pv_Name pv) = Some d \<longrightarrow> GetVolumeType d = VolumeTypeDevice)
      | _ \<Rightarrow> True)"

text \<open>When a volume is deleted, the reservation of its claim has been moved to it.\<close>

definition pv_settled :: "kube \<Rightarrow> NodeStorageAllocatedCache \<Rightarrow> PersistentVolume \<Rightarrow> string \<Rightarrow> bool" where
  "pv_settled K c pv n \<longleftrightarrow> pv_Name pv \<noteq> [] \<and>
     (\<forall>d. GetByPV (pvAllocatedDetails c) (pv_Name pv) = Some d \<longrightarrow>
        GetByPVC (pvAllocatedDetails c) (pa_PVCNamespace (GetBasePVAllocated d))
          (pa_PVCName (GetBasePVAllocated d)) = None) \<and>
     (case getAllocatorByVolumeType (snd (IsOpenLocalPV pv)) of
        Some LvmCommonPVAllocator \<Rightarrow>
          pv_on_node n c (pv_Name pv) \<and> pv_in_vg (GetVGNameFromCsiPV K pv) c (pv_Name pv)
      | Some DevicePVAllocator \<Rightarrow>
          (\<forall>d. GetByPV (pvAllocatedDetails c) (pv_Name pv) = Some d \<longrightarrow> GetVolumeType d = VolumeTypeDevice)
      | _ \<Rightarrow> True)"

text \<open>When a claim is deleted, no LVM reservation is held for it.\<close>

definition claim_settled :: "NodeStorageAllocatedCache \<Rightarrow> PersistentVolumeClaim \<Rightarrow> bool" where
  "claim_settled c pvc \<longleftrightarrow>
     (case map_of (pvcAllocated (pvAllocatedDetails c)) (PVCName pvc) of
        Some (LVMDetail _) \<Rightarrow> False | _ \<Rightarrow> True)"

lemma getAllocatorByVolumeType_cases:
  assumes "getAllocatorByVolumeType t = Some A"
  obtains "A = LvmCommonPVAllocator" | "A = DevicePVAllocator"
  using assms by (auto simp: getAllocatorByVolumeType_def split: if_splits)

lemma gap_AddOrUpdatePV:
  assumes wf: "wf_cache c" and add: "AddOrUpdatePV K c pv n = Some c'" and ok: "pv_consistent K c pv n"
  shows "gap c' m v = gap c m v"
proof (cases "c' = c")
  case False
  with add obtain A where A: "getAllocatorByVolumeType (snd (IsOpenLocalPV pv)) = Some A"
      and run: "allocator_pvAdd A K c n pv = Some c'"
    by (auto simp: AddOrUpdatePV_def Let_def split: prod.splits if_splits option.splits)
  from A show ?thesis
  proof (cases rule: getAllocatorByVolumeType_cases)
    case 1
    with ok A run show ?thesis
      by (intro gap_lvm_pvAdd [OF wf, of K n pv]) (simp_all add: pv_consistent_def)
  next
    case 2
    with ok A run show ?thesis
      by (intro gap_device_pvUpdate [OF wf, of K n pv]) (simp_all add: pv_consistent_def device_pvAdd_def)
  qed
qed simp

lemma gap_DeletePV:
  assumes wf: "wf_cache c" and ok: "pv_settled K c pv n"
  shows "gap (DeletePV K c pv n) m v = gap c m v"
proof (cases "DeletePV K c pv n = c")
  case False
  then obtain A where A: "getAllocatorByVolumeType (snd (IsOpenLocalPV pv)) = Some A"
      and run: "DeletePV K c pv n = allocator_pvDelete A K c n pv"
    by (auto simp: DeletePV_def Let_def split: prod.splits if_splits option.splits)
  from A show ?thesis
  proof (cases rule: getAllocatorByVolumeType_cases)
    case 1
    with ok A show ?thesis
      unfolding run by (simp add: pv_settled_def gap_lvm_pvDelete [OF wf])
  next
    case 2
    with ok A show ?thesis
      unfolding run by (simp add: pv_settled_def gap_device_pvDelete [OF wf])
  qed
qed simp

lemma gap_addPVCInfo [simp]: "gap (addPVCInfo c pvc) m v = gap c m v"
  by (simp add: addPVCInfo_def Let_def gap_def requested_def charged_def)

lemma addPVCInfo_details [simp]: "pvAllocatedDetails (addPVCInfo c pvc) = pvAllocatedDetails c"
  by (simp add: addPVCInfo_def Let_def)

lemma gap_AddOrUpdatePVC:
  assumes wf: "wf_cache c" and ok: "pv_on_node n c v"
  shows "gap (AddOrUpdatePVC c pvc n v) m w = gap c m w"
proof -
  let ?c = "addPVCInfo c pvc"
  have wf1: "wf_cache ?c"
    using wf by (simp add: addPVCInfo_def Let_def wf_cache_pvcInfos wf_cacheD)
  have "pv_on_node n ?c v" using ok by (simp add: pv_on_node_def)
  with gap_lvm_pvcAdd [OF wf1] gap_device_pvcAdd [OF wf1]
  have "gap (allocator_pvcAdd A ?c n pvc v) m w = gap c m w" for A
    by (cases A) (simp_all add: snapshot_pvcAdd_def)
  then show ?thesis
    by (simp add: AddOrUpdatePVC_def Let_def split: option.split)
qed

lemma gap_DeletePVC:
  assumes wf: "wf_cache c"
  shows "gap (DeletePVC c pvc) n v =
     gap c n v + entry (lvm_charge n v) (pvcAllocated (pvAllocatedDetails c)) (PVCName pvc)"
proof -
  let ?c = "c\<lparr>pvcInfosMap := AList.delete (PVCName pvc) (pvcInfosMap c)\<rparr>"
  have "requested ?c n v = requested c n v" "charged ?c n v = charged c n v"
    "pvAllocatedDetails ?c = pvAllocatedDetails c"
    by (simp_all add: requested_def charged_def)
  with wf show ?thesis
    by (simp add: DeletePVC_def Let_def gap_def ledger_simps wf_cacheD)
qed

lemma claim_settled_charge:
  "claim_settled c pvc \<Longrightarrow> entry (lvm_charge n v) (pvcAllocated (pvAllocatedDetails c)) (PVCName pvc) = 0"
  by (auto simp: claim_settled_def entry_def split: option.splits PVAllocated.splits)

section \<open>Pod events\<close>

text \<open>Every inline volume of the pod names a volume group.\<close>

definition pod_parses :: "kube \<Rightarrow> Pod \<Rightarrow> bool" where
  "pod_parses K pod \<longleftrightarrow> (\<exists>us. inline_units K pod (pod_Volumes pod) [] = Inr us)"

text \<open>The groups of the pod's recorded inline volumes are known.\<close>

definition pod_groups_known :: "NodeStorageAllocatedCache \<Rightarrow> Pod \<Rightarrow> bool" where
  "pod_groups_known c pod \<longleftrightarrow>
     (\<forall>d \<in> set (pod_details c (pod_NodeName pod) (pod_UID pod)). has_vg c (pod_NodeName pod) (iv_VgName d))"

lemma ContainInlineVolumes_cases:
  obtains (none) "ContainInlineVolumes pod = (False, [])"
  | (inline) "ContainInlineVolumes pod = (True, pod_NodeName pod)"
  by (cases "list_ex is_local_inline (pod_Volumes pod)") (simp_all add: ContainInlineVolumes_def)

lemma gap_podAdd:
  assumes wf: "wf_cache c" and ok: "pod_parses K pod"
  shows "gap (podAdd K c pod) m v = gap c m v"
proof (cases "fst (ContainInlineVolumes pod) \<and>
    pod_details c (snd (ContainInlineVolumes pod)) (pod_UID pod) = []")
  case True
  obtain n where contain: "ContainInlineVolumes pod = (True, n)"
    using True by (cases "ContainInlineVolumes pod") auto
  from ok obtain us where us: "inline_units K pod (pod_Volumes pod) [] = Inr us"
    by (auto simp: pod_parses_def)
  from True contain have fresh: "pod_details c n (pod_UID pod) = []" by simp
  from podAdd_ledger(1,2) [OF wf contain fresh, of K m v] inline_units_charged_before [OF us] us
  show ?thesis by (simp add: gap_def)
next
  case False
  then have "\<not> fst (ContainInlineVolumes pod) \<or>
      pod_details c (snd (ContainInlineVolumes pod)) (pod_UID pod) \<noteq> []" by blast
  from podAdd_skip [OF this, of K] show ?thesis by auto
qed

lemma gap_DeletePod:
  assumes wf: "wf_cache c" and ok: "pod_groups_known c pod"
  shows "gap (DeletePod c pod) m v = gap c m v"
proof (cases rule: ContainInlineVolumes_cases [of pod])
  case none
  then show ?thesis by (simp add: DeletePod_def podDelete_def)
next
  case inline
  with gap_podDelete [OF wf this] ok show ?thesis
    by (simp add: DeletePod_def pod_groups_known_def)
qed

section \<open>Scheduling\<close>

lemma ResetAllocatedSize_ok [simp]:
  "lvm_ok n (ResetAllocatedSize us) = lvm_ok n us" "device_ok n (ResetAllocatedSize us) = device_ok n us"
  by (simp_all add: lvm_ok_def device_ok_def ResetAllocatedSize_def lvm_unit_ok_def device_unit_ok_def)

definition reset_state :: "NodeAllocateState \<Rightarrow> NodeAllocateState" where
  "reset_state st = st\<lparr>nas_Units := map_option ResetAllocatedSize (nas_Units st)\<rparr>"

lemma gap_Reserve_plan:
  assumes wf: "wf_cache c" and claims: "named_claims infos"
    and plan: "PreAllocate oc ov od c0 pod infos None n = (infos', Some st, err)"
    and run: "Reserve c (Some (reset_state st)) [] = Some (c', st', e)"
  shows "gap c' m v = gap c m v"
proof (cases "nas_Units st")
  case None
  with run show ?thesis by (simp add: Reserve_def reset_state_def)
next
  case (Some us)
  note ok = plan_units_ok [OF plan claims Some]
  from Some ok show ?thesis
    by (intro gap_Reserve [OF wf run, of "ResetAllocatedSize us"]) (simp_all add: reset_state_def)
qed

text \<open>
  What the details must say when a reservation is taken back: the claims of the units are reserved
  on this node, and the inline volumes of the pod were recorded by \<open>Reserve\<close>.
\<close>

definition reservation_known :: "NodeStorageAllocatedCache \<Rightarrow> NodeAllocateState \<Rightarrow> bool" where
  "reservation_known c st \<longleftrightarrow>
     (case nas_Units st of
        None \<Rightarrow> True
      | Some us \<Rightarrow> lvm_held c (nas_NodeName st) us \<and> reservation_exact c (nas_NodeName st) (nas_PodUid st))"

lemma gap_Unreserve:
  assumes wf: "wf_cache c" and known: "reservation_known c st"
    and run: "Unreserve c (Some st) uid rus = Some (c', st', rus')"
  shows "gap c' m v = gap c m v"
proof (cases "\<exists>us. nas_Units st = Some us \<and> inited c (nas_NodeName st)")
  case False
  with run have "c' = c"
    by (auto simp: Unreserve_def inited_def split: option.splits if_splits)
  then show ?thesis by simp
next
  case True
  then obtain us where us: "nas_Units st = Some us" and ini: "inited c (nas_NodeName st)" by blast
  let ?n = "nas_NodeName st"
  from known us have held: "lvm_held c ?n us" and ex: "reservation_exact c ?n (nas_PodUid st)"
    by (simp_all add: reservation_known_def)
  from run us ini show ?thesis
  proof (cases rule: Unreserve_elim)
    case (1 c1 us1 c2 ivs c3 us3)
    have 2: "gap c1 m v = gap c m v" "wf_cache c1"
      using lvm.unreserve_gap [OF wf held, of m v] lvm.unreserve_wf [OF wf, of ?n us] 1(1) by simp_all
    have frame: "reservation_exact c1 ?n (nas_PodUid st)" "inited c1 ?n"
      using lvm_unreserve_frame(1-3) [of c ?n us] 1(1) ex ini by (simp_all add: reservation_exact_def)
    have 3: "gap c2 m v = gap c1 m v"
      using 1(2) gap_unreserve_exact(1) [OF 2(2) frame(2,1)] by (auto simp: inline_unreserve_def split: if_splits)
    note wf2 = wf_inline_unreserve [OF 2(2) 1(2)]
    have 4: "gap c3 m v = gap c2 m v" "wf_cache c3"
      using device.unreserve_gap [OF wf2, of ?n _ m v] device.unreserve_wf [OF wf2] 1(3) by (metis fst_conv)+
    have "gap c' m v = gap c3 m v"
      using 1(4) gap_inline_reserve(1) [OF _ 4(2)] by auto
    with 2 3 4 show ?thesis by simp
  qed
qed

section \<open>The invariant\<close>

inductive accounted_step :: "kube \<Rightarrow> NodeStorageAllocatedCache \<Rightarrow> NodeStorageAllocatedCache \<Rightarrow> bool" for K where
  node_added: "AddNodeStorage c nls = Some c' \<Longrightarrow> groups_stay c c' \<Longrightarrow> accounted_step K c c'"
| node_updated: "UpdateNodeStorage K c old new = Some c' \<Longrightarrow> groups_stay c c' \<Longrightarrow> accounted_step K c c'"
| pv_written: "AddOrUpdatePV K c pv n = Some c' \<Longrightarrow> pv_consistent K c pv n \<Longrightarrow> accounted_step K c c'"
| pv_deleted: "pv_settled K c pv n \<Longrightarrow> accounted_step K c (DeletePV K c pv n)"
| pvc_written: "pv_on_node n c v \<Longrightarrow> accounted_step K c (AddOrUpdatePVC c pvc n v)"
| pvc_deleted: "claim_settled c pvc \<Longrightarrow> accounted_step K c (DeletePVC c pvc)"
| pod_added: "pod_parses K pod \<Longrightarrow> accounted_step K c (AddPod K c pod)"
| pod_deleted: "pod_groups_known c pod \<Longrightarrow> accounted_step K c (DeletePod c pod)"
| pod_updated: "pod_parses K pod \<Longrightarrow> pod_groups_known c pod \<Longrightarrow> accounted_step K c (UpdatePod K c pod)"
| reserved: "PreAllocate oc ov od c0 pod infos None n = (infos', Some st, err) \<Longrightarrow> named_claims infos \<Longrightarrow>
    Reserve c (Some (reset_state st)) [] = Some (c', st', e) \<Longrightarrow> accounted_step K c c'"
| unreserved: "reservation_known c st \<Longrightarrow> Unreserve c (Some st) uid rus = Some (c', st', rus') \<Longrightarrow>
    accounted_step K c c'"

inductive accounted :: "kube \<Rightarrow> NodeStorageAllocatedCache \<Rightarrow> bool" for K where
  start: "accounted K (NewNodeStorageAllocatedCache strategy)"
| step: "accounted K c \<Longrightarrow> accounted_step K c c' \<Longrightarrow> accounted K c'"

lemma accounted_step_wf:
  assumes "accounted_step K c c'" and wf: "wf_cache c"
  shows "wf_cache c'"
  using assms(1)
proof cases
  case (reserved oc ov od c0 pod infos n infos' st err st' e)
  then show ?thesis using wf_Reserve [OF wf] by blast
qed (use wf in \<open>auto intro: op_wf simp: DeletePod_def wf_cache_podDelete\<close>)

lemma accounted_step_gap:
  assumes "accounted_step K c c'" and wf: "wf_cache c"
  shows "gap c' n v = gap c n v"
  using assms(1)
proof cases
  case pvc_deleted
  then show ?thesis by (simp add: gap_DeletePVC [OF wf] claim_settled_charge)
next
  case pod_updated
  then show ?thesis using wf by (simp add: UpdatePod_def AddPod_def gap_podAdd gap_DeletePod)
next
  case reserved
  then show ?thesis using gap_Reserve_plan [OF wf] by blast
qed (use wf in \<open>auto simp: AddPod_def intro: gap_AddNodeStorage gap_UpdateNodeStorage gap_AddOrUpdatePV
      gap_DeletePV gap_AddOrUpdatePVC gap_podAdd gap_DeletePod gap_Unreserve\<close>)

lemma accounted_facts: "accounted K c \<Longrightarrow> wf_cache c \<and> gap c n v = 0"
proof (induction rule: accounted.induct)
  case (start strategy)
  then show ?case
    by (simp only: wf_cache_New simp_thms)
      (simp add: gap_def requested_def charged_def NewNodeStorageAllocatedCache_def details_charge_def
        NewPVAllocatedDetails_def inline_charge_def map_total_def)
next
  case (step c c')
  then show ?case using accounted_step_gap accounted_step_wf by simp
qed

section \<open>Properties\<close>

text \<open>C3: whatever sequence of node, volume, claim and pod events, reservations and roll-backs the
  cache has seen, as long as each respects the assumptions named in \<open>accounted_step\<close>: for every node
  and volume group, the requested size in the pool is exactly what the details of claims, volumes and
  pods account for, and the cache is well-formed.\<close>

theorem accounted_balanced:
  assumes "accounted K c"
  shows "wf_cache c \<and> requested c n v = charged c n v"
  using accounted_facts [OF assms, of n v] by (simp add: gap_zero_iff)

definition ex_run1 :: NodeStorageAllocatedCache where
  "ex_run1 = the (AddNodeStorage (NewNodeStorageAllocatedCache StrategyBinpack) ex_nls)"

definition ex_run2 :: NodeStorageAllocatedCache where
  "ex_run2 = AddPod ex_kube ex_run1 ex_pod"

lemma accounted_ex_run2: "accounted ex_kube ex_run2"
proof -
  have "accounted ex_kube ex_run1"
  proof (rule accounted.step [OF accounted.start accounted_step.node_added])
    show "AddNodeStorage (NewNodeStorageAllocatedCache StrategyBinpack) ex_nls = Some ex_run1"
      by (simp add: ex_run1_def AddNodeStorage_def NewNodeStorageAllocatedCache_def)
  qed (simp add: groups_stay_def requested_def NewNodeStorageAllocatedCache_def)
  moreover have "pod_parses ex_kube ex_pod"
  proof -
    have "case inline_units ex_kube ex_pod (pod_Volumes ex_pod) [] of Inr _ \<Rightarrow> True | Inl _ \<Rightarrow> False"
      by code_simp
    then show ?thesis by (auto simp: pod_parses_def split: sum.splits)
  qed
  ultimately show ?thesis
    unfolding ex_run2_def by (rule accounted.step [OF _ accounted_step.pod_added])
qed

lemma accounted_balanced_witness:
  "charged ex_run2 ''n'' ''g'' = 3 \<and> requested ex_run2 ''n'' ''g'' = 3"
proof -
  have "requested ex_run2 ''n'' ''g'' = 3" by code_simp
  with accounted_balanced [OF accounted_ex_run2, of "''n''" "''g''"] show ?thesis by simp
qed

section \<open>Steps that break the balance\<close>

text \<open>Deleting a claim for which the scheduler still holds an LVM reservation drops the
  reservation but keeps its size in the pool: the volume group stays charged for nothing.\<close>

theorem DeletePVC_leaks:
  assumes "wf_cache c"
    and "map_of (pvcAllocated (pvAllocatedDetails c)) (PVCName pvc) = Some (LVMDetail l)"
  shows "requested (DeletePVC c pvc) n v = requested c n v \<and>
    charged (DeletePVC c pvc) n v =
      charged c n v - (if pa_NodeName l = n \<and> pa_VGName l = v then pa_Allocated l else 0)"
proof -
  have "requested (DeletePVC c pvc) n v = requested c n v"
    by (simp add: DeletePVC_def Let_def requested_def)
  with gap_DeletePVC [OF assms(1), of pvc n v] assms(2) show ?thesis
    by (auto simp: gap_def entry_def algebra_simps)
qed

definition ex_held :: NodeStorageAllocatedCache where
  "ex_held = ex_store\<lparr>states := [(''n'', ex_node\<lparr>VGStates := [(''g'', (ex_vg ''g'' 10)\<lparr>vg_Requested := 5\<rparr>)]\<rparr>)],
     pvAllocatedDetails := \<lparr>pvcAllocated = [(GetNameKey ''ns'' ''p'',
         LVMDetail ((ex_lvm_unit ''p'' ''g'' 5)\<lparr>pa_Allocated := 5\<rparr>))], pvAllocated = []\<rparr>\<rparr>"

lemma wf_ex_held: "wf_cache ex_held"
  by (simp add: wf_cache_def wf_node_def wf_vgs_def wf_devs_def wf_details_def list_all_iff ex_defs ex_held_def)

lemma DeletePVC_leaks_witness:
  "charged ex_held ''n'' ''g'' = 5 \<and> requested (DeletePVC ex_held (ex_pvc ''p'' 5)) ''n'' ''g'' = 5 \<and>
   charged (DeletePVC ex_held (ex_pvc ''p'' 5)) ''n'' ''g'' = 0"
proof -
  have held: "map_of (pvcAllocated (pvAllocatedDetails ex_held)) (PVCName (ex_pvc ''p'' 5)) =
      Some (LVMDetail ((ex_lvm_unit ''p'' ''g'' 5)\<lparr>pa_Allocated := 5\<rparr>))"
    by code_simp
  have now: "charged ex_held ''n'' ''g'' = 5" "requested ex_held ''n'' ''g'' = 5" by code_simp+
  from DeletePVC_leaks [OF wf_ex_held held, of "''n''" "''g''"] now show ?thesis
    by (simp add: ex_lvm_unit_def)
qed

text \<open>A pod event whose inline volumes cannot all be parsed charges the volumes before the
  broken one and records nothing, so the pool drifts from the details, once per event.\<close>

theorem AddPod_leaks:
  assumes "wf_cache c" and "IsPodNeedAllocate pod" and "ContainInlineVolumes pod = (True, n)"
    and "pod_details c n (pod_UID pod) = []"
    and "inline_units K pod (pod_Volumes pod) [] = Inl e"
  shows "requested (AddPod K c pod) n v = requested c n v + pod_charge v (charged_before K pod (pod_Volumes pod)) \<and>
    charged (AddPod K c pod) n v = charged c n v \<and> pod_details (AddPod K c pod) n (pod_UID pod) = []"
proof -
  from podAdd_ledger(1,2) [OF assms(1,3,4), of K n v] assms(2,5)
  have "requested (AddPod K c pod) n v = requested c n v + pod_charge v (charged_before K pod (pod_Volumes pod))"
    "charged (AddPod K c pod) n v = charged c n v"
    by (simp_all add: AddPod_def)
  moreover have "pod_details (AddPod K c pod) n (pod_UID pod) = []"
  proof -
    let ?c = "fst (initIfNeedAndGetNodeStoragePool (init_node_inline n c) n)"
    have "snd (podAdd_loop K pod n (pod_Volumes pod) ?c []) = None"
      using podAdd_loop_details [of K pod n "pod_Volumes pod" ?c "[]"] assms(5) by simp
    moreover have "\<not> (case getPodInlineVolumeDetails (init_node_inline n c) n (pod_UID pod) of
        Some ds \<Rightarrow> length ds > 0 | None \<Rightarrow> False)"
      using assms(4) init_node_inline_frame(5) [of n c n "pod_UID pod"]
      by (auto simp: pod_details_def split: option.splits)
    ultimately have "AddPod K c pod = fst (podAdd_loop K pod n (pod_Volumes pod) ?c [])"
      using assms(2,3) by (auto simp: AddPod_def podAdd_def Let_def split: prod.splits option.splits)
    moreover have "pod_details (fst (podAdd_loop K pod n (pod_Volumes pod) ?c [])) n (pod_UID pod) = []"
      using assms(4) init_pool_frame(4) [of "init_node_inline n c" n n "pod_UID pod"]
      by (simp add: pod_details_def getPodInlineVolumeDetails_def init_pool_frame inline_podAdd_loop
          init_node_inline_def go_map_simps split: option.splits if_splits)
    ultimately show ?thesis by simp
  qed
  ultimately show ?thesis by blast
qed

definition ex_broken_pod :: Pod where
  "ex_broken_pod = ex_pod\<lparr>pod_Volumes := pod_Volumes ex_pod @
     [\<lparr>vol_Name = ''bad'', vol_CSI = Some \<lparr>csi_Driver = ''local.csi.aliyun.com'', csi_VolumeAttributes = []\<rparr>,
       vol_PVC = None, vol_Ephemeral = None\<rparr>]\<rparr>"

lemma AddPod_leaks_witness:
  "requested ex_store ''n'' ''g'' = 0 \<and> requested (AddPod ex_kube ex_store ex_broken_pod) ''n'' ''g'' = 3 \<and>
   pod_details (AddPod ex_kube ex_store ex_broken_pod) ''n'' ''u'' = []"
proof -
  have "case inline_units ex_kube ex_broken_pod (pod_Volumes ex_broken_pod) [] of Inl _ \<Rightarrow> True | Inr _ \<Rightarrow> False"
    by code_simp
  then obtain e where e: "inline_units ex_kube ex_broken_pod (pod_Volumes ex_broken_pod) [] = Inl e"
    by (auto split: sum.splits)
  have 1: "IsPodNeedAllocate ex_broken_pod" "ContainInlineVolumes ex_broken_pod = (True, ''n'')"
    "pod_details ex_store ''n'' (pod_UID ex_broken_pod) = []" "pod_UID ex_broken_pod = ''u''"
    "requested ex_store ''n'' ''g'' = 0"
    "pod_charge ''g'' (charged_before ex_kube ex_broken_pod (pod_Volumes ex_broken_pod)) = 3"
    by code_simp+
  from AddPod_leaks [OF wf_ex_store 1(1-3) e, of "''g''"] 1(4-6) show ?thesis by simp
qed

end
