(* ===== verification/Reserve_Facts.thy ===== *)
theory Reserve_Facts
  imports Admission Accounting
begin

text \<open>
  What \<open>Reserve\<close> and \<open>Unreserve\<close> promise on every branch: they never dereference a nil pointer,
  a node without a \<open>NodeLocalStorage\<close> refuses the reservation and nothing changes, no branch
  over-commits a volume group, and a reservation that succeeds is recorded and charged unit by unit.
\<close>

section \<open>Totality\<close>

lemma device_unreserve_nodes:
  "(map_of (states (fst (device_unreserve_loop n c us))) m = None) = (map_of (states c) m = None)"
proof (induction us arbitrary: c)
  case (Cons u us)
  have "(map_of (states (revertDeviceForState c n d)) m = None) = (map_of (states c) m = None)" for c d
    by (simp add: revertDeviceForState_def split: option.split)
  then have "(map_of (states (revertDeviceByPVCIfNeed c n ns name)) m = None) = (map_of (states c) m = None)" for ns name
    by (cases rule: revertDeviceByPVC_cases [of c n ns name]) simp_all
  with Cons show ?case by (simp add: Let_def case_prod_beta)
qed simp

lemma lvm_unreserve_nodes:
  "(map_of (states (fst (lvm_unreserve_loop n c us))) m = None) = (map_of (states c) m = None)"
proof (induction us arbitrary: c)
  case (Cons u us)
  have "(map_of (states (charge_vg k v d c)) m = None) = (map_of (states c) m = None)" for c k v d
    by (simp add: charge_vg_def split: option.split)
  then have "(map_of (states (lvm_revertIfNeed c n ns name)) m = None) = (map_of (states c) m = None)" for ns name
    by (cases rule: lvm_revertIfNeed_cases [of c n ns name]) simp_all
  with Cons show ?case by (simp add: Let_def case_prod_beta)
qed simp

lemma unreserve_nodes:
  "(map_of (states (fst (lvm_unreserve c n us))) m = None) = (map_of (states c) m = None)"
  "(map_of (states (fst (device_unreserve c n us))) m = None) = (map_of (states c) m = None)"
  using lvm_unreserve_nodes [of n c "LVMPVCAllocateUnits us" m]
    device_unreserve_nodes [of n c "DevicePVCAllocateUnits us" m]
  by (simp_all add: lvm_unreserve_def device_unreserve_def case_prod_beta)

lemma Reserve_returns: "Reserve c st uid \<noteq> None"
proof (cases "\<exists>s us. st = Some s \<and> nas_Units s = Some us")
  case True
  then obtain s us where st: "st = Some s" "nas_Units s = Some us" by blast
  from Reserve_total [OF st(2)] obtain r where "Reserve c (Some s) uid = Some r" by blast
  then show ?thesis by (simp add: st(1))
next
  case False
  then show ?thesis by (auto simp: Reserve_def split: option.splits)
qed

lemma Unreserve_returns: "Unreserve c st uid rus \<noteq> None"
proof (cases "\<exists>s us. st = Some s \<and> nas_Units s = Some us \<and> inited c (nas_NodeName s)")
  case False
  then show ?thesis by (auto simp: Unreserve_def inited_def split: option.splits if_splits)
next
  case True
  then obtain s us where st: "st = Some s" "nas_Units s = Some us" and ini: "inited c (nas_NodeName s)" by blast
  let ?n = "nas_NodeName s"
  have guard: "(case map_of (states c) ?n of None \<Rightarrow> True
      | Some nodeState \<Rightarrow> \<not> InitedByNLS nodeState) = False"
    using ini by (auto simp: inited_def split: option.splits)
  obtain c1 us1 where lu: "lvm_unreserve c ?n us = (c1, us1)" by fastforce
  have ini1: "inited c1 ?n"
    using lvm_unreserve_frame(3) [of c ?n us ?n] lu ini by simp
  then have n1: "map_of (states c1) ?n \<noteq> None"
    by (auto simp: inited_def split: option.splits)
  obtain c2 ivs where il: "inline_unreserve c1 ?n (nas_PodUid s) (InlineVolumeAllocateUnits us1) = Some (c2, ivs)"
      and n2: "map_of (states c2) ?n \<noteq> None"
  proof (cases "InlineVolumeAllocateUnits us1 = []")
    case True
    with that n1 show thesis by (simp add: inline_unreserve_def)
  next
    case False
    from unreserveDirect_total [OF ini1] obtain c2 where un: "unreserveDirect c1 ?n (nas_PodUid s) = Some c2"
      by fastforce
    with unreserveDirect_nodes [OF un, of ?n] n1 False that show thesis
      by (simp add: inline_unreserve_def)
  qed
  obtain c3 us3 where du: "device_unreserve c2 ?n (us1\<lparr>InlineVolumeAllocateUnits := ivs\<rparr>) = (c3, us3)"
    by fastforce
  have n3: "map_of (states c3) ?n \<noteq> None"
    using unreserve_nodes(2) [of c2 ?n "us1\<lparr>InlineVolumeAllocateUnits := ivs\<rparr>" ?n] n2 du by simp
  from inline_reserve_total [OF n3, of uid rus] obtain r where "inline_reserve c3 ?n uid rus = Some r" by blast
  then show ?thesis
    unfolding Unreserve_def st option.case st guard if_False lu Let_def prod.case il du
    by (simp add: split_beta)
qed

section \<open>Capacity\<close>

text \<open>Volume groups of at most 4 EiB: the sums in the guards of \<open>reserve\<close> do not overflow.\<close>

definition pools_bounded :: "NodeStorageState \<Rightarrow> bool" where
  "pools_bounded s \<longleftrightarrow> list_all (\<lambda>(k, vg). vg_Allocatable vg \<le>s 2 ^ 62) (VGStates s)"

definition node_safe :: "NodeStorageState \<Rightarrow> bool" where
  "node_safe s \<longleftrightarrow> node_within s \<and> pools_bounded s"

definition cache_within :: "NodeStorageAllocatedCache \<Rightarrow> bool" where
  "cache_within c \<longleftrightarrow> list_all (\<lambda>(n, s). node_safe s) (states c)"

lemma cache_within_node: "cache_within c \<Longrightarrow> map_of (states c) n = Some s \<Longrightarrow> node_safe s"
  by (auto simp: cache_within_def list_all_iff dest: map_of_SomeD)

lemma cache_within_set_node [simp]: "cache_within c \<Longrightarrow> node_safe s \<Longrightarrow> cache_within (set_node n s c)"
  by (simp add: cache_within_def set_node_def list_all_update)

lemma cache_within_frame [simp]:
  "cache_within (set_details l c) = cache_within c"
  "cache_within (set_pod_inline n u ds c) = cache_within c"
  "cache_within (init_node_inline n c) = cache_within c"
  by (simp_all add: cache_within_def set_details_def)

lemma node_safe_set_vg:
  assumes "node_safe s" and "map_of (VGStates s) v = Some vg" and "vg_within (add_Requested d vg)"
  shows "node_safe (set_vg v (add_Requested d vg) s)"
proof -
  have "vg_Allocatable vg \<le>s 2 ^ 62"
    using assms(1,2) by (auto simp: node_safe_def pools_bounded_def list_all_iff dest: map_of_SomeD)
  with assms(1,3) show ?thesis
    by (simp add: node_safe_def node_within_def pools_bounded_def set_vg_def list_all_update)
qed

lemma node_safe_DeviceStates [simp]: "node_safe (s\<lparr>DeviceStates := d\<rparr>) = node_safe s"
  by (simp add: node_safe_def node_within_def pools_bounded_def)

text \<open>The guard of \<open>lvm_reserve\<close>, whose sum is exact for pools and requests of this size.\<close>

lemma lvm_guard_within:
  assumes safe: "node_safe s" and vg: "map_of (VGStates s) v = Some vg" and r: "0 \<le>s r" "r <s 2 ^ 62"
    and guard: "\<not> vg_Allocatable vg <s vg_Requested vg + r"
  shows "vg_within (add_Requested r vg)"
proof -
  from safe vg have w: "vg_within vg" and b: "vg_Allocatable vg \<le>s 2 ^ 62"
    by (auto simp: node_safe_def pools_bounded_def list_all_iff dest: map_of_SomeD node_within_lookup)
  from w have q: "0 \<le> sint (vg_Requested vg)" "sint (vg_Requested vg) \<le> sint (vg_Allocatable vg)"
    by (simp_all add: vg_within_def word_sle_eq)
  moreover have "sint (vg_Allocatable vg) \<le> 2 ^ 62" "0 \<le> sint r" "sint r < 2 ^ 62"
    using b r by (simp_all add: word_sle_eq word_sless_alt)
  ultimately have "sint (vg_Requested vg + r) = sint (vg_Requested vg) + sint r"
    by (intro sint64_add) simp_all
  with guard q \<open>0 \<le> sint r\<close> show ?thesis
    by (simp add: vg_within_def word_sle_eq word_sless_alt)
qed

lemma cache_within_lvm_loop:
  "lvm_reserve_loop n c us = Some (c', us', err) \<Longrightarrow> cache_within c \<Longrightarrow>
     \<forall>u \<in> set us. 0 \<le>s pa_Requested u \<and> pa_Requested u <s 2 ^ 62 \<Longrightarrow> cache_within c'"
proof (induction rule: lvm_reserve_loop_induct)
  case (step c u us c' us' err s vg)
  have safe: "node_safe s" using cache_within_node [OF step.prems(1) step(2)] .
  have "vg_within (add_Requested (pa_Requested u) vg)"
    using lvm_guard_within [OF safe step(3) _ _ step(4)] step.prems(2) by simp
  with node_safe_set_vg [OF safe step(3)] step.prems have "cache_within (lvm_reserve_step n u s vg c)"
    by (simp add: lvm_reserve_step_def)
  with step show ?case by simp
qed simp_all

lemma node_safe_allocateVgState:
  assumes "node_safe s" and "0 \<le>s sz" and "allocateVgState n v s sz = (s', err)"
  shows "node_safe s'"
proof (cases err)
  case None
  with assms(3) have "allocateVgState n v s sz = (s', None)" by simp
  then obtain vg where vg: "map_of (VGStates s) v = Some vg"
      "\<not> vg_Allocatable vg - vg_Requested vg <s sz" "s' = set_vg v (add_Requested sz vg) s"
    by (rule allocateVgState_ok)
  have "vg_within vg" using assms(1) vg(1) by (auto simp: node_safe_def dest: node_within_lookup)
  from node_safe_set_vg [OF assms(1) vg(1) vg_within_add(1) [OF this assms(2) vg(2)]] vg(3)
  show ?thesis by simp
next
  case (Some e)
  with assms allocateVgState_err show ?thesis by fastforce
qed

lemma cache_within_inline_loop:
  "inline_reserve_loop n uid c ds us = Some (c', us', err) \<Longrightarrow> cache_within c \<Longrightarrow>
     \<forall>d \<in> set us. 0 \<le>s iv_VolumeSize d \<Longrightarrow> cache_within c'"
proof (induction us arbitrary: c ds us')
  case (Cons u us)
  from Cons.prems(1) obtain s where s: "map_of (states c) n = Some s"
    by (auto split: option.splits)
  obtain s' e where a: "allocateVgState n (iv_VgName u) s (iv_VolumeSize u) = (s', e)"
    by fastforce
  show ?case
  proof (cases e)
    case (Some err)
    with Cons.prems s a show ?thesis by auto
  next
    case None
    let ?u = "u\<lparr>iv_Allocated := iv_VolumeSize u\<rparr>"
    let ?c = "set_pod_inline n uid (ds @ [?u]) (set_node n s' c)"
    have "cache_within ?c"
      using node_safe_allocateVgState [OF cache_within_node [OF Cons.prems(2) s] _ a] Cons.prems(2,3) by simp
    moreover from Cons.prems(1) s a None obtain us'' where
      "inline_reserve_loop n uid ?c (ds @ [?u]) us = Some (c', us'', err)"
      by (auto simp: Let_def)
    ultimately show ?thesis using Cons.IH Cons.prems(3) by simp
  qed
qed simp

lemma cache_within_device_loop:
  "device_reserve_loop n c us = Some (c', us', err) \<Longrightarrow> cache_within c \<Longrightarrow> cache_within c'"
proof (induction rule: device_reserve_loop_induct)
  case (step c u us c' us' err s d)
  have "node_safe s" using cache_within_node [OF step.prems step(2)] .
  with step show ?case by (simp add: device_reserve_step_def)
qed simp_all

lemma cache_within_stages:
  shows cache_within_lvm: "lvm_reserve c n us = Some (c', us', err) \<Longrightarrow> cache_within c \<Longrightarrow>
      \<forall>u \<in> set (LVMPVCAllocateUnits us). 0 \<le>s pa_Requested u \<and> pa_Requested u <s 2 ^ 62 \<Longrightarrow> cache_within c'"
    and cache_within_inline: "inline_reserve c n uid ivs = Some (c', ivs', err) \<Longrightarrow> cache_within c \<Longrightarrow>
      \<forall>d \<in> set ivs. 0 \<le>s iv_VolumeSize d \<Longrightarrow> cache_within c'"
    and cache_within_device: "device_reserve c n us = Some (c', us', err) \<Longrightarrow> cache_within c \<Longrightarrow> cache_within c'"
  by (auto simp: lvm_reserve_def inline_reserve_def device_reserve_def Let_def split: if_splits
      dest: cache_within_lvm_loop cache_within_inline_loop cache_within_device_loop)

text \<open>What giving back the inline volumes of a reservation pod needs: their sizes are not negative, and no group of the node
  has less requested than they hold of it. It holds when the groups are charged with what is recorded.\<close>

definition pod_holds :: "string \<Rightarrow> InlineVolumeAllocated list \<Rightarrow> int" where
  "pod_holds v ds = (\<Sum>d \<leftarrow> ds. if iv_VgName d = v then sint (iv_Allocated d) else 0)"

definition given_back_fits :: "NodeStorageAllocatedCache \<Rightarrow> string \<Rightarrow> string \<Rightarrow> bool" where
  "given_back_fits c n uid \<longleftrightarrow>
     (\<forall>d \<in> set (pod_details c n uid). 0 \<le>s iv_Allocated d \<and>
        (has_vg c n (iv_VgName d) \<longrightarrow>
           pod_holds (iv_VgName d) (pod_details c n uid) \<le> sint (requested c n (iv_VgName d))))"

lemma pod_holds_nonneg: "\<forall>d \<in> set ds. 0 \<le>s iv_Allocated d \<Longrightarrow> 0 \<le> pod_holds v ds"
  by (induction ds) (auto simp: pod_holds_def word_sle_eq)

lemma pod_holds_Cons: "pod_holds v (d # ds) = (if iv_VgName d = v then sint (iv_Allocated d) else 0) + pod_holds v ds"
  by (simp add: pod_holds_def)

lemma vg_within_give_back:
  assumes "vg_within vg" "0 \<le>s r" "sint r \<le> sint (vg_Requested vg)"
  shows "vg_within (add_Requested (- r) vg)" "sint (vg_Requested (add_Requested (- r) vg)) = sint (vg_Requested vg) - sint r"
proof -
  have "sint (vg_Requested vg - r) = sint (vg_Requested vg) - sint r"
    using assms sint64_diff_nonneg [of "vg_Requested vg" r] by (simp add: vg_within_def word_sle_eq)
  then show "sint (vg_Requested (add_Requested (- r) vg)) = sint (vg_Requested vg) - sint r"
    and "vg_within (add_Requested (- r) vg)"
    using assms by (simp_all add: vg_within_def word_sle_eq)
qed

lemma node_safe_revertInline:
  assumes "node_safe s" "\<forall>d \<in> set ds. 0 \<le>s iv_Allocated d"
    and "\<And>v vg. v \<in> iv_VgName ` set ds \<Longrightarrow> map_of (VGStates s) v = Some vg \<Longrightarrow> pod_holds v ds \<le> sint (vg_Requested vg)"
  shows "node_safe (revertInlineVolumesStorage ds s)"
  using assms
proof (induction ds arbitrary: s)
  case Nil
  then show ?case by (simp add: revertInlineVolumesStorage_def)
next
  case (Cons d ds)
  note rest = pod_holds_nonneg [of ds] Cons.prems(2)
  show ?case
  proof (cases "map_of (VGStates s) (iv_VgName d)")
    case None
    have "pod_holds v ds \<le> sint (vg_Requested vg)"
      if "v \<in> iv_VgName ` set ds" "map_of (VGStates s) v = Some vg" for v vg
      using Cons.prems(3) [of v vg] that None by (cases "iv_VgName d = v") (auto simp: pod_holds_Cons)
    with Cons.IH [of s] Cons.prems(1,2) None show ?thesis by (simp add: revertInlineVolumesStorage_def)
  next
    case (Some vg)
    have "vg_within vg" using Cons.prems(1) Some by (auto simp: node_safe_def dest: node_within_lookup)
    moreover have h: "sint (iv_Allocated d) + pod_holds (iv_VgName d) ds \<le> sint (vg_Requested vg)"
      using Cons.prems(3) [OF _ Some] by (simp add: pod_holds_Cons)
    moreover have "0 \<le> pod_holds (iv_VgName d) ds" using rest by simp
    ultimately have w: "vg_within (add_Requested (- iv_Allocated d) vg)"
        "sint (vg_Requested (add_Requested (- iv_Allocated d) vg)) = sint (vg_Requested vg) - sint (iv_Allocated d)"
      using vg_within_give_back [of vg "iv_Allocated d"] Cons.prems(2) by simp_all
    let ?s = "set_vg (iv_VgName d) (add_Requested (- iv_Allocated d) vg) s"
    have "node_safe ?s" using node_safe_set_vg [OF Cons.prems(1) Some w(1)] .
    moreover have "pod_holds v ds \<le> sint (vg_Requested vg')"
      if "v \<in> iv_VgName ` set ds" "map_of (VGStates ?s) v = Some vg'" for v vg'
    proof (cases "v = iv_VgName d")
      case True
      with that h w(2) show ?thesis by (simp add: set_vg_def update_conv' del: add_Requested_def)
    next
      case False
      with that Cons.prems(3) [of v vg'] show ?thesis by (simp add: set_vg_def update_conv' pod_holds_Cons)
    qed
    ultimately show ?thesis
      using Cons.IH [of ?s] Cons.prems(2) Some by (simp add: revertInlineVolumesStorage_def)
  qed
qed

lemma cache_within_unreserveDirect:
  assumes un: "unreserveDirect c n uid = Some c'" and safe: "cache_within c" and fits: "given_back_fits c n uid"
  shows "cache_within c'"
proof (cases "map_of (states c) n")
  case None
  with un safe show ?thesis by (auto simp: unreserveDirect_def split: option.splits if_splits)
next
  case (Some s)
  have "node_safe (revertInlineVolumesStorage (pod_details c n uid) s)"
  proof (rule node_safe_revertInline [OF cache_within_node [OF safe Some]])
    show "\<forall>d \<in> set (pod_details c n uid). 0 \<le>s iv_Allocated d" using fits by (simp add: given_back_fits_def)
    show "pod_holds v (pod_details c n uid) \<le> sint (vg_Requested vg)"
      if "v \<in> iv_VgName ` set (pod_details c n uid)" "map_of (VGStates s) v = Some vg" for v vg
      using that fits Some
      by (auto simp: given_back_fits_def has_vg_def requested_def node_requested_def entry_def split: option.splits)
  qed
  with un safe unreserveDirect_Some [OF Some, of uid] show ?thesis by (auto split: if_splits)
qed

lemma cache_within_Reserve:
  assumes run: "Reserve c (Some st) uid = Some (c', st', err)" and us: "nas_Units st = Some us"
    and safe: "cache_within c"
    and fits: "uid \<noteq> [] \<Longrightarrow> given_back_fits c (nas_NodeName st) uid"
    and lvm: "\<forall>u \<in> set (LVMPVCAllocateUnits us). 0 \<le>s pa_Requested u \<and> pa_Requested u <s 2 ^ 62"
    and inl: "\<forall>d \<in> set (InlineVolumeAllocateUnits us). 0 \<le>s iv_VolumeSize d"
  shows "cache_within c'"
proof (cases "inited c (nas_NodeName st)")
  case False
  from Reserve_not_inited [OF us this, of uid] run safe show ?thesis by auto
next
  case True
  have given: "cache_within c0" if "(if uid \<noteq> [] then unreserveDirect c (nas_NodeName st) uid else Some c) = Some c0" for c0
    using that safe fits cache_within_unreserveDirect by (auto split: if_splits)
  from run us True show ?thesis
  proof (cases rule: Reserve_elim)
    case lvm_fails
    with cache_within_lvm given lvm show ?thesis by fastforce
  next
    case (inline_fails c0 c1 us1 ivs e)
    then have "cache_within c1" using cache_within_lvm given lvm by fastforce
    with cache_within_inline [OF inline_fails(3)] inl show ?thesis by blast
  next
    case (devices c0 c1 us1 c2 ivs us3)
    then have "cache_within c1" using cache_within_lvm given lvm by fastforce
    with cache_within_inline [OF devices(3)] inl cache_within_device [OF devices(4)] show ?thesis by blast
  qed
qed

section \<open>What a reservation records\<close>

lemma inline_reserve_loop_records:
  "inline_reserve_loop n uid c ds us = Some (c', us', None) \<Longrightarrow> pod_details c n uid = ds \<Longrightarrow>
     pod_details c' n uid = ds @ us' \<and> us' = map (\<lambda>d. d\<lparr>iv_Allocated := iv_VolumeSize d\<rparr>) us"
proof (induction us arbitrary: c ds us')
  case (Cons u us)
  from Cons.prems(1) obtain s where s: "map_of (states c) n = Some s"
    by (auto split: option.splits)
  obtain s' e where a: "allocateVgState n (iv_VgName u) s (iv_VolumeSize u) = (s', e)"
    by fastforce
  with Cons.prems(1) s have e: "e = None" by (cases e) auto
  let ?u = "u\<lparr>iv_Allocated := iv_VolumeSize u\<rparr>"
  from Cons.prems(1) s a e obtain us'' where run: "us' = ?u # us''"
    "inline_reserve_loop n uid (set_pod_inline n uid (ds @ [?u]) (set_node n s' c)) (ds @ [?u]) us = Some (c', us'', None)"
    by (auto simp: Let_def)
  from Cons.IH [OF run(2)] run(1) show ?case by simp
qed simp

lemma inline_reserve_records:
  assumes run: "inline_reserve c n uid us = Some (c', us', None)" and fresh: "pod_details c n uid = []"
  shows "pod_details c' n uid = map (\<lambda>d. d\<lparr>iv_Allocated := iv_VolumeSize d\<rparr>) us"
proof (cases "us = []")
  case True
  with run fresh show ?thesis by (simp add: inline_reserve_def)
next
  case False
  with run have "inline_reserve_loop n uid (init_node_inline n c) [] us = Some (c', us', None)"
    by (simp add: inline_reserve_def Let_def split: if_splits)
  from inline_reserve_loop_records [OF this] fresh show ?thesis by simp
qed

lemma pod_charge_allocated [simp]:
  "pod_charge v (map (\<lambda>d. d\<lparr>iv_Allocated := iv_VolumeSize d\<rparr>) us) = pod_charge v us"
  by (induction us) simp_all

text \<open>The units after the loop: charged in full, or skipped and left alone.\<close>

definition lvm_skipped :: "NodeStorageAllocatedCache \<Rightarrow> LVMPVAllocated \<Rightarrow> bool" where
  "lvm_skipped c u \<longleftrightarrow> GetByPVC (pvAllocatedDetails c) (pa_PVCNamespace u) (pa_PVCName u) \<noteq> None \<or>
     (\<exists>i. map_of (pvcInfosMap c) (unit_key u) = Some i \<and> pi_PVCStatus i = ClaimBound)"

lemma lvm_skipped_step:
  assumes "unit_key w \<noteq> unit_key u"
  shows "lvm_skipped (lvm_reserve_step n u s vg c) w = lvm_skipped c w"
  using assms
  by (simp add: lvm_skipped_def lvm_reserve_step_def GetByPVC_def AssumeByPVC_def Let_def go_map_simps)

lemma lvm_reserve_loop_units:
  assumes "lvm_reserve_loop n c us = Some (c', us', None)" and "distinct (map unit_key us)"
  shows "us' = map (\<lambda>u. if lvm_skipped c u then u else u\<lparr>pa_Allocated := pa_Requested u\<rparr>) us"
  using assms
proof (induction us arbitrary: c us')
  case (Cons u us)
  show ?case
  proof (cases "lvm_skipped c u")
    case True
    then have "lvm_reserve_loop n c (u # us) =
        map_option (\<lambda>(c', us, err). (c', u # us, err)) (lvm_reserve_loop n c us)"
      by (auto simp: lvm_skipped_def Let_def)
    with Cons.prems(1) obtain us'' where "lvm_reserve_loop n c us = Some (c', us'', None)" "us' = u # us''"
      by (auto simp del: lvm_reserve_loop.simps)
    with Cons.IH [OF this(1)] Cons.prems(2) True show ?thesis by simp
  next
    case False
    then have none: "GetByPVC (pvAllocatedDetails c) (pa_PVCNamespace u) (pa_PVCName u) = None"
      "\<not> (case map_of (pvcInfosMap c) (unit_key u) of Some pvcInfo \<Rightarrow> pi_PVCStatus pvcInfo = ClaimBound | None \<Rightarrow> False)"
      by (auto simp: lvm_skipped_def split: option.splits)
    with Cons.prems(1) obtain s vg us'' where
        "lvm_reserve_loop n (lvm_reserve_step n u s vg c) us = Some (c', us'', None)"
        and us': "us' = u\<lparr>pa_Allocated := pa_Requested u\<rparr> # us''"
      by (auto simp: Let_def lvm_reserve_step_def split: option.splits if_splits)
    from Cons.IH [OF this(1)] Cons.prems(2)
    have "us'' = map (\<lambda>w. if lvm_skipped (lvm_reserve_step n u s vg c) w then w
        else w\<lparr>pa_Allocated := pa_Requested w\<rparr>) us" by simp
    moreover have "lvm_skipped (lvm_reserve_step n u s vg c) w = lvm_skipped c w" if "w \<in> set us" for w
    proof (rule lvm_skipped_step)
      have "unit_key w \<in> unit_key ` set us" using that by (rule imageI)
      with Cons.prems(2) show "unit_key w \<noteq> unit_key u" by auto
    qed
    ultimately show ?thesis using us' False by (simp cong: map_cong)
  qed
qed simp

definition lvm_new :: "NodeStorageAllocatedCache \<Rightarrow> NodeAllocateUnits \<Rightarrow> LVMPVAllocated list" where
  "lvm_new c us = filter (\<lambda>u. \<not> lvm_skipped c u) (LVMPVCAllocateUnits us)"

lemma lvm_allocated_units:
  "\<forall>u \<in> set us. pa_Allocated u = 0 \<Longrightarrow>
     lvm_allocated v (map (\<lambda>u. if lvm_skipped c u then u else u\<lparr>pa_Allocated := pa_Requested u\<rparr>) us) =
     lvm_total v (filter (\<lambda>u. \<not> lvm_skipped c u) us)"
  by (induction us) auto

lemma lvm_reserve_records:
  assumes run: "lvm_reserve c n us = Some (c', us', None)"
    and keys: "distinct (map unit_key (LVMPVCAllocateUnits us))"
    and ok: "\<forall>u \<in> set (LVMPVCAllocateUnits us). reservable n u"
  shows "requested c' m v = requested c m v + (if m = n then lvm_total v (lvm_new c us) else 0)"
    and "\<forall>u \<in> set (lvm_new c us). GetByPVC (pvAllocatedDetails c') (pa_PVCNamespace u) (pa_PVCName u) =
      Some (LVMDetail (u\<lparr>pa_Allocated := pa_Requested u\<rparr>))"
    and "inlineVolumeAllocatedDetails c' = inlineVolumeAllocatedDetails c"
proof -
  obtain lus where loop: "lvm_reserve_loop n c (LVMPVCAllocateUnits us) = Some (c', lus, None)"
    using run by (cases rule: lvm_reserve_loopE) auto
  have zero: "\<forall>u \<in> set (LVMPVCAllocateUnits us). pa_Allocated u = 0"
    using ok by (simp add: reservable_def)
  note lus = lvm_reserve_loop_units [OF loop keys]
  show "requested c' m v = requested c m v + (if m = n then lvm_total v (lvm_new c us) else 0)"
    using requested_lvm_reserve_loop [OF loop zero, of m v] lvm_allocated_units [OF zero, of v c]
    by (simp add: lus lvm_new_def)
  show "inlineVolumeAllocatedDetails c' = inlineVolumeAllocatedDetails c"
    using lvm_reserve_loop_inline [OF loop] .
  show "\<forall>u \<in> set (lvm_new c us). GetByPVC (pvAllocatedDetails c') (pa_PVCNamespace u) (pa_PVCName u) =
      Some (LVMDetail (u\<lparr>pa_Allocated := pa_Requested u\<rparr>))"
  proof
    fix u assume "u \<in> set (lvm_new c us)"
    then have u: "u \<in> set (LVMPVCAllocateUnits us)" "\<not> lvm_skipped c u" by (simp_all add: lvm_new_def)
    let ?u = "u\<lparr>pa_Allocated := pa_Requested u\<rparr>"
    have "?u \<in> set lus" using u unfolding lus by force
    moreover have "pa_Allocated ?u \<noteq> 0" using ok u(1) by (auto simp: reservable_def)
    ultimately have "unit_held c' n ?u"
      using lvm_reserve_loop_held [OF loop ok] by blast
    then show "GetByPVC (pvAllocatedDetails c') (pa_PVCNamespace u) (pa_PVCName u) = Some (LVMDetail ?u)"
      by (simp add: unit_held_def)
  qed
qed

lemma Reserve_records_all:
  assumes run: "Reserve c (Some st) [] = Some (c', st', None)" and us: "nas_Units st = Some us"
    and keys: "distinct (map unit_key (LVMPVCAllocateUnits us))"
    and ok: "\<forall>u \<in> set (LVMPVCAllocateUnits us). reservable (nas_NodeName st) u"
    and fresh: "pod_details c (nas_NodeName st) (nas_PodUid st) = []"
  shows "requested c' m v = requested c m v +
      (if m = nas_NodeName st then lvm_total v (lvm_new c us) + pod_charge v (InlineVolumeAllocateUnits us) else 0)"
    and "\<forall>u \<in> set (lvm_new c us). GetByPVC (pvAllocatedDetails c') (pa_PVCNamespace u) (pa_PVCName u) =
      Some (LVMDetail (u\<lparr>pa_Allocated := pa_Requested u\<rparr>))"
    and "pod_details c' (nas_NodeName st) (nas_PodUid st) =
      map (\<lambda>d. d\<lparr>iv_Allocated := iv_VolumeSize d\<rparr>) (InlineVolumeAllocateUnits us)"
proof -
  let ?n = "nas_NodeName st" and ?uid = "nas_PodUid st" and ?ivs = "InlineVolumeAllocateUnits us"
  have ini: "inited c ?n"
    using Reserve_not_inited [OF us, of c "[]"] run by auto
  from run us ini obtain c1 us1 c2 ivs us3 where
      lvm: "lvm_reserve c ?n us = Some (c1, us1, None)"
    and inl: "inline_reserve c1 ?n ?uid ?ivs = Some (c2, ivs, None)"
    and dev: "device_reserve c2 ?n (us1\<lparr>InlineVolumeAllocateUnits := ivs\<rparr>) = Some (c', us3, None)"
    by (cases rule: Reserve_elim) auto
  note l = lvm_reserve_records [OF lvm keys ok]
  have fresh1: "pod_details c1 ?n ?uid = []"
    using fresh l(3) by (metis pod_details_cong)
  note i = inline_reserve_trace [OF inl fresh1] and r = inline_reserve_records [OF inl fresh1]
  have d: "requested c' m v = requested c2 m v" "inlineVolumeAllocatedDetails c' = inlineVolumeAllocatedDetails c2"
    "\<And>ns name x. GetByPVC (pvAllocatedDetails c2) ns name = Some x \<Longrightarrow>
      GetByPVC (pvAllocatedDetails c') ns name = Some x"
    using device_reserve_loopE [OF dev] device_reserve_loop_frame by (metis)+
  show "requested c' m v = requested c m v + (if m = ?n then lvm_total v (lvm_new c us) + pod_charge v ?ivs else 0)"
    using d(1) i(5) [of m v] l(1) [of m v] by (simp add: r)
  show "\<forall>u \<in> set (lvm_new c us). GetByPVC (pvAllocatedDetails c') (pa_PVCNamespace u) (pa_PVCName u) =
      Some (LVMDetail (u\<lparr>pa_Allocated := pa_Requested u\<rparr>))"
    using l(2) d(3) i(1) by simp
  show "pod_details c' ?n ?uid = map (\<lambda>d. d\<lparr>iv_Allocated := iv_VolumeSize d\<rparr>) ?ivs"
    using r d(2) by (metis pod_details_cong)
qed

section \<open>Properties\<close>

text \<open>C10: neither \<open>Reserve\<close> nor \<open>Unreserve\<close> ever panics: whatever the cache, the plan and the
  reservation pod are, both return.\<close>

theorem reservation_never_panics:
  "Reserve c st uid \<noteq> None \<and> Unreserve c st uid rus \<noteq> None"
  using Reserve_returns Unreserve_returns by blast

text \<open>On a node the cache has not been initialised for, \<open>Reserve\<close> returns an error and
  \<open>Unreserve\<close> does nothing; both leave the cache and the units as they were.\<close>

theorem uninitialised_node_refused:
  assumes "nas_Units st = Some us"
    and "\<And>s. map_of (states c) (nas_NodeName st) = Some s \<Longrightarrow> \<not> InitedByNLS s"
  shows "(\<exists>e. Reserve c (Some st) uid = Some (c, Some st, Some e)) \<and>
    Unreserve c (Some st) uid rus = Some (c, Some st, rus)"
proof -
  have "\<not> inited c (nas_NodeName st)"
    using assms(2) by (auto simp: inited_def split: option.splits)
  with Reserve_not_inited [OF assms(1)] assms show ?thesis
    by (auto simp: Unreserve_def split: option.splits)
qed

lemma uninitialised_node_refused_witness:
  "\<exists>e. Reserve (NewNodeStorageAllocatedCache StrategyBinpack) (Some ex_state) [] =
     Some (NewNodeStorageAllocatedCache StrategyBinpack, Some ex_state, Some e)"
proof -
  have us: "nas_Units ex_state = Some (the (nas_Units ex_state))" by (simp add: ex_state_def)
  have none: "map_of (states (NewNodeStorageAllocatedCache StrategyBinpack)) (nas_NodeName ex_state) = None"
    by (simp add: NewNodeStorageAllocatedCache_def)
  from uninitialised_node_refused [OF us, of "NewNodeStorageAllocatedCache StrategyBinpack" "[]" "[]"] none
  show ?thesis by auto
qed

text \<open>C6: \<open>Reserve\<close> never over-commits a volume group, also when it fails half-way and also when it first gives back the
  inline volumes of a reservation pod: if every group of every node has between 0 and its allocatable size requested (at
  most 4 EiB), the requests are below 4 EiB, and the groups are charged with at least what the reservation pod holds of
  them, the same holds afterwards.\<close>

theorem Reserve_within_capacity:
  assumes "Reserve c (Some st) uid = Some (c', st', err)" and "nas_Units st = Some us"
    and "cache_within c" and "uid \<noteq> [] \<Longrightarrow> given_back_fits c (nas_NodeName st) uid"
    and "\<forall>u \<in> set (LVMPVCAllocateUnits us). 0 \<le>s pa_Requested u \<and> pa_Requested u <s 2 ^ 62"
    and "\<forall>d \<in> set (InlineVolumeAllocateUnits us). 0 \<le>s iv_VolumeSize d"
  shows "cache_within c'"
  using assms by (rule cache_within_Reserve)

text \<open>A store in which a reservation pod holds four of the ten bytes of a group.\<close>

definition ex_reservation :: NodeStorageAllocatedCache where
  "ex_reservation = ex_store\<lparr>
     states := [(''n'', ex_node\<lparr>VGStates := [(''g'', (ex_vg ''g'' 10)\<lparr>vg_Requested := 4\<rparr>), (''h'', ex_vg ''h'' 20)]\<rparr>)],
     inlineVolumeAllocatedDetails := [(''n'', [(''r'', [(ex_inline ''g'' 4)\<lparr>iv_Allocated := 4\<rparr>])])]\<rparr>"

lemma Reserve_within_capacity_witness:
  "\<exists>c' st'. Reserve ex_reservation (Some ex_state) ''r'' = Some (c', st', None) \<and> cache_within c' \<and>
     requested c' ''n'' ''g'' = 9"
proof -
  have "case Reserve ex_reservation (Some ex_state) ''r'' of
      Some (c', st', None) \<Rightarrow> requested c' ''n'' ''g'' = 9 | _ \<Rightarrow> False"
    by code_simp
  then obtain c' st' where run: "Reserve ex_reservation (Some ex_state) ''r'' = Some (c', st', None)"
    and r: "requested c' ''n'' ''g'' = 9"
    by (auto split: option.splits prod.splits)
  have us: "nas_Units ex_state = Some (the (nas_Units ex_state))" by (simp add: ex_state_def)
  have within: "cache_within ex_reservation" by code_simp
  have fits: "given_back_fits ex_reservation (nas_NodeName ex_state) ''r''"
  proof -
    have "pod_details ex_reservation (nas_NodeName ex_state) ''r'' = [(ex_inline ''g'' 4)\<lparr>iv_Allocated := 4\<rparr>]"
      "requested ex_reservation (nas_NodeName ex_state) ''g'' = 4" by code_simp+
    then show ?thesis by (simp add: given_back_fits_def pod_holds_def ex_inline_def word_sle_eq)
  qed
  have "\<forall>u \<in> set (LVMPVCAllocateUnits (the (nas_Units ex_state))). 0 \<le>s pa_Requested u \<and> pa_Requested u <s 2 ^ 62"
    "\<forall>d \<in> set (InlineVolumeAllocateUnits (the (nas_Units ex_state))). 0 \<le>s iv_VolumeSize d"
    by code_simp+
  from Reserve_within_capacity [OF run us within fits this] run r show ?thesis by blast
qed

text \<open>C7: a reservation that succeeds charges exactly the units it did not skip: every volume group of
  the node grows by the sizes of the new LVM units and of the inline volumes that name it, every
  other stays; each new claim has the detail of its unit, and the pod has the details of its inline
  volumes.\<close>

theorem Reserve_records:
  assumes "Reserve c (Some st) [] = Some (c', st', None)" and "nas_Units st = Some us"
    and "distinct (map unit_key (LVMPVCAllocateUnits us))"
    and "\<forall>u \<in> set (LVMPVCAllocateUnits us). reservable (nas_NodeName st) u"
    and "pod_details c (nas_NodeName st) (nas_PodUid st) = []"
  shows "requested c' m v = requested c m v +
      (if m = nas_NodeName st then lvm_total v (lvm_new c us) + pod_charge v (InlineVolumeAllocateUnits us) else 0) \<and>
    (\<forall>u \<in> set (lvm_new c us). GetByPVC (pvAllocatedDetails c') (pa_PVCNamespace u) (pa_PVCName u) =
      Some (LVMDetail (u\<lparr>pa_Allocated := pa_Requested u\<rparr>))) \<and>
    pod_details c' (nas_NodeName st) (nas_PodUid st) =
      map (\<lambda>d. d\<lparr>iv_Allocated := iv_VolumeSize d\<rparr>) (InlineVolumeAllocateUnits us)"
  using Reserve_records_all [OF assms] by blast

lemma Reserve_records_witness:
  "\<exists>c' st'. Reserve ex_store (Some ex_state) [] = Some (c', st', None) \<and> requested c' ''n'' ''g'' = 9"
proof -
  have "case Reserve ex_store (Some ex_state) [] of Some (c', st', None) \<Rightarrow> True | _ \<Rightarrow> False"
    by code_simp
  then obtain c' st' where run: "Reserve ex_store (Some ex_state) [] = Some (c', st', None)"
    by (auto split: option.splits prod.splits)
  have us: "nas_Units ex_state = Some (the (nas_Units ex_state))" by (simp add: ex_state_def)
  have 1: "distinct (map unit_key (LVMPVCAllocateUnits (the (nas_Units ex_state))))"
    "pod_details ex_store (nas_NodeName ex_state) (nas_PodUid ex_state) = []"
    by code_simp+
  have 2: "\<forall>u \<in> set (LVMPVCAllocateUnits (the (nas_Units ex_state))). reservable (nas_NodeName ex_state) u"
    by code_simp
  have 3: "requested ex_store ''n'' ''g'' = 0" "nas_NodeName ex_state = ''n''"
    "lvm_total ''g'' (filter (\<lambda>u. map_of (pvcAllocated (pvAllocatedDetails ex_store)) (unit_key u) = None)
       (LVMPVCAllocateUnits (the (nas_Units ex_state)))) = 6"
    "pod_charge ''g'' (InlineVolumeAllocateUnits (the (nas_Units ex_state))) = 3"
    by code_simp+
  have 4: "lvm_new ex_store (the (nas_Units ex_state)) =
      filter (\<lambda>u. map_of (pvcAllocated (pvAllocatedDetails ex_store)) (unit_key u) = None)
        (LVMPVCAllocateUnits (the (nas_Units ex_state)))"
    by (simp add: lvm_new_def lvm_skipped_def GetByPVC_def ex_store_def NewNodeStorageAllocatedCache_def)
  from Reserve_records [OF run us 1(1) 2 1(2), of "''n''" "''g''"] 3 4 run show ?thesis by auto
qed

end
