(* ===== verification/Event_Facts.thy ===== *)
theory Event_Facts
  imports Accounting
begin

text \<open>
  What the informer events do to the pools: a newer \<open>NodeLocalStorage\<close> is merged without losing
  what is charged, a bound volume takes the reservation of its claim over without being charged
  twice, and a volume or a pod that comes and goes leaves every volume group as it was.
\<close>

section \<open>Node updates\<close>

lemma updateNodeStorage_state:
  assumes "updateNodeStorage c nls = Some c'"
  obtains s where "map_of (states c) (nls_Name nls) = Some s"
    and "map_of (states c') (nls_Name nls) = Some (s\<lparr>InitedByNLS := True,
           VGStates := vg_StatesForUpdate (VGStates s) (vg_CreateStatesByNodeLocal nls),
           DeviceStates := dev_StatesForUpdate (DeviceStates s) (dev_CreateStatesByNodeLocal nls)\<rparr>)"
  using assms
  by (auto simp: updateNodeStorage_def Let_def NewNodeStorageStateFromStorage_def split: option.splits)

section \<open>Volumes\<close>

lemma inited_set_node: "inited (set_node n s c) m = (if m = n then InitedByNLS s else inited c m)"
  by (simp add: inited_def)

lemma inited_initVG [simp]: "inited (fst (initIfNeedAndGetVGState c n v)) m = inited c m"
  by (auto simp: initIfNeedAndGetVGState_def initIfNeedAndGetNodeStoragePool_def Let_def inited_set_node
      inited_def [of c] NewNodeStorageState_def split: option.split)

lemma unit_held_initVG: "unit_held c n u \<Longrightarrow> unit_held (fst (initIfNeedAndGetVGState c m v)) n u"
  by (auto simp: unit_held_def)

lemma GetByPV_set [simp]: "pv_Name pv \<noteq> [] \<Longrightarrow>
    GetByPV (fst (AssumeByPVEvent l (LVMDetail (d\<lparr>pa_Allocated := a\<rparr>)))) (pa_VolumeName d) =
      (if pa_VolumeName d = [] then GetByPV l [] else Some (LVMDetail (d\<lparr>pa_Allocated := a\<rparr>)))"
  by (simp add: AssumeByPVEvent_def GetByPV_def Let_def go_map_simps)

lemma AssumeByPVEvent_pvc [simp]: "pvcAllocated (fst (AssumeByPVEvent l d)) = pvcAllocated l"
  by (simp add: AssumeByPVEvent_def Let_def)

lemma NewLVM_fields:
  "pv_Capacity pv = Some r \<Longrightarrow> pa_Requested (NewLVMPVAllocatedFromPV pv v n) = r"
  "pv_Capacity pv = Some r \<Longrightarrow> pv_ClaimRef pv = Some (ns, name) \<Longrightarrow> name \<noteq> [] \<Longrightarrow>
     pa_PVCName (NewLVMPVAllocatedFromPV pv v n) = name \<and> pa_PVCNamespace (NewLVMPVAllocatedFromPV pv v n) = ns"
  by (simp_all add: NewLVMPVAllocatedFromPV_def PVCNameFromPV_def Let_def split: option.split prod.split)

text \<open>The event of a volume whose claim holds a reservation for it.\<close>

lemma lvm_pvAdd_bound:
  assumes add: "lvm_pvAdd K c n pv = Some c'" and ini: "inited c n" and held: "unit_held c n l"
    and claim: "pv_ClaimRef pv = Some (pa_PVCNamespace l, pa_PVCName l)"
    and vg: "GetVGNameFromCsiPV K pv = pa_VGName l \<or> GetVGNameFromCsiPV K pv = [] \<and> pv_Phase pv = VolumeBound"
    and phase: "pv_Phase pv \<noteq> VolumePending"
    and name: "pv_Name pv \<noteq> []" and fresh: "GetByPV (pvAllocatedDetails c) (pv_Name pv) = None"
    and cap: "pv_Capacity pv = Some (pa_Allocated l)" and req: "getRequestFromPVCInfos c pv \<le>s pa_Allocated l"
  shows "requested c' m v = requested c m v"
    and "GetByPVC (pvAllocatedDetails c') (pa_PVCNamespace l) (pa_PVCName l) = None"
    and "\<exists>d. GetByPV (pvAllocatedDetails c') (pv_Name pv) = Some (LVMDetail d) \<and>
      pa_Allocated d = pa_Allocated l \<and> pa_VGName d = pa_VGName l \<and> pa_NodeName d = n"
proof -
  let ?v = "pa_VGName l"
  from held have l: "?v \<noteq> []" "pa_PVCName l \<noteq> []" "0 <s pa_Allocated l" by (simp_all add: unit_held_def)
  define new where "new = NewLVMPVAllocatedFromPV pv ?v n"
  define c0 where "c0 = fst (initIfNeedAndGetVGState c n ?v)"
  define c1 where "c1 = lvm_revertIfNeed c0 n (pa_PVCNamespace l) (pa_PVCName l)"
  have held0: "unit_held c0 n l" and ini0: "inited c0 n"
    using unit_held_initVG [OF held] ini by (simp_all add: c0_def)
  have new_claim: "pa_PVCName new = pa_PVCName l" "pa_PVCNamespace new = pa_PVCNamespace l"
      "pa_Requested new = pa_Allocated l"
    using NewLVM_fields [OF cap] claim l(2) by (simp_all add: new_def)
  have mx: "getRequestFromPVCInfos c pv = pa_Allocated l" if "\<not> getRequestFromPVCInfos c pv <s pa_Allocated l"
    using that req by (simp add: word_sless_alt word_sle_eq signed_word_eqI)
  have "GetByPVC (pvAllocatedDetails c) (pa_PVCNamespace l) (pa_PVCName l) = Some (LVMDetail l)"
    using held by (simp add: unit_held_def)
  then have name': "lvm_pvAdd_vgName K c pv = Some (Some ?v)"
    using vg l(1,2) claim by (auto simp: lvm_pvAdd_vgName_def PVCNameFromPV_def)
  have nz: "pa_Allocated l \<noteq> 0" using l(3) by auto
  have c': "c' = set_details (fst (AssumeByPVEvent (pvAllocatedDetails (charge_vg n ?v (pa_Allocated l) c1))
      (LVMDetail (new\<lparr>pa_Allocated := pa_Allocated l\<rparr>)))) (charge_vg n ?v (pa_Allocated l) c1)"
    using add phase name' fresh nz new_claim mx
    by (cases "getRequestFromPVCInfos c pv <s pa_Allocated l")
      (simp_all add: lvm_pvAdd_def Let_def case_prod_beta new_def [symmetric] c0_def [symmetric] c1_def)
  have c1: "c1 = set_details (DeleteByPVC (pvAllocatedDetails c0) (unit_key l)) (charge_vg n ?v (- pa_Allocated l) c0)"
    using lvm_revert_held [OF held0 ini0] by (simp add: c1_def)
  have "has_vg c0 n ?v" by (simp add: c0_def)
  then show "requested c' m v = requested c m v"
    by (simp add: c' c1 ledger_simps) (simp add: c0_def ledger_simps)
  show "GetByPVC (pvAllocatedDetails c') (pa_PVCNamespace l) (pa_PVCName l) = None"
    by (simp add: c' c1 GetByPVC_def DeleteByPVC_def go_map_simps)
  have "pa_VolumeName new = pv_Name pv" "pa_NodeName new = n" "pa_VGName new = ?v"
    by (simp_all add: new_def)
  then show "\<exists>d. GetByPV (pvAllocatedDetails c') (pv_Name pv) = Some (LVMDetail d) \<and>
      pa_Allocated d = pa_Allocated l \<and> pa_VGName d = ?v \<and> pa_NodeName d = n"
    using name GetByPV_set [OF name, where d = new] by (simp add: c')
qed

lemma lvm_revertIfNeed_none:
  "GetByPVC (pvAllocatedDetails c) ns name = None \<Longrightarrow> lvm_revertIfNeed c n ns name = c"
  by (simp add: lvm_revertIfNeed_def)

text \<open>A volume of a claim without a reservation, deleted again.\<close>

lemma lvm_pv_cycle:
  assumes add: "lvm_pvAdd K c n pv = Some c'" and name: "pv_Name pv \<noteq> []"
    and fresh: "GetByPV (pvAllocatedDetails c) (pv_Name pv) = None"
    and claim: "\<And>ns name. pv_ClaimRef pv = Some (ns, name) \<Longrightarrow> GetByPVC (pvAllocatedDetails c) ns name = None"
    and vg: "GetVGNameFromCsiPV K pv \<noteq> []"
  shows "requested (lvm_pvDelete K c' n pv) m v = requested c m v"
    and "GetByPV (pvAllocatedDetails (lvm_pvDelete K c' n pv)) (pv_Name pv) = None"
proof -
  have del: "lvm_pvDelete K d n pv = d" if "GetByPV (pvAllocatedDetails d) (pv_Name pv) = None" for d
    using that by (simp add: lvm_pvDelete_def Let_def)
  have rev: "lvm_revertIfNeed (fst (initIfNeedAndGetVGState c n u)) n (pa_PVCNamespace new) (pa_PVCName new) =
      fst (initIfNeedAndGetVGState c n u)" if nw: "new = NewLVMPVAllocatedFromPV pv u n" for u new
  proof -
    consider "pa_PVCNamespace new = []" "pa_PVCName new = []"
      | "pv_ClaimRef pv = Some (pa_PVCNamespace new, pa_PVCName new)"
      using NewLVMPVAllocatedFromPV_claim [of pv u n, folded nw] by blast
    then show ?thesis
    proof cases
      case 1
      then show ?thesis by (simp add: lvm_revertIfNeed_def)
    next
      case 2
      from claim [OF this] show ?thesis by (simp add: lvm_revertIfNeed_none)
    qed
  qed
  have "requested (lvm_pvDelete K c' n pv) m v = requested c m v \<and>
      GetByPV (pvAllocatedDetails (lvm_pvDelete K c' n pv)) (pv_Name pv) = None"
    using add
  proof (cases rule: lvm_pvAdd_cases)
    case same
    with del fresh show ?thesis by simp
  next
    case (reverted u new)
    have "c' = fst (initIfNeedAndGetVGState c n u)" using reverted rev by simp
    with del [of c'] fresh show ?thesis by (simp add: ledger_simps)
  next
    case (added u new mx delta)
    have u: "u = GetVGNameFromCsiPV K pv"
      using added(2) vg by (simp add: lvm_pvAdd_vgName_def)
    have d: "delta = mx" using added(3) fresh by simp
    let ?d = "new\<lparr>pa_Allocated := mx\<rparr>"
    have c': "c' = set_details (fst (AssumeByPVEvent (pvAllocatedDetails c) (LVMDetail ?d)))
        (charge_vg n u mx (fst (initIfNeedAndGetVGState c n u)))"
      using added(4) rev [OF added(1)] d by (simp add: Let_def)
    have n: "pa_VolumeName new = pv_Name pv" using added(1) by simp
    have by_pv: "GetByPV (pvAllocatedDetails c') (pv_Name pv) = Some (LVMDetail ?d)"
      using GetByPV_set [OF name, where d = new] n name by (simp add: c')
    have "requested c' m v = requested c m v + (if m = n \<and> v = u then mx else 0)"
      by (auto simp: c' ledger_simps)
    with by_pv vg u n name show ?thesis
      by (simp add: lvm_pvDelete_def Let_def ledger_simps DeleteByPV_def GetByPV_def go_map_simps)
  qed
  then show "requested (lvm_pvDelete K c' n pv) m v = requested c m v"
    and "GetByPV (pvAllocatedDetails (lvm_pvDelete K c' n pv)) (pv_Name pv) = None" by simp_all
qed

section \<open>Pods\<close>

lemma has_vg_podAdd_loop:
  "snd (podAdd_loop K pod n vols c ds) = Some us \<Longrightarrow> \<forall>d \<in> set ds. has_vg c n (iv_VgName d) \<Longrightarrow>
     \<forall>d \<in> set us. has_vg (fst (podAdd_loop K pod n vols c ds)) n (iv_VgName d)"
proof (induction vols arbitrary: c ds)
  case (Cons w vols)
  show ?case
  proof (cases "\<exists>csi. vol_CSI w = Some csi \<and> ContainsProvisioner (csi_Driver csi)")
    case False
    then have "podAdd_loop K pod n (w # vols) c ds = podAdd_loop K pod n vols c ds"
      by (auto split: option.split)
    with Cons show ?thesis by metis
  next
    case True
    then obtain csi where csi: "vol_CSI w = Some csi" "ContainsProvisioner (csi_Driver csi)" by blast
    obtain v sz where p: "GetInlineVolumeInfoFromParam K (csi_VolumeAttributes csi) = (v, sz)" by fastforce
    let ?c = "charge_vg n v sz (fst (initIfNeedAndGetVGState c n v))"
    let ?ds = "ds @ [NewInlineVolumeAllocated (pod_Name pod) (pod_Namespace pod) v (vol_Name w) sz]"
    have eq: "podAdd_loop K pod n (w # vols) c ds = (if v = [] then (c, None) else podAdd_loop K pod n vols ?c ?ds)"
      using csi p by (simp add: case_prod_beta Let_def)
    with Cons.prems(1) have v: "v \<noteq> []" by auto
    have "\<forall>d \<in> set ?ds. has_vg ?c n (iv_VgName d)" using Cons.prems(2) by auto
    with Cons.IH [of ?c ?ds] Cons.prems(1) eq v show ?thesis by simp
  qed
qed simp

lemma podAdd_records:
  assumes contain: "ContainInlineVolumes pod = (True, n)" and fresh: "pod_details c n (pod_UID pod) = []"
    and us: "inline_units K pod (pod_Volumes pod) [] = Inr us"
  shows "pod_details (podAdd K c pod) n (pod_UID pod) = us"
    and "\<forall>d \<in> set us. has_vg (podAdd K c pod) n (iv_VgName d)"
proof -
  let ?c = "fst (initIfNeedAndGetNodeStoragePool (init_node_inline n c) n)"
  have guard: "\<not> (case getPodInlineVolumeDetails (init_node_inline n c) n (pod_UID pod) of
      Some ds \<Rightarrow> length ds > 0 | None \<Rightarrow> False)"
    using fresh init_node_inline_frame(5) [of n c n "pod_UID pod"]
    by (auto simp: pod_details_def split: option.splits)
  have loop: "snd (podAdd_loop K pod n (pod_Volumes pod) ?c []) = Some us"
    using podAdd_loop_details [of K pod n "pod_Volumes pod" ?c "[]"] us by simp
  then have eq: "podAdd K c pod =
      set_pod_inline n (pod_UID pod) us (fst (podAdd_loop K pod n (pod_Volumes pod) ?c []))"
    using guard contain by (auto simp: podAdd_def Let_def split: prod.splits option.splits)
  show "pod_details (podAdd K c pod) n (pod_UID pod) = us" by (simp add: eq)
  show "\<forall>d \<in> set us. has_vg (podAdd K c pod) n (iv_VgName d)"
    using has_vg_podAdd_loop [OF loop] by (simp add: eq has_vg_def)
qed

lemma requested_DeletePod:
  assumes wf: "wf_cache c" and contain: "ContainInlineVolumes pod = (True, n)" and n: "n \<noteq> []"
    and vgs: "\<forall>d \<in> set (pod_details c n (pod_UID pod)). has_vg c n (iv_VgName d)"
  shows "requested (DeletePod c pod) m v =
      requested c m v - (if m = n then pod_charge v (pod_details c n (pod_UID pod)) else 0)"
proof (cases "pod_details c n (pod_UID pod) = [] \<or> map_of (states c) n = None")
  case False
  then obtain s where s: "map_of (states c) n = Some s" by auto
  from False have "getPodInlineVolumeDetails c n (pod_UID pod) = Some (pod_details c n (pod_UID pod))"
    by (auto simp: pod_details_def split: option.splits)
  with False s contain n fold_charge_back(3) [OF wf vgs, of m v] show ?thesis
    by (simp add: DeletePod_def podDelete_def ledger_simps)
next
  case True
  then have "pod_details c n (pod_UID pod) = []"
    using vgs by (cases "pod_details c n (pod_UID pod)") (auto simp: has_vg_def)
  with contain show ?thesis
    by (auto simp: DeletePod_def podDelete_def pod_details_def split: option.splits)
qed

section \<open>Properties\<close>

text \<open>A device of the report, as the cache holds it: sizes and medium are those of the report, it is taken exactly when it
  was before, and a device that is taken has all of its size requested; one that is free and was known keeps what it
  had.\<close>

definition merged_device :: "DeviceResourcePool option \<Rightarrow> string \<Rightarrow> DeviceInfo \<Rightarrow> DeviceResourcePool" where
  "merged_device before d i =
     (let taken = (case before of None \<Rightarrow> False | Some p \<Rightarrow> dev_IsAllocated p)
      in \<lparr>dev_Name = d, dev_Total = ndev_Total i, dev_Allocatable = ndev_Total i,
          dev_Requested = (if taken then ndev_Total i else case before of None \<Rightarrow> 0 | Some p \<Rightarrow> dev_Requested p),
          dev_MediaType = ndev_MediaType i, dev_IsAllocated = taken\<rparr>)"

definition device_before :: "NodeStorageAllocatedCache \<Rightarrow> string \<Rightarrow> string \<Rightarrow> DeviceResourcePool option" where
  "device_before c n d = (case map_of (states c) n of None \<Rightarrow> None | Some s \<Rightarrow> map_of (DeviceStates s) d)"

text \<open>C14: a newer \<open>NodeLocalStorage\<close> is merged into the cache: the node has exactly the volume groups it lists, with its
  sizes and with what was requested from them before, and exactly the devices it lists, with its sizes and media, taken
  when they were before.\<close>

theorem node_update_merges:
  assumes "updateNodeStorage c nls = Some c'" and "wf_cache c"
  shows "\<exists>s'. map_of (states c') (nls_Name nls) = Some s' \<and> InitedByNLS s' \<and>
    (\<forall>v. map_of (VGStates s') v =
       (if v \<in> set (fsi_VolumeGroups (nls_FilteredStorageInfo (nls_Status nls)))
        then map_option (\<lambda>i. \<lparr>vg_Name = v, vg_Total = nvg_Total i, vg_Allocatable = nvg_Allocatable i,
               vg_Requested = requested c (nls_Name nls) v\<rparr>) (vg_info_of nls v)
        else None)) \<and>
    (\<forall>d. map_of (DeviceStates s') d =
       (if d \<in> set (fsi_Devices (nls_FilteredStorageInfo (nls_Status nls)))
        then map_option (merged_device (device_before c (nls_Name nls) d) d) (dev_info_of nls d) else None))"
proof -
  from updateNodeStorage_state [OF assms(1)] obtain s where s: "map_of (states c) (nls_Name nls) = Some s"
      "map_of (states c') (nls_Name nls) = Some (s\<lparr>InitedByNLS := True,
           VGStates := vg_StatesForUpdate (VGStates s) (vg_CreateStatesByNodeLocal nls),
           DeviceStates := dev_StatesForUpdate (DeviceStates s) (dev_CreateStatesByNodeLocal nls)\<rparr>)" .
  from wf_cache_node [OF assms(2) s(1)] have wf: "wf_vgs (VGStates s)" "wf_devs (DeviceStates s)"
    by (simp_all add: wf_node_def)
  have vgs: "map_of (vg_StatesForUpdate (VGStates s) (vg_CreateStatesByNodeLocal nls)) v =
      (if v \<in> set (fsi_VolumeGroups (nls_FilteredStorageInfo (nls_Status nls)))
       then map_option (\<lambda>i. \<lparr>vg_Name = v, vg_Total = nvg_Total i, vg_Allocatable = nvg_Allocatable i,
              vg_Requested = requested c (nls_Name nls) v\<rparr>) (vg_info_of nls v)
       else None)" for v
  proof (cases "map_of (VGStates s) v")
    case None
    then show ?thesis
      by (auto simp: map_of_vg_StatesForUpdate [OF wf(1)] map_of_vg_CreateStatesByNodeLocal NewVGStateFromVGInfo_def
          requested_def s(1) node_requested_def entry_def split: option.split dest: vg_info_of_name)
  next
    case (Some cur)
    with wf_vgs_name [OF wf(1) Some] show ?thesis
      by (cases cur) (auto simp: map_of_vg_StatesForUpdate [OF wf(1)] map_of_vg_CreateStatesByNodeLocal
          NewVGStateFromVGInfo_def vg_UpdateByNLS_def requested_def s(1) node_requested_def entry_def
          split: option.split)
  qed
  have devs: "map_of (dev_StatesForUpdate (DeviceStates s) (dev_CreateStatesByNodeLocal nls)) d =
      (if d \<in> set (fsi_Devices (nls_FilteredStorageInfo (nls_Status nls)))
       then map_option (merged_device (device_before c (nls_Name nls) d) d) (dev_info_of nls d) else None)" for d
  proof (cases "map_of (DeviceStates s) d")
    case None
    then show ?thesis
      by (auto simp: map_of_dev_StatesForUpdate [OF wf(2)] map_of_dev_CreateStatesByNodeLocal device_before_def s(1)
          merged_device_def NewDeviceResourcePoolFromDeviceInfo_def dest: dev_info_of_name split: option.split)
  next
    case (Some cur)
    with wf_devs_name [OF wf(2) Some] show ?thesis
      by (cases cur) (auto simp: map_of_dev_StatesForUpdate [OF wf(2)] map_of_dev_CreateStatesByNodeLocal
          NewDeviceResourcePoolFromDeviceInfo_def dev_UpdateByNLS_def merged_device_def device_before_def s(1) Let_def
          dest: dev_info_of_name split: option.split)
  qed
  from s(2) vgs devs show ?thesis by simp
qed

definition ex_charged :: NodeStorageAllocatedCache where
  "ex_charged = ex_store\<lparr>states := [(''n'', ex_node\<lparr>VGStates := [(''g'', (ex_vg ''g'' 10)\<lparr>vg_Requested := 5\<rparr>),
     (''h'', (ex_vg ''h'' 20)\<lparr>vg_Requested := 7\<rparr>)]\<rparr>)]\<rparr>"

lemma wf_ex_charged: "wf_cache ex_charged"
  by (simp add: wf_cache_def wf_node_def wf_vgs_def wf_devs_def wf_details_def list_all_iff ex_defs ex_charged_def)

lemma ex_update_runs: "updateNodeStorage ex_charged ex_nls = Some (the (updateNodeStorage ex_charged ex_nls))"
  by (simp add: updateNodeStorage_def ex_charged_def ex_nls_def Let_def)

lemma node_update_merges_witness:
  "\<exists>s'. map_of (states (the (updateNodeStorage ex_charged ex_nls))) ''n'' = Some s' \<and>
     map_of (VGStates s') ''g'' = Some \<lparr>vg_Name = ''g'', vg_Total = 10, vg_Allocatable = 9, vg_Requested = 5\<rparr> \<and>
     map_of (VGStates s') ''h'' = None"
proof -
  have 1: "requested ex_charged ''n'' ''g'' = 5" by code_simp
  have 2: "vg_info_of ex_nls ''g'' = Some \<lparr>nvg_Name = ''g'', nvg_Total = 10, nvg_Available = 10, nvg_Allocatable = 9\<rparr>"
    by code_simp
  have 3: "nls_Name ex_nls = ''n''"
    "fsi_VolumeGroups (nls_FilteredStorageInfo (nls_Status ex_nls)) = [''g'']" by (simp_all add: ex_nls_def)
  from node_update_merges [OF ex_update_runs wf_ex_charged] 1 2 3 show ?thesis by fastforce
qed

text \<open>A volume group that a \<open>NodeLocalStorage\<close> no longer lists loses what was requested from it,
  while the details still account for it: when the group is listed again it looks free.\<close>

theorem vanished_group_forgets:
  assumes "updateNodeStorage c nls = Some c1" and "updateNodeStorage c1 nls' = Some c2" and "wf_cache c"
    and "nls_Name nls' = nls_Name nls"
    and "v \<notin> set (fsi_VolumeGroups (nls_FilteredStorageInfo (nls_Status nls)))"
  shows "requested c2 (nls_Name nls) v = 0 \<and> charged c2 (nls_Name nls) v = charged c (nls_Name nls) v"
proof -
  have wf1: "wf_cache c1" using wf_updateNodeStorage [OF assms(3,1)] .
  from updateNodeStorage_state [OF assms(1)] obtain s where s: "map_of (states c) (nls_Name nls) = Some s"
      "map_of (states c1) (nls_Name nls) = Some (s\<lparr>InitedByNLS := True,
           VGStates := vg_StatesForUpdate (VGStates s) (vg_CreateStatesByNodeLocal nls),
           DeviceStates := dev_StatesForUpdate (DeviceStates s) (dev_CreateStatesByNodeLocal nls)\<rparr>)" .
  have "\<not> has_vg c1 (nls_Name nls) v"
    using assms(5) wf_cache_vgs [OF assms(3) s(1)]
    by (simp add: has_vg_def s(2) map_of_vg_StatesForUpdate map_of_vg_CreateStatesByNodeLocal)
  then have "requested c1 (nls_Name nls) v = 0"
    using requested_updateNodeStorage(1) [OF assms(3,1), of "nls_Name nls" v] by simp
  then have "requested c2 (nls_Name nls) v = 0"
    using requested_updateNodeStorage(1) [OF wf1 assms(2), of "nls_Name nls" v] by (simp split: if_splits)
  then show ?thesis
    using requested_updateNodeStorage(2) [OF wf1 assms(2)] requested_updateNodeStorage(2) [OF assms(3,1)] by simp
qed

definition ex_nls_h :: NodeLocalStorage where
  "ex_nls_h = ex_nls\<lparr>nls_Status := \<lparr>
     nls_NodeStorageInfo = \<lparr>nsi_DeviceInfos = [],
       nsi_VolumeGroups = [\<lparr>nvg_Name = ''h'', nvg_Total = 20, nvg_Available = 20, nvg_Allocatable = 20\<rparr>],
       nsi_MountPoints = [], nsi_State = []\<rparr>,
     nls_FilteredStorageInfo = \<lparr>fsi_VolumeGroups = [''h''], fsi_MountPoints = [], fsi_Devices = [], fsi_UpdateStatus = []\<rparr>\<rparr>\<rparr>"

lemma vanished_group_forgets_witness:
  "requested ex_held ''n'' ''g'' = 5 \<and> charged ex_held ''n'' ''g'' = 5 \<and>
   (\<exists>c1 c2. updateNodeStorage ex_held ex_nls_h = Some c1 \<and> updateNodeStorage c1 ex_nls = Some c2 \<and>
      requested c2 ''n'' ''g'' = 0 \<and> charged c2 ''n'' ''g'' = 5)"
proof -
  have now: "charged ex_held ''n'' ''g'' = 5" "requested ex_held ''n'' ''g'' = 5" by code_simp+
  obtain c1 where c1: "updateNodeStorage ex_held ex_nls_h = Some c1"
    by (simp add: updateNodeStorage_def ex_held_def ex_nls_h_def ex_nls_def Let_def)
  then obtain s where "map_of (states c1) (nls_Name ex_nls_h) = Some s" by (rule updateNodeStorage_state) blast
  then obtain c2 where c2: "updateNodeStorage c1 ex_nls = Some c2"
    by (simp add: updateNodeStorage_def ex_nls_h_def ex_nls_def Let_def)
  have n: "nls_Name ex_nls = nls_Name ex_nls_h" "nls_Name ex_nls_h = ''n''"
    "''g'' \<notin> set (fsi_VolumeGroups (nls_FilteredStorageInfo (nls_Status ex_nls_h)))"
    by (simp_all add: ex_nls_h_def ex_nls_def)
  from vanished_group_forgets [OF c1 c2 wf_ex_held n(1,3)] c1 c2 n(2) now show ?thesis by auto
qed

text \<open>C15: when the volume of a claim appears, it takes the claim's reservation over, whether the volume names the group
  that was reserved or is bound and names none, so that the group is taken from the claim's detail: nothing is charged a
  second time, the reservation of the claim is gone, and the volume is recorded with the size, the group and the node
  that were reserved. (The volume is new, and has the size that was reserved, which its claim does not exceed.)\<close>

theorem binding_moves_reservation:
  assumes "lvm_pvAdd K c n pv = Some c'" and "inited c n" and "unit_held c n l"
    and "pv_ClaimRef pv = Some (pa_PVCNamespace l, pa_PVCName l)"
    and "GetVGNameFromCsiPV K pv = pa_VGName l \<or> GetVGNameFromCsiPV K pv = [] \<and> pv_Phase pv = VolumeBound"
    and "pv_Phase pv \<noteq> VolumePending" and "pv_Name pv \<noteq> []"
    and "GetByPV (pvAllocatedDetails c) (pv_Name pv) = None"
    and "pv_Capacity pv = Some (pa_Allocated l)" and "getRequestFromPVCInfos c pv \<le>s pa_Allocated l"
  shows "requested c' m v = requested c m v \<and>
    GetByPVC (pvAllocatedDetails c') (pa_PVCNamespace l) (pa_PVCName l) = None \<and>
    (\<exists>d. GetByPV (pvAllocatedDetails c') (pv_Name pv) = Some (LVMDetail d) \<and>
      pa_Allocated d = pa_Allocated l \<and> pa_VGName d = pa_VGName l \<and> pa_NodeName d = n)"
  using lvm_pvAdd_bound [OF assms] by blast

definition ex_pv :: PersistentVolume where
  "ex_pv = \<lparr>pv_Name = ''v'', pv_Annotations = [], pv_Capacity = Some 5,
     pv_CSI = Some \<lparr>csi_Driver = ''local.csi.aliyun.com'',
       csi_VolumeAttributes = [(''volumeType'', ''LVM''), (''vgName'', ''g'')]\<rparr>,
     pv_ClaimRef = Some (''ns'', ''p''), pv_NodeAffinity = None, pv_Phase = ''Bound''\<rparr>"

definition ex_reserved :: LVMPVAllocated where
  "ex_reserved = (ex_lvm_unit ''p'' ''g'' 5)\<lparr>pa_Allocated := 5\<rparr>"

text \<open>The same volume without a volume group.\<close>

definition ex_unnamed_pv :: PersistentVolume where
  "ex_unnamed_pv = ex_pv\<lparr>pv_CSI := Some \<lparr>csi_Driver = ''local.csi.aliyun.com'',
     csi_VolumeAttributes = [(''volumeType'', ''LVM'')]\<rparr>\<rparr>"

lemma binding_moves_reservation_witness:
  "(\<exists>c'. lvm_pvAdd ex_kube ex_held ''n'' ex_pv = Some c' \<and> requested c' ''n'' ''g'' = 5 \<and>
     GetByPVC (pvAllocatedDetails c') ''ns'' ''p'' = None) \<and>
   (\<exists>c'. lvm_pvAdd ex_kube ex_held ''n'' ex_unnamed_pv = Some c' \<and> requested c' ''n'' ''g'' = 5 \<and>
     GetByPVC (pvAllocatedDetails c') ''ns'' ''p'' = None)"
proof -
  have "\<forall>pv \<in> {ex_pv, ex_unnamed_pv}. \<exists>c'. lvm_pvAdd ex_kube ex_held ''n'' pv = Some c' \<and>
     requested c' ''n'' ''g'' = 5 \<and> GetByPVC (pvAllocatedDetails c') ''ns'' ''p'' = None"
  proof
    fix pv assume pv: "pv \<in> {ex_pv, ex_unnamed_pv}"
    have "lvm_pvAdd ex_kube ex_held ''n'' ex_pv \<noteq> None" "lvm_pvAdd ex_kube ex_held ''n'' ex_unnamed_pv \<noteq> None"
      by code_simp+
    with pv obtain c' where run: "lvm_pvAdd ex_kube ex_held ''n'' pv = Some c'" by blast
    have ini: "inited ex_held ''n''" by code_simp
    have held: "unit_held ex_held ''n'' ex_reserved" by code_simp
    have all: "list_all (\<lambda>pv. pv_ClaimRef pv = Some (pa_PVCNamespace ex_reserved, pa_PVCName ex_reserved) \<and>
        (GetVGNameFromCsiPV ex_kube pv = pa_VGName ex_reserved \<or>
         GetVGNameFromCsiPV ex_kube pv = [] \<and> pv_Phase pv = VolumeBound) \<and>
        pv_Phase pv \<noteq> VolumePending \<and> pv_Name pv \<noteq> [] \<and> GetByPV (pvAllocatedDetails ex_held) (pv_Name pv) = None \<and>
        pv_Capacity pv = Some (pa_Allocated ex_reserved) \<and> getRequestFromPVCInfos ex_held pv \<le>s pa_Allocated ex_reserved)
        [ex_pv, ex_unnamed_pv]"
      by code_simp
    have 1: "pv_ClaimRef pv = Some (pa_PVCNamespace ex_reserved, pa_PVCName ex_reserved)"
      "GetVGNameFromCsiPV ex_kube pv = pa_VGName ex_reserved \<or>
         GetVGNameFromCsiPV ex_kube pv = [] \<and> pv_Phase pv = VolumeBound"
      "pv_Phase pv \<noteq> VolumePending" "pv_Name pv \<noteq> []"
      "GetByPV (pvAllocatedDetails ex_held) (pv_Name pv) = None"
      "pv_Capacity pv = Some (pa_Allocated ex_reserved)"
      "getRequestFromPVCInfos ex_held pv \<le>s pa_Allocated ex_reserved"
      using all pv by (auto simp: list_all_iff)
    have 2: "requested ex_held ''n'' ''g'' = 5" "pa_PVCNamespace ex_reserved = ''ns''" "pa_PVCName ex_reserved = ''p''"
      by code_simp+
    from binding_moves_reservation [OF run ini held 1, of "''n''" "''g''"] run 2
    show "\<exists>c'. lvm_pvAdd ex_kube ex_held ''n'' pv = Some c' \<and> requested c' ''n'' ''g'' = 5 \<and>
       GetByPVC (pvAllocatedDetails c') ''ns'' ''p'' = None" by auto
  qed
  then show ?thesis by simp
qed

text \<open>A volume that appears and is deleted again leaves every volume group as it was and is
  forgotten, when the volume names its group and its claim holds no reservation.\<close>

theorem volume_cycle:
  assumes "lvm_pvAdd K c n pv = Some c'" and "pv_Name pv \<noteq> []"
    and "GetByPV (pvAllocatedDetails c) (pv_Name pv) = None"
    and "\<And>ns name. pv_ClaimRef pv = Some (ns, name) \<Longrightarrow> GetByPVC (pvAllocatedDetails c) ns name = None"
    and "GetVGNameFromCsiPV K pv \<noteq> []"
  shows "requested (lvm_pvDelete K c' n pv) m v = requested c m v \<and>
    GetByPV (pvAllocatedDetails (lvm_pvDelete K c' n pv)) (pv_Name pv) = None"
  using lvm_pv_cycle [OF assms] by blast

lemma volume_cycle_witness:
  "\<exists>c'. lvm_pvAdd ex_kube ex_charged ''n'' ex_pv = Some c' \<and> requested c' ''n'' ''g'' = 10 \<and>
     requested (lvm_pvDelete ex_kube c' ''n'' ex_pv) ''n'' ''g'' = 5"
proof -
  have "case lvm_pvAdd ex_kube ex_charged ''n'' ex_pv of Some c' \<Rightarrow> requested c' ''n'' ''g'' = 10 | None \<Rightarrow> False"
    by code_simp
  then obtain c' where run: "lvm_pvAdd ex_kube ex_charged ''n'' ex_pv = Some c'" "requested c' ''n'' ''g'' = 10"
    by (auto split: option.splits)
  have 1: "pv_Name ex_pv \<noteq> []" "GetByPV (pvAllocatedDetails ex_charged) (pv_Name ex_pv) = None"
    "GetVGNameFromCsiPV ex_kube ex_pv \<noteq> []" "requested ex_charged ''n'' ''g'' = 5"
    by code_simp+
  have 2: "GetByPVC (pvAllocatedDetails ex_charged) ns name = None" for ns name
    by (simp add: GetByPVC_def ex_charged_def ex_store_def NewNodeStorageAllocatedCache_def NewPVAllocatedDetails_def)
  from volume_cycle [OF run(1) 1(1,2) 2 1(3), of "''n''" "''g''"] run 1(4) show ?thesis by auto
qed

text \<open>A pod with inline volumes that starts and is deleted again leaves every volume group as it
  was.\<close>

theorem pod_cycle:
  assumes "wf_cache c" and "IsPodNeedAllocate pod" and "ContainInlineVolumes pod = (True, n)"
    and "pod_details c n (pod_UID pod) = []" and "pod_parses K pod"
  shows "requested (DeletePod (AddPod K c pod) pod) m v = requested c m v"
proof -
  from assms(5) obtain us where us: "inline_units K pod (pod_Volumes pod) [] = Inr us"
    by (auto simp: pod_parses_def)
  have n: "n \<noteq> []"
    using assms(2,3) by (auto simp: IsPodNeedAllocate_def ContainInlineVolumes_def split: if_splits)
  have add: "AddPod K c pod = podAdd K c pod" using assms(2) by (simp add: AddPod_def)
  note r = podAdd_records [OF assms(3,4) us]
  have "requested (DeletePod (podAdd K c pod) pod) m v =
      requested (podAdd K c pod) m v - (if m = n then pod_charge v us else 0)"
    using requested_DeletePod [OF wf_podAdd [OF assms(1)] assms(3) n, where m = m and v = v] r by simp
  with podAdd_ledger(1) [OF assms(1,3,4), of K m v] inline_units_charged_before [OF us] show ?thesis
    by (simp add: add)
qed

lemma pod_parses_ex_pod: "pod_parses ex_kube ex_pod"
proof -
  have "case inline_units ex_kube ex_pod (pod_Volumes ex_pod) [] of Inr _ \<Rightarrow> True | Inl _ \<Rightarrow> False"
    by code_simp
  then show ?thesis by (auto simp: pod_parses_def split: sum.splits)
qed

lemma pod_cycle_witness:
  "requested (AddPod ex_kube ex_charged ex_pod) ''n'' ''g'' = 8 \<and>
   requested (DeletePod (AddPod ex_kube ex_charged ex_pod) ex_pod) ''n'' ''g'' = 5"
proof -
  have 1: "IsPodNeedAllocate ex_pod" "ContainInlineVolumes ex_pod = (True, ''n'')"
    "pod_details ex_charged ''n'' (pod_UID ex_pod) = []" "requested ex_charged ''n'' ''g'' = 5"
    "requested (AddPod ex_kube ex_charged ex_pod) ''n'' ''g'' = 8"
    by code_simp+
  from pod_cycle [OF wf_ex_charged 1(1-3) pod_parses_ex_pod, of "''n''" "''g''"] 1(4,5) show ?thesis by simp
qed

text \<open>A repeated event of a pod whose inline volumes are recorded changes nothing.\<close>

theorem repeated_pod_event:
  assumes "ContainInlineVolumes pod = (True, n)" and "pod_details c n (pod_UID pod) \<noteq> []"
  shows "AddPod K c pod = c"
proof -
  have "init_node_inline n c = c"
    using assms(2) by (auto simp: init_node_inline_def pod_details_def getPodInlineVolumeDetails_def split: option.splits)
  with podAdd_skip [of pod c K] assms show ?thesis by (auto simp: AddPod_def)
qed

lemma repeated_pod_event_witness:
  "AddPod ex_kube (AddPod ex_kube ex_charged ex_pod) ex_pod = AddPod ex_kube ex_charged ex_pod"
proof -
  have 1: "ContainInlineVolumes ex_pod = (True, ''n'')"
    "pod_details (AddPod ex_kube ex_charged ex_pod) ''n'' (pod_UID ex_pod) \<noteq> []"
    by code_simp+
  from repeated_pod_event [OF 1] show ?thesis .
qed

end
