(* ===== verification/Float64.thy ===== *)
theory Float64
  imports Complex_Main "HOL-Library.Log_Nat" Prelude
begin

text \<open>
  Go's \<open>float64\<close> as the scores use it: a finite value is the rational number it stands for, and an
  operation on finite values is the exact one followed by \<open>round64\<close>, which rounds to 53 significant
  bits, ties to even. The program only adds, subtracts, multiplies and divides quotients of
  64-bit integers, whose size stays between \<open>2 ^ - 200\<close> and \<open>2 ^ 200\<close>: the exponent never leaves
  its range, so neither overflow nor subnormal numbers are modelled. A division by zero gives an
  infinity or \<open>NaN\<close>. The sign of zero has no effect on any result and is left out. The conversion of
  a value that no \<open>int64\<close> can hold is the machine's choice, and a parameter.
\<close>

section \<open>Rounding\<close>

definition pow2 :: "int \<Rightarrow> rat" where
  "pow2 e = (if 0 \<le> e then 2 ^ nat e else 1 / 2 ^ nat (- e))"

definition round_half_even :: "rat \<Rightarrow> int" where
  "round_half_even y =
     (let f = \<lfloor>y\<rfloor>; d = y - of_int f
      in if d < 1 / 2 then f else if 1 / 2 < d then f + 1 else if even f then f else f + 1)"

text \<open>The exponent of the leading bit of a positive number.\<close>

definition exponent64 :: "rat \<Rightarrow> int" where
  "exponent64 x =
     (let (p, q) = quotient_of x;
          e = int (floorlog 2 (nat p)) - int (floorlog 2 (nat q))
      in if x < pow2 e then e - 1 else e)"

definition round64 :: "rat \<Rightarrow> rat" where
  "round64 x =
     (if x = 0 then 0
      else (let e = exponent64 \<bar>x\<bar> - 52
            in sgn x * of_int (round_half_even (\<bar>x\<bar> / pow2 e)) * pow2 e))"

section \<open>Arithmetic\<close>

datatype float64 = Fin rat | Infinity bool \<comment> \<open>negative\<close> | NaN

definition of_int64 :: "int64 \<Rightarrow> float64" where
  "of_int64 i = Fin (round64 (of_int (sint i)))"

fun fneg :: "float64 \<Rightarrow> float64" where
  "fneg (Fin x) = Fin (- x)"
| "fneg (Infinity n) = Infinity (\<not> n)"
| "fneg NaN = NaN"

fun fadd :: "float64 \<Rightarrow> float64 \<Rightarrow> float64" where
  "fadd (Fin x) (Fin y) = Fin (round64 (x + y))"
| "fadd (Infinity n) (Infinity m) = (if n = m then Infinity n else NaN)"
| "fadd (Infinity n) (Fin _) = Infinity n"
| "fadd (Fin _) (Infinity m) = Infinity m"
| "fadd NaN _ = NaN"
| "fadd _ NaN = NaN"

definition fsub :: "float64 \<Rightarrow> float64 \<Rightarrow> float64" where
  "fsub x y = fadd x (fneg y)"

fun fmul :: "float64 \<Rightarrow> float64 \<Rightarrow> float64" where
  "fmul (Fin x) (Fin y) = Fin (round64 (x * y))"
| "fmul (Infinity n) (Infinity m) = Infinity (n \<noteq> m)"
| "fmul (Infinity n) (Fin x) = (if x = 0 then NaN else Infinity (n \<noteq> (x < 0)))"
| "fmul (Fin x) (Infinity m) = (if x = 0 then NaN else Infinity ((x < 0) \<noteq> m))"
| "fmul NaN _ = NaN"
| "fmul _ NaN = NaN"

fun fdiv :: "float64 \<Rightarrow> float64 \<Rightarrow> float64" where
  "fdiv (Fin x) (Fin y) =
     (if y \<noteq> 0 then Fin (round64 (x / y)) else if x = 0 then NaN else Infinity (x < 0))"
| "fdiv (Infinity n) (Infinity m) = NaN"
| "fdiv (Infinity n) (Fin y) = Infinity (n \<noteq> (y < 0))"
| "fdiv (Fin _) (Infinity _) = Fin 0"
| "fdiv NaN _ = NaN"
| "fdiv _ NaN = NaN"

definition truncate :: "rat \<Rightarrow> int" where
  "truncate x = (if x < 0 then \<lceil>x\<rceil> else \<lfloor>x\<rfloor>)"

definition to_int64 :: "(float64 \<Rightarrow> int64) \<Rightarrow> float64 \<Rightarrow> int64" where
  "to_int64 cv x =
     (case x of
        Fin r \<Rightarrow> (let t = truncate r in if - (2 ^ 63) \<le> t \<and> t < 2 ^ 63 then word_of_int t else cv x)
      | _ \<Rightarrow> cv x)"

text \<open>The comparison; nothing is less or greater than \<open>NaN\<close>.\<close>

definition float_less :: "float64 \<Rightarrow> float64 \<Rightarrow> bool" where
  "float_less x y =
     (case (x, y) of
        (Fin a, Fin b) \<Rightarrow> a < b
      | (Infinity True, Fin _) \<Rightarrow> True
      | (Fin _, Infinity False) \<Rightarrow> True
      | (Infinity True, Infinity False) \<Rightarrow> True
      | _ \<Rightarrow> False)"

section \<open>Facts about rounding\<close>

lemma pow2_pos [simp]: "0 < pow2 e"
  by (simp add: pow2_def)

lemma round_half_even_of_int [simp]: "round_half_even (of_int k) = k"
  by (simp add: round_half_even_def)

lemma round_half_even_le: "y \<le> of_int k \<Longrightarrow> round_half_even y \<le> k"
proof -
  assume le: "y \<le> of_int k"
  show "round_half_even y \<le> k"
  proof (cases "\<lfloor>y\<rfloor> < k")
    case True
    then show ?thesis by (simp add: round_half_even_def Let_def)
  next
    case False
    with le have "\<lfloor>y\<rfloor> = k" by linarith
    with le have "y = of_int k" by linarith
    then show ?thesis by simp
  qed
qed

lemma round_half_even_nonneg: "0 \<le> y \<Longrightarrow> 0 \<le> round_half_even y"
  by (simp add: round_half_even_def Let_def)

lemma round_half_even_ge: "of_int k \<le> y \<Longrightarrow> k \<le> round_half_even y"
proof -
  assume "of_int k \<le> y"
  then have "k \<le> \<lfloor>y\<rfloor>" by linarith
  then show ?thesis by (simp add: round_half_even_def Let_def)
qed

lemma round_half_even_mono:
  assumes "x \<le> y"
  shows "round_half_even x \<le> round_half_even y"
proof (cases "\<lfloor>x\<rfloor> = \<lfloor>y\<rfloor>")
  case True
  with assms show ?thesis by (auto simp: round_half_even_def Let_def)
next
  case False
  with assms have "\<lfloor>x\<rfloor> + 1 \<le> \<lfloor>y\<rfloor>" by linarith
  then have "round_half_even x \<le> \<lfloor>y\<rfloor>" by (simp add: round_half_even_def Let_def)
  also have "\<dots> \<le> round_half_even y" by (simp add: round_half_even_def Let_def)
  finally show ?thesis .
qed

text \<open>\<open>pow2\<close> is the power with an integer exponent, whose laws the proofs use.\<close>

lemma pow2_powi: "pow2 e = 2 powi e"
  by (simp add: pow2_def power_int_def field_simps)

lemma pow2_add: "pow2 (a + b) = pow2 a * pow2 b"
  by (simp add: pow2_powi power_int_add)

lemma pow2_mono: "a \<le> b \<Longrightarrow> pow2 a \<le> pow2 b"
  by (simp add: pow2_powi power_int_increasing)

lemma pow2_less_imp: "pow2 a < pow2 b \<Longrightarrow> a < b"
  using pow2_mono [of b a] by (cases "a < b") simp_all

lemma exponent64_bounds:
  assumes "0 < x"
  shows "pow2 (exponent64 x) \<le> x" and "x < pow2 (exponent64 x + 1)"
proof -
  obtain p q where pq: "quotient_of x = (p, q)" by (cases "quotient_of x")
  have q: "0 < q" using quotient_of_denom_pos [OF pq] .
  have x: "x = of_int p / of_int q" using quotient_of_div [OF pq] .
  with assms q have p: "0 < p" by (simp add: zero_less_divide_iff)
  define a where "a = floorlog 2 (nat p)"
  define b where "b = floorlog 2 (nat q)"
  have pos: "0 < a" "0 < b" using p q by (simp_all add: a_def b_def floorlog_def)
  have bound: "pow2 (int (floorlog 2 (nat r)) - 1) \<le> of_int r \<and> of_int r < pow2 (int (floorlog 2 (nat r)))"
    if "0 < r" for r
  proof -
    define c where "c = floorlog 2 (nat r)"
    have "0 < c" using that by (simp add: c_def floorlog_def)
    have "2 ^ (c - 1) \<le> nat r" "nat r < 2 ^ c"
      using floorlog_bounds [of "nat r" 2] that by (simp_all add: c_def)
    then have "(of_nat (2 ^ (c - 1)) :: rat) \<le> of_nat (nat r)" "(of_nat (nat r) :: rat) < of_nat (2 ^ c)"
      by (simp_all only: of_nat_le_iff of_nat_less_iff)
    moreover have "nat (int c - 1) = c - 1" by simp
    ultimately show ?thesis
      using that \<open>0 < c\<close> by (simp add: pow2_def c_def [symmetric])
  qed
  have P: "pow2 (int a - 1) \<le> of_int p" "of_int p < pow2 (int a)"
    using bound [OF p] by (simp_all add: a_def)
  have Q: "pow2 (int b - 1) \<le> of_int q" "of_int q < pow2 (int b)"
    using bound [OF q] by (simp_all add: b_def)
  have q': "(0 :: rat) < of_int q" using q by simp
  have up: "x < pow2 (int a - int b + 1)"
  proof -
    have "of_int p < pow2 (int a)" by (rule P)
    also have "pow2 (int a) = pow2 (int a - int b + 1) * pow2 (int b - 1)"
      by (simp flip: pow2_add)
    also have "\<dots> \<le> pow2 (int a - int b + 1) * of_int q"
      using Q(1) by (intro mult_left_mono) (simp_all add: order_less_imp_le)
    finally show ?thesis using q' by (simp add: x pos_divide_less_eq)
  qed
  have low: "pow2 (int a - int b - 1) \<le> x"
  proof -
    have "pow2 (int a - int b - 1) * of_int q \<le> pow2 (int a - int b - 1) * pow2 (int b)"
      using Q(2) by (intro mult_left_mono) (simp_all add: order_less_imp_le)
    also have "\<dots> = pow2 (int a - 1)" by (simp flip: pow2_add)
    also have "\<dots> \<le> of_int p" by (rule P)
    finally show ?thesis using q' by (simp add: x pos_le_divide_eq)
  qed
  have e: "exponent64 x = (if x < pow2 (int a - int b) then int a - int b - 1 else int a - int b)"
    by (simp add: exponent64_def pq a_def b_def Let_def)
  show "pow2 (exponent64 x) \<le> x" using low by (simp add: e)
  show "x < pow2 (exponent64 x + 1)" using up by (simp add: e)
qed

lemma exponent64_mono:
  assumes "0 < x" and "x \<le> y"
  shows "exponent64 x \<le> exponent64 y"
proof -
  have "pow2 (exponent64 x) < pow2 (exponent64 y + 1)"
    using exponent64_bounds(1) [OF assms(1)] exponent64_bounds(2) [of y] assms by linarith
  then show ?thesis by (auto dest: pow2_less_imp)
qed

lemma exponent64_upper:
  assumes "0 < x" and "x < 2 ^ 53"
  shows "exponent64 x \<le> 52"
proof -
  have "pow2 (exponent64 x) < pow2 53"
    using exponent64_bounds(1) [OF assms(1)] assms(2) by (simp add: pow2_def)
  then show ?thesis by (auto dest: pow2_less_imp)
qed

text \<open>A value that is rounded stays within its binade.\<close>

lemma round64_pos:
  assumes "0 < x"
  shows "pow2 (exponent64 x) \<le> round64 x" and "round64 x \<le> pow2 (exponent64 x + 1)"
    and "round64 x = of_int (round_half_even (x / pow2 (exponent64 x - 52))) * pow2 (exponent64 x - 52)"
proof -
  let ?e = "exponent64 x - 52"
  show eq: "round64 x = of_int (round_half_even (x / pow2 ?e)) * pow2 ?e"
    using assms by (simp add: round64_def Let_def)
  have split: "pow2 (exponent64 x) = 2 ^ 52 * pow2 ?e" "pow2 (exponent64 x + 1) = 2 ^ 53 * pow2 ?e"
    using pow2_add [of 52 ?e] pow2_add [of 53 ?e] by (simp_all add: pow2_def [of 52] pow2_def [of 53] algebra_simps)
  have "2 ^ 52 \<le> round_half_even (x / pow2 ?e)"
    using exponent64_bounds(1) [OF assms] split(1)
    by (intro round_half_even_ge) (simp add: pos_le_divide_eq)
  then have "(of_int (2 ^ 52) :: rat) \<le> of_int (round_half_even (x / pow2 ?e))"
    by (simp only: of_int_le_iff)
  then show "pow2 (exponent64 x) \<le> round64 x"
    unfolding eq split by (intro mult_right_mono) (simp_all add: order_less_imp_le)
  have "round_half_even (x / pow2 ?e) \<le> 2 ^ 53"
    using exponent64_bounds(2) [OF assms] split(2)
    by (intro round_half_even_le) (simp add: pos_divide_le_eq)
  then have "(of_int (round_half_even (x / pow2 ?e)) :: rat) \<le> of_int (2 ^ 53)"
    by (simp only: of_int_le_iff)
  then show "round64 x \<le> pow2 (exponent64 x + 1)"
    unfolding eq split by (intro mult_right_mono) (simp_all add: order_less_imp_le)
qed

lemma round64_zero [simp]: "round64 0 = 0"
  by (simp add: round64_def)

lemma round64_nonneg: "0 \<le> x \<Longrightarrow> 0 \<le> round64 x"
  using order.trans [OF order_less_imp_le [OF pow2_pos] round64_pos(1), of x] by (cases "x = 0") simp_all

text \<open>Rounding is monotone, here on non-negative values.\<close>

lemma round64_mono:
  assumes "0 \<le> x" and "x \<le> y"
  shows "round64 x \<le> round64 y"
proof (cases "x = 0")
  case True
  with assms round64_nonneg [of y] show ?thesis by simp
next
  case False
  with assms have x: "0 < x" and y: "0 < y" by simp_all
  show ?thesis
  proof (cases "exponent64 x = exponent64 y")
    case True
    have "round_half_even (x / pow2 (exponent64 y - 52)) \<le> round_half_even (y / pow2 (exponent64 y - 52))"
      using assms(2) by (intro round_half_even_mono divide_right_mono) (simp_all add: order_less_imp_le)
    then show ?thesis
      unfolding round64_pos(3) [OF x] round64_pos(3) [OF y] True
      by (intro mult_right_mono) (simp_all add: order_less_imp_le)
  next
    case False
    with exponent64_mono [OF x assms(2)] have "exponent64 x + 1 \<le> exponent64 y" by simp
    then have "pow2 (exponent64 x + 1) \<le> pow2 (exponent64 y)" by (rule pow2_mono)
    with round64_pos(2) [OF x] round64_pos(1) [OF y] show ?thesis by linarith
  qed
qed

text \<open>Rounding keeps a value between \<open>0\<close> and an integer of at most 53 bits.\<close>

lemma round64_between:
  assumes "0 \<le> x" and "x \<le> of_int k" and "k < 2 ^ 53"
  shows "0 \<le> round64 x" and "round64 x \<le> of_int k"
proof -
  have "0 \<le> round64 x \<and> round64 x \<le> of_int k"
  proof (cases "x = 0")
    case False
    with assms(1) have pos: "0 < x" by simp
    define e where "e = exponent64 x - 52"
    have "x < 2 ^ 53"
    proof -
      have "(of_int k :: rat) < of_int (2 ^ 53)" using assms(3) by (simp only: of_int_less_iff)
      with assms(2) show ?thesis by simp
    qed
    with pos have e: "e \<le> 0" using exponent64_upper [of x] by (simp add: e_def)
    define m where "m = round_half_even (x / pow2 e)"
    have r: "round64 x = of_int m * pow2 e"
      using False pos by (simp add: round64_def e_def m_def Let_def)
    have inv: "pow2 e = 1 / of_int (2 ^ nat (- e))"
      using e by (simp add: pow2_def)
    have "x / pow2 e \<le> of_int (k * 2 ^ nat (- e))"
      unfolding inv using assms(2) by (simp add: mult_right_mono)
    then have "m \<le> k * 2 ^ nat (- e)" unfolding m_def by (rule round_half_even_le)
    then have "(of_int m :: rat) \<le> of_int (k * 2 ^ nat (- e))" by (simp only: of_int_le_iff)
    then have up: "of_int m * pow2 e \<le> of_int k"
      unfolding inv by (simp add: divide_le_eq)
    have "0 \<le> m" unfolding m_def using pos by (intro round_half_even_nonneg) (simp add: order_less_imp_le)
    then have "0 \<le> of_int m * pow2 e" by (simp add: order_less_imp_le)
    with up r show ?thesis by simp
  qed (use assms in \<open>simp add: round64_def\<close>)
  then show "0 \<le> round64 x" and "round64 x \<le> of_int k" by simp_all
qed

text \<open>Integers of at most 53 bits are exact.\<close>

lemma round64_of_int:
  assumes "0 \<le> k" and "k < 2 ^ 53"
  shows "round64 (of_int k) = of_int k"
proof (cases "k = 0")
  case False
  with assms have pos: "(0 :: rat) < of_int k" by simp
  define e where "e = exponent64 (of_int k) - 52"
  have "(of_int k :: rat) < of_int (2 ^ 53)" using assms(2) by (simp only: of_int_less_iff)
  with pos have e: "e \<le> 0" using exponent64_upper [of "of_int k"] by (simp add: e_def)
  then have inv: "pow2 e = 1 / of_int (2 ^ nat (- e))" by (simp add: pow2_def)
  have "of_int k / pow2 e = of_int (k * 2 ^ nat (- e))" unfolding inv by simp
  then show ?thesis
    using round64_pos(3) [OF pos] by (simp only: e_def [symmetric] round_half_even_of_int) (simp add: inv)
qed simp

section \<open>Values between zero and a bound\<close>

definition zero_to :: "int \<Rightarrow> float64 \<Rightarrow> bool" where
  "zero_to k x \<longleftrightarrow> (\<exists>r. x = Fin r \<and> 0 \<le> r \<and> r \<le> of_int k)"

lemma of_int64_exact: "0 \<le>s i \<Longrightarrow> sint i < 2 ^ 53 \<Longrightarrow> of_int64 i = Fin (of_int (sint i))"
  unfolding of_int64_def by (subst round64_of_int) (simp_all add: word_sle_eq)

lemma of_int64_nat: "n < 2 ^ 53 \<Longrightarrow> of_int64 (word_of_nat n) = Fin (of_nat n)"
proof -
  assume n: "n < 2 ^ 53"
  then have "int n < 2 ^ 53" by simp
  then have s: "sint (word_of_nat n :: int64) = int n"
    by (simp add: signed_of_nat signed_take_bit_int_eq_self)
  with round64_of_int [of "int n"] \<open>int n < 2 ^ 53\<close> show ?thesis
    by (simp add: of_int64_def)
qed

lemma zero_to_ratio:
  assumes "0 \<le>s a" and "a \<le>s b" and "0 <s b"
  shows "zero_to 1 (fdiv (of_int64 a) (of_int64 b))"
proof -
  define x y where "x = (of_int (sint a) :: rat)" and "y = (of_int (sint b) :: rat)"
  have xy: "0 \<le> x" "x \<le> y" "0 < y"
    using assms by (simp_all only: x_def y_def word_sle_eq word_sless_alt of_int_le_iff of_int_0_le_iff
        of_int_0_less_iff sint_0)
  then have "0 \<le> round64 x" "round64 x \<le> round64 y" by (simp_all add: round64_nonneg round64_mono)
  moreover have "0 < round64 y"
    using round64_pos(1) [OF xy(3)] pow2_pos [of "exponent64 y"] by linarith
  ultimately show ?thesis
    using round64_between [of "round64 x / round64 y" 1]
    by (simp add: zero_to_def of_int64_def x_def [symmetric] y_def [symmetric] del: of_int_sint)
qed

lemma zero_to_fadd:
  assumes "zero_to k x" and "zero_to 1 y" and "k + 1 < 2 ^ 53"
  shows "zero_to (k + 1) (fadd x y)"
proof -
  from assms obtain r s where "x = Fin r" "y = Fin s" "0 \<le> r" "r \<le> of_int k" "0 \<le> s" "s \<le> 1"
    by (auto simp: zero_to_def)
  with round64_between [of "r + s" "k + 1"] assms(3) show ?thesis
    by (simp add: zero_to_def)
qed

lemma zero_to_one_minus:
  assumes "zero_to 1 x"
  shows "zero_to 1 (fsub (of_int64 1) x)"
proof -
  from assms obtain r where "x = Fin r" "0 \<le> r" "r \<le> 1" by (auto simp: zero_to_def)
  with round64_between [of "1 - r" 1] show ?thesis
    by (simp add: zero_to_def fsub_def of_int64_exact word_sle_eq)
qed

lemma zero_to_mean:
  assumes "zero_to (int n) x" and "0 < n" and "n < 2 ^ 53"
  shows "zero_to 1 (fdiv x (of_int64 (word_of_nat n)))"
proof -
  from assms(1) obtain r where "x = Fin r" "0 \<le> r" "r \<le> of_nat n" by (auto simp: zero_to_def)
  with round64_between [of "r / of_nat n" 1] assms(2,3) show ?thesis
    by (simp add: zero_to_def of_int64_nat divide_le_eq)
qed

lemma zero_to_times_Max: "zero_to 1 x \<Longrightarrow> zero_to 10 (fmul x (of_int64 10))"
proof -
  assume "zero_to 1 x"
  then obtain r where "x = Fin r" "0 \<le> r" "r \<le> 1" by (auto simp: zero_to_def)
  with round64_between [of "r * 10" 10] show ?thesis
    by (simp add: zero_to_def of_int64_exact word_sle_eq)
qed

lemma to_int64_zero_to:
  assumes "zero_to k x" and "k < 2 ^ 63"
  shows "0 \<le>s to_int64 cv x" and "sint (to_int64 cv x) \<le> k" and "to_int64 cv x = to_int64 cv' x"
proof -
  from assms obtain r where r: "x = Fin r" "0 \<le> r" "r \<le> of_int k" by (auto simp: zero_to_def)
  have f: "0 \<le> \<lfloor>r\<rfloor>" "\<lfloor>r\<rfloor> \<le> k" using r by (simp, linarith)
  then have eq: "to_int64 c x = word_of_int \<lfloor>r\<rfloor>" for c
    using r assms(2) by (simp add: to_int64_def truncate_def)
  have self: "sint (word_of_int j :: int64) = j" if "0 \<le> j" "j < 2 ^ 63" for j
    using signed_take_bit_int_eq_self [of 63 j] that by (simp add: signed_of_int)
  have "sint (word_of_int \<lfloor>r\<rfloor> :: int64) = \<lfloor>r\<rfloor>"
    using f assms(2) by (intro self) linarith+
  with f show "0 \<le>s to_int64 cv x" "sint (to_int64 cv x) \<le> k" by (simp_all add: eq word_sle_eq)
  show "to_int64 cv x = to_int64 cv' x" by (simp add: eq)
qed

end
