(* ===== verification/Anti_Affinity.thy ===== *)
theory Anti_Affinity
  imports Kube_Objects
begin

text \<open>
  The node anti-affinity setting, \<open>pkg/utils/config.go\<close>: \<open>ParseWeight\<close> reads
  \<open>type=weight,type,...\<close> into the weights of \<open>pkg/types.go\<close>. \<open>strings.Split\<close>, \<open>strings.SplitN\<close> with
  two parts and \<open>strconv.ParseInt\<close> with base 10 and 32 bits are modelled as documented. The main
  fact is that what it accepts is exactly what a printer of weights produces, up to the order and
  the spelling of numbers, and that every weight is between \<open>MinScore\<close> and \<open>MaxScore\<close>.
\<close>

section \<open>Constants\<close>

abbreviation MinScore :: int64 where "MinScore \<equiv> 0"
abbreviation MaxScore :: int64 where "MaxScore \<equiv> 10"
abbreviation DefaultNodeAffinityWeight :: int64 where "DefaultNodeAffinityWeight \<equiv> 5"

section \<open>The standard library\<close>

fun go_Split :: "char \<Rightarrow> string \<Rightarrow> string list" where
  "go_Split sep [] = [[]]"
| "go_Split sep (ch # s) =
     (if ch = sep then [] # go_Split sep s
      else (case go_Split sep s of [] \<Rightarrow> [[ch]] | w # ws \<Rightarrow> (ch # w) # ws))"

text \<open>The text before and after the first \<open>=\<close>.\<close>

definition split_eq :: "string \<Rightarrow> string \<times> string" where
  "split_eq s = (takeWhile (\<lambda>ch. ch \<noteq> CHR ''='') s, tl (dropWhile (\<lambda>ch. ch \<noteq> CHR ''='') s))"

definition digit_value :: "char \<Rightarrow> int option" where
  "digit_value ch = map_option int (map_of (zip ''0123456789'' [0 ..< 10]) ch)"

fun digits_value :: "int \<Rightarrow> string \<Rightarrow> int option" where
  "digits_value acc [] = Some acc"
| "digits_value acc (ch # s) =
     (case digit_value ch of None \<Rightarrow> None | Some d \<Rightarrow> digits_value (10 * acc + d) s)"

text \<open>\<open>strconv.ParseInt(s, 10, 32)\<close>: an optional sign, at least one digit, 32 bits.\<close>

definition ParseInt32 :: "string \<Rightarrow> go_error + int64" where
  "ParseInt32 s =
     (let (neg, digits) =
            (case s of [] \<Rightarrow> (False, [])
             | ch # rest \<Rightarrow> if ch = CHR ''+'' then (False, rest)
                          else if ch = CHR ''-'' then (True, rest) else (False, s))
      in if digits = [] then Inl (Errorf ''strconv.ParseInt: parsing %q: invalid syntax'' [S s])
         else (case digits_value 0 digits of
                 None \<Rightarrow> Inl (Errorf ''strconv.ParseInt: parsing %q: invalid syntax'' [S s])
               | Some n \<Rightarrow>
                   if (if neg then 2 ^ 31 < n else 2 ^ 31 \<le> n)
                   then Inl (Errorf ''strconv.ParseInt: parsing %q: value out of range'' [S s])
                   else Inr (word_of_int (if neg then - n else n))))"

section \<open>ParseWeight\<close>

text \<open>One element of the list: its volume type and weight.\<close>

definition parse_item :: "string \<Rightarrow> go_error + VolumeType \<times> int64" where
  "parse_item e =
     (case (if CHR ''='' \<in> set e then
              (case VolumeTypeFromString (fst (split_eq e)) of
                 Inl err \<Rightarrow> Inl err
               | Inr vt \<Rightarrow> (case ParseInt32 (snd (split_eq e)) of
                              Inl err \<Rightarrow> Inl err
                            | Inr weight \<Rightarrow> Inr (vt, weight)))
            else (case VolumeTypeFromString e of
                    Inl err \<Rightarrow> Inl err
                  | Inr vt \<Rightarrow> Inr (vt, DefaultNodeAffinityWeight))) of
        Inl err \<Rightarrow> Inl err
      | Inr (vt, weight) \<Rightarrow>
          if weight <s MinScore \<or> MaxScore <s weight
          then Inl (Errorf ''weight is out-of-range [%d, %d], current value is %d'' [D MinScore, D MaxScore, D weight])
          else Inr (vt, weight))"

fun ParseWeight_loop :: "string list \<Rightarrow> NodeAntiAffinityWeight \<Rightarrow> go_error + NodeAntiAffinityWeight" where
  "ParseWeight_loop [] weights = Inr weights"
| "ParseWeight_loop (e # sec) weights =
     (case parse_item e of
        Inl err \<Rightarrow> Inl err
      | Inr (vt, weight) \<Rightarrow> ParseWeight_loop sec (weight_Put weights vt weight))"

text \<open>The weights returned beside an error are dropped: the only caller returns on it.\<close>

definition ParseWeight :: "string \<Rightarrow> go_error + NodeAntiAffinityWeight" where
  "ParseWeight nodeAntiAffinity =
     (if length nodeAntiAffinity > 0
      then ParseWeight_loop (go_Split (CHR '','') nodeAntiAffinity) NewNodeAntiAffinityWeight
      else Inr NewNodeAntiAffinityWeight)"

section \<open>Facts\<close>

lemma ParseWeight_loop_bounds:
  assumes "ParseWeight_loop sec w = Inr w'" and "wf_map w"
    and "\<forall>(t, n) \<in> set w. t \<in> set ValidVolumeType \<and> MinScore \<le>s n \<and> n \<le>s MaxScore"
  shows "wf_map w' \<and> (\<forall>(t, n) \<in> set w'. t \<in> set ValidVolumeType \<and> MinScore \<le>s n \<and> n \<le>s MaxScore)"
  using assms
proof (induction sec arbitrary: w)
  case (Cons e sec)
  from Cons.prems(1) obtain t n where item: "parse_item e = Inr (t, n)"
      and rest: "ParseWeight_loop sec (weight_Put w t n) = Inr w'"
    by (auto split: sum.splits)
  from item have n: "MinScore \<le>s n" "n \<le>s MaxScore" and t: "t \<in> set ValidVolumeType"
    by (auto simp: parse_item_def VolumeTypeFromString_Inr not_less word_sle_eq word_sless_alt
        split: sum.splits prod.splits if_splits)
  show ?case
    using Cons.prems(2,3) n t
    by (intro Cons.IH [OF rest]) (auto simp: weight_Put_def in_set_update split: if_splits)
qed simp

section \<open>Printing weights\<close>

definition print_weight :: "int64 \<Rightarrow> string" where
  "print_weight n = (if n = 10 then ''10'' else [''0123456789'' ! nat (sint n)])"

definition print_item :: "VolumeType \<times> int64 \<Rightarrow> string" where
  "print_item i = fst i @ ''='' @ print_weight (snd i)"

fun print_weights :: "NodeAntiAffinityWeight \<Rightarrow> string" where
  "print_weights [] = []"
| "print_weights [i] = print_item i"
| "print_weights (i # is) = print_item i @ '','' @ print_weights is"

lemma weight_range:
  assumes "MinScore \<le>s n" and "n \<le>s MaxScore"
  shows "n \<in> {0, 1, 2, 3, 4, 5, 6, 7, 8, 9, 10}"
proof -
  from assms have "0 \<le> sint n" "sint n \<le> 10" by (simp_all add: word_sle_eq)
  then have "sint n \<in> {0, 1, 2, 3, 4, 5, 6, 7, 8, 9, 10}" by (simp; presburger)
  then have "(word_of_int (sint n) :: int64) \<in> word_of_int ` {0, 1, 2, 3, 4, 5, 6, 7, 8, 9, 10}"
    by (rule imageI)
  then show ?thesis by simp
qed

lemma ParseInt32_print_weight:
  assumes "MinScore \<le>s n" and "n \<le>s MaxScore"
  shows "ParseInt32 (print_weight n) = Inr n" and "CHR '','' \<notin> set (print_weight n)"
proof -
  from weight_range [OF assms]
  have "ParseInt32 (print_weight n) = Inr n \<and> CHR '','' \<notin> set (print_weight n)"
    by (elim insertE emptyE; hypsubst; code_simp)
  then show "ParseInt32 (print_weight n) = Inr n" and "CHR '','' \<notin> set (print_weight n)"
    by simp_all
qed

lemma valid_type_chars:
  "t \<in> set ValidVolumeType \<Longrightarrow> CHR ''='' \<notin> set t \<and> CHR '','' \<notin> set t"
  by (auto simp: ValidVolumeType_def)

lemma split_eq_append: "CHR ''='' \<notin> set t \<Longrightarrow> split_eq (t @ CHR ''='' # s) = (t, s)"
  by (induction t) (auto simp: split_eq_def)

lemma parse_print_item:
  assumes "t \<in> set ValidVolumeType" and "MinScore \<le>s n" and "n \<le>s MaxScore"
  shows "parse_item (print_item (t, n)) = Inr (t, n)"
proof -
  have "split_eq (print_item (t, n)) = (t, print_weight n)"
    using valid_type_chars [OF assms(1)] by (simp add: print_item_def split_eq_append)
  moreover have "VolumeTypeFromString t = Inr t"
    using assms(1) by (simp add: VolumeTypeFromString_Inr)
  moreover have "\<not> n <s MinScore" "\<not> MaxScore <s n"
    using assms(2,3) by (simp_all add: word_sle_eq word_sless_alt)
  ultimately show ?thesis
    using ParseInt32_print_weight(1) [OF assms(2,3)] by (simp add: parse_item_def) (simp add: print_item_def)
qed

lemma go_Split_none: "sep \<notin> set s \<Longrightarrow> go_Split sep s = [s]"
  by (induction s) auto

lemma go_Split_append: "sep \<notin> set s \<Longrightarrow> go_Split sep (s @ sep # r) = s # go_Split sep r"
  by (induction s) auto

lemma go_Split_print_weights:
  assumes "ws \<noteq> []" and "\<forall>i \<in> set ws. CHR '','' \<notin> set (print_item i)"
  shows "go_Split (CHR '','') (print_weights ws) = map print_item ws"
  using assms
proof (induction ws rule: print_weights.induct)
  case (3 i j js)
  then show ?case by (simp add: go_Split_append)
qed (simp_all add: go_Split_none)

lemma ParseWeight_loop_print:
  assumes "\<forall>(t, n) \<in> set ws. t \<in> set ValidVolumeType \<and> MinScore \<le>s n \<and> n \<le>s MaxScore"
    and "wf_map (w @ ws)"
  shows "ParseWeight_loop (map print_item ws) w = Inr (w @ ws)"
  using assms
proof (induction ws arbitrary: w)
  case (Cons i ws)
  obtain t n where i: "i = (t, n)" by (cases i)
  have "t \<notin> fst ` set w" using Cons.prems(2) i by auto
  then have put: "weight_Put w t n = w @ [(t, n)]"
    unfolding weight_Put_def by (induction w) auto
  have "ParseWeight_loop (map print_item ws) (w @ [(t, n)]) = Inr ((w @ [(t, n)]) @ ws)"
    using Cons.prems i by (intro Cons.IH) auto
  then show ?case
    using Cons.prems(1) i by (simp add: parse_print_item put)
qed simp

lemma ParseWeight_range:
  assumes "ParseWeight s = Inr w"
  shows "wf_map w" and "\<forall>(t, n) \<in> set w. t \<in> set ValidVolumeType \<and> MinScore \<le>s n \<and> n \<le>s MaxScore"
  using assms by (auto simp: ParseWeight_def NewNodeAntiAffinityWeight_def split: if_splits
      dest: ParseWeight_loop_bounds [where w = "[]"])

lemma weight_Get_range:
  assumes "\<forall>(t, n) \<in> set w. t \<in> set ValidVolumeType \<and> MinScore \<le>s n \<and> n \<le>s MaxScore"
  shows "MinScore \<le>s weight_Get w t \<and> weight_Get w t \<le>s MaxScore"
  using assms by (auto simp: weight_Get_def word_sle_eq split: option.split dest!: map_of_SomeD)

section \<open>Properties\<close>

text \<open>Reading back printed weights gives the same weights, in the same order, for any weights a
  configuration may hold.\<close>

theorem ParseWeight_print:
  assumes "wf_map ws" and "\<forall>(t, n) \<in> set ws. t \<in> set ValidVolumeType \<and> MinScore \<le>s n \<and> n \<le>s MaxScore"
  shows "ParseWeight (print_weights ws) = Inr ws"
proof (cases "ws = []")
  case False
  have "CHR '','' \<notin> set (print_item i)" if "i \<in> set ws" for i
    using assms(2) that valid_type_chars ParseInt32_print_weight(2)
    by (cases i) (force simp: print_item_def)
  then have "go_Split (CHR '','') (print_weights ws) = map print_item ws"
    using False by (intro go_Split_print_weights) auto
  moreover have "print_weights ws \<noteq> []"
    using False by (cases ws rule: print_weights.cases) (auto simp: print_item_def)
  ultimately show ?thesis
    using ParseWeight_loop_print [OF assms(2), of "[]"] assms(1)
    by (simp add: ParseWeight_def NewNodeAntiAffinityWeight_def)
qed (simp add: ParseWeight_def NewNodeAntiAffinityWeight_def)

lemma ParseWeight_print_witness:
  "ParseWeight ''LVM=3,Device=10'' = Inr [(''LVM'', 3), (''Device'', 10)]"
  using ParseWeight_print [of "[(''LVM'', 3), (''Device'', 10)]"]
  by (simp add: ValidVolumeType_def print_item_def print_weight_def word_sle_eq)

text \<open>Whatever string configures the anti-affinity, an accepted one gives each volume type at
  most one weight, only to known types, and every weight lies between \<open>MinScore\<close> and \<open>MaxScore\<close>.\<close>

theorem ParseWeight_bounds:
  assumes "ParseWeight s = Inr w"
  shows "wf_map w \<and> (\<forall>(t, n) \<in> set w. t \<in> set ValidVolumeType \<and> MinScore \<le>s n \<and> n \<le>s MaxScore)
    \<and> MinScore \<le>s weight_Get w t \<and> weight_Get w t \<le>s MaxScore"
  using ParseWeight_range [OF assms] weight_Get_range by simp

lemma ParseWeight_bounds_witness:
  "\<exists>w. ParseWeight ''Device,LVM=+7'' = Inr w \<and> weight_Get w ''LVM'' \<le>s MaxScore"
proof -
  have parsed: "ParseWeight ''Device,LVM=+7'' = Inr [(''Device'', 5), (''LVM'', 7)]"
    by code_simp
  from ParseWeight_bounds [OF parsed, of "''LVM''"] parsed show ?thesis by blast
qed

end
