(* ===== verification/Scoring.thy ===== *)
theory Scoring
  imports Float64 Anti_Affinity Scheduler_Plugin
begin

text \<open>
  The scores: \<open>pkg/scheduling-framework/score.go\<close>, the scoring half of
  \<open>pkg/scheduling-framework/cache/strategy.go\<close> and \<open>Score\<close> of \<open>plugin.go\<close>. A score that reads
  a field through a nil pointer panics (\<open>None\<close>). \<open>cv\<close> is what the machine makes of a \<open>float64\<close>
  that no \<open>int64\<close> can hold, \<open>ord\<close> the order of the \<open>range\<close> loop over the chosen volume groups. The
  facts say when neither matters: for a node that is within its capacity, every score is between
  \<open>MinScore\<close> and \<open>MaxScore\<close>, so the node's score is one of 0 to 40 and \<open>NormalizeScore\<close> does not
  overflow.
\<close>

section \<open>Volume groups\<close>

definition binpack_scoreWeightFunc :: "VGStoragePool \<Rightarrow> float64" where
  "binpack_scoreWeightFunc allocatedVG =
     fdiv (of_int64 (vg_Requested allocatedVG)) (of_int64 (vg_Allocatable allocatedVG))"

definition spread_scoreWeightFunc :: "VGStoragePool \<Rightarrow> float64" where
  "spread_scoreWeightFunc allocatedVG =
     fsub (of_int64 1) (fdiv (of_int64 (vg_Requested allocatedVG)) (of_int64 (vg_Allocatable allocatedVG)))"

definition GetVGScheduleStrategy_weight :: "StrategyType \<Rightarrow> VGStoragePool \<Rightarrow> float64" where
  "GetVGScheduleStrategy_weight strategy =
     (if strategy = StrategyBinpack then binpack_scoreWeightFunc
      else if strategy = StrategySpread then spread_scoreWeightFunc
      else binpack_scoreWeightFunc)"

text \<open>The volume groups the units name, as a map.\<close>

definition allocate_vgs :: "VGStates \<Rightarrow> NodeAllocateUnits \<Rightarrow> VGStates" where
  "allocate_vgs allVGs units =
     (let add = (\<lambda>v allocateVGs. case map_of allVGs v of
                                   Some vg \<Rightarrow> AList.update v vg allocateVGs
                                 | None \<Rightarrow> allocateVGs);
          allocateVGs = fold (\<lambda>inlineUnit. add (iv_VgName inlineUnit)) (InlineVolumeAllocateUnits units) []
      in fold (\<lambda>pvcUnit. add (pa_VGName pvcUnit)) (LVMPVCAllocateUnits units) allocateVGs)"

definition scoreByCapacity ::
  "range_order \<Rightarrow> (float64 \<Rightarrow> int64) \<Rightarrow> NodeAllocateState option \<Rightarrow> (VGStoragePool \<Rightarrow> float64) \<Rightarrow> int64" where
  "scoreByCapacity ord cv nodeAllocate scoreWeightFunc =
     (case nodeAllocate of
        None \<Rightarrow> MinScore
      | Some na \<Rightarrow>
          (case (nas_Units na, nas_NodeStorageAllocatedByUnits na) of
             (Some units, Some node) \<Rightarrow>
               if length (InlineVolumeAllocateUnits units) + length (LVMPVCAllocateUnits units) \<le> 0 then MinScore
               else (let allVGs = VGStates node
                     in if length allVGs \<le> 0 then MinScore
                        else (let allocateVGs = reorder ord (allocate_vgs allVGs units);
                                  scoref = fold (\<lambda>(_, allocatedVG) scoref. fadd scoref (scoreWeightFunc allocatedVG))
                                             allocateVGs (Fin 0);
                                  count = word_of_nat (length allocateVGs)
                              in to_int64 cv (fmul (fdiv scoref (of_int64 count)) (of_int64 MaxScore))))
           | _ \<Rightarrow> MinScore))"

section \<open>Devices\<close>

definition binpack_scoreCountFunc :: "(float64 \<Rightarrow> int64) \<Rightarrow> int64 \<Rightarrow> int64 \<Rightarrow> int64" where
  "binpack_scoreCountFunc cv allocateCount freeCount =
     to_int64 cv (fdiv (fmul (of_int64 allocateCount) (of_int64 MaxScore)) (of_int64 freeCount))"

definition spread_scoreCountFunc :: "(float64 \<Rightarrow> int64) \<Rightarrow> int64 \<Rightarrow> int64 \<Rightarrow> int64" where
  "spread_scoreCountFunc cv allocateCount freeCount =
     to_int64 cv (fmul (fsub (of_int64 1) (fdiv (of_int64 allocateCount) (of_int64 freeCount))) (of_int64 MaxScore))"

definition GetDeviceScheduleStrategy_count :: "StrategyType \<Rightarrow> (float64 \<Rightarrow> int64) \<Rightarrow> int64 \<Rightarrow> int64 \<Rightarrow> int64" where
  "GetDeviceScheduleStrategy_count strategy =
     (if strategy = StrategyBinpack then binpack_scoreCountFunc
      else if strategy = StrategySpread then spread_scoreCountFunc
      else binpack_scoreCountFunc)"

definition free_device_count :: "NodeStorageState \<Rightarrow> nat" where
  "free_device_count node =
     fold (\<lambda>(_, state) n. if \<not> dev_IsAllocated state then n + 1 else n) (DeviceStates node) 0"

definition scoreDeviceCount :: "(int64 \<Rightarrow> int64 \<Rightarrow> int64) \<Rightarrow> NodeAllocateState \<Rightarrow> int64 option" where
  "scoreDeviceCount scoreCountFunc nodeAllocate =
     (case (nas_NodeStorageAllocatedByUnits nodeAllocate, nas_Units nodeAllocate) of
        (Some node, Some units) \<Rightarrow>
          (let deviceAllocatedCountThisTime = length (DevicePVCAllocateUnits units);
               deviceFreeCountBeforeAllocate = free_device_count node + deviceAllocatedCountThisTime
           in if deviceAllocatedCountThisTime \<le> 0 \<or> deviceFreeCountBeforeAllocate \<le> 0 then Some MinScore
              else Some (scoreCountFunc (word_of_nat deviceAllocatedCountThisTime)
                           (word_of_nat deviceFreeCountBeforeAllocate)))
      | _ \<Rightarrow> None)"

definition device_ScoreByCapacity :: "(float64 \<Rightarrow> int64) \<Rightarrow> NodeAllocateState \<Rightarrow> int64 option" where
  "device_ScoreByCapacity cv nodeAllocate =
     (case nas_Units nodeAllocate of
        None \<Rightarrow> None
      | Some us \<Rightarrow>
          (let units = DevicePVCAllocateUnits us
           in if length units \<le> 0 then Some MinScore
              else (let scoref = fold (\<lambda>unit scoref.
                                   fadd scoref (fdiv (of_int64 (pa_Requested unit)) (of_int64 (pa_Allocated unit))))
                                 units (Fin 0)
                    in Some (to_int64 cv
                         (fmul (fdiv scoref (of_int64 (word_of_nat (length units)))) (of_int64 MaxScore))))))"

definition device_ScoreByNodeAntiAffinity :: "NodeAntiAffinityWeight \<Rightarrow> NodeAllocateState \<Rightarrow> int64 option" where
  "device_ScoreByNodeAntiAffinity nodeAntiAffinityWeight nodeAllocate =
     (case nas_NodeStorageAllocatedByUnits nodeAllocate of
        None \<Rightarrow> None
      | Some node \<Rightarrow>
          (let freeDeviceCount = free_device_count node;
               deviceWeight = weight_Get nodeAntiAffinityWeight VolumeTypeDevice
           in if deviceWeight \<le>s 0 then Some MinScore
              else (case nas_Units nodeAllocate of
                      None \<Rightarrow> None
                    | Some units \<Rightarrow>
                        if length (DevicePVCAllocateUnits units) \<le> 0 \<and> (\<not> IsLocal node \<or> freeDeviceCount \<le> 0)
                        then Some (deviceWeight * 1) else Some MinScore)))"

section \<open>The scorers\<close>

datatype Scorer = VolumeGroupScorer StrategyType | DeviceScorer StrategyType NodeAntiAffinityWeight

fun scorer_ScoreByCapacity ::
  "range_order \<Rightarrow> (float64 \<Rightarrow> int64) \<Rightarrow> Scorer \<Rightarrow> NodeAllocateState \<Rightarrow> int64 option" where
  "scorer_ScoreByCapacity ord cv (VolumeGroupScorer strategy) nodeAllocate =
     Some (scoreByCapacity ord cv (Some nodeAllocate) (GetVGScheduleStrategy_weight strategy))"
| "scorer_ScoreByCapacity ord cv (DeviceScorer strategy w) nodeAllocate = device_ScoreByCapacity cv nodeAllocate"

fun scorer_ScoreByCount :: "(float64 \<Rightarrow> int64) \<Rightarrow> Scorer \<Rightarrow> NodeAllocateState \<Rightarrow> int64 option" where
  "scorer_ScoreByCount cv (VolumeGroupScorer strategy) nodeAllocate = Some MinScore"
| "scorer_ScoreByCount cv (DeviceScorer strategy w) nodeAllocate =
     scoreDeviceCount (GetDeviceScheduleStrategy_count strategy cv) nodeAllocate"

fun scorer_ScoreByNodeAntiAffinity :: "Scorer \<Rightarrow> NodeAllocateState \<Rightarrow> int64 option" where
  "scorer_ScoreByNodeAntiAffinity (VolumeGroupScorer strategy) nodeAllocate = Some MinScore"
| "scorer_ScoreByNodeAntiAffinity (DeviceScorer strategy w) nodeAllocate =
     device_ScoreByNodeAntiAffinity w nodeAllocate"

definition NewScoreCalculator :: "StrategyType \<Rightarrow> NodeAntiAffinityWeight \<Rightarrow> Scorer list" where
  "NewScoreCalculator strategy nodeAntiAffinityWeight =
     [VolumeGroupScorer strategy, DeviceScorer strategy nodeAntiAffinityWeight]"

fun sum_scores :: "(Scorer \<Rightarrow> int64 option) \<Rightarrow> Scorer list \<Rightarrow> int64 \<Rightarrow> int64 option" where
  "sum_scores f [] score = Some score"
| "sum_scores f (scorer # scorers) score =
     (case f scorer of None \<Rightarrow> None | Some n \<Rightarrow> sum_scores f scorers (score + n))"

definition calculator_Score ::
  "range_order \<Rightarrow> (float64 \<Rightarrow> int64) \<Rightarrow> Scorer list \<Rightarrow> NodeAllocateState \<Rightarrow> int64 option" where
  "calculator_Score ord cv scorers nodeAllocate =
     (case (sum_scores (\<lambda>s. scorer_ScoreByCapacity ord cv s nodeAllocate) scorers 0,
            sum_scores (\<lambda>s. scorer_ScoreByCount cv s nodeAllocate) scorers 0,
            sum_scores (\<lambda>s. scorer_ScoreByNodeAntiAffinity s nodeAllocate) scorers 0) of
        (Some a, Some b, Some d) \<Rightarrow> Some (a + b + d)
      | _ \<Rightarrow> None)"

text \<open>\<open>LocalPlugin.Score\<close>.\<close>

definition plugin_Score ::
  "range_order \<Rightarrow> (float64 \<Rightarrow> int64) \<Rightarrow> Scorer list \<Rightarrow> NodeStorageAllocatedCache \<Rightarrow> CycleState \<Rightarrow> string \<Rightarrow>
     (int64 \<times> Status) option" where
  "plugin_Score ord cv scorers c cs nodeName =
     (case getNodeAllocateUnitFromState cs nodeName of
        Inl err \<Rightarrow> Some (0, Unschedulable err)
      | Inr allocateInfo \<Rightarrow>
          if (case allocateInfo of None \<Rightarrow> True | Some na \<Rightarrow> \<not> HaveLocalUnits (nas_Units na))
          then (if IsLocalNode c nodeName then Some (MinScore, Success) else Some (MaxScore, Success))
          else (case allocateInfo of
                  None \<Rightarrow> None
                | Some na \<Rightarrow>
                    if nas_NodeStorageAllocatedByUnits na = None then Some (MinScore, Success)
                    else map_option (\<lambda>score. (score, Success)) (calculator_Score ord cv scorers na)))"

section \<open>Facts\<close>

lemma zero_to_sum:
  assumes "\<And>x. x \<in> set xs \<Longrightarrow> zero_to 1 (f x)" and "zero_to k s" and "k + int (length xs) < 2 ^ 53"
  shows "zero_to (k + int (length xs)) (fold (\<lambda>x s. fadd s (f x)) xs s)"
  using assms
proof (induction xs arbitrary: k s)
  case (Cons x xs)
  have "zero_to (k + 1) (fadd s (f x))"
    using Cons.prems by (intro zero_to_fadd) simp_all
  from Cons.IH [OF _ this] Cons.prems show ?case by (simp add: algebra_simps)
qed simp

text \<open>The mean of at least one ratio, times \<open>MaxScore\<close>.\<close>

lemma mean_score:
  assumes "\<And>x. x \<in> set xs \<Longrightarrow> zero_to 1 (f x)" and "xs \<noteq> []" and "length xs < 2 ^ 53"
  shows "zero_to 10 (fmul (fdiv (fold (\<lambda>x s. fadd s (f x)) xs (Fin 0))
    (of_int64 (word_of_nat (length xs)))) (of_int64 MaxScore))"
proof -
  have "zero_to 0 (Fin 0)" by (simp add: zero_to_def)
  moreover have "int (length xs) < 2 ^ 53" using assms(3) by simp
  ultimately have "zero_to (int (length xs)) (fold (\<lambda>x s. fadd s (f x)) xs (Fin 0))"
    using zero_to_sum [of xs f 0 "Fin 0"] assms(1) by simp
  then have "zero_to 1 (fdiv (fold (\<lambda>x s. fadd s (f x)) xs (Fin 0)) (of_int64 (word_of_nat (length xs))))"
    using assms(2,3) by (intro zero_to_mean) simp_all
  then show ?thesis by (rule zero_to_times_Max)
qed

lemma map_of_allocate_step:
  assumes "wf_map acc"
  shows "wf_map (fold (\<lambda>u acc. case map_of allVGs (g u) of Some vg \<Rightarrow> AList.update (g u) vg acc | None \<Rightarrow> acc) us acc)"
    and "map_of (fold (\<lambda>u acc. case map_of allVGs (g u) of Some vg \<Rightarrow> AList.update (g u) vg acc | None \<Rightarrow> acc) us acc) k =
      (if k \<in> g ` set us \<and> map_of allVGs k \<noteq> None then map_of allVGs k else map_of acc k)"
  using assms
  by (induction us arbitrary: acc) (auto simp: go_map_simps split: option.splits)

definition charged_vgs :: "NodeAllocateUnits \<Rightarrow> string set" where
  "charged_vgs us = iv_VgName ` set (InlineVolumeAllocateUnits us) \<union> pa_VGName ` set (LVMPVCAllocateUnits us)"

lemma map_of_allocate_vgs:
  "wf_map (allocate_vgs allVGs us)"
  "map_of (allocate_vgs allVGs us) k = (if k \<in> charged_vgs us then map_of allVGs k else None)"
  by (auto simp: allocate_vgs_def Let_def map_of_allocate_step charged_vgs_def)

text \<open>
  What the scores need of a plan: every volume group is within a positive capacity, the units name
  groups of the node, a device is at least as large as the request it was given to.
\<close>

definition scorable :: "NodeAllocateState \<Rightarrow> bool" where
  "scorable na \<longleftrightarrow>
     (\<exists>us node. nas_Units na = Some us \<and> nas_NodeStorageAllocatedByUnits na = Some node \<and>
        (\<forall>v vg. map_of (VGStates node) v = Some vg \<longrightarrow>
           0 \<le>s vg_Requested vg \<and> vg_Requested vg \<le>s vg_Allocatable vg \<and> 0 <s vg_Allocatable vg) \<and>
        (\<forall>v \<in> charged_vgs us. map_of (VGStates node) v \<noteq> None) \<and>
        (\<forall>u \<in> set (DevicePVCAllocateUnits us).
           0 \<le>s pa_Requested u \<and> pa_Requested u \<le>s pa_Allocated u \<and> 0 <s pa_Allocated u) \<and>
        length (VGStates node) < 2 ^ 53 \<and>
        free_device_count node + length (DevicePVCAllocateUnits us) < 2 ^ 49)"

lemma zero_to_weight:
  assumes "0 \<le>s vg_Requested vg" and "vg_Requested vg \<le>s vg_Allocatable vg" and "0 <s vg_Allocatable vg"
  shows "zero_to 1 (GetVGScheduleStrategy_weight strategy vg)"
  using zero_to_ratio [OF assms]
  by (simp add: GetVGScheduleStrategy_weight_def binpack_scoreWeightFunc_def spread_scoreWeightFunc_def
      zero_to_one_minus)

abbreviation good_score :: "int64 \<Rightarrow> bool" where
  "good_score n \<equiv> MinScore \<le>s n \<and> n \<le>s MaxScore"

lemma good_MinScore: "good_score MinScore"
  by (simp add: word_sle_eq)

lemma good_to_int64:
  "zero_to 10 x \<Longrightarrow> good_score (to_int64 cv x)"
  "zero_to 10 x \<Longrightarrow> to_int64 cv x = to_int64 cv' x"
  using to_int64_zero_to [of 10 x] by (simp_all add: word_sle_eq)

lemma wf_map_subset_length:
  assumes "wf_map m" and "\<And>k. map_of m k \<noteq> None \<Longrightarrow> map_of m' k \<noteq> None"
  shows "length m \<le> length m'"
proof -
  have "set (map fst m) \<subseteq> set (map fst m')"
    using assms(2) by (auto simp: map_of_eq_None_iff)
  then have "card (set (map fst m)) \<le> card (set (map fst m'))" by (rule card_mono [rotated]) simp
  also have "\<dots> \<le> length m'" by (metis card_length length_map)
  finally show ?thesis using assms(1) distinct_card [of "map fst m"] by simp
qed

lemma vg_score:
  assumes "scorable na" and "range_ok ord"
  shows "good_score (scoreByCapacity ord cv (Some na) (GetVGScheduleStrategy_weight strategy))"
    and "scoreByCapacity ord cv (Some na) (GetVGScheduleStrategy_weight strategy) =
      scoreByCapacity ord cv' (Some na) (GetVGScheduleStrategy_weight strategy)"
proof -
  from assms(1) obtain us node where na: "nas_Units na = Some us" "nas_NodeStorageAllocatedByUnits na = Some node"
    and vgs: "\<And>v vg. map_of (VGStates node) v = Some vg \<Longrightarrow>
        0 \<le>s vg_Requested vg \<and> vg_Requested vg \<le>s vg_Allocatable vg \<and> 0 <s vg_Allocatable vg"
    and named: "\<forall>v \<in> charged_vgs us. map_of (VGStates node) v \<noteq> None" and len: "length (VGStates node) < 2 ^ 53"
    by (auto simp: scorable_def)
  define m where "m = reorder ord (allocate_vgs (VGStates node) us)"
  have wf: "wf_map m" and look: "map_of m = map_of (allocate_vgs (VGStates node) us)"
    using assms(2) by (simp_all only: m_def wf_map_reorder map_of_allocate_vgs(1) map_of_reorder)
  have one: "zero_to 1 (case p of (_, vg) \<Rightarrow> GetVGScheduleStrategy_weight strategy vg)" if "p \<in> set m" for p
  proof -
    obtain k vg where p: "p = (k, vg)" by (cases p)
    with that wf have "map_of m k = Some vg" by simp
    then have "map_of (VGStates node) k = Some vg"
      by (simp add: look map_of_allocate_vgs(2) split: if_splits)
    from vgs [OF this] p show ?thesis by (simp add: zero_to_weight)
  qed
  have "length m \<le> length (VGStates node)"
    using wf by (rule wf_map_subset_length) (simp add: look map_of_allocate_vgs(2) split: if_splits)
  with len have short: "length m < 2 ^ 53" by linarith
  have ne: "m \<noteq> []" if "length (InlineVolumeAllocateUnits us) + length (LVMPVCAllocateUnits us) > 0"
  proof -
    from that obtain v where "v \<in> charged_vgs us"
      by (cases "InlineVolumeAllocateUnits us"; cases "LVMPVCAllocateUnits us") (auto simp: charged_vgs_def)
    with named have "map_of m v \<noteq> None" by (auto simp: look map_of_allocate_vgs(2))
    then show ?thesis by auto
  qed
  define x where "x = fmul (fdiv (fold (\<lambda>p s. fadd s (case p of (_, vg) \<Rightarrow> GetVGScheduleStrategy_weight strategy vg)) m (Fin 0))
      (of_int64 (word_of_nat (length m)))) (of_int64 MaxScore)"
  have score: "zero_to 10 x" if "m \<noteq> []"
    unfolding x_def by (rule mean_score [OF one that short])
  have unfold: "scoreByCapacity ord c (Some na) (GetVGScheduleStrategy_weight strategy) =
      (if length (InlineVolumeAllocateUnits us) + length (LVMPVCAllocateUnits us) \<le> 0 \<or> VGStates node = [] then MinScore
       else to_int64 c x)" for c
    by (simp add: scoreByCapacity_def na m_def x_def Let_def split_def)
  show "good_score (scoreByCapacity ord cv (Some na) (GetVGScheduleStrategy_weight strategy))"
    unfolding unfold using good_to_int64(1) [OF score] ne good_MinScore by auto
  show "scoreByCapacity ord cv (Some na) (GetVGScheduleStrategy_weight strategy) =
      scoreByCapacity ord cv' (Some na) (GetVGScheduleStrategy_weight strategy)"
    unfolding unfold using good_to_int64(2) [OF score] ne by auto
qed

lemma device_capacity_score:
  assumes "scorable na"
  obtains n where "\<And>cv. device_ScoreByCapacity cv na = Some n" and "good_score n"
proof -
  from assms obtain us where us: "nas_Units na = Some us"
    and dev: "\<forall>u \<in> set (DevicePVCAllocateUnits us).
        0 \<le>s pa_Requested u \<and> pa_Requested u \<le>s pa_Allocated u \<and> 0 <s pa_Allocated u"
    and len: "length (DevicePVCAllocateUnits us) < 2 ^ 53"
    by (auto simp: scorable_def)
  define x where "x = fmul (fdiv (fold (\<lambda>u s. fadd s (fdiv (of_int64 (pa_Requested u)) (of_int64 (pa_Allocated u))))
      (DevicePVCAllocateUnits us) (Fin 0)) (of_int64 (word_of_nat (length (DevicePVCAllocateUnits us))))) (of_int64 MaxScore)"
  have eq: "device_ScoreByCapacity cv na =
      Some (if DevicePVCAllocateUnits us = [] then MinScore else to_int64 cv x)" for cv
    by (simp add: device_ScoreByCapacity_def us x_def Let_def)
  have score: "zero_to 10 x" if "DevicePVCAllocateUnits us \<noteq> []"
    unfolding x_def using dev that len by (intro mean_score) (simp_all add: zero_to_ratio)
  show thesis
  proof (cases "DevicePVCAllocateUnits us = []")
    case True
    with eq good_MinScore show thesis by (intro that [of MinScore]) simp_all
  next
    case False
    note ten = score [OF False]
    show thesis
    proof (rule that)
      show "device_ScoreByCapacity cv na = Some (to_int64 (\<lambda>_. 0) x)" for cv
        using eq [of cv] False good_to_int64(2) [OF ten, of cv "\<lambda>_. 0"] by simp
    qed (rule good_to_int64(1) [OF ten])
  qed
qed

lemma zero_to_count:
  assumes "0 < a" and "a \<le> f" and "f < 2 ^ 49"
  shows "zero_to 10 (fdiv (fmul (of_int64 (word_of_nat a)) (of_int64 MaxScore)) (of_int64 (word_of_nat f)))"
    and "zero_to 10 (fmul (fsub (of_int64 1) (fdiv (of_int64 (word_of_nat a)) (of_int64 (word_of_nat f)))) (of_int64 MaxScore))"
proof -
  have exact: "of_int64 (word_of_nat a) = Fin (of_nat a)" "of_int64 (word_of_nat f) = Fin (of_nat f)"
    "of_int64 MaxScore = Fin 10"
    using assms by (simp_all add: of_int64_nat of_int64_exact word_sle_eq)
  have "zero_to 1 (fdiv (of_int64 (word_of_nat a)) (of_int64 (word_of_nat f)))"
    using assms by (intro zero_to_mean) (auto simp: zero_to_def exact)
  then show "zero_to 10 (fmul (fsub (of_int64 1) (fdiv (of_int64 (word_of_nat a)) (of_int64 (word_of_nat f)))) (of_int64 MaxScore))"
    by (intro zero_to_times_Max zero_to_one_minus)
  have af: "(of_nat a :: rat) \<le> of_nat f" "(0 :: rat) < of_nat f" using assms by simp_all
  have "int a * 10 < 2 ^ 53" using assms by simp
  from round64_of_int [OF _ this] have a10: "round64 (of_nat a * 10) = of_nat a * 10"
    by (simp add: mult.commute)
  have "of_nat a * 10 / (of_nat f :: rat) \<le> of_int 10" "0 \<le> of_nat a * 10 / (of_nat f :: rat)"
    using af by (simp_all add: divide_le_eq)
  then show "zero_to 10 (fdiv (fmul (of_int64 (word_of_nat a)) (of_int64 MaxScore)) (of_int64 (word_of_nat f)))"
    using af round64_between [of "of_nat a * 10 / of_nat f" 10]
    by (simp add: exact zero_to_def a10)
qed

lemma device_count_score:
  assumes "scorable na"
  obtains n where "\<And>cv. scoreDeviceCount (GetDeviceScheduleStrategy_count strategy cv) na = Some n"
    and "good_score n"
proof -
  from assms obtain us node where na: "nas_Units na = Some us" "nas_NodeStorageAllocatedByUnits na = Some node"
    and len: "free_device_count node + length (DevicePVCAllocateUnits us) < 2 ^ 49"
    by (auto simp: scorable_def)
  define a where "a = length (DevicePVCAllocateUnits us)"
  define f where "f = free_device_count node + a"
  have eq: "scoreDeviceCount g na = Some (if a = 0 then MinScore else g (word_of_nat a) (word_of_nat f))" for g
    by (auto simp: scoreDeviceCount_def na a_def f_def Let_def)
  show thesis
  proof (cases "a = 0")
    case True
    with eq good_MinScore show thesis by (intro that [of MinScore]) simp_all
  next
    case False
    then have ten: "zero_to 10 (fdiv (fmul (of_int64 (word_of_nat a)) (of_int64 MaxScore)) (of_int64 (word_of_nat f)))"
      "zero_to 10 (fmul (fsub (of_int64 1) (fdiv (of_int64 (word_of_nat a)) (of_int64 (word_of_nat f)))) (of_int64 MaxScore))"
      using len by (intro zero_to_count; simp add: a_def f_def)+
    have good: "good_score (GetDeviceScheduleStrategy_count strategy cv (word_of_nat a) (word_of_nat f))"
      "GetDeviceScheduleStrategy_count strategy cv (word_of_nat a) (word_of_nat f) =
       GetDeviceScheduleStrategy_count strategy cv' (word_of_nat a) (word_of_nat f)" for cv cv'
      using good_to_int64 [OF ten(1)] good_to_int64 [OF ten(2)]
      by (auto simp: GetDeviceScheduleStrategy_count_def binpack_scoreCountFunc_def spread_scoreCountFunc_def)
    show thesis
    proof (rule that)
      show "scoreDeviceCount (GetDeviceScheduleStrategy_count strategy cv) na =
          Some (GetDeviceScheduleStrategy_count strategy (\<lambda>_. 0) (word_of_nat a) (word_of_nat f))" for cv
        using eq good(2) [of cv "\<lambda>_. 0"] False by simp
    qed (rule good(1))
  qed
qed

lemma anti_affinity_score:
  assumes "scorable na" and "good_score (weight_Get w VolumeTypeDevice)"
  obtains n where "device_ScoreByNodeAntiAffinity w na = Some n" and "good_score n"
proof -
  from assms(1) obtain us node where "nas_Units na = Some us" "nas_NodeStorageAllocatedByUnits na = Some node"
    by (auto simp: scorable_def)
  then have "device_ScoreByNodeAntiAffinity w na = Some MinScore \<or>
      device_ScoreByNodeAntiAffinity w na = Some (weight_Get w VolumeTypeDevice)"
    by (simp add: device_ScoreByNodeAntiAffinity_def Let_def)
  then show thesis
    using that [of MinScore] that [of "weight_Get w VolumeTypeDevice"] assms(2) good_MinScore by blast
qed

lemma good_sum:
  assumes "good_score a" and "good_score b" and "good_score c" and "good_score d"
  shows "sint (a + b + c + d) = sint a + sint b + sint c + sint d"
    and "0 \<le> sint a + sint b + sint c + sint d" and "sint a + sint b + sint c + sint d \<le> 40"
proof -
  have r: "0 \<le> sint a \<and> sint a \<le> 10" "0 \<le> sint b \<and> sint b \<le> 10" "0 \<le> sint c \<and> sint c \<le> 10"
    "0 \<le> sint d \<and> sint d \<le> 10"
    using assms by (simp_all add: word_sle_eq)
  have add: "sint (x + y) = sint x + sint y" if "0 \<le> sint x" "sint x \<le> 30" "0 \<le> sint y" "sint y \<le> 10"
    for x y :: int64
    using that by (intro sint64_add) simp_all
  have "sint (a + b) = sint a + sint b" using r by (intro add) simp_all
  moreover from this r have "sint (a + b + c) = sint a + sint b + sint c" by (subst add) simp_all
  moreover from this r have "sint (a + b + c + d) = sint a + sint b + sint c + sint d" by (subst add) simp_all
  ultimately show "sint (a + b + c + d) = sint a + sint b + sint c + sint d" by simp
  show "0 \<le> sint a + sint b + sint c + sint d" "sint a + sint b + sint c + sint d \<le> 40" using r by linarith+
qed

section \<open>Properties\<close>

text \<open>C12: the score of a planned node is a number from 0 to 40 for every configured anti-affinity, every
  strategy and every order of summing up the volume groups: no nil pointer is read, and the result
  does not depend on how the machine converts a number that no \<open>int64\<close> can hold, so no division by
  zero has an effect.\<close>

theorem calculator_Score_bounds:
  assumes "scorable na" and "range_ok ord" and "ParseWeight conf = Inr w"
  shows "\<exists>n. (\<forall>cv. calculator_Score ord cv (NewScoreCalculator strategy w) na = Some n) \<and> 0 \<le>s n \<and> n \<le>s 40"
proof -
  have w: "good_score (weight_Get w VolumeTypeDevice)"
    using weight_Get_range [OF ParseWeight_range(2) [OF assms(3)]] by simp
  define a where "a = scoreByCapacity ord (\<lambda>_. 0) (Some na) (GetVGScheduleStrategy_weight strategy)"
  have a: "good_score a" and a': "scoreByCapacity ord cv (Some na) (GetVGScheduleStrategy_weight strategy) = a" for cv
    unfolding a_def by (rule vg_score [OF assms(1,2)])+
  obtain b where b: "\<And>cv. device_ScoreByCapacity cv na = Some b" "good_score b"
    using device_capacity_score [OF assms(1)] by blast
  obtain c where c: "\<And>cv. scoreDeviceCount (GetDeviceScheduleStrategy_count strategy cv) na = Some c" "good_score c"
    using device_count_score [OF assms(1)] by blast
  obtain d where d: "device_ScoreByNodeAntiAffinity w na = Some d" "good_score d"
    using anti_affinity_score [OF assms(1) w] by blast
  have "calculator_Score ord cv (NewScoreCalculator strategy w) na = Some (a + b + c + d)" for cv
    by (simp add: calculator_Score_def NewScoreCalculator_def a' b(1) c(1) d(1))
  moreover have "0 \<le>s a + b + c + d" "a + b + c + d \<le>s 40"
    using good_sum [OF a b(2) c(2) d(2)] by (simp_all add: word_sle_eq)
  ultimately show ?thesis by blast
qed

definition ex_scored :: NodeAllocateState where
  "ex_scored = \<lparr>nas_NodeName = ''n'', nas_PodUid = ''u'',
     nas_Units = Some \<lparr>LVMPVCAllocateUnits = [ex_lvm_unit ''p'' ''h'' 5],
       DevicePVCAllocateUnits = [ex_unit ''r'' ''b''\<lparr>pa_Allocated := 5\<rparr>], InlineVolumeAllocateUnits = [ex_inline ''g'' 3]\<rparr>,
     nas_NodeStorageAllocatedByUnits = Some ex_node\<rparr>"

lemma scorable_ex: "scorable ex_scored"
proof -
  have vgs: "\<And>v vg. map_of (VGStates ex_node) v = Some vg \<Longrightarrow>
      0 \<le>s vg_Requested vg \<and> vg_Requested vg \<le>s vg_Allocatable vg \<and> 0 <s vg_Allocatable vg"
    by (auto simp: ex_node_def ex_vg_def word_sle_eq word_sless_alt split: if_splits)
  show ?thesis
    using vgs by (auto simp: scorable_def ex_scored_def charged_vgs_def free_device_count_def
        ex_node_def ex_devices_def ex_device_def ex_unit_def ex_lvm_unit_def ex_inline_def word_sle_eq word_sless_alt)
qed

lemma calculator_Score_bounds_witness:
  "\<exists>n. (\<forall>cv. calculator_Score (\<lambda>ks. ks) cv (NewScoreCalculator StrategyBinpack [(''Device'', 5), (''LVM'', 7)]) ex_scored
     = Some n) \<and> 0 \<le>s n \<and> n \<le>s 40"
proof -
  have parsed: "ParseWeight ''Device,LVM=+7'' = Inr [(''Device'', 5), (''LVM'', 7)]"
    by code_simp
  from calculator_Score_bounds [OF scorable_ex range_ok_id parsed] show ?thesis .
qed

end
