(* ===== verification/Ext_Node.thy ===== *)
theory Ext_Node
  imports Local_Utils
begin

text \<open>
  The scheduler extender's view of one node: the types of
  \<open>pkg/scheduler/algorithm/cache/types.go\<close> and the operations of
  \<open>pkg/scheduler/algorithm/cache/node.go\<close>. A \<open>NodeCache\<close> is changed in place under its lock; here
  every operation returns the new one. A read of a missing map entry gives the zero value of the
  entry's type, and writing that value back creates the entry. The orders of the \<open>range\<close> loops of one
  \<open>UpdateNodeInfo\<close> are a record of parameters.
\<close>

section \<open>Types: types.go\<close>

record InlineVolumeInfo =
  ivi_VgName :: string
  ivi_VolumeName :: string
  ivi_VolumeSize :: int64
  ivi_PodName :: string
  ivi_PodNamespace :: string
  ivi_Recorded :: bool

record ExclusiveResource =
  er_Name :: string
  er_Device :: string
  er_Capacity :: int64
  er_MediaType :: MediaType
  er_IsAllocated :: bool

record SharedResource =
  sr_Name :: string
  sr_Capacity :: int64
  sr_Requested :: int64

record AllocatedUnit =
  au_NodeName :: string
  au_VolumeType :: VolumeType
  au_Requested :: int64
  au_Allocated :: int64
  au_VgName :: string
  au_Device :: string
  au_MountPoint :: string
  au_PVCName :: string

record NodeCache =
  nc_NodeName :: string
  nc_SupportSPDK :: bool
  nc_VGs :: "SharedResource gomap"
  nc_MountPoints :: "ExclusiveResource gomap"
  nc_Devices :: "ExclusiveResource gomap"
  nc_AllocatedNum :: int64
  nc_LocalPVs :: "PersistentVolume gomap"
  nc_PodInlineVolumeInfo :: "InlineVolumeInfo list gomap"
  nc_PVCRecordsByExtend :: "AllocatedUnit gomap"

definition zero_Shared :: SharedResource where
  "zero_Shared = \<lparr>sr_Name = [], sr_Capacity = 0, sr_Requested = 0\<rparr>"

definition zero_Exclusive :: ExclusiveResource where
  "zero_Exclusive = \<lparr>er_Name = [], er_Device = [], er_Capacity = 0, er_MediaType = [], er_IsAllocated = False\<rparr>"

definition shared_at :: "SharedResource gomap \<Rightarrow> string \<Rightarrow> SharedResource" where
  "shared_at m k = (case map_of m k of None \<Rightarrow> zero_Shared | Some v \<Rightarrow> v)"

definition exclusive_at :: "ExclusiveResource gomap \<Rightarrow> string \<Rightarrow> ExclusiveResource" where
  "exclusive_at m k = (case map_of m k of None \<Rightarrow> zero_Exclusive | Some v \<Rightarrow> v)"

definition IsPVAllocated :: "NodeCache \<Rightarrow> PersistentVolume \<Rightarrow> bool" where
  "IsPVAllocated nc pv =
     (if map_of (nc_LocalPVs nc) (pv_Name pv) \<noteq> None then True
      else if length (nc_PVCRecordsByExtend nc) \<le> 0 then False
      else (case pv_ClaimRef pv of
              None \<Rightarrow> False
            | Some (ns, name) \<Rightarrow> map_of (nc_PVCRecordsByExtend nc) (GetNameKey ns name) \<noteq> None))"

text \<open>Which claims of a pod have a selected node.\<close>

type_synonym PvcStatusInfo = "bool gomap"

record PodPvcMapping =
  PodPvcInfo :: "PvcStatusInfo gomap"
  PvcPod :: "string gomap"

definition NewPodPvcMapping :: PodPvcMapping where
  "NewPodPvcMapping = \<lparr>PodPvcInfo = [], PvcPod = []\<rparr>"

text \<open>In \<open>PutPod\<close> the map \<open>info\<close> is stored at the pod's name in every round, so that the mapping sees
  all its later entries.\<close>

definition put_claim ::
  "string \<Rightarrow> PersistentVolumeClaim \<Rightarrow> PvcStatusInfo \<times> PodPvcMapping \<Rightarrow> PvcStatusInfo \<times> PodPvcMapping" where
  "put_claim podName pvc = (\<lambda>(info, p).
     (let f = PvcContainsSelectedNode pvc;
          pvcName = PVCName pvc;
          info = AList.update pvcName f info
      in (info, p\<lparr>PvcPod := AList.update pvcName podName (PvcPod p),
                  PodPvcInfo := AList.update podName info (PodPvcInfo p)\<rparr>)))"

definition PutPod :: "PodPvcMapping \<Rightarrow> string \<Rightarrow> PersistentVolumeClaim list \<Rightarrow> PodPvcMapping" where
  "PutPod p podName pvcs = snd (fold (put_claim podName) pvcs ([], p))"

definition mapping_DeletePod :: "PodPvcMapping \<Rightarrow> string \<Rightarrow> PersistentVolumeClaim list \<Rightarrow> PodPvcMapping" where
  "mapping_DeletePod p podName pvcs =
     fold (\<lambda>pvc p. p\<lparr>PvcPod := AList.delete (PVCName pvc) (PvcPod p)\<rparr>) pvcs
       (p\<lparr>PodPvcInfo := AList.delete podName (PodPvcInfo p)\<rparr>)"

definition PutPvc :: "PodPvcMapping \<Rightarrow> PersistentVolumeClaim \<Rightarrow> PodPvcMapping" where
  "PutPvc p pvc =
     (let pvcName = PVCName pvc;
          podName = str_at (PvcPod p) pvcName
      in case map_of (PodPvcInfo p) podName of
           None \<Rightarrow> p
         | Some info \<Rightarrow>
             if length podName \<le> 0 then p
             else p\<lparr>PodPvcInfo := AList.update podName (AList.update pvcName (PvcContainsSelectedNode pvc) info)
                                   (PodPvcInfo p)\<rparr>)"

definition DeletePvc :: "PodPvcMapping \<Rightarrow> PersistentVolumeClaim \<Rightarrow> PodPvcMapping" where
  "DeletePvc p pvc = p\<lparr>PvcPod := AList.delete (PVCName pvc) (PvcPod p)\<rparr>"

definition IsPodPvcReady :: "PodPvcMapping \<Rightarrow> PersistentVolumeClaim \<Rightarrow> bool" where
  "IsPodPvcReady p pvc =
     (let podName = str_at (PvcPod p) (PVCName pvc)
      in case map_of (PodPvcInfo p) podName of
           None \<Rightarrow> True
         | Some pvcInfo \<Rightarrow> list_all (\<lambda>(_, selected). selected) pvcInfo)"

section \<open>A node from its NodeLocalStorage\<close>

definition NewNodeCache :: "string \<Rightarrow> NodeCache" where
  "NewNodeCache nodeName =
     \<lparr>nc_NodeName = nodeName, nc_SupportSPDK = False, nc_VGs = [], nc_MountPoints = [], nc_Devices = [],
      nc_AllocatedNum = 0, nc_LocalPVs = [], nc_PodInlineVolumeInfo = [], nc_PVCRecordsByExtend = []\<rparr>"

text \<open>The maps from names to what the agent reported, with the zero value for a name it did not.\<close>

definition vg_report :: "NodeLocalStorage \<Rightarrow> string \<Rightarrow> VolumeGroup" where
  "vg_report nodeLocal vgName =
     (case map_of (fold (\<lambda>vg m. AList.update (nvg_Name vg) vg m)
                    (nsi_VolumeGroups (nls_NodeStorageInfo (nls_Status nodeLocal))) []) vgName of
        Some vg \<Rightarrow> vg
      | None \<Rightarrow> \<lparr>nvg_Name = [], nvg_Total = 0, nvg_Available = 0, nvg_Allocatable = 0\<rparr>)"

definition device_report :: "NodeLocalStorage \<Rightarrow> string \<Rightarrow> DeviceInfo" where
  "device_report nodeLocal deviceName =
     (case map_of (fold (\<lambda>d m. AList.update (ndev_Name d) d m)
                    (nsi_DeviceInfos (nls_NodeStorageInfo (nls_Status nodeLocal))) []) deviceName of
        Some d \<Rightarrow> d
      | None \<Rightarrow> \<lparr>ndev_Name = [], ndev_MediaType = [], ndev_Total = 0, ndev_ReadOnly = False\<rparr>)"

definition mp_report :: "NodeLocalStorage \<Rightarrow> string \<Rightarrow> MountPoint" where
  "mp_report nodeLocal mp =
     (case map_of (fold (\<lambda>m r. AList.update (nmp_Name m) m r)
                    (nsi_MountPoints (nls_NodeStorageInfo (nls_Status nodeLocal))) []) mp of
        Some m \<Rightarrow> m
      | None \<Rightarrow> \<lparr>nmp_Name = [], nmp_Total = 0, nmp_FsType = [], nmp_Device = [], nmp_ReadOnly = False\<rparr>)"

definition NewNodeCacheFromStorage :: "NodeLocalStorage \<Rightarrow> NodeCache" where
  "NewNodeCacheFromStorage nodeLocal =
     (let filtered = nls_FilteredStorageInfo (nls_Status nodeLocal);
          nc = (NewNodeCache (nls_Name nodeLocal))\<lparr>nc_SupportSPDK := nls_SpdkDeviceType nodeLocal \<noteq> []\<rparr>;
          nc = fold (\<lambda>vgName nc. nc\<lparr>nc_VGs := AList.update vgName
                      \<lparr>sr_Name = vgName, sr_Capacity = nvg_Allocatable (vg_report nodeLocal vgName),
                       sr_Requested = 0\<rparr> (nc_VGs nc)\<rparr>)
                 (fsi_VolumeGroups filtered) nc;
          nc = fold (\<lambda>deviceName nc.
                      (let tmpDevice = device_report nodeLocal deviceName
                       in nc\<lparr>nc_Devices := AList.update deviceName
                            \<lparr>er_Name = ndev_Name tmpDevice, er_Device = ndev_Name tmpDevice,
                             er_Capacity = ndev_Total tmpDevice, er_MediaType = ndev_MediaType tmpDevice,
                             er_IsAllocated = False\<rparr> (nc_Devices nc)\<rparr>))
                 (fsi_Devices filtered) nc
      in fold (\<lambda>mp nc.
              (let tmpMP = mp_report nodeLocal mp
               in if \<not> CheckMountPointOptions tmpMP then nc
                  else nc\<lparr>nc_MountPoints := AList.update mp
                         \<lparr>er_Name = mp, er_Device = nmp_Device tmpMP, er_Capacity = nmp_Total tmpMP,
                          er_MediaType = ndev_MediaType (device_report nodeLocal (nmp_Device tmpMP)),
                          er_IsAllocated = False\<rparr> (nc_MountPoints nc)\<rparr>))
           (fsi_MountPoints filtered) nc)"

section \<open>The volumes and pods of a node\<close>

definition isNodeLocal :: "NodeCache \<Rightarrow> PersistentVolume \<Rightarrow> bool" where
  "isNodeLocal nc pv = (case IsLocalPV pv of (b, node) \<Rightarrow> b \<and> node = nc_NodeName nc)"

text \<open>
  The parameter \<open>kind\<close> of \<open>IsLocalPVExist\<close> is shadowed by the volume's own type and never read. A
  volume without a CSI source in the cache is a nil dereference: \<open>None\<close>.
\<close>

definition pv_resource :: "CSISource \<Rightarrow> string option" where
  "pv_resource csi =
     (case map_of (csi_VolumeAttributes csi) VolumeTypeKey of
        None \<Rightarrow> None
      | Some kind \<Rightarrow>
          (case VolumeTypeFromString kind of
             Inl _ \<Rightarrow> None
           | Inr lt \<Rightarrow>
               if lt = VolumeTypeMountPoint then map_of (csi_VolumeAttributes csi) VolumeTypeMountPoint
               else if lt = VolumeTypeDevice then map_of (csi_VolumeAttributes csi) key_DeviceName
               else if lt = VolumeTypeLVM then map_of (csi_VolumeAttributes csi) key_VGName
               else None))"

fun local_pv_exist_loop :: "PersistentVolume list \<Rightarrow> string \<Rightarrow> bool option" where
  "local_pv_exist_loop [] resourceName = Some False"
| "local_pv_exist_loop (pv # pvs) resourceName =
     (case pv_CSI pv of
        None \<Rightarrow> None
      | Some csi \<Rightarrow>
          if pv_resource csi = Some resourceName then Some True
          else local_pv_exist_loop pvs resourceName)"

definition IsLocalPVExist :: "range_order \<Rightarrow> NodeCache \<Rightarrow> VolumeType \<Rightarrow> string \<Rightarrow> bool option" where
  "IsLocalPVExist ord nc kind resourceName =
     local_pv_exist_loop (map snd (reorder ord (nc_LocalPVs nc))) resourceName"

definition checkInlineVolumes :: "NodeCache \<Rightarrow> Pod \<Rightarrow> bool" where
  "checkInlineVolumes nc pod =
     (case ContainInlineVolumes pod of
        (contain, node) \<Rightarrow> contain \<and> node = nc_NodeName nc \<and> pod_Phase pod = PodRunning)"

section \<open>A newer NodeLocalStorage: UpdateNodeInfo\<close>

record node_ranges =
  over_VGs :: range_order
  over_Pods :: range_order
  over_Devices :: range_order
  over_MountPoints :: range_order
  over_LocalPVs :: range_order

definition update_VGs :: "kube \<Rightarrow> node_ranges \<Rightarrow> NodeLocalStorage \<Rightarrow> NodeCache \<Rightarrow> NodeCache" where
  "update_VGs K ords nodeLocal nc =
     (let vgCache = map (\<lambda>(_, vg). sr_Name vg) (reorder (over_VGs ords) (nc_VGs nc));
          (addedVGs, unchangedVGs, removedVGs) =
            GetAddedAndRemovedItems (fsi_VolumeGroups (nls_FilteredStorageInfo (nls_Status nodeLocal))) vgCache;
          nc = fold (\<lambda>vg nc. nc\<lparr>nc_VGs := AList.update vg
                      \<lparr>sr_Name = vg, sr_Capacity = nvg_Allocatable (vg_report nodeLocal vg),
                       sr_Requested = GetVGRequested K (nc_LocalPVs nc) vg\<rparr> (nc_VGs nc)\<rparr>) addedVGs nc;
          nc = fold (\<lambda>vg nc. nc\<lparr>nc_VGs := AList.update vg
                      ((shared_at (nc_VGs nc) vg)\<lparr>sr_Capacity := nvg_Allocatable (vg_report nodeLocal vg)\<rparr>)
                      (nc_VGs nc)\<rparr>) unchangedVGs nc
      in fold (\<lambda>vg nc. nc\<lparr>nc_VGs := AList.delete vg (nc_VGs nc)\<rparr>) removedVGs nc)"

text \<open>\<open>volume\<close> is a copy of the slice's element: setting its \<open>Recorded\<close> does not change the cache.\<close>

definition charge_inline :: "InlineVolumeInfo \<Rightarrow> NodeCache \<Rightarrow> NodeCache" where
  "charge_inline volume nc =
     (if \<not> ivi_Recorded volume
      then (let vg = shared_at (nc_VGs nc) (ivi_VgName volume)
            in nc\<lparr>nc_VGs := AList.update (ivi_VgName volume)
                   (vg\<lparr>sr_Requested := sr_Requested vg + ivi_VolumeSize volume\<rparr>) (nc_VGs nc)\<rparr>)
      else nc)"

definition charge_inline_volumes :: "node_ranges \<Rightarrow> NodeCache \<Rightarrow> NodeCache" where
  "charge_inline_volumes ords nc =
     fold (\<lambda>(_, volumes). fold charge_inline volumes)
       (reorder (over_Pods ords) (nc_PodInlineVolumeInfo nc)) nc"

fun add_devices :: "node_ranges \<Rightarrow> NodeLocalStorage \<Rightarrow> string list \<Rightarrow> NodeCache \<Rightarrow> NodeCache option" where
  "add_devices ords nodeLocal [] nc = Some nc"
| "add_devices ords nodeLocal (device # devices) nc =
     (case IsLocalPVExist (over_LocalPVs ords) nc VolumeTypeDevice device of
        None \<Rightarrow> None
      | Some allocated \<Rightarrow>
          add_devices ords nodeLocal devices
            (nc\<lparr>nc_Devices := AList.update device
               \<lparr>er_Name = device, er_Device = device, er_Capacity = ndev_Total (device_report nodeLocal device),
                er_MediaType = ndev_MediaType (device_report nodeLocal device), er_IsAllocated = allocated\<rparr>
               (nc_Devices nc)\<rparr>))"

definition update_Devices :: "node_ranges \<Rightarrow> NodeLocalStorage \<Rightarrow> NodeCache \<Rightarrow> NodeCache option" where
  "update_Devices ords nodeLocal nc =
     (let deviceCache = map (\<lambda>(_, device). er_Name device) (reorder (over_Devices ords) (nc_Devices nc));
          (addedDevices, unchangedDevices, removedDevices) =
            GetAddedAndRemovedItems (fsi_Devices (nls_FilteredStorageInfo (nls_Status nodeLocal))) deviceCache
      in case add_devices ords nodeLocal addedDevices nc of
           None \<Rightarrow> None
         | Some nc \<Rightarrow>
             (let nc = fold (\<lambda>device nc.
                        (let exDevice = exclusive_at (nc_Devices nc) device;
                             report = device_report nodeLocal device
                         in nc\<lparr>nc_Devices := AList.update device
                              (exDevice\<lparr>er_Capacity := ndev_Total report, er_MediaType := ndev_MediaType report\<rparr>)
                              (nc_Devices nc)\<rparr>)) unchangedDevices nc
              in Some (fold (\<lambda>device nc.
                     if er_IsAllocated (exclusive_at (nc_Devices nc) device) then nc
                     else nc\<lparr>nc_Devices := AList.delete device (nc_Devices nc)\<rparr>) removedDevices nc)))"

fun add_mount_points :: "node_ranges \<Rightarrow> NodeLocalStorage \<Rightarrow> string list \<Rightarrow> NodeCache \<Rightarrow> NodeCache option" where
  "add_mount_points ords nodeLocal [] nc = Some nc"
| "add_mount_points ords nodeLocal (mp # mps) nc =
     (let tmpMP = mp_report nodeLocal mp
      in if \<not> CheckMountPointOptions tmpMP then add_mount_points ords nodeLocal mps nc
         else (case IsLocalPVExist (over_LocalPVs ords) nc VolumeTypeMountPoint mp of
                 None \<Rightarrow> None
               | Some allocated \<Rightarrow>
                   add_mount_points ords nodeLocal mps
                     (nc\<lparr>nc_MountPoints := AList.update mp
                        \<lparr>er_Name = mp, er_Device = nmp_Device tmpMP, er_Capacity = nmp_Total tmpMP,
                         er_MediaType = ndev_MediaType (device_report nodeLocal (nmp_Device tmpMP)),
                         er_IsAllocated = allocated\<rparr> (nc_MountPoints nc)\<rparr>)))"

definition update_MountPoints :: "node_ranges \<Rightarrow> NodeLocalStorage \<Rightarrow> NodeCache \<Rightarrow> NodeCache option" where
  "update_MountPoints ords nodeLocal nc =
     (let cacheMP = map (\<lambda>(_, mp). er_Name mp) (reorder (over_MountPoints ords) (nc_MountPoints nc));
          (addedMPs, unchangedMPs, removedMPs) =
            GetAddedAndRemovedItems (fsi_MountPoints (nls_FilteredStorageInfo (nls_Status nodeLocal))) cacheMP
      in case add_mount_points ords nodeLocal addedMPs nc of
           None \<Rightarrow> None
         | Some nc \<Rightarrow>
             (let nc = fold (\<lambda>mp nc.
                        (let exMP = exclusive_at (nc_MountPoints nc) mp
                         in nc\<lparr>nc_MountPoints := AList.update mp
                              (exMP\<lparr>er_Capacity := nmp_Total (mp_report nodeLocal mp),
                                    er_MediaType := ndev_MediaType (device_report nodeLocal (er_Device exMP))\<rparr>)
                              (nc_MountPoints nc)\<rparr>)) unchangedMPs nc
              in Some (fold (\<lambda>mp nc.
                     if er_IsAllocated (exclusive_at (nc_MountPoints nc) mp) then nc
                     else nc\<lparr>nc_MountPoints := AList.delete mp (nc_MountPoints nc)\<rparr>) removedMPs nc)))"

definition UpdateNodeInfo :: "kube \<Rightarrow> node_ranges \<Rightarrow> NodeCache \<Rightarrow> NodeLocalStorage \<Rightarrow> NodeCache option" where
  "UpdateNodeInfo K ords nc nodeLocal =
     (let nc = (if nls_SpdkDeviceType nodeLocal \<noteq> [] then nc\<lparr>nc_SupportSPDK := True\<rparr> else nc);
          nc = update_VGs K ords nodeLocal nc;
          nc = charge_inline_volumes ords nc
      in case update_Devices ords nodeLocal nc of
           None \<Rightarrow> None
         | Some nc \<Rightarrow> update_MountPoints ords nodeLocal nc)"

section \<open>LVM volumes\<close>

text \<open>The methods below return \<open>nil\<close> as their error on every path, except \<open>AddLocalDevice\<close> and
  \<open>AddPodInlineVolumeInfo\<close>.\<close>

definition nc_AddLVM :: "kube \<Rightarrow> NodeCache \<Rightarrow> PersistentVolume \<Rightarrow> NodeCache" where
  "nc_AddLVM K nc pv =
     (if \<not> isNodeLocal nc pv then nc
      else (let vgName = GetVGNameFromCsiPV K pv
            in if length vgName = 0 then nc
               else (let nc = (case map_of (nc_VGs nc) vgName of
                                 Some vg \<Rightarrow>
                                   nc\<lparr>nc_AllocatedNum := nc_AllocatedNum nc + 1,
                                      nc_VGs := AList.update vgName
                                        (vg\<lparr>sr_Requested := sr_Requested vg + GetPVStorageSize pv\<rparr>) (nc_VGs nc)\<rparr>
                               | None \<Rightarrow> nc\<lparr>nc_AllocatedNum := nc_AllocatedNum nc + 1\<rparr>)
                     in nc\<lparr>nc_LocalPVs := AList.update (pv_Name pv) pv (nc_LocalPVs nc)\<rparr>)))"

definition nc_UpdateLVM :: "kube \<Rightarrow> NodeCache \<Rightarrow> PersistentVolume \<Rightarrow> PersistentVolume \<Rightarrow> NodeCache" where
  "nc_UpdateLVM K nc old pv =
     (if \<not> isNodeLocal nc pv then nc
      else (let vgName = GetVGNameFromCsiPV K pv
            in if length vgName = 0 then nc
               else (let nc = (case map_of (nc_VGs nc) vgName of
                                 Some vg \<Rightarrow>
                                   if IsPVAllocated nc pv
                                   then nc\<lparr>nc_VGs := AList.update vgName
                                          (vg\<lparr>sr_Requested := sr_Requested vg + GetPVStorageSize pv
                                                - GetPVStorageSize old\<rparr>) (nc_VGs nc)\<rparr>
                                   else nc\<lparr>nc_AllocatedNum := nc_AllocatedNum nc + 1,
                                           nc_VGs := AList.update vgName
                                             (vg\<lparr>sr_Requested := sr_Requested vg + GetPVStorageSize pv\<rparr>)
                                             (nc_VGs nc)\<rparr>
                               | None \<Rightarrow> nc)
                     in nc\<lparr>nc_LocalPVs := AList.update (pv_Name pv) pv (nc_LocalPVs nc)\<rparr>)))"

definition nc_RemoveLVM :: "kube \<Rightarrow> NodeCache \<Rightarrow> PersistentVolume \<Rightarrow> NodeCache" where
  "nc_RemoveLVM K nc pv =
     (if \<not> isNodeLocal nc pv then nc
      else (let vgName = GetVGNameFromCsiPV K pv;
                nc = (case map_of (nc_VGs nc) vgName of
                        Some vg \<Rightarrow>
                          nc\<lparr>nc_AllocatedNum := nc_AllocatedNum nc - 1,
                             nc_VGs := AList.update vgName
                               (vg\<lparr>sr_Requested := sr_Requested vg - GetPVStorageSize pv\<rparr>) (nc_VGs nc)\<rparr>
                      | None \<Rightarrow> nc\<lparr>nc_AllocatedNum := nc_AllocatedNum nc - 1\<rparr>)
            in nc\<lparr>nc_LocalPVs := AList.delete (pv_Name pv) (nc_LocalPVs nc)\<rparr>))"

section \<open>Mount points and devices\<close>

definition nc_AddLocalMountPoint :: "NodeCache \<Rightarrow> PersistentVolume \<Rightarrow> NodeCache" where
  "nc_AddLocalMountPoint nc pv =
     (if \<not> isNodeLocal nc pv then nc
      else (let diskName = GetMountPointFromCsiPV pv
            in if length diskName = 0 then nc
               else (let nc = (case map_of (nc_MountPoints nc) diskName of
                                 Some disk \<Rightarrow>
                                   if \<not> er_IsAllocated disk
                                   then nc\<lparr>nc_AllocatedNum := nc_AllocatedNum nc + 1,
                                           nc_MountPoints := AList.update diskName
                                             (disk\<lparr>er_IsAllocated := True\<rparr>) (nc_MountPoints nc)\<rparr>
                                   else nc
                               | None \<Rightarrow> nc\<lparr>nc_AllocatedNum := nc_AllocatedNum nc + 1\<rparr>)
                     in nc\<lparr>nc_LocalPVs := AList.update (pv_Name pv) pv (nc_LocalPVs nc)\<rparr>)))"

definition nc_RemoveLocalMountPoint :: "NodeCache \<Rightarrow> PersistentVolume \<Rightarrow> NodeCache" where
  "nc_RemoveLocalMountPoint nc pv =
     (if \<not> isNodeLocal nc pv then nc
      else (let diskName = GetMountPointFromCsiPV pv;
                nc = (case map_of (nc_MountPoints nc) diskName of
                        Some disk \<Rightarrow>
                          nc\<lparr>nc_AllocatedNum := nc_AllocatedNum nc - 1,
                             nc_MountPoints := AList.update diskName
                               (disk\<lparr>er_IsAllocated := False\<rparr>) (nc_MountPoints nc)\<rparr>
                      | None \<Rightarrow> nc\<lparr>nc_AllocatedNum := nc_AllocatedNum nc - 1\<rparr>)
            in nc\<lparr>nc_LocalPVs := AList.delete (pv_Name pv) (nc_LocalPVs nc)\<rparr>))"

definition nc_AddLocalDevice :: "kube \<Rightarrow> NodeCache \<Rightarrow> PersistentVolume \<Rightarrow> NodeCache \<times> go_error option" where
  "nc_AddLocalDevice K nc pv =
     (if \<not> isNodeLocal nc pv then (nc, None)
      else (let deviceName = GetDeviceNameFromCsiPV K pv
            in if length deviceName = 0
               then (nc, Some (Errorf ''pv %s is not a valid open-local pv(device with name)'' [S (pv_Name pv)]))
               else (let nc = (case map_of (nc_Devices nc) deviceName of
                                 Some device \<Rightarrow>
                                   if \<not> er_IsAllocated device
                                   then nc\<lparr>nc_AllocatedNum := nc_AllocatedNum nc + 1,
                                           nc_Devices := AList.update deviceName
                                             (device\<lparr>er_IsAllocated := True\<rparr>) (nc_Devices nc)\<rparr>
                                   else nc
                               | None \<Rightarrow> nc\<lparr>nc_AllocatedNum := nc_AllocatedNum nc + 1\<rparr>)
                     in (nc\<lparr>nc_LocalPVs := AList.update (pv_Name pv) pv (nc_LocalPVs nc)\<rparr>, None))))"

definition nc_RemoveLocalDevice :: "kube \<Rightarrow> NodeCache \<Rightarrow> PersistentVolume \<Rightarrow> NodeCache" where
  "nc_RemoveLocalDevice K nc pv =
     (if \<not> isNodeLocal nc pv then nc
      else (let deviceName = GetDeviceNameFromCsiPV K pv;
                nc = (case map_of (nc_Devices nc) deviceName of
                        Some device \<Rightarrow>
                          nc\<lparr>nc_AllocatedNum := nc_AllocatedNum nc - 1,
                             nc_Devices := AList.update deviceName
                               (device\<lparr>er_IsAllocated := False\<rparr>) (nc_Devices nc)\<rparr>
                      | None \<Rightarrow> nc\<lparr>nc_AllocatedNum := nc_AllocatedNum nc - 1\<rparr>)
            in nc\<lparr>nc_LocalPVs := AList.delete (pv_Name pv) (nc_LocalPVs nc)\<rparr>))"

section \<open>Inline volumes of a pod\<close>

fun add_inline_loop ::
  "kube \<Rightarrow> Pod \<Rightarrow> Volume list \<Rightarrow> NodeCache \<Rightarrow> NodeCache \<times> go_error option" where
  "add_inline_loop K pod [] nc = (nc, None)"
| "add_inline_loop K pod (volume # volumes) nc =
     (case vol_CSI volume of
        None \<Rightarrow> add_inline_loop K pod volumes nc
      | Some csi \<Rightarrow>
          if \<not> ContainsProvisioner (csi_Driver csi) then add_inline_loop K pod volumes nc
          else
            (let (vgName, sz) = GetInlineVolumeInfoFromParam K (csi_VolumeAttributes csi)
             in if vgName = [] then
                  (nc, Some (Errorf ''no vgName found in inline volume of Pod %s''
                               [S (GetNameKey (pod_Namespace pod) (pod_Name pod))]))
                else
                  (let info = \<lparr>ivi_VgName = vgName, ivi_VolumeName = vol_Name volume, ivi_VolumeSize = sz,
                               ivi_PodName = pod_Name pod, ivi_PodNamespace = pod_Namespace pod,
                               ivi_Recorded = False\<rparr>;
                       (nc, info) =
                         (case map_of (nc_VGs nc) vgName of
                            Some vg \<Rightarrow>
                              (nc\<lparr>nc_VGs := AList.update vgName (vg\<lparr>sr_Requested := sr_Requested vg + sz\<rparr>)
                                               (nc_VGs nc)\<rparr>, info\<lparr>ivi_Recorded := True\<rparr>)
                          | None \<Rightarrow> (nc, info));
                       volumes' = (case map_of (nc_PodInlineVolumeInfo nc) (pod_UID pod) of
                                     None \<Rightarrow> [] | Some vs \<Rightarrow> vs)
                   in add_inline_loop K pod volumes
                        (nc\<lparr>nc_PodInlineVolumeInfo := AList.update (pod_UID pod) (volumes' @ [info])
                              (nc_PodInlineVolumeInfo nc)\<rparr>))))"

definition nc_AddPodInlineVolumeInfo :: "kube \<Rightarrow> NodeCache \<Rightarrow> Pod \<Rightarrow> NodeCache \<times> go_error option" where
  "nc_AddPodInlineVolumeInfo K nc pod =
     (if \<not> checkInlineVolumes nc pod then (nc, None)
      else if map_of (nc_PodInlineVolumeInfo nc) (pod_UID pod) \<noteq> None then (nc, None)
      else add_inline_loop K pod (pod_Volumes pod)
             (nc\<lparr>nc_PodInlineVolumeInfo := AList.update (pod_UID pod) [] (nc_PodInlineVolumeInfo nc)\<rparr>))"

definition nc_UpdatePodInlineVolumeInfo :: "kube \<Rightarrow> NodeCache \<Rightarrow> Pod \<Rightarrow> NodeCache \<times> go_error option" where
  "nc_UpdatePodInlineVolumeInfo = nc_AddPodInlineVolumeInfo"

definition nc_DeletePodInlineVolumeInfo :: "NodeCache \<Rightarrow> Pod \<Rightarrow> NodeCache" where
  "nc_DeletePodInlineVolumeInfo nc pod =
     (case map_of (nc_PodInlineVolumeInfo nc) (pod_UID pod) of
        None \<Rightarrow> nc
      | Some volumes \<Rightarrow>
          fold (\<lambda>volume nc.
              (let vg = shared_at (nc_VGs nc) (ivi_VgName volume)
               in nc\<lparr>nc_VGs := AList.update (ivi_VgName volume)
                      (vg\<lparr>sr_Requested := sr_Requested vg - ivi_VolumeSize volume\<rparr>) (nc_VGs nc)\<rparr>))
            volumes
            (nc\<lparr>nc_PodInlineVolumeInfo := AList.delete (pod_UID pod) (nc_PodInlineVolumeInfo nc)\<rparr>))"

end
