(* ===== verification/Ext_Cluster.thy ===== *)
theory Ext_Cluster
  imports Ext_Node
begin

text \<open>
  The scheduler extender's cache of the cluster: \<open>pkg/scheduler/algorithm/cache/cluster.go\<close>. The map
  \<open>Nodes\<close> holds pointers; an operation that gets a node from it and changes it in place is modelled by
  writing the changed node back under the same key.
\<close>

section \<open>The cache\<close>

record ClusterNodeCache =
  Nodes :: "NodeCache gomap"
  BindingInfo :: "AllocatedUnit gomap"
  PvcMapping :: PodPvcMapping

definition NewClusterNodeCache :: ClusterNodeCache where
  "NewClusterNodeCache = \<lparr>Nodes = [], BindingInfo = [], PvcMapping = NewPodPvcMapping\<rparr>"

abbreviation put_node :: "string \<Rightarrow> NodeCache \<Rightarrow> ClusterNodeCache \<Rightarrow> ClusterNodeCache" where
  "put_node k nc c \<equiv> c\<lparr>Nodes := AList.update k nc (Nodes c)\<rparr>"

definition IsPVCExists :: "AllocatedUnit gomap \<Rightarrow> string \<Rightarrow> bool" where
  "IsPVCExists bm pvc = (map_of bm pvc \<noteq> None)"

definition AddNodeCache :: "ClusterNodeCache \<Rightarrow> NodeLocalStorage \<Rightarrow> ClusterNodeCache" where
  "AddNodeCache c nodeLocal =
     (case map_of (Nodes c) (nls_Name nodeLocal) of
        Some v \<Rightarrow> c
      | None \<Rightarrow> put_node (nls_Name nodeLocal) (NewNodeCacheFromStorage nodeLocal) c)"

definition UpdateNodeCache ::
  "kube \<Rightarrow> node_ranges \<Rightarrow> ClusterNodeCache \<Rightarrow> NodeLocalStorage \<Rightarrow> ClusterNodeCache option" where
  "UpdateNodeCache K ords c nodeLocal =
     (case map_of (Nodes c) (nls_Name nodeLocal) of
        None \<Rightarrow> Some c
      | Some cachedNode \<Rightarrow>
          (case UpdateNodeInfo K ords cachedNode nodeLocal of
             None \<Rightarrow> None
           | Some updatedCache \<Rightarrow> Some (put_node (nls_Name nodeLocal) updatedCache c)))"

definition GetNodeCache :: "ClusterNodeCache \<Rightarrow> string \<Rightarrow> NodeCache option" where
  "GetNodeCache c nodeName = map_of (Nodes c) nodeName"

definition SetNodeCache :: "ClusterNodeCache \<Rightarrow> NodeCache \<Rightarrow> ClusterNodeCache" where
  "SetNodeCache c nodeCache =
     (if nc_NodeName nodeCache = [] then c else put_node (nc_NodeName nodeCache) nodeCache c)"

section \<open>Assuming the units of a decision\<close>

definition assumeMountPointAllocatedUnit :: "AllocatedUnit \<Rightarrow> NodeCache \<Rightarrow> NodeCache \<times> go_error option" where
  "assumeMountPointAllocatedUnit unit nodeCache =
     (let nodeCache = nodeCache\<lparr>nc_AllocatedNum := nc_AllocatedNum nodeCache + 1\<rparr>;
          v = exclusive_at (nc_MountPoints nodeCache) (au_MountPoint unit)
      in if er_IsAllocated v
         then (nodeCache, Some (Errorf ''disk resource %s was already allocated'' [S (er_Name v)]))
         else (nodeCache\<lparr>nc_MountPoints := AList.update (au_MountPoint unit)
                    \<lparr>er_Name = au_MountPoint unit, er_Device = er_Device v, er_Capacity = au_Allocated unit,
                     er_MediaType = er_MediaType v, er_IsAllocated = True\<rparr> (nc_MountPoints nodeCache),
                  nc_PVCRecordsByExtend := AList.update (au_PVCName unit) unit (nc_PVCRecordsByExtend nodeCache)\<rparr>,
               None))"

definition assumeLVMAllocatedUnit :: "AllocatedUnit \<Rightarrow> NodeCache \<Rightarrow> NodeCache \<times> go_error option" where
  "assumeLVMAllocatedUnit unit nodeCache =
     (case map_of (nc_VGs nodeCache) (au_VgName unit) of
        None \<Rightarrow> (nodeCache, Some (Errorf ''vg %s/%s is not found in cache, please retry later''
                              [S (nc_NodeName nodeCache), S (au_VgName unit)]))
      | Some vg \<Rightarrow>
          if sr_Capacity vg <s sr_Requested vg + au_Requested unit
          then (nodeCache, Some (Errorf ''VG %s resource is not enough, requested = %d, actual left = %d''
                             [S (sr_Name vg), D (au_Requested unit), D (sr_Capacity vg - sr_Requested vg)]))
          else if map_of (nc_PVCRecordsByExtend nodeCache) (au_PVCName unit) \<noteq> None then (nodeCache, None)
          else (nodeCache\<lparr>nc_AllocatedNum := nc_AllocatedNum nodeCache + 1,
                   nc_PVCRecordsByExtend := AList.update (au_PVCName unit) unit (nc_PVCRecordsByExtend nodeCache),
                   nc_VGs := AList.update (sr_Name vg)
                     \<lparr>sr_Name = sr_Name vg, sr_Capacity = sr_Capacity vg,
                      sr_Requested = sr_Requested vg + au_Requested unit\<rparr> (nc_VGs nodeCache)\<rparr>, None))"

text \<open>The check of \<open>assumeDeviceAllocatedUnit\<close> looks the device up by the unit's mount point.\<close>

definition assumeDeviceAllocatedUnit :: "AllocatedUnit \<Rightarrow> NodeCache \<Rightarrow> NodeCache \<times> go_error option" where
  "assumeDeviceAllocatedUnit unit nodeCache =
     (let nodeCache = nodeCache\<lparr>nc_AllocatedNum := nc_AllocatedNum nodeCache + 1\<rparr>;
          v = exclusive_at (nc_Devices nodeCache) (au_MountPoint unit)
      in if er_IsAllocated v
         then (nodeCache, Some (Errorf ''disk resource %s was already allocated'' [S (er_Name v)]))
         else (nodeCache\<lparr>nc_Devices := AList.update (au_Device unit)
                    \<lparr>er_Name = au_Device unit, er_Device = au_Device unit, er_Capacity = au_Allocated unit,
                     er_MediaType = er_MediaType (exclusive_at (nc_Devices nodeCache) (au_Device unit)),
                     er_IsAllocated = True\<rparr> (nc_Devices nodeCache),
                  nc_PVCRecordsByExtend := AList.update (au_PVCName unit) unit (nc_PVCRecordsByExtend nodeCache)\<rparr>,
               None))"

definition assume_unit :: "AllocatedUnit \<Rightarrow> NodeCache \<Rightarrow> NodeCache \<times> go_error option" where
  "assume_unit u nodeCache =
     (let volumeType = au_VolumeType u
      in if volumeType = VolumeTypeLVM then assumeLVMAllocatedUnit u nodeCache
         else if volumeType = VolumeTypeDevice then assumeDeviceAllocatedUnit u nodeCache
         else if volumeType = VolumeTypeMountPoint then assumeMountPointAllocatedUnit u nodeCache
         else (nodeCache, Some (Errorf ''invalid volumeType %s'' [S volumeType])))"

text \<open>The loop goes on after an error and returns the error of the last unit.\<close>

fun Assume_loop ::
  "ClusterNodeCache \<Rightarrow> AllocatedUnit list \<Rightarrow> go_error option \<Rightarrow> ClusterNodeCache \<times> go_error option" where
  "Assume_loop c [] err = (c, err)"
| "Assume_loop c (u # units) err =
     (case GetNodeCache c (au_NodeName u) of
        None \<Rightarrow> (c, Some (Errorf ''node %s not found from cache when assume'' [S (au_NodeName u)]))
      | Some nodeCache \<Rightarrow>
          (let (nodeCache', err) = assume_unit u nodeCache;
               c = put_node (au_NodeName u) nodeCache' c;
               c = (if err = None then SetNodeCache c nodeCache' else c)
           in Assume_loop c units err))"

definition Assume :: "ClusterNodeCache \<Rightarrow> AllocatedUnit list \<Rightarrow> ClusterNodeCache \<times> go_error option" where
  "Assume c units = Assume_loop c units None"

end
