(* ===== verification/Ext_Algo.thy ===== *)
theory Ext_Algo
  imports Ext_Cluster Scoring
begin

text \<open>
  The algorithms of the scheduler extender: \<open>pkg/scheduler/algorithm/algo/common.go\<close>. Each works on
  copies of the node's maps and returns whether the claims fit, the units it chose and an error. \<open>None\<close>
  is the panic of \<open>IsReadOnlySnapshotPVC\<close> on a snapshot without a class. The orders of the \<open>range\<close>
  loops are a record of parameters; \<open>Binpack\<close> and \<open>Spread\<close> range anew for every claim. A node is its
  name, \<open>localtype.SchedulerStrategy\<close> the parameter \<open>strategy\<close>.
\<close>

record algo_ranges =
  range_Predicate :: range_order
  range_Claim :: "PersistentVolumeClaim \<Rightarrow> range_order"
  range_MountPoints :: range_order
  range_Devices :: range_order
  range_Scores :: range_order

definition lvm_unit :: "string \<Rightarrow> int64 \<Rightarrow> string \<Rightarrow> string \<Rightarrow> AllocatedUnit" where
  "lvm_unit nodeName requestedSize vgName pvcName =
     \<lparr>au_NodeName = nodeName, au_VolumeType = VolumeTypeLVM, au_Requested = requestedSize,
      au_Allocated = requestedSize, au_VgName = vgName, au_Device = [], au_MountPoint = [],
      au_PVCName = pvcName\<rparr>"

abbreviation sr_free :: "SharedResource \<Rightarrow> int64" where
  "sr_free vg \<equiv> sr_Capacity vg - sr_Requested vg"

section \<open>LVM claims: the predicate\<close>

fun DivideLVMPVCs_loop ::
  "kube \<Rightarrow> PersistentVolumeClaim list \<Rightarrow> PersistentVolumeClaim list \<Rightarrow> PersistentVolumeClaim list \<Rightarrow>
     PersistentVolumeClaim list \<times> PersistentVolumeClaim list" where
  "DivideLVMPVCs_loop K [] withVG withoutVG = (withVG, withoutVG)"
| "DivideLVMPVCs_loop K (pvc # pvcs) withVG withoutVG =
     (case GetVGNameFromPVC K pvc of
        Inl err \<Rightarrow> (withVG, withoutVG)
      | Inr vgName \<Rightarrow>
          if vgName = [] then DivideLVMPVCs_loop K pvcs withVG (withoutVG @ [pvc])
          else DivideLVMPVCs_loop K pvcs (withVG @ [pvc]) withoutVG)"

definition DivideLVMPVCs ::
  "kube \<Rightarrow> PersistentVolumeClaim list \<Rightarrow> PersistentVolumeClaim list \<times> PersistentVolumeClaim list" where
  "DivideLVMPVCs K pvcs = DivideLVMPVCs_loop K pvcs [] []"

definition GetNodeVGMap :: "ClusterNodeCache \<Rightarrow> string \<Rightarrow> go_error + SharedResource gomap" where
  "GetNodeVGMap c nodeName =
     (case GetNodeCache c nodeName of
        None \<Rightarrow> Inl (Errorf ''node %s not found from cache'' [S nodeName])
      | Some nodeCache \<Rightarrow> Inr (nc_VGs nodeCache))"

text \<open>The claims that name a volume group.\<close>

fun predicate_named ::
  "kube \<Rightarrow> string \<Rightarrow> PersistentVolumeClaim list \<Rightarrow> SharedResource gomap \<Rightarrow> AllocatedUnit list \<Rightarrow>
     (SharedResource gomap \<times> AllocatedUnit list \<times> go_error option) option" where
  "predicate_named K nodeName [] vgs units = Some (vgs, units, None)"
| "predicate_named K nodeName (pvc # pvcs) vgs units =
     (case IsReadOnlySnapshotPVC K pvc of
        None \<Rightarrow> None
      | Some True \<Rightarrow> predicate_named K nodeName pvcs vgs units
      | Some False \<Rightarrow>
          (case GetVGNameFromPVC K pvc of
             Inl err \<Rightarrow> Some (vgs, units, Some err)
           | Inr vgName \<Rightarrow>
               (let requestedSize = GetPVCRequested pvc
                in case map_of vgs vgName of
                     None \<Rightarrow> Some (vgs, units, Some (NewNoSuchVGError vgName nodeName))
                   | Some vg \<Rightarrow>
                       if sr_free vg <s requestedSize
                       then Some (vgs, units, Some (NewInsufficientLVMError requestedSize (sr_Requested vg)
                                                      (sr_Capacity vg) (sr_Name vg) nodeName))
                       else predicate_named K nodeName pvcs
                              (AList.update vgName (vg\<lparr>sr_Requested := sr_Requested vg + requestedSize\<rparr>) vgs)
                              (units @ [lvm_unit nodeName requestedSize vgName (PVCName pvc)]))))"

text \<open>The copy of the map starts with one zero entry per volume group: \<open>make\<close> is given a length, and
  the entries are appended.\<close>

definition vg_slice :: "range_order \<Rightarrow> SharedResource gomap \<Rightarrow> SharedResource list" where
  "vg_slice ord vgs = replicate (length vgs) zero_Shared @ map snd (reorder ord vgs)"

text \<open>The first entry of the sorted slice with the space, charged; \<open>None\<close> when there is none.\<close>

fun first_fit :: "int64 \<Rightarrow> SharedResource list \<Rightarrow> (SharedResource \<times> SharedResource list) option" where
  "first_fit requestedSize [] = None"
| "first_fit requestedSize (vg # vgs) =
     (if sr_free vg <s requestedSize
      then map_option (\<lambda>(v, vs). (v, vg # vs)) (first_fit requestedSize vgs)
      else Some (vg, vg\<lparr>sr_Requested := sr_Requested vg + requestedSize\<rparr> # vgs))"

fun predicate_unnamed ::
  "string \<Rightarrow> PersistentVolumeClaim list \<Rightarrow> SharedResource list \<Rightarrow> AllocatedUnit list \<Rightarrow>
     AllocatedUnit list \<times> go_error option" where
  "predicate_unnamed nodeName [] vgs units = (units, None)"
| "predicate_unnamed nodeName (pvc # pvcs) vgs units =
     (let requestedSize = GetPVCRequested pvc;
          vgs = sort_Slice (\<lambda>a b. sr_free a <s sr_free b) vgs
      in case first_fit requestedSize vgs of
           None \<Rightarrow> (let vg = last vgs
                    in (units, Some (NewInsufficientLVMError requestedSize (sr_Requested vg) (sr_Capacity vg)
                                       (sr_Name vg) nodeName)))
         | Some (vg, vgs) \<Rightarrow>
             predicate_unnamed nodeName pvcs vgs
               (units @ [lvm_unit nodeName requestedSize (sr_Name vg) (PVCName pvc)]))"

definition ProcessLVMPVCPredicate ::
  "algo_ranges \<Rightarrow> kube \<Rightarrow> ClusterNodeCache \<Rightarrow> PersistentVolumeClaim list \<Rightarrow> string \<Rightarrow>
     (bool \<times> AllocatedUnit list \<times> go_error option) option" where
  "ProcessLVMPVCPredicate R K c pvcs nodeName =
     (let (pvcsWithVG, pvcsWithoutVG) = DivideLVMPVCs K pvcs
      in case GetNodeVGMap c nodeName of
           Inl err \<Rightarrow> Some (False, [], Some err)
         | Inr cacheVGsMap \<Rightarrow>
             (case predicate_named K nodeName pvcsWithVG cacheVGsMap [] of
                None \<Rightarrow> None
              | Some (cacheVGsMap, units, Some err) \<Rightarrow> Some (False, units, Some err)
              | Some (cacheVGsMap, units, None) \<Rightarrow>
                  (let cacheVGsSlice = vg_slice (range_Predicate R) cacheVGsMap
                   in if length cacheVGsSlice \<le> 0
                      then Some (False, units, Some (NewNoAvailableVGError nodeName))
                      else (case predicate_unnamed nodeName pvcsWithoutVG cacheVGsSlice units of
                              (units, Some err) \<Rightarrow> Some (False, units, Some err)
                            | (units, None) \<Rightarrow> Some (True, units, None)))))"

definition AllocateLVMVolume ::
  "algo_ranges \<Rightarrow> kube \<Rightarrow> ClusterNodeCache \<Rightarrow> Pod option \<Rightarrow> PersistentVolumeClaim list \<Rightarrow> string \<Rightarrow>
     (bool \<times> AllocatedUnit list \<times> go_error option) option" where
  "AllocateLVMVolume R K c pod pvcs nodeName =
     (if length pvcs \<le> 0 then Some (False, [], None)
      else if pod = None then Some (False, [], Some (Errorf ''pod is nil'' []))
      else (case ProcessLVMPVCPredicate R K c pvcs nodeName of
              None \<Rightarrow> None
            | Some (fits, units, Some err) \<Rightarrow> Some (fits, units, Some err)
            | Some (fits, units, None) \<Rightarrow>
                if length units \<le> 0 then Some (False, units, None) else Some (True, units, None)))"

section \<open>Inline volumes\<close>

fun inline_loop ::
  "kube \<Rightarrow> string \<Rightarrow> Pod \<Rightarrow> Volume list \<Rightarrow> SharedResource gomap \<Rightarrow> AllocatedUnit list \<Rightarrow>
     bool \<times> AllocatedUnit list \<times> go_error option" where
  "inline_loop K nodeName pod [] vgs units = (True, units, None)"
| "inline_loop K nodeName pod (volume # volumes) vgs units =
     (case vol_CSI volume of
        None \<Rightarrow> inline_loop K nodeName pod volumes vgs units
      | Some csi \<Rightarrow>
          if \<not> ContainsProvisioner (csi_Driver csi) then inline_loop K nodeName pod volumes vgs units
          else
            (let (vgName, requestedSize) = GetInlineVolumeInfoFromParam K (csi_VolumeAttributes csi)
             in if vgName = []
                then (False, units, Some (Errorf ''no vgName found in inline volume of Pod %s''
                                            [S (GetNameKey (pod_Namespace pod) (pod_Name pod))]))
                else (case map_of vgs vgName of
                        None \<Rightarrow> (False, units, Some (NewNoSuchVGError vgName nodeName))
                      | Some vg \<Rightarrow>
                          if sr_free vg <s requestedSize
                          then (False, units, Some (NewInsufficientLVMError requestedSize (sr_Requested vg)
                                                      (sr_Capacity vg) (sr_Name vg) nodeName))
                          else inline_loop K nodeName pod volumes
                                 (AList.update vgName (vg\<lparr>sr_Requested := sr_Requested vg + requestedSize\<rparr>) vgs)
                                 (units @ [lvm_unit nodeName requestedSize vgName []]))))"

definition HandleInlineLVMVolume ::
  "kube \<Rightarrow> ClusterNodeCache \<Rightarrow> string \<Rightarrow> Pod \<Rightarrow> bool \<times> AllocatedUnit list \<times> go_error option" where
  "HandleInlineLVMVolume K c nodeName pod =
     (case GetNodeVGMap c nodeName of
        Inl err \<Rightarrow> (False, [], Some err)
      | Inr cacheVGsMap \<Rightarrow> inline_loop K nodeName pod (pod_Volumes pod) cacheVGsMap [])"

section \<open>Mount points and devices\<close>

fun DividePVC_loop ::
  "kube \<Rightarrow> PersistentVolumeClaim list \<Rightarrow> PersistentVolumeClaim list \<Rightarrow> PersistentVolumeClaim list \<Rightarrow>
     PersistentVolumeClaim list \<times> PersistentVolumeClaim list \<times> go_error option" where
  "DividePVC_loop K [] ssd hdd = (ssd, hdd, None)"
| "DividePVC_loop K (pvc # pvcs) ssd hdd =
     (case GetMediaTypeFromPVC K pvc of
        Inl err \<Rightarrow> (ssd, hdd, Some err)
      | Inr mediaType \<Rightarrow>
          if mediaType = MediaTypeSSD then DividePVC_loop K pvcs (ssd @ [pvc]) hdd
          else if mediaType = MediaTypeHDD then DividePVC_loop K pvcs ssd (hdd @ [pvc])
          else (ssd, hdd, Some (Errorf ''mediaType %s not support! pvc: %s'' [S mediaType, S (PVCName pvc)])))"

definition DividePVCAccordingToMediaType ::
  "kube \<Rightarrow> PersistentVolumeClaim list \<Rightarrow>
     PersistentVolumeClaim list \<times> PersistentVolumeClaim list \<times> go_error option" where
  "DividePVCAccordingToMediaType K pvcs = DividePVC_loop K pvcs [] []"

definition free_of :: "MediaType \<Rightarrow> ExclusiveResource list \<Rightarrow> ExclusiveResource list" where
  "free_of mediaType ers = filter (\<lambda>er. er_MediaType er = mediaType \<and> \<not> er_IsAllocated er) ers"

definition GetFreeMP ::
  "algo_ranges \<Rightarrow> ClusterNodeCache \<Rightarrow> string \<Rightarrow> go_error + ExclusiveResource list \<times> ExclusiveResource list" where
  "GetFreeMP R c nodeName =
     (case GetNodeCache c nodeName of
        None \<Rightarrow> Inl (Errorf ''node %s not found from cache'' [S nodeName])
      | Some nodeCache \<Rightarrow>
          (let mps = map snd (reorder (range_MountPoints R) (nc_MountPoints nodeCache))
           in Inr (free_of MediaTypeSSD mps, free_of MediaTypeHDD mps)))"

definition GetCacheMPCount :: "ClusterNodeCache \<Rightarrow> string \<Rightarrow> go_error + int64" where
  "GetCacheMPCount c nodeName =
     (case GetNodeCache c nodeName of
        None \<Rightarrow> Inl (Errorf ''node %s not found from cache'' [S nodeName])
      | Some nodeCache \<Rightarrow> Inr (word_of_nat (length (nc_MountPoints nodeCache))))"

definition ext_GetFreeDevice ::
  "algo_ranges \<Rightarrow> ClusterNodeCache \<Rightarrow> string \<Rightarrow> go_error + ExclusiveResource list \<times> ExclusiveResource list" where
  "ext_GetFreeDevice R c nodeName =
     (case GetNodeCache c nodeName of
        None \<Rightarrow> Inl (Errorf ''node %s not found from cache'' [S nodeName])
      | Some nodeCache \<Rightarrow>
          (let devices = map snd (reorder (range_Devices R) (nc_Devices nodeCache))
           in Inr (free_of MediaTypeSSD devices, free_of MediaTypeHDD devices)))"

definition GetCacheDeviceCount :: "ClusterNodeCache \<Rightarrow> string \<Rightarrow> go_error + int64" where
  "GetCacheDeviceCount c nodeName =
     (case GetNodeCache c nodeName of
        None \<Rightarrow> Inl (Errorf ''node %s not found from cache'' [S nodeName])
      | Some nodeCache \<Rightarrow> Inr (word_of_nat (length (nc_Devices nodeCache))))"

definition exclusive_unit ::
  "VolumeType \<Rightarrow> string \<Rightarrow> PersistentVolumeClaim \<Rightarrow> ExclusiveResource \<Rightarrow> AllocatedUnit" where
  "exclusive_unit resource nodeName pvc er =
     \<lparr>au_NodeName = nodeName, au_VolumeType = resource, au_Requested = GetPVCRequested pvc,
      au_Allocated = er_Capacity er, au_VgName = [], au_Device = er_Name er, au_MountPoint = er_Name er,
      au_PVCName = PVCName pvc\<rparr>"

text \<open>The loop over the sorted resources; \<open>pvcs\<close> are the claims not yet served. It ends without an
  error also when resources run out after the last one served a claim.\<close>

fun exclusive_loop ::
  "VolumeType \<Rightarrow> string \<Rightarrow> ExclusiveResource list \<Rightarrow> PersistentVolumeClaim list \<Rightarrow> int64 \<Rightarrow> AllocatedUnit list \<Rightarrow>
     bool \<times> AllocatedUnit list \<times> go_error option" where
  "exclusive_loop resource nodeName [] pvcs maxSize units = (True, units, None)"
| "exclusive_loop resource nodeName (er # ers) [] maxSize units = (True, units, None)"
| "exclusive_loop resource nodeName (er # ers) (pvc # pvcs) maxSize units =
     (let requestedSize = GetPVCRequested pvc;
          maxSize = (if maxSize <s requestedSize then requestedSize else maxSize)
      in if er_Capacity er <s requestedSize
         then (if ers = []
               then (False, units, Some (NewInsufficientExclusiveResourceError resource requestedSize maxSize))
               else exclusive_loop resource nodeName ers (pvc # pvcs) maxSize units)
         else exclusive_loop resource nodeName ers pvcs maxSize (units @ [exclusive_unit resource nodeName pvc er]))"

definition CheckExclusiveResourceMeetsPVCSize ::
  "VolumeType \<Rightarrow> ExclusiveResource list \<Rightarrow> PersistentVolumeClaim list \<Rightarrow> string \<Rightarrow>
     bool \<times> AllocatedUnit list \<times> go_error option" where
  "CheckExclusiveResourceMeetsPVCSize resource ers pvcs nodeName =
     (let pvcs = sort_Slice (\<lambda>a b. GetPVCRequested a <s GetPVCRequested b) pvcs;
          ers = sort_Slice (\<lambda>a b. er_Capacity a <s er_Capacity b) ers
      in exclusive_loop resource nodeName ers pvcs 0 [])"

text \<open>The body that \<open>ProcessMPPVC\<close> and \<open>ProcessDevicePVC\<close> share; \<open>countError\<close> makes the error of a
  media type with too few free resources.\<close>

definition process_media ::
  "VolumeType \<Rightarrow> (int64 \<Rightarrow> int64 \<Rightarrow> int64 \<Rightarrow> string \<Rightarrow> string \<Rightarrow> go_error) \<Rightarrow> string \<Rightarrow> int64 \<Rightarrow>
     ExclusiveResource list \<Rightarrow> ExclusiveResource list \<Rightarrow> PersistentVolumeClaim list \<Rightarrow> PersistentVolumeClaim list \<Rightarrow>
     bool \<times> AllocatedUnit list \<times> go_error option" where
  "process_media resource countError nodeName totalCount freeSSD freeHDD pvcsSSD pvcsHDD =
     (let freeSSDCount = word_of_nat (length freeSSD) :: int64;
          requestedSSDCount = word_of_nat (length pvcsSSD) :: int64;
          freeHDDCount = word_of_nat (length freeHDD) :: int64;
          requestedHDDCount = word_of_nat (length pvcsHDD) :: int64
      in if freeSSDCount <s requestedSSDCount
         then (False, [], Some (countError requestedSSDCount freeSSDCount totalCount MediaTypeSSD nodeName))
         else (case CheckExclusiveResourceMeetsPVCSize resource freeSSD pvcsSSD nodeName of
                 (fits, rstUnits, Some err) \<Rightarrow> (False, rstUnits, Some err)
               | (False, rstUnits, None) \<Rightarrow> (False, rstUnits, None)
               | (True, units, None) \<Rightarrow>
                   if freeHDDCount <s requestedHDDCount
                   then (False, units, Some (countError requestedHDDCount freeHDDCount totalCount MediaTypeHDD nodeName))
                   else (case CheckExclusiveResourceMeetsPVCSize resource freeHDD pvcsHDD nodeName of
                           (fits, rstUnits, Some err) \<Rightarrow> (False, rstUnits, Some err)
                         | (False, rstUnits, None) \<Rightarrow> (False, rstUnits, None)
                         | (True, rstUnits, None) \<Rightarrow> (True, units @ rstUnits, None))))"

definition ProcessMPPVC ::
  "algo_ranges \<Rightarrow> kube \<Rightarrow> ClusterNodeCache \<Rightarrow> PersistentVolumeClaim list \<Rightarrow> string \<Rightarrow>
     bool \<times> AllocatedUnit list \<times> go_error option" where
  "ProcessMPPVC R K c pvcs nodeName =
     (case DividePVCAccordingToMediaType K pvcs of
        (_, _, Some err) \<Rightarrow> (False, [], Some err)
      | (pvcsSSD, pvcsHDD, None) \<Rightarrow>
          (case GetFreeMP R c nodeName of
             Inl err \<Rightarrow> (False, [], Some err)
           | Inr (freeSSD, freeHDD) \<Rightarrow>
               (case GetCacheMPCount c nodeName of
                  Inl err \<Rightarrow> (False, [], Some err)
                | Inr totalCount \<Rightarrow>
                    process_media VolumeTypeMountPoint NewInsufficientMountPointCountError nodeName totalCount
                      freeSSD freeHDD pvcsSSD pvcsHDD)))"

definition ProcessDevicePVC ::
  "algo_ranges \<Rightarrow> kube \<Rightarrow> ClusterNodeCache \<Rightarrow> PersistentVolumeClaim list \<Rightarrow> string \<Rightarrow>
     bool \<times> AllocatedUnit list \<times> go_error option" where
  "ProcessDevicePVC R K c pvcs nodeName =
     (case DividePVCAccordingToMediaType K pvcs of
        (_, _, Some err) \<Rightarrow> (False, [], Some err)
      | (pvcsSSD, pvcsHDD, None) \<Rightarrow>
          (case ext_GetFreeDevice R c nodeName of
             Inl err \<Rightarrow> (False, [], Some err)
           | Inr (freeSSD, freeHDD) \<Rightarrow>
               (case GetCacheDeviceCount c nodeName of
                  Inl err \<Rightarrow> (False, [], Some err)
                | Inr totalCount \<Rightarrow>
                    process_media VolumeTypeDevice NewInsufficientDeviceCountError nodeName totalCount
                      freeSSD freeHDD pvcsSSD pvcsHDD)))"

definition AllocateMountPointVolume ::
  "algo_ranges \<Rightarrow> kube \<Rightarrow> ClusterNodeCache \<Rightarrow> PersistentVolumeClaim list \<Rightarrow> string \<Rightarrow>
     bool \<times> AllocatedUnit list \<times> go_error option" where
  "AllocateMountPointVolume R K c pvcs nodeName =
     (if length pvcs \<le> 0 then (False, [], None) else ProcessMPPVC R K c pvcs nodeName)"

definition AllocateDeviceVolume ::
  "algo_ranges \<Rightarrow> kube \<Rightarrow> ClusterNodeCache \<Rightarrow> PersistentVolumeClaim list \<Rightarrow> string \<Rightarrow>
     bool \<times> AllocatedUnit list \<times> go_error option" where
  "AllocateDeviceVolume R K c pvcs nodeName =
     (if length pvcs \<le> 0 then (False, [], None) else ProcessDevicePVC R K c pvcs nodeName)"

section \<open>LVM claims: the scores\<close>

text \<open>The priority function places the claims anew, with other error values.\<close>

fun priority_named ::
  "kube \<Rightarrow> Pod option \<Rightarrow> string \<Rightarrow> PersistentVolumeClaim list \<Rightarrow> SharedResource gomap \<Rightarrow> AllocatedUnit list \<Rightarrow>
     (SharedResource gomap \<times> AllocatedUnit list \<times> go_error option) option" where
  "priority_named K pod nodeName [] vgs units = Some (vgs, units, None)"
| "priority_named K pod nodeName (pvc # pvcs) vgs units =
     (case IsReadOnlySnapshotPVC K pvc of
        None \<Rightarrow> None
      | Some True \<Rightarrow> priority_named K pod nodeName pvcs vgs units
      | Some False \<Rightarrow>
          (case GetVGNameFromPVC K pvc of
             Inl err \<Rightarrow> Some (vgs, units, Some err)
           | Inr vgName \<Rightarrow>
               (case map_of vgs vgName of
                  None \<Rightarrow> Some (vgs, units, Some (Errorf ''no vg named %s on node %s'' [S vgName, S nodeName]))
                | Some vg \<Rightarrow>
                    (let requestedSize = GetPVCRequested pvc
                     in if sr_free vg <s requestedSize
                        then Some (vgs, units, Some
                          (case pod of
                             None \<Rightarrow> Errorf ''not enough lv storage on %s/%s, requested size %s,  free size %s''
                                       [S nodeName, S vgName, S (QuantityString K requestedSize),
                                        S (QuantityString K (sr_free vg))]
                           | Some p \<Rightarrow>
                               Errorf ''not enough lv storage on %s/%s for pod %s, requested size %s,  free size %s''
                                 [S nodeName, S vgName, S (GetNameKey (pod_Namespace p) (pod_Name p)),
                                  S (QuantityString K requestedSize), S (QuantityString K (sr_free vg))]))
                        else priority_named K pod nodeName pvcs
                               (AList.update vgName (vg\<lparr>sr_Requested := sr_Requested vg + requestedSize\<rparr>) vgs)
                               (units @ [lvm_unit nodeName requestedSize vgName (PVCName pvc)])))))"

definition binpack_error :: "kube \<Rightarrow> Pod option \<Rightarrow> string \<Rightarrow> int64 \<Rightarrow> SharedResource \<Rightarrow> go_error" where
  "binpack_error K pod nodeName requestedSize vg =
     (case pod of
        None \<Rightarrow>
          Errorf ''[multipleVGs]not enough lv storage on %s, requested size %s, max free size[VG: %s] %s, strategiy %s. you need to expand the vg''
            [S nodeName, S (QuantityString K requestedSize), S (sr_Name vg), S (QuantityString K (sr_free vg)),
             S StrategyBinpack]
      | Some p \<Rightarrow>
          Errorf ''[multipleVGs]not enough lv storage on %s for pod %s, requested size %s, max free size[VG: %s] %s, strategiy %s. you need to expand the vg''
            [S nodeName, S (GetNameKey (pod_Namespace p) (pod_Name p)), S (QuantityString K requestedSize),
             S (sr_Name vg), S (QuantityString K (sr_free vg)), S StrategyBinpack])"

definition spread_error :: "kube \<Rightarrow> Pod option \<Rightarrow> string \<Rightarrow> int64 \<Rightarrow> SharedResource \<Rightarrow> go_error" where
  "spread_error K pod nodeName requestedSize vg =
     (case pod of
        None \<Rightarrow>
          Errorf ''[multipleVGs]not enough lv storage on %s/%s, requested size %s,  free size %s, strategiy %s. you need to expand the vg''
            [S nodeName, S (sr_Name vg), S (QuantityString K requestedSize), S (QuantityString K (sr_free vg)),
             S StrategySpread]
      | Some p \<Rightarrow>
          Errorf ''[multipleVGs]not enough lv storage on %s/%s for pod %s, requested size %s,  free size %s, strategiy %s. you need to expand the vg''
            [S nodeName, S (sr_Name vg), S (GetNameKey (pod_Namespace p) (pod_Name p)),
             S (QuantityString K requestedSize), S (QuantityString K (sr_free vg)), S StrategySpread])"

text \<open>\<open>Binpack\<close> charges the map it was given, also for a zero entry of the slice.\<close>

definition Binpack ::
  "algo_ranges \<Rightarrow> kube \<Rightarrow> Pod option \<Rightarrow> PersistentVolumeClaim \<Rightarrow> string \<Rightarrow> SharedResource gomap \<Rightarrow>
     SharedResource gomap \<times> bool \<times> AllocatedUnit list \<times> go_error option" where
  "Binpack R K pod pvc nodeName vgs =
     (if length vgs = 0 then (vgs, False, [], Some (Errorf ''no vg on node %s,'' [S nodeName]))
      else (let requestedSize = GetPVCRequested pvc;
                ordered = sort_Slice (\<lambda>a b. sr_free a <s sr_free b) (vg_slice (range_Claim R pvc) vgs)
            in case first_fit requestedSize ordered of
                 None \<Rightarrow> (vgs, False, [], Some (binpack_error K pod nodeName requestedSize (last ordered)))
               | Some (vg, _) \<Rightarrow>
                   (let tmp = shared_at vgs (sr_Name vg)
                    in (AList.update (sr_Name vg) (tmp\<lparr>sr_Requested := sr_Requested tmp + requestedSize\<rparr>) vgs,
                        True, [lvm_unit nodeName requestedSize (sr_Name vg) (PVCName pvc)], None))))"

text \<open>\<open>Spread\<close> charges its own slice only, so that the next claim does not see it.\<close>

definition Spread ::
  "algo_ranges \<Rightarrow> kube \<Rightarrow> Pod option \<Rightarrow> PersistentVolumeClaim \<Rightarrow> string \<Rightarrow> SharedResource gomap \<Rightarrow>
     SharedResource gomap \<times> bool \<times> AllocatedUnit list \<times> go_error option" where
  "Spread R K pod pvc nodeName vgs =
     (if length vgs = 0 then (vgs, False, [], Some (Errorf ''no vg on node %s,'' [S nodeName]))
      else (let requestedSize = GetPVCRequested pvc;
                ordered = sort_Slice (\<lambda>a b. sr_free b <s sr_free a) (vg_slice (range_Claim R pvc) vgs);
                vg = hd ordered
            in if sr_free vg <s requestedSize
               then (vgs, False, [], Some (spread_error K pod nodeName requestedSize vg))
               else (vgs, True, [lvm_unit nodeName requestedSize (sr_Name vg) (PVCName pvc)], None)))"

fun priority_unnamed ::
  "algo_ranges \<Rightarrow> kube \<Rightarrow> StrategyType \<Rightarrow> Pod option \<Rightarrow> string \<Rightarrow> PersistentVolumeClaim list \<Rightarrow>
     SharedResource gomap \<Rightarrow> AllocatedUnit list \<Rightarrow> bool \<times> AllocatedUnit list \<times> go_error option" where
  "priority_unnamed R K strategy pod nodeName [] vgs units = (True, units, None)"
| "priority_unnamed R K strategy pod nodeName (pvc # pvcs) vgs units =
     (if strategy = StrategyBinpack
      then (case Binpack R K pod pvc nodeName vgs of
              (vgs, fits, tmpunits, err) \<Rightarrow>
                if \<not> fits then (False, units, err)
                else priority_unnamed R K strategy pod nodeName pvcs vgs (units @ tmpunits))
      else if strategy = StrategySpread
      then (case Spread R K pod pvc nodeName vgs of
              (vgs, fits, tmpunits, err) \<Rightarrow>
                if \<not> fits then (False, units, err)
                else priority_unnamed R K strategy pod nodeName pvcs vgs (units @ tmpunits))
      else priority_unnamed R K strategy pod nodeName pvcs vgs units)"

definition ProcessLVMPVCPriority ::
  "algo_ranges \<Rightarrow> kube \<Rightarrow> StrategyType \<Rightarrow> ClusterNodeCache \<Rightarrow> Pod option \<Rightarrow> PersistentVolumeClaim list \<Rightarrow> string \<Rightarrow>
     (bool \<times> AllocatedUnit list \<times> go_error option) option" where
  "ProcessLVMPVCPriority R K strategy c pod pvcs nodeName =
     (let (pvcsWithVG, pvcsWithoutVG) = DivideLVMPVCs K pvcs
      in case GetNodeVGMap c nodeName of
           Inl err \<Rightarrow> Some (False, [], Some err)
         | Inr cacheVGsMap \<Rightarrow>
             (case priority_named K pod nodeName pvcsWithVG cacheVGsMap [] of
                None \<Rightarrow> None
              | Some (_, units, Some err) \<Rightarrow> Some (False, units, Some err)
              | Some (cacheVGsMap, units, None) \<Rightarrow>
                  (case priority_unnamed R K strategy pod nodeName pvcsWithoutVG cacheVGsMap units of
                     (False, units, err) \<Rightarrow> Some (False, units, err)
                   | (True, units, _) \<Rightarrow>
                       if length units \<le> 0 then Some (False, units, None) else Some (True, units, None))))"

text \<open>\<open>cv\<close> is the machine's conversion of a \<open>float64\<close> that no \<open>int\<close> can hold.\<close>

definition used_by_vg :: "AllocatedUnit list \<Rightarrow> int64 gomap" where
  "used_by_vg units =
     fold (\<lambda>unit scoreMap.
         case map_of scoreMap (au_VgName unit) of
           Some sz \<Rightarrow> AList.update (au_VgName unit) (sz + au_Allocated unit) scoreMap
         | None \<Rightarrow> AList.update (au_VgName unit) (au_Allocated unit) scoreMap) units []"

definition ScoreLVM ::
  "algo_ranges \<Rightarrow> (float64 \<Rightarrow> int64) \<Rightarrow> StrategyType \<Rightarrow> AllocatedUnit list \<Rightarrow> SharedResource gomap \<Rightarrow> int64" where
  "ScoreLVM R cv strategy units vgs =
     (if length units = 0 then MinScore
      else (let scoreMap = reorder (range_Scores R) (used_by_vg units);
                ratio = (\<lambda>(vg, used). fdiv (of_int64 used) (of_int64 (sr_Capacity (shared_at vgs vg))));
                (scoref, count) =
                  (if strategy = StrategyBinpack
                   then (fold (\<lambda>e scoref. fadd scoref (ratio e)) scoreMap (Fin 0), length scoreMap)
                   else if strategy = StrategySpread
                   then (fold (\<lambda>e scoref. fadd scoref (fsub (of_int64 1) (ratio e))) scoreMap (Fin 0), length scoreMap)
                   else (Fin 0, 0))
            in to_int64 cv (fmul (fdiv scoref (of_int64 (word_of_nat count))) (of_int64 MaxScore))))"

definition ScoreLVMVolume ::
  "algo_ranges \<Rightarrow> (float64 \<Rightarrow> int64) \<Rightarrow> kube \<Rightarrow> StrategyType \<Rightarrow> ClusterNodeCache \<Rightarrow> Pod option \<Rightarrow>
     PersistentVolumeClaim list \<Rightarrow> string \<Rightarrow> (int64 \<times> AllocatedUnit list \<times> go_error option) option" where
  "ScoreLVMVolume R cv K strategy c pod pvcs nodeName =
     (if length pvcs \<le> 0 then Some (0, [], None)
      else (case ProcessLVMPVCPriority R K strategy c pod pvcs nodeName of
              None \<Rightarrow> None
            | Some (_, units, Some err) \<Rightarrow> Some (MinScore, units, Some err)
            | Some (False, units, None) \<Rightarrow> Some (MinScore, units, None)
            | Some (True, units, None) \<Rightarrow>
                (case GetNodeVGMap c nodeName of
                   Inl err \<Rightarrow> Some (MinScore, units, Some err)
                 | Inr cacheVGsMap \<Rightarrow> Some (ScoreLVM R cv strategy units cacheVGsMap, units, None))))"

definition ScoreInlineLVMVolume ::
  "algo_ranges \<Rightarrow> (float64 \<Rightarrow> int64) \<Rightarrow> kube \<Rightarrow> StrategyType \<Rightarrow> ClusterNodeCache \<Rightarrow> Pod \<Rightarrow> string \<Rightarrow>
     int64 \<times> AllocatedUnit list \<times> go_error option" where
  "ScoreInlineLVMVolume R cv K strategy c pod nodeName =
     (case HandleInlineLVMVolume K c nodeName pod of
        (_, units, Some err) \<Rightarrow> (MinScore, units, Some err)
      | (False, units, None) \<Rightarrow> (MinScore, units, None)
      | (True, units, None) \<Rightarrow>
          (case GetNodeVGMap c nodeName of
             Inl err \<Rightarrow> (MinScore, units, Some err)
           | Inr cacheVGsMap \<Rightarrow> (ScoreLVM R cv strategy units cacheVGsMap, units, None)))"

section \<open>Mount points and devices: the scores\<close>

text \<open>\<open>ScoreMP\<close> and \<open>ScoreDevice\<close> have the same body.\<close>

definition mean_use :: "(float64 \<Rightarrow> int64) \<Rightarrow> AllocatedUnit list \<Rightarrow> int64" where
  "mean_use cv units =
     (if length units = 0 then MinScore
      else (let scoref = fold (\<lambda>unit scoref.
                   fadd scoref (fdiv (of_int64 (au_Requested unit)) (of_int64 (au_Allocated unit)))) units (Fin 0)
            in to_int64 cv (fmul (fdiv scoref (of_int64 (word_of_nat (length units)))) (of_int64 MaxScore))))"

definition ScoreMP :: "(float64 \<Rightarrow> int64) \<Rightarrow> AllocatedUnit list \<Rightarrow> int64" where
  "ScoreMP = mean_use"

definition ScoreDevice :: "(float64 \<Rightarrow> int64) \<Rightarrow> AllocatedUnit list \<Rightarrow> int64" where
  "ScoreDevice = mean_use"

definition score_exclusive ::
  "(AllocatedUnit list \<Rightarrow> int64) \<Rightarrow> PersistentVolumeClaim list \<Rightarrow> bool \<times> AllocatedUnit list \<times> go_error option \<Rightarrow>
     int64 \<times> AllocatedUnit list \<times> go_error option" where
  "score_exclusive score pvcs r =
     (if length pvcs \<le> 0 then (0, [], None)
      else (case r of
              (_, units, Some err) \<Rightarrow> (MinScore, units, Some err)
            | (False, units, None) \<Rightarrow> (MinScore, units, None)
            | (True, units, None) \<Rightarrow> (score units, units, None)))"

definition ScoreMountPointVolume ::
  "algo_ranges \<Rightarrow> (float64 \<Rightarrow> int64) \<Rightarrow> kube \<Rightarrow> ClusterNodeCache \<Rightarrow> PersistentVolumeClaim list \<Rightarrow> string \<Rightarrow>
     int64 \<times> AllocatedUnit list \<times> go_error option" where
  "ScoreMountPointVolume R cv K c pvcs nodeName =
     score_exclusive (ScoreMP cv) pvcs (ProcessMPPVC R K c pvcs nodeName)"

definition ScoreDeviceVolume ::
  "algo_ranges \<Rightarrow> (float64 \<Rightarrow> int64) \<Rightarrow> kube \<Rightarrow> ClusterNodeCache \<Rightarrow> PersistentVolumeClaim list \<Rightarrow> string \<Rightarrow>
     int64 \<times> AllocatedUnit list \<times> go_error option" where
  "ScoreDeviceVolume R cv K c pvcs nodeName =
     score_exclusive (ScoreDevice cv) pvcs (ProcessDevicePVC R K c pvcs nodeName)"

end
