(* ===== verification/Ext_Choice.thy ===== *)
theory Ext_Choice
  imports Ext_Algo Examples
begin

text \<open>
  What the extender's placement decides: the exclusive resources it finds, the volume groups it fills,
  and how \<open>Spread\<close> treats the claims of one pod.
\<close>

section \<open>Exclusive resources\<close>

text \<open>A choice: one resource per claim, large enough, out of those there are.\<close>

abbreviation holds :: "PersistentVolumeClaim \<Rightarrow> ExclusiveResource \<Rightarrow> bool" where
  "holds pvc er \<equiv> \<not> er_Capacity er <s GetPVCRequested pvc"

definition assignable :: "PersistentVolumeClaim list \<Rightarrow> ExclusiveResource list \<Rightarrow> bool" where
  "assignable pvcs ers \<longleftrightarrow> (\<exists>es. mset es \<subseteq># mset ers \<and> list_all2 holds pvcs es)"

lemma assignable_Nil [simp]: "assignable [] ers"
  by (simp add: assignable_def)

lemma assignable_none [simp]: "\<not> assignable (pvc # pvcs) []"
  by (simp add: assignable_def)

lemma subset_add_notin: "A \<subseteq># add_mset x M \<Longrightarrow> x \<notin># A \<Longrightarrow> A \<subseteq># M"
proof (rule mset_subset_eqI)
  fix y
  assume "A \<subseteq># add_mset x M" and "x \<notin># A"
  then show "count A y \<le> count M y"
    using mset_subset_eq_count [of A "add_mset x M" y] by (cases "y = x") (auto simp: not_in_iff)
qed

lemma assignable_reorder:
  assumes "mset pvcs' = mset pvcs" and "mset ers' = mset ers"
  shows "assignable pvcs' ers' = assignable pvcs ers"
proof -
  have "assignable qs fs" if "assignable ps es" "mset qs = mset ps" "mset fs = mset es" for ps qs es fs
  proof -
    from that(1) obtain as where as: "mset as \<subseteq># mset es" "list_all2 holds ps as"
      by (auto simp: assignable_def)
    with list_all2_reorder_left_invariance [OF this(2)] that(2) obtain bs
      where "list_all2 holds qs bs" "mset bs = mset as" by auto
    with as that(3) show ?thesis unfolding assignable_def by (intro exI [of _ bs]) simp
  qed
  with assms show ?thesis by metis
qed

lemma assignable_too_small:
  assumes "\<And>pvc. pvc \<in> set pvcs \<Longrightarrow> \<not> holds pvc er"
  shows "assignable pvcs (er # ers) = assignable pvcs ers"
proof
  assume "assignable pvcs (er # ers)"
  then obtain es where es: "mset es \<subseteq># add_mset er (mset ers)" "list_all2 holds pvcs es"
    by (auto simp: assignable_def)
  have "er \<notin># mset es"
  proof
    assume "er \<in># mset es"
    then obtain i where "i < length es" "es ! i = er" by (auto simp: in_set_conv_nth)
    with es(2) assms [of "pvcs ! i"] show False by (auto simp: list_all2_conv_all_nth)
  qed
  with es show "assignable pvcs ers" by (auto simp: assignable_def dest: subset_add_notin)
next
  assume "assignable pvcs ers"
  then obtain es where "mset es \<subseteq># mset ers" "list_all2 holds pvcs es" by (auto simp: assignable_def)
  then show "assignable pvcs (er # ers)"
    unfolding assignable_def by (intro exI [of _ es]) (auto intro: subset_mset.order_trans)
qed

lemma assignable_swap:
  assumes "holds pvc er" and "\<And>e. e \<in> set ers \<Longrightarrow> \<not> er_Capacity e <s er_Capacity er"
    and es: "add_mset e (mset es) \<subseteq># add_mset er (mset ers)" "list_all2 holds pvcs es"
    and 3: "e \<noteq> er" "er \<in> set es"
  shows "assignable pvcs ers"
proof -
    from 3 obtain i where i: "i < length es" "es ! i = er" by (auto simp: in_set_conv_nth)
    define E where "E = mset es - {#er#}"
    have E: "mset es = add_mset er E" using 3(2) by (simp add: E_def)
    with es(1) have sub: "add_mset e E \<subseteq># mset ers"
      using add_mset_commute [of e er E] by simp
    have "e \<in># mset ers" using sub by (rule mset_subset_eqD) simp
    then have "\<not> er_Capacity e <s er_Capacity er" using assms(2) by simp
    moreover have len: "i < length pvcs" and "holds (pvcs ! i) er"
      using es(2) i list_all2_lengthD [OF es(2)] list_all2_nthD2 [OF es(2) i(1)] by simp_all
    ultimately have "holds (pvcs ! i) e" by (simp add: word_sless_alt)
    then have u: "list_all2 holds pvcs (es[i := e])"
      using list_all2_update_cong [where i = i and x = "pvcs ! i" and y = e, OF es(2)] by simp
    have "mset (es[i := e]) = add_mset e E" using i E by (simp add: mset_update)
    then show ?thesis unfolding assignable_def using sub u by (intro exI [of _ "es[i := e]"]) simp
qed
lemma assignable_drop:
  assumes es: "add_mset e (mset es) \<subseteq># add_mset er (mset ers)" "list_all2 holds pvcs es"
    and 2: "e \<noteq> er" "er \<notin> set es"
  shows "assignable pvcs ers"
proof -
    have "er \<notin># add_mset e (mset es)" using 2 by simp
    then have "add_mset e (mset es) \<subseteq># mset ers"
      using es(1) by (rule subset_add_notin [rotated])
    then have "mset es \<subseteq># mset ers"
      by (rule subset_mset.order_trans [rotated]) simp
    with es(2) show ?thesis unfolding assignable_def by blast
qed

lemma assignable_smallest:
  assumes "holds pvc er" and "\<And>e. e \<in> set ers \<Longrightarrow> \<not> er_Capacity e <s er_Capacity er"
  shows "assignable (pvc # pvcs) (er # ers) = assignable pvcs ers"
proof
  assume "assignable pvcs ers"
  then obtain es where "mset es \<subseteq># mset ers" "list_all2 holds pvcs es" by (auto simp: assignable_def)
  with assms(1) show "assignable (pvc # pvcs) (er # ers)"
    unfolding assignable_def by (intro exI [of _ "er # es"]) simp
next
  assume "assignable (pvc # pvcs) (er # ers)"
  then obtain e es where es: "add_mset e (mset es) \<subseteq># add_mset er (mset ers)" "list_all2 holds pvcs es"
    by (auto simp: assignable_def list_all2_Cons1)
  consider "e = er" | "e \<noteq> er" "er \<notin> set es" | "e \<noteq> er" "er \<in> set es" by blast
  then show "assignable pvcs ers"
  proof cases
    case 1
    with es show ?thesis unfolding assignable_def by (intro exI [of _ es]) simp
  next
    case 2
    from assignable_drop [OF es this] show ?thesis .
  next
    case 3
    from assignable_swap [OF assms es this] show ?thesis .
  qed
qed

text \<open>The loop over sorted resources and sorted claims serves every claim exactly when a choice exists.\<close>

lemma exclusive_loop_complete:
  assumes "sorted_wrt (\<lambda>a b. \<not> er_Capacity b <s er_Capacity a) ers"
    and "sorted_wrt (\<lambda>a b. \<not> GetPVCRequested b <s GetPVCRequested a) pvcs"
    and "exclusive_loop resource n ers pvcs m units = (fits, units', err)"
  shows "length units' \<le> length units + length pvcs" and
    "length units' = length units + length pvcs \<longleftrightarrow> assignable pvcs ers"
proof -
  have "length units' \<le> length units + length pvcs \<and>
      (length units' = length units + length pvcs \<longleftrightarrow> assignable pvcs ers)"
    using assms
  proof (induction resource n ers pvcs m units arbitrary: fits units' err rule: exclusive_loop.induct)
    case (1 resource n pvcs m units)
    then show ?case by (cases pvcs) auto
  next
    case (2 resource n er ers m units)
    then show ?case by auto
  next
    case (3 resource n er ers pvc pvcs m units)
    show ?case
    proof (cases "er_Capacity er <s GetPVCRequested pvc")
      case small: True
      have "\<not> holds p er" if "p \<in> set (pvc # pvcs)" for p
        using that "3.prems"(2) small by (auto simp: word_sless_alt)
      then have asg: "assignable (pvc # pvcs) (er # ers) = assignable (pvc # pvcs) ers"
        by (rule assignable_too_small)
      show ?thesis
      proof (cases "ers = []")
        case True
        with "3.prems"(3) small asg show ?thesis by (auto simp: Let_def)
      next
        case False
        with "3.IH"(1) [OF refl refl] "3.prems" small asg show ?thesis
          by (auto simp: Let_def split: if_splits)
      qed
    next
      case fits: False
      have "assignable (pvc # pvcs) (er # ers) = assignable pvcs ers"
        using fits "3.prems"(1) by (intro assignable_smallest) auto
      with "3.IH"(2) [OF refl refl fits] "3.prems" fits show ?thesis
        by (auto simp: Let_def split: if_splits)
    qed
  qed
  then show "length units' \<le> length units + length pvcs" and
    "length units' = length units + length pvcs \<longleftrightarrow> assignable pvcs ers" by blast+
qed

text \<open>What the loop answers: it refuses only when the last resource is too small.\<close>

lemma exclusive_loop_accepts:
  assumes "sorted_wrt (\<lambda>a b. \<not> er_Capacity b <s er_Capacity a) ers"
    and "\<forall>pvc \<in> set pvcs. \<exists>er \<in> set ers. holds pvc er"
  shows "\<exists>units'. exclusive_loop resource n ers pvcs m units = (True, units', None)"
  using assms
proof (induction resource n ers pvcs m units rule: exclusive_loop.induct)
  case (3 resource n er ers pvc pvcs m units)
  have later: "\<exists>e \<in> set ers. holds p e" if "p \<in> set (pvc # pvcs)" "ers \<noteq> []" for p
  proof -
    from that "3.prems"(2) obtain e where e: "e \<in> set (er # ers)" "holds p e" by blast
    show ?thesis
    proof (cases "e = er")
      case True
      obtain e' es where "ers = e' # es" using \<open>ers \<noteq> []\<close> by (cases ers) auto
      with "3.prems"(1) e True show ?thesis by (auto simp: word_sless_alt intro!: bexI [of _ e'])
    qed (use e in auto)
  qed
  show ?case
  proof (cases "er_Capacity er <s GetPVCRequested pvc")
    case True
    with "3.prems"(2) have "ers \<noteq> []" by auto
    with "3.IH"(1) [OF refl refl True this] "3.prems"(1) later True show ?thesis by (simp add: Let_def)
  next
    case False
    show ?thesis
    proof (cases "ers = []")
      case True
      with False show ?thesis by (simp add: Let_def)
    next
      case ne: False
      have "\<forall>p \<in> set pvcs. \<exists>e \<in> set ers. holds p e" using later [OF _ ne] by simp
      with "3.IH"(2) [OF refl refl False] "3.prems"(1) False show ?thesis by (simp add: Let_def)
    qed
  qed
qed auto

text \<open>The units are distinct resources given to the claims in order.\<close>

lemma exclusive_loop_units:
  assumes "exclusive_loop resource n ers pvcs m units = (fits, units', err)"
  shows "\<exists>es. mset es \<subseteq># mset ers \<and> list_all2 holds (take (length es) pvcs) es \<and>
    units' = units @ map2 (exclusive_unit resource n) (take (length es) pvcs) es"
  using assms
proof (induction resource n ers pvcs m units arbitrary: fits units' err rule: exclusive_loop.induct)
  case (3 resource n er ers pvc pvcs m units)
  show ?case
  proof (cases "er_Capacity er <s GetPVCRequested pvc")
    case small: True
    show ?thesis
    proof (cases "ers = []")
      case True
      with "3.prems" small show ?thesis by (auto simp: Let_def intro!: exI [of _ "[]"])
    next
      case False
      with "3.IH"(1) [OF refl refl small] "3.prems" small obtain es
        where "mset es \<subseteq># mset ers" "list_all2 holds (take (length es) (pvc # pvcs)) es"
          "units' = units @ map2 (exclusive_unit resource n) (take (length es) (pvc # pvcs)) es"
        by (auto simp: Let_def)
      then show ?thesis by (intro exI [of _ es]) (auto intro: subset_mset.order_trans)
    qed
  next
    case False
    with "3.IH"(2) [OF refl refl False] "3.prems" obtain es
      where "mset es \<subseteq># mset ers" "list_all2 holds (take (length es) pvcs) es"
        "units' = (units @ [exclusive_unit resource n pvc er]) @
           map2 (exclusive_unit resource n) (take (length es) pvcs) es"
      by (auto simp: Let_def)
    with False show ?thesis by (intro exI [of _ "er # es"]) simp
  qed
qed (auto intro!: exI [of _ "[]"])

abbreviation by_request :: "PersistentVolumeClaim list \<Rightarrow> PersistentVolumeClaim list" where
  "by_request \<equiv> sort_Slice (\<lambda>a b. GetPVCRequested a <s GetPVCRequested b)"

text \<open>C19: the extender's choice of mount points or devices gives distinct, large enough resources to
  the claims from the smallest up, and serves all of them exactly when some assignment does.\<close>

theorem exclusive_choice_complete:
  "\<exists>es. mset es \<subseteq># mset ers \<and> list_all2 holds (take (length es) (by_request pvcs)) es \<and>
     fst (snd (CheckExclusiveResourceMeetsPVCSize resource ers pvcs n)) =
       map2 (exclusive_unit resource n) (take (length es) (by_request pvcs)) es \<and>
     (length es = length pvcs \<longleftrightarrow> assignable pvcs ers)"
proof -
  let ?ers = "sort_Slice (\<lambda>a b. er_Capacity a <s er_Capacity b) ers"
  obtain fits units err where run: "exclusive_loop resource n ?ers (by_request pvcs) 0 [] = (fits, units, err)"
    by (metis prod_cases3)
  have sorted: "sorted_wrt (\<lambda>a b. \<not> er_Capacity b <s er_Capacity a) ?ers"
      "sorted_wrt (\<lambda>a b. \<not> GetPVCRequested b <s GetPVCRequested a) (by_request pvcs)"
    by (rule go_less.sort_Slice_sorted [OF go_less_key])+
  from exclusive_loop_units [OF run] obtain es
    where es: "mset es \<subseteq># mset ers" "list_all2 holds (take (length es) (by_request pvcs)) es"
      "units = map2 (exclusive_unit resource n) (take (length es) (by_request pvcs)) es" by auto
  have "length units = length es" using es(3) list_all2_lengthD [OF es(2)] by simp
  then have "length es = length pvcs \<longleftrightarrow> assignable pvcs ers"
    using exclusive_loop_complete(2) [OF sorted run] assignable_reorder [of "by_request pvcs" pvcs ?ers ers] by simp
  with es run show ?thesis
    by (intro exI [of _ es]) (simp add: CheckExclusiveResourceMeetsPVCSize_def Let_def)
qed

text \<open>The check accepts as soon as every claim alone finds a resource that holds it, also when two
  claims need the same one.\<close>

theorem exclusive_check_accepts:
  assumes "\<forall>pvc \<in> set pvcs. \<exists>er \<in> set ers. holds pvc er"
  shows "\<exists>units. CheckExclusiveResourceMeetsPVCSize resource ers pvcs n = (True, units, None)"
proof -
  let ?ers = "sort_Slice (\<lambda>a b. er_Capacity a <s er_Capacity b) ers"
  have "sorted_wrt (\<lambda>a b. \<not> er_Capacity b <s er_Capacity a) ?ers"
    by (rule go_less.sort_Slice_sorted [OF go_less_key])
  moreover have "\<forall>pvc \<in> set (by_request pvcs). \<exists>er \<in> set ?ers. holds pvc er" using assms by simp
  ultimately have "\<exists>units'. exclusive_loop resource n ?ers (by_request pvcs) 0 [] = (True, units', None)"
    by (rule exclusive_loop_accepts)
  then show ?thesis by (simp add: CheckExclusiveResourceMeetsPVCSize_def Let_def)
qed

definition ex_disk :: "string \<Rightarrow> int64 \<Rightarrow> ExclusiveResource" where
  "ex_disk name cap = \<lparr>er_Name = name, er_Device = name, er_Capacity = cap, er_MediaType = MediaTypeHDD,
     er_IsAllocated = False\<rparr>"

lemma exclusive_check_accepts_witness:
  "(\<exists>units. CheckExclusiveResourceMeetsPVCSize VolumeTypeDevice [ex_disk ''a'' 5, ex_disk ''b'' 10]
       [ex_pvc ''p'' 7, ex_pvc ''q'' 8] ''n'' = (True, units, None)) \<and>
   \<not> assignable [ex_pvc ''p'' 7, ex_pvc ''q'' 8] [ex_disk ''a'' 5, ex_disk ''b'' 10]"
proof
  have "\<forall>pvc \<in> set [ex_pvc ''p'' 7, ex_pvc ''q'' 8]. \<exists>er \<in> set [ex_disk ''a'' 5, ex_disk ''b'' 10]. holds pvc er"
    by code_simp
  from exclusive_check_accepts [OF this]
  show "\<exists>units. CheckExclusiveResourceMeetsPVCSize VolumeTypeDevice [ex_disk ''a'' 5, ex_disk ''b'' 10]
       [ex_pvc ''p'' 7, ex_pvc ''q'' 8] ''n'' = (True, units, None)" .
  have "\<not> holds pvc (ex_disk ''a'' 5)" if "pvc \<in> set [ex_pvc ''p'' 7, ex_pvc ''q'' 8]" for pvc
  proof -
    have "\<forall>pvc \<in> set [ex_pvc ''p'' 7, ex_pvc ''q'' 8]. \<not> holds pvc (ex_disk ''a'' 5)" by code_simp
    with that show ?thesis by blast
  qed
  from assignable_too_small [OF this, where ers = "[ex_disk ''b'' 10]"]
  have "assignable [ex_pvc ''p'' 7, ex_pvc ''q'' 8] [ex_disk ''a'' 5, ex_disk ''b'' 10] =
      assignable [ex_pvc ''p'' 7, ex_pvc ''q'' 8] [ex_disk ''b'' 10]" .
  moreover have "\<not> assignable [ex_pvc ''p'' 7, ex_pvc ''q'' 8] [ex_disk ''b'' 10]"
    by (auto simp: assignable_def list_all2_Cons1 dest: size_mset_mono)
  ultimately show "\<not> assignable [ex_pvc ''p'' 7, ex_pvc ''q'' 8] [ex_disk ''a'' 5, ex_disk ''b'' 10]"
    by blast
qed

section \<open>The space of the volume groups\<close>

text \<open>A volume group that is not over-committed, and how much a list of units takes from each name.\<close>

definition sr_within :: "SharedResource \<Rightarrow> bool" where
  "sr_within vg \<longleftrightarrow> 0 \<le>s sr_Requested vg \<and> sr_Requested vg \<le>s sr_Capacity vg"

definition vgs_within :: "SharedResource gomap \<Rightarrow> bool" where
  "vgs_within vgs \<longleftrightarrow> wf_map vgs \<and> (\<forall>v vg. map_of vgs v = Some vg \<longrightarrow> sr_Name vg = v \<and> sr_within vg)"

definition taken :: "string \<Rightarrow> AllocatedUnit list \<Rightarrow> int" where
  "taken v units = (\<Sum>u \<leftarrow> units. if au_VgName u = v then sint (au_Requested u) else 0)"

lemma taken_simps [simp]:
  "taken v [] = 0"
  "taken v (us @ ws) = taken v us + taken v ws"
  "taken v [lvm_unit n r w p] = (if w = v then sint r else 0)"
  by (simp_all add: taken_def lvm_unit_def)

lemma sr_charge:
  assumes "sr_within vg" and "0 \<le>s r" and "\<not> sr_free vg <s r"
  shows "sr_within (vg\<lparr>sr_Requested := sr_Requested vg + r\<rparr>)"
    and "sint (sr_Requested vg + r) = sint (sr_Requested vg) + sint r"
proof -
  have "0 \<le>s sr_Capacity vg" using assms(1) by (auto simp: sr_within_def word_sle_eq)
  from free_guard_keeps_bound [OF this _ assms(2,3)] assms(1)
  show "sr_within (vg\<lparr>sr_Requested := sr_Requested vg + r\<rparr>)"
    and "sint (sr_Requested vg + r) = sint (sr_Requested vg) + sint r"
    by (simp_all add: sr_within_def)
qed

text \<open>The claims that name their group.\<close>

lemma predicate_named_within:
  assumes "predicate_named K n pvcs vgs units = Some (vgs', units', None)" and "vgs_within vgs"
    and "\<forall>pvc \<in> set pvcs. 0 \<le>s GetPVCRequested pvc"
  shows "vgs_within vgs' \<and> map fst vgs' = map fst vgs \<and>
    (\<forall>v vg'. map_of vgs' v = Some vg' \<longrightarrow> (\<exists>vg. map_of vgs v = Some vg \<and> sr_Capacity vg' = sr_Capacity vg \<and>
      sint (sr_Requested vg') = sint (sr_Requested vg) + taken v units' - taken v units))"
  using assms
proof (induction K n pvcs vgs units arbitrary: vgs' units' rule: predicate_named.induct)
  case (2 K n pvc pvcs vgs units)
  show ?case
  proof (cases "IsReadOnlySnapshotPVC K pvc = Some True")
    case True
    with 2 show ?thesis by simp
  next
    case False
    with "2.prems"(1) obtain v vg where run: "IsReadOnlySnapshotPVC K pvc = Some False"
        "GetVGNameFromPVC K pvc = Inr v" "map_of vgs v = Some vg" "\<not> sr_free vg <s GetPVCRequested pvc"
      by (auto simp: Let_def split: option.splits bool.splits sum.splits if_splits)
    let ?vg = "vg\<lparr>sr_Requested := sr_Requested vg + GetPVCRequested pvc\<rparr>"
    let ?vgs = "AList.update v ?vg vgs"
    let ?units = "units @ [lvm_unit n (GetPVCRequested pvc) v (PVCName pvc)]"
    have vg: "sr_within vg" "sr_Name vg = v" using "2.prems"(2) run(3) by (auto simp: vgs_within_def)
    have "0 \<le>s GetPVCRequested pvc" using "2.prems"(3) by simp
    note charge = sr_charge [OF vg(1) this run(4)]
    have within: "vgs_within ?vgs"
      using "2.prems"(2) charge(1) vg(2) by (auto simp: vgs_within_def go_map_simps split: if_splits)
    have "v \<in> set (map fst vgs)" using run(3) by (metis map_of_eq_None_iff option.distinct(1) set_map)
    then have keys: "map fst ?vgs = map fst vgs" by (simp add: map_fst_update)
    have "predicate_named K n pvcs ?vgs ?units = Some (vgs', units', None)"
      using "2.prems"(1) run by (simp add: Let_def)
    from "2.IH"(2) [OF run(1) _ run(2) refl run(3,4) this within] "2.prems"(3)
    have IH: "vgs_within vgs'" "map fst vgs' = map fst ?vgs"
        "\<And>w vg'. map_of vgs' w = Some vg' \<Longrightarrow> \<exists>u. map_of ?vgs w = Some u \<and> sr_Capacity vg' = sr_Capacity u \<and>
          sint (sr_Requested vg') = sint (sr_Requested u) + taken w units' - taken w ?units"
      by auto
    have "\<exists>u. map_of vgs w = Some u \<and> sr_Capacity vg' = sr_Capacity u \<and>
        sint (sr_Requested vg') = sint (sr_Requested u) + taken w units' - taken w units"
      if "map_of vgs' w = Some vg'" for w vg'
      using IH(3) [OF that] run(3) charge(2) by (auto simp: go_map_simps split: if_splits)
    with IH(1,2) keys show ?thesis by auto
  qed
qed auto

text \<open>The claims that do not: the loop only moves sizes into the entries of its copy.\<close>

definition slice_sum :: "(SharedResource \<Rightarrow> int64) \<Rightarrow> string \<Rightarrow> SharedResource list \<Rightarrow> int" where
  "slice_sum f v vgs = (\<Sum>vg \<leftarrow> vgs. if sr_Name vg = v then sint (f vg) else 0)"

lemma slice_sum_simps [simp]:
  "slice_sum f v [] = 0"
  "slice_sum f v (vg # vgs) = (if sr_Name vg = v then sint (f vg) else 0) + slice_sum f v vgs"
  "slice_sum f v (us @ ws) = slice_sum f v us + slice_sum f v ws"
  by (simp_all add: slice_sum_def)

lemma slice_sum_mset: "mset us = mset ws \<Longrightarrow> slice_sum f v us = slice_sum f v ws"
  by (simp add: slice_sum_def flip: sum_mset_sum_list)

lemma slice_sum_within:
  "\<forall>vg \<in> set vgs. sr_within vg \<Longrightarrow> slice_sum sr_Requested v vgs \<le> slice_sum sr_Capacity v vgs"
  by (induction vgs) (auto simp: sr_within_def word_sle_eq)

lemma first_fit_charges:
  assumes "first_fit r vgs = Some (vg, vgs')" and "\<forall>vg \<in> set vgs. sr_within vg" and "0 \<le>s r"
  shows "(\<forall>vg \<in> set vgs'. sr_within vg) \<and>
    (\<forall>v. slice_sum sr_Capacity v vgs' = slice_sum sr_Capacity v vgs) \<and>
    (\<forall>v. slice_sum sr_Requested v vgs' = slice_sum sr_Requested v vgs + (if sr_Name vg = v then sint r else 0))"
  using assms
proof (induction vgs arbitrary: vgs')
  case (Cons w vgs)
  show ?case
  proof (cases "sr_free w <s r")
    case True
    with Cons.prems obtain ws where "first_fit r vgs = Some (vg, ws)" "vgs' = w # ws" by auto
    with Cons.IH [OF this(1)] Cons.prems show ?thesis by auto
  next
    case False
    with Cons.prems have eq: "vg = w" "vgs' = w\<lparr>sr_Requested := sr_Requested w + r\<rparr> # vgs" by auto
    have "sr_within w" using Cons.prems by simp
    from sr_charge [OF this Cons.prems(3) False] Cons.prems eq show ?thesis by auto
  qed
qed simp

lemma predicate_unnamed_within:
  assumes "predicate_unnamed n pvcs vgs units = (units', None)" and "\<forall>vg \<in> set vgs. sr_within vg"
    and "\<forall>pvc \<in> set pvcs. 0 \<le>s GetPVCRequested pvc"
  shows "slice_sum sr_Requested v vgs + taken v units' - taken v units \<le> slice_sum sr_Capacity v vgs"
  using assms
proof (induction n pvcs vgs units rule: predicate_unnamed.induct)
  case (1 n vgs units)
  then show ?case using slice_sum_within by auto
next
  case (2 n pvc pvcs vgs units)
  let ?vgs = "sort_Slice (\<lambda>a b. sr_free a <s sr_free b) vgs"
  from "2.prems"(1) obtain vg vgs' where ff: "first_fit (GetPVCRequested pvc) ?vgs = Some (vg, vgs')"
    by (auto simp: Let_def split: option.splits)
  have within: "\<forall>vg \<in> set ?vgs. sr_within vg" and pos: "0 \<le>s GetPVCRequested pvc"
    using "2.prems"(2,3) by simp_all
  note c = first_fit_charges [OF ff within pos]
  have sums: "slice_sum f v ?vgs = slice_sum f v vgs" for f by (rule slice_sum_mset) simp
  have "predicate_unnamed n pvcs vgs'
      (units @ [lvm_unit n (GetPVCRequested pvc) (sr_Name vg) (PVCName pvc)]) = (units', None)"
    using "2.prems"(1) ff by (simp add: Let_def)
  from "2.IH" [OF refl refl ff refl this] c "2.prems"(3) sums show ?case by auto
qed

lemma slice_sum_vg_slice:
  assumes "range_ok ord" and "vgs_within vgs" and "map_of vgs v = Some vg"
  shows "slice_sum f v (map snd (reorder ord vgs)) = sint (f vg)"
proof -
  have wf: "wf_map (reorder ord vgs)"
    using assms(1,2) by (simp add: vgs_within_def range_ok_distinct)
  have names: "sr_Name w = k" if "(k, w) \<in> set (reorder ord vgs)" for k w
    using map_of_is_SomeI [OF wf that] assms(1,2) by (simp add: vgs_within_def)
  have at: "map_of (reorder ord vgs) v = Some vg" using assms(1,3) by simp
  have "slice_sum f v (map snd m) = (case map_of m v of None \<Rightarrow> 0 | Some w \<Rightarrow> sint (f w))"
    if "wf_map m" "\<And>k w. (k, w) \<in> set m \<Longrightarrow> sr_Name w = k" for m
    using that
  proof (induction m)
    case (Cons p m)
    obtain k w where p: "p = (k, w)" by (cases p)
    have IH: "slice_sum f v (map snd m) = (case map_of m v of None \<Rightarrow> 0 | Some w \<Rightarrow> sint (f w))"
      using Cons.prems by (intro Cons.IH) auto
    have "sr_Name w = k" using Cons.prems(2) [of k w] p by simp
    moreover have "map_of m k = None" using Cons.prems(1) p by (simp add: map_of_eq_None_iff)
    ultimately show ?case using IH p by auto
  qed simp
  from this [OF wf names] at show ?thesis by simp
qed

lemma DivideLVMPVCs_subset:
  assumes "DivideLVMPVCs K pvcs = (withVG, withoutVG)"
  shows "set withVG \<subseteq> set pvcs" and "set withoutVG \<subseteq> set pvcs"
proof -
  have "set w \<subseteq> set a \<union> set pvcs \<and> set wo \<subseteq> set b \<union> set pvcs"
    if "DivideLVMPVCs_loop K pvcs a b = (w, wo)" for a b w wo
    using that
    by (induction K pvcs a b arbitrary: w wo rule: DivideLVMPVCs_loop.induct)
      (fastforce split: sum.splits if_splits)+
  from this [of "[]" "[]"] assms show "set withVG \<subseteq> set pvcs" and "set withoutVG \<subseteq> set pvcs"
    by (simp_all add: DivideLVMPVCs_def)
qed

lemma vg_slice_sums:
  assumes "range_ok ord" and "vgs_within vgs"
  shows "\<forall>vg \<in> set (vg_slice ord vgs). sr_within vg"
    and "map_of vgs v = Some vg \<Longrightarrow> slice_sum sr_Requested v (vg_slice ord vgs) = sint (sr_Requested vg)"
    and "map_of vgs v = Some vg \<Longrightarrow> slice_sum sr_Capacity v (vg_slice ord vgs) = sint (sr_Capacity vg)"
proof -
  have zero: "slice_sum sr_Requested v (replicate n zero_Shared) = 0"
      "slice_sum sr_Capacity v (replicate n zero_Shared) = 0" for n
    by (induction n) (simp_all add: zero_Shared_def)
  have "sr_within vg" if "vg \<in> set (map snd (reorder ord vgs))" for vg
  proof -
    from that obtain k where k: "(k, vg) \<in> set (reorder ord vgs)" by auto
    have "wf_map (reorder ord vgs)" using assms by (simp add: vgs_within_def range_ok_distinct)
    from map_of_is_SomeI [OF this k] assms show ?thesis by (simp add: vgs_within_def)
  qed
  moreover have "sr_within zero_Shared" by (simp add: sr_within_def zero_Shared_def)
  ultimately show "\<forall>vg \<in> set (vg_slice ord vgs). sr_within vg" by (auto simp: vg_slice_def)
  show "slice_sum sr_Requested v (vg_slice ord vgs) = sint (sr_Requested vg)" if "map_of vgs v = Some vg"
    using slice_sum_vg_slice [OF assms that] zero by (simp add: vg_slice_def)
  show "slice_sum sr_Capacity v (vg_slice ord vgs) = sint (sr_Capacity vg)" if "map_of vgs v = Some vg"
    using slice_sum_vg_slice [OF assms that] zero by (simp add: vg_slice_def)
qed

text \<open>C18: the LVM claims of a pod that the extender's predicate accepts fit together: what the chosen
  units take from a volume group fits into its free space.\<close>

theorem predicate_units_fit:
  assumes "ProcessLVMPVCPredicate R K c pvcs n = Some (True, units, err)" and "GetNodeCache c n = Some nc"
    and "vgs_within (nc_VGs nc)" and "range_ok (range_Predicate R)"
    and "\<forall>pvc \<in> set pvcs. 0 \<le>s GetPVCRequested pvc" and "map_of (nc_VGs nc) v = Some vg"
  shows "sint (sr_Requested vg) + taken v units \<le> sint (sr_Capacity vg)"
proof -
  obtain withVG withoutVG where div: "DivideLVMPVCs K pvcs = (withVG, withoutVG)" by (cases "DivideLVMPVCs K pvcs")
  from assms(1,2) obtain vgs us where run: "predicate_named K n withVG (nc_VGs nc) [] = Some (vgs, us, None)"
      "predicate_unnamed n withoutVG (vg_slice (range_Predicate R) vgs) us = (units, None)"
    by (auto simp: ProcessLVMPVCPredicate_def div GetNodeVGMap_def Let_def
        split: option.splits prod.splits if_splits)
  have pos: "\<forall>pvc \<in> set withVG. 0 \<le>s GetPVCRequested pvc" "\<forall>pvc \<in> set withoutVG. 0 \<le>s GetPVCRequested pvc"
    using assms(5) DivideLVMPVCs_subset [OF div] by auto
  from predicate_named_within [OF run(1) assms(3) pos(1)] have named: "vgs_within vgs"
      "map fst vgs = map fst (nc_VGs nc)"
      "\<And>v vg'. map_of vgs v = Some vg' \<Longrightarrow> \<exists>vg. map_of (nc_VGs nc) v = Some vg \<and>
         sr_Capacity vg' = sr_Capacity vg \<and>
         sint (sr_Requested vg') = sint (sr_Requested vg) + taken v us - taken v []"
    by blast+
  have "v \<in> set (map fst vgs)" using assms(6) named(2) by (metis map_of_eq_None_iff option.distinct(1) set_map)
  then obtain vg' where vg': "map_of vgs v = Some vg'" by (metis map_of_eq_None_iff not_None_eq set_map)
  note slice = vg_slice_sums [OF assms(4) named(1)]
  from predicate_unnamed_within [OF run(2) slice(1) pos(2), of v] slice(2,3) [OF vg'] named(3) [OF vg'] assms(6)
  show ?thesis by auto
qed

definition ex_classes :: kube where
  "ex_classes = ex_kube\<lparr>sc_get := map_of
     [(''lvm'', \<lparr>sc_Name = ''lvm'', sc_Provisioner = ''local.csi.aliyun.com'',
                 sc_Parameters = [(''volumeType'', ''LVM'')]\<rparr>),
      (''lvm-g'', \<lparr>sc_Name = ''lvm-g'', sc_Provisioner = ''local.csi.aliyun.com'',
                 sc_Parameters = [(''volumeType'', ''LVM''), (''vgName'', ''g'')]\<rparr>)]\<rparr>"

definition ex_ext_node :: NodeCache where
  "ex_ext_node = (NewNodeCache ''n'')\<lparr>nc_VGs :=
     [(''g'', \<lparr>sr_Name = ''g'', sr_Capacity = 10, sr_Requested = 2\<rparr>),
      (''h'', \<lparr>sr_Name = ''h'', sr_Capacity = 6, sr_Requested = 0\<rparr>)]\<rparr>"

definition ex_cluster :: ClusterNodeCache where
  "ex_cluster = put_node ''n'' ex_ext_node NewClusterNodeCache"

definition ex_ranges :: algo_ranges where
  "ex_ranges = \<lparr>range_Predicate = \<lambda>ks. ks, range_Claim = \<lambda>_ ks. ks, range_MountPoints = \<lambda>ks. ks,
     range_Devices = \<lambda>ks. ks, range_Scores = \<lambda>ks. ks\<rparr>"

lemma vgs_within_ex_ext_node: "vgs_within (nc_VGs ex_ext_node)"
proof -
  have "map_of (nc_VGs ex_ext_node) v = Some vg \<Longrightarrow> (v, vg) \<in> set (nc_VGs ex_ext_node)" for v vg
    by (rule map_of_SomeD)
  moreover have "wf_map (nc_VGs ex_ext_node)"
    "\<forall>(v, vg) \<in> set (nc_VGs ex_ext_node). sr_Name vg = v \<and> sr_within vg" by code_simp+
  ultimately show ?thesis by (fastforce simp: vgs_within_def)
qed

lemma predicate_units_fit_witness:
  "\<exists>units. ProcessLVMPVCPredicate ex_ranges ex_classes ex_cluster [ex_pvc ''p'' 7, ex_pvc ''q'' 5] ''n'' =
       Some (True, units, None) \<and> taken ''g'' units = 7 \<and> 2 + taken ''g'' units \<le> 10"
proof -
  let ?units = "[lvm_unit ''n'' 7 ''g'' ''ns/p'', lvm_unit ''n'' 5 ''h'' ''ns/q'']"
  have run: "ProcessLVMPVCPredicate ex_ranges ex_classes ex_cluster [ex_pvc ''p'' 7, ex_pvc ''q'' 5] ''n'' =
      Some (True, ?units, None)" by code_simp
  have taken: "taken ''g'' ?units = 7" by (simp add: taken_def lvm_unit_def)
  have node: "GetNodeCache ex_cluster ''n'' = Some ex_ext_node" by code_simp
  have 1: "range_ok (range_Predicate ex_ranges)" by (simp add: ex_ranges_def)
  have 2: "\<forall>pvc \<in> set [ex_pvc ''p'' 7, ex_pvc ''q'' 5]. 0 \<le>s GetPVCRequested pvc" by code_simp
  have 3: "map_of (nc_VGs ex_ext_node) ''g'' = Some \<lparr>sr_Name = ''g'', sr_Capacity = 10, sr_Requested = 2\<rparr>" by code_simp
  from predicate_units_fit [OF run node vgs_within_ex_ext_node 1 2 3] run taken show ?thesis by auto
qed

section \<open>Spread\<close>

lemma Spread_takes_roomiest:
  assumes "range_ok (range_Claim R pvc)" and "map_of vgs v = Some vg" and "sr_Name vg = v" and "0 <s sr_free vg"
    and "\<forall>w u. map_of vgs w = Some u \<longrightarrow> w \<noteq> v \<longrightarrow> sr_free u <s sr_free vg" and "wf_map vgs"
    and "\<not> sr_free vg <s GetPVCRequested pvc"
  shows "Spread R K pod pvc n vgs = (vgs, True, [lvm_unit n (GetPVCRequested pvc) v (PVCName pvc)], None)"
proof -
  let ?m = "reorder (range_Claim R pvc) vgs"
  let ?slice = "vg_slice (range_Claim R pvc) vgs"
  let ?lt = "\<lambda>a b. sr_free b <s sr_free a"
  have wf: "wf_map ?m" using assms(1,6) by (simp add: range_ok_distinct)
  have "map_of ?m v = Some vg" using assms(1,2) by simp
  then have "(v, vg) \<in> set ?m" by (rule map_of_SomeD)
  then have vg: "vg \<in> set ?slice" by (force simp: vg_slice_def)
  have small: "u = vg \<or> sr_free u <s sr_free vg" if "u \<in> set ?slice" for u
  proof (cases "u = zero_Shared")
    case True
    with assms(4) show ?thesis by (simp add: zero_Shared_def)
  next
    case False
    with that obtain w where "(w, u) \<in> set ?m" by (auto simp: vg_slice_def)
    from map_of_is_SomeI [OF wf this] assms(1) have "map_of vgs w = Some u" by simp
    with assms(2,5) show ?thesis by (cases "w = v") auto
  qed
  have ne: "vgs \<noteq> []" using assms(2) by auto
  obtain y ys where sorted: "sort_Slice ?lt ?slice = y # ys"
  proof (cases "sort_Slice ?lt ?slice")
    case Nil
    with set_sort_Slice [of ?lt ?slice] vg show ?thesis by simp
  qed (rule that)
  have y: "y = vg"
  proof -
    have "y \<in> set ?slice" using sorted set_sort_Slice [of ?lt ?slice] by auto
    moreover have "\<not> sr_free y <s sr_free vg"
      using go_less.sort_Slice_first_least [OF go_greater_key sorted vg] by simp
    ultimately show ?thesis using small by blast
  qed
  show ?thesis using assms(3,7) ne by (simp add: Spread_def Let_def sorted y)
qed

text \<open>With the spread strategy the extender gives all claims of a pod that name no volume group to
  the roomiest one, as long as each alone fits there, whatever they add up to.\<close>

theorem spread_same_group:
  assumes "\<forall>pvc \<in> set pvcs. range_ok (range_Claim R pvc) \<and> \<not> sr_free vg <s GetPVCRequested pvc"
    and "map_of vgs v = Some vg" and "sr_Name vg = v" and "0 <s sr_free vg"
    and "\<forall>w u. map_of vgs w = Some u \<longrightarrow> w \<noteq> v \<longrightarrow> sr_free u <s sr_free vg" and "wf_map vgs"
  shows "priority_unnamed R K StrategySpread pod n pvcs vgs units =
    (True, units @ map (\<lambda>pvc. lvm_unit n (GetPVCRequested pvc) v (PVCName pvc)) pvcs, None)"
  using assms(1)
proof (induction pvcs arbitrary: units)
  case (Cons pvc pvcs)
  have "Spread R K pod pvc n vgs = (vgs, True, [lvm_unit n (GetPVCRequested pvc) v (PVCName pvc)], None)"
    using Cons.prems by (intro Spread_takes_roomiest [OF _ assms(2-6)]) simp_all
  with Cons show ?case by simp
qed simp

lemma spread_same_group_witness:
  "priority_unnamed ex_ranges ex_classes StrategySpread None ''n'' [ex_pvc ''p'' 5, ex_pvc ''q'' 5] (nc_VGs ex_ext_node) [] =
     (True, [lvm_unit ''n'' 5 ''g'' ''ns/p'', lvm_unit ''n'' 5 ''g'' ''ns/q''], None) \<and>
   taken ''g'' [lvm_unit ''n'' 5 ''g'' ''ns/p'', lvm_unit ''n'' 5 ''g'' ''ns/q''] = 10 \<and>
   sr_free (shared_at (nc_VGs ex_ext_node) ''g'') = 8"
proof -
  let ?vg = "\<lparr>sr_Name = ''g'', sr_Capacity = 10, sr_Requested = 2\<rparr> :: SharedResource"
  have 1: "\<forall>pvc \<in> set [ex_pvc ''p'' 5, ex_pvc ''q'' 5].
      range_ok (range_Claim ex_ranges pvc) \<and> \<not> sr_free ?vg <s GetPVCRequested pvc"
    by (simp add: ex_ranges_def) code_simp
  have 2: "map_of (nc_VGs ex_ext_node) ''g'' = Some ?vg" "sr_Name ?vg = ''g''" "0 <s sr_free ?vg" "wf_map (nc_VGs ex_ext_node)"
    by code_simp+
  have "\<forall>(w, u) \<in> set (nc_VGs ex_ext_node). w \<noteq> ''g'' \<longrightarrow> sr_free u <s sr_free ?vg" by code_simp
  then have 3: "\<forall>w u. map_of (nc_VGs ex_ext_node) w = Some u \<longrightarrow> w \<noteq> ''g'' \<longrightarrow> sr_free u <s sr_free ?vg"
    by (auto dest: map_of_SomeD)
  have units: "map (\<lambda>pvc. lvm_unit ''n'' (GetPVCRequested pvc) ''g'' (PVCName pvc)) [ex_pvc ''p'' 5, ex_pvc ''q'' 5] =
      [lvm_unit ''n'' 5 ''g'' ''ns/p'', lvm_unit ''n'' 5 ''g'' ''ns/q'']" by code_simp
  have taken: "taken ''g'' [lvm_unit ''n'' 5 ''g'' ''ns/p'', lvm_unit ''n'' 5 ''g'' ''ns/q''] = 10"
    by (simp add: taken_def lvm_unit_def)
  have free: "sr_free (shared_at (nc_VGs ex_ext_node) ''g'') = 8" by code_simp
  from spread_same_group [OF 1 2(1-3) 3 2(4), of ex_classes None "''n''" "[]"] units taken free
  show ?thesis by (simp only: append_Nil)
qed

end
