(* ===== verification/Ext_Predicates.thy ===== *)
theory Ext_Predicates
  imports Ext_Algo
begin

text \<open>
  What the scheduler extender answers to \<open>kube-scheduler\<close>: \<open>pkg/scheduler/algorithm/predicates/\<close>
  (\<open>Filter\<close> calls) and \<open>pkg/scheduler/algorithm/priorities/\<close> (\<open>Prioritize\<close> calls). \<open>node_known\<close> is the
  node informer: whether it has a node of that name. The message of a failed node is kept as the errors
  it is made of. \<open>None\<close> is a panic.
\<close>

section \<open>Predicates\<close>

text \<open>\<open>strconv.ParseBool\<close>; an error counts as \<open>false\<close>.\<close>

definition parse_bool :: "string option \<Rightarrow> bool" where
  "parse_bool v =
     (case v of None \<Rightarrow> False
      | Some val \<Rightarrow> val \<in> {''1'', ''t'', ''T'', ''TRUE'', ''true'', ''True''})"

fun storage_type_loop :: "kube \<Rightarrow> bool \<Rightarrow> string \<Rightarrow> Volume list \<Rightarrow> bool \<times> go_error option" where
  "storage_type_loop K supportSPDK ns [] = (True, None)"
| "storage_type_loop K supportSPDK ns (v # vs) =
     (if (case vol_CSI v of
            None \<Rightarrow> False
          | Some csi \<Rightarrow> ContainsProvisioner (csi_Driver csi) \<and>
              parse_bool (map_of (csi_VolumeAttributes csi) ''spdk'') \<noteq> supportSPDK)
      then (False, None)
      else
        (case (case vol_PVC v of
                 None \<Rightarrow> Inr None
               | Some name \<Rightarrow>
                   (case pvc_get K ns name of
                      None \<Rightarrow> Inl (NotFound name)
                    | Some pvc \<Rightarrow> Inr (pvc_StorageClassName pvc))) of
           Inl err \<Rightarrow> (False, Some err)
         | Inr claimClass \<Rightarrow>
             (case (case vol_Ephemeral v of None \<Rightarrow> claimClass | Some scName \<Rightarrow> scName) of
                None \<Rightarrow> storage_type_loop K supportSPDK ns vs
              | Some scName \<Rightarrow>
                  (case sc_get K scName of
                     None \<Rightarrow> (False, Some (NotFound scName))
                   | Some sc \<Rightarrow>
                       if ContainsProvisioner (sc_Provisioner sc) \<and>
                          parse_bool (map_of (sc_Parameters sc) ''spdk'') \<noteq> supportSPDK
                       then (False, None)
                       else storage_type_loop K supportSPDK ns vs))))"

definition StorageTypePredicate ::
  "kube \<Rightarrow> ClusterNodeCache \<Rightarrow> Pod \<Rightarrow> string \<Rightarrow> (bool \<times> go_error option) option" where
  "StorageTypePredicate K c pod nodeName =
     (if length (pod_Volumes pod) = 0 then Some (True, None)
      else (case GetNodeCache c nodeName of
              None \<Rightarrow> Some (False, Some (Errorf ''failed to get node cache by name %s'' [S nodeName]))
            | Some nc \<Rightarrow>
                Some (storage_type_loop K (nc_SupportSPDK nc) (pod_Namespace pod) (pod_Volumes pod))))"

text \<open>The four checks of \<open>CapacityPredicate\<close> in turn; each places its volumes on the node as the cache
  has it.\<close>

abbreviation and_then ::
  "(bool \<times> 'u \<times> go_error option) \<Rightarrow> (bool \<times> go_error option) option \<Rightarrow> (bool \<times> go_error option) option" where
  "and_then r k \<equiv>
     (case r of (fits, _, Some err) \<Rightarrow> Some (False, Some err)
      | (False, _, None) \<Rightarrow> Some (False, None)
      | (True, _, None) \<Rightarrow> k)"

definition CapacityPredicate ::
  "algo_ranges \<Rightarrow> kube \<Rightarrow> ClusterNodeCache \<Rightarrow> Pod \<Rightarrow> string \<Rightarrow> (bool \<times> go_error option) option" where
  "CapacityPredicate R K c pod nodeName =
     (case GetPodPvcsByLister K pod True of
        (Some err, _) \<Rightarrow> Some (False, Some err)
      | (None, lvmPVCs, mpPVCs, devicePVCs) \<Rightarrow>
          (let containInlineVolume = fst (ContainInlineVolumes pod);
               snapshots =
                 (case ProcessSnapshotPVC K lvmPVCs nodeName of
                    None \<Rightarrow> None
                  | Some (fits, Some err) \<Rightarrow> Some (False, Some err)
                  | Some (fits, None) \<Rightarrow>
                      if \<not> fits then Some (False, Some (NewSnapshotError VolumeTypeLVM)) else Some (True, None));
               devices = (if length devicePVCs > 0
                          then and_then (AllocateDeviceVolume R K c devicePVCs nodeName) snapshots else snapshots);
               mount_points = (if length mpPVCs > 0
                               then and_then (AllocateMountPointVolume R K c mpPVCs nodeName) devices else devices);
               lvm = (if length lvmPVCs > 0
                      then (case AllocateLVMVolume R K c (Some pod) lvmPVCs nodeName of
                              None \<Rightarrow> None
                            | Some r \<Rightarrow> and_then r mount_points)
                      else mount_points)
           in if containInlineVolume then and_then (HandleInlineLVMVolume K c nodeName pod) lvm else lvm))"

definition normalizeError :: "go_error option \<Rightarrow> bool \<times> go_error list" where
  "normalizeError err =
     (case err of
        None \<Rightarrow> (False, [])
      | Some v \<Rightarrow> if is_PredicateError v then (False, [v]) else (True, []))"

type_synonym predicate_func = "Pod \<Rightarrow> string \<Rightarrow> (bool \<times> go_error option) option"

fun Predicates_loop ::
  "predicate_func list \<Rightarrow> Pod \<Rightarrow> string \<Rightarrow> bool \<Rightarrow> go_error list \<Rightarrow>
     (bool \<times> go_error list \<times> go_error option) option" where
  "Predicates_loop [] pod nodeName fits failedReasons =
     Some (length failedReasons = 0 \<and> fits, failedReasons, None)"
| "Predicates_loop (pre # pres) pod nodeName _ failedReasons =
     (case pre pod nodeName of
        None \<Rightarrow> None
      | Some (fits, err) \<Rightarrow>
          (case normalizeError err of
             (isError, failReasons) \<Rightarrow>
               if isError \<and> err \<noteq> None then Some (fits, failedReasons, err)
               else if fits then Predicates_loop pres pod nodeName fits failedReasons
               else Predicates_loop pres pod nodeName fits (failedReasons @ failReasons)))"

definition Predicates ::
  "predicate_func list \<Rightarrow> Pod \<Rightarrow> string \<Rightarrow> (bool \<times> go_error list \<times> go_error option) option" where
  "Predicates pres pod nodeName = Predicates_loop pres pod nodeName False []"

definition DefaultPredicateFuncs :: "algo_ranges \<Rightarrow> kube \<Rightarrow> ClusterNodeCache \<Rightarrow> predicate_func list" where
  "DefaultPredicateFuncs R K c = [StorageTypePredicate K c, CapacityPredicate R K c]"

record ExtenderArgs =
  args_Pod :: Pod
  args_Nodes :: "string list option" \<comment> \<open>the names of the nodes\<close>
  args_NodeNames :: "string list option"

datatype failure = Reasons "go_error list" \<comment> \<open>joined with commas\<close> | Terminated go_error

record ExtenderFilterResult =
  fr_Nodes :: "string list option"
  fr_NodeNames :: "string list option"
  fr_FailedNodes :: "failure gomap"

definition candidate_names :: "ExtenderArgs \<Rightarrow> string list" where
  "candidate_names args =
     (case args_NodeNames args of
        Some names \<Rightarrow> names
      | None \<Rightarrow> (case args_Nodes args of Some names \<Rightarrow> names | None \<Rightarrow> []))"

fun predicate_handler_loop ::
  "(string \<Rightarrow> bool) \<Rightarrow> predicate_func list \<Rightarrow> Pod \<Rightarrow> string list \<Rightarrow> string list \<Rightarrow> failure gomap \<Rightarrow>
     (string list \<times> failure gomap \<times> go_error option) option" where
  "predicate_handler_loop node_known pres pod [] canSchedule canNotSchedule = Some (canSchedule, canNotSchedule, None)"
| "predicate_handler_loop node_known pres pod (nodeName # names) canSchedule canNotSchedule =
     (if \<not> node_known nodeName then predicate_handler_loop node_known pres pod names canSchedule canNotSchedule
      else (case Predicates pres pod nodeName of
              None \<Rightarrow> None
            | Some (fits, failReasons, Some err) \<Rightarrow>
                Some (canSchedule, AList.update nodeName (Terminated err) canNotSchedule, Some err)
            | Some (fits, failReasons, None) \<Rightarrow>
                if fits then predicate_handler_loop node_known pres pod names (canSchedule @ [nodeName]) canNotSchedule
                else predicate_handler_loop node_known pres pod names canSchedule
                       (AList.update nodeName (Reasons failReasons) canNotSchedule)))"

text \<open>The capacity of \<open>canSchedule\<close> is computed from \<open>*args.NodeNames\<close>, also when the nodes came in
  \<open>args.Nodes\<close>: a nil dereference then.\<close>

definition predicate_Handler ::
  "(string \<Rightarrow> bool) \<Rightarrow> predicate_func list \<Rightarrow> ExtenderArgs \<Rightarrow> ExtenderFilterResult option" where
  "predicate_Handler node_known pres args =
     (let pod = args_Pod args
      in if NeedSkip pod
         then Some \<lparr>fr_Nodes = args_Nodes args, fr_NodeNames = args_NodeNames args, fr_FailedNodes = []\<rparr>
         else
           (let nodeNames = candidate_names args
            in if args_NodeNames args = None then None
               else (case predicate_handler_loop node_known pres pod nodeNames [] [] of
                       None \<Rightarrow> None
                     | Some (canSchedule, canNotSchedule, None) \<Rightarrow>
                         Some \<lparr>fr_Nodes = None, fr_NodeNames = Some canSchedule, fr_FailedNodes = canNotSchedule\<rparr>
                     | Some (_, canNotSchedule, Some err) \<Rightarrow>
                         Some \<lparr>fr_Nodes = None, fr_NodeNames = Some [],
                               fr_FailedNodes = fold (\<lambda>n. AList.update n (Terminated err)) nodeNames canNotSchedule\<rparr>)))"

section \<open>Priorities\<close>

text \<open>A priority function returns a score (an \<open>int\<close>) and an error.\<close>

definition IsLocalNodeCache :: "ClusterNodeCache \<Rightarrow> string \<Rightarrow> bool" where
  "IsLocalNodeCache c nodeName =
     (case GetNodeCache c nodeName of
        None \<Rightarrow> False
      | Some nodeCache \<Rightarrow>
          length (nc_VGs nodeCache) \<noteq> 0 \<or> length (nc_MountPoints nodeCache) \<noteq> 0 \<or>
          length (nc_Devices nodeCache) \<noteq> 0)"

definition CapacityMatch ::
  "algo_ranges \<Rightarrow> (float64 \<Rightarrow> int64) \<Rightarrow> kube \<Rightarrow> StrategyType \<Rightarrow> ClusterNodeCache \<Rightarrow> Pod \<Rightarrow> string \<Rightarrow>
     (int64 \<times> go_error option) option" where
  "CapacityMatch R cv K strategy c pod nodeName =
     (case GetPodPvcsByLister K pod True of
        (Some err, _) \<Rightarrow> Some (MinScore, Some err)
      | (None, lvmPVCs, mpPVCs, devicePVCs) \<Rightarrow>
          (let containInlineVolume = fst (ContainInlineVolumes pod)
           in if length lvmPVCs \<le> 0 \<and> length mpPVCs \<le> 0 \<and> length devicePVCs \<le> 0 \<and> \<not> containInlineVolume
              then Some (if IsLocalNodeCache c nodeName then MinScore else MaxScore, None)
              else
                (case ScoreLVMVolume R cv K strategy c (Some pod) lvmPVCs nodeName of
                   None \<Rightarrow> None
                 | Some (_, _, Some err) \<Rightarrow> Some (MinScore, Some err)
                 | Some (lvmScore, _, None) \<Rightarrow>
                     (case ScoreMountPointVolume R cv K c mpPVCs nodeName of
                        (_, _, Some err) \<Rightarrow> Some (MinScore, Some err)
                      | (mpScore, _, None) \<Rightarrow>
                          (case ScoreDeviceVolume R cv K c devicePVCs nodeName of
                             (_, _, Some err) \<Rightarrow> Some (MinScore, Some err)
                           | (deviceScore, _, None) \<Rightarrow>
                               (case ScoreInlineLVMVolume R cv K strategy c pod nodeName of
                                  (_, _, Some err) \<Rightarrow> Some (MinScore, Some err)
                                | (inlineScore, _, None) \<Rightarrow>
                                    Some (lvmScore + mpScore + deviceScore + inlineScore, None)))))))"

definition free_count :: "ExclusiveResource gomap \<Rightarrow> nat" where
  "free_count m = length (filter (\<lambda>(_, er). \<not> er_IsAllocated er) m)"

definition freeMountPoints :: "NodeCache \<Rightarrow> nat" where
  "freeMountPoints nc = free_count (nc_MountPoints nc)"

definition freeDevices :: "NodeCache \<Rightarrow> nat" where
  "freeDevices nc = free_count (nc_Devices nc)"

definition count_score :: "(float64 \<Rightarrow> int64) \<Rightarrow> nat \<Rightarrow> nat \<Rightarrow> int64" where
  "count_score cv claims avail =
     (if claims > 0 \<and> avail > 0
      then to_int64 cv (fdiv (fmul (of_int64 (word_of_nat claims)) (of_int64 MaxScore))
                             (of_int64 (word_of_nat avail)))
      else 0)"

definition CountMatch ::
  "(float64 \<Rightarrow> int64) \<Rightarrow> kube \<Rightarrow> ClusterNodeCache \<Rightarrow> Pod \<Rightarrow> string \<Rightarrow> int64 \<times> go_error option" where
  "CountMatch cv K c pod nodeName =
     (case GetPodPvcsByLister K pod True of
        (Some err, _) \<Rightarrow> (MinScore, Some err)
      | (None, _, mpPVCs, devicePVCs) \<Rightarrow>
          (case GetNodeCache c nodeName of
             None \<Rightarrow> (0, Some (Errorf ''failed to get node cache by name %s'' [S nodeName]))
           | Some nc \<Rightarrow>
               (let scoreMP = count_score cv (length mpPVCs) (freeMountPoints nc);
                    scoreDevice = count_score cv (length devicePVCs) (freeDevices nc)
                in (go_div (scoreMP + scoreDevice) 2, None))))"

definition NodeAntiAffinity ::
  "(float64 \<Rightarrow> int64) \<Rightarrow> NodeAntiAffinityWeight \<Rightarrow> kube \<Rightarrow> ClusterNodeCache \<Rightarrow> Pod \<Rightarrow> string \<Rightarrow>
     int64 \<times> go_error option" where
  "NodeAntiAffinity cv weights K c pod nodeName =
     (case GetPodPvcsByLister K pod True of
        (Some err, _) \<Rightarrow> (MinScore, Some err)
      | (None, _, mpPVCs, devicePVCs) \<Rightarrow>
          (case GetNodeCache c nodeName of
             None \<Rightarrow> (0, Some (Errorf ''failed to get node cache by name %s'' [S nodeName]))
           | Some nc \<Rightarrow>
               (let isLocal = IsLocalNodeCache c nodeName;
                    (scoreMP, scoreDevice, volumeTypeAntiFound) =
                      fold (\<lambda>(volumeType, weight) (scoreMP, scoreDevice, found).
                          if weight \<le>s 0 then (scoreMP, scoreDevice, found)
                          else if volumeType = VolumeTypeMountPoint then
                            (if length mpPVCs \<le> 0 \<and> (\<not> isLocal \<or> freeMountPoints nc \<le> 0)
                             then (weight * 1, scoreDevice, AList.update volumeType True found)
                             else (scoreMP, scoreDevice, found))
                          else if volumeType = VolumeTypeDevice then
                            (if length devicePVCs \<le> 0 \<and> (\<not> isLocal \<or> freeDevices nc \<le> 0)
                             then (scoreMP, weight * 1, AList.update volumeType True found)
                             else (scoreMP, scoreDevice, found))
                          else (scoreMP, scoreDevice, found))
                        (weight_Items weights False) (0, 0, [] :: bool gomap)
                in if length volumeTypeAntiFound \<le> 0 then (0, None)
                   else (to_int64 cv (fdiv (of_int64 (scoreMP + scoreDevice))
                                           (of_int64 (word_of_nat (length volumeTypeAntiFound)))), None))))"

type_synonym priority_func = "Pod \<Rightarrow> string \<Rightarrow> (int64 \<times> go_error option) option"

definition DefaultPrioritizeFuncs ::
  "algo_ranges \<Rightarrow> (float64 \<Rightarrow> int64) \<Rightarrow> kube \<Rightarrow> StrategyType \<Rightarrow> NodeAntiAffinityWeight \<Rightarrow> ClusterNodeCache \<Rightarrow>
     priority_func list" where
  "DefaultPrioritizeFuncs R cv K strategy weights c =
     [CapacityMatch R cv K strategy c,
      \<lambda>pod nodeName. Some (CountMatch cv K c pod nodeName),
      \<lambda>pod nodeName. Some (NodeAntiAffinity cv weights K c pod nodeName)]"

type_synonym HostPriority = "string \<times> int64"

definition InitHostPriorityList :: "string list \<Rightarrow> HostPriority list" where
  "InitHostPriorityList nodeNames = map (\<lambda>name. (name, 0)) nodeNames"

text \<open>One priority function over the nodes, adding its scores to the list.\<close>

fun prioritize_nodes ::
  "(string \<Rightarrow> bool) \<Rightarrow> priority_func \<Rightarrow> Pod \<Rightarrow> HostPriority list \<Rightarrow> HostPriority list option" where
  "prioritize_nodes node_known pri pod [] = Some []"
| "prioritize_nodes node_known pri pod ((nodeName, old) # entries) =
     (if \<not> node_known nodeName
      then map_option (Cons (nodeName, old)) (prioritize_nodes node_known pri pod entries)
      else (case pri pod nodeName of
              None \<Rightarrow> None
            | Some (_, Some err) \<Rightarrow> map_option (Cons (nodeName, old)) (prioritize_nodes node_known pri pod entries)
            | Some (score, None) \<Rightarrow>
                map_option (Cons (nodeName, score + old)) (prioritize_nodes node_known pri pod entries)))"

fun prioritize_loop ::
  "(string \<Rightarrow> bool) \<Rightarrow> priority_func list \<Rightarrow> Pod \<Rightarrow> HostPriority list \<Rightarrow> HostPriority list option" where
  "prioritize_loop node_known [] pod entries = Some entries"
| "prioritize_loop node_known (pri # pris) pod entries =
     (case prioritize_nodes node_known pri pod entries of
        None \<Rightarrow> None
      | Some entries \<Rightarrow> prioritize_loop node_known pris pod entries)"

definition prioritize_Handler ::
  "(string \<Rightarrow> bool) \<Rightarrow> priority_func list \<Rightarrow> NodeAntiAffinityWeight \<Rightarrow> ExtenderArgs \<Rightarrow> HostPriority list option" where
  "prioritize_Handler node_known pris weights args =
     (let pod = args_Pod args;
          hostPriorityList = InitHostPriorityList (candidate_names args)
      in if length (weight_Items weights False) = 0 \<and> NeedSkip pod then Some hostPriorityList
         else prioritize_loop node_known pris pod hostPriorityList)"

end
