(* ===== verification/Ext_Verdicts.thy ===== *)
theory Ext_Verdicts
  imports Ext_Choice Ext_Predicates
begin

text \<open>
  What the extender's filter answers: which nodes pass and which are reported as failed, and two ways in
  which its verdict is not the conjunction of its predicates.
\<close>

section \<open>What the predicates say of a node\<close>

text \<open>The verdicts one by one, independently of the loop that gathers them. A predicate \<^emph>\<open>breaks off\<close>
  with an error that is no \<open>PredicateError\<close>; otherwise it accepts the node, or refuses it with a reason
  (a \<open>PredicateError\<close>) or without one.\<close>

definition broken_off :: "(bool \<times> go_error option) option \<Rightarrow> go_error option" where
  "broken_off v = (case v of Some (_, Some e) \<Rightarrow> if is_PredicateError e then None else Some e | _ \<Rightarrow> None)"

definition refusal_reason :: "(bool \<times> go_error option) option \<Rightarrow> go_error option" where
  "refusal_reason v = (case v of Some (False, Some e) \<Rightarrow> Some e | _ \<Rightarrow> None)"

definition accepts :: "(bool \<times> go_error option) option \<Rightarrow> bool" where
  "accepts v \<longleftrightarrow> (case v of Some (fits, _) \<Rightarrow> fits | None \<Rightarrow> False)"

definition first_some :: "'a option list \<Rightarrow> 'a option" where
  "first_some xs = (case filter (\<lambda>x. x \<noteq> None) xs of [] \<Rightarrow> None | x # _ \<Rightarrow> x)"

definition hard_error :: "predicate_func list \<Rightarrow> Pod \<Rightarrow> string \<Rightarrow> go_error option" where
  "hard_error pres pod n = first_some (map (\<lambda>pre. broken_off (pre pod n)) pres)"

definition refusals :: "predicate_func list \<Rightarrow> Pod \<Rightarrow> string \<Rightarrow> go_error list" where
  "refusals pres pod n = List.map_filter (\<lambda>pre. refusal_reason (pre pod n)) pres"

text \<open>A node passes when the last predicate accepts it and no other one refuses it with a reason.\<close>

definition passes :: "predicate_func list \<Rightarrow> Pod \<Rightarrow> string \<Rightarrow> bool" where
  "passes pres pod n \<longleftrightarrow>
     pres \<noteq> [] \<and> accepts (last pres pod n) \<and> (\<forall>pre \<in> set pres. refusal_reason (pre pod n) = None)"

text \<open>Were every refusal to give its reason, that would be the conjunction of the verdicts.\<close>

lemma passes_conjunction:
  assumes "\<forall>pre \<in> set pres. accepts (pre pod n) \<or> refusal_reason (pre pod n) \<noteq> None"
  shows "passes pres pod n \<longleftrightarrow> pres \<noteq> [] \<and> (\<forall>pre \<in> set pres. accepts (pre pod n))"
proof -
  have "accepts v \<Longrightarrow> refusal_reason v = None" for v :: "(bool \<times> go_error option) option"
    by (auto simp: accepts_def refusal_reason_def split: option.splits)
  with assms show ?thesis using last_in_set [of pres] unfolding passes_def by blast
qed

lemma first_some_simps [simp]:
  "first_some [] = None"
  "first_some (x # xs) = (case x of None \<Rightarrow> first_some xs | Some y \<Rightarrow> Some y)"
  by (auto simp: first_some_def split: option.split)

lemma refusals_simps [simp]:
  "refusals [] pod n = []"
  "refusals (pre # pres) pod n = (case refusal_reason (pre pod n) of None \<Rightarrow> [] | Some e \<Rightarrow> [e]) @ refusals pres pod n"
  by (auto simp: refusals_def List.map_filter_simps split: option.split)

lemma hard_error_simps [simp]:
  "hard_error [] pod n = None"
  "hard_error (pre # pres) pod n =
     (case broken_off (pre pod n) of None \<Rightarrow> hard_error pres pod n | Some e \<Rightarrow> Some e)"
  by (auto simp: hard_error_def split: option.split)

lemma Predicates_loop_step:
  assumes "pre pod n = Some (fits, e)"
  shows "Predicates_loop (pre # pres) pod n fits0 reasons =
    (case broken_off (pre pod n) of
       Some x \<Rightarrow> Some (fits, reasons, Some x)
     | None \<Rightarrow> Predicates_loop pres pod n fits
         (reasons @ (case refusal_reason (pre pod n) of None \<Rightarrow> [] | Some e \<Rightarrow> [e])))"
  using assms by (cases fits; cases e) (simp_all add: broken_off_def refusal_reason_def normalizeError_def)

lemma Predicates_loop_verdict:
  "Predicates_loop pres pod n fits reasons = Some (fits', reasons', err) \<Longrightarrow>
     err = hard_error pres pod n \<and>
     (err = None \<longrightarrow> reasons' = reasons @ refusals pres pod n \<and>
        fits' = (reasons' = [] \<and> (if pres = [] then fits else accepts (last pres pod n))))"
proof (induction pres arbitrary: fits reasons)
  case (Cons pre pres)
  from Cons.prems obtain fits1 e where v: "pre pod n = Some (fits1, e)" by (auto split: option.splits)
  then have fits: "accepts (pre pod n) = fits1" by (simp add: accepts_def)
  note run = Cons.prems [unfolded Predicates_loop_step [of pre pod n, OF v]]
  show ?case
  proof (cases "broken_off (pre pod n)")
    case None
    with Cons.IH [OF run [unfolded None option.case]] fits show ?thesis
      by (cases "pres = []"; cases "refusal_reason (pre pod n)") simp_all
  next
    case (Some e)
    with run show ?thesis by (cases err) simp_all
  qed
qed auto

lemma refusals_none: "refusals pres pod n = [] \<longleftrightarrow> (\<forall>pre \<in> set pres. refusal_reason (pre pod n) = None)"
  by (induction pres) (auto split: option.split)

lemma Predicates_verdict:
  assumes "Predicates pres pod n = Some (fits, reasons, err)"
  shows "err = hard_error pres pod n"
    and "err = None \<Longrightarrow> reasons = refusals pres pod n \<and> fits = passes pres pod n"
  using Predicates_loop_verdict [OF assms [unfolded Predicates_def]] refusals_none [of pres pod n]
  by (auto simp: passes_def)

section \<open>The answer to kube-scheduler\<close>

lemma predicate_handler_loop_verdict:
  assumes "predicate_handler_loop node_known pres pod names can cannot = Some (can', cannot', err)"
  shows "err = first_some (map (hard_error pres pod) (filter node_known names)) \<and>
    (err = None \<longrightarrow> can' = can @ filter (passes pres pod) (filter node_known names) \<and>
       (\<forall>n. map_of cannot' n =
          (if n \<in> set (filter node_known names) \<and> \<not> passes pres pod n then Some (Reasons (refusals pres pod n))
           else map_of cannot n)))"
  using assms
proof (induction node_known pres pod names can cannot rule: predicate_handler_loop.induct)
  case (2 node_known pres pod n names can cannot)
  show ?case
  proof (cases "node_known n")
    case False
    with 2 show ?thesis by simp
  next
    case True
    with "2.prems" obtain fits reasons e where p: "Predicates pres pod n = Some (fits, reasons, e)"
      by (auto split: option.splits prod.splits)
    note v = Predicates_verdict [OF p]
    show ?thesis
    proof (cases e)
      case (Some x)
      with v(1) have "hard_error pres pod n = Some x" by simp
      with True p "2.prems" Some show ?thesis by (cases err) simp_all
    next
      case None
      with v have "hard_error pres pod n = None" "reasons = refusals pres pod n" "fits = passes pres pod n" by simp_all
      with True p "2.prems" "2.IH"(2,3) [OF _ p refl refl] None show ?thesis
        by (cases fits) (auto simp: go_map_simps)
    qed
  qed
qed simp

lemma terminated_all:
  "map_of (fold (\<lambda>n. AList.update n (Terminated e)) ns m) n = (if n \<in> set ns then Some (Terminated e) else map_of m n)"
  by (induction ns arbitrary: m) (auto simp: go_map_simps)

text \<open>C20: the filter's answer, exactly. Unless a predicate breaks off with an error on a node the informer
  knows, the nodes that pass are, in the order asked, the known candidates that the last predicate accepts and
  that no predicate refuses with a reason, and every other known candidate is reported as failed with all the
  reasons given. At the first error the request is refused: no node passes, and every candidate, known or not, is
  reported with that error.\<close>

theorem predicate_Handler_verdict:
  assumes "predicate_Handler node_known pres args = Some r" and "\<not> NeedSkip (args_Pod args)"
  shows "let pod = args_Pod args; known = filter node_known (candidate_names args)
    in case first_some (map (hard_error pres pod) known) of
         None \<Rightarrow> fr_NodeNames r = Some (filter (passes pres pod) known) \<and>
           (\<forall>n. map_of (fr_FailedNodes r) n =
              (if n \<in> set known \<and> \<not> passes pres pod n then Some (Reasons (refusals pres pod n)) else None))
       | Some e \<Rightarrow> fr_NodeNames r = Some [] \<and>
           (\<forall>n \<in> set (candidate_names args). map_of (fr_FailedNodes r) n = Some (Terminated e))"
proof -
  let ?names = "candidate_names args" and ?pod = "args_Pod args"
  from assms obtain can cannot err
    where run: "predicate_handler_loop node_known pres ?pod ?names [] [] = Some (can, cannot, err)"
    by (auto simp: predicate_Handler_def Let_def split: if_splits option.splits)
  note v = predicate_handler_loop_verdict [OF run]
  show ?thesis
  proof (cases err)
    case None
    with assms run have r: "fr_NodeNames r = Some can" "fr_FailedNodes r = cannot"
      by (auto simp: predicate_Handler_def Let_def split: if_splits)
    moreover from v None have "first_some (map (hard_error pres ?pod) (filter node_known ?names)) = None" by simp
    ultimately show ?thesis using v None by (simp add: Let_def)
  next
    case (Some e)
    with assms run have "fr_NodeNames r = Some []"
        "fr_FailedNodes r = fold (\<lambda>n. AList.update n (Terminated e)) ?names cannot"
      by (auto simp: predicate_Handler_def Let_def split: if_splits)
    moreover from v Some have "first_some (map (hard_error pres ?pod) (filter node_known ?names)) = Some e" by simp
    ultimately show ?thesis by (simp add: Let_def terminated_all)
  qed
qed

section \<open>Storage type and capacity\<close>

lemma storage_type_loop_errors:
  "storage_type_loop K b ns vs = (fits, Some e) \<Longrightarrow> \<not> fits \<and> \<not> is_PredicateError e"
  by (induction vs) (auto split: option.splits sum.splits if_splits)

lemma StorageTypePredicate_errors:
  "StorageTypePredicate K c pod n = Some (fits, Some e) \<Longrightarrow> \<not> fits \<and> \<not> is_PredicateError e"
  by (auto simp: StorageTypePredicate_def dest: storage_type_loop_errors split: if_splits option.splits)

lemma and_then_accepts: "and_then r k = Some (True, err) \<Longrightarrow> k = Some (True, err)"
  by (auto split: prod.splits option.splits bool.splits)

lemma CapacityPredicate_errors:
  assumes "CapacityPredicate R K c pod n = Some (True, err)"
  shows "err = None"
proof -
  obtain lvm mp dev where claims: "GetPodPvcsByLister K pod True = (None, lvm, mp, dev)"
    using assms by (auto simp: CapacityPredicate_def split: prod.splits option.splits)
  let ?snapshots = "case ProcessSnapshotPVC K lvm n of
      None \<Rightarrow> None
    | Some (fits, Some err) \<Rightarrow> Some (False, Some err)
    | Some (fits, None) \<Rightarrow>
        if \<not> fits then Some (False, Some (NewSnapshotError VolumeTypeLVM)) else Some (True, None)"
  let ?devices = "if length dev > 0 then and_then (AllocateDeviceVolume R K c dev n) ?snapshots else ?snapshots"
  let ?points = "if length mp > 0 then and_then (AllocateMountPointVolume R K c mp n) ?devices else ?devices"
  let ?lvm = "if length lvm > 0
      then (case AllocateLVMVolume R K c (Some pod) lvm n of None \<Rightarrow> None | Some r \<Rightarrow> and_then r ?points)
      else ?points"
  have "?lvm = Some (True, err)"
    using assms unfolding CapacityPredicate_def claims Let_def prod.case option.case
    by (cases "fst (ContainInlineVolumes pod)") (simp_all only: if_True if_False and_then_accepts)
  then have "?points = Some (True, err)"
    by (cases "length lvm > 0"; cases "AllocateLVMVolume R K c (Some pod) lvm n")
      (simp_all only: if_True if_False option.case and_then_accepts option.distinct)
  then have "?devices = Some (True, err)"
    by (cases "length mp > 0") (simp_all only: if_True if_False and_then_accepts)
  then have "?snapshots = Some (True, err)"
    by (cases "length dev > 0") (simp_all only: if_True if_False and_then_accepts)
  then show ?thesis by (auto split: option.splits prod.splits if_splits)
qed

text \<open>What the filter's two predicates make of a node together: it passes exactly when the capacity
  suffices and \<open>StorageTypePredicate\<close> meets no error. The verdict of the latter (whether the node's SPDK
  support matches the pod's volumes) does not count, since a refusal without a reason is forgotten.\<close>

theorem storage_type_refusal_forgotten:
  "(\<exists>reasons. Predicates (DefaultPredicateFuncs R K c) pod n = Some (True, reasons, None)) \<longleftrightarrow>
     (\<exists>fits. StorageTypePredicate K c pod n = Some (fits, None)) \<and>
     CapacityPredicate R K c pod n = Some (True, None)"
proof (cases "StorageTypePredicate K c pod n")
  case None
  then show ?thesis by (simp add: Predicates_def DefaultPredicateFuncs_def)
next
  case (Some r)
  obtain fits err where r: "r = (fits, err)" by (cases r)
  show ?thesis
  proof (cases err)
    case None
    with Some r show ?thesis
      by (auto simp: Predicates_def DefaultPredicateFuncs_def normalizeError_def
          dest: CapacityPredicate_errors split: option.splits if_splits)
  next
    case (Some e)
    with \<open>StorageTypePredicate K c pod n = Some r\<close> r StorageTypePredicate_errors [of K c pod n fits e] show ?thesis
      by (auto simp: Predicates_def DefaultPredicateFuncs_def normalizeError_def)
  qed
qed

definition ex_spdk_kube :: kube where
  "ex_spdk_kube = ex_kube\<lparr>sc_get := (\<lambda>_. Some \<lparr>sc_Name = ''lvm'', sc_Provisioner = ''local.csi.aliyun.com'',
       sc_Parameters = [(''volumeType'', ''LVM''), (''spdk'', ''true'')]\<rparr>),
     pvc_get := (\<lambda>_ _. Some ((ex_pvc ''p'' 5)\<lparr>pvc_Phase := ClaimPending\<rparr>))\<rparr>"

definition ex_claim_pod :: Pod where
  "ex_claim_pod = ex_pod\<lparr>pod_Volumes := [\<lparr>vol_Name = ''data'', vol_CSI = None, vol_PVC = Some ''p'',
     vol_Ephemeral = None\<rparr>]\<rparr>"

lemma spdk_mismatch_accepted:
  "nc_SupportSPDK ex_ext_node = False \<and>
   StorageTypePredicate ex_spdk_kube ex_cluster ex_claim_pod ''n'' = Some (False, None) \<and>
   CapacityPredicate ex_ranges ex_spdk_kube ex_cluster ex_claim_pod ''n'' = Some (True, None)"
  by (intro conjI) code_simp+

section \<open>Read-only snapshots\<close>

lemma DivideLVMPVCs_named:
  assumes "\<forall>pvc \<in> set pvcs. \<exists>v. GetVGNameFromPVC K pvc = Inr v \<and> v \<noteq> []"
  shows "DivideLVMPVCs K pvcs = (pvcs, [])"
proof -
  have "DivideLVMPVCs_loop K pvcs a [] = (a @ pvcs, [])" for a
    using assms by (induction pvcs arbitrary: a) auto
  then show ?thesis by (simp add: DivideLVMPVCs_def)
qed

lemma predicate_named_snapshots:
  "\<forall>pvc \<in> set pvcs. IsReadOnlySnapshotPVC K pvc = Some True \<Longrightarrow>
     predicate_named K n pvcs vgs units = Some (vgs, units, None)"
  by (induction pvcs) simp_all

lemma snapshots_refused:
  assumes "pvcs \<noteq> []" and "\<forall>pvc \<in> set pvcs. IsReadOnlySnapshotPVC K pvc = Some True"
    and "\<forall>pvc \<in> set pvcs. \<exists>v. GetVGNameFromPVC K pvc = Inr v \<and> v \<noteq> []"
  shows "\<exists>err. AllocateLVMVolume R K c (Some pod) pvcs n = Some (False, [], err)"
  using assms
  by (auto simp: AllocateLVMVolume_def ProcessLVMPVCPredicate_def DivideLVMPVCs_named predicate_named_snapshots
      Let_def split: sum.split)

text \<open>A pod whose LVM claims are all read-only snapshots of a named volume group is refused by the
  extender's capacity predicate on every node, although such claims need no space.\<close>

theorem snapshot_pod_refused:
  assumes "GetPodPvcsByLister K pod True = (None, lvm, mp, dev)" and "\<not> fst (ContainInlineVolumes pod)"
    and "lvm \<noteq> []" and "\<forall>pvc \<in> set lvm. IsReadOnlySnapshotPVC K pvc = Some True"
    and "\<forall>pvc \<in> set lvm. \<exists>v. GetVGNameFromPVC K pvc = Inr v \<and> v \<noteq> []"
  shows "\<exists>err. CapacityPredicate R K c pod n = Some (False, err)"
proof -
  from snapshots_refused [OF assms(3-5), of R c pod n] obtain err
    where "AllocateLVMVolume R K c (Some pod) lvm n = Some (False, [], err)" by blast
  with assms(1-3) show ?thesis by (cases err) (simp_all add: CapacityPredicate_def Let_def)
qed

definition ex_snapshot_kube :: kube where
  "ex_snapshot_kube = ex_kube\<lparr>
     sc_get := (\<lambda>_. Some \<lparr>sc_Name = ''lvm'', sc_Provisioner = ''local.csi.aliyun.com'',
       sc_Parameters = [(''volumeType'', ''LVM''), (''vgName'', ''g'')]\<rparr>),
     pvc_get := (\<lambda>_ _. Some ((ex_pvc ''p'' 5)\<lparr>pvc_Phase := ClaimPending, pvc_DataSource := Some (''VolumeSnapshot'', ''s'')\<rparr>)),
     snap_lister := (\<lambda>_ _. Some \<lparr>snap_Name = ''s'', snap_ClassName = Some ''ro'', snap_SourcePVC = Some ''src''\<rparr>),
     snapclass_lister := (\<lambda>_. Some \<lparr>snapclass_Parameters = [(''csi.aliyun.com/readonly'', ''true'')]\<rparr>)\<rparr>"

lemma snapshot_pod_refused_witness:
  "\<exists>err. CapacityPredicate ex_ranges ex_snapshot_kube ex_cluster ex_claim_pod ''n'' = Some (False, err)"
proof -
  let ?pvc = "(ex_pvc ''p'' 5)\<lparr>pvc_Phase := ClaimPending, pvc_DataSource := Some (''VolumeSnapshot'', ''s'')\<rparr>"
  have 1: "GetPodPvcsByLister ex_snapshot_kube ex_claim_pod True = (None, [?pvc], [], [])"
    "\<not> fst (ContainInlineVolumes ex_claim_pod)"
    "\<forall>pvc \<in> set [?pvc]. IsReadOnlySnapshotPVC ex_snapshot_kube pvc = Some True"
    by code_simp+
  have "GetVGNameFromPVC ex_snapshot_kube ?pvc = Inr ''g''" by code_simp
  then have 2: "\<forall>pvc \<in> set [?pvc]. \<exists>v. GetVGNameFromPVC ex_snapshot_kube pvc = Inr v \<and> v \<noteq> []" by simp
  from snapshot_pod_refused [OF 1(1,2) _ 1(3) 2] show ?thesis by blast
qed

definition ex_lost_kube :: kube where
  "ex_lost_kube = ex_snapshot_kube\<lparr>pvc_get := (\<lambda>_ _. None)\<rparr>"

text \<open>Two requests: one refused with a reason on the one known node, and one whose claim is lost, which is
  refused on both nodes, although the second is not known.\<close>

lemma predicate_Handler_verdict_witness:
  "\<exists>r r' e. predicate_Handler (\<lambda>n. n = ''n'') (DefaultPredicateFuncs ex_ranges ex_snapshot_kube ex_cluster)
      \<lparr>args_Pod = ex_claim_pod, args_Nodes = None, args_NodeNames = Some [''n'', ''m'']\<rparr> = Some r \<and>
    fr_NodeNames r = Some [] \<and> map_of (fr_FailedNodes r) ''m'' = None \<and>
    (\<exists>reasons. map_of (fr_FailedNodes r) ''n'' = Some (Reasons reasons)) \<and>
    predicate_Handler (\<lambda>n. n = ''n'') (DefaultPredicateFuncs ex_ranges ex_lost_kube ex_cluster)
      \<lparr>args_Pod = ex_claim_pod, args_Nodes = None, args_NodeNames = Some [''n'', ''m'']\<rparr> = Some r' \<and>
    fr_NodeNames r' = Some [] \<and> map_of (fr_FailedNodes r') ''m'' = Some (Terminated e)"
proof -
  let ?pres = "DefaultPredicateFuncs ex_ranges ex_snapshot_kube ex_cluster"
  let ?lost = "DefaultPredicateFuncs ex_ranges ex_lost_kube ex_cluster"
  let ?args = "\<lparr>args_Pod = ex_claim_pod, args_Nodes = None, args_NodeNames = Some [''n'', ''m'']\<rparr>"
  let ?known = "\<lambda>n. n = ''n''"
  have "predicate_Handler ?known ?pres ?args \<noteq> None" "predicate_Handler ?known ?lost ?args \<noteq> None" by code_simp+
  then obtain r r' where r: "predicate_Handler ?known ?pres ?args = Some r"
      and r': "predicate_Handler ?known ?lost ?args = Some r'" by blast
  have 1: "\<not> NeedSkip (args_Pod ?args)" "candidate_names ?args = [''n'', ''m'']" "args_Pod ?args = ex_claim_pod"
    "filter ?known [''n'', ''m''] = [''n'']" by code_simp+
  have 2: "hard_error ?pres ex_claim_pod ''n'' = None" "\<not> accepts (last ?pres ex_claim_pod ''n'')" 
    by code_simp+
  have "hard_error ?lost ex_claim_pod ''n'' \<noteq> None" by code_simp
  then obtain e where 3: "hard_error ?lost ex_claim_pod ''n'' = Some e" by blast
  show ?thesis
    using predicate_Handler_verdict [OF r 1(1)] predicate_Handler_verdict [OF r' 1(1)] 1(2-4) 2 3 r r'
    by (simp add: Let_def passes_def)
qed

end
