(* ===== verification/Ext_Server.thy ===== *)
theory Ext_Server
  imports Ext_Predicates
begin

text \<open>
  The scheduler extender as a state machine over its cluster cache: the informer handlers of
  \<open>pkg/scheduler/server/eventhandlers.go\<close> and the request of the CSI provisioner,
  \<open>SchedulingPVC\<close> of \<open>pkg/scheduler/server/apis/scheduling.go\<close>, with the helpers of
  \<open>pkg/scheduler/algorithm/util.go\<close>. Every handler runs under the context's lock. \<open>None\<close> is a panic.
\<close>

section \<open>Helpers: util.go\<close>

definition GetAllPodPvcs :: "kube \<Rightarrow> Pod \<Rightarrow> go_error + PersistentVolumeClaim list" where
  "GetAllPodPvcs K pod =
     (case GetPodPvcsByLister K pod False of
        (Some err, _) \<Rightarrow> Inl err
      | (None, pvc1, pvc2, pvc3) \<Rightarrow> Inr (pvc1 @ pvc2 @ pvc3))"

text \<open>\<open>pod_get\<close> is the pod informer. The name was stored by \<open>PutPod\<close> as namespace, slash, name.\<close>

definition GetPodUnboundPvcs ::
  "kube \<Rightarrow> (string \<Rightarrow> string \<Rightarrow> Pod option) \<Rightarrow> ClusterNodeCache \<Rightarrow> PersistentVolumeClaim \<Rightarrow>
     (go_error option \<times> PersistentVolumeClaim list \<times> PersistentVolumeClaim list \<times> PersistentVolumeClaim list) option" where
  "GetPodUnboundPvcs K pod_get c pvc =
     (let pvcName = PVCName pvc;
          podName = str_at (PvcPod (PvcMapping c)) pvcName
      in if podName = []
         then Some (Some (Errorf ''pod associated with pvc %s is not yet in PvcPod mapping'' [S pvcName]), [], [], [])
         else (case go_Split (CHR ''/'') podName of
                 ns # name # _ \<Rightarrow>
                   (case pod_get ns name of
                      None \<Rightarrow> Some (Some (NotFound name), [], [], [])
                    | Some pod \<Rightarrow> Some (GetPodPvcsByLister K pod True))
               | _ \<Rightarrow> None))"

definition ExtractPVCKey :: "PersistentVolume \<Rightarrow> go_error + string" where
  "ExtractPVCKey pv =
     (case pv_ClaimRef pv of
        None \<Rightarrow> Inl (Errorf ''nil ClaimRef for pv %s'' [S (pv_Name pv)])
      | Some (ns, name) \<Rightarrow> Inr (GetNameKey ns name))"

text \<open>\<open>utils.PVCName\<close> of a volume dereferences its \<open>ClaimRef\<close>.\<close>

definition pv_PVCName :: "PersistentVolume \<Rightarrow> string option" where
  "pv_PVCName pv = map_option (\<lambda>(ns, name). GetNameKey ns name) (pv_ClaimRef pv)"

definition ConvertAUFromPV :: "kube \<Rightarrow> PersistentVolume \<Rightarrow> AllocatedUnit option" where
  "ConvertAUFromPV K pv =
     map_option (\<lambda>pvcName.
         \<lparr>au_NodeName = snd (IsLocalPV pv), au_VolumeType = snd (IsOpenLocalPV pv), au_Requested = GetPVSize pv,
          au_Allocated = GetPVSize pv, au_VgName = GetVGNameFromCsiPV K pv,
          au_Device = GetDeviceNameFromCsiPV K pv, au_MountPoint = GetMountPointFromCsiPV pv,
          au_PVCName = pvcName\<rparr>) (pv_PVCName pv)"

section \<open>Nodes\<close>

definition onNodeLocalStorageAdd ::
  "kube \<Rightarrow> node_ranges \<Rightarrow> ClusterNodeCache \<Rightarrow> NodeLocalStorage obj \<Rightarrow> ClusterNodeCache option" where
  "onNodeLocalStorageAdd K ords c ob =
     (case ob of
        OtherObj \<Rightarrow> Some c
      | Obj local \<Rightarrow>
          (case GetNodeCache c (nls_Name local) of
             None \<Rightarrow> Some (AddNodeCache c local)
           | Some _ \<Rightarrow> UpdateNodeCache K ords c local))"

definition onNodeLocalStorageUpdate ::
  "kube \<Rightarrow> node_ranges \<Rightarrow> ClusterNodeCache \<Rightarrow> NodeLocalStorage obj \<Rightarrow> NodeLocalStorage obj \<Rightarrow>
     ClusterNodeCache option" where
  "onNodeLocalStorageUpdate K ords c oldObj newObj =
     (case (newObj, oldObj) of
        (Obj local, Obj old) \<Rightarrow>
          (case GetNodeCache c (nls_Name local) of
             None \<Rightarrow> Some (AddNodeCache c local)
           | Some _ \<Rightarrow>
               if HashWithoutState K (Some old) \<noteq> HashWithoutState K (Some local)
               then UpdateNodeCache K ords c local else Some c)
      | _ \<Rightarrow> Some c)"

section \<open>Volumes\<close>

text \<open>A deletion is delivered as the object or as a tombstone around the last known one.\<close>

datatype 'a deleted = Deleted 'a | DeletedFinalStateUnknown "'a option" | OtherDeleted

definition deleted_object :: "'a deleted \<Rightarrow> 'a option" where
  "deleted_object ob = (case ob of Deleted t \<Rightarrow> Some t | DeletedFinalStateUnknown t \<Rightarrow> t | OtherDeleted \<Rightarrow> None)"

text \<open>The switches over the volume's type: the node and whether the handler goes on.\<close>

definition add_pv :: "kube \<Rightarrow> VolumeType \<Rightarrow> PersistentVolume \<Rightarrow> NodeCache \<Rightarrow> NodeCache \<times> bool" where
  "add_pv K pvType pv nc =
     (if pvType = VolumeTypeLVM then (nc_AddLVM K nc pv, True)
      else if pvType = VolumeTypeMountPoint then (nc_AddLocalMountPoint nc pv, True)
      else if pvType = VolumeTypeDevice
      then (case nc_AddLocalDevice K nc pv of (nc, err) \<Rightarrow> (nc, err = None))
      else (nc, False))"

definition remove_pv :: "kube \<Rightarrow> VolumeType \<Rightarrow> PersistentVolume \<Rightarrow> NodeCache \<Rightarrow> NodeCache \<times> bool" where
  "remove_pv K pvType pv nc =
     (if pvType = VolumeTypeLVM then (nc_RemoveLVM K nc pv, True)
      else if pvType = VolumeTypeMountPoint then (nc_RemoveLocalMountPoint nc pv, True)
      else if pvType = VolumeTypeDevice then (nc_RemoveLocalDevice K nc pv, True)
      else (nc, False))"

definition update_pv ::
  "kube \<Rightarrow> VolumeType \<Rightarrow> PersistentVolume \<Rightarrow> PersistentVolume \<Rightarrow> NodeCache \<Rightarrow> NodeCache \<times> bool" where
  "update_pv K pvType old pv nc =
     (if pvType = VolumeTypeLVM then (nc_UpdateLVM K nc old pv, True)
      else if pvType = VolumeTypeMountPoint then (nc_AddLocalMountPoint nc pv, True)
      else if pvType = VolumeTypeDevice
      then (case nc_AddLocalDevice K nc pv of (nc, err) \<Rightarrow> (nc, err = None))
      else (nc, False))"

definition onPVAdd :: "kube \<Rightarrow> ClusterNodeCache \<Rightarrow> PersistentVolume obj \<Rightarrow> ClusterNodeCache" where
  "onPVAdd K c ob =
     (case ob of
        OtherObj \<Rightarrow> c
      | Obj pv \<Rightarrow>
          (case IsOpenLocalPV pv of
             (isOpenLocalPV, pvType) \<Rightarrow>
               if \<not> isOpenLocalPV then c
               else if pv_Phase pv = VolumePending then c
               else if IsReadOnlyPV pv then c
               else
                 (let node = NodeNameFromPV pv
                  in if node = [] then c
                     else
                       (let c = (case GetNodeCache c node of
                                   None \<Rightarrow> SetNodeCache c (NewNodeCache node) | Some _ \<Rightarrow> c)
                        in case GetNodeCache c node of
                             None \<Rightarrow> c
                           | Some nc \<Rightarrow>
                               (let (nc, ok) = add_pv K pvType pv nc;
                                    c = put_node node nc c
                                in if \<not> ok then c
                                   else (case ExtractPVCKey pv of
                                           Inl _ \<Rightarrow> c
                                         | Inr pvcKey \<Rightarrow>
                                             (let c = (case ConvertAUFromPV K pv of
                                                         None \<Rightarrow> c
                                                       | Some au \<Rightarrow> c\<lparr>BindingInfo := AList.update pvcKey au (BindingInfo c)\<rparr>)
                                              in SetNodeCache c nc)))))))"

definition onPVDelete :: "kube \<Rightarrow> ClusterNodeCache \<Rightarrow> PersistentVolume deleted \<Rightarrow> ClusterNodeCache option" where
  "onPVDelete K c ob =
     (case deleted_object ob of
        None \<Rightarrow> Some c
      | Some pv \<Rightarrow>
          (case IsOpenLocalPV pv of
             (isOpenLocalPV, pvType) \<Rightarrow>
               if \<not> isOpenLocalPV then Some c
               else if IsReadOnlyPV pv then Some c
               else
                 (let node = NodeNameFromPV pv
                  in if node = [] then Some c
                     else (case GetNodeCache c node of
                             None \<Rightarrow> Some c
                           | Some nc \<Rightarrow>
                               (let (nc, ok) = remove_pv K pvType pv nc;
                                    c = put_node node nc c
                                in if \<not> ok then Some c
                                   else (case pv_PVCName pv of
                                           None \<Rightarrow> None
                                         | Some pvcName \<Rightarrow>
                                             Some (SetNodeCache
                                               (if length pvcName > 0
                                                then c\<lparr>BindingInfo := AList.delete pvcName (BindingInfo c)\<rparr>
                                                else c) nc)))))))"

definition onPVUpdate ::
  "kube \<Rightarrow> ClusterNodeCache \<Rightarrow> PersistentVolume \<Rightarrow> PersistentVolume obj \<Rightarrow> ClusterNodeCache" where
  "onPVUpdate K c old ob =
     (case ob of
        OtherObj \<Rightarrow> c
      | Obj pv \<Rightarrow>
          if pv_Phase pv = VolumePending then c
          else
            (let node = NodeNameFromPV pv
             in if node = [] then c
                else (case GetNodeCache c node of
                        None \<Rightarrow> c
                      | Some nc \<Rightarrow>
                          (case IsOpenLocalPV pv of
                             (isOpenLocalPV, pvType) \<Rightarrow>
                               if \<not> isOpenLocalPV then c
                               else if IsReadOnlyPV pv then c
                               else
                                 (let (nc, ok) = update_pv K pvType old pv nc;
                                      c = put_node node nc c
                                  in if \<not> ok then c else SetNodeCache c nc)))))"

section \<open>Pods\<close>

text \<open>A handler takes the node's cache from the map, or makes one that the map does not hold yet: what
  it changes before an error stays in the first case only.\<close>

definition node_or_new :: "ClusterNodeCache \<Rightarrow> string \<Rightarrow> NodeCache" where
  "node_or_new c nodeName =
     (case GetNodeCache c nodeName of Some nc \<Rightarrow> nc | None \<Rightarrow> NewNodeCache nodeName)"

definition keep_node :: "string \<Rightarrow> NodeCache \<Rightarrow> ClusterNodeCache \<Rightarrow> ClusterNodeCache" where
  "keep_node nodeName nc c = (if GetNodeCache c nodeName \<noteq> None then put_node nodeName nc c else c)"

definition add_inline_volumes :: "kube \<Rightarrow> ClusterNodeCache \<Rightarrow> Pod \<Rightarrow> string \<Rightarrow> ClusterNodeCache" where
  "add_inline_volumes K c pod nodeName =
     (case nc_AddPodInlineVolumeInfo K (node_or_new c nodeName) pod of
        (nc, Some err) \<Rightarrow> keep_node nodeName nc c
      | (nc, None) \<Rightarrow> SetNodeCache (keep_node nodeName nc c) nc)"

definition onPodAdd :: "kube \<Rightarrow> ClusterNodeCache \<Rightarrow> Pod obj \<Rightarrow> ClusterNodeCache" where
  "onPodAdd K c ob =
     (case ob of
        OtherObj \<Rightarrow> c
      | Obj pod \<Rightarrow>
          (case GetAllPodPvcs K pod of
             Inl err \<Rightarrow> c
           | Inr pvcs \<Rightarrow>
               (let podName = GetNameKey (pod_Namespace pod) (pod_Name pod);
                    (containInlineVolumes, nodeName) = ContainInlineVolumes pod
                in if length pvcs \<le> 0 \<and> \<not> containInlineVolumes then c
                   else add_inline_volumes K (c\<lparr>PvcMapping := PutPod (PvcMapping c) podName pvcs\<rparr>) pod nodeName)))"

definition onPodDelete :: "kube \<Rightarrow> ClusterNodeCache \<Rightarrow> Pod deleted \<Rightarrow> ClusterNodeCache" where
  "onPodDelete K c ob =
     (case deleted_object ob of
        None \<Rightarrow> c
      | Some pod \<Rightarrow>
          (case GetAllPodPvcs K pod of
             Inl err \<Rightarrow> c
           | Inr pvcs \<Rightarrow>
               (let podName = GetNameKey (pod_Namespace pod) (pod_Name pod);
                    (containInlineVolumes, nodeName) = ContainInlineVolumes pod
                in if length pvcs \<le> 0 \<and> \<not> containInlineVolumes then c
                   else
                     (let c = c\<lparr>PvcMapping := mapping_DeletePod (PvcMapping c) podName pvcs\<rparr>;
                          nc = nc_DeletePodInlineVolumeInfo (node_or_new c nodeName) pod
                      in SetNodeCache (keep_node nodeName nc c) nc))))"

text \<open>
  \<open>onPodUpdate\<close> returns as soon as one of the pod's claims is not pending. Otherwise it asks the API
  server, in goroutines, to drop the selected node of every claim that waited too long: the claims it
  does so for are returned. \<open>busy\<close> says whether the limit of routines was reached when a claim's turn
  came, which ends the handler.
\<close>

fun reschedule_loop ::
  "(PersistentVolumeClaim \<Rightarrow> bool) \<Rightarrow> PersistentVolumeClaim list \<Rightarrow> PersistentVolumeClaim list \<times> bool" where
  "reschedule_loop busy [] = ([], True)"
| "reschedule_loop busy (pvc # pvcs) =
     (if \<not> PvcContainsSelectedNode pvc then reschedule_loop busy pvcs
      else if busy pvc then ([], False)
      else (case reschedule_loop busy pvcs of
              (calls, ok) \<Rightarrow>
                (pvc\<lparr>pvc_Annotations := AList.delete AnnoSelectedNode (pvc_Annotations pvc)\<rparr> # calls, ok)))"

definition onPodUpdate ::
  "kube \<Rightarrow> int \<Rightarrow> (PersistentVolumeClaim \<Rightarrow> bool) \<Rightarrow> ClusterNodeCache \<Rightarrow> Pod obj \<Rightarrow>
     ClusterNodeCache \<times> PersistentVolumeClaim list" where
  "onPodUpdate K now busy c ob =
     (case ob of
        OtherObj \<Rightarrow> (c, [])
      | Obj pod \<Rightarrow>
          (case GetAllPodPvcs K pod of
             Inl err \<Rightarrow> (c, [])
           | Inr pvcs \<Rightarrow>
               (let podName = GetNameKey (pod_Namespace pod) (pod_Name pod);
                    (containInlineVolumes, nodeName) = ContainInlineVolumes pod
                in if length pvcs \<le> 0 \<and> \<not> containInlineVolumes then (c, [])
                   else
                     (let c = c\<lparr>PvcMapping := PutPod (PvcMapping c) podName pvcs\<rparr>
                      in if list_ex (\<lambda>p. pvc_Phase p \<noteq> ClaimPending) pvcs then (c, [])
                         else
                           (case (if PodPvcAllowReschedule pvcs now \<and> pod_NodeName pod = []
                                  then reschedule_loop busy pvcs else ([], True)) of
                              (calls, False) \<Rightarrow> (c, calls)
                            | (calls, True) \<Rightarrow> (add_inline_volumes K c pod nodeName, calls))))))"

section \<open>Claims\<close>

definition onPvcAdd :: "ClusterNodeCache \<Rightarrow> PersistentVolumeClaim obj \<Rightarrow> ClusterNodeCache" where
  "onPvcAdd c ob = (case ob of OtherObj \<Rightarrow> c | Obj pvc \<Rightarrow> c\<lparr>PvcMapping := PutPvc (PvcMapping c) pvc\<rparr>)"

definition onPvcUpdate :: "ClusterNodeCache \<Rightarrow> PersistentVolumeClaim obj \<Rightarrow> ClusterNodeCache" where
  "onPvcUpdate c ob = (case ob of OtherObj \<Rightarrow> c | Obj pvc \<Rightarrow> c\<lparr>PvcMapping := PutPvc (PvcMapping c) pvc\<rparr>)"

definition onPvcDelete :: "ClusterNodeCache \<Rightarrow> PersistentVolumeClaim deleted \<Rightarrow> ClusterNodeCache" where
  "onPvcDelete c ob =
     (case deleted_object ob of
        None \<Rightarrow> c
      | Some pvc \<Rightarrow> c\<lparr>PvcMapping := DeletePvc (PvcMapping c) pvc\<rparr>)"

section \<open>The provisioner's request\<close>

record BindingResult =
  br_Node :: string
  br_Disk :: string
  br_VgName :: string
  br_Device :: string
  br_VolumeType :: string
  br_PersistentVolumeClaim :: string

definition unitsToBinding :: "PersistentVolumeClaim list \<Rightarrow> AllocatedUnit list \<Rightarrow> BindingResult option" where
  "unitsToBinding pvcs units =
     (case (pvcs, units) of
        (pvc0 # _, [unit0]) \<Rightarrow>
          Some \<lparr>br_Node = au_NodeName unit0, br_Disk = au_MountPoint unit0, br_VgName = au_VgName unit0,
                br_Device = au_Device unit0, br_VolumeType = au_VolumeType unit0,
                br_PersistentVolumeClaim = PVCName pvc0\<rparr>
      | _ \<Rightarrow> None)"

text \<open>The result \<open>(None, None)\<close> is \<open>nil, nil\<close>: no binding and no error.\<close>

definition SchedulingPVC ::
  "algo_ranges \<Rightarrow> (float64 \<Rightarrow> int64) \<Rightarrow> kube \<Rightarrow> (string \<Rightarrow> string \<Rightarrow> Pod option) \<Rightarrow> StrategyType \<Rightarrow>
     ClusterNodeCache \<Rightarrow> PersistentVolumeClaim \<Rightarrow> string option \<Rightarrow>
     (ClusterNodeCache \<times> BindingResult option \<times> go_error option) option" where
  "SchedulingPVC R cv K pod_get strategy c pvc node =
     (let pvcName = PVCName pvc;
          fail = (\<lambda>err. Some (c, None, Some (Errorf ''failed to allocate local storage for pvc %s: %s''
                                               [S pvcName, E err])))
      in case node of
           None \<Rightarrow> None
         | Some nodeName \<Rightarrow>
             (case map_of (BindingInfo c) pvcName of
                Some unit \<Rightarrow> Some (c, unitsToBinding [pvc] [unit], None)
              | None \<Rightarrow>
                  if \<not> IsPodPvcReady (PvcMapping c) pvc
                  then Some (c, None, Some (Errorf
                         ''pvc %s is not eligible for provisioning as related pvcs are still pending'' [S pvcName]))
                  else
                    (case GetPodUnboundPvcs K pod_get c pvc of
                       None \<Rightarrow> None
                     | Some (Some err, _) \<Rightarrow> Some (c, None, Some err)
                     | Some (None, lvmPVCs, mpPVCs, devicePVCs) \<Rightarrow>
                         if length lvmPVCs + length mpPVCs + length devicePVCs = 0
                         then Some (c, None, Some (Errorf
                                ''unexpected schedulering request for all pvcs are bounded'' []))
                         else
                           (case ScoreLVMVolume R cv K strategy c None lvmPVCs nodeName of
                              None \<Rightarrow> None
                            | Some (_, _, Some err) \<Rightarrow> fail err
                            | Some (_, lvmUnits, None) \<Rightarrow>
                                (case ScoreMountPointVolume R cv K c mpPVCs nodeName of
                                   (_, _, Some err) \<Rightarrow> fail err
                                 | (_, mpUnits, None) \<Rightarrow>
                                     (case ScoreDeviceVolume R cv K c devicePVCs nodeName of
                                        (_, _, Some err) \<Rightarrow> fail err
                                      | (_, deviceUnits, None) \<Rightarrow>
                                          (let allocatedUnits = lvmUnits @ mpUnits @ deviceUnits
                                           in if length allocatedUnits \<le> 0 \<or>
                                                 length allocatedUnits \<noteq>
                                                   length lvmPVCs + length mpPVCs + length devicePVCs
                                              then Some (c, None, None)
                                              else
                                                (case Assume c allocatedUnits of
                                                   (c, Some err) \<Rightarrow>
                                                     Some (c, None, Some (Errorf
                                                       ''failed to assume local storage for pvc %s: %s''
                                                       [S pvcName, E err]))
                                                 | (c, None) \<Rightarrow>
                                                     (let c = fold (\<lambda>unit c. c\<lparr>BindingInfo :=
                                                                AList.update (au_PVCName unit) unit (BindingInfo c)\<rparr>)
                                                              allocatedUnits c;
                                                          targetAllocateUnits =
                                                            filter (\<lambda>unit. au_PVCName unit = pvcName) allocatedUnits
                                                      in Some (c, unitsToBinding [pvc] targetAllocateUnits, None))))))))))"

end
