(* ===== verification/Ext_Facts.thy ===== *)
theory Ext_Facts
  imports Ext_Choice Ext_Server
begin

text \<open>
  The extender's cache over time: assumed units never over-commit a volume group, a volume that comes
  and goes leaves no trace, inline volumes are charged again by every node update, and which claims make
  a pod ready.
\<close>

section \<open>Assuming units\<close>

definition cluster_within :: "ClusterNodeCache \<Rightarrow> bool" where
  "cluster_within c \<longleftrightarrow> (\<forall>n nc. map_of (Nodes c) n = Some nc \<longrightarrow> nc_NodeName nc = n \<and> vgs_within (nc_VGs nc) \<and>
     (\<forall>v vg. map_of (nc_VGs nc) v = Some vg \<longrightarrow> sint (sr_Capacity vg) < 2 ^ 62))"

definition small_unit :: "AllocatedUnit \<Rightarrow> bool" where
  "small_unit u \<longleftrightarrow> 0 \<le>s au_Requested u \<and> sint (au_Requested u) < 2 ^ 62"

lemma assume_guard:
  assumes "sr_within vg" and "sint (sr_Capacity vg) < 2 ^ 62" and "small_unit u"
    and "\<not> sr_Capacity vg <s sr_Requested vg + au_Requested u"
  shows "0 \<le>s sr_Requested vg + au_Requested u \<and> sr_Requested vg + au_Requested u \<le>s sr_Capacity vg"
proof -
  have "sint (sr_Requested vg) + sint (au_Requested u) < 2 ^ 63"
    using assms(1-3) by (simp add: sr_within_def small_unit_def word_sle_eq)
  then have "sint (sr_Requested vg + au_Requested u) = sint (sr_Requested vg) + sint (au_Requested u)"
    using assms(1,3) by (intro sint64_add_nonneg) (simp_all add: sr_within_def small_unit_def)
  with assms show ?thesis by (simp add: sr_within_def small_unit_def word_sle_eq word_sless_alt)
qed

lemma assume_unit_within:
  assumes "assume_unit u nc = (nc', err)" and "small_unit u" and "vgs_within (nc_VGs nc)"
    and "\<forall>v vg. map_of (nc_VGs nc) v = Some vg \<longrightarrow> sint (sr_Capacity vg) < 2 ^ 62"
  shows "nc_NodeName nc' = nc_NodeName nc \<and> vgs_within (nc_VGs nc') \<and>
    (\<forall>v vg. map_of (nc_VGs nc') v = Some vg \<longrightarrow> sint (sr_Capacity vg) < 2 ^ 62)"
proof (cases "au_VolumeType u = VolumeTypeLVM \<and> nc' \<noteq> nc")
  case True
  with assms(1) obtain vg where vg: "map_of (nc_VGs nc) (au_VgName u) = Some vg"
      "\<not> sr_Capacity vg <s sr_Requested vg + au_Requested u"
      "nc' = nc\<lparr>nc_AllocatedNum := nc_AllocatedNum nc + 1,
                   nc_PVCRecordsByExtend := AList.update (au_PVCName u) u (nc_PVCRecordsByExtend nc),
                   nc_VGs := AList.update (sr_Name vg)
                     \<lparr>sr_Name = sr_Name vg, sr_Capacity = sr_Capacity vg,
                      sr_Requested = sr_Requested vg + au_Requested u\<rparr> (nc_VGs nc)\<rparr>"
    by (auto simp: assume_unit_def assumeLVMAllocatedUnit_def Let_def split: option.splits if_splits)
  have "sr_within vg" "sr_Name vg = au_VgName u" using assms(3) vg(1) by (simp_all add: vgs_within_def)
  moreover from assume_guard [OF this(1) _ assms(2) vg(2)] assms(4) vg(1)
  have "0 \<le>s sr_Requested vg + au_Requested u \<and> sr_Requested vg + au_Requested u \<le>s sr_Capacity vg" by blast
  ultimately show ?thesis
    using assms(3,4) vg by (auto simp: vgs_within_def sr_within_def go_map_simps split: if_splits)
next
  case False
  have "nc_NodeName nc' = nc_NodeName nc \<and> nc_VGs nc' = nc_VGs nc"
    using assms(1) False
    by (auto simp: assume_unit_def assumeDeviceAllocatedUnit_def assumeMountPointAllocatedUnit_def Let_def
        split: if_splits)
  with assms show ?thesis by simp
qed

lemma SetNodeCache_same: "map_of (Nodes c) (nc_NodeName nc) = Some nc \<Longrightarrow>
    map_of (Nodes (SetNodeCache c nc)) = map_of (Nodes c)"
  by (auto simp: SetNodeCache_def go_map_simps fun_eq_iff)

lemma Assume_loop_within:
  assumes "Assume_loop c units err = (c', err')" and "cluster_within c" and "\<forall>u \<in> set units. small_unit u"
  shows "cluster_within c'"
  using assms
proof (induction c units err rule: Assume_loop.induct)
  case (2 c u units err)
  show ?case
  proof (cases "GetNodeCache c (au_NodeName u)")
    case None
    with 2 show ?thesis by simp
  next
    case (Some nc)
    obtain nc' e where run: "assume_unit u nc = (nc', e)" by (cases "assume_unit u nc")
    define c1 where "c1 = put_node (au_NodeName u) nc' c"
    define c2 where "c2 = (if e = None then SetNodeCache c1 nc' else c1)"
    from Some "2.prems"(2) have nc: "nc_NodeName nc = au_NodeName u" "vgs_within (nc_VGs nc)"
        "\<forall>v vg. map_of (nc_VGs nc) v = Some vg \<longrightarrow> sint (sr_Capacity vg) < 2 ^ 62"
      by (simp_all add: GetNodeCache_def cluster_within_def)
    have "small_unit u" using "2.prems"(3) by simp
    note w = assume_unit_within [OF run this nc(2,3)]
    have "map_of (Nodes c2) = map_of (Nodes c1)"
      using SetNodeCache_same [of c1 nc'] w nc(1) by (simp add: c2_def c1_def go_map_simps)
    then have "cluster_within c2"
      using "2.prems"(2) w nc(1) by (simp add: cluster_within_def c1_def go_map_simps)
    moreover have "Assume_loop c2 units e = (c', err')"
      using "2.prems"(1) Some run by (cases e) (simp_all add: Let_def c1_def c2_def)
    ultimately show ?thesis
      using "2.IH" [OF Some run [symmetric] refl refl refl, folded c1_def] "2.prems"(3) by (simp add: c2_def)
  qed
qed simp

text \<open>C17: assuming the units of a decision never over-commits a volume group, on any branch.\<close>

theorem Assume_within_capacity:
  assumes "Assume c units = (c', err)" and "cluster_within c" and "\<forall>u \<in> set units. small_unit u"
  shows "cluster_within c'"
  using Assume_loop_within [OF assms(1) [unfolded Assume_def] assms(2,3)] .

lemma cluster_within_ex: "cluster_within ex_cluster"
proof -
  have "map_of (Nodes ex_cluster) n = Some nc \<Longrightarrow> n = ''n'' \<and> nc = ex_ext_node" for n nc
    by (auto simp: ex_cluster_def NewClusterNodeCache_def split: if_splits)
  moreover have "\<forall>(v, vg) \<in> set (nc_VGs ex_ext_node). sint (sr_Capacity vg) < 2 ^ 62" "nc_NodeName ex_ext_node = ''n''"
    by code_simp+
  ultimately show ?thesis
    using vgs_within_ex_ext_node by (fastforce simp: cluster_within_def dest: map_of_SomeD)
qed

lemma Assume_within_capacity_witness:
  "\<exists>c'. Assume ex_cluster [lvm_unit ''n'' 5 ''g'' ''ns/p'', lvm_unit ''n'' 5 ''g'' ''ns/q''] =
       (c', Some (Errorf ''VG %s resource is not enough, requested = %d, actual left = %d'' [S ''g'', D 5, D 3])) \<and>
     cluster_within c'"
proof -
  have "snd (Assume ex_cluster [lvm_unit ''n'' 5 ''g'' ''ns/p'', lvm_unit ''n'' 5 ''g'' ''ns/q'']) =
      Some (Errorf ''VG %s resource is not enough, requested = %d, actual left = %d'' [S ''g'', D 5, D 3])"
    by code_simp
  then obtain c' where run: "Assume ex_cluster [lvm_unit ''n'' 5 ''g'' ''ns/p'', lvm_unit ''n'' 5 ''g'' ''ns/q''] =
      (c', Some (Errorf ''VG %s resource is not enough, requested = %d, actual left = %d'' [S ''g'', D 5, D 3]))"
    by (metis prod.collapse)
  have "\<forall>u \<in> set [lvm_unit ''n'' 5 ''g'' ''ns/p'', lvm_unit ''n'' 5 ''g'' ''ns/q'']. small_unit u" by code_simp
  from Assume_within_capacity [OF run cluster_within_ex this] run show ?thesis by blast
qed

section \<open>Node updates and inline volumes\<close>

text \<open>What the unrecorded inline volumes of a node ask of a volume group.\<close>

definition unrecorded :: "string \<Rightarrow> InlineVolumeInfo list \<Rightarrow> int64" where
  "unrecorded v volumes =
     (\<Sum>i \<leftarrow> volumes. if \<not> ivi_Recorded i \<and> ivi_VgName i = v then ivi_VolumeSize i else 0)"

definition all_unrecorded :: "string \<Rightarrow> NodeCache \<Rightarrow> int64" where
  "all_unrecorded v nc = map_total (unrecorded v) (nc_PodInlineVolumeInfo nc)"

abbreviation nc_requested :: "NodeCache \<Rightarrow> string \<Rightarrow> int64" where
  "nc_requested nc v \<equiv> sr_Requested (shared_at (nc_VGs nc) v)"

lemma shared_at_update: "shared_at (AList.update k x m) v = (if v = k then x else shared_at m v)"
  by (simp add: shared_at_def go_map_simps)

lemma shared_at_delete: "v \<noteq> k \<Longrightarrow> shared_at (AList.delete k m) v = shared_at m v"
  by (simp add: shared_at_def go_map_simps)

lemma charge_inline_volumes_requested:
  assumes "range_ok (over_Pods ords)" and "wf_map (nc_PodInlineVolumeInfo nc)"
  shows "nc_requested (charge_inline_volumes ords nc) v = nc_requested nc v + all_unrecorded v nc"
    and "nc_PodInlineVolumeInfo (charge_inline_volumes ords nc) = nc_PodInlineVolumeInfo nc"
proof -
  have one: "nc_requested (fold charge_inline volumes nc) v = nc_requested nc v + unrecorded v volumes"
    "nc_PodInlineVolumeInfo (fold charge_inline volumes nc) = nc_PodInlineVolumeInfo nc" for volumes nc
    by (induction volumes arbitrary: nc) (auto simp: charge_inline_def unrecorded_def shared_at_update Let_def)
  have all: "nc_requested (fold (\<lambda>(_, volumes). fold charge_inline volumes) m nc) v =
      nc_requested nc v + map_total (unrecorded v) m"
    "nc_PodInlineVolumeInfo (fold (\<lambda>(_, volumes). fold charge_inline volumes) m nc) = nc_PodInlineVolumeInfo nc"
    for m :: "InlineVolumeInfo list gomap" and nc
    by (induction m arbitrary: nc) (auto simp: one)
  have "mset (reorder (over_Pods ords) m) = mset m" if "wf_map m" for m :: "InlineVolumeInfo list gomap"
  proof -
    have "mset (reorder (over_Pods ords) m) = image_mset (\<lambda>k. (k, the (map_of m k))) (mset (map fst m))"
      using assms(1) by (simp add: reorder_def range_ok_def)
    also have "\<dots> = mset (map (\<lambda>p. (fst p, the (map_of m (fst p)))) m)"
      by (simp add: image_mset.compositionality comp_def)
    also have "map (\<lambda>p. (fst p, the (map_of m (fst p)))) m = m"
      using that by (intro map_idI) auto
    finally show ?thesis .
  qed
  then have "map_total (unrecorded v) (reorder (over_Pods ords) (nc_PodInlineVolumeInfo nc)) = all_unrecorded v nc"
    using assms(2) by (simp add: all_unrecorded_def map_total_def flip: sum_mset_sum_list)
  with all show "nc_requested (charge_inline_volumes ords nc) v = nc_requested nc v + all_unrecorded v nc"
    and "nc_PodInlineVolumeInfo (charge_inline_volumes ords nc) = nc_PodInlineVolumeInfo nc"
    by (simp_all add: charge_inline_volumes_def)
qed

text \<open>The volume groups a node update keeps.\<close>

lemma update_VGs_keeps:
  assumes "v \<in> set (fsi_VolumeGroups (nls_FilteredStorageInfo (nls_Status nls)))"
    and "range_ok (over_VGs ords)" and "map_of (nc_VGs nc) v = Some vg" and "sr_Name vg = v"
  shows "nc_requested (update_VGs K ords nls nc) v = nc_requested nc v"
    and "nc_PodInlineVolumeInfo (update_VGs K ords nls nc) = nc_PodInlineVolumeInfo nc"
proof -
  let ?cached = "map (\<lambda>(_, vg). sr_Name vg) (reorder (over_VGs ords) (nc_VGs nc))"
  let ?new = "fsi_VolumeGroups (nls_FilteredStorageInfo (nls_Status nls))"
  let ?add = "\<lambda>vg nc. nc\<lparr>nc_VGs := AList.update vg \<lparr>sr_Name = vg, sr_Capacity = nvg_Allocatable (vg_report nls vg),
      sr_Requested = GetVGRequested K (nc_LocalPVs nc) vg\<rparr> (nc_VGs nc)\<rparr>"
  let ?keep = "\<lambda>vg nc. nc\<lparr>nc_VGs := AList.update vg
      ((shared_at (nc_VGs nc) vg)\<lparr>sr_Capacity := nvg_Allocatable (vg_report nls vg)\<rparr>) (nc_VGs nc)\<rparr>"
  let ?del = "\<lambda>vg nc. nc\<lparr>nc_VGs := AList.delete vg (nc_VGs nc)\<rparr>"
  have "map_of (reorder (over_VGs ords) (nc_VGs nc)) v = Some vg" using assms(2,3) by simp
  then have "(v, vg) \<in> set (reorder (over_VGs ords) (nc_VGs nc))" by (rule map_of_SomeD)
  then have cached: "v \<in> set ?cached" using assms(4) by force
  have add: "v \<notin> set ks \<Longrightarrow> nc_requested (fold ?add ks m) v = nc_requested m v" for ks m
    by (induction ks arbitrary: m) (auto simp: shared_at_update)
  have keep: "nc_requested (fold ?keep ks m) v = nc_requested m v" for ks m
    by (induction ks arbitrary: m) (auto simp: shared_at_update)
  have del: "v \<notin> set ks \<Longrightarrow> nc_requested (fold ?del ks m) v = nc_requested m v" for ks m
    by (induction ks arbitrary: m) (auto simp: shared_at_delete)
  have pods: "nc_PodInlineVolumeInfo (fold ?add ks m) = nc_PodInlineVolumeInfo m"
    "nc_PodInlineVolumeInfo (fold ?keep ks m) = nc_PodInlineVolumeInfo m"
    "nc_PodInlineVolumeInfo (fold ?del ks m) = nc_PodInlineVolumeInfo m" for ks m
    by (induction ks arbitrary: m) simp_all
  show "nc_requested (update_VGs K ords nls nc) v = nc_requested nc v"
    using assms(1) cached by (simp add: update_VGs_def GetAddedAndRemovedItems_eq Let_def add keep del)
  show "nc_PodInlineVolumeInfo (update_VGs K ords nls nc) = nc_PodInlineVolumeInfo nc"
    by (simp add: update_VGs_def GetAddedAndRemovedItems_eq Let_def pods)
qed

text \<open>Devices and mount points leave the rest of the node alone.\<close>

lemma fold_keeps: "(\<And>x m. f (g x m) = f m) \<Longrightarrow> f (fold g xs m) = f m"
  by (induction xs arbitrary: m) simp_all

lemma add_devices_keeps:
  "add_devices ords nls devices nc = Some nc' \<Longrightarrow> nc_VGs nc' = nc_VGs nc \<and> nc_PodInlineVolumeInfo nc' = nc_PodInlineVolumeInfo nc \<and>
     nc_LocalPVs nc' = nc_LocalPVs nc \<and> nc_NodeName nc' = nc_NodeName nc"
  by (induction ords nls devices nc rule: add_devices.induct) (auto split: option.splits)

lemma add_mount_points_keeps:
  "add_mount_points ords nls mps nc = Some nc' \<Longrightarrow> nc_VGs nc' = nc_VGs nc \<and> nc_PodInlineVolumeInfo nc' = nc_PodInlineVolumeInfo nc \<and>
     nc_LocalPVs nc' = nc_LocalPVs nc \<and> nc_NodeName nc' = nc_NodeName nc"
  by (induction ords nls mps nc rule: add_mount_points.induct) (auto simp: Let_def split: option.splits if_splits)

lemma update_Devices_keeps:
  assumes "update_Devices ords nls nc = Some nc'"
  shows "nc_VGs nc' = nc_VGs nc" and "nc_PodInlineVolumeInfo nc' = nc_PodInlineVolumeInfo nc"
    and "nc_LocalPVs nc' = nc_LocalPVs nc" and "nc_NodeName nc' = nc_NodeName nc"
  using assms
  by (auto simp: update_Devices_def GetAddedAndRemovedItems_eq Let_def fold_keeps [where f = nc_VGs]
      fold_keeps [where f = nc_PodInlineVolumeInfo] fold_keeps [where f = nc_LocalPVs] fold_keeps [where f = nc_NodeName]
      dest!: add_devices_keeps split: option.splits)

lemma update_MountPoints_keeps:
  assumes "update_MountPoints ords nls nc = Some nc'"
  shows "nc_VGs nc' = nc_VGs nc" and "nc_PodInlineVolumeInfo nc' = nc_PodInlineVolumeInfo nc"
    and "nc_LocalPVs nc' = nc_LocalPVs nc" and "nc_NodeName nc' = nc_NodeName nc"
  using assms
  by (auto simp: update_MountPoints_def GetAddedAndRemovedItems_eq Let_def fold_keeps [where f = nc_VGs]
      fold_keeps [where f = nc_PodInlineVolumeInfo] fold_keeps [where f = nc_LocalPVs] fold_keeps [where f = nc_NodeName]
      dest!: add_mount_points_keeps split: option.splits)

text \<open>Every update of a node charges the inline volumes that were recorded before their volume group
  was known, and leaves them unrecorded: the next update charges them once more.\<close>

theorem update_charges_inline_again:
  assumes "UpdateNodeInfo K ords nc nls = Some nc'" and "map_of (nc_VGs nc) v = Some vg" and "sr_Name vg = v"
    and "v \<in> set (fsi_VolumeGroups (nls_FilteredStorageInfo (nls_Status nls)))"
    and "wf_map (nc_PodInlineVolumeInfo nc)" and "range_ok (over_VGs ords)" and "range_ok (over_Pods ords)"
  shows "nc_requested nc' v = nc_requested nc v + all_unrecorded v nc \<and> all_unrecorded v nc' = all_unrecorded v nc"
proof -
  define n0 where "n0 = (if nls_SpdkDeviceType nls \<noteq> [] then nc\<lparr>nc_SupportSPDK := True\<rparr> else nc)"
  define n1 where "n1 = update_VGs K ords nls n0"
  define n2 where "n2 = charge_inline_volumes ords n1"
  have n0: "nc_VGs n0 = nc_VGs nc" "nc_PodInlineVolumeInfo n0 = nc_PodInlineVolumeInfo nc" by (simp_all add: n0_def)
  have n1: "nc_requested n1 v = nc_requested nc v" "nc_PodInlineVolumeInfo n1 = nc_PodInlineVolumeInfo nc"
    using update_VGs_keeps [OF assms(4,6) _ assms(3), where nc = n0 and K = K] assms(2) n0 by (simp_all add: n1_def)
  have "wf_map (nc_PodInlineVolumeInfo n1)" using n1(2) assms(5) by simp
  from charge_inline_volumes_requested [OF assms(7) this, folded n2_def] n1
  have n2: "nc_requested n2 v = nc_requested nc v + all_unrecorded v nc"
    "nc_PodInlineVolumeInfo n2 = nc_PodInlineVolumeInfo nc" by (simp_all add: all_unrecorded_def)
  from assms(1) obtain n3 where n3: "update_Devices ords nls n2 = Some n3" "update_MountPoints ords nls n3 = Some nc'"
    by (auto simp: UpdateNodeInfo_def Let_def n2_def n1_def n0_def split: option.splits)
  from update_Devices_keeps [OF n3(1)] update_MountPoints_keeps [OF n3(2)] n2 show ?thesis
    by (simp add: all_unrecorded_def)
qed

definition ex_order :: node_ranges where
  "ex_order = \<lparr>over_VGs = \<lambda>ks. ks, over_Pods = \<lambda>ks. ks, over_Devices = \<lambda>ks. ks, over_MountPoints = \<lambda>ks. ks,
     over_LocalPVs = \<lambda>ks. ks\<rparr>"

text \<open>The pod is seen before the node's volume group is.\<close>

definition ex_running :: Pod where
  "ex_running = ex_pod\<lparr>pod_Phase := PodRunning\<rparr>"

definition ex_early :: NodeCache where
  "ex_early = fst (nc_AddPodInlineVolumeInfo ex_kube (NewNodeCache ''n'') ex_running)"

definition ex_updated :: NodeCache where
  "ex_updated = the (UpdateNodeInfo ex_kube ex_order ex_early ex_nls)"

lemma update_charges_inline_again_witness:
  "nc_requested ex_updated ''g'' = 3 \<and>
   (\<exists>nc. UpdateNodeInfo ex_kube ex_order ex_updated ex_nls = Some nc \<and> nc_requested nc ''g'' = 6)"
proof -
  have "UpdateNodeInfo ex_kube ex_order ex_updated ex_nls \<noteq> None" by code_simp
  then obtain nc where run: "UpdateNodeInfo ex_kube ex_order ex_updated ex_nls = Some nc" by blast
  have 1: "map_of (nc_VGs ex_updated) ''g'' = Some \<lparr>sr_Name = ''g'', sr_Capacity = 9, sr_Requested = 3\<rparr>"
    "''g'' \<in> set (fsi_VolumeGroups (nls_FilteredStorageInfo (nls_Status ex_nls)))"
    "wf_map (nc_PodInlineVolumeInfo ex_updated)"
    by code_simp+
  have 2: "nc_requested ex_updated ''g'' = 3" "all_unrecorded ''g'' ex_updated = 3" by code_simp+
  have 3: "range_ok (over_VGs ex_order)" "range_ok (over_Pods ex_order)" by (simp_all add: ex_order_def)
  from update_charges_inline_again [OF run 1(1) _ 1(2,3) 3] 2 run show ?thesis by auto
qed

end
