(* ===== verification/Ext_System.thy ===== *)
theory Ext_System
  imports Ext_Verdicts Ext_Facts
begin

text \<open>
  The extender as a running system: the states its handlers and requests can reach, the requests it
  answers again in the same way, the pods it considers ready, and the events it mishandles.
\<close>

section \<open>Reachable caches\<close>

inductive ext_step :: "kube \<Rightarrow> ClusterNodeCache \<Rightarrow> ClusterNodeCache \<Rightarrow> bool" for K where
  "range_ok (over_LocalPVs ords) \<Longrightarrow> onNodeLocalStorageAdd K ords c nls = Some c' \<Longrightarrow> ext_step K c c'"
| "range_ok (over_LocalPVs ords) \<Longrightarrow> onNodeLocalStorageUpdate K ords c old nls = Some c' \<Longrightarrow> ext_step K c c'"
| "ext_step K c (onPVAdd K c pv)"
| "onPVDelete K c pv' = Some c' \<Longrightarrow> ext_step K c c'"
| "ext_step K c (onPVUpdate K c old_pv pv)"
| "ext_step K c (onPodAdd K c pod)"
| "ext_step K c (fst (onPodUpdate K now busy c pod))"
| "ext_step K c (onPodDelete K c pod')"
| "ext_step K c (onPvcAdd c pvc)"
| "ext_step K c (onPvcUpdate c pvc)"
| "ext_step K c (onPvcDelete c pvc')"
| "SchedulingPVC R cv K pod_get strategy c claim node = Some (c', res) \<Longrightarrow> ext_step K c c'"

inductive ext_reachable :: "kube \<Rightarrow> ClusterNodeCache \<Rightarrow> bool" for K where
  "ext_reachable K NewClusterNodeCache"
| "ext_reachable K c \<Longrightarrow> ext_step K c c' \<Longrightarrow> ext_reachable K c'"

text \<open>A node is stored under its own name, and every volume it holds has a CSI source.\<close>

definition node_ok :: "string \<Rightarrow> NodeCache \<Rightarrow> bool" where
  "node_ok n nc \<longleftrightarrow> nc_NodeName nc = n \<and> (\<forall>p \<in> set (nc_LocalPVs nc). pv_CSI (snd p) \<noteq> None)"

definition cluster_ok :: "ClusterNodeCache \<Rightarrow> bool" where
  "cluster_ok c \<longleftrightarrow> (\<forall>n nc. map_of (Nodes c) n = Some nc \<longrightarrow> node_ok n nc)"

named_theorems ok_intros \<open>what keeps a node or a cluster well-formed\<close>

lemma cluster_ok_new [ok_intros]: "cluster_ok NewClusterNodeCache"
  by (simp add: cluster_ok_def NewClusterNodeCache_def)

lemma cluster_ok_put [ok_intros]: "cluster_ok c \<Longrightarrow> node_ok n nc \<Longrightarrow> cluster_ok (put_node n nc c)"
  by (simp add: cluster_ok_def go_map_simps)

lemma cluster_ok_Set [ok_intros]: "cluster_ok c \<Longrightarrow> node_ok n nc \<Longrightarrow> cluster_ok (SetNodeCache c nc)"
  by (auto simp: cluster_ok_def SetNodeCache_def go_map_simps node_ok_def)

lemma cluster_ok_Get: "cluster_ok c \<Longrightarrow> GetNodeCache c n = Some nc \<Longrightarrow> node_ok n nc"
  by (simp add: cluster_ok_def GetNodeCache_def)

lemma cluster_ok_fields [simp]:
  "cluster_ok (c\<lparr>PvcMapping := m\<rparr>) = cluster_ok c" "cluster_ok (c\<lparr>BindingInfo := b\<rparr>) = cluster_ok c"
  by (simp_all add: cluster_ok_def)

lemma node_ok_new [ok_intros]: "node_ok n (NewNodeCache n)"
  by (simp add: node_ok_def NewNodeCache_def)

lemma node_ok_fields [simp]:
  "node_ok n (nc\<lparr>nc_VGs := a\<rparr>) = node_ok n nc" "node_ok n (nc\<lparr>nc_Devices := b\<rparr>) = node_ok n nc"
  "node_ok n (nc\<lparr>nc_MountPoints := b\<rparr>) = node_ok n nc" "node_ok n (nc\<lparr>nc_AllocatedNum := x\<rparr>) = node_ok n nc"
  "node_ok n (nc\<lparr>nc_PodInlineVolumeInfo := i\<rparr>) = node_ok n nc" "node_ok n (nc\<lparr>nc_SupportSPDK := s\<rparr>) = node_ok n nc"
  "node_ok n (nc\<lparr>nc_PVCRecordsByExtend := e\<rparr>) = node_ok n nc"
  by (simp_all add: node_ok_def)

lemma in_update: "p \<in> set (AList.update k v m) \<Longrightarrow> p = (k, v) \<or> p \<in> set m"
  by (induction m) (auto split: if_splits)

lemma in_delete: "p \<in> set (AList.delete k m) \<Longrightarrow> p \<in> set m"
  by (induction m) (auto split: if_splits)

lemma node_ok_fold: "(\<And>x nc. node_ok n nc \<Longrightarrow> node_ok n (f x nc)) \<Longrightarrow> node_ok n nc \<Longrightarrow> node_ok n (fold f xs nc)"
  by (induction xs arbitrary: nc) auto

subsection \<open>The operations of a node\<close>

lemma node_ok_storage [ok_intros]: "node_ok (nls_Name nls) (NewNodeCacheFromStorage nls)"
  unfolding NewNodeCacheFromStorage_def Let_def
  by (intro node_ok_fold) (simp_all add: node_ok_new)

lemma node_ok_same: "nc_LocalPVs nc' = nc_LocalPVs nc \<Longrightarrow> nc_NodeName nc' = nc_NodeName nc \<Longrightarrow>
    node_ok n nc' = node_ok n nc"
  by (simp add: node_ok_def)

lemma node_ok_update:
  assumes "UpdateNodeInfo K ords nc nls = Some nc'" and "node_ok n nc"
  shows "node_ok n nc'"
proof -
  have charge: "node_ok n (fold charge_inline vs nc)" if "node_ok n nc" for vs nc
    using that by (intro node_ok_fold) (simp_all add: charge_inline_def Let_def)
  define n0 where "n0 = (if nls_SpdkDeviceType nls \<noteq> [] then nc\<lparr>nc_SupportSPDK := True\<rparr> else nc)"
  define n1 where "n1 = charge_inline_volumes ords (update_VGs K ords nls n0)"
  have "node_ok n n0" using assms(2) by (simp add: n0_def)
  then have "node_ok n (update_VGs K ords nls n0)"
    unfolding update_VGs_def Let_def GetAddedAndRemovedItems_eq by (auto intro!: node_ok_fold)
  then have "node_ok n n1"
    unfolding n1_def charge_inline_volumes_def by (intro node_ok_fold) (auto intro: charge)
  moreover obtain n2 where "update_Devices ords nls n1 = Some n2" "update_MountPoints ords nls n2 = Some nc'"
    using assms(1) by (auto simp: UpdateNodeInfo_def Let_def n1_def n0_def split: option.splits)
  ultimately show ?thesis
    by (metis node_ok_same update_Devices_keeps(3,4) update_MountPoints_keeps(3,4))
qed

lemma node_ok_pvs [ok_intros]:
  assumes "node_ok n nc" and "pv_CSI pv \<noteq> None"
  shows "node_ok n (nc_AddLVM K nc pv)" and "node_ok n (nc_UpdateLVM K nc old pv)"
    and "node_ok n (nc_AddLocalMountPoint nc pv)" and "node_ok n (fst (nc_AddLocalDevice K nc pv))"
    and "node_ok n (nc_RemoveLVM K nc pv)" and "node_ok n (nc_RemoveLocalMountPoint nc pv)"
    and "node_ok n (nc_RemoveLocalDevice K nc pv)"
  using assms
  by (auto simp: nc_AddLVM_def nc_UpdateLVM_def nc_AddLocalMountPoint_def nc_AddLocalDevice_def nc_RemoveLVM_def
      nc_RemoveLocalMountPoint_def nc_RemoveLocalDevice_def Let_def node_ok_def split: option.split
      dest!: in_update in_delete)

lemma add_inline_loop_ok: "add_inline_loop K pod vs nc = (nc', err) \<Longrightarrow> node_ok n nc \<Longrightarrow> node_ok n nc'"
proof (induction vs arbitrary: nc)
  case (Cons v vs)
  from Cons.prems show ?case
    by (auto simp: Let_def split: option.splits if_splits prod.splits elim!: Cons.IH)
qed simp

lemma node_ok_pods [ok_intros]:
  assumes "node_ok n nc"
  shows "node_ok n (fst (nc_AddPodInlineVolumeInfo K nc pod))" and "node_ok n (nc_DeletePodInlineVolumeInfo nc pod)"
proof -
  show "node_ok n (fst (nc_AddPodInlineVolumeInfo K nc pod))"
    using assms add_inline_loop_ok [of K pod "pod_Volumes pod"] 
    by (simp add: nc_AddPodInlineVolumeInfo_def) (metis node_ok_fields(5) prod.collapse)
  show "node_ok n (nc_DeletePodInlineVolumeInfo nc pod)"
    using assms by (auto simp: nc_DeletePodInlineVolumeInfo_def Let_def split: option.split intro!: node_ok_fold)
qed

lemma node_ok_assume: "assume_unit u nc = (nc', err) \<Longrightarrow> node_ok n nc \<Longrightarrow> node_ok n nc'"
  by (auto simp: assume_unit_def assumeLVMAllocatedUnit_def assumeDeviceAllocatedUnit_def
      assumeMountPointAllocatedUnit_def Let_def split: option.splits if_splits)

subsection \<open>The handlers\<close>

lemma IsOpenLocalPV_CSI: "IsOpenLocalPV pv = (True, t) \<Longrightarrow> pv_CSI pv \<noteq> None"
  by (auto simp: IsOpenLocalPV_def split: option.splits)

lemma UpdateNodeCache_ok:
  assumes "UpdateNodeCache K ords c nls = Some c'" and "cluster_ok c"
  shows "cluster_ok c'"
proof (cases "map_of (Nodes c) (nls_Name nls)")
  case (Some nc)
  with assms(1) obtain nc' where run: "UpdateNodeInfo K ords nc nls = Some nc'" "c' = put_node (nls_Name nls) nc' c"
    by (auto simp: UpdateNodeCache_def split: option.splits)
  have "node_ok (nls_Name nls) nc" using Some assms(2) by (simp add: cluster_ok_def)
  from node_ok_update [OF run(1) this] assms(2) show ?thesis by (simp add: run(2) cluster_ok_put)
qed (use assms in \<open>simp add: UpdateNodeCache_def\<close>)

lemma AddNodeCache_ok: "cluster_ok c \<Longrightarrow> cluster_ok (AddNodeCache c nls)"
  by (auto simp: AddNodeCache_def split: option.splits intro!: ok_intros)

lemma node_or_new_ok: "cluster_ok c \<Longrightarrow> node_ok n (node_or_new c n)"
  by (auto simp: node_or_new_def split: option.splits intro: ok_intros dest: cluster_ok_Get)

lemma keep_node_ok: "cluster_ok c \<Longrightarrow> node_ok n nc \<Longrightarrow> cluster_ok (keep_node n nc c)"
  by (simp add: keep_node_def cluster_ok_put)

lemma add_inline_volumes_ok: "cluster_ok c \<Longrightarrow> cluster_ok (add_inline_volumes K c pod n)"
proof -
  assume c: "cluster_ok c"
  obtain nc err where run: "nc_AddPodInlineVolumeInfo K (node_or_new c n) pod = (nc, err)" by fastforce
  have "node_ok n nc" using node_ok_pods(1) [OF node_or_new_ok [OF c], of n K pod] run by simp
  with c run show ?thesis
    by (auto simp: add_inline_volumes_def split: option.split intro!: keep_node_ok cluster_ok_Set)
qed

lemma pv_switch_ok:
  assumes "node_ok n nc" and "IsOpenLocalPV pv = (True, t)"
  shows "add_pv K t pv nc = (nc', ok) \<Longrightarrow> node_ok n nc'" and "remove_pv K t pv nc = (nc', ok) \<Longrightarrow> node_ok n nc'"
    and "update_pv K t old pv nc = (nc', ok) \<Longrightarrow> node_ok n nc'"
proof -
  note pvs = node_ok_pvs [OF assms(1) IsOpenLocalPV_CSI [OF assms(2)]]
  obtain d err where d: "nc_AddLocalDevice K nc pv = (d, err)" by fastforce
  have "node_ok n d" using pvs(4) [of K] d by simp
  with pvs d assms(1) show "add_pv K t pv nc = (nc', ok) \<Longrightarrow> node_ok n nc'"
    and "remove_pv K t pv nc = (nc', ok) \<Longrightarrow> node_ok n nc'"
    and "update_pv K t old pv nc = (nc', ok) \<Longrightarrow> node_ok n nc'"
    by (auto simp: add_pv_def remove_pv_def update_pv_def split: if_splits)
qed

lemma store_ok:
  assumes "cluster_ok c" and "node_ok n nc"
  shows "cluster_ok (put_node n nc c)" and "cluster_ok (SetNodeCache (put_node n nc c) nc)"
    and "cluster_ok (SetNodeCache ((put_node n nc c)\<lparr>BindingInfo := b\<rparr>) nc)"
  using assms cluster_ok_put [OF assms] cluster_ok_Set [OF _ assms(2)] by simp_all

lemma onPVAdd_ok:
  assumes "cluster_ok c"
  shows "cluster_ok (onPVAdd K c pv)"
proof (cases pv)
  case (Obj p)
  let ?node = "NodeNameFromPV p"
  define c1 where "c1 = (case GetNodeCache c ?node of None \<Rightarrow> SetNodeCache c (NewNodeCache ?node) | Some _ \<Rightarrow> c)"
  have c1: "cluster_ok c1"
    using assms cluster_ok_Set [OF assms node_ok_new] by (simp add: c1_def split: option.split)
  show ?thesis
  proof (cases "GetNodeCache c1 ?node = None \<or> \<not> fst (IsOpenLocalPV p)")
    case True
    with Obj assms c1 show ?thesis
      by (auto simp: onPVAdd_def Let_def c1_def [symmetric] split: prod.split)
  next
    case False
    then obtain nc t where nc: "GetNodeCache c1 ?node = Some nc" and t: "IsOpenLocalPV p = (True, t)"
      by (cases "IsOpenLocalPV p") auto
    obtain nc' ok where run: "add_pv K t p nc = (nc', ok)" by fastforce
    have "node_ok ?node nc'" using pv_switch_ok(1) [OF cluster_ok_Get [OF c1 nc] t run] .
    from store_ok [OF c1 this] Obj assms nc t run show ?thesis
      by (simp add: onPVAdd_def Let_def c1_def [symmetric] split: sum.split option.split)
  qed
qed (simp add: onPVAdd_def assms)

lemma onPVUpdate_ok:
  assumes "cluster_ok c"
  shows "cluster_ok (onPVUpdate K c old pv)"
proof (cases pv)
  case (Obj p)
  let ?node = "NodeNameFromPV p"
  show ?thesis
  proof (cases "GetNodeCache c ?node = None \<or> \<not> fst (IsOpenLocalPV p)")
    case True
    with Obj assms show ?thesis by (auto simp: onPVUpdate_def Let_def split: prod.split option.split)
  next
    case False
    then obtain nc t where nc: "GetNodeCache c ?node = Some nc" and t: "IsOpenLocalPV p = (True, t)"
      by (cases "IsOpenLocalPV p") auto
    obtain nc' ok where run: "update_pv K t old p nc = (nc', ok)" by fastforce
    have "node_ok ?node nc'" using pv_switch_ok(3) [OF cluster_ok_Get [OF assms nc] t run] .
    from store_ok [OF assms this] Obj assms nc t run show ?thesis by (simp add: onPVUpdate_def Let_def)
  qed
qed (simp add: onPVUpdate_def assms)

lemma onPVDelete_ok:
  assumes "onPVDelete K c pv = Some c'" and "cluster_ok c"
  shows "cluster_ok c'"
proof (cases "deleted_object pv")
  case (Some p)
  let ?node = "NodeNameFromPV p"
  show ?thesis
  proof (cases "GetNodeCache c ?node = None \<or> \<not> fst (IsOpenLocalPV p)")
    case True
    with Some assms show ?thesis by (auto simp: onPVDelete_def Let_def split: prod.splits option.splits if_splits)
  next
    case False
    then obtain nc t where nc: "GetNodeCache c ?node = Some nc" and t: "IsOpenLocalPV p = (True, t)"
      by (cases "IsOpenLocalPV p") auto
    obtain nc' ok where run: "remove_pv K t p nc = (nc', ok)" by fastforce
    have "node_ok ?node nc'" using pv_switch_ok(2) [OF cluster_ok_Get [OF assms(2) nc] t run] .
    from store_ok [OF assms(2) this] Some assms nc t run show ?thesis
      by (auto simp: onPVDelete_def Let_def split: option.splits if_splits)
  qed
qed (use assms in \<open>simp add: onPVDelete_def\<close>)

lemma onPod_ok:
  assumes "cluster_ok c"
  shows "cluster_ok (onPodAdd K c pod)" and "cluster_ok (fst (onPodUpdate K now busy c pod))"
    and "cluster_ok (onPodDelete K c pod')"
proof -
  have add: "cluster_ok (add_inline_volumes K (c\<lparr>PvcMapping := m\<rparr>) p n)" for m p n
    using assms by (simp add: add_inline_volumes_ok)
  from assms add show "cluster_ok (onPodAdd K c pod)"
    by (auto simp: onPodAdd_def Let_def split: obj.split sum.split prod.split)
  from assms add show "cluster_ok (fst (onPodUpdate K now busy c pod))"
    by (auto simp: onPodUpdate_def Let_def split: obj.split sum.split prod.split bool.split)
  have "cluster_ok (SetNodeCache (keep_node n nc (c\<lparr>PvcMapping := m\<rparr>)) nc)"
    if "nc = nc_DeletePodInlineVolumeInfo (node_or_new (c\<lparr>PvcMapping := m\<rparr>) n) p" for m p n nc
  proof -
    have c: "cluster_ok (c\<lparr>PvcMapping := m\<rparr>)" using assms by simp
    have "node_ok n nc" unfolding that by (rule node_ok_pods(2) [OF node_or_new_ok [OF c]])
    from cluster_ok_Set [OF keep_node_ok [OF c this] this] show ?thesis .
  qed
  with assms show "cluster_ok (onPodDelete K c pod')"
    by (auto simp: onPodDelete_def Let_def split: option.split sum.split prod.split)
qed

lemma onPvc_Nodes [simp]:
  "Nodes (onPvcAdd c pvc) = Nodes c" "Nodes (onPvcUpdate c pvc) = Nodes c" "Nodes (onPvcDelete c pvc') = Nodes c"
  by (simp_all add: onPvcAdd_def onPvcUpdate_def onPvcDelete_def split: obj.split option.split)

lemma cluster_ok_Nodes: "Nodes c' = Nodes c \<Longrightarrow> cluster_ok c' = cluster_ok c"
  by (simp add: cluster_ok_def)

lemma Assume_ok: "Assume_loop c units err = (c', err') \<Longrightarrow> cluster_ok c \<Longrightarrow> cluster_ok c'"
proof (induction c units err rule: Assume_loop.induct)
  case (2 c u units err)
  show ?case
  proof (cases "GetNodeCache c (au_NodeName u)")
    case None
    with 2 show ?thesis by simp
  next
    case (Some nc)
    obtain nc' e where run: "assume_unit u nc = (nc', e)" by fastforce
    have "node_ok (au_NodeName u) nc'"
      using node_ok_assume [OF run cluster_ok_Get [OF "2.prems"(2) Some]] .
    from store_ok [OF "2.prems"(2) this] "2.IH" [OF Some run [symmetric] refl refl refl] "2.prems"(1) Some run
    show ?thesis by (cases e) (simp_all add: Let_def)
  qed
qed simp

lemma SchedulingPVC_ok:
  assumes "SchedulingPVC R cv K pod_get strategy c claim node = Some (c', res)" and "cluster_ok c"
  shows "cluster_ok c'"
proof -
  have bind: "Nodes (fold (\<lambda>unit c. c\<lparr>BindingInfo := AList.update (au_PVCName unit) unit (BindingInfo c)\<rparr>) us d) = Nodes d"
    for us d
    by (rule fold_keeps) simp
  from assms(1) consider "c' = c" | units d err where "Assume c units = (d, err)" "Nodes c' = Nodes d"
    by (auto simp: SchedulingPVC_def Let_def bind split: option.splits if_splits prod.splits)
  then show ?thesis
  proof cases
    case 2
    from Assume_ok [OF 2(1) [unfolded Assume_def] assms(2)] cluster_ok_Nodes [OF 2(2)] show ?thesis by simp
  qed (use assms in simp)
qed

lemma IsLocalPVExist_total:
  assumes "node_ok n nc" and "range_ok ord"
  shows "IsLocalPVExist ord nc kind name \<noteq> None"
proof -
  have loop: "local_pv_exist_loop pvs name \<noteq> None" if "\<forall>pv \<in> set pvs. pv_CSI pv \<noteq> None" for pvs
    using that by (induction pvs) (auto split: option.splits)
  have "pv_CSI pv \<noteq> None" if pv: "pv \<in> set (map snd (reorder ord (nc_LocalPVs nc)))" for pv
  proof -
    from pv obtain k where k: "k \<in> set (ord (map fst (nc_LocalPVs nc)))" "pv = the (map_of (nc_LocalPVs nc) k)"
      by (auto simp: reorder_def)
    then have "k \<in> fst ` set (nc_LocalPVs nc)" using range_ok_set [OF assms(2)] by auto
    then obtain w where "map_of (nc_LocalPVs nc) k = Some w" by (metis map_of_eq_None_iff not_None_eq)
    with k(2) assms(1) map_of_SomeD [of "nc_LocalPVs nc" k w] show ?thesis by (force simp: node_ok_def)
  qed
  with loop show ?thesis by (simp add: IsLocalPVExist_def)
qed

lemma UpdateNodeInfo_total:
  assumes "node_ok n nc" and "range_ok (over_LocalPVs ords)"
  shows "UpdateNodeInfo K ords nc nls \<noteq> None"
proof -
  note exist = IsLocalPVExist_total [OF _ assms(2)]
  have devices: "add_devices ords nls ds m \<noteq> None" if "node_ok n m" for ds m
    using that
  proof (induction ds arbitrary: m)
    case (Cons d ds)
    obtain b where "IsLocalPVExist (over_LocalPVs ords) m VolumeTypeDevice d = Some b"
      using exist [OF Cons.prems] by blast
    with Cons show ?case by simp
  qed simp
  have mps: "add_mount_points ords nls ds m \<noteq> None" if "node_ok n m" for ds m
    using that
  proof (induction ds arbitrary: m)
    case (Cons d ds)
    obtain b where "IsLocalPVExist (over_LocalPVs ords) m VolumeTypeMountPoint d = Some b"
      using exist [OF Cons.prems] by blast
    with Cons show ?case by (simp add: Let_def)
  qed simp
  define n0 where "n0 = (if nls_SpdkDeviceType nls \<noteq> [] then nc\<lparr>nc_SupportSPDK := True\<rparr> else nc)"
  define n1 where "n1 = charge_inline_volumes ords (update_VGs K ords nls n0)"
  have "node_ok n n0" using assms(1) by (simp add: n0_def)
  then have "node_ok n (update_VGs K ords nls n0)"
    unfolding update_VGs_def Let_def GetAddedAndRemovedItems_eq by (auto intro!: node_ok_fold)
  then have n1: "node_ok n n1"
    unfolding n1_def charge_inline_volumes_def
    by (intro node_ok_fold) (auto intro!: node_ok_fold simp: charge_inline_def Let_def)
  obtain n2 where n2: "update_Devices ords nls n1 = Some n2"
    using devices [OF n1] by (fastforce simp: update_Devices_def GetAddedAndRemovedItems_eq Let_def split: option.split)
  have "node_ok n n2" using n1 node_ok_same update_Devices_keeps(3,4) [OF n2] by blast
  then have "update_MountPoints ords nls n2 \<noteq> None"
    using mps by (auto simp: update_MountPoints_def GetAddedAndRemovedItems_eq Let_def split: option.split)
  with n2 show ?thesis
    by (simp add: UpdateNodeInfo_def Let_def n1_def [symmetric] n0_def [symmetric] del: not_None_eq)
qed

lemma ext_step_ok: "ext_step K c c' \<Longrightarrow> cluster_ok c \<Longrightarrow> cluster_ok c'"
proof (induction rule: ext_step.induct)
  case (1 ords c nls c')
  then show ?case
    by (auto simp: onNodeLocalStorageAdd_def split: obj.splits option.splits intro: AddNodeCache_ok UpdateNodeCache_ok)
next
  case (2 ords c old nls c')
  then show ?case
    by (auto simp: onNodeLocalStorageUpdate_def split: obj.splits option.splits if_splits
        intro: AddNodeCache_ok UpdateNodeCache_ok)
qed (auto intro: onPVAdd_ok onPVDelete_ok onPVUpdate_ok onPod_ok SchedulingPVC_ok cluster_ok_Nodes [THEN iffD2])

lemma ext_reachable_ok: "ext_reachable K c \<Longrightarrow> cluster_ok c"
  by (induction rule: ext_reachable.induct) (auto intro: cluster_ok_new ext_step_ok)

text \<open>C16: in every cache the extender's handlers and requests can reach, each node is stored under its
  own name, and the events of a node's storage are handled without a panic: no volume in the cache lacks
  the CSI source that \<open>IsLocalPVExist\<close> reads.\<close>

theorem ext_reachable_safe:
  assumes "ext_reachable K c" and "range_ok (over_LocalPVs ords)"
  shows "(\<forall>n nc. GetNodeCache c n = Some nc \<longrightarrow> nc_NodeName nc = n) \<and>
    onNodeLocalStorageAdd K ords c nls \<noteq> None \<and> onNodeLocalStorageUpdate K ords c old nls \<noteq> None"
proof -
  note ok = ext_reachable_ok [OF assms(1)]
  have "UpdateNodeCache K ords c l \<noteq> None" for l
  proof (cases "map_of (Nodes c) (nls_Name l)")
    case (Some nc)
    then have "node_ok (nls_Name l) nc" using ok by (simp add: cluster_ok_def)
    from UpdateNodeInfo_total [OF this assms(2)] obtain nc' where "UpdateNodeInfo K ords nc l = Some nc'" by blast
    with Some show ?thesis by (simp add: UpdateNodeCache_def)
  qed (simp add: UpdateNodeCache_def)
  moreover have "nc_NodeName nc = n" if "GetNodeCache c n = Some nc" for n nc
    using cluster_ok_Get [OF ok that] by (simp add: node_ok_def)
  ultimately show ?thesis
    by (auto simp: onNodeLocalStorageAdd_def onNodeLocalStorageUpdate_def simp del: not_None_eq
        split: obj.split option.split)
qed

lemma ext_reachable_safe_witness:
  "\<exists>c. ext_reachable ex_kube c \<and> GetNodeCache c ''n'' \<noteq> None \<and> onNodeLocalStorageAdd ex_kube ex_order c (Obj ex_nls) \<noteq> None"
proof -
  have "onNodeLocalStorageAdd ex_kube ex_order NewClusterNodeCache (Obj ex_nls) \<noteq> None" by code_simp
  then obtain c where c: "onNodeLocalStorageAdd ex_kube ex_order NewClusterNodeCache (Obj ex_nls) = Some c" by blast
  have "case onNodeLocalStorageAdd ex_kube ex_order NewClusterNodeCache (Obj ex_nls) of
      Some c \<Rightarrow> GetNodeCache c ''n'' \<noteq> None | None \<Rightarrow> False" by code_simp
  then have n: "GetNodeCache c ''n'' \<noteq> None" using c by simp
  have ords: "range_ok (over_LocalPVs ex_order)" by (simp add: ex_order_def)
  have "ext_reachable ex_kube c"
    using ext_reachable.intros(2) [OF ext_reachable.intros(1) ext_step.intros(1) [OF ords c]] .
  from ext_reachable_safe [OF this ords] this n show ?thesis by blast
qed

section \<open>A deleted volume without a claim\<close>

text \<open>Deleting a volume of a known node panics exactly when the volume names no claim: the handler
  reads the name of the claim through a nil pointer.\<close>

theorem onPVDelete_panics_iff:
  "onPVDelete K c ob = None \<longleftrightarrow>
    (\<exists>pv. deleted_object ob = Some pv \<and> pv_ClaimRef pv = None \<and>
       IsOpenLocalPV pv \<in> {(True, VolumeTypeLVM), (True, VolumeTypeMountPoint), (True, VolumeTypeDevice)} \<and>
       \<not> IsReadOnlyPV pv \<and> NodeNameFromPV pv \<noteq> [] \<and> GetNodeCache c (NodeNameFromPV pv) \<noteq> None)"
  by (auto simp: onPVDelete_def remove_pv_def pv_PVCName_def Let_def split: option.splits prod.splits if_splits)

section \<open>Pods and their claims\<close>

text \<open>A pod update with a claim that is not pending any more changes no node: inline volumes of a pod
  that also has a bound claim are not charged when the pod starts to run.\<close>

theorem bound_claim_hides_inline:
  assumes "GetAllPodPvcs K pod = Inr pvcs" and "\<exists>p \<in> set pvcs. pvc_Phase p \<noteq> ClaimPending"
  shows "Nodes (fst (onPodUpdate K now busy c (Obj pod))) = Nodes c"
proof -
  have "list_ex (\<lambda>p. pvc_Phase p \<noteq> ClaimPending) pvcs" using assms(2) by (simp add: list_ex_iff)
  with assms(1) show ?thesis by (simp add: onPodUpdate_def Let_def split: prod.split)
qed

definition ex_mixed_pod :: Pod where
  "ex_mixed_pod = ex_running\<lparr>pod_Volumes := pod_Volumes ex_running @
     [\<lparr>vol_Name = ''data'', vol_CSI = None, vol_PVC = Some ''p'', vol_Ephemeral = None\<rparr>]\<rparr>"

definition ex_bound_kube :: kube where
  "ex_bound_kube = ex_classes\<lparr>pvc_get := (\<lambda>_ _. Some (ex_pvc ''p'' 5))\<rparr>"

lemma bound_claim_hides_inline_witness:
  "Nodes (fst (onPodUpdate ex_bound_kube 0 (\<lambda>_. False) ex_cluster (Obj ex_mixed_pod))) = Nodes ex_cluster \<and>
   Nodes (fst (onPodUpdate ex_bound_kube 0 (\<lambda>_. False) ex_cluster (Obj ex_running))) \<noteq> Nodes ex_cluster"
proof
  have 1: "GetAllPodPvcs ex_bound_kube ex_mixed_pod = Inr [ex_pvc ''p'' 5]"
    "\<exists>p \<in> set [ex_pvc ''p'' 5]. pvc_Phase p \<noteq> ClaimPending" by code_simp+
  from bound_claim_hides_inline [OF 1] show "Nodes (fst (onPodUpdate ex_bound_kube 0 (\<lambda>_. False) ex_cluster
      (Obj ex_mixed_pod))) = Nodes ex_cluster" .
  have "map_option (\<lambda>nc. nc_requested nc ''g'') (map_of (Nodes (fst (onPodUpdate ex_bound_kube 0 (\<lambda>_. False) ex_cluster
      (Obj ex_running)))) ''n'') \<noteq> map_option (\<lambda>nc. nc_requested nc ''g'') (map_of (Nodes ex_cluster) ''n'')"
    by code_simp
  then show "Nodes (fst (onPodUpdate ex_bound_kube 0 (\<lambda>_. False) ex_cluster (Obj ex_running))) \<noteq> Nodes ex_cluster"
    by metis
qed

lemma put_claims:
  assumes "fold (put_claim podName) pvcs (info, p) = (info', p')"
  shows "set info' \<subseteq> set info \<union> (\<lambda>pvc. (PVCName pvc, PvcContainsSelectedNode pvc)) ` set pvcs \<and>
    (\<forall>k. k \<notin> PVCName ` set pvcs \<longrightarrow> map_of info' k = map_of info k) \<and>
    (\<forall>pvc \<in> set pvcs. distinct (map PVCName pvcs) \<longrightarrow> map_of info' (PVCName pvc) = Some (PvcContainsSelectedNode pvc)) \<and>
    (\<forall>pvc \<in> set pvcs. str_at (PvcPod p') (PVCName pvc) = podName) \<and>
    (\<forall>k. k \<notin> PVCName ` set pvcs \<longrightarrow> map_of (PvcPod p') k = map_of (PvcPod p) k) \<and>
    (pvcs \<noteq> [] \<longrightarrow> map_of (PodPvcInfo p') podName = Some info')"
  using assms
proof (induction pvcs arbitrary: info p)
  case (Cons pvc pvcs)
  let ?info = "AList.update (PVCName pvc) (PvcContainsSelectedNode pvc) info"
  let ?p = "p\<lparr>PvcPod := AList.update (PVCName pvc) podName (PvcPod p), PodPvcInfo := AList.update podName ?info (PodPvcInfo p)\<rparr>"
  have step: "put_claim podName pvc (info, p) = (?info, ?p)" by (simp add: put_claim_def Let_def)
  have "fold (put_claim podName) pvcs (?info, ?p) = (info', p')" using Cons.prems by (simp add: step)
  note IH = Cons.IH [OF this]
  show ?case
  proof (intro conjI allI ballI impI)
    show "set info' \<subseteq> set info \<union> (\<lambda>pvc. (PVCName pvc, PvcContainsSelectedNode pvc)) ` set (pvc # pvcs)"
    proof
      fix e
      assume "e \<in> set info'"
      with conjunct1 [OF IH] have "e \<in> set ?info \<or> e \<in> (\<lambda>pvc. (PVCName pvc, PvcContainsSelectedNode pvc)) ` set pvcs"
        by blast
      then show "e \<in> set info \<union> (\<lambda>pvc. (PVCName pvc, PvcContainsSelectedNode pvc)) ` set (pvc # pvcs)"
        using in_update [of e "PVCName pvc" "PvcContainsSelectedNode pvc" info] by auto
    qed
  next
    fix k
    assume k: "k \<notin> PVCName ` set (pvc # pvcs)"
    with IH have "map_of info' k = map_of ?info k" "map_of (PvcPod p') k = map_of (PvcPod ?p) k" by simp_all
    with k show "map_of info' k = map_of info k" and "map_of (PvcPod p') k = map_of (PvcPod p) k"
      by (simp_all add: go_map_simps)
  next
    fix q
    assume q: "q \<in> set (pvc # pvcs)" and d: "distinct (map PVCName (pvc # pvcs))"
    show "map_of info' (PVCName q) = Some (PvcContainsSelectedNode q)"
    proof (cases "q \<in> set pvcs")
      case True
      with IH d show ?thesis by simp
    next
      case False
      with q d have "q = pvc" "PVCName pvc \<notin> PVCName ` set pvcs" by auto
      with IH show ?thesis by (simp add: go_map_simps)
    qed
  next
    fix q
    assume q: "q \<in> set (pvc # pvcs)"
    show "str_at (PvcPod p') (PVCName q) = podName"
    proof (cases "PVCName q \<in> PVCName ` set pvcs")
      case True
      then obtain r where "r \<in> set pvcs" "PVCName q = PVCName r" by blast
      with IH show ?thesis by simp
    next
      case False
      with q have "q = pvc" by auto
      with False IH show ?thesis by (simp add: str_at_def go_map_simps)
    qed
  next
    show "map_of (PodPvcInfo p') podName = Some info'"
    proof (cases "pvcs = []")
      case True
      with Cons.prems show ?thesis by (auto simp: step go_map_simps)
    qed (use IH in simp)
  qed
qed simp

text \<open>Once a pod is known with its claims, one of them is ready to be provisioned exactly when every
  claim of the pod has a selected node.\<close>

theorem ready_when_all_selected:
  assumes "distinct (map PVCName pvcs)" and "pvc \<in> set pvcs"
  shows "IsPodPvcReady (PutPod m podName pvcs) pvc \<longleftrightarrow> (\<forall>p \<in> set pvcs. PvcContainsSelectedNode p)"
proof -
  obtain info p where run: "fold (put_claim podName) pvcs ([], m) = (info, p)" by fastforce
  note c = put_claims [OF run]
  have "(\<forall>e \<in> set info. snd e) \<longleftrightarrow> (\<forall>q \<in> set pvcs. PvcContainsSelectedNode q)"
  proof
    assume all: "\<forall>e \<in> set info. snd e"
    show "\<forall>q \<in> set pvcs. PvcContainsSelectedNode q"
    proof
      fix q
      assume "q \<in> set pvcs"
      with c assms(1) have "map_of info (PVCName q) = Some (PvcContainsSelectedNode q)" by blast
      from map_of_SomeD [OF this] all show "PvcContainsSelectedNode q" by force
    qed
  qed (use c in auto)
  moreover have "str_at (PvcPod p) (PVCName pvc) = podName" "map_of (PodPvcInfo p) podName = Some info"
    using c assms(2) by auto
  ultimately show ?thesis
    by (simp add: IsPodPvcReady_def PutPod_def run list_all_iff case_prod_beta)
qed

lemma ready_when_all_selected_witness:
  "\<not> IsPodPvcReady (PutPod NewPodPvcMapping ''ns/pod'' [ex_pvc ''p'' 1, ex_pvc ''q'' 1]) (ex_pvc ''p'' 1)"
proof -
  have 1: "distinct (map PVCName [ex_pvc ''p'' 1, ex_pvc ''q'' 1])" "ex_pvc ''p'' 1 \<in> set [ex_pvc ''p'' 1, ex_pvc ''q'' 1]"
    "\<not> PvcContainsSelectedNode (ex_pvc ''q'' 1)"
    by code_simp+
  from ready_when_all_selected [OF 1(1,2)] 1(3) show ?thesis by simp
qed

section \<open>Asking again\<close>

lemma bound_after:
  assumes "filter (\<lambda>u. au_PVCName u = k) us = [u]"
  shows "map_of (BindingInfo (fold (\<lambda>unit c. c\<lparr>BindingInfo := AList.update (au_PVCName unit) unit (BindingInfo c)\<rparr>) us c)) k = Some u"
  using assms
proof (induction us arbitrary: c rule: rev_induct)
  case (snoc w us)
  show ?case
  proof (cases "au_PVCName w = k")
    case True
    with snoc show ?thesis by (auto simp: go_map_simps)
  next
    case False
    with snoc show ?thesis by (auto simp: go_map_simps)
  qed
qed simp

text \<open>C21: a provisioner that asks again for a claim it was given storage for gets the same answer, and
  nothing is charged a second time.\<close>

theorem SchedulingPVC_idempotent:
  assumes "SchedulingPVC R cv K pod_get strategy c pvc node = Some (c', Some b, None)"
  shows "SchedulingPVC R' cv' K' pod_get' strategy' c' pvc node = Some (c', Some b, None)"
proof -
  obtain n where n: "node = Some n" using assms by (cases node) (auto simp: SchedulingPVC_def Let_def)
  show ?thesis
  proof (cases "map_of (BindingInfo c) (PVCName pvc)")
    case (Some u)
    with assms n show ?thesis by (auto simp: SchedulingPVC_def Let_def)
  next
    case None
    with assms n obtain units d
      where c': "c' = fold (\<lambda>unit c. c\<lparr>BindingInfo := AList.update (au_PVCName unit) unit (BindingInfo c)\<rparr>) units d"
        and b: "unitsToBinding [pvc] (filter (\<lambda>unit. au_PVCName unit = PVCName pvc) units) = Some b"
      by (auto simp: SchedulingPVC_def Let_def simp del: fold_append filter_append
          split: option.splits if_splits prod.splits)
    from b obtain u where u: "filter (\<lambda>unit. au_PVCName unit = PVCName pvc) units = [u]"
      by (auto simp: unitsToBinding_def split: list.splits)
    from bound_after [OF u, of d] b n u show ?thesis
      by (simp add: SchedulingPVC_def Let_def c' [symmetric])
  qed
qed

definition ex_pending :: kube where
  "ex_pending = ex_classes\<lparr>pvc_get := (\<lambda>_ _. Some ((ex_pvc ''p'' 5)\<lparr>pvc_Phase := ClaimPending\<rparr>))\<rparr>"

definition ex_pods :: "string \<Rightarrow> string \<Rightarrow> Pod option" where
  "ex_pods ns name = Some ex_claim_pod"

definition ex_ready :: ClusterNodeCache where
  "ex_ready = ex_cluster\<lparr>PvcMapping := PutPod NewPodPvcMapping ''ns/pod''
     [(ex_pvc ''p'' 5)\<lparr>pvc_Annotations := [(AnnoSelectedNode, ''n'')]\<rparr>]\<rparr>"

lemma SchedulingPVC_idempotent_witness:
  "\<exists>c b. SchedulingPVC ex_ranges (\<lambda>_. 0) ex_pending ex_pods StrategyBinpack ex_ready
      (ex_pvc ''p'' 5) (Some ''n'') = Some (c, Some b, None) \<and> map_of (BindingInfo c) ''ns/p'' \<noteq> None \<and>
    SchedulingPVC ex_ranges (\<lambda>_. 0) ex_kube (\<lambda>_ _. None) StrategyBinpack c (ex_pvc ''p'' 5) (Some ''n'') =
      Some (c, Some b, None)"
proof -
  let ?pvc = "(ex_pvc ''p'' 5)\<lparr>pvc_Phase := ClaimPending\<rparr>"
  let ?unit = "lvm_unit ''n'' 5 ''h'' ''ns/p''"
  have ready: "IsPodPvcReady (PvcMapping ex_ready) (ex_pvc ''p'' 5)" "map_of (BindingInfo ex_ready) ''ns/p'' = None"
    "PVCName (ex_pvc ''p'' 5) = ''ns/p''"
    by code_simp+
  have claims: "GetPodUnboundPvcs ex_pending ex_pods ex_ready (ex_pvc ''p'' 5) = Some (None, [?pvc], [], [])"
    by code_simp
  have unit: "ProcessLVMPVCPriority ex_ranges ex_pending StrategyBinpack ex_ready None [?pvc] ''n'' =
      Some (True, [?unit], None)"
    by code_simp
  have "case GetNodeVGMap ex_ready ''n'' of Inr _ \<Rightarrow> True | _ \<Rightarrow> False" by code_simp
  then obtain vgs where vgs: "GetNodeVGMap ex_ready ''n'' = Inr vgs" by (auto split: sum.splits)
  have "case Assume ex_ready [?unit] of (_, None) \<Rightarrow> True | _ \<Rightarrow> False" by code_simp
  then obtain d where d: "Assume ex_ready [?unit] = (d, None)" by (auto split: prod.splits option.splits)
  obtain c where c: "c = d\<lparr>BindingInfo := AList.update ''ns/p'' ?unit (BindingInfo d)\<rparr>" by blast
  have name: "au_PVCName ?unit = ''ns/p''" by code_simp
  have run: "\<exists>b. SchedulingPVC ex_ranges (\<lambda>_. 0) ex_pending ex_pods StrategyBinpack ex_ready
      (ex_pvc ''p'' 5) (Some ''n'') = Some (c, Some b, None)"
    by (simp add: SchedulingPVC_def Let_def ready claims ScoreLVMVolume_def unit vgs ScoreMountPointVolume_def
        ScoreDeviceVolume_def ProcessMPPVC_def ProcessDevicePVC_def score_exclusive_def d c name unitsToBinding_def)
  then obtain b where run: "SchedulingPVC ex_ranges (\<lambda>_. 0) ex_pending ex_pods StrategyBinpack ex_ready
      (ex_pvc ''p'' 5) (Some ''n'') = Some (c, Some b, None)" by blast
  have "map_of (BindingInfo c) ''ns/p'' \<noteq> None" by (simp add: c go_map_simps)
  with SchedulingPVC_idempotent [OF run] run show ?thesis by blast
qed

end
