(* ===== verification/Lvm_Parser.thy ===== *)
theory Lvm_Parser
  imports Anti_Affinity
begin

text \<open>
  The reports of the LVM tools, \<open>pkg/csi/lib/parser.go\<close>: a line of \<open>lvs\<close>, \<open>vgs\<close> or \<open>pvs\<close> with
  \<open>--nameprefixes\<close> is split at the separator into \<open>NAME='value'\<close> components, and the values become a
  logical volume, a volume group or a physical volume. A Go string is a list of bytes, an error of this
  part of the program the text its \<open>Error()\<close> returns. \<open>strings.Split\<close>, \<open>strings.Index\<close> and
  \<open>strconv.ParseUint\<close> are modelled as documented. Printing a report as the tools do and parsing it
  gives the report back.
\<close>

type_synonym uint64 = "64 word"
type_synonym 'a result = "string + 'a"

section \<open>The standard library\<close>

text \<open>Whether \<open>s\<close> starts with \<open>p\<close>, and what follows.\<close>

fun after_prefix :: "string \<Rightarrow> string \<Rightarrow> string option" where
  "after_prefix [] s = Some s"
| "after_prefix (c # p) [] = None"
| "after_prefix (c # p) (d # s) = (if c = d then after_prefix p s else None)"

lemma after_prefix_length: "after_prefix p s = Some r \<Longrightarrow> length s = length p + length r"
  by (induction p s rule: after_prefix.induct) (auto split: if_splits)

lemma after_prefix_Some: "after_prefix p s = Some r \<longleftrightarrow> s = p @ r"
  by (induction p s rule: after_prefix.induct) auto

text \<open>\<open>strings.Contains\<close>.\<close>

fun go_Contains :: "string \<Rightarrow> string \<Rightarrow> bool" where
  "go_Contains [] sub = (sub = [])"
| "go_Contains (c # s) sub = (after_prefix sub (c # s) \<noteq> None \<or> go_Contains s sub)"

text \<open>\<open>strings.Split\<close> with the separator \<open>d # sep\<close>, from the left.\<close>

function split_string :: "string \<Rightarrow> string \<Rightarrow> string \<Rightarrow> string list" where
  "split_string sep word [] = [word]"
| "split_string sep word (c # s) =
     (case after_prefix sep (c # s) of
        None \<Rightarrow> split_string sep (word @ [c]) s
      | Some r \<Rightarrow> if sep = [] then split_string sep (word @ [c]) s else word # split_string sep [] r)"
  by pat_completeness auto
termination
  by (relation "measure (\<lambda>(sep, word, s). length s)") (auto dest: after_prefix_length)

definition go_SplitString :: "string \<Rightarrow> string \<Rightarrow> string list" where
  "go_SplitString s sep = split_string sep [] s"

fun go_Join :: "string list \<Rightarrow> string \<Rightarrow> string" where
  "go_Join [] sep = []"
| "go_Join [w] sep = w"
| "go_Join (w # ws) sep = w @ sep @ go_Join ws sep"

text \<open>Decimal numbers: \<open>%d\<close> and \<open>strconv.Itoa\<close>.\<close>

fun dec :: "nat \<Rightarrow> string" where
  "dec n = (if n < 10 then [''0123456789'' ! n] else dec (n div 10) @ [''0123456789'' ! (n mod 10)])"

declare dec.simps [simp del]

definition go_Quote :: "string \<Rightarrow> string" where
  "go_Quote s = [CHR 0x22] @ concat (map (\<lambda>c. if c = CHR 0x22 \<or> c = CHR 0x5C then [CHR 0x5C, c] else [c]) s) @ [CHR 0x22]"

text \<open>\<open>strconv.ParseUint(s, 10, bits)\<close>: at least one digit, nothing else, and within the width.\<close>

definition ParseUint :: "string \<Rightarrow> nat \<Rightarrow> uint64 result" where
  "ParseUint s bits =
     (case (if s = [] then None else digits_value 0 s) of
        None \<Rightarrow> Inl (''strconv.ParseUint: parsing '' @ go_Quote s @ '': invalid syntax'')
      | Some n \<Rightarrow>
          if 2 ^ bits \<le> n then Inl (''strconv.ParseUint: parsing '' @ go_Quote s @ '': value out of range'')
          else Inr (word_of_int n))"

section \<open>Attributes\<close>

text \<open>Each attribute is one byte; its \<open>toProto\<close> is its place in a table, 0 when it is not there.\<close>

definition IndexByte :: "string \<Rightarrow> char \<Rightarrow> nat option" where
  "IndexByte b c = (let n = length (takeWhile (\<lambda>d. d \<noteq> c) b) in if n < length b then Some n else None)"

definition to_proto :: "string \<Rightarrow> char \<Rightarrow> nat" where
  "to_proto keys t = (case IndexByte keys t of None \<Rightarrow> 0 | Some idx \<Rightarrow> idx + 1)"

definition volumeTypeKeys :: string where "volumeTypeKeys = ''mMoOrRsSpviIlcVtTe''"
definition volumePermissonsKeys :: string where "volumePermissonsKeys = ''wrR''"
definition volumeAllocationKeys :: string where "volumeAllocationKeys = ''acilnACILN''"
definition volumeStateKeys :: string where "volumeStateKeys = ''asISmMdi''"
definition volumeTargetTypeKeys :: string where "volumeTargetTypeKeys = ''mrstuv''"

definition VolumeType_toProto :: "char \<Rightarrow> nat" where "VolumeType_toProto t = to_proto volumeTypeKeys t"
definition VolumePermissions_toProto :: "char \<Rightarrow> nat" where "VolumePermissions_toProto t = to_proto volumePermissonsKeys t"
definition VolumeAllocation_toProto :: "char \<Rightarrow> nat" where "VolumeAllocation_toProto t = to_proto volumeAllocationKeys t"
definition VolumeFixedMinor_toProto :: "char \<Rightarrow> bool" where "VolumeFixedMinor_toProto t = (t = CHR ''m'')"
definition VolumeState_toProto :: "char \<Rightarrow> nat" where "VolumeState_toProto t = to_proto volumeStateKeys t"
definition VolumeOpen_toProto :: "char \<Rightarrow> bool" where "VolumeOpen_toProto t = (t = CHR ''o'')"
definition VolumeTargetType_toProto :: "char \<Rightarrow> nat" where "VolumeTargetType_toProto t = to_proto volumeTargetTypeKeys t"
definition VolumeZeroing_toProto :: "char \<Rightarrow> bool" where "VolumeZeroing_toProto t = (t = CHR ''z'')"

text \<open>The health is looked up in the table of target types.\<close>

definition VolumeHealth_toProto :: "char \<Rightarrow> nat" where "VolumeHealth_toProto t = to_proto volumeTargetTypeKeys t"

definition VolumeActivationSkipped_toProto :: "char \<Rightarrow> bool" where
  "VolumeActivationSkipped_toProto t = (t = CHR ''s'')"

record LVAttributes =
  at_Type :: char
  at_Permissions :: char
  at_Allocation :: char
  at_FixedMinor :: char
  at_State :: char
  at_Open :: char
  at_TargetType :: char
  at_Zeroing :: char
  at_Health :: char
  at_ActivationSkipped :: char

record proto_attributes =
  proto_Type :: nat
  proto_Permissions :: nat
  proto_Allocation :: nat
  proto_FixedMinor :: bool
  proto_State :: nat
  proto_Open :: bool
  proto_TargetType :: nat
  proto_Zeroing :: bool
  proto_Health :: nat
  proto_ActivationSkipped :: bool

definition attributes_ToProto :: "LVAttributes \<Rightarrow> proto_attributes" where
  "attributes_ToProto a =
     \<lparr>proto_Type = VolumeType_toProto (at_Type a), proto_Permissions = VolumePermissions_toProto (at_Permissions a),
      proto_Allocation = VolumeAllocation_toProto (at_Allocation a), proto_FixedMinor = VolumeFixedMinor_toProto (at_FixedMinor a),
      proto_State = VolumeState_toProto (at_State a), proto_Open = VolumeOpen_toProto (at_Open a),
      proto_TargetType = VolumeTargetType_toProto (at_TargetType a), proto_Zeroing = VolumeZeroing_toProto (at_Zeroing a),
      proto_Health = VolumeHealth_toProto (at_Health a),
      proto_ActivationSkipped = VolumeActivationSkipped_toProto (at_ActivationSkipped a)\<rparr>"

section \<open>Volumes and groups\<close>

record LV =
  lv_Name :: string
  lv_Size :: uint64
  lv_UUID :: string
  lv_Attributes :: LVAttributes
  lv_CopyPercent :: string
  lv_ActualDevMajNumber :: "32 word"
  lv_ActualDevMinNumber :: "32 word"
  lv_Tags :: "string list"

record VG =
  lvg_Name :: string
  lvg_Size :: uint64
  lvg_FreeSize :: uint64
  lvg_UUID :: string
  lvg_Tags :: "string list"
  lvg_PvCount :: uint64

record PhysicalVolume =
  lpv_Name :: string
  lpv_Size :: uint64
  lpv_FreeSize :: uint64
  lpv_UUID :: string
  lpv_Tags :: "string list"
  lpv_VgName :: string

record LogicalVolume =
  proto_Name :: string
  proto_Size :: uint64
  proto_Uuid :: string
  proto_Attributes :: proto_attributes
  proto_CopyPercent :: string
  proto_ActualDevMajorNumber :: "32 word"
  proto_ActualDevMinorNumber :: "32 word"
  proto_Tags :: "string list"

definition lv_ToProto :: "LV \<Rightarrow> LogicalVolume" where
  "lv_ToProto lv =
     \<lparr>proto_Name = lv_Name lv, proto_Size = lv_Size lv, proto_Uuid = lv_UUID lv,
      proto_Attributes = attributes_ToProto (lv_Attributes lv), proto_CopyPercent = lv_CopyPercent lv,
      proto_ActualDevMajorNumber = lv_ActualDevMajNumber lv,
      proto_ActualDevMinorNumber = lv_ActualDevMinNumber lv, proto_Tags = lv_Tags lv\<rparr>"

section \<open>Parsing\<close>

definition Separator :: string where "Separator = ''<:SEP:>''"

text \<open>One component \<open>NAME='value'\<close>.\<close>

definition parse_component :: "string \<Rightarrow> (string \<times> string) result" where
  "parse_component c =
     (let failed = Inl (''failed to parse component '' @ [CHR 0x27] @ c @ [CHR 0x27])
      in if CHR ''='' \<notin> set c then failed
         else (let (key, value) = split_eq c
               in if length value < 2 then failed
                  else if hd value \<noteq> CHR 0x27 \<or> last value \<noteq> CHR 0x27 then failed
                  else Inr (key, butlast (tl value))))"

fun parse_components :: "string list \<Rightarrow> string gomap \<Rightarrow> string gomap result" where
  "parse_components [] flds = Inr flds"
| "parse_components (c # cs) flds =
     (case parse_component c of
        Inl err \<Rightarrow> Inl err
      | Inr (key, value) \<Rightarrow> parse_components cs (AList.update key value flds))"

definition parse :: "string \<Rightarrow> nat \<Rightarrow> string gomap result" where
  "parse line numComponents =
     (let components = go_SplitString line Separator
      in if length components \<noteq> numComponents
         then Inl (''expected '' @ dec numComponents @ '' components, got '' @ dec (length components))
         else parse_components components [])"

definition parseAttrs :: "string \<Rightarrow> LVAttributes result" where
  "parseAttrs attrs =
     (if length attrs \<noteq> 10
      then Inl (''incorrect attrs block size, expected 10, got '' @ dec (length attrs) @ '' in '' @ attrs)
      else Inr \<lparr>at_Type = attrs ! 0, at_Permissions = attrs ! 1, at_Allocation = attrs ! 2, at_FixedMinor = attrs ! 3,
                at_State = attrs ! 4, at_Open = attrs ! 5, at_TargetType = attrs ! 6, at_Zeroing = attrs ! 7,
                at_Health = attrs ! 8, at_ActivationSkipped = attrs ! 9\<rparr>)"

definition ParseLV :: "string \<Rightarrow> LV result" where
  "ParseLV line =
     (case parse line 8 of
        Inl err \<Rightarrow> Inl err
      | Inr flds \<Rightarrow>
          (case ParseUint (str_at flds ''LVM2_LV_SIZE'') 64 of
             Inl err \<Rightarrow> Inl err
           | Inr sz \<Rightarrow>
               (case ParseUint (str_at flds ''LVM2_LV_KERNEL_MAJOR'') 32 of
                  Inl err \<Rightarrow> Inl err
                | Inr kernelMajNumber \<Rightarrow>
                    (case ParseUint (str_at flds ''LVM2_LV_KERNEL_MINOR'') 32 of
                       Inl err \<Rightarrow> Inl err
                     | Inr kernelMinNumber \<Rightarrow>
                         (case parseAttrs (str_at flds ''LVM2_LV_ATTR'') of
                            Inl err \<Rightarrow> Inl err
                          | Inr attrs \<Rightarrow>
                              Inr \<lparr>lv_Name = str_at flds ''LVM2_LV_NAME'', lv_Size = sz,
                                   lv_UUID = str_at flds ''LVM2_LV_UUID'', lv_Attributes = attrs,
                                   lv_CopyPercent = str_at flds ''LVM2_COPY_PERCENT'',
                                   lv_ActualDevMajNumber = ucast kernelMajNumber,
                                   lv_ActualDevMinNumber = ucast kernelMinNumber,
                                   lv_Tags = go_Split (CHR '','') (str_at flds ''LVM2_LV_TAGS'')\<rparr>)))))"

definition ParseVG :: "string \<Rightarrow> VG result" where
  "ParseVG line =
     (case parse line 6 of
        Inl err \<Rightarrow> Inl err
      | Inr flds \<Rightarrow>
          (case ParseUint (str_at flds ''LVM2_VG_SIZE'') 64 of
             Inl err \<Rightarrow> Inl err
           | Inr sz \<Rightarrow>
               (case ParseUint (str_at flds ''LVM2_VG_FREE'') 64 of
                  Inl err \<Rightarrow> Inl err
                | Inr freeSize \<Rightarrow>
                    (case ParseUint (str_at flds ''LVM2_PV_COUNT'') 64 of
                       Inl err \<Rightarrow> Inl err
                     | Inr pvCount \<Rightarrow>
                         Inr \<lparr>lvg_Name = str_at flds ''LVM2_VG_NAME'', lvg_Size = sz, lvg_FreeSize = freeSize,
                              lvg_UUID = str_at flds ''LVM2_VG_UUID'',
                              lvg_Tags = go_Split (CHR '','') (str_at flds ''LVM2_VG_TAGS''),
                              lvg_PvCount = pvCount\<rparr>))))"

definition ParsePV :: "string \<Rightarrow> PhysicalVolume result" where
  "ParsePV line =
     (case parse line 6 of
        Inl err \<Rightarrow> Inl err
      | Inr flds \<Rightarrow>
          (case ParseUint (str_at flds ''LVM2_PV_SIZE'') 64 of
             Inl err \<Rightarrow> Inl err
           | Inr sz \<Rightarrow>
               (case ParseUint (str_at flds ''LVM2_PV_FREE'') 64 of
                  Inl err \<Rightarrow> Inl err
                | Inr freeSize \<Rightarrow>
                    Inr \<lparr>lpv_Name = str_at flds ''LVM2_PV_NAME'', lpv_Size = sz, lpv_FreeSize = freeSize,
                         lpv_UUID = str_at flds ''LVM2_PV_UUID'',
                         lpv_Tags = go_Split (CHR '','') (str_at flds ''LVM2_PV_TAGS''),
                         lpv_VgName = str_at flds ''LVM2_VG_NAME''\<rparr>)))"

end
