(* ===== verification/Lvm_Commands.thy ===== *)
theory Lvm_Commands
  imports Lvm_Parser Local_Utils "HOL-Library.State_Monad"
begin

text \<open>
  The LVM daemon of a node, \<open>pkg/csi/server/lvm_commands.go\<close>: every operation is a sequence of shell
  commands whose output decides how it goes on. The machine is a parameter, the record \<open>host\<close>: what a
  command prints and whether it fails may depend on everything that was done before. An operation is a
  state transformer on the list of actions done so far, so that what it does to the machine can be read
  off that list. The commands of project quotas, which parse a CSV report and hash with SHA-256, are not
  modelled.
\<close>

section \<open>The machine\<close>

text \<open>What the daemon, and the CSI node service on the same machine, do.\<close>

datatype action =
    Sh string \<comment> \<open>\<open>sh -c\<close>\<close>
  | MkdirAll string
  | RemoveAll string
  | ReadDir string
  | Stat string
  | BackupData string string string \<comment> \<open>restic: repository, directory, tag\<close>
  | RestoreData string string string
  | Remove string
  | WriteFile string
  | Rdev string \<comment> \<open>\<open>stat\<close> for the device number\<close>
  | FindDevice string \<comment> \<open>a search in \<open>/sys\<close> or \<open>/dev\<close>\<close>
  | IsBlockDevice string
  | EnsureBlock string
  | MountBlock string string "string list"
  | IsLikelyNotMountPoint string
  | IsNotMountPoint string
  | FormatAndMount string string string "string list" \<comment> \<open>device, target, type, options\<close>
  | Mount string string string "string list"
  | CleanupMountPoint string
  | ResizeFS string string
  | DirectAdd string string string \<comment> \<open>Kata: path, device, type\<close>
  | DirectRemove string
  | DiskFormat string
  | SaveVolumes "(string \<times> string) list"
  | Dial \<comment> \<open>a connection to the SPDK process\<close>
  | Rpc string "(string \<times> string) list"
  | Exec string "string list" \<comment> \<open>a program with its arguments, no shell\<close>

record host =
  sh_exec :: "action list \<Rightarrow> string \<Rightarrow> string \<times> string option" \<comment> \<open>output, error\<close>
  mkdir_all :: "action list \<Rightarrow> string \<Rightarrow> string option"
  remove_all :: "action list \<Rightarrow> string \<Rightarrow> string option"
  read_dir :: "action list \<Rightarrow> string \<Rightarrow> string list result"
  stat_path :: "action list \<Rightarrow> string \<Rightarrow> string option"
  new_restic :: "action list \<Rightarrow> string option" \<comment> \<open>\<open>NewResticClient\<close> asks for the cluster's id\<close>
  backup_data :: "action list \<Rightarrow> string \<Rightarrow> string \<Rightarrow> string \<Rightarrow> int64 result"

type_synonym 'a io = "(action list, 'a) state"

abbreviation ret :: "'a \<Rightarrow> 'a io" where "ret \<equiv> State_Monad.return"

text \<open>An action and its result, which may depend on what was done before it.\<close>

definition act :: "action \<Rightarrow> (action list \<Rightarrow> 'a) \<Rightarrow> 'a io" where
  "act a r = State (\<lambda>log. (r log, log @ [a]))"

text \<open>\<open>x, err := m; if err != nil { return ..., wrap(err) }\<close>.\<close>

definition attempt :: "(string \<Rightarrow> string) \<Rightarrow> 'a result io \<Rightarrow> ('a \<Rightarrow> 'b result io) \<Rightarrow> 'b result io" where
  "attempt wrap m k =
     State_Monad.bind m (\<lambda>r. case r of Inl err \<Rightarrow> ret (Inl (wrap err)) | Inr x \<Rightarrow> k x)"

definition Run :: "host \<Rightarrow> string \<Rightarrow> string result io" where
  "Run H cmd =
     act (Sh cmd) (\<lambda>log. case sh_exec H log cmd of
         (out, Some err) \<Rightarrow> Inl (''Failed to run cmd: '' @ cmd @ '', with out: '' @ out @ '', with error: '' @ err)
       | (out, None) \<Rightarrow> Inr out)"

definition NsenterCmd :: string where
  "NsenterCmd = ''nsenter --mount=/proc/1/ns/mnt --ipc=/proc/1/ns/ipc --net=/proc/1/ns/net --uts=/proc/1/ns/uts ''"

text \<open>The arguments joined by blanks.\<close>

definition shell :: "string list \<Rightarrow> string" where
  "shell args = go_Join (NsenterCmd # args) '' ''"

section \<open>Listing\<close>

definition is_space :: "char \<Rightarrow> bool" where
  "is_space c \<longleftrightarrow> c \<in> {CHR '' '', CHR 0x09, CHR 0x0A, CHR 0x0B, CHR 0x0C, CHR 0x0D}"

definition TrimSpace :: "string \<Rightarrow> string" where
  "TrimSpace s = rev (dropWhile is_space (rev (dropWhile is_space s)))"

definition report_args :: "string \<Rightarrow> string \<Rightarrow> string list" where
  "report_args tool flds =
     [tool, ''--units=b'', ''--separator='' @ [CHR 0x22] @ Separator @ [CHR 0x22], ''--nosuffix'', ''--noheadings'',
      ''-o'', flds]"

definition lvs_command :: "string \<Rightarrow> string" where
  "lvs_command listspec =
     shell (report_args ''lvs'' ''lv_name,lv_size,lv_uuid,lv_attr,copy_percent,lv_kernel_major,lv_kernel_minor,lv_tags'' @
       [''--nameprefixes'', ''-a'', listspec])"

fun ListLV_loop :: "string list \<Rightarrow> LV list \<Rightarrow> LV list result" where
  "ListLV_loop [] lvs = Inr lvs"
| "ListLV_loop (line # outLines) lvs =
     (let line = TrimSpace line
      in if \<not> go_Contains line ''LVM2_LV_NAME'' then ListLV_loop outLines lvs
         else (case ParseLV line of
                 Inl err \<Rightarrow> Inl (''Parse LVM: '' @ line @ '', with error: '' @ err)
               | Inr lv \<Rightarrow> ListLV_loop outLines (lvs @ [lv])))"

definition ListLV :: "host \<Rightarrow> string \<Rightarrow> LV list result io" where
  "ListLV H listspec =
     State_Monad.bind (Run H (lvs_command listspec)) (\<lambda>r. ret (case r of
         Inl err \<Rightarrow> if go_Contains err ''Failed to find logical volume'' then Inr [] else Inl (err @ '','')
       | Inr out \<Rightarrow> ListLV_loop (go_Split (CHR 0x0A) (TrimSpace out)) []))"

definition vgs_command :: string where
  "vgs_command = shell (report_args ''vgs'' ''vg_name,vg_size,vg_free,vg_uuid,vg_tags,pv_count'' @ [''--nameprefixes'', ''-a''])"

fun parse_lines :: "(string \<Rightarrow> 'a result) \<Rightarrow> string list \<Rightarrow> 'a list result" where
  "parse_lines f [] = Inr []"
| "parse_lines f (line # outLines) =
     (case f (TrimSpace line) of
        Inl err \<Rightarrow> Inl err
      | Inr x \<Rightarrow> (case parse_lines f outLines of Inl err \<Rightarrow> Inl err | Inr xs \<Rightarrow> Inr (x # xs)))"

definition ListVG :: "host \<Rightarrow> VG list result io" where
  "ListVG H =
     attempt (\<lambda>err. err @ '','') (Run H vgs_command)
       (\<lambda>out. ret (parse_lines ParseVG (go_Split (CHR 0x0A) (TrimSpace out))))"

definition pvs_command :: "string \<Rightarrow> string" where
  "pvs_command vgName =
     shell (report_args ''pvs'' ''pv_name,pv_size,pv_free,pv_uuid,pv_tags,vg_name'' @
       [''-S'', ''vg_name='' @ vgName, ''--nameprefixes'', ''-a''])"

definition ListPV :: "host \<Rightarrow> string \<Rightarrow> PhysicalVolume list result io" where
  "ListPV H vgName =
     attempt (\<lambda>err. err @ '','') (Run H (pvs_command vgName))
       (\<lambda>out. ret (parse_lines ParsePV (go_Split (CHR 0x0A) (TrimSpace out))))"

section \<open>Striping\<close>

text \<open>
  One pass of the loop over \<open>pvs\<close>, which deletes from the slice it ranges over. \<open>arr\<close> is the array behind
  the slice, of which the first \<open>n\<close> elements are the slice; the loop visits every element of the array.
  \<open>pvs[num+1:]\<close> panics when \<open>num+1\<close> is beyond the slice: \<open>None\<close>.
\<close>

function drop_small :: "uint64 \<Rightarrow> nat \<Rightarrow> PhysicalVolume list \<Rightarrow> nat \<Rightarrow> (PhysicalVolume list \<times> nat) option" where
  "drop_small avg num arr n =
     (if length arr \<le> num then Some (arr, n)
      else if lpv_FreeSize (arr ! num) < avg
      then (if n < num + 1 then None
            else drop_small avg (num + 1) (take num arr @ drop (num + 1) (take n arr) @ drop (n - 1) arr) (n - 1))
      else drop_small avg (num + 1) arr n)"
  by pat_completeness auto
termination
  by (relation "measure (\<lambda>(avg, num, arr, n). length arr - num)") auto

declare drop_small.simps [simp del]

lemma drop_small_shrinks: "drop_small avg num arr n = Some (arr', n') \<Longrightarrow> n' \<le> n"
  by (induction avg num arr n rule: drop_small.induct) (subst (asm) (2) drop_small.simps, fastforce split: if_splits)

function required_loop :: "uint64 \<Rightarrow> PhysicalVolume list \<Rightarrow> nat option" where
  "required_loop lvSize pvs =
     (if length pvs = 0 then Some 0
      else (case drop_small (lvSize div word_of_nat (length pvs)) 0 pvs (length pvs) of
              None \<Rightarrow> None
            | Some (arr, n) \<Rightarrow> if length pvs \<le> n then Some n else required_loop lvSize (take n arr)))"
  by pat_completeness auto
termination
  by (relation "measure (\<lambda>(lvSize, pvs). length pvs)") auto

declare required_loop.simps [simp del]

text \<open>The result: an error, a panic, or the number of stripes.\<close>

definition getRequiredPVNumber :: "host \<Rightarrow> string \<Rightarrow> uint64 \<Rightarrow> nat option result io" where
  "getRequiredPVNumber H vgName lvSize =
     attempt (\<lambda>err. err) (ListPV H vgName) (\<lambda>pvs. ret (Inr (required_loop lvSize pvs)))"

section \<open>Logical volumes\<close>

text \<open>The inner \<open>None\<close> is the panic of \<open>getRequiredPVNumber\<close>.\<close>

definition CreateLV ::
  "host \<Rightarrow> string \<Rightarrow> string \<Rightarrow> uint64 \<Rightarrow> nat \<Rightarrow> string list \<Rightarrow> bool \<Rightarrow> string option result io" where
  "CreateLV H vg name sz mirrors tags striping =
     (if sz = 0 then ret (Inl ''size must be greater than 0'')
      else
        (let args = [''lvcreate'', ''-n'', name, ''-L'', dec (unat sz) @ ''b'', ''-W'', ''y'', ''-y''];
             args = (if mirrors > 0 then args @ [''-m'', dec mirrors, ''--nosync''] else args);
             args = args @ concat (map (\<lambda>tag. [''--add-tag'', tag]) tags);
             run = (\<lambda>args. attempt (\<lambda>err. err) (Run H (shell (args @ [vg]))) (\<lambda>out. ret (Inr (Some out))))
         in if striping
            then attempt (\<lambda>err. err) (getRequiredPVNumber H vg sz)
                   (\<lambda>r. case r of
                      None \<Rightarrow> ret (Inr None)
                    | Some pvCount \<Rightarrow>
                        if pvCount = 0
                        then ret (Inl ''could not create `striping` logical volume, not enough space'')
                        else run (args @ [''-i'', dec pvCount]))
            else run args))"

definition ProtectedTagName :: string where "ProtectedTagName = ''protected''"

definition origin_command :: "string \<Rightarrow> string \<Rightarrow> string" where
  "origin_command vg name =
     shell [''lvs'', ''-o'', ''lv_name,vg_name,origin'', ''-S'', ''origin='' @ name @ '',vg_name='' @ vg,
            ''--noheadings'', ''--nosuffix'']"

definition lvremove_command :: "string \<Rightarrow> string \<Rightarrow> string" where
  "lvremove_command vg name = shell [''lvremove'', ''-v'', ''-f'', GetNameKey vg name]"

definition not_exist :: "string \<Rightarrow> string \<Rightarrow> string" where
  "not_exist vg name = ''lvm '' @ vg @ ''/'' @ name @ '' is not exist, skip remove''"

definition RemoveLV :: "host \<Rightarrow> string \<Rightarrow> string \<Rightarrow> string result io" where
  "RemoveLV H vg name =
     attempt (\<lambda>err. ''failed to list LVs: '' @ err) (ListLV H (GetNameKey vg name))
       (\<lambda>lvs. if length lvs = 0 then ret (Inr (not_exist vg name))
              else if length lvs \<noteq> 1 then ret (Inl (''expected 1 LV, got '' @ dec (length lvs)))
              else if ProtectedTagName \<in> set (lv_Tags (hd lvs)) then ret (Inl ''volume is protected'')
              else attempt (\<lambda>err. err) (Run H (origin_command vg name))
                     (\<lambda>out. if go_Contains out name
                            then ret (Inl (''logical volume '' @ GetNameKey vg name @
                                           '' has snapshot, please remove snapshot first''))
                            else Run H (lvremove_command vg name)))"

definition CloneLV :: "host \<Rightarrow> string \<Rightarrow> string \<Rightarrow> string result io" where
  "CloneLV H src dest = Run H (shell [''dd'', ''if='' @ src, ''of='' @ dest, ''bs=4M''])"

definition ExpandLV :: "host \<Rightarrow> string \<Rightarrow> string \<Rightarrow> uint64 \<Rightarrow> string result io" where
  "ExpandLV H vgName volumeId expectSize =
     Run H (NsenterCmd @ '' lvextend -L'' @ dec (unat expectSize) @ ''B '' @ GetNameKey vgName volumeId)"

definition tag_command :: "string \<Rightarrow> string \<Rightarrow> string \<Rightarrow> string list \<Rightarrow> string" where
  "tag_command flag vg name tags =
     shell ([''lvchange''] @ concat (map (\<lambda>tag. [flag, tag]) tags) @ [GetNameKey vg name])"

definition change_tags :: "string \<Rightarrow> host \<Rightarrow> string \<Rightarrow> string \<Rightarrow> string list \<Rightarrow> string result io" where
  "change_tags flag H vg name tags =
     attempt (\<lambda>err. ''failed to list LVs: '' @ err) (ListLV H (GetNameKey vg name))
       (\<lambda>lvs. if length lvs \<noteq> 1 then ret (Inl (''expected 1 LV, got '' @ dec (length lvs)))
              else Run H (tag_command flag vg name tags))"

definition AddTagLV :: "host \<Rightarrow> string \<Rightarrow> string \<Rightarrow> string list \<Rightarrow> string result io" where
  "AddTagLV H vg name tags = change_tags ''--addtag'' H vg name tags"

definition RemoveTagLV :: "host \<Rightarrow> string \<Rightarrow> string \<Rightarrow> string list \<Rightarrow> string result io" where
  "RemoveTagLV H vg name tags = change_tags ''--deltag'' H vg name tags"

section \<open>Volume groups\<close>

definition CreateVG :: "host \<Rightarrow> string \<Rightarrow> string \<Rightarrow> string list \<Rightarrow> string result io" where
  "CreateVG H name physicalVolume tags =
     Run H (shell ([''vgcreate'', name, physicalVolume, ''-v''] @ concat (map (\<lambda>tag. [''--add-tag'', tag]) tags)))"

definition RemoveVG :: "host \<Rightarrow> string \<Rightarrow> string result io" where
  "RemoveVG H name =
     attempt (\<lambda>err. ''failed to list VGs: '' @ err) (ListVG H)
       (\<lambda>vgs. case find (\<lambda>v. lvg_Name v = name) vgs of
          None \<Rightarrow> ret (Inl ''could not find vg to delete'')
        | Some vg \<Rightarrow>
            if ProtectedTagName \<in> set (lvg_Tags vg) then ret (Inl ''volume is protected'')
            else Run H (shell [''vgremove'', ''-v'', ''-f'', name]))"

definition CreateNameSpace :: "host \<Rightarrow> string \<Rightarrow> string \<Rightarrow> uint64 \<Rightarrow> string result io" where
  "CreateNameSpace H region name sz =
     (if sz = 0 then ret (Inl ''size must be greater than 0'')
      else Run H (shell [''ndctl'', ''create-namespace'', ''-r'', region, ''-s'', dec (unat sz), ''-n'', name]))"

section \<open>Snapshots\<close>

definition snapshot_command :: "string \<Rightarrow> string \<Rightarrow> string \<Rightarrow> string \<Rightarrow> string" where
  "snapshot_command vgName snapshotName srcVolumeName sz =
     shell [''lvcreate'', ''-s'', ''-n'', snapshotName, ''-L'', sz, GetNameKey vgName srcVolumeName, ''-y'']"

definition temp_dir :: "string \<Rightarrow> string" where
  "temp_dir snapshotName = ''/mnt/'' @ snapshotName"

definition mount_command :: "string \<Rightarrow> string \<Rightarrow> string" where
  "mount_command vgName snapshotName =
     go_Join [''mount'', ''/dev/'' @ vgName @ ''/'' @ snapshotName, temp_dir snapshotName] '' ''"

definition umount_command :: "string \<Rightarrow> string" where
  "umount_command snapshotName = go_Join [''umount'', temp_dir snapshotName] '' ''"

text \<open>\<open>m\<close>, then a deferred action whose error is only logged.\<close>

definition deferred :: "'a io \<Rightarrow> 'b io \<Rightarrow> 'a io" where
  "deferred m d = State_Monad.bind m (\<lambda>r. State_Monad.bind d (\<lambda>_. ret r))"

definition os_MkdirAll :: "host \<Rightarrow> string \<Rightarrow> unit result io" where
  "os_MkdirAll H path = act (MkdirAll path) (\<lambda>log. case mkdir_all H log path of Some err \<Rightarrow> Inl err | None \<Rightarrow> Inr ())"

definition os_RemoveAll :: "host \<Rightarrow> string \<Rightarrow> unit result io" where
  "os_RemoveAll H path = act (RemoveAll path) (\<lambda>log. case remove_all H log path of Some err \<Rightarrow> Inl err | None \<Rightarrow> Inr ())"

definition NewResticClient :: "host \<Rightarrow> unit result io" where
  "NewResticClient H = State (\<lambda>log. (case new_restic H log of Some err \<Rightarrow> Inl err | None \<Rightarrow> Inr (), log))"

definition restic_backup :: "host \<Rightarrow> string \<Rightarrow> string \<Rightarrow> string \<Rightarrow> int64 result io" where
  "restic_backup H repository path tag =
     act (BackupData repository path tag) (\<lambda>log. backup_data H log repository path tag)"

definition backup_snapshot ::
  "host \<Rightarrow> string \<Rightarrow> string \<Rightarrow> string \<Rightarrow> string gomap \<Rightarrow> int64 result io" where
  "backup_snapshot H snapshotName srcVolumeName tempDir secrets =
     (if \<not> (map_of secrets ''s3URL'' \<noteq> None \<and> map_of secrets ''s3AK'' \<noteq> None \<and> map_of secrets ''s3SK'' \<noteq> None)
      then ret (Inl ''secret is not valid when creating snapshot'')
      else attempt (\<lambda>err. err) (NewResticClient H)
             (\<lambda>_. attempt (\<lambda>err. ''fail to backup data: '' @ err) (restic_backup H srcVolumeName tempDir snapshotName)
                (\<lambda>sizeBytes. ret (Inr 0))))"

definition CreateSnapshot ::
  "host \<Rightarrow> string \<Rightarrow> string \<Rightarrow> string \<Rightarrow> bool \<Rightarrow> int64 \<Rightarrow> string gomap \<Rightarrow> int64 result io" where
  "CreateSnapshot H vgName snapshotName srcVolumeName readonly roInitSize secrets =
     (if readonly
      then attempt (\<lambda>err. err)
             (Run H (snapshot_command vgName snapshotName srcVolumeName
                ((if roInitSize <s 0 then ''-'' @ dec (nat (- sint roInitSize)) else dec (nat (sint roInitSize))) @ ''b'')))
             (\<lambda>_. ret (Inr 0))
      else
        (let cmd = snapshot_command vgName snapshotName srcVolumeName ''4G'';
             tempDir = temp_dir snapshotName;
             mount = mount_command vgName snapshotName
         in attempt (\<lambda>err. ''fail to run cmd '' @ cmd @ '': '' @ err @ '', '') (Run H cmd)
              (\<lambda>_. deferred
                 (attempt (\<lambda>err. ''fail to create temp dir '' @ tempDir @ '': '' @ err) (os_MkdirAll H tempDir)
                    (\<lambda>_. deferred
                       (attempt (\<lambda>err. ''fail to run cmd '' @ mount @ '': '' @ err @ '','') (Run H mount)
                          (\<lambda>_. deferred (backup_snapshot H snapshotName srcVolumeName tempDir secrets)
                                 (Run H (umount_command snapshotName))))
                       (os_RemoveAll H tempDir)))
                 (Run H (lvremove_command vgName snapshotName)))))"

definition RemoveSnapshot :: "host \<Rightarrow> string \<Rightarrow> string \<Rightarrow> bool \<Rightarrow> string result io" where
  "RemoveSnapshot H vg name readonly =
     (if readonly
      then attempt (\<lambda>err. ''failed to list LVs: '' @ err) (ListLV H (GetNameKey vg name))
             (\<lambda>lvs. if length lvs = 0 then ret (Inr (not_exist vg name))
                    else if length lvs \<noteq> 1 then ret (Inl (''expected 1 LV, got '' @ dec (length lvs)))
                    else attempt (\<lambda>err. err) (Run H (lvremove_command vg name)) (\<lambda>_. ret (Inr [])))
      else ret (Inr []))"

section \<open>Cleaning\<close>

fun remove_files :: "host \<Rightarrow> string \<Rightarrow> string list \<Rightarrow> string list \<Rightarrow> string list io" where
  "remove_files H path [] errList = ret errList"
| "remove_files H path (file # files) errList =
     State_Monad.bind (os_RemoveAll H (path @ ''/'' @ file)) (\<lambda>r.
       remove_files H path files (case r of Inl err \<Rightarrow> errList @ [err] | Inr _ \<Rightarrow> errList))"

definition CleanPath :: "host \<Rightarrow> string \<Rightarrow> unit result io" where
  "CleanPath H path =
     attempt (\<lambda>err. err) (act (ReadDir path) (\<lambda>log. read_dir H log path))
       (\<lambda>files. State_Monad.bind (remove_files H path files [])
          (\<lambda>errList. ret (case errList of [] \<Rightarrow> Inr () | err # _ \<Rightarrow> Inl err)))"

definition CleanDevice :: "host \<Rightarrow> string \<Rightarrow> string result io" where
  "CleanDevice H device =
     attempt (\<lambda>err. err) (act (Stat device) (\<lambda>log. case stat_path H log device of Some err \<Rightarrow> Inl err | None \<Rightarrow> Inr ()))
       (\<lambda>_. Run H (shell [''wipefs'', ''-a'', device]))"

definition RemoveProjQuotaSubpath :: "host \<Rightarrow> string \<Rightarrow> string result io" where
  "RemoveProjQuotaSubpath H quotaSubpath =
     attempt (\<lambda>err. ''failed to remove proj quota subpath with error: '' @ err)
       (Run H (shell [''rm'', ''-rf'', quotaSubpath])) (\<lambda>out. ret (Inr out))"

end
