(* ===== verification/Lvm_Server.thy ===== *)
theory Lvm_Server
  imports Lvm_Commands
begin

text \<open>
  The LVM daemon's remote interface: the handlers of \<open>pkg/csi/server/routers.go\<close>, which turn an error of a
  command into a gRPC status, and the connection of \<open>pkg/csi/client/grpc.go\<close> through which the CSI
  controller calls them. A panic of a handler ends the daemon; the caller sees the connection break.
\<close>

section \<open>Statuses\<close>

datatype grpc_code = InvalidArgument | ResourceExhausted | Aborted | Unimplemented | Internal | Unavailable | Unknown

fun code_String :: "grpc_code \<Rightarrow> string" where
  "code_String InvalidArgument = ''InvalidArgument''"
| "code_String ResourceExhausted = ''ResourceExhausted''"
| "code_String Aborted = ''Aborted''"
| "code_String Unimplemented = ''Unimplemented''"
| "code_String Internal = ''Internal''"
| "code_String Unavailable = ''Unavailable''"
| "code_String Unknown = ''Unknown''"

type_synonym grpc_status = "grpc_code \<times> string"

definition status_text :: "grpc_status \<Rightarrow> string" where
  "status_text st = ''rpc error: code = '' @ code_String (fst st) @ '' desc = '' @ snd st"

section \<open>Handlers\<close>

text \<open>A command, its error as a status, its result as a reply.\<close>

definition rpc :: "(string \<Rightarrow> string) \<Rightarrow> 'a result io \<Rightarrow> ('a \<Rightarrow> 'b) \<Rightarrow> (grpc_status + 'b) io" where
  "rpc desc m reply =
     State_Monad.bind m (\<lambda>r. ret (case r of Inl err \<Rightarrow> Inl (Internal, desc err) | Inr x \<Rightarrow> Inr (reply x)))"

record pb_VolumeGroup =
  pbvg_Name :: string
  pbvg_Size :: uint64
  pbvg_FreeSize :: uint64
  pbvg_Uuid :: string
  pbvg_Tags :: "string list"
  pbvg_PvCount :: uint64

definition vg_ToProto :: "VG \<Rightarrow> pb_VolumeGroup" where
  "vg_ToProto vg =
     \<lparr>pbvg_Name = lvg_Name vg, pbvg_Size = lvg_Size vg, pbvg_FreeSize = lvg_FreeSize vg, pbvg_Uuid = lvg_UUID vg,
      pbvg_Tags = lvg_Tags vg, pbvg_PvCount = lvg_PvCount vg\<rparr>"

definition Server_ListLV :: "host \<Rightarrow> string \<Rightarrow> (grpc_status + LogicalVolume list) io" where
  "Server_ListLV H volumeGroup = rpc (\<lambda>err. ''failed to list LVs: '' @ err) (ListLV H volumeGroup) (map lv_ToProto)"

definition Server_CreateLV ::
  "host \<Rightarrow> string \<Rightarrow> string \<Rightarrow> uint64 \<Rightarrow> nat \<Rightarrow> string list \<Rightarrow> bool \<Rightarrow> (grpc_status + string option) io" where
  "Server_CreateLV H vg name sz mirrors tags striping =
     rpc (\<lambda>err. ''failed to create lv: '' @ err) (CreateLV H vg name sz mirrors tags striping) (\<lambda>out. out)"

definition Server_RemoveLV :: "host \<Rightarrow> string \<Rightarrow> string \<Rightarrow> (grpc_status + string) io" where
  "Server_RemoveLV H vg name = rpc (\<lambda>err. ''failed to remove lv: '' @ err) (RemoveLV H vg name) (\<lambda>out. out)"

definition Server_CloneLV :: "host \<Rightarrow> string \<Rightarrow> string \<Rightarrow> (grpc_status + string) io" where
  "Server_CloneLV H src dest = rpc (\<lambda>err. ''failed to clone lv: '' @ err) (CloneLV H src dest) (\<lambda>out. out)"

definition Server_ExpandLV :: "host \<Rightarrow> string \<Rightarrow> string \<Rightarrow> uint64 \<Rightarrow> (grpc_status + string) io" where
  "Server_ExpandLV H vg name sz = rpc (\<lambda>err. ''failed to expand lv: '' @ err) (ExpandLV H vg name sz) (\<lambda>out. out)"

definition Server_ListVG :: "host \<Rightarrow> (grpc_status + pb_VolumeGroup list) io" where
  "Server_ListVG H = rpc (\<lambda>err. ''failed to list VGs: '' @ err) (ListVG H) (map vg_ToProto)"

definition Server_CreateSnapshot ::
  "host \<Rightarrow> string \<Rightarrow> string \<Rightarrow> string \<Rightarrow> bool \<Rightarrow> int64 \<Rightarrow> string gomap \<Rightarrow> (grpc_status + int64) io" where
  "Server_CreateSnapshot H vgName snapshotName srcVolumeName readonly roInitSize secrets =
     rpc (\<lambda>err. ''fail to create snapshot '' @ snapshotName @ '': '' @ err)
       (CreateSnapshot H vgName snapshotName srcVolumeName readonly roInitSize secrets) (\<lambda>sizeBytes. sizeBytes)"

definition Server_RemoveSnapshot :: "host \<Rightarrow> string \<Rightarrow> string \<Rightarrow> bool \<Rightarrow> (grpc_status + string) io" where
  "Server_RemoveSnapshot H vgName snapshotName readonly =
     rpc (\<lambda>err. ''RemoveSnapshot: remove snapshot with error: '' @ err)
       (RemoveSnapshot H vgName snapshotName readonly) (\<lambda>out. out)"

definition Server_CreateVG :: "host \<Rightarrow> string \<Rightarrow> string \<Rightarrow> string list \<Rightarrow> (grpc_status + string) io" where
  "Server_CreateVG H name physicalVolume tags =
     rpc (\<lambda>err. ''failed to create vg: '' @ err) (CreateVG H name physicalVolume tags) (\<lambda>out. out)"

definition Server_RemoveVG :: "host \<Rightarrow> string \<Rightarrow> (grpc_status + string) io" where
  "Server_RemoveVG H name = rpc (\<lambda>err. ''failed to remove vg: '' @ err) (RemoveVG H name) (\<lambda>out. out)"

definition Server_CleanPath :: "host \<Rightarrow> string \<Rightarrow> (grpc_status + string) io" where
  "Server_CleanPath H path =
     rpc (\<lambda>err. ''failed to remove vg: '' @ err) (CleanPath H path) (\<lambda>_. ''Successful remove path: '' @ path)"

definition Server_CleanDevice :: "host \<Rightarrow> string \<Rightarrow> (grpc_status + string) io" where
  "Server_CleanDevice H device =
     rpc (\<lambda>err. ''failed to clean device '' @ device @ '': '' @ err) (CleanDevice H device)
       (\<lambda>out. ''clean device '' @ device @ '' successfully with output: '' @ out)"

definition Server_AddTagLV :: "host \<Rightarrow> string \<Rightarrow> string \<Rightarrow> string list \<Rightarrow> (grpc_status + string) io" where
  "Server_AddTagLV H vg name tags =
     rpc (\<lambda>err. ''failed to add tags to lv: '' @ err) (AddTagLV H vg name tags) (\<lambda>out. out)"

definition Server_RemoveTagLV :: "host \<Rightarrow> string \<Rightarrow> string \<Rightarrow> string list \<Rightarrow> (grpc_status + string) io" where
  "Server_RemoveTagLV H vg name tags =
     rpc (\<lambda>err. ''failed to remove tags from lv: '' @ err) (RemoveTagLV H vg name tags) (\<lambda>out. out)"

section \<open>The connection\<close>

text \<open>The caller has the text of the status.\<close>

definition remote :: "(grpc_status + 'a) io \<Rightarrow> ('a \<Rightarrow> 'b) \<Rightarrow> 'b result io" where
  "remote m get = State_Monad.bind m (\<lambda>r. ret (case r of Inl st \<Rightarrow> Inl (status_text st) | Inr x \<Rightarrow> Inr (get x)))"

record LVMOptions =
  lo_VolumeGroup :: string
  lo_Name :: string
  lo_Size :: uint64
  lo_Tags :: "string list"
  lo_Striping :: bool

definition broken_connection :: grpc_status where
  "broken_connection = (Unavailable, ''error reading from server: EOF'')"

definition conn_CreateVolume :: "host \<Rightarrow> LVMOptions \<Rightarrow> string result io" where
  "conn_CreateVolume H opt =
     State_Monad.bind (Server_CreateLV H (lo_VolumeGroup opt) (lo_Name opt) (lo_Size opt) 0 (lo_Tags opt) (lo_Striping opt))
       (\<lambda>r. ret (case r of
          Inl st \<Rightarrow> Inl (status_text st)
        | Inr None \<Rightarrow> Inl (status_text broken_connection)
        | Inr (Some out) \<Rightarrow> Inr out))"

definition conn_CreateSnapshot ::
  "host \<Rightarrow> string \<Rightarrow> string \<Rightarrow> string \<Rightarrow> bool \<Rightarrow> int64 \<Rightarrow> string gomap \<Rightarrow> int64 result io" where
  "conn_CreateSnapshot H vgName snapshotName srcVolumeName readonly roInitSize secrets =
     attempt (\<lambda>err. ''fail to create snapshot: '' @ err)
       (remote (Server_CreateSnapshot H vgName snapshotName srcVolumeName readonly roInitSize secrets) (\<lambda>n. n))
       (\<lambda>n. ret (Inr n))"

definition conn_GetVolume :: "host \<Rightarrow> string \<Rightarrow> string \<Rightarrow> string result io" where
  "conn_GetVolume H volGroup volumeID =
     remote (Server_ListLV H (GetNameKey volGroup volumeID))
       (\<lambda>volumes. if list_ex (\<lambda>volume. proto_Name volume = volumeID) volumes then volumeID else [])"

definition conn_DeleteVolume :: "host \<Rightarrow> string \<Rightarrow> string \<Rightarrow> unit result io" where
  "conn_DeleteVolume H volGroup volumeID = remote (Server_RemoveLV H volGroup volumeID) (\<lambda>_. ())"

definition conn_DeleteSnapshot :: "host \<Rightarrow> string \<Rightarrow> string \<Rightarrow> bool \<Rightarrow> unit result io" where
  "conn_DeleteSnapshot H volGroup snapVolumeID readonly =
     remote (Server_RemoveSnapshot H volGroup snapVolumeID readonly) (\<lambda>_. ())"

definition conn_CleanPath :: "host \<Rightarrow> string \<Rightarrow> unit result io" where
  "conn_CleanPath H path = remote (Server_CleanPath H path) (\<lambda>_. ())"

definition conn_CleanDevice :: "host \<Rightarrow> string \<Rightarrow> unit result io" where
  "conn_CleanDevice H device = remote (Server_CleanDevice H device) (\<lambda>_. ())"

definition conn_ExpandVolume :: "host \<Rightarrow> string \<Rightarrow> string \<Rightarrow> uint64 \<Rightarrow> unit result io" where
  "conn_ExpandVolume H volGroup volumeID sz = remote (Server_ExpandLV H volGroup volumeID sz) (\<lambda>_. ())"

end
