(* ===== verification/Csi_State.thy ===== *)
theory Csi_State
  imports Lvm_Server Float64
begin

text \<open>
  What the CSI controller keeps and what it calls: the set of requests in flight (\<open>pkg/csi/inflight.go\<close>),
  the map from claims to the scheduler of their pod and the one from schedulers to their architecture
  (\<open>pkg/csi/type.go\<close>), the adapter that asks the extender (\<open>pkg/csi/adapter/adapter.go\<close>). The machines of the
  cluster, the listers, the extender's answers and restic are parameters, the record \<open>csi_env\<close>; a handler is a
  state transformer on the record \<open>world\<close>, which has, next to the controller's own state, the actions done on
  every machine.
\<close>

section \<open>Objects\<close>

datatype access_mode =
    UNKNOWN | SINGLE_NODE_WRITER | SINGLE_NODE_READER_ONLY | MULTI_NODE_READER_ONLY | MULTI_NODE_SINGLE_WRITER
  | MULTI_NODE_MULTI_WRITER | SINGLE_NODE_SINGLE_WRITER | SINGLE_NODE_MULTI_WRITER

fun mode_String :: "access_mode \<Rightarrow> string" where
  "mode_String UNKNOWN = ''UNKNOWN''"
| "mode_String SINGLE_NODE_WRITER = ''SINGLE_NODE_WRITER''"
| "mode_String SINGLE_NODE_READER_ONLY = ''SINGLE_NODE_READER_ONLY''"
| "mode_String MULTI_NODE_READER_ONLY = ''MULTI_NODE_READER_ONLY''"
| "mode_String MULTI_NODE_SINGLE_WRITER = ''MULTI_NODE_SINGLE_WRITER''"
| "mode_String MULTI_NODE_MULTI_WRITER = ''MULTI_NODE_MULTI_WRITER''"
| "mode_String SINGLE_NODE_SINGLE_WRITER = ''SINGLE_NODE_SINGLE_WRITER''"
| "mode_String SINGLE_NODE_MULTI_WRITER = ''SINGLE_NODE_MULTI_WRITER''"

text \<open>A capability is its \<open>AccessMode\<close>, which may be missing.\<close>

type_synonym VolumeCapability = "access_mode option"

definition GetMode :: "VolumeCapability \<Rightarrow> access_mode" where
  "GetMode c = (case c of None \<Rightarrow> UNKNOWN | Some m \<Rightarrow> m)"

record NodeObject =
  node_Name :: string
  node_Addresses :: "(string \<times> string) list" \<comment> \<open>type and address\<close>

record VolumeSnapshotContent =
  vsc_VolumeHandle :: "string option"
  vsc_ClassName :: "string option"

text \<open>\<open>BindingInfo\<close> of \<open>pkg/types.go\<close>.\<close>

record Binding =
  bi_Node :: string
  bi_Disk :: string
  bi_VgName :: string
  bi_Device :: string
  bi_VolumeType :: string
  bi_PersistentVolumeClaim :: string

text \<open>\<open>%v\<close> of a pointer to it.\<close>

definition print_Binding :: "Binding \<Rightarrow> string" where
  "print_Binding b =
     ''&{'' @ go_Join [bi_Node b, bi_Disk b, bi_VgName b, bi_Device b, bi_VolumeType b, bi_PersistentVolumeClaim b] '' '' @ ''}''"

section \<open>What the controller calls\<close>

record csi_env =
  csi_K :: kube
  node_get :: "string \<Rightarrow> NodeObject option"
  parse_ip :: "string \<Rightarrow> (string \<times> bool) option" \<comment> \<open>\<open>net.ParseIP\<close>: its text, whether it is an IPv4 address\<close>
  lvmd_port :: string
  use_node_hostname :: bool
  dial :: "string \<Rightarrow> string option" \<comment> \<open>the error of connecting to an address\<close>
  host_at :: "string \<Rightarrow> host" \<comment> \<open>the machine at an address\<close>
  http_get :: "string list \<Rightarrow> string \<Rightarrow> string result" \<comment> \<open>earlier requests, url\<close>
  json_binding :: "string \<Rightarrow> Binding result"
  extender_host :: string \<comment> \<open>\<open>getExtenderURLHost\<close> reads it from the environment\<close>
  snapcontent_get :: "string \<Rightarrow> VolumeSnapshotContent result"
  snapclass_error :: "string \<Rightarrow> string"
  ParseUnits_error :: "string \<Rightarrow> string"
  parse_float :: "string \<Rightarrow> float64 result" \<comment> \<open>\<open>strconv.ParseFloat\<close>\<close>
  snapshot_prefix :: string \<comment> \<open>the environment's \<open>SNAPSHOT_PREFIX\<close>\<close>
  restic_client :: "string \<Rightarrow> string \<Rightarrow> string \<Rightarrow> string option" \<comment> \<open>the error of \<open>NewResticClient\<close>\<close>
  restic_delete :: "(string \<times> string) list \<Rightarrow> string \<times> string \<Rightarrow> string option"
  print_caps :: "VolumeCapability list \<Rightarrow> string" \<comment> \<open>\<open>%v\<close> of the generated type\<close>
  extenderSchedulerNames :: "string list"
  frameworkSchedulerNames :: "string list"

record world =
  w_inFlight :: "unit gomap"
  w_info :: "string gomap" \<comment> \<open>\<open>PvcPodSchedulerMap\<close>\<close>
  w_logs :: "string \<Rightarrow> action list" \<comment> \<open>by address\<close>
  w_requests :: "string list" \<comment> \<open>sent to the extender\<close>
  w_deletions :: "(string \<times> string) list" \<comment> \<open>of backups: repository, tag\<close>

section \<open>Requests in flight\<close>

definition InFlight_Insert :: "unit gomap \<Rightarrow> string \<Rightarrow> bool \<times> unit gomap" where
  "InFlight_Insert db key =
     (if map_of db key \<noteq> None then (False, db) else (True, AList.update key () db))"

definition InFlight_Delete :: "unit gomap \<Rightarrow> string \<Rightarrow> unit gomap" where
  "InFlight_Delete db key = AList.delete key db"

section \<open>Schedulers\<close>

definition PvcPod_Add :: "string gomap \<Rightarrow> string \<Rightarrow> string \<Rightarrow> string \<Rightarrow> string gomap" where
  "PvcPod_Add info pvcNamespace pvcName schedulerName = AList.update (GetNameKey pvcNamespace pvcName) schedulerName info"

definition PvcPod_Get :: "string gomap \<Rightarrow> string \<Rightarrow> string \<Rightarrow> string" where
  "PvcPod_Get info pvcNamespace pvcName = str_at info (GetNameKey pvcNamespace pvcName)"

definition PvcPod_Remove :: "string gomap \<Rightarrow> string \<Rightarrow> string \<Rightarrow> string gomap" where
  "PvcPod_Remove info pvcNamespace pvcName = AList.delete (GetNameKey pvcNamespace pvcName) info"

text \<open>The handlers of pod events; \<open>Spec.SchedulerName\<close> of the pod is an argument.\<close>

definition pod_claims :: "Pod \<Rightarrow> string list" where
  "pod_claims pod = concat (map (\<lambda>v. case vol_PVC v of None \<Rightarrow> [] | Some claim \<Rightarrow> [claim]) (pod_Volumes pod))"

definition csi_podAdd :: "string gomap \<Rightarrow> Pod \<Rightarrow> string \<Rightarrow> string gomap" where
  "csi_podAdd info pod schedulerName =
     fold (\<lambda>claim info. PvcPod_Add info (pod_Namespace pod) claim schedulerName) (pod_claims pod) info"

definition csi_podUpdate :: "string gomap \<Rightarrow> Pod \<Rightarrow> string \<Rightarrow> string gomap" where
  "csi_podUpdate info pod schedulerName =
     fold (\<lambda>claim info. PvcPod_Add info (pod_Namespace pod) claim schedulerName) (pod_claims pod) info"

definition csi_podDelete :: "string gomap \<Rightarrow> Pod \<Rightarrow> string gomap" where
  "csi_podDelete info pod = fold (\<lambda>claim info. PvcPod_Remove info (pod_Namespace pod) claim) (pod_claims pod) info"

datatype SchedulerArch = SchedulerArchExtender | SchedulerArchFramework | SchedulerArchUnknown

definition newSchedulerArchMap :: "string list \<Rightarrow> string list \<Rightarrow> SchedulerArch gomap" where
  "newSchedulerArchMap extenders frameworks =
     fold (\<lambda>name. AList.update name SchedulerArchFramework) frameworks
       (fold (\<lambda>name. AList.update name SchedulerArchExtender) extenders [])"

definition ArchMap_Get :: "SchedulerArch gomap \<Rightarrow> string \<Rightarrow> SchedulerArch" where
  "ArchMap_Get info schedulerName = (case map_of info schedulerName of None \<Rightarrow> SchedulerArchUnknown | Some arch \<Rightarrow> arch)"

section \<open>Handlers\<close>

text \<open>A handler panics, fails with a status, or returns a response.\<close>

type_synonym 'a handler = "(world, (grpc_status + 'a) option) state"

definition go_done :: "'a \<Rightarrow> 'a handler" where "go_done x = State_Monad.return (Some (Inr x))"
definition fail :: "grpc_code \<Rightarrow> string \<Rightarrow> 'a handler" where "fail code msg = State_Monad.return (Some (Inl (code, msg)))"
definition panic :: "'a handler" where "panic = State_Monad.return None"

definition and_then :: "'a handler \<Rightarrow> ('a \<Rightarrow> 'b handler) \<Rightarrow> 'b handler" where
  "and_then m k =
     State_Monad.bind m (\<lambda>r. case r of
         None \<Rightarrow> panic
       | Some (Inl st) \<Rightarrow> State_Monad.return (Some (Inl st))
       | Some (Inr x) \<Rightarrow> k x)"

text \<open>A call whose error is the text of an \<open>Internal\<close> status.\<close>

definition or_internal :: "(string \<Rightarrow> string) \<Rightarrow> (world, 'a result) state \<Rightarrow> 'a handler" where
  "or_internal wrap m =
     State_Monad.bind m (\<lambda>r. case r of Inl err \<Rightarrow> fail Internal (wrap err) | Inr x \<Rightarrow> go_done x)"

text \<open>An operation of the machine at an address.\<close>

definition on_host :: "csi_env \<Rightarrow> string \<Rightarrow> (host \<Rightarrow> 'a result io) \<Rightarrow> (world, 'a result) state" where
  "on_host env addr m =
     State (\<lambda>w. case run_state (m (host_at env addr)) (w_logs w addr) of
       (r, l) \<Rightarrow> (r, w\<lparr>w_logs := (w_logs w)(addr := l)\<rparr>))"

definition already_exists :: "string \<Rightarrow> string" where
  "already_exists key = ''An operation with the given volume='' @ go_Quote key @ '' is already in progress''"

text \<open>\<open>Insert\<close>, and \<open>Delete\<close> deferred: it also runs when the body panics.\<close>

definition with_inFlight :: "string \<Rightarrow> 'a handler \<Rightarrow> 'a handler" where
  "with_inFlight key body =
     State_Monad.bind (State (\<lambda>w. case InFlight_Insert (w_inFlight w) key of (ok, db) \<Rightarrow> (ok, w\<lparr>w_inFlight := db\<rparr>)))
       (\<lambda>ok. if \<not> ok then fail Aborted (already_exists key)
             else State_Monad.bind body (\<lambda>r.
               State (\<lambda>w. (r, w\<lparr>w_inFlight := InFlight_Delete (w_inFlight w) key\<rparr>))))"

section \<open>The adapter\<close>

definition schedule_path :: "string \<Rightarrow> string \<Rightarrow> string \<Rightarrow> string \<Rightarrow> string \<Rightarrow> string" where
  "schedule_path volumeType pvcName pvcNamespace vgName nodeID =
     (let base = ''/apis/scheduling/'' @ pvcNamespace @ ''/persistentvolumeclaims/'' @ pvcName @ ''?''
      in if nodeID = [] \<and> vgName \<noteq> [] then base @ ''volumeType='' @ volumeType @ ''&vgName='' @ vgName
         else if nodeID \<noteq> [] \<and> vgName = [] then base @ ''volumeType='' @ volumeType @ ''&nodeName='' @ nodeID
         else if nodeID = [] \<and> vgName = [] then base @ ''volumeType='' @ volumeType
         else base @ ''nodeName='' @ nodeID @ ''&volumeType='' @ volumeType @ ''&vgName='' @ vgName)"

definition ScheduleVolume ::
  "csi_env \<Rightarrow> string \<Rightarrow> string \<Rightarrow> string \<Rightarrow> string \<Rightarrow> string \<Rightarrow> (world, Binding result) state" where
  "ScheduleVolume env volumeType pvcName pvcNamespace vgName nodeID =
     State (\<lambda>w.
       (let url = extender_host env @ schedule_path volumeType pvcName pvcNamespace vgName nodeID
        in (case http_get env (w_requests w) url of Inl err \<Rightarrow> Inl err | Inr respBody \<Rightarrow> json_binding env respBody,
            w\<lparr>w_requests := w_requests w @ [url]\<rparr>)))"

section \<open>Connecting to a node\<close>

definition not_found :: "string \<Rightarrow> string \<Rightarrow> string" where
  "not_found kind name = kind @ '' '' @ go_Quote name @ '' not found''"

text \<open>The first address of the type, when there is one.\<close>

definition first_address :: "string \<Rightarrow> (string \<times> string) list \<Rightarrow> string option" where
  "first_address ty addresses = (case filter (\<lambda>a. fst a = ty) addresses of [] \<Rightarrow> None | a # _ \<Rightarrow> Some (snd a))"

text \<open>\<open>%v\<close> of the addresses: a struct per address.\<close>

definition print_addresses :: "(string \<times> string) list \<Rightarrow> string" where
  "print_addresses as = ''['' @ go_Join (map (\<lambda>a. ''{'' @ fst a @ '' '' @ snd a @ ''}'') as) '' '' @ '']''"

text \<open>\<open>net.IP\<close> may be \<open>nil\<close>: \<open>None\<close>.\<close>

definition GetNodeIP :: "csi_env \<Rightarrow> NodeObject \<Rightarrow> (string \<times> bool) option result" where
  "GetNodeIP env node =
     (case first_address ''InternalIP'' (node_Addresses node) of
        Some a \<Rightarrow> Inr (parse_ip env a)
      | None \<Rightarrow>
          (case first_address ''ExternalIP'' (node_Addresses node) of
             Some a \<Rightarrow> Inr (parse_ip env a)
           | None \<Rightarrow> Inl (''Node IP unknown; known addresses: '' @ print_addresses (node_Addresses node))))"

definition getNodeAddr :: "csi_env \<Rightarrow> NodeObject \<Rightarrow> string result" where
  "getNodeAddr env node =
     (if use_node_hostname env then Inr (node_Name node @ '':'' @ lvmd_port env)
      else (case GetNodeIP env node of
              Inl err \<Rightarrow> Inl err
            | Inr None \<Rightarrow> Inr (''[<nil>]:'' @ lvmd_port env)
            | Inr (Some (text, v4)) \<Rightarrow>
                if \<not> v4 then Inr (''['' @ text @ '']:'' @ lvmd_port env) else Inr (text @ '':'' @ lvmd_port env)))"

text \<open>A connection is the address it goes to.\<close>

definition getNodeConn :: "csi_env \<Rightarrow> string \<Rightarrow> string result" where
  "getNodeConn env nodeSelected =
     (case node_get env nodeSelected of
        None \<Rightarrow> Inl (not_found ''node'' nodeSelected)
      | Some node \<Rightarrow>
          (case getNodeAddr env node of
             Inl err \<Rightarrow> Inl err
           | Inr addr \<Rightarrow> (case dial env addr of Some err \<Rightarrow> Inl err | None \<Rightarrow> Inr addr)))"

end
