(* ===== verification/Csi_Controller.thy ===== *)
theory Csi_Controller
  imports Csi_State
begin

text \<open>
  The CSI controller service, \<open>pkg/csi/controllerserver.go\<close>: creating, deleting and expanding volumes,
  creating and deleting snapshots, each a handler that checks the request, keeps a second request for the same
  volume or snapshot out, asks the scheduler's extender where the volume goes, and has the node's LVM daemon do
  the work. The creation time of a snapshot is left out of its response.
\<close>

section \<open>Requests and responses\<close>

datatype content_source = SourceSnapshot "string option" | SourceOther

record CreateVolumeRequest =
  cvr_Name :: string
  cvr_VolumeCapabilities :: "VolumeCapability list"
  cvr_Parameters :: "string gomap"
  cvr_RequiredBytes :: int64
  cvr_ContentSource :: "content_source option"

record CreateVolumeResponse =
  cvp_VolumeId :: string
  cvp_CapacityBytes :: int64
  cvp_VolumeContext :: "string gomap"
  cvp_Segments :: "string gomap"
  cvp_SnapshotId :: "string option"

record CreateSnapshotRequest =
  csr_Name :: string
  csr_SourceVolumeId :: string
  csr_Parameters :: "string gomap"
  csr_Secrets :: "string gomap"

record CreateSnapshotResponse =
  csp_SnapshotId :: string
  csp_SourceVolumeId :: string
  csp_SizeBytes :: int64
  csp_ReadyToUse :: bool

abbreviation VgNameTag :: string where "VgNameTag \<equiv> ''vgName''"
abbreviation LvmTypeTag :: string where "LvmTypeTag \<equiv> ''lvmType''"
abbreviation StripingType :: string where "StripingType \<equiv> ''striping''"
abbreviation key_PVCName :: string where "key_PVCName \<equiv> ''csi.storage.k8s.io/pvc/name''"
abbreviation key_PVCNameSpace :: string where "key_PVCNameSpace \<equiv> ''csi.storage.k8s.io/pvc/namespace''"
abbreviation ParamSnapshotID :: string where "ParamSnapshotID \<equiv> ''csi.aliyun.com/snapshot-id''"
abbreviation ParamSourceVolumeID :: string where "ParamSourceVolumeID \<equiv> ''csi.aliyun.com/source-volume-id''"
abbreviation ParamSnapshotInitialSize :: string where
  "ParamSnapshotInitialSize \<equiv> ''csi.aliyun.com/snapshot-initial-size''"
abbreviation ParamSnapshotThreshold :: string where
  "ParamSnapshotThreshold \<equiv> ''csi.aliyun.com/snapshot-expansion-threshold''"
abbreviation ParamSnapshotExpansionSize :: string where
  "ParamSnapshotExpansionSize \<equiv> ''csi.aliyun.com/snapshot-expansion-size''"

section \<open>Validation\<close>

definition VolumeCaps :: "access_mode list" where "VolumeCaps = [SINGLE_NODE_WRITER]"

definition isValidVolumeCapabilities :: "VolumeCapability list \<Rightarrow> bool" where
  "isValidVolumeCapabilities volCaps = list_all (\<lambda>c. list_ex (\<lambda>m. m = GetMode c) VolumeCaps) volCaps"

definition GetAccessModes :: "VolumeCapability list \<Rightarrow> string list" where
  "GetAccessModes caps = map (\<lambda>c. mode_String (GetMode c)) caps"

definition validateCreateVolumeRequest :: "CreateVolumeRequest \<Rightarrow> string option" where
  "validateCreateVolumeRequest req =
     (if cvr_Name req = [] then Some ''Volume name not provided''
      else if cvr_VolumeCapabilities req = [] then Some ''Volume capabilities not provided''
      else if \<not> isValidVolumeCapabilities (cvr_VolumeCapabilities req)
      then Some (''Volume capabilities '' @ go_Join (GetAccessModes (cvr_VolumeCapabilities req)) '', '' @
                 '' not supported. Only AccessModes[ReadWriteOnce] supported.'')
      else None)"

definition validateDeleteVolumeRequest :: "string \<Rightarrow> string option" where
  "validateDeleteVolumeRequest volumeId =
     (if volumeId = [] then Some (status_text (InvalidArgument, ''Volume ID not provided'')) else None)"

section \<open>Asking the extender\<close>

definition scheduleLVMVolume ::
  "csi_env \<Rightarrow> string \<Rightarrow> string \<Rightarrow> string \<Rightarrow> string gomap \<Rightarrow> (world, string gomap result) state" where
  "scheduleLVMVolume env nodeSelected pvcName pvcNameSpace parameters =
     (let vgName = str_at parameters VgNameTag
      in if vgName = []
         then State_Monad.bind (ScheduleVolume env VolumeTypeLVM pvcName pvcNameSpace vgName nodeSelected)
                (\<lambda>r. State_Monad.return (case r of
                    Inl err \<Rightarrow> Inl (status_text (InvalidArgument, ''lvm schedule with error '' @ err))
                  | Inr volumeInfo \<Rightarrow>
                      if bi_VgName volumeInfo = [] \<or> bi_Node volumeInfo = []
                      then Inl (status_text (InvalidArgument,
                             ''Lvm Schedule finished, but get empty: '' @ print_Binding volumeInfo))
                      else Inr [(VgNameTag, bi_VgName volumeInfo)]))
         else State_Monad.return (Inr [(VgNameTag, vgName)]))"

definition scheduleMountpointVolume ::
  "csi_env \<Rightarrow> string \<Rightarrow> string \<Rightarrow> string \<Rightarrow> (world, string gomap result) state" where
  "scheduleMountpointVolume env nodeSelected pvcName pvcNameSpace =
     State_Monad.bind (ScheduleVolume env VolumeTypeMountPoint pvcName pvcNameSpace [] nodeSelected)
       (\<lambda>r. State_Monad.return (case r of
           Inl err \<Rightarrow> Inl (status_text (InvalidArgument, ''lvm schedule with error '' @ err))
         | Inr volumeInfo \<Rightarrow>
             if bi_Disk volumeInfo = []
             then Inl (status_text (InvalidArgument, ''mountpoint schedule finish but Disk empty''))
             else Inr [(VolumeTypeMountPoint, bi_Disk volumeInfo)]))"

definition scheduleDeviceVolume ::
  "csi_env \<Rightarrow> string \<Rightarrow> string \<Rightarrow> string \<Rightarrow> (world, string gomap result) state" where
  "scheduleDeviceVolume env nodeSelected pvcName pvcNameSpace =
     State_Monad.bind (ScheduleVolume env VolumeTypeDevice pvcName pvcNameSpace [] nodeSelected)
       (\<lambda>r. State_Monad.return (case r of
           Inl err \<Rightarrow> Inl (status_text (InvalidArgument, ''device schedule with error '' @ err))
         | Inr volumeInfo \<Rightarrow>
             if bi_Device volumeInfo = []
             then Inl (status_text (InvalidArgument, ''Device schedule finish but Disk empty''))
             else Inr [(VolumeTypeDevice, bi_Device volumeInfo)]))"

text \<open>The code of a scheduling error.\<close>

definition or_schedule_error :: "string \<Rightarrow> (world, 'a result) state \<Rightarrow> 'a handler" where
  "or_schedule_error what m =
     State_Monad.bind m (\<lambda>r. case r of
         Inl err \<Rightarrow> fail (if go_Contains err ''Insufficient'' then ResourceExhausted else Internal) (what @ '': '' @ err)
       | Inr x \<Rightarrow> go_done x)"

section \<open>Creating a volume\<close>

definition print_LVMOptions :: "LVMOptions \<Rightarrow> string" where
  "print_LVMOptions opt =
     ''&{'' @ go_Join [lo_VolumeGroup opt, lo_Name opt, dec (unat (lo_Size opt)), ''['' @ go_Join (lo_Tags opt) '' '' @ '']'',
        if lo_Striping opt then ''true'' else ''false''] '' '' @ ''}''"

text \<open>The logical volume is only created when the node does not have it.\<close>

definition create_lv :: "csi_env \<Rightarrow> CreateVolumeRequest \<Rightarrow> string \<Rightarrow> string \<Rightarrow> string \<Rightarrow> unit handler" where
  "create_lv env req conn nodeName vgName =
     (let volumeID = cvr_Name req;
          options = \<lparr>lo_VolumeGroup = vgName, lo_Name = cvr_Name req, lo_Size = cvr_RequiredBytes req, lo_Tags = [],
                     lo_Striping = (map_of (cvr_Parameters req) LvmTypeTag = Some StripingType)\<rparr>
      in and_then
           (or_internal (\<lambda>err. ''CreateVolume: fail to get lv '' @ cvr_Name req @ '' from node '' @ nodeName @ '': '' @ err)
              (on_host env conn (\<lambda>H. conn_GetVolume H vgName volumeID)))
           (\<lambda>lvName.
              if lvName = []
              then and_then
                     (or_internal (\<lambda>err. ''CreateVolume: fail to create lv '' @ GetNameKey vgName volumeID @
                          ''(options: '' @ print_LVMOptions options @ ''): '' @ err)
                        (on_host env conn (\<lambda>H. conn_CreateVolume H options)))
                     (\<lambda>outstr. go_done ())
              else go_done ()))"

text \<open>The branch of a pod scheduled by the extender: the parameters to add.\<close>

definition create_scheduled ::
  "csi_env \<Rightarrow> CreateVolumeRequest \<Rightarrow> PersistentVolumeClaim \<Rightarrow> string \<Rightarrow> string \<Rightarrow> string \<Rightarrow> string \<Rightarrow> string gomap handler" where
  "create_scheduled env req pvc conn nodeName pvcName pvcNameSpace =
     (let volumeType = str_at (cvr_Parameters req) VolumeTypeKey; volumeID = cvr_Name req
      in if volumeType = VolumeTypeLVM
         then (case IsReadOnlySnapshotPVC2 (csi_K env) pvc of
                 None \<Rightarrow> panic
               | Some True \<Rightarrow> go_done []
               | Some False \<Rightarrow>
                   and_then (or_schedule_error (''CreateVolume: fail to schedule LVM '' @ volumeID)
                       (scheduleLVMVolume env nodeName pvcName pvcNameSpace (cvr_Parameters req)))
                     (\<lambda>paramMap.
                        let vgName = str_at paramMap VgNameTag
                        in if vgName = [] then fail InvalidArgument (''CreateVolume: empty vgName in '' @ volumeID)
                           else and_then (create_lv env req conn nodeName vgName) (\<lambda>_. go_done paramMap)))
         else if volumeType = VolumeTypeMountPoint
         then or_schedule_error (''CreateVolume: fail to schedule mountpoint '' @ cvr_Name req @ '' at node '' @ nodeName)
                (scheduleMountpointVolume env nodeName pvcName pvcNameSpace)
         else if volumeType = VolumeTypeDevice
         then or_schedule_error (''CreateVolume: fail to schedule device volume '' @ cvr_Name req @ '' at node '' @ nodeName)
                (scheduleDeviceVolume env nodeName pvcName pvcNameSpace)
         else fail Unimplemented (''CreateVolume: no support volume type '' @ volumeType))"

text \<open>\<open>strings.Replace(s, old, new, 1)\<close>, for a text \<open>old\<close> that is not empty.\<close>

fun replace_first :: "string \<Rightarrow> string \<Rightarrow> string \<Rightarrow> string" where
  "replace_first [] old new = []"
| "replace_first (c # s) old new =
     (case after_prefix old (c # s) of Some rest \<Rightarrow> new @ rest | None \<Rightarrow> c # replace_first s old new)"

definition GetVolumeSnapshotContent :: "csi_env \<Rightarrow> string \<Rightarrow> VolumeSnapshotContent result" where
  "GetVolumeSnapshotContent env snapshotContentID =
     (let prefix = (if snapshot_prefix env = [] then ''snap'' else snapshot_prefix env)
      in snapcontent_get env (replace_first snapshotContentID prefix ''snapcontent''))"

text \<open>The branch of a volume made from a snapshot: whether it is one, and the parameters.\<close>

definition create_from_snapshot ::
  "csi_env \<Rightarrow> CreateVolumeRequest \<Rightarrow> PersistentVolumeClaim \<Rightarrow> string gomap \<Rightarrow> (bool \<times> string gomap) handler" where
  "create_from_snapshot env req pvc paramMap =
     (case cvr_ContentSource req of
        None \<Rightarrow> go_done (False, paramMap)
      | Some volumeSource \<Rightarrow>
          (let volumeType = str_at (cvr_Parameters req) VolumeTypeKey
           in if volumeType = VolumeTypeLVM
              then (case volumeSource of
                      SourceOther \<Rightarrow> fail InvalidArgument ''CreateVolume: unsupported volumeContentSource type''
                    | SourceSnapshot None \<Rightarrow>
                        fail InvalidArgument ''CreateVolume: fail to retrive snapshot from the volumeContentSource''
                    | SourceSnapshot (Some snapshotID) \<Rightarrow>
                        (case GetVolumeSnapshotContent env snapshotID of
                           Inl err \<Rightarrow> fail Internal (''CreateVolume: fail to get snapshot content: '' @ err)
                         | Inr snapContent \<Rightarrow>
                             (case vsc_VolumeHandle snapContent of
                                None \<Rightarrow> panic
                              | Some srcVolumeID \<Rightarrow>
                                  (let paramMap = AList.update ParamSnapshotID snapshotID
                                                    (AList.update ParamSourceVolumeID srcVolumeID paramMap)
                                   in case IsReadOnlySnapshotPVC2 (csi_K env) pvc of
                                        None \<Rightarrow> panic
                                      | Some False \<Rightarrow> go_done (True, paramMap)
                                      | Some True \<Rightarrow>
                                          (case pv_get (csi_K env) srcVolumeID of
                                             None \<Rightarrow> fail Internal (''CreateVolume: fail to get source pv of ro snasphot '' @
                                                       snapshotID @ '': '' @ not_found ''persistentvolume'' srcVolumeID)
                                           | Some pv \<Rightarrow>
                                               (let vgName = GetVGNameFromCsiPV (csi_K env) pv
                                                in if vgName = []
                                                   then fail Internal (''CreateVolume: fail to get vgName from pv '' @ pv_Name pv)
                                                   else go_done (True, AList.update ParamReadonly ''true''
                                                          (AList.update VgNameTag vgName paramMap))))))))
              else fail Unimplemented (''unsupported snapshot '' @ volumeType)))"

text \<open>The branch on the scheduler's architecture.\<close>

definition create_by_arch ::
  "csi_env \<Rightarrow> CreateVolumeRequest \<Rightarrow> PersistentVolumeClaim \<Rightarrow> string \<Rightarrow> string \<Rightarrow> string \<Rightarrow> string \<Rightarrow> string gomap handler" where
  "create_by_arch env req pvc conn nodeName pvcName pvcNameSpace =
     State_Monad.bind (State (\<lambda>w. (PvcPod_Get (w_info w) pvcNameSpace pvcName, w)))
       (\<lambda>schedulerName.
          case ArchMap_Get (newSchedulerArchMap (extenderSchedulerNames env) (frameworkSchedulerNames env)) schedulerName of
            SchedulerArchExtender \<Rightarrow> create_scheduled env req pvc conn nodeName pvcName pvcNameSpace
          | SchedulerArchFramework \<Rightarrow> go_done []
          | SchedulerArchUnknown \<Rightarrow>
              fail Unknown (''CreateVolume: scheduler arch of pvc('' @ GetNameKey pvcNameSpace pvcName @
                '') is unknown, plz check again''))"

definition create_response ::
  "CreateVolumeRequest \<Rightarrow> string \<Rightarrow> bool \<Rightarrow> string gomap \<Rightarrow> CreateVolumeResponse" where
  "create_response req nodeName isSnapshot paramMap =
     \<lparr>cvp_VolumeId = cvr_Name req, cvp_CapacityBytes = cvr_RequiredBytes req,
      cvp_VolumeContext = AList.update AnnoSelectedNode nodeName
        (fold (\<lambda>(key, value) m. AList.update key value m) paramMap (cvr_Parameters req)),
      cvp_Segments = [(KubernetesNodeIdentityKey, nodeName)],
      cvp_SnapshotId = (if isSnapshot then Some (str_at paramMap ParamSnapshotID) else None)\<rparr>"

definition cs_CreateVolume :: "csi_env \<Rightarrow> CreateVolumeRequest \<Rightarrow> CreateVolumeResponse handler" where
  "cs_CreateVolume env req =
     (case validateCreateVolumeRequest req of
        Some err \<Rightarrow> fail InvalidArgument (''CreateVolume: fail to validate CreateVolumeRequest: '' @ err)
      | None \<Rightarrow>
          (let volumeID = cvr_Name req; parameters = cvr_Parameters req;
               pvcName = str_at parameters key_PVCName; pvcNameSpace = str_at parameters key_PVCNameSpace
           in if pvcName = [] \<or> pvcNameSpace = []
              then fail InvalidArgument (''CreateVolume: pvcName('' @ pvcNameSpace @ '') or pvcNamespace('' @ pvcName @
                     '') can not be empty'')
              else (case pvc_get (csi_K env) pvcNameSpace pvcName of
                      None \<Rightarrow> fail Internal (''CreateVolume: fail to get pvc: '' @ not_found ''persistentvolumeclaim'' pvcName)
                    | Some pvc \<Rightarrow>
                        (case map_of (pvc_Annotations pvc) AnnoSelectedNode of
                           None \<Rightarrow> fail Unimplemented (''CreateVolume: no annotation '' @ AnnoSelectedNode @ '' found in pvc '' @
                             GetNameKey pvcNameSpace pvcName @ ''. Check if volumeBindingMode of storageclass is WaitForFirstConsumer, cause we only support WaitForFirstConsumer mode'')
                         | Some nodeName \<Rightarrow>
                             with_inFlight volumeID
                               (case getNodeConn env nodeName of
                                  Inl err \<Rightarrow> fail Internal (''CreateVolume: fail to connect to node '' @ nodeName @ '': '' @ err)
                                | Inr conn \<Rightarrow>
                                    and_then (create_by_arch env req pvc conn nodeName pvcName pvcNameSpace)
                                      (\<lambda>paramMap. and_then (create_from_snapshot env req pvc paramMap)
                                        (\<lambda>(isSnapshot, paramMap).
                                           go_done (create_response req nodeName isSnapshot paramMap))))))))"

section \<open>Deleting a volume\<close>

definition is_ro_snapshot_volume :: "PersistentVolume \<Rightarrow> bool" where
  "is_ro_snapshot_volume pv =
     (case pv_CSI pv of
        None \<Rightarrow> False
      | Some csi \<Rightarrow> str_at (csi_VolumeAttributes csi) ParamSnapshotID \<noteq> [] \<and>
                    map_of (csi_VolumeAttributes csi) ParamReadonly = Some ''true'')"

definition delete_lv :: "csi_env \<Rightarrow> string \<Rightarrow> string \<Rightarrow> string \<Rightarrow> unit handler" where
  "delete_lv env conn vgName volumeID =
     (if vgName = [] then go_done ()
      else State_Monad.bind (on_host env conn (\<lambda>H. conn_GetVolume H vgName volumeID))
        (\<lambda>r. case r of
           Inl err \<Rightarrow>
             if go_Contains err ''Failed to find logical volume'' then go_done ()
             else if go_Contains err (''Volume group '' @ [CHR 0x22] @ vgName @ [CHR 0x22] @ '' not found'') then go_done ()
             else fail Internal (''DeleteVolume: fail to get lv '' @ volumeID @ '': '' @ err)
         | Inr lvName \<Rightarrow>
             if lvName \<noteq> []
             then or_internal (\<lambda>err. ''DeleteVolume: fail to delete lv '' @ volumeID @ '': '' @ err)
                    (on_host env conn (\<lambda>H. conn_DeleteVolume H vgName volumeID))
             else go_done ()))"

definition delete_by_type :: "csi_env \<Rightarrow> PersistentVolume \<Rightarrow> string \<Rightarrow> string \<Rightarrow> unit handler" where
  "delete_by_type env pv conn volumeID =
     (case pv_CSI pv of
        None \<Rightarrow> panic
      | Some csi \<Rightarrow>
          (let volumeType = str_at (csi_VolumeAttributes csi) VolumeTypeKey
           in if volumeType = VolumeTypeLVM then delete_lv env conn (GetVGNameFromCsiPV (csi_K env) pv) volumeID
              else if volumeType = VolumeTypeMountPoint
              then (let path = GetMountPointFromCsiPV pv
                    in if path = [] then fail Internal (''DeleteVolume: fail to get mountpath of pv '' @ pv_Name pv)
                       else or_internal (\<lambda>err. ''DeleteVolume: fail to delete mountpoint '' @ path @ '': '' @ err)
                              (on_host env conn (\<lambda>H. conn_CleanPath H path)))
              else if volumeType = VolumeTypeDevice
              then (let device = GetDeviceNameFromCsiPV (csi_K env) pv
                    in if device = [] then fail Internal (''DeleteVolume: fail to get device of pv '' @ pv_Name pv)
                       else or_internal (\<lambda>err. ''DeleteVolume: fail to delete device: '' @ err)
                              (on_host env conn (\<lambda>H. conn_CleanDevice H device)))
              else fail InvalidArgument (''DeleteVolume: volumeType '' @ volumeType @ '' not supported '' @ volumeID)))"

definition cs_DeleteVolume :: "csi_env \<Rightarrow> string \<Rightarrow> unit handler" where
  "cs_DeleteVolume env volumeID =
     (case validateDeleteVolumeRequest volumeID of
        Some err \<Rightarrow> fail InvalidArgument (''DeleteVolume: fail to validate DeleteVolumeRequest: '' @ err)
      | None \<Rightarrow>
          with_inFlight volumeID
            (case pv_get (csi_K env) volumeID of
               None \<Rightarrow> fail Internal (''DeleteVolume: fail to get pv: '' @ not_found ''persistentvolume'' volumeID)
             | Some pv \<Rightarrow>
                 if is_ro_snapshot_volume pv then go_done ()
                 else (let nodeName = GetNodeNameFromCsiPV pv
                       in if nodeName = [] then fail Internal (''DeleteVolume: fail to get node name of pv '' @ pv_Name pv)
                          else (case getNodeConn env nodeName of
                                  Inl err \<Rightarrow> fail Internal (''DeleteVolume: fail to connect to node '' @ nodeName @ '': '' @ err)
                                | Inr conn \<Rightarrow> delete_by_type env pv conn volumeID))))"

end
