(* ===== verification/Csi_Snapshot.thy ===== *)
theory Csi_Snapshot
  imports Csi_Controller
begin

text \<open>
  The rest of the CSI controller service: snapshots, expansion, and the calls that only answer what the
  driver can do.
\<close>

section \<open>Creating a snapshot\<close>

definition DefaultSnapshotInitialSize :: uint64 where "DefaultSnapshotInitialSize = 4 * 1024 * 1024 * 1024"
definition DefaultSnapshotThreshold :: float64 where "DefaultSnapshotThreshold = Fin (1 / 2)"
definition DefaultSnapshotExpansionSize :: uint64 where "DefaultSnapshotExpansionSize = 1 * 1024 * 1024 * 1024"

definition snapshot_size :: "csi_env \<Rightarrow> string gomap \<Rightarrow> string \<Rightarrow> uint64 \<Rightarrow> string \<Rightarrow> uint64 result" where
  "snapshot_size env param key dflt what =
     (case map_of param key of
        None \<Rightarrow> Inr dflt
      | Some str \<Rightarrow>
          (case ParseUnits (csi_K env) str of
             Inl _ \<Rightarrow> Inl (status_text (Internal, ''getSnapshotInitialInfo: get '' @ what @
                        '' from snapshot annotation failed: '' @ ParseUnits_error env str))
           | Inr sz \<Rightarrow> Inr sz))"

definition getSnapshotInitialInfo :: "csi_env \<Rightarrow> string gomap \<Rightarrow> (uint64 \<times> float64 \<times> uint64) result" where
  "getSnapshotInitialInfo env param =
     (case snapshot_size env param ParamSnapshotInitialSize DefaultSnapshotInitialSize ''initialSize'' of
        Inl err \<Rightarrow> Inl err
      | Inr initialSize \<Rightarrow>
          (case (case map_of param ParamSnapshotThreshold of
                   None \<Rightarrow> Inr DefaultSnapshotThreshold
                 | Some str \<Rightarrow>
                     (case parse_float env (filter (\<lambda>c. c \<noteq> CHR ''%'') str) of
                        Inl err \<Rightarrow> Inl (status_text (Internal, ''getSnapshotInitialInfo: parse float failed: '' @ err))
                      | Inr thr \<Rightarrow> Inr (fdiv thr (Fin 100)))) of
             Inl err \<Rightarrow> Inl err
           | Inr threshold \<Rightarrow>
               (case snapshot_size env param ParamSnapshotExpansionSize DefaultSnapshotExpansionSize ''increase size'' of
                  Inl err \<Rightarrow> Inl err
                | Inr increaseSize \<Rightarrow> Inr (initialSize, threshold, increaseSize))))"

definition newCreateSnapshotResponse :: "string \<Rightarrow> string \<Rightarrow> int64 \<Rightarrow> CreateSnapshotResponse" where
  "newCreateSnapshotResponse snapshotId sourceVolumeId snapshotSize =
     \<lparr>csp_SnapshotId = snapshotId, csp_SourceVolumeId = sourceVolumeId, csp_SizeBytes = snapshotSize,
      csp_ReadyToUse = True\<rparr>"

definition pv_capacity :: "PersistentVolume \<Rightarrow> int64" where
  "pv_capacity pv = (case pv_Capacity pv of None \<Rightarrow> 0 | Some n \<Rightarrow> n)"

text \<open>A read-only snapshot: a snapshot volume next to its source, made unless the node has it.\<close>

definition create_ro_snapshot ::
  "csi_env \<Rightarrow> CreateSnapshotRequest \<Rightarrow> PersistentVolume \<Rightarrow> string \<Rightarrow> string \<Rightarrow> int64 handler" where
  "create_ro_snapshot env req srcPV conn vgName =
     (let snapshotName = csr_Name req
      in case getSnapshotInitialInfo env (csr_Parameters req) of
           Inl err \<Rightarrow> fail Internal (''CreateSnapshot: get snapshot '' @ csr_Name req @ '' initial info error: '' @ err)
         | Inr (initialSize, _, _) \<Rightarrow>
             (let initialSize = (if pv_capacity srcPV <s initialSize then pv_capacity srcPV else initialSize)
              in and_then
                   (or_internal (\<lambda>err. ''CreateSnapshot: get lvm snapshot '' @ snapshotName @ '' failed: '' @ err)
                      (on_host env conn (\<lambda>H. conn_GetVolume H vgName snapshotName)))
                   (\<lambda>lvmName.
                      and_then
                        (if lvmName = []
                         then or_internal (\<lambda>err. ''CreateSnapshot: create lvm snapshot '' @ snapshotName @ '' failed: '' @ err)
                                (on_host env conn
                                   (\<lambda>H. conn_CreateSnapshot H vgName snapshotName (csr_SourceVolumeId req) True initialSize []))
                         else go_done 0)
                        (\<lambda>sizeBytes. go_done (if sizeBytes = 0 then initialSize else sizeBytes)))))"

definition create_rw_snapshot ::
  "csi_env \<Rightarrow> CreateSnapshotRequest \<Rightarrow> PersistentVolume \<Rightarrow> string \<Rightarrow> string \<Rightarrow> int64 handler" where
  "create_rw_snapshot env req srcPV conn vgName =
     and_then
       (or_internal (\<lambda>err. ''CreateSnapshot: fail to create snapshot '' @ csr_Name req @ '': '' @ err)
          (on_host env conn
             (\<lambda>H. conn_CreateSnapshot H vgName (csr_Name req) (csr_SourceVolumeId req) False 0 (csr_Secrets req))))
       (\<lambda>sizeBytes. go_done (if sizeBytes = 0 then pv_capacity srcPV else sizeBytes))"

definition cs_CreateSnapshot :: "csi_env \<Rightarrow> CreateSnapshotRequest \<Rightarrow> CreateSnapshotResponse handler" where
  "cs_CreateSnapshot env req =
     (let snapshotName = csr_Name req; srcVolumeID = csr_SourceVolumeId req
      in if snapshotName = [] then fail InvalidArgument ''CreateSnapshot: snapshot name not provided''
         else if srcVolumeID = []
         then fail InvalidArgument (''CreateSnapshot: snapshot '' @ snapshotName @ '' volume source ID not provided'')
         else (case pv_get (csi_K env) srcVolumeID of
                 None \<Rightarrow> fail Internal (''CreateSnapshot: fail to get pv: '' @ not_found ''persistentvolume'' srcVolumeID)
               | Some srcPV \<Rightarrow>
                   (let vgName = GetVGNameFromCsiPV (csi_K env) srcPV; nodeName = GetNodeNameFromCsiPV srcPV
                    in if vgName = [] then fail Internal (''CreateSnapshot: fail to get vgName of pv '' @ pv_Name srcPV)
                       else if nodeName = []
                       then fail Internal (''CreateSnapshot: fail to get node name of pv '' @ pv_Name srcPV)
                       else with_inFlight snapshotName
                              (case getNodeConn env nodeName of
                                 Inl err \<Rightarrow> fail Internal (''CreateSnapshot: fail to get grpc client at node '' @ nodeName @
                                              '': '' @ err)
                               | Inr conn \<Rightarrow>
                                   and_then
                                     (if map_of (csr_Parameters req) ParamReadonly = Some ''true''
                                      then create_ro_snapshot env req srcPV conn vgName
                                      else create_rw_snapshot env req srcPV conn vgName)
                                     (\<lambda>sizeBytes.
                                        go_done (newCreateSnapshotResponse snapshotName srcVolumeID sizeBytes))))))"

section \<open>Deleting a snapshot\<close>

definition delete_ro_snapshot :: "csi_env \<Rightarrow> string \<Rightarrow> string \<Rightarrow> unit handler" where
  "delete_ro_snapshot env snapshotID srcVolumeID =
     (case pv_get (csi_K env) srcVolumeID of
        None \<Rightarrow> fail Internal (''DeleteSnapshot: fail to get pv: '' @ not_found ''persistentvolume'' srcVolumeID)
      | Some pv \<Rightarrow>
          (let vgName = GetVGNameFromCsiPV (csi_K env) pv; nodeName = GetNodeNameFromCsiPV pv
           in if vgName = [] then fail Internal (''DeleteSnapshot: fail to get vgName of pv '' @ pv_Name pv)
              else if nodeName = [] then fail Internal (''DeleteSnapshot: fail to get node name of pv '' @ pv_Name pv)
              else (case getNodeConn env nodeName of
                      Inl err \<Rightarrow> fail Internal (''DeleteSnapshot: get grpc client at node '' @ nodeName @ '' error: '' @ err)
                    | Inr conn \<Rightarrow>
                        and_then
                          (or_internal (\<lambda>err. ''DeleteSnapshot: get lvm snapshot '' @ snapshotID @ '' failed: '' @ err)
                             (on_host env conn (\<lambda>H. conn_GetVolume H vgName snapshotID)))
                          (\<lambda>lvmName.
                             if lvmName \<noteq> []
                             then or_internal
                                    (\<lambda>err. ''DeleteSnapshot: delete lvm snapshot '' @ snapshotID @ '' failed: '' @ err)
                                    (on_host env conn (\<lambda>H. conn_DeleteSnapshot H vgName snapshotID True))
                             else go_done ()))))"

text \<open>The errors of restic are returned as they are: a plain error is a status of code \<open>Unknown\<close>.\<close>

definition delete_rw_snapshot :: "csi_env \<Rightarrow> string gomap \<Rightarrow> string \<Rightarrow> string \<Rightarrow> unit handler" where
  "delete_rw_snapshot env secrets snapshotID srcVolumeID =
     (case restic_client env (str_at secrets ''s3URL'') (str_at secrets ''s3AK'') (str_at secrets ''s3SK'') of
        Some err \<Rightarrow> fail Unknown err
      | None \<Rightarrow>
          State_Monad.bind
            (State (\<lambda>w. (restic_delete env (w_deletions w) (srcVolumeID, snapshotID),
                         w\<lparr>w_deletions := w_deletions w @ [(srcVolumeID, snapshotID)]\<rparr>)))
            (\<lambda>r. case r of Some err \<Rightarrow> fail Unknown err | None \<Rightarrow> go_done ()))"

definition cs_DeleteSnapshot :: "csi_env \<Rightarrow> string \<Rightarrow> string gomap \<Rightarrow> unit handler" where
  "cs_DeleteSnapshot env snapshotID secrets =
     (if snapshotID = [] then fail InvalidArgument ''DeleteSnapshot: Snapshot ID not provided''
      else (case GetVolumeSnapshotContent env snapshotID of
              Inl err \<Rightarrow> fail Internal (''DeleteSnapshot: get snapContent '' @ snapshotID @ '' error: '' @ err)
            | Inr snapContent \<Rightarrow>
                (case (vsc_VolumeHandle snapContent, vsc_ClassName snapContent) of
                   (Some srcVolumeID, Some className) \<Rightarrow>
                     (case snapclass_client (csi_K env) className of
                        None \<Rightarrow> fail Internal (''DeleteSnapshot: get snapshotClass '' @ className @ '' error: '' @
                                  snapclass_error env className)
                      | Some snapshotClass \<Rightarrow>
                          with_inFlight snapshotID
                            (if map_of (snapclass_Parameters snapshotClass) ParamReadonly = Some ''true''
                             then delete_ro_snapshot env snapshotID srcVolumeID
                             else delete_rw_snapshot env secrets snapshotID srcVolumeID))
                 | _ \<Rightarrow> panic)))"

section \<open>Expanding a volume\<close>

text \<open>The response: the capacity, and that the node has to expand the file system.\<close>

definition cs_ControllerExpandVolume :: "csi_env \<Rightarrow> string \<Rightarrow> int64 \<Rightarrow> (int64 \<times> bool) handler" where
  "cs_ControllerExpandVolume env volumeID volSizeBytes =
     (case pv_get (csi_K env) volumeID of
        None \<Rightarrow> fail Internal (''ControllerExpandVolume: fail to get pv: '' @ not_found ''persistentvolume'' volumeID)
      | Some pv \<Rightarrow>
          (let vgName = GetVGNameFromCsiPV (csi_K env) pv; nodeName = GetNodeNameFromCsiPV pv
           in if vgName = [] then fail Internal (''ControllerExpandVolume: fail to get vgName of pv '' @ pv_Name pv)
              else if nodeName = [] then fail Internal (''CreateSnapshot: fail to get node name of pv '' @ pv_Name pv)
              else (case getNodeConn env nodeName of
                      Inl err \<Rightarrow> fail Internal (''ControllerExpandVolume: fail to get grpc client at node '' @ nodeName @
                                   '': '' @ err)
                    | Inr conn \<Rightarrow>
                        and_then
                          (or_internal (\<lambda>err. ''ControllerExpandVolume: fail to expand lv '' @ GetNameKey vgName volumeID @
                               '': '' @ err)
                             (on_host env conn (\<lambda>H. conn_ExpandVolume H vgName volumeID volSizeBytes)))
                          (\<lambda>_. go_done (volSizeBytes, True)))))"

section \<open>What the driver can do\<close>

datatype controller_rpc =
    ControllerPublishVolume | ControllerUnpublishVolume | GetCapacity | ListVolumes | ListSnapshots | ControllerGetVolume

definition cs_unimplemented :: "controller_rpc \<Rightarrow> unit handler" where
  "cs_unimplemented r = fail Unimplemented []"

definition cs_ValidateVolumeCapabilities ::
  "csi_env \<Rightarrow> string \<Rightarrow> VolumeCapability list \<Rightarrow> VolumeCapability list handler" where
  "cs_ValidateVolumeCapabilities env volumeID volCaps =
     (if volumeID = [] then fail InvalidArgument ''Volume ID not provided''
      else if volCaps = [] then fail InvalidArgument ''Volume capabilities not provided''
      else if isValidVolumeCapabilities volCaps then go_done volCaps
      else fail InvalidArgument (''unsupported volume capabilities not '' @ print_caps env volCaps))"

datatype controller_capability = CREATE_DELETE_VOLUME | CREATE_DELETE_SNAPSHOT | EXPAND_VOLUME

definition ControllerCaps :: "controller_capability list" where
  "ControllerCaps = [CREATE_DELETE_VOLUME, CREATE_DELETE_SNAPSHOT, EXPAND_VOLUME]"

definition cs_ControllerGetCapabilities :: "controller_capability list handler" where
  "cs_ControllerGetCapabilities = go_done (map (\<lambda>c. c) ControllerCaps)"

end
