(* ===== verification/Lvm_Reports.thy ===== *)
theory Lvm_Reports
  imports Lvm_Parser
begin

text \<open>
  Facts about the reports of the LVM tools: what the tools print (a component per field, in single
  quotes, joined by the separator) is parsed back to the values printed.
\<close>

section \<open>Splitting and numbers\<close>

lemma split_string_skip:
  assumes "sep = d # sep'" and "d \<notin> set w"
  shows "split_string sep word (w @ s) = split_string sep (word @ w) s"
  using assms(2) by (induction w arbitrary: word) (auto simp: assms(1))

lemma split_string_sep:
  assumes "sep \<noteq> []"
  shows "split_string sep word (sep @ s) = word # split_string sep [] s"
proof -
  obtain d sep' where sep: "sep = d # sep'" using assms by (cases sep) auto
  have "after_prefix sep (sep @ s) = Some s" by (simp add: after_prefix_Some)
  then show ?thesis by (simp add: sep)
qed

lemma go_Join_Cons: "go_Join (w # ws) sep = (if ws = [] then w else w @ sep @ go_Join ws sep)"
  by (cases ws) simp_all

lemma go_SplitString_Join:
  assumes sep: "sep = d # sep'" and "\<forall>w \<in> set ws. d \<notin> set w" and "ws \<noteq> []"
  shows "go_SplitString (go_Join ws sep) sep = ws"
  using assms(2,3) unfolding go_SplitString_def
proof (induction ws)
  case (Cons w ws)
  have skip: "split_string sep [] (w @ s) = split_string sep w s" for s
    using split_string_skip [OF sep, of w "[]" s] Cons.prems by simp
  show ?case
  proof (cases "ws = []")
    case True
    with skip [of "[]"] show ?thesis by simp
  next
    case False
    with skip Cons split_string_sep [of sep w] sep show ?thesis by (simp add: go_Join_Cons)
  qed
qed simp

lemma go_Split_Join:
  assumes "\<forall>w \<in> set ws. sep \<notin> set w" and "ws \<noteq> []"
  shows "go_Split sep (go_Join ws [sep]) = ws"
  using assms by (induction ws) (auto simp: go_Join_Cons go_Split_none go_Split_append)

lemma digits_value_append:
  "digits_value acc (s @ t) = (case digits_value acc s of None \<Rightarrow> None | Some a \<Rightarrow> digits_value a t)"
  by (induction acc s rule: digits_value.induct) (auto split: option.splits)

lemma digit_value_digit: "d < 10 \<Longrightarrow> digit_value (''0123456789'' ! d) = Some (int d)"
proof -
  assume "d < 10"
  then have "d \<in> {0, 1, 2, 3, 4, 5, 6, 7, 8, 9}" by auto
  moreover have "\<forall>d \<in> {0, 1, 2, 3, 4, 5, 6, 7, 8, 9}. digit_value (''0123456789'' ! d) = Some (int d)" by code_simp
  ultimately show ?thesis by blast
qed

lemma digits_value_dec: "digits_value 0 (dec n) = Some (int n)"
proof (induction n rule: dec.induct)
  case (1 n)
  show ?case
  proof (cases "n < 10")
    case True
    then show ?thesis by (subst dec.simps) (simp add: digit_value_digit)
  next
    case False
    with 1 have "digits_value 0 (dec (n div 10)) = Some (int (n div 10))" by blast
    with False show ?thesis
      by (subst dec.simps) (simp add: digits_value_append digit_value_digit zdiv_int zmod_int)
  qed
qed

lemma dec_nonempty [simp]: "dec n \<noteq> []"
  by (subst dec.simps) simp

lemma digit_char: "d < 10 \<Longrightarrow> ''0123456789'' ! d \<in> set ''0123456789''"
  by (rule nth_mem) simp

lemma dec_chars: "c \<in> set (dec n) \<Longrightarrow> c \<in> set ''0123456789''"
proof (induction n rule: dec.induct)
  case (1 n)
  show ?case
  proof (cases "n < 10")
    case True
    with "1.prems" digit_char [of n] show ?thesis by (subst (asm) dec.simps) simp
  next
    case False
    with "1.prems" have "c \<in> set (dec (n div 10)) \<or> c = ''0123456789'' ! (n mod 10)"
      by (subst (asm) dec.simps) auto
    with "1.IH" [OF False] digit_char [of "n mod 10"] show ?thesis by fastforce
  qed
qed

lemma ParseUint_dec: "n < 2 ^ bits \<Longrightarrow> ParseUint (dec n) bits = Inr (of_nat n)"
proof -
  assume "n < 2 ^ bits"
  then have "\<not> 2 ^ bits \<le> int n" by (metis not_le of_nat_less_iff of_nat_numeral of_nat_power)
  then show ?thesis by (simp add: ParseUint_def digits_value_dec)
qed

section \<open>Printing a report\<close>

definition print_component :: "string \<times> string \<Rightarrow> string" where
  "print_component kv = fst kv @ ''='' @ [CHR 0x27] @ snd kv @ [CHR 0x27]"

definition print_report :: "(string \<times> string) list \<Rightarrow> string" where
  "print_report kvs = go_Join (map print_component kvs) Separator"

lemma parse_print_component:
  "CHR ''='' \<notin> set k \<Longrightarrow> parse_component (print_component (k, v)) = Inr (k, v)"
  by (simp add: parse_component_def print_component_def split_eq_append butlast_append)

lemma parse_components_print:
  "\<forall>kv \<in> set kvs. CHR ''='' \<notin> set (fst kv) \<Longrightarrow>
    parse_components (map print_component kvs) m = Inr (fold (\<lambda>kv. AList.update (fst kv) (snd kv)) kvs m)"
  by (induction kvs arbitrary: m) (auto simp: parse_print_component)

lemma map_of_fold_put:
  "distinct (map fst kvs) \<Longrightarrow> map_of (fold (\<lambda>kv. AList.update (fst kv) (snd kv)) kvs m) k =
     (case map_of kvs k of None \<Rightarrow> map_of m k | Some v \<Rightarrow> Some v)"
proof (induction kvs arbitrary: m)
  case (Cons kv kvs)
  then have "map_of kvs (fst kv) = None" by (simp add: map_of_eq_None_iff)
  with Cons show ?case by (cases kv) (auto simp: go_map_simps split: option.splits)
qed simp

definition plain :: "string \<Rightarrow> bool" where
  "plain s \<longleftrightarrow> CHR ''<'' \<notin> set s"

text \<open>What is printed with different names is read back under its name.\<close>

lemma parse_print_report:
  assumes "distinct (map fst kvs)" and "kvs \<noteq> []"
    and "\<forall>kv \<in> set kvs. CHR ''='' \<notin> set (fst kv) \<and> plain (fst kv) \<and> plain (snd kv)"
    and "n = length kvs"
  shows "\<exists>m. parse (print_report kvs) n = Inr m \<and> list_all (\<lambda>(k, v). str_at m k = v) kvs"
proof -
  let ?m = "fold (\<lambda>kv. AList.update (fst kv) (snd kv)) kvs []"
  have "\<forall>w \<in> set (map print_component kvs). CHR ''<'' \<notin> set w"
    using assms(3) by (auto simp: print_component_def plain_def)
  then have "go_SplitString (print_report kvs) Separator = map print_component kvs"
    unfolding print_report_def using assms(2) by (intro go_SplitString_Join) (auto simp: Separator_def)
  then have "parse (print_report kvs) n = Inr ?m"
    using assms(3,4) by (simp add: parse_def Let_def parse_components_print)
  moreover have "str_at ?m k = v" if "(k, v) \<in> set kvs" for k v
    using map_of_fold_put [OF assms(1), of "[]" k] map_of_is_SomeI [OF assms(1) that] by (simp add: str_at_def)
  ultimately show ?thesis by (auto simp: list_all_iff)
qed

section \<open>Volume groups and physical volumes\<close>

definition print_VG :: "VG \<Rightarrow> string" where
  "print_VG vg = print_report
     [(''LVM2_VG_NAME'', lvg_Name vg), (''LVM2_VG_SIZE'', dec (unat (lvg_Size vg))),
      (''LVM2_VG_FREE'', dec (unat (lvg_FreeSize vg))), (''LVM2_VG_UUID'', lvg_UUID vg),
      (''LVM2_VG_TAGS'', go_Join (lvg_Tags vg) '',''), (''LVM2_PV_COUNT'', dec (unat (lvg_PvCount vg)))]"

definition tags_ok :: "string list \<Rightarrow> bool" where
  "tags_ok tags \<longleftrightarrow> tags \<noteq> [] \<and> (\<forall>t \<in> set tags. plain t \<and> CHR '','' \<notin> set t)"

lemma set_go_Join: "set (go_Join ws sep) \<subseteq> (\<Union>w \<in> set ws. set w) \<union> set sep"
  by (induction ws sep rule: go_Join.induct) auto

lemma plain_tags: "tags_ok tags \<Longrightarrow> plain (go_Join tags '','')"
  using set_go_Join [of tags "'',''"] by (auto simp: tags_ok_def plain_def)

lemma plain_names: "plain ''LVM2_VG_NAME''" "plain ''LVM2_VG_SIZE''" "plain ''LVM2_VG_FREE''" "plain ''LVM2_VG_UUID''"
  "plain ''LVM2_VG_TAGS''" "plain ''LVM2_PV_COUNT''" "plain ''LVM2_PV_NAME''" "plain ''LVM2_PV_SIZE''"
  "plain ''LVM2_PV_FREE''" "plain ''LVM2_PV_UUID''" "plain ''LVM2_PV_TAGS''" "plain ''LVM2_LV_NAME''"
  "plain ''LVM2_LV_SIZE''" "plain ''LVM2_LV_UUID''" "plain ''LVM2_LV_ATTR''" "plain ''LVM2_COPY_PERCENT''"
  "plain ''LVM2_LV_KERNEL_MAJOR''" "plain ''LVM2_LV_KERNEL_MINOR''" "plain ''LVM2_LV_TAGS''"
  by (simp_all add: plain_def)

lemma split_tags: "tags_ok tags \<Longrightarrow> go_Split (CHR '','') (go_Join tags '','') = tags"
  by (intro go_Split_Join) (auto simp: tags_ok_def)

lemma plain_dec [simp]: "plain (dec n)"
  using dec_chars [of "CHR ''<''" n] by (auto simp: plain_def)

lemma ParseUint_word [simp]: "ParseUint (dec (unat (w :: uint64))) 64 = Inr w"
  using ParseUint_dec [of "unat w" 64] unsigned_less [of w] by simp

lemma ParseVG_print:
  assumes "plain (lvg_Name vg)" and "plain (lvg_UUID vg)" and "tags_ok (lvg_Tags vg)"
  shows "ParseVG (print_VG vg) = Inr vg"
proof -
  note facts = assms plain_tags plain_names
  obtain m where m: "parse (print_VG vg) 6 = Inr m"
      and at: "list_all (\<lambda>(k, v). str_at m k = v)
    [(''LVM2_VG_NAME'', lvg_Name vg), (''LVM2_VG_SIZE'', dec (unat (lvg_Size vg))),
      (''LVM2_VG_FREE'', dec (unat (lvg_FreeSize vg))), (''LVM2_VG_UUID'', lvg_UUID vg),
      (''LVM2_VG_TAGS'', go_Join (lvg_Tags vg) '',''), (''LVM2_PV_COUNT'', dec (unat (lvg_PvCount vg)))]"
    unfolding print_VG_def using parse_print_report [of "[(''LVM2_VG_NAME'', lvg_Name vg), (''LVM2_VG_SIZE'', dec (unat (lvg_Size vg))),
      (''LVM2_VG_FREE'', dec (unat (lvg_FreeSize vg))), (''LVM2_VG_UUID'', lvg_UUID vg),
      (''LVM2_VG_TAGS'', go_Join (lvg_Tags vg) '',''), (''LVM2_PV_COUNT'', dec (unat (lvg_PvCount vg)))]" 6]
    by (auto simp: facts)
  then show ?thesis
    using assms by (simp add: ParseVG_def split_tags)
qed

definition print_PV :: "PhysicalVolume \<Rightarrow> string" where
  "print_PV pv = print_report
     [(''LVM2_PV_NAME'', lpv_Name pv), (''LVM2_PV_SIZE'', dec (unat (lpv_Size pv))),
      (''LVM2_PV_FREE'', dec (unat (lpv_FreeSize pv))), (''LVM2_PV_UUID'', lpv_UUID pv),
      (''LVM2_PV_TAGS'', go_Join (lpv_Tags pv) '',''), (''LVM2_VG_NAME'', lpv_VgName pv)]"

lemma ParsePV_print:
  assumes "plain (lpv_Name pv)" and "plain (lpv_UUID pv)" and "tags_ok (lpv_Tags pv)" and "plain (lpv_VgName pv)"
  shows "ParsePV (print_PV pv) = Inr pv"
proof -
  note facts = assms plain_tags plain_names
  obtain m where m: "parse (print_PV pv) 6 = Inr m"
      and at: "list_all (\<lambda>(k, v). str_at m k = v)
    [(''LVM2_PV_NAME'', lpv_Name pv), (''LVM2_PV_SIZE'', dec (unat (lpv_Size pv))),
      (''LVM2_PV_FREE'', dec (unat (lpv_FreeSize pv))), (''LVM2_PV_UUID'', lpv_UUID pv),
      (''LVM2_PV_TAGS'', go_Join (lpv_Tags pv) '',''), (''LVM2_VG_NAME'', lpv_VgName pv)]"
    unfolding print_PV_def using parse_print_report [of "[(''LVM2_PV_NAME'', lpv_Name pv), (''LVM2_PV_SIZE'', dec (unat (lpv_Size pv))),
      (''LVM2_PV_FREE'', dec (unat (lpv_FreeSize pv))), (''LVM2_PV_UUID'', lpv_UUID pv),
      (''LVM2_PV_TAGS'', go_Join (lpv_Tags pv) '',''), (''LVM2_VG_NAME'', lpv_VgName pv)]" 6]
    by (auto simp: facts)
  then show ?thesis
    using assms by (simp add: ParsePV_def split_tags)
qed

definition print_attrs :: "LVAttributes \<Rightarrow> string" where
  "print_attrs a = [at_Type a, at_Permissions a, at_Allocation a, at_FixedMinor a, at_State a, at_Open a,
     at_TargetType a, at_Zeroing a, at_Health a, at_ActivationSkipped a]"

definition print_LV :: "LV \<Rightarrow> string" where
  "print_LV lv = print_report
     [(''LVM2_LV_NAME'', lv_Name lv), (''LVM2_LV_SIZE'', dec (unat (lv_Size lv))), (''LVM2_LV_UUID'', lv_UUID lv),
      (''LVM2_LV_ATTR'', print_attrs (lv_Attributes lv)), (''LVM2_COPY_PERCENT'', lv_CopyPercent lv),
      (''LVM2_LV_KERNEL_MAJOR'', dec (unat (lv_ActualDevMajNumber lv))),
      (''LVM2_LV_KERNEL_MINOR'', dec (unat (lv_ActualDevMinNumber lv))),
      (''LVM2_LV_TAGS'', go_Join (lv_Tags lv) '','')]"

definition lv_ok :: "LV \<Rightarrow> bool" where
  "lv_ok lv \<longleftrightarrow> plain (lv_Name lv) \<and> plain (lv_UUID lv) \<and> plain (print_attrs (lv_Attributes lv)) \<and>
     plain (lv_CopyPercent lv) \<and> tags_ok (lv_Tags lv)"

lemma ParseUint_word32: "ParseUint (dec (unat (w :: 32 word))) 32 = Inr (ucast w)"
  using ParseUint_dec [of "unat w" 32] unsigned_less [of w] by simp

lemma ucast_up_down: "ucast (ucast (w :: 32 word) :: uint64) = w"
  by transfer simp

lemma parseAttrs_print: "parseAttrs (print_attrs a) = Inr a"
  by (simp add: parseAttrs_def print_attrs_def)

lemma ParseLV_print:
  assumes "lv_ok lv"
  shows "ParseLV (print_LV lv) = Inr lv"
proof -
  note facts = assms [unfolded lv_ok_def] plain_tags plain_names
  obtain m where m: "parse (print_LV lv) 8 = Inr m"
      and at: "list_all (\<lambda>(k, v). str_at m k = v)
    [(''LVM2_LV_NAME'', lv_Name lv), (''LVM2_LV_SIZE'', dec (unat (lv_Size lv))), (''LVM2_LV_UUID'', lv_UUID lv),
      (''LVM2_LV_ATTR'', print_attrs (lv_Attributes lv)), (''LVM2_COPY_PERCENT'', lv_CopyPercent lv),
      (''LVM2_LV_KERNEL_MAJOR'', dec (unat (lv_ActualDevMajNumber lv))),
      (''LVM2_LV_KERNEL_MINOR'', dec (unat (lv_ActualDevMinNumber lv))),
      (''LVM2_LV_TAGS'', go_Join (lv_Tags lv) '','')]"
    unfolding print_LV_def using parse_print_report [of "[(''LVM2_LV_NAME'', lv_Name lv), (''LVM2_LV_SIZE'', dec (unat (lv_Size lv))), (''LVM2_LV_UUID'', lv_UUID lv),
      (''LVM2_LV_ATTR'', print_attrs (lv_Attributes lv)), (''LVM2_COPY_PERCENT'', lv_CopyPercent lv),
      (''LVM2_LV_KERNEL_MAJOR'', dec (unat (lv_ActualDevMajNumber lv))),
      (''LVM2_LV_KERNEL_MINOR'', dec (unat (lv_ActualDevMinNumber lv))),
      (''LVM2_LV_TAGS'', go_Join (lv_Tags lv) '','')]" 8]
    by (auto simp: facts)
  then show ?thesis
    using assms by (simp add: ParseLV_def split_tags lv_ok_def ParseUint_word32 parseAttrs_print ucast_up_down)
qed

end
