(* ===== verification/Lvm_Facts.thy ===== *)
theory Lvm_Facts
  imports Lvm_Commands Lvm_Reports "HOL-Library.Multiset"
begin

text \<open>
  What the LVM daemon does to a machine: which commands an operation runs, in which order, and when.
\<close>

section \<open>Running\<close>

named_theorems io_simps \<open>what an operation does to the list of actions\<close>

lemma run_ret [io_simps]: "run_state (ret x) log = (x, log)"
  by (simp add: State_Monad.return_def)

lemma run_bind [io_simps]: "run_state (State_Monad.bind m k) log = (case run_state m log of (x, log) \<Rightarrow> run_state (k x) log)"
  by (simp add: State_Monad.bind_def)

lemma run_act [io_simps]: "run_state (act a r) log = (r log, log @ [a])"
  by (simp add: act_def)

lemma run_attempt [io_simps]:
  "run_state (attempt wrap m k) log =
     (case run_state m log of (Inl err, log) \<Rightarrow> (Inl (wrap err), log) | (Inr x, log) \<Rightarrow> run_state (k x) log)"
  by (auto simp: attempt_def io_simps split: prod.splits sum.splits)

lemma run_deferred [io_simps]:
  "run_state (deferred m d) log = (case run_state m log of (r, log) \<Rightarrow> (r, snd (run_state d log)))"
  by (simp add: deferred_def io_simps split: prod.splits)

lemma run_Run_log [io_simps]: "snd (run_state (Run H cmd) log) = log @ [Sh cmd]"
  by (simp add: Run_def io_simps)

definition sh_ok :: "host \<Rightarrow> action list \<Rightarrow> string \<Rightarrow> bool" where
  "sh_ok H log cmd \<longleftrightarrow> snd (sh_exec H log cmd) = None"

lemma run_Run:
  "run_state (Run H cmd) log =
     (if sh_ok H log cmd then Inr (fst (sh_exec H log cmd))
      else Inl (''Failed to run cmd: '' @ cmd @ '', with out: '' @ fst (sh_exec H log cmd) @ '', with error: '' @
                the (snd (sh_exec H log cmd))), log @ [Sh cmd])"
  by (auto simp: Run_def io_simps sh_ok_def split: prod.splits option.splits)

lemma run_ListLV_log [io_simps]: "snd (run_state (ListLV H spec) log) = log @ [Sh (lvs_command spec)]"
  by (simp add: ListLV_def io_simps run_Run)

section \<open>Commands\<close>

lemma shell_Cons: "shell (c # cs) = NsenterCmd @ '' '' @ c @ (if cs = [] then [] else '' '' @ go_Join cs '' '')"
  by (simp add: shell_def go_Join_Cons)

lemma commands_differ:
  "lvremove_command vg name \<noteq> lvs_command spec" "lvremove_command vg name \<noteq> origin_command vg' name'"
  by (simp_all add: lvremove_command_def lvs_command_def origin_command_def shell_Cons report_args_def)

section \<open>Removing a volume\<close>

text \<open>C26: a logical volume is only removed when it is the one volume found, carries no protection tag, and
  the query for its snapshots succeeded without naming it; the removal is then the last command.\<close>

theorem RemoveLV_guarded:
  "\<exists>acts. snd (run_state (RemoveLV H vg name) log) = log @ acts \<and>
     acts \<in> {[Sh (lvs_command (GetNameKey vg name))],
             [Sh (lvs_command (GetNameKey vg name)), Sh (origin_command vg name)],
             [Sh (lvs_command (GetNameKey vg name)), Sh (origin_command vg name), Sh (lvremove_command vg name)]} \<and>
     (Sh (lvremove_command vg name) \<in> set acts \<longleftrightarrow>
      (\<exists>lv out. fst (run_state (ListLV H (GetNameKey vg name)) log) = Inr [lv] \<and>
         ProtectedTagName \<notin> set (lv_Tags lv) \<and>
         sh_exec H (log @ [Sh (lvs_command (GetNameKey vg name))]) (origin_command vg name) = (out, None) \<and>
         \<not> go_Contains out name))"
proof -
  let ?list = "Sh (lvs_command (GetNameKey vg name))" and ?origin = "Sh (origin_command vg name)"
  obtain r where list: "run_state (ListLV H (GetNameKey vg name)) log = (r, log @ [?list])"
    using run_ListLV_log [of H "GetNameKey vg name" log] by (metis prod.collapse)
  show ?thesis
  proof (cases "\<exists>lv. r = Inr [lv] \<and> ProtectedTagName \<notin> set (lv_Tags lv)")
    case False
    with list show ?thesis
      by (intro exI [of _ "[?list]"])
        (auto simp: RemoveLV_def io_simps commands_differ length_Suc_conv split: sum.splits)
  next
    case True
    then obtain lv where lv: "r = Inr [lv]" "ProtectedTagName \<notin> set (lv_Tags lv)" by blast
    obtain out err where q: "sh_exec H (log @ [?list]) (origin_command vg name) = (out, err)" by fastforce
    show ?thesis
    proof (cases "err = None \<and> \<not> go_Contains out name")
      case True
      with list lv q show ?thesis
        by (intro exI [of _ "[?list, ?origin, Sh (lvremove_command vg name)]"])
          (simp add: RemoveLV_def io_simps run_Run sh_ok_def commands_differ)
    next
      case False
      with list lv q show ?thesis
        by (intro exI [of _ "[?list, ?origin]"])
          (auto simp: RemoveLV_def io_simps run_Run sh_ok_def commands_differ)
    qed
  qed
qed

section \<open>The temporary snapshot of a backup\<close>

lemma backup_snapshot_log:
  "snd (run_state (backup_snapshot H snap src dir secrets) log) \<in> {log, log @ [BackupData src dir snap]}"
  by (auto simp: backup_snapshot_def io_simps NewResticClient_def restic_backup_def split: option.splits sum.splits)

text \<open>C27: whatever fails while a volume is backed up, what was set up is taken down again in the opposite
  order: once the temporary snapshot exists, the last action removes it; a directory made for it is removed
  before, and a mounted file system is unmounted before that.\<close>

theorem temp_snapshot_removed:
  "\<exists>acts. snd (run_state (CreateSnapshot H vg snap src False n secrets) log) = log @ acts \<and>
     (let create = Sh (snapshot_command vg snap src ''4G''); remove = Sh (lvremove_command vg snap);
          mkdir = MkdirAll (temp_dir snap); rmdir = RemoveAll (temp_dir snap);
          mount = Sh (mount_command vg snap); umount = Sh (umount_command snap);
          backup = BackupData src (temp_dir snap) snap
      in if \<not> sh_ok H log (snapshot_command vg snap src ''4G'') then acts = [create]
         else if mkdir_all H (log @ [create]) (temp_dir snap) \<noteq> None then acts = [create, mkdir, remove]
         else if \<not> sh_ok H (log @ [create, mkdir]) (mount_command vg snap)
         then acts = [create, mkdir, mount, rmdir, remove]
         else acts \<in> {[create, mkdir, mount, umount, rmdir, remove],
                      [create, mkdir, mount, backup, umount, rmdir, remove]})"
proof -
  let ?create = "Sh (snapshot_command vg snap src ''4G'')" and ?mkdir = "MkdirAll (temp_dir snap)"
  let ?log = "log @ [?create, ?mkdir, Sh (mount_command vg snap)]"
  note defs = CreateSnapshot_def Let_def io_simps run_Run os_MkdirAll_def os_RemoveAll_def
  obtain r log' where b: "run_state (backup_snapshot H snap src (temp_dir snap) secrets) ?log = (r, log')" by fastforce
  with backup_snapshot_log [of H snap src "temp_dir snap" secrets ?log]
  have log': "log' \<in> {?log, ?log @ [BackupData src (temp_dir snap) snap]}" by simp
  consider "\<not> sh_ok H log (snapshot_command vg snap src ''4G'')"
    | "sh_ok H log (snapshot_command vg snap src ''4G'')" "mkdir_all H (log @ [?create]) (temp_dir snap) \<noteq> None"
    | "sh_ok H log (snapshot_command vg snap src ''4G'')" "mkdir_all H (log @ [?create]) (temp_dir snap) = None"
      "\<not> sh_ok H (log @ [?create, ?mkdir]) (mount_command vg snap)"
    | "sh_ok H log (snapshot_command vg snap src ''4G'')" "mkdir_all H (log @ [?create]) (temp_dir snap) = None"
      "sh_ok H (log @ [?create, ?mkdir]) (mount_command vg snap)" by blast
  then show ?thesis
  proof cases
    case 4
    with b log' show ?thesis by (auto simp: defs)
  qed (auto simp: defs)
qed

section \<open>Striping\<close>

abbreviation too_small :: "uint64 \<Rightarrow> PhysicalVolume \<Rightarrow> bool" where
  "too_small avg pv \<equiv> lpv_FreeSize pv < avg"

lemma drop_small_stale_panics:
  assumes "n < length arr" and "num < length arr" and "too_small avg (arr ! (length arr - 1))"
  shows "drop_small avg num arr n = None"
  using assms
proof (induction avg num arr n rule: drop_small.induct)
  case (1 avg num arr n)
  show ?case
  proof (cases "too_small avg (arr ! num)")
    case True
    show ?thesis
    proof (cases "n < num + 1")
      case True
      with 1 \<open>too_small avg (arr ! num)\<close> show ?thesis by (subst drop_small.simps) simp
    next
      case False
      let ?arr = "take num arr @ drop (num + 1) (take n arr) @ drop (n - 1) arr"
      have len: "length ?arr = length arr" using False "1.prems" by simp
      have "?arr ! (length arr - 1) = arr ! (length arr - 1)"
        using False "1.prems"(1) by (simp add: nth_append min_def)
      with len False "1.prems" 1(1) [OF _ True False] have "drop_small avg (num + 1) ?arr (n - 1) = None" by auto
      with True False "1.prems" show ?thesis by (subst drop_small.simps) simp
    qed
  next
    case False
    with 1 have "num \<noteq> length arr - 1" by auto
    with 1 False have "drop_small avg (num + 1) arr n = None" by auto
    with False "1.prems" show ?thesis by (subst drop_small.simps) simp
  qed
qed

lemma removed_nth:
  assumes "num < n" and "n \<le> length arr" and "i < length arr"
  shows "(take num arr @ drop (num + 1) (take n arr) @ drop (n - 1) arr) ! i =
    (if i < num then arr ! i else if i < n - 1 then arr ! (i + 1) else arr ! i)"
  using assms by (auto simp: nth_append min_def)

lemma drop_small_kept_last:
  assumes "1 \<le> n" and "n \<le> length arr" and "\<not> too_small avg x"
    and "\<forall>i. n - 1 \<le> i \<longrightarrow> i < length arr \<longrightarrow> arr ! i = x"
  shows "drop_small avg num arr n \<noteq> None"
  using assms
proof (induction avg num arr n rule: drop_small.induct)
  case (1 avg num arr n)
  show ?case
  proof (cases "num < length arr \<and> too_small avg (arr ! num)")
    case False
    with 1 show ?thesis by (subst drop_small.simps) auto
  next
    case True
    with "1.prems" have num: "num < n - 1" by (metis not_le)
    let ?arr = "take num arr @ drop (num + 1) (take n arr) @ drop (n - 1) arr"
    have len: "length ?arr = length arr" using num "1.prems"(2) by simp
    have "?arr ! i = x" if "n - 1 - 1 \<le> i" "i < length arr" for i
      using removed_nth [of num n arr i] that num "1.prems" by auto
    with len num True "1.prems" 1(1) [OF _ conjunct2 [OF True]]
    have "drop_small avg (num + 1) ?arr (n - 1) \<noteq> None" by auto
    with True num show ?thesis by (subst drop_small.simps) simp
  qed
qed

lemma drop_small_panics_iff:
  "drop_small avg num arr (length arr) = None \<longleftrightarrow>
     (\<exists>i. num \<le> i \<and> i < length arr - 1 \<and> too_small avg (arr ! i)) \<and> too_small avg (arr ! (length arr - 1))"
proof (induction "length arr - num" arbitrary: num)
  case 0
  then show ?case by (subst drop_small.simps) auto
next
  case (Suc k)
  then have num: "num < length arr" by simp
  let ?arr = "take num arr @ drop (num + 1) arr @ drop (length arr - 1) arr"
  have step: "drop_small avg num arr (length arr) =
      (if too_small avg (arr ! num) then drop_small avg (num + 1) ?arr (length arr - 1)
       else drop_small avg (num + 1) arr (length arr))"
    using num by (subst drop_small.simps) simp
  have len: "length ?arr = length arr" using num by simp
  consider "\<not> too_small avg (arr ! num)" | "too_small avg (arr ! num)" "num = length arr - 1"
    | "too_small avg (arr ! num)" "num < length arr - 1" using num by linarith
  then show ?case
  proof cases
    case 1
    then have "(\<exists>i. num + 1 \<le> i \<and> i < length arr - 1 \<and> too_small avg (arr ! i)) =
        (\<exists>i. num \<le> i \<and> i < length arr - 1 \<and> too_small avg (arr ! i))"
      by (metis Suc_eq_plus1 Suc_leI Suc_leD le_neq_implies_less)
    with 1 Suc(1) [of "num + 1"] Suc(2) step show ?thesis by simp
  next
    case 2
    then have "length ?arr \<le> num + 1" using len by simp
    then have "drop_small avg (num + 1) ?arr (length arr - 1) \<noteq> None"
      unfolding drop_small.simps [of avg "num + 1" ?arr] by (simp only: if_True) simp
    with 2 step show ?thesis by auto
  next
    case 3
    have nth: "?arr ! i = (if i < num then arr ! i else if i < length arr - 1 then arr ! (i + 1) else arr ! i)"
      if "i < length arr" for i
      using removed_nth [OF num order_refl that] by simp
    show ?thesis
    proof (cases "too_small avg (arr ! (length arr - 1))")
      case True
      with 3 nth [of "length arr - 1"] num len drop_small_stale_panics [of "length arr - 1" ?arr "num + 1" avg]
      have "drop_small avg (num + 1) ?arr (length arr - 1) = None" by simp
      with 3 True step show ?thesis by auto
    next
      case False
      have "\<forall>i. length arr - 1 - 1 \<le> i \<longrightarrow> i < length ?arr \<longrightarrow> ?arr ! i = arr ! (length arr - 1)"
      proof (intro allI impI)
        fix i
        assume i: "length arr - 1 - 1 \<le> i" "i < length ?arr"
        with len have "i = length arr - 1 \<or> i = length arr - 1 - 1" by linarith
        moreover from 3 have "Suc (length arr - 1 - 1) = length arr - 1" by linarith
        ultimately show "?arr ! i = arr ! (length arr - 1)" using nth [of i] i len 3 by auto
      qed
      with False 3 len drop_small_kept_last [of "length arr - 1" ?arr "arr ! (length arr - 1)" avg "num + 1"]
      have "drop_small avg (num + 1) ?arr (length arr - 1) \<noteq> None" by simp
      with False 3 step show ?thesis by auto
    qed
  qed
qed

lemma drop_small_part:
  assumes "drop_small avg num arr n = Some (arr', n')" and "n \<le> length arr"
  shows "n' \<le> length arr' \<and> mset (take n' arr') \<subseteq># mset (take n arr)"
  using assms
proof (induction avg num arr n rule: drop_small.induct)
  case (1 avg num arr n)
  let ?arr = "take num arr @ drop (num + 1) (take n arr) @ drop (n - 1) arr"
  note step = drop_small.simps [of avg num arr n]
  consider "length arr \<le> num" | "num < length arr" "\<not> too_small avg (arr ! num)"
    | "num < length arr" "too_small avg (arr ! num)" by linarith
  then show ?case
  proof cases
    case 1
    with "1.prems" step show ?thesis by simp
  next
    case 2
    with "1.prems" step "1.IH"(2) show ?thesis by simp
  next
    case 3
    with "1.prems"(1) step have num: "num < n"
      and run: "drop_small avg (num + 1) ?arr (n - 1) = Some (arr', n')"
      by (auto split: if_splits)
    have part: "take (n - 1) ?arr = take num (take n arr) @ drop (num + 1) (take n arr)"
      using num "1.prems"(2) by simp
    have "mset (take num (take n arr)) + mset (drop num (take n arr)) = mset (take n arr)"
      by (metis append_take_drop_id mset_append)
    moreover have "drop num (take n arr) = take n arr ! num # drop (num + 1) (take n arr)"
      using Cons_nth_drop_Suc [of num "take n arr"] num "1.prems"(2) by simp
    ultimately have "mset (take n arr) = mset (take (n - 1) ?arr) + {#take n arr ! num#}"
      unfolding part mset_append by simp
    then have "mset (take (n - 1) ?arr) \<subseteq># mset (take n arr)" by simp
    moreover have "n' \<le> length arr' \<and> mset (take n' arr') \<subseteq># mset (take (n - 1) ?arr)"
      using 3 num run "1.prems"(2) by (intro "1.IH"(1)) auto
    ultimately show ?thesis by (auto intro: subset_mset.order_trans)
  qed
qed

lemma drop_small_unchanged:
  assumes "drop_small avg num arr n = Some (arr', n)"
  shows "arr' = arr \<and> (\<forall>i. num \<le> i \<longrightarrow> i < length arr \<longrightarrow> \<not> too_small avg (arr ! i))"
  using assms
proof (induction avg num arr n rule: drop_small.induct)
  case (1 avg num arr n)
  let ?arr = "take num arr @ drop (num + 1) (take n arr) @ drop (n - 1) arr"
  note step = drop_small.simps [of avg num arr n]
  consider "length arr \<le> num" | "num < length arr" "\<not> too_small avg (arr ! num)"
    | "num < length arr" "too_small avg (arr ! num)" by linarith
  then show ?case
  proof cases
    case 1
    with "1.prems" step show ?thesis by simp
  next
    case 2
    with "1.prems" step "1.IH"(2)
    have "arr' = arr \<and> (\<forall>i. num + 1 \<le> i \<longrightarrow> i < length arr \<longrightarrow> \<not> too_small avg (arr ! i))" by simp
    with 2 show ?thesis by (metis Suc_eq_plus1 Suc_leI le_neq_implies_less)
  next
    case 3
    with "1.prems" step have "num < n" and "drop_small avg (num + 1) ?arr (n - 1) = Some (arr', n)"
      by (auto split: if_splits)
    with drop_small_shrinks [of avg "num + 1" ?arr "n - 1" arr' n] show ?thesis by simp
  qed
qed

lemma required_loop_sound:
  "required_loop sz pvs = Some k \<Longrightarrow>
     \<exists>qs. mset qs \<subseteq># mset pvs \<and> length qs = k \<and>
          (\<forall>q \<in> set qs. sz div word_of_nat k \<le> lpv_FreeSize q)"
proof (induction sz pvs rule: required_loop.induct)
  case (1 sz pvs)
  note step = required_loop.simps [of sz pvs]
  show ?case
  proof (cases "pvs = []")
    case True
    with 1 step show ?thesis by simp
  next
    case False
    with "1.prems" step obtain arr n where
      d: "drop_small (sz div word_of_nat (length pvs)) 0 pvs (length pvs) = Some (arr, n)"
      by (auto split: option.splits)
    from drop_small_part [OF d] have part: "n \<le> length arr" "mset (take n arr) \<subseteq># mset pvs" by auto
    show ?thesis
    proof (cases "length pvs \<le> n")
      case True
      with d drop_small_shrinks [OF d] have n: "n = length pvs" by simp
      with d "1.prems" step False have "k = length pvs" by simp
      moreover have "\<forall>i < length pvs. \<not> too_small (sz div word_of_nat (length pvs)) (pvs ! i)"
        using drop_small_unchanged d n by blast
      ultimately show ?thesis
        by (intro exI [of _ pvs]) (auto simp: in_set_conv_nth not_less)
    next
      case False
      with d "1.prems" step \<open>pvs \<noteq> []\<close> have "required_loop sz (take n arr) = Some k" by simp
      with 1(1) [OF _ d refl False] \<open>pvs \<noteq> []\<close> obtain qs where
        "mset qs \<subseteq># mset (take n arr)" "length qs = k" "\<forall>q \<in> set qs. sz div word_of_nat k \<le> lpv_FreeSize q" by auto
      with part(2) show ?thesis by (intro exI [of _ qs]) (auto intro: subset_mset.order_trans)
    qed
  qed
qed

lemma required_loop_panics:
  assumes "2 \<le> length pvs"
    and "\<forall>pv \<in> set pvs. lpv_FreeSize pv < sz div word_of_nat (length pvs)"
  shows "required_loop sz pvs = None"
proof -
  from assms(1) have i: "0 < length pvs - 1" "length pvs - 1 < length pvs" "0 < length pvs" by linarith+
  with assms(2) have "drop_small (sz div word_of_nat (length pvs)) 0 pvs (length pvs) = None"
    unfolding drop_small_panics_iff by (meson nth_mem order_refl)
  with assms(1) show ?thesis by (subst required_loop.simps) auto
qed

text \<open>A striped volume of \<open>k\<close> stripes is only asked for when \<open>k\<close> of the group's physical volumes
  have each as much free space as a stripe needs.\<close>

theorem stripes_fit:
  assumes "fst (run_state (getRequiredPVNumber H vg sz) log) = Inr (Some k)"
  shows "\<exists>pvs qs. fst (run_state (ListPV H vg) log) = Inr pvs \<and> mset qs \<subseteq># mset pvs \<and> length qs = k \<and>
    list_all (\<lambda>pv. sz div word_of_nat k \<le> lpv_FreeSize pv) qs"
proof -
  from assms obtain pvs where pvs: "fst (run_state (ListPV H vg) log) = Inr pvs" "required_loop sz pvs = Some k"
    by (auto simp: getRequiredPVNumber_def io_simps split: prod.splits sum.splits)
  from required_loop_sound [OF this(2)] pvs(1) show ?thesis by (auto simp: list_all_iff)
qed

text \<open>Asking for a striped volume when a group has at least two physical volumes and none of them has
  room for a stripe does not give the error about space: the daemon panics.\<close>

theorem striping_panics:
  assumes "fst (run_state (ListPV H vg) log) = Inr pvs" and "2 \<le> length pvs" and "sz \<noteq> 0"
    and "list_all (\<lambda>pv. lpv_FreeSize pv < sz div word_of_nat (length pvs)) pvs"
  shows "run_state (CreateLV H vg name sz mirrors tags True) log = (Inr None, log @ [Sh (pvs_command vg)])"
proof -
  have "snd (run_state (ListPV H vg) log) = log @ [Sh (pvs_command vg)]"
    by (simp add: ListPV_def io_simps run_Run)
  with assms(1) have "run_state (ListPV H vg) log = (Inr pvs, log @ [Sh (pvs_command vg)])"
    by (metis prod.collapse)
  moreover have "required_loop sz pvs = None"
    using assms(2,4) by (intro required_loop_panics) (auto simp: list_all_iff)
  ultimately show ?thesis using assms(3)
    by (simp add: CreateLV_def getRequiredPVNumber_def io_simps Let_def)
qed

section \<open>What the tools print\<close>

text \<open>The tools indent every line by two blanks.\<close>

definition report_output :: "string list \<Rightarrow> string" where
  "report_output ws = concat (map (\<lambda>w. ''  '' @ w @ [CHR 0x0A]) ws)"

definition is_line :: "string \<Rightarrow> bool" where
  "is_line w \<longleftrightarrow> w \<noteq> [] \<and> \<not> is_space (hd w) \<and> \<not> is_space (last w) \<and> CHR 0x0A \<notin> set w"

lemma dropWhile_hd: "w \<noteq> [] \<Longrightarrow> \<not> P (hd w) \<Longrightarrow> dropWhile P w = w"
  by (cases w) simp_all

lemma trim_line: "w \<noteq> [] \<Longrightarrow> \<not> is_space (hd w) \<Longrightarrow> \<not> is_space (last w) \<Longrightarrow> TrimSpace w = w"
  by (simp add: TrimSpace_def dropWhile_hd hd_rev)

lemma blanks: "is_space (CHR '' '')" "is_space (CHR 0x0A)" "\<not> is_space (CHR 0x27)" "\<not> is_space (CHR ''L'')"
  by (simp_all add: is_space_def)

lemma trim_blanks: "TrimSpace (''  '' @ s) = TrimSpace s" "TrimSpace (s @ [CHR 0x0A]) = TrimSpace s"
proof -
  show "TrimSpace (''  '' @ s) = TrimSpace s" by (simp add: TrimSpace_def blanks)
  show "TrimSpace (s @ [CHR 0x0A]) = TrimSpace s"
  proof (cases "\<forall>x \<in> set s. is_space x")
    case True
    then have "dropWhile is_space s = []" by (simp only: dropWhile_eq_Nil_conv)
    moreover from True have "dropWhile is_space (s @ [CHR 0x0A]) = []"
      by (simp only: dropWhile_append2 dropWhile.simps blanks if_True)
    ultimately show ?thesis by (simp only: TrimSpace_def)
  next
    case False
    then obtain x where "x \<in> set s" "\<not> is_space x" by blast
    then show ?thesis by (simp add: TrimSpace_def blanks dropWhile_append1)
  qed
qed

lemma join_ends:
  assumes "\<forall>w \<in> set ws. w \<noteq> []" and "ws \<noteq> []"
  shows "go_Join ws sep \<noteq> [] \<and> hd (go_Join ws sep) = hd (hd ws) \<and> last (go_Join ws sep) = last (last ws)"
  using assms by (induction ws) (auto simp: go_Join_Cons)

lemma report_output_Cons:
  "report_output (w # ws) = ''  '' @ go_Join (w # map ((@) ''  '') ws) [CHR 0x0A] @ [CHR 0x0A]"
  by (induction ws arbitrary: w) (simp_all add: report_output_def go_Join_Cons)

lemma report_lines:
  assumes "\<forall>w \<in> set ws. is_line w" and "ws \<noteq> []"
  shows "map TrimSpace (go_Split (CHR 0x0A) (TrimSpace (report_output ws))) = ws"
proof -
  from assms(2) obtain w vs where ws: "ws = w # vs" by (cases ws) auto
  let ?ls = "w # map ((@) ''  '') vs"
  have ne: "\<forall>l \<in> set ?ls. l \<noteq> []" using assms(1) by (auto simp: ws is_line_def)
  have "last (last ?ls) = last (last (w # vs))" using assms(1) ws
    by (cases vs rule: rev_cases) (auto simp: is_line_def)
  moreover have "is_line (last (w # vs))" using assms(1) unfolding ws by (metis last_in_set list.distinct(1))
  ultimately have "TrimSpace (report_output ws) = go_Join ?ls [CHR 0x0A]"
    using join_ends [OF ne, of "[CHR 0x0A]"] assms(1)
    unfolding ws report_output_Cons trim_blanks append_assoc [symmetric]
    by (intro trim_line) (auto simp: is_line_def)
  moreover have "go_Split (CHR 0x0A) (go_Join ?ls [CHR 0x0A]) = ?ls"
    using assms(1) by (intro go_Split_Join) (auto simp: ws is_line_def)
  moreover have "map TrimSpace ?ls = ws"
    using assms(1) by (auto simp: ws trim_blanks(1) [simplified] is_line_def trim_line intro!: map_idI)
  ultimately show ?thesis by simp
qed

lemma parse_lines_map:
  "\<forall>x \<in> set xs. f (print x) = Inr x \<Longrightarrow> map TrimSpace ls = map print xs \<Longrightarrow> parse_lines f ls = Inr xs"
proof (induction xs arbitrary: ls)
  case (Cons x xs)
  then obtain l ls' where "ls = l # ls'" by (cases ls) auto
  with Cons show ?case by simp
qed simp

lemma parse_report:
  assumes "\<forall>x \<in> set xs. f (print x) = Inr x \<and> is_line (print x)" and "xs \<noteq> []"
  shows "parse_lines f (go_Split (CHR 0x0A) (TrimSpace (report_output (map print xs)))) = Inr xs"
  using assms by (intro parse_lines_map [of _ _ print]) (auto intro!: report_lines)

lemma print_report_line:
  assumes "list_all (\<lambda>(k, v). k \<noteq> [] \<and> \<not> is_space (hd k) \<and> CHR 0x0A \<notin> set k \<and> CHR 0x0A \<notin> set v) kvs" and "kvs \<noteq> []"
  shows "is_line (print_report kvs)"
proof -
  let ?ws = "map print_component kvs"
  have ne: "\<forall>w \<in> set ?ws. w \<noteq> []" by (auto simp: print_component_def)
  have "last (last ?ws) = CHR 0x27" using assms(2) by (cases kvs rule: rev_cases) (auto simp: print_component_def)
  moreover have "\<not> is_space (hd (hd ?ws))" using assms by (cases kvs) (auto simp: print_component_def)
  moreover have "CHR 0x0A \<notin> set (go_Join ?ws Separator)"
  proof -
    have "CHR 0x0A \<notin> set w" if "w \<in> set ?ws" for w
      using that assms(1) by (auto simp: print_component_def list_all_iff)
    moreover have "CHR 0x0A \<notin> set Separator" by (simp add: Separator_def)
    ultimately show ?thesis using set_go_Join [of ?ws Separator] by blast
  qed
  ultimately show ?thesis using join_ends [OF ne, of Separator] assms(2)
    by (auto simp: is_line_def print_report_def is_space_def)
qed

definition one_line :: "string \<Rightarrow> bool" where "one_line s \<longleftrightarrow> plain s \<and> CHR 0x0A \<notin> set s"

definition vg_ok :: "VG \<Rightarrow> bool" where
  "vg_ok vg \<longleftrightarrow> one_line (lvg_Name vg) \<and> one_line (lvg_UUID vg) \<and> tags_ok (lvg_Tags vg) \<and>
     list_all (\<lambda>t. CHR 0x0A \<notin> set t) (lvg_Tags vg)"

lemma dec_line [simp]: "CHR 0x0A \<notin> set (dec n)"
  using dec_chars [of "CHR 0x0A" n] by auto

lemma is_line_print_VG: "vg_ok vg \<Longrightarrow> is_line (print_VG vg)"
  unfolding print_VG_def using set_go_Join [of "lvg_Tags vg" "'',''"]
  by (intro print_report_line) (auto simp: vg_ok_def one_line_def is_space_def list_all_iff)

text \<open>C28: the volume groups the daemon lists are those \<open>vgs\<close> printed, one an indented line; when there is
  none, the listing fails instead of giving no group.\<close>

theorem ListVG_reports:
  assumes "\<And>log. sh_exec H log vgs_command = (report_output (map print_VG vgs), None)"
    and "list_all vg_ok vgs"
  shows "run_state (ListVG H) log =
    (if vgs = [] then Inl (''expected 6 components, got 1'') else Inr vgs, log @ [Sh vgs_command])"
proof -
  have "parse_lines ParseVG (go_Split (CHR 0x0A) (TrimSpace (report_output (map print_VG vgs)))) = Inr vgs"
    if "vgs \<noteq> []"
    using assms(2) that
    by (intro parse_report) (auto simp: list_all_iff is_line_print_VG ParseVG_print vg_ok_def one_line_def)
  moreover have "parse_lines ParseVG (go_Split (CHR 0x0A) (TrimSpace (report_output []))) = Inl (''expected 6 components, got 1'')"
    by code_simp
  ultimately show ?thesis using assms(1) by (auto simp: ListVG_def io_simps run_Run sh_ok_def)
qed

section \<open>Examples\<close>

text \<open>A machine on which every command succeeds and prints the same.\<close>

definition ex_host :: "string \<Rightarrow> host" where
  "ex_host out = \<lparr>sh_exec = (\<lambda>log cmd. (out, None)), mkdir_all = (\<lambda>log path. None), remove_all = (\<lambda>log path. None),
     read_dir = (\<lambda>log path. Inr []), stat_path = (\<lambda>log path. None), new_restic = (\<lambda>log. None),
     backup_data = (\<lambda>log repository path tag. Inr 0)\<rparr>"

definition ex_report_pv :: "string \<Rightarrow> nat \<Rightarrow> string" where
  "ex_report_pv name free = print_report
     [(''LVM2_PV_NAME'', name), (''LVM2_PV_SIZE'', ''100''), (''LVM2_PV_FREE'', dec free), (''LVM2_PV_UUID'', ''u''),
      (''LVM2_PV_TAGS'', []), (''LVM2_VG_NAME'', ''pool'')]"

definition ex_pvs :: host where
  "ex_pvs = ex_host (report_output [ex_report_pv ''/dev/b'' 50, ex_report_pv ''/dev/c'' 10])"

lemma stripes_fit_witness:
  "\<exists>pvs qs. fst (run_state (ListPV ex_pvs ''pool'') []) = Inr pvs \<and> mset qs \<subseteq># mset pvs \<and> length qs = 1 \<and>
    list_all (\<lambda>pv. 40 div word_of_nat 1 \<le> lpv_FreeSize pv) qs"
proof (rule stripes_fit)
  show "fst (run_state (getRequiredPVNumber ex_pvs ''pool'' 40) []) = Inr (Some 1)" by code_simp
qed

lemma striping_panics_witness:
  "run_state (CreateLV ex_pvs ''pool'' ''v'' 200 0 [] True) [] = (Inr None, [] @ [Sh (pvs_command ''pool'')])"
proof (rule striping_panics)
  let ?pvs = "[\<lparr>lpv_Name = ''/dev/b'', lpv_Size = 100, lpv_FreeSize = 50, lpv_UUID = ''u'', lpv_Tags = [[]], lpv_VgName = ''pool''\<rparr>,
    \<lparr>lpv_Name = ''/dev/c'', lpv_Size = 100, lpv_FreeSize = 10, lpv_UUID = ''u'', lpv_Tags = [[]], lpv_VgName = ''pool''\<rparr>]"
  show "fst (run_state (ListPV ex_pvs ''pool'') []) = Inr ?pvs" by code_simp
  show "2 \<le> length ?pvs" by simp
  show "(200 :: uint64) \<noteq> 0" by simp
  show "list_all (\<lambda>pv. lpv_FreeSize pv < 200 div word_of_nat (length ?pvs)) ?pvs" by code_simp
qed

definition ex_VG :: VG where
  "ex_VG = \<lparr>lvg_Name = ''pool'', lvg_Size = 100, lvg_FreeSize = 60, lvg_UUID = ''u'', lvg_Tags = [''a'', ''b''], lvg_PvCount = 2\<rparr>"

lemma ListVG_reports_witness:
  "run_state (ListVG (ex_host (report_output (map print_VG [ex_VG])))) [] =
    (if [ex_VG] = [] then Inl (''expected 6 components, got 1'') else Inr [ex_VG], [] @ [Sh vgs_command])"
proof (rule ListVG_reports)
  show "sh_exec (ex_host (report_output (map print_VG [ex_VG]))) log vgs_command =
      (report_output (map print_VG [ex_VG]), None)" for log
    by (simp add: ex_host_def)
  show "list_all vg_ok [ex_VG]" by code_simp
qed

end
