(* ===== verification/Csi_Examples.thy ===== *)
theory Csi_Examples
  imports Csi_Snapshot Lvm_Facts Examples
begin

text \<open>A small cluster for the controller: one node, one volume, and a machine that remembers whether it has it.\<close>

definition ex_lv :: LV where
  "ex_lv = \<lparr>lv_Name = ''v'', lv_Size = 100, lv_UUID = ''u'',
     lv_Attributes = \<lparr>at_Type = CHR ''-'', at_Permissions = CHR ''w'', at_Allocation = CHR ''i'', at_FixedMinor = CHR ''-'',
       at_State = CHR ''a'', at_Open = CHR ''-'', at_TargetType = CHR ''-'', at_Zeroing = CHR ''-'', at_Health = CHR ''-'',
       at_ActivationSkipped = CHR ''-''\<rparr>,
     lv_CopyPercent = [], lv_ActualDevMajNumber = 253, lv_ActualDevMinNumber = 0, lv_Tags = [[]]\<rparr>"

text \<open>Whether a command makes the volume \<open>pool/v\<close>.\<close>

definition ex_makes :: "action \<Rightarrow> bool" where
  "ex_makes a = (case a of
     Sh c \<Rightarrow> after_prefix (shell [''lvcreate'', ''-n'', ''v''] @ '' '') c \<noteq> None \<and> after_prefix (rev '' pool'') (rev c) \<noteq> None
   | _ \<Rightarrow> False)"

definition ex_there :: "action list \<Rightarrow> bool" where
  "ex_there acts = fold (\<lambda>a b. if a = Sh (lvremove_command ''pool'' ''v'') then False else if ex_makes a then True else b) acts False"

definition ex_machine :: host where
  "ex_machine = (ex_host [])\<lparr>sh_exec := (\<lambda>acts cmd.
     if cmd = lvs_command ''pool/v''
     then (if ex_there acts then (report_output [print_LV ex_lv], None)
           else (''Failed to find logical volume pool/v'', Some ''exit status 5''))
     else ([], None))\<rparr>"

definition ex_csi_pv :: PersistentVolume where
  "ex_csi_pv = \<lparr>pv_Name = ''v'', pv_Annotations = [], pv_Capacity = Some 100,
     pv_CSI = Some \<lparr>csi_Driver = ''local.csi.aliyun.com'',
       csi_VolumeAttributes = [(VolumeTypeKey, VolumeTypeLVM), (key_VGName, ''pool'')]\<rparr>,
     pv_ClaimRef = None,
     pv_NodeAffinity = Some (Some [[\<lparr>ex_Key = KubernetesNodeIdentityKey, ex_Operator = ''In'', ex_Values = [''n'']\<rparr>]]),
     pv_Phase = VolumeBound\<rparr>"

definition ex_csi_pvc :: PersistentVolumeClaim where
  "ex_csi_pvc = (ex_pvc ''c'' 100)\<lparr>pvc_Annotations := [(AnnoSelectedNode, ''n'')], pvc_DataSource := None\<rparr>"

definition ex_env :: csi_env where
  "ex_env = \<lparr>csi_K = ex_kube\<lparr>pvc_get := (\<lambda>_ _. Some ex_csi_pvc), pv_get := (\<lambda>_. Some ex_csi_pv)\<rparr>,
     node_get = (\<lambda>_. Some \<lparr>node_Name = ''n'', node_Addresses = []\<rparr>), parse_ip = (\<lambda>_. None), lvmd_port = ''1736'',
     use_node_hostname = True, dial = (\<lambda>_. None), host_at = (\<lambda>_. ex_machine), http_get = (\<lambda>_ _. Inr []),
     json_binding = (\<lambda>_. Inr \<lparr>bi_Node = ''n'', bi_Disk = [], bi_VgName = ''pool'', bi_Device = [], bi_VolumeType = ''LVM'',
       bi_PersistentVolumeClaim = ''ns/c''\<rparr>),
     extender_host = ''http://extender'', snapcontent_get = (\<lambda>_. Inl []), snapclass_error = (\<lambda>_. []),
     ParseUnits_error = (\<lambda>_. []), parse_float = (\<lambda>_. Inl []), snapshot_prefix = [], restic_client = (\<lambda>_ _ _. None),
     restic_delete = (\<lambda>_ _. None), print_caps = (\<lambda>_. []), extenderSchedulerNames = [''sched''], frameworkSchedulerNames = []\<rparr>"

definition ex_world :: "unit gomap \<Rightarrow> action list \<Rightarrow> world" where
  "ex_world inflight acts = \<lparr>w_inFlight = inflight, w_info = [(''ns/c'', ''sched'')], w_logs = (\<lambda>_. acts), w_requests = [],
     w_deletions = []\<rparr>"

definition ex_req :: CreateVolumeRequest where
  "ex_req = \<lparr>cvr_Name = ''v'', cvr_VolumeCapabilities = [Some SINGLE_NODE_WRITER],
     cvr_Parameters = [(VolumeTypeKey, VolumeTypeLVM), (key_PVCName, ''c''), (key_PVCNameSpace, ''ns'')],
     cvr_RequiredBytes = 100, cvr_ContentSource = None\<rparr>"

end
