(* ===== verification/State_Frame.thy ===== *)
theory State_Frame
  imports "HOL-Library.State_Monad" "HOL-Library.AList"
begin

text \<open>
  Running a state transformer, and what it keeps: a relation between the states before and after that holds of
  every step of a transformer holds of the whole. The relations the services' requests are shown to keep are
  interpretations of the locale.
\<close>

named_theorems handler_simps \<open>what a handler does to the world\<close>

lemma run_return [handler_simps]: "run_state (State_Monad.return x) w = (x, w)"
  by (simp add: State_Monad.return_def)

lemma run_hbind: "run_state (State_Monad.bind m k) w = (case run_state m w of (x, w) \<Rightarrow> run_state (k x) w)"
  by (simp add: State_Monad.bind_def)

lemma update_delete: "map_of m k = None \<Longrightarrow> AList.delete k (AList.update k v m) = m"
  by (induction m) (auto simp: AList.delete_eq)

definition keeps :: "('s \<Rightarrow> 's \<Rightarrow> bool) \<Rightarrow> ('s, 'a) state \<Rightarrow> bool" where
  "keeps R m \<longleftrightarrow> (\<forall>w. R w (snd (run_state m w)))"

lemma keepsD: "keeps R m \<Longrightarrow> run_state m w = (r, w') \<Longrightarrow> R w w'"
  by (metis keeps_def snd_conv)

text \<open>A relation between the states before and after that holds across several steps when it holds across
  each of them.\<close>

locale frame =
  fixes R :: "'s \<Rightarrow> 's \<Rightarrow> bool"
  assumes same: "R w w" and steps: "R w w' \<Longrightarrow> R w' w'' \<Longrightarrow> R w w''"
begin

lemma keeps_return: "keeps R (State_Monad.return x)"
  by (simp add: keeps_def handler_simps same)

lemma keeps_bind:
  assumes "keeps R m" and "\<And>x. keeps R (k x)"
  shows "keeps R (State_Monad.bind m k)"
  using assms by (auto simp: keeps_def run_hbind split: prod.splits intro: steps)

lemma keeps_read: "keeps R (State (\<lambda>w. (f w, w)))"
  by (simp add: keeps_def same)

end

end
