(* ===== verification/Csi_Facts.thy ===== *)
theory Csi_Facts
  imports Csi_Examples State_Frame
begin

text \<open>
  What the controller's requests do to the set of requests in flight and to the machines: a request for a
  volume that has one in flight does nothing, every request releases what it took, and a request only acts on
  the machine of its volume.
\<close>

section \<open>Running a handler\<close>

lemmas handler_defs = go_done_def fail_def panic_def and_then_def or_internal_def on_host_def

lemma run_done [handler_simps]: "run_state (go_done x) w = (Some (Inr x), w)"
  by (simp add: go_done_def handler_simps)

lemma run_fail [handler_simps]: "run_state (fail code msg) w = (Some (Inl (code, msg)), w)"
  by (simp add: fail_def handler_simps)

lemma run_panic [handler_simps]: "run_state panic w = (None, w)"
  by (simp add: panic_def handler_simps)

lemma run_and_then [handler_simps]:
  "run_state (and_then m k) w =
     (case run_state m w of
        (None, w) \<Rightarrow> (None, w) | (Some (Inl st), w) \<Rightarrow> (Some (Inl st), w) | (Some (Inr x), w) \<Rightarrow> run_state (k x) w)"
  by (auto simp: and_then_def run_hbind handler_simps split: prod.splits option.splits sum.splits)

lemma run_or_internal [handler_simps]:
  "run_state (or_internal wrap m) w =
     (case run_state m w of
        (Inl err, w) \<Rightarrow> (Some (Inl (Internal, wrap err)), w) | (Inr x, w) \<Rightarrow> (Some (Inr x), w))"
  by (auto simp: or_internal_def run_hbind handler_simps split: prod.splits sum.splits)

lemma run_on_host [handler_simps]:
  "run_state (on_host env addr m) w =
     (case run_state (m (host_at env addr)) (w_logs w addr) of (r, l) \<Rightarrow> (r, w\<lparr>w_logs := (w_logs w)(addr := l)\<rparr>))"
  by (simp add: on_host_def)

lemma run_with_inFlight:
  "run_state (with_inFlight key body) w =
     (if map_of (w_inFlight w) key \<noteq> None then (Some (Inl (Aborted, already_exists key)), w)
      else (case run_state body (w\<lparr>w_inFlight := AList.update key () (w_inFlight w)\<rparr>) of
              (r, w) \<Rightarrow> (r, w\<lparr>w_inFlight := AList.delete key (w_inFlight w)\<rparr>)))"
  by (auto simp: with_inFlight_def run_hbind handler_simps InFlight_Insert_def InFlight_Delete_def split: prod.splits)

section \<open>What a handler keeps\<close>

locale handler_frame = frame R for R :: "world \<Rightarrow> world \<Rightarrow> bool"
begin

lemma keeps_ends: "keeps R (go_done x)" "keeps R (fail code msg)" "keeps R panic"
  by (simp_all add: go_done_def fail_def panic_def keeps_return)

lemma keeps_and_then: "keeps R m \<Longrightarrow> (\<And>x. keeps R (k x)) \<Longrightarrow> keeps R (and_then m k)"
  unfolding and_then_def by (intro keeps_bind) (auto split: option.splits sum.splits intro: keeps_return keeps_ends)

lemma keeps_or_internal: "keeps R m \<Longrightarrow> keeps R (or_internal wrap m)"
  unfolding or_internal_def by (intro keeps_bind) (auto split: sum.splits intro: keeps_ends)

lemma keeps_or_schedule_error: "keeps R m \<Longrightarrow> keeps R (or_schedule_error what m)"
  unfolding or_schedule_error_def by (intro keeps_bind) (auto split: sum.splits intro: keeps_ends)

lemmas keeps_intros = keeps_return keeps_bind keeps_read keeps_ends keeps_and_then keeps_or_internal keeps_or_schedule_error

end

text \<open>The steps of a request: an operation on a machine, a question to the extender, the removal of a backup,
  and the entry in the set of requests in flight.\<close>

locale machine_frame = handler_frame +
  fixes env :: csi_env and conns :: "string set"
  assumes at_host: "conn \<in> conns \<Longrightarrow> R w (w\<lparr>w_logs := (w_logs w)(conn := l)\<rparr>)"
    and asked: "R w (w\<lparr>w_requests := rs\<rparr>)"
    and restic: "R w (w\<lparr>w_deletions := ds\<rparr>)"
    and released: "map_of (w_inFlight w) key = None \<Longrightarrow> R (w\<lparr>w_inFlight := AList.update key () (w_inFlight w)\<rparr>) w' \<Longrightarrow>
      R w (w'\<lparr>w_inFlight := AList.delete key (w_inFlight w')\<rparr>)"
begin

lemma host: "conn \<in> conns \<Longrightarrow> keeps R (on_host env conn m)"
  by (simp add: keeps_def handler_simps at_host split: prod.split)

lemma extender: "keeps R (ScheduleVolume env ty pvc ns vg n)"
  by (simp add: keeps_def ScheduleVolume_def Let_def asked)

lemma guarded:
  assumes "keeps R body"
  shows "keeps R (with_inFlight key body)"
  unfolding keeps_def
proof
  fix w :: world
  let ?w = "w\<lparr>w_inFlight := AList.update key () (w_inFlight w)\<rparr>"
  have "R ?w (snd (run_state body ?w))" using assms by (simp add: keeps_def)
  then show "R w (snd (run_state (with_inFlight key body) w))"
    using released [of w key "snd (run_state body ?w)"] same
    by (cases "map_of (w_inFlight w) key") (auto simp: run_with_inFlight split: prod.split)
qed

lemmas request_intros = keeps_intros host extender

lemma keeps_restic: "keeps R (State (\<lambda>w. (f w, w\<lparr>w_deletions := g w\<rparr>)))"
  by (simp add: keeps_def restic)

lemma create_lv: "conn \<in> conns \<Longrightarrow> keeps R (create_lv env req conn n vg)"
  by (simp add: create_lv_def Let_def request_intros)

lemma schedule_LVM: "keeps R (scheduleLVMVolume env n pvc ns ps)"
  by (simp add: scheduleLVMVolume_def Let_def request_intros)

lemma schedule_others:
  "keeps R (scheduleMountpointVolume env n pvc ns)" "keeps R (scheduleDeviceVolume env n pvc ns)"
  by (simp_all add: scheduleMountpointVolume_def scheduleDeviceVolume_def request_intros)

lemma create_scheduled: "conn \<in> conns \<Longrightarrow> keeps R (create_scheduled env req pvc conn n c ns)"
  by (simp add: create_scheduled_def Let_def request_intros create_lv schedule_LVM schedule_others
      split: option.split bool.split)

lemma create_by_arch: "conn \<in> conns \<Longrightarrow> keeps R (create_by_arch env req pvc conn n c ns)"
  unfolding create_by_arch_def
  by (intro keeps_bind keeps_read) (simp add: create_scheduled keeps_ends split: SchedulerArch.split)

lemma create_from_snapshot: "keeps R (create_from_snapshot env req pvc ps)"
  by (simp add: create_from_snapshot_def Let_def keeps_ends split: option.split content_source.split sum.split bool.split)

lemma CreateVolume:
  assumes "\<And>pvc n c. pvc_get (csi_K env) (str_at (cvr_Parameters req) key_PVCNameSpace)
      (str_at (cvr_Parameters req) key_PVCName) = Some pvc \<Longrightarrow> map_of (pvc_Annotations pvc) AnnoSelectedNode = Some n \<Longrightarrow>
      getNodeConn env n = Inr c \<Longrightarrow> c \<in> conns"
  shows "keeps R (cs_CreateVolume env req)"
  unfolding cs_CreateVolume_def Let_def
  by (auto simp: keeps_ends intro!: guarded keeps_and_then create_by_arch create_from_snapshot assms
      split: option.split sum.split prod.split)

lemma delete_lv: "conn \<in> conns \<Longrightarrow> keeps R (delete_lv env conn vg v)"
  unfolding delete_lv_def
  by (auto simp: keeps_ends host intro!: keeps_bind keeps_or_internal split: sum.split)

lemma delete_by_type: "conn \<in> conns \<Longrightarrow> keeps R (delete_by_type env pv conn v)"
  by (simp add: delete_by_type_def Let_def keeps_ends delete_lv keeps_or_internal host split: option.split)

lemma DeleteVolume:
  assumes "\<And>pv c. pv_get (csi_K env) v = Some pv \<Longrightarrow> getNodeConn env (GetNodeNameFromCsiPV pv) = Inr c \<Longrightarrow> c \<in> conns"
  shows "keeps R (cs_DeleteVolume env v)"
  unfolding cs_DeleteVolume_def Let_def
  by (auto simp: keeps_ends intro!: guarded delete_by_type assms split: option.split sum.split)

lemma create_snapshots:
  assumes "conn \<in> conns"
  shows "keeps R (create_ro_snapshot env req pv conn vg)" and "keeps R (create_rw_snapshot env req pv conn vg)"
  using assms by (simp_all add: create_ro_snapshot_def create_rw_snapshot_def Let_def request_intros split: sum.split prod.split)

lemma CreateSnapshot:
  assumes "\<And>pv c. pv_get (csi_K env) (csr_SourceVolumeId req) = Some pv \<Longrightarrow>
      getNodeConn env (GetNodeNameFromCsiPV pv) = Inr c \<Longrightarrow> c \<in> conns"
  shows "keeps R (cs_CreateSnapshot env req)"
  unfolding cs_CreateSnapshot_def Let_def
  by (auto simp: keeps_ends intro!: guarded keeps_and_then create_snapshots assms split: option.split sum.split)

lemma delete_ro_snapshot:
  assumes "\<And>pv c. pv_get (csi_K env) v = Some pv \<Longrightarrow> getNodeConn env (GetNodeNameFromCsiPV pv) = Inr c \<Longrightarrow> c \<in> conns"
  shows "keeps R (delete_ro_snapshot env snap v)"
  unfolding delete_ro_snapshot_def Let_def
  by (auto simp: keeps_ends intro!: keeps_and_then keeps_or_internal host assms split: option.split sum.split)

lemma delete_rw_snapshot: "keeps R (delete_rw_snapshot env secrets snap v)"
  unfolding delete_rw_snapshot_def
  by (auto simp: keeps_ends intro!: keeps_bind keeps_restic split: option.split)

lemma DeleteSnapshot:
  assumes "\<And>content v pv c. GetVolumeSnapshotContent env snap = Inr content \<Longrightarrow> vsc_VolumeHandle content = Some v \<Longrightarrow>
      pv_get (csi_K env) v = Some pv \<Longrightarrow> getNodeConn env (GetNodeNameFromCsiPV pv) = Inr c \<Longrightarrow> c \<in> conns"
  shows "keeps R (cs_DeleteSnapshot env snap secrets)"
  unfolding cs_DeleteSnapshot_def Let_def
  by (auto simp: keeps_ends intro!: guarded delete_ro_snapshot delete_rw_snapshot assms split: option.split sum.split)

lemma ControllerExpandVolume:
  assumes "\<And>pv c. pv_get (csi_K env) v = Some pv \<Longrightarrow> getNodeConn env (GetNodeNameFromCsiPV pv) = Inr c \<Longrightarrow> c \<in> conns"
  shows "keeps R (cs_ControllerExpandVolume env v sz)"
  unfolding cs_ControllerExpandVolume_def Let_def
  by (auto simp: keeps_ends intro!: keeps_and_then keeps_or_internal host assms split: option.split sum.split)

end

section \<open>Requests in flight\<close>

definition same_inFlight :: "world \<Rightarrow> world \<Rightarrow> bool" where
  "same_inFlight w w' \<longleftrightarrow> w_inFlight w' = w_inFlight w"

interpretation infl: machine_frame same_inFlight env UNIV for env
  by unfold_locales (auto simp: same_inFlight_def update_delete)

section \<open>The machines acted on\<close>

definition only_at :: "string set \<Rightarrow> world \<Rightarrow> world \<Rightarrow> bool" where
  "only_at conns w w' \<longleftrightarrow> (\<forall>a. a \<notin> conns \<longrightarrow> w_logs w' a = w_logs w a)"

interpretation at: machine_frame "only_at conns" env conns for conns env
  by unfold_locales (auto simp: only_at_def)

section \<open>Requests\<close>

text \<open>C24: whatever comes of a request, panic included, the set of requests in flight is what it was before.\<close>

theorem requests_release:
  "w_inFlight (snd (run_state (cs_CreateVolume env creq) w)) = w_inFlight w \<and>
   w_inFlight (snd (run_state (cs_DeleteVolume env v) w)) = w_inFlight w \<and>
   w_inFlight (snd (run_state (cs_CreateSnapshot env sreq) w)) = w_inFlight w \<and>
   w_inFlight (snd (run_state (cs_DeleteSnapshot env snap secrets) w)) = w_inFlight w \<and>
   w_inFlight (snd (run_state (cs_ControllerExpandVolume env v sz) w)) = w_inFlight w"
proof -
  have sound: "keeps same_inFlight m \<Longrightarrow> w_inFlight (snd (run_state m w)) = w_inFlight w" for m :: "(world, 'a) state"
    by (simp add: keeps_def same_inFlight_def)
  show ?thesis
    by (intro conjI sound infl.CreateVolume infl.DeleteVolume infl.CreateSnapshot infl.DeleteSnapshot
        infl.ControllerExpandVolume) simp_all
qed

lemma with_inFlight_taken:
  "map_of (w_inFlight w) key \<noteq> None \<Longrightarrow>
     run_state (with_inFlight key body) w = (Some (Inl (Aborted, already_exists key)), w)"
  by (simp add: run_with_inFlight)

text \<open>A second request for a volume or snapshot that has one in flight is not served: nothing changes, on no
  machine, and the answer is an error.\<close>

theorem in_flight_refused:
  assumes "map_of (w_inFlight w) k \<noteq> None"
  shows "snd (run_state (cs_CreateVolume env (creq\<lparr>cvr_Name := k\<rparr>)) w) = w \<and>
    (\<nexists>resp. fst (run_state (cs_CreateVolume env (creq\<lparr>cvr_Name := k\<rparr>)) w) = Some (Inr resp)) \<and>
    snd (run_state (cs_DeleteVolume env k) w) = w \<and> fst (run_state (cs_DeleteVolume env k) w) \<noteq> Some (Inr ()) \<and>
    snd (run_state (cs_CreateSnapshot env (sreq\<lparr>csr_Name := k\<rparr>)) w) = w \<and>
    (\<nexists>resp. fst (run_state (cs_CreateSnapshot env (sreq\<lparr>csr_Name := k\<rparr>)) w) = Some (Inr resp)) \<and>
    snd (run_state (cs_DeleteSnapshot env k secrets) w) = w \<and>
    fst (run_state (cs_DeleteSnapshot env k secrets) w) \<noteq> Some (Inr ())"
proof -
  note taken = with_inFlight_taken [OF assms] run_fail run_panic Let_def
  have "snd (run_state (cs_CreateVolume env (creq\<lparr>cvr_Name := k\<rparr>)) w) = w \<and>
    (\<nexists>resp. fst (run_state (cs_CreateVolume env (creq\<lparr>cvr_Name := k\<rparr>)) w) = Some (Inr resp))"
    by (simp add: cs_CreateVolume_def taken split: option.split)
  moreover have "snd (run_state (cs_DeleteVolume env k) w) = w \<and> fst (run_state (cs_DeleteVolume env k) w) \<noteq> Some (Inr ())"
    by (simp add: cs_DeleteVolume_def taken split: option.split)
  moreover have "snd (run_state (cs_CreateSnapshot env (sreq\<lparr>csr_Name := k\<rparr>)) w) = w \<and>
    (\<nexists>resp. fst (run_state (cs_CreateSnapshot env (sreq\<lparr>csr_Name := k\<rparr>)) w) = Some (Inr resp))"
    by (simp add: cs_CreateSnapshot_def taken split: option.split)
  moreover have "snd (run_state (cs_DeleteSnapshot env k secrets) w) = w \<and>
    fst (run_state (cs_DeleteSnapshot env k secrets) w) \<noteq> Some (Inr ())"
    by (simp add: cs_DeleteSnapshot_def taken split: option.split sum.split)
  ultimately show ?thesis by blast
qed

lemma logs_elsewhere:
  "keeps (only_at conns) m \<Longrightarrow> a \<notin> conns \<Longrightarrow> w_logs (snd (run_state m w)) a = w_logs w a"
  by (simp add: keeps_def only_at_def)

text \<open>C25: deleting or expanding a volume, or taking a snapshot of it, only acts on the machine the persistent
  volume is tied to; and deleting a volume that is a read-only snapshot acts on no machine at all.\<close>

theorem own_machine_only:
  assumes "pv_get (csi_K env) v = Some pv" and "getNodeConn env (GetNodeNameFromCsiPV pv) \<noteq> Inr a"
  shows "w_logs (snd (run_state (cs_DeleteVolume env v) w)) a = w_logs w a \<and>
    w_logs (snd (run_state (cs_ControllerExpandVolume env v sz) w)) a = w_logs w a \<and>
    w_logs (snd (run_state (cs_CreateSnapshot env (req\<lparr>csr_SourceVolumeId := v\<rparr>)) w)) a = w_logs w a \<and>
    (if is_ro_snapshot_volume pv then w_logs (snd (run_state (cs_DeleteVolume env v) w)) = w_logs w else True)"
proof -
  let ?conns = "{c. getNodeConn env (GetNodeNameFromCsiPV pv) = Inr c}"
  have a: "a \<notin> ?conns" using assms(2) by simp
  have "w_logs (snd (run_state (cs_DeleteVolume env v) w)) a = w_logs w a"
    using assms(1) by (intro logs_elsewhere [OF _ a] at.DeleteVolume) simp
  moreover have "w_logs (snd (run_state (cs_ControllerExpandVolume env v sz) w)) a = w_logs w a"
    using assms(1) by (intro logs_elsewhere [OF _ a] at.ControllerExpandVolume) simp
  moreover have "w_logs (snd (run_state (cs_CreateSnapshot env (req\<lparr>csr_SourceVolumeId := v\<rparr>)) w)) a = w_logs w a"
    using assms(1) by (intro logs_elsewhere [OF _ a] at.CreateSnapshot) simp
  moreover have "w_logs (snd (run_state (cs_DeleteVolume env v) w)) = w_logs w" if "is_ro_snapshot_volume pv"
    using that assms(1)
    by (simp add: cs_DeleteVolume_def run_with_inFlight run_fail run_done split: option.split)
  ultimately show ?thesis by simp
qed

section \<open>Examples\<close>

lemma in_flight_refused_witness:
  "snd (run_state (cs_CreateVolume ex_env (ex_req\<lparr>cvr_Name := ''v''\<rparr>)) (ex_world [(''v'', ())] [])) = ex_world [(''v'', ())] [] \<and>
   snd (run_state (cs_DeleteVolume ex_env ''v'') (ex_world [(''v'', ())] [])) = ex_world [(''v'', ())] []"
proof -
  have "map_of (w_inFlight (ex_world [(''v'', ())] [])) ''v'' \<noteq> None" by code_simp
  from in_flight_refused [OF this, of ex_env ex_req] show ?thesis by blast
qed

lemma own_machine_only_witness:
  "w_logs (snd (run_state (cs_DeleteVolume ex_env ''v'') (ex_world [] []))) ''other'' = w_logs (ex_world [] []) ''other''"
proof -
  have "pv_get (csi_K ex_env) ''v'' = Some ex_csi_pv" by (simp add: ex_env_def)
  moreover have "getNodeConn ex_env (GetNodeNameFromCsiPV ex_csi_pv) \<noteq> Inr ''other''"
    by (simp add: ex_env_def ex_csi_pv_def GetNodeNameFromCsiPV_def getNodeConn_def getNodeAddr_def)
  ultimately show ?thesis using own_machine_only by blast
qed

end
