(* ===== verification/Csi_Refine.thy ===== *)
theory Csi_Refine
  imports Csi_Facts
begin

text \<open>
  What creating and deleting a volume is for: on a machine whose LVM tools do what they document, a volume is
  there after it was created and gone after it was deleted. The state of a volume is one bit, a function of what
  was done to the machine, and the requests of the controller are abstract operations on that bit.
\<close>

section \<open>A machine with one volume\<close>

definition lv_line :: "LV \<Rightarrow> bool" where
  "lv_line lv \<longleftrightarrow> lv_ok lv \<and> CHR 0x0A \<notin> set (lv_Name lv) \<and> CHR 0x0A \<notin> set (lv_UUID lv) \<and>
     CHR 0x0A \<notin> set (print_attrs (lv_Attributes lv)) \<and> CHR 0x0A \<notin> set (lv_CopyPercent lv) \<and>
     list_all (\<lambda>t. CHR 0x0A \<notin> set t) (lv_Tags lv)"

definition create_command :: "string \<Rightarrow> string \<Rightarrow> string list \<Rightarrow> string" where
  "create_command vg name args = shell ([''lvcreate'', ''-n'', name] @ args @ [vg])"

text \<open>\<open>st\<close> tells from the actions done so far whether the volume is there: \<open>lvs\<close> prints it exactly then, a
  command that only lists leaves it, a successful \<open>lvcreate\<close> of it makes it, a successful \<open>lvremove\<close> of it
  removes it, and a failing one changes nothing.\<close>

definition volume_machine :: "host \<Rightarrow> string \<Rightarrow> LV \<Rightarrow> (action list \<Rightarrow> bool) \<Rightarrow> bool" where
  "volume_machine H vg lv st \<longleftrightarrow>
     lv_Name lv \<noteq> [] \<and> lv_line lv \<and>
     (\<forall>hist. if st hist
            then sh_exec H hist (lvs_command (GetNameKey vg (lv_Name lv))) = (report_output [print_LV lv], None)
            else snd (sh_exec H hist (lvs_command (GetNameKey vg (lv_Name lv)))) \<noteq> None \<and>
                 go_Contains (fst (sh_exec H hist (lvs_command (GetNameKey vg (lv_Name lv))))) ''Failed to find logical volume'') \<and>
     (\<forall>hist. st (hist @ [Sh (lvs_command (GetNameKey vg (lv_Name lv)))]) = st hist \<and>
            st (hist @ [Sh (origin_command vg (lv_Name lv))]) = st hist \<and> st (hist @ [Sh (pvs_command vg)]) = st hist) \<and>
     (\<forall>hist args. st (hist @ [Sh (create_command vg (lv_Name lv) args)]) =
        (st hist \<or> sh_ok H hist (create_command vg (lv_Name lv) args))) \<and>
     (\<forall>hist. st (hist @ [Sh (lvremove_command vg (lv_Name lv))]) =
        (st hist \<and> \<not> sh_ok H hist (lvremove_command vg (lv_Name lv))))"

lemma is_line_print_LV: "lv_line lv \<Longrightarrow> is_line (print_LV lv)"
  unfolding print_LV_def using set_go_Join [of "lv_Tags lv" "'',''"]
  by (intro print_report_line) (auto simp: lv_line_def is_space_def list_all_iff)

lemma go_Contains_prefix: "go_Contains (p @ s) p"
  by (cases "p @ s") (simp_all add: after_prefix_Some, metis)

lemma go_Contains_skip: "go_Contains s p \<Longrightarrow> go_Contains (t @ s) p"
  by (induction t) auto

lemma go_Contains_ends: "go_Contains s p \<Longrightarrow> go_Contains (s @ t) p"
proof (induction s)
  case Nil
  then show ?case using go_Contains_prefix [of "[]" t] by simp
next
  case (Cons c s)
  then show ?case by (auto simp: after_prefix_Some) (metis after_prefix_Some append_Cons append_assoc)
qed

lemma contains_LV_NAME: "go_Contains (print_LV lv) ''LVM2_LV_NAME''"
proof -
  have "\<exists>s. print_LV lv = ''LVM2_LV_NAME'' @ s"
    by (simp add: print_LV_def print_report_def print_component_def)
  then show ?thesis using go_Contains_prefix by metis
qed

lemma Run_contains:
  "\<not> sh_ok H hist cmd \<Longrightarrow> go_Contains (fst (sh_exec H hist cmd)) p \<Longrightarrow>
     \<exists>e. run_state (Run H cmd) hist = (Inl e, hist @ [Sh cmd]) \<and> go_Contains e p"
  unfolding run_Run by (simp only: if_False) (blast intro: go_Contains_skip go_Contains_ends)

lemma Run_result:
  "\<exists>e. run_state (Run H cmd) hist = (if sh_ok H hist cmd then Inr (fst (sh_exec H hist cmd)) else Inl e, hist @ [Sh cmd])"
  unfolding run_Run by auto

lemma run_remote:
  "run_state (remote (rpc desc m reply) get) hist =
     (case run_state m hist of
        (Inl err, h) \<Rightarrow> (Inl (status_text (Internal, desc err)), h) | (Inr x, h) \<Rightarrow> (Inr (get (reply x)), h))"
  by (simp add: remote_def rpc_def io_simps split: prod.split sum.split)

lemma ListPV_log: "snd (run_state (ListPV H vg) hist) = hist @ [Sh (pvs_command vg)]"
  by (simp add: ListPV_def io_simps run_Run)

lemma ListLV_one:
  assumes "volume_machine H vg lv st"
  shows "run_state (ListLV H (GetNameKey vg (lv_Name lv))) hist =
    (Inr (if st hist then [lv] else []), hist @ [Sh (lvs_command (GetNameKey vg (lv_Name lv)))])"
proof (cases "st hist")
  case True
  from assms have line: "is_line (print_LV lv)" and ok: "lv_ok lv"
    by (auto simp: volume_machine_def is_line_print_LV lv_line_def)
  have "map TrimSpace (go_Split (CHR 0x0A) (TrimSpace (report_output [print_LV lv]))) = [print_LV lv]"
    using line by (intro report_lines) simp_all
  then obtain l where "go_Split (CHR 0x0A) (TrimSpace (report_output [print_LV lv])) = [l]" "TrimSpace l = print_LV lv"
    by (auto simp: map_eq_Cons_conv)
  then have "ListLV_loop (go_Split (CHR 0x0A) (TrimSpace (report_output [print_LV lv]))) [] = Inr [lv]"
    using ParseLV_print [OF ok] contains_LV_NAME [of lv] by (simp add: Let_def)
  with True assms show ?thesis
    by (simp add: ListLV_def io_simps run_Run sh_ok_def volume_machine_def)
next
  case False
  with assms have "\<not> sh_ok H hist (lvs_command (GetNameKey vg (lv_Name lv)))"
    and "go_Contains (fst (sh_exec H hist (lvs_command (GetNameKey vg (lv_Name lv))))) ''Failed to find logical volume''"
    by (auto simp: volume_machine_def sh_ok_def)
  then obtain e where "run_state (Run H (lvs_command (GetNameKey vg (lv_Name lv)))) hist =
      (Inl e, hist @ [Sh (lvs_command (GetNameKey vg (lv_Name lv)))])"
    and "go_Contains e ''Failed to find logical volume''"
    using Run_contains by metis
  with False show ?thesis by (simp add: ListLV_def io_simps)
qed

lemma GetVolume_one:
  assumes "volume_machine H vg lv st"
  shows "run_state (conn_GetVolume H vg (lv_Name lv)) hist =
    (Inr (if st hist then lv_Name lv else []), hist @ [Sh (lvs_command (GetNameKey vg (lv_Name lv)))])"
  using ListLV_one [OF assms, of hist]
  by (simp add: conn_GetVolume_def Server_ListLV_def run_remote lv_ToProto_def)

lemma RemoveLV_one:
  assumes "volume_machine H vg lv st"
  shows "\<exists>r hist'. run_state (RemoveLV H vg (lv_Name lv)) hist = (r, hist') \<and>
    st hist' = (case r of Inl _ \<Rightarrow> st hist | Inr _ \<Rightarrow> False)"
proof -
  let ?v = "lv_Name lv" and ?list = "Sh (lvs_command (GetNameKey vg (lv_Name lv)))"
  let ?origin = "Sh (origin_command vg ?v)" and ?remove = "Sh (lvremove_command vg ?v)"
  from assms have keep: "st (l @ [?list]) = st l" "st (l @ [?origin]) = st l"
    and remove: "st (l @ [?remove]) = (st l \<and> \<not> sh_ok H l (lvremove_command vg ?v))" for l
    by (simp_all add: volume_machine_def)
  note list = ListLV_one [OF assms, of hist]
  obtain e1 where q: "run_state (Run H (origin_command vg ?v)) (hist @ [?list]) =
      (if sh_ok H (hist @ [?list]) (origin_command vg ?v) then Inr (fst (sh_exec H (hist @ [?list]) (origin_command vg ?v)))
       else Inl e1, (hist @ [?list]) @ [?origin])" using Run_result by blast
  obtain e2 where rm: "run_state (Run H (lvremove_command vg ?v)) ((hist @ [?list]) @ [?origin]) =
      (if sh_ok H ((hist @ [?list]) @ [?origin]) (lvremove_command vg ?v)
       then Inr (fst (sh_exec H ((hist @ [?list]) @ [?origin]) (lvremove_command vg ?v)))
       else Inl e2, ((hist @ [?list]) @ [?origin]) @ [?remove])" using Run_result by blast
  have kept: "st ((hist @ [?list]) @ [?origin]) = st hist" by (simp only: keep)
  note run = RemoveLV_def run_attempt run_ret list
  show ?thesis
  proof (cases "st hist \<and> ProtectedTagName \<notin> set (lv_Tags lv) \<and> sh_ok H (hist @ [?list]) (origin_command vg ?v) \<and>
      \<not> go_Contains (fst (sh_exec H (hist @ [?list]) (origin_command vg ?v))) ?v")
    case True
    then have "run_state (RemoveLV H vg ?v) hist =
        run_state (Run H (lvremove_command vg ?v)) ((hist @ [?list]) @ [?origin])"
      by (simp add: run q del: append_assoc)
    with rm True kept show ?thesis by (simp add: remove del: append_assoc)
  next
    case False
    show ?thesis
    proof (cases "st hist \<and> ProtectedTagName \<notin> set (lv_Tags lv)")
      case True
      with False have "\<exists>e. run_state (RemoveLV H vg ?v) hist = (Inl e, (hist @ [?list]) @ [?origin])"
        by (simp add: run q del: append_assoc)
      with kept show ?thesis by fastforce
    next
      case False
      then have "\<exists>r. run_state (RemoveLV H vg ?v) hist = (r, hist @ [?list]) \<and> (\<not> isl r \<longrightarrow> \<not> st hist)"
        by (simp add: run)
      then obtain r where "run_state (RemoveLV H vg ?v) hist = (r, hist @ [?list])" "\<not> isl r \<longrightarrow> \<not> st hist" by blast
      with keep(1) [of hist] show ?thesis by (cases r) auto
    qed
  qed
qed

lemma DeleteVolume_one:
  assumes "volume_machine H vg lv st" and "run_state (conn_DeleteVolume H vg (lv_Name lv)) hist = (r, hist')"
  shows "st hist' = (case r of Inl _ \<Rightarrow> st hist | Inr _ \<Rightarrow> False)"
proof -
  obtain c hist'' where c: "run_state (RemoveLV H vg (lv_Name lv)) hist = (c, hist'')"
    and st: "st hist'' = (case c of Inl _ \<Rightarrow> st hist | Inr _ \<Rightarrow> False)"
    using RemoveLV_one [OF assms(1)] by blast
  with assms(2) show ?thesis
    by (cases c) (auto simp: conn_DeleteVolume_def Server_RemoveLV_def run_remote)
qed

lemma CreateLV_one:
  assumes "volume_machine H vg lv st"
  shows "\<exists>r hist'. run_state (CreateLV H vg (lv_Name lv) sz 0 [] striping) hist = (r, hist') \<and>
    st hist' = (case r of Inr (Some _) \<Rightarrow> True | _ \<Rightarrow> st hist)"
proof -
  let ?v = "lv_Name lv" and ?pvs = "Sh (pvs_command vg)"
  let ?size = "[''-L'', dec (unat sz) @ ''b'', ''-W'', ''y'', ''-y'']"
  from assms have keep: "st (l @ [?pvs]) = st l"
    and create: "st (l @ [Sh (create_command vg ?v args)]) = (st l \<or> sh_ok H l (create_command vg ?v args))" for l args
    by (simp_all add: volume_machine_def)
  have runs: "\<exists>r hist'. run_state (attempt (\<lambda>err. err) (Run H (create_command vg ?v args)) (\<lambda>out. ret (Inr (Some out)))) l =
      (r, hist') \<and> st hist' = (case r of Inr (Some _) \<Rightarrow> True | _ \<Rightarrow> st l)" for args l
    using Run_result [of H "create_command vg ?v args" l] create [of l args] by (auto simp: run_attempt run_ret)
  obtain pr where pvs: "run_state (ListPV H vg) hist = (pr, hist @ [?pvs])"
    by (metis ListPV_log prod.collapse)
  have linear: "shell ([''lvcreate'', ''-n'', ?v, ''-L'', dec (unat sz) @ ''b'', ''-W'', ''y'', ''-y''] @ [vg]) =
      create_command vg ?v ?size" by (simp add: create_command_def)
  have striped: "shell (([''lvcreate'', ''-n'', ?v, ''-L'', dec (unat sz) @ ''b'', ''-W'', ''y'', ''-y''] @
      [''-i'', dec n]) @ [vg]) = create_command vg ?v (?size @ [''-i'', dec n])" for n by (simp add: create_command_def)
  show ?thesis
  proof (cases "sz = 0")
    case True
    then show ?thesis by (simp add: CreateLV_def run_ret)
  next
    case False
    show ?thesis
    proof (cases striping)
      case False
      with \<open>sz \<noteq> 0\<close> runs [of ?size hist] show ?thesis
        by (simp only: CreateLV_def Let_def linear if_False concat.simps list.map append_Nil2 less_irrefl cong: if_cong)
    next
      case True
      have req: "run_state (getRequiredPVNumber H vg sz) hist =
          (case pr of Inl e \<Rightarrow> Inl e | Inr ps \<Rightarrow> Inr (required_loop sz ps), hist @ [?pvs])"
        by (simp add: getRequiredPVNumber_def run_attempt run_ret pvs split: sum.split)
      show ?thesis
      proof (cases "\<exists>ps n. pr = Inr ps \<and> required_loop sz ps = Some n \<and> n \<noteq> 0")
        case True
        then obtain ps n where pr: "pr = Inr ps" "required_loop sz ps = Some n" "n \<noteq> 0" by blast
        from runs [of "?size @ [''-i'', dec n]" "hist @ [?pvs]", unfolded keep] \<open>striping\<close> \<open>sz \<noteq> 0\<close> show ?thesis
          by (simp add: CreateLV_def Let_def run_attempt req pr keep striped [simplified])
      next
        case False
        with \<open>striping\<close> \<open>sz \<noteq> 0\<close> show ?thesis
          by (auto simp: CreateLV_def Let_def run_attempt run_ret req keep split: sum.split option.split)
      qed
    qed
  qed
qed

lemma CreateVolume_one:
  assumes "volume_machine H vg lv st" and "lo_VolumeGroup opt = vg" and "lo_Name opt = lv_Name lv" and "lo_Tags opt = []"
    and "run_state (conn_CreateVolume H opt) hist = (r, hist')"
  shows "st hist' = (case r of Inl _ \<Rightarrow> st hist | Inr _ \<Rightarrow> True)"
proof -
  obtain c hist'' where c: "run_state (CreateLV H vg (lv_Name lv) (lo_Size opt) 0 [] (lo_Striping opt)) hist = (c, hist'')"
    and st: "st hist'' = (case c of Inr (Some _) \<Rightarrow> True | _ \<Rightarrow> st hist)"
    using CreateLV_one [OF assms(1)] by blast
  consider e where "c = Inl e" | "c = Inr None" | out where "c = Inr (Some out)" by (metis option.exhaust sum.exhaust)
  then show ?thesis
    by cases (use assms(2-5) c st in \<open>auto simp: conn_CreateVolume_def Server_CreateLV_def rpc_def io_simps\<close>)
qed

section \<open>Deleting\<close>

definition lvm_pv :: "csi_env \<Rightarrow> string \<Rightarrow> PersistentVolume \<Rightarrow> string \<Rightarrow> string \<Rightarrow> bool" where
  "lvm_pv env v pv vg conn \<longleftrightarrow>
     pv_get (csi_K env) v = Some pv \<and> \<not> is_ro_snapshot_volume pv \<and>
     (case pv_CSI pv of None \<Rightarrow> False | Some csi \<Rightarrow> str_at (csi_VolumeAttributes csi) VolumeTypeKey = VolumeTypeLVM) \<and>
     GetNodeNameFromCsiPV pv \<noteq> [] \<and> getNodeConn env (GetNodeNameFromCsiPV pv) = Inr conn \<and>
     GetVGNameFromCsiPV (csi_K env) pv = vg \<and> vg \<noteq> []"

lemma delete_lv_one:
  assumes "volume_machine (host_at env conn) vg lv st" and "vg \<noteq> []"
    and "run_state (delete_lv env conn vg (lv_Name lv)) w = (r, w')"
  shows "(st (w_logs w' conn) \<longleftrightarrow> r \<noteq> Some (Inr ()) \<and> st (w_logs w conn)) \<and> (st (w_logs w conn) \<or> r = Some (Inr ()))"
proof -
  let ?hist = "w_logs w conn" and ?list = "Sh (lvs_command (GetNameKey vg (lv_Name lv)))"
  let ?w = "w\<lparr>w_logs := (w_logs w)(conn := ?hist @ [?list])\<rparr>"
  from assms(1) have keep: "st (l @ [?list]) = st l" for l by (simp add: volume_machine_def)
  from assms(1) have name: "lv_Name lv \<noteq> []" by (simp add: volume_machine_def)
  have get: "run_state (on_host env conn (\<lambda>H. conn_GetVolume H vg (lv_Name lv))) w =
      (Inr (if st ?hist then lv_Name lv else []), ?w)"
    by (simp add: run_on_host GetVolume_one [OF assms(1)])
  show ?thesis
  proof (cases "st ?hist")
    case False
    with assms(2) have "run_state (delete_lv env conn vg (lv_Name lv)) w = (Some (Inr ()), ?w)"
      unfolding delete_lv_def by (simp only: if_False run_hbind get prod.case sum.case if_True simp_thms run_done)
    with assms(3) have "r = Some (Inr ())" "w' = ?w" by simp_all
    with keep False show ?thesis by simp
  next
    case True
    obtain d hist' where d: "run_state (conn_DeleteVolume (host_at env conn) vg (lv_Name lv)) (?hist @ [?list]) = (d, hist')"
      by fastforce
    from DeleteVolume_one [OF assms(1) d] keep True have "st hist' = (case d of Inl _ \<Rightarrow> True | Inr _ \<Rightarrow> False)"
      by (cases d) simp_all
    moreover have "run_state (delete_lv env conn vg (lv_Name lv)) w =
        run_state (or_internal (\<lambda>err. ''DeleteVolume: fail to delete lv '' @ lv_Name lv @ '': '' @ err)
          (on_host env conn (\<lambda>H. conn_DeleteVolume H vg (lv_Name lv)))) ?w"
      using True assms(2) name
      unfolding delete_lv_def by (simp only: if_False run_hbind get prod.case sum.case if_True simp_thms)
    moreover have "run_state (on_host env conn (\<lambda>H. conn_DeleteVolume H vg (lv_Name lv))) ?w =
        (d, w\<lparr>w_logs := (w_logs w)(conn := hist')\<rparr>)"
      using d by (simp add: run_on_host)
    ultimately show ?thesis using True assms(3)
      by (cases d) (auto simp only: run_or_internal prod.case sum.case prod.inject, simp_all)
  qed
qed

text \<open>C22: on a machine whose LVM tools do what they document, a volume is gone once deleting it succeeded, and
  still as it was when deleting it failed; deleting a volume that is not there succeeds.\<close>

theorem DeleteVolume_removes:
  assumes "lvm_pv env (lv_Name lv) pv vg conn" and "volume_machine (host_at env conn) vg lv st"
    and "map_of (w_inFlight w) (lv_Name lv) = None"
  shows "case run_state (cs_DeleteVolume env (lv_Name lv)) w of (r, w') \<Rightarrow>
    (st (w_logs w' conn) \<longleftrightarrow> r \<noteq> Some (Inr ()) \<and> st (w_logs w conn)) \<and> (st (w_logs w conn) \<or> r = Some (Inr ()))"
proof -
  let ?w = "w\<lparr>w_inFlight := AList.update (lv_Name lv) () (w_inFlight w)\<rparr>"
  obtain r w' where run: "run_state (delete_lv env conn vg (lv_Name lv)) ?w = (r, w')" by fastforce
  from assms(1) have vg: "vg \<noteq> []" by (simp add: lvm_pv_def)
  from assms(2) have "lv_Name lv \<noteq> []" by (simp add: volume_machine_def)
  with assms(1,3) have "run_state (cs_DeleteVolume env (lv_Name lv)) w =
      (r, w'\<lparr>w_inFlight := AList.delete (lv_Name lv) (w_inFlight w')\<rparr>)"
    by (auto simp: cs_DeleteVolume_def validateDeleteVolumeRequest_def run_with_inFlight lvm_pv_def delete_by_type_def run
        split: option.splits)
  with delete_lv_one [OF assms(2) vg run] show ?thesis by simp
qed

section \<open>Creating\<close>

lemma create_lv_one:
  assumes "volume_machine (host_at env conn) vg lv st" and "lv_Name lv = cvr_Name req"
    and "run_state (create_lv env req conn n vg) w = (Some (Inr u), w')"
  shows "st (w_logs w' conn) \<and>
    (if st (w_logs w conn) then w_logs w' conn = w_logs w conn @ [Sh (lvs_command (GetNameKey vg (cvr_Name req)))] else True)"
proof -
  let ?hist = "w_logs w conn" and ?list = "Sh (lvs_command (GetNameKey vg (lv_Name lv)))"
  let ?w = "w\<lparr>w_logs := (w_logs w)(conn := ?hist @ [?list])\<rparr>"
  let ?opt = "\<lparr>lo_VolumeGroup = vg, lo_Name = cvr_Name req, lo_Size = cvr_RequiredBytes req, lo_Tags = [],
                     lo_Striping = (map_of (cvr_Parameters req) LvmTypeTag = Some StripingType)\<rparr>"
  from assms(1) have keep: "st (l @ [?list]) = st l" for l by (simp add: volume_machine_def)
  from assms(1) have name: "lv_Name lv \<noteq> []" by (simp add: volume_machine_def)
  have get: "run_state (on_host env conn (\<lambda>H. conn_GetVolume H vg (lv_Name lv))) w =
      (Inr (if st ?hist then lv_Name lv else []), ?w)"
    by (simp add: run_on_host GetVolume_one [OF assms(1)])
  show ?thesis
  proof (cases "st ?hist")
    case True
    then have "run_state (create_lv env req conn n vg) w = (Some (Inr ()), ?w)"
      using name assms(2) get
      unfolding create_lv_def Let_def by (simp only: run_and_then run_or_internal prod.case sum.case option.case if_True if_False run_done)
    with assms(3) have "w' = ?w" by simp
    with assms(2) keep True show ?thesis by simp
  next
    case False
    obtain c hist' where c: "run_state (conn_CreateVolume (host_at env conn) ?opt) (?hist @ [?list]) = (c, hist')"
      by fastforce
    have "st hist' = (case c of Inl _ \<Rightarrow> st (?hist @ [?list]) | Inr _ \<Rightarrow> True)"
      using CreateVolume_one [OF assms(1) _ _ _ c] assms(2) by simp
    moreover have "run_state (on_host env conn (\<lambda>H. conn_CreateVolume H ?opt)) ?w =
        (c, w\<lparr>w_logs := (w_logs w)(conn := hist')\<rparr>)"
      using c by (simp add: run_on_host)
    then have "run_state (create_lv env req conn n vg) w =
        (case c of Inl e \<Rightarrow> (Some (Inl (Internal, ''CreateVolume: fail to create lv '' @ GetNameKey vg (cvr_Name req) @
                          ''(options: '' @ print_LVMOptions ?opt @ ''): '' @ e)), w\<lparr>w_logs := (w_logs w)(conn := hist')\<rparr>)
                 | Inr _ \<Rightarrow> (Some (Inr ()), w\<lparr>w_logs := (w_logs w)(conn := hist')\<rparr>))"
      using False assms(2) get unfolding create_lv_def Let_def
      by (cases c) (simp_all only: run_and_then run_or_internal prod.case sum.case option.case if_True if_False simp_thms run_done)
    ultimately show ?thesis using False assms(3) by (cases c) simp_all
  qed
qed

lemma schedule_LVM_result:
  "run_state (scheduleLVMVolume env n c ns ps) w = (Inr p, w') \<Longrightarrow> (\<exists>vg. p = [(VgNameTag, vg)]) \<and> w_logs w' = w_logs w"
  by (auto simp: scheduleLVMVolume_def ScheduleVolume_def Let_def run_hbind run_return split: if_splits sum.splits)

lemma create_scheduled_one:
  assumes "run_state (create_scheduled env req pvc conn n c ns) w = (Some (Inr p), w')"
    and "str_at (cvr_Parameters req) VolumeTypeKey = VolumeTypeLVM"
    and "IsReadOnlySnapshotPVC2 (csi_K env) pvc = Some False"
  shows "\<exists>vg u w0. vg \<noteq> [] \<and> p = [(VgNameTag, vg)] \<and> w_logs w0 = w_logs w \<and>
    run_state (create_lv env req conn n vg) w0 = (Some (Inr u), w')"
proof -
  obtain r w0 where s: "run_state (scheduleLVMVolume env n c ns (cvr_Parameters req)) w = (r, w0)" by fastforce
  show ?thesis
  proof (cases r)
    case (Inl e)
    with assms s show ?thesis
      by (simp add: create_scheduled_def Let_def run_and_then or_schedule_error_def run_hbind run_fail)
  next
    case (Inr q)
    with schedule_LVM_result [of env n c ns "cvr_Parameters req" w q w0] s obtain vg where
      "q = [(VgNameTag, vg)]" "w_logs w0 = w_logs w" by auto
    with assms s Inr show ?thesis
      by (auto simp: create_scheduled_def Let_def run_and_then or_schedule_error_def run_hbind run_fail run_done str_at_def
          split: if_splits prod.splits option.splits sum.splits)
  qed
qed

lemma create_from_snapshot_one:
  assumes "run_state (create_from_snapshot env req pvc [(VgNameTag, vg)]) w = (Some (Inr (b, p)), w')"
    and "IsReadOnlySnapshotPVC2 (csi_K env) pvc = Some False"
  shows "w' = w \<and> str_at p VgNameTag = vg \<and> distinct (map fst p)"
  using assms
  by (auto simp: create_from_snapshot_def Let_def run_done run_fail run_panic str_at_def
      split: option.splits content_source.splits sum.splits if_splits)

lemma response_vg:
  assumes "distinct (map fst p)" and "str_at p VgNameTag = vg" and "vg \<noteq> []"
  shows "str_at (cvp_VolumeContext (create_response req n b p)) VgNameTag = vg"
proof -
  have "(\<lambda>(k, v) m. AList.update k v m) = (\<lambda>kv. AList.update (fst kv) (snd kv))" by auto
  moreover have "map_of p VgNameTag = Some vg" using assms(2,3) by (auto simp: str_at_def split: option.splits)
  ultimately show ?thesis
    using map_of_fold_put [OF assms(1), of "cvr_Parameters req" VgNameTag]
    by (simp add: create_response_def str_at_def go_map_simps case_prod_unfold)
qed

text \<open>Which requests make a logical volume on the spot: those for an LVM volume whose pod is scheduled by the
  extender, unless its claim is of a read-only snapshot. The volume of a pod the framework schedules is made later,
  when it is published, and a read-only snapshot is already there.\<close>

definition lv_made :: "csi_env \<Rightarrow> CreateVolumeRequest \<Rightarrow> world \<Rightarrow> bool" where
  "lv_made env req w \<longleftrightarrow>
     (let pvcName = str_at (cvr_Parameters req) key_PVCName; pvcNameSpace = str_at (cvr_Parameters req) key_PVCNameSpace
      in str_at (cvr_Parameters req) VolumeTypeKey = VolumeTypeLVM \<and>
         ArchMap_Get (newSchedulerArchMap (extenderSchedulerNames env) (frameworkSchedulerNames env))
           (PvcPod_Get (w_info w) pvcNameSpace pvcName) = SchedulerArchExtender \<and>
         (case pvc_get (csi_K env) pvcNameSpace pvcName of
            None \<Rightarrow> False
          | Some pvc \<Rightarrow> IsReadOnlySnapshotPVC2 (csi_K env) pvc = Some False))"

text \<open>The machine of the node the scheduler selected for the claim.\<close>

definition selected_conn :: "csi_env \<Rightarrow> CreateVolumeRequest \<Rightarrow> string option" where
  "selected_conn env req =
     (case pvc_get (csi_K env) (str_at (cvr_Parameters req) key_PVCNameSpace) (str_at (cvr_Parameters req) key_PVCName) of
        None \<Rightarrow> None
      | Some pvc \<Rightarrow>
          (case map_of (pvc_Annotations pvc) AnnoSelectedNode of
             None \<Rightarrow> None
           | Some n \<Rightarrow> (case getNodeConn env n of Inl _ \<Rightarrow> None | Inr conn \<Rightarrow> Some conn)))"

lemma create_from_snapshot_same: "snd (run_state (create_from_snapshot env req pvc p) w) = w"
  by (simp add: create_from_snapshot_def Let_def run_done run_fail run_panic
      split: option.split content_source.split sum.split bool.split)

lemma create_volume_parts:
  assumes "run_state (cs_CreateVolume env req) w = (Some (Inr resp), w')"
  obtains pvc n conn w0 p w1 b q
  where "pvc_get (csi_K env) (str_at (cvr_Parameters req) key_PVCNameSpace) (str_at (cvr_Parameters req) key_PVCName) = Some pvc"
    and "map_of (pvc_Annotations pvc) AnnoSelectedNode = Some n" and "getNodeConn env n = Inr conn"
    and "w_logs w0 = w_logs w" and "w_info w0 = w_info w"
    and "run_state (create_by_arch env req pvc conn n (str_at (cvr_Parameters req) key_PVCName)
          (str_at (cvr_Parameters req) key_PVCNameSpace)) w0 = (Some (Inr p), w1)"
    and "run_state (create_from_snapshot env req pvc p) w1 = (Some (Inr (b, q)), w1)"
    and "resp = create_response req n b q" and "w_logs w' = w_logs w1"
proof -
  let ?c = "str_at (cvr_Parameters req) key_PVCName" and ?ns = "str_at (cvr_Parameters req) key_PVCNameSpace"
  let ?w = "w\<lparr>w_inFlight := AList.update (cvr_Name req) () (w_inFlight w)\<rparr>"
  from assms obtain pvc n conn where pvc: "pvc_get (csi_K env) ?ns ?c = Some pvc"
    "map_of (pvc_Annotations pvc) AnnoSelectedNode = Some n" "getNodeConn env n = Inr conn"
    by (auto simp: cs_CreateVolume_def Let_def run_fail run_with_inFlight split: option.splits if_splits sum.splits prod.splits)
  let ?body = "and_then (create_by_arch env req pvc conn n ?c ?ns)
    (\<lambda>paramMap. and_then (create_from_snapshot env req pvc paramMap)
       (\<lambda>(isSnapshot, paramMap). go_done (create_response req n isSnapshot paramMap)))"
  have "run_state (with_inFlight (cvr_Name req) ?body) w = (Some (Inr resp), w')"
    using assms pvc by (auto simp: cs_CreateVolume_def Let_def run_fail split: option.splits if_splits)
  then obtain w2 where body: "run_state ?body ?w = (Some (Inr resp), w2)" and w': "w_logs w' = w_logs w2"
    by (auto simp: run_with_inFlight split: if_splits prod.splits)
  from body obtain p w1 where arch: "run_state (create_by_arch env req pvc conn n ?c ?ns) ?w = (Some (Inr p), w1)"
    and rest: "run_state (and_then (create_from_snapshot env req pvc p)
       (\<lambda>(isSnapshot, paramMap). go_done (create_response req n isSnapshot paramMap))) w1 = (Some (Inr resp), w2)"
    unfolding run_and_then [of "create_by_arch env req pvc conn n ?c ?ns"] by (auto split: prod.splits option.splits sum.splits)
  from rest obtain b q w3 where snap: "run_state (create_from_snapshot env req pvc p) w1 = (Some (Inr (b, q)), w3)"
    and resp: "resp = create_response req n b q" "w2 = w3"
    unfolding run_and_then by (auto simp: run_done split: prod.splits option.splits sum.splits)
  from create_from_snapshot_same [of env req pvc p w1] snap have "w3 = w1" by simp
  with that [OF pvc _ _ arch] snap resp w' show ?thesis by simp
qed

lemma create_volume_runs:
  assumes run: "run_state (cs_CreateVolume env req) w = (Some (Inr resp), w')"
    and made: "lv_made env req w"
  shows "\<exists>conn vg u w0 w1 n. selected_conn env req = Some conn \<and>
    run_state (create_lv env req conn n vg) w0 = (Some (Inr u), w1) \<and>
    w_logs w0 = w_logs w \<and> w_logs w' = w_logs w1 \<and> str_at (cvp_VolumeContext resp) VgNameTag = vg"
proof -
  let ?c = "str_at (cvr_Parameters req) key_PVCName" and ?ns = "str_at (cvr_Parameters req) key_PVCNameSpace"
  from run obtain pvc n conn w2 p w1 b q where pvc: "pvc_get (csi_K env) ?ns ?c = Some pvc"
      "map_of (pvc_Annotations pvc) AnnoSelectedNode = Some n" "getNodeConn env n = Inr conn"
    and w2: "w_logs w2 = w_logs w" "w_info w2 = w_info w"
    and arch': "run_state (create_by_arch env req pvc conn n ?c ?ns) w2 = (Some (Inr p), w1)"
    and snap: "run_state (create_from_snapshot env req pvc p) w1 = (Some (Inr (b, q)), w1)"
    and resp: "resp = create_response req n b q" "w_logs w' = w_logs w1"
    by (rule create_volume_parts)
  from made pvc have lvm: "str_at (cvr_Parameters req) VolumeTypeKey = VolumeTypeLVM"
    and ro: "IsReadOnlySnapshotPVC2 (csi_K env) pvc = Some False"
    and arch: "ArchMap_Get (newSchedulerArchMap (extenderSchedulerNames env) (frameworkSchedulerNames env))
           (PvcPod_Get (w_info w) ?ns ?c) = SchedulerArchExtender"
    by (simp_all add: lv_made_def Let_def)
  from arch' arch w2 have "run_state (create_scheduled env req pvc conn n ?c ?ns) w2 = (Some (Inr p), w1)"
    by (simp add: create_by_arch_def run_hbind)
  from create_scheduled_one [OF this lvm ro] obtain vg u w0 where vg: "vg \<noteq> []" and p: "p = [(VgNameTag, vg)]"
    and lv: "w_logs w0 = w_logs w2" "run_state (create_lv env req conn n vg) w0 = (Some (Inr u), w1)" by auto
  from create_from_snapshot_one [OF snap [unfolded p] ro]
  have "str_at q VgNameTag = vg" "distinct (map fst q)" by simp_all
  moreover have "selected_conn env req = Some conn" using pvc by (simp add: selected_conn_def)
  ultimately show ?thesis using vg lv w2 resp response_vg [of q vg req n b] by auto
qed

lemma not_made_keeps_logs:
  assumes run: "run_state (cs_CreateVolume env req) w = (Some (Inr resp), w')" and made: "\<not> lv_made env req w"
  shows "w_logs w' = w_logs w"
proof -
  let ?c = "str_at (cvr_Parameters req) key_PVCName" and ?ns = "str_at (cvr_Parameters req) key_PVCNameSpace"
  let ?arch = "ArchMap_Get (newSchedulerArchMap (extenderSchedulerNames env) (frameworkSchedulerNames env))
    (PvcPod_Get (w_info w) ?ns ?c)"
  from run obtain pvc n conn w2 p w1 b q where pvc: "pvc_get (csi_K env) ?ns ?c = Some pvc"
    and w2: "w_logs w2 = w_logs w" "w_info w2 = w_info w"
    and arch': "run_state (create_by_arch env req pvc conn n ?c ?ns) w2 = (Some (Inr p), w1)"
    and logs: "w_logs w' = w_logs w1"
    by (rule create_volume_parts)
  have "keeps (only_at {}) (create_scheduled env req pvc conn n ?c ?ns)" if "?arch = SchedulerArchExtender"
    using made that pvc
    by (auto simp: create_scheduled_def lv_made_def Let_def at.keeps_ends at.keeps_or_schedule_error at.schedule_others
        split: option.splits bool.splits)
  then have "only_at {} w2 w1"
    using arch' w2 by (cases ?arch) (auto simp: create_by_arch_def run_hbind keeps_def only_at_def run_done run_fail
        split: prod.splits dest: spec [of _ w2])
  with w2 logs show ?thesis by (auto simp: only_at_def)
qed

text \<open>C23: the controller's success answer. When the request is for an LVM volume whose pod is scheduled by the
  extender and whose claim is not of a read-only snapshot, the volume is then on the machine of the selected node,
  in the volume group the answer names, no other machine was touched, and when the volume was there before, nothing
  was done to its machine but to look. For every other request (the framework's scheduler, a read-only snapshot, a
  mount point, a device) the answer is given without doing anything on any machine.\<close>

theorem CreateVolume_makes:
  assumes "run_state (cs_CreateVolume env req) w = (Some (Inr resp), w')"
    and "\<And>conn. lv_made env req w \<Longrightarrow> selected_conn env req = Some conn \<Longrightarrow>
      volume_machine (host_at env conn) (str_at (cvp_VolumeContext resp) VgNameTag) lv st"
    and "lv_Name lv = cvr_Name req"
  shows "if lv_made env req w
    then \<exists>conn. selected_conn env req = Some conn \<and> st (w_logs w' conn) \<and>
      (st (w_logs w conn) \<longrightarrow> w_logs w' conn = w_logs w conn @
            [Sh (lvs_command (GetNameKey (str_at (cvp_VolumeContext resp) VgNameTag) (cvr_Name req)))]) \<and>
      (\<forall>other. other \<noteq> conn \<longrightarrow> w_logs w' other = w_logs w other)
    else w_logs w' = w_logs w"
proof (cases "lv_made env req w")
  case True
  from create_volume_runs [OF assms(1) True] obtain conn vg u w0 w1 n where conn: "selected_conn env req = Some conn"
    and lv: "run_state (create_lv env req conn n vg) w0 = (Some (Inr u), w1)"
    and logs: "w_logs w0 = w_logs w" "w_logs w' = w_logs w1" and vg: "str_at (cvp_VolumeContext resp) VgNameTag = vg"
    by blast
  have "w_logs w1 a = w_logs w0 a" if "a \<noteq> conn" for a
    using logs_elsewhere [OF at.create_lv [of conn "{conn}" env req n vg], of a w0] that lv by simp
  with create_lv_one [OF assms(2) [OF True conn, unfolded vg] assms(3) lv] True conn show ?thesis
    unfolding vg logs by (auto split: if_splits)
next
  case False
  with not_made_keeps_logs [OF assms(1)] show ?thesis by simp
qed

section \<open>Examples\<close>

lemma go_Join_snoc: "ws \<noteq> [] \<Longrightarrow> go_Join (ws @ [w]) sep = go_Join ws sep @ sep @ w"
  by (induction ws) (auto simp: go_Join_Cons)

lemma after_prefix_own: "after_prefix p (p @ s) \<noteq> None"
  by (simp add: after_prefix_Some)

lemma ex_makes_create: "ex_makes (Sh (create_command ''pool'' ''v'' args))"
proof -
  have pre: "create_command ''pool'' ''v'' args = (shell [''lvcreate'', ''-n'', ''v''] @ '' '') @ go_Join (args @ [''pool'']) '' ''"
    by (simp add: create_command_def shell_def go_Join_Cons)
  have "create_command ''pool'' ''v'' args = go_Join (NsenterCmd # [''lvcreate'', ''-n'', ''v''] @ args) '' '' @ '' pool''"
    using go_Join_snoc [of "NsenterCmd # [''lvcreate'', ''-n'', ''v''] @ args" "''pool''" "'' ''"]
    by (simp add: create_command_def shell_def)
  then have suf: "rev (create_command ''pool'' ''v'' args) = rev '' pool'' @ rev (go_Join (NsenterCmd # [''lvcreate'', ''-n'', ''v''] @ args) '' '')"
    by (simp only: rev_append)
  have "after_prefix (shell [''lvcreate'', ''-n'', ''v''] @ '' '') (create_command ''pool'' ''v'' args) \<noteq> None"
    unfolding pre by (rule after_prefix_own)
  moreover have "after_prefix (rev '' pool'') (rev (create_command ''pool'' ''v'' args)) \<noteq> None"
    unfolding suf by (rule after_prefix_own)
  ultimately show ?thesis unfolding ex_makes_def action.case by (rule conjI)
qed

lemma ex_commands:
  "\<not> ex_makes (Sh (lvs_command ''pool/v''))" "\<not> ex_makes (Sh (origin_command ''pool'' ''v''))"
  "\<not> ex_makes (Sh (pvs_command ''pool''))" "\<not> ex_makes (Sh (lvremove_command ''pool'' ''v''))"
  "Sh (lvs_command ''pool/v'') \<noteq> Sh (lvremove_command ''pool'' ''v'')"
  "Sh (origin_command ''pool'' ''v'') \<noteq> Sh (lvremove_command ''pool'' ''v'')"
  "Sh (pvs_command ''pool'') \<noteq> Sh (lvremove_command ''pool'' ''v'')"
  by code_simp+

lemma ex_there_snoc:
  "ex_there (acts @ [a]) = (if a = Sh (lvremove_command ''pool'' ''v'') then False else if ex_makes a then True else ex_there acts)"
  by (simp add: ex_there_def)

lemma ex_volume_machine: "volume_machine ex_machine ''pool'' ex_lv ex_there"
proof -
  have name: "lv_Name ex_lv = ''v''" by code_simp
  have key: "GetNameKey ''pool'' ''v'' = ''pool/v''" by code_simp
  have line: "lv_line ex_lv" by code_simp
  have f: "go_Contains ''Failed to find logical volume pool/v'' ''Failed to find logical volume''" by code_simp
  have exec: "sh_exec ex_machine acts cmd =
      (if cmd = lvs_command ''pool/v''
       then (if ex_there acts then (report_output [print_LV ex_lv], None)
             else (''Failed to find logical volume pool/v'', Some ''exit status 5''))
       else ([], None))" for acts cmd
    by (simp add: ex_machine_def)
  have ok: "sh_ok ex_machine h (create_command ''pool'' ''v'' args)" for h args
  proof -
    have "create_command ''pool'' ''v'' args \<noteq> lvs_command ''pool/v''" using ex_makes_create ex_commands(1) by metis
    then show ?thesis by (simp add: sh_ok_def exec)
  qed
  have ok': "sh_ok ex_machine h (lvremove_command ''pool'' ''v'')" for h
    using ex_commands(5) by (simp add: sh_ok_def exec)
  have create: "Sh (create_command ''pool'' ''v'' args) \<noteq> Sh (lvremove_command ''pool'' ''v'')" for args
    using ex_makes_create ex_commands(4) by metis
  show ?thesis
    unfolding volume_machine_def name key
    by (intro conjI allI)
      (simp_all add: line ex_there_snoc ex_commands ex_makes_create create ok ok' exec f del: action.inject)
qed

lemma ex_lv_Name: "lv_Name ex_lv = ''v''"
  by (simp add: ex_lv_def)

lemma DeleteVolume_removes_witness:
  "case run_state (cs_DeleteVolume ex_env ''v'') (ex_world [] [Sh (create_command ''pool'' ''v'' [])]) of (r, w') \<Rightarrow>
    (ex_there (w_logs w' ''n:1736'') \<longleftrightarrow> r \<noteq> Some (Inr ()) \<and>
       ex_there (w_logs (ex_world [] [Sh (create_command ''pool'' ''v'' [])]) ''n:1736'')) \<and>
    (ex_there (w_logs (ex_world [] [Sh (create_command ''pool'' ''v'' [])]) ''n:1736'') \<or> r = Some (Inr ()))"
proof (rule DeleteVolume_removes [of ex_env ex_lv ex_csi_pv "''pool''" "''n:1736''" ex_there, unfolded ex_lv_Name])
  show "lvm_pv ex_env ''v'' ex_csi_pv ''pool'' ''n:1736''"
    by (simp add: lvm_pv_def ex_env_def ex_csi_pv_def is_ro_snapshot_volume_def str_at_def GetNodeNameFromCsiPV_def
        getNodeConn_def getNodeAddr_def GetVGNameFromCsiPV_def GetAllocatedInfoFromPVAnnotation_def)
  show "volume_machine (host_at ex_env ''n:1736'') ''pool'' ex_lv ex_there"
    using ex_volume_machine by (simp add: ex_env_def)
  show "map_of (w_inFlight (ex_world [] [Sh (create_command ''pool'' ''v'' [])])) ''v'' = None"
    by (simp add: ex_world_def)
qed

text \<open>The same request when the framework's scheduler is in charge of the pod.\<close>

definition ex_framework_env :: csi_env where
  "ex_framework_env = ex_env\<lparr>extenderSchedulerNames := [], frameworkSchedulerNames := extenderSchedulerNames ex_env\<rparr>"

lemma CreateVolume_makes_witness:
  "(\<exists>resp w'. run_state (cs_CreateVolume ex_env ex_req) (ex_world [] []) = (Some (Inr resp), w') \<and>
      ex_there (w_logs w' ''n:1736'')) \<and>
   (\<exists>resp w'. run_state (cs_CreateVolume ex_framework_env ex_req) (ex_world [] []) = (Some (Inr resp), w') \<and>
      w_logs w' = w_logs (ex_world [] []))"
proof
  let ?run = "run_state (cs_CreateVolume ex_env ex_req) (ex_world [] [])"
  have "\<exists>resp. fst ?run = Some (Inr resp) \<and> str_at (cvp_VolumeContext resp) VgNameTag = ''pool''"
  proof -
    have "(case fst ?run of Some (Inr resp) \<Rightarrow> str_at (cvp_VolumeContext resp) VgNameTag = ''pool'' | _ \<Rightarrow> False)"
      by code_simp
    then show ?thesis by (auto split: option.splits sum.splits)
  qed
  then obtain resp w' where run: "?run = (Some (Inr resp), w')" and vg: "str_at (cvp_VolumeContext resp) VgNameTag = ''pool''"
    by (metis prod.collapse)
  have made: "lv_made ex_env ex_req (ex_world [] [])" and conn: "selected_conn ex_env ex_req = Some ''n:1736''"
    and name: "lv_Name ex_lv = cvr_Name ex_req" by code_simp+
  have "volume_machine (host_at ex_env ''n:1736'') (str_at (cvp_VolumeContext resp) VgNameTag) ex_lv ex_there"
    unfolding vg using ex_volume_machine by (simp add: ex_env_def)
  with CreateVolume_makes [OF run _ name, of ex_there] made conn have "ex_there (w_logs w' ''n:1736'')" by auto
  with run show "\<exists>resp w'. ?run = (Some (Inr resp), w') \<and> ex_there (w_logs w' ''n:1736'')" by blast
next
  let ?run = "run_state (cs_CreateVolume ex_framework_env ex_req) (ex_world [] [])"
  have "case fst ?run of Some (Inr resp) \<Rightarrow> True | _ \<Rightarrow> False" by code_simp
  then obtain resp w' where run: "?run = (Some (Inr resp), w')"
    by (auto split: option.splits sum.splits) (metis prod.collapse)
  have made: "\<not> lv_made ex_framework_env ex_req (ex_world [] [])" and name: "lv_Name ex_lv = cvr_Name ex_req" by code_simp+
  from CreateVolume_makes [OF run _ name] made run
  show "\<exists>resp w'. ?run = (Some (Inr resp), w') \<and> w_logs w' = w_logs (ex_world [] [])" by auto
qed

end
