(* ===== verification/Lvm_Utils.thy ===== *)
theory Lvm_Utils
  imports Lvm_Commands Float64
begin

text \<open>
  The agent's LVM library, \<open>pkg/utils/lvm/lvm.go\<close>: each function runs one command of the LVM tools with a
  JSON report and reads the report. The machine, the record \<open>lvm_host\<close>, gives what a command prints on its two
  outputs and whether it failed, after everything that was done before; decoding a report is
  \<open>json.Unmarshal\<close>, which leaves what it has read so far when it fails. Functions log the actions they do, as in
  the daemon.
\<close>

section \<open>Errors\<close>

datatype lvm_error =
    ErrNoSpace | ErrPhysicalVolumeNotFound | ErrVolumeGroupNotFound | ErrLogicalVolumeNotFound
  | ErrInvalidVGName | ErrInvalidLVName | ErrTagInvalidLength | ErrTagHasInvalidChars
  | OtherError string

fun lvm_error_text :: "lvm_error \<Rightarrow> string" where
  "lvm_error_text ErrNoSpace = ''lvm: not enough free space''"
| "lvm_error_text ErrPhysicalVolumeNotFound = ''lvm: physical volume not found''"
| "lvm_error_text ErrVolumeGroupNotFound = ''lvm: volume group not found''"
| "lvm_error_text ErrLogicalVolumeNotFound = ''lvm: logical volume not found''"
| "lvm_error_text ErrInvalidVGName = ''lvm: Name contains invalid character, valid set includes: [A-Za-z0-9_+.-]''"
| "lvm_error_text ErrInvalidLVName = ''lvm: Name contains invalid character, valid set includes: [A-Za-z0-9_+.-]''"
| "lvm_error_text ErrTagInvalidLength = ''lvm: Tag length must be between 1 and 1024 characters''"
| "lvm_error_text ErrTagHasInvalidChars =
     ''lvm: Tag must consist of only [A-Za-z0-9_+.-] and cannot start with a '' @ [CHR 0x27] @ ''-'' @ [CHR 0x27]"
| "lvm_error_text (OtherError e) = e"

definition HasPrefix :: "string \<Rightarrow> string \<Rightarrow> bool" where
  "HasPrefix s p \<longleftrightarrow> after_prefix p s \<noteq> None"

definition HasSuffix :: "string \<Rightarrow> string \<Rightarrow> bool" where
  "HasSuffix s p \<longleftrightarrow> after_prefix (rev p) (rev s) \<noteq> None"

definition error_lines :: "lvm_error \<Rightarrow> string list" where
  "error_lines err = go_Split (CHR 0x0A) (lvm_error_text err)"

definition isInsufficientSpace :: "lvm_error \<Rightarrow> bool" where
  "isInsufficientSpace err = go_Contains (lvm_error_text err) ''insufficient free space''"

definition IsLogicalVolumeNotFound :: "lvm_error \<Rightarrow> bool" where
  "IsLogicalVolumeNotFound err = list_ex (\<lambda>line. HasPrefix line ''Failed to find logical volume'') (error_lines err)"

definition isPhysicalVolumeNotFound :: "lvm_error \<Rightarrow> bool" where
  "isPhysicalVolumeNotFound err = list_ex (\<lambda>line. HasPrefix line ''Failed to find device'') (error_lines err)"

definition isNoPhysicalVolumeLabel :: "lvm_error \<Rightarrow> bool" where
  "isNoPhysicalVolumeLabel err = list_ex (\<lambda>line. HasPrefix line ''No physical volume label read from'') (error_lines err)"

definition IsPhysicalVolumeNotFound :: "lvm_error \<Rightarrow> bool" where
  "IsPhysicalVolumeNotFound err = (isPhysicalVolumeNotFound err \<or> isNoPhysicalVolumeLabel err)"

definition IsVolumeGroupNotFound :: "lvm_error \<Rightarrow> bool" where
  "IsVolumeGroupNotFound err =
     list_ex (\<lambda>line. HasPrefix line ''Volume group'' \<and> go_Contains line ''not found'') (error_lines err)"

fun drop_warnings :: "string list \<Rightarrow> string list" where
  "drop_warnings [] = []"
| "drop_warnings (line # ls) =
     (let line = TrimSpace line
      in if HasPrefix line ''WARNING'' \<or> HasPrefix line ''File descriptor'' then drop_warnings ls else line # drop_warnings ls)"

definition ignoreWarnings :: "string \<Rightarrow> string" where
  "ignoreWarnings str = TrimSpace (go_Join (drop_warnings (go_Split (CHR 0x0A) str)) [CHR 0x0A])"

section \<open>Names\<close>

definition name_char :: "char \<Rightarrow> bool" where
  "name_char c \<longleftrightarrow> c \<in> set ''ABCDEFGHIJKLMNOPQRSTUVWXYZabcdefghijklmnopqrstuvwxyz0123456789_+.''"

text \<open>\<open>^[A-Za-z0-9_+.][A-Za-z0-9_+.-]*$\<close>\<close>

definition match_name :: "string \<Rightarrow> bool" where
  "match_name s = (case s of [] \<Rightarrow> False | c # cs \<Rightarrow> name_char c \<and> list_all (\<lambda>c. name_char c \<or> c = CHR ''-'') cs)"

definition ValidateLogicalVolumeName :: "string \<Rightarrow> lvm_error option" where
  "ValidateLogicalVolumeName name = (if \<not> match_name name then Some ErrInvalidLVName else None)"

definition ValidateVolumeGroupName :: "string \<Rightarrow> lvm_error option" where
  "ValidateVolumeGroupName name = (if \<not> match_name name then Some ErrInvalidVGName else None)"

definition ValidateTag :: "string \<Rightarrow> lvm_error option" where
  "ValidateTag tag =
     (if 1024 < length tag then Some ErrTagInvalidLength else if \<not> match_name tag then Some ErrTagHasInvalidChars else None)"

section \<open>Reports\<close>

record vg_entry =
  ve_Name :: string
  ve_UUID :: string
  ve_VgSize :: uint64
  ve_VgFree :: uint64
  ve_VgExtentSize :: uint64
  ve_VgExtentCount :: uint64
  ve_VgFreeExtentCount :: uint64
  ve_VgTags :: string

record lv_entry =
  le_Name :: string
  le_VgName :: string
  le_LvPath :: string
  le_LvSize :: uint64
  le_LvTags :: string
  le_LvOrigin :: string
  le_LvSnapUsage :: float64

record pv_entry =
  pe_Name :: string
  pe_VgName :: string

text \<open>A report is a list of lists of entries.\<close>

type_synonym 'e report = "'e list list"

record lvm_host =
  lvm_exec :: "action list \<Rightarrow> string \<Rightarrow> string \<times> string \<times> string option" \<comment> \<open>both outputs, error\<close>
  json_vgs :: "string \<Rightarrow> vg_entry report \<times> string option" \<comment> \<open>what was read, error\<close>
  json_lvs :: "string \<Rightarrow> lv_entry report \<times> string option"
  json_pvs :: "string \<Rightarrow> pv_entry report \<times> string option"

section \<open>Running\<close>

definition lvm_command :: "string \<Rightarrow> bool \<Rightarrow> string list \<Rightarrow> string" where
  "lvm_command cmd json extraArgs =
     go_Join ([NsenterCmd @ '' '' @ cmd] @ (if json then [''--reportformat=json'', ''--units=b'', ''--nosuffix''] else []) @
       extraArgs) '' ''"

text \<open>\<open>run\<close> without a report.\<close>

definition run_plain :: "lvm_host \<Rightarrow> string \<Rightarrow> string list \<Rightarrow> lvm_error option io" where
  "run_plain L cmd extraArgs =
     (let c = lvm_command cmd False extraArgs
      in act (Sh c) (\<lambda>acts. case lvm_exec L acts c of
           (out, errout, Some err) \<Rightarrow> Some (OtherError (ignoreWarnings errout)) | (out, errout, None) \<Rightarrow> None))"

text \<open>\<open>run\<close> with a report: what was read into it, and the error.\<close>

definition run_report ::
  "lvm_host \<Rightarrow> (string \<Rightarrow> 'e report \<times> string option) \<Rightarrow> string \<Rightarrow> string list \<Rightarrow> ('e report \<times> lvm_error option) io" where
  "run_report L decode cmd extraArgs =
     (let c = lvm_command cmd True extraArgs
      in act (Sh c) (\<lambda>acts. case lvm_exec L acts c of
           (out, errout, Some err) \<Rightarrow> ([], Some (OtherError (ignoreWarnings errout)))
         | (out, errout, None) \<Rightarrow>
             (case decode out of
                (rep, Some err) \<Rightarrow> (rep, Some (OtherError (''unmarshal error: '' @ err)))
              | (rep, None) \<Rightarrow> (rep, None))))"

type_synonym 'a lresult = "lvm_error + 'a"

text \<open>A report read for its entries; the error as it is, or as \<open>missing\<close> when \<open>is_missing\<close> recognises it.\<close>

definition read_entries ::
  "(lvm_error \<Rightarrow> bool) \<Rightarrow> lvm_error \<Rightarrow> ('e report \<times> lvm_error option) io \<Rightarrow> 'e list lresult io" where
  "read_entries is_missing missing m =
     State_Monad.bind m (\<lambda>(rep, e). ret (case e of
         Some err \<Rightarrow> Inl (if is_missing err then missing else err) | None \<Rightarrow> Inr (concat rep)))"

definition first_entry :: "lvm_error \<Rightarrow> ('e \<Rightarrow> 'a) \<Rightarrow> 'e list lresult \<Rightarrow> 'a lresult" where
  "first_entry missing get r = (case r of Inl err \<Rightarrow> Inl err | Inr [] \<Rightarrow> Inl missing | Inr (e # _) \<Rightarrow> Inr (get e))"

section \<open>Volume groups\<close>

text \<open>A volume group is its name.\<close>

definition vg_number :: "lvm_host \<Rightarrow> string \<Rightarrow> (vg_entry \<Rightarrow> uint64) \<Rightarrow> string \<Rightarrow> uint64 lresult io" where
  "vg_number L option get name =
     State_Monad.bind (read_entries IsVolumeGroupNotFound ErrVolumeGroupNotFound
         (run_report L (json_vgs L) ''vgs'' [''--options='' @ option, name]))
       (\<lambda>r. ret (first_entry ErrVolumeGroupNotFound get r))"

definition BytesTotal :: "lvm_host \<Rightarrow> string \<Rightarrow> uint64 lresult io" where
  "BytesTotal L = vg_number L ''vg_size'' ve_VgSize"

definition BytesFree :: "lvm_host \<Rightarrow> string \<Rightarrow> uint64 lresult io" where
  "BytesFree L = vg_number L ''vg_free'' ve_VgFree"

definition ExtentSize :: "lvm_host \<Rightarrow> string \<Rightarrow> uint64 lresult io" where
  "ExtentSize L = vg_number L ''vg_extent_size'' ve_VgExtentSize"

definition ExtentCount :: "lvm_host \<Rightarrow> string \<Rightarrow> uint64 lresult io" where
  "ExtentCount L = vg_number L ''vg_extent_count'' ve_VgExtentCount"

definition ExtentFreeCount :: "lvm_host \<Rightarrow> string \<Rightarrow> uint64 lresult io" where
  "ExtentFreeCount L = vg_number L ''vg_free_count'' ve_VgFreeExtentCount"

definition vg_Check :: "lvm_host \<Rightarrow> string \<Rightarrow> lvm_error option io" where
  "vg_Check L name = run_plain L ''vgck'' [name]"

definition vg_Remove :: "lvm_host \<Rightarrow> string \<Rightarrow> lvm_error option io" where
  "vg_Remove L name = run_plain L ''vgremove'' [''-f'', name]"

definition LookupVolumeGroup :: "lvm_host \<Rightarrow> string \<Rightarrow> string lresult io" where
  "LookupVolumeGroup L name =
     State_Monad.bind (read_entries IsVolumeGroupNotFound ErrVolumeGroupNotFound
         (run_report L (json_vgs L) ''vgs'' [''--options=vg_name'', name]))
       (\<lambda>r. ret (first_entry ErrVolumeGroupNotFound ve_Name r))"

definition ListVolumeGroupNames :: "lvm_host \<Rightarrow> string list lresult io" where
  "ListVolumeGroupNames L =
     State_Monad.bind (read_entries (\<lambda>_. False) ErrVolumeGroupNotFound (run_report L (json_vgs L) ''vgs'' []))
       (\<lambda>r. ret (map_sum id (map ve_Name) r))"

definition ListVolumeGroupUUIDs :: "lvm_host \<Rightarrow> string list lresult io" where
  "ListVolumeGroupUUIDs L =
     State_Monad.bind (read_entries (\<lambda>_. False) ErrVolumeGroupNotFound
         (run_report L (json_vgs L) ''vgs'' [''--options=vg_uuid'']))
       (\<lambda>r. ret (map_sum id (map ve_UUID) r))"

definition ListLogicalVolumeNames :: "lvm_host \<Rightarrow> string \<Rightarrow> string list lresult io" where
  "ListLogicalVolumeNames L vg =
     State_Monad.bind (read_entries (\<lambda>_. False) ErrLogicalVolumeNotFound
         (run_report L (json_lvs L) ''lvs'' [''--options=lv_name,vg_name'', vg]))
       (\<lambda>r. ret (map_sum id (\<lambda>es. map le_Name (filter (\<lambda>e. le_VgName e = vg) es)) r))"

definition ListPhysicalVolumeNames :: "lvm_host \<Rightarrow> string \<Rightarrow> string list lresult io" where
  "ListPhysicalVolumeNames L vg =
     State_Monad.bind (read_entries (\<lambda>_. False) ErrPhysicalVolumeNotFound
         (run_report L (json_pvs L) ''pvs'' [''--options=pv_name,vg_name'']))
       (\<lambda>r. ret (map_sum id (\<lambda>es. map pe_Name (filter (\<lambda>e. pe_VgName e = vg) es)) r))"

section \<open>Logical volumes\<close>

record LocalLV =
  llv_name :: string
  llv_sizeInBytes :: uint64
  llv_vg :: string
  llv_originLvName :: string
  llv_usageInPercent :: float64

text \<open>The tags that are not empty are validated one after the other.\<close>

fun tag_args :: "string list \<Rightarrow> string list lresult" where
  "tag_args [] = Inr []"
| "tag_args (tag # tags) =
     (if tag = [] then tag_args tags
      else (case ValidateTag tag of
              Some err \<Rightarrow> Inl err
            | None \<Rightarrow> map_sum id (\<lambda>args. (''--add-tag='' @ tag) # args) (tag_args tags)))"

definition CreateLogicalVolume :: "lvm_host \<Rightarrow> string \<Rightarrow> string \<Rightarrow> uint64 \<Rightarrow> string list \<Rightarrow> LocalLV lresult io" where
  "CreateLogicalVolume L vg name sizeInBytes tags =
     (case ValidateLogicalVolumeName name of
        Some err \<Rightarrow> ret (Inl err)
      | None \<Rightarrow>
          (case tag_args tags of
             Inl err \<Rightarrow> ret (Inl err)
           | Inr args \<Rightarrow>
               State_Monad.bind
                 (run_plain L ''lvcreate'' (args @ [''--size='' @ dec (unat sizeInBytes) @ ''b'', ''--name='' @ name, vg]))
                 (\<lambda>e. ret (case e of
                    Some err \<Rightarrow> Inl (if isInsufficientSpace err then ErrNoSpace else err)
                  | None \<Rightarrow> Inr \<lparr>llv_name = name, llv_sizeInBytes = sizeInBytes, llv_vg = vg, llv_originLvName = [],
                                 llv_usageInPercent = Fin 0\<rparr>))))"

text \<open>The error of the second command is not looked at: without an entry, \<open>Report[0].Lv[0]\<close> panics (\<open>None\<close>).\<close>

definition LookupLogicalVolume :: "lvm_host \<Rightarrow> string \<Rightarrow> string \<Rightarrow> LocalLV lresult option io" where
  "LookupLogicalVolume L vg name =
     State_Monad.bind (read_entries IsLogicalVolumeNotFound ErrLogicalVolumeNotFound
         (run_report L (json_lvs L) ''lvs'' [''--options=lv_name,lv_size,vg_name,origin'', vg]))
       (\<lambda>r. case r of
          Inl err \<Rightarrow> ret (Some (Inl err))
        | Inr es \<Rightarrow>
            (case find (\<lambda>e. le_VgName e = vg \<and> le_Name e = name) es of
               None \<Rightarrow> ret (Some (Inl ErrLogicalVolumeNotFound))
             | Some lv \<Rightarrow>
                 (let found = (\<lambda>usage. \<lparr>llv_name = le_Name lv, llv_sizeInBytes = le_LvSize lv, llv_vg = vg,
                                        llv_originLvName = le_LvOrigin lv, llv_usageInPercent = fdiv usage (Fin 100)\<rparr>)
                  in if le_LvOrigin lv = [] then ret (Some (Inr (found (Fin 0))))
                     else State_Monad.bind
                            (run_report L (json_lvs L) ''lvs''
                               [''--options=lv_name,lv_size,vg_name,origin,snap_percent'', le_VgName lv @ ''/'' @ le_Name lv])
                            (\<lambda>(rep, _). ret (case rep of
                               (e # _) # _ \<Rightarrow> Some (Inr (found (le_LvSnapUsage e))) | _ \<Rightarrow> None)))))"

definition lv_Path :: "lvm_host \<Rightarrow> LocalLV \<Rightarrow> string lresult io" where
  "lv_Path L lv =
     State_Monad.bind (read_entries IsLogicalVolumeNotFound ErrLogicalVolumeNotFound
         (run_report L (json_lvs L) ''lvs'' [''--options=lv_path'', llv_vg lv @ ''/'' @ llv_name lv]))
       (\<lambda>r. ret (first_entry ErrLogicalVolumeNotFound le_LvPath r))"

definition IsSnapshot :: "LocalLV \<Rightarrow> bool" where
  "IsSnapshot lv \<longleftrightarrow> llv_originLvName lv \<noteq> []"

definition lv_Remove :: "lvm_host \<Rightarrow> LocalLV \<Rightarrow> lvm_error option io" where
  "lv_Remove L lv = run_plain L ''lvremove'' [''-f'', llv_vg lv @ ''/'' @ llv_name lv]"

definition expand_command :: "LocalLV \<Rightarrow> uint64 \<Rightarrow> string" where
  "expand_command lv sz =
     go_Join [NsenterCmd, ''lvextend'', ''--size=+'' @ dec (unat sz) @ ''b'', llv_vg lv @ ''/'' @ llv_name lv] '' ''"

definition lv_Expand :: "lvm_host \<Rightarrow> LocalLV \<Rightarrow> uint64 \<Rightarrow> string option io" where
  "lv_Expand L lv sz =
     act (Sh (expand_command lv sz)) (\<lambda>acts. case lvm_exec L acts (expand_command lv sz) of (_, _, err) \<Rightarrow> err)"

section \<open>Physical volumes and new groups\<close>

definition pv_Remove :: "lvm_host \<Rightarrow> string \<Rightarrow> lvm_error option io" where
  "pv_Remove L dev = run_plain L ''pvremove'' [dev]"

definition pv_Check :: "lvm_host \<Rightarrow> string \<Rightarrow> lvm_error option io" where
  "pv_Check L dev = run_plain L ''pvck'' [dev]"

definition PVScan :: "lvm_host \<Rightarrow> string \<Rightarrow> lvm_error option io" where
  "PVScan L dev = run_plain L ''pvscan'' (''--cache'' # (if dev \<noteq> [] then [dev] else []))"

definition VGScan :: "lvm_host \<Rightarrow> string \<Rightarrow> lvm_error option io" where
  "VGScan L name = run_plain L ''vgscan'' (''--cache'' # (if name \<noteq> [] then [name] else []))"

definition CreateVolumeGroup :: "lvm_host \<Rightarrow> string \<Rightarrow> string list \<Rightarrow> string list \<Rightarrow> bool \<Rightarrow> string lresult io" where
  "CreateVolumeGroup L name pvs tags force =
     (case ValidateVolumeGroupName name of
        Some err \<Rightarrow> ret (Inl err)
      | None \<Rightarrow>
          (case tag_args tags of
             Inl err \<Rightarrow> ret (Inl err)
           | Inr args \<Rightarrow>
               State_Monad.bind (run_plain L ''vgcreate'' (args @ [name] @ pvs @ (if force then [''--force''] else [])))
                 (\<lambda>e. case e of
                    Some err \<Rightarrow> ret (Inl err)
                  | None \<Rightarrow>
                      State_Monad.bind (PVScan L []) (\<lambda>_. State_Monad.bind (VGScan L []) (\<lambda>_. ret (Inr name))))))"

definition CreatePhysicalVolume :: "lvm_host \<Rightarrow> string \<Rightarrow> bool \<Rightarrow> string lresult io" where
  "CreatePhysicalVolume L dev force =
     State_Monad.bind (run_plain L ''pvcreate'' (if force then [dev, ''--force''] else [dev]))
       (\<lambda>e. ret (case e of
          Some err \<Rightarrow> Inl (OtherError (''lvm: CreatePhysicalVolume: '' @ lvm_error_text err)) | None \<Rightarrow> Inr dev))"

definition ListPhysicalVolumes :: "lvm_host \<Rightarrow> string list lresult io" where
  "ListPhysicalVolumes L =
     State_Monad.bind (read_entries (\<lambda>_. False) ErrPhysicalVolumeNotFound (run_report L (json_pvs L) ''pvs'' []))
       (\<lambda>r. ret (map_sum id (map pe_Name) r))"

definition LookupPhysicalVolume :: "lvm_host \<Rightarrow> string \<Rightarrow> string lresult io" where
  "LookupPhysicalVolume L name =
     State_Monad.bind (read_entries IsPhysicalVolumeNotFound ErrPhysicalVolumeNotFound
         (run_report L (json_pvs L) ''pvs'' [''--options=pv_name'', name]))
       (\<lambda>r. ret (first_entry ErrPhysicalVolumeNotFound pe_Name r))"

end
