(* ===== verification/Agent_Discovery.thy ===== *)
theory Agent_Discovery
  imports Lvm_Utils
begin

text \<open>
  The agent of a node, \<open>pkg/agent/discovery\<close>: it reads the volume groups, devices and mount points of the
  machine, takes what is reserved by an annotation off what may be allocated, filters names by the regular
  expressions of the node's \<open>NodeLocalStorage\<close>, and writes the status when it changed. The machine's mounts,
  directories and block devices, the SPDK target's answers, regular expressions and decoders are parameters, the
  record \<open>node_sys\<close>; so is the order in which Go ranges over a map.
\<close>

section \<open>The status the agent writes\<close>

abbreviation StorageReady :: string where "StorageReady \<equiv> ''DiskReady''"
abbreviation StorageFull :: string where "StorageFull \<equiv> ''DiskFull''"
abbreviation AnnoStorageReserve :: string where "AnnoStorageReserve \<equiv> ''csi.aliyun.com/storage-reserved''"

record LVStatus =
  lvst_Name :: string
  lvst_VGName :: string
  lvst_Total :: uint64
  lvst_Condition :: string

record VGStatus =
  vgst_Name :: string
  vgst_PhysicalVolumes :: "string list"
  vgst_LogicalVolumes :: "LVStatus list"
  vgst_Total :: uint64
  vgst_Available :: uint64
  vgst_Allocatable :: uint64
  vgst_Condition :: string

record MPStatus =
  mpst_Name :: string
  mpst_Total :: uint64
  mpst_Available :: uint64
  mpst_FsType :: string
  mpst_IsBind :: bool
  mpst_Options :: "string list"
  mpst_Device :: string
  mpst_ReadOnly :: bool
  mpst_Condition :: string

record DevStatus =
  devst_Name :: string
  devst_MediaType :: string
  devst_Total :: uint64
  devst_ReadOnly :: bool
  devst_Condition :: string

record agent_status =
  as_DeviceInfos :: "DevStatus list"
  as_VolumeGroups :: "VGStatus list"
  as_MountPoints :: "MPStatus list"
  as_Phase :: string
  as_StateType :: string
  as_StateStatus :: string
  as_LastHeartbeatTime :: "int option"
  as_LastTransitionTime :: "int option"
  as_FilteredVGs :: "string list"
  as_FilteredMPs :: "string list"
  as_FilteredDevices :: "string list"
  as_UpdateStatus :: string
  as_LastUpdateTime :: "int option"
  as_UpdateReason :: string

record list_config =
  lc_Include :: "string list"
  lc_Exclude :: "string list"

record agent_nls =
  an_Annotations :: "string gomap"
  an_VGs :: list_config
  an_MountPoints :: list_config
  an_Devices :: list_config
  an_Status :: agent_status

section \<open>The machine\<close>

record mount_entry =
  mnt_Device :: string
  mnt_Path :: string
  mnt_Type :: string
  mnt_Opts :: "string list"

record block_device =
  bd_Name :: string
  bd_MediaType :: string
  bd_ReadOnly :: bool
  bd_Total :: uint64

record lv_store =
  lst_Name :: string
  lst_BaseBdev :: string
  lst_TotalClusters :: uint64
  lst_FreeClusters :: uint64
  lst_ClusterSize :: uint64

record bdev =
  bdev_Name :: string
  bdev_Filename :: string

record node_sys =
  na_L :: lvm_host
  na_spdk :: bool
  na_lvstores :: "lv_store list result"
  na_bdevs :: "bdev list result"
  na_mounts :: "mount_entry list result"
  na_readdir :: "string \<Rightarrow> string list result"
  na_usage :: "string \<Rightarrow> uint64 \<times> uint64" \<comment> \<open>size and what is available\<close>
  na_block :: "string \<Rightarrow> string \<Rightarrow> block_device result"
  na_partitions :: "string \<Rightarrow> string \<Rightarrow> block_device list result"
  na_FindString :: "string \<Rightarrow> (string \<Rightarrow> string) option" \<comment> \<open>\<open>None\<close>: the expression does not compile\<close>
  na_MatchString :: "string \<Rightarrow> (string \<Rightarrow> bool) option"
  na_json_map :: "string \<Rightarrow> string gomap result"
  na_ParseFloat :: "string \<Rightarrow> float64 \<times> string option" \<comment> \<open>value, error\<close>
  na_ParseUnits :: "string \<Rightarrow> int64 option"
  na_to_uint64 :: "float64 \<Rightarrow> uint64" \<comment> \<open>a value out of range\<close>
  na_now :: int

record agent_config =
  ac_SysPath :: string
  ac_MountPath :: string
  ac_LogicalVolumeNamePrefix :: string
  ac_RegExp :: string

section \<open>Reservations\<close>

record ReservedVGInfo =
  rv_vgName :: string
  rv_reservedPercent :: float64
  rv_reservedSize :: uint64

definition reserved_info :: "node_sys \<Rightarrow> string \<Rightarrow> string \<Rightarrow> ReservedVGInfo result" where
  "reserved_info N k v =
     (if HasSuffix v ''%''
      then (case na_ParseFloat N (filter (\<lambda>c. c \<noteq> CHR ''%'') v) of
              (thr, Some err) \<Rightarrow> Inl ''[getReservedVGInfo]parse float failed''
            | (thr, None) \<Rightarrow> Inr \<lparr>rv_vgName = k, rv_reservedPercent = fdiv thr (Fin 100), rv_reservedSize = 0\<rparr>)
      else (case na_ParseUnits N v of
              None \<Rightarrow> Inl ''[getReservedVGInfo]get reserved size failed''
            | Some sz \<Rightarrow> Inr \<lparr>rv_vgName = k, rv_reservedPercent = Fin 0, rv_reservedSize = sz\<rparr>))"

fun reserved_loop :: "node_sys \<Rightarrow> string gomap \<Rightarrow> ReservedVGInfo gomap \<Rightarrow> ReservedVGInfo gomap result" where
  "reserved_loop N [] infos = Inr infos"
| "reserved_loop N ((k, v) # m) infos =
     (case reserved_info N k v of Inl err \<Rightarrow> Inl err | Inr info \<Rightarrow> reserved_loop N m (AList.update k info infos))"

definition getReservedVGInfo :: "range_order \<Rightarrow> node_sys \<Rightarrow> string \<Rightarrow> ReservedVGInfo gomap result" where
  "getReservedVGInfo rng N reservedAnno =
     (case na_json_map N reservedAnno of
        Inl err \<Rightarrow> Inl (''failed to parse annotation value ('' @ go_Quote reservedAnno @ '') err='' @ err)
      | Inr m \<Rightarrow> reserved_loop N (reorder rng m) [])"

definition of_uint64 :: "uint64 \<Rightarrow> float64" where
  "of_uint64 n = Fin (round64 (of_int (uint n)))"

definition to_uint64 :: "node_sys \<Rightarrow> float64 \<Rightarrow> uint64" where
  "to_uint64 N x =
     (case x of
        Fin r \<Rightarrow> (let t = Float64.truncate r in if 0 \<le> t \<and> t < 2 ^ 64 then word_of_int t else na_to_uint64 N x)
      | _ \<Rightarrow> na_to_uint64 N x)"

text \<open>What may be allocated once the reservation is taken into account.\<close>

definition reserve :: "node_sys \<Rightarrow> ReservedVGInfo option \<Rightarrow> uint64 \<Rightarrow> uint64 \<Rightarrow> uint64" where
  "reserve N io tot allocatable =
     (case io of
        None \<Rightarrow> allocatable
      | Some info \<Rightarrow>
          (let reservedSize =
                 (if rv_reservedSize info \<noteq> 0 then rv_reservedSize info
                  else to_uint64 N (fmul (of_uint64 tot) (rv_reservedPercent info)))
           in if tot - reservedSize < allocatable then tot - rv_reservedSize info else allocatable))"

section \<open>Volume groups\<close>

definition isLocalLV :: "agent_config \<Rightarrow> string \<Rightarrow> bool" where
  "isLocalLV cfg lvname \<longleftrightarrow> HasPrefix lvname (ac_LogicalVolumeNamePrefix cfg) \<or> HasPrefix lvname ''csi-''"

text \<open>The logical volumes that are not open-local's take from what may be allocated. \<open>None\<close> is a panic.\<close>

fun lv_loop ::
  "agent_config \<Rightarrow> lvm_host \<Rightarrow> string \<Rightarrow> string \<Rightarrow> string list \<Rightarrow> uint64 \<Rightarrow> LVStatus list \<Rightarrow> (uint64 \<times> LVStatus list) option io" where
  "lv_loop cfg L vgname vg [] allocatable lvs = ret (Some (allocatable, lvs))"
| "lv_loop cfg L vgname vg (lvname # names) allocatable lvs =
     State_Monad.bind (LookupLogicalVolume L vg lvname) (\<lambda>r. case r of
         None \<Rightarrow> ret None
       | Some (Inl err) \<Rightarrow> lv_loop cfg L vgname vg names allocatable lvs
       | Some (Inr tmplv) \<Rightarrow>
           lv_loop cfg L vgname vg names
             (if \<not> isLocalLV cfg lvname then allocatable - llv_sizeInBytes tmplv else allocatable)
             (lvs @ [\<lparr>lvst_Name = lvname, lvst_VGName = vgname, lvst_Total = llv_sizeInBytes tmplv,
                      lvst_Condition = StorageReady\<rparr>]))"

definition or_zero :: "uint64 lresult \<Rightarrow> uint64" where
  "or_zero r = (case r of Inl _ \<Rightarrow> 0 | Inr n \<Rightarrow> n)"

text \<open>One volume group: the entry made for it, if any.\<close>

definition discover_vg ::
  "agent_config \<Rightarrow> node_sys \<Rightarrow> ReservedVGInfo gomap \<Rightarrow> string \<Rightarrow> VGStatus option option io" where
  "discover_vg cfg N reservedVGInfo vgname =
     (let L = na_L N
      in State_Monad.bind (LookupVolumeGroup L vgname) (\<lambda>r. case r of
           Inl err \<Rightarrow> ret (Some None)
         | Inr vg \<Rightarrow>
             State_Monad.bind (ListPhysicalVolumeNames L vg) (\<lambda>r. case r of
               Inl err \<Rightarrow> ret (Some None)
             | Inr pvs \<Rightarrow>
                 State_Monad.bind (BytesTotal L vg) (\<lambda>tot.
                 State_Monad.bind (BytesFree L vg) (\<lambda>free.
                 State_Monad.bind (ListLogicalVolumeNames L vg) (\<lambda>r. case r of
                   Inl err \<Rightarrow> ret (Some None)
                 | Inr names \<Rightarrow>
                     State_Monad.bind (lv_loop cfg L vgname vg names (or_zero tot) [])
                       (\<lambda>r. ret (map_option (\<lambda>(allocatable, lvs). Some
                          \<lparr>vgst_Name = vg, vgst_PhysicalVolumes = pvs, vgst_LogicalVolumes = lvs, vgst_Total = or_zero tot,
                           vgst_Available = or_zero free,
                           vgst_Allocatable = reserve N (map_of reservedVGInfo vg) (or_zero tot) allocatable,
                           vgst_Condition = StorageReady\<rparr>) r))))))))"

fun discover_vgs ::
  "agent_config \<Rightarrow> node_sys \<Rightarrow> ReservedVGInfo gomap \<Rightarrow> string list \<Rightarrow> VGStatus list \<Rightarrow> VGStatus list option io" where
  "discover_vgs cfg N infos [] done_vgs = ret (Some done_vgs)"
| "discover_vgs cfg N infos (vgname # names) done_vgs =
     State_Monad.bind (discover_vg cfg N infos vgname) (\<lambda>r. case r of
         None \<Rightarrow> ret None
       | Some None \<Rightarrow> discover_vgs cfg N infos names done_vgs
       | Some (Some vg) \<Rightarrow> discover_vgs cfg N infos names (done_vgs @ [vg]))"

definition discoverLvmVGs :: "agent_config \<Rightarrow> node_sys \<Rightarrow> ReservedVGInfo gomap \<Rightarrow> VGStatus list result option io" where
  "discoverLvmVGs cfg N infos =
     State_Monad.bind (ListVolumeGroupNames (na_L N)) (\<lambda>r. case r of
         Inl err \<Rightarrow> ret (Some (Inl (''List volume group error: '' @ lvm_error_text err)))
       | Inr vgnames \<Rightarrow>
           State_Monad.bind (discover_vgs cfg N infos vgnames []) (\<lambda>r. ret (map_option Inr r)))"

definition lvstore_status :: "bdev list \<Rightarrow> lv_store \<Rightarrow> VGStatus" where
  "lvstore_status bdevs lvs =
     (let available = lst_FreeClusters lvs * lst_ClusterSize lvs
      in \<lparr>vgst_Name = lst_Name lvs,
          vgst_PhysicalVolumes =
            (case find (\<lambda>b. bdev_Name b = lst_BaseBdev lvs) bdevs of None \<Rightarrow> [] | Some b \<Rightarrow> [bdev_Filename b]),
          vgst_LogicalVolumes = [], vgst_Total = lst_TotalClusters lvs * lst_ClusterSize lvs,
          vgst_Available = available, vgst_Allocatable = available,
          vgst_Condition = (if available = 0 then StorageFull else StorageReady)\<rparr>)"

definition discoverLvstore :: "node_sys \<Rightarrow> VGStatus list result" where
  "discoverLvstore N =
     (case na_lvstores N of
        Inl err \<Rightarrow> Inl (''List Lvstore error: '' @ err)
      | Inr lvss \<Rightarrow>
          (case na_bdevs N of
             Inl err \<Rightarrow> Inl (''Get bdevs error: '' @ err)
           | Inr bdevs \<Rightarrow> Inr (map (lvstore_status bdevs) lvss)))"

definition discoverVGs :: "agent_config \<Rightarrow> node_sys \<Rightarrow> ReservedVGInfo gomap \<Rightarrow> VGStatus list result option io" where
  "discoverVGs cfg N infos = (if na_spdk N then ret (Some (discoverLvstore N)) else discoverLvmVGs cfg N infos)"

text \<open>\<open>createVG\<close>; \<open>force\<close> is read from the environment.\<close>

fun create_pvs :: "lvm_host \<Rightarrow> bool \<Rightarrow> string list \<Rightarrow> string list \<Rightarrow> string list lresult io" where
  "create_pvs L force [] pvs = ret (Inr pvs)"
| "create_pvs L force (dev # devices) pvs =
     State_Monad.bind (CreatePhysicalVolume L dev force) (\<lambda>r. case r of
         Inl err \<Rightarrow> ret (Inl err) | Inr pv \<Rightarrow> create_pvs L force devices (pvs @ [pv]))"

definition createVG :: "lvm_host \<Rightarrow> bool \<Rightarrow> string \<Rightarrow> string list \<Rightarrow> lvm_error option io" where
  "createVG L force vgname devices =
     State_Monad.bind (create_pvs L force devices []) (\<lambda>r. case r of
         Inl err \<Rightarrow> ret (Some err)
       | Inr pvs \<Rightarrow>
           State_Monad.bind (CreateVolumeGroup L vgname pvs [] force)
             (\<lambda>r. ret (case r of Inl err \<Rightarrow> Some err | Inr _ \<Rightarrow> None)))"

section \<open>Mount points and devices\<close>

definition mp_status :: "node_sys \<Rightarrow> mount_entry \<Rightarrow> MPStatus" where
  "mp_status N mp =
     (let (sz, available) = na_usage N (mnt_Path mp)
      in \<lparr>mpst_Name = mnt_Path mp, mpst_Total = sz, mpst_Available = available, mpst_FsType = mnt_Type mp,
          mpst_IsBind = False, mpst_Options = mnt_Opts mp, mpst_Device = mnt_Device mp,
          mpst_ReadOnly = ContainsString (mnt_Opts mp) ''ro'',
          mpst_Condition = (if available = 0 then StorageFull else StorageReady)\<rparr>)"

definition discoverMountPoints :: "agent_config \<Rightarrow> node_sys \<Rightarrow> MPStatus list result" where
  "discoverMountPoints cfg N =
     (case na_mounts N of
        Inl err \<Rightarrow> Inl (''List mountpoint error: '' @ err)
      | Inr mountPoints \<Rightarrow>
          (case na_readdir N (ac_MountPath cfg) of
             Inl err \<Rightarrow> Inl (''Read mount path error: '' @ err)
           | Inr files \<Rightarrow>
               (let mountPointMap = fold (\<lambda>mp. AList.update (mnt_Path mp) mp) mountPoints []
                in Inr (concat (map (\<lambda>file.
                     case map_of mountPointMap (ac_MountPath cfg @ ''/'' @ file) of
                       None \<Rightarrow> [] | Some mp \<Rightarrow> [mp_status N mp]) files)))))"

definition dev_status :: "block_device \<Rightarrow> DevStatus" where
  "dev_status d =
     \<lparr>devst_Name = bd_Name d, devst_MediaType = bd_MediaType d, devst_Total = bd_Total d, devst_ReadOnly = bd_ReadOnly d,
      devst_Condition = StorageReady\<rparr>"

text \<open>The partitions of a disk come before the disk.\<close>

fun device_loop :: "agent_config \<Rightarrow> node_sys \<Rightarrow> (string \<Rightarrow> bool) \<Rightarrow> string list \<Rightarrow> DevStatus list \<Rightarrow> DevStatus list result" where
  "device_loop cfg N matches [] infos = Inr infos"
| "device_loop cfg N matches (b # blocks) infos =
     (if matches b
      then (case na_block N (ac_SysPath cfg) b of
              Inl err \<Rightarrow> Inl err
            | Inr device \<Rightarrow>
                (case na_partitions N (ac_SysPath cfg) b of
                   Inl err \<Rightarrow> Inl err
                 | Inr devices \<Rightarrow> device_loop cfg N matches blocks (infos @ map dev_status (devices @ [device]))))
      else device_loop cfg N matches blocks infos)"

definition discoverDevices :: "agent_config \<Rightarrow> node_sys \<Rightarrow> DevStatus list result option" where
  "discoverDevices cfg N =
     (case na_MatchString N (ac_RegExp cfg) of
        None \<Rightarrow> None
      | Some matches \<Rightarrow>
          Some (case na_readdir N (ac_SysPath cfg @ ''/block'') of
                  Inl err \<Rightarrow> Inl err | Inr blocks \<Rightarrow> device_loop cfg N matches blocks []))"

section \<open>Filtering\<close>

definition put_matches :: "(string \<Rightarrow> string) \<Rightarrow> string list \<Rightarrow> string gomap \<Rightarrow> string gomap" where
  "put_matches reg info m = fold (\<lambda>i m. if reg i = i then AList.update i i m else m) info m"

definition delete_matches :: "(string \<Rightarrow> string) \<Rightarrow> string list \<Rightarrow> string gomap \<Rightarrow> string gomap" where
  "delete_matches reg info m = fold (\<lambda>i m. if reg i = i then AList.delete i m else m) info m"

fun with_regs ::
  "node_sys \<Rightarrow> ((string \<Rightarrow> string) \<Rightarrow> string gomap \<Rightarrow> string gomap) \<Rightarrow> string list \<Rightarrow> string gomap \<Rightarrow> string gomap option" where
  "with_regs N f [] m = Some m"
| "with_regs N f (e # es) m = (case na_FindString N e of None \<Rightarrow> None | Some reg \<Rightarrow> with_regs N f es (f reg m))"

definition FilterInfo :: "range_order \<Rightarrow> node_sys \<Rightarrow> string list \<Rightarrow> list_config \<Rightarrow> string list option" where
  "FilterInfo rng N info cfg =
     (case with_regs N (\<lambda>reg. put_matches reg info) (lc_Include cfg) [] of
        None \<Rightarrow> None
      | Some m \<Rightarrow> map_option (\<lambda>m. map fst (reorder rng m)) (with_regs N (\<lambda>reg. delete_matches reg info) (lc_Exclude cfg) m))"

definition FilterVGInfo :: "range_order \<Rightarrow> node_sys \<Rightarrow> agent_nls \<Rightarrow> string list option" where
  "FilterVGInfo rng N nls = FilterInfo rng N (map vgst_Name (as_VolumeGroups (an_Status nls))) (an_VGs nls)"

definition FilterMPInfo :: "range_order \<Rightarrow> node_sys \<Rightarrow> agent_nls \<Rightarrow> string list option" where
  "FilterMPInfo rng N nls = FilterInfo rng N (map mpst_Name (as_MountPoints (an_Status nls))) (an_MountPoints nls)"

definition FilterDeviceInfo :: "range_order \<Rightarrow> node_sys \<Rightarrow> agent_nls \<Rightarrow> string list option" where
  "FilterDeviceInfo rng N nls = FilterInfo rng N (map devst_Name (as_DeviceInfos (an_Status nls))) (an_Devices nls)"

section \<open>One round\<close>

definition createSpdkBdevs_names :: "bdev list \<Rightarrow> string list \<Rightarrow> (string \<times> string) list" where
  "createSpdkBdevs_names bdevs devices =
     map (\<lambda>dev. (''bdev-aio'' @ map (\<lambda>c. if c = CHR ''/'' then CHR ''_'' else c) dev, dev))
       (filter (\<lambda>dev. \<not> list_ex (\<lambda>b. bdev_Filename b = dev) bdevs) devices)"

text \<open>The devices the SPDK target is asked to make, by name and file; none when it does not answer.\<close>

definition createSpdkBdevs :: "node_sys \<Rightarrow> string list \<Rightarrow> (string \<times> string) list" where
  "createSpdkBdevs N devices = (case na_bdevs N of Inl err \<Rightarrow> [] | Inr bdevs \<Rightarrow> createSpdkBdevs_names bdevs devices)"

definition without_times :: "agent_status \<Rightarrow> agent_status" where
  "without_times st = st\<lparr>as_LastHeartbeatTime := None, as_LastTransitionTime := None, as_LastUpdateTime := None\<rparr>"

definition isNlsStatusChanged :: "agent_status \<Rightarrow> agent_status \<Rightarrow> bool" where
  "isNlsStatusChanged oldStatus newStatus \<longleftrightarrow> without_times oldStatus \<noteq> without_times newStatus"

record discover_ranges =
  dr_reserved :: range_order
  dr_vgs :: range_order
  dr_mps :: range_order
  dr_devices :: range_order

text \<open>The status built from what was found; \<open>None\<close> when a filter's expression does not compile.\<close>

definition new_status ::
  "discover_ranges \<Rightarrow> node_sys \<Rightarrow> agent_nls \<Rightarrow> VGStatus list \<Rightarrow> DevStatus list \<Rightarrow> MPStatus list \<Rightarrow> agent_status option" where
  "new_status R N nls vgs devs mps =
     (let st = (an_Status nls)\<lparr>as_DeviceInfos := devs, as_VolumeGroups := vgs, as_MountPoints := mps,
                 as_Phase := ''Running'', as_StateType := StorageReady, as_StateStatus := ''True'',
                 as_LastHeartbeatTime := Some (na_now N), as_LastTransitionTime := None\<rparr>;
          nls = nls\<lparr>an_Status := st\<rparr>
      in case (FilterVGInfo (dr_vgs R) N nls, FilterMPInfo (dr_mps R) N nls, FilterDeviceInfo (dr_devices R) N nls) of
           (Some fvgs, Some fmps, Some fdevs) \<Rightarrow>
             Some (st\<lparr>as_FilteredVGs := fvgs, as_FilteredMPs := fmps, as_FilteredDevices := fdevs,
                      as_UpdateStatus := ''accepted'', as_LastUpdateTime := Some (na_now N), as_UpdateReason := []\<rparr>)
         | _ \<Rightarrow> None)"

text \<open>What a round comes to: a panic, nothing, or the status to write and the SPDK devices to make.\<close>

datatype outcome = Panic | Nothing | Found agent_status bool \<comment> \<open>to be written\<close> "(string \<times> string) list"

definition Discover :: "discover_ranges \<Rightarrow> agent_config \<Rightarrow> node_sys \<Rightarrow> agent_nls result \<Rightarrow> outcome io" where
  "Discover R cfg N get_nls =
     (case get_nls of
        Inl err \<Rightarrow> ret Nothing
      | Inr nls \<Rightarrow>
          (case (case map_of (an_Annotations nls) AnnoStorageReserve of
                   None \<Rightarrow> Inr [] | Some anno \<Rightarrow> getReservedVGInfo (dr_reserved R) N anno) of
             Inl err \<Rightarrow> ret Nothing
           | Inr infos \<Rightarrow>
               State_Monad.bind (discoverVGs cfg N infos) (\<lambda>r. ret (case r of
                   None \<Rightarrow> Panic
                 | Some (Inl err) \<Rightarrow> Nothing
                 | Some (Inr vgs) \<Rightarrow>
                     (case discoverDevices cfg N of
                        None \<Rightarrow> Panic
                      | Some (Inl err) \<Rightarrow> Nothing
                      | Some (Inr devs) \<Rightarrow>
                          (case discoverMountPoints cfg N of
                             Inl err \<Rightarrow> Nothing
                           | Inr mps \<Rightarrow>
                               (case new_status R N nls vgs devs mps of
                                  None \<Rightarrow> Panic
                                | Some st \<Rightarrow>
                                    Found st (isNlsStatusChanged (an_Status nls) st)
                                      (if na_spdk N then createSpdkBdevs N (as_FilteredDevices st) else []))))))))"

section \<open>Snapshots that fill up\<close>

fun snapshot_lvs :: "lvm_host \<Rightarrow> string \<Rightarrow> string list \<Rightarrow> LocalLV list \<Rightarrow> LocalLV list option io" where
  "snapshot_lvs L vg [] lvs = ret (Some lvs)"
| "snapshot_lvs L vg (lvName # names) lvs =
     State_Monad.bind (LookupLogicalVolume L vg lvName) (\<lambda>r. case r of
         None \<Rightarrow> ret None
       | Some (Inl err) \<Rightarrow> snapshot_lvs L vg names lvs
       | Some (Inr tmplv) \<Rightarrow> snapshot_lvs L vg names (if IsSnapshot tmplv then lvs @ [tmplv] else lvs))"

fun all_snapshot_lvs :: "lvm_host \<Rightarrow> string list \<Rightarrow> LocalLV list \<Rightarrow> LocalLV list lresult option io" where
  "all_snapshot_lvs L [] lvs = ret (Some (Inr lvs))"
| "all_snapshot_lvs L (vgName # vgNames) lvs =
     State_Monad.bind (LookupVolumeGroup L vgName) (\<lambda>r. case r of
         Inl err \<Rightarrow> ret (Some (Inl err))
       | Inr vg \<Rightarrow>
           State_Monad.bind (ListLogicalVolumeNames L vg) (\<lambda>r. case r of
             Inl err \<Rightarrow> ret (Some (Inl err))
           | Inr names \<Rightarrow>
               State_Monad.bind (snapshot_lvs L vg names lvs) (\<lambda>r. case r of
                 None \<Rightarrow> ret None | Some lvs \<Rightarrow> all_snapshot_lvs L vgNames lvs)))"

definition getAllLocalSnapshotLV :: "lvm_host \<Rightarrow> LocalLV list lresult option io" where
  "getAllLocalSnapshotLV L =
     State_Monad.bind (ListVolumeGroupNames L) (\<lambda>r. case r of
         Inl err \<Rightarrow> ret (Some (Inl err)) | Inr vgNames \<Rightarrow> all_snapshot_lvs L vgNames [])"

text \<open>The agent's reading of the parameters of a snapshot class goes on after an error: a size that does not
  parse is 0, and so is a threshold that is not a number.\<close>

definition agent_snapshot_info :: "node_sys \<Rightarrow> string gomap \<Rightarrow> uint64 \<times> float64 \<times> uint64" where
  "agent_snapshot_info N param =
     (let units = (\<lambda>str. case na_ParseUnits N str of None \<Rightarrow> 0 | Some n \<Rightarrow> n)
      in (case map_of param ''csi.aliyun.com/snapshot-initial-size'' of None \<Rightarrow> 4 * 1024 * 1024 * 1024 | Some str \<Rightarrow> units str,
          case map_of param ''csi.aliyun.com/snapshot-expansion-threshold'' of
            None \<Rightarrow> Fin (1 / 2)
          | Some str \<Rightarrow> fdiv (fst (na_ParseFloat N (filter (\<lambda>c. c \<noteq> CHR ''%'') str))) (Fin 100),
          case map_of param ''csi.aliyun.com/snapshot-expansion-size'' of None \<Rightarrow> 1 * 1024 * 1024 * 1024 | Some str \<Rightarrow> units str))"

text \<open>The parameters of the snapshot class of a snapshot volume: \<open>None\<close> is the panic of a content without a
  class, \<open>Some None\<close> an error of the API. The loop ends at the first error.\<close>

fun expand_loop :: "node_sys \<Rightarrow> (string \<Rightarrow> string gomap option option) \<Rightarrow> LocalLV list \<Rightarrow> bool io" where
  "expand_loop N class_params [] = ret True"
| "expand_loop N class_params (lv # lvs) =
     (case class_params (llv_name lv) of
        None \<Rightarrow> ret False
      | Some None \<Rightarrow> ret True
      | Some (Some param) \<Rightarrow>
          (case agent_snapshot_info N param of
             (initialSize, threshold, expansionSize) \<Rightarrow>
               if float_less threshold (llv_usageInPercent lv)
               then State_Monad.bind (lv_Expand (na_L N) lv expansionSize)
                      (\<lambda>e. case e of Some err \<Rightarrow> ret True | None \<Rightarrow> expand_loop N class_params lvs)
               else expand_loop N class_params lvs))"

definition ExpandSnapshotLVIfNeeded :: "node_sys \<Rightarrow> (string \<Rightarrow> string gomap option option) \<Rightarrow> bool io" where
  "ExpandSnapshotLVIfNeeded N class_params =
     (if na_spdk N then ret True
      else State_Monad.bind (getAllLocalSnapshotLV (na_L N)) (\<lambda>r. case r of
        None \<Rightarrow> ret False | Some (Inl err) \<Rightarrow> ret True | Some (Inr lvs) \<Rightarrow> expand_loop N class_params lvs))"

end
