(* ===== verification/Agent_Facts.thy ===== *)
theory Agent_Facts
  imports Agent_Discovery Lvm_Facts
begin

text \<open>
  What the agent reports: what a reservation leaves, what other people's logical volumes take, which names a
  filter lets through, when the status is written; and which command lines the LVM library builds.
\<close>

section \<open>Command lines\<close>

definition safe_word :: "string \<Rightarrow> bool" where
  "safe_word w \<longleftrightarrow> list_all (\<lambda>c. name_char c \<or> c = CHR ''-'') w"

lemma match_name_safe: "match_name s \<Longrightarrow> safe_word s"
  by (cases s) (auto simp: match_name_def safe_word_def)

lemma tag_args_safe:
  "tag_args tags = Inr args \<Longrightarrow> args = map ((@) ''--add-tag='') (filter (\<lambda>t. t \<noteq> []) tags) \<and> list_all safe_word tags"
proof (induction tags arbitrary: args)
  case (Cons tag tags)
  show ?case
  proof (cases "tag = []")
    case True
    with Cons show ?thesis by (simp add: safe_word_def)
  next
    case False
    with Cons.prems have tag: "ValidateTag tag = None" by (cases "ValidateTag tag") simp_all
    with Cons.prems False obtain as' where as': "tag_args tags = Inr as'" by (cases "tag_args tags") simp_all
    with Cons.prems False tag have "args = (''--add-tag='' @ tag) # as'" by simp
    moreover from tag have "safe_word tag" by (auto simp: ValidateTag_def intro: match_name_safe split: if_splits)
    ultimately show ?thesis using Cons.IH [OF as'] False by simp
  qed
qed simp

text \<open>C30: no name and no tag that is given to the library reaches the shell unless it consists of letters,
  digits and the characters \<open>_+.-\<close>: with any other, nothing is run.\<close>

theorem only_safe_words_run:
  "snd (run_state (CreateLogicalVolume L vg name sz tags) hist) =
     (if match_name name \<and> (\<exists>args. tag_args tags = Inr args)
      then hist @ [Sh (lvm_command ''lvcreate'' False
        (map ((@) ''--add-tag='') (filter (\<lambda>t. t \<noteq> []) tags) @
           [''--size='' @ dec (unat sz) @ ''b'', ''--name='' @ name, vg]))]
      else hist) \<and>
   (snd (run_state (CreateLogicalVolume L vg name sz tags) hist) = hist \<or> list_all safe_word (name # tags)) \<and>
   (snd (run_state (CreateVolumeGroup L name pvs tags force) hist) = hist \<or> list_all safe_word (name # tags))"
proof -
  note defs = CreateLogicalVolume_def CreateVolumeGroup_def ValidateLogicalVolumeName_def ValidateVolumeGroupName_def
    io_simps run_plain_def Let_def match_name_safe
  show ?thesis
  proof (cases "tag_args tags")
    case (Inl e)
    then show ?thesis by (simp add: defs)
  next
    case (Inr args)
    from tag_args_safe [OF this] have "args = map ((@) ''--add-tag='') (filter (\<lambda>t. t \<noteq> []) tags)" "list_all safe_word tags"
      by simp_all
    with Inr show ?thesis by (simp add: defs del: append_Cons append.append_Nil)
  qed
qed

section \<open>Reservations\<close>

text \<open>A reservation of a size leaves at most what is beyond it (the subtraction wraps when more is reserved than
  there is); a reservation of a percentage leaves what may be allocated as it was, or raises it to the whole
  volume group: it never reserves anything.\<close>

theorem reservation:
  "if rv_reservedSize info \<noteq> 0
   then reserve N (Some info) tot allocatable = min allocatable (tot - rv_reservedSize info)
   else reserve N (Some info) tot allocatable \<in> {allocatable, tot} \<and>
     (reserve N (Some info) tot allocatable = tot \<longleftrightarrow>
        allocatable = tot \<or> tot - to_uint64 N (fmul (of_uint64 tot) (rv_reservedPercent info)) < allocatable)"
  by (auto simp: reserve_def Let_def min_def)

section \<open>Logical volumes of others\<close>








section \<open>Filtering\<close>

lemma map_of_put_matches:
  "map_of (put_matches reg info m) k = (if k \<in> set info \<and> reg k = k then Some k else map_of m k)"
  unfolding put_matches_def by (induction info arbitrary: m) (auto simp: go_map_simps)

lemma map_of_delete_matches:
  "map_of (delete_matches reg info m) k = (if k \<in> set info \<and> reg k = k then None else map_of m k)"
  unfolding delete_matches_def by (induction info arbitrary: m) (auto simp: go_map_simps)

lemma wf_put_matches: "wf_map m \<Longrightarrow> wf_map (put_matches reg info m)"
  unfolding put_matches_def by (induction info arbitrary: m) auto

lemma wf_delete_matches: "wf_map m \<Longrightarrow> wf_map (delete_matches reg info m)"
  unfolding delete_matches_def by (induction info arbitrary: m) auto

definition matched :: "node_sys \<Rightarrow> string list \<Rightarrow> string \<Rightarrow> bool" where
  "matched N es k \<longleftrightarrow> list_ex (\<lambda>e. case na_FindString N e of None \<Rightarrow> False | Some reg \<Rightarrow> reg k = k) es"

lemma with_regs_put:
  "with_regs N (\<lambda>reg. put_matches reg info) es m = Some m' \<Longrightarrow> wf_map m \<Longrightarrow>
     wf_map m' \<and> (\<forall>k. map_of m' k = (if k \<in> set info \<and> matched N es k then Some k else map_of m k))"
  by (induction es arbitrary: m) (auto simp: matched_def map_of_put_matches wf_put_matches split: option.splits)

lemma with_regs_delete:
  "with_regs N (\<lambda>reg. delete_matches reg info) es m = Some m' \<Longrightarrow> wf_map m \<Longrightarrow>
     wf_map m' \<and> (\<forall>k. map_of m' k = (if k \<in> set info \<and> matched N es k then None else map_of m k))"
  by (induction es arbitrary: m) (auto simp: matched_def map_of_delete_matches wf_delete_matches split: option.splits)

text \<open>A filter lets through, once each, the names that an expression of the include list matches as a whole and
  none of the exclude list does.\<close>

theorem FilterInfo_names:
  assumes "FilterInfo rng N info lc = Some names" and "range_ok rng"
  shows "distinct names \<and>
    set names = {i \<in> set info. matched N (lc_Include lc) i \<and> \<not> matched N (lc_Exclude lc) i}"
proof -
  from assms(1) obtain m m' where m: "with_regs N (\<lambda>reg. put_matches reg info) (lc_Include lc) [] = Some m"
    and m': "with_regs N (\<lambda>reg. delete_matches reg info) (lc_Exclude lc) m = Some m'"
    and names: "names = map fst (reorder rng m')"
    by (auto simp: FilterInfo_def split: option.splits)
  from with_regs_put [OF m] have 1: "wf_map m" "\<forall>k. map_of m k = (if k \<in> set info \<and> matched N (lc_Include lc) k then Some k else None)"
    by simp_all
  from with_regs_delete [OF m' 1(1)] 1(2) have 2: "wf_map m'"
    and at: "map_of m' k = (if k \<in> set info \<and> matched N (lc_Include lc) k \<and> \<not> matched N (lc_Exclude lc) k then Some k else None)" for k
    by simp_all
  have "set names = set (map fst m')" using names assms(2) by (simp add: range_ok_set del: set_map)
  also have "\<dots> = {k. map_of m' k \<noteq> None}" by (auto simp: map_of_eq_None_iff)
  also have "\<dots> = {i \<in> set info. matched N (lc_Include lc) i \<and> \<not> matched N (lc_Exclude lc) i}"
    unfolding at by (auto split: if_splits)
  finally show ?thesis using 2 names assms(2) by (simp add: range_ok_distinct)
qed

section \<open>Writing the status\<close>

lemma with_regs_now: "with_regs (N\<lparr>na_now := t\<rparr>) f es m = with_regs N f es m"
  by (induction es arbitrary: m) (simp_all split: option.split)

lemma FilterInfo_now: "FilterInfo rng (N\<lparr>na_now := t\<rparr>) info lc = FilterInfo rng N info lc"
  by (simp add: FilterInfo_def with_regs_now split: option.split)

text \<open>Once a status was written, a round that finds the same, and ranges over its maps in the same order, does not
  write it again.\<close>

theorem same_findings_not_written:
  assumes "new_status R N nls vgs devs mps = Some st"
  shows "\<exists>st'. new_status R (N\<lparr>na_now := t\<rparr>) (nls\<lparr>an_Status := st\<rparr>) vgs devs mps = Some st' \<and> \<not> isNlsStatusChanged st st'"
  using assms
  by (auto simp: new_status_def Let_def FilterVGInfo_def FilterMPInfo_def FilterDeviceInfo_def isNlsStatusChanged_def
      without_times_def FilterInfo_now split: option.splits)

section \<open>Examples\<close>

definition ex_lvm :: lvm_host where
  "ex_lvm = \<lparr>lvm_exec = (\<lambda>_ c. (c, [], None)),
     json_vgs = (\<lambda>_. ([[\<lparr>ve_Name = ''pool'', ve_UUID = ''u'', ve_VgSize = 100, ve_VgFree = 60, ve_VgExtentSize = 4,
       ve_VgExtentCount = 25, ve_VgFreeExtentCount = 15, ve_VgTags = []\<rparr>]], None)),
     json_lvs = (\<lambda>_. ([[\<lparr>le_Name = ''root'', le_VgName = ''pool'', le_LvPath = [], le_LvSize = 30, le_LvTags = [],
       le_LvOrigin = [], le_LvSnapUsage = Fin 0\<rparr>, \<lparr>le_Name = ''local-1'', le_VgName = ''pool'', le_LvPath = [],
       le_LvSize = 10, le_LvTags = [], le_LvOrigin = [], le_LvSnapUsage = Fin 0\<rparr>]], None)),
     json_pvs = (\<lambda>_. ([], None))\<rparr>"

definition ex_node_sys :: node_sys where
  "ex_node_sys = \<lparr>na_L = ex_lvm, na_spdk = False, na_lvstores = Inr [], na_bdevs = Inr [], na_mounts = Inr [],
     na_readdir = (\<lambda>_. Inr []), na_usage = (\<lambda>_. (0, 0)), na_block = (\<lambda>_ _. Inl []), na_partitions = (\<lambda>_ _. Inl []),
     na_FindString = (\<lambda>e. if e = ''.*'' then Some (\<lambda>s. s) else Some (\<lambda>s. if s = e then e else [])),
     na_MatchString = (\<lambda>_. Some (\<lambda>_. True)),
     na_json_map = (\<lambda>_. Inr []), na_ParseFloat = (\<lambda>_. (Fin 50, None)), na_ParseUnits = (\<lambda>_. None), na_to_uint64 = (\<lambda>_. 0),
     na_now = 0\<rparr>"

definition ex_agent :: agent_config where
  "ex_agent = \<lparr>ac_SysPath = ''/sys'', ac_MountPath = ''/mnt'', ac_LogicalVolumeNamePrefix = ''local'', ac_RegExp = ''.*''\<rparr>"

text \<open>Half of the group is reserved: what may be allocated rises from 70 to 100.\<close>

definition ex_half :: "ReservedVGInfo gomap" where
  "ex_half = [(''pool'', \<lparr>rv_vgName = ''pool'', rv_reservedPercent = Fin (1 / 2), rv_reservedSize = 0\<rparr>)]"

lemma ex_half_reserved:
  "map_option (map_option vgst_Allocatable) (fst (run_state (discover_vg ex_agent ex_node_sys ex_half ''pool'') [])) = Some (Some 100)"
  "map_option (map_option vgst_Allocatable) (fst (run_state (discover_vg ex_agent ex_node_sys [] ''pool'') [])) = Some (Some 70)"
  by code_simp+




definition ex_lc :: list_config where
  "ex_lc = \<lparr>lc_Include = [''.*''], lc_Exclude = [''b'']\<rparr>"

lemma FilterInfo_names_witness:
  "distinct [''a'', ''c''] \<and> set [''a'', ''c''] =
    {i \<in> set [''a'', ''b'', ''c'']. matched ex_node_sys (lc_Include ex_lc) i \<and> \<not> matched ex_node_sys (lc_Exclude ex_lc) i}"
proof (rule FilterInfo_names)
  show "FilterInfo (\<lambda>ks. ks) ex_node_sys [''a'', ''b'', ''c''] ex_lc = Some [''a'', ''c'']" by code_simp
  show "range_ok (\<lambda>ks. ks)" by (simp add: range_ok_def)
qed

definition ex_status :: agent_status where
  "ex_status = \<lparr>as_DeviceInfos = [], as_VolumeGroups = [], as_MountPoints = [], as_Phase = [], as_StateType = [],
     as_StateStatus = [], as_LastHeartbeatTime = None, as_LastTransitionTime = None, as_FilteredVGs = [], as_FilteredMPs = [],
     as_FilteredDevices = [], as_UpdateStatus = [], as_LastUpdateTime = None, as_UpdateReason = []\<rparr>"

definition ex_agent_nls :: agent_nls where
  "ex_agent_nls = \<lparr>an_Annotations = [], an_VGs = ex_lc, an_MountPoints = ex_lc, an_Devices = ex_lc, an_Status = ex_status\<rparr>"

definition ex_dev :: "string \<Rightarrow> DevStatus" where
  "ex_dev name = \<lparr>devst_Name = name, devst_MediaType = ''ssd'', devst_Total = 10, devst_ReadOnly = False,
     devst_Condition = StorageReady\<rparr>"

definition ex_ranges :: "range_order \<Rightarrow> discover_ranges" where
  "ex_ranges rng = \<lparr>dr_reserved = rng, dr_vgs = rng, dr_mps = rng, dr_devices = rng\<rparr>"

lemma same_findings_not_written_witness:
  "\<exists>st st'. new_status (ex_ranges (\<lambda>ks. ks)) ex_node_sys ex_agent_nls [] [ex_dev ''a'', ex_dev ''c''] [] = Some st \<and>
    new_status (ex_ranges (\<lambda>ks. ks)) (ex_node_sys\<lparr>na_now := 60\<rparr>) (ex_agent_nls\<lparr>an_Status := st\<rparr>) []
      [ex_dev ''a'', ex_dev ''c''] [] = Some st' \<and> \<not> isNlsStatusChanged st st'"
proof -
  have "new_status (ex_ranges (\<lambda>ks. ks)) ex_node_sys ex_agent_nls [] [ex_dev ''a'', ex_dev ''c''] [] \<noteq> None"
    by code_simp
  then obtain st where st: "new_status (ex_ranges (\<lambda>ks. ks)) ex_node_sys ex_agent_nls [] [ex_dev ''a'', ex_dev ''c''] [] = Some st"
    by blast
  from same_findings_not_written [OF st, of 60] st show ?thesis by blast
qed

text \<open>The order alone of a range over a map makes the status change.\<close>

lemma order_changes_status:
  "(case new_status (ex_ranges (\<lambda>ks. ks)) ex_node_sys ex_agent_nls [] [ex_dev ''a'', ex_dev ''c''] [] of
      None \<Rightarrow> False
    | Some st \<Rightarrow>
        (case new_status (ex_ranges rev) ex_node_sys (ex_agent_nls\<lparr>an_Status := st\<rparr>) [] [ex_dev ''a'', ex_dev ''c''] [] of
           None \<Rightarrow> False | Some st' \<Rightarrow> isNlsStatusChanged st st'))"
  by code_simp

end
