(* ===== verification/Spdk_Client.thy ===== *)
theory Spdk_Client
  imports Lvm_Commands
begin

text \<open>
  The client of the SPDK process, \<open>pkg/utils/spdk/spdk.go\<close> and \<open>mkfs.go\<close>, and the commands the daemon
  has in its place of the LVM ones, \<open>pkg/csi/server/spdk_commands.go\<close>. A request is an \<open>Rpc\<close> action with its
  method and its parameters as text; what the process answers is a parameter of the machine, like the output
  of a shell command. A block device describes its driver with untyped JSON, so that reading it can panic, and
  the search for an unused minor number can fail to end: a call is \<open>None\<close> when it does not return.
\<close>

section \<open>Data\<close>

datatype json =
    JNull | JBool bool | JNumber int | JString string | JArray "json list" | JObject "(string \<times> json) list"

record Bdev =
  bv_Name :: string
  bv_Aliases :: "string list"
  bv_UUID :: string
  bv_NumBlocks :: uint64
  bv_BlockSize :: uint64
  bv_SupportedIoTypes :: "bool gomap"
  bv_DriverSpecific :: "json gomap"

record Lvstore =
  ls_Uuid :: string
  ls_Name :: string
  ls_BaseBdev :: string
  ls_TotalClusters :: uint64
  ls_FreeClusters :: uint64
  ls_ClusterSize :: uint64

record Lvol =
  lvol_Name :: string
  lvol_UUID :: string
  lvol_Total :: uint64
  lvol_LvsUuid :: string
  lvol_ReadOnly :: bool
  lvol_Snapshot :: bool
  lvol_Clone :: bool

record Ctrlr =
  ctrl_Name :: string
  ctrl_BackendSpecific :: "json gomap"

text \<open>An address of an interface: whether it is an \<open>IPNet\<close>, a loopback, one of IPv4, and its text.\<close>

record interface_addr =
  ia_IPNet :: bool
  ia_Loopback :: bool
  ia_To4 :: bool
  ia_Text :: string

record spdk_host = host +
  spdk_dial :: "action list \<Rightarrow> string option"
  spdk_text :: "action list \<Rightarrow> string \<Rightarrow> (string \<times> string) list \<Rightarrow> string result" \<comment> \<open>a reply that is a string or ignored\<close>
  spdk_bdevs :: "action list \<Rightarrow> Bdev list result"
  spdk_ctrlrs :: "action list \<Rightarrow> Ctrlr list result"
  spdk_lvstores :: "action list \<Rightarrow> Lvstore list result"
  os_remove :: "action list \<Rightarrow> string \<Rightarrow> string option"
  is_missing :: "action list \<Rightarrow> string \<Rightarrow> bool" \<comment> \<open>\<open>os.IsNotExist\<close> of the error of \<open>stat\<close>\<close>
  dir_entries :: "action list \<Rightarrow> string \<Rightarrow> (string \<times> bool) list result" \<comment> \<open>\<open>os.ReadDir\<close>: name, whether a directory\<close>
  device_number :: "action list \<Rightarrow> string \<Rightarrow> (32 word \<times> 32 word) result" \<comment> \<open>\<open>stat\<close>: major, minor\<close>
  eval_symlinks :: "action list \<Rightarrow> string \<Rightarrow> string result"
  glob_paths :: "action list \<Rightarrow> string \<Rightarrow> string list result"
  read_file :: "action list \<Rightarrow> string \<Rightarrow> string result"
  disk_format :: "action list \<Rightarrow> string \<Rightarrow> string result" \<comment> \<open>\<open>GetDiskFormat\<close>\<close>
  new_uuid :: "action list \<Rightarrow> string"
  interface_addrs :: "interface_addr list result"

section \<open>Calls\<close>

type_synonym 'a call = "'a result option io"

definition c_ret :: "'a \<Rightarrow> 'a call" where "c_ret x = ret (Some (Inr x))"
definition c_err :: "string \<Rightarrow> 'a call" where "c_err err = ret (Some (Inl err))"
definition c_stuck :: "'a call" where "c_stuck = ret None"

definition c_try :: "'a call \<Rightarrow> ('a result \<Rightarrow> 'b call) \<Rightarrow> 'b call" where
  "c_try m k = State_Monad.bind m (\<lambda>r. case r of None \<Rightarrow> c_stuck | Some res \<Rightarrow> k res)"

text \<open>\<open>x, err := m; if err != nil { return ..., err }\<close>.\<close>

definition c_then :: "'a call \<Rightarrow> ('a \<Rightarrow> 'b call) \<Rightarrow> 'b call" where
  "c_then m k = c_try m (\<lambda>r. case r of Inl err \<Rightarrow> c_err err | Inr x \<Rightarrow> k x)"

text \<open>A type assertion.\<close>

definition c_assert :: "'a option \<Rightarrow> ('a \<Rightarrow> 'b call) \<Rightarrow> 'b call" where
  "c_assert v k = (case v of None \<Rightarrow> c_stuck | Some x \<Rightarrow> k x)"

definition c_act :: "action \<Rightarrow> (action list \<Rightarrow> 'a result) \<Rightarrow> 'a call" where
  "c_act a r = act a (\<lambda>log. Some (r log))"

definition no_error :: "string option \<Rightarrow> unit result" where
  "no_error e = (case e of Some err \<Rightarrow> Inl err | None \<Rightarrow> Inr ())"

definition Connect :: "spdk_host \<Rightarrow> unit call" where
  "Connect sp = c_act Dial (\<lambda>log. no_error (spdk_dial sp log))"

definition rpc_text :: "spdk_host \<Rightarrow> string \<Rightarrow> (string \<times> string) list \<Rightarrow> string call" where
  "rpc_text sp method params = c_act (Rpc method params) (\<lambda>log. spdk_text sp log method params)"

text \<open>\<open>Connect\<close>, then the request.\<close>

definition request :: "spdk_host \<Rightarrow> string \<Rightarrow> (string \<times> string) list \<Rightarrow> string call" where
  "request sp method params = c_then (Connect sp) (\<lambda>_. rpc_text sp method params)"

definition request_unit :: "spdk_host \<Rightarrow> string \<Rightarrow> (string \<times> string) list \<Rightarrow> unit call" where
  "request_unit sp method params = c_then (request sp method params) (\<lambda>_. c_ret ())"

section \<open>Block devices\<close>

definition IsReadonly :: "Bdev \<Rightarrow> bool" where
  "IsReadonly d = (map_of (bv_SupportedIoTypes d) ''write'' \<noteq> Some True)"

definition IsLogicalVolume :: "Bdev \<Rightarrow> bool" where
  "IsLogicalVolume d = (map_of (bv_DriverSpecific d) ''lvol'' \<noteq> None)"

definition getDriverSpecific :: "Bdev \<Rightarrow> string \<Rightarrow> string \<Rightarrow> json option option" where
  "getDriverSpecific d driver key =
     (case map_of (bv_DriverSpecific d) driver of
        None \<Rightarrow> Some None
      | Some (JObject info) \<Rightarrow> Some (map_of info key)
      | Some _ \<Rightarrow> None)"

text \<open>A field of a type, with its value when it is missing.\<close>

definition bool_field :: "json option option \<Rightarrow> bool option" where
  "bool_field v = (case v of None \<Rightarrow> None | Some None \<Rightarrow> Some False | Some (Some (JBool b)) \<Rightarrow> Some b | _ \<Rightarrow> None)"

definition IsClone :: "Bdev \<Rightarrow> bool option" where
  "IsClone d = bool_field (getDriverSpecific d ''lvol'' ''clone'')"

definition bdev_IsSnapshot :: "Bdev \<Rightarrow> bool option" where
  "bdev_IsSnapshot d = bool_field (getDriverSpecific d ''lvol'' ''snapshot'')"

definition string_field :: "json option option \<Rightarrow> string option" where
  "string_field v = (case v of None \<Rightarrow> None | Some None \<Rightarrow> Some [] | Some (Some (JString s)) \<Rightarrow> Some s | _ \<Rightarrow> None)"

definition GetFilename :: "Bdev \<Rightarrow> string option" where
  "GetFilename d =
     (case getDriverSpecific d ''aio'' ''filename'' of
        None \<Rightarrow> None
      | Some (Some v) \<Rightarrow> string_field (Some (Some v))
      | Some None \<Rightarrow> string_field (getDriverSpecific d ''uring'' ''filename''))"

definition GetLvstoreUuid :: "Bdev \<Rightarrow> string option" where
  "GetLvstoreUuid d = string_field (getDriverSpecific d ''lvol'' ''lvol_store_uuid'')"

definition getBackendSpecific :: "Ctrlr \<Rightarrow> string \<Rightarrow> string \<Rightarrow> json option option" where
  "getBackendSpecific c backend key =
     (case map_of (ctrl_BackendSpecific c) backend of
        None \<Rightarrow> Some None
      | Some (JObject info) \<Rightarrow> Some (map_of info key)
      | Some _ \<Rightarrow> None)"

text \<open>\<open>nil\<close> once the block device behind the controller has been deleted.\<close>

definition GetBdev :: "Ctrlr \<Rightarrow> string option" where
  "GetBdev c =
     (case getBackendSpecific c ''block'' ''bdev'' of
        Some (Some JNull) \<Rightarrow> Some []
      | v \<Rightarrow> string_field v)"

text \<open>Names of more than 63 characters are cut.\<close>

definition EnsureLVNameValid :: "string \<Rightarrow> string" where
  "EnsureLVNameValid name =
     (if 64 \<le> length name
      then (let lvname = (case after_prefix ''csi-'' name of None \<Rightarrow> name | Some rest \<Rightarrow> rest)
            in if 64 \<le> length lvname then take 62 lvname else lvname)
      else name)"

definition GetBdevs :: "spdk_host \<Rightarrow> Bdev list call" where
  "GetBdevs sp = c_then (Connect sp) (\<lambda>_. c_act (Rpc ''bdev_get_bdevs'' []) (spdk_bdevs sp))"

definition GetVhostControllers :: "spdk_host \<Rightarrow> Ctrlr list call" where
  "GetVhostControllers sp = c_then (Connect sp) (\<lambda>_. c_act (Rpc ''vhost_get_controllers'' []) (spdk_ctrlrs sp))"

definition GetLvStores :: "spdk_host \<Rightarrow> Lvstore list call" where
  "GetLvStores sp = c_then (Connect sp) (\<lambda>_. c_act (Rpc ''bdev_lvol_get_lvstores'' []) (spdk_lvstores sp))"

definition CreateBdev :: "spdk_host \<Rightarrow> string \<Rightarrow> string \<Rightarrow> string call" where
  "CreateBdev sp name filename =
     c_then (GetBdevs sp) (\<lambda>bdevs.
       if list_ex (\<lambda>b. bv_Name b = name) bdevs then c_ret name
       else c_then (request sp ''bdev_aio_create'' [(''name'', name), (''filename'', filename), (''block_size'', ''512'')])
              (\<lambda>_. c_ret name))"

definition DeleteBdev :: "spdk_host \<Rightarrow> string \<Rightarrow> unit call" where
  "DeleteBdev sp name = request_unit sp ''bdev_aio_delete'' [(''name'', name)]"

definition DeleteLV :: "spdk_host \<Rightarrow> string \<Rightarrow> unit call" where
  "DeleteLV sp lvName = request_unit sp ''bdev_lvol_delete'' [(''name'', lvName)]"

section \<open>Vhost devices\<close>

definition vhost_devices :: string where
  "vhost_devices = ''/var/run/kata-containers/vhost-user//block/devices/''"

definition DeleteVhostDevice :: "spdk_host \<Rightarrow> string \<Rightarrow> unit call" where
  "DeleteVhostDevice sp name =
     c_then (request sp ''vhost_delete_controller'' [(''ctrlr'', name)]) (\<lambda>_.
       (let dev = vhost_devices @ name
        in c_act (Remove dev) (\<lambda>log. case os_remove sp log dev of
             Some err \<Rightarrow> Inl (''fail to remove ('' @ dev @ ''): '' @ err) | None \<Rightarrow> Inr ())))"

text \<open>The first controller that uses the block device; reading the controllers before it must not panic.\<close>

fun ctrlr_of :: "string \<Rightarrow> Ctrlr list \<Rightarrow> Ctrlr option option" where
  "ctrlr_of bdevName [] = Some None"
| "ctrlr_of bdevName (ctrl # ctrls) =
     (case GetBdev ctrl of
        None \<Rightarrow> None
      | Some b \<Rightarrow> if b = bdevName then Some (Some ctrl) else ctrlr_of bdevName ctrls)"

definition FindVhostDevice :: "spdk_host \<Rightarrow> string \<Rightarrow> string call" where
  "FindVhostDevice sp bdevName =
     c_then (GetVhostControllers sp) (\<lambda>ctrls. c_assert (ctrlr_of bdevName ctrls) (\<lambda>ctrl.
       c_ret (case ctrl of None \<Rightarrow> [] | Some ctrl \<Rightarrow> vhost_devices @ ctrl_Name ctrl)))"

partial_function (option) next_minor :: "32 word list \<Rightarrow> 32 word \<Rightarrow> 32 word option" where
  "next_minor minors m = (if m \<in> set minors then next_minor minors (m + 1) else Some m)"

declare next_minor.simps [code]

fun read_minors :: "spdk_host \<Rightarrow> string \<Rightarrow> (string \<times> bool) list \<Rightarrow> 32 word list \<Rightarrow> 32 word list call" where
  "read_minors sp dir [] minors = c_ret minors"
| "read_minors sp dir ((name, isDir) # files) minors =
     (if isDir then read_minors sp dir files minors
      else (let devFilePath = dir @ ''/'' @ name
            in c_then (c_act (Rdev devFilePath) (\<lambda>log. device_number sp log devFilePath)) (\<lambda>(major, minor).
                 read_minors sp dir files (if major \<noteq> 241 then minors else minors @ [minor]))))"

definition getMinor :: "spdk_host \<Rightarrow> string \<Rightarrow> 32 word call" where
  "getMinor sp dir =
     c_then (c_act (ReadDir dir) (\<lambda>log. dir_entries sp log dir)) (\<lambda>files.
       c_then (read_minors sp dir files []) (\<lambda>minors. c_assert (next_minor minors 0) c_ret))"

definition failed_command :: "string \<Rightarrow> string \<Rightarrow> string \<Rightarrow> string" where
  "failed_command cmd out err = ''Failed to run cmd: '' @ cmd @ '', with output: '' @ out @ '', with error: '' @ err"

text \<open>\<open>sh -c\<close>: its output and its error.\<close>

definition sh :: "spdk_host \<Rightarrow> string \<Rightarrow> (string \<times> string option) call" where
  "sh sp cmd = act (Sh cmd) (\<lambda>log. Some (Inr (sh_exec sp log cmd)))"

text \<open>Once the controller is there, a failure to make the device takes it down again. The error of \<open>stat\<close> that is
  not one of a missing file counts as one too.\<close>

definition CreateVhostDevice :: "spdk_host \<Rightarrow> string \<Rightarrow> string \<Rightarrow> string call" where
  "CreateVhostDevice sp ctrlrName bdevName =
     (let dev = vhost_devices @ ctrlrName
      in c_try (c_act (Stat dev) (\<lambda>log. no_error (stat_path sp log dev))) (\<lambda>found.
           case found of
             Inr _ \<Rightarrow> c_ret dev
           | Inl _ \<Rightarrow>
               c_then (request sp ''vhost_create_blk_controller'' [(''ctrlr'', ctrlrName), (''dev_name'', bdevName)]) (\<lambda>_.
                 c_try (getMinor sp ''/var/run/kata-containers/vhost-user/block/devices'') (\<lambda>r.
                   case r of
                     Inl err \<Rightarrow> c_try (DeleteVhostDevice sp ctrlrName) (\<lambda>_. c_err ''Failed to get minor'')
                   | Inr minor \<Rightarrow>
                       (let cmd = ''mknod '' @ dev @ '' b 241 '' @ dec (unat minor)
                        in c_then (sh sp cmd) (\<lambda>(out, e).
                             case e of
                               Some err \<Rightarrow> c_try (DeleteVhostDevice sp ctrlrName) (\<lambda>_. c_err (failed_command cmd out err))
                             | None \<Rightarrow> c_ret dev))))))"

section \<open>Taking a block device down\<close>

definition CleanBdev :: "spdk_host \<Rightarrow> string \<Rightarrow> unit call" where
  "CleanBdev sp name =
     c_then (GetBdevs sp) (\<lambda>bdevs.
       case find (\<lambda>b. bv_Name b = name) bdevs of
         None \<Rightarrow> c_ret ()
       | Some bdev \<Rightarrow>
           c_then (GetVhostControllers sp) (\<lambda>ctrls. c_assert (ctrlr_of (bv_Name bdev) ctrls) (\<lambda>ctrl.
             c_then (case ctrl of None \<Rightarrow> c_ret () | Some ctrl \<Rightarrow> DeleteVhostDevice sp (ctrl_Name ctrl)) (\<lambda>_.
               if IsLogicalVolume bdev then DeleteLV sp name else DeleteBdev sp name))))"

section \<open>Logical volumes\<close>

definition lvol_of :: "Bdev \<Rightarrow> Lvol option" where
  "lvol_of bdev =
     (case GetLvstoreUuid bdev of
        None \<Rightarrow> None
      | Some uuid \<Rightarrow>
          (case bdev_IsSnapshot bdev of
             None \<Rightarrow> None
           | Some snapshot \<Rightarrow>
               (case IsClone bdev of
                  None \<Rightarrow> None
                | Some clone \<Rightarrow>
                    Some \<lparr>lvol_Name = bv_Name bdev, lvol_UUID = bv_UUID bdev,
                      lvol_Total = bv_NumBlocks bdev * bv_BlockSize bdev, lvol_LvsUuid = uuid,
                      lvol_ReadOnly = IsReadonly bdev, lvol_Snapshot = snapshot, lvol_Clone = clone\<rparr>)))"

fun lvols_with :: "string \<Rightarrow> Bdev list \<Rightarrow> Lvol list option" where
  "lvols_with aliase [] = Some []"
| "lvols_with aliase (bdev # bdevs) =
     (if IsLogicalVolume bdev \<and> aliase \<in> set (bv_Aliases bdev)
      then (case lvol_of bdev of None \<Rightarrow> None | Some l \<Rightarrow> map_option (\<lambda>ls. l # ls) (lvols_with aliase bdevs))
      else lvols_with aliase bdevs)"

definition GetLV :: "spdk_host \<Rightarrow> string \<Rightarrow> Lvol list call" where
  "GetLV sp aliase = c_then (GetBdevs sp) (\<lambda>bdevs. c_assert (lvols_with aliase bdevs) c_ret)"

definition spdk_CreateLV :: "spdk_host \<Rightarrow> string \<Rightarrow> string \<Rightarrow> uint64 \<Rightarrow> string call" where
  "spdk_CreateLV sp lvsName lvName sz =
     c_then (Connect sp) (\<lambda>_. c_then (GetBdevs sp) (\<lambda>bdevs.
       case find (\<lambda>b. lvsName @ ''/'' @ lvName \<in> set (bv_Aliases b)) bdevs of
         Some bdev \<Rightarrow> c_ret (bv_Name bdev)
       | None \<Rightarrow> rpc_text sp ''bdev_lvol_create''
                   [(''lvol_name'', lvName), (''size'', dec (unat sz)), (''lvs_name'', lvsName)]))"

definition spdk_CloneLV :: "spdk_host \<Rightarrow> string \<Rightarrow> string \<Rightarrow> string call" where
  "spdk_CloneLV sp snapshotName cloneName =
     request sp ''bdev_lvol_clone'' [(''snapshot_name'', snapshotName), (''clone_name'', cloneName)]"

definition ResizeLV :: "spdk_host \<Rightarrow> string \<Rightarrow> uint64 \<Rightarrow> unit call" where
  "ResizeLV sp lvName sz = request_unit sp ''bdev_lvol_resize'' [(''name'', lvName), (''size'', dec (unat sz))]"

definition spdk_Snapshot :: "spdk_host \<Rightarrow> string \<Rightarrow> string \<Rightarrow> string call" where
  "spdk_Snapshot sp lvolName snapShotName =
     request sp ''bdev_lvol_snapshot'' [(''lvol_name'', lvolName), (''snapshot_name'', snapShotName)]"

definition CreateLvstore :: "spdk_host \<Rightarrow> string \<Rightarrow> string \<Rightarrow> string call" where
  "CreateLvstore sp bdevName lvsName =
     request sp ''bdev_lvol_create_lvstore'' [(''bdev_name'', bdevName), (''lvs_name'', lvsName)]"

definition RemoveLvstore :: "spdk_host \<Rightarrow> string \<Rightarrow> unit call" where
  "RemoveLvstore sp lvsName = request_unit sp ''bdev_lvol_delete_lvstore'' [(''lvs_name'', lvsName)]"

section \<open>A device for a container to map\<close>

text \<open>\<open>filepath.Base\<close>.\<close>

definition filepath_Base :: "string \<Rightarrow> string" where
  "filepath_Base path =
     (if path = [] then ''.''
      else (let p = rev (dropWhile (\<lambda>c. c = CHR ''/'') (rev path))
            in if p = [] then ''/'' else last (go_Split (CHR ''/'') p)))"

text \<open>The first loop device whose backing file is the path; a device whose file cannot be read is passed over.\<close>

fun loop_device :: "spdk_host \<Rightarrow> string \<Rightarrow> string \<Rightarrow> string list \<Rightarrow> string call" where
  "loop_device sp path realPath [] = c_err ''device not found''"
| "loop_device sp path realPath (device # devices) =
     (let backingFile = device @ ''/loop/backing_file''
      in c_try (c_act (FindDevice backingFile) (\<lambda>log. read_file sp log backingFile)) (\<lambda>r.
           case r of
             Inl _ \<Rightarrow> loop_device sp path realPath devices
           | Inr data \<Rightarrow>
               if TrimSpace data \<in> {path, realPath} then c_ret (''/dev/'' @ filepath_Base device)
               else loop_device sp path realPath devices))"

declare loop_device.simps(2) [simp del]

definition getLoopDeviceFromSysfs :: "spdk_host \<Rightarrow> string \<Rightarrow> string call" where
  "getLoopDeviceFromSysfs sp path =
     c_try (c_act (FindDevice path) (\<lambda>log. eval_symlinks sp log path)) (\<lambda>r.
       case r of
         Inl err \<Rightarrow> c_err (''failed to evaluate path '' @ path @ '': '' @ err)
       | Inr realPath \<Rightarrow>
           c_try (c_act (FindDevice ''/sys/block/loop*'') (\<lambda>log. glob_paths sp log ''/sys/block/loop*'')) (\<lambda>r.
             case r of
               Inl err \<Rightarrow> c_err (''failed to list loop devices in sysfs: '' @ err)
             | Inr devices \<Rightarrow> loop_device sp path realPath devices))"

definition GenerateDeviceTempBackingFile :: "spdk_host \<Rightarrow> string \<Rightarrow> string call" where
  "GenerateDeviceTempBackingFile sp dev =
     (let tmpfile = dev @ ''.img'';
          dd = ''dd if=/dev/zero of='' @ tmpfile @ '' bs=1024 count=1'';
          losetup = ''losetup -f '' @ tmpfile
      in c_then (sh sp dd) (\<lambda>(out, e).
           case e of
             Some err \<Rightarrow> c_err (failed_command dd out err)
           | None \<Rightarrow>
               c_then (sh sp losetup) (\<lambda>(out, e).
                 case e of
                   Some err \<Rightarrow> c_try (c_act (Remove tmpfile) (\<lambda>log. no_error (os_remove sp log tmpfile)))
                                 (\<lambda>_. c_err (failed_command losetup out err))
                 | None \<Rightarrow> getLoopDeviceFromSysfs sp tmpfile)))"

end
