(* ===== verification/Spdk_Commands.thy ===== *)
theory Spdk_Commands
  imports Spdk_Client
begin

text \<open>
  What the daemon and the node service do with the SPDK client: the commands of
  \<open>pkg/csi/server/spdk_commands.go\<close>, the making of a file system through a temporary iSCSI target
  (\<open>pkg/utils/spdk/mkfs.go\<close>) and \<open>FormatBlockDevice\<close> (\<open>pkg/utils/common_linux.go\<close>).
\<close>

section \<open>Commands of the daemon\<close>

definition spdk_ListLV :: "spdk_host \<Rightarrow> string \<Rightarrow> (string \<times> uint64 \<times> string) list call" where
  "spdk_ListLV sp listspec =
     c_then (GetLV sp listspec) (\<lambda>lvols. c_ret (map (\<lambda>l. (lvol_Name l, lvol_Total l, lvol_UUID l)) lvols))"

definition vhost_for :: "spdk_host \<Rightarrow> string \<Rightarrow> string call" where
  "vhost_for sp bdevName =
     c_try (FindVhostDevice sp bdevName) (\<lambda>r.
       let device = (case r of Inl _ \<Rightarrow> [] | Inr d \<Rightarrow> d)
       in if device = []
          then State_Monad.bind (State (\<lambda>log. (new_uuid sp log, log))) (\<lambda>uuid.
                 CreateVhostDevice sp (''ctrlr-'' @ uuid) bdevName)
          else c_ret device)"

definition SpdkCommands_CreateLV :: "spdk_host \<Rightarrow> string \<Rightarrow> string \<Rightarrow> uint64 \<Rightarrow> string call" where
  "SpdkCommands_CreateLV sp vg name sz =
     (if sz = 0 then c_err ''size must be greater than 0''
      else c_then (spdk_CreateLV sp vg (EnsureLVNameValid name) sz) (\<lambda>lvn.
             c_then (vhost_for sp lvn) (\<lambda>_. c_ret [])))"

definition SpdkCommands_RemoveLV :: "spdk_host \<Rightarrow> string \<Rightarrow> string \<Rightarrow> string call" where
  "SpdkCommands_RemoveLV sp vg name =
     c_then (GetLV sp (vg @ ''/'' @ EnsureLVNameValid name)) (\<lambda>lvs.
       case lvs of
         [] \<Rightarrow> c_err (''Logical volume isn'' @ [CHR 0x27] @ ''t found'')
       | lv # _ \<Rightarrow> c_then (CleanBdev sp (lvol_Name lv)) (\<lambda>_. c_ret []))"

definition SpdkCommands_CloneLV :: "spdk_host \<Rightarrow> string \<Rightarrow> string \<Rightarrow> string call" where
  "SpdkCommands_CloneLV sp src dest = spdk_CloneLV sp src dest"

definition SpdkCommands_ExpandLV :: "spdk_host \<Rightarrow> string \<Rightarrow> string \<Rightarrow> uint64 \<Rightarrow> string call" where
  "SpdkCommands_ExpandLV sp vgName volumeId expectSize =
     c_then (ResizeLV sp (vgName @ ''/'' @ EnsureLVNameValid volumeId) expectSize) (\<lambda>_. c_ret [])"

text \<open>A store is listed as a volume group; its name also serves as the UUID.\<close>

definition vg_of_lvstore :: "Lvstore \<Rightarrow> VG" where
  "vg_of_lvstore lvs =
     \<lparr>lvg_Name = ls_Name lvs, lvg_Size = ls_TotalClusters lvs * ls_ClusterSize lvs,
      lvg_FreeSize = ls_FreeClusters lvs * ls_ClusterSize lvs, lvg_UUID = ls_Name lvs, lvg_Tags = [], lvg_PvCount = 1\<rparr>"

definition SpdkCommands_ListVG :: "spdk_host \<Rightarrow> VG list call" where
  "SpdkCommands_ListVG sp = c_then (GetLvStores sp) (\<lambda>lvss. c_ret (map vg_of_lvstore lvss))"

definition SpdkCommands_CreateSnapshot :: "spdk_host \<Rightarrow> string \<Rightarrow> string \<Rightarrow> string \<Rightarrow> int64 call" where
  "SpdkCommands_CreateSnapshot sp vgName snapshotName srcVolumeName =
     c_then (spdk_Snapshot sp (vgName @ ''/'' @ srcVolumeName) snapshotName) (\<lambda>_. c_ret 0)"

definition SpdkCommands_RemoveSnapshot :: "spdk_host \<Rightarrow> string \<Rightarrow> string \<Rightarrow> string call" where
  "SpdkCommands_RemoveSnapshot sp vg name = c_then (DeleteLV sp (vg @ ''/'' @ name)) (\<lambda>_. c_ret [])"

definition bdev_aio_name :: "string \<Rightarrow> string" where
  "bdev_aio_name device = ''bdev-aio'' @ map (\<lambda>c. if c = CHR ''/'' then CHR ''_'' else c) device"

definition SpdkCommands_CreateVG :: "spdk_host \<Rightarrow> string \<Rightarrow> string \<Rightarrow> string call" where
  "SpdkCommands_CreateVG sp name physicalVolume =
     c_then (CreateBdev sp (bdev_aio_name physicalVolume) physicalVolume) (\<lambda>bdev. CreateLvstore sp bdev name)"

definition SpdkCommands_RemoveVG :: "spdk_host \<Rightarrow> string \<Rightarrow> string call" where
  "SpdkCommands_RemoveVG sp name = c_then (RemoveLvstore sp name) (\<lambda>_. c_ret [])"

definition SpdkCommands_CleanPath :: "spdk_host \<Rightarrow> string \<Rightarrow> unit result io" where
  "SpdkCommands_CleanPath sp path =
     attempt (\<lambda>err. err) (act (ReadDir path) (\<lambda>log. read_dir sp log path))
       (\<lambda>files. State_Monad.bind (remove_files (host.truncate sp) path files [])
          (\<lambda>errList. ret (case errList of [] \<Rightarrow> Inr () | err # _ \<Rightarrow> Inl err)))"

text \<open>The first block device made from the file; reading the ones before it must not panic.\<close>

fun bdev_of_file :: "string \<Rightarrow> Bdev list \<Rightarrow> Bdev option option" where
  "bdev_of_file device [] = Some None"
| "bdev_of_file device (bdev # bdevs) =
     (case GetFilename bdev of
        None \<Rightarrow> None
      | Some f \<Rightarrow> if f = device then Some (Some bdev) else bdev_of_file device bdevs)"

definition SpdkCommands_CleanDevice :: "spdk_host \<Rightarrow> string \<Rightarrow> string call" where
  "SpdkCommands_CleanDevice sp device =
     c_then (GetBdevs sp) (\<lambda>bdevs. c_assert (bdev_of_file device bdevs) (\<lambda>bdev.
       case bdev of
         None \<Rightarrow> c_ret []
       | Some bdev \<Rightarrow>
           c_then (GetVhostControllers sp) (\<lambda>ctrls. c_assert (ctrlr_of (bv_Name bdev) ctrls) (\<lambda>ctrl.
             c_then (case ctrl of None \<Rightarrow> c_ret () | Some ctrl \<Rightarrow> DeleteVhostDevice sp (ctrl_Name ctrl)) (\<lambda>_.
               c_then (DeleteBdev sp (bv_Name bdev)) (\<lambda>_. c_ret []))))))"

definition SpdkCommands_tags :: "string \<Rightarrow> string result" where
  "SpdkCommands_tags what = Inl (''SPDK doesn'' @ [CHR 0x27] @ ''t support '' @ what @ '' LV tag'')"

definition SpdkCommands_AddTagLV :: "string \<Rightarrow> string \<Rightarrow> string list \<Rightarrow> string result" where
  "SpdkCommands_AddTagLV vg name tags = SpdkCommands_tags ''add''"

definition SpdkCommands_RemoveTagLV :: "string \<Rightarrow> string \<Rightarrow> string list \<Rightarrow> string result" where
  "SpdkCommands_RemoveTagLV vg name tags = SpdkCommands_tags ''remove''"

section \<open>Formatting\<close>

text \<open>A device that has a file system is never formatted again.\<close>

definition FormatBlockDevice :: "spdk_host \<Rightarrow> string \<Rightarrow> string \<Rightarrow> unit call" where
  "FormatBlockDevice sp dev fsType =
     c_then (c_act (DiskFormat dev) (\<lambda>log. disk_format sp log dev)) (\<lambda>existingFormat.
       if existingFormat = []
       then c_then (sh sp (''mkfs.'' @ fsType @ '' '' @ dev @ (if fsType = ''xfs'' then '' -f'' else '' -F''))) (\<lambda>(out, e).
              case e of Some err \<Rightarrow> c_err err | None \<Rightarrow> c_ret ())
       else if fsType \<noteq> existingFormat
       then c_err ''The block device is already formatted, to avoid data damage FS creating is skipped''
       else c_ret ())"

section \<open>A file system through iSCSI\<close>

definition iscsiCreateInitiatorGroup :: "spdk_host \<Rightarrow> unit call" where
  "iscsiCreateInitiatorGroup sp =
     request_unit sp ''iscsi_create_initiator_group''
       [(''tag'', ''1''), (''initiators'', ''ANY''), (''netmasks'', ''127.0.0.0/24,10.0.0.0/8'')]"

definition iscsiDeleteInitiatorGroup :: "spdk_host \<Rightarrow> unit call" where
  "iscsiDeleteInitiatorGroup sp = request_unit sp ''iscsi_delete_initiator_group'' [(''tag'', ''1'')]"

definition iscsiCreatePortalGroup :: "spdk_host \<Rightarrow> string \<Rightarrow> unit call" where
  "iscsiCreatePortalGroup sp ip =
     request_unit sp ''iscsi_create_portal_group'' [(''tag'', ''1''), (''host'', ip), (''port'', ''3260'')]"

text \<open>The error of the request is the one of an inner variable: the function returns the outer one, which is \<open>nil\<close>.\<close>

definition iscsiDeletePortalGroup :: "spdk_host \<Rightarrow> unit call" where
  "iscsiDeletePortalGroup sp =
     c_then (Connect sp) (\<lambda>_. c_try (rpc_text sp ''iscsi_delete_portal_group'' [(''tag'', ''1'')]) (\<lambda>_. c_ret ()))"

definition iscsiCreateTargetNode :: "spdk_host \<Rightarrow> string \<Rightarrow> string \<Rightarrow> unit call" where
  "iscsiCreateTargetNode sp name bdevName =
     request_unit sp ''iscsi_create_target_node''
       [(''name'', name), (''alias_name'', name @ ''_alias''), (''ig_tag'', ''1''), (''pg_tag'', ''1''),
        (''bdev_name'', bdevName), (''lun_id'', ''0''), (''queue_depth'', ''64''), (''disable_chap'', ''true'')]"

definition iscsiDeleteTargetNode :: "spdk_host \<Rightarrow> string \<Rightarrow> unit call" where
  "iscsiDeleteTargetNode sp name = request_unit sp ''iscsi_delete_target_node'' [(''name'', name)]"

definition failed_iscsiadm :: "string \<Rightarrow> string \<Rightarrow> string \<Rightarrow> string" where
  "failed_iscsiadm cmd out err = ''Failed to run cmd: '' @ cmd @ ''; output: '' @ out @ ''; error: '' @ err"

definition run_iscsiadm :: "spdk_host \<Rightarrow> string \<Rightarrow> unit call" where
  "run_iscsiadm sp cmd =
     c_then (sh sp cmd) (\<lambda>(out, e). case e of Some err \<Rightarrow> c_err (failed_iscsiadm cmd out err) | None \<Rightarrow> c_ret ())"

text \<open>The search for the device is repeated every second: up to \<open>n\<close> times more.\<close>

fun wait_for_device :: "spdk_host \<Rightarrow> string \<Rightarrow> nat \<Rightarrow> string call" where
  "wait_for_device sp pattern n =
     c_then (c_act (FindDevice pattern) (\<lambda>log. glob_paths sp log pattern)) (\<lambda>matches.
       case matches of
         dev # _ \<Rightarrow> c_ret dev
       | [] \<Rightarrow> (case n of 0 \<Rightarrow> c_err (''no device appears in 10s: '' @ pattern) | Suc m \<Rightarrow> wait_for_device sp pattern m))"

declare wait_for_device.simps [simp del]

definition iscsi_connect :: "spdk_host \<Rightarrow> string \<Rightarrow> string \<Rightarrow> string call" where
  "iscsi_connect sp portal target =
     c_then (run_iscsiadm sp (''iscsiadm -m discovery -t sendtargets -p '' @ portal)) (\<lambda>_.
       c_then (run_iscsiadm sp (''iscsiadm -m node -T '' @ target @ '' -p '' @ portal @ '' --login'')) (\<lambda>_.
         wait_for_device sp (''/dev/disk/by-path/*'' @ target @ ''*'') 10))"

definition iscsi_disconnect :: "spdk_host \<Rightarrow> string \<Rightarrow> string \<Rightarrow> unit call" where
  "iscsi_disconnect sp portal target =
     run_iscsiadm sp (''iscsiadm -m node -T '' @ target @ '' -p '' @ portal @ '' --logout'')"

text \<open>The code counts the stages that succeeded and jumps to the label that takes them down in turn.\<close>

definition stage :: "unit call \<Rightarrow> bool call \<Rightarrow> unit call \<Rightarrow> bool call" where
  "stage up body down =
     c_try up (\<lambda>r. case r of
         Inl _ \<Rightarrow> c_ret False
       | Inr _ \<Rightarrow> c_try body (\<lambda>res. c_try down (\<lambda>_. case res of Inl _ \<Rightarrow> c_ret False | Inr b \<Rightarrow> c_ret b)))"

definition iscsi_target :: string where
  "iscsi_target = ''iqn.2022-06.csi.local:target0''"

text \<open>The first IPv4 address that is not a loopback; it is empty when there is none.\<close>

definition first_ip :: "interface_addr list \<Rightarrow> string" where
  "first_ip addrs =
     (case find (\<lambda>a. ia_IPNet a \<and> \<not> ia_Loopback a \<and> ia_To4 a) addrs of None \<Rightarrow> [] | Some a \<Rightarrow> ia_Text a)"

definition MakeFs :: "spdk_host \<Rightarrow> string \<Rightarrow> string \<Rightarrow> bool call" where
  "MakeFs sp bdevName fsType =
     (case interface_addrs sp of
        Inl _ \<Rightarrow> c_ret False
      | Inr addrs \<Rightarrow>
          (let localIp = first_ip addrs; portal = localIp @ '':3260''
           in stage (iscsiCreateInitiatorGroup sp)
                (stage (iscsiCreatePortalGroup sp localIp)
                   (stage (iscsiCreateTargetNode sp iscsi_target bdevName)
                      (c_try (iscsi_connect sp portal iscsi_target) (\<lambda>r. case r of
                          Inl _ \<Rightarrow> c_ret False
                        | Inr dev \<Rightarrow>
                            c_try (FormatBlockDevice sp dev fsType) (\<lambda>res.
                              c_try (iscsi_disconnect sp portal iscsi_target) (\<lambda>_.
                                c_ret (case res of Inl _ \<Rightarrow> False | Inr _ \<Rightarrow> True)))))
                      (iscsiDeleteTargetNode sp iscsi_target))
                   (iscsiDeletePortalGroup sp))
                (iscsiDeleteInitiatorGroup sp)))"

end
