(* ===== verification/Cgroup_Paths.thy ===== *)
theory Cgroup_Paths
  imports Lvm_Utils
begin

text \<open>
  The names of cgroup directories, \<open>pkg/utils/cgroup_driver.go\<close>: one formatter for each of the two cgroup
  drivers, which prints the directory of a pod or a container and parses it back.
\<close>

record formatter =
  ParentDir :: string
  QOSDirFn :: "string \<Rightarrow> string"
  PodDirFn :: "string \<Rightarrow> string \<Rightarrow> string" \<comment> \<open>QOS class, UID of the pod\<close>
  ContainerDirFn :: "string \<Rightarrow> string result"
  PodIDParser :: "string \<Rightarrow> string result"
  ContainerIDParser :: "string \<Rightarrow> string result"

datatype CgroupDriverType = Cgroupfs | Systemd

definition Validate :: "string \<Rightarrow> bool" where
  "Validate c = (c = ''cgroupfs'' \<or> c = ''systemd'')"

definition parse_id_error :: "string \<Rightarrow> string" where
  "parse_id_error basename = ''fail to parse pod id: '' @ basename"

text \<open>The text before and after the first \<open>://\<close>; \<open>None\<close> when there is none. What follows a second one is cut.\<close>

fun split_scheme :: "string \<Rightarrow> (string \<times> string) option" where
  "split_scheme [] = None"
| "split_scheme (c # s) =
     (case after_prefix ''://'' (c # s) of
        Some rest \<Rightarrow> Some ([], rest)
      | None \<Rightarrow> map_option (\<lambda>(a, b). (c # a, b)) (split_scheme s))"

definition container_parts :: "string \<Rightarrow> (string \<times> string) option" where
  "container_parts cid =
     map_option (\<lambda>(a, b). (a, case split_scheme b of None \<Rightarrow> b | Some (b', _) \<Rightarrow> b')) (split_scheme cid)"

section \<open>systemd\<close>

definition systemd_QOSDirFn :: "string \<Rightarrow> string" where
  "systemd_QOSDirFn qos =
     (if qos = ''Burstable'' then ''kubepods-burstable.slice/''
      else if qos = ''BestEffort'' then ''kubepods-besteffort.slice/'' else ''/'')"

definition systemd_PodDirFn :: "string \<Rightarrow> string \<Rightarrow> string" where
  "systemd_PodDirFn qos podUID =
     (let cid = map (\<lambda>c. if c = CHR ''-'' then CHR ''_'' else c) podUID
      in if qos = ''Burstable'' then ''kubepods-burstable-pod'' @ cid @ ''.slice/''
         else if qos = ''BestEffort'' then ''kubepods-besteffort-pod'' @ cid @ ''.slice/''
         else if qos = ''Guaranteed'' then ''kubepods-pod'' @ cid @ ''.slice/''
         else ''/'')"

definition systemd_ContainerDirFn :: "string \<Rightarrow> string result" where
  "systemd_ContainerDirFn cid =
     (case container_parts cid of
        None \<Rightarrow> Inl (''parse container id '' @ cid @ '' failed'')
      | Some (protocol, hash) \<Rightarrow>
          if protocol = ''docker'' then Inr (''docker-'' @ hash @ ''.scope/'')
          else if protocol = ''containerd'' then Inr (''cri-containerd-'' @ hash @ ''.scope/'')
          else Inl (''unknown container protocol '' @ cid))"

text \<open>The first pattern whose prefix and suffix the name has; a name shorter than both together, whose prefix and
  suffix overlap, panics in the code (the bounds of the slice cross): none of the patterns has such a name.\<close>

fun parse_patterns :: "(string \<times> string) list \<Rightarrow> string \<Rightarrow> string result" where
  "parse_patterns [] basename = Inl (parse_id_error basename)"
| "parse_patterns ((prefix, suffix) # ps) basename =
     (if HasPrefix basename prefix \<and> HasSuffix basename suffix
      then Inr (take (length basename - length suffix - length prefix) (drop (length prefix) basename))
      else parse_patterns ps basename)"

definition systemd_PodIDParser :: "string \<Rightarrow> string result" where
  "systemd_PodIDParser =
     parse_patterns [(''kubepods-besteffort-pod'', ''.slice''), (''kubepods-burstable-pod'', ''.slice''),
                     (''kubepods-pod'', ''.slice'')]"

definition systemd_ContainerIDParser :: "string \<Rightarrow> string result" where
  "systemd_ContainerIDParser = parse_patterns [(''docker-'', ''.scope''), (''cri-containerd-'', ''.scope'')]"

definition cgroupPathFormatterInSystemd :: formatter where
  "cgroupPathFormatterInSystemd =
     \<lparr>ParentDir = ''kubepods.slice/'', QOSDirFn = systemd_QOSDirFn, PodDirFn = systemd_PodDirFn,
      ContainerDirFn = systemd_ContainerDirFn, PodIDParser = systemd_PodIDParser,
      ContainerIDParser = systemd_ContainerIDParser\<rparr>"

section \<open>cgroupfs\<close>

definition cgroupfs_QOSDirFn :: "string \<Rightarrow> string" where
  "cgroupfs_QOSDirFn qos =
     (if qos = ''Burstable'' then ''burstable/'' else if qos = ''BestEffort'' then ''besteffort/'' else ''/'')"

definition cgroupfs_PodDirFn :: "string \<Rightarrow> string \<Rightarrow> string" where
  "cgroupfs_PodDirFn qos podUID = ''pod'' @ podUID @ ''/''"

definition cgroupfs_ContainerDirFn :: "string \<Rightarrow> string result" where
  "cgroupfs_ContainerDirFn cid =
     (case container_parts cid of
        None \<Rightarrow> Inl (''parse container id '' @ cid @ '' failed'')
      | Some (protocol, hash) \<Rightarrow>
          if protocol = ''docker'' \<or> protocol = ''containerd'' then Inr (hash @ ''/'')
          else Inl (''unknown container protocol '' @ cid))"

definition cgroupfs_PodIDParser :: "string \<Rightarrow> string result" where
  "cgroupfs_PodIDParser basename =
     (case after_prefix ''pod'' basename of Some cid \<Rightarrow> Inr cid | None \<Rightarrow> Inl (parse_id_error basename))"

definition cgroupPathFormatterInCgroupfs :: formatter where
  "cgroupPathFormatterInCgroupfs =
     \<lparr>ParentDir = ''kubepods/'', QOSDirFn = cgroupfs_QOSDirFn, PodDirFn = cgroupfs_PodDirFn,
      ContainerDirFn = cgroupfs_ContainerDirFn, PodIDParser = cgroupfs_PodIDParser, ContainerIDParser = Inr\<rparr>"

text \<open>\<open>SetupCgroupPathFormatter\<close>; a driver it does not know leaves the formatter as it was.\<close>

definition SetupCgroupPathFormatter :: "CgroupDriverType \<Rightarrow> formatter" where
  "SetupCgroupPathFormatter driver =
     (case driver of Systemd \<Rightarrow> cgroupPathFormatterInSystemd | Cgroupfs \<Rightarrow> cgroupPathFormatterInCgroupfs)"

section \<open>Reading back what was printed\<close>

lemma after_prefix_append [simp]: "after_prefix p (p @ s) = Some s"
  by (induction p) auto

lemma HasPrefix_append: "HasPrefix (p @ s) p"
  by (simp add: HasPrefix_def)

lemma HasSuffix_append: "HasSuffix (a @ p) p"
  by (simp add: HasSuffix_def)

lemma parse_pattern_own: "parse_patterns ((p, q) # ps) (p @ a @ q) = Inr a"
  using HasPrefix_append [of p "a @ q"] HasSuffix_append [of "p @ a" q] by simp

lemma parse_pattern_other: "\<not> HasPrefix b p \<Longrightarrow> parse_patterns ((p, q) # ps) b = parse_patterns ps b"
  by simp

lemma other_classes:
  "\<not> HasPrefix (''kubepods-burstable-pod'' @ a) ''kubepods-besteffort-pod''"
  "\<not> HasPrefix (''kubepods-pod'' @ a) ''kubepods-besteffort-pod''"
  "\<not> HasPrefix (''kubepods-pod'' @ a) ''kubepods-burstable-pod''"
  by (simp_all add: HasPrefix_def)

lemma butlast_slash: "butlast (a @ b @ ''.slice/'') = a @ b @ ''.slice''"
  by (simp add: butlast_append)

text \<open>The directory of a pod, without its slash, gives back the UID, with the dashes replaced that systemd's names
  cannot have.\<close>

theorem PodIDParser_PodDirFn:
  assumes "qos \<in> {''Burstable'', ''BestEffort'', ''Guaranteed''}"
  shows "systemd_PodIDParser (butlast (systemd_PodDirFn qos uid)) = Inr (map (\<lambda>c. if c = CHR ''-'' then CHR ''_'' else c) uid) \<and>
    cgroupfs_PodIDParser (butlast (cgroupfs_PodDirFn qos uid)) = Inr uid"
proof -
  have "cgroupfs_PodIDParser (butlast (cgroupfs_PodDirFn qos uid)) = Inr uid"
    by (simp add: cgroupfs_PodIDParser_def cgroupfs_PodDirFn_def butlast_append)
  moreover from assms have "qos = ''Burstable'' \<or> qos = ''BestEffort'' \<or> qos = ''Guaranteed''" by blast
  then have "systemd_PodIDParser (butlast (systemd_PodDirFn qos uid)) = Inr (map (\<lambda>c. if c = CHR ''-'' then CHR ''_'' else c) uid)"
  proof (elim disjE)
    assume "qos = ''Burstable''"
    then have "systemd_PodDirFn qos uid =
        ''kubepods-burstable-pod'' @ map (\<lambda>c. if c = CHR ''-'' then CHR ''_'' else c) uid @ ''.slice/''"
      by (simp add: systemd_PodDirFn_def)
    then show ?thesis unfolding systemd_PodIDParser_def
      by (simp only: butlast_slash parse_pattern_other [OF other_classes(1)] parse_pattern_own)
  next
    assume "qos = ''BestEffort''"
    then have "systemd_PodDirFn qos uid =
        ''kubepods-besteffort-pod'' @ map (\<lambda>c. if c = CHR ''-'' then CHR ''_'' else c) uid @ ''.slice/''"
      by (simp add: systemd_PodDirFn_def)
    then show ?thesis unfolding systemd_PodIDParser_def by (simp only: butlast_slash parse_pattern_own)
  next
    assume "qos = ''Guaranteed''"
    then have "systemd_PodDirFn qos uid =
        ''kubepods-pod'' @ map (\<lambda>c. if c = CHR ''-'' then CHR ''_'' else c) uid @ ''.slice/''"
      by (simp add: systemd_PodDirFn_def)
    then show ?thesis unfolding systemd_PodIDParser_def
      by (simp only: butlast_slash parse_pattern_other [OF other_classes(2)] parse_pattern_other [OF other_classes(3)]
          parse_pattern_own)
  qed
  ultimately show ?thesis by blast
qed

end
