(* ===== verification/Node_State.thy ===== *)
theory Node_State
  imports Spdk_Commands Csi_Snapshot Cgroup_Paths
begin

text \<open>
  What the CSI node service keeps and what it calls: the requests in flight, the store of ephemeral volumes
  (\<open>pkg/csi/volume_store.go\<close>), the machine it runs on (\<open>pkg/csi/os_tool.go\<close>, \<open>mount-utils\<close>, Kata's direct
  volumes and the SPDK process), which is the machine of the daemon with more operations. An operation of the
  service is a state transformer on the record \<open>node_world\<close>; it panics, fails, or returns.
\<close>

section \<open>The machine and the service's environment\<close>

record node_host = spdk_host +
  block_device :: "action list \<Rightarrow> string \<Rightarrow> bool result"
  likely_unmounted :: "action list \<Rightarrow> string \<Rightarrow> bool result"
  unmounted :: "action list \<Rightarrow> string \<Rightarrow> bool result"
  format_and_mount :: "action list \<Rightarrow> string \<Rightarrow> string \<Rightarrow> string \<Rightarrow> string list \<Rightarrow> string option"
  mount_at :: "action list \<Rightarrow> string \<Rightarrow> string \<Rightarrow> string \<Rightarrow> string list \<Rightarrow> string option"
  ensure_block :: "action list \<Rightarrow> string \<Rightarrow> string option"
  mount_block :: "action list \<Rightarrow> string \<Rightarrow> string \<Rightarrow> string list \<Rightarrow> string option"
  cleanup_mount :: "action list \<Rightarrow> string \<Rightarrow> string option"
  resize_fs :: "action list \<Rightarrow> string \<Rightarrow> string \<Rightarrow> bool result"
  direct_add :: "action list \<Rightarrow> string \<Rightarrow> string \<Rightarrow> string \<Rightarrow> string option"
  direct_remove :: "action list \<Rightarrow> string \<Rightarrow> string option"
  save_volumes :: "action list \<Rightarrow> string gomap \<Rightarrow> string option"
  write_file :: "action list \<Rightarrow> string \<Rightarrow> string option"
  restore_data :: "action list \<Rightarrow> string \<Rightarrow> string \<Rightarrow> string \<Rightarrow> string option"
  rdev :: "action list \<Rightarrow> string \<Rightarrow> uint64" \<comment> \<open>0 when \<open>stat\<close> fails\<close>

record snap_content =
  sc_Name :: string
  sc_Annotations :: "string gomap"

record node_env =
  ne_K :: kube
  ne_H :: node_host
  ne_spdk :: bool \<comment> \<open>\<open>spdkSupported\<close>\<close>
  ne_nodeID :: string
  ne_sysPath :: string
  ne_maxVolumes :: int64
  ne_double_check :: bool \<comment> \<open>the environment's \<open>MNT_Double_Check\<close>\<close>
  ne_cgroup :: CgroupDriverType
  ne_pods :: "string \<Rightarrow> (string \<times> string) list \<times> string option" \<comment> \<open>UID and QOS class by namespace, error\<close>
  ne_snapcontent :: "string \<Rightarrow> snap_content result" \<comment> \<open>\<open>GetVolumeSnapshotContent\<close>\<close>
  ne_secret :: "string \<Rightarrow> string \<Rightarrow> string gomap result"
  ne_quantity_error :: "string \<Rightarrow> string"
  ne_statfs :: "string \<Rightarrow> (int64 \<times> int64 \<times> int64 \<times> int64 \<times> int64 \<times> int64) result"
    \<comment> \<open>\<open>Bavail\<close>, \<open>Bsize\<close>, \<open>Blocks\<close>, \<open>Bfree\<close>, \<open>Files\<close>, \<open>Ffree\<close>\<close>

record node_world =
  nw_inFlight :: "unit gomap"
  nw_volumes :: "string gomap" \<comment> \<open>the device of every ephemeral volume\<close>
  nw_log :: "action list"

section \<open>Operations\<close>

type_synonym ('e, 'a) op = "(node_world, ('e + 'a) option) state"
type_synonym 'a node_call = "(string, 'a) op"
type_synonym 'a node_rpc = "(grpc_status, 'a) op"

definition o_ret :: "'a \<Rightarrow> ('e, 'a) op" where "o_ret x = State_Monad.return (Some (Inr x))"
definition o_err :: "'e \<Rightarrow> ('e, 'a) op" where "o_err e = State_Monad.return (Some (Inl e))"
definition o_panic :: "('e, 'a) op" where "o_panic = State_Monad.return None"

definition o_try :: "('e, 'a) op \<Rightarrow> ('e + 'a \<Rightarrow> ('f, 'b) op) \<Rightarrow> ('f, 'b) op" where
  "o_try m k = State_Monad.bind m (\<lambda>r. case r of None \<Rightarrow> o_panic | Some res \<Rightarrow> k res)"

text \<open>\<open>x, err := m; if err != nil { return ..., wrap(err) }\<close>.\<close>

definition o_then :: "('e \<Rightarrow> 'f) \<Rightarrow> ('e, 'a) op \<Rightarrow> ('a \<Rightarrow> ('f, 'b) op) \<Rightarrow> ('f, 'b) op" where
  "o_then wrap m k = o_try m (\<lambda>r. case r of Inl e \<Rightarrow> o_err (wrap e) | Inr x \<Rightarrow> k x)"

text \<open>A deferred function that runs when the named error is set.\<close>

definition o_on_error :: "('e, 'a) op \<Rightarrow> ('f, 'b) op \<Rightarrow> ('e, 'a) op" where
  "o_on_error m cleanup =
     o_try m (\<lambda>r. case r of Inl e \<Rightarrow> o_try cleanup (\<lambda>_. o_err e) | Inr x \<Rightarrow> o_ret x)"

definition on_node :: "'a call \<Rightarrow> 'a node_call" where
  "on_node m = State (\<lambda>w. case run_state m (nw_log w) of (r, l) \<Rightarrow> (r, w\<lparr>nw_log := l\<rparr>))"

definition on_daemon :: "'a result io \<Rightarrow> 'a node_call" where
  "on_daemon m = on_node (State_Monad.bind m (\<lambda>r. ret (Some r)))"

definition o_act :: "action \<Rightarrow> (action list \<Rightarrow> 'a result) \<Rightarrow> 'a node_call" where
  "o_act a r = on_node (c_act a r)"

abbreviation internal :: "string \<Rightarrow> string" where
  "internal msg \<equiv> status_text (Internal, msg)"

abbreviation the_host :: "node_env \<Rightarrow> host" where "the_host env \<equiv> host.truncate (ne_H env)"
abbreviation the_spdk :: "node_env \<Rightarrow> spdk_host" where "the_spdk env \<equiv> spdk_host.truncate (ne_H env)"

definition RunCommand :: "node_env \<Rightarrow> string \<Rightarrow> string node_call" where
  "RunCommand env cmd = on_daemon (Run (the_host env) cmd)"

definition node_Remove :: "node_env \<Rightarrow> string \<Rightarrow> unit node_call" where
  "node_Remove env path = o_act (Remove path) (\<lambda>log. no_error (os_remove (ne_H env) log path))"

definition node_IsLikelyNotMountPoint :: "node_env \<Rightarrow> string \<Rightarrow> bool node_call" where
  "node_IsLikelyNotMountPoint env path = o_act (IsLikelyNotMountPoint path) (\<lambda>log. likely_unmounted (ne_H env) log path)"

definition node_MountBlock :: "node_env \<Rightarrow> string \<Rightarrow> string \<Rightarrow> string list \<Rightarrow> unit node_call" where
  "node_MountBlock env source target opts =
     o_act (MountBlock source target opts) (\<lambda>log. no_error (mount_block (ne_H env) log source target opts))"

definition node_FormatAndMount :: "node_env \<Rightarrow> string \<Rightarrow> string \<Rightarrow> string \<Rightarrow> string list \<Rightarrow> unit node_call" where
  "node_FormatAndMount env dev target fsType opts =
     o_act (FormatAndMount dev target fsType opts)
       (\<lambda>log. no_error (format_and_mount (ne_H env) log dev target fsType opts))"

text \<open>A failure, after which the target is removed; a failure to do so replaces the error.\<close>

definition remove_target :: "node_env \<Rightarrow> (string \<Rightarrow> string) \<Rightarrow> string \<Rightarrow> string \<Rightarrow> 'a node_call" where
  "remove_target env removing targetPath msg =
     o_try (node_Remove env targetPath) (\<lambda>r. case r of Inl removeErr \<Rightarrow> o_err (removing removeErr) | Inr _ \<Rightarrow> o_err msg)"

section \<open>The store of ephemeral volumes\<close>

text \<open>The file of the store, read at the start: a missing one is an empty store.\<close>

definition NewVolumeStore :: "bool \<times> string + string gomap \<Rightarrow> string gomap result" where
  "NewVolumeStore file =
     (case file of Inr m \<Rightarrow> Inr m | Inl (missing, err) \<Rightarrow> if missing then Inr [] else Inl err)"

definition put_volumes :: "node_env \<Rightarrow> (string gomap \<Rightarrow> string gomap) \<Rightarrow> unit node_call" where
  "put_volumes env f =
     State (\<lambda>w. let m = f (nw_volumes w)
                in (Some (no_error (save_volumes (ne_H env) (nw_log w) m)),
                    w\<lparr>nw_volumes := m, nw_log := nw_log w @ [SaveVolumes m]\<rparr>))"

definition store_AddVolume :: "node_env \<Rightarrow> string \<Rightarrow> string \<Rightarrow> unit node_call" where
  "store_AddVolume env volumeID device = put_volumes env (AList.update volumeID device)"

definition store_DeleteVolume :: "node_env \<Rightarrow> string \<Rightarrow> unit node_call" where
  "store_DeleteVolume env volumeID = put_volumes env (AList.delete volumeID)"

definition store_GetDevice :: "string \<Rightarrow> string option node_call" where
  "store_GetDevice volumeID = State (\<lambda>w. (Some (Inr (map_of (nw_volumes w) volumeID)), w))"

section \<open>Requests in flight\<close>

definition node_with_inFlight :: "string \<Rightarrow> 'a node_rpc \<Rightarrow> 'a node_rpc" where
  "node_with_inFlight key body =
     State_Monad.bind
       (State (\<lambda>w. if map_of (nw_inFlight w) key \<noteq> None then (False, w)
                   else (True, w\<lparr>nw_inFlight := AList.update key () (nw_inFlight w)\<rparr>)))
       (\<lambda>ok. if \<not> ok
             then o_err (Aborted, already_exists key)
             else State_Monad.bind body (\<lambda>r.
               State (\<lambda>w. (r, w\<lparr>nw_inFlight := AList.delete key (nw_inFlight w)\<rparr>))))"

section \<open>Paths and numbers\<close>

text \<open>\<open>filepath.Clean\<close> on the elements of a path; the stack is reversed.\<close>

fun clean_elems :: "bool \<Rightarrow> string list \<Rightarrow> string list \<Rightarrow> string list" where
  "clean_elems rooted stack [] = rev stack"
| "clean_elems rooted stack (el # els) =
     (if el = [] \<or> el = ''.'' then clean_elems rooted stack els
      else if el = ''..''
      then (case stack of
              [] \<Rightarrow> clean_elems rooted (if rooted then [] else [el]) els
            | t # rest \<Rightarrow> clean_elems rooted (if t = ''..'' then el # stack else rest) els)
      else clean_elems rooted (el # stack) els)"

definition filepath_Clean :: "string \<Rightarrow> string" where
  "filepath_Clean path =
     (let rooted = (case path of [] \<Rightarrow> False | c # _ \<Rightarrow> c = CHR ''/'');
          els = clean_elems rooted [] (go_Split (CHR ''/'') path)
      in if rooted then CHR ''/'' # go_Join els ''/'' else if els = [] then ''.'' else go_Join els ''/'')"

definition filepath_Join :: "string list \<Rightarrow> string" where
  "filepath_Join elem =
     (let els = filter (\<lambda>e. e \<noteq> []) elem in if els = [] then [] else filepath_Clean (go_Join els ''/''))"

text \<open>\<open>%d\<close>.\<close>

definition sdec :: "int64 \<Rightarrow> string" where
  "sdec n = (if n <s 0 then ''-'' @ dec (nat (- sint n)) else dec (nat (sint n)))"

definition int_quot :: "int64 \<Rightarrow> int \<Rightarrow> int64" where
  "int_quot n d = word_of_int (sgn (sint n) * (\<bar>sint n\<bar> div d))"

text \<open>\<open>strconv.ParseInt(s, 10, 64)\<close> and \<open>strconv.ParseBool\<close>.\<close>

definition ParseInt64 :: "string \<Rightarrow> int64 result" where
  "ParseInt64 s =
     (let (neg, digits) =
            (case s of [] \<Rightarrow> (False, [])
             | ch # rest \<Rightarrow> if ch = CHR ''+'' then (False, rest)
                          else if ch = CHR ''-'' then (True, rest) else (False, s))
      in if digits = [] then Inl (''strconv.ParseInt: parsing '' @ go_Quote s @ '': invalid syntax'')
         else (case digits_value 0 digits of
                 None \<Rightarrow> Inl (''strconv.ParseInt: parsing '' @ go_Quote s @ '': invalid syntax'')
               | Some n \<Rightarrow>
                   if (if neg then 2 ^ 63 < n else 2 ^ 63 \<le> n)
                   then Inl (''strconv.ParseInt: parsing '' @ go_Quote s @ '': value out of range'')
                   else Inr (word_of_int (if neg then - n else n))))"

definition ParseBool :: "string \<Rightarrow> bool option" where
  "ParseBool s =
     (if s \<in> {''1'', ''t'', ''T'', ''TRUE'', ''true'', ''True''} then Some True
      else if s \<in> {''0'', ''f'', ''F'', ''FALSE'', ''false'', ''False''} then Some False else None)"

text \<open>\<open>MAX_VOLUMES_PERNODE\<close>; a text that is not a number ends the process.\<close>

definition max_volumes :: "string \<Rightarrow> int64 option" where
  "max_volumes volumeNum =
     (if volumeNum = [] then Some 64
      else (case ParseInt64 volumeNum of
              Inl err \<Rightarrow> None
            | Inr num \<Rightarrow> if num <s 0 \<or> 1024 <s num then Some 64 else Some num))"

end
