(* ===== verification/Node_Volumes.thy ===== *)
theory Node_Volumes
  imports Node_State
begin

text \<open>
  Making and mounting a volume on a node, \<open>pkg/csi/nodeutils.go\<close>: the logical volume behind a claim or an
  ephemeral volume, the mounts of each kind of volume, the restoring of a backup.
\<close>

section \<open>Requests\<close>

record mount_volume =
  mv_FsType :: string
  mv_MountFlags :: "string list"

text \<open>How a volume is accessed. A missing capability, or one without an access type, is \<open>None\<close>.\<close>

datatype access_type = Access_Block | Access_Mount "mount_volume option"

record NodePublishVolumeRequest =
  npr_VolumeId :: string
  npr_TargetPath :: string
  npr_VolumeContext :: "string gomap"
  npr_Capability :: "access_type option"
  npr_Readonly :: bool

definition GetMount :: "access_type option \<Rightarrow> mount_volume option" where
  "GetMount c = (case c of Some (Access_Mount m) \<Rightarrow> m | _ \<Rightarrow> None)"

abbreviation ctx :: "NodePublishVolumeRequest \<Rightarrow> string \<Rightarrow> string option" where
  "ctx req \<equiv> map_of (npr_VolumeContext req)"

abbreviation key_Ephemeral :: string where "key_Ephemeral \<equiv> ''csi.storage.k8s.io/ephemeral''"
abbreviation key_PVName :: string where "key_PVName \<equiv> ''csi.storage.k8s.io/pv/name''"
abbreviation DefaultFs :: string where "DefaultFs \<equiv> ''ext4''"
abbreviation LinearType :: string where "LinearType \<equiv> ''linear''"

definition is_ephemeral :: "string gomap \<Rightarrow> bool" where
  "is_ephemeral context = (map_of context key_Ephemeral = Some ''true'')"

section \<open>Logical volumes\<close>

text \<open>The size in MiB, its unit, the volume.\<close>

definition getPvInfo :: "node_env \<Rightarrow> string \<Rightarrow> (int64 \<times> string \<times> PersistentVolume) result" where
  "getPvInfo env volumeID =
     (case pv_get (ne_K env) volumeID of
        None \<Rightarrow> Inl (not_found ''persistentvolumes'' volumeID)
      | Some pv \<Rightarrow> Inr (int_quot (pv_capacity pv) (1024 * 1024), ''m'', pv))"

text \<open>Of the last group with the name; 0 when the groups cannot be listed.\<close>

definition getPVNumber :: "node_env \<Rightarrow> string \<Rightarrow> uint64 node_call" where
  "getPVNumber env vgName =
     o_try (on_daemon (ListVG (the_host env))) (\<lambda>r.
       o_ret (case r of
           Inl _ \<Rightarrow> 0
         | Inr vgList \<Rightarrow> fold (\<lambda>vg n. if lvg_Name vg = vgName then lvg_PvCount vg else n) vgList 0))"

definition lvcreate_command :: "string \<Rightarrow> string \<Rightarrow> string \<Rightarrow> string" where
  "lvcreate_command volumeID sz vgName = NsenterCmd @ '' lvcreate -n '' @ volumeID @ '' -L '' @ sz @ '' -Wy -y '' @ vgName"

definition striped_command :: "uint64 \<Rightarrow> string \<Rightarrow> string \<Rightarrow> string \<Rightarrow> string" where
  "striped_command pvNumber volumeID sz vgName =
     NsenterCmd @ '' lvcreate -i '' @ sdec pvNumber @ '' -n '' @ volumeID @ '' -L '' @ sz @ '' '' @ vgName"

text \<open>A type that is neither is not refused: nothing is made.\<close>

definition createLvm :: "node_env \<Rightarrow> string \<Rightarrow> string \<Rightarrow> string \<Rightarrow> string \<Rightarrow> int64 \<Rightarrow> unit node_call" where
  "createLvm env vgName volumeID lvmType unit pvSize =
     (let sz = sdec pvSize @ unit
      in if lvmType = StripingType
         then o_then (\<lambda>err. err) (getPVNumber env vgName) (\<lambda>pvNumber.
                if pvNumber = 0 then o_err (''createVolume:: VG is exist: '' @ vgName @ '', bug get pv number as 0'')
                else o_then (\<lambda>err. err) (RunCommand env (striped_command pvNumber volumeID sz vgName)) (\<lambda>_. o_ret ()))
         else if lvmType = LinearType
         then o_then (\<lambda>err. err) (RunCommand env (lvcreate_command volumeID sz vgName)) (\<lambda>_. o_ret ())
         else o_ret ())"

definition lvremove_device_command :: "string \<Rightarrow> string" where
  "lvremove_device_command devicePath = NsenterCmd @ '' lvremove -v -f '' @ devicePath"

definition removeLVMByDevicePath :: "node_env \<Rightarrow> string \<Rightarrow> unit node_call" where
  "removeLVMByDevicePath env devicePath =
     o_then (\<lambda>err. err) (RunCommand env (lvremove_device_command devicePath)) (\<lambda>_. o_ret ())"

definition volume_size :: "node_env \<Rightarrow> string gomap \<Rightarrow> string \<Rightarrow> (int64 \<times> string) result" where
  "volume_size env context volumeID =
     (if is_ephemeral context
      then (let sizeStr = (case map_of context ''size'' of None \<Rightarrow> ''1Gi'' | Some s \<Rightarrow> s)
            in (case ParseQuantity (ne_K env) sizeStr of
                  None \<Rightarrow> Inl (ne_quantity_error env sizeStr)
                | Some n \<Rightarrow> Inr (int_quot (int_quot n 1024) 1024, ''m'')))
      else (case getPvInfo env volumeID of Inl err \<Rightarrow> Inl err | Inr (pvSize, unit, _) \<Rightarrow> Inr (pvSize, unit)))"

text \<open>The volume of the SPDK process and the vhost device for it: an ephemeral one that cannot be recorded is
  removed again.\<close>

definition createSpdkVolume :: "node_env \<Rightarrow> string gomap \<Rightarrow> string \<Rightarrow> string \<Rightarrow> int64 \<Rightarrow> (string \<times> string) node_call" where
  "createSpdkVolume env context volumeID vgName pvSize =
     o_then (\<lambda>err. err) (on_node (spdk_CreateLV (the_spdk env) vgName (EnsureLVNameValid volumeID) (pvSize * 1024 * 1024)))
       (\<lambda>bdevName. o_then (\<lambda>err. err) (on_node (vhost_for (the_spdk env) bdevName)) (\<lambda>newDev.
          if is_ephemeral context
          then o_try (store_AddVolume env volumeID bdevName) (\<lambda>r. case r of
                 Inl err \<Rightarrow> o_try (on_node (CleanBdev (the_spdk env) bdevName)) (\<lambda>_. o_err err)
               | Inr _ \<Rightarrow> o_ret (newDev, bdevName))
          else o_ret (newDev, bdevName)))"

definition vgck_command :: "string \<Rightarrow> string" where
  "vgck_command vgName = NsenterCmd @ '' vgck '' @ vgName"

definition createVolume :: "node_env \<Rightarrow> string gomap \<Rightarrow> string \<Rightarrow> string \<Rightarrow> string \<Rightarrow> (string \<times> string) node_call" where
  "createVolume env context volumeID vgName lvmType =
     (case volume_size env context volumeID of
        Inl err \<Rightarrow> o_err err
      | Inr (pvSize, unit) \<Rightarrow>
          if \<not> ne_spdk env
          then o_then (\<lambda>err. err) (RunCommand env (vgck_command vgName)) (\<lambda>_.
                 o_then (\<lambda>err. err) (createLvm env vgName volumeID lvmType unit pvSize) (\<lambda>_. o_ret ([], [])))
          else createSpdkVolume env context volumeID vgName pvSize)"

text \<open>The volume group: from the volume's context, or from the persistent volume it names.\<close>

definition volume_group_of :: "node_env \<Rightarrow> NodePublishVolumeRequest \<Rightarrow> string result" where
  "volume_group_of env req =
     (if is_ephemeral (npr_VolumeContext req) then Inr (str_at (npr_VolumeContext req) key_VGName)
      else (let pvName = str_at (npr_VolumeContext req) key_PVName
            in (case pv_get (ne_K env) pvName of
                  None \<Rightarrow> Inl (''createLV: fail to get pv: '' @ not_found ''persistentvolumes'' pvName)
                | Some pv \<Rightarrow>
                    (let vgName = GetVGNameFromCsiPV (ne_K env) pv
                     in if vgName = [] then Inl (internal (''error with input vgName is empty, pv is '' @ pvName))
                        else Inr vgName))))"

text \<open>A read-only snapshot is mounted in place of the volume made from it.\<close>

definition lv_name_of :: "NodePublishVolumeRequest \<Rightarrow> string" where
  "lv_name_of req =
     (case ctx req ParamSnapshotID of
        Some snapshotID \<Rightarrow> if ctx req ParamReadonly = Some ''true'' then snapshotID else npr_VolumeId req
      | None \<Rightarrow> npr_VolumeId req)"

definition createLV :: "node_env \<Rightarrow> NodePublishVolumeRequest \<Rightarrow> (string \<times> string) node_call" where
  "createLV env req =
     (case volume_group_of env req of
        Inl err \<Rightarrow> o_err err
      | Inr vgName \<Rightarrow>
          (let lvmType = (case ctx req LvmTypeTag of Some t \<Rightarrow> t | None \<Rightarrow> LinearType);
               volumeID = lv_name_of req;
               devicePath = filepath_Join [''/dev/'', vgName, volumeID]
           in o_then (\<lambda>err. err) (o_act (Stat devicePath) (\<lambda>log. Inr (is_missing (ne_H env) log devicePath))) (\<lambda>missing.
                if missing
                then o_then internal (createVolume env (npr_VolumeContext req) volumeID vgName lvmType) (\<lambda>(newDev, bdevName).
                       if ne_spdk env then o_ret (newDev, bdevName) else o_ret (devicePath, []))
                else o_ret (devicePath, []))))"

section \<open>File systems\<close>

definition collectMountOptions :: "string \<Rightarrow> string list \<Rightarrow> string list" where
  "collectMountOptions fsType mntFlags = mntFlags @ (if fsType = ''xfs'' then [''nouuid''] else [])"

definition RestoreFileName :: string where
  "RestoreFileName = ''.local.restored''"

text \<open>Any error of \<open>stat\<close> counts as not restored.\<close>

definition checkIfRestored :: "node_env \<Rightarrow> string \<Rightarrow> bool node_call" where
  "checkIfRestored env path =
     (let file = filepath_Join [path, RestoreFileName]
      in o_act (Stat file) (\<lambda>log. Inr (stat_path (ne_H env) log file = None)))"

definition labelRestored :: "node_env \<Rightarrow> string \<Rightarrow> unit node_call" where
  "labelRestored env path =
     (let file = filepath_Join [path, RestoreFileName]
      in o_act (WriteFile file) (\<lambda>log. case write_file (ne_H env) log file of
           Some err \<Rightarrow> Inl (''error writing restored file: '' @ err) | None \<Rightarrow> Inr ()))"

abbreviation key_secret_name :: string where
  "key_secret_name \<equiv> ''snapshot.storage.kubernetes.io/deletion-secret-name''"
abbreviation key_secret_namespace :: string where
  "key_secret_namespace \<equiv> ''snapshot.storage.kubernetes.io/deletion-secret-namespace''"

definition no_annotation :: "string \<Rightarrow> snap_content \<Rightarrow> string" where
  "no_annotation key content =
     internal (''mountLvmFS: no anno '' @ key @ '' found in volumesnapshotcontent '' @ sc_Name content)"

text \<open>The secret of the backup, found through the snapshot's content.\<close>

definition backup_secret :: "node_env \<Rightarrow> string \<Rightarrow> string gomap result" where
  "backup_secret env snapshotID =
     (case ne_snapcontent env snapshotID of
        Inl err \<Rightarrow> Inl (internal (''mountLvmFS: get snapContent '' @ snapshotID @ '' error: '' @ err))
      | Inr content \<Rightarrow>
          (case map_of (sc_Annotations content) key_secret_name of
             None \<Rightarrow> Inl (no_annotation key_secret_name content)
           | Some secretName \<Rightarrow>
               (case map_of (sc_Annotations content) key_secret_namespace of
                  None \<Rightarrow> Inl (no_annotation key_secret_namespace content)
                | Some secretNamespace \<Rightarrow>
                    (case ne_secret env secretNamespace secretName of
                       Inl err \<Rightarrow> Inl (internal (''fail to get secret '' @ GetNameKey secretNamespace secretName @ '': '' @ err))
                     | Inr secret \<Rightarrow> Inr secret))))"

text \<open>The mark that says the data is there is written before the data is restored.\<close>

definition restore_backup :: "node_env \<Rightarrow> NodePublishVolumeRequest \<Rightarrow> string \<Rightarrow> unit node_call" where
  "restore_backup env req snapshotID =
     (let targetPath = npr_TargetPath req;
          srcVolumeID = str_at (npr_VolumeContext req) ParamSourceVolumeID
      in o_then (\<lambda>err. err) (checkIfRestored env targetPath) (\<lambda>restored.
           if restored then o_ret ()
           else (case backup_secret env snapshotID of
                   Inl err \<Rightarrow> o_err err
                 | Inr secret \<Rightarrow>
                     o_then (\<lambda>err. err) (labelRestored env targetPath) (\<lambda>_.
                       o_then (\<lambda>err. err) (on_daemon (NewResticClient (the_host env))) (\<lambda>_.
                         o_then (\<lambda>err. ''fail to restore volume '' @ srcVolumeID @ '' path '' @ targetPath @ '': '' @ err)
                           (o_act (RestoreData srcVolumeID targetPath snapshotID)
                              (\<lambda>log. no_error (restore_data (ne_H env) log srcVolumeID targetPath snapshotID)))
                           (\<lambda>_. o_ret ()))))))"

text \<open>\<open>GetMount().FsType\<close> panics when there is no mount.\<close>

definition mount_fs :: "NodePublishVolumeRequest \<Rightarrow> string option" where
  "mount_fs req =
     (case GetMount (npr_Capability req) of
        None \<Rightarrow> None
      | Some m \<Rightarrow> Some (if mv_FsType m = [] then DefaultFs else mv_FsType m))"

definition mount_flags :: "NodePublishVolumeRequest \<Rightarrow> string list" where
  "mount_flags req = (case GetMount (npr_Capability req) of None \<Rightarrow> [] | Some m \<Rightarrow> mv_MountFlags m)"

definition mount_options :: "NodePublishVolumeRequest \<Rightarrow> bool \<Rightarrow> string \<Rightarrow> string list" where
  "mount_options req ro fsType =
     (let options = (if ro then ''ro'' else ''rw'') # mount_flags req
      in options @ collectMountOptions fsType options)"

definition double_check :: "node_env \<Rightarrow> string \<Rightarrow> unit node_call" where
  "double_check env targetPath =
     (if \<not> ne_double_check env then o_ret ()
      else o_then (\<lambda>err. ''mountLVMFS: fail to check if '' @ targetPath @ '' is mountpoint: '' @ err)
             (o_act (IsNotMountPoint targetPath) (\<lambda>log. unmounted (ne_H env) log targetPath)) (\<lambda>notMnt.
               if notMnt then o_err (targetPath @ '' is not mounted after mounting, retry'') else o_ret ()))"

definition format_and_restore :: "node_env \<Rightarrow> NodePublishVolumeRequest \<Rightarrow> string \<Rightarrow> unit node_call" where
  "format_and_restore env req devicePath =
     (let targetPath = npr_TargetPath req;
          isSnapshotReadOnly = (ctx req ParamReadonly = Some ''true'')
      in (case mount_fs req of
            None \<Rightarrow> o_panic
          | Some fsType \<Rightarrow>
              o_then (\<lambda>err. ''mountLvmFS: fail to format and mount volume(volume id:'' @ npr_VolumeId req @
                        '', device path: '' @ devicePath @ ''): '' @ err)
                (node_FormatAndMount env devicePath targetPath fsType
                   (mount_options req (npr_Readonly req \<or> isSnapshotReadOnly) fsType)) (\<lambda>_.
                o_then (\<lambda>err. err)
                  (case ctx req ParamSnapshotID of
                     Some snapshotID \<Rightarrow> if \<not> isSnapshotReadOnly then restore_backup env req snapshotID else o_ret ()
                   | None \<Rightarrow> o_ret ()) (\<lambda>_.
                  double_check env targetPath))))"

definition mountLvmFS :: "node_env \<Rightarrow> NodePublishVolumeRequest \<Rightarrow> unit node_call" where
  "mountLvmFS env req =
     o_then (\<lambda>err. err) (createLV env req) (\<lambda>(devicePath, _).
       o_then (\<lambda>err. ''mountLvmFS: fail to check if '' @ npr_TargetPath req @ '' is mounted: '' @ err)
         (node_IsLikelyNotMountPoint env (npr_TargetPath req)) (\<lambda>notMounted.
         o_then (\<lambda>err. err) (if notMounted then format_and_restore env req devicePath else o_ret ()) (\<lambda>_.
           if is_ephemeral (npr_VolumeContext req)
           then o_try (store_AddVolume env (npr_VolumeId req) devicePath) (\<lambda>_. o_ret ())
           else o_ret ())))"

section \<open>Block devices\<close>

text \<open>The part that logical volumes and devices share: the texts of its errors are arguments.\<close>

definition bind_block ::
  "node_env \<Rightarrow> NodePublishVolumeRequest \<Rightarrow> (string \<Rightarrow> string) \<Rightarrow> (string \<Rightarrow> string) \<Rightarrow> (string \<Rightarrow> string) \<Rightarrow> string \<Rightarrow> unit node_call" where
  "bind_block env req removing ensuring mounting devicePath =
     (let targetPath = npr_TargetPath req;
          mountOptions = ''bind'' # (if npr_Readonly req then [''ro''] else [])
      in o_try (o_act (EnsureBlock targetPath) (\<lambda>log. no_error (ensure_block (ne_H env) log targetPath))) (\<lambda>r. case r of
           Inl err \<Rightarrow> remove_target env removing targetPath (ensuring err)
         | Inr _ \<Rightarrow>
             o_try (node_MountBlock env devicePath targetPath mountOptions) (\<lambda>r. case r of
               Inl err \<Rightarrow> remove_target env removing targetPath (mounting err)
             | Inr _ \<Rightarrow> o_ret ())))"

definition check_block ::
  "node_env \<Rightarrow> (string \<Rightarrow> string) \<Rightarrow> (string \<Rightarrow> string) \<Rightarrow> string \<Rightarrow> string \<Rightarrow> string \<Rightarrow> unit node_call" where
  "check_block env removing checking targetPath devicePath msg =
     o_try (o_act (IsBlockDevice devicePath) (\<lambda>log. block_device (ne_H env) log devicePath)) (\<lambda>r. case r of
       Inl err \<Rightarrow> remove_target env removing targetPath (checking err)
     | Inr isBlock \<Rightarrow> if \<not> isBlock then o_err msg else o_ret ())"

definition mountLvmBlock :: "node_env \<Rightarrow> NodePublishVolumeRequest \<Rightarrow> unit node_call" where
  "mountLvmBlock env req =
     (let targetPath = npr_TargetPath req;
          removing = (\<lambda>err. ''mountLvmBlock: fail to remove mount target '' @ go_Quote targetPath @ '': '' @ err)
      in o_then (\<lambda>err. ''mountLvmBlock: fail to create lv: '' @ err) (createLV env req) (\<lambda>(devicePath, _).
           o_then (\<lambda>err. err)
             (check_block env removing
                (\<lambda>err. ''mountLvmBlock: check block device '' @ devicePath @ '' failed: '' @ err)
                targetPath devicePath (''mountLvmBlock: '' @ devicePath @ '' is not block device'')) (\<lambda>_.
             o_then (\<lambda>err. internal (''mountLvmBlock: check if '' @ targetPath @ '' is mountpoint failed: '' @ err))
               (node_IsLikelyNotMountPoint env targetPath) (\<lambda>notMounted.
               if notMounted
               then bind_block env req (\<lambda>err. internal (removing err))
                      (\<lambda>err. internal (''mountLvmBlock: ensure block '' @ targetPath @ '' failed: '' @ err))
                      (\<lambda>err. internal (''mountLvmBlock: fail to mount block '' @ devicePath @ '' at '' @ targetPath @ '': '' @ err))
                      devicePath
               else o_ret ()))))"

text \<open>The device of the persistent volume the context names.\<close>

definition source_device :: "node_env \<Rightarrow> NodePublishVolumeRequest \<Rightarrow> string result" where
  "source_device env req =
     (let pvName = str_at (npr_VolumeContext req) key_PVName
      in (case pv_get (ne_K env) pvName of
            None \<Rightarrow> Inl (not_found ''persistentvolumes'' pvName)
          | Some pv \<Rightarrow> Inr (GetDeviceNameFromCsiPV (ne_K env) pv)))"

definition mountDeviceVolumeBlock :: "node_env \<Rightarrow> NodePublishVolumeRequest \<Rightarrow> unit node_call" where
  "mountDeviceVolumeBlock env req =
     (let targetPath = npr_TargetPath req;
          removing = (\<lambda>err. ''mountDeviceVolumeBlock: fail to remove mount target '' @ go_Quote targetPath @ '': '' @ err)
      in (case source_device env req of
            Inl err \<Rightarrow> o_err err
          | Inr sourceDevice \<Rightarrow>
              o_then (\<lambda>err. err)
                (check_block env removing
                   (\<lambda>err. ''mountDeviceVolumeBlock: fail to check block device '' @ sourceDevice @ '': '' @ err)
                   targetPath sourceDevice (''mountDeviceVolumeBlock: '' @ sourceDevice @ '' is not block device'')) (\<lambda>_.
                o_then (\<lambda>err. ''mountDeviceVolumeBlock: fail to check if '' @ targetPath @ '' is mountpoint: '' @ err)
                  (node_IsLikelyNotMountPoint env targetPath) (\<lambda>notMounted.
                  if notMounted
                  then bind_block env req removing
                         (\<lambda>err. ''mountDeviceVolumeBlock: fail to ensure block '' @ targetPath @ '': '' @ err)
                         (\<lambda>err. ''mountDeviceVolumeBlock: fail to mount block '' @ sourceDevice @ '' at '' @ targetPath @ '': '' @ err)
                         sourceDevice
                  else o_ret ()))))"

section \<open>Devices and mount points with a file system\<close>

definition mountDeviceVolumeFS :: "node_env \<Rightarrow> NodePublishVolumeRequest \<Rightarrow> unit node_call" where
  "mountDeviceVolumeFS env req =
     (let targetPath = npr_TargetPath req
      in (case source_device env req of
            Inl err \<Rightarrow> o_err err
          | Inr sourceDevice \<Rightarrow>
              if sourceDevice = []
              then o_err (''mountDeviceVolumeFS: mount device '' @ npr_VolumeId req @ '' with empty source path'')
              else o_then (\<lambda>err. ''mountDeviceVolumeFS: fail to check if '' @ targetPath @ '' is mounted: '' @ err)
                     (node_IsLikelyNotMountPoint env targetPath) (\<lambda>notMounted.
                     if notMounted
                     then (case mount_fs req of
                             None \<Rightarrow> o_panic
                           | Some fsType \<Rightarrow>
                               o_then (\<lambda>err. ''mountDeviceVolumeFS: fail to format and mount volume(volume id:'' @
                                         npr_VolumeId req @ '', device path: '' @ sourceDevice @ ''): '' @ err)
                                 (node_FormatAndMount env sourceDevice targetPath fsType
                                    (mount_options req (npr_Readonly req) fsType)) (\<lambda>_. o_ret ()))
                     else o_ret ())))"

definition mountMountPointVolume :: "node_env \<Rightarrow> NodePublishVolumeRequest \<Rightarrow> unit node_call" where
  "mountMountPointVolume env req =
     (let targetPath = npr_TargetPath req;
          sourcePath = str_at (npr_VolumeContext req) ''MountPoint''
      in if sourcePath = []
         then o_err (''mountMountPointVolume: sourcePath of volume '' @ npr_VolumeId req @ '' is empty'')
         else o_then (\<lambda>err. ''mountMountPointVolume: check if targetPath '' @ targetPath @ '' is mounted: '' @ err)
                (node_IsLikelyNotMountPoint env targetPath) (\<lambda>notmounted.
                if \<not> notmounted then o_ret ()
                else (case GetMount (npr_Capability req) of
                        None \<Rightarrow> o_panic
                      | Some mnt \<Rightarrow>
                          (let options = mv_MountFlags mnt @ [''bind''] @ (if npr_Readonly req then [''ro''] else []);
                               fsType = (if mv_FsType mnt \<noteq> [] then mv_FsType mnt else ''ext4'')
                           in o_then (\<lambda>err. ''mountMountPointVolume: fail to mount '' @ sourcePath @ '' to '' @ targetPath @ '': '' @ err)
                                (o_act (Mount sourcePath targetPath fsType options)
                                   (\<lambda>log. no_error (mount_at (ne_H env) log sourcePath targetPath fsType options)))
                                (\<lambda>_. o_ret ())))))"

section \<open>Throttling\<close>

text \<open>Bytes and operations per second, when one of them is asked for.\<close>

definition requireThrottleIO :: "node_env \<Rightarrow> string gomap \<Rightarrow> (bool \<times> int64 \<times> int64) result" where
  "requireThrottleIO env context =
     (let bps = map_of context ''bps''; iops = map_of context ''iops''
      in if bps = None \<and> iops = None then Inr (False, 0, 0)
         else (case (case bps of
                       None \<Rightarrow> Inr 0
                     | Some b \<Rightarrow> (case ParseQuantity (ne_K env) b of None \<Rightarrow> Inl (ne_quantity_error env b) | Some n \<Rightarrow> Inr n)) of
                 Inl err \<Rightarrow> Inl err
               | Inr bpsValue \<Rightarrow>
                   (case (case iops of None \<Rightarrow> Inr 0 | Some i \<Rightarrow> ParseInt64 i) of
                      Inl err \<Rightarrow> Inl err
                    | Inr iopsValue \<Rightarrow> Inr (True, bpsValue, iopsValue))))"

end
