(* ===== verification/Node_Server.thy ===== *)
theory Node_Server
  imports Node_Volumes
begin

text \<open>
  The RPCs of the CSI node service, \<open>pkg/csi/nodeserver.go\<close>. An error that is not a gRPC status reaches the
  caller as one of code \<open>Unknown\<close>.
\<close>

abbreviation unknown :: "string \<Rightarrow> grpc_status" where "unknown err \<equiv> (Unknown, err)"

section \<open>Direct volumes\<close>

definition addDirectVolume :: "node_env \<Rightarrow> string \<Rightarrow> string \<Rightarrow> string \<Rightarrow> unit node_call" where
  "addDirectVolume env volumePath device fsType =
     o_then (\<lambda>err. internal (''add direct volume failed: '' @ err))
       (o_act (DirectAdd volumePath device fsType) (\<lambda>log. no_error (direct_add (ne_H env) log volumePath device fsType)))
       (\<lambda>_. o_ret ())"

definition removeDirectVolume :: "node_env \<Rightarrow> string \<Rightarrow> unit node_call" where
  "removeDirectVolume env path = o_act (DirectRemove path) (\<lambda>log. no_error (direct_remove (ne_H env) log path))"

definition mountBlockDevice :: "node_env \<Rightarrow> string \<Rightarrow> string \<Rightarrow> unit node_call" where
  "mountBlockDevice env device targetPath =
     o_then (\<lambda>err. internal (''check if '' @ targetPath @ '' is mounted failed: '' @ err))
       (node_IsLikelyNotMountPoint env targetPath) (\<lambda>notMounted.
       if \<not> notMounted then o_ret ()
       else o_try (node_MountBlock env device targetPath [''bind'']) (\<lambda>r. case r of
              Inl err \<Rightarrow>
                remove_target env (\<lambda>e. internal (''Could not remove mount target '' @ go_Quote targetPath @ '': '' @ e)) targetPath
                  (internal (''Could not mount block '' @ device @ '' at '' @ targetPath @ '': '' @ err))
            | Inr _ \<Rightarrow> o_ret ()))"

text \<open>The clean-up of a failed request: the ephemeral volume goes, its entry in the store stays.\<close>

definition direct_cleanup :: "node_env \<Rightarrow> (string \<Rightarrow> unit node_call) \<Rightarrow> string \<Rightarrow> string \<Rightarrow> unit node_call" where
  "direct_cleanup env remove volumeID targetPath =
     o_try (store_GetDevice volumeID) (\<lambda>r.
       o_try (case r of
                Inr (Some device) \<Rightarrow> if device \<noteq> [] then remove device else o_ret ()
              | _ \<Rightarrow> o_ret ()) (\<lambda>_.
         o_try (removeDirectVolume env targetPath) (\<lambda>_. o_ret ())))"

definition wants_mount :: "NodePublishVolumeRequest \<Rightarrow> string \<Rightarrow> bool" where
  "wants_mount req volumeType =
     (volumeType = VolumeTypeMountPoint \<or> (case npr_Capability req of Some (Access_Mount _) \<Rightarrow> True | _ \<Rightarrow> False))"

definition direct_device :: "node_env \<Rightarrow> NodePublishVolumeRequest \<Rightarrow> string \<Rightarrow> string node_call" where
  "direct_device env req volumeType =
     (if volumeType \<noteq> VolumeTypeLVM
      then (case ctx req VolumeTypeKey of
              Some value \<Rightarrow> o_ret value
            | None \<Rightarrow> o_err (internal ''publishDirectVolume: source device is empty''))
      else o_then (\<lambda>err. internal (''publishDirectVolume - create logical volume failed: '' @ err)) (createLV env req)
             (\<lambda>(device, _).
               if is_ephemeral (npr_VolumeContext req)
               then o_try (store_AddVolume env (npr_VolumeId req) device) (\<lambda>_. o_ret device)
               else o_ret device))"

definition publishDirectVolume :: "node_env \<Rightarrow> NodePublishVolumeRequest \<Rightarrow> string \<Rightarrow> unit node_call" where
  "publishDirectVolume env req volumeType =
     o_on_error
       (o_then (\<lambda>err. err) (direct_device env req volumeType) (\<lambda>device.
          if wants_mount req volumeType
          then (case mount_fs req of
                  None \<Rightarrow> o_panic
                | Some fsType \<Rightarrow>
                    o_then (\<lambda>err. internal (''addDirectVolume failed: '' @ err))
                      (addDirectVolume env (npr_TargetPath req) device fsType) (\<lambda>_.
                      o_then (\<lambda>err. internal (''FormatBlockDevice failed: '' @ err))
                        (on_node (FormatBlockDevice (the_spdk env) device fsType)) (\<lambda>_. o_ret ())))
          else o_then (\<lambda>err. internal (''mountBlockDevice failed: '' @ err))
                 (mountBlockDevice env device (npr_TargetPath req)) (\<lambda>_. o_ret ())))
       (direct_cleanup env (removeLVMByDevicePath env) (npr_VolumeId req) (npr_TargetPath req))"

text \<open>The device and the block device behind it; a volume that is not LVM need not name one.\<close>

definition spdk_device :: "node_env \<Rightarrow> NodePublishVolumeRequest \<Rightarrow> string \<Rightarrow> (string \<times> string) node_call" where
  "spdk_device env req volumeType =
     (let sp = the_spdk env
      in if volumeType = VolumeTypeLVM
         then o_then (\<lambda>err. internal (''NodePublishVolume - create logical volume failed: '' @ err)) (createLV env req) o_ret
         else (case ctx req VolumeTypeDevice of
                 None \<Rightarrow> o_ret ([], [])
               | Some sourceDevice \<Rightarrow>
                   (let bdevName = bdev_aio_name sourceDevice
                    in o_then (\<lambda>err. internal (''create bdev failed: '' @ err)) (on_node (CreateBdev sp bdevName sourceDevice)) (\<lambda>_.
                         o_try (on_node (vhost_for sp bdevName)) (\<lambda>r. case r of
                           Inl err \<Rightarrow> o_try (on_node (DeleteBdev sp bdevName))
                                         (\<lambda>_. o_err (internal (''create vhost device failed: '' @ err)))
                         | Inr device \<Rightarrow>
                             if is_ephemeral (npr_VolumeContext req)
                             then o_try (store_AddVolume env (npr_VolumeId req) bdevName) (\<lambda>r. case r of
                                    Inl err \<Rightarrow> o_try (on_node (CleanBdev sp bdevName)) (\<lambda>cl.
                                      o_err (internal (''fail to add volume: '' @ err)))
                                  | Inr _ \<Rightarrow> o_ret (device, bdevName))
                             else o_ret (device, bdevName))))))"

definition publishSpdkVolume :: "node_env \<Rightarrow> NodePublishVolumeRequest \<Rightarrow> string \<Rightarrow> unit node_call" where
  "publishSpdkVolume env req volumeType =
     (let targetPath = npr_TargetPath req; mount = wants_mount req volumeType
      in o_on_error
           (o_then (\<lambda>err. err) (spdk_device env req volumeType) (\<lambda>(device, bdevName).
              case (if mount then mount_fs req else Some DefaultFs) of
                None \<Rightarrow> o_panic
              | Some fsType \<Rightarrow>
                  o_then (\<lambda>err. err)
                    (if mount
                     then o_then (\<lambda>err. internal (''addDirectVolume failed: '' @ err))
                            (addDirectVolume env targetPath device fsType) (\<lambda>_. o_ret ())
                     else o_ret ()) (\<lambda>_.
                    if mount \<and> bdevName \<noteq> []
                    then o_then (\<lambda>err. err) (on_node (MakeFs (the_spdk env) bdevName fsType)) (\<lambda>ok.
                           if \<not> ok then o_err (internal ''MakeFs failed'') else o_ret ())
                    else o_then (\<lambda>err. internal (''GenerateDeviceTempBackingFile failed: '' @ err))
                           (on_node (GenerateDeviceTempBackingFile (the_spdk env) device)) (\<lambda>loop.
                           o_then (\<lambda>err. internal (''mountBlockDevice failed: '' @ err))
                             (mountBlockDevice env loop targetPath) (\<lambda>_. o_ret ())))))
           (direct_cleanup env (\<lambda>bdev. on_node (CleanBdev (the_spdk env) bdev)) (npr_VolumeId req) targetPath))"

section \<open>Throttling\<close>

text \<open>The last pod of the namespace with the UID; a pod that is not found has no QOS class.\<close>

definition qos_of :: "(string \<times> string) list \<Rightarrow> string \<Rightarrow> string" where
  "qos_of pods podUID = fold (\<lambda>(uid, qos) q. if uid = podUID then qos else q) pods []"

text \<open>The element of the target path that is the pod's UID; a path that has too few panics.\<close>

definition pod_uid_of :: "access_type option \<Rightarrow> string \<Rightarrow> string option" where
  "pod_uid_of cap targetPath =
     (let parts = go_Split (CHR ''/'') targetPath;
          part = (\<lambda>i. if i < length parts then Some (parts ! i) else None)
      in (case cap of
            None \<Rightarrow> Some []
          | Some Access_Block \<Rightarrow> part 10
          | Some (Access_Mount _) \<Rightarrow> part 5))"

definition blkio_path :: "node_env \<Rightarrow> string \<Rightarrow> string \<Rightarrow> string" where
  "blkio_path env qosClass podUID =
     (let f = SetupCgroupPathFormatter (ne_cgroup env)
      in ne_sysPath env @ ''/fs/cgroup/blkio/'' @ ParentDir f @ QOSDirFn f qosClass @ PodDirFn f qosClass podUID)"

definition throttle_command :: "uint64 \<Rightarrow> int64 \<Rightarrow> string \<Rightarrow> string" where
  "throttle_command dev limit file =
     ''echo '' @ dec (unat dev div 256) @ '':'' @ dec (unat dev mod 256) @ '' '' @ sdec limit @ '' > '' @ file"

text \<open>Writing a limit to one file after the other.\<close>

fun write_limits :: "node_env \<Rightarrow> string \<Rightarrow> (string \<times> string) list \<Rightarrow> unit node_rpc" where
  "write_limits env path [] = o_ret ()"
| "write_limits env path ((cmd, file) # cmds) =
     o_try (on_node (sh (the_spdk env) cmd)) (\<lambda>r. case r of
       Inl err \<Rightarrow> o_err (unknown err)
     | Inr (out, Some err) \<Rightarrow> o_err (Internal, ''failed to write blkio file '' @ path @ file @ '': '' @ err)
     | Inr (out, None) \<Rightarrow> write_limits env path cmds)"

abbreviation "read_iops \<equiv> ''blkio.throttle.read_iops_device''"
abbreviation "write_iops \<equiv> ''blkio.throttle.write_iops_device''"
abbreviation "read_bps \<equiv> ''blkio.throttle.read_bps_device''"
abbreviation "write_bps \<equiv> ''blkio.throttle.write_bps_device''"

definition limit_commands :: "string \<Rightarrow> uint64 \<Rightarrow> int64 \<Rightarrow> int64 \<Rightarrow> (string \<times> string) list" where
  "limit_commands path dev bps iops =
     (if 0 <s iops
      then [(throttle_command dev iops (path @ ''/'' @ read_iops), read_iops),
            (throttle_command dev iops (path @ write_iops), write_iops)] else []) @
     (if 0 <s bps
      then [(throttle_command dev bps (path @ read_bps), read_bps),
            (throttle_command dev bps (path @ write_bps), write_bps)] else [])"

definition setIOThrottling :: "node_env \<Rightarrow> NodePublishVolumeRequest \<Rightarrow> unit node_rpc" where
  "setIOThrottling env req =
     (case requireThrottleIO env (npr_VolumeContext req) of
        Inl err \<Rightarrow> o_err (unknown err)
      | Inr (containsValue, bps, iops) \<Rightarrow>
          if \<not> containsValue then o_ret ()
          else (case pod_uid_of (npr_Capability req) (npr_TargetPath req) of
                  None \<Rightarrow> o_panic
                | Some podUID \<Rightarrow>
                    (case ne_pods env (str_at (npr_VolumeContext req) key_PVCNameSpace) of
                       (pods, Some err) \<Rightarrow> o_err (Internal, ''NodePublishVolume: failed to get pod(uuid: '' @ podUID @ ''): '' @ err)
                     | (pods, None) \<Rightarrow>
                         (let path = blkio_path env (qos_of pods podUID) podUID
                          in o_then (\<lambda>err. (Internal, ''failed to get lv path '' @ npr_VolumeId req @ '': '' @ err))
                               (createLV env req) (\<lambda>(lvpath, _).
                               o_then unknown (o_act (Rdev lvpath) (\<lambda>log. Inr (rdev (ne_H env) log lvpath))) (\<lambda>dev.
                                 write_limits env path (limit_commands path dev bps iops)))))))"

section \<open>Publishing\<close>

definition volume_type_of :: "NodePublishVolumeRequest \<Rightarrow> string" where
  "volume_type_of req =
     (if is_ephemeral (npr_VolumeContext req) then VolumeTypeLVM else str_at (npr_VolumeContext req) VolumeTypeKey)"

definition is_direct :: "NodePublishVolumeRequest \<Rightarrow> bool" where
  "is_direct req = (case ctx req ''direct'' of Some val \<Rightarrow> ParseBool val = Some True | None \<Rightarrow> False)"

definition publish_mounted :: "node_env \<Rightarrow> NodePublishVolumeRequest \<Rightarrow> unit node_rpc" where
  "publish_mounted env req =
     (let volumeID = npr_VolumeId req; targetPath = npr_TargetPath req; volumeType = volume_type_of req;
          failed = (\<lambda>part what err. (Internal, ''NodePublishVolume'' @ part @ '': fail to mount '' @ what @ '' volume '' @ volumeID @
                      '' with path '' @ targetPath @ '': '' @ err))
      in if volumeType = VolumeTypeLVM
         then o_then id
                (case npr_Capability req of
                   Some Access_Block \<Rightarrow> o_then (failed ''(mountLvmBlock)'' ''lvm'') (mountLvmBlock env req) o_ret
                 | Some (Access_Mount _) \<Rightarrow> o_then (failed ''(mountLvmFS)'' ''lvm'') (mountLvmFS env req) o_ret
                 | None \<Rightarrow> o_ret ())
                (\<lambda>_. setIOThrottling env req)
         else if volumeType = VolumeTypeMountPoint
         then o_then (failed [] ''mountpoint'') (mountMountPointVolume env req) o_ret
         else if volumeType = VolumeTypeDevice
         then (case npr_Capability req of
                 Some Access_Block \<Rightarrow> o_then (failed ''(Block)'' ''device'') (mountDeviceVolumeBlock env req) o_ret
               | Some (Access_Mount _) \<Rightarrow> o_then (failed ''(FileSystem)'' ''device'') (mountDeviceVolumeFS env req) o_ret
               | None \<Rightarrow> o_ret ())
         else o_err (Internal, ''NodePublishVolume: unsupported volume '' @ volumeID @ '' with type '' @ volumeType))"

definition publish_direct :: "node_env \<Rightarrow> NodePublishVolumeRequest \<Rightarrow> unit node_rpc" where
  "publish_direct env req =
     (let volumeType = volume_type_of req
      in if volumeType = VolumeTypeMountPoint \<or> volumeType = VolumeTypeDevice
         then o_err (InvalidArgument, ''The volume type should not be '' @ VolumeTypeMountPoint @ '' or '' @ VolumeTypeDevice)
         else o_then (\<lambda>err. (Internal, ''NodePublishVolume: volume '' @ npr_VolumeId req @ '' with error: '' @ err))
                (if ne_spdk env then publishSpdkVolume env req volumeType else publishDirectVolume env req volumeType)
                o_ret)"

definition NodePublishVolume :: "node_env \<Rightarrow> NodePublishVolumeRequest \<Rightarrow> unit node_rpc" where
  "NodePublishVolume env req =
     (let targetPath = npr_TargetPath req
      in if length (npr_VolumeId req) = 0 then o_err (InvalidArgument, ''NodePublishVolume: Volume ID not provided'')
         else if targetPath = [] then o_err (InvalidArgument, ''NodePublishVolume: targetPath is empty'')
         else if is_ephemeral (npr_VolumeContext req) \<and> ctx req key_VGName = None
         then o_err (InvalidArgument,
                ''NodePublishVolume: must set vgName in volumeAttributes when creating ephemeral local volume'')
         else node_with_inFlight (npr_VolumeId req)
                (if ne_spdk env \<or> is_direct req then publish_direct env req
                 else o_then unknown (o_act (Stat targetPath) (\<lambda>log. Inr (is_missing (ne_H env) log targetPath))) (\<lambda>missing.
                        if missing
                        then o_then (\<lambda>err. unknown (''mountLvmFS: fail to mkdir target path '' @ targetPath @ '': '' @ err))
                               (o_act (MkdirAll targetPath) (\<lambda>log. no_error (mkdir_all (ne_H env) log targetPath)))
                               (\<lambda>_. publish_mounted env req)
                        else publish_mounted env req)))"

section \<open>Unpublishing\<close>

definition remove_ephemeral :: "node_env \<Rightarrow> string \<Rightarrow> unit node_rpc" where
  "remove_ephemeral env volumeID =
     o_then unknown (store_GetDevice volumeID) (\<lambda>ephemeralDevice.
       case ephemeralDevice of
         None \<Rightarrow> o_ret ()
       | Some device \<Rightarrow>
           if device = [] then o_ret ()
           else o_then (\<lambda>err. (Internal, ''NodeUnpublishVolume: fail to remove ephemeral volume: '' @ err))
                  (if ne_spdk env then on_node (CleanBdev (the_spdk env) device) else removeLVMByDevicePath env device) (\<lambda>_.
                  o_try (store_DeleteVolume env volumeID) (\<lambda>_. o_ret ())))"

definition NodeUnpublishVolume :: "node_env \<Rightarrow> string \<Rightarrow> string \<Rightarrow> unit node_rpc" where
  "NodeUnpublishVolume env volumeID targetPath =
     (if length volumeID = 0 then o_err (InvalidArgument, ''NodeUnpublishVolume: Volume ID not provided'')
      else if targetPath = [] then o_err (Internal, ''NodeUnpublishVolume: targetPath is empty'')
      else node_with_inFlight volumeID
             (o_try (if ne_spdk env then removeDirectVolume env targetPath else o_ret ()) (\<lambda>_.
                o_then (\<lambda>err. (Internal, ''NodeUnpublishVolume: fail to umount volume '' @ volumeID @ '' for path '' @
                          targetPath @ '': '' @ err))
                  (o_act (CleanupMountPoint targetPath) (\<lambda>log. no_error (cleanup_mount (ne_H env) log targetPath))) (\<lambda>_.
                  remove_ephemeral env volumeID))))"

section \<open>The other requests\<close>

definition NodeStageVolume :: "unit node_rpc" where "NodeStageVolume = o_ret ()"
definition NodeUnstageVolume :: "unit node_rpc" where "NodeUnstageVolume = o_ret ()"

definition resizeVolume :: "node_env \<Rightarrow> string \<Rightarrow> string \<Rightarrow> unit node_call" where
  "resizeVolume env volumeID targetPath =
     (case getPvInfo env volumeID of
        Inl err \<Rightarrow> o_err err
      | Inr (_, _, pv) \<Rightarrow>
          (case pv_CSI pv of
             None \<Rightarrow> o_err (internal (''resizeVolume: local volume get pv info error '' @ volumeID))
           | Some csi \<Rightarrow>
               (let volumeType = (case map_of (csi_VolumeAttributes csi) VolumeTypeKey of Some v \<Rightarrow> v | None \<Rightarrow> VolumeTypeLVM)
                in if volumeType \<noteq> VolumeTypeLVM then o_ret ()
                   else (let vgName = GetVGNameFromCsiPV (ne_K env) pv;
                             devicePath = filepath_Join [''/dev'', vgName, volumeID];
                             info = '', volumeId: '' @ volumeID @ '', devicePath: '' @ devicePath @ '', volumePath: '' @ targetPath
                         in if vgName = [] then o_err (internal (''resizeVolume: Volume '' @ pv_Name pv @ '' with vgname empty''))
                            else o_then (\<lambda>err. ''NodeExpandVolume: Lvm Resize Error'' @ info @ '', err: '' @ err)
                                   (o_act (ResizeFS devicePath targetPath) (\<lambda>log. resize_fs (ne_H env) log devicePath targetPath))
                                   (\<lambda>ok. if \<not> ok then o_err (internal (''NodeExpandVolume:: Lvm Resize failed'' @ info))
                                         else o_ret ())))))"

text \<open>The capacity range may be missing, and is read before the file system is resized.\<close>

definition NodeExpandVolume :: "node_env \<Rightarrow> string \<Rightarrow> string \<Rightarrow> int64 option \<Rightarrow> unit node_rpc" where
  "NodeExpandVolume env volumeID targetPath capacityRange =
     (if length volumeID = 0 then o_err (InvalidArgument, ''NodeExpandVolume: Volume ID not provided'')
      else if length targetPath = 0 then o_err (InvalidArgument, ''NodeExpandVolume: Target path not provided'')
      else (case capacityRange of
              None \<Rightarrow> o_panic
            | Some expectSize \<Rightarrow>
                if \<not> ne_spdk env
                then o_then (\<lambda>err. (Internal, ''NodeExpandVolume: Resize local volume '' @ volumeID @ '' with error: '' @ err))
                       (resizeVolume env volumeID targetPath) o_ret
                else o_ret ()))"

datatype node_capability = STAGE_UNSTAGE_VOLUME | EXPAND_VOLUME | GET_VOLUME_STATS

definition NodeCaps :: "node_capability list" where
  "NodeCaps = [STAGE_UNSTAGE_VOLUME, EXPAND_VOLUME, GET_VOLUME_STATS]"

definition NodeGetCapabilities :: "node_capability list node_rpc" where
  "NodeGetCapabilities = o_ret NodeCaps"

text \<open>The node's name, its topology, how many volumes it takes.\<close>

definition NodeGetInfo :: "node_env \<Rightarrow> (string \<times> string gomap \<times> int64) node_rpc" where
  "NodeGetInfo env = o_ret (ne_nodeID env, [(KubernetesNodeIdentityKey, ne_nodeID env)], ne_maxVolumes env)"

record volume_usage =
  vu_Available :: int64
  vu_Total :: int64
  vu_Used :: int64

definition FsInfo :: "node_env \<Rightarrow> string \<Rightarrow> (int64 \<times> int64 \<times> int64 \<times> int64 \<times> int64 \<times> int64) result" where
  "FsInfo env path =
     (case ne_statfs env path of
        Inl err \<Rightarrow> Inl err
      | Inr (Bavail, Bsize, Blocks, Bfree, Files, Ffree) \<Rightarrow>
          Inr (Bavail * Bsize, Blocks * Bsize, (Blocks - Bfree) * Bsize, Files, Ffree, Files - Ffree))"

text \<open>Bytes, then inodes.\<close>

definition GetMetrics :: "node_env \<Rightarrow> string \<Rightarrow> volume_usage list result" where
  "GetMetrics env path =
     (if path = [] then Inl ''getMetrics No path given''
      else (case FsInfo env path of
              Inl err \<Rightarrow> Inl err
            | Inr (available, capacity, usage, inodes, inodesFree, inodesUsed) \<Rightarrow>
                Inr [\<lparr>vu_Available = available, vu_Total = capacity, vu_Used = usage\<rparr>,
                     \<lparr>vu_Available = inodesFree, vu_Total = inodes, vu_Used = inodesUsed\<rparr>]))"

definition NodeGetVolumeStats :: "node_env \<Rightarrow> string \<Rightarrow> volume_usage list node_rpc" where
  "NodeGetVolumeStats env targetPath =
     (if targetPath = []
      then o_err (InvalidArgument, ''NodeGetVolumeStats target local path '' @ targetPath @ '' is empty'')
      else (case GetMetrics env targetPath of Inl err \<Rightarrow> o_err (unknown err) | Inr r \<Rightarrow> o_ret r))"

end
