(* ===== verification/Node_Frame.thy ===== *)
theory Node_Frame
  imports Node_Server State_Frame
begin

text \<open>
  What the requests of the node service add to the list of actions. A target path is only mounted on, and data
  only restored to it, when the machine said it was not a mount point yet; everything else is free. The locale's
  parameter is the set of actions that may be added: each of its interpretations gives one property of every
  request.
\<close>

section \<open>Running an operation\<close>

definition appends :: "(action \<Rightarrow> bool) \<Rightarrow> action list \<Rightarrow> action list \<Rightarrow> bool" where
  "appends P l l' \<longleftrightarrow> (\<exists>as. l' = l @ as \<and> list_all P as)"

interpretation app: frame "appends P" for P
  by unfold_locales (auto simp: appends_def)

lemma run_o_ret [handler_simps]: "run_state (o_ret x) w = (Some (Inr x), w)"
  by (simp add: o_ret_def handler_simps)

lemma run_o_err [handler_simps]: "run_state (o_err e) w = (Some (Inl e), w)"
  by (simp add: o_err_def handler_simps)

lemma run_o_panic [handler_simps]: "run_state o_panic w = (None, w)"
  by (simp add: o_panic_def handler_simps)

lemma run_o_try [handler_simps]:
  "run_state (o_try m k) w = (case run_state m w of (None, w) \<Rightarrow> (None, w) | (Some res, w) \<Rightarrow> run_state (k res) w)"
  by (auto simp: o_try_def run_hbind handler_simps split: prod.splits option.splits)

lemma run_o_then [handler_simps]:
  "run_state (o_then wrap m k) w =
     (case run_state m w of
        (None, w) \<Rightarrow> (None, w) | (Some (Inl e), w) \<Rightarrow> (Some (Inl (wrap e)), w) | (Some (Inr x), w) \<Rightarrow> run_state (k x) w)"
  by (auto simp: o_then_def handler_simps split: prod.splits option.splits sum.splits)

lemma run_o_act [handler_simps]:
  "run_state (o_act a r) w = (Some (r (nw_log w)), w\<lparr>nw_log := nw_log w @ [a]\<rparr>)"
  by (simp add: o_act_def on_node_def c_act_def act_def)

lemma run_on_node [handler_simps]:
  "run_state (on_node m) w = (case run_state m (nw_log w) of (r, l) \<Rightarrow> (r, w\<lparr>nw_log := l\<rparr>))"
  by (simp add: on_node_def)

lemma run_on_daemon [handler_simps]:
  "run_state (on_daemon m) w = (case run_state m (nw_log w) of (r, l) \<Rightarrow> (Some r, w\<lparr>nw_log := l\<rparr>))"
  by (simp add: on_daemon_def handler_simps run_hbind split: prod.split)

lemma run_put_volumes [handler_simps]:
  "run_state (put_volumes env f) w =
     (Some (no_error (save_volumes (ne_H env) (nw_log w) (f (nw_volumes w)))),
      w\<lparr>nw_volumes := f (nw_volumes w), nw_log := nw_log w @ [SaveVolumes (f (nw_volumes w))]\<rparr>)"
  by (simp add: put_volumes_def Let_def)

lemma run_GetDevice [handler_simps]: "run_state (store_GetDevice v) w = (Some (Inr (map_of (nw_volumes w) v)), w)"
  by (simp add: store_GetDevice_def)

lemma run_node_with_inFlight:
  "run_state (node_with_inFlight key body) w =
     (if map_of (nw_inFlight w) key \<noteq> None then (Some (Inl (Aborted, already_exists key)), w)
      else (case run_state body (w\<lparr>nw_inFlight := AList.update key () (nw_inFlight w)\<rparr>) of
              (r, w) \<Rightarrow> (r, w\<lparr>nw_inFlight := AList.delete key (nw_inFlight w)\<rparr>)))"
  by (auto simp: node_with_inFlight_def run_hbind handler_simps split: prod.splits)

section \<open>Calls of the SPDK process\<close>

lemma call_act: "P a \<Longrightarrow> keeps (appends P) (c_act a r)"
  by (auto simp: keeps_def c_act_def act_def appends_def)

lemma call_ends: "keeps (appends P) (c_ret x)" "keeps (appends P) (c_err err)" "keeps (appends P) c_stuck"
  by (simp_all add: c_ret_def c_err_def c_stuck_def app.keeps_return)

lemma call_try: "keeps (appends P) m \<Longrightarrow> (\<And>r. keeps (appends P) (k r)) \<Longrightarrow> keeps (appends P) (c_try m k)"
  unfolding c_try_def by (intro app.keeps_bind) (auto split: option.splits intro: call_ends)

lemma call_then: "keeps (appends P) m \<Longrightarrow> (\<And>x. keeps (appends P) (k x)) \<Longrightarrow> keeps (appends P) (c_then m k)"
  unfolding c_then_def by (intro call_try) (auto split: sum.splits intro: call_ends)

lemma call_assert: "(\<And>x. keeps (appends P) (k x)) \<Longrightarrow> keeps (appends P) (c_assert v k)"
  by (simp add: c_assert_def call_ends split: option.split)

lemma act_sh: "P (Sh cmd) \<Longrightarrow> keeps (appends P) (sh sp cmd)"
  by (auto simp: keeps_def sh_def act_def appends_def)

locale calls =
  fixes P :: "action \<Rightarrow> bool"
  assumes spdk: "P Dial" "P (Rpc method params)" "P (Sh cmd)" "P (Stat path)" "P (Remove path)" "P (ReadDir path)"
    "P (FindDevice path)" "P (DiskFormat path)" "P (Rdev path)"
begin

lemma call_sh: "keeps (appends P) (sh sp cmd)"
  by (simp add: act_sh spdk)

lemmas call_intros = call_act call_ends call_try call_then call_assert call_sh app.keeps_bind app.keeps_read

lemma call_request: "keeps (appends P) (Connect sp)" "keeps (appends P) (rpc_text sp method params)"
  "keeps (appends P) (request sp method params)" "keeps (appends P) (request_unit sp method params)"
  "keeps (appends P) (GetBdevs sp)" "keeps (appends P) (GetVhostControllers sp)"
  by (auto simp: Connect_def rpc_text_def request_def request_unit_def GetBdevs_def GetVhostControllers_def spdk
      intro!: call_intros)

lemma call_read_minors: "keeps (appends P) (read_minors sp dir files minors)"
  by (induction files arbitrary: minors) (auto simp: Let_def spdk intro!: call_intros)

lemma call_devices: "keeps (appends P) (DeleteVhostDevice sp name)" "keeps (appends P) (FindVhostDevice sp b)"
  "keeps (appends P) (getMinor sp dir)" "keeps (appends P) (CreateBdev sp b f)" "keeps (appends P) (DeleteBdev sp b)"
  "keeps (appends P) (DeleteLV sp b)"
  by (auto simp: DeleteVhostDevice_def FindVhostDevice_def getMinor_def CreateBdev_def DeleteBdev_def DeleteLV_def Let_def spdk
      intro!: call_intros call_request call_read_minors)

lemma call_CreateVhostDevice: "keeps (appends P) (CreateVhostDevice sp c b)"
  by (auto simp: CreateVhostDevice_def Let_def spdk split: sum.split option.split intro!: call_intros call_request call_devices)

lemma call_vhost_for: "keeps (appends P) (vhost_for sp b)"
  by (auto simp: vhost_for_def Let_def intro!: call_intros call_devices call_CreateVhostDevice)

lemma call_CleanBdev: "keeps (appends P) (CleanBdev sp b)"
  by (auto simp: CleanBdev_def split: option.split intro!: call_intros call_request call_devices)

lemma call_CreateLV: "keeps (appends P) (spdk_CreateLV sp lvs lv sz)"
  by (auto simp: spdk_CreateLV_def split: option.split intro!: call_intros call_request)

lemma call_loop_device: "keeps (appends P) (getLoopDeviceFromSysfs sp path)"
proof -
  have "keeps (appends P) (loop_device sp path realPath devices)" for realPath devices
    by (induction devices) (auto simp: loop_device.simps(2) Let_def spdk split: sum.split intro!: call_intros)
  then show ?thesis by (auto simp: getLoopDeviceFromSysfs_def spdk split: sum.split intro!: call_intros)
qed

lemma call_backing_file: "keeps (appends P) (GenerateDeviceTempBackingFile sp dev)"
  by (auto simp: GenerateDeviceTempBackingFile_def Let_def spdk split: option.split intro!: call_intros call_loop_device)

lemma call_FormatBlockDevice: "keeps (appends P) (FormatBlockDevice sp dev fs)"
  by (auto simp: FormatBlockDevice_def spdk split: option.split intro!: call_intros)

lemma call_wait: "keeps (appends P) (wait_for_device sp p n)"
  by (induction n; subst wait_for_device.simps) (auto simp: spdk split: list.split intro!: call_intros)

lemma call_iscsi: "keeps (appends P) (run_iscsiadm sp cmd)" "keeps (appends P) (iscsi_connect sp portal target)"
  "keeps (appends P) (iscsi_disconnect sp portal target)" "keeps (appends P) (iscsiDeletePortalGroup sp)"
  by (auto simp: spdk run_iscsiadm_def iscsi_connect_def iscsi_disconnect_def iscsiDeletePortalGroup_def
      split: option.split intro!: call_intros call_request call_wait)

lemma call_stage:
  "keeps (appends P) up \<Longrightarrow> keeps (appends P) body \<Longrightarrow> keeps (appends P) down \<Longrightarrow> keeps (appends P) (stage up body down)"
  by (auto simp: stage_def split: sum.split intro!: call_intros)

lemma call_MakeFs: "keeps (appends P) (MakeFs sp b fs)"
  by (auto simp: MakeFs_def Let_def iscsiCreateInitiatorGroup_def iscsiDeleteInitiatorGroup_def iscsiCreatePortalGroup_def
      iscsiCreateTargetNode_def iscsiDeleteTargetNode_def
      split: sum.split intro!: call_intros call_stage call_request call_iscsi call_FormatBlockDevice)

end

section \<open>Operations of the service\<close>

text \<open>The target an action needs to be unmounted.\<close>

fun touches :: "action \<Rightarrow> string option" where
  "touches (FormatAndMount dev target fsType opts) = Some target"
| "touches (Mount source target fsType opts) = Some target"
| "touches (MountBlock source target opts) = Some target"
| "touches (EnsureBlock target) = Some target"
| "touches (RestoreData repository target tag) = Some target"
| "touches _ = None"

definition adds :: "(action \<Rightarrow> bool) \<Rightarrow> node_world \<Rightarrow> node_world \<Rightarrow> bool" where
  "adds P w w' \<longleftrightarrow> appends P (nw_log w) (nw_log w') \<and> nw_inFlight w' = nw_inFlight w"

interpretation add: frame "adds P" for P
  by unfold_locales (auto simp: adds_def intro: app.same app.steps)

text \<open>What holds for any relation that is kept step by step.\<close>

locale op_frame = frame R for R :: "node_world \<Rightarrow> node_world \<Rightarrow> bool"
begin

abbreviation kept :: "('e, 'a) op \<Rightarrow> bool" where "kept m \<equiv> keeps R m"

lemma k_ends: "kept (o_ret x)" "kept (o_err e)" "kept o_panic"
  by (simp_all add: o_ret_def o_err_def o_panic_def keeps_return)

lemma k_try: "kept m \<Longrightarrow> (\<And>r. kept (k r)) \<Longrightarrow> kept (o_try m k)"
  unfolding o_try_def by (intro keeps_bind) (auto split: option.splits intro: k_ends)

lemma k_then: "kept m \<Longrightarrow> (\<And>x. kept (k x)) \<Longrightarrow> kept (o_then wrap m k)"
  unfolding o_then_def by (intro k_try) (auto split: sum.splits intro: k_ends)

lemma k_on_error: "kept m \<Longrightarrow> kept c \<Longrightarrow> kept (o_on_error m c)"
  unfolding o_on_error_def by (intro k_try) (auto split: sum.splits intro: k_ends k_try)

lemma k_if: "(b \<Longrightarrow> kept m) \<Longrightarrow> (\<not> b \<Longrightarrow> kept m') \<Longrightarrow> kept (if b then m else m')"
  by simp

lemma k_sum: "(\<And>e. r = Inl e \<Longrightarrow> kept (f e)) \<Longrightarrow> (\<And>x. r = Inr x \<Longrightarrow> kept (g x)) \<Longrightarrow> kept (case_sum f g r)"
  by (simp split: sum.split)

lemma k_option: "(r = None \<Longrightarrow> kept m) \<Longrightarrow> (\<And>x. r = Some x \<Longrightarrow> kept (g x)) \<Longrightarrow> kept (case_option m g r)"
  by (simp split: option.split)

lemma k_prod: "(\<And>x y. r = (x, y) \<Longrightarrow> kept (g x y)) \<Longrightarrow> kept (case_prod g r)"
  by (simp split: prod.split)

lemmas k_cases = k_if k_sum k_option k_prod

lemmas k_flow = k_cases k_ends k_try k_then k_on_error

end

locale node_steps =
  fixes env :: node_env and P :: "action \<Rightarrow> bool"
  assumes free: "touches a = None \<Longrightarrow> P a"
    and unmounted: "likely_unmounted (ne_H env) hist target = Inr True \<Longrightarrow> touches a = Some target \<Longrightarrow> P a"

sublocale node_steps \<subseteq> calls P
  by unfold_locales (simp_all add: free)

sublocale node_steps \<subseteq> op_frame "adds P"
  by unfold_locales

context node_steps begin

lemma k_on_node: "keeps (appends P) m \<Longrightarrow> kept (on_node m)"
  unfolding keeps_def adds_def by (auto simp: handler_simps split: prod.split) (metis snd_conv)

lemma k_act: "P a \<Longrightarrow> kept (o_act a r)"
  by (simp add: o_act_def k_on_node call_act)

lemma k_store: "kept (put_volumes env f)" "kept (store_AddVolume env v d)" "kept (store_DeleteVolume env v)"
  "kept (store_GetDevice v)"
  by (auto simp: store_AddVolume_def store_DeleteVolume_def keeps_def adds_def handler_simps appends_def free)

lemma k_RunCommand: "kept (RunCommand env cmd)"
  by (auto simp: RunCommand_def keeps_def adds_def handler_simps appends_def Run_def act_def free split: prod.split)

lemma k_ListVG: "kept (on_daemon (ListVG H))"
  by (auto simp: keeps_def adds_def handler_simps appends_def ListVG_def attempt_def run_hbind Run_def act_def free
      split: prod.splits sum.splits)

lemma k_restic: "kept (on_daemon (NewResticClient H))"
  by (auto simp: keeps_def adds_def handler_simps NewResticClient_def appends_def)

lemma k_Remove: "kept (node_Remove env path)"
  by (simp add: node_Remove_def k_act free)

lemma k_likely: "kept (node_IsLikelyNotMountPoint env path)"
  by (simp add: node_IsLikelyNotMountPoint_def k_act free)

lemma k_remove_target: "kept (remove_target env r t e)"
  by (auto simp: remove_target_def intro!: k_try k_Remove k_ends split: sum.split)

lemmas k_intros = k_flow k_act k_store k_RunCommand k_ListVG k_restic k_Remove k_likely
  k_remove_target

text \<open>What comes after the machine was asked about a target.\<close>

lemma k_checked:
  assumes "\<And>notMounted. (\<And>a. notMounted \<Longrightarrow> touches a = Some target \<Longrightarrow> P a) \<Longrightarrow> kept (k notMounted)"
  shows "kept (o_then wrap (node_IsLikelyNotMountPoint env target) k)"
  unfolding keeps_def
proof
  fix w :: node_world
  let ?w = "w\<lparr>nw_log := nw_log w @ [IsLikelyNotMountPoint target]\<rparr>"
  have w: "adds P w ?w" by (simp add: adds_def appends_def free)
  show "adds P w (snd (run_state (o_then wrap (node_IsLikelyNotMountPoint env target) k) w))"
  proof (cases "likely_unmounted (ne_H env) (nw_log w) target")
    case (Inr b)
    then have "kept (k b)" by (intro assms) (metis (full_types) unmounted)
    then have "adds P ?w (snd (run_state (k b) ?w))" by (simp add: keeps_def)
    with w Inr show ?thesis by (auto simp: node_IsLikelyNotMountPoint_def handler_simps intro: add.steps)
  qed (use w in \<open>simp add: node_IsLikelyNotMountPoint_def handler_simps\<close>)
qed

subsection \<open>Volumes\<close>

lemma k_createLV: "kept (createLV env req)"
proof -
  have "kept (createVolume env c v vg t)" for c v vg t
    by (auto simp: createVolume_def createLvm_def createSpdkVolume_def getPVNumber_def Let_def
        intro!: k_intros k_on_node call_CreateLV call_vhost_for call_CleanBdev split: sum.split)
  then show ?thesis by (auto simp: createLV_def Let_def free intro!: k_intros split: sum.split)
qed

lemma k_restore:
  assumes "\<And>a. touches a = Some (npr_TargetPath req) \<Longrightarrow> P a"
  shows "kept (restore_backup env req s)"
  by (auto simp: restore_backup_def checkIfRestored_def labelRestored_def Let_def free assms intro!: k_intros split: sum.split)

lemma k_double_check: "kept (double_check env t)"
  by (auto simp: double_check_def free intro!: k_intros)

lemma k_format:
  assumes "\<And>a. touches a = Some (npr_TargetPath req) \<Longrightarrow> P a"
  shows "kept (format_and_restore env req dev)"
  unfolding format_and_restore_def Let_def
  by (auto simp: node_FormatAndMount_def assms intro!: k_intros k_restore k_double_check split: option.split)

lemma k_mountLvmFS: "kept (mountLvmFS env req)"
  unfolding mountLvmFS_def by (auto intro!: k_createLV k_checked k_format k_intros)

lemma k_bind_block:
  assumes "\<And>a. touches a = Some (npr_TargetPath req) \<Longrightarrow> P a"
  shows "kept (bind_block env req r e m dev)"
  unfolding bind_block_def Let_def
  by (auto simp: node_MountBlock_def assms intro!: k_intros split: sum.split)

lemma k_check_block: "kept (check_block env r c t d m)"
  unfolding check_block_def by (auto simp: free intro!: k_intros split: sum.split)

lemma k_blocks: "kept (mountLvmBlock env req)" "kept (mountDeviceVolumeBlock env req)"
  unfolding mountLvmBlock_def mountDeviceVolumeBlock_def Let_def
  by (auto intro!: k_then k_createLV k_check_block k_checked k_bind_block k_ends split: sum.split)

lemma k_devices: "kept (mountDeviceVolumeFS env req)" "kept (mountMountPointVolume env req)"
  unfolding mountDeviceVolumeFS_def mountMountPointVolume_def Let_def
  by (auto simp: node_FormatAndMount_def intro!: k_checked k_then k_act k_ends split: sum.split option.split)

subsection \<open>Requests\<close>

lemma k_cleanup: "(\<And>d. kept (f d)) \<Longrightarrow> kept (direct_cleanup env f v t)"
  unfolding direct_cleanup_def by (auto simp: removeDirectVolume_def free intro!: k_intros split: sum.split option.split)

lemma k_mountBlockDevice: "kept (mountBlockDevice env dev t)"
  unfolding mountBlockDevice_def by (auto simp: node_MountBlock_def intro!: k_checked k_intros split: sum.split)

lemma k_publishDirect: "kept (publishDirectVolume env req ty)"
  unfolding publishDirectVolume_def direct_device_def addDirectVolume_def
  by (auto simp: removeLVMByDevicePath_def free intro!: k_intros k_cleanup k_createLV k_mountBlockDevice k_on_node
      call_FormatBlockDevice split: option.split)

lemma k_publishSpdk: "kept (publishSpdkVolume env req ty)"
proof -
  have "kept (spdk_device env req ty)"
    unfolding spdk_device_def Let_def
    by (auto intro!: k_intros k_createLV k_on_node call_devices call_vhost_for call_CleanBdev split: option.split sum.split)
  then show ?thesis
    unfolding publishSpdkVolume_def addDirectVolume_def Let_def
    by (auto simp: free intro!: k_intros k_cleanup k_mountBlockDevice k_on_node call_MakeFs call_backing_file call_CleanBdev
        split: option.split)
qed

lemma k_write_limits: "kept (write_limits env path cmds)"
  by (induction cmds) (auto intro!: k_intros k_on_node call_sh split: sum.split option.split prod.split)

lemma k_throttle: "kept (setIOThrottling env req)"
  unfolding setIOThrottling_def
  by (auto simp: Let_def free intro!: k_intros k_createLV k_write_limits split: sum.split option.split prod.split)

lemma k_guarded:
  assumes "kept body"
  shows "kept (node_with_inFlight key body)"
  unfolding keeps_def
proof
  fix w :: node_world
  let ?w = "w\<lparr>nw_inFlight := AList.update key () (nw_inFlight w)\<rparr>"
  have "adds P ?w (snd (run_state body ?w))" using assms by (simp add: keeps_def)
  then show "adds P w (snd (run_state (node_with_inFlight key body) w))"
    by (cases "map_of (nw_inFlight w) key") (auto simp: run_node_with_inFlight adds_def update_delete app.same split: prod.split)
qed

lemma k_publish_mounted: "kept (publish_mounted env req)"
  unfolding publish_mounted_def Let_def
  by (auto intro!: k_ends k_then k_throttle k_mountLvmFS k_blocks k_devices split: option.split access_type.split)

lemma NodePublish: "kept (NodePublishVolume env req)"
  unfolding NodePublishVolume_def Let_def publish_direct_def
  by (auto simp: free intro!: k_ends k_guarded k_then k_act k_publish_mounted k_publishDirect k_publishSpdk)

lemma NodeUnpublish: "kept (NodeUnpublishVolume env v t)"
  unfolding NodeUnpublishVolume_def remove_ephemeral_def
  by (auto simp: free removeDirectVolume_def removeLVMByDevicePath_def
      intro!: k_intros k_guarded k_on_node call_CleanBdev split: option.split)

lemma NodeExpand: "kept (NodeExpandVolume env v t c)"
  unfolding NodeExpandVolume_def resizeVolume_def
  by (auto simp: free Let_def intro!: k_intros split: option.split sum.split prod.split)

end

end
