(* ===== verification/Node_Facts.thy ===== *)
theory Node_Facts
  imports Node_Frame
begin

text \<open>
  What the requests of the node service promise: they release what they hold, they do not touch a target that is
  mounted already, and unpublishing an ephemeral volume removes the volume publishing made.
\<close>

section \<open>Targets\<close>

interpretation any: node_steps env "\<lambda>_. True" for env
  by unfold_locales simp_all

definition was_unmounted :: "node_env \<Rightarrow> action \<Rightarrow> bool" where
  "was_unmounted env a \<longleftrightarrow> (\<forall>t. touches a = Some t \<longrightarrow> (\<exists>hist. likely_unmounted (ne_H env) hist t = Inr True))"

interpretation mounts: node_steps env "was_unmounted env" for env
  by unfold_locales (auto simp: was_unmounted_def)

text \<open>Whatever comes of a request to the node, panic included, the set of requests in flight is what it was
  before.\<close>

theorem node_requests_release:
  "nw_inFlight (snd (run_state (NodePublishVolume env req) w)) = nw_inFlight w \<and>
   nw_inFlight (snd (run_state (NodeUnpublishVolume env v target) w)) = nw_inFlight w \<and>
   nw_inFlight (snd (run_state (NodeExpandVolume env v target capacity) w)) = nw_inFlight w"
  using any.NodePublish [of env req] any.NodeUnpublish [of env v target] any.NodeExpand [of env v target capacity]
  by (simp add: keeps_def adds_def)

text \<open>C31: a target the machine reports as a mount point is not mounted on, and no data is restored to it, whatever
  volume is published and however that ends.\<close>

theorem mounted_not_touched:
  assumes "\<And>hist. likely_unmounted (ne_H env) hist t \<noteq> Inr True"
  shows "\<exists>as. nw_log (snd (run_state (NodePublishVolume env req) w)) = nw_log w @ as \<and> Some t \<notin> touches ` set as"
proof -
  from mounts.NodePublish [of env req] obtain as
    where "nw_log (snd (run_state (NodePublishVolume env req) w)) = nw_log w @ as" and "list_all (was_unmounted env) as"
    by (auto simp: keeps_def adds_def appends_def)
  with assms show ?thesis by (force simp: list_all_iff was_unmounted_def)
qed

section \<open>The store\<close>

definition same_volumes :: "node_world \<Rightarrow> node_world \<Rightarrow> bool" where
  "same_volumes w w' \<longleftrightarrow> nw_volumes w' = nw_volumes w"

interpretation vol: op_frame same_volumes
  by unfold_locales (auto simp: same_volumes_def)

lemma vol_on_node: "keeps same_volumes (on_node m)"
  by (simp add: keeps_def same_volumes_def handler_simps split: prod.split)

lemma vol_calls: "keeps same_volumes (o_act a r)" "keeps same_volumes (on_daemon m')" "keeps same_volumes (RunCommand env cmd)"
  "keeps same_volumes (node_IsLikelyNotMountPoint env t)" "keeps same_volumes (node_FormatAndMount env d t fs opts)"
  by (simp_all add: o_act_def on_daemon_def RunCommand_def node_IsLikelyNotMountPoint_def node_FormatAndMount_def vol_on_node)

lemma vol_createLV:
  assumes "\<not> ne_spdk env"
  shows "keeps same_volumes (createLV env req)"
proof -
  have "keeps same_volumes (createVolume env c v vg t)" for c v vg t
    using assms by (auto simp: createVolume_def createLvm_def getPVNumber_def Let_def intro!: vol.k_flow vol_calls)
  then show ?thesis by (auto simp: createLV_def Let_def intro!: vol.k_flow vol_calls)
qed

lemma vol_format: "keeps same_volumes (format_and_restore env req dev)"
  unfolding format_and_restore_def restore_backup_def checkIfRestored_def labelRestored_def double_check_def Let_def
  by (auto intro!: vol.k_flow vol_calls)

lemma vol_throttle:
  assumes "\<not> ne_spdk env"
  shows "keeps same_volumes (setIOThrottling env req)"
proof -
  have "keeps same_volumes (write_limits env path cmds)" for path cmds
    by (induction cmds) (auto intro!: vol.k_flow vol_on_node)
  then show ?thesis unfolding setIOThrottling_def Let_def
    by (auto intro!: vol.k_flow vol_calls vol_createLV [OF assms])
qed

lemma createLV_path:
  assumes "run_state (createLV env req) w = (Some (Inr (dev, bdev)), w')" and "\<not> ne_spdk env"
    and "volume_group_of env req = Inr vg"
  shows "dev = filepath_Join [''/dev/'', vg, lv_name_of req]"
  using assms by (auto simp: createLV_def Let_def handler_simps split: if_splits prod.splits option.splits sum.splits)

lemma rooted_Join: "filepath_Join (''/dev/'' # els) \<noteq> []"
proof -
  have "\<exists>r. go_Join (filter (\<lambda>e. e \<noteq> []) (''/dev/'' # els)) ''/'' = CHR ''/'' # r"
    by (cases "filter (\<lambda>e. e \<noteq> []) els") simp_all
  then show ?thesis by (auto simp: filepath_Join_def filepath_Clean_def Let_def)
qed

lemma run_AddVolume [handler_simps]:
  "run_state (store_AddVolume env v d) w =
     (let m = AList.update v d (nw_volumes w)
      in (Some (no_error (save_volumes (ne_H env) (nw_log w) m)), w\<lparr>nw_volumes := m, nw_log := nw_log w @ [SaveVolumes m]\<rparr>))"
  by (simp add: store_AddVolume_def handler_simps Let_def)

lemma mountLvmFS_records:
  assumes "run_state (mountLvmFS env req) w = (Some (Inr ()), w')" and "\<not> ne_spdk env"
    and "volume_group_of env req = Inr vg" and "is_ephemeral (npr_VolumeContext req)"
  shows "nw_volumes w' = AList.update (npr_VolumeId req) (filepath_Join [''/dev/'', vg, lv_name_of req]) (nw_volumes w)"
proof -
  let ?check = "node_IsLikelyNotMountPoint env (npr_TargetPath req)"
  obtain dev bdev w1 where lv: "run_state (createLV env req) w = (Some (Inr (dev, bdev)), w1)"
    using assms(1) by (auto simp: mountLvmFS_def handler_simps split: prod.splits option.splits sum.splits)
  note dev = createLV_path [OF lv assms(2,3)]
  obtain b w2 where check: "run_state ?check w1 = (Some (Inr b), w2)"
    using assms(1) lv by (auto simp: mountLvmFS_def handler_simps split: prod.splits option.splits sum.splits)
  let ?body = "if b then format_and_restore env req dev else o_ret ()"
  obtain w3 where body: "run_state ?body w2 = (Some (Inr ()), w3)"
    using assms(1) lv check by (auto simp: mountLvmFS_def handler_simps split: prod.splits option.splits sum.splits)
  have "nw_volumes w3 = nw_volumes w"
    using keepsD [OF vol_createLV [OF assms(2)] lv] keepsD [OF vol_calls(4) check]
      keepsD [OF vol.k_if [OF vol_format vol.k_ends(1)] body] by (simp add: same_volumes_def)
  with assms(1,4) lv check body dev show ?thesis
    by (auto simp: mountLvmFS_def handler_simps Let_def no_error_def split: option.splits)
qed

lemma publish_records:
  assumes "run_state (NodePublishVolume env req) w = (Some (Inr ()), w')" and "\<not> ne_spdk env" and "\<not> is_direct req"
    and "volume_group_of env req = Inr vg" and "is_ephemeral (npr_VolumeContext req)"
    and "npr_Capability req = Some (Access_Mount m)"
  shows "nw_volumes w' = AList.update (npr_VolumeId req) (filepath_Join [''/dev/'', vg, lv_name_of req]) (nw_volumes w)"
proof -
  have mounted: "nw_volumes w2 = AList.update (npr_VolumeId req) (filepath_Join [''/dev/'', vg, lv_name_of req]) (nw_volumes w1)"
    if run: "run_state (publish_mounted env req) w1 = (Some (Inr ()), w2)" for w1 w2
  proof -
    from run assms(5,6) obtain w3 where fs: "run_state (mountLvmFS env req) w1 = (Some (Inr ()), w3)"
        and "run_state (setIOThrottling env req) w3 = (Some (Inr ()), w2)"
      by (auto simp: publish_mounted_def volume_type_of_def Let_def handler_simps split: prod.splits option.splits sum.splits)
    with mountLvmFS_records [OF fs assms(2,4,5)] keepsD [OF vol_throttle [OF assms(2)]] show ?thesis
      by (metis same_volumes_def)
  qed
  show ?thesis using assms(1,2,3)
    by (auto simp: NodePublishVolume_def Let_def run_node_with_inFlight handler_simps
        split: if_splits prod.splits option.splits sum.splits dest!: mounted)
qed

lemma unpublish_removes:
  assumes "run_state (NodeUnpublishVolume env v t) w = (Some (Inr ()), w')" and "\<not> ne_spdk env"
    and "map_of (nw_volumes w) v = Some dev" and "dev \<noteq> []"
  shows "nw_volumes w' = AList.delete v (nw_volumes w)"
    and "nw_log w' = nw_log w @ [CleanupMountPoint t, Sh (lvremove_device_command dev), SaveVolumes (AList.delete v (nw_volumes w))]"
    and "snd (sh_exec (ne_H env) (nw_log w @ [CleanupMountPoint t]) (lvremove_device_command dev)) = None"
  using assms
  by (auto simp: NodeUnpublishVolume_def run_node_with_inFlight remove_ephemeral_def removeLVMByDevicePath_def RunCommand_def
      Run_def act_def store_DeleteVolume_def handler_simps host.defs split: if_splits prod.splits option.splits sum.splits)

subsection \<open>The logical volume of an ephemeral volume\<close>

text \<open>Commands by the LVM tool they run, and the two commands that make a volume.\<close>

definition runs_tool :: "string \<Rightarrow> string \<Rightarrow> bool" where
  "runs_tool name cmd \<longleftrightarrow> HasPrefix cmd (NsenterCmd @ '' '' @ name @ '' '')"

definition makes_lv :: "string \<Rightarrow> string \<Rightarrow> string \<Rightarrow> bool" where
  "makes_lv vg v cmd \<longleftrightarrow> (\<exists>sz. cmd = lvcreate_command v sz vg) \<or> (\<exists>n sz. cmd = striped_command n v sz vg)"

lemma makes_lv_tool: "makes_lv vg v cmd \<Longrightarrow> runs_tool ''lvcreate'' cmd"
proof -
  have "runs_tool ''lvcreate'' (NsenterCmd @ '' lvcreate '' @ s)" for s
    using HasPrefix_append [of "NsenterCmd @ '' lvcreate ''" s] by (simp add: runs_tool_def)
  from this [of "''-n '' @ _"] this [of "''-i '' @ _"] show "makes_lv vg v cmd \<Longrightarrow> runs_tool ''lvcreate'' cmd"
    by (auto simp: makes_lv_def lvcreate_command_def striped_command_def)
qed

text \<open>\<open>st\<close> tells from the actions done so far whether the logical volume is there: its device is there exactly then,
  a successful \<open>lvcreate\<close> of it makes it, a successful \<open>lvremove\<close> of its device removes it, and nothing else that
  is done removes it.\<close>

definition device_machine :: "node_env \<Rightarrow> string \<Rightarrow> string \<Rightarrow> (action list \<Rightarrow> bool) \<Rightarrow> bool" where
  "device_machine env vg v st \<longleftrightarrow>
     (let dev = filepath_Join [''/dev/'', vg, v]
      in (\<forall>hist. is_missing (ne_H env) hist dev = (\<not> st hist)) \<and>
         (\<forall>hist cmd. makes_lv vg v cmd \<and> snd (sh_exec (ne_H env) hist cmd) = None \<longrightarrow> st (hist @ [Sh cmd])) \<and>
         (\<forall>hist. snd (sh_exec (ne_H env) hist (lvremove_device_command dev)) = None \<longrightarrow>
            \<not> st (hist @ [Sh (lvremove_device_command dev)])) \<and>
         (\<forall>hist a. st hist \<and> a \<noteq> Sh (lvremove_device_command dev) \<longrightarrow> st (hist @ [a])) \<and>
         (\<forall>hist a. \<not> st hist \<and> (\<forall>cmd. a = Sh cmd \<longrightarrow> \<not> runs_tool ''lvcreate'' cmd) \<longrightarrow> \<not> st (hist @ [a])))"

text \<open>Publishing: the only volume that is made is the one of the request, and none is removed.\<close>

definition publishing :: "string \<Rightarrow> string \<Rightarrow> action \<Rightarrow> bool" where
  "publishing vg v a \<longleftrightarrow>
     (\<forall>cmd. a = Sh cmd \<longrightarrow> (runs_tool ''lvcreate'' cmd \<longrightarrow> makes_lv vg v cmd) \<and> \<not> runs_tool ''lvremove'' cmd)"

definition log_steps :: "(action \<Rightarrow> bool) \<Rightarrow> node_world \<Rightarrow> node_world \<Rightarrow> bool" where
  "log_steps P w w' \<longleftrightarrow> appends P (nw_log w) (nw_log w')"

interpretation own: op_frame "log_steps P" for P
  by unfold_locales (auto simp: log_steps_def intro: app.same app.steps)

abbreviation own_steps :: "string \<Rightarrow> string \<Rightarrow> node_world \<Rightarrow> node_world \<Rightarrow> bool" where
  "own_steps vg v \<equiv> log_steps (publishing vg v)"

lemma HasPrefix_other: "HasPrefix (p @ s) (p @ q) = HasPrefix s q"
  by (induction p) (simp_all add: HasPrefix_def)

lemma publishing_commands:
  "publishing vg v (Sh (vgck_command g))" "publishing vg v (Sh vgs_command)"
  "publishing vg v (Sh (lvcreate_command v sz vg))" "publishing vg v (Sh (striped_command n v sz vg))"
  "publishing vg v (Sh (throttle_command d limit file))" "touches a = Some t \<Longrightarrow> publishing vg v a"
proof -
  have other: "\<not> runs_tool name (NsenterCmd @ s)" if "\<not> HasPrefix s ('' '' @ name @ '' '')" for name s
    using that by (simp add: runs_tool_def HasPrefix_other)
  show "publishing vg v (Sh (vgck_command g))"
    by (auto simp: publishing_def vgck_command_def HasPrefix_def dest: other [THEN notE, rotated])
  have "\<not> runs_tool ''lvcreate'' vgs_command" "\<not> runs_tool ''lvremove'' vgs_command" by code_simp+
  then show "publishing vg v (Sh vgs_command)" by (simp add: publishing_def)
  have "\<not> runs_tool ''lvremove'' (lvcreate_command v sz vg)" "\<not> runs_tool ''lvremove'' (striped_command n v sz vg)"
    unfolding lvcreate_command_def striped_command_def by (rule other; simp add: HasPrefix_def)+
  then show "publishing vg v (Sh (lvcreate_command v sz vg))" "publishing vg v (Sh (striped_command n v sz vg))"
    by (auto simp: publishing_def makes_lv_def)
  show "publishing vg v (Sh (throttle_command d limit file))"
    by (simp add: publishing_def runs_tool_def throttle_command_def NsenterCmd_def HasPrefix_def)
  show "touches a = Some t \<Longrightarrow> publishing vg v a" by (cases a) (simp_all add: publishing_def)
qed


lemma own_act: "P a \<Longrightarrow> keeps (log_steps P) (o_act a r)"
  by (simp add: keeps_def log_steps_def appends_def handler_simps)

lemma own_quiet: "(\<And>cmd. a \<noteq> Sh cmd) \<Longrightarrow> keeps (own_steps vg v) (o_act a r)"
  by (rule own_act) (simp add: publishing_def)

lemma own_run: "publishing vg v (Sh cmd) \<Longrightarrow> keeps (own_steps vg v) (RunCommand env cmd)"
  by (simp add: RunCommand_def keeps_def log_steps_def appends_def handler_simps Run_def act_def)

lemma own_calls:
  "keeps (own_steps vg v) (on_daemon (ListVG H))" "keeps (own_steps vg v) (on_daemon (NewResticClient H))"
  "keeps (own_steps vg v) (node_IsLikelyNotMountPoint env t)" "keeps (own_steps vg v) (node_FormatAndMount env d t fs opts)"
  "keeps (own_steps vg v) (put_volumes env g)" "keeps (own_steps vg v) (store_AddVolume env k d)"
  by (auto simp: keeps_def log_steps_def appends_def handler_simps ListVG_def attempt_def run_hbind Run_def act_def
      NewResticClient_def node_IsLikelyNotMountPoint_def node_FormatAndMount_def store_AddVolume_def publishing_commands
      publishing_def [of _ _ "IsLikelyNotMountPoint _"] publishing_def [of _ _ "FormatAndMount _ _ _ _"]
      publishing_def [of _ _ "SaveVolumes _"] split: prod.splits sum.splits)

lemma own_createLV:
  assumes "\<not> ne_spdk env" and "volume_group_of env req = Inr vg"
  shows "keeps (own_steps vg (lv_name_of req)) (createLV env req)"
proof -
  have "keeps (own_steps vg v) (createVolume env c v vg t)" for c v t
    using assms(1) by (auto simp: createVolume_def createLvm_def getPVNumber_def Let_def
        intro!: own.k_flow own_run own_calls publishing_commands)
  then show ?thesis using assms by (auto simp: createLV_def Let_def intro!: own.k_flow own_quiet)
qed

lemma own_format: "keeps (own_steps vg v) (format_and_restore env req dev)"
  unfolding format_and_restore_def restore_backup_def checkIfRestored_def labelRestored_def double_check_def Let_def
  by (auto intro!: own.k_flow own_quiet own_calls)

text \<open>Setting the limits of a volume: its device is looked up, and limits are written with \<open>echo\<close>.\<close>

lemma limits_steps:
  assumes "keeps (log_steps P) (createLV env req)" and "\<And>p. P (Rdev p)" and "\<And>d limit file. P (Sh (throttle_command d limit file))"
  shows "keeps (log_steps P) (setIOThrottling env req)"
proof -
  have limits: "keeps (log_steps P) (write_limits env path cmds)" if "\<forall>c \<in> set cmds. P (Sh (fst c))" for path cmds
    using that
  proof (induction cmds)
    case (Cons c cmds)
    have "keeps (log_steps P) (on_node (sh (the_spdk env) (fst c)))"
      using Cons.prems by (simp add: keeps_def log_steps_def appends_def handler_simps sh_def act_def)
    with Cons show ?case by (cases c) (auto intro!: own.k_flow)
  qed (auto intro!: own.k_flow)
  have "keeps (log_steps P) (write_limits env path (limit_commands path' dev bps iops))" for path path' dev bps iops
    by (rule limits) (auto simp: limit_commands_def assms(3))
  then show ?thesis unfolding setIOThrottling_def Let_def
    by (auto intro!: own.k_flow own_act assms(1,2))
qed

lemma own_throttle:
  assumes "\<not> ne_spdk env" and "volume_group_of env req = Inr vg"
  shows "keeps (own_steps vg (lv_name_of req)) (setIOThrottling env req)"
  by (rule limits_steps) (auto simp: publishing_def [of _ _ "Rdev _"] own_createLV assms publishing_commands)

lemma there_kept:
  assumes "device_machine env vg v st" and "own_steps vg v w w'" and "st (nw_log w)"
  shows "st (nw_log w')"
proof -
  have "runs_tool ''lvremove'' (lvremove_device_command dev)" for dev
    by (simp add: runs_tool_def lvremove_device_command_def HasPrefix_other) (simp add: HasPrefix_def)
  then have other: "a \<noteq> Sh (lvremove_device_command dev)" if "publishing vg v a" for a dev
    using that by (auto simp: publishing_def)
  have "st (l @ as)" if "list_all (publishing vg v) as" and "st l" for l as
    using that
  proof (induction as arbitrary: l)
    case (Cons a as)
    with assms(1) other [of a] have "st (l @ [a])" by (simp add: device_machine_def Let_def)
    with Cons.IH [of "l @ [a]"] Cons.prems show ?case by simp
  qed simp
  with assms show ?thesis by (auto simp: log_steps_def appends_def)
qed

lemma createLV_there:
  assumes "device_machine env vg (lv_name_of req) st" and "\<not> ne_spdk env" and "volume_group_of env req = Inr vg"
    and "ctx req LvmTypeTag \<in> {None, Some LinearType, Some StripingType}"
    and "run_state (createLV env req) w = (Some (Inr x), w')"
  shows "st (nw_log w')"
proof -
  let ?v = "lv_name_of req" and ?dev = "filepath_Join [''/dev/'', vg, lv_name_of req]"
  let ?w = "w\<lparr>nw_log := nw_log w @ [Stat ?dev]\<rparr>"
  let ?type = "case ctx req LvmTypeTag of Some t \<Rightarrow> t | None \<Rightarrow> LinearType"
  have made: "st (hist @ [Sh cmd])" if "makes_lv vg ?v cmd" "snd (sh_exec (ne_H env) hist cmd) = None" for hist cmd
    using assms(1) that by (simp add: device_machine_def Let_def)
  show ?thesis
  proof (cases "is_missing (ne_H env) (nw_log w) ?dev")
    case False
    with assms(1) have "st (nw_log w)" by (simp add: device_machine_def Let_def)
    with there_kept [OF assms(1) keepsD [OF own_createLV [OF assms(2,3)] assms(5)]] show ?thesis by simp
  next
    case True
    with assms(2,3,5) obtain y where run: "run_state (createVolume env (npr_VolumeContext req) ?v vg ?type) ?w = (Some (Inr y), w')"
      by (auto simp: createLV_def Let_def handler_simps split: prod.splits option.splits sum.splits)
    then obtain sz unit w1 where lvm: "run_state (createLvm env vg ?v ?type unit sz) w1 = (Some (Inr ()), w')"
      using assms(2) by (auto simp: createVolume_def handler_simps split: prod.splits option.splits sum.splits)
    have type: "?type = LinearType \<or> ?type = StripingType" using assms(4) by auto
    have ran: "st (nw_log w4)" if "run_state (RunCommand env cmd) w3 = (Some (Inr out), w4)" "makes_lv vg ?v cmd" for cmd w3 w4 out
      using that made [of cmd "nw_log w3"]
      by (auto simp: RunCommand_def Run_def act_def handler_simps host.defs split: prod.splits option.splits)
    show ?thesis
    proof (cases "?type = StripingType")
      case True
      with lvm obtain n w3 out where "run_state (RunCommand env (striped_command n ?v (sdec sz @ unit) vg)) w3 = (Some (Inr out), w')"
        by (auto simp: createLvm_def Let_def handler_simps split: prod.splits option.splits sum.splits if_splits)
      then show ?thesis by (rule ran) (auto simp: makes_lv_def)
    next
      case False
      with type lvm obtain out where "run_state (RunCommand env (lvcreate_command ?v (sdec sz @ unit) vg)) w1 = (Some (Inr out), w')"
        by (auto simp: createLvm_def Let_def handler_simps split: prod.splits option.splits sum.splits if_splits)
      then show ?thesis by (rule ran) (auto simp: makes_lv_def)
    qed
  qed
qed

lemma own_mountLvmFS:
  assumes "\<not> ne_spdk env" and "volume_group_of env req = Inr vg"
  shows "keeps (own_steps vg (lv_name_of req)) (mountLvmFS env req)"
  unfolding mountLvmFS_def by (auto intro!: own.k_flow own_createLV own_format own_calls assms)

lemma o_then_done:
  "run_state (o_then wrap m k) w = (Some (Inr y), w') \<Longrightarrow>
     \<exists>x w1. run_state m w = (Some (Inr x), w1) \<and> run_state (k x) w1 = (Some (Inr y), w')"
  by (auto simp: handler_simps split: prod.splits option.splits sum.splits)

lemma publish_makes:
  assumes "run_state (NodePublishVolume env req) w = (Some (Inr ()), w')" and "\<not> ne_spdk env" and "\<not> is_direct req"
    and "volume_group_of env req = Inr vg" and "is_ephemeral (npr_VolumeContext req)"
    and "npr_Capability req = Some (Access_Mount m)" and "device_machine env vg (lv_name_of req) st"
    and "ctx req LvmTypeTag \<in> {None, Some LinearType, Some StripingType}"
  shows "st (nw_log w') \<and> own_steps vg (lv_name_of req) w w'"
proof -
  let ?own = "own_steps vg (lv_name_of req)"
  have ephemeral: "volume_type_of req = VolumeTypeLVM" using assms(5) by (simp add: volume_type_of_def)
  have mounted: "st (nw_log w2) \<and> ?own w1 w2" if run: "run_state (publish_mounted env req) w1 = (Some (Inr ()), w2)" for w1 w2
  proof -
    from run assms(6) ephemeral obtain w3 where fs: "run_state (mountLvmFS env req) w1 = (Some (Inr ()), w3)"
        and limits: "run_state (setIOThrottling env req) w3 = (Some (Inr ()), w2)"
      by (auto simp: publish_mounted_def Let_def handler_simps split: prod.splits option.splits sum.splits)
    from o_then_done [OF fs [unfolded mountLvmFS_def]]
    obtain x w4 where lv: "run_state (createLV env req) w1 = (Some (Inr x), w4)"
      and rest: "run_state ((\<lambda>(devicePath, _).
       o_then (\<lambda>err. ''mountLvmFS: fail to check if '' @ npr_TargetPath req @ '' is mounted: '' @ err)
         (node_IsLikelyNotMountPoint env (npr_TargetPath req)) (\<lambda>notMounted.
         o_then (\<lambda>err. err) (if notMounted then format_and_restore env req devicePath else o_ret ()) (\<lambda>_.
           if is_ephemeral (npr_VolumeContext req)
           then o_try (store_AddVolume env (npr_VolumeId req) devicePath) (\<lambda>_. o_ret ())
           else o_ret ()))) x) w4 = (Some (Inr ()), w3)" by blast
    have "?own w4 w3" by (rule keepsD [OF _ rest]) (auto intro!: own.k_flow own_format own_calls)
    with createLV_there [OF assms(7,2,4,8) lv] have "st (nw_log w3)" by (rule there_kept [OF assms(7), rotated])
    moreover have "?own w3 w2" by (rule keepsD [OF own_throttle [OF assms(2,4)] limits])
    moreover have "?own w1 w3" by (rule keepsD [OF own_mountLvmFS [OF assms(2,4)] fs])
    ultimately show ?thesis using there_kept [OF assms(7)] own.steps by blast
  qed
  have stat: "publishing vg v (Stat p)" "publishing vg v (MkdirAll p)" for v p by (simp_all add: publishing_def)
  have log: "?own w1 w2 \<longleftrightarrow> appends (publishing vg (lv_name_of req)) (nw_log w1) (nw_log w2)" for w1 w2
    by (simp add: log_steps_def)
  show ?thesis using assms(1-3)
    by (auto simp: NodePublishVolume_def Let_def run_node_with_inFlight handler_simps log stat appends_def
        split: if_splits prod.splits option.splits sum.splits dest!: mounted)
qed

text \<open>C32: an ephemeral volume that is mounted through the host (not handed over directly, no SPDK). On a machine whose
  LVM tools do what they document, publishing it makes the logical volume of the request and no other, unless it is
  there already, and removes none; unpublishing it unmounts the target, removes that volume, and leaves the store of
  ephemeral volumes as it was.\<close>

theorem ephemeral_cycle:
  assumes "run_state (NodePublishVolume env req) w = (Some (Inr ()), w1)"
    and "run_state (NodeUnpublishVolume env (npr_VolumeId req) (npr_TargetPath req)) w1 = (Some (Inr ()), w2)"
    and "\<not> ne_spdk env" and "\<not> is_direct req" and "is_ephemeral (npr_VolumeContext req)"
    and "ctx req key_VGName = Some vg" and "npr_Capability req = Some (Access_Mount m)"
    and "map_of (nw_volumes w) (npr_VolumeId req) = None"
    and "ctx req LvmTypeTag \<in> {None, Some LinearType, Some StripingType}"
    and "device_machine env vg (lv_name_of req) st"
  shows "(\<exists>as. nw_log w1 = nw_log w @ as \<and> list_all (publishing vg (lv_name_of req)) as) \<and>
    st (nw_log w1) \<and> \<not> st (nw_log w2) \<and> nw_volumes w2 = nw_volumes w \<and>
    nw_log w2 = nw_log w1 @ [CleanupMountPoint (npr_TargetPath req),
      Sh (lvremove_device_command (filepath_Join [''/dev/'', vg, lv_name_of req])), SaveVolumes (nw_volumes w)]"
proof -
  let ?dev = "filepath_Join [''/dev/'', vg, lv_name_of req]"
  from assms(5,6) have vg: "volume_group_of env req = Inr vg" by (simp add: volume_group_of_def str_at_def)
  note made = publish_makes [OF assms(1,3,4) vg assms(5,7,10,9)]
  from assms vg have w1: "nw_volumes w1 = AList.update (npr_VolumeId req) ?dev (nw_volumes w)"
    by (intro publish_records)
  then have "map_of (nw_volumes w1) (npr_VolumeId req) = Some ?dev" by (simp add: update_conv)
  note removed = unpublish_removes [OF assms(2,3) this rooted_Join]
  from removed(3) assms(10) have "\<not> st ((nw_log w1 @ [CleanupMountPoint (npr_TargetPath req)]) @ [Sh (lvremove_device_command ?dev)])"
    by (simp add: device_machine_def Let_def del: append_assoc)
  with assms(10) have "\<not> st (((nw_log w1 @ [CleanupMountPoint (npr_TargetPath req)]) @ [Sh (lvremove_device_command ?dev)]) @
      [SaveVolumes (nw_volumes w)])"
    by (auto simp: device_machine_def Let_def simp del: append_assoc)
  with made removed(1,2) w1 assms(8) show ?thesis by (simp add: update_delete log_steps_def appends_def)
qed


section \<open>Failures\<close>

text \<open>What is done with the device of a direct volume.\<close>

abbreviation hand_over :: "node_env \<Rightarrow> NodePublishVolumeRequest \<Rightarrow> string \<Rightarrow> string \<Rightarrow> unit node_call" where
  "hand_over env req ty device \<equiv>
     (if wants_mount req ty
      then (case mount_fs req of
              None \<Rightarrow> o_panic
            | Some fsType \<Rightarrow>
                o_then (\<lambda>err. internal (''addDirectVolume failed: '' @ err))
                  (addDirectVolume env (npr_TargetPath req) device fsType) (\<lambda>_.
                  o_then (\<lambda>err. internal (''FormatBlockDevice failed: '' @ err))
                    (on_node (FormatBlockDevice (the_spdk env) device fsType)) (\<lambda>_. o_ret ())))
      else o_then (\<lambda>err. internal (''mountBlockDevice failed: '' @ err))
             (mountBlockDevice env device (npr_TargetPath req)) (\<lambda>_. o_ret ()))"

lemma hand_over_keeps:
  assumes "run_state (hand_over env req ty device) w = (r, w')"
  shows "nw_volumes w' = nw_volumes w \<and> (\<exists>as. nw_log w' = nw_log w @ as)"
proof -
  have "keeps same_volumes (hand_over env req ty device)"
    by (auto simp: addDirectVolume_def mountBlockDevice_def remove_target_def node_Remove_def node_MountBlock_def
        intro!: vol.k_flow vol_calls vol_on_node)
  moreover have "keeps (adds (\<lambda>_. True)) (hand_over env req ty device)"
    by (auto simp: addDirectVolume_def
        intro!: any.k_flow any.k_act any.k_mountBlockDevice any.k_on_node any.call_FormatBlockDevice)
  ultimately show ?thesis using assms by (auto dest!: keepsD simp: same_volumes_def adds_def appends_def)
qed

lemma run_cleanup:
  assumes "map_of (nw_volumes w) v = Some dev" and "dev \<noteq> []"
    and "run_state (direct_cleanup env (removeLVMByDevicePath env) v t) w = (r, w')"
  shows "r = Some (Inr ()) \<and> nw_volumes w' = nw_volumes w \<and>
    nw_log w' = nw_log w @ [Sh (lvremove_device_command dev), DirectRemove t]"
  using assms
  by (auto simp: direct_cleanup_def removeLVMByDevicePath_def removeDirectVolume_def RunCommand_def Run_def act_def handler_simps
      split: prod.splits option.splits sum.splits)

text \<open>C33: a direct volume that is ephemeral and whose publishing fails once its logical volume is there: the removal of
  the logical volume is asked for, but the store goes on naming it, so that unpublishing asks for the removal of the
  same volume again, and fails when that does.\<close>

theorem failed_direct_stays_recorded:
  assumes "run_state (NodePublishVolume env req) w = (Some (Inl st), w')" and "\<not> ne_spdk env" and "is_direct req"
    and "is_ephemeral (npr_VolumeContext req)" and "ctx req key_VGName = Some vg"
    and "run_state (createLV env req) (w\<lparr>nw_inFlight := AList.update (npr_VolumeId req) () (nw_inFlight w)\<rparr>) = (Some (Inr (dev, bdev)), w0)"
    and "map_of (nw_inFlight w) (npr_VolumeId req) = None" and "npr_VolumeId req \<noteq> []" and "npr_TargetPath req \<noteq> []"
  shows "map_of (nw_volumes w') (npr_VolumeId req) = Some dev \<and>
    (\<exists>as. nw_log w' = nw_log w0 @ as \<and> Sh (lvremove_device_command dev) \<in> set as)"
proof -
  let ?w = "w\<lparr>nw_inFlight := AList.update (npr_VolumeId req) () (nw_inFlight w)\<rparr>" and ?v = "npr_VolumeId req"
  let ?vols = "AList.update ?v dev (nw_volumes w0)"
  let ?w1 = "w0\<lparr>nw_volumes := ?vols, nw_log := nw_log w0 @ [SaveVolumes ?vols]\<rparr>"
  let ?cleanup = "direct_cleanup env (removeLVMByDevicePath env) ?v (npr_TargetPath req)"
  have dev: "dev \<noteq> []"
    using createLV_path [OF assms(6,2)] rooted_Join assms(4,5) by (simp add: volume_group_of_def str_at_def)
  have device: "run_state (direct_device env req VolumeTypeLVM) ?w = (Some (Inr dev), ?w1)"
    using assms(4,6) by (simp add: direct_device_def handler_simps Let_def)
  obtain r w2 where body: "run_state (hand_over env req VolumeTypeLVM dev) ?w1 = (r, w2)" by fastforce
  from hand_over_keeps [OF this] obtain as where
    w2: "nw_volumes w2 = ?vols" "nw_log w2 = nw_log w0 @ SaveVolumes ?vols # as" by auto
  obtain c w3 where cleanup: "run_state ?cleanup w2 = (c, w3)" by fastforce
  have "map_of (nw_volumes w2) ?v = Some dev" by (simp add: w2 update_conv)
  note w3 = run_cleanup [OF this dev cleanup]
  have "run_state (NodePublishVolume env req) w = (case run_state (publishDirectVolume env req VolumeTypeLVM) ?w of
      (None, w) \<Rightarrow> (None, w\<lparr>nw_inFlight := AList.delete ?v (nw_inFlight w)\<rparr>)
    | (Some (Inl err), w) \<Rightarrow> (Some (Inl (Internal, ''NodePublishVolume: volume '' @ ?v @ '' with error: '' @ err)),
        w\<lparr>nw_inFlight := AList.delete ?v (nw_inFlight w)\<rparr>)
    | (Some (Inr x), w) \<Rightarrow> (Some (Inr x), w\<lparr>nw_inFlight := AList.delete ?v (nw_inFlight w)\<rparr>))"
    using assms(2-5,7-9)
    by (simp add: NodePublishVolume_def Let_def run_node_with_inFlight publish_direct_def volume_type_of_def handler_simps
        split: prod.split option.split sum.split)
  moreover have "run_state (publishDirectVolume env req VolumeTypeLVM) ?w =
      (case r of None \<Rightarrow> (None, w2) | Some (Inl e) \<Rightarrow> (Some (Inl e), w3) | Some (Inr x) \<Rightarrow> (Some (Inr x), w2))"
    unfolding publishDirectVolume_def o_on_error_def
    by (simp only: run_o_try run_o_then device prod.case option.case sum.case body)
      (cases r; auto simp: handler_simps cleanup w3 split: sum.splits)
  ultimately have "w' = w3\<lparr>nw_inFlight := AList.delete ?v (nw_inFlight w3)\<rparr>"
    using assms(1) by (auto split: option.splits sum.splits)
  with w2 w3 show ?thesis by (simp add: update_conv)
qed



section \<open>Throttling\<close>

text \<open>The limits of a volume whose pod is not in the list (which may come from a stale cache) are not written for
  that pod: with systemd's names they go to the group of all pods of the node.\<close>

theorem throttle_without_pod:
  assumes "podUID \<notin> fst ` set pods" and "ne_cgroup env = Systemd"
  shows "blkio_path env (qos_of pods podUID) podUID = ne_sysPath env @ ''/fs/cgroup/blkio/kubepods.slice///''"
proof -
  have "fold (\<lambda>(uid, qos) q. if uid = podUID then qos else q) pods q = q" for q
    using assms(1) by (induction pods arbitrary: q) auto
  with assms(2) show ?thesis
    by (simp add: blkio_path_def qos_of_def SetupCgroupPathFormatter_def cgroupPathFormatterInSystemd_def
        systemd_QOSDirFn_def systemd_PodDirFn_def)
qed

section \<open>An example\<close>

text \<open>A node on which every command succeeds and nothing is mounted yet, or everything is.\<close>

definition ex_node :: "bool \<Rightarrow> node_env" where
  "ex_node fresh =
     \<lparr>ne_K = \<lparr>sc_get = \<lambda>_. None, pvc_get = \<lambda>_ _. None, pv_get = \<lambda>_. None, snap_lister = \<lambda>_ _. None,
        snapclass_lister = \<lambda>_. None, snap_client = \<lambda>_ _. None, snapclass_client = \<lambda>_. None,
        ParseQuantity = \<lambda>_. Some 1073741824, UnmarshalPVInfo = \<lambda>_. None, DeepHashStatus = \<lambda>_. 0, QuantityString = \<lambda>_. []\<rparr>,
      ne_H = \<lparr>sh_exec = \<lambda>hist cmd. ([], None), mkdir_all = \<lambda>hist p. None, remove_all = \<lambda>hist p. None, read_dir = \<lambda>hist p. Inr [],
        stat_path = \<lambda>hist p. None, new_restic = \<lambda>hist. None, backup_data = \<lambda>hist r p t. Inr 0,
        spdk_dial = \<lambda>hist. None, spdk_text = \<lambda>hist m p. Inr [], spdk_bdevs = \<lambda>hist. Inr [], spdk_ctrlrs = \<lambda>hist. Inr [],
        spdk_lvstores = \<lambda>hist. Inr [], os_remove = \<lambda>hist p. None, is_missing = \<lambda>hist p. fresh, dir_entries = \<lambda>hist p. Inr [],
        device_number = \<lambda>hist p. Inl [], eval_symlinks = \<lambda>hist p. Inr p, glob_paths = \<lambda>hist p. Inr [], read_file = \<lambda>hist p. Inl [],
         disk_format = \<lambda>hist d. Inr ''xfs'', new_uuid = \<lambda>hist. [], interface_addrs = Inr [],
        block_device = \<lambda>hist p. Inr True, likely_unmounted = \<lambda>hist p. Inr fresh, unmounted = \<lambda>hist p. Inr fresh,
        format_and_mount = \<lambda>hist d t f opts. None, mount_at = \<lambda>hist d t f opts. None, ensure_block = \<lambda>hist t. None,
        mount_block = \<lambda>hist d t opts. None, cleanup_mount = \<lambda>hist t. None, resize_fs = \<lambda>hist d t. Inr True,
        direct_add = \<lambda>hist t d f. None, direct_remove = \<lambda>hist t. None, save_volumes = \<lambda>hist m. None,
        write_file = \<lambda>hist p. None, restore_data = \<lambda>hist r t s. Some ''no repository'', rdev = \<lambda>hist p. 0\<rparr>,
      ne_spdk = False, ne_nodeID = ''n'', ne_sysPath = ''/sys'', ne_maxVolumes = 64, ne_double_check = False,
      ne_cgroup = Systemd, ne_pods = \<lambda>_. ([], None), ne_snapcontent = \<lambda>_. Inl ''none'', ne_secret = \<lambda>_ _. Inl ''none'',
      ne_quantity_error = \<lambda>_. ''not a quantity'', ne_statfs = \<lambda>_. Inl ''none''\<rparr>"

definition ex_publish :: "string gomap \<Rightarrow> NodePublishVolumeRequest" where
  "ex_publish extra =
     \<lparr>npr_VolumeId = ''v'', npr_TargetPath = ''/t'',
      npr_VolumeContext = [(key_Ephemeral, ''true''), (key_VGName, ''pool'')] @ extra,
      npr_Capability = Some (Access_Mount (Some \<lparr>mv_FsType = [], mv_MountFlags = []\<rparr>)), npr_Readonly = False\<rparr>"

abbreviation ex_node_world :: node_world where
  "ex_node_world \<equiv> \<lparr>nw_inFlight = [], nw_volumes = [], nw_log = []\<rparr>"

lemma run_pair: "fst (run_state m w) = r \<Longrightarrow> run_state m w = (r, snd (run_state m w))"
  by (metis prod.collapse)

lemma mounted_not_touched_witness:
  "\<exists>as. nw_log (snd (run_state (NodePublishVolume (ex_node False) (ex_publish [])) ex_node_world)) = [] @ as \<and>
    Some ''/t'' \<notin> touches ` set as"
proof -
  have "likely_unmounted (ne_H (ex_node False)) hist ''/t'' \<noteq> Inr True" for hist by (simp add: ex_node_def)
  from mounted_not_touched [of "ex_node False" "''/t''", OF this, of "ex_publish []" ex_node_world] show ?thesis by simp
qed

text \<open>A node whose volume group has the volume once it was made and until it is removed.\<close>

definition ex_lv_there :: "action list \<Rightarrow> bool" where
  "ex_lv_there hist =
     fold (\<lambda>a b. if a = Sh (lvremove_device_command ''/dev/pool/v'') then False
                 else case a of Sh cmd \<Rightarrow> b \<or> runs_tool ''lvcreate'' cmd | _ \<Rightarrow> b) hist False"

definition ex_lvm_node :: node_env where
  "ex_lvm_node = (ex_node True)\<lparr>ne_H := (ne_H (ex_node True))\<lparr>is_missing := \<lambda>hist p. \<not> ex_lv_there hist\<rparr>\<rparr>"

lemma ex_device_machine: "device_machine ex_lvm_node ''pool'' ''v'' ex_lv_there"
proof -
  have dev: "filepath_Join [''/dev/'', ''pool'', ''v''] = ''/dev/pool/v''" by code_simp
  have "\<not> runs_tool ''lvcreate'' (lvremove_device_command ''/dev/pool/v'')" by code_simp
  then have make: "runs_tool ''lvcreate'' cmd \<and> cmd \<noteq> lvremove_device_command ''/dev/pool/v''" if "makes_lv ''pool'' ''v'' cmd" for cmd
    using that makes_lv_tool by blast
  show ?thesis
    unfolding device_machine_def dev Let_def
    using make by (auto simp: ex_lvm_node_def ex_lv_there_def split: action.splits)
qed

lemma ephemeral_cycle_witness:
  "let w1 = snd (run_state (NodePublishVolume ex_lvm_node (ex_publish [])) ex_node_world);
       w2 = snd (run_state (NodeUnpublishVolume ex_lvm_node ''v'' ''/t'') w1)
   in ex_lv_there (nw_log w1) \<and> \<not> ex_lv_there (nw_log w2) \<and> nw_volumes w2 = []"
proof -
  let ?env = "ex_lvm_node" and ?req = "ex_publish []"
  let ?w1 = "snd (run_state (NodePublishVolume ?env ?req) ex_node_world)"
  let ?w2 = "snd (run_state (NodeUnpublishVolume ?env (npr_VolumeId ?req) (npr_TargetPath ?req)) ?w1)"
  have runs: "run_state (NodePublishVolume ?env ?req) ex_node_world = (Some (Inr ()), ?w1)"
    "run_state (NodeUnpublishVolume ?env (npr_VolumeId ?req) (npr_TargetPath ?req)) ?w1 = (Some (Inr ()), ?w2)"
    by (rule run_pair, code_simp)+
  have kind: "\<not> ne_spdk ?env" "\<not> is_direct ?req" "is_ephemeral (npr_VolumeContext ?req)" "ctx ?req key_VGName = Some ''pool''"
    "npr_Capability ?req = Some (Access_Mount (Some \<lparr>mv_FsType = [], mv_MountFlags = []\<rparr>))"
    "map_of (nw_volumes ex_node_world) (npr_VolumeId ?req) = None"
    by code_simp+
  have plain: "ctx ?req LvmTypeTag \<in> {None, Some LinearType, Some StripingType}" and name: "lv_name_of ?req = ''v''"
    and ids: "npr_VolumeId ?req = ''v''" "npr_TargetPath ?req = ''/t''" by code_simp+
  from ephemeral_cycle [OF runs kind plain ex_device_machine [folded name]]
  have "ex_lv_there (nw_log ?w1) \<and> \<not> ex_lv_there (nw_log ?w2) \<and> nw_volumes ?w2 = nw_volumes ex_node_world" by blast
  then show ?thesis unfolding Let_def ids by simp
qed

lemma failed_direct_stays_recorded_witness:
  "map_of (nw_volumes (snd (run_state (NodePublishVolume (ex_node True) (ex_publish [(''direct'', ''true'')])) ex_node_world))) ''v'' =
     Some ''/dev/pool/v''"
proof -
  let ?env = "ex_node True" and ?req = "ex_publish [(''direct'', ''true'')]"
  let ?w = "snd (run_state (NodePublishVolume ?env ?req) ex_node_world)"
  let ?busy = "ex_node_world\<lparr>nw_inFlight := AList.update (npr_VolumeId ?req) () (nw_inFlight ex_node_world)\<rparr>"
  obtain st where "fst (run_state (NodePublishVolume ?env ?req) ex_node_world) = Some (Inl st)"
  proof -
    have "case fst (run_state (NodePublishVolume ?env ?req) ex_node_world) of Some (Inl st) \<Rightarrow> True | _ \<Rightarrow> False" by code_simp
    then show ?thesis using that by (auto split: option.splits sum.splits)
  qed
  then have "run_state (NodePublishVolume ?env ?req) ex_node_world = (Some (Inl st), ?w)" by (rule run_pair)
  moreover have "run_state (createLV ?env ?req) ?busy = (Some (Inr (''/dev/pool/v'', [])), snd (run_state (createLV ?env ?req) ?busy))"
    by (rule run_pair) code_simp
  moreover have "\<not> ne_spdk ?env" "is_direct ?req" "is_ephemeral (npr_VolumeContext ?req)" "ctx ?req key_VGName = Some ''pool''"
    "map_of (nw_inFlight ex_node_world) (npr_VolumeId ?req) = None" "npr_VolumeId ?req \<noteq> []" "npr_TargetPath ?req \<noteq> []"
    by code_simp+
  ultimately have "map_of (nw_volumes ?w) (npr_VolumeId ?req) = Some ''/dev/pool/v''"
    by (intro failed_direct_stays_recorded [THEN conjunct1])
  then show ?thesis by (simp add: ex_publish_def)
qed


lemma throttle_without_pod_witness:
  "blkio_path (ex_node True) (qos_of [(''a'', ''Burstable'')] ''b'') ''b'' =
     ne_sysPath (ex_node True) @ ''/fs/cgroup/blkio/kubepods.slice///''"
proof -
  have "''b'' \<notin> fst ` set [(''a'', ''Burstable'')]" and "ne_cgroup (ex_node True) = Systemd" by (simp_all add: ex_node_def)
  then show ?thesis by (rule throttle_without_pod)
qed

text \<open>The first attempt on a fresh machine fails to restore the backup; on the machine as it is then, mounted and with
  the volume there, the second succeeds.\<close>

lemma lost_restore:
  "let req = ex_publish [(ParamSnapshotID, ''s'')];
       env = (\<lambda>fresh. (ex_node fresh)\<lparr>ne_snapcontent := \<lambda>_. Inr \<lparr>sc_Name = ''c'',
                 sc_Annotations = [(key_secret_name, ''n''), (key_secret_namespace, ''ns'')]\<rparr>, ne_secret := \<lambda>_ _. Inr [],
                 ne_H := (ne_H (ex_node fresh))\<lparr>stat_path := \<lambda>hist p. Some ''no such file''\<rparr>\<rparr>);
       (r, w) = run_state (NodePublishVolume (env True) req) ex_node_world;
       (r', w') = run_state (NodePublishVolume (env False) req) w
   in RestoreData [] ''/t'' ''s'' \<in> set (nw_log w) \<and> r \<noteq> Some (Inr ()) \<and> r' = Some (Inr ())"
  by code_simp

end
