(* ===== verification/Spdk_Facts.thy ===== *)
theory Spdk_Facts
  imports Node_Frame
begin

text \<open>
  What the SPDK client promises: a minor number no device has, names short enough for the process, a temporary
  iSCSI target that is taken down again (but not always the session with it), and no formatting of a disk that is in use.
\<close>

section \<open>Running a call\<close>

named_theorems call_simps \<open>running a call\<close>

lemma run_c_ret [call_simps]: "run_state (c_ret x) l = (Some (Inr x), l)"
  by (simp add: c_ret_def handler_simps)

lemma run_c_err [call_simps]: "run_state (c_err e) l = (Some (Inl e), l)"
  by (simp add: c_err_def handler_simps)

lemma run_c_try [call_simps]:
  "run_state (c_try m k) l = (case run_state m l of (None, l) \<Rightarrow> (None, l) | (Some res, l) \<Rightarrow> run_state (k res) l)"
  by (auto simp: c_try_def c_stuck_def run_hbind handler_simps split: prod.splits option.splits)

lemma run_c_then [call_simps]:
  "run_state (c_then m k) l =
     (case run_state m l of
        (None, l) \<Rightarrow> (None, l) | (Some (Inl e), l) \<Rightarrow> (Some (Inl e), l) | (Some (Inr x), l) \<Rightarrow> run_state (k x) l)"
  by (auto simp: c_then_def call_simps split: prod.splits option.splits sum.splits)

lemma run_c_act [call_simps]: "run_state (c_act a r) l = (Some (r l), l @ [a])"
  by (simp add: c_act_def act_def)

lemma run_sh [call_simps]: "run_state (sh sp cmd) l = (Some (Inr (sh_exec sp l cmd)), l @ [Sh cmd])"
  by (simp add: sh_def act_def)

section \<open>Minor numbers\<close>

lemma next_minor_from:
  assumes "(of_nat k :: 32 word) \<notin> set minors" and "m \<le> k"
    and "\<And>i. m \<le> i \<Longrightarrow> i < k \<Longrightarrow> of_nat i \<in> set minors"
  shows "next_minor minors (of_nat m) = Some (of_nat k)"
  using assms(2,3)
proof (induction "k - m" arbitrary: m)
  case 0
  with assms(1) show ?case by (subst next_minor.simps) simp
next
  case (Suc n)
  then have "next_minor minors (of_nat (Suc m)) = Some (of_nat k)" by (intro Suc.hyps) auto
  with Suc show ?case by (subst next_minor.simps) (simp add: add.commute)
qed

lemma unat_of_small: "n < 2 ^ 32 \<Longrightarrow> unat (of_nat n :: 32 word) = n"
  by (simp add: unat_of_nat)

lemma some_minor_free:
  assumes "length minors < 2 ^ 32"
  obtains k where "k \<le> length minors" and "(of_nat k :: 32 word) \<notin> set minors"
proof -
  have "inj_on (of_nat :: nat \<Rightarrow> 32 word) {.. length minors}"
    using assms by (intro inj_onI) (metis atMost_iff le_less_trans unat_of_small)
  then have card: "card ((of_nat :: nat \<Rightarrow> 32 word) ` {.. length minors}) = Suc (length minors)" by (simp add: card_image)
  have "\<not> (of_nat :: nat \<Rightarrow> 32 word) ` {.. length minors} \<subseteq> set minors"
  proof
    assume "(of_nat :: nat \<Rightarrow> 32 word) ` {.. length minors} \<subseteq> set minors"
    then have "card ((of_nat :: nat \<Rightarrow> 32 word) ` {.. length minors}) \<le> card (set minors)"
      by (rule card_mono [OF List.finite_set])
    with card card_length [of minors] show False by linarith
  qed
  with that show ?thesis by auto
qed

text \<open>C35: the search for a minor number ends, with the smallest one that no device has, for any directory of fewer
  than \<open>2 ^ 32\<close> devices.\<close>

theorem next_minor_least:
  assumes "length minors < 2 ^ 32"
  shows "\<exists>m. next_minor minors 0 = Some m \<and> m \<notin> set minors \<and> {k. k < m} \<subseteq> set minors"
proof -
  let ?free = "\<lambda>k. (of_nat k :: 32 word) \<notin> set minors"
  define k where "k = (LEAST k. ?free k)"
  obtain k' where "k' \<le> length minors" "?free k'" using some_minor_free [OF assms] by metis
  then have k: "?free k" "k < 2 ^ 32" and below: "i < k \<Longrightarrow> \<not> ?free i" for i
    using LeastI [of ?free k'] Least_le [of ?free k'] assms not_less_Least [of i ?free] by (auto simp: k_def)
  have "next_minor minors (of_nat 0) = Some (of_nat k)"
    using k below by (intro next_minor_from) auto
  moreover have "l \<in> set minors" if "l < of_nat k" for l
    using below [of "unat l"] that k(2) by (simp add: word_less_nat_alt unat_of_small)
  ultimately show ?thesis using k(1) by auto
qed

lemma next_minor_least_witness:
  "\<exists>m. next_minor [0, 1, 3] 0 = Some m \<and> m \<notin> set [0, 1, 3] \<and> {k. k < m} \<subseteq> set [0, 1, 3]"
  by (rule next_minor_least) simp

section \<open>Names\<close>

lemma EnsureLVNameValid_fits:
  "length (EnsureLVNameValid name) \<le> 63 \<and> EnsureLVNameValid (EnsureLVNameValid name) = EnsureLVNameValid name \<and>
    (if length name \<le> 63 then EnsureLVNameValid name = name else True)"
proof -
  have "length (EnsureLVNameValid name) \<le> 63"
    by (auto simp: EnsureLVNameValid_def Let_def split: option.split)
  moreover have "EnsureLVNameValid n = n" if "length n \<le> 63" for n
    using that by (simp add: EnsureLVNameValid_def)
  ultimately show ?thesis by simp
qed

text \<open>The names of two volumes can be cut to the same one.\<close>

lemma EnsureLVNameValid_collides:
  "EnsureLVNameValid (replicate 63 CHR ''a'' @ ''b'') = EnsureLVNameValid (replicate 63 CHR ''a'' @ ''c'')"
  by code_simp

section \<open>Formatting\<close>

text \<open>A disk that has a file system, or whose format cannot be read, is never formatted: the only thing done to it
  is to look. It is an error when the file system is another one than asked for.\<close>

theorem formatted_disk_kept:
  assumes "\<And>hist. disk_format sp hist dev \<noteq> Inr []"
  shows "snd (run_state (FormatBlockDevice sp dev fs) l) = l @ [DiskFormat dev] \<and>
    (fst (run_state (FormatBlockDevice sp dev fs) l) = Some (Inr ()) \<longleftrightarrow> disk_format sp l dev = Inr fs)"
proof (cases "disk_format sp l dev")
  case (Inl err)
  then show ?thesis by (simp add: FormatBlockDevice_def call_simps)
next
  case (Inr f)
  with assms [of l] have "f \<noteq> []" by simp
  with Inr show ?thesis by (auto simp: FormatBlockDevice_def call_simps)
qed

section \<open>The temporary target\<close>

lemma run_request_unit:
  assumes "\<And>hist. spdk_dial sp hist = None"
  shows "run_state (request_unit sp m ps) l =
    (Some (map_sum id (\<lambda>_. ()) (spdk_text sp (l @ [Dial]) m ps)), l @ [Dial, Rpc m ps])"
  using assms
  by (cases "spdk_text sp (l @ [Dial]) m ps")
    (simp_all add: request_unit_def request_def Connect_def rpc_text_def no_error_def call_simps)

lemma isl_map [simp]: "isl (map_sum f g s) = isl s"
  by (cases s) simp_all

lemma run_stage:
  assumes "run_state up l = (Some u, l1)" and "run_state body l1 = (Some b, l2)" and "run_state down l2 = (Some d, l3)"
  shows "\<exists>r. run_state (stage up body down) l = (Some r, if isl u then l1 else l3)"
  using assms by (cases u; cases b) (simp_all add: stage_def call_simps)

lemma run_delete_portal:
  assumes "\<And>hist. spdk_dial sp hist = None"
  shows "run_state (iscsiDeletePortalGroup sp) l =
    (Some (Inr ()), l @ [Dial, Rpc ''iscsi_delete_portal_group'' [(''tag'', ''1'')]])"
  using assms by (simp add: iscsiDeletePortalGroup_def Connect_def rpc_text_def no_error_def call_simps)

text \<open>The innermost part: the log-in to the target, the formatting, the log-out.\<close>

abbreviation format_target :: "spdk_host \<Rightarrow> string \<Rightarrow> string \<Rightarrow> bool call" where
  "format_target sp portal fsType \<equiv>
     c_try (iscsi_connect sp portal iscsi_target) (\<lambda>r. case r of
         Inl _ \<Rightarrow> c_ret False
       | Inr dev \<Rightarrow>
           c_try (FormatBlockDevice sp dev fsType) (\<lambda>res.
             c_try (iscsi_disconnect sp portal iscsi_target) (\<lambda>_.
               c_ret (case res of Inl _ \<Rightarrow> False | Inr _ \<Rightarrow> True))))"

text \<open>What is done in a session with the target, after the actions \<open>h\<close>: the target is discovered and logged in to, its
  device is looked for up to eleven times, formatted when it appears, and logged out of after that. The session ends
  early when the discovery or the log-in fails, when the search fails, or when the device never appears: in these
  last two cases without logging out.\<close>

definition formatting_of :: "string \<Rightarrow> string \<Rightarrow> action list set" where
  "formatting_of fsType dev =
     {[DiskFormat dev], [DiskFormat dev, Sh (''mkfs.'' @ fsType @ '' '' @ dev @ (if fsType = ''xfs'' then '' -f'' else '' -F''))]}"

definition session_of ::
  "spdk_host \<Rightarrow> string \<Rightarrow> string \<Rightarrow> string \<Rightarrow> string \<Rightarrow> string \<Rightarrow> action list \<Rightarrow> action list \<Rightarrow> bool" where
  "session_of sp fsType discovery login logout pattern h mid \<longleftrightarrow>
     (let start = [Sh discovery, Sh login];
          search = (\<lambda>k. glob_paths sp (h @ start @ replicate k (FindDevice pattern)) pattern)
      in if snd (sh_exec sp h discovery) \<noteq> None then mid = [Sh discovery]
         else if snd (sh_exec sp (h @ [Sh discovery]) login) \<noteq> None then mid = start
         else \<exists>k \<le> 10. (\<forall>j < k. search j = Inr []) \<and>
           (case search k of
              Inr (dev # _) \<Rightarrow>
                \<exists>formatting \<in> formatting_of fsType dev.
                  mid = start @ replicate (Suc k) (FindDevice pattern) @ formatting @ [Sh logout]
            | Inr [] \<Rightarrow> k = 10 \<and> mid = start @ replicate (Suc k) (FindDevice pattern)
            | Inl _ \<Rightarrow> mid = start @ replicate (Suc k) (FindDevice pattern)))"

definition session_log :: "spdk_host \<Rightarrow> string \<Rightarrow> string \<Rightarrow> action list \<Rightarrow> action list \<Rightarrow> bool" where
  "session_log sp portal fsType =
     session_of sp fsType (''iscsiadm -m discovery -t sendtargets -p '' @ portal)
       (''iscsiadm -m node -T '' @ iscsi_target @ '' -p '' @ portal @ '' --login'')
       (''iscsiadm -m node -T '' @ iscsi_target @ '' -p '' @ portal @ '' --logout'')
       (''/dev/disk/by-path/*'' @ iscsi_target @ ''*'')"

lemma run_wait:
  "\<exists>k \<le> n. (\<forall>j < k. glob_paths sp (h @ replicate j (FindDevice p)) p = Inr []) \<and>
     (case glob_paths sp (h @ replicate k (FindDevice p)) p of
        Inr (dev # _) \<Rightarrow> run_state (wait_for_device sp p n) h = (Some (Inr dev), h @ replicate (Suc k) (FindDevice p))
      | Inr [] \<Rightarrow> k = n \<and> (\<exists>e. run_state (wait_for_device sp p n) h = (Some (Inl e), h @ replicate (Suc k) (FindDevice p)))
      | Inl _ \<Rightarrow> \<exists>e. run_state (wait_for_device sp p n) h = (Some (Inl e), h @ replicate (Suc k) (FindDevice p)))"
proof (induction n arbitrary: h)
  case 0
  then show ?case
    by (subst wait_for_device.simps) (auto simp: call_simps wait_for_device.simps split: sum.split list.split)
next
  case (Suc n)
  let ?look = "FindDevice p"
  show ?case
  proof (cases "glob_paths sp h p = Inr []")
    case True
    then have step: "run_state (wait_for_device sp p (Suc n)) h = run_state (wait_for_device sp p n) (h @ [?look])"
      by (subst wait_for_device.simps) (simp add: call_simps)
    have shift: "(h @ [?look]) @ replicate j ?look = h @ replicate (Suc j) ?look" for j by simp
    from Suc.IH [of "h @ [?look]", folded step, unfolded shift] obtain k where k: "k \<le> n"
      and before: "\<forall>j < k. glob_paths sp (h @ replicate (Suc j) ?look) p = Inr []"
      and found: "case glob_paths sp (h @ replicate (Suc k) ?look) p of
        Inr (dev # _) \<Rightarrow> run_state (wait_for_device sp p (Suc n)) h = (Some (Inr dev), h @ replicate (Suc (Suc k)) ?look)
      | Inr [] \<Rightarrow> k = n \<and> (\<exists>e. run_state (wait_for_device sp p (Suc n)) h = (Some (Inl e), h @ replicate (Suc (Suc k)) ?look))
      | Inl _ \<Rightarrow> \<exists>e. run_state (wait_for_device sp p (Suc n)) h = (Some (Inl e), h @ replicate (Suc (Suc k)) ?look)"
      by blast
    have "\<forall>j < Suc k. glob_paths sp (h @ replicate j ?look) p = Inr []"
      using before True by (auto simp: less_Suc_eq_0_disj)
    with k found show ?thesis by (intro exI [of _ "Suc k"]) (auto split: sum.splits list.splits)
  next
    case False
    then show ?thesis
      by (intro exI [of _ 0], subst (1 2 3) wait_for_device.simps) (auto simp: call_simps split: sum.split list.split)
  qed
qed

lemma run_adm:
  "\<exists>e. run_state (run_iscsiadm sp cmd) h =
     (Some (if snd (sh_exec sp h cmd) = None then Inr () else Inl e), h @ [Sh cmd])"
  by (cases "sh_exec sp h cmd"; cases "snd (sh_exec sp h cmd)") (auto simp: run_iscsiadm_def call_simps)

lemma run_format:
  "\<exists>r. \<exists>formatting \<in> formatting_of fs dev. run_state (FormatBlockDevice sp dev fs) h = (Some r, h @ formatting)"
  by (auto simp: formatting_of_def FormatBlockDevice_def call_simps split: sum.splits option.splits prod.splits)

text \<open>The session, from the log-in on.\<close>

lemma session_of_searched:
  assumes "snd (sh_exec sp h discovery) = None" and "snd (sh_exec sp (h @ [Sh discovery]) login) = None"
    and "k \<le> 10" and "\<forall>j < k. glob_paths sp ((h @ [Sh discovery, Sh login]) @ replicate j (FindDevice pattern)) pattern = Inr []"
    and "glob_paths sp ((h @ [Sh discovery, Sh login]) @ replicate k (FindDevice pattern)) pattern = found"
    and "case found of
        Inr (dev # _) \<Rightarrow> \<exists>formatting \<in> formatting_of fsType dev. mid = formatting @ [Sh logout]
      | Inr [] \<Rightarrow> k = 10 \<and> mid = [] | Inl _ \<Rightarrow> mid = []"
  shows "session_of sp fsType discovery login logout pattern h ([Sh discovery, Sh login] @ replicate (Suc k) (FindDevice pattern) @ mid)"
proof -
  have "glob_paths sp (h @ [Sh discovery, Sh login] @ replicate k (FindDevice pattern)) pattern = found"
    "\<forall>j < k. glob_paths sp (h @ [Sh discovery, Sh login] @ replicate j (FindDevice pattern)) pattern = Inr []"
    using assms(4,5) by (simp_all only: append_assoc)
  with assms(1-3,6) show ?thesis unfolding session_of_def Let_def
    by (simp only: if_False simp_thms not_True_eq_False) (rule exI [of _ k], auto simp del: replicate.simps split: sum.splits list.splits)
qed

abbreviation session_call :: "spdk_host \<Rightarrow> string \<Rightarrow> string \<Rightarrow> string call \<Rightarrow> bool call" where
  "session_call sp fsType logout connect \<equiv>
     c_try connect (\<lambda>r. case r of
         Inl _ \<Rightarrow> c_ret False
       | Inr dev \<Rightarrow>
           c_try (FormatBlockDevice sp dev fsType) (\<lambda>res.
             c_try (run_iscsiadm sp logout) (\<lambda>_. c_ret (case res of Inl _ \<Rightarrow> False | Inr _ \<Rightarrow> True))))"

lemma run_session_call:
  assumes "run_state connect h = (Some r, h')"
  shows "\<exists>b mid. run_state (session_call sp fsType logout connect) h = (Some b, h' @ mid) \<and>
    (case r of Inl _ \<Rightarrow> mid = [] | Inr dev \<Rightarrow> \<exists>formatting \<in> formatting_of fsType dev. mid = formatting @ [Sh logout])"
proof (cases r)
  case (Inl e)
  with assms show ?thesis by (simp add: run_c_try run_c_ret)
next
  case (Inr dev)
  obtain res formatting where form: "formatting \<in> formatting_of fsType dev"
    and run: "run_state (FormatBlockDevice sp dev fsType) h' = (Some res, h' @ formatting)"
    using run_format [of fsType dev sp h'] by blast
  obtain r3 where out: "run_state (run_iscsiadm sp logout) (h' @ formatting) = (Some r3, (h' @ formatting) @ [Sh logout])"
    using run_adm [of sp logout "h' @ formatting"] by blast
  from assms Inr run out form show ?thesis by (auto simp: run_c_try run_c_ret)
qed

lemma run_session_of:
  fixes sp discovery login pattern
  defines "connect \<equiv> c_then (run_iscsiadm sp discovery) (\<lambda>_. c_then (run_iscsiadm sp login) (\<lambda>_. wait_for_device sp pattern 10))"
  shows "\<exists>b mid. run_state (session_call sp fsType logout connect) h = (Some b, h @ mid) \<and>
    session_of sp fsType discovery login logout pattern h mid"
proof -
  obtain e1 where disc: "run_state (run_iscsiadm sp discovery) h =
      (Some (if snd (sh_exec sp h discovery) = None then Inr () else Inl e1), h @ [Sh discovery])"
    using run_adm [of sp discovery h] by blast
  obtain e2 where adm: "run_state (run_iscsiadm sp login) (h @ [Sh discovery]) =
      (Some (if snd (sh_exec sp (h @ [Sh discovery]) login) = None then Inr () else Inl e2), h @ [Sh discovery, Sh login])"
    using run_adm [of sp login "h @ [Sh discovery]"] by auto
  show ?thesis
  proof (cases "snd (sh_exec sp h discovery) = None \<and> snd (sh_exec sp (h @ [Sh discovery]) login) = None")
    case False
    then show ?thesis using disc adm by (auto simp: connect_def session_of_def Let_def call_simps)
  next
    case True
    let ?s = "h @ [Sh discovery, Sh login]"
    have connect: "run_state connect h = run_state (wait_for_device sp pattern 10) ?s"
      using True disc adm by (simp add: connect_def call_simps)
    obtain k where k: "k \<le> 10" "\<forall>j < k. glob_paths sp (?s @ replicate j (FindDevice pattern)) pattern = Inr []"
      and found: "case glob_paths sp (?s @ replicate k (FindDevice pattern)) pattern of
        Inr (dev # _) \<Rightarrow> run_state connect h = (Some (Inr dev), ?s @ replicate (Suc k) (FindDevice pattern))
      | Inr [] \<Rightarrow> k = 10 \<and> (\<exists>e. run_state connect h = (Some (Inl e), ?s @ replicate (Suc k) (FindDevice pattern)))
      | Inl _ \<Rightarrow> \<exists>e. run_state connect h = (Some (Inl e), ?s @ replicate (Suc k) (FindDevice pattern))"
      using run_wait [of 10 sp ?s pattern] unfolding connect by blast
    note session = session_of_searched [OF conjunct1 [OF True] conjunct2 [OF True] k refl, where fsType = fsType and logout = logout]
    from found obtain r where r: "run_state connect h = (Some r, ?s @ replicate (Suc k) (FindDevice pattern))"
      and kind: "case glob_paths sp (?s @ replicate k (FindDevice pattern)) pattern of
        Inr (dev # _) \<Rightarrow> r = Inr dev | Inr [] \<Rightarrow> k = 10 \<and> isl r | Inl _ \<Rightarrow> isl r"
      by (auto split: sum.splits list.splits)
    from run_session_call [OF r, of sp fsType logout] obtain b mid
      where run: "run_state (session_call sp fsType logout connect) h = (Some b, (?s @ replicate (Suc k) (FindDevice pattern)) @ mid)"
      and mid: "case r of Inl _ \<Rightarrow> mid = [] | Inr dev \<Rightarrow> \<exists>formatting \<in> formatting_of fsType dev. mid = formatting @ [Sh logout]" by blast
    have "session_of sp fsType discovery login logout pattern h ([Sh discovery, Sh login] @ replicate (Suc k) (FindDevice pattern) @ mid)"
      using kind mid by (intro session) (auto split: sum.splits list.splits)
    with run show ?thesis by (metis append_assoc)
  qed
qed

lemma run_session:
  "\<exists>b mid. run_state (format_target sp portal fsType) h = (Some b, h @ mid) \<and> session_log sp portal fsType h mid"
  unfolding iscsi_connect_def iscsi_disconnect_def session_log_def by (rule run_session_of)

text \<open>The requests that set the target up, and what takes each of them down.\<close>

definition setup_requests :: "string \<Rightarrow> string \<Rightarrow> (string \<times> (string \<times> string) list) list" where
  "setup_requests ip bdevName =
     [(''iscsi_create_initiator_group'', [(''tag'', ''1''), (''initiators'', ''ANY''), (''netmasks'', ''127.0.0.0/24,10.0.0.0/8'')]),
      (''iscsi_create_portal_group'', [(''tag'', ''1''), (''host'', ip), (''port'', ''3260'')]),
      (''iscsi_create_target_node'',
        [(''name'', iscsi_target), (''alias_name'', iscsi_target @ ''_alias''), (''ig_tag'', ''1''), (''pg_tag'', ''1''),
         (''bdev_name'', bdevName), (''lun_id'', ''0''), (''queue_depth'', ''64''), (''disable_chap'', ''true'')])]"

definition teardown_requests :: "(string \<times> (string \<times> string) list) list" where
  "teardown_requests =
     [(''iscsi_delete_target_node'', [(''name'', iscsi_target)]), (''iscsi_delete_portal_group'', [(''tag'', ''1'')]),
      (''iscsi_delete_initiator_group'', [(''tag'', ''1'')])]"

definition request_actions :: "(string \<times> (string \<times> string) list) list \<Rightarrow> action list" where
  "request_actions reqs = concat (map (\<lambda>(m, ps). [Dial, Rpc m ps]) reqs)"

text \<open>Whether the process refuses the \<open>i\<close>-th of the requests, made in turn.\<close>

definition refused :: "spdk_host \<Rightarrow> action list \<Rightarrow> (string \<times> (string \<times> string) list) list \<Rightarrow> nat \<Rightarrow> bool" where
  "refused sp l reqs i =
     (case reqs ! i of (m, ps) \<Rightarrow> isl (spdk_text sp (l @ request_actions (take i reqs) @ [Dial]) m ps))"

text \<open>What is done when the \<open>n\<close>-th of the three parts is the first to be refused.\<close>

definition first_refused :: "(nat \<Rightarrow> bool) \<Rightarrow> nat" where
  "first_refused R = (if R 0 then 0 else if R 1 then 1 else if R 2 then 2 else 3)"

lemma first_refused_least: "first_refused R \<le> 3 \<and> (\<forall>i. i < first_refused R \<longrightarrow> \<not> R i) \<and> (first_refused R < 3 \<longrightarrow> R (first_refused R))"
  by (simp add: first_refused_def All_less_Suc eval_nat_numeral)

lemma MakeFs_log:
  assumes "\<And>hist. spdk_dial sp hist = None" and "interface_addrs sp = Inr addrs"
    and "n = first_refused (refused sp l (setup_requests (first_ip addrs) bdevName))"
  shows "\<exists>mid. session_log sp (first_ip addrs @ '':3260'') fsType
      (l @ request_actions (setup_requests (first_ip addrs) bdevName)) mid \<and> snd (run_state (MakeFs sp bdevName fsType) l) =
    l @ request_actions (take (Suc n) (setup_requests (first_ip addrs) bdevName)) @ (if n < 3 then [] else mid) @
    request_actions (drop (3 - n) teardown_requests)"
proof -
  obtain m1 p1 m2 p2 m3 p3 where reqs: "setup_requests (first_ip addrs) bdevName = [(m1, p1), (m2, p2), (m3, p3)]"
    by (simp add: setup_requests_def)
  obtain d1 q1 d2 q2 d3 where downs: "teardown_requests = [(d1, q1), (d2, q2), (d3, q2)]"
    by (simp add: teardown_requests_def)
  let ?body = "format_target sp (first_ip addrs @ '':3260'') fsType"
  let ?S3 = "stage (request_unit sp m3 p3) ?body (request_unit sp d1 q1)"
  let ?S2 = "stage (request_unit sp m2 p2) ?S3 (iscsiDeletePortalGroup sp)"
  let ?S1 = "stage (request_unit sp m1 p1) ?S2 (request_unit sp d3 q2)"
  have make: "MakeFs sp bdevName fsType = ?S1"
    using assms(2) reqs downs
    by (simp only: MakeFs_def sum.case Let_def iscsiCreateInitiatorGroup_def iscsiCreatePortalGroup_def iscsiCreateTargetNode_def
        iscsiDeleteInitiatorGroup_def iscsiDeleteTargetNode_def setup_requests_def teardown_requests_def list.inject prod.inject)
  note unit = run_request_unit [where sp = sp, OF assms(1)]
  let ?l1 = "l @ [Dial, Rpc m1 p1]" let ?l2 = "?l1 @ [Dial, Rpc m2 p2]" let ?l3 = "?l2 @ [Dial, Rpc m3 p3]"
  obtain b mid where body: "run_state ?body ?l3 = (Some b, ?l3 @ mid)"
    and session: "session_log sp (first_ip addrs @ '':3260'') fsType ?l3 mid"
    using run_session [of sp "first_ip addrs @ '':3260''" fsType ?l3] by blast
  let ?l4 = "?l3 @ mid"
  have mid: "session_log sp (first_ip addrs @ '':3260'') fsType (l @ request_actions (setup_requests (first_ip addrs) bdevName)) mid"
    using session by (simp add: reqs request_actions_def)
  let ?e3 = "if refused sp l (setup_requests (first_ip addrs) bdevName) 2 then ?l3 else ?l4 @ [Dial, Rpc d1 q1]"
  let ?e2 = "if refused sp l (setup_requests (first_ip addrs) bdevName) 1 then ?l2 else ?e3 @ [Dial, Rpc d2 q2]"
  let ?e1 = "if refused sp l (setup_requests (first_ip addrs) bdevName) 0 then ?l1 else ?e2 @ [Dial, Rpc d3 q2]"
  have refused: "refused sp l (setup_requests (first_ip addrs) bdevName) 0 = isl (spdk_text sp (l @ [Dial]) m1 p1)"
    "refused sp l (setup_requests (first_ip addrs) bdevName) 1 = isl (spdk_text sp (?l1 @ [Dial]) m2 p2)"
    "refused sp l (setup_requests (first_ip addrs) bdevName) 2 = isl (spdk_text sp (?l2 @ [Dial]) m3 p3)"
    by (simp_all add: refused_def reqs request_actions_def)
  obtain r3 where r3: "run_state ?S3 ?l2 = (Some r3, ?e3)"
    using run_stage [OF unit body unit [of d1 q1]] by (auto simp: refused simp del: One_nat_def)
  have "[Dial, Rpc ''iscsi_delete_portal_group'' [(''tag'', ''1'')]] = [Dial, Rpc d2 q2]"
    using downs by (simp only: teardown_requests_def list.inject prod.inject)
  then obtain r2 where r2: "run_state ?S2 ?l1 = (Some r2, ?e2)"
    using run_stage [OF unit r3 run_delete_portal [OF assms(1)]] by (auto simp: refused simp del: One_nat_def)
  obtain r1 where "run_state ?S1 l = (Some r1, ?e1)"
    using run_stage [OF unit r2 unit [of d3 q2]] by (auto simp: refused simp del: One_nat_def)
  then have log: "snd (run_state (MakeFs sp bdevName fsType) l) = ?e1" by (simp only: make snd_conv)
  let ?R = "refused sp l (setup_requests (first_ip addrs) bdevName)"
  consider "?R 0" | "\<not> ?R 0" "?R 1" | "\<not> ?R 0" "\<not> ?R 1" "?R 2" | "\<not> ?R 0" "\<not> ?R 1" "\<not> ?R 2" by blast
  then show ?thesis
    by cases (rule exI [of _ mid], rule conjI [OF mid],
        simp add: log assms(3) first_refused_def reqs downs request_actions_def eval_nat_numeral)+
qed

text \<open>C37: whatever fails while a file system is made through the temporary target: of its three parts, those that
  were set up, up to the first one refused, are taken down again, in the opposite order and after everything else. When
  all are up, a session with the target comes between: discovery, log-in, the search for the device, its formatting
  and the log-out. The log-out follows once the device was found, whatever became of the formatting; a log-in whose
  device does not appear is not logged out.\<close>

theorem MakeFs_takes_down:
  assumes "\<And>hist. spdk_dial sp hist = None" and "interface_addrs sp = Inr addrs"
  shows "\<exists>n mid. n \<le> 3 \<and>
    (\<forall>i. i < n \<longrightarrow> \<not> refused sp l (setup_requests (first_ip addrs) bdevName) i) \<and> (n < 3 \<longrightarrow> refused sp l (setup_requests (first_ip addrs) bdevName) n) \<and>
    snd (run_state (MakeFs sp bdevName fsType) l) =
      l @ request_actions (take (Suc n) (setup_requests (first_ip addrs) bdevName)) @ mid @ request_actions (drop (3 - n) teardown_requests) \<and>
    (if n < 3 then mid = []
     else session_log sp (first_ip addrs @ '':3260'') fsType (l @ request_actions (setup_requests (first_ip addrs) bdevName)) mid)"
proof -
  let ?n = "first_refused (refused sp l (setup_requests (first_ip addrs) bdevName))"
  obtain mid where "session_log sp (first_ip addrs @ '':3260'') fsType (l @ request_actions (setup_requests (first_ip addrs) bdevName)) mid"
    "snd (run_state (MakeFs sp bdevName fsType) l) =
      l @ request_actions (take (Suc ?n) (setup_requests (first_ip addrs) bdevName)) @ (if ?n < 3 then [] else mid) @
      request_actions (drop (3 - ?n) teardown_requests)"
    using MakeFs_log [OF assms refl] by blast
  then show ?thesis
    using first_refused_least by (intro exI [of _ ?n] exI [of _ "if ?n < 3 then [] else mid"]) auto
qed

section \<open>Examples\<close>

text \<open>A process that refuses the portal group, and a disk with a file system.\<close>

definition ex_addrs :: "interface_addr list" where
  "ex_addrs =
     [\<lparr>ia_IPNet = True, ia_Loopback = True, ia_To4 = True, ia_Text = ''127.0.0.1''\<rparr>,
      \<lparr>ia_IPNet = True, ia_Loopback = False, ia_To4 = True, ia_Text = ''10.0.0.1''\<rparr>]"

lemma first_ip_ex: "first_ip ex_addrs = ''10.0.0.1''"
  by (simp add: first_ip_def ex_addrs_def)

definition ex_spdk :: spdk_host where
  "ex_spdk =
     \<lparr>sh_exec = \<lambda>hist cmd. ([], None), mkdir_all = \<lambda>hist p. None, remove_all = \<lambda>hist p. None, read_dir = \<lambda>hist p. Inr [],
      stat_path = \<lambda>hist p. None, new_restic = \<lambda>hist. None, backup_data = \<lambda>hist r p t. Inr 0,
      spdk_dial = \<lambda>hist. None,
      spdk_text = \<lambda>hist m p. if m = ''iscsi_create_portal_group'' then Inl ''in use'' else Inr [],
      spdk_bdevs = \<lambda>hist. Inr [], spdk_ctrlrs = \<lambda>hist. Inr [], spdk_lvstores = \<lambda>hist. Inr [], os_remove = \<lambda>hist p. None,
      is_missing = \<lambda>hist p. False, dir_entries = \<lambda>hist p. Inr [], device_number = \<lambda>hist p. Inl [],
      eval_symlinks = \<lambda>hist p. Inr p, glob_paths = \<lambda>hist p. Inr [''/dev/sdb''], read_file = \<lambda>hist p. Inl [],
      disk_format = \<lambda>hist d. Inr ''xfs'', new_uuid = \<lambda>hist. [], interface_addrs = Inr ex_addrs\<rparr>"

lemma formatted_disk_kept_witness:
  "snd (run_state (FormatBlockDevice ex_spdk ''/dev/b'' ''ext4'') []) = [DiskFormat ''/dev/b'']"
proof -
  have "disk_format ex_spdk hist ''/dev/b'' \<noteq> Inr []" for hist by (simp add: ex_spdk_def)
  from formatted_disk_kept [OF this, of "''ext4''" "[]"] show ?thesis by simp
qed

text \<open>A process that grants everything, on a node where the device never appears: logged in to, but not out of.\<close>

definition ex_spdk_lost :: spdk_host where
  "ex_spdk_lost = ex_spdk\<lparr>spdk_text := \<lambda>hist m p. Inr [], glob_paths := \<lambda>hist p. Inr []\<rparr>"

lemma MakeFs_takes_down_witness:
  "\<exists>n mid. n \<le> 3 \<and> snd (run_state (MakeFs ex_spdk ''b'' ''ext4'') []) =
     request_actions (take (Suc n) (setup_requests ''10.0.0.1'' ''b'')) @ mid @ request_actions (drop (3 - n) teardown_requests) \<and>
   (\<exists>mid. snd (run_state (MakeFs ex_spdk_lost ''b'' ''ext4'') []) =
     request_actions (setup_requests ''10.0.0.1'' ''b'') @ mid @ request_actions teardown_requests \<and>
     session_log ex_spdk_lost ''10.0.0.1:3260'' ''ext4'' (request_actions (setup_requests ''10.0.0.1'' ''b'')) mid)"
proof -
  have dial: "spdk_dial ex_spdk hist = None" "spdk_dial ex_spdk_lost hist = None" for hist
    by (simp_all add: ex_spdk_def ex_spdk_lost_def)
  have addrs: "interface_addrs ex_spdk = Inr ex_addrs" "interface_addrs ex_spdk_lost = Inr ex_addrs"
    by (simp_all add: ex_spdk_def ex_spdk_lost_def)
  have granted: "\<not> refused ex_spdk_lost [] reqs i" for reqs i
    by (simp add: refused_def ex_spdk_lost_def split: prod.split)
  have "length (setup_requests ip b) = 3" "length teardown_requests = 3" for ip b
    by (simp_all add: setup_requests_def teardown_requests_def)
  then have all: "take 4 (setup_requests ip b) = setup_requests ip b" for ip b by simp
  from MakeFs_takes_down [OF dial(2) addrs(2), of "[]" "''b''" "''ext4''"] granted obtain n mid
    where "n \<le> 3" "\<not> n < 3" and run: "snd (run_state (MakeFs ex_spdk_lost ''b'' ''ext4'') []) =
      request_actions (take (Suc n) (setup_requests ''10.0.0.1'' ''b'')) @ mid @ request_actions (drop (3 - n) teardown_requests)"
      and "if n < 3 then mid = [] else session_log ex_spdk_lost ''10.0.0.1:3260'' ''ext4''
        (request_actions (setup_requests ''10.0.0.1'' ''b'')) mid"
    by (auto simp: first_ip_ex)
  then have n: "n = 3" and session: "session_log ex_spdk_lost ''10.0.0.1:3260'' ''ext4''
      (request_actions (setup_requests ''10.0.0.1'' ''b'')) mid" by simp_all
  from run have "snd (run_state (MakeFs ex_spdk_lost ''b'' ''ext4'') []) =
      request_actions (setup_requests ''10.0.0.1'' ''b'') @ mid @ request_actions teardown_requests"
    by (simp add: n all)
  with session MakeFs_takes_down [OF dial(1) addrs(1), of "[]" "''b''" "''ext4''"] show ?thesis
    by (auto simp: first_ip_ex)
qed

end
