(* ===== verification/Ctrl_Sync.thy ===== *)
theory Ctrl_Sync
  imports Scheduler_Plugin Agent_Discovery
begin

text \<open>
  The controller, \<open>pkg/controller\<close>: it keeps one \<open>NodeLocalStorage\<close> object per node in line with the
  \<open>NodeLocalStorageInitConfig\<close> (\<open>controller.go\<close>), writes where a pod's volumes were allocated to the persistent
  volumes (\<open>allocate_migrate.go\<close>), and cleans up after snapshots (\<open>clean_s3_snapshot.go\<close>). Its state is what the
  API server has, what its informer has seen of it, and the work queue; every call to the API server or to the S3
  service is recorded. What the listers give, label selectors, decoders and refusals of the servers are parameters.
\<close>

section \<open>Objects\<close>

record spdk_config =
  sk_DeviceType :: string
  sk_RpcSocket :: string

record vg_to_init =
  vi_Name :: string
  vi_Devices :: "string list"

record mp_to_init =
  mi_Path :: string
  mi_Device :: string
  mi_FsType :: string
  mi_Options :: "string list"

text \<open>The configuration of a node, as it stands in \<open>GlobalConfig\<close>, \<open>NodeConfig\<close> and in the specification of a
  \<open>NodeLocalStorage\<close>.\<close>

record node_setup =
  su_Spdk :: spdk_config
  su_VGs :: list_config
  su_MountPoints :: list_config
  su_Devices :: list_config
  su_InitVGs :: "vg_to_init list"
  su_InitMountPoints :: "mp_to_init list"

text \<open>The object: its name and annotations, the node it is for, what is configured, and the status its agent writes.\<close>

record nls_object =
  no_Name :: string
  no_Annotations :: "string gomap"
  no_NodeName :: string
  no_Setup :: node_setup
  no_Status :: agent_status

record node_config =
  nc_Selector :: string \<comment> \<open>as text\<close>
  nc_Setup :: node_setup

record nls_config =
  ni_Global :: node_setup
  ni_NodesConfig :: "node_config list"

datatype nls_item = SyncNLSItem string string \<comment> \<open>configuration, object; an empty name stands for every node\<close>
datatype work_item = WorkNLS nls_item | WorkPV string string \<comment> \<open>\<open>SyncPVByPodItem\<close>: namespace, name\<close>

datatype ctrl_call =
    CreatedNLS nls_object
  | UpdatedNLS nls_object
  | DeletedNLS string
  | RecordedSync string
  | Patched api_call

record ctrl =
  ct_objects :: "nls_object gomap" \<comment> \<open>what the API server has\<close>
  ct_seen :: "nls_object gomap" \<comment> \<open>what \<open>nlsLister\<close> gives\<close>
  ct_queue :: "work_item list"
  ct_delayed :: "work_item list" \<comment> \<open>to be queued again after a while\<close>
  ct_calls :: "ctrl_call list"

record ctrl_env =
  ce_nlscName :: string
  ce_UpdateNLS :: bool \<comment> \<open>the feature gate\<close>
  ce_nodes :: "string gomap gomap" \<comment> \<open>\<open>nodeLister\<close>: labels by name\<close>
  ce_list_error :: "go_error option"
  ce_nlsc :: "string \<Rightarrow> nls_config option"
  ce_K :: kube \<comment> \<open>claims and volumes\<close>
  ce_A :: api
  ce_pods :: "string \<Rightarrow> string \<Rightarrow> Pod option"
  ce_UnmarshalPodInfo :: "string \<Rightarrow> go_error + PVCAllocateInfo gomap option" \<comment> \<open>the \<open>PvcAllocates\<close> of the decoded text\<close>
  ce_range :: range_order
  ce_Matches :: "string \<Rightarrow> (string gomap \<Rightarrow> bool) result" \<comment> \<open>\<open>LabelSelectorAsSelector\<close>\<close>
  ce_refuse :: "ctrl_call list \<Rightarrow> ctrl_call \<Rightarrow> go_error option"

section \<open>The work queue\<close>

text \<open>\<open>Add\<close>: an item that waits is not added a second time.\<close>

definition enqueue :: "work_item \<Rightarrow> ctrl \<Rightarrow> ctrl" where
  "enqueue item c = (if item \<in> set (ct_queue c) then c else c\<lparr>ct_queue := ct_queue c @ [item]\<rparr>)"

definition enqueueNLSC :: "ctrl_env \<Rightarrow> string \<Rightarrow> string \<Rightarrow> ctrl \<Rightarrow> ctrl" where
  "enqueueNLSC X nlscName nlsName c =
     (if nlscName = ce_nlscName X then enqueue (WorkNLS (SyncNLSItem (ce_nlscName X) nlsName)) c else c)"

definition handleNLSC :: "ctrl_env \<Rightarrow> string \<Rightarrow> ctrl \<Rightarrow> ctrl" where
  "handleNLSC X nlscName c = enqueueNLSC X nlscName [] c"

definition ctrl_handleNLS :: "ctrl_env \<Rightarrow> string \<Rightarrow> ctrl \<Rightarrow> ctrl" where
  "ctrl_handleNLS X nlsName c = enqueueNLSC X (ce_nlscName X) nlsName c"

definition createNLSByNode :: "ctrl_env \<Rightarrow> string \<Rightarrow> ctrl \<Rightarrow> ctrl" where
  "createNLSByNode X nodeName c = enqueueNLSC X (ce_nlscName X) nodeName c"

text \<open>A call of the API server, which may refuse it; creating what exists and changing what does not are always refused.\<close>

fun refused_by_store :: "ctrl_call \<Rightarrow> nls_object gomap \<Rightarrow> bool" where
  "refused_by_store (CreatedNLS nls) m = (map_of m (no_Name nls) \<noteq> None)"
| "refused_by_store (UpdatedNLS nls) m = (map_of m (no_Name nls) = None)"
| "refused_by_store (DeletedNLS name) m = (map_of m name = None)"
| "refused_by_store _ m = False"

definition call_api ::
  "ctrl_env \<Rightarrow> ctrl_call \<Rightarrow> (nls_object gomap \<Rightarrow> nls_object gomap) \<Rightarrow>
     ctrl \<Rightarrow> ctrl \<times> go_error option" where
  "call_api X a f c =
     (let c' = c\<lparr>ct_calls := ct_calls c @ [a]\<rparr>
      in (case ce_refuse X (ct_calls c) a of
            Some err \<Rightarrow> (c', Some err)
          | None \<Rightarrow>
              if refused_by_store a (ct_objects c) then (c', Some (Errorf ''refused'' []))
              else (c'\<lparr>ct_objects := f (ct_objects c)\<rparr>, None)))"

definition deleteNLSByNode :: "ctrl_env \<Rightarrow> string \<Rightarrow> ctrl \<Rightarrow> ctrl" where
  "deleteNLSByNode X nodeName c = fst (call_api X (DeletedNLS nodeName) (AList.delete nodeName) c)"

text \<open>An event of a pod, with the pod before it when there was one; the result says that nothing was queued.\<close>

definition enqueueSyncPVItemByPod :: "Pod option \<Rightarrow> Pod \<Rightarrow> ctrl \<Rightarrow> ctrl \<times> bool" where
  "enqueueSyncPVItemByPod old pod c =
     (let queued = (enqueue (WorkPV (pod_Namespace pod) (pod_Name pod)) c, False)
      in (case old of
            None \<Rightarrow> queued
          | Some oldPod \<Rightarrow>
              (let oldAllocatedJson = GetAllocateInfoJSONFromPod (Some oldPod);
                   newAllocatedJson = GetAllocateInfoJSONFromPod (Some pod)
               in if newAllocatedJson = [] \<or> newAllocatedJson = oldAllocatedJson then (c, True) else queued)))"

section \<open>NodeLocalStorage objects\<close>

text \<open>The last configuration whose selector matches counts, the global one when none does. A selector that cannot
  be read is an error, even when a later one matches.\<close>

fun setup_loop ::
  "ctrl_env \<Rightarrow> string gomap \<Rightarrow> node_config list \<Rightarrow> node_setup \<Rightarrow> go_error + node_setup" where
  "setup_loop X labels [] setup = Inr setup"
| "setup_loop X labels (nodeconfig # ncs) setup =
     (case ce_Matches X (nc_Selector nodeconfig) of
        Inl err \<Rightarrow> Inl (Errorf ''%s'' [S err])
      | Inr matches \<Rightarrow> setup_loop X labels ncs (if \<not> matches labels then setup else nc_Setup nodeconfig))"

definition updateNLSSpec ::
  "ctrl_env \<Rightarrow> nls_object \<Rightarrow> go_error + nls_object" where
  "updateNLSSpec X nls =
     (case ce_nlsc X (ce_nlscName X) of
        None \<Rightarrow> Inl (Errorf ''get nlsc %s failed: %s'' [S (ce_nlscName X), E (NotFound (ce_nlscName X))])
      | Some nlsc \<Rightarrow>
          (case map_of (ce_nodes X) (no_Name nls) of
             None \<Rightarrow> Inl (Errorf ''get node %s failed'' [S (no_Name nls)])
           | Some labels \<Rightarrow>
               (case setup_loop X labels (ni_NodesConfig nlsc) (ni_Global nlsc) of
                  Inl err \<Rightarrow> Inl err
                | Inr setup \<Rightarrow> Inr (nls\<lparr>no_Setup := setup\<rparr>))))"

text \<open>An update leaves the status, a subresource, as the API server has it.\<close>

definition updateNLSIfNeeded ::
  "ctrl_env \<Rightarrow> nls_object \<Rightarrow> ctrl \<Rightarrow> ctrl \<times> go_error option" where
  "updateNLSIfNeeded X nls c =
     (case updateNLSSpec X nls of
        Inl err \<Rightarrow> (c, Some err)
      | Inr nlsUpdated \<Rightarrow>
          if nls \<noteq> nlsUpdated
          then call_api X (UpdatedNLS nlsUpdated)
                 (\<lambda>m. AList.update (no_Name nls)
                        (case map_of m (no_Name nls) of
                           None \<Rightarrow> nlsUpdated | Some o1 \<Rightarrow> nlsUpdated\<lparr>no_Status := no_Status o1\<rparr>) m) c
          else (c, None))"

definition empty_setup :: node_setup where
  "empty_setup =
     (let none = \<lparr>lc_Include = [], lc_Exclude = []\<rparr>
      in \<lparr>su_Spdk = \<lparr>sk_DeviceType = [], sk_RpcSocket = []\<rparr>, su_VGs = none, su_MountPoints = none, su_Devices = none,
          su_InitVGs = [], su_InitMountPoints = []\<rparr>)"

definition no_status :: agent_status where
  "no_status =
     \<lparr>as_DeviceInfos = [], as_VolumeGroups = [], as_MountPoints = [], as_Phase = [], as_StateType = [], as_StateStatus = [],
      as_LastHeartbeatTime = None, as_LastTransitionTime = None, as_FilteredVGs = [], as_FilteredMPs = [],
      as_FilteredDevices = [], as_UpdateStatus = [], as_LastUpdateTime = None, as_UpdateReason = []\<rparr>"

definition new_nls :: "ctrl_env \<Rightarrow> string \<Rightarrow> nls_object" where
  "new_nls X name =
     \<lparr>no_Name = name, no_Annotations = [], no_NodeName = name, no_Setup = empty_setup, no_Status = no_status\<rparr>"

fun sync_loop ::
  "ctrl_env \<Rightarrow> string list \<Rightarrow> ctrl \<Rightarrow> ctrl \<times> go_error option" where
  "sync_loop X [] c = (c, None)"
| "sync_loop X (name # names) c =
     (case map_of (ct_seen c) name of
        None \<Rightarrow>
          (case updateNLSSpec X (new_nls X name) of
             Inl err \<Rightarrow> (c, Some err)
           | Inr nls \<Rightarrow>
               (case call_api X (CreatedNLS nls) (AList.update name nls) c of
                  (c, Some createErr) \<Rightarrow> (c, Some createErr)
                | (c, None) \<Rightarrow> sync_loop X names c))
      | Some nls \<Rightarrow>
          if ce_UpdateNLS X
          then (case updateNLSIfNeeded X nls c of
                  (c, Some err) \<Rightarrow> (c, Some err)
                | (c, None) \<Rightarrow> sync_loop X names c)
          else sync_loop X names c)"

declare sync_loop.simps(2) [simp del]

definition syncHandler ::
  "ctrl_env \<Rightarrow> nls_item \<Rightarrow> ctrl \<Rightarrow> ctrl \<times> go_error option" where
  "syncHandler X item c =
     (case item of SyncNLSItem nlscName nlsName \<Rightarrow>
        (case (if nlsName \<noteq> [] then Inr [nlsName]
               else (case ce_list_error X of Some err \<Rightarrow> Inl err | None \<Rightarrow> Inr (map fst (ce_nodes X)))) of
           Inl err \<Rightarrow> (c, Some err)
         | Inr nlsNames \<Rightarrow>
             (case sync_loop X nlsNames c of
                (c, Some err) \<Rightarrow> (c, Some err)
              | (c, None) \<Rightarrow>
                  (case ce_nlsc X nlscName of
                     None \<Rightarrow> (c, Some (NotFound nlscName))
                   | Some _ \<Rightarrow>
                       (if nlsName = [] then c\<lparr>ct_calls := ct_calls c @ [RecordedSync nlscName]\<rparr> else c, None)))))"

section \<open>Where volumes were allocated\<close>

text \<open>A volume that names its volume group already is left alone. For a device the code looks at the volume group
  too, which a device does not have.\<close>

definition patchAllocateInfoToPV ::
  "kube \<Rightarrow> api \<Rightarrow> PersistentVolume \<Rightarrow> PVAllocatedInfo \<Rightarrow> api_call list \<times> go_error option" where
  "patchAllocateInfoToPV K A originPV pvAllocatedInfo =
     (case IsOpenLocalPV originPV of (isLocal, volumeType) \<Rightarrow>
        if \<not> isLocal then ([], None)
        else if volumeType = VolumeTypeLVM \<and> GetVGNameFromCsiPV K originPV \<noteq> [] then ([], None)
        else if volumeType = VolumeTypeDevice \<and> GetVGNameFromCsiPV K originPV \<noteq> [] then ([], None)
        else PatchAllocateInfoToPV A originPV pvAllocatedInfo)"

definition GetAllocateInfoFromPod :: "ctrl_env \<Rightarrow> Pod \<Rightarrow> go_error + PVCAllocateInfo gomap option" where
  "GetAllocateInfoFromPod X pod =
     (let infoJson = GetAllocateInfoJSONFromPod (Some pod)
      in if infoJson = [] then Inr None else ce_UnmarshalPodInfo X infoJson)"

text \<open>The calls made and the errors; \<open>None\<close> when a claim is missing: the text of its error reads the missing claim.\<close>

fun migrate_loop ::
  "ctrl_env \<Rightarrow> Pod \<Rightarrow> (string \<times> PVCAllocateInfo) list \<Rightarrow> (api_call list \<times> go_error list) option" where
  "migrate_loop X pod [] = Some ([], [])"
| "migrate_loop X pod ((key, alloc) # allocates) =
     (case pvc_get (ce_K X) (pai_PVCNameSpace alloc) (pai_PVCName alloc) of
        None \<Rightarrow> None
      | Some pvc \<Rightarrow>
          (let podKey = S (GetNameKey (pod_Namespace pod) (pod_Name pod));
               pvcKey = S (GetNameKey (pvc_Namespace pvc) (pvc_Name pvc));
               name = GetPVFromBoundPVC pvc;
               (calls, errs) =
                 (if pvc_Phase pvc \<noteq> ClaimBound
                  then ([], [Errorf ''pv, pvc(%s) not bound for pod(%s), status: %s, retry after'' [pvcKey, podKey, S (pvc_Phase pvc)]])
                  else if length name = 0
                  then ([], [Errorf ''failed to get PVName for pvc %s with pod %s , retry after'' [pvcKey, podKey]])
                  else (case pv_get (ce_K X) name of
                          None \<Rightarrow> ([], [Errorf ''failed to get PV %s for pvc %s with pod %s error: %s, retry after''
                                          [S name, pvcKey, podKey, E (NotFound name)]])
                        | Some pv \<Rightarrow>
                            (case patchAllocateInfoToPV (ce_K X) (ce_A X) pv (pai_PVAllocatedInfo alloc) of
                               (calls, None) \<Rightarrow> (calls, [])
                             | (calls, Some err) \<Rightarrow>
                                 (calls, [Errorf ''failed to patch allocateInfo(%#v) to PV(%s) for pod %s error: %s, retry after''
                                            [S key, S name, podKey, E err]]))))
           in map_option (\<lambda>(calls', errs'). (calls @ calls', errs @ errs')) (migrate_loop X pod allocates)))"

declare migrate_loop.simps(2) [simp del]

definition addVGInfoToPVsForPod :: "ctrl_env \<Rightarrow> string \<Rightarrow> string \<Rightarrow> (api_call list \<times> go_error option) option" where
  "addVGInfoToPVsForPod X podNameSpace podName =
     (case ce_pods X podNameSpace podName of
        None \<Rightarrow> Some ([], None)
      | Some pod \<Rightarrow>
          (case GetAllocateInfoFromPod X pod of
             Inl err \<Rightarrow> Some ([], Some (Errorf ''addVGInfoToPV fail, can not get pv allocate info from pod(%s), err: %s''
                          [S (GetNameKey (pod_Namespace pod) (pod_Name pod)), E err]))
           | Inr None \<Rightarrow> Some ([], None)
           | Inr (Some pvcAllocates) \<Rightarrow>
               map_option (\<lambda>(calls, errorList).
                   (calls, if length errorList > 0 then Some (Errorf ''errorList:%+v'' (map E errorList)) else None))
                 (migrate_loop X pod (reorder (ce_range X) pvcAllocates))))"

section \<open>One round of the worker\<close>

text \<open>An item whose handling failed comes back after a while.\<close>

definition requeue :: "work_item \<Rightarrow> ctrl \<Rightarrow> ctrl" where
  "requeue item c = (if item \<in> set (ct_delayed c) then c else c\<lparr>ct_delayed := ct_delayed c @ [item]\<rparr>)"

definition processNextWorkItem :: "ctrl_env \<Rightarrow> ctrl \<Rightarrow> ctrl option" where
  "processNextWorkItem X c =
     (case ct_queue c of
        [] \<Rightarrow> Some c
      | item # rest \<Rightarrow>
          (let c = c\<lparr>ct_queue := rest\<rparr>
           in (case item of
                 WorkNLS i \<Rightarrow>
                   (case syncHandler X i c of
                      (c, Some err) \<Rightarrow> Some (requeue item c)
                    | (c, None) \<Rightarrow> Some c)
               | WorkPV podNameSpace podName \<Rightarrow>
                   (case addVGInfoToPVsForPod X podNameSpace podName of
                      None \<Rightarrow> None
                    | Some (calls, err) \<Rightarrow>
                        (let c = c\<lparr>ct_calls := ct_calls c @ map Patched calls\<rparr>
                         in Some (if err \<noteq> None then requeue item c else c))))))"

end
