(* ===== verification/Ctrl_Facts.thy ===== *)
theory Ctrl_Facts
  imports Ctrl_Sync
begin

text \<open>
  What the controller brings about: once nothing is left to do, every node's \<open>NodeLocalStorage\<close> has the
  configuration that is meant for it, unless the last that happened to the node is an event without a handler, and
  the controller leaves it untouched from then on. The run of the controller is a step
  relation over the environment (which nodes and configurations there are) and the controller's state.
\<close>

section \<open>What is meant for a node\<close>

definition selects :: "ctrl_env \<Rightarrow> string gomap \<Rightarrow> node_config \<Rightarrow> bool" where
  "selects X labels nc = (case ce_Matches X (nc_Selector nc) of Inl _ \<Rightarrow> False | Inr matches \<Rightarrow> matches labels)"

definition readable :: "ctrl_env \<Rightarrow> nls_config \<Rightarrow> bool" where
  "readable X nlsc \<longleftrightarrow> (\<forall>nc \<in> set (ni_NodesConfig nlsc). \<not> isl (ce_Matches X (nc_Selector nc)))"

text \<open>The last configuration that selects the node, or the global one.\<close>

definition meant_for :: "ctrl_env \<Rightarrow> nls_config \<Rightarrow> string gomap \<Rightarrow> node_setup" where
  "meant_for X nlsc labels =
     (case filter (selects X labels) (ni_NodesConfig nlsc) of
        [] \<Rightarrow> ni_Global nlsc | ncs \<Rightarrow> nc_Setup (last ncs))"

lemma setup_loop_last:
  "setup_loop X labels ncs s = Inr s' \<longleftrightarrow>
     (\<forall>nc \<in> set ncs. \<not> isl (ce_Matches X (nc_Selector nc))) \<and>
     s' = (case filter (selects X labels) ncs of [] \<Rightarrow> s | ms \<Rightarrow> nc_Setup (last ms))"
  by (induction ncs arbitrary: s) (auto simp: selects_def split: sum.splits list.splits)

lemma setup_loop_meant:
  "case setup_loop X labels (ni_NodesConfig nlsc) (ni_Global nlsc) of
     Inl err \<Rightarrow> \<not> readable X nlsc | Inr setup \<Rightarrow> readable X nlsc \<and> setup = meant_for X nlsc labels"
proof -
  have last: "setup_loop X labels (ni_NodesConfig nlsc) (ni_Global nlsc) = Inr s \<longleftrightarrow>
      readable X nlsc \<and> s = meant_for X nlsc labels" for s
    unfolding setup_loop_last readable_def meant_for_def by (rule refl)
  show ?thesis
    using last [of "meant_for X nlsc labels"] last
    by (cases "setup_loop X labels (ni_NodesConfig nlsc) (ni_Global nlsc)") (simp_all, metis)
qed

definition configured :: "ctrl_env \<Rightarrow> string \<Rightarrow> nls_object \<Rightarrow> bool" where
  "configured X n nls \<longleftrightarrow>
     (\<exists>nlsc labels. ce_nlsc X (ce_nlscName X) = Some nlsc \<and> map_of (ce_nodes X) n = Some labels \<and>
        readable X nlsc \<and> no_Setup nls = meant_for X nlsc labels)"

lemma updateNLSSpec_Inr:
  "updateNLSSpec X nls = Inr nls' \<longleftrightarrow>
     configured X (no_Name nls) nls' \<and> nls' = nls\<lparr>no_Setup := no_Setup nls'\<rparr>"
proof (cases "ce_nlsc X (ce_nlscName X)")
  case nlsc: (Some nlsc)
  show ?thesis
  proof (cases "map_of (ce_nodes X) (no_Name nls)")
    case (Some labels)
    with nlsc setup_loop_meant [where X = X and nlsc = nlsc and labels = labels] show ?thesis
      by (cases nls; cases nls') (auto simp: updateNLSSpec_def configured_def split: sum.splits)
  qed (simp add: nlsc updateNLSSpec_def configured_def)
qed (simp add: updateNLSSpec_def configured_def)

lemma updateNLSSpec_keeps: "updateNLSSpec X nls = Inr u \<Longrightarrow> configured X (no_Name nls) u \<and> no_Name u = no_Name nls"
  using updateNLSSpec_Inr [of X nls u] by (cases nls; cases u) simp

lemma configured_cong:
  "ce_nlscName X' = ce_nlscName X \<Longrightarrow> ce_Matches X' = ce_Matches X \<Longrightarrow>
   ce_nlsc X' (ce_nlscName X) = ce_nlsc X (ce_nlscName X) \<Longrightarrow> map_of (ce_nodes X') n = map_of (ce_nodes X) n \<Longrightarrow>
   configured X' n nls = configured X n nls"
  by (simp add: configured_def readable_def meant_for_def selects_def [abs_def])

section \<open>Runs\<close>

text \<open>
  The events, each with what its informer does to the lister and the handler that is called, the worker, the end of a
  delay, and writes of others: these may delete an object or change anything in it except its name, and never give
  back an object that the informer has seen, since every write makes a new version. Three events have no handler: the
  change of a node's labels, the disappearance of an object, and that of a configuration. The last component of the state is the set of nodes
  that such an event touched and that no event with a handler has covered since. The periodic resynchronisation of the
  informers counts as such an event: it calls the handler for every object in the lister and for the configuration.
\<close>

type_synonym ctrl_run = "ctrl_env \<times> ctrl \<times> string set"

inductive ctrl_step :: "ctrl_run \<Rightarrow> ctrl_run \<Rightarrow> bool" where
  config_changed: "X' = X\<lparr>ce_nlsc := (ce_nlsc X)(name := Some cfg)\<rparr> \<Longrightarrow>
    ctrl_step (X, c, U) (X', handleNLSC X' name c, if name = ce_nlscName X then {} else U)"
| config_deleted: "X' = X\<lparr>ce_nlsc := (ce_nlsc X)(name := None)\<rparr> \<Longrightarrow>
    ctrl_step (X, c, U) (X', c, if name = ce_nlscName X then UNIV else U)"
| node_added: "X' = X\<lparr>ce_nodes := AList.update n labels (ce_nodes X)\<rparr> \<Longrightarrow>
    ctrl_step (X, c, U) (X', createNLSByNode X' n c, U - {n})"
| node_relabelled: "map_of (ce_nodes X) n \<noteq> None \<Longrightarrow> X' = X\<lparr>ce_nodes := AList.update n labels (ce_nodes X)\<rparr> \<Longrightarrow>
    ctrl_step (X, c, U) (X', c, insert n U)"
| node_deleted: "X' = X\<lparr>ce_nodes := AList.delete n (ce_nodes X)\<rparr> \<Longrightarrow>
    ctrl_step (X, c, U) (X', deleteNLSByNode X' n c, U)"
| nls_seen: "map_of (ct_objects c) n = Some nls \<Longrightarrow>
    ctrl_step (X, c, U) (X, ctrl_handleNLS X n (c\<lparr>ct_seen := AList.update n nls (ct_seen c)\<rparr>), U - {n})"
| nls_gone: "map_of (ct_objects c) n = None \<Longrightarrow>
    ctrl_step (X, c, U) (X, c\<lparr>ct_seen := AList.delete n (ct_seen c)\<rparr>, insert n U)"
| nls_resynced: "map_of (ct_seen c) n \<noteq> None \<Longrightarrow> ctrl_step (X, c, U) (X, ctrl_handleNLS X n c, U - {n})"
| pod_event: "ctrl_step (X, c, U) (X, fst (enqueueSyncPVItemByPod old pod c), U)"
| worked: "processNextWorkItem X c = Some c' \<Longrightarrow> ctrl_step (X, c, U) (X, c', U)"
| delay_over: "item \<in> set (ct_delayed c) \<Longrightarrow>
    ctrl_step (X, c, U) (X, enqueue item (c\<lparr>ct_delayed := removeAll item (ct_delayed c)\<rparr>), U)"
| edited: "no_Name nls = n \<Longrightarrow> map_of (ct_seen c) n \<noteq> Some nls \<Longrightarrow>
    ctrl_step (X, c, U) (X, c\<lparr>ct_objects := AList.update n nls (ct_objects c)\<rparr>, U)"
| removed: "map_of (ct_seen c) n \<noteq> None \<Longrightarrow>
    ctrl_step (X, c, U) (X, c\<lparr>ct_objects := AList.delete n (ct_objects c)\<rparr>, U)"

inductive ctrl_reachable :: "ctrl_run \<Rightarrow> bool" where
  started: "ce_UpdateNLS X \<Longrightarrow> ce_nodes X = [] \<Longrightarrow> ct_seen c = [] \<Longrightarrow> ct_queue c = [] \<Longrightarrow> ct_delayed c = [] \<Longrightarrow>
    (\<forall>n nls. map_of (ct_objects c) n = Some nls \<longrightarrow> no_Name nls = n) \<Longrightarrow> ctrl_reachable (X, c, {})"
| stepped: "ctrl_reachable s \<Longrightarrow> ctrl_step s s' \<Longrightarrow> ctrl_reachable s'"

section \<open>Nothing is forgotten\<close>

text \<open>An object is right, or an item that covers its node waits, or the informer has yet to deliver an event of it.\<close>

definition waiting :: "ctrl \<Rightarrow> string \<Rightarrow> bool" where
  "waiting c n \<longleftrightarrow>
     (\<exists>cfg m. WorkNLS (SyncNLSItem cfg m) \<in> set (ct_queue c) \<union> set (ct_delayed c) \<and> (m = [] \<or> m = n))"

definition settled :: "ctrl_env \<Rightarrow> ctrl \<Rightarrow> string \<Rightarrow> bool" where
  "settled X c n \<longleftrightarrow>
     map_of (ct_seen c) n \<noteq> map_of (ct_objects c) n \<or>
     (\<exists>nls. map_of (ct_objects c) n = Some nls \<and> configured X n nls)"

definition own_names :: "nls_object gomap \<Rightarrow> bool" where
  "own_names m \<longleftrightarrow> (\<forall>n nls. map_of m n = Some nls \<longrightarrow> no_Name nls = n)"

definition ctrl_ok :: "ctrl_run \<Rightarrow> bool" where
  "ctrl_ok s = (case s of (X, c, U) \<Rightarrow>
     ce_UpdateNLS X \<and> own_names (ct_objects c) \<and> own_names (ct_seen c) \<and>
     (\<forall>n. map_of (ce_nodes X) n \<noteq> None \<longrightarrow> n \<notin> U \<longrightarrow> waiting c n \<or> settled X c n))"

lemma own_names_update [simp]: "own_names m \<Longrightarrow> no_Name nls = n \<Longrightarrow> own_names (AList.update n nls m)"
  by (simp add: own_names_def go_map_simps)

lemma own_names_delete [simp]: "own_names m \<Longrightarrow> own_names (AList.delete n m)"
  by (simp add: own_names_def go_map_simps)

lemma enqueue_fields [simp]:
  "ct_objects (enqueue i c) = ct_objects c" "ct_seen (enqueue i c) = ct_seen c" "ct_delayed (enqueue i c) = ct_delayed c"
  "set (ct_queue (enqueue i c)) = insert i (set (ct_queue c))" "ct_calls (enqueue i c) = ct_calls c"
  by (auto simp: enqueue_def)

lemma requeue_fields [simp]:
  "ct_objects (requeue i c) = ct_objects c" "ct_seen (requeue i c) = ct_seen c" "ct_queue (requeue i c) = ct_queue c"
  "set (ct_delayed (requeue i c)) = insert i (set (ct_delayed c))"
  by (auto simp: requeue_def)

subsection \<open>One object\<close>

lemma call_api_queues:
  assumes "call_api X a f c = (c', e)"
  shows "ct_queue c' = ct_queue c \<and> ct_delayed c' = ct_delayed c \<and> ct_seen c' = ct_seen c"
  using assms by (auto simp: call_api_def Let_def split: option.splits if_splits)

lemma call_api_objects:
  "call_api X a f c = (c', None) \<Longrightarrow> ct_objects c' = f (ct_objects c)"
  "call_api X a f c = (c', Some err) \<Longrightarrow> ct_objects c' = ct_objects c"
  by (auto simp: call_api_def Let_def split: option.splits if_splits)

definition others_kept :: "string list \<Rightarrow> ctrl \<Rightarrow> ctrl \<Rightarrow> bool" where
  "others_kept names c c' \<longleftrightarrow>
     ct_queue c' = ct_queue c \<and> ct_delayed c' = ct_delayed c \<and> ct_seen c' = ct_seen c \<and>
     (own_names (ct_objects c) \<longrightarrow> own_names (ct_objects c')) \<and>
     (\<forall>n. n \<notin> set names \<longrightarrow> map_of (ct_objects c') n = map_of (ct_objects c) n)"

lemma others_kept_refl [simp]: "others_kept names c c"
  by (simp add: others_kept_def)

lemma others_kept_trans: "others_kept ms a b \<Longrightarrow> others_kept ns b c \<Longrightarrow> others_kept (ms @ ns) a c"
  by (simp add: others_kept_def)

lemma configured_setup: "no_Setup a = no_Setup b \<Longrightarrow> configured X n a = configured X n b"
  by (simp add: configured_def)

lemma sync_one:
  assumes "sync_loop X [n] c = (c', e)" and "ce_UpdateNLS X" and "own_names (ct_objects c)" and "own_names (ct_seen c)"
  shows "others_kept [n] c c' \<and> (e = None \<longrightarrow> settled X c' n) \<and> (e \<noteq> None \<longrightarrow> ct_objects c' = ct_objects c)"
proof (cases "map_of (ct_seen c) n")
  case None
  show ?thesis
  proof (cases "updateNLSSpec X (new_nls X n)")
    case (Inl err)
    with assms None show ?thesis by (auto simp: sync_loop.simps(2))
  next
    case (Inr nls)
    then have nls: "configured X n nls" "no_Name nls = n" by (auto dest: updateNLSSpec_keeps simp: new_nls_def)
    obtain c1 e1 where call: "call_api X (CreatedNLS nls) (AList.update n nls) c = (c1, e1)" by fastforce
    with assms(1) None Inr have "c' = c1" "e = e1" by (auto simp: sync_loop.simps(2) split: option.splits)
    with call call_api_queues [OF call] nls assms(3) show ?thesis
      by (cases e1) (auto dest!: call_api_objects simp: others_kept_def settled_def go_map_simps)
  qed
next
  case (Some nls)
  with assms(4) have n: "no_Name nls = n" by (simp add: own_names_def)
  have e: "updateNLSIfNeeded X nls c = (c', e)"
    using assms(1,2) Some by (cases "updateNLSIfNeeded X nls c"; cases "snd (updateNLSIfNeeded X nls c)")
      (auto simp: sync_loop.simps(2))
  show ?thesis
  proof (cases "updateNLSSpec X nls")
    case (Inl err)
    with e show ?thesis by (auto simp: updateNLSIfNeeded_def)
  next
    case (Inr u)
    then have u: "configured X n u" "no_Name u = n" using n by (auto dest: updateNLSSpec_keeps)
    show ?thesis
    proof (cases "nls = u")
      case True
      with e Inr Some u show ?thesis by (simp add: updateNLSIfNeeded_def settled_def) metis
    next
      case False
      let ?f = "\<lambda>m. AList.update n (case map_of m n of None \<Rightarrow> u | Some o1 \<Rightarrow> u\<lparr>no_Status := no_Status o1\<rparr>) m"
      from False e Inr n have call: "call_api X (UpdatedNLS u) ?f c = (c', e)" by (simp add: updateNLSIfNeeded_def)
      have "configured X n (u\<lparr>no_Status := st\<rparr>)" for st using u(1) configured_setup [of u "u\<lparr>no_Status := st\<rparr>"] by simp
      with call call_api_queues [OF call] u assms(3) show ?thesis
        by (cases e) (auto dest!: call_api_objects simp: others_kept_def settled_def go_map_simps split: option.split)
    qed
  qed
qed

lemma sync_loop_Cons:
  "sync_loop X (n # ns) c =
     (case sync_loop X [n] c of (c, Some err) \<Rightarrow> (c, Some err) | (c, None) \<Rightarrow> sync_loop X ns c)"
  by (simp add: sync_loop.simps(2) split: option.splits sum.splits prod.splits)

lemma settled_kept:
  "others_kept ns c c' \<Longrightarrow> n \<notin> set ns \<Longrightarrow> settled X c' n = settled X c n"
  by (simp add: others_kept_def settled_def)

lemma sync_all:
  assumes "sync_loop X ns c = (c', e)" and "ce_UpdateNLS X" and "own_names (ct_objects c)" and "own_names (ct_seen c)"
  shows "others_kept ns c c' \<and> (\<forall>n. settled X c n \<longrightarrow> settled X c' n) \<and> (e = None \<longrightarrow> (\<forall>n \<in> set ns. settled X c' n))"
  using assms(1,3,4)
proof (induction ns arbitrary: c)
  case (Cons n ns)
  obtain c1 e1 where one: "sync_loop X [n] c = (c1, e1)" by fastforce
  note first = sync_one [OF one assms(2) Cons.prems(2,3)]
  then have keep: "settled X c m \<longrightarrow> settled X c1 m" for m
    using settled_kept [of "[n]" c c1 m X] by (cases "m = n"; cases e1) (auto simp: settled_def others_kept_def)
  have rest: "(case e1 of None \<Rightarrow> sync_loop X ns c1 | Some err \<Rightarrow> (c1, Some err)) = (c', e)"
    using Cons.prems(1) by (simp only: sync_loop_Cons [of X n ns c] one prod.case)
  show ?case
  proof (cases e1)
    case None
    with rest have loop: "sync_loop X ns c1 = (c', e)" by simp
    from first Cons.prems(2,3) have own: "own_names (ct_objects c1)" "own_names (ct_seen c1)" by (simp_all add: others_kept_def)
    note IH = Cons.IH [OF loop own]
    from first have "others_kept ([n] @ ns) c c'" by (intro others_kept_trans [OF _ IH [THEN conjunct1]]) simp
    moreover from first None have "settled X c1 n" by simp
    ultimately show ?thesis using IH keep by simp
  next
    case (Some err)
    with rest have "c' = c1" "e = Some err" by simp_all
    with first keep show ?thesis by (auto simp: others_kept_def)
  qed
qed simp

lemma syncHandler_ok:
  assumes "syncHandler X (SyncNLSItem cfg m) c = (c', e)" and "ce_UpdateNLS X" and "own_names (ct_objects c)" and "own_names (ct_seen c)"
  shows "own_names (ct_objects c') \<and> ct_queue c' = ct_queue c \<and> ct_delayed c' = ct_delayed c \<and> ct_seen c' = ct_seen c \<and>
    (\<forall>n. settled X c n \<longrightarrow> settled X c' n) \<and>
    (e = None \<longrightarrow> (\<forall>n. map_of (ce_nodes X) n \<noteq> None \<longrightarrow> m = [] \<or> m = n \<longrightarrow> settled X c' n))"
proof (cases "m = [] \<and> ce_list_error X \<noteq> None")
  case True
  with assms show ?thesis by (auto simp: syncHandler_def)
next
  case False
  let ?names = "if m \<noteq> [] then [m] else map fst (ce_nodes X)"
  obtain c1 e1 where loop: "sync_loop X ?names c = (c1, e1)" by fastforce
  note all = sync_all [OF loop assms(2-4)]
  from False have names: "(if m \<noteq> [] then Inr [m] else case ce_list_error X of Some err \<Rightarrow> Inl err | None \<Rightarrow> Inr (map fst (ce_nodes X))) =
      (Inr ?names :: go_error + string list)"
    by auto
  have c': "ct_objects c' = ct_objects c1 \<and> ct_queue c' = ct_queue c1 \<and> ct_delayed c' = ct_delayed c1 \<and> ct_seen c' = ct_seen c1 \<and>
      (e = None \<longrightarrow> e1 = None)"
    using assms(1) unfolding syncHandler_def nls_item.case names sum.case loop prod.case
    by (auto split: option.splits if_splits)
  then have "settled X c' n = settled X c1 n" for n by (simp add: settled_def)
  moreover have "n \<in> set ?names" if "map_of (ce_nodes X) n \<noteq> None" "m = [] \<or> m = n" for n
    using that by (auto simp: map_of_eq_None_iff)
  ultimately show ?thesis using all c' assms(3) by (auto simp: others_kept_def)
qed

subsection \<open>Every step\<close>

lemma ctrl_okI:
  assumes "ctrl_ok (X, c, U)" and "ce_UpdateNLS X' = ce_UpdateNLS X" and "own_names (ct_objects c')" and "own_names (ct_seen c')"
    and "\<And>n. map_of (ce_nodes X') n \<noteq> None \<Longrightarrow> n \<notin> U' \<Longrightarrow>
      (map_of (ce_nodes X) n \<noteq> None \<Longrightarrow> n \<notin> U \<Longrightarrow> waiting c n \<or> settled X c n) \<Longrightarrow> waiting c' n \<or> settled X' c' n"
  shows "ctrl_ok (X', c', U')"
  using assms by (auto simp: ctrl_ok_def)

lemma waiting_enqueue [simp]:
  "waiting (enqueue i c) n \<longleftrightarrow> waiting c n \<or> (\<exists>cfg m. i = WorkNLS (SyncNLSItem cfg m) \<and> (m = [] \<or> m = n))"
  by (auto simp: waiting_def)

lemma settled_enqueue [simp]: "settled X (enqueue i c) n = settled X c n"
  by (simp add: settled_def)

lemma waiting_fields [simp]:
  "waiting (c\<lparr>ct_seen := a\<rparr>) n = waiting c n" "waiting (c\<lparr>ct_objects := b\<rparr>) n = waiting c n" "waiting (c\<lparr>ct_calls := d\<rparr>) n = waiting c n"
  by (simp_all add: waiting_def)

lemma worked_ok:
  assumes "ctrl_ok (X, c, U)" and "processNextWorkItem X c = Some c'"
  shows "ctrl_ok (X, c', U)"
proof (cases "ct_queue c")
  case Nil
  with assms show ?thesis by (simp add: processNextWorkItem_def)
next
  case (Cons item rest)
  let ?c = "c\<lparr>ct_queue := rest\<rparr>"
  from assms(1) have ok: "ce_UpdateNLS X" "own_names (ct_objects ?c)" "own_names (ct_seen ?c)" by (simp_all add: ctrl_ok_def)
  have left: "waiting c n \<longleftrightarrow> waiting ?c n \<or> (\<exists>cfg m. item = WorkNLS (SyncNLSItem cfg m) \<and> (m = [] \<or> m = n))" for n
    by (auto simp: waiting_def Cons)
  show ?thesis
  proof (cases item)
    case (WorkPV ns name)
    with assms(2) Cons have c': "ct_objects c' = ct_objects c \<and> ct_seen c' = ct_seen c \<and> set (ct_queue c') = set rest \<and>
        set (ct_delayed c) \<subseteq> set (ct_delayed c')"
      by (auto simp: processNextWorkItem_def Let_def split: option.splits if_splits)
    then have "waiting ?c n \<Longrightarrow> waiting c' n" for n by (auto simp: waiting_def)
    moreover from c' have "settled X c' n = settled X c n" for n by (simp add: settled_def)
    ultimately show ?thesis using ok left WorkPV c' by (intro ctrl_okI [OF assms(1)]) auto
  next
    case (WorkNLS i)
    obtain cfg m where i: "i = SyncNLSItem cfg m" by (cases i)
    obtain c1 e1 where run: "syncHandler X (SyncNLSItem cfg m) ?c = (c1, e1)" by fastforce
    note handled = syncHandler_ok [OF run ok]
    from assms(2) Cons WorkNLS i run have c': "c' = (if e1 = None then c1 else requeue item c1)"
      by (auto simp: processNextWorkItem_def Let_def split: option.splits)
    then have "settled X c' n = settled X c1 n" for n by (simp add: settled_def)
    moreover have "waiting c' n \<longleftrightarrow> waiting ?c n \<or> (e1 \<noteq> None \<and> (m = [] \<or> m = n))" for n
      using handled c' WorkNLS i by (auto simp: waiting_def)
    moreover have "settled X ?c n = settled X c n" for n by (simp add: settled_def)
    ultimately show ?thesis using handled left WorkNLS i ok c'
      by (intro ctrl_okI [OF assms(1)]) (auto split: if_splits)
  qed
qed

lemma ctrl_step_ok: "ctrl_step s s' \<Longrightarrow> ctrl_ok s \<Longrightarrow> ctrl_ok s'"
proof (induction rule: ctrl_step.induct)
  case (config_changed X' X name cfg c U)
  have "settled X' c n = settled X c n" if "name \<noteq> ce_nlscName X" for n
    using that config_changed.hyps configured_cong [of X' X] by (simp add: settled_def)
  with config_changed show ?case
    by (intro ctrl_okI [OF config_changed.prems]) (auto simp: handleNLSC_def enqueueNLSC_def ctrl_ok_def)
next
  case (config_deleted X' X name c U)
  have "settled X' c n = settled X c n" if "name \<noteq> ce_nlscName X" for n
    using that config_deleted.hyps configured_cong [of X' X] by (simp add: settled_def)
  with config_deleted show ?case
    by (intro ctrl_okI [OF config_deleted.prems]) (auto simp: ctrl_ok_def split: if_splits)
next
  case (node_added X' n labels X c U)
  have "settled X' c m = settled X c m" if "m \<noteq> n" for m
    using that node_added.hyps configured_cong [of X' X] by (simp add: settled_def go_map_simps)
  with node_added show ?case
    by (intro ctrl_okI [OF node_added.prems]) (auto simp: createNLSByNode_def enqueueNLSC_def ctrl_ok_def go_map_simps split: if_splits)
next
  case (node_relabelled X n X' labels c U)
  have "settled X' c m = settled X c m" if "m \<noteq> n" for m
    using that node_relabelled.hyps configured_cong [of X' X] by (simp add: settled_def go_map_simps)
  with node_relabelled show ?case
    by (intro ctrl_okI [OF node_relabelled.prems]) (auto simp: ctrl_ok_def go_map_simps split: if_splits)
next
  case (node_deleted X' n X c U)
  obtain c' e where call: "call_api X' (DeletedNLS n) (AList.delete n) c = (c', e)" by fastforce
  have "ct_objects c' = AList.delete n (ct_objects c) \<or> ct_objects c' = ct_objects c"
    by (cases e) (use call call_api_objects in blast)+
  with call_api_queues [OF call] have c': "own_names (ct_objects c) \<Longrightarrow> own_names (ct_objects c')" "ct_seen c' = ct_seen c"
      "waiting c' m = waiting c m" "m \<noteq> n \<Longrightarrow> map_of (ct_objects c') m = map_of (ct_objects c) m" for m
    by (auto simp: waiting_def go_map_simps)
  moreover from c' have "settled X' c' m = settled X c m" if "m \<noteq> n" for m
    using that node_deleted.hyps configured_cong [of X' X] by (simp add: settled_def go_map_simps)
  ultimately show ?case using node_deleted call
    by (intro ctrl_okI [OF node_deleted.prems]) (auto simp: deleteNLSByNode_def ctrl_ok_def go_map_simps split: if_splits)
next
  case (nls_seen c n nls X U)
  moreover have "settled X c m \<Longrightarrow> settled X (c\<lparr>ct_seen := AList.update n nls (ct_seen c)\<rparr>) m \<or> n = m" for m
    by (simp add: settled_def go_map_simps)
  ultimately show ?case
    by (intro ctrl_okI [OF nls_seen.prems])
      (auto simp: ctrl_handleNLS_def enqueueNLSC_def ctrl_ok_def own_names_def go_map_simps split: if_splits, blast)
next
  case (nls_gone c n X U)
  from nls_gone.prems have "ce_UpdateNLS X" "own_names (ct_objects c)" "own_names (ct_seen c)" by (simp_all add: ctrl_ok_def)
  moreover have "settled X (c\<lparr>ct_seen := AList.delete n (ct_seen c)\<rparr>) m = settled X c m" if "m \<noteq> n" for m
    using that by (simp add: settled_def go_map_simps)
  ultimately show ?case by (intro ctrl_okI [OF nls_gone.prems]) simp_all
next
  case (nls_resynced c n X U)
  then show ?case by (intro ctrl_okI [OF nls_resynced.prems]) (auto simp: ctrl_handleNLS_def enqueueNLSC_def ctrl_ok_def)
next
  case (pod_event X c U old pod)
  then show ?case
    by (intro ctrl_okI [OF pod_event.prems]) (auto simp: enqueueSyncPVItemByPod_def Let_def ctrl_ok_def split: option.split)
next
  case (worked X c c' U)
  then show ?case by (blast intro: worked_ok)
next
  case (delay_over item c X U)
  let ?c = "c\<lparr>ct_delayed := removeAll item (ct_delayed c)\<rparr>"
  from delay_over.hyps have "waiting (enqueue item ?c) n = waiting c n" for n by (auto simp: waiting_def)
  moreover have "settled X ?c n = settled X c n" for n by (simp add: settled_def)
  ultimately show ?case using delay_over by (intro ctrl_okI [OF delay_over.prems]) (auto simp: ctrl_ok_def)
next
  case (edited nls n c X U)
  then have "settled X c m \<Longrightarrow> settled X (c\<lparr>ct_objects := AList.update n nls (ct_objects c)\<rparr>) m" for m
    by (auto simp: settled_def go_map_simps)
  with edited show ?case by (intro ctrl_okI [OF edited.prems]) (auto simp: ctrl_ok_def)
next
  case (removed c n X U)
  then have "settled X c m \<Longrightarrow> settled X (c\<lparr>ct_objects := AList.delete n (ct_objects c)\<rparr>) m" for m
    by (auto simp: settled_def go_map_simps)
  with removed show ?case by (intro ctrl_okI [OF removed.prems]) (auto simp: ctrl_ok_def)
qed

lemma ctrl_reachable_ok: "ctrl_reachable s \<Longrightarrow> ctrl_ok s"
proof (induction rule: ctrl_reachable.induct)
  case (started X c)
  then show ?case by (simp add: ctrl_ok_def own_names_def)
next
  case (stepped s s')
  then show ?case by (blast intro: ctrl_step_ok)
qed

text \<open>C38: the controller forgets nothing it has a handler for. In every state it can reach, when no item waits, a
  node of which the informer shows the object as it is has an object with the configuration meant for the node, the
  last one that selects it or the global one, provided that the events without a handler (a change of the node's
  labels, the disappearance of its object, the deletion of the configuration) were followed by an event of the node,
  of its object or of the configuration that the controller handles, the resynchronisation included. This holds in
  whatever order events came, handlers ran and calls were refused.\<close>

theorem idle_nodes_configured:
  assumes "ctrl_reachable (X, c, unnoticed)" and "ct_queue c = []" and "ct_delayed c = []"
    and "map_of (ct_seen c) n = map_of (ct_objects c) n" and "map_of (ce_nodes X) n = Some labels"
    and "n \<notin> unnoticed"
  shows "\<exists>nls nlsc. map_of (ct_objects c) n = Some nls \<and> ce_nlsc X (ce_nlscName X) = Some nlsc \<and>
    no_Setup nls = meant_for X nlsc labels"
proof -
  from ctrl_reachable_ok [OF assms(1)] assms(5,6) have "waiting c n \<or> settled X c n" by (simp add: ctrl_ok_def)
  with assms(2-5) show ?thesis by (auto simp: waiting_def settled_def configured_def)
qed

section \<open>One pass is enough\<close>

definition goal_object :: "ctrl_env \<Rightarrow> nls_config \<Rightarrow> ctrl \<Rightarrow> string \<Rightarrow> string gomap \<Rightarrow> nls_object" where
  "goal_object X nlsc c n labels =
     (case map_of (ct_objects c) n of None \<Rightarrow> new_nls X n | Some nls \<Rightarrow> nls)\<lparr>no_Setup := meant_for X nlsc labels\<rparr>"

lemma updateNLSSpec_ok:
  assumes "ce_nlsc X (ce_nlscName X) = Some nlsc" and "readable X nlsc" and "map_of (ce_nodes X) (no_Name nls) = Some labels"
  shows "updateNLSSpec X nls = Inr (nls\<lparr>no_Setup := meant_for X nlsc labels\<rparr>)"
  using assms by (simp add: updateNLSSpec_Inr configured_def)

lemma sync_one_runs:
  assumes "ce_UpdateNLS X" and "ce_nlsc X (ce_nlscName X) = Some nlsc" and "readable X nlsc"
    and "\<And>l a. ce_refuse X l a = None" and "map_of (ce_nodes X) n = Some labels"
    and "own_names (ct_objects c)" and "map_of (ct_seen c) n = map_of (ct_objects c) n"
  shows "\<exists>c'. sync_loop X [n] c = (c', None) \<and> others_kept [n] c c' \<and>
    map_of (ct_objects c') n = Some (goal_object X nlsc c n labels)"
proof (cases "map_of (ct_objects c) n")
  case None
  have "updateNLSSpec X (new_nls X n) = Inr (new_nls X n\<lparr>no_Setup := meant_for X nlsc labels\<rparr>)"
    using assms(2,3,5) by (intro updateNLSSpec_ok) (simp_all add: new_nls_def)
  with None assms show ?thesis
    by (auto simp: sync_loop.simps(2) call_api_def Let_def others_kept_def goal_object_def go_map_simps new_nls_def)
next
  case (Some nls)
  with assms(6) have n: "no_Name nls = n" by (simp add: own_names_def)
  have u: "updateNLSSpec X nls = Inr (nls\<lparr>no_Setup := meant_for X nlsc labels\<rparr>)"
    using assms(2,3,5) n by (intro updateNLSSpec_ok) simp_all
  have same: "nls\<lparr>no_Setup := s, no_Status := no_Status nls\<rparr> = nls\<lparr>no_Setup := s\<rparr>" for s by (cases nls) simp
  show ?thesis
  proof (cases "nls = nls\<lparr>no_Setup := meant_for X nlsc labels\<rparr>")
    case True
    with Some assms(1,7) u show ?thesis by (simp add: sync_loop.simps(2) updateNLSIfNeeded_def goal_object_def)
  next
    case False
    with Some assms n u show ?thesis
      by (simp add: sync_loop.simps(2) updateNLSIfNeeded_def goal_object_def call_api_def Let_def others_kept_def go_map_simps same)
  qed
qed

lemma sync_loop_runs:
  assumes "ce_UpdateNLS X" and "ce_nlsc X (ce_nlscName X) = Some nlsc" and "readable X nlsc"
    and "\<And>l a. ce_refuse X l a = None" and "distinct ns" and "\<And>n. n \<in> set ns \<Longrightarrow> map_of (ce_nodes X) n \<noteq> None"
    and "own_names (ct_objects c)" and "\<And>n. n \<in> set ns \<Longrightarrow> map_of (ct_seen c) n = map_of (ct_objects c) n"
  shows "\<exists>c'. sync_loop X ns c = (c', None) \<and> others_kept ns c c' \<and>
    (\<forall>n labels. n \<in> set ns \<longrightarrow> map_of (ce_nodes X) n = Some labels \<longrightarrow>
       map_of (ct_objects c') n = Some (goal_object X nlsc c n labels))"
  using assms(5-8)
proof (induction ns arbitrary: c)
  case Nil
  then show ?case by simp
next
  case (Cons n ns)
  from Cons.prems obtain labels where n: "map_of (ce_nodes X) n = Some labels" by auto
  obtain c1 where c1: "sync_loop X [n] c = (c1, None)" "others_kept [n] c c1"
      "map_of (ct_objects c1) n = Some (goal_object X nlsc c n labels)"
    using sync_one_runs [OF assms(1-4) n Cons.prems(3)] Cons.prems(4) by auto
  then have same: "map_of (ct_objects c1) m = map_of (ct_objects c) m" if "m \<noteq> n" for m
    using that by (simp add: others_kept_def)
  from c1(2) Cons.prems(3) have own: "own_names (ct_objects c1)" by (simp add: others_kept_def)
  have seen: "map_of (ct_seen c1) m = map_of (ct_objects c1) m" if "m \<in> set ns" for m
    using that c1(2) same [of m] Cons.prems(1) Cons.prems(4) [of m] by (auto simp: others_kept_def)
  obtain c2 where c2: "sync_loop X ns c1 = (c2, None)" "others_kept ns c1 c2"
      "\<And>m labels. m \<in> set ns \<Longrightarrow> map_of (ce_nodes X) m = Some labels \<Longrightarrow>
         map_of (ct_objects c2) m = Some (goal_object X nlsc c1 m labels)"
    using Cons.IH [OF _ _ own seen] Cons.prems(1,2) by auto
  have goal: "goal_object X nlsc c1 m ls = goal_object X nlsc c m ls" if "m \<in> set ns" for m ls
    using that Cons.prems(1) same [of m] by (cases "m = n") (simp_all add: goal_object_def)
  have "sync_loop X (n # ns) c = (c2, None)" using c1(1) c2(1) by (simp only: sync_loop_Cons [of X n ns c] prod.case option.case)
  moreover have "others_kept (n # ns) c c2" using others_kept_trans [OF c1(2) c2(2)] by simp
  moreover have "map_of (ct_objects c2) n = Some (goal_object X nlsc c n labels)"
    using c1(3) c2(2) Cons.prems(1) by (simp add: others_kept_def)
  moreover have "map_of (ct_objects c2) m = Some (goal_object X nlsc c m ls)"
    if "m \<in> set ns" "map_of (ce_nodes X) m = Some ls" for m ls
    using c2(3) [OF that] goal [OF that(1)] by simp
  ultimately show ?case using n by (intro exI [of _ c2] conjI allI impI) auto
qed

lemma sync_loop_idle:
  assumes "\<And>n. n \<in> set ns \<Longrightarrow> \<exists>nls. map_of (ct_seen c) n = Some nls \<and> updateNLSSpec X nls = Inr nls"
  shows "sync_loop X ns c = (c, None)"
  using assms
proof (induction ns)
  case (Cons n ns)
  from Cons.prems [of n] obtain nls where "map_of (ct_seen c) n = Some nls" "updateNLSSpec X nls = Inr nls" by auto
  with Cons show ?case by (simp add: sync_loop.simps(2) updateNLSIfNeeded_def)
qed simp

lemma syncHandler_global:
  assumes "ce_list_error X = None" and "ce_nlsc X (ce_nlscName X) \<noteq> None"
    and "sync_loop X (map fst (ce_nodes X)) c = (c', None)"
  shows "syncHandler X (SyncNLSItem (ce_nlscName X) []) c =
    (c'\<lparr>ct_calls := ct_calls c' @ [RecordedSync (ce_nlscName X)]\<rparr>, None)"
  using assms by (auto simp: syncHandler_def)

text \<open>C39: when no call is refused and the informer is up to date, one pass over the nodes gives each of them the object
  meant for it: the one it had, with only its configuration changed, or a new one; no other object changes. Once the
  informer has seen the result, another pass writes nothing.\<close>

theorem one_pass_repairs:
  assumes "ce_UpdateNLS X" and "ce_nlsc X (ce_nlscName X) = Some nlsc" and "readable X nlsc" and "ce_list_error X = None"
    and "\<And>l a. ce_refuse X l a = None" and "wf_map (ce_nodes X)" and "own_names (ct_objects c)" and "ct_seen c = ct_objects c"
  shows "\<exists>c'. syncHandler X (SyncNLSItem (ce_nlscName X) []) c = (c', None) \<and>
    (\<forall>n. map_of (ct_objects c') n =
       (case map_of (ce_nodes X) n of None \<Rightarrow> map_of (ct_objects c) n | Some labels \<Rightarrow> Some (goal_object X nlsc c n labels))) \<and>
    (let s = c'\<lparr>ct_seen := ct_objects c'\<rparr>
     in syncHandler X (SyncNLSItem (ce_nlscName X) []) s = (s\<lparr>ct_calls := ct_calls s @ [RecordedSync (ce_nlscName X)]\<rparr>, None))"
proof -
  let ?ns = "map fst (ce_nodes X)"
  have nodes: "n \<in> set ?ns \<longleftrightarrow> map_of (ce_nodes X) n \<noteq> None" for n by (metis domIff dom_map_of_conv_image_fst list.set_map)
  obtain c1 where c1: "sync_loop X ?ns c = (c1, None)" "others_kept ?ns c c1"
      "\<And>n labels. map_of (ce_nodes X) n = Some labels \<Longrightarrow> map_of (ct_objects c1) n = Some (goal_object X nlsc c n labels)"
    using sync_loop_runs [OF assms(1-3,5), of ?ns c] assms(6-8) nodes by auto
  let ?c = "c1\<lparr>ct_calls := ct_calls c1 @ [RecordedSync (ce_nlscName X)]\<rparr>"
  let ?s = "?c\<lparr>ct_seen := ct_objects ?c\<rparr>"
  have "map_of (ct_objects ?c) n =
      (case map_of (ce_nodes X) n of None \<Rightarrow> map_of (ct_objects c) n | Some labels \<Rightarrow> Some (goal_object X nlsc c n labels))" for n
    using c1 nodes [of n] by (simp add: others_kept_def split: option.split)
  moreover have "\<exists>nls. map_of (ct_seen ?s) n = Some nls \<and> updateNLSSpec X nls = Inr nls" if "n \<in> set ?ns" for n
  proof -
    from that nodes obtain labels where n: "map_of (ce_nodes X) n = Some labels" by auto
    let ?g = "goal_object X nlsc c n labels"
    have "no_Name ?g = n" using assms(7) by (auto simp: goal_object_def new_nls_def own_names_def split: option.split)
    with n have "updateNLSSpec X ?g = Inr (?g\<lparr>no_Setup := meant_for X nlsc labels\<rparr>)" by (intro updateNLSSpec_ok [OF assms(2,3)]) simp
    then show ?thesis using c1(3) [OF n] by (simp add: goal_object_def)
  qed
  then have "sync_loop X ?ns ?s = (?s, None)" by (rule sync_loop_idle)
  ultimately show ?thesis
    using syncHandler_global [OF assms(4) _ c1(1)] syncHandler_global [OF assms(4), of ?s ?s] assms(2)
    by (intro exI [of _ ?c]) (simp add: Let_def)
qed

section \<open>Volumes\<close>

text \<open>A volume whose group is recorded is not patched; one of a device is, whatever device is recorded.\<close>

lemma recorded_group_kept:
  "IsOpenLocalPV pv = (True, VolumeTypeLVM) \<Longrightarrow> GetVGNameFromCsiPV K pv \<noteq> [] \<Longrightarrow>
   patchAllocateInfoToPV K A pv info = ([], None)"
  by (simp add: patchAllocateInfoToPV_def)

lemma recorded_device_patched:
  "IsOpenLocalPV pv = (True, VolumeTypeDevice) \<Longrightarrow> GetVGNameFromCsiPV K pv = [] \<Longrightarrow>
   patchAllocateInfoToPV K A pv info = PatchAllocateInfoToPV A pv info"
  by (simp add: patchAllocateInfoToPV_def)

text \<open>A pod that waits for a claim that was deleted stops the worker.\<close>

lemma missing_claim_panics:
  assumes "ce_pods X ns name = Some pod" and "GetAllocateInfoFromPod X pod = Inr (Some allocates)" and "range_ok (ce_range X)"
    and "map_of allocates k = Some alloc" and "pvc_get (ce_K X) (pai_PVCNameSpace alloc) (pai_PVCName alloc) = None"
  shows "addVGInfoToPVsForPod X ns name = None"
proof -
  have "migrate_loop X pod as = None" if "(k, alloc) \<in> set as" for as
    using that assms(5)
  proof (induction as)
    case (Cons a as)
    obtain k' alloc' where a: "a = (k', alloc')" by (cases a)
    show ?case
    proof (cases "a = (k, alloc)")
      case True
      with assms(5) show ?thesis by (simp add: migrate_loop.simps(2))
    next
      case False
      with Cons have "migrate_loop X pod as = None" by simp
      then show ?thesis by (simp add: a migrate_loop.simps(2) Let_def split: option.split prod.split)
    qed
  qed simp
  moreover have "(k, alloc) \<in> set (reorder (ce_range X) allocates)"
    using map_of_SomeD [of "reorder (ce_range X) allocates" k alloc] assms(3,4) by simp
  ultimately show ?thesis using assms(1,2) by (simp add: addVGInfoToPVsForPod_def)
qed

section \<open>An example\<close>

definition ex_config :: nls_config where
  "ex_config =
     \<lparr>ni_Global = empty_setup,
      ni_NodesConfig = [\<lparr>nc_Selector = ''ssd'', nc_Setup = empty_setup\<lparr>su_VGs := \<lparr>lc_Include = [''pool''], lc_Exclude = []\<rparr>\<rparr>\<rparr>]\<rparr>"

definition ex_ctrl_env :: ctrl_env where
  "ex_ctrl_env =
     \<lparr>ce_nlscName = ''cfg'', ce_UpdateNLS = True, ce_nodes = [], ce_list_error = None, ce_nlsc = (\<lambda>_. None), ce_K = ex_kube,
      ce_A = \<lparr>MarshalPVInfo = (\<lambda>_. Inr []), MarshalPvcAllocates = (\<lambda>_. Inr []), GeneratePVPatch = (\<lambda>_ _. Inr []),
        GeneratePodPatch = (\<lambda>_ _. Inr []), PVPatch = (\<lambda>_ _. None), PodPatch = (\<lambda>_ _ _. None)\<rparr>,
      ce_pods = (\<lambda>_ _. None), ce_UnmarshalPodInfo = (\<lambda>_. Inr None), ce_range = (\<lambda>ks. ks),
      ce_Matches = (\<lambda>sel. Inr (\<lambda>labels. map_of labels sel \<noteq> None)), ce_refuse = (\<lambda>_ _. None)\<rparr>"

abbreviation ex_with_config :: ctrl_env where
  "ex_with_config \<equiv> ex_ctrl_env\<lparr>ce_nlsc := (ce_nlsc ex_ctrl_env)(''cfg'' := Some ex_config)\<rparr>"

abbreviation ex_with_node :: ctrl_env where
  "ex_with_node \<equiv> ex_with_config\<lparr>ce_nodes := AList.update ''n'' [(''ssd'', [])] (ce_nodes ex_with_config)\<rparr>"

definition ex_start :: ctrl where
  "ex_start = \<lparr>ct_objects = [], ct_seen = [], ct_queue = [], ct_delayed = [], ct_calls = []\<rparr>"

abbreviation work :: "ctrl \<Rightarrow> ctrl" where
  "work c \<equiv> the (processNextWorkItem ex_with_node c)"

abbreviation ex_made :: ctrl where
  "ex_made \<equiv> work (createNLSByNode ex_with_node ''n'' (handleNLSC ex_with_config ''cfg'' ex_start))"

abbreviation ex_seen :: ctrl where
  "ex_seen \<equiv> ctrl_handleNLS ex_with_node ''n'' (ex_made\<lparr>ct_seen := AList.update ''n'' (the (map_of (ct_objects ex_made) ''n'')) (ct_seen ex_made)\<rparr>)"

definition ex_idle :: ctrl where
  "ex_idle = work ex_seen"

lemma ex_idle_reachable: "ctrl_reachable (ex_with_node, ex_idle, {})"
proof -
  have "ctrl_reachable (ex_ctrl_env, ex_start, {})"
    by (rule ctrl_reachable.started) (simp_all add: ex_ctrl_env_def ex_start_def)
  from stepped [OF this config_changed [OF refl, where name = "''cfg''" and cfg = ex_config]]
  have "ctrl_reachable (ex_with_config, handleNLSC ex_with_config ''cfg'' ex_start, {})"
    by (simp add: ex_ctrl_env_def)
  from stepped [OF this node_added [OF refl]]
  have "ctrl_reachable (ex_with_node, createNLSByNode ex_with_node ''n'' (handleNLSC ex_with_config ''cfg'' ex_start), {})" by simp
  moreover have "processNextWorkItem ex_with_node (createNLSByNode ex_with_node ''n'' (handleNLSC ex_with_config ''cfg'' ex_start)) = Some ex_made"
    by (rule option.collapse [symmetric]) code_simp
  ultimately have "ctrl_reachable (ex_with_node, ex_made, {})" by (rule stepped [OF _ worked])
  moreover have "map_of (ct_objects ex_made) ''n'' = Some (the (map_of (ct_objects ex_made) ''n''))"
    by (rule option.collapse [symmetric]) code_simp
  ultimately have "ctrl_reachable (ex_with_node, ex_seen, {} - {''n''})" by (rule stepped [OF _ nls_seen])
  moreover have "processNextWorkItem ex_with_node ex_seen = Some ex_idle"
    unfolding ex_idle_def by (rule option.collapse [symmetric]) code_simp
  ultimately have "ctrl_reachable (ex_with_node, ex_idle, {} - {''n''})" by (rule stepped [OF _ worked])
  then show ?thesis by simp
qed

lemma idle_nodes_configured_witness:
  "\<exists>nls. map_of (ct_objects ex_idle) ''n'' = Some nls \<and> su_VGs (no_Setup nls) = \<lparr>lc_Include = [''pool''], lc_Exclude = []\<rparr>"
proof -
  have idle: "ct_queue ex_idle = []" "ct_delayed ex_idle = []" "map_of (ct_seen ex_idle) ''n'' = map_of (ct_objects ex_idle) ''n''"
    "map_of (ce_nodes ex_with_node) ''n'' = Some [(''ssd'', [])]"
    by code_simp+
  from idle_nodes_configured [OF ex_idle_reachable idle] obtain nls nlsc where
    "map_of (ct_objects ex_idle) ''n'' = Some nls" "ce_nlsc ex_with_node (ce_nlscName ex_with_node) = Some nlsc"
    "no_Setup nls = meant_for ex_with_node nlsc [(''ssd'', [])]" by blast
  moreover have "nlsc = ex_config" using calculation(2) by (simp add: ex_ctrl_env_def)
  moreover have "su_VGs (meant_for ex_with_node ex_config [(''ssd'', [])]) = \<lparr>lc_Include = [''pool''], lc_Exclude = []\<rparr>"
    by code_simp
  ultimately show ?thesis by simp
qed

text \<open>An idle controller after the node lost its label: the object keeps the configuration for the label.\<close>

abbreviation ex_without_label :: ctrl_env where
  "ex_without_label \<equiv> ex_with_node\<lparr>ce_nodes := AList.update ''n'' [] (ce_nodes ex_with_node)\<rparr>"

lemma relabelled_node_unnoticed:
  "ctrl_reachable (ex_without_label, ex_idle, {''n''}) \<and> ct_queue ex_idle = [] \<and> ct_delayed ex_idle = [] \<and>
   map_option no_Setup (map_of (ct_objects ex_idle) ''n'') \<noteq> Some (meant_for ex_without_label ex_config [])"
proof (intro conjI)
  have "map_of (ce_nodes ex_with_node) ''n'' \<noteq> None" by code_simp
  from stepped [OF ex_idle_reachable node_relabelled [OF this refl]]
  show "ctrl_reachable (ex_without_label, ex_idle, {''n''})" by simp
qed code_simp+

lemma one_pass_repairs_witness:
  "\<exists>c'. syncHandler ex_with_node (SyncNLSItem ''cfg'' []) ex_start = (c', None) \<and> map_of (ct_objects c') ''n'' \<noteq> None"
proof -
  have "ce_nlscName ex_with_node = ''cfg''" "ce_UpdateNLS ex_with_node" "ce_list_error ex_with_node = None" "wf_map (ce_nodes ex_with_node)"
    "ce_nlsc ex_with_node (ce_nlscName ex_with_node) = Some ex_config" "readable ex_with_node ex_config"
    "map_of (ce_nodes ex_with_node) ''n'' \<noteq> None" "ce_refuse ex_with_node l a = None" for l a
    by (simp_all add: ex_ctrl_env_def readable_def)
  moreover have "own_names (ct_objects ex_start)" "ct_seen ex_start = ct_objects ex_start" by (simp_all add: ex_start_def own_names_def)
  ultimately show ?thesis using one_pass_repairs [of ex_with_node ex_config ex_start] by auto
qed

end
