(* ===== verification/Ctrl_Snapshots.thy ===== *)
theory Ctrl_Snapshots
  imports Ctrl_Sync
begin

text \<open>
  How the controller cleans up after snapshots: it marks the contents of deleted snapshots so that the snapshot
  controller goes on with their deletion (\<open>controller.go\<close>), and once a day, and whenever a content is deleted, it
  removes the repositories in the S3 bucket that no content refers to (\<open>clean_s3_snapshot.go\<close>). What the listers
  and the S3 service answer are parameters; every call that changes something is recorded.
\<close>

section \<open>Objects\<close>

record snapshot_content =
  so_Name :: string
  so_Deleted :: bool \<comment> \<open>has a deletion time stamp\<close>
  so_RefUID :: string
  so_RefNamespace :: string
  so_RefName :: string
  so_ClassName :: "string option"
  so_Driver :: string
  so_VolumeHandle :: "string option"
  so_Annotations :: "string gomap"

record snapshot_class =
  sl_Name :: string
  sl_Driver :: string
  sl_Parameters :: "string gomap"

text \<open>How the S3 service is reached, from the secret a class names.\<close>

record s3_access =
  s3_Region :: string
  s3_Endpoint :: string
  s3_DisableSSL :: bool
  s3_ForcePathStyle :: bool
  s3_AK :: string
  s3_SK :: string
  s3_Token :: string

datatype s3_call = DeleteObject s3_access string \<comment> \<open>in the bucket \<open>open-local\<close>\<close>

record snapshot_env =
  se_contents :: "snapshot_content list result"
  se_classes :: "snapshot_class list result"
  se_class :: "string \<Rightarrow> snapshot_class result"
  se_snapshot :: "string \<Rightarrow> string \<Rightarrow> go_error option" \<comment> \<open>the error of looking for it, if any\<close>
  se_clusterID :: "string result" \<comment> \<open>\<open>GetClusterID\<close>: the UID of a namespace\<close>
  se_secret :: "string \<Rightarrow> string \<Rightarrow> string gomap result"
  se_session :: "s3_access \<Rightarrow> bool"
  se_HeadBucket :: "s3_call list \<Rightarrow> s3_access \<Rightarrow> bool"
  se_ListObjects :: "s3_call list \<Rightarrow> s3_access \<Rightarrow> string \<Rightarrow> string list list result" \<comment> \<open>the pages of keys with a prefix\<close>
  se_range :: range_order
  se_Update :: "snapshot_content \<Rightarrow> bool" \<comment> \<open>whether the API server accepts it\<close>

section \<open>Contents of deleted snapshots\<close>

definition AnnVolumeSnapshotBeingDeleted :: string where
  "AnnVolumeSnapshotBeingDeleted = ''snapshot.storage.kubernetes.io/volumesnapshot-being-deleted''"

text \<open>\<open>None\<close> when the content has no class: the code reads through the missing name.\<close>

definition isOrphanSnapshotContent :: "snapshot_env \<Rightarrow> snapshot_content \<Rightarrow> (go_error + bool) option" where
  "isOrphanSnapshotContent X content =
     (if \<not> so_Deleted content then Some (Inr False)
      else if so_RefUID content = [] then Some (Inr False)
      else (case so_ClassName content of
              None \<Rightarrow> None
            | Some className \<Rightarrow>
                Some (case se_class X className of
                        Inl err \<Rightarrow> Inl (Errorf err [])
                      | Inr class \<Rightarrow>
                          if \<not> ContainsProvisioner (sl_Driver class) then Inr False
                          else (case se_snapshot X (so_RefNamespace content) (so_RefName content) of
                                  None \<Rightarrow> Inr False
                                | Some (NotFound _) \<Rightarrow> Inr True
                                | Some err \<Rightarrow> Inl err))))"

text \<open>The annotation is set on the object the lister shares, also when the API server then refuses the update.\<close>

definition setAnnVolumeSnapshotBeingDeleted :: "snapshot_content \<Rightarrow> snapshot_content" where
  "setAnnVolumeSnapshotBeingDeleted content =
     (if map_of (so_Annotations content) AnnVolumeSnapshotBeingDeleted \<noteq> None then content
      else content\<lparr>so_Annotations := AList.update AnnVolumeSnapshotBeingDeleted ''yes'' (so_Annotations content)\<rparr>)"

text \<open>The lister's contents afterwards, and the updates that were sent.\<close>

fun orphan_loop ::
  "snapshot_env \<Rightarrow> snapshot_content list \<Rightarrow> (snapshot_content list \<times> snapshot_content list) option" where
  "orphan_loop X [] = Some ([], [])"
| "orphan_loop X (content # contents) =
     (case isOrphanSnapshotContent X content of
        None \<Rightarrow> None
      | Some (Inl err) \<Rightarrow> map_option (\<lambda>(cs, sent). (content # cs, sent)) (orphan_loop X contents)
      | Some (Inr needAnnotation) \<Rightarrow>
          (if needAnnotation
           then (let content = setAnnVolumeSnapshotBeingDeleted content
                 in map_option (\<lambda>(cs, sent). (content # cs, content # sent)) (orphan_loop X contents))
           else map_option (\<lambda>(cs, sent). (content # cs, sent)) (orphan_loop X contents)))"

definition cleanOrphanSnapshotContents ::
  "snapshot_env \<Rightarrow> (snapshot_content list \<times> snapshot_content list) option" where
  "cleanOrphanSnapshotContents X =
     (case se_contents X of Inl err \<Rightarrow> Some ([], []) | Inr allContents \<Rightarrow> orphan_loop X allContents)"

section \<open>Repositories without a snapshot\<close>

text \<open>\<open>FindString\<close> of \<open>literal[a-z0-9-]+\<close>: the first place where the literal text is followed by at least one
  character of the class, which then takes as many as it can; empty when there is none. The text before the class
  is the UID of a namespace with \<open>/yoda-\<close> or \<open>/local-\<close>, none of whose characters is special in a pattern.\<close>

definition repo_char :: "char \<Rightarrow> bool" where
  "repo_char c = list_ex (\<lambda>d. d = c) ''abcdefghijklmnopqrstuvwxyz0123456789-''"

fun find_repo :: "string \<Rightarrow> string \<Rightarrow> string" where
  "find_repo literal [] = []"
| "find_repo literal (c # s) =
     (case after_prefix literal (c # s) of
        Some (d # rest) \<Rightarrow> if repo_char d then literal @ takeWhile repo_char (d # rest) else find_repo literal s
      | _ \<Rightarrow> find_repo literal s)"

definition add_object :: "string \<Rightarrow> string \<Rightarrow> string list gomap \<Rightarrow> string list gomap" where
  "add_object prefixName objectName m =
     (if prefixName = [] then m
      else AList.update prefixName ((case map_of m prefixName of None \<Rightarrow> [] | Some objects \<Rightarrow> objects) @ [objectName]) m)"

fun prefix_names :: "string \<Rightarrow> string list \<Rightarrow> string list gomap \<Rightarrow> string list gomap" where
  "prefix_names clusterID [] m = m"
| "prefix_names clusterID (objectName # objectNames) m =
     prefix_names clusterID objectNames
       (add_object (find_repo (clusterID @ ''/local-'') objectName) objectName
          (add_object (find_repo (clusterID @ ''/yoda-'') objectName) objectName m))"

definition source_ids :: "snapshot_content list \<Rightarrow> string list" where
  "source_ids contents =
     List.map_filter (\<lambda>content. if ContainsProvisioner (so_Driver content) then so_VolumeHandle content else None) contents"

definition access_of :: "string gomap \<Rightarrow> s3_access" where
  "access_of secret =
     \<lparr>s3_Region = (if str_at secret ''s3REGION'' = [] then ''china'' else str_at secret ''s3REGION''),
      s3_Endpoint = str_at secret ''s3URL'', s3_DisableSSL = (str_at secret ''s3DisableSSL'' = ''true''),
      s3_ForcePathStyle = (str_at secret ''s3ForcePathStyle'' = ''true''),
      s3_AK = str_at secret ''s3AK'', s3_SK = str_at secret ''s3SK'', s3_Token = str_at secret ''s3Token''\<rparr>"

text \<open>Failed deletions are only reported.\<close>

fun remove_repos :: "string \<Rightarrow> string list \<Rightarrow> s3_access \<Rightarrow> string list gomap \<Rightarrow> s3_call list" where
  "remove_repos clusterID sourceIds a [] = []"
| "remove_repos clusterID sourceIds a ((prefixName, objectNames) # m) =
     (if drop (length clusterID + 1) prefixName \<in> set sourceIds then [] else map (DeleteObject a) objectNames)
     @ remove_repos clusterID sourceIds a m"

definition clean_class :: "snapshot_env \<Rightarrow> string \<Rightarrow> string list \<Rightarrow> snapshot_class \<Rightarrow> s3_call list \<Rightarrow> s3_call list" where
  "clean_class X clusterID sourceIds class done_calls =
     (if \<not> ContainsProvisioner (sl_Driver class) then done_calls
      else (case map_of (sl_Parameters class) ''csi.storage.k8s.io/snapshotter-secret-name'' of
         None \<Rightarrow> done_calls
       | Some secretName \<Rightarrow>
      (case map_of (sl_Parameters class) ''csi.storage.k8s.io/snapshotter-secret-namespace'' of
         None \<Rightarrow> done_calls
       | Some secretNamespace \<Rightarrow>
      (case se_secret X secretNamespace secretName of
         Inl err \<Rightarrow> done_calls
       | Inr secret \<Rightarrow>
      (let a = access_of secret
       in if \<not> se_session X a then done_calls
          else if \<not> se_HeadBucket X done_calls a then done_calls
          else (case se_ListObjects X done_calls a clusterID of
                  Inl err \<Rightarrow> done_calls
                | Inr pages \<Rightarrow>
                    done_calls @ remove_repos clusterID sourceIds a
                      (reorder (se_range X) (prefix_names clusterID (concat pages) []))))))))"

definition CleanUnusedResticRepo :: "snapshot_env \<Rightarrow> s3_call list \<Rightarrow> s3_call list" where
  "CleanUnusedResticRepo X done_calls =
     (case se_clusterID X of
        Inl err \<Rightarrow> done_calls
      | Inr clusterID \<Rightarrow>
      (case se_contents X of
         Inl err \<Rightarrow> done_calls
       | Inr snapshotContents \<Rightarrow>
      (case se_classes X of
         Inl err \<Rightarrow> done_calls
       | Inr snapshotClasses \<Rightarrow>
           fold (clean_class X clusterID (source_ids snapshotContents)) snapshotClasses done_calls)))"

definition triggerCleanUnusedRepo :: "snapshot_env \<Rightarrow> s3_call list \<Rightarrow> s3_call list" where
  "triggerCleanUnusedRepo X done_calls = CleanUnusedResticRepo X done_calls"

section \<open>What is marked and what is removed\<close>

text \<open>A pass over the contents that returns marks exactly the contents that are being deleted while their snapshot is
  gone, and leaves the others as they are.\<close>

definition orphan :: "snapshot_env \<Rightarrow> snapshot_content \<Rightarrow> bool" where
  "orphan X content \<longleftrightarrow> isOrphanSnapshotContent X content = Some (Inr True)"

lemma orphan_loop_marks:
  "orphan_loop X contents = Some (cs, sent) \<Longrightarrow>
   cs = map (\<lambda>c. if orphan X c then setAnnVolumeSnapshotBeingDeleted c else c) contents \<and>
   sent = map setAnnVolumeSnapshotBeingDeleted (filter (orphan X) contents)"
proof (induction contents arbitrary: cs sent)
  case (Cons c contents)
  show ?case
  proof (cases "orphan X c")
    case True
    then show ?thesis using Cons by (auto simp: orphan_def Let_def)
  next
    case False
    then show ?thesis using Cons by (auto simp: orphan_def split: option.splits sum.splits if_splits)
  qed
qed simp

theorem orphans_marked:
  assumes "cleanOrphanSnapshotContents X = Some (cs, sent)" and "se_contents X = Inr contents"
  shows "sent = map setAnnVolumeSnapshotBeingDeleted (filter (orphan X) contents) \<and>
    (\<forall>c. orphan X c \<longrightarrow> so_Deleted c \<and> so_RefUID c \<noteq> [] \<and>
      (\<exists>n e. so_ClassName c = Some n \<and> se_snapshot X (so_RefNamespace c) (so_RefName c) = Some (NotFound e)))"
  using assms
  by (auto simp: cleanOrphanSnapshotContents_def orphan_def isOrphanSnapshotContent_def dest!: orphan_loop_marks
      split: if_splits option.splits sum.splits go_error.splits)

text \<open>The pattern names a repository: the literal text with all the characters of the class that follow it.\<close>

definition repo_of :: "string \<Rightarrow> string \<Rightarrow> string \<Rightarrow> bool" where
  "repo_of literal s r \<longleftrightarrow>
     (\<exists>pre name post. s = pre @ literal @ name @ post \<and> r = literal @ name \<and> name \<noteq> [] \<and> list_all repo_char name \<and>
        (post = [] \<or> \<not> repo_char (hd post)))"

lemma find_repo_split: "find_repo literal s \<noteq> [] \<Longrightarrow> repo_of literal s (find_repo literal s)"
proof (induction s)
  case (Cons c s)
  have later: "repo_of literal (c # s) r" if "repo_of literal s r" for r
    using that unfolding repo_of_def by (metis append_Cons)
  show ?case
  proof (cases "\<exists>d rest. after_prefix literal (c # s) = Some (d # rest) \<and> repo_char d")
    case True
    then obtain d rest where a: "after_prefix literal (c # s) = Some (d # rest)" and d: "repo_char d" by blast
    then have r: "find_repo literal (c # s) = literal @ takeWhile repo_char (d # rest)" by simp
    from a have "c # s = literal @ d # rest" by (simp only: after_prefix_Some)
    moreover have "d # rest = takeWhile repo_char (d # rest) @ dropWhile repo_char (d # rest)" by simp
    moreover have "list_all repo_char (takeWhile repo_char (d # rest))" by (auto simp: list_all_iff dest: set_takeWhileD)
    moreover have "dropWhile repo_char (d # rest) = [] \<or> \<not> repo_char (hd (dropWhile repo_char (d # rest)))"
      using hd_dropWhile by blast
    moreover have "takeWhile repo_char (d # rest) \<noteq> []" using d by simp
    ultimately show ?thesis unfolding repo_of_def r
      by (intro exI [of _ "[]"] exI [of _ "takeWhile repo_char (d # rest)"] exI [of _ "dropWhile repo_char (d # rest)"]) simp
  next
    case False
    then have "find_repo literal (c # s) = find_repo literal s" by (auto split: option.splits list.splits)
    then show ?thesis using Cons by (simp add: later)
  qed
qed simp

definition repo_kinds :: "string list" where
  "repo_kinds = [''/yoda-'', ''/local-'']"

lemma add_object_from:
  "map_of (add_object p o1 m) r = Some objs \<Longrightarrow> key \<in> set objs \<Longrightarrow>
   (r = p \<and> r \<noteq> [] \<and> key = o1) \<or> (\<exists>objs. map_of m r = Some objs \<and> key \<in> set objs)"
  by (auto simp: add_object_def update_conv split: if_splits option.splits)

lemma prefix_names_from:
  "map_of (prefix_names cid keys m) r = Some objs \<Longrightarrow> key \<in> set objs \<Longrightarrow>
   r \<noteq> [] \<and> (\<exists>kind \<in> set repo_kinds. r = find_repo (cid @ kind) key) \<or> (\<exists>objs. map_of m r = Some objs \<and> key \<in> set objs)"
proof (induction keys arbitrary: m objs)
  case (Cons k keys)
  let ?y = "add_object (find_repo (cid @ ''/yoda-'') k) k m"
  have kinds: "''/yoda-'' \<in> set repo_kinds" "''/local-'' \<in> set repo_kinds" by (simp_all add: repo_kinds_def)
  from Cons.IH [OF Cons.prems(1) [unfolded prefix_names.simps] Cons.prems(2)] show ?case
  proof
    assume "\<exists>objs. map_of (add_object (find_repo (cid @ ''/local-'') k) k ?y) r = Some objs \<and> key \<in> set objs"
    then consider "r = find_repo (cid @ ''/local-'') k" "r \<noteq> []" "key = k" | objs where "map_of ?y r = Some objs" "key \<in> set objs"
      using add_object_from by blast
    then show ?thesis
    proof cases
      case 2
      then show ?thesis using add_object_from [OF 2] kinds(1) by blast
    qed (use kinds(2) in blast)
  qed blast
qed simp

lemma wf_prefix_names: "wf_map m \<Longrightarrow> wf_map (prefix_names cid keys m)"
  by (induction keys arbitrary: m) (simp_all add: add_object_def distinct_update)

lemma remove_repos_set:
  "DeleteObject a' key \<in> set (remove_repos cid ids a m) \<longleftrightarrow>
   a' = a \<and> (\<exists>r objs. (r, objs) \<in> set m \<and> key \<in> set objs \<and> drop (length cid + 1) r \<notin> set ids)"
  by (induction cid ids a m rule: remove_repos.induct) auto

lemma clean_class_deletes:
  assumes "DeleteObject a key \<in> set (clean_class X cid ids cl d)" and "range_ok (se_range X)"
  shows "DeleteObject a key \<in> set d \<or>
    (\<exists>kind \<in> set repo_kinds. repo_of (cid @ kind) key (find_repo (cid @ kind) key) \<and>
       drop (length cid + 1) (find_repo (cid @ kind) key) \<notin> set ids)"
proof (cases "DeleteObject a key \<in> set d")
  case False
  then obtain pages r objs where "(r, objs) \<in> set (reorder (se_range X) (prefix_names cid (concat pages) []))"
      and key: "key \<in> set objs" and free: "drop (length cid + 1) r \<notin> set ids"
    using assms(1) by (auto simp: clean_class_def Let_def remove_repos_set split: if_splits option.splits sum.splits)
  moreover have "wf_map (reorder (se_range X) (prefix_names cid (concat pages) []))"
    by (intro wf_map_reorder [OF assms(2)] wf_prefix_names) simp
  ultimately have "map_of (prefix_names cid (concat pages) []) r = Some objs"
    using assms(2) by (metis map_of_is_SomeI map_of_reorder)
  from prefix_names_from [OF this key] obtain kind where "kind \<in> set repo_kinds" "r = find_repo (cid @ kind) key" "r \<noteq> []"
    by auto
  then show ?thesis using free find_repo_split by blast
qed simp

lemma clean_deletes:
  assumes "DeleteObject a key \<in> set (CleanUnusedResticRepo X d)" and "range_ok (se_range X)"
    and "se_clusterID X = Inr cid" and "se_contents X = Inr contents"
  shows "DeleteObject a key \<in> set d \<or>
    (\<exists>kind \<in> set repo_kinds. repo_of (cid @ kind) key (find_repo (cid @ kind) key) \<and>
       drop (length cid + 1) (find_repo (cid @ kind) key) \<notin> set (source_ids contents))"
proof -
  have "DeleteObject a key \<in> set d \<or>
      (\<exists>kind \<in> set repo_kinds. repo_of (cid @ kind) key (find_repo (cid @ kind) key) \<and>
         drop (length cid + 1) (find_repo (cid @ kind) key) \<notin> set (source_ids contents))"
    if "DeleteObject a key \<in> set (fold (clean_class X cid (source_ids contents)) classes d)" for classes
    using that
  proof (induction classes arbitrary: d)
    case (Cons cl classes)
    from Cons.IH [OF Cons.prems [unfolded fold_simps]] show ?case using clean_class_deletes [OF _ assms(2)] by blast
  qed simp
  then show ?thesis using assms by (auto simp: CleanUnusedResticRepo_def split: sum.splits)
qed

lemma clean_keeps: "set d \<subseteq> set (CleanUnusedResticRepo X d)"
proof -
  have "set d \<subseteq> set (clean_class X cid ids cl d)" for cid ids cl d
    by (auto simp: clean_class_def Let_def split: option.splits sum.splits)
  then have "set d \<subseteq> set (fold (clean_class X cid ids) classes d)" for cid ids classes
    by (induction classes arbitrary: d) (simp, metis fold_simps(2) subset_trans)
  then show ?thesis by (simp add: CleanUnusedResticRepo_def split: sum.splits)
qed

lemma repo_chars_unique:
  assumes "a @ x = b @ y" and "list_all repo_char a" "list_all repo_char b"
    and "x = [] \<or> \<not> repo_char (hd x)" "y = [] \<or> \<not> repo_char (hd y)"
  shows "a = b"
proof -
  have "takeWhile repo_char (u @ v) = u" if "list_all repo_char u" "v = [] \<or> \<not> repo_char (hd v)" for u v
    using that by (cases v) (auto simp: list_all_iff takeWhile_append)
  then show ?thesis using assms by metis
qed

lemma tail_after_slash:
  "u @ CHR ''/'' # rest = volume @ CHR ''/'' # path \<Longrightarrow> CHR ''/'' \<notin> set volume \<Longrightarrow> \<exists>zs. path = zs @ rest"
proof (induction volume arbitrary: u)
  case Nil
  then show ?case by (cases u) (simp_all, metis append_Cons append_assoc append_Nil)
next
  case (Cons v volume)
  then show ?case by (cases u) auto
qed

lemma only_at_start:
  assumes key: "(before @ cid) @ (CHR ''/'' # rest) = cid @ (CHR ''/'' # volume @ CHR ''/'' # path)"
    and "CHR ''/'' \<notin> set volume" and "c \<in> set rest" and "c \<notin> set path"
  shows "before = []"
proof (cases "length (before @ cid) \<le> length cid")
  case True
  then show ?thesis by simp
next
  case False
  obtain us where us: "us = drop (length cid) (before @ cid)" by blast
  have "us @ CHR ''/'' # rest = CHR ''/'' # volume @ CHR ''/'' # path"
    using arg_cong [OF key, of "drop (length cid)"] unfolding us drop_append by simp
  moreover from False us have "us \<noteq> []" by (simp only: drop_eq_Nil not_False_eq_True)
  ultimately obtain vs where "vs @ CHR ''/'' # rest = volume @ CHR ''/'' # path" by (cases us) simp_all
  from tail_after_slash [OF this assms(2)] assms(3,4) show ?thesis by auto
qed

text \<open>C40: A repository in the bucket is named after the volume it backs up. As long as a snapshot content of this
  driver names the volume, no object of the repository is deleted, provided the name of the volume has the form the
  pattern looks for, \<open>yoda-\<close> or \<open>local-\<close> followed by lower-case letters, digits and dashes. (Names of other
  forms are not protected.) That the paths below a repository have no dash is how restic lays it out.\<close>

theorem protected_repository_kept:
  assumes "range_ok (se_range X)" and "se_clusterID X = Inr cid" and "se_contents X = Inr contents"
    and "content \<in> set contents" and "ContainsProvisioner (so_Driver content)" and "so_VolumeHandle content = Some volume"
    and "volume = kind @ name" and "kind \<in> {''yoda-'', ''local-''}" and "list_all repo_char name"
    and "key = cid @ ''/'' @ volume @ ''/'' @ path" and "CHR ''-'' \<notin> set path"
  shows "DeleteObject a key \<in> set (CleanUnusedResticRepo X done_calls) \<longleftrightarrow> DeleteObject a key \<in> set done_calls"
proof -
  have "False" if kind': "kind' \<in> set repo_kinds" "repo_of (cid @ kind') key (find_repo (cid @ kind') key)"
    "drop (length cid + 1) (find_repo (cid @ kind') key) \<notin> set (source_ids contents)" for kind'
  proof -
    from kind'(2) obtain before name' post where key: "key = before @ (cid @ kind') @ name' @ post"
      and r: "find_repo (cid @ kind') key = (cid @ kind') @ name'" and name': "list_all repo_char name'" "post = [] \<or> \<not> repo_char (hd post)"
      unfolding repo_of_def by blast
    from kind'(1) have slash: "kind' = ''/'' @ tl kind'" and dash: "CHR ''-'' \<in> set (tl kind' @ name' @ post)"
      by (auto simp: repo_kinds_def)
    have "kind' @ name' @ post = ''/'' @ (tl kind' @ name' @ post)" using arg_cong [OF slash, of "\<lambda>k. k @ name' @ post"] by simp
    then have "(before @ cid) @ (CHR ''/'' # tl kind' @ name' @ post) = cid @ (CHR ''/'' # volume @ CHR ''/'' # path)"
      using key assms(10) by simp
    moreover have "\<not> repo_char (CHR ''/'')" by code_simp
    then have "CHR ''/'' \<notin> set volume" using assms(7-9) by (auto simp: list_all_iff)
    ultimately have "before = []" using dash assms(11) by (rule only_at_start)
    with key assms(7,10) slash have eq: "''/'' @ kind @ name @ ''/'' @ path = kind' @ name' @ post" by simp
    then have "kind' = ''/'' @ kind \<and> name @ ''/'' @ path = name' @ post" using kind'(1) assms(8) by (auto simp: repo_kinds_def)
    moreover from this have "name = name'"
      using repo_chars_unique [of name "''/'' @ path" name' post] assms(9) name' by (simp add: repo_char_def)
    ultimately have "drop (length cid + 1) (find_repo (cid @ kind') key) = volume" using r assms(7) by simp
    moreover have "volume \<in> set (source_ids contents)"
      using assms(4-6) by (force simp: source_ids_def List.map_filter_def)
    ultimately show False using kind'(3) by simp
  qed
  then show ?thesis using clean_deletes [OF _ assms(1-3)] clean_keeps by blast
qed

text \<open>What no content names is removed, when the bucket is reached through the class.\<close>

lemma prefix_names_has:
  assumes "key \<in> set keys \<or> (\<exists>objs. map_of m r = Some objs \<and> key \<in> set objs)"
    and "kind \<in> set repo_kinds" and "r = find_repo (cid @ kind) key" and "r \<noteq> []"
  shows "\<exists>objs. map_of (prefix_names cid keys m) r = Some objs \<and> key \<in> set objs"
  using assms(1)
proof (induction keys arbitrary: m)
  case (Cons k keys)
  have kept: "\<exists>objs. map_of (add_object p o1 m) r = Some objs \<and> key \<in> set objs"
    if "\<exists>objs. map_of m r = Some objs \<and> key \<in> set objs" for p o1 m
    using that by (auto simp: add_object_def update_conv)
  have put: "\<exists>objs. map_of (add_object r key m) r = Some objs \<and> key \<in> set objs" for m
    using assms(4) by (simp add: add_object_def update_conv)
  let ?y = "add_object (find_repo (cid @ ''/yoda-'') k) k m"
  have "\<exists>objs. map_of (add_object (find_repo (cid @ ''/local-'') k) k ?y) r = Some objs \<and> key \<in> set objs"
    if "key = k"
  proof -
    consider "r = find_repo (cid @ ''/yoda-'') k" | "r = find_repo (cid @ ''/local-'') k"
      using assms(2,3) \<open>key = k\<close> by (fastforce simp: repo_kinds_def)
    then show ?thesis
    proof cases
      case 1
      have "\<exists>objs. map_of ?y r = Some objs \<and> key \<in> set objs" using put [of m] unfolding 1 [symmetric] \<open>key = k\<close> .
      then show ?thesis by (rule kept)
    next
      case 2
      show ?thesis using put [of ?y] unfolding 2 [symmetric] \<open>key = k\<close> .
    qed
  qed
  then show ?case unfolding prefix_names.simps using Cons.prems by (intro Cons.IH) (auto intro: kept)
qed simp

theorem unused_repository_removed:
  assumes "range_ok (se_range X)" and "ContainsProvisioner (sl_Driver cl)"
    and "map_of (sl_Parameters cl) ''csi.storage.k8s.io/snapshotter-secret-name'' = Some n"
    and "map_of (sl_Parameters cl) ''csi.storage.k8s.io/snapshotter-secret-namespace'' = Some ns"
    and "se_secret X ns n = Inr secret" and "se_session X (access_of secret)" and "se_HeadBucket X d (access_of secret)"
    and "se_ListObjects X d (access_of secret) cid = Inr pages" and "key \<in> set (concat pages)"
    and "kind \<in> set repo_kinds" and "find_repo (cid @ kind) key = cid @ ''/'' @ volume" and "volume \<notin> set ids"
  shows "DeleteObject (access_of secret) key \<in> set (clean_class X cid ids cl d)"
proof -
  let ?m = "prefix_names cid (concat pages) []" and ?r = "cid @ ''/'' @ volume"
  from prefix_names_has [OF disjI1 [OF assms(9)] assms(10) assms(11) [symmetric]]
  obtain objs where objs: "map_of ?m ?r = Some objs" "key \<in> set objs" by auto
  then have "map_of (reorder (se_range X) ?m) ?r = Some objs" by (simp add: map_of_reorder [OF assms(1)])
  then have "(?r, objs) \<in> set (reorder (se_range X) ?m)" by (rule map_of_SomeD)
  moreover have "drop (length cid + 1) ?r = volume" by simp
  ultimately have "DeleteObject (access_of secret) key \<in> set (remove_repos cid ids (access_of secret) (reorder (se_range X) ?m))"
    unfolding remove_repos_set using objs(2) assms(12) by metis
  then show ?thesis using assms(2-8) by (simp add: clean_class_def Let_def)
qed

section \<open>An example\<close>

definition ex_content :: snapshot_content where
  "ex_content =
     \<lparr>so_Name = ''c'', so_Deleted = False, so_RefUID = [], so_RefNamespace = [], so_RefName = [], so_ClassName = None,
      so_Driver = hd ValidProvisionerNames, so_VolumeHandle = Some ''yoda-1'', so_Annotations = []\<rparr>"

definition ex_snapshots :: snapshot_env where
  "ex_snapshots =
     \<lparr>se_contents = Inr [ex_content],
      se_classes = Inr [\<lparr>sl_Name = ''s'', sl_Driver = hd ValidProvisionerNames, sl_Parameters =
        [(''csi.storage.k8s.io/snapshotter-secret-name'', ''k''), (''csi.storage.k8s.io/snapshotter-secret-namespace'', ''n'')]\<rparr>],
      se_class = (\<lambda>_. Inl ''none''), se_snapshot = (\<lambda>_ _. None), se_clusterID = Inr ''u'', se_secret = (\<lambda>_ _. Inr []),
      se_session = (\<lambda>_. True), se_HeadBucket = (\<lambda>_ _. True),
      se_ListObjects = (\<lambda>_ _ _. Inr [[''u/yoda-1/config''], [''u/local-2/config'', ''u/yoda-1/keys/0'']]),
      se_range = (\<lambda>ks. ks), se_Update = (\<lambda>_. True)\<rparr>"

lemma ex_only_unused_removed: "CleanUnusedResticRepo ex_snapshots [] = [DeleteObject (access_of []) ''u/local-2/config'']"
  by code_simp

lemma protected_repository_kept_witness:
  "DeleteObject (access_of []) ''u/yoda-1/config'' \<notin> set (CleanUnusedResticRepo ex_snapshots [])"
proof -
  have "CHR ''-'' \<notin> set ''config''" by simp
  moreover have "range_ok (se_range ex_snapshots)" "se_clusterID ex_snapshots = Inr ''u''" "se_contents ex_snapshots = Inr [ex_content]"
    by (simp_all add: ex_snapshots_def)
  moreover have "ContainsProvisioner (so_Driver ex_content)" "so_VolumeHandle ex_content = Some ''yoda-1''" "list_all repo_char ''1''"
    by code_simp+
  moreover have "''yoda-1'' = ''yoda-'' @ ''1''" "''u/yoda-1/config'' = ''u'' @ ''/'' @ ''yoda-1'' @ ''/'' @ ''config''"
    "ex_content \<in> set [ex_content]" "''yoda-'' \<in> {''yoda-'', ''local-''}" by simp_all
  ultimately have "DeleteObject (access_of []) ''u/yoda-1/config'' \<in> set (CleanUnusedResticRepo ex_snapshots []) \<longleftrightarrow>
      DeleteObject (access_of []) ''u/yoda-1/config'' \<in> set []"
    by (intro protected_repository_kept)
  then show ?thesis by (simp only: list.set empty_iff simp_thms)
qed

end
