(* ===== verification/Agent_Init.thy ===== *)
theory Agent_Init
  imports Agent_Discovery Node_State Ctrl_Sync
begin

text \<open>
  What the agent makes on its node before anything is published: volume groups (or SPDK's stores of logical
  volumes) and file systems the \<open>NodeLocalStorage\<close> names in \<open>ResourceToBeInited\<close>
  (\<open>InitResource\<close> in \<open>pkg/agent/discovery/discovery.go\<close>, \<open>Format\<close> in \<open>pkg/utils/common.go\<close>), and the work queue
  that triggers it (\<open>pkg/agent/controller/controller.go\<close>). Events that are only shown to users are left out.
\<close>

section \<open>The work queue\<close>

abbreviation initResourceKey :: string where "initResourceKey \<equiv> ''initResource''"

definition add_key :: "string \<Rightarrow> string list \<Rightarrow> string list" where
  "add_key k q = (if k \<in> set q then q else q @ [k])"

text \<open>The generation of the object before, when there was one; the name and generation of the object now.\<close>

definition agent_handleNLS :: "string \<Rightarrow> int64 option \<Rightarrow> string \<Rightarrow> int64 \<Rightarrow> string list \<Rightarrow> string list" where
  "agent_handleNLS nodename old nlsName newGeneration q =
     (if nlsName = nodename
      then (case old of
              None \<Rightarrow> add_key initResourceKey q
            | Some oldGeneration \<Rightarrow> if oldGeneration \<noteq> newGeneration then add_key initResourceKey q else q)
      else q)"

definition agent_processNextWorkItem :: "unit call \<Rightarrow> string list \<Rightarrow> string list call" where
  "agent_processNextWorkItem init q =
     (case q of
        [] \<Rightarrow> c_ret []
      | item # rest \<Rightarrow> if item = initResourceKey then c_try init (\<lambda>_. c_ret rest) else c_ret rest)"

section \<open>The machine\<close>

record init_host = node_host +
  look_path :: "string \<Rightarrow> string option" \<comment> \<open>the error of \<open>exec.LookPath\<close>\<close>
  exec_program :: "action list \<Rightarrow> string \<Rightarrow> string list \<Rightarrow> string option"
  check_mount :: "action list \<Rightarrow> string \<Rightarrow> bool \<times> string option" \<comment> \<open>\<open>IsLikelyNotMountPoint\<close>: both results\<close>

text \<open>\<open>getNodeLocalStorage\<close>: the client of the SPDK process is made the first time the object asks for it and kept;
  \<open>made\<close> says whether \<open>NewSpdkClient\<close> gave one.\<close>

definition spdk_after :: "bool \<Rightarrow> bool \<Rightarrow> node_setup result \<Rightarrow> bool" where
  "spdk_after spdk made nls =
     (case nls of Inl err \<Rightarrow> spdk | Inr setup \<Rightarrow> spdk \<or> sk_DeviceType (su_Spdk setup) \<noteq> [] \<and> made)"

section \<open>Volume groups\<close>

definition lift_call :: "'a io \<Rightarrow> 'a call" where
  "lift_call m = State_Monad.bind m (\<lambda>x. c_ret x)"

fun init_vgs :: "lvm_host \<Rightarrow> bool \<Rightarrow> vg_to_init list \<Rightarrow> unit call" where
  "init_vgs L force [] = c_ret ()"
| "init_vgs L force (vg # vgs) =
     c_then (lift_call (LookupVolumeGroup L (vi_Name vg))) (\<lambda>r.
       if r = Inl ErrVolumeGroupNotFound
       then c_then (lift_call (createVG L force (vi_Name vg) (vi_Devices vg))) (\<lambda>_. init_vgs L force vgs)
       else init_vgs L force vgs)"

text \<open>The device of a file, which is looked for in a list read before.\<close>

definition bdev_name_of :: "string \<Rightarrow> string" where
  "bdev_name_of device = ''bdev-aio'' @ map (\<lambda>c. if c = CHR ''/'' then CHR ''_'' else c) device"

text \<open>A failure to make the device ends the whole initialisation; the result says whether to go on. A group without
  devices panics.\<close>

fun init_lvstores :: "spdk_host \<Rightarrow> Bdev list \<Rightarrow> string list \<Rightarrow> vg_to_init list \<Rightarrow> bool call" where
  "init_lvstores sp bdevs lvss [] = c_ret True"
| "init_lvstores sp bdevs lvss (vg # vgs) =
     (if vi_Name vg \<in> set lvss then init_lvstores sp bdevs lvss vgs
      else c_assert (case vi_Devices vg of [] \<Rightarrow> None | device # _ \<Rightarrow> Some device) (\<lambda>device.
        c_assert (bdev_of_file device bdevs) (\<lambda>found.
          c_try (if found = None then CreateBdev sp (bdev_name_of device) device else c_ret []) (\<lambda>r. case r of
              Inl err \<Rightarrow> c_ret False
            | Inr _ \<Rightarrow> c_try (CreateLvstore sp (bdev_name_of device) (vi_Name vg)) (\<lambda>_. init_lvstores sp bdevs lvss vgs)))))"

section \<open>File systems\<close>

definition utils_Format :: "init_host \<Rightarrow> string \<Rightarrow> string \<Rightarrow> unit call" where
  "utils_Format H source fsType =
     (let mkfsCmd = ''mkfs.'' @ fsType
      in case look_path H mkfsCmd of
           Some err \<Rightarrow> c_err err
         | None \<Rightarrow>
             if fsType = [] then c_err ''fs type is not specified for formatting the volume''
             else if source = [] then c_err ''source is not specified for formatting the volume''
             else (let mkfsArgs = (if fsType = ''ext4'' \<or> fsType = ''ext3'' then [''-F'', source] else [source])
                   in c_act (Exec mkfsCmd mkfsArgs) (\<lambda>log. no_error (exec_program H log mkfsCmd mkfsArgs))))"

definition no_such_file :: string where
  "no_such_file = ''no such file or directory''"

text \<open>One entry; a failure only ends this entry.\<close>

definition init_mount :: "init_host \<Rightarrow> mp_to_init \<Rightarrow> unit call" where
  "init_mount H mp =
     c_then (c_act (IsLikelyNotMountPoint (mi_Path mp)) (\<lambda>log. Inr (check_mount H log (mi_Path mp)))) (\<lambda>(notMounted, err).
       c_then (if (case err of None \<Rightarrow> False | Some e \<Rightarrow> go_Contains e no_such_file)
               then c_act (MkdirAll (mi_Path mp)) (\<lambda>log. no_error (mkdir_all H log (mi_Path mp)))
               else c_ret ()) (\<lambda>_.
         if notMounted
         then (let fsType = (if mi_FsType mp = [] then ''ext4'' else mi_FsType mp)
               in c_then (utils_Format H (mi_Device mp) fsType) (\<lambda>_.
                    c_act (Mount (mi_Device mp) (mi_Path mp) fsType (mi_Options mp))
                      (\<lambda>log. no_error (mount_at H log (mi_Device mp) (mi_Path mp) fsType (mi_Options mp)))))
         else c_ret ()))"

fun init_mounts :: "init_host \<Rightarrow> mp_to_init list \<Rightarrow> unit call" where
  "init_mounts H [] = c_ret ()"
| "init_mounts H (mp # mps) = c_try (init_mount H mp) (\<lambda>_. init_mounts H mps)"

definition InitResource :: "init_host \<Rightarrow> lvm_host \<Rightarrow> bool \<Rightarrow> bool \<Rightarrow> node_setup result \<Rightarrow> unit call" where
  "InitResource H L force spdk nls =
     (case nls of
        Inl err \<Rightarrow> c_ret ()
      | Inr setup \<Rightarrow>
          (let vgs = su_InitVGs setup; mountpoints = su_InitMountPoints setup; sp = spdk_host.truncate (node_host.truncate H)
           in if \<not> spdk then c_then (init_vgs L force vgs) (\<lambda>_. init_mounts H mountpoints)
              else c_try (GetBdevs sp) (\<lambda>r. case r of
                  Inl err \<Rightarrow> c_ret ()
                | Inr bdevs \<Rightarrow> c_try (GetLvStores sp) (\<lambda>r. case r of
                    Inl err \<Rightarrow> c_ret ()
                  | Inr lvss \<Rightarrow> c_then (init_lvstores sp bdevs (map ls_Name lvss) vgs) (\<lambda>go_on.
                      if go_on then init_mounts H mountpoints else c_ret ())))))"

end
