(* ===== verification/Init_Facts.thy ===== *)
theory Init_Facts
  imports Agent_Init Spdk_Facts
begin

text \<open>
  What the initialisation of a node may format: only the devices of entries whose path the machine says is not a
  mount point; but those are formatted without looking at what is on them.
\<close>

definition formats_of :: "init_host \<Rightarrow> mp_to_init \<Rightarrow> action \<Rightarrow> bool" where
  "formats_of H mp a \<longleftrightarrow>
     (case a of Exec p args \<Rightarrow> (\<exists>l. fst (check_mount H l (mi_Path mp))) \<and> last args = mi_Device mp | _ \<Rightarrow> True)"

text \<open>\<open>c_then\<close> when the first call only reads: what it read may be used.\<close>

lemma call_read:
  assumes "P a" and "\<And>l x. r l = Inr x \<Longrightarrow> keeps (appends P) (k x)"
  shows "keeps (appends P) (c_then (c_act a r) k)"
  unfolding keeps_def
proof
  fix l
  show "appends P l (snd (run_state (c_then (c_act a r) k) l))"
  proof (cases "r l")
    case (Inr x)
    with assms(2) have "appends P (l @ [a]) (snd (run_state (k x) (l @ [a])))" by (simp add: keeps_def)
    then show ?thesis using Inr assms(1) by (auto simp: call_simps appends_def)
  qed (use assms(1) in \<open>simp add: call_simps appends_def\<close>)
qed

lemma call_weaken: "keeps (appends P) m \<Longrightarrow> (\<And>a. P a \<Longrightarrow> Q a) \<Longrightarrow> keeps (appends Q) m"
  unfolding keeps_def appends_def by (meson list.pred_mono_strong)

lemma call_format: "(\<And>p args. last args = source \<Longrightarrow> P (Exec p args)) \<Longrightarrow> keeps (appends P) (utils_Format H source fsType)"
  by (auto simp: utils_Format_def Let_def intro!: call_ends call_act split: option.split)

lemma call_mount: "keeps (appends (formats_of H mp)) (init_mount H mp)"
  unfolding init_mount_def
proof (rule call_read)
  fix l x assume read: "Inr (check_mount H l (mi_Path mp)) = (Inr x :: (bool \<times> string option) result)"
  obtain notMounted err where x: "x = (notMounted, err)" by fastforce
  with read have "notMounted \<Longrightarrow> formats_of H mp (Exec p args) = (last args = mi_Device mp)" for p args
    by (auto simp: formats_of_def intro: exI [of _ l])
  then show "keeps (appends (formats_of H mp)) (case x of (notMounted, err) \<Rightarrow>
      c_then (if (case err of None \<Rightarrow> False | Some e \<Rightarrow> go_Contains e no_such_file)
              then c_act (MkdirAll (mi_Path mp)) (\<lambda>log. no_error (mkdir_all H log (mi_Path mp))) else c_ret ()) (\<lambda>_.
        if notMounted
        then (let fsType = (if mi_FsType mp = [] then ''ext4'' else mi_FsType mp)
              in c_then (utils_Format H (mi_Device mp) fsType) (\<lambda>_.
                   c_act (Mount (mi_Device mp) (mi_Path mp) fsType (mi_Options mp))
                     (\<lambda>log. no_error (mount_at H log (mi_Device mp) (mi_Path mp) fsType (mi_Options mp)))))
        else c_ret ()))"
    unfolding x by (auto simp: Let_def formats_of_def intro!: call_then call_ends call_act call_format)
qed (simp add: formats_of_def)

theorem init_formats_unmounted:
  assumes "run_state (init_mounts H mps) l = (r, l')" and "Exec p args \<in> set l'"
  shows "Exec p args \<in> set l \<or> (\<exists>mp \<in> set mps. (\<exists>acts. fst (check_mount H acts (mi_Path mp))) \<and> last args = mi_Device mp)"
proof -
  have "keeps (appends (\<lambda>a. \<exists>mp \<in> set mps. formats_of H mp a)) (init_mounts H mps)"
  proof (induction mps)
    case (Cons mp mps)
    then show ?case by (auto intro!: call_try call_weaken [OF call_mount] intro: call_weaken)
  qed (simp add: call_ends)
  then have "appends (\<lambda>a. \<exists>mp \<in> set mps. formats_of H mp a) l l'" using assms(1) by (metis keeps_def snd_conv)
  then obtain new where "l' = l @ new" "\<forall>a \<in> set new. \<exists>mp \<in> set mps. formats_of H mp a"
    by (auto simp: appends_def list_all_iff)
  moreover have "(\<exists>acts. fst (check_mount H acts (mi_Path mp))) \<and> last args = mi_Device mp" if "formats_of H mp (Exec p args)" for mp
    using that by (simp add: formats_of_def)
  ultimately show ?thesis using assms(2) by auto
qed

text \<open>Whatever is on the device: there is no look at its format first.\<close>

theorem init_formats_any_disk:
  assumes "\<And>acts. check_mount H acts (mi_Path mp) = (True, None)" and "mi_FsType mp = []" and "mi_Device mp \<noteq> []"
    and "\<And>p. look_path H p = None" and "\<And>acts p args. exec_program H acts p args = None"
    and "\<And>acts d p t opts. mount_at H acts d p t opts = None"
  shows "run_state (init_mounts H [mp]) l =
    (Some (Inr ()), l @ [IsLikelyNotMountPoint (mi_Path mp), Exec ''mkfs.ext4'' [''-F'', mi_Device mp],
      Mount (mi_Device mp) (mi_Path mp) ''ext4'' (mi_Options mp)])"
  using assms by (simp add: init_mount_def utils_Format_def Let_def call_simps no_error_def)

end
