(* ===== verification/Restic.thy ===== *)
theory Restic
  imports Lvm_Utils
begin

text \<open>
  Backups in an S3 bucket with restic, \<open>pkg/restic\<close>: the command lines (\<open>command.go\<close>), the reading of what restic
  prints (\<open>command.go\<close>, \<open>output.go\<close>, \<open>restic.go\<close>), and the operations the daemon, the controller service and the
  node service use (\<open>restic.go\<close>). What a shell makes of a command is a parameter, as are the JSON decoders and
  \<open>strconv.ParseFloat\<close>. The progress that is reported while a backup runs is left out.
\<close>

abbreviation newline :: char where "newline \<equiv> CHR 0x0A"

section \<open>Command lines\<close>

record restic_client =
  rc_s3Endpoint :: string
  rc_ak :: string
  rc_sk :: string
  rc_encryptionKey :: string
  rc_clusterID :: string

definition export_line :: "string \<Rightarrow> string \<Rightarrow> string" where
  "export_line name value = ''export '' @ name @ ''='' @ value @ [newline]"

definition repository_line :: "restic_client \<Rightarrow> string \<Rightarrow> string" where
  "repository_line r repository =
     export_line ''RESTIC_REPOSITORY''
       (''s3:'' @ rc_s3Endpoint r @ ''/open-local/'' @ rc_clusterID r @ ''/'' @ repository)"

definition resticArgs :: "restic_client \<Rightarrow> string \<Rightarrow> string list" where
  "resticArgs r repository =
     [export_line ''AWS_ACCESS_KEY_ID'' (rc_ak r), export_line ''AWS_SECRET_ACCESS_KEY'' (rc_sk r),
      repository_line r repository, export_line ''RESTIC_PASSWORD'' (rc_encryptionKey r),
      ''export GOMAXPROCS=1'' @ [newline], ''restic'']"

definition restic_command :: "restic_client \<Rightarrow> string \<Rightarrow> string list \<Rightarrow> string" where
  "restic_command r repository words = go_Join (resticArgs r repository @ words) '' ''"

definition InitCommand :: "restic_client \<Rightarrow> string \<Rightarrow> string" where
  "InitCommand r repository = restic_command r repository [''init'']"

definition BackupCommandByID :: "restic_client \<Rightarrow> string \<Rightarrow> string \<Rightarrow> string" where
  "BackupCommandByID r repository pathToBackup = restic_command r repository [''backup'', pathToBackup]"

definition BackupCommandByTag :: "restic_client \<Rightarrow> string \<Rightarrow> string \<Rightarrow> string \<Rightarrow> string" where
  "BackupCommandByTag r repository backupTag includePath =
     go_Join ((''cd '' @ includePath @ [newline]) # resticArgs r repository @ [''backup'', ''--tag'', backupTag, ''.'', ''--json'']) '' ''"

definition LatestSnapshotsCommand :: "restic_client \<Rightarrow> string \<Rightarrow> string" where
  "LatestSnapshotsCommand r repository = restic_command r repository [''snapshots'', ''--last'', ''--json'']"

definition RestoreCommandByID :: "restic_client \<Rightarrow> string \<Rightarrow> string \<Rightarrow> string \<Rightarrow> string" where
  "RestoreCommandByID r repository i restorePath = restic_command r repository [''restore'', i, ''--target'', restorePath]"

definition RestoreCommandByTag :: "restic_client \<Rightarrow> string \<Rightarrow> string \<Rightarrow> string \<Rightarrow> string" where
  "RestoreCommandByTag r repository tag restorePath =
     restic_command r repository [''restore'', ''--tag'', tag, ''latest'', ''--target'', restorePath]"

definition SnapshotsCommand :: "restic_client \<Rightarrow> string \<Rightarrow> string" where
  "SnapshotsCommand r repository = restic_command r repository [''snapshots'', ''--json'']"

definition SnapshotsCommandByTag :: "restic_client \<Rightarrow> string \<Rightarrow> string \<Rightarrow> string" where
  "SnapshotsCommandByTag r repository tag = restic_command r repository [''snapshots'', ''--tag'', tag, ''--json'']"

definition ForgetCommandByTag :: "restic_client \<Rightarrow> string \<Rightarrow> string \<Rightarrow> string" where
  "ForgetCommandByTag r repository tag = restic_command r repository [''forget'', ''--tag'', tag]"

definition PruneCommand :: "restic_client \<Rightarrow> string \<Rightarrow> string" where
  "PruneCommand r repository = restic_command r repository [''prune'']"

section \<open>What restic prints\<close>

definition IsPasswordIncorrect :: "string \<Rightarrow> bool" where
  "IsPasswordIncorrect output = go_Contains output ''wrong password''"

definition DoesRepoExist :: "string \<Rightarrow> bool" where
  "DoesRepoExist output = go_Contains output ''Is there a repository at the following location?''"

text \<open>The text between the last newline but one and the last character, which is taken to be a newline.\<close>

definition getLastLine :: "string \<Rightarrow> string" where
  "getLastLine b = rev (takeWhile (\<lambda>c. c \<noteq> newline) (rev (butlast b)))"

text \<open>\<open>bytes.LastIndex\<close>: the text from the last occurrence on.\<close>

fun from_last :: "string \<Rightarrow> string \<Rightarrow> string option" where
  "from_last sep [] = (if sep = [] then Some [] else None)"
| "from_last sep (c # s) =
     (case from_last sep s of
        Some r \<Rightarrow> Some r
      | None \<Rightarrow> if after_prefix sep (c # s) \<noteq> None then Some (c # s) else None)"

definition summary_mark :: string where
  "summary_mark = [CHR ''{'', CHR 0x22] @ ''message_type'' @ [CHR 0x22, CHR '':'', CHR 0x22] @ ''summary'' @ [CHR 0x22]"

definition getSummaryLine :: "string \<Rightarrow> string result" where
  "getSummaryLine b =
     (case from_last summary_mark b of
        None \<Rightarrow> Inl ''unable to find summary in restic backup command output''
      | Some s \<Rightarrow>
          if newline \<notin> set s then Inl ''unable to get summary line from restic backup command output''
          else Inr (takeWhile (\<lambda>c. c \<noteq> newline) s))"

text \<open>The number and the unit \<open>([\d]+(\.[\d]+)?\s([TGMK]i)?B)\<close>, as a check of a whole text; \<open>\s\<close> does not match a
  vertical tab.\<close>

definition is_digit :: "char \<Rightarrow> bool" where "is_digit c = (digit_value c \<noteq> None)"
definition regexp_space :: "char \<Rightarrow> bool" where "regexp_space c = (is_space c \<and> c \<noteq> CHR 0x0B)"
definition restic_units :: "string list" where "restic_units = [''TiB'', ''GiB'', ''MiB'', ''KiB'', ''B'']"

definition digits_then :: "string \<Rightarrow> string option" where
  "digits_then s = (if takeWhile is_digit s = [] then None else Some (dropWhile is_digit s))"

definition is_size :: "string \<Rightarrow> bool" where
  "is_size s =
     (case digits_then s of
        None \<Rightarrow> False
      | Some rest \<Rightarrow>
          (case (case rest of CHR ''.'' # rest' \<Rightarrow> digits_then rest' | _ \<Rightarrow> Some rest) of
             Some (c # unit) \<Rightarrow> regexp_space c \<and> unit \<in> set restic_units
           | _ \<Rightarrow> False))"

definition freed_in_line :: "string \<Rightarrow> string option" where
  "freed_in_line l =
     Option.bind (after_prefix ''will delete '' l) (\<lambda>s. Option.bind (digits_then s) (\<lambda>s.
     Option.bind (after_prefix '' packs and rewrite '' s) (\<lambda>s. Option.bind (digits_then s) (\<lambda>s.
     Option.bind (after_prefix '' packs, this frees '' s) (\<lambda>s. if is_size s then Some s else None)))))"

definition SpaceFreedFromPruneLog :: "string \<Rightarrow> string" where
  "SpaceFreedFromPruneLog output =
     fold (\<lambda>l spaceFreed. case freed_in_line l of None \<Rightarrow> spaceFreed | Some s \<Rightarrow> s) (go_Split newline output) []"

text \<open>The text at every single space.\<close>

fun split_spaces :: "string \<Rightarrow> string list" where
  "split_spaces [] = [[]]"
| "split_spaces (c # s) =
     (if regexp_space c then [] # split_spaces s else (c # hd (split_spaces s)) # tl (split_spaces s))"

definition magnitude :: "string \<Rightarrow> int64 option" where
  "magnitude u =
     (if u = ''TiB'' then Some (2 ^ 40) else if u = ''GiB'' then Some (2 ^ 30) else if u = ''MiB'' then Some (2 ^ 20)
      else if u = ''KiB'' then Some (2 ^ 10) else if u = ''B'' then Some 1 else None)"

record restic_env =
  re_combined :: "action list \<Rightarrow> string \<Rightarrow> string \<times> string option" \<comment> \<open>both outputs of a command, error\<close>
  re_stdout :: "action list \<Rightarrow> string \<Rightarrow> string \<times> string option" \<comment> \<open>\<open>Start\<close> and \<open>Wait\<close>\<close>
  re_ParseFloat :: "string \<Rightarrow> float64 result"
  re_to_int64 :: "float64 \<Rightarrow> int64" \<comment> \<open>the conversions the language leaves open\<close>
  re_status :: "string \<Rightarrow> (string \<times> int64) result" \<comment> \<open>\<open>message_type\<close>, \<open>total_bytes_processed\<close>\<close>
  re_snapshots :: "string \<Rightarrow> string option list result" \<comment> \<open>\<open>short_id\<close> of each, when it is text\<close>
  re_output :: "string \<Rightarrow> (string \<times> string) result" \<comment> \<open>\<open>UnmarshalOutput\<close>\<close>

definition ParseResticSizeStringBytes :: "restic_env \<Rightarrow> string \<Rightarrow> int64" where
  "ParseResticSizeStringBytes R sizeStr =
     (case split_spaces sizeStr of
        [sizeNumStr, magnitudeStr] \<Rightarrow>
          (case re_ParseFloat R sizeNumStr of
             Inl err \<Rightarrow> 0
           | Inr sizeNum \<Rightarrow>
               if float_less sizeNum (Fin 0) then 0
               else (case magnitude magnitudeStr of
                       None \<Rightarrow> 0
                     | Some m \<Rightarrow> to_int64 (re_to_int64 R) (if m = 1 then sizeNum else fmul sizeNum (of_int64 m))))
      | _ \<Rightarrow> 0)"

text \<open>The text after the first mark of an output line.\<close>

fun after_first :: "string \<Rightarrow> string \<Rightarrow> string option" where
  "after_first p [] = None"
| "after_first p (c # s) = (case after_prefix p (c # s) of Some r \<Rightarrow> Some r | None \<Rightarrow> after_first p s)"

definition parse_output :: "restic_env \<Rightarrow> string \<Rightarrow> (string \<times> string) option result" where
  "parse_output R l =
     (case after_first ''###Phase-output###:'' (TrimSpace l) of
        None \<Rightarrow> Inr None
      | Some op \<Rightarrow> (case re_output R op of Inl err \<Rightarrow> Inl err | Inr kv \<Rightarrow> Inr (Some kv)))"

fun output_loop :: "restic_env \<Rightarrow> string list \<Rightarrow> string gomap option \<Rightarrow> string gomap option result" where
  "output_loop R [] m = Inr m"
| "output_loop R (l # logs) m =
     (case parse_output R l of
        Inl err \<Rightarrow> Inl err
      | Inr None \<Rightarrow> output_loop R logs m
      | Inr (Some (key, value)) \<Rightarrow>
          output_loop R logs (Some (AList.update key value (case m of None \<Rightarrow> [] | Some op \<Rightarrow> op))))"

definition parseLogAndCreateOutput :: "restic_env \<Rightarrow> string \<Rightarrow> string gomap option result" where
  "parseLogAndCreateOutput R out = (if out = [] then Inr None else output_loop R (go_Split newline out) None)"

section \<open>Operations\<close>

text \<open>The client of a cluster, whose identifier may be unknown. The name of the daemon's action that makes one is
  taken.\<close>

definition new_restic_client :: "string result \<Rightarrow> string \<Rightarrow> string \<Rightarrow> string \<Rightarrow> string \<Rightarrow> restic_client result" where
  "new_restic_client clusterID s3Endpoint ak sk encryptionKey =
     map_sum (\<lambda>err. err) (\<lambda>c. \<lparr>rc_s3Endpoint = s3Endpoint, rc_ak = ak, rc_sk = sk, rc_encryptionKey = encryptionKey, rc_clusterID = c\<rparr>)
       clusterID"

definition combined :: "restic_env \<Rightarrow> string \<Rightarrow> (string \<times> string option) io" where
  "combined R cmd = act (Sh cmd) (\<lambda>log. re_combined R log cmd)"

definition getLatestSnapshots :: "restic_env \<Rightarrow> restic_client \<Rightarrow> string \<Rightarrow> (string \<times> string option) io" where
  "getLatestSnapshots R r repository = combined R (LatestSnapshotsCommand r repository)"

definition GetOrCreateRepository :: "restic_env \<Rightarrow> restic_client \<Rightarrow> string \<Rightarrow> unit result io" where
  "GetOrCreateRepository R r repository =
     State_Monad.bind (getLatestSnapshots R r repository) (\<lambda>(_, err). case err of
         None \<Rightarrow> ret (Inr ())
       | Some _ \<Rightarrow> State_Monad.bind (combined R (InitCommand r repository)) (\<lambda>(out, err). ret (case err of
             None \<Rightarrow> Inr ()
           | Some err \<Rightarrow> Inl (''failed to create object store backup location: '' @ err @ '', '' @ out))))"

definition PasswordIncorrect :: string where "PasswordIncorrect = ''password is incorrect''"
definition RepoDoesNotExist :: string where "RepoDoesNotExist = ''repo does not exist''"

definition CheckIfRepoIsReachable :: "restic_env \<Rightarrow> restic_client \<Rightarrow> string \<Rightarrow> unit result io" where
  "CheckIfRepoIsReachable R r repository =
     State_Monad.bind (getLatestSnapshots R r repository) (\<lambda>(out, err). ret (case err of
         None \<Rightarrow> Inr ()
       | Some err \<Rightarrow>
           if IsPasswordIncorrect out then Inl PasswordIncorrect
           else if DoesRepoExist out then Inl RepoDoesNotExist
           else Inl (''failed to list restic snapshots: '' @ out @ '', '' @ err)))"

definition restic_BackupData :: "restic_env \<Rightarrow> restic_client \<Rightarrow> string \<Rightarrow> string \<Rightarrow> string \<Rightarrow> int64 result io" where
  "restic_BackupData R r repository pathToBackup backupTag =
     attempt (\<lambda>err. ''fail to get or create restic repository: '' @ err) (GetOrCreateRepository R r repository) (\<lambda>_.
     attempt (\<lambda>err. ''fail to check if repository is reachable: '' @ err) (CheckIfRepoIsReachable R r repository) (\<lambda>_.
     (let cmdStr = BackupCommandByTag r repository backupTag pathToBackup
      in State_Monad.bind (act (Sh cmdStr) (\<lambda>log. re_stdout R log cmdStr)) (\<lambda>(out, err). ret (case err of
           Some err \<Rightarrow> Inl err
         | None \<Rightarrow>
             (case getSummaryLine out of
                Inl err \<Rightarrow> Inl err
              | Inr summary \<Rightarrow>
                  (case re_status R summary of
                     Inl err \<Rightarrow> Inl (''unable to decode backup JSON line: '' @ summary @ '': '' @ err)
                   | Inr (messageType, totalBytesProcessed) \<Rightarrow>
                       if messageType \<noteq> ''summary'' then Inl (''fail to get restic backup summary: '' @ summary)
                       else Inr totalBytesProcessed)))))))"

definition restic_RestoreData ::
  "restic_env \<Rightarrow> restic_client \<Rightarrow> string \<Rightarrow> string \<Rightarrow> string \<Rightarrow> string gomap option result io" where
  "restic_RestoreData R r repository pathToRestore backupTag =
     attempt (\<lambda>err. err) (CheckIfRepoIsReachable R r repository) (\<lambda>_.
     State_Monad.bind (combined R (RestoreCommandByTag r repository backupTag pathToRestore)) (\<lambda>(out, err). ret (case err of
         Some err \<Rightarrow> Inl (err @ '', '' @ out)
       | None \<Rightarrow> parseLogAndCreateOutput R out)))"

definition PruneData :: "restic_env \<Rightarrow> restic_client \<Rightarrow> string \<Rightarrow> string result io" where
  "PruneData R r repository =
     attempt (\<lambda>err. err) (CheckIfRepoIsReachable R r repository) (\<lambda>_.
     State_Monad.bind (combined R (PruneCommand r repository)) (\<lambda>(out, err). ret (case err of
         Some err \<Rightarrow> Inl (err @ '', '' @ out)
       | None \<Rightarrow> Inr (SpaceFreedFromPruneLog out))))"

text \<open>The bytes that were freed, or nothing when there is no such repository.\<close>

definition DeleteDataByTag ::
  "restic_env \<Rightarrow> restic_client \<Rightarrow> string \<Rightarrow> string \<Rightarrow> bool \<Rightarrow> int64 option result io" where
  "DeleteDataByTag R r repository deleteTag reclaimSpace =
     State_Monad.bind (CheckIfRepoIsReachable R r repository) (\<lambda>reachable. case reachable of
         Inl err \<Rightarrow> ret (if go_Contains err RepoDoesNotExist then Inr None else Inl err)
       | Inr _ \<Rightarrow>
           State_Monad.bind (combined R (ForgetCommandByTag r repository deleteTag)) (\<lambda>(out, err). case err of
             Some err \<Rightarrow> ret (Inl (''failed to forget data: '' @ err @ '', '' @ out @ '': '' @ err))
           | None \<Rightarrow>
               if reclaimSpace
               then attempt (\<lambda>err. ''Error executing prune command: '' @ err) (PruneData R r repository)
                      (\<lambda>spaceFreedStr. ret (Inr (Some (ParseResticSizeStringBytes R spaceFreedStr))))
               else ret (Inr (Some 0))))"

text \<open>\<open>None\<close> when an identifier is not text.\<close>

definition SnapshotIDFromSnapshotLog :: "restic_env \<Rightarrow> string \<Rightarrow> string list result option" where
  "SnapshotIDFromSnapshotLog R output =
     (case re_snapshots R output of
        Inl err \<Rightarrow> Some (Inl (''Failed to unmarshall output from snapshotCommand: '' @ err))
      | Inr result \<Rightarrow> if list_all (\<lambda>i. i \<noteq> None) result then Some (Inr (map the result)) else None)"

definition CheckSnapshotExist :: "restic_env \<Rightarrow> restic_client \<Rightarrow> string \<Rightarrow> bool result option io" where
  "CheckSnapshotExist R r repository =
     State_Monad.bind (combined R (SnapshotsCommand r repository)) (\<lambda>(out, err). ret (case err of
         Some err \<Rightarrow> Some (Inl (''failed to check snapshot data, could not get snapshotID: '' @ err @ '', '' @ out @ '': '' @ err))
       | None \<Rightarrow>
           map_option (map_sum (\<lambda>err. ''failed to check snapshot log, could not get snapshotID: '' @ err) (\<lambda>ids. ids \<noteq> []))
             (SnapshotIDFromSnapshotLog R out)))"

end
