(* ===== verification/Restic_Facts.thy ===== *)
theory Restic_Facts
  imports Restic Node_Frame
begin

text \<open>
  What the restic client guarantees: it names no repository but the one it was asked for, it does not initialise one
  that answers, deleting from a missing one succeeds without a change, and what it reads from restic's output is what
  restic printed.
\<close>

section \<open>Only the repository asked for\<close>

definition on_repository :: "restic_client \<Rightarrow> string \<Rightarrow> action \<Rightarrow> bool" where
  "on_repository r repository a \<longleftrightarrow>
     (\<exists>words before. a = Sh (go_Join (before @ resticArgs r repository @ words) '' '') \<and> (before = [] \<or> (\<exists>d. before = [''cd '' @ d @ [newline]])))"

lemma on_repository_intros:
  "on_repository r repository (Sh (restic_command r repository words))"
  "on_repository r repository (Sh (BackupCommandByTag r repository tag path))"
  unfolding on_repository_def restic_command_def BackupCommandByTag_def
  by (metis append_Nil, metis append_Cons append_Nil)

lemmas restic_commands = InitCommand_def LatestSnapshotsCommand_def RestoreCommandByTag_def SnapshotsCommand_def
  ForgetCommandByTag_def PruneCommand_def

lemma keeps_combined: "P (Sh cmd) \<Longrightarrow> keeps (appends P) (combined R cmd)"
  by (auto simp: keeps_def combined_def act_def appends_def)

lemma keeps_attempt:
  "keeps (appends P) m \<Longrightarrow> (\<And>x. keeps (appends P) (k x)) \<Longrightarrow> keeps (appends P) (attempt wrap m k)"
  unfolding attempt_def by (intro app.keeps_bind) (auto simp: app.keeps_return split: sum.split)

lemmas restic_intros = keeps_attempt app.keeps_bind app.keeps_return keeps_combined on_repository_intros

lemma keeps_queries:
  "keeps (appends (on_repository r repo)) (CheckIfRepoIsReachable R r repo)"
  "keeps (appends (on_repository r repo)) (GetOrCreateRepository R r repo)"
  "keeps (appends (on_repository r repo)) (PruneData R r repo)"
  "keeps (appends (on_repository r repo)) (CheckSnapshotExist R r repo)"
  "keeps (appends (on_repository r repo)) (restic_RestoreData R r repo path tag)"
  "keeps (appends (on_repository r repo)) (DeleteDataByTag R r repo tag reclaim)"
  by (auto simp: CheckIfRepoIsReachable_def GetOrCreateRepository_def PruneData_def CheckSnapshotExist_def restic_RestoreData_def
      DeleteDataByTag_def getLatestSnapshots_def restic_commands split: option.split sum.split intro!: restic_intros)

lemma keeps_backup: "keeps (appends (on_repository r repo)) (restic_BackupData R r repo path tag)"
proof -
  have "keeps (appends (on_repository r repo)) (act (Sh (BackupCommandByTag r repo tag path)) f)" for f :: "action list \<Rightarrow> 'b"
    by (auto simp: keeps_def act_def appends_def on_repository_intros)
  then show ?thesis unfolding restic_BackupData_def Let_def
    by (auto intro!: keeps_attempt keeps_queries app.keeps_bind app.keeps_return)
qed

section \<open>Repositories that exist and repositories that do not\<close>

definition answers :: "restic_env \<Rightarrow> restic_client \<Rightarrow> string \<Rightarrow> action list \<Rightarrow> string \<times> string option" where
  "answers R r repo acts = re_combined R acts (LatestSnapshotsCommand r repo)"

lemma run_restic_act: "run_state (act a f) l = (f l, l @ [a])"
  by (simp add: act_def)

theorem existing_repository_kept:
  assumes "snd (answers R r repo acts) = None"
  shows "run_state (GetOrCreateRepository R r repo) acts = (Inr (), acts @ [Sh (LatestSnapshotsCommand r repo)])"
  using assms
  by (simp add: GetOrCreateRepository_def getLatestSnapshots_def combined_def run_hbind run_restic_act answers_def case_prod_unfold
      run_return)

lemma go_Contains_self: "sub \<noteq> [] \<Longrightarrow> go_Contains sub sub"
  by (cases sub) (simp_all add: after_prefix_Some)

theorem missing_repository_is_deleted:
  assumes "answers R r repo acts = (out, Some err)" and "DoesRepoExist out" and "\<not> IsPasswordIncorrect out"
  shows "run_state (DeleteDataByTag R r repo tag reclaim) acts = (Inr None, acts @ [Sh (LatestSnapshotsCommand r repo)])"
proof -
  have "run_state (CheckIfRepoIsReachable R r repo) acts = (Inl RepoDoesNotExist, acts @ [Sh (LatestSnapshotsCommand r repo)])"
    using assms
    by (simp add: CheckIfRepoIsReachable_def getLatestSnapshots_def combined_def run_hbind run_restic_act answers_def run_return)
  moreover have "go_Contains RepoDoesNotExist RepoDoesNotExist" by (rule go_Contains_self) (simp add: RepoDoesNotExist_def)
  ultimately show ?thesis by (simp add: DeleteDataByTag_def run_hbind run_return)
qed

section \<open>Reading the output\<close>

lemma from_last_Some:
  "sep \<noteq> [] \<Longrightarrow> from_last sep s = Some t \<Longrightarrow> \<exists>a b. s = a @ t \<and> t = sep @ b"
proof (induction s arbitrary: t)
  case (Cons c s)
  show ?case
  proof (cases "from_last sep s")
    case (Some r)
    with Cons obtain a b where "s = a @ r" "r = sep @ b" by blast
    moreover have "t = r" using Cons.prems(2) Some by simp
    ultimately show ?thesis by (metis append_Cons)
  next
    case None
    with Cons.prems(2) have "after_prefix sep (c # s) \<noteq> None" "t = c # s" by (auto split: if_splits)
    then obtain b where "t = c # s" "c # s = sep @ b" using after_prefix_Some by blast
    then show ?thesis by (metis append_Nil)
  qed
qed simp

lemma from_last_None: "sep \<noteq> [] \<Longrightarrow> from_last sep s = None \<longleftrightarrow> (\<nexists>a b. s = a @ sep @ b)"
proof (induction s)
  case (Cons c s)
  have "(\<exists>a b. c # s = a @ sep @ b) \<longleftrightarrow> (\<exists>b. c # s = sep @ b) \<or> (\<exists>a b. s = a @ sep @ b)"
    by (metis append_Cons append_Nil list.inject neq_Nil_conv)
  then show ?case using Cons by (auto simp: after_prefix_Some split: option.split)
qed simp

text \<open>The last summary is the one that is read, whatever was printed before it and after its line.\<close>

theorem getSummaryLine_reads:
  assumes "\<nexists>a b. tl (summary_mark @ rest) @ newline # after = a @ summary_mark @ b" and "newline \<notin> set rest"
  shows "getSummaryLine (before @ summary_mark @ rest @ newline # after) = Inr (summary_mark @ rest)"
proof -
  obtain c m where mark: "summary_mark = c # m" by (simp add: summary_mark_def)
  have "from_last summary_mark (m @ rest @ newline # after) = None"
    using assms(1) by (subst from_last_None) (simp_all add: mark)
  moreover have "after_prefix summary_mark (c # m @ rest @ newline # after) \<noteq> None" by (simp add: mark after_prefix_Some)
  ultimately have last: "from_last summary_mark (summary_mark @ rest @ newline # after) = Some (summary_mark @ rest @ newline # after)"
    by (simp add: mark)
  have "from_last summary_mark (before @ summary_mark @ rest @ newline # after) = Some (summary_mark @ rest @ newline # after)"
    by (induction before) (simp_all add: last)
  moreover have "newline \<notin> set (summary_mark @ rest)" using assms(2) by (simp add: summary_mark_def)
  ultimately show ?thesis
    by (simp add: getSummaryLine_def takeWhile_append del: takeWhile_eq_all_conv)
qed

text \<open>What restic says it freed has a number and a unit that can be read.\<close>

lemma digits_then_split: "digits_then s = Some t \<Longrightarrow> \<exists>d. d \<noteq> [] \<and> list_all is_digit d \<and> s = d @ t"
  unfolding digits_then_def
  by (intro exI [of _ "takeWhile is_digit s"]) (auto simp: list_all_iff dest: set_takeWhileD split: if_splits)

lemma split_spaces_once:
  "list_all (\<lambda>c. \<not> regexp_space c) a \<Longrightarrow> regexp_space c \<Longrightarrow> list_all (\<lambda>c. \<not> regexp_space c) b \<Longrightarrow>
   split_spaces (a @ c # b) = [a, b]"
proof (induction a)
  case Nil
  then have "split_spaces b = [b]" by (induction b) auto
  then show ?case using Nil by simp
qed auto

lemma digit_not_space: "is_digit c \<Longrightarrow> \<not> regexp_space c"
  by (auto simp: is_digit_def digit_value_def regexp_space_def is_space_def)

lemma units_have_magnitude: "u \<in> set restic_units \<Longrightarrow> magnitude u \<noteq> None \<and> list_all (\<lambda>c. \<not> regexp_space c) u"
  by (auto simp: restic_units_def magnitude_def regexp_space_def is_space_def)

theorem freed_size_is_read:
  assumes "freed_in_line l = Some s"
  shows "\<exists>number unit. split_spaces s = [number, unit] \<and> magnitude unit \<noteq> None"
proof -
  have "is_size s" using assms by (auto simp: freed_in_line_def split: bind_splits if_splits)
  then obtain rest c unit where d: "digits_then s = Some rest"
    and t: "(case rest of CHR ''.'' # rest' \<Rightarrow> digits_then rest' | _ \<Rightarrow> Some rest) = Some (c # unit)"
    and u: "regexp_space c" "unit \<in> set restic_units"
    unfolding is_size_def by (auto split: option.splits list.splits)
  obtain e where e: "rest = e @ c # unit" "list_all (\<lambda>c. \<not> regexp_space c) e"
  proof (cases "\<exists>rest'. rest = CHR ''.'' # rest'")
    case True
    then obtain rest' where "rest = CHR ''.'' # rest'" by blast
    moreover from this t obtain d' where "list_all is_digit d'" "rest' = d' @ c # unit"
      using digits_then_split by force
    moreover have "\<not> regexp_space (CHR ''.'')" by (simp add: regexp_space_def is_space_def)
    ultimately show ?thesis using that [of "CHR ''.'' # d'"] by (auto simp: list_all_iff dest: digit_not_space)
  next
    case False
    then have "rest = c # unit" using t by (auto split: list.splits char.splits bool.splits)
    then show ?thesis using that [of "[]"] by simp
  qed
  from digits_then_split [OF d] obtain n where "s = n @ rest" "list_all is_digit n" by blast
  then have "s = (n @ e) @ c # unit" "list_all (\<lambda>c. \<not> regexp_space c) (n @ e)"
    using e by (auto simp: list_all_iff dest: digit_not_space)
  with split_spaces_once units_have_magnitude [OF u(2)] u(1) show ?thesis by metis
qed

end
