(* ===== verification/Path_Utils.thy ===== *)
theory Path_Utils
  imports Node_State
begin

text \<open>
  \<open>filepath.Dir\<close>, and what \<open>filepath.Clean\<close> makes of paths of plain names.
\<close>

definition filepath_Dir :: "string \<Rightarrow> string" where
  "filepath_Dir path = filepath_Clean (rev (dropWhile (\<lambda>c. c \<noteq> CHR ''/'') (rev path)))"

section \<open>Paths of plain names\<close>

definition plain_name :: "string \<Rightarrow> bool" where
  "plain_name p \<longleftrightarrow> p \<noteq> [] \<and> p \<noteq> ''.'' \<and> p \<noteq> ''..'' \<and> CHR ''/'' \<notin> set p"

lemma go_Split_name: "sep \<notin> set p \<Longrightarrow> go_Split sep p = [p]"
  by (induction p) auto

lemma go_Split_names:
  "list_all (\<lambda>p. CHR ''/'' \<notin> set p) ps \<Longrightarrow> ps \<noteq> [] \<Longrightarrow> go_Split (CHR ''/'') (go_Join ps ''/'') = ps"
proof (induction ps rule: go_Join.induct [of "\<lambda>ps _. _ ps"])
  case (3 w v ws)
  have "go_Split (CHR ''/'') (w @ ''/'' @ go_Join (v # ws) ''/'') = w # v # ws" if "CHR ''/'' \<notin> set w"
    using that 3 by (induction w) auto
  then show ?case using "3.prems" by simp
qed (auto simp: go_Split_name)

lemma clean_plain: "list_all plain_name ps \<Longrightarrow> clean_elems rooted stack ps = rev stack @ ps"
  by (induction ps arbitrary: stack) (auto simp: plain_name_def)

lemma clean_plain_path: "list_all plain_name ps \<Longrightarrow> filepath_Clean (CHR ''/'' # go_Join ps ''/'') = CHR ''/'' # go_Join ps ''/''"
proof (cases ps)
  case (Cons p qs)
  assume a: "list_all plain_name ps"
  then have "list_all (\<lambda>p. CHR ''/'' \<notin> set p) ps" by (auto simp: list_all_iff plain_name_def)
  with Cons have "go_Split (CHR ''/'') (go_Join ps ''/'') = ps" by (intro go_Split_names) auto
  then show ?thesis using a by (simp add: filepath_Clean_def Let_def clean_plain)
qed (simp add: filepath_Clean_def Let_def)

end
