(* ===== verification/Lvm_Quota.thy ===== *)
theory Lvm_Quota
  imports Path_Utils State_Frame
begin

text \<open>
  Project quotas of the daemon, the last part of \<open>pkg/csi/server/lvm_commands.go\<close>: a path gets a project number made
  of a hash of its name, a limit is set for the project and read back from a report. The hash and the reader of the
  comma-separated report are parameters.
\<close>

record quota_env =
  qe_H :: host
  qe_sha256 :: "string \<Rightarrow> string" \<comment> \<open>in hexadecimal\<close>
  qe_csv :: "string \<Rightarrow> string list list \<times> string option" \<comment> \<open>the records up to the end or an error\<close>

fun str2ASCII :: "string \<Rightarrow> string" where
  "str2ASCII [] = []"
| "str2ASCII (c # s) = (if digit_value c = None then dec (of_char c) else [c]) @ str2ASCII s"

text \<open>\<open>None\<close> when fewer than nine characters are left of the hash.\<close>

definition ConvertString2int :: "quota_env \<Rightarrow> string \<Rightarrow> string option" where
  "ConvertString2int Q origin =
     (let hashResult = dropWhile (\<lambda>c. c = CHR ''0'') (qe_sha256 Q origin)
      in if length hashResult < 9 then None else Some (take 9 (str2ASCII (take 9 hashResult))))"

definition SetProjectID2PVSubpath :: "quota_env \<Rightarrow> string \<Rightarrow> string \<Rightarrow> (string \<Rightarrow> string result io) \<Rightarrow> string result option io" where
  "SetProjectID2PVSubpath Q subPath fullPath run =
     (case ConvertString2int Q subPath of
        None \<Rightarrow> ret None
      | Some projectID \<Rightarrow>
          State_Monad.bind (attempt (\<lambda>err. ''failed to set projectID to subpath with error: '' @ err)
              (run (shell [''chattr'', ''+P -p'', projectID @ '' '' @ fullPath])) (\<lambda>_. ret (Inr projectID)))
            (\<lambda>r. ret (Some r)))"

definition project_record :: "string \<Rightarrow> bool" where
  "project_record trimedStr \<longleftrightarrow> HasPrefix trimedStr ''#'' \<and> trimedStr \<noteq> ''#0''"

text \<open>A record that is too short panics.\<close>

fun total_loop :: "string list list \<Rightarrow> string option \<Rightarrow> int64 \<Rightarrow> int64 result option" where
  "total_loop [] None totalLimit = Some (Inr totalLimit)"
| "total_loop [] (Some err) totalLimit = Some (Inl err)"
| "total_loop (record # records) failed totalLimit =
     (case record of
        [] \<Rightarrow> None
      | first # _ \<Rightarrow>
          if project_record (TrimSpace first)
          then (if length record \<le> 5 then None
                else (case ParseInt64 (record ! 5) of
                        Inl err \<Rightarrow> Some (Inl err)
                      | Inr limitKByte \<Rightarrow> total_loop records failed (totalLimit + limitKByte)))
          else total_loop records failed totalLimit)"

definition getTotalLimitKBFromCSV :: "quota_env \<Rightarrow> string \<Rightarrow> int64 result option" where
  "getTotalLimitKBFromCSV Q out = (case qe_csv Q out of (records, failed) \<Rightarrow> total_loop records failed 0)"

definition repquota_command :: "string \<Rightarrow> string" where
  "repquota_command path = shell [''repquota'', ''-P -O csv'', path]"

definition GetNamespaceAssignedQuota :: "quota_env \<Rightarrow> string \<Rightarrow> int64 result option io" where
  "GetNamespaceAssignedQuota Q namespace =
     State_Monad.bind (Run (qe_H Q) (repquota_command (''/mnt/quotapath.'' @ namespace))) (\<lambda>r. ret (case r of
         Inl err \<Rightarrow> Some (Inl (''failed to request namespace quota with error: '' @ err))
       | Inr out \<Rightarrow> getTotalLimitKBFromCSV Q out))"

fun limit_loop :: "string list list \<Rightarrow> string option \<Rightarrow> string \<Rightarrow> (string \<times> string) result option" where
  "limit_loop [] None projectID = Some (Inl (''findBlockLimitByProjectID: cannot find projectID: '' @ projectID @ '' in output''))"
| "limit_loop [] (Some err) projectID = Some (Inl err)"
| "limit_loop (record # records) failed projectID =
     (case record of
        [] \<Rightarrow> None
      | first # _ \<Rightarrow>
          if project_record (TrimSpace first) \<and> go_Contains (TrimSpace first) projectID
          then (if length record \<le> 5 then None else Some (Inr (record ! 4, record ! 5)))
          else limit_loop records failed projectID)"

definition findBlockLimitByProjectID :: "quota_env \<Rightarrow> string \<Rightarrow> string \<Rightarrow> (string \<times> string) result option" where
  "findBlockLimitByProjectID Q out projectID = (case qe_csv Q out of (records, failed) \<Rightarrow> limit_loop records failed projectID)"

definition quota_differs :: "string \<Rightarrow> string \<Rightarrow> string \<Rightarrow> string \<Rightarrow> string" where
  "quota_differs hardExpected hardActual softExpected softActual =
     ''checkSubpathProjQuotaEqual:actualData:'' @ hardExpected @ '' is not equals with setedData:'' @ hardActual @
     '', blockSoftLimit:'' @ softExpected @ '', blockSoftlimit:'' @ softActual"

definition checkSubpathProjQuotaEqual ::
  "quota_env \<Rightarrow> string \<Rightarrow> string \<Rightarrow> string \<Rightarrow> string \<Rightarrow> bool result option io" where
  "checkSubpathProjQuotaEqual Q path projectID hardExpected softExpected =
     State_Monad.bind (Run (qe_H Q) (repquota_command path)) (\<lambda>r. ret (case r of
         Inl err \<Rightarrow> Some (Inl (''failed to request namespace quota with error: '' @ err))
       | Inr out \<Rightarrow>
           (case findBlockLimitByProjectID Q out projectID of
              None \<Rightarrow> None
            | Some (Inl err) \<Rightarrow> Some (Inl err)
            | Some (Inr (softActual, hardActual)) \<Rightarrow>
                Some (if hardExpected = hardActual \<and> softActual = hardExpected then Inr True
                      else Inl (quota_differs hardExpected hardActual softExpected softActual)))))"

text \<open>Both limits are set to the hard one.\<close>

definition setquota_command :: "string \<Rightarrow> string \<Rightarrow> string \<Rightarrow> string" where
  "setquota_command projectID blockHardlimit dir =
     shell [''setquota'', ''-P'', projectID @ '' '' @ blockHardlimit @ '' '' @ blockHardlimit @ '' 0 0 '' @ dir]"

definition SetSubpathProjQuota :: "quota_env \<Rightarrow> string \<Rightarrow> string \<Rightarrow> string \<Rightarrow> string result option io" where
  "SetSubpathProjQuota Q projQuotaSubpath blockHardlimit blockSoftlimit =
     (case ConvertString2int Q (filepath_Base projQuotaSubpath) of
        None \<Rightarrow> ret None
      | Some projectID \<Rightarrow>
          State_Monad.bind (Run (qe_H Q) (setquota_command projectID blockHardlimit (filepath_Dir projQuotaSubpath)))
            (\<lambda>r. case r of
               Inl err \<Rightarrow> ret (Some (Inl (''failed to set quota to subpath with error: '' @ err)))
             | Inr _ \<Rightarrow>
                 State_Monad.bind (checkSubpathProjQuotaEqual Q (filepath_Dir projQuotaSubpath) projectID blockHardlimit blockHardlimit)
                   (\<lambda>r. ret (map_option (map_sum (\<lambda>err. err) (\<lambda>_. [])) r))))"

section \<open>What a quota comes to\<close>

text \<open>A project number has nine decimal digits.\<close>

lemma dec_digits: "list_all (\<lambda>c. digit_value c \<noteq> None) (dec n) \<and> dec n \<noteq> []"
proof (induction n rule: dec.induct)
  case (1 n)
  have "digit_value (''0123456789'' ! d) \<noteq> None" if "d < 10" for d
  proof -
    have "''0123456789'' ! d \<in> set ''0123456789''" using that by (intro nth_mem) simp
    then show ?thesis by (auto simp: digit_value_def)
  qed
  then show ?case using 1 by (simp del: dec.simps add: dec.simps [of n])
qed

lemma str2ASCII_digits: "list_all (\<lambda>c. digit_value c \<noteq> None) (str2ASCII s) \<and> length s \<le> length (str2ASCII s)"
proof (induction s)
  case (Cons c s)
  have "1 \<le> length (dec (of_char c))" using dec_digits [of "of_char c"] by (simp del: dec.simps add: Suc_le_eq)
  then show ?case using Cons dec_digits [of "of_char c"] by (simp del: dec.simps)
qed simp

theorem project_number:
  assumes "ConvertString2int Q origin = Some projectID"
  shows "length projectID = 9 \<and> list_all (\<lambda>c. digit_value c \<noteq> None) projectID"
proof -
  let ?h = "take 9 (dropWhile (\<lambda>c. c = CHR ''0'') (qe_sha256 Q origin))"
  have "length ?h = 9" "projectID = take 9 (str2ASCII ?h)"
    using assms by (auto simp: ConvertString2int_def Let_def split: if_splits)
  then show ?thesis using str2ASCII_digits [of ?h] by (auto simp: list_all_iff dest: in_set_takeD)
qed

text \<open>A limit is reported as set only when the report shows it, as soft and as hard limit, for a project whose number
  contains the one that was set.\<close>

theorem quota_is_confirmed:
  assumes "run_state (SetSubpathProjQuota Q path hard soft) acts = (Some (Inr x), acts')"
  shows "\<exists>projectID out records failed record. ConvertString2int Q (filepath_Base path) = Some projectID \<and>
    qe_csv Q out = (records, failed) \<and> record \<in> set records \<and> go_Contains (TrimSpace (hd record)) projectID \<and>
    record ! 4 = hard \<and> record ! 5 = hard"
proof -
  have found: "\<exists>record \<in> set records. go_Contains (TrimSpace (hd record)) projectID \<and> record ! 4 = s \<and> record ! 5 = h"
    if "limit_loop records failed projectID = Some (Inr (s, h))" for records failed projectID s h
    using that by (induction records failed projectID rule: limit_loop.induct) (auto split: list.splits if_splits)
  obtain projectID where p: "ConvertString2int Q (filepath_Base path) = Some projectID"
    using assms by (auto simp: SetSubpathProjQuota_def split: option.splits)
  then obtain out where "findBlockLimitByProjectID Q out projectID = Some (Inr (hard, hard))"
    using assms
    by (auto simp: SetSubpathProjQuota_def checkSubpathProjQuotaEqual_def run_hbind Run_def act_def split: sum.splits
        option.splits prod.splits if_splits)
  then show ?thesis using found p by (fastforce simp: findBlockLimitByProjectID_def split: prod.splits)
qed

end
