(* ===== verification/Om.thy ===== *)
theory Om
  imports Path_Utils
begin

text \<open>
  Operations and maintenance, \<open>pkg/om\<close>: a loop reads the last lines of the system's log for two complaints of the
  kubelet and repairs what they name: block volumes that are still referenced, whose links are removed, and pods
  that are gone whose volumes are still there, which are unmounted and removed. The machine is the node's, with
  \<open>grep\<close> and \<open>CleanupMountPoint\<close>.
\<close>

record om_config =
  om_IssueMessageFile :: bool
  om_MessageFileTailLines :: int64
  om_IssueBlockReference :: bool
  om_IssueOrphanedPod :: bool

record om_host = node_host +
  grep_mounts :: "action list \<Rightarrow> string \<Rightarrow> string \<times> string option" \<comment> \<open>output, error\<close>
  file_names :: "action list \<Rightarrow> string \<Rightarrow> string list result"
  dir_empty :: "action list \<Rightarrow> string \<Rightarrow> bool"

abbreviation om_base :: "om_host \<Rightarrow> host" where
  "om_base H \<equiv> host.truncate (spdk_host.truncate (node_host.truncate H))"

section \<open>Configuration\<close>

definition GlobalConfigSet :: "string gomap \<Rightarrow> om_config" where
  "GlobalConfigSet environment =
     \<lparr>om_IssueMessageFile = (str_at environment ''ISSUE_MESSAGE_FILE'' = ''true''),
      om_MessageFileTailLines =
        (let messageFileLine = str_at environment ''MESSAGE_FILE_LINES''
         in if messageFileLine = [] then 20
            else (case ParseInt64 messageFileLine of Inl err \<Rightarrow> 20 | Inr lineNum \<Rightarrow> lineNum)),
      om_IssueBlockReference = (str_at environment ''ISSUE_BLOCK_REFERENCE'' = ''true''),
      om_IssueOrphanedPod = (str_at environment ''ISSUE_ORPHANED_POD'' = ''true'')\<rparr>"

section \<open>Files\<close>

text \<open>A file whose state cannot be read counts as there.\<close>

definition IsFileExisting :: "om_host \<Rightarrow> string \<Rightarrow> bool io" where
  "IsFileExisting H filename =
     act (Stat filename) (\<lambda>acts. case stat_path H acts filename of None \<Rightarrow> True | Some _ \<Rightarrow> \<not> is_missing H acts filename)"

definition om_Remove :: "om_host \<Rightarrow> string \<Rightarrow> string option io" where
  "om_Remove H path = act (Remove path) (\<lambda>acts. os_remove H acts path)"

definition IsDirEmpty :: "om_host \<Rightarrow> string \<Rightarrow> bool io" where
  "IsDirEmpty H name = act (ReadDir name) (\<lambda>acts. dir_empty H acts name)"

section \<open>References to block volumes\<close>

definition parseReferenceMount :: "string \<Rightarrow> string list" where
  "parseReferenceMount line =
     (case go_SplitString line ''is still referenced from other Pods'' of
        _ # s # _ \<Rightarrow>
          (if s = [] then []
           else if \<not> go_Contains s ''['' \<or> \<not> go_Contains s '']'' then []
           else (case go_Split (CHR ''['') s of
                   [_, l] \<Rightarrow> (case go_Split (CHR '']'') l of [fileStr, _] \<Rightarrow> go_Split (CHR '' '') fileStr | _ \<Rightarrow> [])
                 | _ \<Rightarrow> []))
      | _ \<Rightarrow> [])"

definition isFileBlockLink :: "string \<Rightarrow> bool" where
  "isFileBlockLink file \<longleftrightarrow>
     HasPrefix file ''/var/lib/kubelet/plugins/kubernetes.io/csi/volumeDevices/'' \<and> go_Contains file ''/dev/''"

definition isFileRemovable :: "om_host \<Rightarrow> string \<Rightarrow> bool io" where
  "isFileRemovable H file =
     act (Exec ''grep'' [filepath_Base file, ''/proc/mounts''])
       (\<lambda>acts. case grep_mounts H acts (filepath_Base file) of
           (_, Some _) \<Rightarrow> True | (out, None) \<Rightarrow> TrimSpace out = [])"

fun reference_loop :: "om_host \<Rightarrow> string list \<Rightarrow> unit io" where
  "reference_loop H [] = ret ()"
| "reference_loop H (file # files) =
     State_Monad.bind (IsFileExisting H file) (\<lambda>there.
       if \<not> there \<or> \<not> isFileBlockLink file then reference_loop H files
       else State_Monad.bind (isFileRemovable H file) (\<lambda>removable.
              if removable then State_Monad.bind (om_Remove H file) (\<lambda>_. reference_loop H files)
              else reference_loop H files))"

definition FixReferenceMountIssue :: "om_host \<Rightarrow> string \<Rightarrow> bool io" where
  "FixReferenceMountIssue H line =
     (case parseReferenceMount line of
        [] \<Rightarrow> ret False
      | linkFiles \<Rightarrow> State_Monad.bind (reference_loop H linkFiles) (\<lambda>_. ret True))"

section \<open>Orphaned pods\<close>

text \<open>The identifier between the first two quotes after the words.\<close>

definition orphan_uid :: "string \<Rightarrow> string option" where
  "orphan_uid line =
     (case go_SplitString line ''rphaned pod'' of
        _ # s # _ \<Rightarrow>
          (case go_Split (CHR 0x22) s of
             _ # orphanUID # _ \<Rightarrow> if length (go_Split (CHR ''-'') orphanUID) \<noteq> 5 then None else Some orphanUID
           | _ \<Rightarrow> None)
      | _ \<Rightarrow> None)"

definition csi_pod_path :: "string \<Rightarrow> string" where
  "csi_pod_path orphanUID = filepath_Join [''/var/lib/kubelet/pods'', orphanUID, ''volumes/kubernetes.io~csi'']"

definition fix_volume :: "om_host \<Rightarrow> string \<Rightarrow> unit io" where
  "fix_volume H volumePath =
     (let volumeMountPath = filepath_Join [volumePath, ''mount'']; volumeJSONPath = filepath_Join [volumePath, ''vol_data.json'']
      in State_Monad.bind (IsFileExisting H volumeMountPath) (\<lambda>mounted.
         State_Monad.bind (if mounted
             then act (CleanupMountPoint volumeMountPath) (\<lambda>acts. cleanup_mount H acts volumeMountPath) else ret None) (\<lambda>err.
         if err \<noteq> None then ret ()
         else State_Monad.bind (IsFileExisting H volumeJSONPath) (\<lambda>there.
              State_Monad.bind (if there then om_Remove H volumeJSONPath else ret None) (\<lambda>_.
              State_Monad.bind (IsDirEmpty H volumePath) (\<lambda>empty.
              if empty then State_Monad.bind (om_Remove H volumePath) (\<lambda>_. ret ()) else ret ()))))))"

fun fix_volumes :: "om_host \<Rightarrow> string \<Rightarrow> string list \<Rightarrow> unit io" where
  "fix_volumes H csiPodPath [] = ret ()"
| "fix_volumes H csiPodPath (volume # volumes) =
     State_Monad.bind (fix_volume H (filepath_Join [csiPodPath, volume])) (\<lambda>_. fix_volumes H csiPodPath volumes)"

text \<open>The result and the identifiers known to be done.\<close>

definition FixOrphanedPodIssue :: "om_host \<Rightarrow> string \<Rightarrow> unit gomap \<Rightarrow> (bool \<times> unit gomap) io" where
  "FixOrphanedPodIssue H line fixed =
     (case orphan_uid line of
        None \<Rightarrow> ret (False, fixed)
      | Some orphanUID \<Rightarrow>
          if map_of fixed orphanUID \<noteq> None then ret (True, fixed)
          else (let csiPodPath = csi_pod_path orphanUID
                in State_Monad.bind (act (ReadDir csiPodPath) (\<lambda>acts. file_names H acts csiPodPath)) (\<lambda>r. case r of
                     Inl err \<Rightarrow> ret (False, fixed)
                   | Inr volumes \<Rightarrow>
                       (let fixed = (if volumes = [] then AList.update orphanUID () fixed else fixed)
                        in State_Monad.bind (fix_volumes H csiPodPath volumes) (\<lambda>_. ret (True, fixed))))))"

section \<open>The log\<close>

definition orphan_line :: "string \<Rightarrow> bool" where
  "orphan_line line \<longleftrightarrow> go_Contains line ''rphaned pod'' \<and>
     (go_Contains line ''found, but volume paths are still present on disk'' \<or>
      go_Contains line ''found, but volumes are not cleaned up'' \<or>
      go_Contains line ''terminated, but some volumes have not been cleaned up'')"

fun message_loop :: "om_config \<Rightarrow> om_host \<Rightarrow> string list \<Rightarrow> unit gomap \<Rightarrow> unit gomap io" where
  "message_loop C H [] fixed = ret fixed"
| "message_loop C H (line # lines) fixed =
     (if om_IssueBlockReference C \<and> go_Contains line ''is still referenced from other Pods''
      then State_Monad.bind (FixReferenceMountIssue H line) (\<lambda>_. message_loop C H lines fixed)
      else if om_IssueOrphanedPod C \<and> orphan_line line
      then State_Monad.bind (FixOrphanedPodIssue H line fixed) (\<lambda>(_, fixed). message_loop C H lines fixed)
      else message_loop C H lines fixed)"

definition ReadFileLinesFromHost :: "om_config \<Rightarrow> om_host \<Rightarrow> string \<Rightarrow> string list io" where
  "ReadFileLinesFromHost C H fname =
     State_Monad.bind (Run (om_base H)
         (''tail -n '' @ sdec (om_MessageFileTailLines C) @ '' '' @ fname))
       (\<lambda>r. ret (case r of Inl err \<Rightarrow> [] | Inr out \<Rightarrow> go_Split (CHR 0x0A) out))"

definition CheckMessageFileIssue :: "om_config \<Rightarrow> om_host \<Rightarrow> unit gomap \<Rightarrow> unit gomap io" where
  "CheckMessageFileIssue C H fixed =
     State_Monad.bind (ReadFileLinesFromHost C H ''/var/log/messages'') (\<lambda>lines. message_loop C H lines fixed)"

text \<open>One round of \<open>StorageOM\<close>.\<close>

definition StorageOM_round :: "om_config \<Rightarrow> om_host \<Rightarrow> unit gomap \<Rightarrow> unit gomap io" where
  "StorageOM_round C H fixed = (if om_IssueBlockReference C then CheckMessageFileIssue C H fixed else ret fixed)"

end
