(* ===== verification/Om_Facts.thy ===== *)
theory Om_Facts
  imports Om Node_Frame
begin

text \<open>
  What the repairs may remove: links of block volumes that \<open>grep\<close> does not find
  among the mounts, and the paths of the pod whose identifier
  the log gave. That identifier is not checked to be a plain name, so a line of the log can lead elsewhere.
\<close>

lemma run_act_om: "run_state (act a f) l = (f l, l @ [a])"
  by (simp add: act_def)

lemma keeps_act: "P a \<Longrightarrow> keeps (appends P) (act a f)"
  by (auto simp: keeps_def run_act_om appends_def)

lemma keeps_act_read:
  assumes "P a" and "\<And>l. keeps (appends P) (k (f l))"
  shows "keeps (appends P) (State_Monad.bind (act a f) k)"
  unfolding keeps_def
proof
  fix l
  have "appends P (l @ [a]) (snd (run_state (k (f l)) (l @ [a])))" using assms(2) by (simp add: keeps_def)
  then show "appends P l (snd (run_state (State_Monad.bind (act a f) k) l))"
    using assms(1) by (auto simp: run_hbind run_act_om appends_def)
qed

section \<open>References\<close>

text \<open>The files a line of the log names: between brackets, separated by blanks, after the words.\<close>

definition named_in :: "string \<Rightarrow> string \<Rightarrow> bool" where
  "named_in line file \<longleftrightarrow> set file \<inter> {CHR '' '', CHR '']''} = {} \<and>
     (\<exists>a b c d e. line = a @ ''is still referenced from other Pods'' @ b @ ''['' @ c @ file @ d @ '']'' @ e)"

lemma go_Split_not_empty: "go_Split c s \<noteq> []"
  by (cases s) (auto split: list.splits)

lemma go_Split_part: "w \<in> set (go_Split c s) \<Longrightarrow> c \<notin> set w \<and> (\<exists>a b. s = a @ w @ b)"
proof (induction s arbitrary: w)
  case (Cons x s)
  show ?case
  proof (cases "x = c")
    case True
    with Cons show ?thesis by (auto intro: exI [of _ "[]"]) (metis append_Cons)
  next
    case False
    obtain v vs where split: "go_Split c s = v # vs" using go_Split_not_empty by (metis list.exhaust)
    have head: "\<exists>r. s = v @ r" using split
    proof (induction s arbitrary: v vs)
      case (Cons y s)
      then show ?case by (cases "go_Split c s") (auto split: if_splits)
    qed simp
    from Cons.prems False split consider "w = x # v" | "w \<in> set vs" by auto
    then show ?thesis
    proof cases
      case 1
      with head Cons.IH [of v] split False show ?thesis by (auto intro: exI [of _ "[]"])
    next
      case 2
      with Cons.IH [of w] split show ?thesis by (metis append_Cons set_ConsD list.set_intros(2))
    qed
  qed
qed simp

lemma go_Split_pair: "go_Split c s = [x, y] \<Longrightarrow> s = x @ [c] @ y"
proof (induction s arbitrary: x)
  case (Cons z s)
  have one: "go_Split c s = [v] \<Longrightarrow> v = s" for v
    by (induction s arbitrary: v) (auto simp: go_Split_not_empty split: if_splits list.splits)
  from Cons one show ?case by (auto simp: go_Split_not_empty split: if_splits list.splits)
qed simp

lemma split_string_first: "split_string sep w s = x # r \<Longrightarrow> \<exists>b. w @ s = x @ b"
proof (induction sep w s arbitrary: x r rule: split_string.induct)
  case (2 sep w c s)
  then show ?case by (cases "after_prefix sep (c # s)") (auto split: if_splits)
qed simp

lemma split_string_second: "split_string sep w s = x # y # r \<Longrightarrow> \<exists>b. w @ s = x @ sep @ y @ b"
proof (induction sep w s arbitrary: x r rule: split_string.induct)
  case (2 sep w c s)
  show ?case
  proof (cases "after_prefix sep (c # s)")
    case (Some t)
    with 2 split_string_first [of sep "[]" t y r] show ?thesis by (auto simp: after_prefix_Some split: if_splits)
  qed (use 2 in auto)
qed simp

lemma parsed_files_named:
  assumes "file \<in> set (parseReferenceMount line)"
  shows "named_in line file"
proof -
  obtain x s r where s: "go_SplitString line ''is still referenced from other Pods'' = x # s # r"
    using assms unfolding parseReferenceMount_def
    by (cases "go_SplitString line ''is still referenced from other Pods''" rule: remdups_adj.cases) auto
  with assms obtain y l where l: "go_Split (CHR ''['') s = [y, l]"
    unfolding parseReferenceMount_def by (auto split: if_splits list.split_asm dest: sym)
  from assms s l have "file \<in> set (case go_Split (CHR '']'') l of [fileStr, _] \<Rightarrow> go_Split (CHR '' '') fileStr | _ \<Rightarrow> [])"
    by (auto simp: parseReferenceMount_def split: if_splits)
  then obtain names e where names: "go_Split (CHR '']'') l = [names, e]"
    and linkf: "file \<in> set (go_Split (CHR '' '') names)"
    by (auto split: list.split_asm dest: sym)
  from split_string_second [OF s [unfolded go_SplitString_def]] obtain b
    where line: "line = x @ ''is still referenced from other Pods'' @ s @ b" by auto
  from go_Split_part [OF linkf] obtain c d where blank: "CHR '' '' \<notin> set file" and f: "names = c @ file @ d" by blast
  have "CHR '']'' \<notin> set names" using go_Split_part [of names "CHR '']''" l] names by simp
  with f blank have chars: "set file \<inter> {CHR '' '', CHR '']''} = {}" by simp
  have "line = x @ ''is still referenced from other Pods'' @ y @ ''['' @ c @ file @ d @ '']'' @ (e @ b)"
    unfolding line go_Split_pair [OF l] go_Split_pair [OF names] f by simp
  with chars show ?thesis unfolding named_in_def by blast
qed

text \<open>Where the kubelet keeps its links to block volumes, and what \<open>grep\<close> says of a file's name: that a mount uses it
  means that the command succeeds and prints something.\<close>

definition block_link :: "string \<Rightarrow> bool" where
  "block_link file \<longleftrightarrow> (\<exists>rest. file = ''/var/lib/kubelet/plugins/kubernetes.io/csi/volumeDevices/'' @ rest) \<and>
     (\<exists>a b. file = a @ ''/dev/'' @ b)"

definition in_use :: "om_host \<Rightarrow> action list \<Rightarrow> string \<Rightarrow> bool" where
  "in_use H acts file \<longleftrightarrow> (\<exists>out. grep_mounts H acts (filepath_Base file) = (out, None) \<and> TrimSpace out \<noteq> [])"

definition repair_of :: "om_host \<Rightarrow> action list \<Rightarrow> string \<Rightarrow> action list" where
  "repair_of H acts file =
     (if (stat_path H acts file \<noteq> None \<and> is_missing H acts file) \<or> \<not> block_link file then [Stat file]
      else if in_use H (acts @ [Stat file]) file then [Stat file, Exec ''grep'' [filepath_Base file, ''/proc/mounts'']]
      else [Stat file, Exec ''grep'' [filepath_Base file, ''/proc/mounts''], Remove file])"

lemma go_Contains_iff: "go_Contains s sub \<longleftrightarrow> (\<exists>a b. s = a @ sub @ b)"
proof (induction s)
  case (Cons c s)
  have "(\<exists>a b. c # s = a @ sub @ b) \<longleftrightarrow> (\<exists>b. c # s = sub @ b) \<or> (\<exists>a b. s = a @ sub @ b)"
    by (metis append_Cons append_Nil append_eq_Cons_conv)
  with Cons show ?case by (auto simp: after_prefix_Some)
qed auto

lemma isFileBlockLink_block_link: "isFileBlockLink file \<longleftrightarrow> block_link file"
  unfolding isFileBlockLink_def block_link_def HasPrefix_def go_Contains_iff by (auto simp: after_prefix_Some)

lemma run_reference_loop:
  "\<exists>bs. run_state (reference_loop H files) acts = ((), acts @ concat bs) \<and> length bs = length files \<and>
     (\<forall>i < length files. bs ! i = repair_of H (acts @ concat (take i bs)) (files ! i))"
proof (induction files arbitrary: acts)
  case (Cons f files)
  let ?b = "repair_of H acts f"
  have step: "run_state (reference_loop H (f # files)) acts = run_state (reference_loop H files) (acts @ ?b)"
    by (auto simp: repair_of_def in_use_def IsFileExisting_def isFileRemovable_def om_Remove_def run_hbind run_act_om
        isFileBlockLink_block_link split: option.splits prod.splits)
  from Cons.IH [of "acts @ ?b"] obtain bs
    where run: "run_state (reference_loop H files) (acts @ ?b) = ((), (acts @ ?b) @ concat bs)"
      and len: "length bs = length files"
      and bs: "\<forall>i < length files. bs ! i = repair_of H ((acts @ ?b) @ concat (take i bs)) (files ! i)" by blast
  have "(?b # bs) ! i = repair_of H (acts @ concat (take i (?b # bs))) ((f # files) ! i)" if "i < length (f # files)" for i
    using that bs by (cases i) simp_all
  with step run len show ?case by (intro exI [of _ "?b # bs"]) (simp del: reference_loop.simps)
qed (simp add: run_return)

text \<open>C36: what the repair of volumes that are still referenced does, file by file, for the files the line of the log
  names between its brackets: each is looked for; only one that is there and is a link below the kubelet's directory of
  block volumes (by its text: parts \<open>..\<close> are not resolved) is looked up with \<open>grep\<close> among the mounts; and it is removed
  exactly when that \<open>grep\<close>, the command right before the removal, does not succeed in finding its name (so also when it
  fails otherwise). Nothing else is done.\<close>

theorem references_guarded:
  "\<exists>files blocks. run_state (FixReferenceMountIssue H line) acts = (files \<noteq> [], acts @ concat blocks) \<and>
     files = parseReferenceMount line \<and> (\<forall>file \<in> set files. named_in line file) \<and> length blocks = length files \<and>
     (\<forall>i < length files. blocks ! i = repair_of H (acts @ concat (take i blocks)) (files ! i))"
proof (cases "parseReferenceMount line")
  case Nil
  then show ?thesis by (intro exI [of _ "[]"]) (simp add: FixReferenceMountIssue_def run_return)
next
  case (Cons f fs)
  from run_reference_loop [of H "f # fs" acts] obtain bs
    where "run_state (reference_loop H (f # fs)) acts = ((), acts @ concat bs)" "length bs = length (f # fs)"
      "\<forall>i < length (f # fs). bs ! i = repair_of H (acts @ concat (take i bs)) ((f # fs) ! i)" by blast
  with Cons parsed_files_named [of _ line] show ?thesis
    by (intro exI [of _ "f # fs"] exI [of _ bs]) (auto simp: FixReferenceMountIssue_def run_hbind run_return simp del: reference_loop.simps)
qed

text \<open>A machine on which every file is there and \<open>grep\<close> fails. Parts \<open>..\<close> lead out of the directory of links, to any
  file below a directory \<open>dev\<close>.\<close>

definition ex_grep_fails :: "om_host \<Rightarrow> om_host" where
  "ex_grep_fails H = H\<lparr>stat_path := \<lambda>_ _. None, grep_mounts := \<lambda>_ _. ([], Some ''exit status 2'')\<rparr>"

abbreviation ex_link :: string where
  "ex_link \<equiv> ''/var/lib/kubelet/plugins/kubernetes.io/csi/volumeDevices/../../../../../../../dev/sda''"

lemma references_guarded_witness:
  "filepath_Clean ex_link = ''/dev/sda'' \<and>
   (\<forall>H. run_state (FixReferenceMountIssue (ex_grep_fails H)
       (''The device is still referenced from other Pods ['' @ ex_link @ '']'')) [] =
     (True, [Stat ex_link, Exec ''grep'' [''sda'', ''/proc/mounts''], Remove ex_link]))"
proof (intro conjI allI)
  show "filepath_Clean ex_link = ''/dev/sda''" by code_simp
next
  fix H :: om_host
  let ?line = "''The device is still referenced from other Pods ['' @ ex_link @ '']''"
  have files: "parseReferenceMount ?line = [ex_link]" and link: "isFileBlockLink ex_link"
    and base: "filepath_Base ex_link = ''sda''" by code_simp+
  from references_guarded [of "ex_grep_fails H" ?line "[]"] files obtain b
    where run: "run_state (FixReferenceMountIssue (ex_grep_fails H) ?line) [] = (True, b)"
      and b: "b = repair_of (ex_grep_fails H) [] ex_link"
    by (auto simp: length_Suc_conv simp del: append.append_Cons append.append_Nil)
  from link base have "repair_of (ex_grep_fails H) [] ex_link =
      [Stat ex_link, Exec ''grep'' [''sda'', ''/proc/mounts''], Remove ex_link]"
    by (simp add: repair_of_def isFileBlockLink_block_link in_use_def ex_grep_fails_def)
  with run b show "run_state (FixReferenceMountIssue (ex_grep_fails H) ?line) [] =
      (True, [Stat ex_link, Exec ''grep'' [''sda'', ''/proc/mounts''], Remove ex_link])" by metis
qed

section \<open>Orphaned pods\<close>

definition under_pod :: "string \<Rightarrow> action \<Rightarrow> bool" where
  "under_pod uid a \<longleftrightarrow>
     (case a of
        CleanupMountPoint p \<Rightarrow> \<exists>v. p = filepath_Join [filepath_Join [csi_pod_path uid, v], ''mount'']
      | Remove p \<Rightarrow> \<exists>v. p = filepath_Join [csi_pod_path uid, v] \<or>
          p = filepath_Join [filepath_Join [csi_pod_path uid, v], ''vol_data.json'']
      | Stat _ \<Rightarrow> True | ReadDir _ \<Rightarrow> True | _ \<Rightarrow> False)"

lemma keeps_fix_volume: "keeps (appends (under_pod uid)) (fix_volume H (filepath_Join [csi_pod_path uid, v]))"
proof -
  have a: "under_pod uid (CleanupMountPoint (filepath_Join [filepath_Join [csi_pod_path uid, v], ''mount'']))"
    "under_pod uid (Remove (filepath_Join [csi_pod_path uid, v]))"
    "under_pod uid (Remove (filepath_Join [filepath_Join [csi_pod_path uid, v], ''vol_data.json'']))"
    "under_pod uid (Stat p)" "under_pod uid (ReadDir p)" for p
    by (auto simp: under_pod_def)
  show ?thesis unfolding fix_volume_def Let_def IsFileExisting_def om_Remove_def IsDirEmpty_def
    by (auto intro!: keeps_act app.keeps_bind app.keeps_return a)
qed

theorem orphan_repair_stays:
  assumes "orphan_uid line = Some uid"
  shows "keeps (appends (under_pod uid)) (FixOrphanedPodIssue H line fixed)"
proof -
  have "keeps (appends (under_pod uid)) (fix_volumes H (csi_pod_path uid) volumes)" for volumes
    by (induction volumes) (auto intro!: app.keeps_bind app.keeps_return keeps_fix_volume)
  then show ?thesis
    using assms unfolding FixOrphanedPodIssue_def Let_def
    by (auto simp: under_pod_def split: sum.split intro!: app.keeps_bind app.keeps_return keeps_act)
qed

text \<open>A plain identifier stays below the directory of the pods; another one need not.\<close>

theorem plain_pod_path:
  assumes "plain_name uid"
  shows "csi_pod_path uid = ''/var/lib/kubelet/pods/'' @ uid @ ''/volumes/kubernetes.io~csi''"
proof -
  let ?ps = "[''var'', ''lib'', ''kubelet'', ''pods'', uid, ''volumes'', ''kubernetes.io~csi'']"
  have "list_all plain_name ?ps" using assms by (simp add: plain_name_def)
  moreover have "uid \<noteq> []" using assms by (simp add: plain_name_def)
  ultimately show ?thesis using clean_plain_path [of ?ps] by (simp add: csi_pod_path_def filepath_Join_def)
qed

theorem orphan_path_escapes:
  "orphan_uid (''orphaned pod '' @ [CHR 0x22] @ ''../../../../etc/a-b-c-d-e'' @ [CHR 0x22] @ '' found'') =
     Some ''../../../../etc/a-b-c-d-e'' \<and>
   csi_pod_path ''../../../../etc/a-b-c-d-e'' = ''/etc/a-b-c-d-e/volumes/kubernetes.io~csi''"
  by code_simp

text \<open>Orphaned pods are only looked for when the repair of references is switched on too.\<close>

theorem orphans_need_references:
  "\<not> om_IssueBlockReference C \<Longrightarrow> run_state (StorageOM_round C H fixed) acts = (fixed, acts)"
  by (simp add: StorageOM_round_def run_return)

end
