(* ===== verification/Ext_Reasons.thy ===== *)
theory Ext_Reasons
  imports Ext_Cluster Ext_Predicates Node_State
begin

text \<open>
  What the scheduler extender tells others: the texts of its reasons of refusal (\<open>pkg/scheduler/errors/predicate.go\<close>)
  and the gauges it shows for monitoring (\<open>pkg/metrics/metrics.go\<close>). How Kubernetes prints a quantity is a parameter.
\<close>

section \<open>Reasons\<close>

definition lvm_reason :: "(int64 \<Rightarrow> string) \<Rightarrow> int64 \<Rightarrow> int64 \<Rightarrow> int64 \<Rightarrow> string \<Rightarrow> string \<Rightarrow> string" where
  "lvm_reason quantity req used capacity vgName nodeName =
     ''Insufficient LVM storage on node '' @ nodeName @ '', vg is '' @ vgName @ '', pvc requested '' @ quantity req @
     '', vg used '' @ quantity used @ '', vg capacity '' @ quantity capacity"

text \<open>The name of the node is left empty by the constructor.\<close>

definition exclusive_reason :: "(int64 \<Rightarrow> string) \<Rightarrow> string \<Rightarrow> int64 \<Rightarrow> int64 \<Rightarrow> string" where
  "exclusive_reason quantity resource req mx =
     ''Insufficient '' @ resource @ '' storage, pvc requested size is '' @ quantity req @
     '', max size of local devices on node  is '' @ quantity mx"

text \<open>\<open>GetReason\<close> of the predicate errors; there is none for other errors.\<close>

fun GetReason :: "(int64 \<Rightarrow> string) \<Rightarrow> go_error \<Rightarrow> string option" where
  "GetReason quantity (NoSuchVGError vgName nodeName) =
     Some (''no vg(LVM) named '' @ vgName @ '' in node '' @ nodeName)"
| "GetReason quantity (NoAvailableVGError nodeName) =
     Some (''no LVM storage configured on node '' @ nodeName @ ''. you can run commands '' @ [CHR 0x22] @
       ''kubectl get nls --template={{.spec}} -o template '' @ nodeName @ [CHR 0x22] @ '' and '' @ [CHR 0x22] @ ''vgscan'' @
       [CHR 0x22] @ '' and '' @ [CHR 0x22] @ ''lsblk'' @ [CHR 0x22] @ '' on this node to get more details'')"
| "GetReason quantity (InsufficientLVMError req used capacity vgName nodeName) =
     Some (lvm_reason quantity req used capacity vgName nodeName)"
| "GetReason quantity (InsufficientDeviceCountError requestedCount availableCount tot mediaType nodeName) =
     Some (''Insufficient Device('' @ mediaType @ '') storage on node '' @ nodeName @ '', pod requested pvc count is '' @
       sdec requestedCount @ '', node available device count is '' @ sdec availableCount @ '', node device total is '' @ sdec tot)"
| "GetReason quantity (InsufficientMountPointCountError requestedCount availableCount tot mediaType nodeName) =
     Some (''Insufficient MountPoint('' @ mediaType @ '') storage on node '' @ nodeName @ '', pod requested pvc count is '' @
       sdec requestedCount @ '', node available mp count is '' @ sdec availableCount @ '', node total mp is '' @ sdec tot)"
| "GetReason quantity (InsufficientExclusiveResourceError resource req mx) =
     Some (exclusive_reason quantity resource req mx)"
| "GetReason quantity (SnapshotError resource) =
     Some (''no lvm volume found when creating '' @ resource @ '' readonly snapshot'')"
| "GetReason quantity _ = None"

text \<open>\<open>Error\<close> says the same, except that it gives no advice.\<close>

fun predicate_error_text :: "(int64 \<Rightarrow> string) \<Rightarrow> go_error \<Rightarrow> string option" where
  "predicate_error_text quantity (NoAvailableVGError nodeName) = Some (''no LVM storage configured on node '' @ nodeName)"
| "predicate_error_text quantity err = GetReason quantity err"

text \<open>A refusal has a reason exactly when it is a predicate error.\<close>

lemma reason_of_predicate_errors: "GetReason quantity err \<noteq> None \<longleftrightarrow> is_PredicateError err"
  by (cases err) simp_all

section \<open>Gauges\<close>

datatype gauge =
    VolumeGroupTotal | VolumeGroupUsedByLocal | MountPointTotal | MountPointAvailable | MountPointBind
  | DeviceTotal | DeviceAvailable | DeviceBind | AllocatedNum | LocalPV | InlineVolumeGauge

type_synonym gauges = "((gauge \<times> string list) \<times> float64) list"

definition set_gauge :: "gauge \<Rightarrow> string list \<Rightarrow> float64 \<Rightarrow> gauges \<Rightarrow> gauges" where
  "set_gauge g labels v gs = AList.update (g, labels) v gs"

definition vg_gauges :: "string \<Rightarrow> string \<times> SharedResource \<Rightarrow> gauges \<Rightarrow> gauges" where
  "vg_gauges nodeName = (\<lambda>(vgname, info) gs.
     set_gauge VolumeGroupUsedByLocal [nodeName, vgname] (of_int64 (sr_Requested info))
       (set_gauge VolumeGroupTotal [nodeName, vgname] (of_int64 (sr_Capacity info)) gs))"

definition exclusive_gauges ::
  "gauge \<Rightarrow> gauge \<Rightarrow> gauge \<Rightarrow> string \<Rightarrow> string \<times> ExclusiveResource \<Rightarrow> gauges \<Rightarrow> gauges" where
  "exclusive_gauges gtotal available bound nodeName = (\<lambda>(name, info) gs.
     set_gauge bound [nodeName, name] (Fin (if er_IsAllocated info then 1 else 0))
       (set_gauge available [nodeName, name, er_MediaType info] (of_int64 (er_Capacity info))
         (set_gauge gtotal [nodeName, name, er_MediaType info] (of_int64 (er_Capacity info)) gs)))"

text \<open>The type and the place of a volume, which stay those of the volume before when its type is another one.\<close>

definition pv_place :: "string gomap \<Rightarrow> string \<times> string \<Rightarrow> string \<times> string" where
  "pv_place attributes before =
     (let t = str_at attributes VolumeTypeKey
      in if t = VolumeTypeLVM then (t, str_at attributes key_VGName)
         else if t = VolumeTypeMountPoint then (t, str_at attributes ''MountPoint'')
         else if t = VolumeTypeDevice then (t, str_at attributes key_DeviceName) else before)"

text \<open>\<open>None\<close> when a volume has no CSI source.\<close>

fun pv_gauges :: "string \<Rightarrow> (string \<times> PersistentVolume) list \<Rightarrow> string \<times> string \<Rightarrow> gauges \<Rightarrow> gauges option" where
  "pv_gauges nodeName [] before gs = Some gs"
| "pv_gauges nodeName ((pvname, pv) # pvs) before gs =
     (case pv_CSI pv of
        None \<Rightarrow> None
      | Some csi \<Rightarrow>
          (let attributes = csi_VolumeAttributes csi; (pvType, storageName) = pv_place attributes before
           in pv_gauges nodeName pvs (pvType, storageName)
                (set_gauge LocalPV
                   [nodeName, pvname, pvType, str_at attributes ''csi.storage.k8s.io/pvc/name'',
                    str_at attributes ''csi.storage.k8s.io/pvc/namespace'', pv_Phase pv, storageName]
                   (of_int64 (GetPVStorageSize pv)) gs)))"

definition inline_gauge :: "string \<Rightarrow> InlineVolumeInfo \<Rightarrow> gauges \<Rightarrow> gauges" where
  "inline_gauge nodeName volume =
     set_gauge InlineVolumeGauge [ivi_PodName volume, ivi_PodNamespace volume, nodeName, ivi_VgName volume, ivi_VolumeName volume]
       (of_int64 (ivi_VolumeSize volume))"

definition node_gauges :: "node_ranges \<Rightarrow> string \<times> NodeCache \<Rightarrow> gauges \<Rightarrow> gauges option" where
  "node_gauges ords = (\<lambda>(nodeName, nc) gs.
     (let gs = fold (vg_gauges nodeName) (reorder (over_VGs ords) (nc_VGs nc)) gs;
          gs = fold (exclusive_gauges MountPointTotal MountPointAvailable MountPointBind nodeName)
                 (reorder (over_MountPoints ords) (nc_MountPoints nc)) gs;
          gs = fold (exclusive_gauges DeviceTotal DeviceAvailable DeviceBind nodeName)
                 (reorder (over_Devices ords) (nc_Devices nc)) gs
      in map_option (\<lambda>gs. set_gauge AllocatedNum [nodeName] (of_int64 (nc_AllocatedNum nc))
             (fold (\<lambda>(_, volumes) gs. fold (inline_gauge nodeName) volumes gs)
                (reorder (over_Pods ords) (nc_PodInlineVolumeInfo nc)) gs))
           (pv_gauges nodeName (reorder (over_LocalPVs ords) (nc_LocalPVs nc)) ([], []) gs)))"

fun nodes_gauges :: "node_ranges \<Rightarrow> (string \<times> NodeCache) list \<Rightarrow> gauges \<Rightarrow> gauges option" where
  "nodes_gauges ords [] gs = Some gs"
| "nodes_gauges ords (n # ns) gs = Option.bind (node_gauges ords n gs) (nodes_gauges ords ns)"

text \<open>All gauges are reset first.\<close>

definition UpdateMetrics :: "range_order \<Rightarrow> node_ranges \<Rightarrow> ClusterNodeCache \<Rightarrow> gauges option" where
  "UpdateMetrics ord ords c = nodes_gauges ords (reorder ord (Nodes c)) []"

section \<open>What is shown\<close>

text \<open>What each volume group is charged with is shown as it is in the cache.\<close>

lemma set_gauge_same: "map_of (set_gauge g l v gs) (g, l) = Some v"
  by (simp add: set_gauge_def update_conv)

lemma set_gauge_other: "(g, l) \<noteq> (g', l') \<Longrightarrow> map_of (set_gauge g l v gs) (g', l') = map_of gs (g', l')"
  by (auto simp: set_gauge_def update_conv)

abbreviation used_gauge :: "gauges \<Rightarrow> string \<Rightarrow> string \<Rightarrow> float64 option" where
  "used_gauge gs n v \<equiv> map_of gs (VolumeGroupUsedByLocal, [n, v])"

lemma vg_gauges_used:
  "wf_map m \<Longrightarrow> used_gauge (fold (vg_gauges n) m gs) n' v =
     (if n' = n \<and> map_of m v \<noteq> None then Some (of_int64 (sr_Requested (the (map_of m v)))) else used_gauge gs n' v)"
proof (induction m arbitrary: gs)
  case (Cons x m)
  obtain k i where x: "x = (k, i)" by fastforce
  have step: "used_gauge (vg_gauges n (k, i) gs) n' v = (if n' = n \<and> v = k then Some (of_int64 (sr_Requested i)) else used_gauge gs n' v)"
    by (auto simp: vg_gauges_def set_gauge_same set_gauge_other)
  have "map_of m k = None" "wf_map m" using Cons.prems x by (auto simp: map_of_eq_None_iff)
  then show ?case using Cons.IH [of "vg_gauges n (k, i) gs"] step by (auto simp: x)
qed simp

lemma exclusive_gauges_used:
  "{g1, g2, g3} \<inter> {VolumeGroupUsedByLocal} = {} \<Longrightarrow>
   used_gauge (fold (exclusive_gauges g1 g2 g3 n) m gs) n' v = used_gauge gs n' v"
  by (induction m arbitrary: gs) (auto simp: exclusive_gauges_def set_gauge_other)

lemma pv_gauges_used: "pv_gauges n pvs before gs = Some gs' \<Longrightarrow> used_gauge gs' n' v = used_gauge gs n' v"
  by (induction n pvs before gs rule: pv_gauges.induct)
    (auto simp: Let_def set_gauge_other split: option.splits prod.splits)

lemma inline_gauges_used:
  "used_gauge (fold (\<lambda>(_, volumes) gs. fold (inline_gauge n) volumes gs) m gs) n' v = used_gauge gs n' v"
proof (induction m arbitrary: gs)
  case (Cons x m)
  have "used_gauge (fold (inline_gauge n) volumes gs) n' v = used_gauge gs n' v" for volumes gs
    by (induction volumes arbitrary: gs) (simp_all add: inline_gauge_def set_gauge_other)
  then show ?case using Cons by (cases x) simp
qed simp

lemma node_gauges_used:
  assumes "node_gauges ords (n, nc) gs = Some gs'" and "range_ok (over_VGs ords)" and "wf_map (nc_VGs nc)"
  shows "used_gauge gs' n' v =
    (if n' = n \<and> map_of (nc_VGs nc) v \<noteq> None then Some (of_int64 (sr_Requested (the (map_of (nc_VGs nc) v)))) else used_gauge gs n' v)"
proof -
  have "wf_map (reorder (over_VGs ords) (nc_VGs nc))" by (rule wf_map_reorder [OF assms(2,3)])
  note used = vg_gauges_used [OF this, of n gs n' v, unfolded map_of_reorder [OF assms(2)]]
  from assms(1) have "used_gauge gs' n' v = used_gauge (fold (vg_gauges n) (reorder (over_VGs ords) (nc_VGs nc)) gs) n' v"
    by (auto simp: node_gauges_def Let_def set_gauge_other inline_gauges_used exclusive_gauges_used
        dest!: pv_gauges_used [of _ _ _ _ _ n' v])
  then show ?thesis by (simp only: used)
qed

theorem used_space_is_shown:
  assumes "UpdateMetrics ord ords c = Some gs" and "range_ok ord" and "range_ok (over_VGs ords)" and "wf_map (Nodes c)"
    and "\<And>n nc. map_of (Nodes c) n = Some nc \<Longrightarrow> wf_map (nc_VGs nc)"
    and "map_of (Nodes c) n = Some nc" and "map_of (nc_VGs nc) v = Some vg"
  shows "used_gauge gs n v = Some (of_int64 (sr_Requested vg))"
proof -
  have "used_gauge gs' n v = (if map_of ns n \<noteq> None then Some (of_int64 (sr_Requested vg)) else used_gauge gs n v)"
    if "nodes_gauges ords ns gs = Some gs'" "wf_map ns" "\<And>k x. map_of ns k = Some x \<Longrightarrow> map_of (Nodes c) k = Some x" for ns gs gs'
    using that
  proof (induction ns arbitrary: gs)
    case (Cons x ns)
    obtain k i where x: "x = (k, i)" by fastforce
    from Cons.prems(1) obtain g1 where g1: "node_gauges ords (k, i) gs = Some g1" "nodes_gauges ords ns g1 = Some gs'"
      by (auto simp: x split: bind_splits)
    have k: "map_of (Nodes c) k = Some i" using Cons.prems(3) by (simp add: x)
    have "map_of (Nodes c) l = Some y" if "map_of ns l = Some y" for l y
    proof (rule Cons.prems(3))
      have "l \<noteq> k" using Cons.prems(2) that by (auto simp: x dest: map_of_SomeD intro: rev_image_eqI)
      then show "map_of (x # ns) l = Some y" using that by (simp add: x)
    qed
    then have IH: "used_gauge gs' n v = (if map_of ns n \<noteq> None then Some (of_int64 (sr_Requested vg)) else used_gauge g1 n v)"
      using Cons.prems(2) by (intro Cons.IH [OF g1(2)]) (auto simp: x)
    have "used_gauge g1 n v = (if n = k then Some (of_int64 (sr_Requested vg)) else used_gauge gs n v)"
      using node_gauges_used [OF g1(1) assms(3) assms(5) [OF k], of n v] k assms(6,7) by auto
    then show ?case using IH by (auto simp: x)
  qed simp
  from this [of "reorder ord (Nodes c)" "[]" gs] show ?thesis
    using assms(1,6) wf_map_reorder [OF assms(2,4)] by (auto simp: UpdateMetrics_def map_of_reorder [OF assms(2)])
qed

text \<open>A volume of another type is shown with the type and place of the one before it in the order of the map.\<close>

theorem other_type_shown_as_last:
  assumes "pv_CSI pv = Some csi" and "str_at (csi_VolumeAttributes csi) VolumeTypeKey = VolumeTypeQuota"
  shows "pv_gauges n [(pvname, pv)] (t, place) gs =
    Some (set_gauge LocalPV
      [n, pvname, t, str_at (csi_VolumeAttributes csi) ''csi.storage.k8s.io/pvc/name'',
       str_at (csi_VolumeAttributes csi) ''csi.storage.k8s.io/pvc/namespace'', pv_Phase pv, place]
      (of_int64 (GetPVStorageSize pv)) gs)"
  using assms by (simp add: pv_place_def Let_def)

end
