(* ===== verification/Device_Info.thy ===== *)
theory Device_Info
  imports Path_Utils Agent_Discovery
begin

text \<open>
  What \<open>/sys\<close> says about a disk and its partitions, \<open>pkg/utils/device/device.go\<close>: the functions behind the fields
  \<open>na_block\<close> and \<open>na_partitions\<close> of the machine the agent looks at. The files and directories are parameters.
\<close>

record sys_files =
  sf_ReadFile :: "string \<Rightarrow> string result"
  sf_ReadDir :: "string \<Rightarrow> string list result"

definition getFileContext :: "sys_files \<Rightarrow> string \<Rightarrow> string result" where
  "getFileContext F filePath =
     (case sf_ReadFile F filePath of
        Inl err \<Rightarrow> Inl (''read file '' @ filePath @ '' error: '' @ err)
      | Inr b \<Rightarrow> Inr (rev (dropWhile (\<lambda>c. c = CHR 0x0A) (rev b))))"

text \<open>The media type and whether it is read-only, from the texts; the size, in sectors of 512 bytes.\<close>

definition media_of :: "string \<Rightarrow> string" where
  "media_of rotational = (if rotational = ''1'' then ''hdd'' else ''ssd'')"

definition block_device_of :: "string \<Rightarrow> string \<Rightarrow> string \<Rightarrow> int64 \<Rightarrow> block_device" where
  "block_device_of name rotational ro sectors =
     \<lparr>bd_Name = ''/dev/'' @ name, bd_MediaType = media_of rotational,
      bd_ReadOnly = (ro = ''1''), bd_Total = sectors * 512\<rparr>"

definition read_device :: "sys_files \<Rightarrow> string \<Rightarrow> string \<Rightarrow> string \<Rightarrow> block_device result" where
  "read_device F name mediaPath dir =
     (case getFileContext F mediaPath of
        Inl err \<Rightarrow> Inl err
      | Inr rotational \<Rightarrow>
     (case getFileContext F (filepath_Join [dir, ''ro'']) of
        Inl err \<Rightarrow> Inl err
      | Inr ro \<Rightarrow>
     (case getFileContext F (filepath_Join [dir, ''size'']) of
        Inl err \<Rightarrow> Inl err
      | Inr sectors \<Rightarrow>
     (case ParseInt64 sectors of
        Inl err \<Rightarrow> Inl err
      | Inr n \<Rightarrow> Inr (block_device_of name rotational ro n)))))"

definition GetBlockInfo :: "sys_files \<Rightarrow> string \<Rightarrow> string \<Rightarrow> block_device result" where
  "GetBlockInfo F sysPath blockName =
     (let blockPath = filepath_Join [sysPath, ''/block'', blockName]
      in read_device F blockName (filepath_Join [blockPath, ''queue/rotational'']) blockPath)"

fun partitions_loop :: "sys_files \<Rightarrow> string \<Rightarrow> string \<Rightarrow> string list \<Rightarrow> block_device list result" where
  "partitions_loop F blockPath blockName [] = Inr []"
| "partitions_loop F blockPath blockName (dir # dirs) =
     (if HasPrefix dir blockName
      then (case read_device F dir (filepath_Join [blockPath, ''queue/rotational'']) (filepath_Join [blockPath, dir]) of
              Inl err \<Rightarrow> Inl err
            | Inr d \<Rightarrow> (case partitions_loop F blockPath blockName dirs of Inl err \<Rightarrow> Inl err | Inr ds \<Rightarrow> Inr (d # ds)))
      else partitions_loop F blockPath blockName dirs)"

definition GetPartitionsInfo :: "sys_files \<Rightarrow> string \<Rightarrow> string \<Rightarrow> block_device list result" where
  "GetPartitionsInfo F sysPath blockName =
     (let blockPath = filepath_Join [sysPath, ''/block'', blockName]
      in case sf_ReadDir F blockPath of
           Inl err \<Rightarrow> Inl err | Inr dirs \<Rightarrow> partitions_loop F blockPath blockName dirs)"

text \<open>The partitions that are reported are the entries named after the disk, in their order, all with the media type
  of the disk.\<close>

lemma read_device_reads:
  assumes "read_device F name mediaPath dir = Inr d"
  shows "bd_Name d = ''/dev/'' @ name \<and>
    (\<exists>rotational. getFileContext F mediaPath = Inr rotational \<and> bd_MediaType d = media_of rotational)"
  using assms by (auto simp: read_device_def block_device_of_def split: sum.splits)

theorem partitions_named:
  assumes "GetPartitionsInfo F sysPath blockName = Inr devices"
  shows "\<exists>dirs. sf_ReadDir F (filepath_Join [sysPath, ''/block'', blockName]) = Inr dirs \<and>
    map bd_Name devices = map (\<lambda>dir. ''/dev/'' @ dir) (filter (\<lambda>dir. HasPrefix dir blockName) dirs) \<and>
    (\<forall>d \<in> set devices. \<forall>e \<in> set devices. bd_MediaType d = bd_MediaType e)"
proof -
  let ?p = "filepath_Join [sysPath, ''/block'', blockName]"
  let ?r = "getFileContext F (filepath_Join [?p, ''queue/rotational''])"
  obtain dirs where dirs: "sf_ReadDir F ?p = Inr dirs" "partitions_loop F ?p blockName dirs = Inr devices"
    using assms by (auto simp: GetPartitionsInfo_def Let_def split: sum.splits)
  have "map bd_Name devices = map (\<lambda>dir. ''/dev/'' @ dir) (filter (\<lambda>dir. HasPrefix dir blockName) dirs) \<and>
      (\<forall>d \<in> set devices. \<exists>rotational. ?r = Inr rotational \<and> bd_MediaType d = media_of rotational)"
    using dirs(2)
  proof (induction dirs arbitrary: devices)
    case (Cons dir dirs)
    show ?case
    proof (cases "HasPrefix dir blockName")
      case True
      with Cons.prems obtain d ds where "read_device F dir (filepath_Join [?p, ''queue/rotational'']) (filepath_Join [?p, dir]) = Inr d"
        "partitions_loop F ?p blockName dirs = Inr ds" "devices = d # ds"
        by (auto split: sum.splits)
      then show ?thesis using Cons.IH read_device_reads True by simp
    qed (use Cons in simp)
  qed simp
  moreover from this have "\<forall>d \<in> set devices. \<forall>e \<in> set devices. bd_MediaType d = bd_MediaType e" by (metis Inr_inject)
  ultimately show ?thesis using dirs(1) by blast
qed

end
