(* ===== verification/Ext_Routes.thy ===== *)
theory Ext_Routes
  imports Ext_System Csi_Controller
begin

text \<open>
  The extender over HTTP: \<open>pkg/scheduler/server/routes.go\<close>, \<open>api_routes.go\<close>, \<open>apis/cache.go\<close>, \<open>algorithm/bind\<close>,
  \<open>algorithm/preemptions\<close>, the helpers of \<open>pkg/utils/common.go\<close>, the request of its client \<open>pkg/csi/client/http.go\<close> and
  the rescheduling of pending pods of \<open>server/web.go\<close>. What the decoder makes of a request's body and the JSON text of
  an answer are parameters. A panic of a handler is \<open>None\<close>: the server then closes the connection without an answer.
\<close>

section \<open>Answers\<close>

type_synonym meta_victims = "(string \<times> string list \<times> int64) list" \<comment> \<open>node, UIDs, violations of budgets\<close>

datatype body =
    BText string
  | BFilter ExtenderFilterResult
  | BFilterError string \<comment> \<open>an \<open>ExtenderFilterResult\<close> with only \<open>Error\<close>\<close>
  | BPriorities "HostPriority list"
  | BBind string \<comment> \<open>the \<open>Error\<close> of an \<open>ExtenderBindingResult\<close>\<close>
  | BPreemption "meta_victims option"
  | BBinding "BindingResult option"
  | BNode NodeCache
  | BCluster ClusterNodeCache

text \<open>The \<open>ResponseWriter\<close>: only the first status counts, and headers set after it are not sent.\<close>

record response =
  rs_Code :: "nat option"
  rs_ContentType :: string
  rs_Body :: "body list"

definition fresh_response :: response where
  "fresh_response = \<lparr>rs_Code = None, rs_ContentType = [], rs_Body = []\<rparr>"

definition WriteHeader :: "nat \<Rightarrow> response \<Rightarrow> response" where
  "WriteHeader code w = (if rs_Code w = None then w\<lparr>rs_Code := Some code\<rparr> else w)"

definition SetContentType :: "string \<Rightarrow> response \<Rightarrow> response" where
  "SetContentType t w = (if rs_Code w = None then w\<lparr>rs_ContentType := t\<rparr> else w)"

definition Write :: "body \<Rightarrow> response \<Rightarrow> response" where
  "Write b w = (let w = WriteHeader 200 w in w\<lparr>rs_Body := rs_Body w @ [b]\<rparr>)"

text \<open>\<open>json_fails\<close> is the error of the encoder, \<open>write_fails\<close> whether the connection is gone.\<close>

record server_io =
  json_fails :: "body \<Rightarrow> string option"
  write_fails :: bool

definition HttpResponse :: "nat \<Rightarrow> body \<Rightarrow> response \<Rightarrow> response" where
  "HttpResponse code msg w = Write msg (WriteHeader code w)"

definition HttpJSON :: "server_io \<Rightarrow> nat \<Rightarrow> body \<Rightarrow> response \<Rightarrow> response" where
  "HttpJSON io code result w =
     (case json_fails io result of
        Some err \<Rightarrow> HttpResponse 500 (BText err) w
      | None \<Rightarrow> Write result (WriteHeader code (SetContentType ''application/json'' w)))"

definition http_Error :: "string \<Rightarrow> nat \<Rightarrow> response \<Rightarrow> response" where
  "http_Error err code w = Write (BText err) (WriteHeader code (SetContentType ''text/plain; charset=utf-8'' w))"

text \<open>The end of the routes of the scheduler.\<close>

definition answer_json :: "server_io \<Rightarrow> body \<Rightarrow> response \<Rightarrow> response option" where
  "answer_json io b w =
     (if json_fails io b \<noteq> None \<or> write_fails io then None
      else Some (Write b (WriteHeader 200 (SetContentType ''application/json'' w))))"

section \<open>The routes of the scheduler\<close>

text \<open>What the decoder yields for the body of a request, when there is one. A missing body is complained about, but the
  handler goes on and reads from it.\<close>

type_synonym 'a request_body = "'a result option"

definition checkBody :: "'a request_body \<Rightarrow> response \<Rightarrow> response" where
  "checkBody body w = (if body = None then http_Error ''Please send a request body'' 400 w else w)"

definition PredicateRoute ::
  "server_io \<Rightarrow> (ExtenderArgs \<Rightarrow> ExtenderFilterResult option) \<Rightarrow> ExtenderArgs request_body \<Rightarrow> response \<Rightarrow>
     response option" where
  "PredicateRoute io handler body w =
     (let w = checkBody body w
      in case body of
           None \<Rightarrow> None
         | Some (Inl err) \<Rightarrow> answer_json io (BFilterError err) w
         | Some (Inr args) \<Rightarrow>
             (case handler args of None \<Rightarrow> None | Some result \<Rightarrow> answer_json io (BFilter result) w))"

definition PrioritizeRoute ::
  "server_io \<Rightarrow> (ExtenderArgs \<Rightarrow> HostPriority list option) \<Rightarrow> ExtenderArgs request_body \<Rightarrow> response \<Rightarrow>
     response option" where
  "PrioritizeRoute io handler body w =
     (let w = checkBody body w
      in case body of
           None \<Rightarrow> None
         | Some (Inl err) \<Rightarrow> None
         | Some (Inr args) \<Rightarrow>
             (case handler args of None \<Rightarrow> None | Some list \<Rightarrow> answer_json io (BPriorities list) w))"

record ExtenderBindingArgs =
  bind_PodName :: string
  bind_PodNamespace :: string
  bind_PodUID :: string
  bind_Node :: string

text \<open>The result of the function is dropped.\<close>

definition bind_Handler :: "(string \<Rightarrow> string \<Rightarrow> string \<Rightarrow> string \<Rightarrow> string option) \<Rightarrow> ExtenderBindingArgs \<Rightarrow> string" where
  "bind_Handler func args =
     (let _ = func (bind_PodName args) (bind_PodNamespace args) (bind_PodUID args) (bind_Node args)
      in ''Bind not implemented'')"

definition BindRoute ::
  "server_io \<Rightarrow> (ExtenderBindingArgs \<Rightarrow> string) \<Rightarrow> ExtenderBindingArgs request_body \<Rightarrow> response \<Rightarrow> response option" where
  "BindRoute io handler body w =
     (let w = checkBody body w
      in case body of
           None \<Rightarrow> None
         | Some (Inl err) \<Rightarrow> answer_json io (BBind err) w
         | Some (Inr args) \<Rightarrow> answer_json io (BBind (handler args)) w)"

record ExtenderPreemptionArgs =
  pre_Pod :: "Pod option"
  pre_NodeNameToVictims :: "(string \<times> string list) list"
  pre_NodeNameToMetaVictims :: meta_victims

definition preemption_Handler ::
  "(Pod \<Rightarrow> (string \<times> string list) list \<Rightarrow> meta_victims \<Rightarrow> meta_victims) \<Rightarrow> ExtenderPreemptionArgs \<Rightarrow>
     meta_victims option" where
  "preemption_Handler func args =
     map_option (\<lambda>pod. func pod (pre_NodeNameToVictims args) (pre_NodeNameToMetaVictims args)) (pre_Pod args)"

text \<open>A body that cannot be decoded is answered with 400 and the text \<open>null\<close>: the later status is ignored.\<close>

definition PreemptionRoute ::
  "server_io \<Rightarrow> (ExtenderPreemptionArgs \<Rightarrow> meta_victims option) \<Rightarrow> ExtenderPreemptionArgs request_body \<Rightarrow> response \<Rightarrow>
     response option" where
  "PreemptionRoute io handler body w =
     (let w = checkBody body w
      in case body of
           None \<Rightarrow> None
         | Some (Inl err) \<Rightarrow>
             answer_json io (BPreemption None) (WriteHeader 400 (SetContentType ''application/json'' w))
         | Some (Inr args) \<Rightarrow>
             (case handler args of None \<Rightarrow> None | Some v \<Rightarrow> answer_json io (BPreemption (Some v)) w))"

definition VersionRoute :: "string \<Rightarrow> string \<Rightarrow> response \<Rightarrow> response" where
  "VersionRoute version commit w = Write (BText (version @ ''-'' @ commit)) w"

section \<open>The routes of the provisioner\<close>

text \<open>A form is what \<open>ParseForm\<close> yields. \<open>Form.Get\<close> is empty for a missing key.\<close>

type_synonym form = "string gomap result"

definition IsEmpty :: "string \<Rightarrow> bool" where
  "IsEmpty r \<longleftrightarrow> length r = 0"

definition lister_error :: "string \<Rightarrow> body" where
  "lister_error name = BText (name @ '' not found'')"

text \<open>\<open>capacity\<close> is the storage in \<open>Status.Capacity\<close> of a claim. The claim, unless an answer was written.\<close>

definition validatePVCParams ::
  "kube \<Rightarrow> (PersistentVolumeClaim \<Rightarrow> int64 option) \<Rightarrow> form \<Rightarrow> string \<Rightarrow> string \<Rightarrow> response \<Rightarrow>
     response \<times> PersistentVolumeClaim option" where
  "validatePVCParams K capacity form namespace name w =
     (case form of
        Inl err \<Rightarrow> (HttpResponse 500 (BText err) w, None)
      | Inr _ \<Rightarrow>
          if IsEmpty namespace \<or> IsEmpty name
          then (HttpResponse 500 (BText (''neither namespace or name can be empty: namespace='' @ go_Quote namespace @
                  '',name='' @ go_Quote name)) w, None)
          else (case pvc_get K namespace name of
                  None \<Rightarrow> (HttpResponse 500 (lister_error name) w, None)
                | Some pvc \<Rightarrow>
                    if pvc_Phase pvc \<noteq> ClaimPending \<and>
                       \<not> (pvc_Phase pvc = ClaimBound \<and>
                          (case pvc_Requests pvc of Some v \<Rightarrow> v | None \<Rightarrow> 0) \<noteq>
                            (case capacity pvc of Some v \<Rightarrow> v | None \<Rightarrow> 0))
                    then (HttpResponse 500 (BText (''invalid status for scheduling pvc '' @
                            GetNameKey (pvc_Namespace pvc) (pvc_Name pvc) @ '': unexpected phase '' @ pvc_Phase pvc)) w, None)
                    else (w, Some pvc)))"

text \<open>\<open>node_known\<close> is the node informer, \<open>scheduling\<close> the handler of the request.\<close>

definition SchedulingPVCWrap ::
  "server_io \<Rightarrow> (go_error \<Rightarrow> string) \<Rightarrow> kube \<Rightarrow> (PersistentVolumeClaim \<Rightarrow> int64 option) \<Rightarrow> (string \<Rightarrow> bool) \<Rightarrow>
     (ClusterNodeCache \<Rightarrow> PersistentVolumeClaim \<Rightarrow> string option \<Rightarrow>
        (ClusterNodeCache \<times> BindingResult option \<times> go_error option) option) \<Rightarrow>
     form \<Rightarrow> string \<Rightarrow> string \<Rightarrow> ClusterNodeCache \<Rightarrow> response \<Rightarrow> (ClusterNodeCache \<times> response) option" where
  "SchedulingPVCWrap io text K capacity node_known scheduling form namespace name c w =
     (case validatePVCParams K capacity form namespace name w of
        (w, None) \<Rightarrow> Some (c, w)
      | (w, Some pvc) \<Rightarrow>
          (let nodeName = (case form of Inl _ \<Rightarrow> [] | Inr values \<Rightarrow> str_at values ''nodeName'')
           in if length nodeName > 0 \<and> \<not> node_known nodeName
              then Some (c, HttpResponse 500 (BText (''failed to fetch node '' @ nodeName @ '': '' @ nodeName @ '' not found'')) w)
              else (case scheduling c pvc (if length nodeName > 0 then Some nodeName else None) of
                      None \<Rightarrow> None
                    | Some (c, _, Some err) \<Rightarrow> Some (c, HttpResponse 500 (BText (text err)) w)
                    | Some (c, info, None) \<Rightarrow> Some (c, HttpJSON io 200 (BBinding info) w))))"

definition CacheRoute :: "server_io \<Rightarrow> ClusterNodeCache \<Rightarrow> form \<Rightarrow> response \<Rightarrow> response" where
  "CacheRoute io c form w =
     (case form of
        Inl err \<Rightarrow> HttpResponse 500 (BText err) w
      | Inr values \<Rightarrow>
          (let nodeName = str_at values ''nodeName''
           in if length nodeName > 0
              then (case GetNodeCache c nodeName of
                      Some nc \<Rightarrow> HttpJSON io 200 (BNode nc) w
                    | None \<Rightarrow> HttpResponse 400 (BText (nodeName @ '' is not found'')) w)
              else HttpJSON io 200 (BCluster c) w))"

section \<open>The table of routes\<close>

datatype route = Version | Metrics | NodeCacheRoute | Predicate | Prioritize | SchedulingApi | BindApi | PreemptionApi

type_synonym router = "(string \<times> string \<times> route) list"

definition apiPrefix :: string where "apiPrefix = ''/scheduler''"
definition versionPath :: string where "versionPath = ''/version''"
definition metricsPath :: string where "metricsPath = ''/metrics''"
definition cachePath :: string where "cachePath = ''/cache''"
definition bindPath :: string where "bindPath = apiPrefix @ ''/bind''"
definition preemptionPath :: string where "preemptionPath = apiPrefix @ ''/preemption''"
definition predicatesPrefix :: string where "predicatesPrefix = apiPrefix @ ''/predicates''"
definition prioritiesPrefix :: string where "prioritiesPrefix = apiPrefix @ ''/priorities''"
definition schedulingPVCPrefix :: string where
  "schedulingPVCPrefix = ''/apis/scheduling/:namespace/persistentvolumeclaims/:name''"

definition AddVersion :: "router \<Rightarrow> router" where "AddVersion r = r @ [(''GET'', versionPath, Version)]"
definition AddMetrics :: "router \<Rightarrow> router" where "AddMetrics r = r @ [(''GET'', metricsPath, Metrics)]"
definition AddGetNodeCache :: "router \<Rightarrow> router" where "AddGetNodeCache r = r @ [(''POST'', cachePath, NodeCacheRoute)]"
definition AddPredicate :: "router \<Rightarrow> router" where "AddPredicate r = r @ [(''POST'', predicatesPrefix, Predicate)]"
definition AddPrioritize :: "router \<Rightarrow> router" where "AddPrioritize r = r @ [(''POST'', prioritiesPrefix, Prioritize)]"
definition AddSchedulingApis :: "router \<Rightarrow> router" where
  "AddSchedulingApis r = r @ [(''POST'', schedulingPVCPrefix, SchedulingApi)]"

definition registered :: "router \<Rightarrow> string \<Rightarrow> string \<Rightarrow> bool" where
  "registered r m path \<longleftrightarrow> list_ex (\<lambda>(m', p, _). m' = m \<and> p = path) r"

definition AddBind :: "router \<Rightarrow> router" where
  "AddBind r = (if registered r ''POST'' bindPath then r else r @ [(''POST'', bindPath, BindApi)])"

definition AddPreemption :: "router \<Rightarrow> router" where
  "AddPreemption r =
     (if registered r ''POST'' preemptionPath then r else r @ [(''POST'', preemptionPath, PreemptionApi)])"

definition InitRouter :: router where
  "InitRouter = AddSchedulingApis (AddPrioritize (AddPredicate (AddGetNodeCache (AddMetrics (AddVersion [])))))"

section \<open>The client\<close>

text \<open>\<open>DoRequest\<close>: the text of the answer, unless there was none or its status is another than 200.\<close>

definition DoRequest :: "(body \<Rightarrow> string) \<Rightarrow> response option \<Rightarrow> string result" where
  "DoRequest json_text answer =
     (case answer of
        None \<Rightarrow> Inl ''EOF''
      | Some w \<Rightarrow>
          (let code = (case rs_Code w of None \<Rightarrow> 200 | Some code \<Rightarrow> code);
               body = concat (map json_text (rs_Body w))
           in if code \<noteq> 200 then Inl (''Get Response StatusCode '' @ dec code @ '', Response: '' @ body) else Inr body))"

section \<open>Pending pods\<close>

record listed_pod = Pod +
  lp_Deleting :: bool

definition need_trigger :: "kube \<Rightarrow> listed_pod \<Rightarrow> bool" where
  "need_trigger K pod \<longleftrightarrow> \<not> lp_Deleting pod \<and>
     (case GetAllPodPvcs K (Pod.truncate pod) of
        Inl err \<Rightarrow> False
      | Inr pvcs \<Rightarrow> list_all (\<lambda>pvc. pvc_Phase pvc = ClaimPending) pvcs \<and> length pvcs > 0)"

text \<open>The pods whose label is patched, with whether the API server accepted it. The count is of the accepted ones.\<close>

fun trigger_loop :: "kube \<Rightarrow> (listed_pod \<Rightarrow> bool) \<Rightarrow> listed_pod list \<Rightarrow> nat \<Rightarrow> (listed_pod \<times> bool) list" where
  "trigger_loop K patch_ok [] n = []"
| "trigger_loop K patch_ok (pod # pods) n =
     (if 300 \<le> n then []
      else if need_trigger K pod
      then (pod, patch_ok pod) # trigger_loop K patch_ok pods (if patch_ok pod then n + 1 else n)
      else trigger_loop K patch_ok pods n)"

text \<open>One tick of \<open>TriggerPendingPodReschedule\<close>: the list is of the pending pods without a node.\<close>

definition TriggerPendingPods ::
  "kube \<Rightarrow> (listed_pod \<Rightarrow> bool) \<Rightarrow> listed_pod list result \<Rightarrow> (listed_pod \<times> bool) list" where
  "TriggerPendingPods K patch_ok podList =
     (case podList of Inl err \<Rightarrow> [] | Inr items \<Rightarrow> trigger_loop K patch_ok items 0)"

section \<open>Facts\<close>

text \<open>When the API server accepts every patch, one tick wakes the first 300 of the waiting pods, in the order of the
  list; otherwise it never wakes more, and only waiting ones.\<close>

theorem trigger_first_300:
  "\<forall>pod \<in> set pods. patch_ok pod \<Longrightarrow>
     trigger_loop K patch_ok pods n = map (\<lambda>pod. (pod, True)) (take (300 - n) (filter (need_trigger K) pods))"
proof (induction pods arbitrary: n)
  case (Cons pod pods)
  show ?case
  proof (cases "300 \<le> n")
    case False
    then have "300 - n = Suc (300 - (n + 1))" by simp
    with Cons False show ?thesis by simp
  qed simp
qed simp

theorem trigger_bound: "n \<le> 300 \<Longrightarrow> length (filter snd (trigger_loop K patch_ok pods n)) + n \<le> 300"
proof (induction pods arbitrary: n)
  case (Cons pod pods)
  from Cons.IH[of "n + 1"] Cons.IH[of n] Cons.prems show ?case by auto
qed simp

theorem trigger_waiting: "pod \<in> fst ` set (trigger_loop K patch_ok pods n) \<Longrightarrow> pod \<in> set pods \<and> need_trigger K pod"
  by (induction pods arbitrary: n) (auto split: if_splits)

text \<open>Each route is registered once; nothing is registered for bindings and preemptions.\<close>

theorem routes_distinct: "distinct (map (\<lambda>(m, p, _). (m, p)) InitRouter)"
  by (simp add: InitRouter_def AddSchedulingApis_def AddPrioritize_def AddPredicate_def AddGetNodeCache_def AddMetrics_def
      AddVersion_def schedulingPVCPrefix_def prioritiesPrefix_def predicatesPrefix_def cachePath_def metricsPath_def
      versionPath_def apiPrefix_def)

theorem no_bind_route: "\<not> registered InitRouter ''POST'' bindPath \<and> \<not> registered InitRouter ''POST'' preemptionPath"
  by (simp add: registered_def InitRouter_def AddSchedulingApis_def AddPrioritize_def AddPredicate_def AddGetNodeCache_def
      AddMetrics_def AddVersion_def schedulingPVCPrefix_def prioritiesPrefix_def predicatesPrefix_def cachePath_def
      metricsPath_def versionPath_def apiPrefix_def bindPath_def preemptionPath_def)

lemmas route_defs = answer_json_def checkBody_def http_Error_def HttpResponse_def HttpJSON_def Write_def WriteHeader_def
  SetContentType_def fresh_response_def

text \<open>A body that cannot be decoded: the filter answers with the error, the priorities close the connection, the
  preemption answers 400.\<close>

theorem undecodable_body:
  assumes "\<And>b. json_fails io b = None" "\<not> write_fails io"
  shows "PredicateRoute io ph (Some (Inl err)) fresh_response =
      Some \<lparr>rs_Code = Some 200, rs_ContentType = ''application/json'', rs_Body = [BFilterError err]\<rparr>"
    and "PrioritizeRoute io oh (Some (Inl err)) fresh_response = None"
    and "PreemptionRoute io eh (Some (Inl err)) fresh_response =
      Some \<lparr>rs_Code = Some 400, rs_ContentType = ''application/json'', rs_Body = [BPreemption None]\<rparr>"
  using assms by (simp_all add: PredicateRoute_def PrioritizeRoute_def PreemptionRoute_def route_defs)

text \<open>What the provisioner gets as a success is what the handler of its request returned for the claim it named.\<close>

theorem provisioner_answer:
  assumes "DoRequest json_text (map_option snd
      (SchedulingPVCWrap io text K capacity node_known scheduling form ns name c fresh_response)) = Inr t"
    and "\<And>b. json_fails io b = None"
  obtains pvc c' node info where "pvc_get K ns name = Some pvc" "scheduling c pvc node = Some (c', info, None)"
    "t = json_text (BBinding info)"
  using assms
  by (auto simp: DoRequest_def SchedulingPVCWrap_def validatePVCParams_def route_defs Let_def lister_error_def
      split: option.splits sum.splits if_splits prod.splits)

text \<open>A request without the name of a node panics: the provisioner gets no answer.\<close>

theorem node_name_needed:
  assumes "pvc_get K ns name = Some pvc" "pvc_Phase pvc = ClaimPending" "ns \<noteq> []" "name \<noteq> []"
  shows "DoRequest json_text (map_option snd
      (SchedulingPVCWrap io text K capacity node_known (SchedulingPVC R cv K pod_get strategy) (Inr []) ns name c w)) =
    Inl ''EOF''"
  using assms
  by (simp add: SchedulingPVCWrap_def validatePVCParams_def IsEmpty_def str_at_def SchedulingPVC_def DoRequest_def)

text \<open>A refusal before the handler runs leaves the cache as it is.\<close>

theorem refused_unchanged:
  assumes "SchedulingPVCWrap io text K capacity node_known scheduling form ns name c w = Some (c', w')" "c' \<noteq> c"
  obtains pvc node r where "pvc_get K ns name = Some pvc" "scheduling c pvc node = Some (c', r)"
  using assms
  by (auto simp: SchedulingPVCWrap_def validatePVCParams_def Let_def split: option.splits sum.splits if_splits prod.splits)

end
