(* ===== verification/Csi_Driver.thy ===== *)
theory Csi_Driver
  imports Node_Server Ctrl_Sync
begin

text \<open>
  The start of the CSI plugin and of the daemon: the options of the driver, which services it registers and where it
  listens (\<open>pkg/csi/driver.go\<close>, \<open>identityserver.go\<close>), the address of the extender (\<open>adapter.go\<close>), the file of the
  store of ephemeral volumes (\<open>volume_store.go\<close>), the connection to a daemon, also through a proxy
  (\<open>client/grpc.go\<close>, \<open>client/konnectivity.go\<close>), and the choice between the LVM and the SPDK commands, once by the daemon
  (\<open>server/server.go\<close>) and once by the node service. Sockets, certificates, URLs and JSON are parameters.
\<close>

section \<open>Options\<close>

record driverOptions =
  do_driverName :: string
  do_nodeID :: string
  do_endpoint :: string
  do_sysPath :: string
  do_cgroupDriver :: string
  do_grpcConnectionTimeout :: int
  do_mode :: string
  do_useNodeHostname :: bool
  do_enableSpdk :: bool
  do_extenderSchedulerNames :: "string list"
  do_frameworkSchedulerNames :: "string list"
  do_konnectivityUDS :: string
  do_konnectivityProxyHost :: string
  do_konnectivityProxyPort :: int
  do_konnectivityProxyMode :: string
  do_konnectivityClientCert :: string
  do_konnectivityClientKey :: string
  do_konnectivityCACert :: string

definition DefaultConnectTimeout :: int where "DefaultConnectTimeout = 3"

definition defaultDriverOptions :: driverOptions where
  "defaultDriverOptions =
     \<lparr>do_driverName = [], do_nodeID = [], do_endpoint = [], do_sysPath = ''/host_sys'', do_cgroupDriver = ''systemd'',
      do_grpcConnectionTimeout = DefaultConnectTimeout, do_mode = ''all'', do_useNodeHostname = False,
      do_enableSpdk = False, do_extenderSchedulerNames = [''default-scheduler''], do_frameworkSchedulerNames = [],
      do_konnectivityUDS = [], do_konnectivityProxyHost = [], do_konnectivityProxyPort = 0,
      do_konnectivityProxyMode = [], do_konnectivityClientCert = [], do_konnectivityClientKey = [],
      do_konnectivityCACert = []\<rparr>"

type_synonym Option = "driverOptions \<Rightarrow> driverOptions"

definition WithSysPath :: "string \<Rightarrow> Option" where
  "WithSysPath sysPath = (\<lambda>d. d\<lparr>do_sysPath := sysPath\<rparr>)"

definition WithCgroupDriver :: "string \<Rightarrow> Option" where
  "WithCgroupDriver cgroupDriver = (\<lambda>d. d\<lparr>do_cgroupDriver := cgroupDriver\<rparr>)"

definition WithGrpcConnectionTimeout :: "int \<Rightarrow> Option" where
  "WithGrpcConnectionTimeout grpcConnectionTimeout = (\<lambda>d. d\<lparr>do_grpcConnectionTimeout := grpcConnectionTimeout\<rparr>)"

definition WithDriverMode :: "string \<Rightarrow> Option" where
  "WithDriverMode mode = (\<lambda>d. d\<lparr>do_mode := mode\<rparr>)"

definition WithUseNodeHostname :: "bool \<Rightarrow> Option" where
  "WithUseNodeHostname useNodeHostname = (\<lambda>d. d\<lparr>do_useNodeHostname := useNodeHostname\<rparr>)"

definition WithEnableSpdk :: "bool \<Rightarrow> Option" where
  "WithEnableSpdk enableSpdk = (\<lambda>d. d\<lparr>do_enableSpdk := enableSpdk\<rparr>)"

definition WithExtenderSchedulerNames :: "string list \<Rightarrow> Option" where
  "WithExtenderSchedulerNames names = (\<lambda>d. d\<lparr>do_extenderSchedulerNames := names\<rparr>)"

definition WithFrameworkSchedulerNames :: "string list \<Rightarrow> Option" where
  "WithFrameworkSchedulerNames names = (\<lambda>d. d\<lparr>do_frameworkSchedulerNames := names\<rparr>)"

definition WithKonnectivity ::
  "string \<Rightarrow> string \<Rightarrow> int \<Rightarrow> string \<Rightarrow> string \<Rightarrow> string \<Rightarrow> string \<Rightarrow> Option" where
  "WithKonnectivity uds host port mode clientCert clientKey caCert =
     (\<lambda>d. d\<lparr>do_konnectivityUDS := uds, do_konnectivityProxyHost := host, do_konnectivityProxyPort := port,
            do_konnectivityProxyMode := mode, do_konnectivityClientCert := clientCert,
            do_konnectivityClientKey := clientKey, do_konnectivityCACert := caCert\<rparr>)"

text \<open>The plugin, with whether it has each server. The options are those of the package, which \<open>NewDriver\<close> changes: it
  takes a pointer to the defaults. An unknown mode ends the process.\<close>

record CSIPlugin =
  pl_controllerServer :: bool
  pl_nodeServer :: bool
  pl_options :: driverOptions

definition NewDriver ::
  "string \<Rightarrow> string \<Rightarrow> string \<Rightarrow> Option list \<Rightarrow> driverOptions \<Rightarrow> (CSIPlugin \<times> driverOptions) option" where
  "NewDriver driverName nodeID endpoint opts defaults =
     (let d = fold (\<lambda>opt d. opt d) opts
                (defaults\<lparr>do_driverName := driverName, do_nodeID := nodeID, do_endpoint := endpoint\<rparr>);
          plugin = (\<lambda>controller node. Some (\<lparr>pl_controllerServer = controller, pl_nodeServer = node, pl_options = d\<rparr>, d))
      in if do_mode d = ''all'' then plugin True True
         else if do_mode d = ''controller'' then plugin True False
         else if do_mode d = ''node'' then plugin False True
         else None)"

section \<open>Listening\<close>

definition go_ToLower :: "string \<Rightarrow> string" where
  "go_ToLower s =
     map (\<lambda>c. if of_char c \<in> {65..90 :: nat} then char_of (of_char c + 32 :: nat) else c) s"

text \<open>\<open>url_parse\<close> yields scheme, host and path; \<open>remove_error\<close> is the error of the removal, unless it is that of a
  missing file.\<close>

definition ParseEndpoint ::
  "(string \<Rightarrow> (string \<times> string \<times> string) result) \<Rightarrow> (action list \<Rightarrow> string \<Rightarrow> string option) \<Rightarrow> string \<Rightarrow>
     (string \<times> string) result io" where
  "ParseEndpoint url_parse remove_error endpoint =
     (case url_parse endpoint of
        Inl err \<Rightarrow> ret (Inl (''could not parse endpoint: '' @ err))
      | Inr (scheme, host, path) \<Rightarrow>
          (let addr = filepath_Join [host, path]; scheme = go_ToLower scheme
           in if scheme = ''tcp'' then ret (Inr (scheme, addr))
              else if scheme = ''unix''
              then (let addr = filepath_Join [''/'', addr]
                    in act (Remove addr) (\<lambda>log. case remove_error log addr of
                         Some err \<Rightarrow> Inl (''could not remove unix domain socket '' @ go_Quote addr @ '': '' @ err)
                       | None \<Rightarrow> Inr (scheme, addr)))
              else ret (Inl (''unsupported protocol: '' @ scheme))))"

datatype service = Identity | Controller | Node

text \<open>The services of \<open>Run\<close> with the address they are served at.\<close>

definition services :: "string \<Rightarrow> service list result" where
  "services mode =
     (if mode = ''controller'' then Inr [Identity, Controller]
      else if mode = ''node'' then Inr [Identity, Node]
      else if mode = ''all'' then Inr [Identity, Controller, Node]
      else Inl (''unknown mode: '' @ mode))"

definition plugin_Run ::
  "(string \<Rightarrow> (string \<times> string \<times> string) result) \<Rightarrow> (action list \<Rightarrow> string \<Rightarrow> string option) \<Rightarrow>
     (action list \<Rightarrow> string \<Rightarrow> string \<Rightarrow> string option) \<Rightarrow> CSIPlugin \<Rightarrow> ((string \<times> string) \<times> service list) result io" where
  "plugin_Run url_parse remove_error listen_error plugin =
     State_Monad.bind (ParseEndpoint url_parse remove_error (do_endpoint (pl_options plugin))) (\<lambda>r.
       case r of
         Inl err \<Rightarrow> ret (Inl err)
       | Inr (scheme, addr) \<Rightarrow>
           State (\<lambda>log. (case listen_error log scheme addr of
               Some err \<Rightarrow> Inl err
             | None \<Rightarrow> (case services (do_mode (pl_options plugin)) of
                          Inl err \<Rightarrow> Inl err | Inr s \<Rightarrow> Inr ((scheme, addr), s)), log)))"

section \<open>The identity service\<close>

datatype plugin_capability =
  CONTROLLER_SERVICE | VOLUME_ACCESSIBILITY_CONSTRAINTS | VOLUME_EXPANSION_ONLINE

definition GetPluginCapabilities :: "plugin_capability list" where
  "GetPluginCapabilities = [CONTROLLER_SERVICE, VOLUME_ACCESSIBILITY_CONSTRAINTS, VOLUME_EXPANSION_ONLINE]"

definition GetPluginInfo :: "string \<Rightarrow> CSIPlugin \<Rightarrow> string \<times> string" where
  "GetPluginInfo full_version plugin = (do_driverName (pl_options plugin), full_version)"

section \<open>The address of the extender\<close>

text \<open>\<open>to4\<close> is whether the text is an address of IPv4; it is \<open>None\<close> for a text that is no address. A text that is not
  one is complained about, but used.\<close>

definition getExtenderURLHost :: "(string \<Rightarrow> bool option) \<Rightarrow> string gomap \<Rightarrow> string" where
  "getExtenderURLHost to4 environment =
     (let port = str_at environment ''EXTENDER_SVC_PORT''; port = (if port = [] then ''23000'' else port);
          ip = str_at environment ''EXTENDER_SVC_IP''
      in if ip = [] then ''http://open-local-scheduler-extender:'' @ port
         else if to4 ip = Some True then ''http://'' @ ip @ '':'' @ port
         else ''http://['' @ ip @ '']:'' @ port)"

section \<open>The file of the store\<close>

text \<open>\<open>create_error\<close> is the error of creating the file, which empties it; the text that was written is kept even when the
  encoder fails after it. \<open>encode\<close> yields the text and an error.\<close>

type_synonym files = "string gomap"

definition saveVolumeData ::
  "(string \<Rightarrow> string option) \<Rightarrow> (string gomap \<Rightarrow> string \<times> string option) \<Rightarrow> string \<Rightarrow> string gomap \<Rightarrow> files \<Rightarrow>
     files \<times> string option" where
  "saveVolumeData create_error encode dataFilePath data fs =
     (case create_error dataFilePath of
        Some err \<Rightarrow> (fs, Some (''failed to save volume data file '' @ dataFilePath @ '': '' @ err))
      | None \<Rightarrow>
          (case encode data of
             (text, err) \<Rightarrow> (AList.update dataFilePath text fs,
                             map_option (\<lambda>e. ''failed to save volume data file: '' @ e) err)))"

text \<open>The error with whether it is that of a missing file.\<close>

definition loadVolumeData ::
  "(string \<Rightarrow> string gomap result) \<Rightarrow> string \<Rightarrow> files \<Rightarrow> (bool \<times> string) + string gomap" where
  "loadVolumeData decode dataFilePath fs =
     (case map_of fs dataFilePath of
        None \<Rightarrow> Inl (True, ''open '' @ dataFilePath @ '': no such file or directory'')
      | Some text \<Rightarrow>
          (case decode text of
             Inl err \<Rightarrow> Inl (False, ''failed to parse volume data file: '' @ err)
           | Inr data \<Rightarrow> Inr data))"

section \<open>Facts\<close>

text \<open>A plugin that was made serves, and every service it registers has its server: no call meets a nil one.\<close>

theorem registered_services_exist:
  assumes "NewDriver driverName nodeID endpoint opts defaults = Some (plugin, d)"
    and "run_state (plugin_Run url_parse remove_error listen_error plugin) acts = (Inr (addr, s), acts')"
  shows "(Controller \<in> set s \<longrightarrow> pl_controllerServer plugin) \<and> (Node \<in> set s \<longrightarrow> pl_nodeServer plugin) \<and> Identity \<in> set s"
proof -
  from assms(2) have "services (do_mode (pl_options plugin)) = Inr s"
    by (auto simp: plugin_Run_def State_Monad.bind_def split: prod.splits sum.splits option.splits)
  with assms(1) show ?thesis by (auto simp: NewDriver_def services_def Let_def split: if_splits)
qed

text \<open>Where it listens: over TCP, or on a socket with an absolute path, which alone is removed.\<close>

lemma filepath_Join_rooted: "\<exists>p. filepath_Join [''/'', s] = CHR ''/'' # p"
  by (auto simp: filepath_Join_def filepath_Clean_def Let_def)

theorem endpoint_safe:
  assumes "run_state (ParseEndpoint url_parse remove_error endpoint) acts = (Inr (scheme, addr), acts')"
  shows "scheme = ''tcp'' \<and> acts' = acts \<or> scheme = ''unix'' \<and> (\<exists>p. addr = CHR ''/'' # p) \<and> acts' = acts @ [Remove addr]"
  using assms filepath_Join_rooted
  by (auto simp: ParseEndpoint_def act_def Let_def split: sum.splits prod.splits if_splits option.splits)

text \<open>The default endpoint names a socket below the root although it has two slashes only.\<close>

lemma default_endpoint:
  "run_state (ParseEndpoint (\<lambda>_. Inr (''unix'', ''tmp'', ''/csi.sock'')) (\<lambda>_ _. None) ''unix://tmp/csi.sock'') [] =
     (Inr (''unix'', ''/tmp/csi.sock''), [Remove ''/tmp/csi.sock''])"
  by code_simp

text \<open>\<open>NewDriver\<close> changes the defaults of the package: what a first call was told, a second one finds.\<close>

theorem defaults_changed:
  assumes "NewDriver n i e [WithKonnectivity uds host port mode cert key ca] defaultDriverOptions = Some (p1, d1)"
    and "NewDriver n' i' e' [] d1 = Some (p2, d2)"
  shows "do_konnectivityUDS (pl_options p2) = uds"
  using assms by (auto simp: NewDriver_def WithKonnectivity_def defaultDriverOptions_def Let_def split: if_splits)

text \<open>What was saved is what a restart loads, when the JSON text of a map reads back as the map.\<close>

theorem saved_volumes_loaded:
  assumes "saveVolumeData create_error encode f data fs = (fs', None)" "decode (fst (encode data)) = Inr data"
  shows "NewVolumeStore (loadVolumeData decode f fs') = Inr data"
  using assms
  by (auto simp: saveVolumeData_def loadVolumeData_def NewVolumeStore_def update_conv' split: option.splits prod.splits)

text \<open>The file is emptied before the new text is written. When that fails with nothing written, the store is not made
  again, so that the node service does not start: the volumes recorded before are lost with it.\<close>

theorem failed_save_blocks_start:
  assumes "create_error f = None" "encode data = ([], Some err)" "decode [] = Inl ''EOF''"
  shows "NewVolumeStore (loadVolumeData decode f (fst (saveVolumeData create_error encode f data fs))) =
    Inl ''failed to parse volume data file: EOF''"
  using assms by (simp add: saveVolumeData_def loadVolumeData_def NewVolumeStore_def update_conv')

text \<open>A text that is no address of the extender is used in brackets.\<close>

theorem bad_extender_address:
  assumes "str_at environment ''EXTENDER_SVC_IP'' = ip" "ip \<noteq> []" "to4 ip = None"
    and "str_at environment ''EXTENDER_SVC_PORT'' = port" "port \<noteq> []"
  shows "getExtenderURLHost to4 environment = ''http://['' @ ip @ '']:'' @ port"
  using assms by (simp add: getExtenderURLHost_def)

end
