(* ===== verification/Csi_Connect.thy ===== *)
theory Csi_Connect
  imports Csi_Driver
begin

text \<open>
  How the CSI plugin reaches a daemon and which commands the two ends use: the connection, also through a konnectivity
  proxy (\<open>pkg/csi/client/grpc.go\<close>, \<open>client/konnectivity.go\<close>), the daemon's choice between the LVM and the SPDK
  commands (\<open>server/server.go\<close>) and that of the node service (\<open>nodeserver.go\<close>), the client of SPDK
  (\<open>pkg/utils/spdk/spdk.go\<close>), and the steps of the mounting of a block device (\<open>pkg/utils/common.go\<close>). What sockets,
  certificates and the API server answer is a parameter.
\<close>

section \<open>Certificates\<close>

record proxy_options =
  px_Mode :: string
  px_ClientCert :: string
  px_ClientKey :: string
  px_CACert :: string
  px_ProxyUDSName :: string
  px_ProxyHost :: string
  px_ProxyPort :: int

text \<open>\<open>dial_proxy\<close> is given the network, \<open>connect_answer\<close> yields status, its text and the bytes read too much.\<close>

record proxy_env =
  create_tunnel :: "string \<Rightarrow> string option"
  tunnel_dial :: "string \<Rightarrow> string option"
  dial_proxy :: "string \<Rightarrow> string \<Rightarrow> string option"
  connect_answer :: "string \<Rightarrow> (nat \<times> string \<times> nat) result"
  read_pem :: "string \<Rightarrow> string result"
  pem_has_cert :: "string \<Rightarrow> bool"
  key_pair_error :: "string \<Rightarrow> string \<Rightarrow> string option"
  print_int :: "int \<Rightarrow> string"

record tls_config =
  tls_RootCAs :: string
  tls_MinVersion :: string
  tls_NextProtos :: "string list"
  tls_ServerName :: string
  tls_Certificates :: "(string \<times> string) list"

definition getCACertPool :: "proxy_env \<Rightarrow> string \<Rightarrow> string result" where
  "getCACertPool px caFile =
     (case read_pem px (filepath_Clean caFile) of
        Inl err \<Rightarrow> Inl (''failed to read CA cert '' @ caFile @ '': '' @ err)
      | Inr caCert \<Rightarrow> if pem_has_cert px caCert then Inr caCert else Inl ''failed to append CA cert to the cert pool'')"

definition getClientTLSConfig ::
  "proxy_env \<Rightarrow> string \<Rightarrow> string \<Rightarrow> string \<Rightarrow> string \<Rightarrow> string list \<Rightarrow> tls_config result" where
  "getClientTLSConfig px caFile certFile keyFile serverName protos =
     (case getCACertPool px caFile of
        Inl err \<Rightarrow> Inl err
      | Inr certPool \<Rightarrow>
          (let tlsConfig = \<lparr>tls_RootCAs = certPool, tls_MinVersion = ''VersionTLS12'', tls_NextProtos = protos,
                            tls_ServerName = [], tls_Certificates = []\<rparr>
           in if certFile = [] \<and> keyFile = [] then Inr tlsConfig
              else (case key_pair_error px certFile keyFile of
                      Some err \<Rightarrow> Inl (''failed to load X509 key pair '' @ certFile @ '' and '' @ keyFile @ '': '' @ err)
                    | None \<Rightarrow> Inr (tlsConfig\<lparr>tls_ServerName := serverName,
                                             tls_Certificates := [(certFile, keyFile)]\<rparr>))))"

section \<open>Through a proxy\<close>

datatype net_conn =
    Tunnel string string \<comment> \<open>proxy, target\<close>
  | Connected string string \<comment> \<open>after \<open>CONNECT\<close>\<close>

definition proxy_tunnel :: "proxy_env \<Rightarrow> string \<Rightarrow> string \<Rightarrow> net_conn result" where
  "proxy_tunnel px proxy address =
     (case create_tunnel px proxy of
        Some err \<Rightarrow> Inl (''failed to create tunnel '' @ proxy @ '', got '' @ err)
      | None \<Rightarrow>
          (case tunnel_dial px address of
             Some err \<Rightarrow> Inl (''failed to dial request '' @ address @ '', got '' @ err)
           | None \<Rightarrow> Inr (Tunnel proxy address)))"

text \<open>Only an answer with status 200 and nothing after it makes a connection.\<close>

definition proxy_connect :: "proxy_env \<Rightarrow> string \<Rightarrow> string \<Rightarrow> string \<Rightarrow> string \<Rightarrow> net_conn result" where
  "proxy_connect px network via proxy address =
     (case dial_proxy px network proxy of
        Some err \<Rightarrow> Inl (''dialing proxy '' @ go_Quote proxy @ '' failed: '' @ err)
      | None \<Rightarrow>
          (case connect_answer px address of
             Inl err \<Rightarrow> Inl (''reading HTTP response from CONNECT to '' @ address @ '' via '' @ via @ '' '' @ proxy @
                              '' failed: '' @ err)
           | Inr (code, status, buffered) \<Rightarrow>
               if code \<noteq> 200 then Inl (''proxy error from '' @ proxy @ '' while dialing '' @ address @ '': '' @ status)
               else if 0 < buffered
               then Inl (''unexpected '' @ dec buffered @ '' bytes of buffered data from CONNECT '' @ via @ '' '' @
                         go_Quote proxy)
               else Inr (Connected proxy address)))"

definition getKonnectivityUDSDialer :: "proxy_env \<Rightarrow> string \<Rightarrow> proxy_options \<Rightarrow> net_conn result" where
  "getKonnectivityUDSDialer px address opts =
     (if px_Mode opts = ''grpc'' then proxy_tunnel px (px_ProxyUDSName opts) address
      else if px_Mode opts = ''http-connect'' then proxy_connect px ''unix'' ''uds proxy'' (px_ProxyUDSName opts) address
      else Inl (''failed to process mode '' @ px_Mode opts))"

definition getKonnectivityMTLSDialer :: "proxy_env \<Rightarrow> string \<Rightarrow> proxy_options \<Rightarrow> net_conn result" where
  "getKonnectivityMTLSDialer px address opts =
     (case getClientTLSConfig px (px_CACert opts) (px_ClientCert opts) (px_ClientKey opts) (px_ProxyHost opts) [] of
        Inl err \<Rightarrow> Inl err
      | Inr tlsConfig \<Rightarrow>
          (let proxyAddress = px_ProxyHost opts @ '':'' @ print_int px (px_ProxyPort opts)
           in if px_Mode opts = ''grpc'' then proxy_tunnel px proxyAddress address
              else if px_Mode opts = ''http-connect'' then proxy_connect px ''tls'' ''proxy'' proxyAddress address
              else Inl (''failed to process mode '' @ px_Mode opts)))"

section \<open>The connection\<close>

datatype dialer = DefaultDialer | ProxyDialer net_conn | UnixDialer

text \<open>The last of the dialers among the options is the one gRPC uses. The text of the error has full-width
  parentheses.\<close>

definition connect_dialer :: "proxy_env \<Rightarrow> string \<Rightarrow> proxy_options \<Rightarrow> dialer result" where
  "connect_dialer px address proxyOpts =
     (let unix = (\<lambda>d. if HasPrefix address ''/'' then UnixDialer else d)
      in if px_ProxyHost proxyOpts \<noteq> [] \<or> px_ProxyUDSName proxyOpts \<noteq> []
         then (case (if px_ProxyUDSName proxyOpts = [] then getKonnectivityMTLSDialer px address proxyOpts
                     else getKonnectivityUDSDialer px address proxyOpts) of
                 Inl err \<Rightarrow> Inl (''failed to setup konnectivity dialer'' @ [CHR 0xEF, CHR 0xBC, CHR 0x88] @
                                   go_Quote address @ [CHR 0xEF, CHR 0xBC, CHR 0x89] @ '': '' @ err)
               | Inr c \<Rightarrow> Inr (unix (ProxyDialer c)))
         else Inr (unix DefaultDialer))"

text \<open>The states of the connection as the loop sees them: whether the wait for a change ended before the timeout, and
  the state then. The result is whether it is ready; \<open>None\<close> when the loop is still waiting.\<close>

fun wait_ready :: "(bool \<times> string) list \<Rightarrow> bool option" where
  "wait_ready [] = None"
| "wait_ready ((changed, state) # obs) =
     (if \<not> changed then Some False else if state = ''READY'' then Some True else wait_ready obs)"

definition connect ::
  "proxy_env \<Rightarrow> (string \<Rightarrow> dialer \<Rightarrow> string option) \<Rightarrow> (bool \<times> string) list \<Rightarrow> string \<Rightarrow> proxy_options \<Rightarrow>
     (dialer \<times> bool) result option" where
  "connect px dial_error obs address proxyOpts =
     (case connect_dialer px address proxyOpts of
        Inl err \<Rightarrow> Some (Inl err)
      | Inr d \<Rightarrow>
          (case dial_error address d of
             Some err \<Rightarrow> Some (Inl err)
           | None \<Rightarrow> map_option (\<lambda>ready. Inr (d, ready)) (wait_ready obs)))"

section \<open>LVM or SPDK\<close>

datatype commands = LvmCommads | SpdkCommands string

type_synonym nls_answer = "string + spdk_config"

definition newCmd :: "nls_answer \<Rightarrow> commands result" where
  "newCmd answer =
     (case answer of
        Inl err \<Rightarrow> Inl err
      | Inr cfg \<Rightarrow> Inr (if sk_DeviceType cfg \<noteq> [] then SpdkCommands (sk_RpcSocket cfg) else LvmCommads))"

text \<open>The daemon asks once a second, sixty times at most.\<close>

function retrieve :: "(nat \<Rightarrow> nls_answer) \<Rightarrow> nat \<Rightarrow> commands option" where
  "retrieve get retry =
     (case newCmd (get retry) of
        Inr cmd \<Rightarrow> Some cmd
      | Inl _ \<Rightarrow> if 60 \<le> retry + 1 then None else retrieve get (retry + 1))"
  by auto
termination by (relation "measure (\<lambda>(get, retry). 60 - retry)") auto

text \<open>What the daemon serves. Without a configuration the clients are made from nil: \<open>None\<close> is a panic.\<close>

definition daemon_commands :: "bool \<Rightarrow> bool \<Rightarrow> (nat \<Rightarrow> nls_answer) \<Rightarrow> commands option" where
  "daemon_commands in_cluster client_made get =
     (if \<not> in_cluster then None
      else Some (case (if client_made then retrieve get 0 else None) of
                   Some cmd \<Rightarrow> cmd | None \<Rightarrow> LvmCommads))"

text \<open>The node service goes on asking; the socket of the client it makes once the object names a device.\<close>

fun checkSPDKSupport :: "nls_answer list \<Rightarrow> string option" where
  "checkSPDKSupport [] = None"
| "checkSPDKSupport (answer # answers) =
     (case answer of
        Inl _ \<Rightarrow> checkSPDKSupport answers
      | Inr cfg \<Rightarrow> if sk_DeviceType cfg \<noteq> [] then Some (sk_RpcSocket cfg) else checkSPDKSupport answers)"

declare retrieve.simps [simp del]

section \<open>The client of SPDK\<close>

definition DefaultSpdkSocket :: string where "DefaultSpdkSocket = ''/var/tmp/spdk.sock''"
definition DefaultVhostUserStorePath :: string where
  "DefaultVhostUserStorePath = ''/var/run/kata-containers/vhost-user/''"

text \<open>The error of making a directory is only logged. (The error of \<open>stat\<close> is never that of an existing file.)\<close>

definition ensure_dir :: "spdk_host \<Rightarrow> string \<Rightarrow> unit io" where
  "ensure_dir sp dir =
     State_Monad.bind (act (Stat dir) (\<lambda>log. stat_path sp log dir)) (\<lambda>err.
       case err of
         None \<Rightarrow> ret ()
       | Some _ \<Rightarrow> act (MkdirAll dir) (\<lambda>log. let _ = mkdir_all sp log dir in ()))"

text \<open>The socket of the client.\<close>

definition NewSpdkClient :: "spdk_host \<Rightarrow> string \<Rightarrow> string io" where
  "NewSpdkClient sp rpcSocket =
     (let rpcSocket = (if rpcSocket = [] then DefaultSpdkSocket else rpcSocket)
      in State_Monad.bind (ensure_dir sp (DefaultVhostUserStorePath @ ''/block/sockets/'')) (\<lambda>_.
         State_Monad.bind (ensure_dir sp (DefaultVhostUserStorePath @ ''/block/devices/'')) (\<lambda>_.
           ret rpcSocket)))"

section \<open>Mounting a block device\<close>

text \<open>What is at a path, and the errors of the calls: of \<open>lstat\<close> unless the path is missing, of opening, of closing, of removing.
  Opening a directory for writing always fails.\<close>

datatype path_kind = Missing | Directory bool \<comment> \<open>whether it is empty\<close> | File string

type_synonym paths = "string \<Rightarrow> path_kind"

record path_errors =
  lstat_error :: "string \<Rightarrow> string option"
  create_error :: "string \<Rightarrow> string option"
  close_error :: "string \<Rightarrow> string option"
  rm_error :: "string \<Rightarrow> string option"

definition remove_path :: "path_errors \<Rightarrow> string \<Rightarrow> paths \<Rightarrow> paths" where
  "remove_path er target fs = (if fs target = Directory False \<or> rm_error er target \<noteq> None then fs else fs(target := Missing))"

definition open_create :: "path_errors \<Rightarrow> string \<Rightarrow> paths \<Rightarrow> paths \<times> string option" where
  "open_create er target fs =
     (case fs target of
        Directory _ \<Rightarrow> (fs, Some (''open '' @ target @ '': is a directory''))
      | Missing \<Rightarrow> (case create_error er target of
                    Some err \<Rightarrow> (fs, Some err) | None \<Rightarrow> (fs(target := File []), None))
      | File _ \<Rightarrow> (fs, create_error er target))"

definition utils_EnsureBlock :: "path_errors \<Rightarrow> string \<Rightarrow> paths \<Rightarrow> paths \<times> string option" where
  "utils_EnsureBlock er target fs =
     (if fs target \<noteq> Missing \<and> lstat_error er target \<noteq> None then (fs, lstat_error er target)
      else (let fs = (case fs target of Directory _ \<Rightarrow> remove_path er target fs | _ \<Rightarrow> fs)
            in case open_create er target fs of
                 (fs, Some err) \<Rightarrow> (fs, Some (''failed to create block:'' @ target @ '' with error: '' @ err))
               | (fs, None) \<Rightarrow>
                   (fs, map_option (\<lambda>err. ''failed to close targetPath:'' @ target @ '' with error: '' @ err)
                          (close_error er target))))"

text \<open>The arguments of \<open>mount\<close>.\<close>

definition mount_args :: "string \<Rightarrow> string \<Rightarrow> string list \<Rightarrow> string list" where
  "mount_args source target opts = (if 0 < length opts then [''-o'', go_Join opts '',''] else []) @ [source, target]"

text \<open>\<open>mount\<close> yields its output and its error. The target is created, or emptied when it is there.\<close>

definition utils_MountBlock ::
  "path_errors \<Rightarrow> (string list \<Rightarrow> string \<times> string option) \<Rightarrow> string \<Rightarrow> string \<Rightarrow> string list \<Rightarrow> paths \<Rightarrow>
     paths \<times> string option" where
  "utils_MountBlock er mount source target opts fs =
     (if source = [] then (fs, Some ''source is not specified for mounting the volume'')
      else if target = [] then (fs, Some ''target is not specified for mounting the volume'')
      else (case open_create er target fs of
              (fs, Some err) \<Rightarrow> (fs, Some err)
            | (fs, None) \<Rightarrow>
                (let fs = fs(target := File []); args = mount_args source target opts
                 in case mount args of
                      (out, Some err) \<Rightarrow>
                        (fs, Some (''mounting failed: '' @ err @ '' cmd: '' @ [CHR 0x27] @ ''mount '' @ go_Join args '' '' @
                                   [CHR 0x27] @ '' output: '' @ go_Quote out))
                    | (_, None) \<Rightarrow> (fs, None))))"

text \<open>\<open>None\<close> is the error of \<open>stat\<close>; 61440 is the mask of the file type, 24576 that of a block device.\<close>

definition utils_IsBlockDevice :: "(32 word) result \<Rightarrow> bool result" where
  "utils_IsBlockDevice mode =
     (case mode of Inl err \<Rightarrow> Inl err | Inr m \<Rightarrow> Inr (Bit_Operations.and m 61440 = 24576))"

section \<open>Facts\<close>

text \<open>The daemon's commands are those of the first answer among sixty.\<close>

lemma retrieve_from:
  assumes "r \<le> 59"
  shows "retrieve get r =
    (case find (\<lambda>k. \<not> isl (get k)) [r..<60] of
       None \<Rightarrow> None | Some k \<Rightarrow> (case newCmd (get k) of Inl _ \<Rightarrow> None | Inr cmd \<Rightarrow> Some cmd))"
  using assms
proof (induction get r rule: retrieve.induct)
  case (1 get r)
  then have "[r..<60] = r # [r + 1..<60]" by (simp add: upt_conv_Cons)
  with 1 show ?case
    by (cases "get r"; cases "r = 59") (auto simp: retrieve.simps [of get r] retrieve.simps [of get 59] newCmd_def)
qed

theorem retrieve_first:
  "retrieve get 0 =
    (case find (\<lambda>k. \<not> isl (get k)) [0..<60] of
       None \<Rightarrow> None | Some k \<Rightarrow> (case newCmd (get k) of Inl _ \<Rightarrow> None | Inr cmd \<Rightarrow> Some cmd))"
  by (rule retrieve_from) simp

text \<open>When the object is made more than a minute after the daemon started, the daemon serves LVM commands for good
  while the node service beside it uses SPDK.\<close>

lemma checkSPDKSupport_failed: "\<forall>a \<in> set as. isl a \<Longrightarrow> checkSPDKSupport (as @ bs) = checkSPDKSupport bs"
  by (induction as) (auto split: sum.splits)

theorem late_configuration_disagrees:
  assumes "\<forall>k < 60. isl (get k)" "get 60 = Inr cfg" "sk_DeviceType cfg \<noteq> []"
  shows "daemon_commands True made get = Some LvmCommads"
    and "checkSPDKSupport (map get [0..<61]) = Some (sk_RpcSocket cfg)"
proof -
  have "find (\<lambda>k. \<not> isl (get k)) [0..<60] = None" using assms(1) by (auto simp: find_None_iff)
  then show "daemon_commands True made get = Some LvmCommads" by (simp add: daemon_commands_def retrieve_first)
  have "[0..<61] = [0..<60] @ [60]" by (simp flip: upt_Suc_append)
  then have "map get [0..<61] = map get [0..<60] @ [get 60]" by simp
  moreover have "\<forall>a \<in> set (map get [0..<60]). isl a" using assms(1) by auto
  ultimately show "checkSPDKSupport (map get [0..<61]) = Some (sk_RpcSocket cfg)"
    using assms by (simp add: checkSPDKSupport_failed del: upt.simps)
qed

text \<open>Both follow the object when it is there at once.\<close>

theorem early_configuration_agrees:
  assumes "get 0 = Inr cfg"
  shows "daemon_commands True True get = Some (SpdkCommands s) \<longleftrightarrow> checkSPDKSupport [get 0] = Some s"
  using assms by (simp add: daemon_commands_def retrieve.simps [of get 0] newCmd_def)

text \<open>A path is a socket of this machine: the proxy, although it was connected to, is not used.\<close>

theorem unix_ignores_proxy: "HasPrefix address ''/'' \<Longrightarrow> connect_dialer px address opts = Inr d \<Longrightarrow> d = UnixDialer"
  by (auto simp: connect_dialer_def Let_def split: if_splits sum.splits)

text \<open>A connection through \<open>CONNECT\<close> is only handed out when the proxy answered 200 and nothing was lost.\<close>

theorem proxied_connection_clean:
  assumes "connect_dialer px address opts = Inr (ProxyDialer (Connected proxy target))"
  shows "target = address \<and> (\<exists>status. connect_answer px address = Inr (200, status, 0))"
  using assms
  by (auto simp: connect_dialer_def getKonnectivityUDSDialer_def getKonnectivityMTLSDialer_def proxy_tunnel_def
      proxy_connect_def Let_def split: if_splits sum.splits option.splits)

text \<open>Over TLS, no connection is made without the certificate authority.\<close>

theorem mtls_needs_ca:
  assumes "connect_dialer px address opts = Inr (ProxyDialer c)" "px_ProxyUDSName opts = []"
  shows "\<exists>pem. read_pem px (filepath_Clean (px_CACert opts)) = Inr pem \<and> pem_has_cert px pem"
  using assms
  by (auto simp: connect_dialer_def getKonnectivityMTLSDialer_def getClientTLSConfig_def getCACertPool_def Let_def
      split: if_splits sum.splits option.splits)

text \<open>After \<open>EnsureBlock\<close> succeeded there is a file to mount on; what is in it is kept, and a directory that is not empty is
  refused and kept.\<close>

theorem EnsureBlock_file: "utils_EnsureBlock er target fs = (fs', None) \<Longrightarrow> \<exists>s. fs' target = File s"
  by (auto simp: utils_EnsureBlock_def open_create_def remove_path_def Let_def split: path_kind.splits option.splits if_splits)

theorem EnsureBlock_keeps_directory:
  "fs target = Directory False \<Longrightarrow> \<exists>err. utils_EnsureBlock er target fs = (fs, Some err)"
  by (auto simp: utils_EnsureBlock_def open_create_def remove_path_def Let_def split: option.splits)

text \<open>Mounting empties the file at the target, also when \<open>mount\<close> fails.\<close>

theorem mount_empties_target:
  assumes "utils_MountBlock er mount source target opts fs = (fs', r)" "fs target = File s" "create_error er target = None"
    and "source \<noteq> []" "target \<noteq> []"
  shows "fs' target = File []"
  using assms by (auto simp: utils_MountBlock_def open_create_def Let_def split: prod.splits option.splits)

end
