(* ===== verification/Spdk_Codec.thy ===== *)
theory Spdk_Codec
  imports Spdk_Client
begin

text \<open>
  The JSON-RPC connection to the SPDK process, \<open>pkg/utils/spdk/client.go\<close>: a codec for Go's \<open>net/rpc\<close> client, which
  numbers the calls, and whose reader hands every answer to its call until the codec reports an error. What the
  decoder yields for the text on the socket, and whether the encoder can write, are parameters. The codec returns an
  error, which ends the connection, for every answer whose error is not a string.
\<close>

section \<open>The codec\<close>

record clientRequest =
  req_Ver :: string
  req_Id :: uint64
  req_Method :: string

text \<open>A \<open>null\<close> is \<open>None\<close>.\<close>

record clientResponse =
  resp_Id :: uint64
  resp_Result :: "json option"
  resp_Error :: "json option"

record clientCodec =
  codec_resp :: clientResponse
  codec_pending :: "(uint64 \<times> string) list"

text \<open>\<open>rpc.Response\<close>.\<close>

record rpc_response =
  rr_ServiceMethod :: string
  rr_Seq :: uint64
  rr_Error :: string

datatype codec_error =
    DecodeError string
  | InvalidError "json option" \<comment> \<open>\<open>invalid error %v\<close>\<close>

definition reset :: clientResponse where
  "reset = \<lparr>resp_Id = 0, resp_Result = None, resp_Error = None\<rparr>"

definition NewClientCodec :: clientCodec where
  "NewClientCodec = \<lparr>codec_resp = reset, codec_pending = []\<rparr>"

text \<open>The request and, unless they are nil, its parameters are what the encoder is given.\<close>

definition WriteRequest ::
  "uint64 \<Rightarrow> string \<Rightarrow> json option \<Rightarrow> clientCodec \<Rightarrow> clientCodec \<times> clientRequest \<times> json option" where
  "WriteRequest seq method param c =
     (c\<lparr>codec_pending := AList.update seq method (codec_pending c)\<rparr>,
      \<lparr>req_Ver = ''2.0'', req_Id = seq, req_Method = method\<rparr>, param)"

definition ReadResponseHeader ::
  "string + clientResponse \<Rightarrow> clientCodec \<Rightarrow> clientCodec \<times> (codec_error + rpc_response)" where
  "ReadResponseHeader decoded c =
     (case decoded of
        Inl err \<Rightarrow> (c\<lparr>codec_resp := reset\<rparr>, Inl (DecodeError err))
      | Inr resp \<Rightarrow>
          (let method = (case map_of (codec_pending c) (resp_Id resp) of None \<Rightarrow> [] | Some method \<Rightarrow> method);
               c = c\<lparr>codec_resp := resp, codec_pending := AList.delete (resp_Id resp) (codec_pending c)\<rparr>;
               header = (\<lambda>err. \<lparr>rr_ServiceMethod = method, rr_Seq = resp_Id resp, rr_Error = err\<rparr>)
           in (c, if resp_Error resp \<noteq> None \<or> resp_Result resp = None
                  then (case resp_Error resp of
                          Some (JString x) \<Rightarrow> Inr (header (if x = [] then ''unspecified error'' else x))
                        | e \<Rightarrow> Inl (InvalidError e))
                  else Inr (header []))))"

text \<open>Reading the body into nil does nothing. The result is dereferenced otherwise: \<open>None\<close> is a panic.\<close>

definition ReadResponseBody :: "(json \<Rightarrow> string option) \<Rightarrow> bool \<Rightarrow> clientCodec \<Rightarrow> json option result option" where
  "ReadResponseBody unmarshal wanted c =
     (if \<not> wanted then Some (Inr None)
      else (case resp_Result (codec_resp c) of
              None \<Rightarrow> None
            | Some body \<Rightarrow> Some (case unmarshal body of Some err \<Rightarrow> Inl err | None \<Rightarrow> Inr (Some body))))"

section \<open>The client of net/rpc\<close>

datatype call_error =
    CodecError codec_error
  | ServerError string
  | ReadingBody string
  | WriteError string
  | ErrShutdown

text \<open>A call is outstanding under its number, with whether it has a reply to fill; its outcome is an error or the
  value written to the reply.\<close>

record rpc_client =
  rpc_seq :: uint64
  rpc_calls :: "(uint64 \<times> bool) list"
  rpc_codec :: clientCodec
  rpc_shutdown :: bool
  rpc_done :: "(uint64 \<times> (call_error + json option)) list"

definition NewClient :: rpc_client where
  "NewClient = \<lparr>rpc_seq = 0, rpc_calls = [], rpc_codec = NewClientCodec, rpc_shutdown = False, rpc_done = []\<rparr>"

definition rpc_send ::
  "(clientRequest \<Rightarrow> json option \<Rightarrow> string option) \<Rightarrow> string \<Rightarrow> json option \<Rightarrow> bool \<Rightarrow> rpc_client \<Rightarrow>
     rpc_client \<times> call_error option" where
  "rpc_send encode method args wanted c =
     (if rpc_shutdown c then (c, Some ErrShutdown)
      else
        (let seq = rpc_seq c;
             (codec, req, param) = WriteRequest seq method args (rpc_codec c);
             c = c\<lparr>rpc_seq := seq + 1, rpc_calls := AList.update seq wanted (rpc_calls c), rpc_codec := codec\<rparr>
         in case encode req param of
              Some err \<Rightarrow> (c\<lparr>rpc_calls := AList.delete seq (rpc_calls c)\<rparr>, Some (WriteError err))
            | None \<Rightarrow> (c, None)))"

text \<open>The reader stops: every outstanding call ends with the error.\<close>

definition rpc_terminate :: "call_error \<Rightarrow> rpc_client \<Rightarrow> rpc_client" where
  "rpc_terminate err c =
     c\<lparr>rpc_shutdown := True, rpc_calls := [], rpc_done := rpc_done c @ map (\<lambda>(seq, _). (seq, Inl err)) (rpc_calls c)\<rparr>"

text \<open>One round of the reader. Nobody waits for an answer without a call; its body is not read.\<close>

definition rpc_input ::
  "(json \<Rightarrow> string option) \<Rightarrow> string + clientResponse \<Rightarrow> rpc_client \<Rightarrow> rpc_client option" where
  "rpc_input unmarshal decoded c =
     (if rpc_shutdown c then Some c
      else
        (case ReadResponseHeader decoded (rpc_codec c) of
           (codec, Inl err) \<Rightarrow> Some (rpc_terminate (CodecError err) (c\<lparr>rpc_codec := codec\<rparr>))
         | (codec, Inr response) \<Rightarrow>
             (let seq = rr_Seq response; call = map_of (rpc_calls c) seq;
                  c = c\<lparr>rpc_codec := codec, rpc_calls := AList.delete seq (rpc_calls c)\<rparr>
              in case call of
                   None \<Rightarrow> Some c
                 | Some wanted \<Rightarrow>
                     if rr_Error response \<noteq> []
                     then Some (c\<lparr>rpc_done := rpc_done c @ [(seq, Inl (ServerError (rr_Error response)))]\<rparr>)
                     else (case ReadResponseBody unmarshal wanted codec of
                             None \<Rightarrow> None
                           | Some (Inr reply) \<Rightarrow> Some (c\<lparr>rpc_done := rpc_done c @ [(seq, Inr reply)]\<rparr>)
                           | Some (Inl err) \<Rightarrow>
                               Some (rpc_terminate (ReadingBody err)
                                 (c\<lparr>rpc_done := rpc_done c @ [(seq, Inl (ReadingBody err))]\<rparr>))))))"

text \<open>Requests and answers in the order they meet the client.\<close>

inductive connection ::
  "(clientRequest \<Rightarrow> json option \<Rightarrow> string option) \<Rightarrow> (json \<Rightarrow> string option) \<Rightarrow> rpc_client \<Rightarrow> bool"
  for encode unmarshal where
  opened: "connection encode unmarshal NewClient"
| request: "connection encode unmarshal c \<Longrightarrow>
     connection encode unmarshal (fst (rpc_send encode method args wanted c))"
| answer: "connection encode unmarshal c \<Longrightarrow> rpc_input unmarshal decoded c = Some c' \<Longrightarrow>
     connection encode unmarshal c'"

section \<open>Facts\<close>

lemma ReadResponseHeader_result:
  assumes "ReadResponseHeader decoded c = (c', Inr r)" "rr_Error r = []"
  shows "resp_Result (codec_resp c') \<noteq> None"
  using assms
  by (auto simp: ReadResponseHeader_def Let_def split: sum.splits if_splits option.splits json.splits)

text \<open>The body is only read when there is one: the reader does not panic.\<close>

lemma body_read:
  "ReadResponseHeader decoded c = (c', Inr r) \<Longrightarrow> rr_Error r = [] \<Longrightarrow> ReadResponseBody unmarshal wanted c' \<noteq> None"
  using ReadResponseHeader_result by (fastforce simp: ReadResponseBody_def)

theorem rpc_input_total: "rpc_input unmarshal decoded c \<noteq> None"
proof -
  obtain codec r where h: "ReadResponseHeader decoded (rpc_codec c) = (codec, r)" by fastforce
  show ?thesis
  proof (cases r)
    case (Inl err)
    with h show ?thesis by (simp add: rpc_input_def)
  next
    case (Inr response)
    with h have "ReadResponseBody unmarshal wanted codec \<noteq> None" if "rr_Error response = []" for wanted
      using that body_read by blast
    with h Inr show ?thesis by (auto simp: rpc_input_def Let_def split: option.split sum.split) (metis option.distinct(1))
  qed
qed

text \<open>The method of every outstanding call is known to the codec.\<close>

definition calls_known :: "rpc_client \<Rightarrow> bool" where
  "calls_known c \<longleftrightarrow>
     (\<forall>seq. map_of (rpc_calls c) seq \<noteq> None \<longrightarrow> map_of (codec_pending (rpc_codec c)) seq \<noteq> None)"

lemma calls_knownD:
  "\<lbrakk>calls_known c; map_of (rpc_calls c) seq = Some w\<rbrakk> \<Longrightarrow> \<exists>m. map_of (codec_pending (rpc_codec c)) seq = Some m"
  by (auto simp: calls_known_def)

lemma rpc_send_known: "calls_known c \<Longrightarrow> calls_known (fst (rpc_send encode method args wanted c))"
  by (simp add: calls_known_def rpc_send_def WriteRequest_def Let_def delete_conv' update_conv' split: option.split)

lemma ReadResponseHeader_pending:
  "ReadResponseHeader decoded c = (c', Inr r) \<Longrightarrow> codec_pending c' = AList.delete (rr_Seq r) (codec_pending c)"
  by (auto simp: ReadResponseHeader_def Let_def split: sum.splits if_splits option.splits json.splits)

lemma rpc_input_known:
  assumes "calls_known c" "rpc_input unmarshal decoded c = Some c'"
  shows "calls_known c'"
proof (cases "rpc_shutdown c")
  case True
  with assms show ?thesis by (simp add: rpc_input_def)
next
  case False
  obtain codec r where h: "ReadResponseHeader decoded (rpc_codec c) = (codec, r)" by fastforce
  show ?thesis
  proof (cases r)
    case (Inl err)
    with assms h False show ?thesis by (auto simp: rpc_input_def calls_known_def rpc_terminate_def)
  next
    case (Inr response)
    with h have "codec_pending codec = AList.delete (rr_Seq response) (codec_pending (rpc_codec c))"
      by (auto dest: ReadResponseHeader_pending)
    with assms h False Inr show ?thesis
      by (auto simp: rpc_input_def calls_known_def rpc_terminate_def Let_def delete_conv'
          split: option.splits if_splits sum.splits)
  qed
qed

theorem connection_known: "connection encode unmarshal c \<Longrightarrow> calls_known c"
proof (induction rule: connection.induct)
  case opened
  then show ?case by (simp add: calls_known_def NewClient_def)
qed (auto intro: rpc_send_known rpc_input_known)

text \<open>An answer with a result ends its own call with it and leaves the others.\<close>

theorem answer_reaches_call:
  assumes "\<not> rpc_shutdown c" "map_of (rpc_calls c) seq = Some True" "unmarshal body = None"
    and "rpc_input unmarshal (Inr \<lparr>resp_Id = seq, resp_Result = Some body, resp_Error = None\<rparr>) c = Some c'"
  shows "rpc_done c' = rpc_done c @ [(seq, Inr (Some body))] \<and> rpc_calls c' = AList.delete seq (rpc_calls c) \<and>
    \<not> rpc_shutdown c'"
  using assms by (auto simp: rpc_input_def ReadResponseHeader_def ReadResponseBody_def Let_def)

text \<open>An answer whose error is not a string, as the objects JSON-RPC 2.0 prescribes, or that has a \<open>null\<close> result and
  no error, ends the connection: every outstanding call ends with an invalid error, and every later one is refused.\<close>

definition ends_connection :: "clientResponse \<Rightarrow> bool" where
  "ends_connection resp \<longleftrightarrow>
     (case resp_Error resp of None \<Rightarrow> resp_Result resp = None | Some (JString _) \<Rightarrow> False | Some _ \<Rightarrow> True)"

theorem error_object_ends_connection:
  assumes "\<not> rpc_shutdown c" "ends_connection resp" "rpc_input unmarshal (Inr resp) c = Some c'"
  shows "rpc_done c' = rpc_done c @ map (\<lambda>(seq, _). (seq, Inl (CodecError (InvalidError (resp_Error resp))))) (rpc_calls c)"
    and "rpc_send encode method args wanted c' = (c', Some ErrShutdown)"
  using assms
  by (auto simp: rpc_input_def ReadResponseHeader_def rpc_terminate_def rpc_send_def ends_connection_def Let_def
      split: option.splits json.splits if_splits)

text \<open>An error given as a string reaches its call, and the connection goes on.\<close>

theorem error_string_reaches_call:
  assumes "\<not> rpc_shutdown c" "map_of (rpc_calls c) seq = Some wanted" "x \<noteq> []"
    and "rpc_input unmarshal (Inr \<lparr>resp_Id = seq, resp_Result = r, resp_Error = Some (JString x)\<rparr>) c = Some c'"
  shows "rpc_done c' = rpc_done c @ [(seq, Inl (ServerError x))] \<and> \<not> rpc_shutdown c'"
  using assms by (auto simp: rpc_input_def ReadResponseHeader_def Let_def)

text \<open>A request that cannot be written leaves its method in the codec's map.\<close>

lemma failed_write_stays:
  assumes "\<not> rpc_shutdown c" "encode \<lparr>req_Ver = ''2.0'', req_Id = rpc_seq c, req_Method = method\<rparr> args = Some err"
  shows "map_of (codec_pending (rpc_codec (fst (rpc_send encode method args wanted c)))) (rpc_seq c) = Some method"
  using assms by (simp add: rpc_send_def WriteRequest_def Let_def update_conv')

end
