(* ===== verification/Lvm_Attributes.thy ===== *)
theory Lvm_Attributes
  imports Lvm_Parser
begin

text \<open>
  The letters LVM prints for the attributes of a logical volume, the constants of \<open>pkg/csi/lib/parser.go\<close>, and the
  numbers the protocol has for what they mean (the enumerations of \<open>lvm.pb.go\<close>). \<open>toProto\<close> computes the number from the
  place of the letter in a table of its own, so that letters, table and protocol have to agree.
\<close>

section \<open>Letters and numbers\<close>

datatype VolumeType_const =
    VolumeTypeMirrored | VolumeTypeMirroredWithoutSync | VolumeTypeOrigin | VolumeTypeOriginWithMergingSnapshot
   | VolumeTypeRAID | VolumeTypeRAIDWithoutSync | VolumeTypeSnapshot | VolumeTypeMergingSnapshot
   | VolumeTypePVMove | VolumeTypeVirtualMirror | VolumeTypeVirtualRaidImage | VolumeTypeRaidImageOutOfSync
   | VolumeTypeMirrorLog | VolumeTypeUnderConversion | VolumeTypeThin | VolumeTypeThinPool
   | VolumeTypeThinPoolData | VolumeTypeRaidOrThinPoolMetadata

fun type_letter :: "VolumeType_const \<Rightarrow> char" where
  "type_letter VolumeTypeMirrored = CHR ''m''"
| "type_letter VolumeTypeMirroredWithoutSync = CHR ''M''"
| "type_letter VolumeTypeOrigin = CHR ''o''"
| "type_letter VolumeTypeOriginWithMergingSnapshot = CHR ''O''"
| "type_letter VolumeTypeRAID = CHR ''r''"
| "type_letter VolumeTypeRAIDWithoutSync = CHR ''R''"
| "type_letter VolumeTypeSnapshot = CHR ''s''"
| "type_letter VolumeTypeMergingSnapshot = CHR ''S''"
| "type_letter VolumeTypePVMove = CHR ''p''"
| "type_letter VolumeTypeVirtualMirror = CHR ''v''"
| "type_letter VolumeTypeVirtualRaidImage = CHR ''i''"
| "type_letter VolumeTypeRaidImageOutOfSync = CHR ''I''"
| "type_letter VolumeTypeMirrorLog = CHR ''l''"
| "type_letter VolumeTypeUnderConversion = CHR ''c''"
| "type_letter VolumeTypeThin = CHR ''V''"
| "type_letter VolumeTypeThinPool = CHR ''t''"
| "type_letter VolumeTypeThinPoolData = CHR ''T''"
| "type_letter VolumeTypeRaidOrThinPoolMetadata = CHR ''e''"

text \<open>The numbers of \<open>LogicalVolume_Attributes_Type\<close>; 0 is the malformed one.\<close>

fun type_number :: "VolumeType_const \<Rightarrow> nat" where
  "type_number VolumeTypeMirrored = 1" \<comment> \<open>\<open>MIRRORED\<close>\<close>
| "type_number VolumeTypeMirroredWithoutSync = 2" \<comment> \<open>\<open>MIRRORED_WITHOUT_SYNC\<close>\<close>
| "type_number VolumeTypeOrigin = 3" \<comment> \<open>\<open>ORIGIN\<close>\<close>
| "type_number VolumeTypeOriginWithMergingSnapshot = 4" \<comment> \<open>\<open>ORIGIN_WITH_MERGING_SNAPSHOT\<close>\<close>
| "type_number VolumeTypeRAID = 5" \<comment> \<open>\<open>RAID\<close>\<close>
| "type_number VolumeTypeRAIDWithoutSync = 6" \<comment> \<open>\<open>RAID_WITHOUT_SYNC\<close>\<close>
| "type_number VolumeTypeSnapshot = 7" \<comment> \<open>\<open>SNAPSHOT\<close>\<close>
| "type_number VolumeTypeMergingSnapshot = 8" \<comment> \<open>\<open>MERGING_SNAPSHOT\<close>\<close>
| "type_number VolumeTypePVMove = 9" \<comment> \<open>\<open>PV_MOVE\<close>\<close>
| "type_number VolumeTypeVirtualMirror = 10" \<comment> \<open>\<open>VIRTUAL_MIRROR\<close>\<close>
| "type_number VolumeTypeVirtualRaidImage = 11" \<comment> \<open>\<open>VIRTUAL_RAID_IMAGE\<close>\<close>
| "type_number VolumeTypeRaidImageOutOfSync = 12" \<comment> \<open>\<open>RAID_IMAGE_OUT_OF_SYNC\<close>\<close>
| "type_number VolumeTypeMirrorLog = 13" \<comment> \<open>\<open>MIRROR_LOG\<close>\<close>
| "type_number VolumeTypeUnderConversion = 14" \<comment> \<open>\<open>UNDER_CONVERSION\<close>\<close>
| "type_number VolumeTypeThin = 15" \<comment> \<open>\<open>THIN\<close>\<close>
| "type_number VolumeTypeThinPool = 16" \<comment> \<open>\<open>THIN_POOL\<close>\<close>
| "type_number VolumeTypeThinPoolData = 17" \<comment> \<open>\<open>THIN_POOL_DATA\<close>\<close>
| "type_number VolumeTypeRaidOrThinPoolMetadata = 18" \<comment> \<open>\<open>RAID_OR_THIN_POOL_METADATA\<close>\<close>

datatype VolumePermissions_const =
    VolumePermissionsWriteable | VolumePermissionsReadOnly | VolumePermissionsReadOnlyActivation

fun permissions_letter :: "VolumePermissions_const \<Rightarrow> char" where
  "permissions_letter VolumePermissionsWriteable = CHR ''w''"
| "permissions_letter VolumePermissionsReadOnly = CHR ''r''"
| "permissions_letter VolumePermissionsReadOnlyActivation = CHR ''R''"

text \<open>The numbers of \<open>LogicalVolume_Attributes_Permissions\<close>; 0 is the malformed one.\<close>

fun permissions_number :: "VolumePermissions_const \<Rightarrow> nat" where
  "permissions_number VolumePermissionsWriteable = 1" \<comment> \<open>\<open>WRITEABLE\<close>\<close>
| "permissions_number VolumePermissionsReadOnly = 2" \<comment> \<open>\<open>READ_ONLY\<close>\<close>
| "permissions_number VolumePermissionsReadOnlyActivation = 3" \<comment> \<open>\<open>READ_ONLY_ACTIVATION\<close>\<close>

datatype VolumeAllocation_const =
    VolumeAllocationAnywhere | VolumeAllocationContiguous | VolumeAllocationInherited | VolumeAllocationCling
   | VolumeAllocationNormal | VolumeAllocationAnywhereLocked | VolumeAllocationContiguousLocked
   | VolumeAllocationInheritedLocked | VolumeAllocationClingLocked | VolumeAllocationNormalLocked

fun allocation_letter :: "VolumeAllocation_const \<Rightarrow> char" where
  "allocation_letter VolumeAllocationAnywhere = CHR ''a''"
| "allocation_letter VolumeAllocationContiguous = CHR ''c''"
| "allocation_letter VolumeAllocationInherited = CHR ''i''"
| "allocation_letter VolumeAllocationCling = CHR ''l''"
| "allocation_letter VolumeAllocationNormal = CHR ''n''"
| "allocation_letter VolumeAllocationAnywhereLocked = CHR ''A''"
| "allocation_letter VolumeAllocationContiguousLocked = CHR ''C''"
| "allocation_letter VolumeAllocationInheritedLocked = CHR ''I''"
| "allocation_letter VolumeAllocationClingLocked = CHR ''L''"
| "allocation_letter VolumeAllocationNormalLocked = CHR ''N''"

text \<open>The numbers of \<open>LogicalVolume_Attributes_Allocation\<close>; 0 is the malformed one.\<close>

fun allocation_number :: "VolumeAllocation_const \<Rightarrow> nat" where
  "allocation_number VolumeAllocationAnywhere = 1" \<comment> \<open>\<open>ANYWHERE\<close>\<close>
| "allocation_number VolumeAllocationContiguous = 2" \<comment> \<open>\<open>CONTIGUOUS\<close>\<close>
| "allocation_number VolumeAllocationInherited = 3" \<comment> \<open>\<open>INHERITED\<close>\<close>
| "allocation_number VolumeAllocationCling = 4" \<comment> \<open>\<open>CLING\<close>\<close>
| "allocation_number VolumeAllocationNormal = 5" \<comment> \<open>\<open>NORMAL\<close>\<close>
| "allocation_number VolumeAllocationAnywhereLocked = 6" \<comment> \<open>\<open>ANYWHERE_LOCKED\<close>\<close>
| "allocation_number VolumeAllocationContiguousLocked = 7" \<comment> \<open>\<open>CONTIGUOUS_LOCKED\<close>\<close>
| "allocation_number VolumeAllocationInheritedLocked = 8" \<comment> \<open>\<open>INHERITED_LOCKED\<close>\<close>
| "allocation_number VolumeAllocationClingLocked = 9" \<comment> \<open>\<open>CLING_LOCKED\<close>\<close>
| "allocation_number VolumeAllocationNormalLocked = 10" \<comment> \<open>\<open>NORMAL_LOCKED\<close>\<close>

datatype VolumeState_const =
    VolumeStateActive | VolumeStateSuspended | VolumeStateInvalidSnapshot | VolumeStateInvalidSuspendedSnapshot
   | VolumeStateSnapshotMergeFailed | VolumeStateSuspendedSnapshotMergeFailed
   | VolumeStateMappedDevicePresentWithoutTables | VolumeStateMappedDevicePresentWithInactiveTable

fun state_letter :: "VolumeState_const \<Rightarrow> char" where
  "state_letter VolumeStateActive = CHR ''a''"
| "state_letter VolumeStateSuspended = CHR ''s''"
| "state_letter VolumeStateInvalidSnapshot = CHR ''I''"
| "state_letter VolumeStateInvalidSuspendedSnapshot = CHR ''S''"
| "state_letter VolumeStateSnapshotMergeFailed = CHR ''m''"
| "state_letter VolumeStateSuspendedSnapshotMergeFailed = CHR ''M''"
| "state_letter VolumeStateMappedDevicePresentWithoutTables = CHR ''d''"
| "state_letter VolumeStateMappedDevicePresentWithInactiveTable = CHR ''i''"

text \<open>The numbers of \<open>LogicalVolume_Attributes_State\<close>; 0 is the malformed one.\<close>

fun state_number :: "VolumeState_const \<Rightarrow> nat" where
  "state_number VolumeStateActive = 1" \<comment> \<open>\<open>ACTIVE\<close>\<close>
| "state_number VolumeStateSuspended = 2" \<comment> \<open>\<open>SUSPENDED\<close>\<close>
| "state_number VolumeStateInvalidSnapshot = 3" \<comment> \<open>\<open>INVALID_SNAPSHOT\<close>\<close>
| "state_number VolumeStateInvalidSuspendedSnapshot = 4" \<comment> \<open>\<open>INVALID_SUSPENDED_SNAPSHOT\<close>\<close>
| "state_number VolumeStateSnapshotMergeFailed = 5" \<comment> \<open>\<open>SNAPSHOT_MERGE_FAILED\<close>\<close>
| "state_number VolumeStateSuspendedSnapshotMergeFailed = 6" \<comment> \<open>\<open>SUSPENDED_SNAPSHOT_MERGE_FAILED\<close>\<close>
| "state_number VolumeStateMappedDevicePresentWithoutTables = 7" \<comment> \<open>\<open>MAPPED_DEVICE_PRESENT_WITHOUT_TABLES\<close>\<close>
| "state_number VolumeStateMappedDevicePresentWithInactiveTable = 8" \<comment> \<open>\<open>MAPPED_DEVICE_PRESENT_WITH_INACTIVE_TABLE\<close>\<close>

datatype VolumeTargetType_const =
    VolumeTargetTypeMirror | VolumeTargetTypeRAID | VolumeTargetTypeSnapshot | VolumeTargetTypeThin
   | VolumeTargetTypeUnknown | VolumeTargetTypeVirtual

fun target_letter :: "VolumeTargetType_const \<Rightarrow> char" where
  "target_letter VolumeTargetTypeMirror = CHR ''m''"
| "target_letter VolumeTargetTypeRAID = CHR ''r''"
| "target_letter VolumeTargetTypeSnapshot = CHR ''s''"
| "target_letter VolumeTargetTypeThin = CHR ''t''"
| "target_letter VolumeTargetTypeUnknown = CHR ''u''"
| "target_letter VolumeTargetTypeVirtual = CHR ''v''"

text \<open>The numbers of \<open>LogicalVolume_Attributes_TargetType\<close>; 0 is the malformed one.\<close>

fun target_number :: "VolumeTargetType_const \<Rightarrow> nat" where
  "target_number VolumeTargetTypeMirror = 1" \<comment> \<open>\<open>MIRROR_TARGET\<close>\<close>
| "target_number VolumeTargetTypeRAID = 2" \<comment> \<open>\<open>RAID_TARGET\<close>\<close>
| "target_number VolumeTargetTypeSnapshot = 3" \<comment> \<open>\<open>SNAPSHOT_TARGET\<close>\<close>
| "target_number VolumeTargetTypeThin = 4" \<comment> \<open>\<open>THIN_TARGET\<close>\<close>
| "target_number VolumeTargetTypeUnknown = 5" \<comment> \<open>\<open>UNKNOWN_TARGET\<close>\<close>
| "target_number VolumeTargetTypeVirtual = 6" \<comment> \<open>\<open>VIRTUAL_TARGET\<close>\<close>

datatype VolumeHealth_const =
    VolumeHealthOK | VolumeHealthPartial | VolumeHealthRefreshNeeded | VolumeHealthMismatchesExist
   | VolumeHealthWritemostly

fun health_letter :: "VolumeHealth_const \<Rightarrow> char" where
  "health_letter VolumeHealthOK = CHR ''-''"
| "health_letter VolumeHealthPartial = CHR ''p''"
| "health_letter VolumeHealthRefreshNeeded = CHR ''r''"
| "health_letter VolumeHealthMismatchesExist = CHR ''m''"
| "health_letter VolumeHealthWritemostly = CHR ''w''"

text \<open>The numbers of \<open>LogicalVolume_Attributes_Health\<close>; 0 is the malformed one.\<close>

fun health_number :: "VolumeHealth_const \<Rightarrow> nat" where
  "health_number VolumeHealthOK = 1" \<comment> \<open>\<open>OK\<close>\<close>
| "health_number VolumeHealthPartial = 2" \<comment> \<open>\<open>PARTIAL\<close>\<close>
| "health_number VolumeHealthRefreshNeeded = 3" \<comment> \<open>\<open>REFRESH_NEEDED\<close>\<close>
| "health_number VolumeHealthMismatchesExist = 4" \<comment> \<open>\<open>MISMATCHES_EXIST\<close>\<close>
| "health_number VolumeHealthWritemostly = 5" \<comment> \<open>\<open>WRITEMOSTLY\<close>\<close>

section \<open>What is sent\<close>

lemmas to_proto_defs = to_proto_def IndexByte_def Let_def

theorem type_sent: "VolumeType_toProto (type_letter t) = type_number t"
  by (cases t) (simp_all add: VolumeType_toProto_def volumeTypeKeys_def to_proto_defs)

theorem permissions_sent: "VolumePermissions_toProto (permissions_letter p) = permissions_number p"
  by (cases p) (simp_all add: VolumePermissions_toProto_def volumePermissonsKeys_def to_proto_defs)

theorem allocation_sent: "VolumeAllocation_toProto (allocation_letter a) = allocation_number a"
  by (cases a) (simp_all add: VolumeAllocation_toProto_def volumeAllocationKeys_def to_proto_defs)

theorem state_sent: "VolumeState_toProto (state_letter s) = state_number s"
  by (cases s) (simp_all add: VolumeState_toProto_def volumeStateKeys_def to_proto_defs)

theorem target_sent: "VolumeTargetType_toProto (target_letter t) = target_number t"
  by (cases t) (simp_all add: VolumeTargetType_toProto_def volumeTargetTypeKeys_def to_proto_defs)

text \<open>No state of health is sent as what it is: it is looked up among the target types. A volume with mismatches is sent as
  healthy, one that needs a refresh as partial, and a healthy one as malformed.\<close>

theorem health_never_sent: "VolumeHealth_toProto (health_letter h) \<noteq> health_number h"
  by (cases h) (simp_all add: VolumeHealth_toProto_def volumeTargetTypeKeys_def to_proto_defs)

theorem mismatches_sent_as_ok:
  "VolumeHealth_toProto (health_letter VolumeHealthMismatchesExist) = health_number VolumeHealthOK"
  by (simp add: VolumeHealth_toProto_def volumeTargetTypeKeys_def to_proto_defs)

theorem healthy_sent_as_malformed: "VolumeHealth_toProto (health_letter VolumeHealthOK) = 0"
  by (simp add: VolumeHealth_toProto_def volumeTargetTypeKeys_def to_proto_defs)

text \<open>The two-letter attributes.\<close>

definition VolumeFixedMinorEnabled :: char where "VolumeFixedMinorEnabled = CHR ''m''"
definition VolumeFixedMinorDisabled :: char where "VolumeFixedMinorDisabled = CHR ''-''"
definition VolumeOpenIsOpen :: char where "VolumeOpenIsOpen = CHR ''o''"
definition VolumeOpenIsNotOpen :: char where "VolumeOpenIsNotOpen = CHR ''-''"
definition VolumeZeroingIsZeroing :: char where "VolumeZeroingIsZeroing = CHR ''z''"
definition VolumeZeroingIsNonZeroing :: char where "VolumeZeroingIsNonZeroing = CHR ''-''"
definition VolumeActivationSkippedIsSkipped :: char where "VolumeActivationSkippedIsSkipped = CHR ''s''"
definition VolumeActivationSkippedIsNotSkipped :: char where "VolumeActivationSkippedIsNotSkipped = CHR ''-''"

theorem flags_sent:
  "VolumeFixedMinor_toProto VolumeFixedMinorEnabled \<and> \<not> VolumeFixedMinor_toProto VolumeFixedMinorDisabled"
  "VolumeOpen_toProto VolumeOpenIsOpen \<and> \<not> VolumeOpen_toProto VolumeOpenIsNotOpen"
  "VolumeZeroing_toProto VolumeZeroingIsZeroing \<and> \<not> VolumeZeroing_toProto VolumeZeroingIsNonZeroing"
  "VolumeActivationSkipped_toProto VolumeActivationSkippedIsSkipped \<and>
    \<not> VolumeActivationSkipped_toProto VolumeActivationSkippedIsNotSkipped"
  by (simp_all add: VolumeFixedMinor_toProto_def VolumeFixedMinorEnabled_def VolumeFixedMinorDisabled_def
      VolumeOpen_toProto_def VolumeOpenIsOpen_def VolumeOpenIsNotOpen_def VolumeZeroing_toProto_def
      VolumeZeroingIsZeroing_def VolumeZeroingIsNonZeroing_def VolumeActivationSkipped_toProto_def
      VolumeActivationSkippedIsSkipped_def VolumeActivationSkippedIsNotSkipped_def)

end
