(* ===== verification/Startup.thy ===== *)
theory Startup
  imports Cache_System Anti_Affinity Agent_Discovery Node_State
begin

text \<open>
  What the programs make of their settings when they start: the arguments of the scheduler plugin
  (\<open>pkg/scheduling-framework/plugin.go\<close>), the options of the scheduler extender (\<open>cmd/scheduler\<close>) and of the agent
  (\<open>cmd/agent\<close>, \<open>pkg/agent/controller\<close>), and the jobs of the controller (\<open>pkg/controller\<close>). Making a client may fail, which
  is a parameter.
\<close>

section \<open>The scheduler plugin\<close>

record OpenLocalArg =
  ola_KubeConfigPath :: string
  ola_SchedulerStrategy :: string
  ola_NodeAntiAffinityConf :: string

text \<open>\<open>None\<close> is a nil configuration, \<open>Other\<close> one of another type, and \<open>Unknown\<close> holds what the decoder makes of it.\<close>

datatype configuration = Unknown "OpenLocalArg result" | Other string

definition decode_args :: "configuration option \<Rightarrow> OpenLocalArg result" where
  "decode_args configuration =
     (case configuration of
        None \<Rightarrow> Inr \<lparr>ola_KubeConfigPath = [], ola_SchedulerStrategy = [], ola_NodeAntiAffinityConf = []\<rparr>
      | Some (Other ty) \<Rightarrow> Inl (''want args to be of type *runtime.Unknown, got '' @ ty)
      | Some (Unknown decoded) \<Rightarrow> decoded)"

definition getStrategyType :: "string \<Rightarrow> StrategyType" where
  "getStrategyType strategy =
     (if strategy = StrategyBinpack then StrategyBinpack
      else if strategy = StrategySpread then StrategySpread
      else StrategyBinpack)"

text \<open>The scorer has the strategy and the weights.\<close>

record LocalPlugin =
  lp_strategy :: StrategyType
  lp_nodeAntiAffinityWeight :: NodeAntiAffinityWeight
  lp_cache :: NodeStorageAllocatedCache

datatype start_error = Text string | Weights go_error

definition NewLocalPluginWithKubeconfig ::
  "(string \<Rightarrow> string option) \<Rightarrow> configuration option \<Rightarrow> start_error + LocalPlugin" where
  "NewLocalPluginWithKubeconfig client_error configuration =
     (case decode_args configuration of
        Inl err \<Rightarrow> Inl (Text err)
      | Inr args \<Rightarrow>
          (case ParseWeight (ola_NodeAntiAffinityConf args) of
             Inl err \<Rightarrow> Inl (Weights err)
           | Inr nodeAntiAffinityWeight \<Rightarrow>
               (case client_error ''local'' of
                  Some err \<Rightarrow> Inl (Text (''error building yoda clientset: '' @ err))
                | None \<Rightarrow>
                    (case client_error ''snapshot'' of
                       Some err \<Rightarrow> Inl (Text (''error building snapshot clientset: '' @ err))
                     | None \<Rightarrow>
                         (let strategyType = getStrategyType (ola_SchedulerStrategy args)
                          in Inr \<lparr>lp_strategy = strategyType, lp_nodeAntiAffinityWeight = nodeAntiAffinityWeight,
                                  lp_cache = NewNodeStorageAllocatedCache strategyType\<rparr>)))))"

definition NewLocalPlugin ::
  "(string \<Rightarrow> string option) \<Rightarrow> (string \<Rightarrow> string option) \<Rightarrow> configuration option \<Rightarrow> start_error + LocalPlugin" where
  "NewLocalPlugin kubeconfig_error client_error configuration =
     (case decode_args configuration of
        Inl err \<Rightarrow> Inl (Text err)
      | Inr args \<Rightarrow>
          (case kubeconfig_error (ola_KubeConfigPath args) of
             Some err \<Rightarrow> Inl (Text (''error building kubeconfig: '' @ err))
           | None \<Rightarrow> NewLocalPluginWithKubeconfig client_error configuration))"

section \<open>The scheduler extender\<close>

record extenderOption =
  eo_Port :: "32 word"
  eo_EnabledNodeAntiAffinity :: string
  eo_Strategy :: string

definition extender_ParseWeight :: "extenderOption \<Rightarrow> go_error + NodeAntiAffinityWeight" where
  "extender_ParseWeight opts = ParseWeight (eo_EnabledNodeAntiAffinity opts)"

text \<open>The strategy is a variable of the package.\<close>

definition ParseStrategy :: "extenderOption \<Rightarrow> StrategyType \<Rightarrow> StrategyType \<times> string option" where
  "ParseStrategy opts SchedulerStrategy =
     (if eo_Strategy opts = ''binpack'' then (StrategyBinpack, None)
      else if eo_Strategy opts = ''spread'' then (StrategySpread, None)
      else (SchedulerStrategy,
            Some ''Scheduler strategy parameter may be wrong. You can set one of those: binpack or spread''))"

text \<open>What the extender runs with: the strategy, the weights, and whether it serves HTTP.\<close>

definition extender_Run ::
  "(string \<Rightarrow> string option) \<Rightarrow> extenderOption \<Rightarrow> StrategyType \<Rightarrow>
     start_error + StrategyType \<times> NodeAntiAffinityWeight \<times> bool" where
  "extender_Run client_error opts SchedulerStrategy =
     (case extender_ParseWeight opts of
        Inl err \<Rightarrow> Inl (Weights err)
      | Inr weights \<Rightarrow>
          (case ParseStrategy opts SchedulerStrategy of
             (_, Some err) \<Rightarrow> Inl (Text err)
           | (strategy, None) \<Rightarrow>
               (case client_error ''kubeconfig'' of
                  Some err \<Rightarrow> Inl (Text (''error building kubeconfig: '' @ err))
                | None \<Rightarrow>
                    (case client_error ''kubernetes'' of
                       Some err \<Rightarrow> Inl (Text (''error building kubernetes clientset: '' @ err))
                     | None \<Rightarrow>
                         (case client_error ''local'' of
                            Some err \<Rightarrow> Inl (Text (''error building open-local clientset: '' @ err))
                          | None \<Rightarrow>
                              (case client_error ''snapshot'' of
                                 Some err \<Rightarrow> Inl (Text (''fail to create snapshot clientset: '' @ err))
                               | None \<Rightarrow> Inr (strategy, weights, 0 <s eo_Port opts)))))))"

section \<open>The agent\<close>

record agentOption =
  ao_NodeName :: string
  ao_SysPath :: string
  ao_MountPath :: string
  ao_Interval :: int64
  ao_LVNamePrefix :: string
  ao_RegExp :: string

text \<open>The configuration of the discovery, with the name of the node and the period in seconds.\<close>

record Configuration = agent_config +
  cf_Nodename :: string
  cf_DiscoverInterval :: int64

definition getAgentConfig :: "agentOption \<Rightarrow> Configuration" where
  "getAgentConfig opts =
     \<lparr>ac_SysPath = ao_SysPath opts, ac_MountPath = ao_MountPath opts,
      ac_LogicalVolumeNamePrefix = ao_LVNamePrefix opts, ac_RegExp = ao_RegExp opts,
      cf_Nodename = ao_NodeName opts, cf_DiscoverInterval = ao_Interval opts\<rparr>"

text \<open>The jobs of the agent with their periods in seconds, those that run when \<open>Run\<close> returns an error too.\<close>

datatype job = Discover int64 | AddInitResource int64 int64 | RunWorker int64 | ExpandSnapshots int64

definition agent_Run :: "bool \<Rightarrow> string \<Rightarrow> Configuration \<Rightarrow> job list \<times> string option" where
  "agent_Run synced environment config =
     (if \<not> synced then ([], Some ''failed to wait for caches to sync'')
      else (let interval = cf_DiscoverInterval config;
                jobs = [Discover interval, AddInitResource interval (30 * interval), RunWorker 1]
            in if environment = [] then (jobs @ [ExpandSnapshots interval], None)
               else (case ParseInt64 environment of
                       Inl err \<Rightarrow> (jobs, Some err)
                     | Inr expandSnapInterval \<Rightarrow> (jobs @ [ExpandSnapshots expandSnapInterval], None))))"

section \<open>The controller\<close>

datatype ctrl_job = Worker | CleanOrphanSnapshotContents | CleanUnusedRepositories

text \<open>The informers waited for and the jobs started once they have synchronised.\<close>

datatype informer = NLSC | NLS | Nodes | Pods | PVCs | PVs | Snapshots | SnapshotContents | SnapshotClasses

definition awaited :: "informer list" where
  "awaited = [NLSC, NLS, Nodes, Snapshots, SnapshotContents, SnapshotClasses]"

definition controller_Run :: "(informer \<Rightarrow> bool) \<Rightarrow> bool \<Rightarrow> nat \<Rightarrow> ctrl_job list result" where
  "controller_Run synced orphan_gate workers =
     (if \<not> list_all synced awaited then Inl ''failed to wait for caches to sync''
      else Inr (replicate workers Worker @ (if orphan_gate then [CleanOrphanSnapshotContents] else []) @
                [CleanUnusedRepositories]))"

section \<open>Facts\<close>

text \<open>A plugin starts with a cache the theorems on reachable caches are about, and with weights in range.\<close>

theorem plugin_starts_reachable:
  assumes "NewLocalPlugin kubeconfig_error client_error configuration = Inr plugin"
  shows "reachable K (lp_cache plugin)"
  using assms
  by (auto simp: NewLocalPlugin_def NewLocalPluginWithKubeconfig_def Let_def intro: reachable.start
      split: sum.splits option.splits)

theorem plugin_weights_in_range:
  assumes "NewLocalPlugin kubeconfig_error client_error configuration = Inr plugin"
    and "(t, n) \<in> set (lp_nodeAntiAffinityWeight plugin)"
  shows "t \<in> set ValidVolumeType \<and> MinScore \<le>s n \<and> n \<le>s MaxScore"
proof -
  obtain s where "ParseWeight s = Inr (lp_nodeAntiAffinityWeight plugin)"
    using assms(1)
    by (auto simp: NewLocalPlugin_def NewLocalPluginWithKubeconfig_def Let_def split: sum.splits option.splits)
  with assms(2) show ?thesis
    by (auto simp: ParseWeight_def NewNodeAntiAffinityWeight_def split: if_splits
        dest!: ParseWeight_loop_bounds)
qed

text \<open>An unknown strategy ends the extender; the plugin takes it for binpack.\<close>

theorem unknown_strategy:
  assumes "s \<notin> {''binpack'', ''spread''}"
  shows "getStrategyType s = StrategyBinpack"
    and "extender_Run client_error \<lparr>eo_Port = port, eo_EnabledNodeAntiAffinity = [], eo_Strategy = s\<rparr> old =
      Inl (Text ''Scheduler strategy parameter may be wrong. You can set one of those: binpack or spread'')"
  using assms by (simp_all add: getStrategyType_def extender_Run_def extender_ParseWeight_def ParseWeight_def ParseStrategy_def)

text \<open>For the strategies that exist, both schedulers run with the one that was named.\<close>

theorem strategies_agree:
  "extender_Run client_error opts old = Inr (strategy, w, http) \<Longrightarrow> strategy = getStrategyType (eo_Strategy opts)"
  by (auto simp: extender_Run_def ParseStrategy_def getStrategyType_def split: sum.splits option.splits if_splits)

text \<open>The controller starts although the informers of pods, claims and volumes have nothing yet.\<close>

theorem starts_without_pods:
  "controller_Run (\<lambda>i. i \<notin> {Pods, PVCs, PVs}) gate n \<noteq> Inl err"
  by (simp add: controller_Run_def awaited_def)

text \<open>An interval that is no number ends the agent after its other jobs were started.\<close>

theorem bad_interval:
  assumes "ParseInt64 s = Inl err" "s \<noteq> []"
  shows "snd (agent_Run True s config) = Some err \<and> Discover (cf_DiscoverInterval config) \<in> set (fst (agent_Run True s config))"
  using assms by (simp add: agent_Run_def Let_def)

end
