(* ===== verification/Spec2Isabelle.thy ===== *)
theory Spec2Isabelle
  imports Reserve_Facts Event_Facts Scoring Ext_Verdicts Ext_System Csi_Refine Agent_Facts Node_Facts Spdk_Facts
    Ctrl_Facts Ctrl_Snapshots Init_Facts Restic_Facts Lvm_Quota Om_Facts Ext_Reasons Device_Info Ext_Routes
    Csi_Connect Spdk_Codec Lvm_Attributes Startup
begin

text \<open>
  open-local manages the local disks of a Kubernetes cluster: volume groups of LVM, whole devices and mount points are
  handed to pods as persistent or inline volumes. The repository holds seven programs that share the objects of the
  Kubernetes API and a few libraries. This development models them component by component, as they are written, and
  proves what makes each of them correct.

  \<^bold>\<open>The parts and how they meet.\<close>
  The \<^emph>\<open>agent\<close> of a node (\<open>pkg/agent\<close>) makes the configured volume groups and writes what the node has into its
  \<open>NodeLocalStorage\<close>. The \<^emph>\<open>controller\<close> (\<open>pkg/controller\<close>) keeps one such object per node in line with the
  configuration, copies where volumes were allocated from pods to persistent volumes, and cleans up after snapshots.
  A pod is placed either by the \<^emph>\<open>scheduler plugin\<close> (\<open>pkg/scheduling-framework\<close>) or by the older \<^emph>\<open>scheduler extender\<close>
  (\<open>pkg/scheduler\<close>); both keep a cache of all nodes, fed by informers, and charge volumes to it. The \<^emph>\<open>CSI controller
  service\<close> (\<open>pkg/csi/controllerserver.go\<close>) creates volumes by asking the extender or reading the plugin's annotations
  and calling the \<^emph>\<open>daemon\<close> of the node over gRPC (\<open>pkg/csi/server\<close>, \<open>pkg/csi/client\<close>), which runs the tools of LVM or
  talks to SPDK. The \<^emph>\<open>CSI node service\<close> (\<open>pkg/csi/nodeserver.go\<close>) formats, mounts and removes volumes. Backups go
  through restic to S3 (\<open>pkg/restic\<close>); \<open>pkg/om\<close> repairs what the kubelet complains about.

  \<^bold>\<open>Common ground.\<close>
  \<^item> \<open>Prelude\<close>, \<open>Kube_Objects\<close>, \<open>Local_Utils\<close>, \<open>Anti_Affinity\<close>: 64-bit integers as words that wrap, Go maps as association
    lists whose ranges go through a parameter of type \<open>range_order\<close>, \<open>sort.Slice\<close>, the objects with the fields the
    programs read, and the functions that read them (\<open>pkg/utils/common.go\<close>, \<open>pkg/types.go\<close>, \<open>pkg/utils/config.go\<close>). A
    function that may panic returns \<open>None\<close> in that case; \<open>(T, error)\<close> is a pair or a sum.
  \<^item> \<open>Float64\<close>: \<open>float64\<close> as rationals with round-half-even, infinities and NaN, for the scores and the reservations.
  \<^item> \<open>State_Frame\<close>: state transformers and the locale \<open>frame\<close> of the relations all of their steps keep. \<open>Lvm_Commands\<close> holds
    the list of actions (commands, mounts, requests) that every operation on a machine appends to; what the machine
    answers is a parameter that may depend on everything done before.

  \<^bold>\<open>The scheduler plugin.\<close>
  \<^item> \<open>Storage_Pools\<close>, \<open>Allocated_Details\<close>, \<open>Cache_State\<close>: pools of a node, what is recorded by claim and by volume, the
    cache \<open>NodeStorageAllocatedCache\<close> (\<open>volume_group.go\<close>, \<open>device.go\<close>, \<open>base.go\<close>, \<open>cache.go\<close>). The two kinds of pool are
    interpretations of one locale, \<open>named_pool\<close>, with the merge of a newer report.
  \<^item> \<open>Lvm_Allocator\<close>, \<open>Device_Allocator\<close>, \<open>Inline_Allocator\<close>: one theory per allocator file. \<open>Allocator_Interface\<close> states
    the contract of Go's interface \<open>PVPVCAllocator\<close> as the locales \<open>schedule_allocator\<close> and \<open>event_allocator\<close>, interpreted on
    all three implementations. \<open>VG_Strategy\<close> is the choice of a volume group (locales \<open>go_less\<close> and \<open>vg_sort\<close>).
  \<^item> \<open>Alloc_Cache\<close>, \<open>Scheduler_Plugin\<close>, \<open>Scoring\<close>: the cycle \<open>PreFilter\<close>, \<open>Filter\<close>, \<open>Score\<close>, \<open>Reserve\<close>, \<open>Unreserve\<close>, \<open>PreBind\<close>, the
    handlers of the informers, the scores.
  \<^item> \<open>Ledger\<close> is the abstract specification: what every volume group is charged with is what the recorded details account
    for. \<open>Cache_Facts\<close>, \<open>Plan_Facts\<close>, \<open>Rollback\<close>, \<open>Admission\<close>, \<open>Cache_System\<close>, \<open>Accounting\<close>, \<open>Reserve_Facts\<close>, \<open>Event_Facts\<close>
    show that plans and reservations never over-commit, that \<open>Unreserve\<close> undoes \<open>Reserve\<close> on every branch, that what
    passes \<open>Filter\<close> can be reserved, that every reachable cache is well-formed, and that the ledger balances in every run
    that respects the assumptions of the code; the runs that break them are theorems too.

  \<^bold>\<open>The scheduler extender.\<close>
  \<open>Ext_Node\<close>, \<open>Ext_Cluster\<close> (caches), \<open>Ext_Algo\<close> (which resource a claim gets), \<open>Ext_Predicates\<close> (filter and prioritize
  handlers), \<open>Ext_Server\<close> (informers and the request for one claim), \<open>Ext_Reasons\<close> (texts of refusals, gauges), \<open>Ext_Routes\<close>
  (the routes of its HTTP server with what its client makes of the answers, and the pods it wakes: the first 300 of those
  that wait).
  \<open>Ext_Choice\<close>, \<open>Ext_Verdicts\<close>, \<open>Ext_Facts\<close> and \<open>Ext_System\<close> hold the facts: units that are chosen fit together, assumed units
  never over-commit, requests repeated get the same answer, the verdict of the filter, and the reachable caches.

  \<^bold>\<open>Volumes.\<close>
  \<^item> The daemon: \<open>Lvm_Parser\<close> and \<open>Lvm_Reports\<close> (reports of the tools are parsed back to what was printed), \<open>Lvm_Attributes\<close>
    (what is sent for the letters of an attribute), \<open>Lvm_Commands\<close>,
    \<open>Lvm_Quota\<close>, \<open>Lvm_Server\<close> (handlers, client and what gRPC does between them), \<open>Lvm_Facts\<close> (which commands an operation
    runs, in which order, and that clean-up happens).
  \<^item> The controller service: \<open>Csi_State\<close>, \<open>Csi_Controller\<close>, \<open>Csi_Snapshot\<close>; \<open>Csi_Facts\<close> (requests in flight, which machine is
    touched), \<open>Csi_Refine\<close> (creating and deleting refine one bit per volume, on machines whose tools do what they
    document), \<open>Csi_Examples\<close>.
  \<^item> The node service: \<open>Node_State\<close>, \<open>Node_Volumes\<close>, \<open>Node_Server\<close>, \<open>Cgroup_Paths\<close>; \<open>Node_Frame\<close> shows once, in the locale
    \<open>node_steps\<close>, what every request may add to the list of actions, \<open>Node_Facts\<close> what follows.
  \<^item> The start: \<open>Csi_Driver\<close> (options, endpoint, services, the file of the store) and \<open>Csi_Connect\<close> (connections, proxies, the
    choice between LVM and SPDK), with what each of them guarantees.
  \<^item> SPDK: \<open>Spdk_Client\<close>, \<open>Spdk_Commands\<close>, \<open>Spdk_Facts\<close>. The search for a minor number is a partial function with a proof
    that it ends. \<open>Spdk_Codec\<close> is the JSON-RPC connection as a step relation.
  \<^item> Backups: \<open>Restic\<close>, \<open>Restic_Facts\<close>.

  \<^bold>\<open>Nodes and the cluster.\<close>
  \<^item> The agent: \<open>Agent_Discovery\<close>, \<open>Lvm_Utils\<close> (\<open>pkg/utils/lvm\<close>), \<open>Device_Info\<close>, \<open>Agent_Facts\<close>; \<open>Agent_Init\<close> and \<open>Init_Facts\<close>
    for what is made and formatted at the start.
  \<^item> The controller: \<open>Ctrl_Sync\<close> and \<open>Ctrl_Facts\<close>, a step relation of events, worker rounds and refusals with the invariant
    that no event with a handler is forgotten (changes of labels and deletions have none and are tracked apart); \<open>Ctrl_Snapshots\<close> for the contents of deleted snapshots and the repositories in S3.
  \<^item> Maintenance: \<open>Om\<close>, \<open>Om_Facts\<close>, with \<open>Path_Utils\<close>.
  \<^item> \<open>Startup\<close>: what the programs make of their settings.

  \<^bold>\<open>Reading the properties.\<close>
  Locks are taken for the whole of an operation in the code, so an operation is one step here, and interleavings are
  sequences of steps (\<open>Cache_System\<close>, \<open>Ext_System\<close>, \<open>Ctrl_Facts\<close>). Where a property has hypotheses, a lemma \<open>..._witness\<close>
  applies it to a concrete cluster (\<open>Examples\<close> and the ends of the theories).

  \<^bold>\<open>Bounds.\<close>
  The guards of \<open>reserve\<close> add two signed 64-bit sizes, so over-commitment is excluded for volume groups of at most
  \<open>2 ^ 62\<close> bytes, 4 EiB, and claims below that (\<open>Reserve_Facts\<close>); larger ones could wrap. The scores count in \<open>float64\<close>: fewer
  than \<open>2 ^ 49\<close> devices and \<open>2 ^ 53\<close> volume groups keep every count exact (\<open>Scoring\<close>), and raw scores up to \<open>2 ^ 56\<close> do not
  overflow the normalisation. No definition uses fuel: loops are structural, have a measure, or are partial functions
  with a proof that they return.

  \<^bold>\<open>Parameters.\<close>
  What is not in the repository is an argument: the listers and the API server (records \<open>kube\<close>, \<open>api\<close>, \<open>ctrl_env\<close>,
  \<open>snapshot_env\<close>), the machine (\<open>host\<close>, \<open>lvm_host\<close>, \<open>spdk_host\<close>, \<open>node_host\<close>, \<open>init_host\<close>, \<open>om_host\<close>, \<open>sys_files\<close>), JSON decoders, regular
  expressions read from the configuration, \<open>strconv.ParseFloat\<close>, quantities of Kubernetes, SHA-256 and the order of map
  ranges.

  \<^bold>\<open>Not modelled.\<close>
  JSON texts, the wiring of flags, clients and informers at the start of the programs, the sockets and servers of HTTP and
  gRPC themselves, signals, feature gate registration, generated code (deep copies, clients, protocol buffers) and the
  test framework: input, output and glue.
  Texts that only go to the log are left out, as is the progress reported during a backup and two parsers of restic's
  log that nothing calls. The code that generates patches and mounts through library calls is a parameter.
\<close>

end
